(* ===== verification/Pam_Prelude.thy ===== *)
theory Pam_Prelude
  imports Main "HOL-Library.Word"
begin

text \<open>
  Prelude of the development: the machine types of the 32-bit ARM build, the status codes of the
  CCSP common library, and the functions of the C standard library the modelled sources call
  (\<open>strcpy_s\<close>, \<open>strncpy\<close>, \<open>strncmp\<close>, \<open>strstr\<close>, \<open>atoi\<close>/\<open>atol\<close>, \<open>"%d"\<close> and \<open>"%lu"\<close> of
  \<open>sprintf\<close>), with the lemmas on them that the components share.
  A C string is a HOL \<open>string\<close> holding the characters before its terminating NUL.
\<close>

section \<open>Machine types\<close>

type_synonym ULONG = "32 word"
type_synonym USHORT = "16 word"
type_synonym UCHAR = "8 word"

text \<open>The collections the component theories add to: unfolding rules of the small accessors, and
  preservation lemmas of the invariants.\<close>

named_theorems pam_simps
named_theorems pam_inv

section \<open>Status codes\<close>

text \<open>The values of \<open>ANSC_STATUS\<close> the modelled sources return, and the machine word each stands for
  where a source function returns one of them through an \<open>int\<close>.\<close>

datatype ansc_status = ANSC_SUCCESS | ANSC_FAILURE | ANSC_RESOURCES | ANSC_BAD_PARAMETER

definition ansc_ok :: "ansc_status \<Rightarrow> bool" where
  "ansc_ok s \<longleftrightarrow> s = ANSC_SUCCESS"

lemma ansc_ok_simps [simp]:
  "ansc_ok ANSC_SUCCESS" "\<not> ansc_ok ANSC_FAILURE" "\<not> ansc_ok ANSC_RESOURCES"
  "\<not> ansc_ok ANSC_BAD_PARAMETER"
  by (simp_all add: ansc_ok_def)

section \<open>C strings\<close>

text \<open>
  \<open>strcpy_s (dst, n, src)\<close> of C11 Annex K: copies when \<open>src\<close> with its NUL fits into \<open>n\<close> bytes,
  otherwise returns an error and makes \<open>dst\<close> the empty string. \<open>strncpy\<close> keeps the first \<open>n\<close>
  characters.
\<close>

definition strcpy_s :: "nat \<Rightarrow> string \<Rightarrow> bool \<times> string" where
  "strcpy_s n src = (if length src < n then (True, src) else (False, []))"

definition strncpy :: "nat \<Rightarrow> string \<Rightarrow> string" where
  "strncpy n src = take n src"

text \<open>\<open>snprintf (dst, n, ...)\<close> keeps the first \<open>n - 1\<close> characters of the formatted text.\<close>

definition snprintf :: "nat \<Rightarrow> string \<Rightarrow> string" where
  "snprintf n s = take (n - 1) s"

text \<open>\<open>sprintf_s (dst, n, ...)\<close> fails when the formatted text with its NUL does not fit into \<open>n\<close> bytes.\<close>

definition sprintf_s :: "nat \<Rightarrow> string \<Rightarrow> string option" where
  "sprintf_s n s = (if length s < n then Some s else None)"

lemma sprintf_s_fits [simp]: "length s < n \<Longrightarrow> sprintf_s n s = Some s"
  by (simp add: sprintf_s_def)

text \<open>\<open>strncmp (s, t, length t) == 0\<close> on a string \<open>s\<close>: the text \<open>t\<close> is a prefix of \<open>s\<close>.\<close>

definition strncmp_eq :: "string \<Rightarrow> string \<Rightarrow> bool" where
  "strncmp_eq s t \<longleftrightarrow> take (length t) s = t"

fun strstr :: "string \<Rightarrow> string \<Rightarrow> bool" where
  "strstr [] t = (t = [])"
| "strstr (c # s) t = (take (length t) (c # s) = t \<or> strstr s t)"

lemma strcpy_s_fits [simp]: "length s < n \<Longrightarrow> strcpy_s n s = (True, s)"
  by (simp add: strcpy_s_def)

lemma strcpy_s_long [simp]: "n \<le> length s \<Longrightarrow> strcpy_s n s = (False, [])"
  by (simp add: strcpy_s_def)

lemma length_strcpy_s: "0 < n \<Longrightarrow> length (snd (strcpy_s n s)) < n"
  by (simp add: strcpy_s_def)

lemma strncpy_fits [simp]: "length s \<le> n \<Longrightarrow> strncpy n s = s"
  by (simp add: strncpy_def)

lemma length_strncpy [simp]: "length (strncpy n s) = min (length s) n"
  by (simp add: strncpy_def min.commute)

lemma snprintf_fits [simp]: "length s < n \<Longrightarrow> snprintf n s = s"
  by (simp add: snprintf_def)

lemma length_snprintf: "0 < n \<Longrightarrow> length (snprintf n s) < n"
  by (simp add: snprintf_def)

lemma strstr_append: "strstr (s @ t @ u) t"
proof (induction s)
  case Nil
  have "take (length t) (t @ u) = t" by simp
  then show ?case by (cases "t @ u") auto
next
  case (Cons c s)
  then show ?case by simp
qed

section \<open>Lists\<close>

lemma sorted_insert_mid:
  fixes a :: "'a::linorder"
  assumes "sorted (xs @ ys)" "\<And>x. x \<in> set xs \<Longrightarrow> x \<le> a" "\<And>y. y \<in> set ys \<Longrightarrow> a \<le> y"
  shows "sorted (xs @ a # ys)"
  using assms by (auto simp: sorted_append)

section \<open>Decimal numbers\<close>

definition digit :: "nat \<Rightarrow> char" where
  "digit d = ''0123456789'' ! d"

definition isdigit :: "char \<Rightarrow> bool" where
  "isdigit c \<longleftrightarrow> c \<in> set ''0123456789''"

definition digit_val :: "char \<Rightarrow> nat" where
  "digit_val c = of_char c - 48"

definition isspace :: "char \<Rightarrow> bool" where
  "isspace c \<longleftrightarrow> c = CHR '' '' \<or> (9 \<le> (of_char c :: nat) \<and> (of_char c :: nat) \<le> 13)"

text \<open>\<open>tolower\<close>, and \<open>strcasecmp (s, t) == 0\<close>.\<close>

definition tolower :: "char \<Rightarrow> char" where
  "tolower c = (if 65 \<le> (of_char c :: nat) \<and> (of_char c :: nat) \<le> 90 then char_of ((of_char c :: nat) + 32) else c)"

definition strcaseeq :: "string \<Rightarrow> string \<Rightarrow> bool" where
  "strcaseeq s t \<longleftrightarrow> map tolower s = map tolower t"

text \<open>The text of a number under \<open>"%u"\<close>/\<open>"%lu"\<close>, and under \<open>"%d"\<close> with its sign.\<close>

fun dec :: "nat \<Rightarrow> string" where
  "dec n = (if n < 10 then [digit n] else dec (n div 10) @ [digit (n mod 10)])"

declare dec.simps [simp del]

definition dec_int :: "int \<Rightarrow> string" where
  "dec_int i = (if i < 0 then CHR ''-'' # dec (nat (- i)) else dec (nat i))"

text \<open>The digit loop of \<open>atoi\<close>/\<open>atol\<close>: it stops at the first character that is no digit.\<close>

fun atoi_digits :: "nat \<Rightarrow> string \<Rightarrow> nat" where
  "atoi_digits acc [] = acc"
| "atoi_digits acc (c # s) =
     (if isdigit c then atoi_digits (acc * 10 + digit_val c) s else acc)"

definition atoi :: "string \<Rightarrow> int" where
  "atoi s = (case dropWhile isspace s of
       [] \<Rightarrow> 0
     | c # t \<Rightarrow> (if c = CHR ''-'' then - int (atoi_digits 0 t)
               else if c = CHR ''+'' then int (atoi_digits 0 t)
               else int (atoi_digits 0 (c # t))))"

lemma less_10_cases: "(d::nat) < 10 \<Longrightarrow> d \<in> {0, 1, 2, 3, 4, 5, 6, 7, 8, 9}"
  by auto

lemma digit_props:
  assumes "d < 10"
  shows "digit_val (digit d) = d" "isdigit (digit d)" "\<not> isspace (digit d)"
    "digit d \<noteq> CHR ''-''" "digit d \<noteq> CHR ''+''" "digit d \<noteq> CHR ''.''"
  using less_10_cases [OF assms]
  by (auto simp: digit_def digit_val_def isdigit_def isspace_def)

lemma dec_nonempty [simp]: "dec n \<noteq> []"
  by (subst dec.simps) simp

lemma dec_all_digits: "c \<in> set (dec n) \<Longrightarrow> \<exists>d < 10. c = digit d"
proof (induction n rule: dec.induct)
  case (1 n)
  show ?case
  proof (cases "n < 10")
    case True
    with "1.prems" show ?thesis by (subst (asm) dec.simps) auto
  next
    case False
    with "1.prems" have "c \<in> set (dec (n div 10)) \<or> c = digit (n mod 10)"
      by (subst (asm) dec.simps) auto
    then show ?thesis
      using "1.IH" False by (auto intro: exI [of _ "n mod 10"])
  qed
qed

lemma dec_isdigit: "c \<in> set (dec n) \<Longrightarrow> isdigit c"
  using dec_all_digits digit_props(2) by blast

lemma dec_hd: "\<exists>d s. dec n = digit d # s \<and> d < 10"
proof -
  obtain c s where cs: "dec n = c # s" by (cases "dec n") auto
  then have "c \<in> set (dec n)" by simp
  then show ?thesis using dec_all_digits cs by blast
qed

lemma atoi_digits_append:
  "(\<And>c. c \<in> set s \<Longrightarrow> isdigit c) \<Longrightarrow> atoi_digits a (s @ t) = atoi_digits (atoi_digits a s) t"
  by (induction s arbitrary: a) auto

lemma atoi_digits_dec_tail:
  "(t = [] \<or> \<not> isdigit (hd t)) \<Longrightarrow> atoi_digits 0 (dec n @ t) = n"
proof (induction n arbitrary: t rule: dec.induct)
  case (1 n)
  have tail: "atoi_digits a t = a" for a
    using "1.prems" by (cases t) auto
  show ?case
  proof (cases "n < 10")
    case True
    then have "dec n = [digit n]" by (subst dec.simps) simp
    with True tail show ?thesis by (simp add: digit_props)
  next
    case False
    then have eq: "dec n = dec (n div 10) @ [digit (n mod 10)]" by (subst dec.simps) simp
    have "atoi_digits 0 (dec (n div 10)) = n div 10"
      using "1.IH" [of "[]"] False by simp
    then have "atoi_digits 0 (dec n @ t) = atoi_digits (n div 10) ([digit (n mod 10)] @ t)"
      unfolding eq by (simp add: atoi_digits_append dec_isdigit)
    with tail show ?thesis by (simp add: digit_props)
  qed
qed

text \<open>Reading back what \<open>sprintf\<close> printed.\<close>

lemma atoi_dec_tail: "(t = [] \<or> \<not> isdigit (hd t)) \<Longrightarrow> atoi (dec n @ t) = int n"
proof -
  assume t: "t = [] \<or> \<not> isdigit (hd t)"
  obtain d s where ds: "dec n = digit d # s" "d < 10" using dec_hd by blast
  have "atoi (dec n @ t) = int (atoi_digits 0 (dec n @ t))"
    using ds by (simp add: atoi_def digit_props)
  with t show ?thesis by (simp only: atoi_digits_dec_tail)
qed

lemma atoi_dec [simp]: "atoi (dec n) = int n"
  using atoi_dec_tail [of "[]" n] by simp

lemma atoi_dec_int [simp]: "atoi (dec_int i) = i"
proof (cases "i < 0")
  case True
  have "\<not> isspace (CHR ''-'')" by (simp add: isspace_def)
  moreover have "atoi_digits 0 (dec (nat (- i))) = nat (- i)"
    using atoi_digits_dec_tail [of "[]"] by simp
  ultimately show ?thesis using True by (simp add: dec_int_def atoi_def)
next
  case False
  then show ?thesis by (simp add: dec_int_def)
qed

lemma dec_inj: "dec m = dec n \<longleftrightarrow> m = n"
  using atoi_dec by (metis of_nat_eq_iff)

lemma dec_int_inj: "dec_int i = dec_int j \<longleftrightarrow> i = j"
  by (metis atoi_dec_int)

lemma dec_int_sint_inj: "dec_int (sint (v::ULONG)) = dec_int (sint w) \<longleftrightarrow> v = w"
  by (auto simp: dec_int_inj intro: signed_word_eqI)

lemma length_dec: "n < 10 ^ k \<Longrightarrow> 0 < k \<Longrightarrow> length (dec n) \<le> k"
proof (induction n arbitrary: k rule: dec.induct)
  case (1 n)
  show ?case
  proof (cases "n < 10")
    case True
    with "1.prems" show ?thesis by (subst dec.simps) simp
  next
    case False
    obtain j where k: "k = Suc j" using "1.prems" by (cases k) auto
    with False "1.prems" have "0 < j" by (cases j) auto
    moreover have "n div 10 < 10 ^ j" using "1.prems" k by (simp add: less_mult_imp_div_less mult.commute)
    ultimately have "length (dec (n div 10)) \<le> j" using "1.IH" False by simp
    with False k show ?thesis by (subst dec.simps) simp
  qed
qed

end
