(* ===== verification/Cosa_SList.thy ===== *)
theory Cosa_SList
  imports Pam_Prelude "HOL-Library.Multiset"
begin

text \<open>
  The context lists of the data-model tables: \<open>COSA_CONTEXT_LINK_OBJECT\<close> of
  \<open>cosa_apis.h\<close> and the two list functions of \<open>cosa_apis_util.c\<close> that every writable table of
  the middle layer uses, \<open>CosaSListPushEntryByInsNum\<close> and \<open>CosaSListGetEntryByInsNum\<close>. The list
  itself (\<open>SLIST_HEADER\<close>, \<open>AnscSListPushEntryByIndex\<close>, ...) is a HOL list. The locale \<open>ins_table\<close>
  is the contract of the two functions; \<open>number_gen\<close> extends it by the contract of the instance
  number generators that the table components provide.
\<close>

section \<open>Link objects\<close>

text \<open>\<open>lnk_addr\<close> is the address of the link object: what the code compares when it compares two
  \<open>pCxtLink\<close> pointers, and the handle it gives to the data-model framework.\<close>

record 'a cosa_link =
  lnk_addr :: nat
  lnk_InstanceNumber :: ULONG
  lnk_bNew :: bool
  lnk_bFound :: bool
  lnk_hContext :: 'a

type_synonym 'a slist = "'a cosa_link list"

section \<open>The list functions\<close>

text \<open>The scan of the \<open>for\<close> loop: the index of the first entry with a greater number.\<close>

fun push_index :: "ULONG \<Rightarrow> 'a slist \<Rightarrow> nat \<Rightarrow> nat option" where
  "push_index n [] i = None"
| "push_index n (e # l) i =
     (if n < lnk_InstanceNumber e then Some i else push_index n l (Suc i))"

definition AnscSListPushEntryByIndex :: "'a list \<Rightarrow> 'a \<Rightarrow> nat \<Rightarrow> 'a list" where
  "AnscSListPushEntryByIndex l e i = take i l @ e # drop i l"

definition CosaSListPushEntryByInsNum :: "'a slist \<Rightarrow> 'a cosa_link \<Rightarrow> 'a slist" where
  "CosaSListPushEntryByInsNum l e =
     (if length l = 0 then l @ [e]
      else (case push_index (lnk_InstanceNumber e) l 0 of
              Some i \<Rightarrow> AnscSListPushEntryByIndex l e i
            | None \<Rightarrow> l @ [e]))"

definition CosaSListGetEntryByInsNum :: "'a slist \<Rightarrow> ULONG \<Rightarrow> 'a cosa_link option" where
  "CosaSListGetEntryByInsNum l n =
     (if length l = 0 then None else find (\<lambda>e. lnk_InstanceNumber e = n) l)"

text \<open>Access to a link object through its address: what a handle given to a table function does,
  and \<open>AnscSListPopEntryByLink\<close>.\<close>

definition link_at :: "'a slist \<Rightarrow> nat \<Rightarrow> 'a cosa_link option" where
  "link_at l a = find (\<lambda>e. lnk_addr e = a) l"

definition put_link :: "'a slist \<Rightarrow> 'a cosa_link \<Rightarrow> 'a slist" where
  "put_link l e = map (\<lambda>x. if lnk_addr x = lnk_addr e then e else x) l"

definition AnscSListPopEntryByLink :: "'a slist \<Rightarrow> nat \<Rightarrow> 'a slist" where
  "AnscSListPopEntryByLink l a = filter (\<lambda>e. lnk_addr e \<noteq> a) l"

definition AnscSListGetEntryByIndex :: "'a slist \<Rightarrow> nat \<Rightarrow> 'a cosa_link option" where
  "AnscSListGetEntryByIndex l i = (if i < length l then Some (l ! i) else None)"

lemma push_index_shift:
  "push_index n l (Suc i) = map_option Suc (push_index n l i)"
  by (induction l arbitrary: i) auto

lemma push_index_Some:
  "push_index n l 0 = Some i \<Longrightarrow> i < length l \<and> (\<forall>e \<in> set (take i l). lnk_InstanceNumber e \<le> n)
     \<and> n < lnk_InstanceNumber (l ! i)"
proof (induction l arbitrary: i)
  case Nil
  then show ?case by simp
next
  case (Cons e l)
  show ?case
  proof (cases "n < lnk_InstanceNumber e")
    case True
    with Cons.prems show ?thesis by simp
  next
    case False
    with Cons.prems obtain j where "push_index n l 0 = Some j" "i = Suc j"
      by (auto simp: push_index_shift)
    with Cons.IH [of j] False show ?thesis by (auto simp: not_less)
  qed
qed

lemma push_index_None:
  "push_index n l i = None \<longleftrightarrow> (\<forall>e \<in> set l. lnk_InstanceNumber e \<le> n)"
  by (induction l arbitrary: i) (auto simp: not_less)

text \<open>Pushing is insertion: this equation is what the proofs below use.\<close>

lemma push_eq:
  "CosaSListPushEntryByInsNum l e =
     takeWhile (\<lambda>x. lnk_InstanceNumber x \<le> lnk_InstanceNumber e) l @ e
     # dropWhile (\<lambda>x. lnk_InstanceNumber x \<le> lnk_InstanceNumber e) l"
proof (cases "push_index (lnk_InstanceNumber e) l 0")
  case None
  then have all: "\<forall>x \<in> set l. lnk_InstanceNumber x \<le> lnk_InstanceNumber e"
    by (simp add: push_index_None)
  then have tw: "takeWhile (\<lambda>x. lnk_InstanceNumber x \<le> lnk_InstanceNumber e) l = l"
    by (simp add: takeWhile_eq_all_conv)
  from all have dw: "dropWhile (\<lambda>x. lnk_InstanceNumber x \<le> lnk_InstanceNumber e) l = []"
    by simp
  from None show ?thesis unfolding tw dw by (simp add: CosaSListPushEntryByInsNum_def)
next
  case (Some i)
  note p = push_index_Some [OF this]
  let ?P = "\<lambda>x. lnk_InstanceNumber x \<le> lnk_InstanceNumber e"
  have split: "l = take i l @ l ! i # drop (Suc i) l"
    using p by (simp add: id_take_nth_drop)
  have tl: "takeWhile ?P l = take i l"
    by (subst split, subst takeWhile_append2) (use p in auto)
  moreover have "dropWhile ?P l = drop i l"
    using tl by (metis append_take_drop_id same_append_eq takeWhile_dropWhile_id)
  ultimately show ?thesis
    using Some p by (auto simp: CosaSListPushEntryByInsNum_def AnscSListPushEntryByIndex_def)
qed

lemma mset_push: "mset (CosaSListPushEntryByInsNum l e) = add_mset e (mset l)"
proof -
  have "mset (takeWhile P l) + mset (dropWhile P l) = mset l" for P
    by (simp flip: mset_append)
  then show ?thesis by (simp add: push_eq)
qed

lemma set_push [simp]: "set (CosaSListPushEntryByInsNum l e) = insert e (set l)"
  using mset_push [of l e] by (metis set_mset_add_mset_insert set_mset_mset)

lemma length_push [simp]: "length (CosaSListPushEntryByInsNum l e) = Suc (length l)"
  using mset_push [of l e] by (metis size_add_mset size_mset)

lemma sorted_push:
  assumes "sorted (map lnk_InstanceNumber l)"
  shows "sorted (map lnk_InstanceNumber (CosaSListPushEntryByInsNum l e))"
proof -
  let ?P = "\<lambda>x. lnk_InstanceNumber x \<le> lnk_InstanceNumber e"
  have l: "takeWhile ?P l @ dropWhile ?P l = l" by simp
  with assms have s: "sorted (map lnk_InstanceNumber (takeWhile ?P l) @
      map lnk_InstanceNumber (dropWhile ?P l))" by (simp flip: map_append)
  have hi: "lnk_InstanceNumber e \<le> lnk_InstanceNumber x" if "x \<in> set (dropWhile ?P l)" for x
  proof -
    obtain y ys where d: "dropWhile ?P l = y # ys" using \<open>x \<in> set (dropWhile ?P l)\<close>
      by (cases "dropWhile ?P l") auto
    then have "\<not> ?P y" by (simp add: dropWhile_eq_Cons_conv)
    then have "lnk_InstanceNumber e \<le> lnk_InstanceNumber y" by simp
    moreover have "sorted (map lnk_InstanceNumber (y # ys))" "x \<in> set (y # ys)"
      using s that by (simp_all only: sorted_append d)
    then have "lnk_InstanceNumber y \<le> lnk_InstanceNumber x" by auto
    ultimately show ?thesis by (blast intro: order_trans)
  qed
  have lo: "?P x" if "x \<in> set (takeWhile ?P l)" for x
    using set_takeWhileD [OF that] by simp
  have "sorted (map lnk_InstanceNumber (takeWhile ?P l) @ lnk_InstanceNumber e #
      map lnk_InstanceNumber (dropWhile ?P l))"
    by (rule sorted_insert_mid [OF s]) (use hi lo in \<open>force simp only: set_map\<close>)+
  then show ?thesis by (simp only: push_eq map_append list.map)
qed

section \<open>Contract of the list functions\<close>

text \<open>A well-formed table under a key: the numbers ascend strictly and none is 0.\<close>

definition table_wf :: "('e \<Rightarrow> ULONG) \<Rightarrow> 'e list \<Rightarrow> bool" where
  "table_wf k l \<longleftrightarrow> sorted (map k l) \<and> distinct (map k l) \<and> 0 \<notin> k ` set l"

locale ins_table =
  fixes key :: "'e \<Rightarrow> ULONG"
    and push :: "'e list \<Rightarrow> 'e \<Rightarrow> 'e list"
    and get :: "'e list \<Rightarrow> ULONG \<Rightarrow> 'e option"
  assumes push_mset: "mset (push l e) = add_mset e (mset l)"
    and push_sorted: "sorted (map key l) \<Longrightarrow> sorted (map key (push l e))"
    and get_Some: "get l n = Some e \<Longrightarrow> e \<in> set l \<and> key e = n"
    and get_None: "get l n = None \<longleftrightarrow> n \<notin> key ` set l"
begin

lemma push_set: "set (push l e) = insert e (set l)"
  using push_mset [of l e] by (metis set_mset_add_mset_insert set_mset_mset)

lemma push_distinct:
  assumes "distinct (map key l)" and "key e \<notin> key ` set l"
  shows "distinct (map key (push l e))"
proof -
  have "mset (map key (push l e)) = mset (key e # map key l)"
    by (simp add: push_mset)
  moreover have "distinct (key e # map key l)" using assms by auto
  ultimately show ?thesis by (metis mset_eq_imp_distinct_iff)
qed

lemma push_wf: "table_wf key l \<Longrightarrow> get l (key e) = None \<Longrightarrow> key e \<noteq> 0 \<Longrightarrow> table_wf key (push l e)"
  by (auto simp: table_wf_def push_sorted push_distinct push_set get_None)

lemma get_unique:
  assumes "distinct (map key l)" "e \<in> set l"
  shows "get l (key e) = Some e"
proof -
  obtain x where x: "get l (key e) = Some x"
    using assms(2) get_None [of l "key e"] by (cases "get l (key e)") auto
  with get_Some have "x \<in> set l" "key x = key e" by auto
  with assms x show ?thesis by (auto simp: distinct_map dest: inj_onD)
qed

lemma get_push_same: "table_wf key l \<Longrightarrow> get l (key e) = None \<Longrightarrow> get (push l e) (key e) = Some e"
  by (rule get_unique) (auto simp: table_wf_def get_None push_distinct push_set)

lemma get_push_other:
  assumes "table_wf key l" "get l (key e) = None" "n \<noteq> key e"
  shows "get (push l e) n = get l n"
proof (cases "get l n")
  case None
  with assms(3) have "n \<notin> key ` set (push l e)" by (auto simp: get_None push_set)
  with None show ?thesis using get_None [of "push l e" n] by simp
next
  case (Some x)
  then have x: "x \<in> set l" "key x = n" using get_Some by auto
  have "distinct (map key (push l e))"
    using assms(1,2) by (intro push_distinct) (auto simp: table_wf_def get_None)
  then have "get (push l e) (key x) = Some x"
    by (rule get_unique) (simp add: push_set x)
  with x Some show ?thesis by simp
qed

lemma wf_filter: "table_wf key l \<Longrightarrow> table_wf key (filter P l)"
  by (auto simp: table_wf_def sorted_filter distinct_map_filter)

end

text \<open>The table interface, extended by an instance number generator.\<close>

locale number_gen = ins_table +
  fixes gen :: "'a list \<Rightarrow> ULONG \<Rightarrow> ULONG option"
  assumes gen_returns: "length l < 2 ^ 32 - 1 \<Longrightarrow> \<exists>n. gen l m = Some n"
    and gen_fresh: "gen l m = Some n \<Longrightarrow> n \<noteq> 0 \<and> get l n = None"
begin

text \<open>Adding a generated entry never disturbs the table, and succeeds until the table is full.\<close>

lemma gen_push_wf: "table_wf key l \<Longrightarrow> gen l m = Some n \<Longrightarrow> key e = n \<Longrightarrow> table_wf key (push l e)"
  by (rule push_wf) (auto dest: gen_fresh)

lemma gen_push_get: "table_wf key l \<Longrightarrow> gen l m = Some n \<Longrightarrow> key e = n \<Longrightarrow> get (push l e) n = Some e"
  by (auto dest: gen_fresh intro: get_push_same)

lemma gen_add_total:
  assumes "table_wf key l" "length l < 2 ^ 32 - 1"
  shows "\<exists>n. gen l m = Some n \<and> (\<forall>e. key e = n \<longrightarrow> table_wf key (push l e))"
  using gen_returns [OF assms(2), of m] assms(1) by (auto intro: gen_push_wf)

end

interpretation cosa: ins_table lnk_InstanceNumber CosaSListPushEntryByInsNum
  CosaSListGetEntryByInsNum
proof unfold_locales
  fix l :: "'a slist" and n e
  show "mset (CosaSListPushEntryByInsNum l e) = add_mset e (mset l)" by (rule mset_push)
  show "sorted (map lnk_InstanceNumber l) \<Longrightarrow>
      sorted (map lnk_InstanceNumber (CosaSListPushEntryByInsNum l e))" by (rule sorted_push)
  show "CosaSListGetEntryByInsNum l n = Some e \<Longrightarrow> e \<in> set l \<and> lnk_InstanceNumber e = n"
    by (auto simp: CosaSListGetEntryByInsNum_def find_Some_iff split: if_splits)
  show "(CosaSListGetEntryByInsNum l n = None) = (n \<notin> lnk_InstanceNumber ` set l)"
    by (auto simp: CosaSListGetEntryByInsNum_def find_None_iff)
qed

section \<open>Access by address\<close>

lemma link_at_Some: "link_at l a = Some e \<Longrightarrow> e \<in> set l \<and> lnk_addr e = a"
  by (auto simp: link_at_def find_Some_iff)

lemma link_at_None: "link_at l a = None \<longleftrightarrow> a \<notin> lnk_addr ` set l"
  by (auto simp: link_at_def find_None_iff)

lemma link_at_in:
  assumes "distinct (map lnk_addr l)" "e \<in> set l"
  shows "link_at l (lnk_addr e) = Some e"
proof -
  obtain x where x: "link_at l (lnk_addr e) = Some x"
    using assms(2) link_at_None [of l "lnk_addr e"] by (cases "link_at l (lnk_addr e)") auto
  with link_at_Some have "x \<in> set l" "lnk_addr x = lnk_addr e" by blast+
  with assms x show ?thesis by (auto simp: distinct_map dest: inj_onD)
qed

lemma map_put_link:
  assumes "\<And>x. x \<in> set l \<Longrightarrow> lnk_addr x = lnk_addr e \<Longrightarrow> f x = f e"
  shows "map f (put_link l e) = map f l"
  using assms by (auto simp: put_link_def)

lemma map_addr_put_link [simp]: "map lnk_addr (put_link l e) = map lnk_addr l"
  by (rule map_put_link) simp

lemma length_put_link [simp]: "length (put_link l e) = length l"
  by (simp add: put_link_def)

lemma set_put_link:
  "a \<in> lnk_addr ` set l \<Longrightarrow> lnk_addr e = a \<Longrightarrow>
     set (put_link l e) = insert e {x \<in> set l. lnk_addr x \<noteq> a}"
  by (auto simp: put_link_def)

lemma link_at_put_link: "link_at l (lnk_addr e) \<noteq> None \<Longrightarrow> link_at (put_link l e) (lnk_addr e) = Some e"
  by (induction l) (auto simp: link_at_def put_link_def)

lemma map_InstanceNumber_put_link:
  assumes "link_at l (lnk_addr e) = Some k" "distinct (map lnk_addr l)"
    "lnk_InstanceNumber e = lnk_InstanceNumber k"
  shows "map lnk_InstanceNumber (put_link l e) = map lnk_InstanceNumber l"
proof (rule map_put_link)
  fix x assume "x \<in> set l" "lnk_addr x = lnk_addr e"
  with assms(2) have "link_at l (lnk_addr e) = Some x" using link_at_in by metis
  with assms(1,3) show "lnk_InstanceNumber x = lnk_InstanceNumber e" by simp
qed

lemma set_pop [simp]:
  "set (AnscSListPopEntryByLink l a) = {e \<in> set l. lnk_addr e \<noteq> a}"
  by (auto simp: AnscSListPopEntryByLink_def)

lemma distinct_pop: "distinct (map lnk_addr l) \<Longrightarrow> distinct (map lnk_addr (AnscSListPopEntryByLink l a))"
  by (simp add: AnscSListPopEntryByLink_def distinct_map_filter)

lemma link_at_pop: "link_at (AnscSListPopEntryByLink l a) a = None"
  by (auto simp: link_at_None)

lemma length_pop:
  assumes "distinct (map lnk_addr l)" "link_at l a = Some e"
  shows "Suc (length (AnscSListPopEntryByLink l a)) = length l"
proof -
  have e: "e \<in> set l" "lnk_addr e = a" using link_at_Some assms(2) by blast+
  have "filter (\<lambda>x. lnk_addr x = a) l = [e]"
    using e assms(1)
  proof (induction l)
    case Nil
    then show ?case by simp
  next
    case (Cons x l)
    then show ?case by (force simp: filter_empty_conv image_iff)
  qed
  then have "length (filter (\<lambda>x. lnk_addr x = a) l) = 1" by simp
  then show ?thesis
    using sum_length_filter_compl [of "\<lambda>x. lnk_addr x = a" l]
    by (simp add: AnscSListPopEntryByLink_def)
qed

section \<open>Well-formed link lists\<close>

text \<open>The invariant every writable table keeps, with \<open>num\<close> the number stored in an entry and \<open>k\<close> the number
  of blocks allocated so far: numbers ascend strictly and none is 0, the links are different allocated
  blocks, and a link carries the number of its entry.\<close>

definition links_ok :: "('a \<Rightarrow> ULONG) \<Rightarrow> nat \<Rightarrow> 'a slist \<Rightarrow> bool" where
  "links_ok num k l \<longleftrightarrow> table_wf lnk_InstanceNumber l \<and> distinct (map lnk_addr l) \<and>
     (\<forall>x \<in> set l. lnk_addr x < k \<and> num (lnk_hContext x) = lnk_InstanceNumber x)"

lemma links_ok_Nil [simp]: "links_ok num k []"
  by (simp add: links_ok_def table_wf_def)

lemma links_ok_mono: "links_ok num k l \<Longrightarrow> k \<le> k' \<Longrightarrow> links_ok num k' l"
  by (auto simp: links_ok_def)

lemma links_ok_filter: "links_ok num k l \<Longrightarrow> links_ok num k (filter P l)"
  by (simp add: links_ok_def cosa.wf_filter distinct_map_filter)

lemma links_ok_put:
  assumes "links_ok num k l" "link_at l (lnk_addr x') = Some x"
    "lnk_InstanceNumber x' = lnk_InstanceNumber x" "num (lnk_hContext x') = num (lnk_hContext x)"
  shows "links_ok num k (put_link l x')"
proof -
  have x: "x \<in> set l" "lnk_addr x = lnk_addr x'" using link_at_Some [OF assms(2)] by auto
  have "map lnk_InstanceNumber (put_link l x') = map lnk_InstanceNumber l"
    by (rule map_InstanceNumber_put_link [OF assms(2)]) (use assms in \<open>simp_all add: links_ok_def\<close>)
  moreover from this have "lnk_InstanceNumber ` set (put_link l x') = lnk_InstanceNumber ` set l"
    by (metis image_set)
  moreover have "lnk_addr y < k \<and> num (lnk_hContext y) = lnk_InstanceNumber y" if "y \<in> set (put_link l x')" for y
  proof -
    from that have "y = x' \<or> y \<in> set l" by (auto simp: put_link_def split: if_split_asm)
    then show ?thesis using assms x by (auto simp: links_ok_def)
  qed
  ultimately show ?thesis using assms(1) by (simp add: links_ok_def table_wf_def)
qed

lemma links_ok_push:
  assumes "links_ok num k l" "CosaSListGetEntryByInsNum l (lnk_InstanceNumber x) = None"
    "lnk_InstanceNumber x \<noteq> 0" "num (lnk_hContext x) = lnk_InstanceNumber x"
    "lnk_addr x \<notin> lnk_addr ` set l" "lnk_addr x < k"
  shows "links_ok num k (CosaSListPushEntryByInsNum l x)"
proof -
  let ?p = "CosaSListPushEntryByInsNum l x"
  have "mset (map lnk_addr ?p) = mset (lnk_addr x # map lnk_addr l)" by (simp add: mset_push)
  moreover have "distinct (lnk_addr x # map lnk_addr l)" using assms by (simp add: links_ok_def)
  ultimately have "distinct (map lnk_addr ?p)" by (metis mset_eq_imp_distinct_iff)
  moreover have "table_wf lnk_InstanceNumber ?p" using assms by (intro cosa.push_wf) (simp_all add: links_ok_def)
  ultimately show ?thesis using assms by (simp add: links_ok_def)
qed

text \<open>A fresh block is not in the list, and a pushed or replaced link is the one found afterwards.\<close>

lemma links_ok_push_fresh:
  assumes "links_ok num k l" "CosaSListGetEntryByInsNum l (lnk_InstanceNumber x) = None"
    "lnk_InstanceNumber x \<noteq> 0" "num (lnk_hContext x) = lnk_InstanceNumber x" "k \<le> lnk_addr x" "lnk_addr x < k'"
  shows "links_ok num k' (CosaSListPushEntryByInsNum l x)"
  by (rule links_ok_push [OF links_ok_mono [OF assms(1)]]) (use assms in \<open>auto simp: links_ok_def\<close>)

lemma links_ok_get: "links_ok num k l \<Longrightarrow> x \<in> set l \<Longrightarrow> CosaSListGetEntryByInsNum l (lnk_InstanceNumber x) = Some x"
  by (rule cosa.get_unique) (auto simp: links_ok_def table_wf_def)

lemma links_ok_link_at: "links_ok num k l \<Longrightarrow> x \<in> set l \<Longrightarrow> link_at l (lnk_addr x) = Some x"
  by (rule link_at_in) (auto simp: links_ok_def)

lemma get_map_links:
  assumes "\<And>x. lnk_InstanceNumber (f x) = lnk_InstanceNumber x"
  shows "CosaSListGetEntryByInsNum (map f l) n = map_option f (CosaSListGetEntryByInsNum l n)"
  using assms by (induction l) (auto simp: CosaSListGetEntryByInsNum_def split: if_splits)

lemma links_ok_map:
  assumes "links_ok num k l" "\<And>x. lnk_InstanceNumber (f x) = lnk_InstanceNumber x" "\<And>x. lnk_addr (f x) = lnk_addr x"
    and "\<And>x. x \<in> set l \<Longrightarrow> num (lnk_hContext (f x)) = num (lnk_hContext x)"
  shows "links_ok num k (map f l)"
  using assms by (simp add: links_ok_def table_wf_def comp_def image_image)

text \<open>Removing a link removes the entry of its number and no other.\<close>

lemma get_pop:
  assumes l: "l \<in> set ls" and nums: "distinct (map lnk_InstanceNumber ls)" and addrs: "distinct (map lnk_addr ls)"
  shows "CosaSListGetEntryByInsNum (AnscSListPopEntryByLink ls (lnk_addr l)) n =
    (if n = lnk_InstanceNumber l then None else CosaSListGetEntryByInsNum ls n)"
proof (cases "CosaSListGetEntryByInsNum ls n")
  case None
  then have "n \<notin> lnk_InstanceNumber ` set ls" using cosa.get_None [of ls n] by simp
  then have "CosaSListGetEntryByInsNum (AnscSListPopEntryByLink ls (lnk_addr l)) n = None"
    using cosa.get_None [of "AnscSListPopEntryByLink ls (lnk_addr l)" n] by auto
  with None show ?thesis by simp
next
  case (Some x)
  then have x: "x \<in> set ls" "lnk_InstanceNumber x = n" using cosa.get_Some by auto
  have inj: "y = z" if "y \<in> set ls" "z \<in> set ls" "lnk_InstanceNumber y = lnk_InstanceNumber z \<or> lnk_addr y = lnk_addr z" for y z
    using that nums addrs by (auto simp: distinct_map dest: inj_onD)
  show ?thesis
  proof (cases "n = lnk_InstanceNumber l")
    case True
    have "n \<notin> lnk_InstanceNumber ` set (AnscSListPopEntryByLink ls (lnk_addr l))"
    proof
      assume "n \<in> lnk_InstanceNumber ` set (AnscSListPopEntryByLink ls (lnk_addr l))"
      then obtain y where y: "y \<in> set ls" "lnk_addr y \<noteq> lnk_addr l" "lnk_InstanceNumber y = n" by auto
      then have "y = l" using inj [OF y(1) l] True by simp
      with y(2) show False by simp
    qed
    then show ?thesis using True cosa.get_None [of "AnscSListPopEntryByLink ls (lnk_addr l)" n] by simp
  next
    case False
    then have "lnk_addr x \<noteq> lnk_addr l" using inj [OF x(1) l] x(2) by auto
    then have "x \<in> set (AnscSListPopEntryByLink ls (lnk_addr l))" using x by simp
    moreover have "distinct (map lnk_InstanceNumber (AnscSListPopEntryByLink ls (lnk_addr l)))"
      using nums by (simp add: AnscSListPopEntryByLink_def distinct_map_filter)
    ultimately show ?thesis using False Some x(2) cosa.get_unique by metis
  qed
qed

end
