(* ===== verification/Cosa_Ipv4.thy ===== *)
theory Cosa_Ipv4
  imports Pam_Prelude
begin

unbundle bit_operations_syntax

text \<open>
  The IPv4 helpers: the \<open>IPv4Addr_*\<close> predicates and \<open>NetmaskToNumber\<close> of
  \<open>cosa_apis_util.c\<close>, the address-list text functions \<open>CosaDmlSetIpaddr\<close> and
  \<open>CosaDmlGetIpaddrString\<close> of \<open>cosa_dhcpv4_internal.c\<close>, and the dotted-quad text they share. An
  address is a 32-bit word in network order as a little-endian machine stores it, so that octet
  \<open>Dot[i]\<close> of \<open>ANSC_IPV4_ADDRESS\<close> is bits \<open>8 i .. 8 i + 7\<close>.
\<close>

section \<open>Byte order, octets\<close>

definition dot :: "ULONG \<Rightarrow> nat \<Rightarrow> UCHAR" where
  "dot a i = ucast (drop_bit (8 * i) a)"

definition of_dots :: "UCHAR \<Rightarrow> UCHAR \<Rightarrow> UCHAR \<Rightarrow> UCHAR \<Rightarrow> ULONG" where
  "of_dots a b c d =
     ucast a OR push_bit 8 (ucast b) OR push_bit 16 (ucast c) OR push_bit 24 (ucast d)"

definition htonl :: "ULONG \<Rightarrow> ULONG" where
  "htonl a = of_dots (dot a 3) (dot a 2) (dot a 1) (dot a 0)"

abbreviation ntohl :: "ULONG \<Rightarrow> ULONG" where
  "ntohl \<equiv> htonl"

lemma bit_dot: "bit (dot a i) n \<longleftrightarrow> n < 8 \<and> bit a (8 * i + n)"
  by (auto simp: dot_def bit_simps)

lemma bit_of_dots:
  "bit (of_dots a b c d) n \<longleftrightarrow>
     (if n < 8 then bit a n else if n < 16 then bit b (n - 8)
      else if n < 24 then bit c (n - 16) else n < 32 \<and> bit d (n - 24))"
  by (auto simp: of_dots_def bit_simps dest: bit_imp_le_length)

lemma of_dots_dot: "of_dots (dot a 0) (dot a 1) (dot a 2) (dot a 3) = a"
  by (rule bit_word_eqI) (auto simp: bit_of_dots bit_dot)

lemma dot_of_dots [simp]:
  "dot (of_dots a b c d) 0 = a" "dot (of_dots a b c d) (Suc 0) = b"
  "dot (of_dots a b c d) 2 = c" "dot (of_dots a b c d) 3 = d"
  by (rule bit_word_eqI, auto simp: bit_dot bit_of_dots)+

lemma htonl_htonl [simp]: "htonl (htonl a) = a"
  using of_dots_dot [of a] by (simp add: htonl_def)

lemma dot_htonl:
  "dot (htonl a) 0 = dot a 3" "dot (htonl a) 3 = dot a 0"
  by (simp_all add: htonl_def)

section \<open>Address predicates\<close>

definition IPv4Addr_IsSameNetwork :: "ULONG \<Rightarrow> ULONG \<Rightarrow> ULONG \<Rightarrow> bool" where
  "IPv4Addr_IsSameNetwork addr1 addr2 msk \<longleftrightarrow> (addr1 AND msk) = (addr2 AND msk)"

definition IPv4Addr_IsLoopback :: "ULONG \<Rightarrow> bool" where
  "IPv4Addr_IsLoopback addr \<longleftrightarrow> (addr AND htonl 0xff000000) = htonl 0x7f000000"

definition IPv4Addr_IsMulticast :: "ULONG \<Rightarrow> bool" where
  "IPv4Addr_IsMulticast addr \<longleftrightarrow> (addr AND htonl 0xf0000000) = htonl 0xe0000000"

definition IPv4Addr_IsBroadcast :: "ULONG \<Rightarrow> ULONG \<Rightarrow> ULONG \<Rightarrow> bool" where
  "IPv4Addr_IsBroadcast addr net msk \<longleftrightarrow>
     (if addr = 0xffffffff then True
      else if IPv4Addr_IsSameNetwork addr net msk \<and>
              (addr AND NOT msk) = (0xffffffff AND NOT msk) then True
      else False)"

definition IPv4Addr_IsNetworkAddr :: "ULONG \<Rightarrow> ULONG \<Rightarrow> ULONG \<Rightarrow> bool" where
  "IPv4Addr_IsNetworkAddr addr net msk \<longleftrightarrow>
     IPv4Addr_IsSameNetwork addr net msk \<and> (addr AND NOT msk) = 0"

text \<open>The two loops of \<open>IPv4Addr_IsNetmaskValid\<close> over the probe bit \<open>msk\<close>: the first stops at the
  first zero of the host-order netmask, the second looks for a one below it.\<close>

lemma drop_bit_1_less: "m \<noteq> 0 \<Longrightarrow> unat (drop_bit (Suc 0) (m::ULONG)) < unat m"
proof -
  assume "m \<noteq> 0"
  then have "0 < unat m" by (simp add: unat_gt_0)
  then have "unat m div 2 < unat m" by simp
  then show ?thesis by (simp add: drop_bit_Suc unat_div)
qed

function first_zero :: "ULONG \<Rightarrow> ULONG \<Rightarrow> ULONG" where
  "first_zero h m = (if m = 0 then 0 else if h AND m = 0 then m else first_zero h (drop_bit 1 m))"
  by pat_completeness auto
termination
  by (relation "measure (\<lambda>(h, m). unat m)") (auto simp: drop_bit_1_less)

function no_one_below :: "ULONG \<Rightarrow> ULONG \<Rightarrow> bool" where
  "no_one_below h m =
     (if m = 0 then True else if h AND m \<noteq> 0 then False else no_one_below h (drop_bit 1 m))"
  by pat_completeness auto
termination
  by (relation "measure (\<lambda>(h, m). unat m)") (auto simp: drop_bit_1_less)

declare first_zero.simps [simp del] no_one_below.simps [simp del]

definition IPv4Addr_IsNetmaskValid :: "ULONG \<Rightarrow> bool" where
  "IPv4Addr_IsNetmaskValid netmask =
     (let hostorder = ntohl netmask in no_one_below hostorder (first_zero hostorder (push_bit 31 1)))"

text \<open>The probe bit walks down from bit \<open>k\<close>.\<close>

definition probe :: "nat \<Rightarrow> ULONG" where
  "probe k = push_bit k 1"

lemma probe_31: "push_bit 31 1 = probe 31"
  by (simp add: probe_def)

lemma bit_probe: "bit (probe k) j \<longleftrightarrow> j = k \<and> k < 32"
  by (auto simp: probe_def bit_simps)

lemma probe_and: "k < 32 \<Longrightarrow> (h AND probe k = 0) \<longleftrightarrow> \<not> bit h k"
  by (subst bit_eq_iff) (auto simp: bit_and_iff bit_probe)

lemma probe_nonzero: "k < 32 \<Longrightarrow> probe k \<noteq> 0"
  using bit_probe [of k k] by auto

lemma probe_next: "Suc k < 32 \<Longrightarrow> drop_bit 1 (probe (Suc k)) = probe k"
  by (rule bit_word_eqI) (auto simp: bit_drop_bit_eq bit_probe)

lemma probe_last: "drop_bit 1 (probe 0) = 0"
  by (rule bit_word_eqI) (auto simp: bit_drop_bit_eq bit_probe)

lemma loops_at_zero: "first_zero h 0 = 0" "no_one_below h 0"
  by (simp_all add: first_zero.simps no_one_below.simps)

lemma first_zero_probe:
  "k < 32 \<Longrightarrow> first_zero h (probe k) =
     (if bit h k then (case k of 0 \<Rightarrow> 0 | Suc j \<Rightarrow> first_zero h (probe j)) else probe k)"
  by (subst first_zero.simps)
     (auto simp: probe_and probe_nonzero probe_last [simplified] probe_next [simplified] loops_at_zero split: nat.split)

lemma no_one_below_probe: "k < 32 \<Longrightarrow> no_one_below h (probe k) \<longleftrightarrow> (\<forall>j\<le>k. \<not> bit h j)"
proof (induction k)
  case 0
  then show ?case
    by (subst no_one_below.simps)
       (simp add: probe_and probe_nonzero probe_last [simplified] loops_at_zero)
next
  case (Suc k)
  then show ?case
    by (subst no_one_below.simps)
       (auto simp: probe_and probe_nonzero probe_next [simplified] le_Suc_eq)
qed

lemma netmask_loops:
  "k < 32 \<Longrightarrow> no_one_below h (first_zero h (probe k)) \<longleftrightarrow> (\<exists>n\<le>Suc k. \<forall>j\<le>k. bit h j \<longleftrightarrow> n \<le> j)"
proof (induction k)
  case 0
  then show ?case
    by (auto simp: first_zero_probe no_one_below_probe loops_at_zero le_Suc_eq)
next
  case (Suc k)
  show ?case
  proof (cases "bit h (Suc k)")
    case True
    have "(\<exists>n\<le>Suc k. \<forall>j\<le>k. bit h j = (n \<le> j)) \<longleftrightarrow>
        (\<exists>n\<le>Suc (Suc k). \<forall>j\<le>Suc k. bit h j = (n \<le> j))" (is "?A \<longleftrightarrow> ?B")
    proof
      assume ?A with True show ?B by (metis le_Suc_eq)
    next
      assume ?B with True show ?A by (metis le_Suc_eq order_refl)
    qed
    with Suc True show ?thesis by (simp add: first_zero_probe)
  next
    case False
    have "(\<forall>j\<le>Suc k. \<not> bit h j) \<longleftrightarrow> (\<exists>n\<le>Suc (Suc k). \<forall>j\<le>Suc k. bit h j = (n \<le> j))"
      using False by (metis le_Suc_eq not_less_eq_eq order_refl)
    with Suc.prems False show ?thesis by (simp add: first_zero_probe no_one_below_probe)
  qed
qed

text \<open>C33: \<open>IPv4Addr_IsNetmaskValid\<close> accepts exactly the 33 contiguous netmasks: the words that are,
  in host order, \<open>32 - n\<close> ones followed by \<open>n\<close> zeros.\<close>

theorem netmask_valid_iff_contiguous:
  "IPv4Addr_IsNetmaskValid netmask \<longleftrightarrow> (\<exists>n\<le>32. ntohl netmask = NOT (mask n))"
proof -
  have "(\<forall>j\<le>31. bit h j = (n \<le> j)) \<longleftrightarrow> h = NOT (mask n)" for h :: ULONG and n
  proof
    assume "\<forall>j\<le>31. bit h j = (n \<le> j)"
    then show "h = NOT (mask n)"
      by (intro bit_word_eqI) (auto simp: bit_not_iff bit_mask_iff)
  next
    assume "h = NOT (mask n)"
    then show "\<forall>j\<le>31. bit h j = (n \<le> j)"
      by (auto simp: bit_not_iff bit_mask_iff)
  qed
  then show ?thesis
    by (simp add: IPv4Addr_IsNetmaskValid_def Let_def probe_31 netmask_loops del: push_bit_of_1)
qed

section \<open>Dotted text\<close>

text \<open>\<open>"%d.%d.%d.%d"\<close> of the four octets.\<close>

definition dotted :: "ULONG \<Rightarrow> string" where
  "dotted a = dec (unat (dot a 0)) @ ''.'' @ dec (unat (dot a 1)) @ ''.'' @
     dec (unat (dot a 2)) @ ''.'' @ dec (unat (dot a 3))"

text \<open>\<open>strtok_r\<close> with delimiter \<open>d\<close>: the maximal non-empty pieces without \<open>d\<close>.\<close>

fun pieces :: "char \<Rightarrow> string \<Rightarrow> string \<Rightarrow> string list" where
  "pieces d cur [] = [cur]"
| "pieces d cur (c # s) = (if c = d then cur # pieces d [] s else pieces d (cur @ [c]) s)"

definition strtok :: "char \<Rightarrow> string \<Rightarrow> string list" where
  "strtok d s = filter (\<lambda>t. t \<noteq> []) (pieces d [] s)"

text \<open>The inner loop of \<open>NetmaskToNumber\<close>: eight times the lowest bit is counted and shifted out.\<close>

fun count_bits :: "nat \<Rightarrow> ULONG \<Rightarrow> ULONG \<Rightarrow> ULONG" where
  "count_bits 0 val count = count"
| "count_bits (Suc i) val count =
     count_bits i (drop_bit 1 val) (if val AND 1 \<noteq> 0 then count + 1 else count)"

definition NetmaskToNumber :: "string \<Rightarrow> ULONG" where
  "NetmaskToNumber netmask =
     fold (\<lambda>pch count. count_bits 8 (word_of_int (atoi pch)) count) (strtok (CHR ''.'') netmask) 0"

lemma pieces_append: "d \<notin> set s \<Longrightarrow> pieces d cur (s @ d # t) = (cur @ s) # pieces d [] t"
  by (induction s arbitrary: cur) auto

lemma pieces_last: "d \<notin> set s \<Longrightarrow> pieces d cur s = [cur @ s]"
  by (induction s arbitrary: cur) auto

lemma dec_no_dot [simp]: "CHR ''.'' \<notin> set (dec n)" "CHR '','' \<notin> set (dec n)"
  using dec_isdigit [of _ n] by (auto simp: isdigit_def)

lemma strtok_dotted:
  "strtok (CHR ''.'') (dotted a) = map (\<lambda>i. dec (unat (dot a i))) [0, 1, 2, 3]"
  by (simp add: strtok_def dotted_def pieces_append pieces_last)

lemma count_bits_eq: "count_bits n v c = c + of_nat (card {j. j < n \<and> bit v j})"
proof (induction n arbitrary: v c)
  case 0
  then show ?case by simp
next
  case (Suc n)
  have "{j. j < Suc n \<and> bit v j} =
      (if bit v 0 then {0} else {}) \<union> Suc ` {j. j < n \<and> bit (drop_bit 1 v) j}"
    by (auto simp: bit_drop_bit_eq image_iff less_Suc_eq_0_disj split: if_splits)
  then have "card {j. j < Suc n \<and> bit v j} =
      (if bit v 0 then 1 else 0) + card {j. j < n \<and> bit (drop_bit 1 v) j}"
    by (auto simp: card_image inj_on_def intro: card_insert_disjoint [THEN trans])
  moreover have "(v AND 1 \<noteq> 0) \<longleftrightarrow> bit v 0" by (simp add: and_one_eq bit_0 odd_iff_mod_2_eq_one)
  ultimately show ?case by (simp add: Suc.IH)
qed

lemma card_octets:
  "card {j. j < 32 \<and> bit a j} = (\<Sum>i\<leftarrow>[0, 1, 2, 3]. card {j. j < 8 \<and> bit (dot a i) j})"
proof -
  have "card {j. j < 8 \<and> bit (dot a i) j} = card {j. 8 * i \<le> j \<and> j < 8 * i + 8 \<and> bit a j}" for i
  proof -
    have "{j. 8 * i \<le> j \<and> j < 8 * i + 8 \<and> bit a j} = (\<lambda>j. 8 * i + j) ` {j. j < 8 \<and> bit (dot a i) j}"
      by (auto simp: bit_dot image_iff) (metis add_diff_inverse_nat add_less_cancel_left not_less)
    then show ?thesis by (simp add: card_image inj_on_def)
  qed
  moreover have "card {j. m \<le> j \<and> j < m + k \<and> P j} + card {j. m + k \<le> j \<and> j < m + k + l \<and> P j}
      = card {j. m \<le> j \<and> j < m + (k + l) \<and> P j}" for m k l and P :: "nat \<Rightarrow> bool"
  proof -
    have "{j. m \<le> j \<and> j < m + (k + l) \<and> P j} =
        {j. m \<le> j \<and> j < m + k \<and> P j} \<union> {j. m + k \<le> j \<and> j < m + k + l \<and> P j}" by auto
    then show ?thesis by (simp add: card_Un_disjoint disjoint_iff)
  qed
  from this [of 0 8 "bit a" 8] this [of 0 16 "bit a" 8] this [of 0 24 "bit a" 8]
  show ?thesis by (simp add: calculation)
qed

lemma NetmaskToNumber_dotted:
  "NetmaskToNumber (dotted a) = of_nat (card {j. j < 32 \<and> bit a j})"
proof -
  have bits: "count_bits 8 (ucast (dot a i)) c =
      c + of_nat (card {j. j < 8 \<and> bit (dot a i) j})" for i c
  proof -
    have "{j. j < 8 \<and> bit (ucast (dot a i) :: ULONG) j} = {j. j < 8 \<and> bit (dot a i) j}"
      by (auto simp: bit_simps)
    then show ?thesis by (simp add: count_bits_eq)
  qed
  show ?thesis
    by (simp add: NetmaskToNumber_def strtok_dotted bits card_octets)
qed

lemma dot_htonl_mid:
  "dot (htonl a) (Suc 0) = dot a 2" "dot (htonl a) 2 = dot a (Suc 0)"
  by (simp_all add: htonl_def)

lemma card_bits_htonl: "card {j. j < 32 \<and> bit (htonl a) j} = card {j. j < 32 \<and> bit a j}"
  by (simp add: card_octets dot_htonl dot_htonl_mid)

lemma card_bits_contiguous:
  "n \<le> 32 \<Longrightarrow> card {j. j < 32 \<and> bit (NOT (mask n) :: ULONG) j} = 32 - n"
proof -
  assume "n \<le> 32"
  have "{j. j < 32 \<and> bit (NOT (mask n) :: ULONG) j} = {n..<32}"
    by (auto simp: bit_not_iff bit_mask_iff)
  then show ?thesis by simp
qed

text \<open>On the dotted text of a netmask that is, in host order, 32 - n ones followed by n zeros,
  \<open>NetmaskToNumber\<close> returns the prefix length 32 - n.\<close>

theorem NetmaskToNumber_prefix_length:
  assumes "n \<le> 32" "ntohl netmask = NOT (mask n)"
  shows "NetmaskToNumber (dotted netmask) = of_nat (32 - n)"
  using assms card_bits_htonl [of netmask] card_bits_contiguous [of n]
  by (simp add: NetmaskToNumber_dotted)

lemma NetmaskToNumber_prefix_length_witness:
  "NetmaskToNumber (dotted 0x00ffffff) = of_nat (32 - 8)"
proof (rule NetmaskToNumber_prefix_length)
  show "(8::nat) \<le> 32" by simp
  show "ntohl 0x00ffffff = NOT (mask 8)"
    by (simp add: htonl_def of_dots_def dot_def mask_eq_exp_minus_1)
qed

section \<open>Address lists\<close>

definition INADDR_NONE :: ULONG where
  "INADDR_NONE = 0xffffffff"

text \<open>
  \<open>CosaDmlSetIpaddr\<close>. The loop state: \<open>cur\<close> is the text from \<open>j\<close> to \<open>i\<close>, \<open>ips\<close> the entries of
  \<open>pIPAddr2\<close> written so far (\<open>n\<close> is its length). The result is \<open>None\<close> when an address before a
  comma does not parse; otherwise the entries with the text after the last comma, or no text when the
  loop left by \<open>break\<close>: there \<open>j\<close> is \<open>i + 1\<close>, so that the unsigned \<open>i - j\<close> of the last branch is
  \<open>ULONG_MAX\<close>. The \<open>ULONG\<close> counters never exceed the length of the text.
\<close>

fun ipaddr_loop :: "(string \<Rightarrow> ULONG) \<Rightarrow> nat \<Rightarrow> string \<Rightarrow> string \<Rightarrow> ULONG list \<Rightarrow>
    (ULONG list \<times> string option) option" where
  "ipaddr_loop inet_addr MaxNumber cur [] ips = Some (ips, Some cur)"
| "ipaddr_loop inet_addr MaxNumber cur (c # s) ips =
     (if c = CHR '','' then
        (if inet_addr cur = INADDR_NONE then None
         else (let ips' = ips @ [inet_addr cur] in
           (if MaxNumber \<le> length ips' then Some (ips', None)
            else ipaddr_loop inet_addr MaxNumber [] s ips')))
      else ipaddr_loop inet_addr MaxNumber (cur @ [c]) s ips)"

text \<open>The result: \<open>None\<close> for \<open>FALSE\<close> (the caller's array is left alone), otherwise the \<open>MaxNumber\<close>
  entries written to it.\<close>

definition CosaDmlSetIpaddr :: "(string \<Rightarrow> ULONG) \<Rightarrow> string \<Rightarrow> nat \<Rightarrow> ULONG list option" where
  "CosaDmlSetIpaddr inet_addr pString MaxNumber =
     (if MaxNumber = 0 then None
      else (case ipaddr_loop inet_addr MaxNumber [] pString [] of
          None \<Rightarrow> None
        | Some (ips, None) \<Rightarrow> None
        | Some (ips, Some cur) \<Rightarrow>
            (let pad = (\<lambda>l. take MaxNumber (l @ replicate MaxNumber 0)) in
             (if length ips < MaxNumber \<and> 7 \<le> length cur then
                (if inet_addr cur = INADDR_NONE then None else Some (pad (ips @ [inet_addr cur])))
              else if 1 < length cur then None
              else Some (pad ips)))))"

text \<open>\<open>CosaDmlGetIpaddrString\<close>: the text and \<open>TRUE\<close>, or \<open>FALSE\<close> with the buffer size it needs.\<close>

definition CosaDmlGetIpaddrString :: "nat \<Rightarrow> ULONG list \<Rightarrow> nat \<Rightarrow> nat + string" where
  "CosaDmlGetIpaddrString ulStrLength pIPAddr MaxNumber =
     (if ulStrLength < MaxNumber * 16 + 1 then Inl (MaxNumber * 16 + 1)
      else Inr (let p = concat (map (\<lambda>a. dotted a @ '','')
                       (takeWhile (\<lambda>a. a \<noteq> 0) (take MaxNumber pIPAddr)))
                in if p \<noteq> [] then butlast p else p))"

text \<open>What the code relies on of \<open>_ansc_inet_addr\<close>: it reads the dotted text of an address.\<close>

definition inet_addr_ok :: "(string \<Rightarrow> ULONG) \<Rightarrow> bool" where
  "inet_addr_ok inet_addr \<longleftrightarrow> (\<forall>a. inet_addr (dotted a) = a)"

lemma dotted_no_comma: "CHR '','' \<notin> set (dotted a)"
  by (simp add: dotted_def)

lemma length_dotted: "7 \<le> length (dotted a)"
proof -
  have "1 \<le> length (dec n)" for n by (cases "dec n") auto
  from this [of "unat (dot a 0)"] this [of "unat (dot a 1)"] this [of "unat (dot a 2)"]
    this [of "unat (dot a 3)"]
  show ?thesis by (simp add: dotted_def)
qed

lemma length_dotted_le: "length (dotted a) \<le> 15"
proof -
  have "length (dec (unat (dot a i))) \<le> 3" for i
    using unsigned_less [of "dot a i", where 'a = nat] by (intro length_dec) simp_all
  from this [of 0] this [of 1] this [of 2] this [of 3] show ?thesis by (simp add: dotted_def)
qed

lemma ipaddr_loop_item:
  "CHR '','' \<notin> set t \<Longrightarrow> ipaddr_loop f M cur (t @ s) ips = ipaddr_loop f M (cur @ t) s ips"
  by (induction t arbitrary: cur) auto

definition ipaddr_text :: "ULONG list \<Rightarrow> string" where
  "ipaddr_text l = butlast (concat (map (\<lambda>a. dotted a @ '','') l))"

lemma concat_dotted_Nil [simp]: "concat (map (\<lambda>a. dotted a @ '','') l) = [] \<longleftrightarrow> l = []"
  by (cases l) auto

lemma ipaddr_text_simps:
  "ipaddr_text [a] = dotted a"
  "ipaddr_text (a # b # l) = dotted a @ CHR '','' # ipaddr_text (b # l)"
  by (simp_all add: ipaddr_text_def butlast_append)

lemma length_ipaddr_text: "l \<noteq> [] \<Longrightarrow> length (ipaddr_text l) < 16 * length l"
proof (induction l rule: list_nonempty_induct)
  case (single a)
  then show ?case using length_dotted_le [of a] by (simp add: ipaddr_text_simps)
next
  case (cons a l)
  then show ?case using length_dotted_le [of a] by (cases l) (simp_all add: ipaddr_text_simps)
qed

lemma ipaddr_loop_text:
  assumes "inet_addr_ok f" "l \<noteq> []" "\<forall>a \<in> set l. a \<noteq> INADDR_NONE" "length acc + length l \<le> M"
  shows "ipaddr_loop f M [] (ipaddr_text l) acc = Some (acc @ butlast l, Some (dotted (last l)))"
  using assms(2-4)
proof (induction l arbitrary: acc rule: list_nonempty_induct)
  case (single a)
  show ?case
    using ipaddr_loop_item [OF dotted_no_comma, of f M "[]" a "[]"] by (simp add: ipaddr_text_simps)
next
  case (cons a l)
  then have "f (dotted a) \<noteq> INADDR_NONE" "f (dotted a) = a"
    using assms(1) by (auto simp: inet_addr_ok_def)
  with cons show ?case
    by (cases l) (simp_all add: ipaddr_text_simps ipaddr_loop_item dotted_no_comma)
qed

text \<open>An address array of at most four entries (live addresses, then zeros) survives being printed
  by \<open>CosaDmlGetIpaddrString\<close> and read back by \<open>CosaDmlSetIpaddr\<close>, and the text fits the buffer.\<close>

theorem ipaddr_list_roundtrip:
  assumes "inet_addr_ok f" "0 < M" "M \<le> 4" "M * 16 + 1 \<le> len"
    and "length live \<le> M" "\<forall>a \<in> set live. a \<noteq> 0 \<and> a \<noteq> INADDR_NONE"
    and "ips = live @ replicate (M - length live) 0"
  shows "\<exists>s. CosaDmlGetIpaddrString len ips M = Inr s \<and> length s < len \<and>
    CosaDmlSetIpaddr f s M = Some ips"
proof -
  have tk: "takeWhile (\<lambda>a. a \<noteq> 0) (take M ips) = live"
    using assms(5-7) by (subst assms(7)) (simp add: takeWhile_append)
  then have get: "CosaDmlGetIpaddrString len ips M = Inr (ipaddr_text live)"
    using assms(4) by (simp add: CosaDmlGetIpaddrString_def Let_def ipaddr_text_def)
  show ?thesis
  proof (cases "live = []")
    case True
    with assms get show ?thesis by (simp add: CosaDmlSetIpaddr_def ipaddr_text_def)
  next
    case False
    then have "length (butlast live) < M" "0 < length live" using assms(2,5) by (cases live; simp)+
    then have "CosaDmlSetIpaddr f (ipaddr_text live) M =
        Some (take M (live @ replicate M 0))"
      using assms False ipaddr_loop_text [of f live "[]" M] length_dotted [of "last live"]
      by (simp add: CosaDmlSetIpaddr_def inet_addr_ok_def)
    moreover have "take M (live @ replicate M 0) = ips" using assms by (simp add: min_def)
    moreover have "length (ipaddr_text live) < len"
      using length_ipaddr_text [OF False] assms(4,5) by linarith
    ultimately show ?thesis using get by simp
  qed
qed

section \<open>The dotted text read by CosaDmlNatGetLanIP\<close>

text \<open>The loop over \<open>g_NatLanIP.Dot\<close>: each octet is the number at \<open>pStart\<close>, which moves behind the
  next dot when there is one and stays otherwise.\<close>

primrec quad_loop :: "nat \<Rightarrow> string \<Rightarrow> UCHAR list" where
  "quad_loop 0 = (\<lambda>pStart. [])"
| "quad_loop (Suc n) = (\<lambda>pStart.
     case dropWhile (\<lambda>c. c \<noteq> CHR ''.'') pStart of
        [] \<Rightarrow> word_of_int (atoi pStart) # quad_loop n pStart
      | pCh # rest \<Rightarrow>
          word_of_int (atoi (takeWhile (\<lambda>c. c \<noteq> CHR ''.'') pStart)) # quad_loop n rest)"

definition read_quad :: "string \<Rightarrow> ULONG" where
  "read_quad s = (case quad_loop 4 s of [a, b, c, d] \<Rightarrow> of_dots a b c d | _ \<Rightarrow> 0)"

lemma dropWhile_dec_dot [simp]:
  "dropWhile (\<lambda>c. c \<noteq> CHR ''.'') (dec n @ CHR ''.'' # s) = CHR ''.'' # s"
  "dropWhile (\<lambda>c. c \<noteq> CHR ''.'') (dec n) = []"
  "takeWhile (\<lambda>c. c \<noteq> CHR ''.'') (dec n @ CHR ''.'' # s) = dec n"
proof -
  have all: "\<And>c. c \<in> set (dec n) \<Longrightarrow> c \<noteq> CHR ''.''" using dec_no_dot(1) by auto
  show "dropWhile (\<lambda>c. c \<noteq> CHR ''.'') (dec n @ CHR ''.'' # s) = CHR ''.'' # s"
    using all by (subst dropWhile_append2) auto
  show "dropWhile (\<lambda>c. c \<noteq> CHR ''.'') (dec n) = []" using all by auto
  show "takeWhile (\<lambda>c. c \<noteq> CHR ''.'') (dec n @ CHR ''.'' # s) = dec n"
    using all by (subst takeWhile_append2) auto
qed

lemma quad_loop_dotted: "quad_loop 4 (dotted a) = map (dot a) [0, 1, 2, 3]"
proof -
  have four: "4 = Suc (Suc (Suc (Suc 0)))" by simp
  show ?thesis by (simp only: four) (simp add: dotted_def)
qed

lemma read_quad_dotted: "read_quad (dotted a) = a"
  using of_dots_dot [of a] by (simp add: read_quad_def quad_loop_dotted)

lemma inet_addr_ok_read_quad: "inet_addr_ok read_quad"
  by (simp add: inet_addr_ok_def read_quad_dotted)

lemma ipaddr_list_roundtrip_witness:
  "\<exists>s. CosaDmlGetIpaddrString 65 [0x0100a8c0, 0x08080808, 0, 0] 4 = Inr s \<and> length s < 65 \<and>
    CosaDmlSetIpaddr read_quad s 4 = Some [0x0100a8c0, 0x08080808, 0, 0]"
proof (rule ipaddr_list_roundtrip [where live = "[0x0100a8c0, 0x08080808]"])
  show "\<forall>a \<in> set [0x0100a8c0, 0x08080808]. a \<noteq> 0 \<and> a \<noteq> INADDR_NONE"
    by (simp add: INADDR_NONE_def)
  have two: "4 - length [0x0100a8c0, 0x08080808 :: ULONG] = Suc (Suc 0)" by simp
  show "[0x0100a8c0, 0x08080808, 0, 0] =
      [0x0100a8c0, 0x08080808] @ replicate (4 - length [0x0100a8c0, 0x08080808 :: ULONG]) 0"
    by (simp only: two) simp
qed (simp_all add: inet_addr_ok_read_quad)

lemma class_consts:
  "htonl 0xff000000 = mask 8" "htonl 0x7f000000 = 127"
  "htonl 0xf0000000 = push_bit 4 (mask 4)" "htonl 0xe0000000 = 224"
  by (simp_all add: htonl_def of_dots_def dot_def mask_eq_exp_minus_1)

lemma unat_dot0: "unat (dot a 0) = unat a mod 256"
  by (simp add: dot_def unsigned_ucast_eq take_bit_eq_mod)

lemma unat_and_0f0: "unat (a AND push_bit 4 (mask 4) :: ULONG) = 16 * (unat a div 16 mod 16)"
proof -
  have "a AND push_bit 4 (mask 4) = push_bit 4 (take_bit 4 (drop_bit 4 a))"
    by (rule bit_word_eqI) (auto simp: bit_simps)
  moreover have "unat (take_bit 4 (drop_bit 4 a)) = unat a div 16 mod 16"
    by (simp add: unsigned_take_bit_eq unat_drop_bit_eq take_bit_eq_mod drop_bit_eq_div unat_div unat_mod)
  ultimately show ?thesis
    by (simp add: push_bit_eq_mult unat_word_ariths)
qed

text \<open>The class predicates read the first octet: loopback is 127.x.x.x and multicast is
  224.x.x.x to 239.x.x.x.\<close>

theorem IPv4Addr_class_octet:
  "(IPv4Addr_IsLoopback a \<longleftrightarrow> dot a 0 = 127) \<and>
   (IPv4Addr_IsMulticast a \<longleftrightarrow> 224 \<le> dot a 0 \<and> dot a 0 < 240)"
proof
  have "unat (a AND mask 8) = unat a mod 256"
    by (simp add: unsigned_take_bit_eq flip: take_bit_eq_mask) (simp add: take_bit_eq_mod)
  then show "IPv4Addr_IsLoopback a \<longleftrightarrow> dot a 0 = 127"
    by (simp add: IPv4Addr_IsLoopback_def class_consts word_unat_eq_iff unat_dot0)
  have "16 * (n div 16 mod 16) = 224 \<longleftrightarrow> 224 \<le> n mod 256 \<and> n mod 256 < 240" for n :: nat
  proof -
    have "n mod 256 = 16 * (n div 16 mod 16) + n mod 16"
      using mod_mult2_eq [of n 16 16] by simp
    moreover have "n mod 16 < 16" by simp
    moreover have "m = 16 * q + r \<Longrightarrow> r < 16 \<Longrightarrow> 16 * q = 224 \<longleftrightarrow> 224 \<le> m \<and> m < 240"
      for m q r :: nat by presburger
    ultimately show ?thesis by blast
  qed
  then show "IPv4Addr_IsMulticast a \<longleftrightarrow> 224 \<le> dot a 0 \<and> dot a 0 < 240"
    by (simp add: IPv4Addr_IsMulticast_def class_consts word_unat_eq_iff unat_dot0 unat_and_0f0
        word_le_nat_alt word_less_nat_alt)
qed

end
