(* ===== verification/Nat_Types.thy ===== *)
theory Nat_Types
  imports Cosa_SList Cosa_Ipv4
begin

text \<open>
  The data model of the NAT component: the structures of \<open>cosa_nat_apis.h\<close>,
  \<open>cosa_nat_apis_custom.h\<close> and \<open>cosa_nat_internal.h\<close>, the reset macros of these headers, and the
  interface of the code outside the repository that the component calls: the Utopia library (the
  router's persistent store), the CCSP registry folders (\<open>POAM_IREP_FOLDER_OBJECT\<close>), memory
  allocation, the bounded string copy, the message bus and the address parsers of the C library.
  That code is the record \<open>libs\<close>, an argument of the operations; what the component relies on of
  its documented behaviour is stated by the predicates \<open>utopia_ok\<close> and \<open>irep_ok\<close> over an abstract
  store, and \<open>noclobber_ok\<close>.
\<close>

section \<open>Structures\<close>

text \<open>\<open>COSA_DML_NAT_STATUS\<close> and \<open>COSA_DML_NAT_PMAPPING_Origin\<close> are C enumerations; the constants below
  are their values.\<close>

definition COSA_DML_NAT_STATUS_Disabled :: ULONG where "COSA_DML_NAT_STATUS_Disabled = 1"
definition COSA_DML_NAT_STATUS_Enabled :: ULONG where "COSA_DML_NAT_STATUS_Enabled = 2"
definition Origin_Static :: ULONG where "Origin_Static = 1"

record COSA_DML_NAT =
  nat_TCPTimeout :: ULONG
  nat_UDPTimeout :: ULONG
  nat_ICMPTimeout :: ULONG
  nat_EnablePortMapping :: bool
  nat_EnableHSPortMapping :: bool
  nat_EnableNATMapping :: bool

record COSA_DML_NAT_DMZ =
  dmz_bEnabled :: bool
  dmz_RemoteIPStart :: string
  dmz_RemoteIPEnd :: string
  dmz_InternalIP :: string
  dmz_InternalMAC :: string
  dmz_IPv6Host :: string

record COSA_DML_NAT_PMAPPING =
  pm_InstanceNumber :: ULONG
  pm_Alias :: string
  pm_bEnabled :: bool
  pm_Status :: ULONG
  pm_Interface :: string
  pm_AllInterfaces :: bool
  pm_LeaseDuration :: ULONG
  pm_RemoteHost :: ULONG
  pm_PublicIP :: ULONG
  pm_ExternalPort :: USHORT
  pm_ExternalPortEndRange :: USHORT
  pm_InternalPort :: USHORT
  pm_Protocol :: UCHAR
  pm_InternalClient :: ULONG
  pm_Description :: string
  pm_InternalClientV6 :: string
  pm_Origin :: ULONG

record COSA_DML_NAT_PTRIGGER =
  pt_InstanceNumber :: ULONG
  pt_Alias :: string
  pt_pOriAlias :: "string option"
  pt_bEnabled :: bool
  pt_TriggerProtocol :: UCHAR
  pt_TriggerPortStart :: USHORT
  pt_TriggerPortEnd :: USHORT
  pt_ForwardProtocol :: UCHAR
  pt_ForwardPortStart :: USHORT
  pt_ForwardPortEnd :: USHORT
  pt_Description :: string

text \<open>Sizes of the character arrays.\<close>

definition COSA_DML_IF_NAME_LENGTH :: nat where "COSA_DML_IF_NAME_LENGTH = 512"
definition COSA_DML_ALIAS_LENGTH :: nat where "COSA_DML_ALIAS_LENGTH = 64"
definition COSA_DML_IP_ADDR_LENGTH :: nat where "COSA_DML_IP_ADDR_LENGTH = 40"
definition COSA_DML_MAC_ADDR_LENGTH :: nat where "COSA_DML_MAC_ADDR_LENGTH = 18"
definition PM_DESCRIPTION_SIZE :: nat where "PM_DESCRIPTION_SIZE = 256"
definition PM_CLIENTV6_SIZE :: nat where "PM_CLIENTV6_SIZE = 64"
definition PT_DESCRIPTION_SIZE :: nat where "PT_DESCRIPTION_SIZE = 64"
definition DMZ_IPV6HOST_SIZE :: nat where "DMZ_IPV6HOST_SIZE = 64"
definition ALIAS_OF_PORTMAPPING_SIZE :: nat where "ALIAS_OF_PORTMAPPING_SIZE = 64"

lemmas size_defs = COSA_DML_IF_NAME_LENGTH_def COSA_DML_ALIAS_LENGTH_def COSA_DML_IP_ADDR_LENGTH_def
  COSA_DML_MAC_ADDR_LENGTH_def PM_DESCRIPTION_SIZE_def PM_CLIENTV6_SIZE_def PT_DESCRIPTION_SIZE_def
  DMZ_IPV6HOST_SIZE_def ALIAS_OF_PORTMAPPING_SIZE_def

text \<open>The reset macros.\<close>

definition NAT_PORTMAPPING_SET_DEFAULTVALUE :: "COSA_DML_NAT_PMAPPING \<Rightarrow> COSA_DML_NAT_PMAPPING" where
  "NAT_PORTMAPPING_SET_DEFAULTVALUE p = p\<lparr>
     pm_bEnabled := False, pm_Status := COSA_DML_NAT_STATUS_Disabled, pm_AllInterfaces := False,
     pm_LeaseDuration := 0, pm_RemoteHost := 0, pm_ExternalPort := 0, pm_ExternalPortEndRange := 0,
     pm_InternalPort := 0, pm_Protocol := 0, pm_InternalClient := 0\<rparr>"

definition COSA_DML_NAT_PTRIGGER_INIT :: "COSA_DML_NAT_PTRIGGER \<Rightarrow> COSA_DML_NAT_PTRIGGER" where
  "COSA_DML_NAT_PTRIGGER_INIT p = p\<lparr>
     pt_bEnabled := False, pt_pOriAlias := None, pt_TriggerProtocol := 0, pt_TriggerPortStart := 0,
     pt_TriggerPortEnd := 0, pt_ForwardProtocol := 0, pt_ForwardPortStart := 0,
     pt_ForwardPortEnd := 0\<rparr>"

lemma set_defaultvalue_keeps [simp]:
  "pm_InstanceNumber (NAT_PORTMAPPING_SET_DEFAULTVALUE p) = pm_InstanceNumber p"
  "pm_Alias (NAT_PORTMAPPING_SET_DEFAULTVALUE p) = pm_Alias p"
  by (simp_all add: NAT_PORTMAPPING_SET_DEFAULTVALUE_def)

lemma ptrigger_init_keeps [simp]:
  "pt_InstanceNumber (COSA_DML_NAT_PTRIGGER_INIT p) = pt_InstanceNumber p"
  "pt_Alias (COSA_DML_NAT_PTRIGGER_INIT p) = pt_Alias p"
  "pt_pOriAlias (COSA_DML_NAT_PTRIGGER_INIT p) = None"
  by (simp_all add: COSA_DML_NAT_PTRIGGER_INIT_def)

text \<open>A zeroed port mapping, port trigger, NAT and DMZ structure (\<open>memset (p, 0, sizeof *p)\<close>).\<close>

definition zero_pm :: COSA_DML_NAT_PMAPPING where
  "zero_pm = \<lparr>pm_InstanceNumber = 0, pm_Alias = [], pm_bEnabled = False, pm_Status = 0,
     pm_Interface = [], pm_AllInterfaces = False, pm_LeaseDuration = 0, pm_RemoteHost = 0,
     pm_PublicIP = 0, pm_ExternalPort = 0, pm_ExternalPortEndRange = 0, pm_InternalPort = 0,
     pm_Protocol = 0, pm_InternalClient = 0, pm_Description = [], pm_InternalClientV6 = [],
     pm_Origin = 0\<rparr>"

definition zero_pt :: COSA_DML_NAT_PTRIGGER where
  "zero_pt = \<lparr>pt_InstanceNumber = 0, pt_Alias = [], pt_pOriAlias = None, pt_bEnabled = False,
     pt_TriggerProtocol = 0, pt_TriggerPortStart = 0, pt_TriggerPortEnd = 0, pt_ForwardProtocol = 0,
     pt_ForwardPortStart = 0, pt_ForwardPortEnd = 0, pt_Description = []\<rparr>"

type_synonym pm_link = "COSA_DML_NAT_PMAPPING cosa_link"
type_synonym pt_link = "COSA_DML_NAT_PTRIGGER cosa_link"

end
