(* ===== verification/Nat_Lib.thy ===== *)
theory Nat_Lib
  imports Nat_Types
begin

text \<open>
  The interface of the code outside the repository that the NAT component calls, and the state of
  the component. Utopia's rule structures are \<open>portFwdSingle_t\<close>, \<open>portFwdRange_t\<close> and
  \<open>portRangeTrig_t\<close> with the fields the repository reads or writes. \<open>utopia\<close> and \<open>irep\<close> are records
  of the library functions; \<open>utopia_ok\<close> and \<open>irep_ok\<close> say that they implement the abstract stores
  \<open>ustore\<close> and \<open>rfolder\<close>. \<open>mem_utopia\<close> and \<open>mem_irep\<close> are implementations of these interfaces, on
  which the witnesses evaluate.
\<close>

section \<open>Utopia\<close>

datatype protocol_t = TCP | UDP | BOTH_TCP_UDP

definition U_2_SB_PF_PROTOCOL :: "protocol_t \<Rightarrow> UCHAR" where
  "U_2_SB_PF_PROTOCOL x = (if x = TCP then 1 else if x = UDP then 2 else 3)"

definition SB_2_U_PF_PPOTOCOL :: "UCHAR \<Rightarrow> protocol_t" where
  "SB_2_U_PF_PPOTOCOL x = (if x = 1 then TCP else if x = 2 then UDP else BOTH_TCP_UDP)"

lemma protocol_roundtrip [simp]: "SB_2_U_PF_PPOTOCOL (U_2_SB_PF_PROTOCOL x) = x"
  by (cases x) (simp_all add: U_2_SB_PF_PROTOCOL_def SB_2_U_PF_PPOTOCOL_def)

lemma protocol_roundtrip_sb:
  "U_2_SB_PF_PROTOCOL (SB_2_U_PF_PPOTOCOL p) = (if p \<in> {1, 2} then p else 3)"
  by (simp add: U_2_SB_PF_PROTOCOL_def SB_2_U_PF_PPOTOCOL_def)

record portFwdSingle_t =
  ps_enabled :: bool
  ps_prevRuleEnabledState :: bool
  ps_name :: string
  ps_rule_id :: ULONG
  ps_protocol :: protocol_t
  ps_external_port :: int
  ps_internal_port :: int
  ps_dest_ip :: string
  ps_dest_ipv6 :: string

record portFwdRange_t =
  pr_enabled :: bool
  pr_prevRuleEnabledState :: bool
  pr_name :: string
  pr_rule_id :: ULONG
  pr_protocol :: protocol_t
  pr_start_port :: int
  pr_end_port :: int
  pr_internal_port :: int
  pr_internal_port_range_size :: int
  pr_dest_ip :: string
  pr_public_ip :: string
  pr_dest_ipv6 :: string

record portRangeTrig_t =
  tr_enabled :: bool
  tr_prevRuleEnabledState :: bool
  tr_name :: string
  tr_rule_id :: ULONG
  tr_trigger_proto :: protocol_t
  tr_forward_proto :: protocol_t
  tr_trigger_start :: int
  tr_trigger_end :: int
  tr_fwd_range_start :: int
  tr_fwd_range_end :: int

record dmz_t =
  dz_enabled :: bool
  dz_dest_ip :: string
  dz_dest_ipv6 :: string

record lanSetting_t =
  lan_ipaddr :: string
  lan_netmask :: string

record dhcpServerInfo_t =
  dhcp_IPAddressStart :: string
  dhcp_IPAddressEnd :: string

text \<open>A context \<open>'c\<close> is what \<open>Utopia_Init\<close> opens on the store \<open>'s\<close>; \<open>ut_Commit\<close> is
  \<open>Utopia_Free (ctx, 1)\<close>, which writes the context to the store, and \<open>Utopia_Free (ctx, 0)\<close> releases the
  context and leaves the store as it is. An operation that changes the context returns whether its
  result was \<open>SUCCESS\<close> with the context; the two settings getters fill the caller's structure in any
  case. The last fields are sizes of the character arrays of Utopia's structures.\<close>

record ('s, 'c) utopia =
  ut_Init :: "'s \<Rightarrow> 'c option"
  ut_Commit :: "'s \<Rightarrow> 'c \<Rightarrow> 's"
  ut_GetPortForwarding :: "'c \<Rightarrow> portFwdSingle_t list option"
  ut_SetPortForwarding :: "'c \<Rightarrow> portFwdSingle_t list \<Rightarrow> bool \<times> 'c"
  ut_AddPortForwarding :: "'c \<Rightarrow> portFwdSingle_t \<Rightarrow> bool \<times> 'c"
  ut_GetPortForwardingByRuleId :: "'c \<Rightarrow> ULONG \<Rightarrow> portFwdSingle_t option"
  ut_DelPortForwardingByRuleId :: "'c \<Rightarrow> ULONG \<Rightarrow> bool \<times> 'c"
  ut_GetPortForwardingRange :: "'c \<Rightarrow> portFwdRange_t list option"
  ut_SetPortForwardingRange :: "'c \<Rightarrow> portFwdRange_t list \<Rightarrow> bool \<times> 'c"
  ut_AddPortForwardingRange :: "'c \<Rightarrow> portFwdRange_t \<Rightarrow> bool \<times> 'c"
  ut_GetPortForwardingRangeByRuleId :: "'c \<Rightarrow> ULONG \<Rightarrow> portFwdRange_t option"
  ut_DelPortForwardingRangeByRuleId :: "'c \<Rightarrow> ULONG \<Rightarrow> bool \<times> 'c"
  ut_GetPortTrigger :: "'c \<Rightarrow> portRangeTrig_t list option"
  ut_SetPortTrigger :: "'c \<Rightarrow> portRangeTrig_t list \<Rightarrow> bool \<times> 'c"
  ut_AddPortTrigger :: "'c \<Rightarrow> portRangeTrig_t \<Rightarrow> bool \<times> 'c"
  ut_GetPortTriggerByRuleId :: "'c \<Rightarrow> ULONG \<Rightarrow> portRangeTrig_t option"
  ut_SetPortTriggerByRuleId :: "'c \<Rightarrow> portRangeTrig_t \<Rightarrow> bool \<times> 'c"
  ut_DelPortTriggerByRuleId :: "'c \<Rightarrow> ULONG \<Rightarrow> bool \<times> 'c"
  ut_RawGet :: "'c \<Rightarrow> string \<Rightarrow> string \<Rightarrow> string option"
  ut_RawSet :: "'c \<Rightarrow> string \<Rightarrow> string \<Rightarrow> string \<Rightarrow> bool \<times> 'c"
  ut_GetDMZSettings :: "'c \<Rightarrow> dmz_t option"
  ut_SetDMZSettings :: "'c \<Rightarrow> dmz_t \<Rightarrow> bool \<times> 'c"
  ut_GetLanSettings :: "'c \<Rightarrow> bool \<times> lanSetting_t"
  ut_GetDHCPServerSettings :: "'c \<Rightarrow> bool \<times> dhcpServerInfo_t"
  ut_CheckPortRange :: "'c \<Rightarrow> ULONG \<Rightarrow> int \<Rightarrow> int \<Rightarrow> protocol_t \<Rightarrow> bool \<Rightarrow> int"
  ut_CheckPortTriggerRange :: "'c \<Rightarrow> ULONG \<Rightarrow> int \<Rightarrow> int \<Rightarrow> protocol_t \<Rightarrow> bool \<Rightarrow> int"
  ut_NAME_SZ :: nat
  ut_IPADDR_SZ :: nat
  ut_IPV6_SZ :: nat
  ut_DMZ_IP_SZ :: nat
  ut_DMZ_IPV6_SZ :: nat

text \<open>The abstract store.\<close>

record ustore =
  u_single :: "portFwdSingle_t list"
  u_range :: "portFwdRange_t list"
  u_trigger :: "portRangeTrig_t list"
  u_raw :: "string \<times> string \<Rightarrow> string option"
  u_dmz :: dmz_t
  u_lan :: lanSetting_t
  u_dhcp :: dhcpServerInfo_t

text \<open>An update of the context: on success the store changes as stated, on failure it does not.\<close>

definition upd_ok :: "('c \<Rightarrow> ustore) \<Rightarrow> 'c \<Rightarrow> bool \<times> 'c \<Rightarrow> ustore \<Rightarrow> bool" where
  "upd_ok vc c r v \<longleftrightarrow> vc (snd r) = (if fst r then v else vc c)"

definition utopia_ctx_ok :: "('s, 'c) utopia \<Rightarrow> ('s \<Rightarrow> ustore) \<Rightarrow> ('c \<Rightarrow> ustore) \<Rightarrow> bool" where
  "utopia_ctx_ok U vs vc \<longleftrightarrow>
     (\<forall>s c. ut_Init U s = Some c \<longrightarrow> vc c = vs s) \<and>
     (\<forall>s c. vs (ut_Commit U s c) = vc c)"

definition utopia_single_ok :: "('s, 'c) utopia \<Rightarrow> ('c \<Rightarrow> ustore) \<Rightarrow> bool" where
  "utopia_single_ok U vc \<longleftrightarrow>
     (\<forall>c. ut_GetPortForwarding U c = None \<or> ut_GetPortForwarding U c = Some (u_single (vc c))) \<and>
     (\<forall>c l. upd_ok vc c (ut_SetPortForwarding U c l) ((vc c)\<lparr>u_single := l\<rparr>)) \<and>
     (\<forall>c r. upd_ok vc c (ut_AddPortForwarding U c r) ((vc c)\<lparr>u_single := u_single (vc c) @ [r]\<rparr>)) \<and>
     (\<forall>c n. ut_GetPortForwardingByRuleId U c n = find (\<lambda>r. ps_rule_id r = n) (u_single (vc c))) \<and>
     (\<forall>c n. upd_ok vc c (ut_DelPortForwardingByRuleId U c n)
        ((vc c)\<lparr>u_single := filter (\<lambda>r. ps_rule_id r \<noteq> n) (u_single (vc c))\<rparr>))"

definition utopia_range_ok :: "('s, 'c) utopia \<Rightarrow> ('c \<Rightarrow> ustore) \<Rightarrow> bool" where
  "utopia_range_ok U vc \<longleftrightarrow>
     (\<forall>c. ut_GetPortForwardingRange U c = None \<or> ut_GetPortForwardingRange U c = Some (u_range (vc c))) \<and>
     (\<forall>c l. upd_ok vc c (ut_SetPortForwardingRange U c l) ((vc c)\<lparr>u_range := l\<rparr>)) \<and>
     (\<forall>c r. upd_ok vc c (ut_AddPortForwardingRange U c r) ((vc c)\<lparr>u_range := u_range (vc c) @ [r]\<rparr>)) \<and>
     (\<forall>c n. ut_GetPortForwardingRangeByRuleId U c n = find (\<lambda>r. pr_rule_id r = n) (u_range (vc c))) \<and>
     (\<forall>c n. upd_ok vc c (ut_DelPortForwardingRangeByRuleId U c n)
        ((vc c)\<lparr>u_range := filter (\<lambda>r. pr_rule_id r \<noteq> n) (u_range (vc c))\<rparr>))"

definition utopia_trigger_ok :: "('s, 'c) utopia \<Rightarrow> ('c \<Rightarrow> ustore) \<Rightarrow> bool" where
  "utopia_trigger_ok U vc \<longleftrightarrow>
     (\<forall>c. ut_GetPortTrigger U c = None \<or> ut_GetPortTrigger U c = Some (u_trigger (vc c))) \<and>
     (\<forall>c l. upd_ok vc c (ut_SetPortTrigger U c l) ((vc c)\<lparr>u_trigger := l\<rparr>)) \<and>
     (\<forall>c r. upd_ok vc c (ut_AddPortTrigger U c r) ((vc c)\<lparr>u_trigger := u_trigger (vc c) @ [r]\<rparr>)) \<and>
     (\<forall>c n. ut_GetPortTriggerByRuleId U c n = find (\<lambda>r. tr_rule_id r = n) (u_trigger (vc c))) \<and>
     (\<forall>c r. upd_ok vc c (ut_SetPortTriggerByRuleId U c r)
        ((vc c)\<lparr>u_trigger := map (\<lambda>x. if tr_rule_id x = tr_rule_id r then r else x) (u_trigger (vc c))\<rparr>)) \<and>
     (\<forall>c n. upd_ok vc c (ut_DelPortTriggerByRuleId U c n)
        ((vc c)\<lparr>u_trigger := filter (\<lambda>r. tr_rule_id r \<noteq> n) (u_trigger (vc c))\<rparr>))"

definition utopia_settings_ok :: "('s, 'c) utopia \<Rightarrow> ('c \<Rightarrow> ustore) \<Rightarrow> bool" where
  "utopia_settings_ok U vc \<longleftrightarrow>
     (\<forall>c ns k. ut_RawGet U c ns k = u_raw (vc c) (ns, k)) \<and>
     (\<forall>c ns k v. upd_ok vc c (ut_RawSet U c ns k v) ((vc c)\<lparr>u_raw := (u_raw (vc c))((ns, k) \<mapsto> v)\<rparr>)) \<and>
     (\<forall>c. ut_GetDMZSettings U c = None \<or> ut_GetDMZSettings U c = Some (u_dmz (vc c))) \<and>
     (\<forall>c d. upd_ok vc c (ut_SetDMZSettings U c d) ((vc c)\<lparr>u_dmz := d\<rparr>)) \<and>
     (\<forall>c. fst (ut_GetLanSettings U c) \<longrightarrow> snd (ut_GetLanSettings U c) = u_lan (vc c)) \<and>
     (\<forall>c. fst (ut_GetDHCPServerSettings U c) \<longrightarrow>
        snd (ut_GetDHCPServerSettings U c) = u_dhcp (vc c))"

definition utopia_ok :: "('s, 'c) utopia \<Rightarrow> ('s \<Rightarrow> ustore) \<Rightarrow> ('c \<Rightarrow> ustore) \<Rightarrow> bool" where
  "utopia_ok U vs vc \<longleftrightarrow> utopia_ctx_ok U vs vc \<and> utopia_single_ok U vc \<and> utopia_range_ok U vc \<and>
     utopia_trigger_ok U vc \<and> utopia_settings_ok U vc"

text \<open>The clauses of \<open>utopia_ok\<close>, as the proofs use them.\<close>

lemma utopia_Init: "utopia_ok U vs vc \<Longrightarrow> ut_Init U s = Some c \<Longrightarrow> vc c = vs s"
  by (simp add: utopia_ok_def utopia_ctx_ok_def)

lemma utopia_Commit [simp]: "utopia_ok U vs vc \<Longrightarrow> vs (ut_Commit U s c) = vc c"
  by (simp add: utopia_ok_def utopia_ctx_ok_def)

lemma upd_okD: "upd_ok vc c r v \<Longrightarrow> r = (b, c') \<Longrightarrow> vc c' = (if b then v else vc c)"
  by (simp add: upd_ok_def)

text \<open>The five parts, and from each the clause per operation.\<close>

lemma utopia_parts:
  assumes "utopia_ok U vs vc"
  shows "utopia_single_ok U vc" "utopia_range_ok U vc" "utopia_trigger_ok U vc"
    "utopia_settings_ok U vc"
  using assms by (simp_all add: utopia_ok_def)

lemma utopia_lists:
  assumes "utopia_ok U vs vc"
  shows "ut_GetPortForwarding U c = Some l1 \<Longrightarrow> l1 = u_single (vc c)"
    "ut_GetPortForwardingRange U c = Some l2 \<Longrightarrow> l2 = u_range (vc c)"
    "ut_GetPortTrigger U c = Some l3 \<Longrightarrow> l3 = u_trigger (vc c)"
  using utopia_parts [OF assms]
  unfolding utopia_single_ok_def utopia_range_ok_def utopia_trigger_ok_def by (metis option.distinct(1) option.inject)+

lemma utopia_by_id:
  assumes "utopia_ok U vs vc"
  shows "ut_GetPortForwardingByRuleId U c n = find (\<lambda>r. ps_rule_id r = n) (u_single (vc c))"
    "ut_GetPortForwardingRangeByRuleId U c n = find (\<lambda>r. pr_rule_id r = n) (u_range (vc c))"
    "ut_GetPortTriggerByRuleId U c n = find (\<lambda>r. tr_rule_id r = n) (u_trigger (vc c))"
  using utopia_parts [OF assms]
  by (simp_all add: utopia_single_ok_def utopia_range_ok_def utopia_trigger_ok_def)

lemma utopia_single_upd:
  assumes "utopia_ok U vs vc"
  shows "ut_SetPortForwarding U c l = (b, c') \<Longrightarrow>
      vc c' = (if b then (vc c)\<lparr>u_single := l\<rparr> else vc c)"
    "ut_AddPortForwarding U c r = (b, c') \<Longrightarrow>
      vc c' = (if b then (vc c)\<lparr>u_single := u_single (vc c) @ [r]\<rparr> else vc c)"
    "ut_DelPortForwardingByRuleId U c n = (b, c') \<Longrightarrow>
      vc c' = (if b then (vc c)\<lparr>u_single := filter (\<lambda>r. ps_rule_id r \<noteq> n) (u_single (vc c))\<rparr> else vc c)"
  using utopia_parts(1) [OF assms] by (simp_all add: utopia_single_ok_def upd_ok_def) (metis snd_conv fst_conv)+

lemma utopia_range_upd:
  assumes "utopia_ok U vs vc"
  shows "ut_SetPortForwardingRange U c l = (b, c') \<Longrightarrow>
      vc c' = (if b then (vc c)\<lparr>u_range := l\<rparr> else vc c)"
    "ut_AddPortForwardingRange U c r = (b, c') \<Longrightarrow>
      vc c' = (if b then (vc c)\<lparr>u_range := u_range (vc c) @ [r]\<rparr> else vc c)"
    "ut_DelPortForwardingRangeByRuleId U c n = (b, c') \<Longrightarrow>
      vc c' = (if b then (vc c)\<lparr>u_range := filter (\<lambda>r. pr_rule_id r \<noteq> n) (u_range (vc c))\<rparr> else vc c)"
  using utopia_parts(2) [OF assms] by (simp_all add: utopia_range_ok_def upd_ok_def) (metis snd_conv fst_conv)+

lemma utopia_trigger_upd:
  assumes "utopia_ok U vs vc"
  shows "ut_SetPortTrigger U c l = (b, c') \<Longrightarrow>
      vc c' = (if b then (vc c)\<lparr>u_trigger := l\<rparr> else vc c)"
    "ut_AddPortTrigger U c r = (b, c') \<Longrightarrow>
      vc c' = (if b then (vc c)\<lparr>u_trigger := u_trigger (vc c) @ [r]\<rparr> else vc c)"
    "ut_SetPortTriggerByRuleId U c r = (b, c') \<Longrightarrow> vc c' = (if b then (vc c)\<lparr>u_trigger :=
        map (\<lambda>x. if tr_rule_id x = tr_rule_id r then r else x) (u_trigger (vc c))\<rparr> else vc c)"
    "ut_DelPortTriggerByRuleId U c n = (b, c') \<Longrightarrow>
      vc c' = (if b then (vc c)\<lparr>u_trigger := filter (\<lambda>r. tr_rule_id r \<noteq> n) (u_trigger (vc c))\<rparr> else vc c)"
  using utopia_parts(3) [OF assms, unfolded utopia_trigger_ok_def]
  by - (elim conjE, drule spec, drule spec, erule upd_okD, assumption)+

lemma utopia_raw:
  assumes "utopia_ok U vs vc"
  shows "ut_RawGet U c ns k = u_raw (vc c) (ns, k)"
    "ut_RawSet U c ns k v = (b, c') \<Longrightarrow>
      vc c' = (if b then (vc c)\<lparr>u_raw := (u_raw (vc c))((ns, k) \<mapsto> v)\<rparr> else vc c)"
  using utopia_parts(4) [OF assms] by (simp_all add: utopia_settings_ok_def upd_ok_def) (metis snd_conv fst_conv)+

lemma utopia_settings:
  assumes "utopia_ok U vs vc"
  shows "ut_GetDMZSettings U c = Some d \<Longrightarrow> d = u_dmz (vc c)"
    "ut_SetDMZSettings U c d = (b, c') \<Longrightarrow> vc c' = (if b then (vc c)\<lparr>u_dmz := d\<rparr> else vc c)"
    "ut_GetLanSettings U c = (True, l) \<Longrightarrow> l = u_lan (vc c)"
    "ut_GetDHCPServerSettings U c = (True, h) \<Longrightarrow> h = u_dhcp (vc c)"
  using utopia_parts(4) [OF assms]
  unfolding utopia_settings_ok_def upd_ok_def by (metis snd_conv fst_conv option.distinct(1) option.inject)+

section \<open>Registry folders\<close>

text \<open>A folder is named by its path from the root folder. A value is a string, a boolean or an
  unsigned number record.\<close>

type_synonym path = "string list"

record 'r irep =
  ir_GetFolder :: "'r \<Rightarrow> path \<Rightarrow> string \<Rightarrow> bool"
  ir_AddFolder :: "'r \<Rightarrow> path \<Rightarrow> string \<Rightarrow> bool \<times> 'r"
  ir_Clear :: "'r \<Rightarrow> path \<Rightarrow> 'r"
  ir_EnableFileSync :: "'r \<Rightarrow> path \<Rightarrow> bool \<Rightarrow> 'r"
  ir_EnumFolder :: "'r \<Rightarrow> path \<Rightarrow> string option list"
  ir_GetString :: "'r \<Rightarrow> path \<Rightarrow> string \<Rightarrow> string option"
  ir_GetBool :: "'r \<Rightarrow> path \<Rightarrow> string \<Rightarrow> bool option"
  ir_GetUint32 :: "'r \<Rightarrow> path \<Rightarrow> string \<Rightarrow> ULONG option"
  ir_AddString :: "'r \<Rightarrow> path \<Rightarrow> string \<Rightarrow> string \<Rightarrow> bool \<times> 'r"
  ir_AddBool :: "'r \<Rightarrow> path \<Rightarrow> string \<Rightarrow> bool \<Rightarrow> bool \<times> 'r"
  ir_AddUint32 :: "'r \<Rightarrow> path \<Rightarrow> string \<Rightarrow> ULONG \<Rightarrow> bool \<times> 'r"

text \<open>The abstract registry: a map from paths to folders.\<close>

record rfolder =
  rf_subs :: "string list"
  rf_str :: "string \<Rightarrow> string option"
  rf_bool :: "string \<Rightarrow> bool option"
  rf_uint :: "string \<Rightarrow> ULONG option"

definition empty_folder :: rfolder where
  "empty_folder = \<lparr>rf_subs = [], rf_str = (\<lambda>_. None), rf_bool = (\<lambda>_. None), rf_uint = (\<lambda>_. None)\<rparr>"

type_synonym rview = "path \<Rightarrow> rfolder option"

text \<open>\<open>below p q\<close>: the folder \<open>q\<close> lies strictly below the folder \<open>p\<close>.\<close>

definition below :: "path \<Rightarrow> path \<Rightarrow> bool" where
  "below p q \<longleftrightarrow> take (length p) q = p \<and> length p < length q"

definition rv_clear :: "rview \<Rightarrow> path \<Rightarrow> rview" where
  "rv_clear v p = (\<lambda>q. if q = p then map_option (\<lambda>_. empty_folder) (v p)
                      else if below p q then None else v q)"

definition rv_add_folder :: "rview \<Rightarrow> path \<Rightarrow> string \<Rightarrow> rview" where
  "rv_add_folder v p n = (case v p of None \<Rightarrow> v
     | Some f \<Rightarrow> if n \<in> set (rf_subs f) then v
                else v(p \<mapsto> f\<lparr>rf_subs := rf_subs f @ [n]\<rparr>, p @ [n] \<mapsto> empty_folder))"

definition rv_upd :: "rview \<Rightarrow> path \<Rightarrow> (rfolder \<Rightarrow> rfolder) \<Rightarrow> rview" where
  "rv_upd v p u = (case v p of None \<Rightarrow> v | Some f \<Rightarrow> v(p \<mapsto> u f))"

definition reg_ok :: "('r \<Rightarrow> rview) \<Rightarrow> 'r \<Rightarrow> bool \<times> 'r \<Rightarrow> rview \<Rightarrow> bool" where
  "reg_ok v r res w \<longleftrightarrow> v (snd res) = (if fst res then w else v r)"

definition irep_ok :: "'r irep \<Rightarrow> ('r \<Rightarrow> rview) \<Rightarrow> bool" where
  "irep_ok I v \<longleftrightarrow>
     (\<forall>r p n. ir_GetFolder I r p n \<longleftrightarrow> (\<exists>f. v r p = Some f \<and> n \<in> set (rf_subs f))) \<and>
     (\<forall>r p n. reg_ok v r (ir_AddFolder I r p n) (rv_add_folder (v r) p n)) \<and>
     (\<forall>r p. v (ir_Clear I r p) = rv_clear (v r) p) \<and>
     (\<forall>r p b. v (ir_EnableFileSync I r p b) = v r) \<and>
     (\<forall>r p f. v r p = Some f \<longrightarrow> ir_EnumFolder I r p = map Some (rf_subs f)) \<and>
     (\<forall>r p f k. v r p = Some f \<longrightarrow> ir_GetString I r p k = rf_str f k) \<and>
     (\<forall>r p f k. v r p = Some f \<longrightarrow> ir_GetBool I r p k = rf_bool f k) \<and>
     (\<forall>r p f k. v r p = Some f \<longrightarrow> ir_GetUint32 I r p k = rf_uint f k) \<and>
     (\<forall>r p k x. reg_ok v r (ir_AddString I r p k x)
        (rv_upd (v r) p (\<lambda>f. f\<lparr>rf_str := (rf_str f)(k \<mapsto> x)\<rparr>))) \<and>
     (\<forall>r p k x. reg_ok v r (ir_AddBool I r p k x)
        (rv_upd (v r) p (\<lambda>f. f\<lparr>rf_bool := (rf_bool f)(k \<mapsto> x)\<rparr>))) \<and>
     (\<forall>r p k x. reg_ok v r (ir_AddUint32 I r p k x)
        (rv_upd (v r) p (\<lambda>f. f\<lparr>rf_uint := (rf_uint f)(k \<mapsto> x)\<rparr>)))"

section \<open>All libraries, and the state of the component\<close>

text \<open>
  \<open>AnscAllocateMemory\<close>: the n-th call succeeds when \<open>lib_alloc n\<close>, the block has address n, and its
  content is arbitrary (\<open>lib_junk_pm\<close>, \<open>lib_junk_pt\<close>, \<open>lib_junk_bFound\<close>, \<open>lib_junk_ulong\<close>).
  \<open>lib_noclobber size dst src\<close> is \<open>STRCPY_S_NOCLOBBER\<close>. The next three are the bus requests
  \<open>CosaGetParamValueString\<close> (with the size of the buffer; none when it does not return 0),
  \<open>CosaGetParamValueUlong\<close> and \<open>CosaGetInstanceNumberByIndex\<close>; \<open>lib_AnscTcAllocate\<close> cuts a string into
  tokens.
\<close>

record ('s, 'c, 'r) libs =
  lib_ut :: "('s, 'c) utopia"
  lib_ir :: "'r irep"
  lib_alloc :: "nat \<Rightarrow> bool"
  lib_junk_pm :: "nat \<Rightarrow> COSA_DML_NAT_PMAPPING"
  lib_junk_pt :: "nat \<Rightarrow> COSA_DML_NAT_PTRIGGER"
  lib_junk_bFound :: "nat \<Rightarrow> bool"
  lib_junk_ulong :: "nat \<Rightarrow> nat \<Rightarrow> ULONG"
  lib_noclobber :: "nat \<Rightarrow> string \<Rightarrow> string \<Rightarrow> bool \<times> string"
  lib_inet_addr :: "string \<Rightarrow> ULONG"
  lib_inet_pton4 :: "string \<Rightarrow> ULONG option"
  lib_CosaGetParamValueString :: "string \<Rightarrow> nat \<Rightarrow> string option"
  lib_CosaGetParamValueUlong :: "string \<Rightarrow> ULONG"
  lib_CosaGetInstanceNumberByIndex :: "string \<Rightarrow> ULONG \<Rightarrow> ULONG"
  lib_AnscTcAllocate :: "string \<Rightarrow> string \<Rightarrow> string list option"

definition noclobber_ok :: "(nat \<Rightarrow> string \<Rightarrow> string \<Rightarrow> bool \<times> string) \<Rightarrow> bool" where
  "noclobber_ok f \<longleftrightarrow>
     (\<forall>n dst src. f n dst src = (if length src < n then (True, src) else (False, dst)))"

record ('s, 'r) nat_state =
  NatPMappingList :: "COSA_DML_NAT_PMAPPING slist"
  NatPTriggerList :: "COSA_DML_NAT_PTRIGGER slist"
  Nat :: COSA_DML_NAT
  Dmz :: COSA_DML_NAT_DMZ
  MaxInstanceNumber :: ULONG
  ulPtNextInstanceNumber :: ULONG
  PreviousVisitTime :: ULONG
  AliasOfPortMapping :: string
  hIrepFolderNat :: "path option"
  hIrepFolderNatPt :: "path option"
  g_NatPTTriggerEnable :: bool
  g_NatPFEnable :: bool
  g_NatHSPFEnable :: bool
  g_NatOne2OneEnable :: bool
  g_NatLanIP :: ULONG
  st_store :: 's
  st_registry :: 'r
  st_allocs :: nat

text \<open>\<open>AnscAllocateMemory\<close>: the address of the block, or none.\<close>

definition AnscAllocateMemory :: "('s, 'c, 'r) libs \<Rightarrow> ('s, 'r) nat_state \<Rightarrow> nat option \<times> ('s, 'r) nat_state" where
  "AnscAllocateMemory L st =
     (if lib_alloc L (st_allocs st) then Some (st_allocs st) else None,
      st\<lparr>st_allocs := Suc (st_allocs st)\<rparr>)"

text \<open>\<open>is_usg_in_bridge_mode\<close> of \<open>cosa_apis_util.c\<close>; \<open>bridge_blocked\<close> is the test at the head of every
  setter of the tables.\<close>

definition LanMode :: string where
  "LanMode = ''Device.X_CISCO_COM_DeviceControl.LanManagementEntry.1.LanMode''"

definition is_usg_in_bridge_mode :: "('s, 'c, 'r) libs \<Rightarrow> ansc_status \<times> bool" where
  "is_usg_in_bridge_mode L = (case lib_CosaGetParamValueString L LanMode 128 of
       Some retVal \<Rightarrow> (ANSC_SUCCESS, retVal \<noteq> ''router'')
     | None \<Rightarrow> (ANSC_FAILURE, False))"

definition bridge_blocked :: "('s, 'c, 'r) libs \<Rightarrow> bool" where
  "bridge_blocked L \<longleftrightarrow>
     (case is_usg_in_bridge_mode L of (status, bridgeMode) \<Rightarrow> ansc_ok status \<and> bridgeMode)"

lemma bridge_blocked_iff:
  "bridge_blocked L \<longleftrightarrow> (\<exists>m. lib_CosaGetParamValueString L LanMode 128 = Some m \<and> m \<noteq> ''router'')"
  by (simp add: bridge_blocked_def is_usg_in_bridge_mode_def split: option.split)

lemma mem_bridge: "\<not> bridge_blocked L" if "lib_CosaGetParamValueString L = (\<lambda>p n. Some ''router'')"
  using that by (simp add: bridge_blocked_iff)

section \<open>In-memory libraries\<close>

text \<open>Implementations of the library interfaces whose store and context are the abstract store itself.
  Every operation succeeds; the port range check accepts.\<close>

definition mem_utopia :: "(ustore, ustore) utopia" where
  "mem_utopia = \<lparr>
     ut_Init = Some, ut_Commit = (\<lambda>s c. c),
     ut_GetPortForwarding = (\<lambda>c. Some (u_single c)),
     ut_SetPortForwarding = (\<lambda>c l. (True, c\<lparr>u_single := l\<rparr>)),
     ut_AddPortForwarding = (\<lambda>c r. (True, c\<lparr>u_single := u_single c @ [r]\<rparr>)),
     ut_GetPortForwardingByRuleId = (\<lambda>c n. find (\<lambda>r. ps_rule_id r = n) (u_single c)),
     ut_DelPortForwardingByRuleId =
       (\<lambda>c n. (True, c\<lparr>u_single := filter (\<lambda>r. ps_rule_id r \<noteq> n) (u_single c)\<rparr>)),
     ut_GetPortForwardingRange = (\<lambda>c. Some (u_range c)),
     ut_SetPortForwardingRange = (\<lambda>c l. (True, c\<lparr>u_range := l\<rparr>)),
     ut_AddPortForwardingRange = (\<lambda>c r. (True, c\<lparr>u_range := u_range c @ [r]\<rparr>)),
     ut_GetPortForwardingRangeByRuleId = (\<lambda>c n. find (\<lambda>r. pr_rule_id r = n) (u_range c)),
     ut_DelPortForwardingRangeByRuleId =
       (\<lambda>c n. (True, c\<lparr>u_range := filter (\<lambda>r. pr_rule_id r \<noteq> n) (u_range c)\<rparr>)),
     ut_GetPortTrigger = (\<lambda>c. Some (u_trigger c)),
     ut_SetPortTrigger = (\<lambda>c l. (True, c\<lparr>u_trigger := l\<rparr>)),
     ut_AddPortTrigger = (\<lambda>c r. (True, c\<lparr>u_trigger := u_trigger c @ [r]\<rparr>)),
     ut_GetPortTriggerByRuleId = (\<lambda>c n. find (\<lambda>r. tr_rule_id r = n) (u_trigger c)),
     ut_SetPortTriggerByRuleId = (\<lambda>c r. (True,
        c\<lparr>u_trigger := map (\<lambda>x. if tr_rule_id x = tr_rule_id r then r else x) (u_trigger c)\<rparr>)),
     ut_DelPortTriggerByRuleId =
       (\<lambda>c n. (True, c\<lparr>u_trigger := filter (\<lambda>r. tr_rule_id r \<noteq> n) (u_trigger c)\<rparr>)),
     ut_RawGet = (\<lambda>c ns k. u_raw c (ns, k)),
     ut_RawSet = (\<lambda>c ns k v. (True, c\<lparr>u_raw := (u_raw c)((ns, k) \<mapsto> v)\<rparr>)),
     ut_GetDMZSettings = (\<lambda>c. Some (u_dmz c)),
     ut_SetDMZSettings = (\<lambda>c d. (True, c\<lparr>u_dmz := d\<rparr>)),
     ut_GetLanSettings = (\<lambda>c. (True, u_lan c)),
     ut_GetDHCPServerSettings = (\<lambda>c. (True, u_dhcp c)),
     ut_CheckPortRange = (\<lambda>c n a b p t. 1),
     ut_CheckPortTriggerRange = (\<lambda>c n a b p t. 1),
     ut_NAME_SZ = 64, ut_IPADDR_SZ = 46, ut_IPV6_SZ = 64, ut_DMZ_IP_SZ = 46, ut_DMZ_IPV6_SZ = 64\<rparr>"

lemma mem_utopia_ok: "utopia_ok mem_utopia (\<lambda>s. s) (\<lambda>c. c)"
  by (simp add: mem_utopia_def utopia_ok_def utopia_ctx_ok_def utopia_single_ok_def
      utopia_range_ok_def utopia_trigger_ok_def utopia_settings_ok_def upd_ok_def)

definition mem_irep :: "rview irep" where
  "mem_irep = \<lparr>
     ir_GetFolder = (\<lambda>r p n. case r p of None \<Rightarrow> False | Some f \<Rightarrow> n \<in> set (rf_subs f)),
     ir_AddFolder = (\<lambda>r p n. (True, rv_add_folder r p n)),
     ir_Clear = rv_clear, ir_EnableFileSync = (\<lambda>r p b. r),
     ir_EnumFolder = (\<lambda>r p. case r p of None \<Rightarrow> [] | Some f \<Rightarrow> map Some (rf_subs f)),
     ir_GetString = (\<lambda>r p k. case r p of None \<Rightarrow> None | Some f \<Rightarrow> rf_str f k),
     ir_GetBool = (\<lambda>r p k. case r p of None \<Rightarrow> None | Some f \<Rightarrow> rf_bool f k),
     ir_GetUint32 = (\<lambda>r p k. case r p of None \<Rightarrow> None | Some f \<Rightarrow> rf_uint f k),
     ir_AddString = (\<lambda>r p k x. (True, rv_upd r p (\<lambda>f. f\<lparr>rf_str := (rf_str f)(k \<mapsto> x)\<rparr>))),
     ir_AddBool = (\<lambda>r p k x. (True, rv_upd r p (\<lambda>f. f\<lparr>rf_bool := (rf_bool f)(k \<mapsto> x)\<rparr>))),
     ir_AddUint32 = (\<lambda>r p k x. (True, rv_upd r p (\<lambda>f. f\<lparr>rf_uint := (rf_uint f)(k \<mapsto> x)\<rparr>)))\<rparr>"

lemma mem_irep_ok: "irep_ok mem_irep (\<lambda>r. r)"
  by (simp add: mem_irep_def irep_ok_def reg_ok_def split: option.split)

definition mem_noclobber :: "nat \<Rightarrow> string \<Rightarrow> string \<Rightarrow> bool \<times> string" where
  "mem_noclobber n dst src = (if length src < n then (True, src) else (False, dst))"

lemma mem_noclobber_ok: "noclobber_ok mem_noclobber"
  by (simp add: noclobber_ok_def mem_noclobber_def)

definition mem_libs :: "(ustore, ustore, rview) libs" where
  "mem_libs = \<lparr>lib_ut = mem_utopia, lib_ir = mem_irep, lib_alloc = (\<lambda>n. True),
     lib_junk_pm = (\<lambda>n. zero_pm), lib_junk_pt = (\<lambda>n. zero_pt), lib_junk_bFound = (\<lambda>n. False),
     lib_junk_ulong = (\<lambda>n i. 0), lib_noclobber = mem_noclobber, lib_inet_addr = read_quad,
     lib_inet_pton4 = (\<lambda>s. Some (read_quad s)), 
     lib_CosaGetParamValueString = (\<lambda>p n. Some ''router''), lib_CosaGetParamValueUlong = (\<lambda>p. 0),
     lib_CosaGetInstanceNumberByIndex = (\<lambda>p i. 0), lib_AnscTcAllocate = (\<lambda>s d. Some [s])\<rparr>"

lemma mem_libs_simps [simp]:
  "lib_ut mem_libs = mem_utopia" "lib_ir mem_libs = mem_irep" "lib_alloc mem_libs = (\<lambda>n. True)"
  "lib_junk_pm mem_libs = (\<lambda>n. zero_pm)" "lib_junk_pt mem_libs = (\<lambda>n. zero_pt)"
  "lib_junk_ulong mem_libs = (\<lambda>n i. 0)" "lib_noclobber mem_libs = mem_noclobber"
  "lib_inet_addr mem_libs = read_quad" "lib_inet_pton4 mem_libs = (\<lambda>s. Some (read_quad s))"
  "lib_CosaGetParamValueString mem_libs = (\<lambda>p n. Some ''router'')"
  "lib_junk_bFound mem_libs = (\<lambda>n. False)" "lib_AnscTcAllocate mem_libs = (\<lambda>s d. Some [s])"
  by (simp_all add: mem_libs_def)

text \<open>A store with a LAN 192.168.0.1/24 whose DHCP range is 192.168.0.2 to 192.168.0.253, and an initial
  state on it.\<close>

definition mem_store :: ustore where
  "mem_store = \<lparr>u_single = [], u_range = [], u_trigger = [], u_raw = (\<lambda>_. None),
     u_dmz = \<lparr>dz_enabled = False, dz_dest_ip = [], dz_dest_ipv6 = []\<rparr>,
     u_lan = \<lparr>lan_ipaddr = dotted 0x0100a8c0, lan_netmask = dotted 0x00ffffff\<rparr>,
     u_dhcp = \<lparr>dhcp_IPAddressStart = dotted 0x0200a8c0, dhcp_IPAddressEnd = dotted 0xfd00a8c0\<rparr>\<rparr>"

definition mem_registry :: rview where
  "mem_registry = [[''NAT''] \<mapsto> empty_folder\<lparr>rf_subs := [''PORTTRIGGER'']\<rparr>,
                   [''NAT'', ''PORTTRIGGER''] \<mapsto> empty_folder]"

definition mem_state :: "(ustore, rview) nat_state" where
  "mem_state = \<lparr>NatPMappingList = [], NatPTriggerList = [],
     Nat = \<lparr>nat_TCPTimeout = 0, nat_UDPTimeout = 0, nat_ICMPTimeout = 0, nat_EnablePortMapping = True,
            nat_EnableHSPortMapping = True, nat_EnableNATMapping = True\<rparr>,
     Dmz = \<lparr>dmz_bEnabled = False, dmz_RemoteIPStart = [], dmz_RemoteIPEnd = [], dmz_InternalIP = [],
            dmz_InternalMAC = [], dmz_IPv6Host = []\<rparr>,
     MaxInstanceNumber = 0, ulPtNextInstanceNumber = 1, PreviousVisitTime = 0, AliasOfPortMapping = [],
     hIrepFolderNat = Some [''NAT''], hIrepFolderNatPt = Some [''NAT'', ''PORTTRIGGER''],
     g_NatPTTriggerEnable = True, g_NatPFEnable = True, g_NatHSPFEnable = True,
     g_NatOne2OneEnable = True, g_NatLanIP = 0, st_store = mem_store, st_registry = mem_registry,
     st_allocs = 0\<rparr>"

end
