(* ===== verification/Rule_Backend.thy ===== *)
theory Rule_Backend
  imports Nat_Lib
begin

text \<open>
  The contract between the tables of the middle layer and the rule functions of the board support
  layer. A backend keeps a finite map from instance numbers to rules (\<open>view\<close>); \<open>world\<close> carries the
  libraries and the abstraction functions of the store. The port mapping functions and the port
  trigger functions of \<open>cosa_nat_apis.c\<close> both provide it.
\<close>

type_synonym ('s, 'c, 'r) world = "('s, 'c, 'r) libs \<times> ('s \<Rightarrow> ustore) \<times> ('c \<Rightarrow> ustore)"

definition world_ok :: "('s, 'c, 'r) world \<Rightarrow> bool" where
  "world_ok w \<longleftrightarrow> (case w of (L, vs, vc) \<Rightarrow> utopia_ok (lib_ut L) vs vc)"

text \<open>The backend operations of a table, as a client issues them.\<close>

datatype 'e backend_op = BAdd 'e | BSet 'e | BDel ULONG

text \<open>The number an operation is about, its effect, and when a client issues it: an addition only for a
  free number, which is what the instance number generators promise.\<close>

definition op_key :: "('e \<Rightarrow> ULONG) \<Rightarrow> 'e backend_op \<Rightarrow> ULONG" where
  "op_key key x = (case x of BAdd e \<Rightarrow> key e | BSet e \<Rightarrow> key e | BDel n \<Rightarrow> n)"

definition exec_op :: "('w \<Rightarrow> 'st \<Rightarrow> 'e \<Rightarrow> ansc_status \<times> 'st) \<Rightarrow> ('w \<Rightarrow> 'st \<Rightarrow> 'e \<Rightarrow> ansc_status \<times> 'st) \<Rightarrow>
    ('w \<Rightarrow> 'st \<Rightarrow> ULONG \<Rightarrow> ansc_status \<times> 'st) \<Rightarrow> 'w \<Rightarrow> 'st \<Rightarrow> 'e backend_op \<Rightarrow> 'st" where
  "exec_op add upd del w st x = (case x of BAdd e \<Rightarrow> snd (add w st e) | BSet e \<Rightarrow> snd (upd w st e)
                          | BDel n \<Rightarrow> snd (del w st n))"

definition op_pre :: "('w \<Rightarrow> 'st \<Rightarrow> ULONG \<Rightarrow> 'rule option) \<Rightarrow> ('e \<Rightarrow> ULONG) \<Rightarrow> 'w \<Rightarrow> 'st \<Rightarrow>
    'e backend_op \<Rightarrow> bool" where
  "op_pre view key w st x \<longleftrightarrow> (case x of BAdd e \<Rightarrow> view w st (key e) = None | _ \<Rightarrow> True)"

primrec run_pre :: "('w \<Rightarrow> 'st \<Rightarrow> ULONG \<Rightarrow> 'rule option) \<Rightarrow> ('e \<Rightarrow> ULONG) \<Rightarrow>
    ('w \<Rightarrow> 'st \<Rightarrow> 'e \<Rightarrow> ansc_status \<times> 'st) \<Rightarrow> ('w \<Rightarrow> 'st \<Rightarrow> 'e \<Rightarrow> ansc_status \<times> 'st) \<Rightarrow>
    ('w \<Rightarrow> 'st \<Rightarrow> ULONG \<Rightarrow> ansc_status \<times> 'st) \<Rightarrow> 'w \<Rightarrow> 'st \<Rightarrow> 'e backend_op list \<Rightarrow> bool" where
  "run_pre view key add upd del w st [] \<longleftrightarrow> True"
| "run_pre view key add upd del w st (x # xs) \<longleftrightarrow>
     op_pre view key w st x \<and> run_pre view key add upd del w (exec_op add upd del w st x) xs"

locale rule_backend =
  fixes good :: "'w \<Rightarrow> bool"
    and wf :: "'w \<Rightarrow> 'st \<Rightarrow> bool"
    and view :: "'w \<Rightarrow> 'st \<Rightarrow> ULONG \<Rightarrow> 'rule option"
    and key :: "'e \<Rightarrow> ULONG"
    and rule :: "'w \<Rightarrow> 'e \<Rightarrow> 'rule"
    and add :: "'w \<Rightarrow> 'st \<Rightarrow> 'e \<Rightarrow> ansc_status \<times> 'st"
    and upd :: "'w \<Rightarrow> 'st \<Rightarrow> 'e \<Rightarrow> ansc_status \<times> 'st"
    and del :: "'w \<Rightarrow> 'st \<Rightarrow> ULONG \<Rightarrow> ansc_status \<times> 'st"
  assumes add_ok: "good w \<Longrightarrow> wf w st \<Longrightarrow> view w st (key e) = None \<Longrightarrow>
      add w st e = (s, st') \<Longrightarrow>
      wf w st' \<and> view w st' = (if ansc_ok s then (view w st)(key e \<mapsto> rule w e) else view w st)"
    and set_ok: "good w \<Longrightarrow> wf w st \<Longrightarrow> upd w st e = (s, st') \<Longrightarrow>
      wf w st' \<and> (\<forall>n. n \<noteq> key e \<longrightarrow> view w st' n = view w st n) \<and>
      (ansc_ok s \<longrightarrow> view w st (key e) \<noteq> None \<longrightarrow> view w st' (key e) = Some (rule w e))"
    and del_ok: "good w \<Longrightarrow> wf w st \<Longrightarrow> del w st n = (s, st') \<Longrightarrow>
      wf w st' \<and> view w st' = (if ansc_ok s then (view w st)(n := None) else view w st)"
begin

text \<open>Reading back what was written.\<close>

lemma add_lookup:
  "good w \<Longrightarrow> wf w st \<Longrightarrow> view w st (key e) = None \<Longrightarrow> add w st e = (ANSC_SUCCESS, st') \<Longrightarrow>
   view w st' (key e) = Some (rule w e)"
  using add_ok [of w st e ANSC_SUCCESS st'] by simp

lemma del_lookup:
  "good w \<Longrightarrow> wf w st \<Longrightarrow> del w st n = (ANSC_SUCCESS, st') \<Longrightarrow> view w st' n = None"
  using del_ok [of w st n ANSC_SUCCESS st'] by simp

lemma add_del:
  assumes "good w" "wf w st" "view w st (key e) = None"
    "add w st e = (ANSC_SUCCESS, st1)" "del w st1 (key e) = (ANSC_SUCCESS, st2)"
  shows "view w st2 = view w st"
  using add_ok [OF assms(1-4)] del_ok [OF assms(1) _ assms(5)] assms(3) by (auto simp: fun_eq_iff)

text \<open>A run of operations leaves every other number alone.\<close>

lemma exec_frame:
  assumes "good w" "wf w st" "op_pre view key w st x" "n \<noteq> op_key key x"
  shows "wf w (exec_op add upd del w st x) \<and> view w (exec_op add upd del w st x) n = view w st n"
proof (cases x)
  case (BAdd e)
  obtain s st' where "add w st e = (s, st')" by fastforce
  with BAdd assms add_ok [of w st e s st'] show ?thesis by (simp add: exec_op_def op_key_def op_pre_def)
next
  case (BSet e)
  obtain s st' where "upd w st e = (s, st')" by fastforce
  with BSet assms set_ok [of w st e s st'] show ?thesis by (simp add: exec_op_def op_key_def)
next
  case (BDel k)
  obtain s st' where "del w st k = (s, st')" by fastforce
  with BDel assms del_ok [of w st k s st'] show ?thesis by (simp add: exec_op_def op_key_def)
qed

lemma run_frame:
  "good w \<Longrightarrow> wf w st \<Longrightarrow> run_pre view key add upd del w st xs \<Longrightarrow> n \<notin> op_key key ` set xs \<Longrightarrow>
   wf w (foldl (exec_op add upd del w) st xs) \<and> view w (foldl (exec_op add upd del w) st xs) n = view w st n"
  by (induction xs arbitrary: st) (auto simp: exec_frame)

end

end
