(* ===== verification/Nat_Backend_PM.thy ===== *)
theory Nat_Backend_PM
  imports Rule_Backend
begin

text \<open>
  The port mapping half of the board support layer, \<open>cosa_nat_apis.c\<close> of \<open>source-arm\<close>: parameter
  checks, and reading, adding, deleting and changing the rules of Utopia's store. Every function
  opens a context with \<open>Utopia_Init\<close>, works on it and either commits or discards it. A rule with one
  external port and no public address is a \<open>portFwdSingle_t\<close>, any other a \<open>portFwdRange_t\<close>.
\<close>

unbundle bit_operations_syntax

abbreviation commit :: "('s, 'c, 'r) libs \<Rightarrow> ('s, 'r) nat_state \<Rightarrow> 'c \<Rightarrow> ('s, 'r) nat_state" where
  "commit L st c \<equiv> st\<lparr>st_store := ut_Commit (lib_ut L) (st_store st) c\<rparr>"

section \<open>Parameter checks\<close>

text \<open>\<open>CosaDmlNatChkPortRange\<close> and its trigger twin return an \<open>int\<close> that the callers compare with
  \<open>FALSE\<close>; \<open>ANSC_STATUS_FAILURE\<close> is \<open>(ULONG) -1\<close>.\<close>

definition CosaDmlNatChkPortRange :: "('s, 'c, 'r) libs \<Rightarrow> ('s, 'r) nat_state \<Rightarrow> ULONG \<Rightarrow> bool \<Rightarrow>
    USHORT \<Rightarrow> USHORT \<Rightarrow> UCHAR \<Rightarrow> bool \<Rightarrow> int" where
  "CosaDmlNatChkPortRange L st n enabled pstart pend protocol is_trigger =
     (if \<not> enabled then 1
      else (case ut_Init (lib_ut L) (st_store st) of
          None \<Rightarrow> - 1
        | Some c \<Rightarrow> ut_CheckPortRange (lib_ut L) c n (uint pstart) (uint pend)
                      (SB_2_U_PF_PPOTOCOL protocol) is_trigger))"

definition CosaDmlNatChkTriggerPortRange :: "('s, 'c, 'r) libs \<Rightarrow> ('s, 'r) nat_state \<Rightarrow> ULONG \<Rightarrow> bool \<Rightarrow>
    USHORT \<Rightarrow> USHORT \<Rightarrow> UCHAR \<Rightarrow> bool \<Rightarrow> int" where
  "CosaDmlNatChkTriggerPortRange L st n enabled pstart pend protocol is_trigger =
     (if \<not> enabled then 1
      else (case ut_Init (lib_ut L) (st_store st) of
          None \<Rightarrow> - 1
        | Some c \<Rightarrow> ut_CheckPortTriggerRange (lib_ut L) c n (uint pstart) (uint pend)
                      (SB_2_U_PF_PPOTOCOL protocol) is_trigger))"

definition CosaDmlChkDesp :: "string \<Rightarrow> bool" where
  "CosaDmlChkDesp desp = (case desp of [] \<Rightarrow> False | c # _ \<Rightarrow> c \<noteq> CHR '' '')"

text \<open>\<open>inet_pton (AF_INET, s, &a)\<close> leaves \<open>a\<close> alone when \<open>s\<close> is no address.\<close>

definition pton4 :: "('s, 'c, 'r) libs \<Rightarrow> string \<Rightarrow> ULONG \<Rightarrow> ULONG" where
  "pton4 L s a = (case lib_inet_pton4 L s of Some v \<Rightarrow> v | None \<Rightarrow> a)"

definition CosaDmlNatChkPortMappingClient :: "('s, 'c, 'r) libs \<Rightarrow> ('s, 'r) nat_state \<Rightarrow> ULONG \<Rightarrow> bool" where
  "CosaDmlNatChkPortMappingClient L st client =
     (if client = 0xffffffff then True
      else (case ut_Init (lib_ut L) (st_store st) of
          None \<Rightarrow> False
        | Some c \<Rightarrow>
            let dhcp = snd (ut_GetDHCPServerSettings (lib_ut L) c);
                startIP = htonl (pton4 L (dhcp_IPAddressStart dhcp) 0xffffffff);
                endIP = htonl (pton4 L (dhcp_IPAddressEnd dhcp) 0xffffffff);
                checkIP = htonl client;
                lan = snd (ut_GetLanSettings (lib_ut L) c);
                ipaddr = pton4 L (lan_ipaddr lan) 0xffffffff;
                netmask = pton4 L (lan_netmask lan) 0xffffffff
            in client \<noteq> ipaddr \<and> (startIP \<le> checkIP \<and> checkIP \<le> endIP) \<and>
               \<not> IPv4Addr_IsBroadcast client ipaddr netmask \<and>
               \<not> IPv4Addr_IsNetworkAddr client ipaddr netmask \<and>
               (IPv4Addr_IsSameNetwork client ipaddr netmask \<or>
                IPv4Addr_IsSameNetwork client 0xac100c00 0xffffff00)))"

definition CosaDmlNatChkPortMappingMaxRuleNum :: "COSA_DML_NAT_PMAPPING \<Rightarrow> bool" where
  "CosaDmlNatChkPortMappingMaxRuleNum pEntry = True"

definition CosaDmlNatChkEnableFlg :: "('s, 'r) nat_state \<Rightarrow> COSA_DML_NAT_PMAPPING \<Rightarrow> bool" where
  "CosaDmlNatChkEnableFlg st p =
     (if pm_PublicIP p \<noteq> 0 \<and> \<not> g_NatOne2OneEnable st then False
      else if (pm_InternalPort p = 0 \<and> pm_PublicIP p = 0) \<and> \<not> g_NatPFEnable st then False
      else if (pm_InternalPort p \<noteq> 0 \<and> pm_PublicIP p = 0) \<and> \<not> g_NatHSPFEnable st then False
      else True)"

definition Check_PF_parameter :: "('s, 'c, 'r) libs \<Rightarrow> ('s, 'r) nat_state \<Rightarrow> COSA_DML_NAT_PMAPPING \<Rightarrow> bool" where
  "Check_PF_parameter L st p =
     (if pm_PublicIP p = 0 \<and>
         (pm_ExternalPort p = 0 \<or>
          pm_ExternalPortEndRange p < pm_ExternalPort p \<or>
          (pm_Protocol p > 3 \<or> pm_Protocol p < 1) \<or>
          CosaDmlNatChkPortRange L st (pm_InstanceNumber p) (pm_bEnabled p) (pm_ExternalPort p)
            (pm_ExternalPortEndRange p) (pm_Protocol p) False = 0)
      then False
      else if pm_InternalClient p = 0 \<or> \<not> CosaDmlNatChkPortMappingClient L st (pm_InternalClient p)
      then False
      else True)"

section \<open>Adding a rule to a context\<close>

definition single_of :: "('s, 'c) utopia \<Rightarrow> COSA_DML_NAT_PMAPPING \<Rightarrow> portFwdSingle_t" where
  "single_of U e = \<lparr>
     ps_enabled = pm_bEnabled e, ps_prevRuleEnabledState = pm_bEnabled e,
     ps_name = strncpy (ut_NAME_SZ U) (pm_Description e), ps_rule_id = pm_InstanceNumber e,
     ps_protocol = SB_2_U_PF_PPOTOCOL (pm_Protocol e), ps_external_port = uint (pm_ExternalPort e),
     ps_internal_port = uint (pm_InternalPort e), ps_dest_ip = dotted (pm_InternalClient e),
     ps_dest_ipv6 = strncpy (ut_IPV6_SZ U) (pm_InternalClientV6 e)\<rparr>"

definition range_of :: "('s, 'c) utopia \<Rightarrow> COSA_DML_NAT_PMAPPING \<Rightarrow> portFwdRange_t" where
  "range_of U e = \<lparr>
     pr_enabled = pm_bEnabled e, pr_prevRuleEnabledState = pm_bEnabled e,
     pr_name = strncpy (ut_NAME_SZ U) (pm_Description e), pr_rule_id = pm_InstanceNumber e,
     pr_protocol = SB_2_U_PF_PPOTOCOL (pm_Protocol e), pr_start_port = uint (pm_ExternalPort e),
     pr_end_port = uint (pm_ExternalPortEndRange e), pr_internal_port = uint (pm_InternalPort e),
     pr_internal_port_range_size = 0, pr_dest_ip = dotted (pm_InternalClient e),
     pr_public_ip = dotted (pm_PublicIP e),
     pr_dest_ipv6 = strncpy (ut_IPV6_SZ U) (pm_InternalClientV6 e)\<rparr>"

definition is_single :: "COSA_DML_NAT_PMAPPING \<Rightarrow> bool" where
  "is_single e \<longleftrightarrow> pm_ExternalPortEndRange e = pm_ExternalPort e \<and> pm_PublicIP e = 0"

text \<open>\<open>_AddPortMapping\<close>. A failing \<open>sprintf_s\<close> into an address field is its first error exit.\<close>

definition AddPortMapping_ctx :: "('s, 'c) utopia \<Rightarrow> 'c \<Rightarrow> COSA_DML_NAT_PMAPPING \<Rightarrow> ansc_status \<times> 'c" where
  "AddPortMapping_ctx U c e =
     (if is_single e then
        (case sprintf_s (ut_IPADDR_SZ U) (dotted (pm_InternalClient e)) of
           None \<Rightarrow> (ANSC_FAILURE, c)
         | Some _ \<Rightarrow>
             (case ut_AddPortForwarding U c (single_of U e) of (rc, c') \<Rightarrow>
                if \<not> rc then (ANSC_FAILURE, c') else (ANSC_SUCCESS, c')))
      else
        (case sprintf_s (ut_IPADDR_SZ U) (dotted (pm_InternalClient e)) of
           None \<Rightarrow> (ANSC_FAILURE, c)
         | Some _ \<Rightarrow>
             (case sprintf_s (ut_IPADDR_SZ U) (dotted (pm_PublicIP e)) of
                None \<Rightarrow> (ANSC_FAILURE, c)
              | Some _ \<Rightarrow>
                  (case ut_AddPortForwardingRange U c (range_of U e) of (rc, c') \<Rightarrow>
                     if \<not> rc then (ANSC_FAILURE, c') else (ANSC_SUCCESS, c')))))"

section \<open>Reading rules\<close>

text \<open>The fields that both readers set from a rule; \<open>CosaDmlNatGetPortMapping\<close> leaves the others of the
  caller's structure alone.\<close>

definition pm_from_range :: "('s, 'c, 'r) libs \<Rightarrow> portFwdRange_t \<Rightarrow> COSA_DML_NAT_PMAPPING \<Rightarrow> COSA_DML_NAT_PMAPPING" where
  "pm_from_range L r p = p\<lparr>
     pm_AllInterfaces := True, pm_bEnabled := pr_enabled r,
     pm_ExternalPort := word_of_int (pr_start_port r),
     pm_ExternalPortEndRange := word_of_int (pr_end_port r),
     pm_InternalPort := word_of_int (pr_internal_port r), pm_LeaseDuration := 0,
     pm_Protocol := U_2_SB_PF_PROTOCOL (pr_protocol r), pm_RemoteHost := 0,
     pm_PublicIP := lib_inet_addr L (pr_public_ip r),
     pm_Status := (if pr_enabled r then COSA_DML_NAT_STATUS_Enabled else COSA_DML_NAT_STATUS_Disabled),
     pm_InternalClient := lib_inet_addr L (pr_dest_ip r), pm_InstanceNumber := pr_rule_id r,
     pm_Description := snd (strcpy_s PM_DESCRIPTION_SIZE (pr_name r)),
     pm_Origin := Origin_Static\<rparr>"

definition pm_from_single :: "('s, 'c, 'r) libs \<Rightarrow> portFwdSingle_t \<Rightarrow> COSA_DML_NAT_PMAPPING \<Rightarrow> COSA_DML_NAT_PMAPPING" where
  "pm_from_single L r p = p\<lparr>
     pm_AllInterfaces := True, pm_bEnabled := ps_enabled r,
     pm_ExternalPort := word_of_int (ps_external_port r),
     pm_ExternalPortEndRange := word_of_int (ps_external_port r),
     pm_InternalPort := word_of_int (ps_internal_port r), pm_LeaseDuration := 0,
     pm_Protocol := U_2_SB_PF_PROTOCOL (ps_protocol r), pm_RemoteHost := 0, pm_PublicIP := 0,
     pm_Status := (if ps_enabled r then COSA_DML_NAT_STATUS_Enabled else COSA_DML_NAT_STATUS_Disabled),
     pm_InternalClient := lib_inet_addr L (ps_dest_ip r), pm_InstanceNumber := ps_rule_id r,
     pm_Description := snd (strcpy_s PM_DESCRIPTION_SIZE (ps_name r)),
     pm_Origin := Origin_Static\<rparr>"

definition CosaDmlNatGetPortMapping :: "('s, 'c, 'r) libs \<Rightarrow> ('s, 'r) nat_state \<Rightarrow> ULONG \<Rightarrow>
    COSA_DML_NAT_PMAPPING \<Rightarrow> ansc_status \<times> COSA_DML_NAT_PMAPPING" where
  "CosaDmlNatGetPortMapping L st n p =
     (case ut_Init (lib_ut L) (st_store st) of
        None \<Rightarrow> (ANSC_FAILURE, p)
      | Some c \<Rightarrow>
          (case ut_GetPortForwardingRangeByRuleId (lib_ut L) c n of
             Some r \<Rightarrow> (ANSC_SUCCESS, pm_from_range L r p)
           | None \<Rightarrow>
               (case ut_GetPortForwardingByRuleId (lib_ut L) c n of
                  Some r \<Rightarrow> (ANSC_SUCCESS, pm_from_single L r p)
                | None \<Rightarrow> (ANSC_FAILURE, p))))"

text \<open>The array that \<open>CosaDmlNatGetPortMappings\<close> builds: zeroed structures filled from the single
  rules, then from the range rules.\<close>

definition pm_list_single :: "('s, 'c, 'r) libs \<Rightarrow> portFwdSingle_t \<Rightarrow> COSA_DML_NAT_PMAPPING" where
  "pm_list_single L r = (pm_from_single L r zero_pm)
     \<lparr>pm_InternalClientV6 := snd (strcpy_s PM_CLIENTV6_SIZE (ps_dest_ipv6 r))\<rparr>"

definition pm_list_range :: "('s, 'c, 'r) libs \<Rightarrow> portFwdRange_t \<Rightarrow> COSA_DML_NAT_PMAPPING" where
  "pm_list_range L r = (pm_from_range L r zero_pm)
     \<lparr>pm_InternalClientV6 := snd (strcpy_s PM_CLIENTV6_SIZE (pr_dest_ipv6 r))\<rparr>"

text \<open>\<open>CosaDmlNatGetPortMappings\<close>: \<open>None\<close> is \<open>NULL\<close> with count 0. On success the context is committed.\<close>

definition CosaDmlNatGetPortMappings :: "('s, 'c, 'r) libs \<Rightarrow> ('s, 'r) nat_state \<Rightarrow>
    COSA_DML_NAT_PMAPPING list option \<times> ('s, 'r) nat_state" where
  "CosaDmlNatGetPortMappings L st =
     (case ut_Init (lib_ut L) (st_store st) of
        None \<Rightarrow> (None, st)
      | Some c \<Rightarrow>
          let rangeInfo = (case ut_GetPortForwardingRange (lib_ut L) c of Some l \<Rightarrow> l | None \<Rightarrow> []);
              singleInfo = (case ut_GetPortForwarding (lib_ut L) c of Some l \<Rightarrow> l | None \<Rightarrow> [])
          in if length singleInfo + length rangeInfo = 0 then (None, st)
             else (case AnscAllocateMemory L st of
                 (None, st1) \<Rightarrow> (None, st1)
               | (Some _, st1) \<Rightarrow>
                   (Some (map (pm_list_single L) singleInfo @ map (pm_list_range L) rangeInfo),
                    commit L st1 c)))"

section \<open>Adding, deleting and changing rules\<close>

definition CosaDmlNatAddPortMapping :: "('s, 'c, 'r) libs \<Rightarrow> ('s, 'r) nat_state \<Rightarrow> COSA_DML_NAT_PMAPPING \<Rightarrow>
    ansc_status \<times> ('s, 'r) nat_state" where
  "CosaDmlNatAddPortMapping L st e =
     (if \<not> Check_PF_parameter L st e then (ANSC_FAILURE, st)
      else if \<not> CosaDmlNatChkEnableFlg st e then (ANSC_FAILURE, st)
      else (case ut_Init (lib_ut L) (st_store st) of
          None \<Rightarrow> (ANSC_FAILURE, st)
        | Some c \<Rightarrow>
            (case AddPortMapping_ctx (lib_ut L) c e of (status, c') \<Rightarrow>
               if ansc_ok status then (ANSC_SUCCESS, commit L st c') else (ANSC_FAILURE, st))))"

definition CosaDmlNatDelPortMapping :: "('s, 'c, 'r) libs \<Rightarrow> ('s, 'r) nat_state \<Rightarrow> ULONG \<Rightarrow>
    ansc_status \<times> ('s, 'r) nat_state" where
  "CosaDmlNatDelPortMapping L st n =
     (if n < 1 then (ANSC_FAILURE, st)
      else (case ut_Init (lib_ut L) (st_store st) of
          None \<Rightarrow> (ANSC_FAILURE, st)
        | Some c \<Rightarrow>
            (case ut_GetPortForwardingByRuleId (lib_ut L) c n of
               Some _ \<Rightarrow>
                 (case ut_DelPortForwardingByRuleId (lib_ut L) c n of (rc, c') \<Rightarrow>
                    if rc then (ANSC_SUCCESS, commit L st c') else (ANSC_FAILURE, st))
             | None \<Rightarrow>
                 (case ut_GetPortForwardingRangeByRuleId (lib_ut L) c n of
                    Some _ \<Rightarrow>
                      (case ut_DelPortForwardingRangeByRuleId (lib_ut L) c n of (rc, c') \<Rightarrow>
                         if rc then (ANSC_SUCCESS, commit L st c') else (ANSC_FAILURE, st))
                  | None \<Rightarrow> (ANSC_FAILURE, st)))))"

text \<open>\<open>CosaDmlNatSetPortMapping\<close>: delete the rule where it is found, then add it. The context is
  committed when the addition fails, too.\<close>

definition DelRange_ctx :: "('s, 'c) utopia \<Rightarrow> 'c \<Rightarrow> ULONG \<Rightarrow> 'c option" where
  "DelRange_ctx U c n =
     (case ut_GetPortForwardingRangeByRuleId U c n of
        None \<Rightarrow> Some c
      | Some _ \<Rightarrow> (case ut_DelPortForwardingRangeByRuleId U c n of
            (rc, c') \<Rightarrow> if \<not> rc then None else Some c'))"

definition DelSingle_ctx :: "('s, 'c) utopia \<Rightarrow> 'c \<Rightarrow> ULONG \<Rightarrow> 'c option" where
  "DelSingle_ctx U c n =
     (case ut_GetPortForwardingByRuleId U c n of
        None \<Rightarrow> Some c
      | Some _ \<Rightarrow> (case ut_DelPortForwardingByRuleId U c n of
            (rc, c') \<Rightarrow> if \<not> rc then None else Some c'))"

definition CosaDmlNatSetPortMapping :: "('s, 'c, 'r) libs \<Rightarrow> ('s, 'r) nat_state \<Rightarrow> COSA_DML_NAT_PMAPPING \<Rightarrow>
    ansc_status \<times> ('s, 'r) nat_state" where
  "CosaDmlNatSetPortMapping L st e =
     (if \<not> Check_PF_parameter L st e then (ANSC_FAILURE, st)
      else if \<not> CosaDmlNatChkEnableFlg st e then (ANSC_FAILURE, st)
      else (case ut_Init (lib_ut L) (st_store st) of
          None \<Rightarrow> (ANSC_FAILURE, st)
        | Some c \<Rightarrow>
            (case DelRange_ctx (lib_ut L) c (pm_InstanceNumber e) of
               None \<Rightarrow> (ANSC_FAILURE, st)
             | Some c1 \<Rightarrow>
                 (case DelSingle_ctx (lib_ut L) c1 (pm_InstanceNumber e) of
                    None \<Rightarrow> (ANSC_FAILURE, st)
                  | Some c2 \<Rightarrow>
                      (case AddPortMapping_ctx (lib_ut L) c2 e of (status, c3) \<Rightarrow>
                         if ansc_ok status then (ANSC_SUCCESS, commit L st c3)
                         else (ANSC_FAILURE, commit L st c3))))))"

section \<open>What the functions do to the rule map\<close>

text \<open>The abstract rule map: a number is a range rule when the range table has it, otherwise a single
  rule. The tables share no number.\<close>

datatype pf_rule = Single portFwdSingle_t | Range portFwdRange_t

definition pf_view :: "ustore \<Rightarrow> ULONG \<Rightarrow> pf_rule option" where
  "pf_view v n = (case find (\<lambda>r. pr_rule_id r = n) (u_range v) of
       Some r \<Rightarrow> Some (Range r)
     | None \<Rightarrow> map_option Single (find (\<lambda>r. ps_rule_id r = n) (u_single v)))"

definition pf_disjoint :: "ustore \<Rightarrow> bool" where
  "pf_disjoint v \<longleftrightarrow> ps_rule_id ` set (u_single v) \<inter> pr_rule_id ` set (u_range v) = {}"

definition pf_rule_of :: "('s, 'c) utopia \<Rightarrow> COSA_DML_NAT_PMAPPING \<Rightarrow> pf_rule" where
  "pf_rule_of U e = (if is_single e then Single (single_of U e) else Range (range_of U e))"

lemma rule_of_id [simp]: "ps_rule_id (single_of U e) = pm_InstanceNumber e"
  "pr_rule_id (range_of U e) = pm_InstanceNumber e"
  by (simp_all add: single_of_def range_of_def)

lemma find_snoc: "find P (l @ [x]) = (case find P l of Some y \<Rightarrow> Some y | None \<Rightarrow> if P x then Some x else None)"
  by (induction l) auto

lemma find_filter_key:
  "find (\<lambda>r. k r = n) (filter (\<lambda>r. k r \<noteq> m) l) = (if n = m then None else find (\<lambda>r. k r = n) l)"
  by (induction l) auto

lemma find_None_key: "find (\<lambda>r. k r = n) l = None \<longleftrightarrow> n \<notin> k ` set l"
  by (auto simp: find_None_iff)

lemma find_Some_key: "find (\<lambda>r. k r = n) l = Some r \<Longrightarrow> r \<in> set l \<and> k r = n"
  by (auto simp: find_Some_iff)

lemma pf_view_None:
  "pf_view v n = None \<longleftrightarrow> n \<notin> pr_rule_id ` set (u_range v) \<and> n \<notin> ps_rule_id ` set (u_single v)"
proof (cases "find (\<lambda>r. pr_rule_id r = n) (u_range v)")
  case None
  then have "n \<notin> pr_rule_id ` set (u_range v)" using find_None_key by metis
  then show ?thesis by (simp add: pf_view_def None find_None_key)
next
  case (Some r)
  then show ?thesis using find_Some_key [OF Some] by (auto simp: pf_view_def)
qed

lemma pf_view_add_single:
  "n \<notin> pr_rule_id ` set (u_range v) \<Longrightarrow> n \<notin> ps_rule_id ` set (u_single v) \<Longrightarrow> ps_rule_id r = n \<Longrightarrow>
   pf_view (v\<lparr>u_single := u_single v @ [r]\<rparr>) = (pf_view v)(n \<mapsto> Single r)"
  by (auto simp: pf_view_def find_snoc fun_eq_iff find_None_key [symmetric] split: option.split)

lemma pf_view_add_range:
  "n \<notin> pr_rule_id ` set (u_range v) \<Longrightarrow> pr_rule_id r = n \<Longrightarrow>
   pf_view (v\<lparr>u_range := u_range v @ [r]\<rparr>) = (pf_view v)(n \<mapsto> Range r)"
  by (auto simp: pf_view_def find_snoc fun_eq_iff find_None_key [symmetric] split: option.split)

lemma pf_view_del_single:
  "n \<notin> pr_rule_id ` set (u_range v) \<Longrightarrow>
   pf_view (v\<lparr>u_single := filter (\<lambda>r. ps_rule_id r \<noteq> n) (u_single v)\<rparr>) = (pf_view v)(n := None)"
  by (auto simp: pf_view_def find_filter_key fun_eq_iff find_None_key [symmetric] split: option.split)

lemma pf_view_del_range:
  "n \<notin> ps_rule_id ` set (u_single v) \<Longrightarrow>
   pf_view (v\<lparr>u_range := filter (\<lambda>r. pr_rule_id r \<noteq> n) (u_range v)\<rparr>) = (pf_view v)(n := None)"
  by (auto simp: pf_view_def find_filter_key fun_eq_iff find_None_key [symmetric] split: option.split)

text \<open>Deleting from both tables.\<close>

definition pf_del :: "ustore \<Rightarrow> ULONG \<Rightarrow> ustore" where
  "pf_del v n = v\<lparr>u_single := filter (\<lambda>r. ps_rule_id r \<noteq> n) (u_single v),
                  u_range := filter (\<lambda>r. pr_rule_id r \<noteq> n) (u_range v)\<rparr>"

lemma pf_view_del: "pf_view (pf_del v n) = (pf_view v)(n := None)"
  by (auto simp: pf_view_def pf_del_def find_filter_key fun_eq_iff split: option.split)

lemma pf_disjoint_del: "pf_disjoint v \<Longrightarrow> pf_disjoint (pf_del v n)"
  by (auto simp: pf_disjoint_def pf_del_def)

text \<open>\<open>AddPortMapping_ctx\<close> on a context where the number is free.\<close>

lemma AddPortMapping_ctx_view:
  assumes ok: "utopia_ok U vs vc" and free: "pf_view (vc c) (pm_InstanceNumber e) = None"
    and dis: "pf_disjoint (vc c)" and r: "AddPortMapping_ctx U c e = (s, c')"
  shows "pf_disjoint (vc c') \<and>
    pf_view (vc c') = (if ansc_ok s then (pf_view (vc c))(pm_InstanceNumber e \<mapsto> pf_rule_of U e)
                       else pf_view (vc c))"
proof (cases "is_single e")
  case True
  then consider (fail) "s = ANSC_FAILURE" "vc c' = vc c"
    | (add) "s = ANSC_SUCCESS" "vc c' = (vc c)\<lparr>u_single := u_single (vc c) @ [single_of U e]\<rparr>"
    using r utopia_single_upd(2) [OF ok]
    by (auto simp: AddPortMapping_ctx_def split: option.splits prod.splits if_splits)
  then show ?thesis
    using free dis True by cases (auto simp: pf_view_None pf_disjoint_def pf_rule_of_def intro!: pf_view_add_single)
next
  case False
  then consider (fail) "s = ANSC_FAILURE" "vc c' = vc c"
    | (add) "s = ANSC_SUCCESS" "vc c' = (vc c)\<lparr>u_range := u_range (vc c) @ [range_of U e]\<rparr>"
    using r utopia_range_upd(2) [OF ok]
    by (auto simp: AddPortMapping_ctx_def split: option.splits prod.splits if_splits)
  then show ?thesis
    using free dis False by cases (auto simp: pf_view_None pf_disjoint_def pf_rule_of_def intro!: pf_view_add_range)
qed

section \<open>The contract of the port mapping backend\<close>

definition pf_store :: "('s, 'c, 'r) world \<Rightarrow> ('s, 'r) nat_state \<Rightarrow> ustore" where
  "pf_store w st = fst (snd w) (st_store st)"

definition pf_add :: "('s, 'c, 'r) world \<Rightarrow> ('s, 'r) nat_state \<Rightarrow> COSA_DML_NAT_PMAPPING \<Rightarrow>
    ansc_status \<times> ('s, 'r) nat_state" where
  "pf_add w = CosaDmlNatAddPortMapping (fst w)"

definition pf_set :: "('s, 'c, 'r) world \<Rightarrow> ('s, 'r) nat_state \<Rightarrow> COSA_DML_NAT_PMAPPING \<Rightarrow>
    ansc_status \<times> ('s, 'r) nat_state" where
  "pf_set w = CosaDmlNatSetPortMapping (fst w)"

definition pf_delete :: "('s, 'c, 'r) world \<Rightarrow> ('s, 'r) nat_state \<Rightarrow> ULONG \<Rightarrow>
    ansc_status \<times> ('s, 'r) nat_state" where
  "pf_delete w = CosaDmlNatDelPortMapping (fst w)"

lemma CosaDmlNatAddPortMapping_view:
  assumes ok: "utopia_ok (lib_ut L) vs vc" and dis: "pf_disjoint (vs (st_store st))"
    and free: "pf_view (vs (st_store st)) (pm_InstanceNumber e) = None"
    and r: "CosaDmlNatAddPortMapping L st e = (s, st')"
  shows "pf_disjoint (vs (st_store st')) \<and>
    pf_view (vs (st_store st')) = (if ansc_ok s
      then (pf_view (vs (st_store st)))(pm_InstanceNumber e \<mapsto> pf_rule_of (lib_ut L) e)
      else pf_view (vs (st_store st)))"
proof (cases "\<exists>c s1 c'. ut_Init (lib_ut L) (st_store st) = Some c \<and>
    AddPortMapping_ctx (lib_ut L) c e = (s1, c') \<and> ansc_ok s1 \<and> s = ANSC_SUCCESS \<and> st' = commit L st c'")
  case True
  then obtain c s1 c' where c: "ut_Init (lib_ut L) (st_store st) = Some c"
    "AddPortMapping_ctx (lib_ut L) c e = (s1, c')" "ansc_ok s1" "s = ANSC_SUCCESS" "st' = commit L st c'"
    by blast
  then have v: "vc c = vs (st_store st)" using utopia_Init [OF ok] by blast
  show ?thesis
    using AddPortMapping_ctx_view [OF ok _ _ c(2)] free dis v c(3-5) ok by (simp add: ansc_ok_def)
next
  case False
  then have "s = ANSC_FAILURE \<and> st' = st"
    using r by (auto simp: CosaDmlNatAddPortMapping_def split: if_splits option.splits prod.splits)
  with dis show ?thesis by simp
qed

lemma CosaDmlNatDelPortMapping_view:
  assumes ok: "utopia_ok (lib_ut L) vs vc" and dis: "pf_disjoint (vs (st_store st))"
    and r: "CosaDmlNatDelPortMapping L st n = (s, st')"
  shows "pf_disjoint (vs (st_store st')) \<and>
    pf_view (vs (st_store st')) = (if ansc_ok s then (pf_view (vs (st_store st)))(n := None)
                                   else pf_view (vs (st_store st)))"
proof -
  let ?U = "lib_ut L" and ?v = "vs (st_store st)"
  have "s = ANSC_FAILURE \<and> st' = st \<or>
    (\<exists>c x c'. ut_Init ?U (st_store st) = Some c \<and> ut_GetPortForwardingByRuleId ?U c n = Some x \<and>
       ut_DelPortForwardingByRuleId ?U c n = (True, c') \<and> s = ANSC_SUCCESS \<and> st' = commit L st c') \<or>
    (\<exists>c c'. ut_Init ?U (st_store st) = Some c \<and> ut_GetPortForwardingByRuleId ?U c n = None \<and>
       ut_DelPortForwardingRangeByRuleId ?U c n = (True, c') \<and> s = ANSC_SUCCESS \<and> st' = commit L st c')"
    using r unfolding CosaDmlNatDelPortMapping_def
    by (simp split: if_split_asm option.split_asm prod.split_asm)
  then consider (fail) "s = ANSC_FAILURE" "st' = st"
    | (single) c x c' where "ut_Init ?U (st_store st) = Some c"
        "ut_GetPortForwardingByRuleId ?U c n = Some x"
        "ut_DelPortForwardingByRuleId ?U c n = (True, c')" "s = ANSC_SUCCESS" "st' = commit L st c'"
    | (range) c c' where "ut_Init ?U (st_store st) = Some c"
        "ut_GetPortForwardingByRuleId ?U c n = None"
        "ut_DelPortForwardingRangeByRuleId ?U c n = (True, c')" "s = ANSC_SUCCESS" "st' = commit L st c'"
    by blast
  then show ?thesis
  proof cases
    case fail
    with dis show ?thesis by simp
  next
    case single
    then have v: "vc c = ?v" using utopia_Init [OF ok] by blast
    have "n \<in> ps_rule_id ` set (u_single ?v)"
      using single(2) find_Some_key [of ps_rule_id n "u_single ?v" x] by (auto simp: utopia_by_id [OF ok] v)
    then have "n \<notin> pr_rule_id ` set (u_range ?v)" using dis by (auto simp: pf_disjoint_def)
    then show ?thesis
      using utopia_single_upd(3) [OF ok single(3)] single(4,5) ok v dis pf_view_del_single [of n ?v]
      by (auto simp: pf_disjoint_def)
  next
    case range
    then have v: "vc c = ?v" using utopia_Init [OF ok] by blast
    have "n \<notin> ps_rule_id ` set (u_single ?v)"
      using range(2) by (simp add: utopia_by_id [OF ok] v find_None_key)
    then show ?thesis
      using utopia_range_upd(3) [OF ok range(3)] range(4,5) ok v dis pf_view_del_range [of n ?v]
      by (auto simp: pf_disjoint_def)
  qed
qed

lemma filter_absent: "n \<notin> k ` set l \<Longrightarrow> filter (\<lambda>r. k r \<noteq> n) l = l"
  by (induction l) auto

lemma DelRange_ctx_view:
  assumes ok: "utopia_ok U vs vc" and r: "DelRange_ctx U c n = Some c'"
  shows "vc c' = (vc c)\<lparr>u_range := filter (\<lambda>r. pr_rule_id r \<noteq> n) (u_range (vc c))\<rparr>"
proof (cases "ut_GetPortForwardingRangeByRuleId U c n")
  case None
  then have "n \<notin> pr_rule_id ` set (u_range (vc c))" by (simp add: utopia_by_id [OF ok] find_None_key)
  with None r show ?thesis by (simp add: DelRange_ctx_def filter_absent)
next
  case (Some x)
  with r show ?thesis
    using utopia_range_upd(3) [OF ok] by (auto simp: DelRange_ctx_def split: prod.splits if_splits)
qed

lemma DelSingle_ctx_view:
  assumes ok: "utopia_ok U vs vc" and r: "DelSingle_ctx U c n = Some c'"
  shows "vc c' = (vc c)\<lparr>u_single := filter (\<lambda>r. ps_rule_id r \<noteq> n) (u_single (vc c))\<rparr>"
proof (cases "ut_GetPortForwardingByRuleId U c n")
  case None
  then have "n \<notin> ps_rule_id ` set (u_single (vc c))" by (simp add: utopia_by_id [OF ok] find_None_key)
  with None r show ?thesis by (simp add: DelSingle_ctx_def filter_absent)
next
  case (Some x)
  with r show ?thesis
    using utopia_single_upd(3) [OF ok] by (auto simp: DelSingle_ctx_def split: prod.splits if_splits)
qed

lemma CosaDmlNatSetPortMapping_view:
  assumes ok: "utopia_ok (lib_ut L) vs vc" and dis: "pf_disjoint (vs (st_store st))"
    and r: "CosaDmlNatSetPortMapping L st e = (s, st')"
  shows "pf_disjoint (vs (st_store st')) \<and>
    (pf_view (vs (st_store st')) =
       (pf_view (vs (st_store st)))(pm_InstanceNumber e \<mapsto> pf_rule_of (lib_ut L) e) \<and> ansc_ok s \<or>
     \<not> ansc_ok s \<and> pf_view (vs (st_store st')) \<in>
       {pf_view (vs (st_store st)), (pf_view (vs (st_store st)))(pm_InstanceNumber e := None)})"
proof -
  let ?U = "lib_ut L" and ?v = "vs (st_store st)" and ?n = "pm_InstanceNumber e"
  have "s = ANSC_FAILURE \<and> st' = st \<or>
    (\<exists>c c1 c2 s3 c3. ut_Init ?U (st_store st) = Some c \<and> DelRange_ctx ?U c ?n = Some c1 \<and>
        DelSingle_ctx ?U c1 ?n = Some c2 \<and> AddPortMapping_ctx ?U c2 e = (s3, c3) \<and>
        st' = commit L st c3 \<and> s = (if ansc_ok s3 then ANSC_SUCCESS else ANSC_FAILURE))"
    using r unfolding CosaDmlNatSetPortMapping_def
    by (simp split: if_split_asm option.split_asm prod.split_asm) blast+
  then consider (fail) "s = ANSC_FAILURE" "st' = st"
    | (add) c c1 c2 s3 c3 where "ut_Init ?U (st_store st) = Some c" "DelRange_ctx ?U c ?n = Some c1"
        "DelSingle_ctx ?U c1 ?n = Some c2" "AddPortMapping_ctx ?U c2 e = (s3, c3)"
        "st' = commit L st c3" "s = (if ansc_ok s3 then ANSC_SUCCESS else ANSC_FAILURE)"
    by blast
  then show ?thesis
  proof cases
    case fail
    with dis show ?thesis by simp
  next
    case add
    have v: "vc c = ?v" using utopia_Init [OF ok add(1)] .
    have c2: "vc c2 = pf_del ?v ?n"
      using DelRange_ctx_view [OF ok add(2)] DelSingle_ctx_view [OF ok add(3)] v
      by (simp add: pf_del_def)
    have "pf_disjoint (vc c3) \<and> pf_view (vc c3) = (if ansc_ok s3
        then (pf_view (vc c2))(?n \<mapsto> pf_rule_of ?U e) else pf_view (vc c2))"
      by (rule AddPortMapping_ctx_view [OF ok _ _ add(4)])
         (simp_all add: c2 pf_view_del pf_disjoint_del dis)
    then show ?thesis using add(5,6) ok by (simp add: c2 pf_view_del)
  qed
qed

interpretation pf: rule_backend world_ok "\<lambda>w st. pf_disjoint (pf_store w st)"
  "\<lambda>w st. pf_view (pf_store w st)" pm_InstanceNumber "\<lambda>w. pf_rule_of (lib_ut (fst w))"
  pf_add pf_set pf_delete
proof unfold_locales
  fix w :: "('a, 'b, 'c) world" and st st' :: "('a, 'c) nat_state" and e s n
  assume good: "world_ok w" and wf: "pf_disjoint (pf_store w st)"
  obtain L vs vc where w: "w = (L, vs, vc)" by (cases w)
  with good have ok: "utopia_ok (lib_ut L) vs vc" by (simp add: world_ok_def)
  show "pf_view (pf_store w st) (pm_InstanceNumber e) = None \<Longrightarrow> pf_add w st e = (s, st') \<Longrightarrow>
      pf_disjoint (pf_store w st') \<and> pf_view (pf_store w st') = (if ansc_ok s
        then (pf_view (pf_store w st))(pm_InstanceNumber e \<mapsto> pf_rule_of (lib_ut (fst w)) e)
        else pf_view (pf_store w st))"
    using CosaDmlNatAddPortMapping_view [OF ok, of st e s st'] wf w by (simp add: pf_store_def pf_add_def)
  show "pf_set w st e = (s, st') \<Longrightarrow> pf_disjoint (pf_store w st') \<and>
      (\<forall>n. n \<noteq> pm_InstanceNumber e \<longrightarrow> pf_view (pf_store w st') n = pf_view (pf_store w st) n) \<and>
      (ansc_ok s \<longrightarrow> pf_view (pf_store w st) (pm_InstanceNumber e) \<noteq> None \<longrightarrow>
       pf_view (pf_store w st') (pm_InstanceNumber e) = Some (pf_rule_of (lib_ut (fst w)) e))"
    using CosaDmlNatSetPortMapping_view [OF ok, of st e s st'] wf w
    by (auto simp: pf_store_def pf_set_def)
  show "pf_delete w st n = (s, st') \<Longrightarrow> pf_disjoint (pf_store w st') \<and>
      pf_view (pf_store w st') =
        (if ansc_ok s then (pf_view (pf_store w st))(n := None) else pf_view (pf_store w st))"
    using CosaDmlNatDelPortMapping_view [OF ok, of st n s st'] wf w
    by (simp add: pf_store_def pf_delete_def)
qed

section \<open>Properties\<close>

lemma CosaDmlNatGetPortMapping_view:
  assumes ok: "utopia_ok (lib_ut L) vs vc" and c: "ut_Init (lib_ut L) (st_store st) = Some c"
  shows "CosaDmlNatGetPortMapping L st n p = (case pf_view (vs (st_store st)) n of
      None \<Rightarrow> (ANSC_FAILURE, p)
    | Some (Single r) \<Rightarrow> (ANSC_SUCCESS, pm_from_single L r p)
    | Some (Range r) \<Rightarrow> (ANSC_SUCCESS, pm_from_range L r p))"
  using utopia_Init [OF ok c]
  by (simp add: CosaDmlNatGetPortMapping_def c utopia_by_id [OF ok] pf_view_def split: option.split)

text \<open>The fields of a mapping that a rule keeps.\<close>

definition pm_same_rule :: "COSA_DML_NAT_PMAPPING \<Rightarrow> COSA_DML_NAT_PMAPPING \<Rightarrow> bool" where
  "pm_same_rule p e \<longleftrightarrow>
     pm_InstanceNumber p = pm_InstanceNumber e \<and> pm_bEnabled p = pm_bEnabled e \<and>
     pm_ExternalPort p = pm_ExternalPort e \<and> pm_ExternalPortEndRange p = pm_ExternalPortEndRange e \<and>
     pm_InternalPort p = pm_InternalPort e \<and> pm_PublicIP p = pm_PublicIP e \<and>
     pm_InternalClient p = pm_InternalClient e \<and> pm_Description p = pm_Description e \<and>
     pm_Protocol p = (if pm_Protocol e \<in> {1, 2} then pm_Protocol e else 3)"

lemma pf_rule_fields:
  assumes "inet_addr_ok (lib_inet_addr L)" "length (pm_Description e) \<le> ut_NAME_SZ (lib_ut L)"
    "length (pm_Description e) < PM_DESCRIPTION_SIZE"
  shows "is_single e \<Longrightarrow> pm_same_rule (pm_from_single L (single_of (lib_ut L) e) p) e"
    "\<not> is_single e \<Longrightarrow> pm_same_rule (pm_from_range L (range_of (lib_ut L) e) p) e"
  using assms
  by (simp_all add: pm_same_rule_def pm_from_single_def pm_from_range_def single_of_def range_of_def
      inet_addr_ok_def protocol_roundtrip_sb is_single_def)


definition example_pm :: COSA_DML_NAT_PMAPPING where
  "example_pm = zero_pm\<lparr>pm_InstanceNumber := 7, pm_bEnabled := True, pm_ExternalPort := 80,
     pm_ExternalPortEndRange := 90, pm_Protocol := 1, pm_InternalClient := 0x0500a8c0,
     pm_Description := ''web''\<rparr>"

lemma example_pm_client: "CosaDmlNatChkPortMappingClient mem_libs mem_state 0x0500a8c0"
  by (simp add: CosaDmlNatChkPortMappingClient_def mem_utopia_def mem_state_def mem_store_def
      pton4_def read_quad_dotted IPv4Addr_IsBroadcast_def IPv4Addr_IsNetworkAddr_def
      IPv4Addr_IsSameNetwork_def htonl_def of_dots_def dot_def)

lemma example_pm_add:
  "CosaDmlNatAddPortMapping mem_libs mem_state example_pm =
     (ANSC_SUCCESS, mem_state\<lparr>st_store := mem_store\<lparr>u_range := [range_of mem_utopia example_pm]\<rparr>\<rparr>)"
proof -
  have cl: "pm_InternalClient example_pm = 0x0500a8c0" by (simp add: example_pm_def)
  have "Check_PF_parameter mem_libs mem_state example_pm"
    unfolding Check_PF_parameter_def cl
    by (simp add: example_pm_client)
       (simp add: example_pm_def zero_pm_def CosaDmlNatChkPortRange_def mem_utopia_def)
  moreover have "CosaDmlNatChkEnableFlg mem_state example_pm"
    by (simp add: CosaDmlNatChkEnableFlg_def mem_state_def)
  moreover have "AddPortMapping_ctx mem_utopia mem_store example_pm =
      (ANSC_SUCCESS, mem_store\<lparr>u_range := [range_of mem_utopia example_pm]\<rparr>)"
  proof -
    have "\<not> is_single example_pm" by (simp add: is_single_def example_pm_def)
    moreover have "length (dotted a) < ut_IPADDR_SZ mem_utopia" for a
      using length_dotted_le [of a] by (simp add: mem_utopia_def)
    moreover have "ut_AddPortForwardingRange mem_utopia mem_store (range_of mem_utopia example_pm) =
        (True, mem_store\<lparr>u_range := [range_of mem_utopia example_pm]\<rparr>)"
      by (simp add: mem_utopia_def mem_store_def)
    ultimately show ?thesis by (simp add: AddPortMapping_ctx_def)
  qed
  ultimately show ?thesis
    by (simp add: CosaDmlNatAddPortMapping_def mem_utopia_def [THEN arg_cong [where f = ut_Init]]
        mem_utopia_def [THEN arg_cong [where f = ut_Commit]] mem_state_def)
qed


end
