(* ===== verification/Nat_Backend_PT.thy ===== *)
theory Nat_Backend_PT
  imports Nat_Backend_PM
begin

text \<open>
  The port trigger half and the feature switches of the board support layer, \<open>cosa_nat_apis.c\<close> of
  \<open>source-arm\<close>: reading and changing trigger rules, the global trigger switch, the three port
  forwarding switches of \<open>COSA_DML_NAT\<close> with the rule updates they cause, initialisation, the LAN
  address and the DMZ settings.
\<close>

section \<open>Port trigger rules\<close>

definition Check_PT_parameter :: "COSA_DML_NAT_PTRIGGER \<Rightarrow> bool" where
  "Check_PT_parameter p =
     (if (pt_TriggerProtocol p > 3 \<or> pt_TriggerProtocol p < 1) \<or> pt_TriggerPortStart p = 0 \<or>
         pt_TriggerPortEnd p = 0 \<or> pt_TriggerPortEnd p < pt_TriggerPortStart p \<or>
         pt_ForwardPortEnd p = 0 \<or> pt_ForwardPortStart p = 0 \<or>
         pt_ForwardPortEnd p < pt_ForwardPortStart p
      then False else True)"

text \<open>The fields both readers set; \<open>Alias\<close> and \<open>Description\<close> are both the rule's name.\<close>

definition pt_from_rule :: "portRangeTrig_t \<Rightarrow> COSA_DML_NAT_PTRIGGER \<Rightarrow> COSA_DML_NAT_PTRIGGER" where
  "pt_from_rule r p = p\<lparr>
     pt_bEnabled := tr_enabled r, pt_TriggerProtocol := U_2_SB_PF_PROTOCOL (tr_trigger_proto r),
     pt_TriggerPortStart := word_of_int (tr_trigger_start r),
     pt_TriggerPortEnd := word_of_int (tr_trigger_end r),
     pt_ForwardProtocol := U_2_SB_PF_PROTOCOL (tr_forward_proto r),
     pt_ForwardPortStart := word_of_int (tr_fwd_range_start r),
     pt_ForwardPortEnd := word_of_int (tr_fwd_range_end r), pt_InstanceNumber := tr_rule_id r,
     pt_Alias := strncpy COSA_DML_ALIAS_LENGTH (tr_name r),
     pt_Description := strncpy PT_DESCRIPTION_SIZE (tr_name r)\<rparr>"

definition CosaDmlNatGetPortTrigger :: "('s, 'c, 'r) libs \<Rightarrow> ('s, 'r) nat_state \<Rightarrow> ULONG \<Rightarrow>
    COSA_DML_NAT_PTRIGGER \<Rightarrow> ansc_status \<times> COSA_DML_NAT_PTRIGGER" where
  "CosaDmlNatGetPortTrigger L st n p =
     (case ut_Init (lib_ut L) (st_store st) of
        None \<Rightarrow> (ANSC_FAILURE, p)
      | Some c \<Rightarrow>
          (case ut_GetPortTriggerByRuleId (lib_ut L) c n of
             None \<Rightarrow> (ANSC_FAILURE, p)
           | Some r \<Rightarrow> (ANSC_SUCCESS, pt_from_rule r p)))"

text \<open>\<open>CosaDmlNatGetPortTriggers\<close>: \<open>None\<close> is \<open>NULL\<close> with count 0.\<close>

definition CosaDmlNatGetPortTriggers :: "('s, 'c, 'r) libs \<Rightarrow> ('s, 'r) nat_state \<Rightarrow> bool \<Rightarrow>
    COSA_DML_NAT_PTRIGGER list option \<times> ('s, 'r) nat_state" where
  "CosaDmlNatGetPortTriggers L st bCommit =
     (case ut_Init (lib_ut L) (st_store st) of
        None \<Rightarrow> (None, st)
      | Some c \<Rightarrow>
          (case ut_GetPortTrigger (lib_ut L) c of
             None \<Rightarrow> (None, st)
           | Some porttrigger \<Rightarrow>
               if length porttrigger = 0 then (None, st)
               else (case AnscAllocateMemory L st of
                   (None, st1) \<Rightarrow> (None, st1)
                 | (Some _, st1) \<Rightarrow>
                     (Some (map (\<lambda>r. pt_from_rule r zero_pt) porttrigger),
                      if bCommit then commit L st1 c else st1))))"

text \<open>The rule that \<open>CosaDmlNatAddPortTrigger\<close> and \<open>CosaDmlNatSetPortTrigger\<close> write: the forward
  protocol is the trigger protocol.\<close>

definition trig_of :: "('s, 'c) utopia \<Rightarrow> COSA_DML_NAT_PTRIGGER \<Rightarrow> portRangeTrig_t" where
  "trig_of U e = \<lparr>
     tr_enabled = pt_bEnabled e, tr_prevRuleEnabledState = pt_bEnabled e,
     tr_name = strncpy (ut_NAME_SZ U) (pt_Description e), tr_rule_id = pt_InstanceNumber e,
     tr_trigger_proto = SB_2_U_PF_PPOTOCOL (pt_TriggerProtocol e),
     tr_forward_proto = SB_2_U_PF_PPOTOCOL (pt_TriggerProtocol e),
     tr_trigger_start = uint (pt_TriggerPortStart e), tr_trigger_end = uint (pt_TriggerPortEnd e),
     tr_fwd_range_start = uint (pt_ForwardPortStart e), tr_fwd_range_end = uint (pt_ForwardPortEnd e)\<rparr>"

definition CosaDmlNatAddPortTrigger :: "('s, 'c, 'r) libs \<Rightarrow> ('s, 'r) nat_state \<Rightarrow>
    COSA_DML_NAT_PTRIGGER \<Rightarrow> ansc_status \<times> ('s, 'r) nat_state" where
  "CosaDmlNatAddPortTrigger L st e =
     (if \<not> g_NatPTTriggerEnable st then (ANSC_FAILURE, st)
      else (case ut_Init (lib_ut L) (st_store st) of
          None \<Rightarrow> (ANSC_FAILURE, st)
        | Some c \<Rightarrow>
            (case ut_AddPortTrigger (lib_ut L) c (trig_of (lib_ut L) e) of (rc, c') \<Rightarrow>
               if \<not> rc then (ANSC_FAILURE, st) else (ANSC_SUCCESS, commit L st c'))))"

definition CosaDmlNatDelPortTrigger :: "('s, 'c, 'r) libs \<Rightarrow> ('s, 'r) nat_state \<Rightarrow>
    COSA_DML_NAT_PTRIGGER \<Rightarrow> ansc_status \<times> ('s, 'r) nat_state" where
  "CosaDmlNatDelPortTrigger L st e =
     (case ut_Init (lib_ut L) (st_store st) of
        None \<Rightarrow> (ANSC_FAILURE, st)
      | Some c \<Rightarrow>
          (case ut_DelPortTriggerByRuleId (lib_ut L) c (pt_InstanceNumber e) of (rc, c') \<Rightarrow>
             if rc then (ANSC_SUCCESS, commit L st c') else (ANSC_FAILURE, st)))"

definition CosaDmlNatSetPortTrigger :: "('s, 'c, 'r) libs \<Rightarrow> ('s, 'r) nat_state \<Rightarrow>
    COSA_DML_NAT_PTRIGGER \<Rightarrow> ansc_status \<times> ('s, 'r) nat_state" where
  "CosaDmlNatSetPortTrigger L st e =
     (if \<not> g_NatPTTriggerEnable st then (ANSC_FAILURE, st)
      else (case ut_Init (lib_ut L) (st_store st) of
          None \<Rightarrow> (ANSC_FAILURE, st)
        | Some c \<Rightarrow>
            (case ut_SetPortTriggerByRuleId (lib_ut L) c (trig_of (lib_ut L) e) of (rc, c') \<Rightarrow>
               if rc then (ANSC_SUCCESS, commit L st c') else (ANSC_FAILURE, st))))"

section \<open>The contract of the port trigger backend\<close>

definition pt_view :: "ustore \<Rightarrow> ULONG \<Rightarrow> portRangeTrig_t option" where
  "pt_view v n = find (\<lambda>r. tr_rule_id r = n) (u_trigger v)"

definition trig_add :: "('s, 'c, 'r) world \<Rightarrow> ('s, 'r) nat_state \<Rightarrow> COSA_DML_NAT_PTRIGGER \<Rightarrow>
    ansc_status \<times> ('s, 'r) nat_state" where
  "trig_add w = CosaDmlNatAddPortTrigger (fst w)"

definition trig_set :: "('s, 'c, 'r) world \<Rightarrow> ('s, 'r) nat_state \<Rightarrow> COSA_DML_NAT_PTRIGGER \<Rightarrow>
    ansc_status \<times> ('s, 'r) nat_state" where
  "trig_set w = CosaDmlNatSetPortTrigger (fst w)"

definition trig_delete :: "('s, 'c, 'r) world \<Rightarrow> ('s, 'r) nat_state \<Rightarrow> ULONG \<Rightarrow>
    ansc_status \<times> ('s, 'r) nat_state" where
  "trig_delete w st n = CosaDmlNatDelPortTrigger (fst w) st (zero_pt\<lparr>pt_InstanceNumber := n\<rparr>)"

lemma trig_of_id [simp]: "tr_rule_id (trig_of U e) = pt_InstanceNumber e"
  by (simp add: trig_of_def)

lemma find_map_key:
  "k r = m \<Longrightarrow> find (\<lambda>x. k x = n) (map (\<lambda>x. if k x = m then r else x) l) =
     (if n = m \<and> m \<in> k ` set l then Some r else find (\<lambda>x. k x = n) l)"
  by (induction l) auto

lemma CosaDmlNatAddPortTrigger_view:
  assumes ok: "utopia_ok (lib_ut L) vs vc" and r: "CosaDmlNatAddPortTrigger L st e = (s, st')"
    and free: "pt_view (vs (st_store st)) (pt_InstanceNumber e) = None"
  shows "pt_view (vs (st_store st')) = (if ansc_ok s
        then (pt_view (vs (st_store st)))(pt_InstanceNumber e \<mapsto> trig_of (lib_ut L) e) else pt_view (vs (st_store st)))"
proof -
  have "s = ANSC_FAILURE \<and> st' = st \<or>
    (\<exists>c c'. ut_Init (lib_ut L) (st_store st) = Some c \<and>
       ut_AddPortTrigger (lib_ut L) c (trig_of (lib_ut L) e) = (True, c') \<and> s = ANSC_SUCCESS \<and> st' = commit L st c')"
    using r unfolding CosaDmlNatAddPortTrigger_def by (simp split: if_split_asm option.split_asm prod.split_asm)
  then show ?thesis
  proof (elim disjE exE conjE)
    assume "s = ANSC_FAILURE" "st' = st"
    then show ?thesis by simp
  next
    fix c c' assume c: "ut_Init (lib_ut L) (st_store st) = Some c"
      "ut_AddPortTrigger (lib_ut L) c (trig_of (lib_ut L) e) = (True, c')" "s = ANSC_SUCCESS" "st' = commit L st c'"
    have "vc c = vs (st_store st)" using utopia_Init [OF ok c(1)] .
    then have "vs (st_store st') = (vs (st_store st))\<lparr>u_trigger := u_trigger (vs (st_store st)) @ [trig_of (lib_ut L) e]\<rparr>"
      using utopia_trigger_upd(2) [OF ok c(2)] c(4) ok by simp
    then show ?thesis using c(3) free by (auto simp: pt_view_def fun_eq_iff find_snoc split: option.split)
  qed
qed

lemma CosaDmlNatDelPortTrigger_view:
  assumes ok: "utopia_ok (lib_ut L) vs vc" and r: "CosaDmlNatDelPortTrigger L st e = (s, st')"
  shows "pt_view (vs (st_store st')) =
    (if ansc_ok s then (pt_view (vs (st_store st)))(pt_InstanceNumber e := None) else pt_view (vs (st_store st)))"
proof -
  have "s = ANSC_FAILURE \<and> st' = st \<or>
    (\<exists>c c'. ut_Init (lib_ut L) (st_store st) = Some c \<and>
       ut_DelPortTriggerByRuleId (lib_ut L) c (pt_InstanceNumber e) = (True, c') \<and> s = ANSC_SUCCESS \<and> st' = commit L st c')"
    using r unfolding CosaDmlNatDelPortTrigger_def by (simp split: if_split_asm option.split_asm prod.split_asm)
  then show ?thesis
  proof (elim disjE exE conjE)
    assume "s = ANSC_FAILURE" "st' = st"
    then show ?thesis by simp
  next
    fix c c' assume c: "ut_Init (lib_ut L) (st_store st) = Some c"
      "ut_DelPortTriggerByRuleId (lib_ut L) c (pt_InstanceNumber e) = (True, c')" "s = ANSC_SUCCESS" "st' = commit L st c'"
    have "vc c = vs (st_store st)" using utopia_Init [OF ok c(1)] .
    then have "vs (st_store st') = (vs (st_store st))\<lparr>u_trigger :=
        filter (\<lambda>r. tr_rule_id r \<noteq> pt_InstanceNumber e) (u_trigger (vs (st_store st)))\<rparr>"
      using utopia_trigger_upd(4) [OF ok c(2)] c(4) ok by simp
    then show ?thesis using c(3) by (auto simp: pt_view_def fun_eq_iff find_filter_key split: option.split)
  qed
qed

lemma CosaDmlNatSetPortTrigger_view:
  assumes ok: "utopia_ok (lib_ut L) vs vc" and r: "CosaDmlNatSetPortTrigger L st e = (s, st')"
  shows "pt_view (vs (st_store st')) = (if ansc_ok s \<and> pt_view (vs (st_store st)) (pt_InstanceNumber e) \<noteq> None
         then (pt_view (vs (st_store st)))(pt_InstanceNumber e \<mapsto> trig_of (lib_ut L) e) else pt_view (vs (st_store st)))"
proof -
  have "s = ANSC_FAILURE \<and> st' = st \<or>
    (\<exists>c c'. ut_Init (lib_ut L) (st_store st) = Some c \<and>
       ut_SetPortTriggerByRuleId (lib_ut L) c (trig_of (lib_ut L) e) = (True, c') \<and> s = ANSC_SUCCESS \<and> st' = commit L st c')"
    using r unfolding CosaDmlNatSetPortTrigger_def by (simp split: if_split_asm option.split_asm prod.split_asm)
  then show ?thesis
  proof (elim disjE exE conjE)
    assume "s = ANSC_FAILURE" "st' = st"
    then show ?thesis by simp
  next
    fix c c' assume c: "ut_Init (lib_ut L) (st_store st) = Some c"
      "ut_SetPortTriggerByRuleId (lib_ut L) c (trig_of (lib_ut L) e) = (True, c')" "s = ANSC_SUCCESS" "st' = commit L st c'"
    have "vc c = vs (st_store st)" using utopia_Init [OF ok c(1)] .
    then have "vs (st_store st') = (vs (st_store st))\<lparr>u_trigger := map (\<lambda>x.
        if tr_rule_id x = tr_rule_id (trig_of (lib_ut L) e) then trig_of (lib_ut L) e else x) (u_trigger (vs (st_store st)))\<rparr>"
      using utopia_trigger_upd(3) [OF ok c(2)] c(4) ok by simp
    then show ?thesis using c(3) by (auto simp: pt_view_def fun_eq_iff find_map_key [where k = tr_rule_id] find_None_key split: option.split)
  qed
qed

interpretation pt: rule_backend world_ok "\<lambda>w st. True" "\<lambda>w st. pt_view (pf_store w st)"
  pt_InstanceNumber "\<lambda>w. trig_of (lib_ut (fst w))" trig_add trig_set trig_delete
proof unfold_locales
  fix w :: "('a, 'b, 'c) world" and st st' :: "('a, 'c) nat_state" and e s n
  assume good: "world_ok w"
  obtain L vs vc where w: "w = (L, vs, vc)" by (cases w)
  with good have ok: "utopia_ok (lib_ut L) vs vc" by (simp add: world_ok_def)
  show "pt_view (pf_store w st) (pt_InstanceNumber e) = None \<Longrightarrow> trig_add w st e = (s, st') \<Longrightarrow>
      True \<and> pt_view (pf_store w st') = (if ansc_ok s
        then (pt_view (pf_store w st))(pt_InstanceNumber e \<mapsto> trig_of (lib_ut (fst w)) e)
        else pt_view (pf_store w st))"
    using CosaDmlNatAddPortTrigger_view [OF ok, of st e s st'] w by (simp add: pf_store_def trig_add_def)
  show "trig_set w st e = (s, st') \<Longrightarrow> True \<and>
      (\<forall>n. n \<noteq> pt_InstanceNumber e \<longrightarrow> pt_view (pf_store w st') n = pt_view (pf_store w st) n) \<and>
      (ansc_ok s \<longrightarrow> pt_view (pf_store w st) (pt_InstanceNumber e) \<noteq> None \<longrightarrow>
       pt_view (pf_store w st') (pt_InstanceNumber e) = Some (trig_of (lib_ut (fst w)) e))"
    using CosaDmlNatSetPortTrigger_view [OF ok, of st e s st'] w
    by (auto simp: pf_store_def trig_set_def)
  show "trig_delete w st n = (s, st') \<Longrightarrow> True \<and> pt_view (pf_store w st') =
        (if ansc_ok s then (pt_view (pf_store w st))(n := None) else pt_view (pf_store w st))"
    using CosaDmlNatDelPortTrigger_view [OF ok, of st "zero_pt\<lparr>pt_InstanceNumber := n\<rparr>" s st'] w
    by (simp add: pf_store_def trig_delete_def)
qed

end
