(* ===== verification/Nat_Switches.thy ===== *)
theory Nat_Switches
  imports Nat_Backend_PT
begin

text \<open>
  The feature switches of the board support layer, \<open>cosa_nat_apis.c\<close> of \<open>source-arm\<close>: reading them at
  start, the three port forwarding switches of \<open>COSA_DML_NAT\<close> with the rule updates they cause, the
  port trigger switch, the LAN address and the DMZ settings. A rule remembers in
  \<open>prevRuleEnabledState\<close> what the user asked for; turning a switch off disables the rules it governs,
  turning it on restores that state.
\<close>

definition COSA_NAT_SYSCFG_NAMESPACE :: string where "COSA_NAT_SYSCFG_NAMESPACE = ''CosaNAT''"
definition PORT_TRIGGER_ENABLED_KEY :: string where "PORT_TRIGGER_ENABLED_KEY = ''port_trigger_enabled''"
definition PORT_FORWARD_ENABLED_KEY :: string where "PORT_FORWARD_ENABLED_KEY = ''port_forward_enabled''"
definition HS_PORT_FORWARD_ENABLED_KEY :: string where
  "HS_PORT_FORWARD_ENABLED_KEY = ''port_hs_forward_enabled''"
definition NAT_FORWARD_ENABLED_KEY :: string where "NAT_FORWARD_ENABLED_KEY = ''nat_forward_enabled''"

section \<open>Start\<close>

definition raw_switch :: "('s, 'c) utopia \<Rightarrow> 'c \<Rightarrow> string \<Rightarrow> bool" where
  "raw_switch U c k = (case ut_RawGet U c COSA_NAT_SYSCFG_NAMESPACE k of
       None \<Rightarrow> False | Some tmp \<Rightarrow> tmp = ''1'')"

definition CosaDmlNatInit :: "('s, 'c, 'r) libs \<Rightarrow> ('s, 'r) nat_state \<Rightarrow> ansc_status \<times> ('s, 'r) nat_state" where
  "CosaDmlNatInit L st =
     (case ut_Init (lib_ut L) (st_store st) of
        None \<Rightarrow> (ANSC_FAILURE, st)
      | Some c \<Rightarrow> (ANSC_SUCCESS, st\<lparr>
          g_NatPTTriggerEnable := raw_switch (lib_ut L) c PORT_TRIGGER_ENABLED_KEY,
          g_NatPFEnable := raw_switch (lib_ut L) c PORT_FORWARD_ENABLED_KEY,
          g_NatHSPFEnable := raw_switch (lib_ut L) c HS_PORT_FORWARD_ENABLED_KEY,
          g_NatOne2OneEnable := raw_switch (lib_ut L) c NAT_FORWARD_ENABLED_KEY\<rparr>))"

definition CosaDmlNatGetLanIP :: "('s, 'c, 'r) libs \<Rightarrow> ('s, 'r) nat_state \<Rightarrow> ansc_status \<times> ('s, 'r) nat_state" where
  "CosaDmlNatGetLanIP L st =
     (case ut_Init (lib_ut L) (st_store st) of
        None \<Rightarrow> (ANSC_FAILURE, st)
      | Some c \<Rightarrow>
          (case ut_GetLanSettings (lib_ut L) c of (rc, lan) \<Rightarrow>
             if rc then (ANSC_SUCCESS, st\<lparr>g_NatLanIP := read_quad (lan_ipaddr lan)\<rparr>)
             else (ANSC_FAILURE, st)))"

section \<open>Port forwarding switches\<close>

text \<open>The flag of a rule under a switch that is 1 (on), 0 (off) or -1 (leave alone).\<close>

definition switched :: "int \<Rightarrow> bool \<Rightarrow> bool \<Rightarrow> bool" where
  "switched sw enabled prev = (if sw = 1 then prev else if sw = - 1 then enabled else sw \<noteq> 0)"

definition UPDATE_PF_SINGLE_RULE_ENABLE :: "int \<Rightarrow> int \<Rightarrow> portFwdSingle_t \<Rightarrow> portFwdSingle_t" where
  "UPDATE_PF_SINGLE_RULE_ENABLE PF_ENABLE HS_ENABLE r = r\<lparr>ps_enabled :=
     switched (if ps_internal_port r = 0 then PF_ENABLE else HS_ENABLE)
       (ps_enabled r) (ps_prevRuleEnabledState r)\<rparr>"

definition UPDATE_PF_RANGE_RULE_ENABLE :: "int \<Rightarrow> int \<Rightarrow> int \<Rightarrow> portFwdRange_t \<Rightarrow> portFwdRange_t" where
  "UPDATE_PF_RANGE_RULE_ENABLE PF_ENABLE HS_ENABLE NAT_ENABLE r = r\<lparr>pr_enabled :=
     switched (if pr_public_ip r \<noteq> ''0.0.0.0'' then NAT_ENABLE
               else if pr_internal_port r = 0 then PF_ENABLE else HS_ENABLE)
       (pr_enabled r) (pr_prevRuleEnabledState r)\<rparr>"

text \<open>One \<open>Utopia_RawSet\<close> of a switch: the global changes when it succeeds.\<close>

definition raw_set_switch :: "('s, 'c) utopia \<Rightarrow> string \<Rightarrow> int \<Rightarrow> bool \<times> 'c \<Rightarrow> bool \<times> 'c" where
  "raw_set_switch U k sw gc = (case gc of (g, c) \<Rightarrow>
     if sw = - 1 then (g, c)
     else (case ut_RawSet U c COSA_NAT_SYSCFG_NAMESPACE k (if sw = 1 then ''1'' else ''0'') of
         (rc, c') \<Rightarrow> (if \<not> rc then g else sw \<noteq> 0, c')))"

definition Update_rules_ctx :: "('s, 'c) utopia \<Rightarrow> 'c \<Rightarrow> int \<Rightarrow> int \<Rightarrow> int \<Rightarrow> 'c" where
  "Update_rules_ctx U c pfEnable HSEnable natEnable =
     (let rangeInfo = (case ut_GetPortForwardingRange U c of Some l \<Rightarrow> l | None \<Rightarrow> []);
          singleInfo = (case ut_GetPortForwarding U c of Some l \<Rightarrow> l | None \<Rightarrow> []);
          rangeInfo' = map (UPDATE_PF_RANGE_RULE_ENABLE pfEnable HSEnable natEnable) rangeInfo;
          singleInfo' = map (UPDATE_PF_SINGLE_RULE_ENABLE pfEnable HSEnable) singleInfo;
          c1 = (if length singleInfo \<noteq> 0 then snd (ut_SetPortForwarding U c singleInfo') else c)
      in if length rangeInfo \<noteq> 0 then snd (ut_SetPortForwardingRange U c1 rangeInfo') else c1)"

definition Update_NAT_PF_HS_Enable :: "('s, 'c, 'r) libs \<Rightarrow> ('s, 'r) nat_state \<Rightarrow> 'c \<Rightarrow> int \<Rightarrow> int \<Rightarrow> int \<Rightarrow>
    ('s, 'r) nat_state \<times> 'c" where
  "Update_NAT_PF_HS_Enable L st c pfEnable HSEnable natEnable =
     (let c1 = Update_rules_ctx (lib_ut L) c pfEnable HSEnable natEnable;
          (pf, c2) = raw_set_switch (lib_ut L) PORT_FORWARD_ENABLED_KEY pfEnable (g_NatPFEnable st, c1);
          (hs, c3) = raw_set_switch (lib_ut L) HS_PORT_FORWARD_ENABLED_KEY HSEnable (g_NatHSPFEnable st, c2);
          (nat, c4) = raw_set_switch (lib_ut L) NAT_FORWARD_ENABLED_KEY natEnable (g_NatOne2OneEnable st, c3)
      in (st\<lparr>g_NatPFEnable := pf, g_NatHSPFEnable := hs, g_NatOne2OneEnable := nat\<rparr>, c4))"

definition CosaDmlNatGet :: "('s, 'r) nat_state \<Rightarrow> COSA_DML_NAT \<Rightarrow> COSA_DML_NAT" where
  "CosaDmlNatGet st n = n\<lparr>nat_EnableHSPortMapping := g_NatHSPFEnable st,
     nat_EnablePortMapping := g_NatPFEnable st, nat_EnableNATMapping := g_NatOne2OneEnable st\<rparr>"

text \<open>A switch of \<open>CosaDmlNatSet\<close>: -1, or the new value when it differs from the current one.\<close>

definition changed :: "bool \<Rightarrow> bool \<Rightarrow> int" where
  "changed new old = (if new \<noteq> old then of_bool new else - 1)"

definition CosaDmlNatSet :: "('s, 'c, 'r) libs \<Rightarrow> ('s, 'r) nat_state \<Rightarrow> COSA_DML_NAT \<Rightarrow>
    ansc_status \<times> ('s, 'r) nat_state" where
  "CosaDmlNatSet L st n =
     (case ut_Init (lib_ut L) (st_store st) of
        None \<Rightarrow> (ANSC_FAILURE, st)
      | Some c \<Rightarrow>
          let pf = changed (nat_EnablePortMapping n) (g_NatPFEnable st);
              hs = changed (nat_EnableHSPortMapping n) (g_NatHSPFEnable st);
              nat = changed (nat_EnableNATMapping n) (g_NatOne2OneEnable st)
          in if pf \<noteq> - 1 \<or> hs \<noteq> - 1 \<or> nat \<noteq> - 1
             then (case Update_NAT_PF_HS_Enable L st c pf hs nat of (st', c') \<Rightarrow> (ANSC_SUCCESS, commit L st' c'))
             else (ANSC_SUCCESS, st))"

section \<open>Port trigger switch\<close>

definition CosaDmlNatGetPortTriggerEnable :: "('s, 'r) nat_state \<Rightarrow> ansc_status \<times> bool" where
  "CosaDmlNatGetPortTriggerEnable st = (ANSC_SUCCESS, g_NatPTTriggerEnable st)"

definition update_trigger :: "bool \<Rightarrow> portRangeTrig_t \<Rightarrow> portRangeTrig_t" where
  "update_trigger vBool r = r\<lparr>tr_enabled := (if vBool then tr_prevRuleEnabledState r else vBool)\<rparr>"

definition CosaDmlNatSetPortTriggerEnable :: "('s, 'c, 'r) libs \<Rightarrow> ('s, 'r) nat_state \<Rightarrow> bool \<Rightarrow>
    ansc_status \<times> ('s, 'r) nat_state" where
  "CosaDmlNatSetPortTriggerEnable L st vBool =
     (if vBool = g_NatPTTriggerEnable st then (ANSC_SUCCESS, st)
      else (case ut_Init (lib_ut L) (st_store st) of
          None \<Rightarrow> (ANSC_FAILURE, st)
        | Some c \<Rightarrow>
            (case ut_GetPortTrigger (lib_ut L) c of
               None \<Rightarrow> (ANSC_FAILURE, st)
             | Some porttrigger \<Rightarrow>
                 (case (if 0 < length porttrigger
                        then ut_SetPortTrigger (lib_ut L) c (map (update_trigger vBool) porttrigger)
                        else (True, c)) of (rc, c1) \<Rightarrow>
                    if \<not> rc then (ANSC_FAILURE, st)
                    else (case ut_RawSet (lib_ut L) c1 COSA_NAT_SYSCFG_NAMESPACE PORT_TRIGGER_ENABLED_KEY
                                 (if vBool then ''1'' else ''0'') of (rc2, c2) \<Rightarrow>
                        if \<not> rc2 then (ANSC_FAILURE, commit L st c2)
                        else (ANSC_SUCCESS, commit L (st\<lparr>g_NatPTTriggerEnable := vBool\<rparr>) c2))))))"

section \<open>DMZ settings\<close>

definition CosaDmlNatGetDmz :: "('s, 'c, 'r) libs \<Rightarrow> ('s, 'r) nat_state \<Rightarrow> COSA_DML_NAT_DMZ \<Rightarrow>
    ansc_status \<times> COSA_DML_NAT_DMZ \<times> ('s, 'r) nat_state" where
  "CosaDmlNatGetDmz L st d =
     (case ut_Init (lib_ut L) (st_store st) of
        None \<Rightarrow> (ANSC_FAILURE, d, st)
      | Some c \<Rightarrow>
          (case AnscAllocateMemory L st of
             (None, st1) \<Rightarrow> (ANSC_FAILURE, d, st1)
           | (Some _, st1) \<Rightarrow>
               (case ut_GetDMZSettings (lib_ut L) c of
                  None \<Rightarrow> (ANSC_FAILURE, d, st1)
                | Some z \<Rightarrow>
                    (ANSC_SUCCESS, d\<lparr>dmz_bEnabled := dz_enabled z,
                       dmz_InternalIP := snd (strcpy_s COSA_DML_IP_ADDR_LENGTH
                          (if length (dz_dest_ip z) \<noteq> 0 then dz_dest_ip z else ''0.0.0.0'')),
                       dmz_IPv6Host := (if length (dz_dest_ipv6 z) \<noteq> 0
                          then snd (strcpy_s DMZ_IPV6HOST_SIZE (dz_dest_ipv6 z)) else [])\<rparr>, st1))))"

definition CosaDmlNatSetDmz :: "('s, 'c, 'r) libs \<Rightarrow> ('s, 'r) nat_state \<Rightarrow> COSA_DML_NAT_DMZ \<Rightarrow>
    ansc_status \<times> ('s, 'r) nat_state" where
  "CosaDmlNatSetDmz L st d =
     (case ut_Init (lib_ut L) (st_store st) of
        None \<Rightarrow> (ANSC_FAILURE, st)
      | Some c \<Rightarrow>
          (case AnscAllocateMemory L st of
             (None, st1) \<Rightarrow> (ANSC_RESOURCES, st1)
           | (Some _, st1) \<Rightarrow>
               (case ut_SetDMZSettings (lib_ut L) c
                   \<lparr>dz_enabled = dmz_bEnabled d,
                    dz_dest_ip = snd (strcpy_s (ut_DMZ_IP_SZ (lib_ut L)) (dmz_InternalIP d)),
                    dz_dest_ipv6 = snd (strcpy_s (ut_DMZ_IPV6_SZ (lib_ut L)) (dmz_IPv6Host d))\<rparr> of
                  (rc, c') \<Rightarrow>
                    (if \<not> rc then ANSC_FAILURE else ANSC_SUCCESS, commit L st1 c'))))"

section \<open>What a switch change does to the rules\<close>

text \<open>A store on which no operation fails.\<close>

definition utopia_total :: "('s, 'c) utopia \<Rightarrow> bool" where
  "utopia_total U \<longleftrightarrow> (\<forall>s. ut_Init U s \<noteq> None) \<and> (\<forall>c. ut_GetPortForwarding U c \<noteq> None) \<and>
     (\<forall>c. ut_GetPortForwardingRange U c \<noteq> None) \<and> (\<forall>c. ut_GetPortTrigger U c \<noteq> None) \<and>
     (\<forall>c l. fst (ut_SetPortForwarding U c l)) \<and> (\<forall>c l. fst (ut_SetPortForwardingRange U c l)) \<and>
     (\<forall>c l. fst (ut_SetPortTrigger U c l)) \<and> (\<forall>c ns k v. fst (ut_RawSet U c ns k v))"

lemma mem_utopia_total: "utopia_total mem_utopia"
  by (simp add: utopia_total_def mem_utopia_def)

lemma utopia_total_gets:
  assumes "utopia_ok U vs vc" "utopia_total U"
  shows "ut_GetPortForwarding U c = Some (u_single (vc c))"
    "ut_GetPortForwardingRange U c = Some (u_range (vc c))"
    "ut_GetPortTrigger U c = Some (u_trigger (vc c))"
  using assms(2) utopia_lists [OF assms(1)] unfolding utopia_total_def by (metis option.exhaust)+

lemma utopia_totalD:
  assumes "utopia_total U"
  shows "\<exists>c. ut_Init U s = Some c" "ut_SetPortForwarding U c l = (b, c') \<Longrightarrow> b"
    "ut_SetPortForwardingRange U c l' = (b, c') \<Longrightarrow> b" "ut_SetPortTrigger U c l'' = (b, c') \<Longrightarrow> b"
    "ut_RawSet U c ns k v = (b, c') \<Longrightarrow> b"
  using assms unfolding utopia_total_def by (metis fst_conv option.exhaust)+

lemma Update_rules_ctx_view:
  assumes ok: "utopia_ok U vs vc" and t: "utopia_total U"
  shows "vc (Update_rules_ctx U c pf hs nt) = (vc c)
    \<lparr>u_single := map (UPDATE_PF_SINGLE_RULE_ENABLE pf hs) (u_single (vc c)),
     u_range := map (UPDATE_PF_RANGE_RULE_ENABLE pf hs nt) (u_range (vc c))\<rparr>"
proof -
  have s: "vc (snd (ut_SetPortForwarding U c l)) = (vc c)\<lparr>u_single := l\<rparr>" for c l
    by (cases "ut_SetPortForwarding U c l")
       (use utopia_totalD(2) [OF t] utopia_single_upd(1) [OF ok] in fastforce)
  have r: "vc (snd (ut_SetPortForwardingRange U c l)) = (vc c)\<lparr>u_range := l\<rparr>" for c l
    by (cases "ut_SetPortForwardingRange U c l")
       (use utopia_totalD(3) [OF t] utopia_range_upd(1) [OF ok] in fastforce)
  show ?thesis
    by (cases "u_single (vc c) = []"; cases "u_range (vc c) = []")
       (simp_all add: Update_rules_ctx_def utopia_total_gets [OF ok t] s r)
qed

lemma raw_set_switch_view:
  assumes ok: "utopia_ok U vs vc" and t: "utopia_total U" and r: "raw_set_switch U k sw (g, c) = (g', c')"
  shows "g' = (if sw = - 1 then g else sw \<noteq> 0) \<and>
    u_single (vc c') = u_single (vc c) \<and> u_range (vc c') = u_range (vc c)"
  using r utopia_raw(2) [OF ok] utopia_totalD(5) [OF t]
  by (cases "ut_RawSet U c COSA_NAT_SYSCFG_NAMESPACE k (if sw = 1 then ''1'' else ''0'')")
     (fastforce simp: raw_set_switch_def split: if_split_asm)

lemma CosaDmlNatSet_effect:
  assumes ok: "utopia_ok (lib_ut L) vs vc" and t: "utopia_total (lib_ut L)"
    and r: "CosaDmlNatSet L st n = (s, st')"
  shows "s = ANSC_SUCCESS \<and> g_NatPFEnable st' = nat_EnablePortMapping n \<and>
    g_NatHSPFEnable st' = nat_EnableHSPortMapping n \<and> g_NatOne2OneEnable st' = nat_EnableNATMapping n"
    (is ?globals)
    "u_single (vs (st_store st')) = map (UPDATE_PF_SINGLE_RULE_ENABLE
       (changed (nat_EnablePortMapping n) (g_NatPFEnable st))
       (changed (nat_EnableHSPortMapping n) (g_NatHSPFEnable st))) (u_single (vs (st_store st)))"
    (is ?single)
    "u_range (vs (st_store st')) = map (UPDATE_PF_RANGE_RULE_ENABLE
       (changed (nat_EnablePortMapping n) (g_NatPFEnable st))
       (changed (nat_EnableHSPortMapping n) (g_NatHSPFEnable st))
       (changed (nat_EnableNATMapping n) (g_NatOne2OneEnable st))) (u_range (vs (st_store st)))"
    (is ?range)
proof -
  let ?pf = "changed (nat_EnablePortMapping n) (g_NatPFEnable st)"
  let ?hs = "changed (nat_EnableHSPortMapping n) (g_NatHSPFEnable st)"
  let ?nat = "changed (nat_EnableNATMapping n) (g_NatOne2OneEnable st)"
  obtain c where c: "ut_Init (lib_ut L) (st_store st) = Some c"
    using utopia_totalD(1) [OF t] by blast
  have v: "vc c = vs (st_store st)" using utopia_Init [OF ok c] .
  have "?globals \<and> ?single \<and> ?range"
  proof (cases "?pf = - 1 \<and> ?hs = - 1 \<and> ?nat = - 1")
    case True
    then have eq: "nat_EnablePortMapping n = g_NatPFEnable st"
      "nat_EnableHSPortMapping n = g_NatHSPFEnable st" "nat_EnableNATMapping n = g_NatOne2OneEnable st"
      by (auto simp: changed_def split: if_splits)
    have "map (UPDATE_PF_SINGLE_RULE_ENABLE (- 1) (- 1)) l = l"
      "map (UPDATE_PF_RANGE_RULE_ENABLE (- 1) (- 1) (- 1)) l' = l'" for l l'
      by (auto intro!: map_idI simp: UPDATE_PF_SINGLE_RULE_ENABLE_def UPDATE_PF_RANGE_RULE_ENABLE_def switched_def)
    with r c eq True show ?thesis by (simp add: CosaDmlNatSet_def)
  next
    case False
    define c1 where "c1 = Update_rules_ctx (lib_ut L) c ?pf ?hs ?nat"
    obtain pf c2 where p: "raw_set_switch (lib_ut L) PORT_FORWARD_ENABLED_KEY ?pf (g_NatPFEnable st, c1) = (pf, c2)"
      by fastforce
    obtain hs c3 where h: "raw_set_switch (lib_ut L) HS_PORT_FORWARD_ENABLED_KEY ?hs (g_NatHSPFEnable st, c2) = (hs, c3)"
      by fastforce
    obtain nt c4 where nt: "raw_set_switch (lib_ut L) NAT_FORWARD_ENABLED_KEY ?nat (g_NatOne2OneEnable st, c3) = (nt, c4)"
      by fastforce
    have "CosaDmlNatSet L st n = (ANSC_SUCCESS, commit L
        (st\<lparr>g_NatPFEnable := pf, g_NatHSPFEnable := hs, g_NatOne2OneEnable := nt\<rparr>) c4)"
      using False p h nt
      by (auto simp: CosaDmlNatSet_def c Update_NAT_PF_HS_Enable_def c1_def Let_def)
    moreover note raw_set_switch_view [OF ok t p] raw_set_switch_view [OF ok t h]
      raw_set_switch_view [OF ok t nt]
    moreover have "vc c1 = (vs (st_store st))
      \<lparr>u_single := map (UPDATE_PF_SINGLE_RULE_ENABLE ?pf ?hs) (u_single (vs (st_store st))),
       u_range := map (UPDATE_PF_RANGE_RULE_ENABLE ?pf ?hs ?nat) (u_range (vs (st_store st)))\<rparr>"
      by (simp add: c1_def Update_rules_ctx_view [OF ok t] v)
    ultimately show ?thesis using r ok by (simp add: changed_def)
  qed
  then show ?globals ?single ?range by simp_all
qed

section \<open>Properties\<close>

text \<open>What the port forwarding switch governs: single rules with internal port 0, and range rules
  with internal port 0 and no public address. \<open>pf_restored\<close> gives them back their remembered state.\<close>

definition pf_restored_single :: "portFwdSingle_t \<Rightarrow> portFwdSingle_t" where
  "pf_restored_single r =
     (if ps_internal_port r = 0 then r\<lparr>ps_enabled := ps_prevRuleEnabledState r\<rparr> else r)"

definition pf_restored_range :: "portFwdRange_t \<Rightarrow> portFwdRange_t" where
  "pf_restored_range r =
     (if pr_internal_port r = 0 \<and> pr_public_ip r = ''0.0.0.0''
      then r\<lparr>pr_enabled := pr_prevRuleEnabledState r\<rparr> else r)"

lemma pf_switch_rules:
  "UPDATE_PF_SINGLE_RULE_ENABLE 1 (- 1) (UPDATE_PF_SINGLE_RULE_ENABLE 0 (- 1) r) = pf_restored_single r"
  "UPDATE_PF_RANGE_RULE_ENABLE 1 (- 1) (- 1) (UPDATE_PF_RANGE_RULE_ENABLE 0 (- 1) (- 1) q) = pf_restored_range q"
  by (simp_all add: UPDATE_PF_SINGLE_RULE_ENABLE_def UPDATE_PF_RANGE_RULE_ENABLE_def switched_def
      pf_restored_single_def pf_restored_range_def)

text \<open>C11: turning port forwarding off with \<open>CosaDmlNatSet\<close> disables every rule the switch governs,
  and turning it on again leaves every rule as it was, except that the governed rules have the state
  they remember; HS port forwarding and one-to-one NAT rules never change.\<close>

theorem port_forwarding_off_on_restores:
  assumes "utopia_ok (lib_ut L) vs vc" "utopia_total (lib_ut L)" "g_NatPFEnable st"
    and "CosaDmlNatSet L st ((CosaDmlNatGet st n)\<lparr>nat_EnablePortMapping := False\<rparr>) = (s1, st1)"
    and "CosaDmlNatSet L st1 ((CosaDmlNatGet st1 n)\<lparr>nat_EnablePortMapping := True\<rparr>) = (s2, st2)"
  shows "s1 = ANSC_SUCCESS \<and> s2 = ANSC_SUCCESS \<and> \<not> g_NatPFEnable st1 \<and> g_NatPFEnable st2 \<and>
    (\<forall>r \<in> set (u_single (vs (st_store st1))). ps_internal_port r = 0 \<longrightarrow> \<not> ps_enabled r) \<and>
    (\<forall>r \<in> set (u_range (vs (st_store st1))).
       pr_internal_port r = 0 \<and> pr_public_ip r = ''0.0.0.0'' \<longrightarrow> \<not> pr_enabled r) \<and>
    u_single (vs (st_store st2)) = map pf_restored_single (u_single (vs (st_store st))) \<and>
    u_range (vs (st_store st2)) = map pf_restored_range (u_range (vs (st_store st)))"
proof -
  note e1 = CosaDmlNatSet_effect [OF assms(1,2,4)] and e2 = CosaDmlNatSet_effect [OF assms(1,2,5)]
  have c: "changed False True = 0" "changed True False = 1" "changed b b = - 1" for b
    by (simp_all add: changed_def)
  have g1: "s1 = ANSC_SUCCESS" "\<not> g_NatPFEnable st1" "g_NatHSPFEnable st1 = g_NatHSPFEnable st"
    "g_NatOne2OneEnable st1 = g_NatOne2OneEnable st"
    using e1(1) by (simp_all add: CosaDmlNatGet_def)
  have s1: "u_single (vs (st_store st1)) = map (UPDATE_PF_SINGLE_RULE_ENABLE 0 (- 1)) (u_single (vs (st_store st)))"
    "u_range (vs (st_store st1)) = map (UPDATE_PF_RANGE_RULE_ENABLE 0 (- 1) (- 1)) (u_range (vs (st_store st)))"
    using e1(2,3) assms(3) by (simp_all add: CosaDmlNatGet_def c)
  have s2: "u_single (vs (st_store st2)) = map (UPDATE_PF_SINGLE_RULE_ENABLE 1 (- 1)) (u_single (vs (st_store st1)))"
    "u_range (vs (st_store st2)) = map (UPDATE_PF_RANGE_RULE_ENABLE 1 (- 1) (- 1)) (u_range (vs (st_store st1)))"
    using e2(2,3) g1 by (simp_all add: CosaDmlNatGet_def c)
  have off: "\<forall>r \<in> set (u_single (vs (st_store st1))). ps_internal_port r = 0 \<longrightarrow> \<not> ps_enabled r"
    "\<forall>r \<in> set (u_range (vs (st_store st1))).
       pr_internal_port r = 0 \<and> pr_public_ip r = ''0.0.0.0'' \<longrightarrow> \<not> pr_enabled r"
    unfolding s1 by (simp_all add: UPDATE_PF_SINGLE_RULE_ENABLE_def UPDATE_PF_RANGE_RULE_ENABLE_def switched_def)
  have on: "u_single (vs (st_store st2)) = map pf_restored_single (u_single (vs (st_store st)))"
    "u_range (vs (st_store st2)) = map pf_restored_range (u_range (vs (st_store st)))"
    unfolding s2 s1 by (simp_all add: pf_switch_rules)
  have "s2 = ANSC_SUCCESS" "g_NatPFEnable st2" using e2(1) by simp_all
  with g1 off on show ?thesis by blast
qed

definition example_single :: portFwdSingle_t where
  "example_single = \<lparr>ps_enabled = True, ps_prevRuleEnabledState = True, ps_name = ''a'',
     ps_rule_id = 1, ps_protocol = TCP, ps_external_port = 80, ps_internal_port = 0,
     ps_dest_ip = dotted 0x0500a8c0, ps_dest_ipv6 = ''x''\<rparr>"

definition example_state :: "(ustore, rview) nat_state" where
  "example_state = mem_state\<lparr>st_store := mem_store\<lparr>u_single := [example_single]\<rparr>\<rparr>"

definition example_nat :: COSA_DML_NAT where
  "example_nat = \<lparr>nat_TCPTimeout = 0, nat_UDPTimeout = 0, nat_ICMPTimeout = 0,
     nat_EnablePortMapping = False, nat_EnableHSPortMapping = False, nat_EnableNATMapping = False\<rparr>"

lemma port_forwarding_off_on_restores_witness:
  "u_single (st_store (snd (CosaDmlNatSet mem_libs
      (snd (CosaDmlNatSet mem_libs example_state ((CosaDmlNatGet example_state example_nat)\<lparr>nat_EnablePortMapping := False\<rparr>)))
      ((CosaDmlNatGet (snd (CosaDmlNatSet mem_libs example_state
          ((CosaDmlNatGet example_state example_nat)\<lparr>nat_EnablePortMapping := False\<rparr>))) example_nat)\<lparr>nat_EnablePortMapping := True\<rparr>))))
   = [example_single]"
  (is "u_single (st_store (snd (CosaDmlNatSet _ (snd ?r1) ?n2))) = _")
proof -
  have "u_single (st_store (snd (CosaDmlNatSet mem_libs (snd ?r1) ?n2))) =
      map pf_restored_single (u_single (st_store example_state))"
    using port_forwarding_off_on_restores [where L = mem_libs and vs = "\<lambda>s. s" and vc = "\<lambda>c. c"
        and st = example_state and n = example_nat and ?s1.0 = "fst ?r1" and ?st1.0 = "snd ?r1"
        and ?s2.0 = "fst (CosaDmlNatSet mem_libs (snd ?r1) ?n2)"
        and ?st2.0 = "snd (CosaDmlNatSet mem_libs (snd ?r1) ?n2)"]
    by (simp add: mem_utopia_ok mem_utopia_total example_state_def mem_state_def)
  then show ?thesis by (simp add: example_state_def pf_restored_single_def example_single_def)
qed

lemma CosaDmlNatSetPortTriggerEnable_effect:
  assumes ok: "utopia_ok (lib_ut L) vs vc" and t: "utopia_total (lib_ut L)"
    and new: "b \<noteq> g_NatPTTriggerEnable st" and r: "CosaDmlNatSetPortTriggerEnable L st b = (s, st')"
  shows "s = ANSC_SUCCESS \<and> g_NatPTTriggerEnable st' = b \<and>
    u_trigger (vs (st_store st')) = map (update_trigger b) (u_trigger (vs (st_store st)))"
proof -
  obtain c where c: "ut_Init (lib_ut L) (st_store st) = Some c" using utopia_totalD(1) [OF t] by blast
  have v: "vc c = vs (st_store st)" using utopia_Init [OF ok c] .
  let ?l = "u_trigger (vs (st_store st))"
  obtain rc c1 where c1: "(if 0 < length ?l then ut_SetPortTrigger (lib_ut L) c (map (update_trigger b) ?l)
      else (True, c)) = (rc, c1)" by fastforce
  then have tr: "rc" "u_trigger (vc c1) = map (update_trigger b) ?l"
    using utopia_totalD(4) [OF t] utopia_trigger_upd(1) [OF ok] v
    by (fastforce split: if_split_asm)+
  obtain rc2 c2 where c2: "ut_RawSet (lib_ut L) c1 COSA_NAT_SYSCFG_NAMESPACE PORT_TRIGGER_ENABLED_KEY
      (if b then ''1'' else ''0'') = (rc2, c2)" by fastforce
  then have "rc2" "u_trigger (vc c2) = u_trigger (vc c1)"
    using utopia_totalD(5) [OF t] utopia_raw(2) [OF ok c2] by auto
  moreover have "CosaDmlNatSetPortTriggerEnable L st b = (if rc2
      then (ANSC_SUCCESS, commit L (st\<lparr>g_NatPTTriggerEnable := b\<rparr>) c2) else (ANSC_FAILURE, commit L st c2))"
    using new c c1 tr(1) c2
    unfolding CosaDmlNatSetPortTriggerEnable_def
    by (simp only: if_False option.case utopia_total_gets [OF ok t] v) simp
  ultimately show ?thesis using r ok tr(2) by auto
qed

text \<open>Turning port triggering off with \<open>CosaDmlNatSetPortTriggerEnable\<close> disables every trigger
  rule; turning it on again gives each its remembered state and changes nothing else.\<close>

theorem port_trigger_off_on_restores:
  assumes "utopia_ok (lib_ut L) vs vc" "utopia_total (lib_ut L)" "g_NatPTTriggerEnable st"
    and "CosaDmlNatSetPortTriggerEnable L st False = (s1, st1)"
    and "CosaDmlNatSetPortTriggerEnable L st1 True = (s2, st2)"
  shows "s1 = ANSC_SUCCESS \<and> s2 = ANSC_SUCCESS \<and> \<not> g_NatPTTriggerEnable st1 \<and> g_NatPTTriggerEnable st2 \<and>
    (\<forall>r \<in> set (u_trigger (vs (st_store st1))). \<not> tr_enabled r) \<and>
    u_trigger (vs (st_store st2)) =
      map (\<lambda>r. r\<lparr>tr_enabled := tr_prevRuleEnabledState r\<rparr>) (u_trigger (vs (st_store st)))"
proof -
  have e1: "s1 = ANSC_SUCCESS" "\<not> g_NatPTTriggerEnable st1"
    "u_trigger (vs (st_store st1)) = map (update_trigger False) (u_trigger (vs (st_store st)))"
    using CosaDmlNatSetPortTriggerEnable_effect [OF assms(1,2) _ assms(4)] assms(3) by simp_all
  have e2: "s2 = ANSC_SUCCESS" "g_NatPTTriggerEnable st2"
    "u_trigger (vs (st_store st2)) = map (update_trigger True) (u_trigger (vs (st_store st1)))"
    using CosaDmlNatSetPortTriggerEnable_effect [OF assms(1,2) _ assms(5)] e1(2) by simp_all
  show ?thesis unfolding e2(3) e1(3) using e1(1,2) e2(1,2) by (simp add: update_trigger_def)
qed

definition example_trig :: portRangeTrig_t where
  "example_trig = \<lparr>tr_enabled = True, tr_prevRuleEnabledState = True, tr_name = ''t'', tr_rule_id = 1,
     tr_trigger_proto = TCP, tr_forward_proto = TCP, tr_trigger_start = 100, tr_trigger_end = 110,
     tr_fwd_range_start = 200, tr_fwd_range_end = 210\<rparr>"

definition example_trig_state :: "(ustore, rview) nat_state" where
  "example_trig_state = mem_state\<lparr>st_store := mem_store\<lparr>u_trigger := [example_trig]\<rparr>\<rparr>"

lemma port_trigger_off_on_restores_witness:
  "u_trigger (st_store (snd (CosaDmlNatSetPortTriggerEnable mem_libs
      (snd (CosaDmlNatSetPortTriggerEnable mem_libs example_trig_state False)) True))) = [example_trig]"
  (is "u_trigger (st_store (snd ?r2)) = _")
proof -
  let ?r1 = "CosaDmlNatSetPortTriggerEnable mem_libs example_trig_state False"
  have "u_trigger (st_store (snd ?r2)) =
      map (\<lambda>r. r\<lparr>tr_enabled := tr_prevRuleEnabledState r\<rparr>) (u_trigger (st_store example_trig_state))"
    using port_trigger_off_on_restores [where L = mem_libs and vs = "\<lambda>s. s" and vc = "\<lambda>c. c"
        and st = example_trig_state and ?s1.0 = "fst ?r1" and ?st1.0 = "snd ?r1"
        and ?s2.0 = "fst ?r2" and ?st2.0 = "snd ?r2"]
    by (simp add: mem_utopia_ok mem_utopia_total example_trig_state_def mem_state_def)
  then show ?thesis by (simp add: example_trig_state_def example_trig_def)
qed

text \<open>Reading DMZ settings back.\<close>

lemma dmz_set_get:
  assumes "utopia_ok (lib_ut L) vs vc" "CosaDmlNatSetDmz L st d = (ANSC_SUCCESS, st')"
    and "length (dmz_InternalIP d) < ut_DMZ_IP_SZ (lib_ut L)" "length (dmz_InternalIP d) < COSA_DML_IP_ADDR_LENGTH"
    and "length (dmz_IPv6Host d) < ut_DMZ_IPV6_SZ (lib_ut L)" "length (dmz_IPv6Host d) < DMZ_IPV6HOST_SIZE"
    and "CosaDmlNatGetDmz L st' d0 = (ANSC_SUCCESS, d', st'')"
  shows "d' = d0\<lparr>dmz_bEnabled := dmz_bEnabled d,
      dmz_InternalIP := (if dmz_InternalIP d = [] then ''0.0.0.0'' else dmz_InternalIP d),
      dmz_IPv6Host := dmz_IPv6Host d\<rparr>"
proof -
  obtain c c' st1 where c: "ut_SetDMZSettings (lib_ut L) c \<lparr>dz_enabled = dmz_bEnabled d,
      dz_dest_ip = dmz_InternalIP d, dz_dest_ipv6 = dmz_IPv6Host d\<rparr> = (True, c')" "st' = commit L st1 c'"
    using assms(2-6) unfolding CosaDmlNatSetDmz_def
    by (fastforce split: option.split_asm prod.split_asm if_split_asm)
  have u: "u_dmz (vs (st_store st')) = \<lparr>dz_enabled = dmz_bEnabled d,
      dz_dest_ip = dmz_InternalIP d, dz_dest_ipv6 = dmz_IPv6Host d\<rparr>"
    using utopia_settings(2) [OF assms(1) c(1)] c(2) assms(1) by simp
  obtain k z where k: "ut_Init (lib_ut L) (st_store st') = Some k" "ut_GetDMZSettings (lib_ut L) k = Some z"
    and d': "d' = d0\<lparr>dmz_bEnabled := dz_enabled z,
        dmz_InternalIP := snd (strcpy_s COSA_DML_IP_ADDR_LENGTH
          (if length (dz_dest_ip z) \<noteq> 0 then dz_dest_ip z else ''0.0.0.0'')),
        dmz_IPv6Host := (if length (dz_dest_ipv6 z) \<noteq> 0
          then snd (strcpy_s DMZ_IPV6HOST_SIZE (dz_dest_ipv6 z)) else [])\<rparr>"
    using assms(7) unfolding CosaDmlNatGetDmz_def
    by (simp split: option.split_asm prod.split_asm)
  have "z = u_dmz (vs (st_store st'))"
    using utopia_settings(1) [OF assms(1) k(2)] utopia_Init [OF assms(1) k(1)] by simp
  with d' u assms(4,6) show ?thesis by (simp add: COSA_DML_IP_ADDR_LENGTH_def)
qed

text \<open>DMZ settings written by \<open>CosaDmlNatSetDmz\<close> are read back by \<open>CosaDmlNatGetDmz\<close>: the
  switch, the internal address (an empty one as 0.0.0.0) and the IPv6 host, when they fit Utopia's
  fields; the other fields of the structure stay.\<close>

theorem dmz_set_get_roundtrip:
  assumes "utopia_ok (lib_ut L) vs vc" "CosaDmlNatSetDmz L st d = (ANSC_SUCCESS, st')"
    and "length (dmz_InternalIP d) < ut_DMZ_IP_SZ (lib_ut L)" "length (dmz_InternalIP d) < COSA_DML_IP_ADDR_LENGTH"
    and "length (dmz_IPv6Host d) < ut_DMZ_IPV6_SZ (lib_ut L)" "length (dmz_IPv6Host d) < DMZ_IPV6HOST_SIZE"
    and "CosaDmlNatGetDmz L st' d0 = (ANSC_SUCCESS, d', st'')"
  shows "d' = d0\<lparr>dmz_bEnabled := dmz_bEnabled d,
      dmz_InternalIP := (if dmz_InternalIP d = [] then ''0.0.0.0'' else dmz_InternalIP d),
      dmz_IPv6Host := dmz_IPv6Host d\<rparr>"
  using dmz_set_get [OF assms] .

definition example_dmz :: COSA_DML_NAT_DMZ where
  "example_dmz = \<lparr>dmz_bEnabled = True, dmz_RemoteIPStart = [], dmz_RemoteIPEnd = [],
     dmz_InternalIP = ''192.168.0.5'', dmz_InternalMAC = [], dmz_IPv6Host = []\<rparr>"

lemma dmz_set_get_roundtrip_witness:
  "fst (snd (CosaDmlNatGetDmz mem_libs (snd (CosaDmlNatSetDmz mem_libs mem_state example_dmz)) (Dmz mem_state)))
    = (Dmz mem_state)\<lparr>dmz_bEnabled := True, dmz_InternalIP := ''192.168.0.5'', dmz_IPv6Host := []\<rparr>"
  (is "fst (snd ?g) = _")
proof -
  have s: "fst (CosaDmlNatSetDmz mem_libs mem_state example_dmz) = ANSC_SUCCESS"
    by (simp add: CosaDmlNatSetDmz_def AnscAllocateMemory_def mem_utopia_def)
  have g: "fst ?g = ANSC_SUCCESS"
    by (simp add: CosaDmlNatGetDmz_def AnscAllocateMemory_def mem_utopia_def)
  show ?thesis
    using dmz_set_get_roundtrip [where L = mem_libs and vs = "\<lambda>s. s" and vc = "\<lambda>c. c" and st = mem_state
        and st' = "snd (CosaDmlNatSetDmz mem_libs mem_state example_dmz)" and d = example_dmz
        and d0 = "Dmz mem_state" and d' = "fst (snd ?g)" and st'' = "snd (snd ?g)"]
      s g mem_utopia_ok
    by (simp add: prod_eq_iff example_dmz_def mem_utopia_def [THEN arg_cong [where f = ut_DMZ_IP_SZ]]
        mem_utopia_def [THEN arg_cong [where f = ut_DMZ_IPV6_SZ]] size_defs)
qed

end
