(* ===== verification/Nat_Registry.thy ===== *)
theory Nat_Registry
  imports Nat_Switches
begin

text \<open>
  The registry half of \<open>cosa_nat_internal.c\<close>: \<open>CosaNatRegSetNatInfo\<close> writes the entries that the
  user added but did not commit (\<open>bNew\<close>) below the folder \<open>NAT\<close>, the port triggers below
  \<open>NAT.PORTTRIGGER\<close> with the next trigger number, and \<open>CosaNatRegGetNatInfo\<close> reads them back into the
  two lists after a restart.
\<close>

definition COSA_IREP_FOLDER_NAME_NAT :: string where "COSA_IREP_FOLDER_NAME_NAT = ''NAT''"
definition COSA_IREP_FOLDER_NAME_PORTTRIGGER :: string where
  "COSA_IREP_FOLDER_NAME_PORTTRIGGER = ''PORTTRIGGER''"
definition COSA_DML_RR_NAME_NATNextInsNumber :: string where
  "COSA_DML_RR_NAME_NATNextInsNumber = ''NextInstanceNumber''"
definition COSA_DML_RR_NAME_NATAlias :: string where "COSA_DML_RR_NAME_NATAlias = ''Alias''"
definition COSA_DML_RR_NAME_NATbNew :: string where "COSA_DML_RR_NAME_NATbNew = ''bNew''"

section \<open>Writing\<close>

text \<open>One round of either loop of \<open>CosaNatRegSetNatInfo\<close>: an entry that is not new is skipped; the
  second component is \<open>returnStatus\<close>, which the last \<open>AddRecord\<close> sets. \<open>FolderName\<close> has 16 bytes.\<close>

definition FolderName :: "ULONG \<Rightarrow> string option" where
  "FolderName n = sprintf_s 16 (dec_int (sint n))"

definition reg_set_entry :: "'r irep \<Rightarrow> path \<Rightarrow> ULONG \<Rightarrow> string \<Rightarrow> bool \<Rightarrow>
    'r \<times> ansc_status \<Rightarrow> 'r \<times> ansc_status" where
  "reg_set_entry I p n alias bNew rs = (case rs of (r, returnStatus) \<Rightarrow>
     if \<not> bNew then (r, returnStatus)
     else (case FolderName n of
         None \<Rightarrow> (r, returnStatus)
       | Some name \<Rightarrow>
           (case ir_AddFolder I r p name of (ok, r1) \<Rightarrow>
              if \<not> ok then (r1, returnStatus)
              else (case ir_AddString I r1 (p @ [name]) COSA_DML_RR_NAME_NATAlias alias of (_, r2) \<Rightarrow>
                  (case ir_AddBool I r2 (p @ [name]) COSA_DML_RR_NAME_NATbNew bNew of (rc, r3) \<Rightarrow>
                     (r3, if rc then ANSC_SUCCESS else ANSC_FAILURE))))))"

definition reg_set_pm :: "'r irep \<Rightarrow> path \<Rightarrow> pm_link \<Rightarrow> 'r \<times> ansc_status \<Rightarrow> 'r \<times> ansc_status" where
  "reg_set_pm I p l =
     reg_set_entry I p (pm_InstanceNumber (lnk_hContext l)) (pm_Alias (lnk_hContext l)) (lnk_bNew l)"

definition reg_set_pt :: "'r irep \<Rightarrow> path \<Rightarrow> pt_link \<Rightarrow> 'r \<times> ansc_status \<Rightarrow> 'r \<times> ansc_status" where
  "reg_set_pt I p l =
     reg_set_entry I p (pt_InstanceNumber (lnk_hContext l)) (pt_Alias (lnk_hContext l)) (lnk_bNew l)"

definition CosaNatRegSetNatInfo :: "('s, 'c, 'r) libs \<Rightarrow> ('s, 'r) nat_state \<Rightarrow>
    ansc_status \<times> ('s, 'r) nat_state" where
  "CosaNatRegSetNatInfo L st =
     (case hIrepFolderNat st of
        None \<Rightarrow> (ANSC_FAILURE, st)
      | Some p \<Rightarrow>
          let I = lib_ir L;
              r1 = ir_Clear I (ir_EnableFileSync I (st_registry st) p False) p;
              done = (\<lambda>st' r. st'\<lparr>st_registry := ir_EnableFileSync I r p True\<rparr>)
          in (case AnscAllocateMemory L st of
              (None, st1) \<Rightarrow> (ANSC_RESOURCES, done st1 r1)
            | (Some _, st1) \<Rightarrow>
                (case fold (reg_set_pm I p) (NatPMappingList st) (r1, ANSC_SUCCESS) of (r2, rs2) \<Rightarrow>
                  (case ir_AddFolder I r2 p COSA_IREP_FOLDER_NAME_PORTTRIGGER of (ok, r3) \<Rightarrow>
                    if \<not> ok then (ANSC_FAILURE, done st1 r3)
                    else let q = p @ [COSA_IREP_FOLDER_NAME_PORTTRIGGER] in
                      (case ir_AddUint32 I r3 q COSA_DML_RR_NAME_NATNextInsNumber (ulPtNextInstanceNumber st) of
                         (rc, r4) \<Rightarrow>
                           (case fold (reg_set_pt I q) (NatPTriggerList st)
                                   (r4, if rc then ANSC_SUCCESS else ANSC_FAILURE) of
                              (r5, rs5) \<Rightarrow> (rs5, done st1 r5)))))))"

section \<open>Reading\<close>

text \<open>The two loops of \<open>CosaNatRegGetNatInfo\<close> over the names \<open>EnumFolder\<close> returns. A name that is
  missing, is no number, or has no folder is skipped; a failing allocation ends the function.
  \<open>bFound\<close> exists only in the link object of a port mapping.\<close>

fun reg_get_pm :: "('s, 'c, 'r) libs \<Rightarrow> path \<Rightarrow> string option list \<Rightarrow> ('s, 'r) nat_state \<Rightarrow>
    ansc_status \<times> ('s, 'r) nat_state" where
  "reg_get_pm L p [] st = (ANSC_SUCCESS, st)"
| "reg_get_pm L p (None # names) st = reg_get_pm L p names st"
| "reg_get_pm L p (Some name # names) st =
     (let n = word_of_int (atoi name); I = lib_ir L; r = st_registry st; f = p @ [name] in
      if n = 0 then reg_get_pm L p names st
      else if \<not> ir_GetFolder I r p name then reg_get_pm L p names st
      else
        let alias = (case ir_GetString I r f COSA_DML_RR_NAME_NATAlias of Some a \<Rightarrow> a | None \<Rightarrow> []);
            bNew = (case ir_GetBool I r f COSA_DML_RR_NAME_NATbNew of Some b \<Rightarrow> b | None \<Rightarrow> True)
        in (case AnscAllocateMemory L st of
            (None, st1) \<Rightarrow> (ANSC_FAILURE, st1)
          | (Some a1, st1) \<Rightarrow>
              (case AnscAllocateMemory L st1 of
                 (None, st2) \<Rightarrow> (ANSC_FAILURE, st2)
               | (Some a2, st2) \<Rightarrow>
                   let e = (NAT_PORTMAPPING_SET_DEFAULTVALUE (lib_junk_pm L a1))
                         \<lparr>pm_InstanceNumber := n, pm_Alias := snd (strcpy_s COSA_DML_IF_NAME_LENGTH alias)\<rparr>;
                       l = \<lparr>lnk_addr = a2, lnk_InstanceNumber = n, lnk_bNew = bNew, lnk_bFound = False,
                            lnk_hContext = e\<rparr>
                   in reg_get_pm L p names
                        (st2\<lparr>NatPMappingList := CosaSListPushEntryByInsNum (NatPMappingList st2) l\<rparr>))))"

fun reg_get_pt :: "('s, 'c, 'r) libs \<Rightarrow> path \<Rightarrow> string option list \<Rightarrow> ('s, 'r) nat_state \<Rightarrow>
    ansc_status \<times> ('s, 'r) nat_state" where
  "reg_get_pt L p [] st = (ANSC_SUCCESS, st)"
| "reg_get_pt L p (None # names) st = reg_get_pt L p names st"
| "reg_get_pt L p (Some name # names) st =
     (let n = word_of_int (atoi name); I = lib_ir L; r = st_registry st; f = p @ [name] in
      if n = 0 then reg_get_pt L p names st
      else if \<not> ir_GetFolder I r p name then reg_get_pt L p names st
      else
        let alias = (case ir_GetString I r f COSA_DML_RR_NAME_NATAlias of Some a \<Rightarrow> a | None \<Rightarrow> []);
            bNew = (case ir_GetBool I r f COSA_DML_RR_NAME_NATbNew of Some b \<Rightarrow> b | None \<Rightarrow> True)
        in (case AnscAllocateMemory L st of
            (None, st1) \<Rightarrow> (ANSC_RESOURCES, st1)
          | (Some a1, st1) \<Rightarrow>
              (case AnscAllocateMemory L st1 of
                 (None, st2) \<Rightarrow> (ANSC_FAILURE, st2)
               | (Some a2, st2) \<Rightarrow>
                   let e = (COSA_DML_NAT_PTRIGGER_INIT (lib_junk_pt L a1))
                         \<lparr>pt_InstanceNumber := n, pt_Alias := snd (strcpy_s COSA_DML_ALIAS_LENGTH alias)\<rparr>;
                       l = \<lparr>lnk_addr = a2, lnk_InstanceNumber = n, lnk_bNew = bNew, lnk_bFound = False,
                            lnk_hContext = e\<rparr>
                   in reg_get_pt L p names
                        (st2\<lparr>NatPTriggerList := CosaSListPushEntryByInsNum (NatPTriggerList st2) l\<rparr>))))"

definition CosaNatRegGetNatInfo :: "('s, 'c, 'r) libs \<Rightarrow> ('s, 'r) nat_state \<Rightarrow>
    ansc_status \<times> ('s, 'r) nat_state" where
  "CosaNatRegGetNatInfo L st =
     (case (hIrepFolderNat st, hIrepFolderNatPt st) of
        (Some p, Some q) \<Rightarrow>
          (case reg_get_pm L p (ir_EnumFolder (lib_ir L) (st_registry st) p) st of (rs, st1) \<Rightarrow>
             if \<not> ansc_ok rs then (rs, st1)
             else reg_get_pt L q (ir_EnumFolder (lib_ir L) (st_registry st1) q) st1)
      | _ \<Rightarrow> (ANSC_FAILURE, st))"

end
