(* ===== verification/Nat_Numbers.thy ===== *)
theory Nat_Numbers
  imports Nat_Registry
begin

text \<open>
  The instance number generators of \<open>cosa_nat_internal.c\<close>: \<open>CosaNatGen\<close> for port mappings and
  \<open>CosaNatGenForTriggerEntry\<close> for port triggers. Their loops are partial functions, proved to return
  as long as the table does not hold every number. Both provide the contract \<open>number_gen\<close>.
\<close>

section \<open>The loops\<close>

text \<open>\<open>do { MaxInstanceNumber++; if (MaxInstanceNumber <= 0) MaxInstanceNumber = 1; ... }\<close> until the
  number is not in the list, and the loop of the trigger generator, which tests before it counts.\<close>

definition next_number :: "ULONG \<Rightarrow> ULONG" where
  "next_number m = (let m' = m + 1 in if m' \<le> 0 then 1 else m')"

partial_function (option) gen_pm :: "'a slist \<Rightarrow> ULONG \<Rightarrow> ULONG option" where
  "gen_pm l m =
     (let n = next_number m in
      if CosaSListGetEntryByInsNum l n = None then Some n else gen_pm l n)"

partial_function (option) gen_pt :: "'a slist \<Rightarrow> ULONG \<Rightarrow> ULONG option" where
  "gen_pt l m =
     (let n = (if m = 0 then 1 else m) in
      if CosaSListGetEntryByInsNum l n = None then Some n else gen_pt l (n + 1))"

declare gen_pm.simps [code] gen_pt.simps [code]

section \<open>They return\<close>

lemma next_number_nonzero: "next_number m \<noteq> 0"
  by (simp add: next_number_def Let_def)

lemma gen_pm_reaches:
  "(next_number ^^ Suc k) m = y \<Longrightarrow> CosaSListGetEntryByInsNum l y = None \<Longrightarrow> \<exists>n. gen_pm l m = Some n"
proof (induction k arbitrary: m)
  case 0
  then show ?case by (subst gen_pm.simps) simp
next
  case (Suc k)
  then have "(next_number ^^ Suc k) (next_number m) = y" by (simp only: funpow_Suc_right o_apply)
  with Suc show ?case by (subst gen_pm.simps) (simp add: Let_def)
qed

lemma next_number_up: "unat m + k < 2 ^ 32 \<Longrightarrow> (next_number ^^ k) m = m + of_nat k"
proof (induction k)
  case 0
  then show ?case by simp
next
  case (Suc k)
  have "unat (m + of_nat (Suc k)) = unat m + Suc k"
    using Suc.prems by (simp only: unat_word_ariths unat_of_nat) simp
  then have "m + of_nat (Suc k) \<noteq> 0" by (metis add_is_0 nat.distinct(1) unsigned_0)
  with Suc show ?case by (simp add: next_number_def Let_def ac_simps)
qed

lemma next_number_orbit:
  assumes "y \<noteq> 0"
  shows "\<exists>k. (next_number ^^ Suc k) m = y"
proof (cases "m < y")
  case True
  then have u: "unat m < unat y" by (simp add: word_less_nat_alt)
  have y: "unat y < 2 ^ 32" using unsigned_less [of y, where 'a = nat] by simp
  have "m + of_nat (unat y - unat m) = y"
    using u by (simp add: word_unat_eq_iff unat_word_ariths unat_of_nat y)
  moreover have "(next_number ^^ (unat y - unat m)) m = m + of_nat (unat y - unat m)"
    using u y by (intro next_number_up) simp
  moreover have "unat y - unat m = Suc (unat y - unat m - 1)" using u by simp
  ultimately show ?thesis by metis
next
  case False
  have m: "unat m < 2 ^ 32" using unsigned_less [of m, where 'a = nat] by simp
  let ?k = "2 ^ 32 - 1 - unat m"
  have "(next_number ^^ ?k) m = m + of_nat ?k" using m by (intro next_number_up) simp
  also have "m + of_nat ?k = 0xffffffff"
    using m by (simp add: word_unat_eq_iff unat_word_ariths unat_of_nat)
  finally have top: "next_number ((next_number ^^ ?k) m) = 1" by (simp add: next_number_def)
  have y: "unat y < 2 ^ 32" "0 < unat y"
    using unsigned_less [of y, where 'a = nat] assms by (simp_all add: unat_gt_0)
  have "(next_number ^^ (unat y - 1)) 1 = 1 + of_nat (unat y - 1)"
    using y by (intro next_number_up) simp
  also have "\<dots> = y" using y(2) by (simp add: of_nat_diff)
  finally have one: "(next_number ^^ (unat y - 1)) 1 = y" .
  have "(next_number ^^ ((unat y - 1) + Suc ?k)) m = (next_number ^^ (unat y - 1)) ((next_number ^^ Suc ?k) m)"
    by (simp only: funpow_add o_apply)
  also have "(next_number ^^ Suc ?k) m = 1" using top by (simp only: funpow.simps o_apply)
  finally show ?thesis using one by (metis add_Suc_right)
qed

lemma card_ULONG: "card (UNIV :: ULONG set) = 2 ^ 32"
proof -
  have "bij_betw unat (UNIV :: ULONG set) {..<2 ^ 32}"
    by (rule bij_betw_byWitness [where f' = of_nat])
       (use unsigned_less [where 'a = nat and 'b = 32] in \<open>auto simp: unat_of_nat\<close>)
  then show ?thesis by (simp add: bij_betw_same_card)
qed

lemma free_number:
  assumes "length l < 2 ^ 32 - 1"
  shows "\<exists>y. y \<noteq> 0 \<and> CosaSListGetEntryByInsNum l y = None"
proof (rule ccontr)
  assume "\<not> ?thesis"
  then have "y \<in> lnk_InstanceNumber ` set l" if "y \<noteq> 0" for y using cosa.get_None that by metis
  then have "- {0} \<subseteq> lnk_InstanceNumber ` set l" by blast
  then have "card (- {0} :: ULONG set) \<le> length l"
    by (meson card_length card_image_le card_mono finite_imageI finite_set le_trans)
  moreover have "card (- {0} :: ULONG set) = 2 ^ 32 - 1"
    by (simp add: Compl_eq_Diff_UNIV card_Diff_singleton card_ULONG)
  ultimately show False using assms by simp
qed

lemma gen_pm_returns: "length l < 2 ^ 32 - 1 \<Longrightarrow> \<exists>n. gen_pm l m = Some n"
  using free_number next_number_orbit gen_pm_reaches by metis

text \<open>The trigger loop started at the successor finds what the mapping loop finds.\<close>

lemma gen_pt_of_pm:
  assumes "gen_pm l m = Some n"
  shows "gen_pt l (m + 1) = Some n"
proof (rule gen_pm.raw_induct [where P = "\<lambda>l m n. gen_pt l (m + 1) = Some n", OF _ assms])
  fix gen l m n
  assume ih: "\<And>l m n. gen l m = Some n \<Longrightarrow> gen_pt l (m + 1) = Some n"
    and n: "(let n = next_number m in if CosaSListGetEntryByInsNum l n = None then Some n else gen l n) = Some n"
  have "(if m + 1 = 0 then 1 else m + 1) = next_number m" by (simp add: next_number_def Let_def)
  then have "gen_pt l (m + 1) = (if CosaSListGetEntryByInsNum l (next_number m) = None
      then Some (next_number m) else gen_pt l (next_number m + 1))"
    by (subst gen_pt.simps) (simp only: Let_def)
  with n ih [of l "next_number m" n] show "gen_pt l (m + 1) = Some n"
    by (cases "CosaSListGetEntryByInsNum l (next_number m)") (simp_all add: Let_def)
qed

lemma gen_pt_returns: "length l < 2 ^ 32 - 1 \<Longrightarrow> \<exists>n. gen_pt l m = Some n"
  using gen_pt_of_pm [of l "m - 1"] gen_pm_returns [of l "m - 1"] by auto

section \<open>What they return\<close>

lemma gen_pm_fresh:
  assumes "gen_pm l m = Some n"
  shows "n \<noteq> 0 \<and> CosaSListGetEntryByInsNum l n = None"
  by (rule gen_pm.raw_induct [where P = "\<lambda>l m n. n \<noteq> 0 \<and> CosaSListGetEntryByInsNum l n = None", OF _ assms])
     (auto simp: Let_def next_number_nonzero split: if_split_asm)

lemma gen_pt_fresh:
  assumes "gen_pt l m = Some n"
  shows "n \<noteq> 0 \<and> CosaSListGetEntryByInsNum l n = None"
  by (rule gen_pt.raw_induct [where P = "\<lambda>l m n. n \<noteq> 0 \<and> CosaSListGetEntryByInsNum l n = None", OF _ assms])
     (auto simp: Let_def split: if_split_asm)

interpretation pm_numbers: number_gen lnk_InstanceNumber CosaSListPushEntryByInsNum
  CosaSListGetEntryByInsNum gen_pm
  by unfold_locales (use gen_pm_returns gen_pm_fresh in blast)+

interpretation pt_numbers: number_gen lnk_InstanceNumber CosaSListPushEntryByInsNum
  CosaSListGetEntryByInsNum gen_pt
  by unfold_locales (use gen_pt_returns gen_pt_fresh in blast)+

section \<open>The generators\<close>

text \<open>\<open>CosaNatGen\<close> on the state and the entry; \<open>None\<close> means the loop does not end. \<open>"PortMapping%d"\<close>
  always fits into \<open>Alias\<close>.\<close>

definition CosaNatGen :: "('s, 'c, 'r) libs \<Rightarrow> ('s, 'r) nat_state \<Rightarrow> COSA_DML_NAT_PMAPPING \<Rightarrow>
    (ansc_status \<times> COSA_DML_NAT_PMAPPING \<times> ('s, 'r) nat_state) option" where
  "CosaNatGen L st e =
     (case gen_pm (NatPMappingList st) (MaxInstanceNumber st) of
        None \<Rightarrow> None
      | Some n \<Rightarrow>
          let st1 = st\<lparr>MaxInstanceNumber := n\<rparr>; e1 = e\<lparr>pm_InstanceNumber := n\<rparr> in
          (case sprintf_s COSA_DML_IF_NAME_LENGTH (''PortMapping'' @ dec_int (sint n)) of
             None \<Rightarrow> Some (ANSC_FAILURE, e1\<lparr>pm_Alias := []\<rparr>, st1)
           | Some a \<Rightarrow>
               (case CosaNatRegSetNatInfo L st1 of
                  (status, st2) \<Rightarrow> Some (status, e1\<lparr>pm_Alias := a\<rparr>, st2))))"

definition CosaNatGenForTriggerEntry :: "('s, 'c, 'r) libs \<Rightarrow> ('s, 'r) nat_state \<Rightarrow> COSA_DML_NAT_PTRIGGER \<Rightarrow>
    (ansc_status \<times> COSA_DML_NAT_PTRIGGER \<times> ('s, 'r) nat_state) option" where
  "CosaNatGenForTriggerEntry L st e =
     (case gen_pt (NatPTriggerList st) (ulPtNextInstanceNumber st) of
        None \<Rightarrow> None
      | Some n \<Rightarrow>
          let e1 = e\<lparr>pt_InstanceNumber := n\<rparr>;
              e2 = (if pt_Alias e1 = []
                    then e1\<lparr>pt_Alias := (case sprintf_s COSA_DML_ALIAS_LENGTH (''PortTrigger'' @ dec_int (sint n)) of
                                         Some a \<Rightarrow> a | None \<Rightarrow> [])\<rparr>
                    else e1);
              st1 = st\<lparr>ulPtNextInstanceNumber := n + 1\<rparr>
          in (case CosaNatRegSetNatInfo L st1 of (status, st2) \<Rightarrow> Some (status, e2, st2)))"

lemma length_dec_int: "length (dec_int (sint (n::ULONG))) \<le> 11"
proof -
  have "- (2 ^ 31) \<le> sint n" "sint n < 2 ^ 31"
    using sint_greater_eq [of n] sint_less [of n] by simp_all
  then have "length (dec (nat (- sint n))) \<le> 10" "length (dec (nat (sint n))) \<le> 10"
    by (auto intro!: length_dec)
  then show ?thesis by (simp add: dec_int_def)
qed

lemma FolderName_Some: "FolderName n = Some (dec_int (sint n))"
  using length_dec_int [of n] by (simp add: FolderName_def)

text \<open>C29: as long as a table does not hold all instance numbers from 1 to 4294967295, the search for a free one ends, for the
  port mappings and for the port triggers, from every value of the counter and also across its wrap-around: it yields a
  number that is not 0 and that no entry of the table has.\<close>

theorem number_search_ends:
  assumes "length (NatPMappingList st) < 2 ^ 32 - 1" "length (NatPTriggerList st) < 2 ^ 32 - 1"
  shows "(\<exists>s e' st'. CosaNatGen L st e = Some (s, e', st') \<and> pm_InstanceNumber e' \<noteq> 0 \<and>
      CosaSListGetEntryByInsNum (NatPMappingList st) (pm_InstanceNumber e') = None) \<and>
    (\<exists>s t' st'. CosaNatGenForTriggerEntry L st t = Some (s, t', st') \<and> pt_InstanceNumber t' \<noteq> 0 \<and>
      CosaSListGetEntryByInsNum (NatPTriggerList st) (pt_InstanceNumber t') = None)"
proof
  from pm_numbers.gen_returns [OF assms(1)] obtain n where n: "gen_pm (NatPMappingList st) (MaxInstanceNumber st) = Some n" by blast
  with pm_numbers.gen_fresh [OF n] show "\<exists>s e' st'. CosaNatGen L st e = Some (s, e', st') \<and> pm_InstanceNumber e' \<noteq> 0 \<and>
      CosaSListGetEntryByInsNum (NatPMappingList st) (pm_InstanceNumber e') = None"
    by (auto simp: CosaNatGen_def Let_def split: option.split prod.split)
  from pt_numbers.gen_returns [OF assms(2)] obtain m where m: "gen_pt (NatPTriggerList st) (ulPtNextInstanceNumber st) = Some m" by blast
  with pt_numbers.gen_fresh [OF m] show "\<exists>s t' st'. CosaNatGenForTriggerEntry L st t = Some (s, t', st') \<and> pt_InstanceNumber t' \<noteq> 0 \<and>
      CosaSListGetEntryByInsNum (NatPTriggerList st) (pt_InstanceNumber t') = None"
    by (auto simp: CosaNatGenForTriggerEntry_def Let_def split: prod.split)
qed

theorem number_search_ends_witness:
  "\<exists>s e st'. CosaNatGen mem_libs (mem_state\<lparr>MaxInstanceNumber := - 1\<rparr>) zero_pm = Some (s, e, st') \<and> pm_InstanceNumber e \<noteq> 0"
proof -
  have "length (NatPMappingList (mem_state\<lparr>MaxInstanceNumber := - 1\<rparr>)) < 2 ^ 32 - 1"
    "length (NatPTriggerList (mem_state\<lparr>MaxInstanceNumber := - 1\<rparr>)) < 2 ^ 32 - 1" by (simp_all add: mem_state_def)
  from number_search_ends [OF this, of mem_libs zero_pm] show ?thesis by blast
qed

end
