(* ===== verification/Cosa_PathName.thy ===== *)
theory Cosa_PathName
  imports Nat_Lib
begin

text \<open>
  \<open>CosaUtilGetFullPathNameByKeyword\<close> of \<open>cosa_apis_util.c\<close>: the search of the data model for the table
  entry whose parameter has a given value, through requests on the bus.
\<close>

section \<open>The search\<close>

text \<open>The loop over the table name: after it \<open>pString\<close> is behind the last dot and \<open>pString2\<close> behind the
  last but one.\<close>

fun last_dots :: "string \<Rightarrow> nat \<Rightarrow> nat \<Rightarrow> nat \<Rightarrow> nat \<times> nat" where
  "last_dots [] i p2 p = (p2, p)"
| "last_dots (c # s) i p2 p = (if c = CHR ''.'' then last_dots s (Suc i) p (Suc i) else last_dots s (Suc i) p2 p)"

text \<open>The parameter that counts the entries, \<open>ucTmp\<close>. A name with fewer than two dots makes the code write
  before the string; the model then has no name.\<close>

definition count_name :: "string \<Rightarrow> string option" where
  "count_name name = (case last_dots name 0 0 0 of (p2, p) \<Rightarrow>
     if p2 = 0 then None
     else (case sprintf_s 128 (take (p - 1 - p2) (drop p2 name) @ ''NumberOfEntries'') of
         None \<Rightarrow> None
       | Some ucTmp2 \<Rightarrow> sprintf_s 128 (take (p2 - 1) name @ ''.'' @ ucTmp2)))"

text \<open>The loop over the entries.\<close>

fun entry_loop :: "('s, 'c, 'r) libs \<Rightarrow> string \<Rightarrow> string \<Rightarrow> string \<Rightarrow> ULONG list \<Rightarrow> string option" where
  "entry_loop L name pname keyword [] = None"
| "entry_loop L name pname keyword (i # is) =
     (let inst = lib_CosaGetInstanceNumberByIndex L name i in
      if inst = 0 then entry_loop L name pname keyword is
      else (case sprintf_s 256 (name @ dec (unat inst) @ ''.'') of
          None \<Rightarrow> entry_loop L name pname keyword is
        | Some full \<Rightarrow>
            (case sprintf_s 256 (full @ pname) of
               None \<Rightarrow> entry_loop L name pname keyword is
             | Some param \<Rightarrow>
                 if lib_CosaGetParamValueString L param 256 = Some keyword then Some full
                 else entry_loop L name pname keyword is)))"

definition table_search :: "('s, 'c, 'r) libs \<Rightarrow> string \<Rightarrow> string \<Rightarrow> string \<Rightarrow> string option" where
  "table_search L pname keyword name = (case count_name name of
       None \<Rightarrow> None
     | Some ucTmp \<Rightarrow> entry_loop L name pname keyword
         (map of_nat [0 ..< unat (lib_CosaGetParamValueUlong L ucTmp)]))"

fun first_match :: "('a \<Rightarrow> 'b option) \<Rightarrow> 'a list \<Rightarrow> 'b option" where
  "first_match f [] = None"
| "first_match f (x # xs) = (case f x of Some y \<Rightarrow> Some y | None \<Rightarrow> first_match f xs)"

definition CosaUtilGetFullPathNameByKeyword :: "('s, 'c, 'r) libs \<Rightarrow> string \<Rightarrow> string \<Rightarrow> string \<Rightarrow> string option" where
  "CosaUtilGetFullPathNameByKeyword L tables pname keyword =
     (if tables = [] \<or> keyword = [] \<or> pname = [] then None
      else (case lib_AnscTcAllocate L tables '','' of
          None \<Rightarrow> None
        | Some tokens \<Rightarrow> first_match (table_search L pname keyword) tokens))"

section \<open>What it finds\<close>

text \<open>An entry matches when it has an instance number, its names fit the buffers, and its parameter reads
  the keyword.\<close>

definition entry_match :: "('s, 'c, 'r) libs \<Rightarrow> string \<Rightarrow> string \<Rightarrow> string \<Rightarrow> ULONG \<Rightarrow> string option" where
  "entry_match L name pname keyword i =
     (let inst = lib_CosaGetInstanceNumberByIndex L name i; full = name @ dec (unat inst) @ ''.'' in
      if inst \<noteq> 0 \<and> length full < 256 \<and> length (full @ pname) < 256 \<and>
         lib_CosaGetParamValueString L (full @ pname) 256 = Some keyword
      then Some full else None)"

lemma entry_loop_eq: "entry_loop L name pname keyword is = first_match (entry_match L name pname keyword) is"
  by (induction "is") (auto simp: entry_match_def sprintf_s_def Let_def)

lemma first_match_filter:
  "first_match f xs = (case filter (\<lambda>x. f x \<noteq> None) xs of [] \<Rightarrow> None | x # _ \<Rightarrow> f x)"
  by (induction xs) auto

lemma first_match_map: "first_match f (map g xs) = first_match (\<lambda>x. f (g x)) xs"
  by (induction xs) (auto split: option.split)

text \<open>On one table, \<open>CosaUtilGetFullPathNameByKeyword\<close> returns the path of the first entry, in index
  order, whose parameter reads the keyword, and nothing when no entry below the table's count matches.\<close>

theorem full_path_first_match:
  assumes "lib_AnscTcAllocate L table '','' = Some [table]" "count_name table = Some cn"
    and "table \<noteq> []" "keyword \<noteq> []" "pname \<noteq> []"
  shows "CosaUtilGetFullPathNameByKeyword L table pname keyword =
    (case filter (\<lambda>i. entry_match L table pname keyword (of_nat i) \<noteq> None)
            [0 ..< unat (lib_CosaGetParamValueUlong L cn)] of
       [] \<Rightarrow> None | i # _ \<Rightarrow> entry_match L table pname keyword (of_nat i))"
proof -
  let ?is = "map of_nat [0 ..< unat (lib_CosaGetParamValueUlong L cn)]"
  have t: "table_search L pname keyword table = first_match (entry_match L table pname keyword) ?is"
    by (simp only: table_search_def entry_loop_eq assms(2) option.case)
  have "CosaUtilGetFullPathNameByKeyword L table pname keyword = first_match (table_search L pname keyword) [table]"
    using assms by (simp only: CosaUtilGetFullPathNameByKeyword_def option.case if_False simp_thms)
  also have "\<dots> = table_search L pname keyword table" by (simp split: option.split)
  finally show ?thesis by (simp only: t first_match_map) (rule first_match_filter)
qed

text \<open>Two interfaces, the second of which is \<open>brlan0\<close>.\<close>

definition two_ifs :: "(ustore, ustore, rview) libs" where
  "two_ifs = mem_libs\<lparr>lib_CosaGetParamValueUlong := (\<lambda>p. if p = ''Device.IP.InterfaceNumberOfEntries'' then 2 else 0),
     lib_CosaGetInstanceNumberByIndex := (\<lambda>t i. i + 3),
     lib_CosaGetParamValueString := (\<lambda>p n. if p = ''Device.IP.Interface.4.Name'' then Some ''brlan0'' else Some ''erouter0'')\<rparr>"

lemma count_name_IP: "count_name ''Device.IP.Interface.'' = Some ''Device.IP.InterfaceNumberOfEntries''"
  by code_simp

lemma two_ifs_simps:
  "lib_AnscTcAllocate two_ifs = (\<lambda>s d. Some [s])"
  "lib_CosaGetInstanceNumberByIndex two_ifs t i = i + 3"
  "lib_CosaGetParamValueUlong two_ifs ''Device.IP.InterfaceNumberOfEntries'' = 2"
  "lib_CosaGetParamValueString two_ifs p n =
     (if p = ''Device.IP.Interface.4.Name'' then Some ''brlan0'' else Some ''erouter0'')"
  by (simp_all add: two_ifs_def)

lemma full_path_first_match_witness:
  "CosaUtilGetFullPathNameByKeyword two_ifs ''Device.IP.Interface.'' ''Name'' ''brlan0'' = Some ''Device.IP.Interface.4.''"
proof -
  have e: "entry_match two_ifs ''Device.IP.Interface.'' ''Name'' ''brlan0'' 0 = None"
    "entry_match two_ifs ''Device.IP.Interface.'' ''Name'' ''brlan0'' 1 = Some ''Device.IP.Interface.4.''"
    by (simp_all add: entry_match_def two_ifs_simps Let_def dec.simps digit_def)
  have "[0 ..< unat (2 :: ULONG)] = [0, 1]" by (simp add: upt_rec)
  with e show ?thesis
    using full_path_first_match [of two_ifs "''Device.IP.Interface.''" "''Device.IP.InterfaceNumberOfEntries''" "''brlan0''" "''Name''"]
    by (simp add: count_name_IP two_ifs_simps)
qed

end
