(* ===== verification/Nat_PortMapping.thy ===== *)
theory Nat_PortMapping
  imports Nat_Numbers Cosa_PathName
begin

text \<open>
  The port mapping table of the middle layer (\<open>PortMapping_*\<close> of \<open>cosa_nat_dml.c\<close> and its custom
  part): the functions the data-model framework calls to enumerate, refresh, extend, change, validate,
  commit and roll back the table \<open>Device.NAT.PortMapping.{i}\<close>. A function that gets an instance handle
  takes the link object \<open>l\<close> the handle points to, and writes it back with \<open>put_pm\<close>. A getter returns
  \<open>None\<close> when the code returns \<open>FALSE\<close> and leaves the result parameter alone.
\<close>

section \<open>Enumeration and refresh\<close>

definition put_pm :: "('s, 'r) nat_state \<Rightarrow> pm_link \<Rightarrow> ('s, 'r) nat_state" where
  "put_pm st l = st\<lparr>NatPMappingList := put_link (NatPMappingList st) l\<rparr>"

definition PortMapping_GetEntryCount :: "('s, 'r) nat_state \<Rightarrow> ULONG" where
  "PortMapping_GetEntryCount st = of_nat (length (NatPMappingList st))"

text \<open>The handle and \<open>*pInsNumber\<close>.\<close>

definition PortMapping_GetEntry :: "('s, 'r) nat_state \<Rightarrow> ULONG \<Rightarrow> (nat \<times> ULONG) option" where
  "PortMapping_GetEntry st nIndex =
     (case AnscSListGetEntryByIndex (NatPMappingList st) (unat nIndex) of
        None \<Rightarrow> None
      | Some l \<Rightarrow> Some (lnk_addr l, lnk_InstanceNumber l))"

definition COSA_DML_NAT_PORTMAPPING_ACCESS_INTERVAL :: ULONG where
  "COSA_DML_NAT_PORTMAPPING_ACCESS_INTERVAL = 10"

text \<open>\<open>now\<close> and \<open>now'\<close> are what the first and the second call of \<open>AnscGetTickInSeconds\<close> return.\<close>

definition PortMapping_IsUpdated :: "ULONG \<Rightarrow> ULONG \<Rightarrow> ('s, 'r) nat_state \<Rightarrow> bool \<times> ('s, 'r) nat_state" where
  "PortMapping_IsUpdated now now' st =
     (if now - PreviousVisitTime st < COSA_DML_NAT_PORTMAPPING_ACCESS_INTERVAL then (False, st)
      else (True, st\<lparr>PreviousVisitTime := now'\<rparr>))"

text \<open>The inner loop of the second pass of \<open>PortMapping_Synchronize\<close>: the first link whose entry has the
  rule's number takes the rule's content.\<close>

fun mark_one :: "COSA_DML_NAT_PMAPPING \<Rightarrow> pm_link list \<Rightarrow> pm_link list option" where
  "mark_one e [] = None"
| "mark_one e (l # ls) =
     (if pm_InstanceNumber (lnk_hContext l) = pm_InstanceNumber e
      then Some (l\<lparr>lnk_bFound := True, lnk_hContext := e, lnk_bNew := False\<rparr> # ls)
      else map_option (Cons l) (mark_one e ls))"

text \<open>The second pass; each rule comes with its \<open>pulTmp\<close> cell.\<close>

fun sync_mark :: "(COSA_DML_NAT_PMAPPING \<times> ULONG) list \<Rightarrow> pm_link list \<Rightarrow>
    (COSA_DML_NAT_PMAPPING \<times> ULONG) list \<times> pm_link list" where
  "sync_mark [] l = ([], l)"
| "sync_mark ((e, t) # es) l =
     (case mark_one e l of
        None \<Rightarrow> (case sync_mark es l of (es', l') \<Rightarrow> ((e, t) # es', l'))
      | Some l1 \<Rightarrow> (case sync_mark es l1 of (es', l') \<Rightarrow> ((e, 1) # es', l')))"

text \<open>The last pass: a new link for every rule whose cell is 0.\<close>

fun sync_add :: "('s, 'c, 'r) libs \<Rightarrow> (COSA_DML_NAT_PMAPPING \<times> ULONG) list \<Rightarrow> ('s, 'r) nat_state \<Rightarrow>
    ansc_status \<times> ('s, 'r) nat_state" where
  "sync_add L [] st = (ANSC_SUCCESS, st)"
| "sync_add L ((e, t) # es) st =
     (if t \<noteq> 0 then sync_add L es st
      else (case AnscAllocateMemory L st of
          (None, st1) \<Rightarrow> (ANSC_FAILURE, st1)
        | (Some a, st1) \<Rightarrow>
            (case AnscAllocateMemory L st1 of
               (None, st2) \<Rightarrow> (ANSC_FAILURE, st2)
             | (Some _, st2) \<Rightarrow>
                 sync_add L es (st2\<lparr>NatPMappingList := CosaSListPushEntryByInsNum (NatPMappingList st2)
                   \<lparr>lnk_addr = a, lnk_InstanceNumber = pm_InstanceNumber e, lnk_bNew = False,
                    lnk_bFound = lib_junk_bFound L a, lnk_hContext = e\<rparr>\<rparr>))))"

text \<open>\<open>pulTmp\<close> is allocated when there are rules; nothing in the function sets its cells to 0.\<close>

definition sync_cells :: "('s, 'c, 'r) libs \<Rightarrow> ('s, 'r) nat_state \<Rightarrow> COSA_DML_NAT_PMAPPING list \<Rightarrow>
    (COSA_DML_NAT_PMAPPING \<times> ULONG) list option \<times> ('s, 'r) nat_state" where
  "sync_cells L st es =
     (if es = [] then (Some [], st)
      else (case AnscAllocateMemory L st of
          (None, st1) \<Rightarrow> (None, st1)
        | (Some a, st1) \<Rightarrow> (Some (zip es (map (lib_junk_ulong L a) [0 ..< length es])), st1)))"

definition PortMapping_Synchronize :: "('s, 'c, 'r) libs \<Rightarrow> ('s, 'r) nat_state \<Rightarrow> ansc_status \<times> ('s, 'r) nat_state" where
  "PortMapping_Synchronize L st =
     (case CosaDmlNatGetPortMappings L st of
        (rules, st1) \<Rightarrow>
          (case sync_cells L st1 (case rules of Some es \<Rightarrow> es | None \<Rightarrow> []) of
             (None, st2) \<Rightarrow> (ANSC_FAILURE, st2)
           | (Some cells, st2) \<Rightarrow>
               let l0 = map (\<lambda>l. l\<lparr>lnk_bFound := False\<rparr>) (NatPMappingList st2)
               in (case sync_mark cells l0 of
                   (cells1, l1) \<Rightarrow>
                     sync_add L cells1
                       (st2\<lparr>NatPMappingList := filter (\<lambda>l. \<not> (\<not> lnk_bFound l \<and> \<not> lnk_bNew l)) l1\<rparr>))))"

section \<open>Adding and deleting entries\<close>

text \<open>The result is the handle with \<open>*pInsNumber\<close>, or no handle; the outer \<open>None\<close> is the generator that
  does not return.\<close>

definition PortMapping_AddEntry :: "('s, 'c, 'r) libs \<Rightarrow> ('s, 'r) nat_state \<Rightarrow>
    ((nat \<times> ULONG) option \<times> ('s, 'r) nat_state) option" where
  "PortMapping_AddEntry L st =
     (if bridge_blocked L then Some (None, st)
      else (case AnscAllocateMemory L st of
          (None, st1) \<Rightarrow> Some (None, st1)
        | (Some a1, st1) \<Rightarrow>
            (case AnscAllocateMemory L st1 of
               (None, st2) \<Rightarrow> Some (None, st2)
             | (Some a2, st2) \<Rightarrow>
                 (case CosaNatGen L st2 (NAT_PORTMAPPING_SET_DEFAULTVALUE (lib_junk_pm L a1)) of
                    None \<Rightarrow> None
                  | Some (_, e1, st3) \<Rightarrow>
                      let e2 = e1\<lparr>pm_InstanceNumber := MaxInstanceNumber st3, pm_Origin := Origin_Static\<rparr>;
                          l = \<lparr>lnk_addr = a2, lnk_InstanceNumber = pm_InstanceNumber e2, lnk_bNew = True,
                               lnk_bFound = lib_junk_bFound L a2, lnk_hContext = e2\<rparr>;
                          st4 = st3\<lparr>NatPMappingList := CosaSListPushEntryByInsNum (NatPMappingList st3) l\<rparr>
                      in Some (Some (a2, pm_InstanceNumber e2), snd (CosaNatRegSetNatInfo L st4))))))"

definition PortMapping_DelEntry :: "('s, 'c, 'r) libs \<Rightarrow> ('s, 'r) nat_state \<Rightarrow> pm_link \<Rightarrow>
    ansc_status \<times> ('s, 'r) nat_state" where
  "PortMapping_DelEntry L st l =
     (if bridge_blocked L then (ANSC_FAILURE, st)
      else (case (if lnk_bNew l then CosaNatRegSetNatInfo L (put_pm st (l\<lparr>lnk_bNew := False\<rparr>))
                  else CosaDmlNatDelPortMapping L st (pm_InstanceNumber (lnk_hContext l))) of
          (returnStatus, st1) \<Rightarrow>
            if ansc_ok returnStatus
            then (returnStatus, st1\<lparr>NatPMappingList := AnscSListPopEntryByLink (NatPMappingList st1) (lnk_addr l)\<rparr>)
            else (returnStatus, st1)))"

section \<open>Parameters\<close>

definition PortMapping_GetParamBoolValue :: "pm_link \<Rightarrow> string \<Rightarrow> bool option" where
  "PortMapping_GetParamBoolValue l ParamName =
     (if ParamName = ''Enable'' then Some (pm_bEnabled (lnk_hContext l))
      else if ParamName = ''AllInterfaces'' then Some (pm_AllInterfaces (lnk_hContext l))
      else None)"

definition PortMapping_GetParamIntValue :: "pm_link \<Rightarrow> string \<Rightarrow> int option" where
  "PortMapping_GetParamIntValue l ParamName = None"

definition PortMapping_GetParamUlongValue_Custom :: "pm_link \<Rightarrow> string \<Rightarrow> ULONG option" where
  "PortMapping_GetParamUlongValue_Custom l ParamName =
     (if ParamName = ''X_Comcast_com_PublicIP'' then Some (pm_PublicIP (lnk_hContext l)) else None)"

definition PortMapping_GetParamUlongValue :: "pm_link \<Rightarrow> string \<Rightarrow> ULONG option" where
  "PortMapping_GetParamUlongValue l ParamName =
     (let p = lnk_hContext l in
      if ParamName = ''Status'' then Some (pm_Status p)
      else if ParamName = ''LeaseDuration'' then Some (pm_LeaseDuration p)
      else if ParamName = ''ExternalPort'' then Some (ucast (pm_ExternalPort p))
      else if ParamName = ''ExternalPortEndRange'' then Some (ucast (pm_ExternalPortEndRange p))
      else if ParamName = ''InternalPort'' then Some (ucast (pm_InternalPort p))
      else if ParamName = ''Protocol'' then Some (ucast (pm_Protocol p))
      else if ParamName = ''InternalClient'' then Some (pm_InternalClient p)
      else if ParamName = ''RemoteHost'' then Some (pm_RemoteHost p)
      else (case PortMapping_GetParamUlongValue_Custom l ParamName of
          Some v \<Rightarrow> Some v
        | None \<Rightarrow> if ParamName = ''X_CISCO_COM_Origin'' then Some (pm_Origin p) else None))"

text \<open>A string getter returns the code's \<open>ULONG\<close> (0, 1 or -1), the caller's buffer and \<open>*pUlSize\<close>;
  \<open>give_string\<close> is the block every string parameter has.\<close>

definition give_string :: "string \<Rightarrow> string \<Rightarrow> ULONG \<Rightarrow> ULONG \<times> string \<times> ULONG" where
  "give_string s pValue pUlSize =
     (if of_nat (length s) < pUlSize
      then (case strcpy_s (unat pUlSize) s of (rc, v) \<Rightarrow> (if rc then 0 else - 1, v, pUlSize))
      else (1, pValue, of_nat (length s) + 1))"

definition PortMapping_GetParamStringValue :: "('s, 'c, 'r) libs \<Rightarrow> pm_link \<Rightarrow> string \<Rightarrow> string \<Rightarrow> ULONG \<Rightarrow>
    ULONG \<times> string \<times> ULONG" where
  "PortMapping_GetParamStringValue L l ParamName pValue pUlSize =
     (let p = lnk_hContext l in
      if ParamName = ''Alias'' then give_string (pm_Alias p) pValue pUlSize
      else if ParamName = ''Description'' then give_string (pm_Description p) pValue pUlSize
      else if ParamName = ''Interface'' then
        (case CosaUtilGetFullPathNameByKeyword L ''Device.IP.Interface.'' ''Name'' (pm_Interface p) of
           Some s \<Rightarrow> give_string s pValue pUlSize
         | None \<Rightarrow> (0, pValue, pUlSize))
      else if ParamName = ''X_CISCO_COM_InternalClientV6'' then give_string (pm_InternalClientV6 p) pValue pUlSize
      else (- 1, pValue, pUlSize))"

definition PortMapping_SetParamBoolValue :: "('s, 'c, 'r) libs \<Rightarrow> ('s, 'r) nat_state \<Rightarrow> pm_link \<Rightarrow> string \<Rightarrow>
    bool \<Rightarrow> bool \<times> ('s, 'r) nat_state" where
  "PortMapping_SetParamBoolValue L st l ParamName bValue =
     (if bridge_blocked L then (False, st)
      else if ParamName = ''Enable''
      then (True, put_pm st (l\<lparr>lnk_hContext := (lnk_hContext l)\<lparr>pm_bEnabled := bValue\<rparr>\<rparr>))
      else if ParamName = ''AllInterfaces''
      then (True, put_pm st (l\<lparr>lnk_hContext := (lnk_hContext l)\<lparr>pm_AllInterfaces := bValue\<rparr>\<rparr>))
      else (False, st))"

definition PortMapping_SetParamIntValue :: "('s, 'r) nat_state \<Rightarrow> pm_link \<Rightarrow> string \<Rightarrow> int \<Rightarrow> bool \<times> ('s, 'r) nat_state" where
  "PortMapping_SetParamIntValue st l ParamName iValue = (False, st)"

definition PortMapping_SetParamUlongValue_Custom :: "('s, 'r) nat_state \<Rightarrow> pm_link \<Rightarrow> string \<Rightarrow> ULONG \<Rightarrow>
    bool \<times> ('s, 'r) nat_state" where
  "PortMapping_SetParamUlongValue_Custom st l ParamName uValue =
     (if ParamName = ''X_Comcast_com_PublicIP''
      then (True, put_pm st (l\<lparr>lnk_hContext := (lnk_hContext l)\<lparr>pm_PublicIP := uValue\<rparr>\<rparr>))
      else (False, st))"

definition PortMapping_SetParamUlongValue :: "('s, 'c, 'r) libs \<Rightarrow> ('s, 'r) nat_state \<Rightarrow> pm_link \<Rightarrow> string \<Rightarrow>
    ULONG \<Rightarrow> bool \<times> ('s, 'r) nat_state" where
  "PortMapping_SetParamUlongValue L st l ParamName uValue =
     (let p = lnk_hContext l; set = (\<lambda>p'. (True, put_pm st (l\<lparr>lnk_hContext := p'\<rparr>))) in
      if bridge_blocked L then (False, st)
      else if ParamName = ''LeaseDuration'' then (uValue = 0 \<and> pm_LeaseDuration p = 0, st)
      else if ParamName = ''ExternalPort'' then set (p\<lparr>pm_ExternalPort := ucast uValue\<rparr>)
      else if ParamName = ''ExternalPortEndRange'' then set (p\<lparr>pm_ExternalPortEndRange := ucast uValue\<rparr>)
      else if ParamName = ''InternalPort'' then set (p\<lparr>pm_InternalPort := ucast uValue\<rparr>)
      else if ParamName = ''Protocol'' then set (p\<lparr>pm_Protocol := ucast uValue\<rparr>)
      else if ParamName = ''InternalClient'' then set (p\<lparr>pm_InternalClient := uValue\<rparr>)
      else if ParamName = ''RemoteHost'' then set (p\<lparr>pm_RemoteHost := uValue\<rparr>)
      else (case PortMapping_SetParamUlongValue_Custom st l ParamName uValue of
          (ok, st') \<Rightarrow> if ok then (True, st') else (True, st)))"

definition PortMapping_SetParamStringValue :: "('s, 'c, 'r) libs \<Rightarrow> ('s, 'r) nat_state \<Rightarrow> pm_link \<Rightarrow> string \<Rightarrow>
    string \<Rightarrow> bool \<times> ('s, 'r) nat_state" where
  "PortMapping_SetParamStringValue L st l ParamName pString =
     (let p = lnk_hContext l; cpy = lib_noclobber L; set = (\<lambda>st p'. put_pm st (l\<lparr>lnk_hContext := p'\<rparr>)) in
      if bridge_blocked L then (False, st)
      else if ParamName = ''Alias'' then
        (case cpy ALIAS_OF_PORTMAPPING_SIZE (AliasOfPortMapping st) (pm_Alias p) of
           (rc, old) \<Rightarrow>
             if \<not> rc then (False, st\<lparr>AliasOfPortMapping := old\<rparr>)
             else (case cpy COSA_DML_IF_NAME_LENGTH (pm_Alias p) pString of
                 (rc, a) \<Rightarrow> (rc, set (st\<lparr>AliasOfPortMapping := old\<rparr>) (p\<lparr>pm_Alias := a\<rparr>))))
      else if ParamName = ''Description'' then
        (case cpy PM_DESCRIPTION_SIZE (pm_Description p) pString of
           (rc, d) \<Rightarrow> (rc, set st (p\<lparr>pm_Description := d\<rparr>)))
      else if ParamName = ''Interface'' then
        (case cpy COSA_DML_IF_NAME_LENGTH (pm_Interface p) pString of
           (rc, i) \<Rightarrow> (rc, set st (p\<lparr>pm_Interface := i\<rparr>)))
      else if ParamName = ''X_CISCO_COM_InternalClientV6'' then
        (case cpy PM_CLIENTV6_SIZE (pm_InternalClientV6 p) pString of
           (rc, c) \<Rightarrow> (rc, set st (p\<lparr>pm_InternalClientV6 := c\<rparr>)))
      else (False, st))"

section \<open>Validate, commit, roll back\<close>

text \<open>The search for an entry with the same alias: the pointer comparison is the comparison of addresses.\<close>

fun alias_taken :: "pm_link list \<Rightarrow> pm_link \<Rightarrow> bool" where
  "alias_taken [] l = False"
| "alias_taken (l2 # ls) l =
     (if pm_Alias (lnk_hContext l2) = pm_Alias (lnk_hContext l)
      then (if lnk_addr l2 = lnk_addr l then alias_taken ls l else True)
      else alias_taken ls l)"

text \<open>The last component is \<open>pReturnParamName\<close>.\<close>

definition PortMapping_Validate :: "('s, 'c, 'r) libs \<Rightarrow> ('s, 'r) nat_state \<Rightarrow> pm_link \<Rightarrow> string \<Rightarrow> ULONG \<Rightarrow>
    bool \<times> ('s, 'r) nat_state \<times> string" where
  "PortMapping_Validate L st l pReturnParamName len =
     (let p = lnk_hContext l in
      if \<not> Check_PF_parameter L st p \<or> \<not> CosaDmlChkDesp (pm_Description p) \<or>
         \<not> CosaDmlNatChkPortMappingMaxRuleNum p \<or> \<not> CosaDmlNatChkEnableFlg st p
      then
        let p' = (if lnk_bNew l then NAT_PORTMAPPING_SET_DEFAULTVALUE p
                  else (case CosaDmlNatGetPortMapping L st (pm_InstanceNumber p) p of
                      (status, q) \<Rightarrow> if \<not> ansc_ok status then NAT_PORTMAPPING_SET_DEFAULTVALUE q else q))
        in (False, put_pm st (l\<lparr>lnk_hContext := p'\<rparr>), pReturnParamName)
      else if AliasOfPortMapping st \<noteq> [] \<and> alias_taken (NatPMappingList st) l
      then (False, st, snd (lib_noclobber L (unat len) pReturnParamName ''Alias''))
      else (True, st, pReturnParamName))"

definition PortMapping_Commit :: "('s, 'c, 'r) libs \<Rightarrow> ('s, 'r) nat_state \<Rightarrow> pm_link \<Rightarrow>
    ansc_status \<times> ('s, 'r) nat_state" where
  "PortMapping_Commit L st l =
     (let p = lnk_hContext l; done = (\<lambda>st'. st'\<lparr>AliasOfPortMapping := []\<rparr>) in
      if lnk_bNew l then
        (case CosaDmlNatAddPortMapping L st p of (returnStatus, st1) \<Rightarrow>
           if ansc_ok returnStatus
           then (returnStatus, done (snd (CosaNatRegSetNatInfo L (put_pm st1 (l\<lparr>lnk_bNew := False\<rparr>)))))
           else
             let p1 = NAT_PORTMAPPING_SET_DEFAULTVALUE p;
                 p2 = (if AliasOfPortMapping st1 \<noteq> []
                       then p1\<lparr>pm_Alias := snd (lib_noclobber L COSA_DML_IF_NAME_LENGTH (pm_Alias p1) (AliasOfPortMapping st1))\<rparr>
                       else p1)
             in (returnStatus, done (put_pm st1 (l\<lparr>lnk_hContext := p2\<rparr>))))
      else
        (case CosaDmlNatSetPortMapping L st p of (returnStatus, st1) \<Rightarrow>
           if \<not> ansc_ok returnStatus
           then (case CosaDmlNatGetPortMapping L st1 (pm_InstanceNumber p) p of
               (status, q) \<Rightarrow>
                 let p' = (if \<not> ansc_ok status then NAT_PORTMAPPING_SET_DEFAULTVALUE q else q)
                 in (returnStatus, done (put_pm st1 (l\<lparr>lnk_hContext := p'\<rparr>))))
           else (returnStatus, done st1)))"

definition PortMapping_Rollback :: "('s, 'c, 'r) libs \<Rightarrow> ('s, 'r) nat_state \<Rightarrow> pm_link \<Rightarrow>
    ansc_status \<times> ('s, 'r) nat_state" where
  "PortMapping_Rollback L st l =
     (let p = lnk_hContext l;
          p1 = (if AliasOfPortMapping st \<noteq> []
                then p\<lparr>pm_Alias := snd (lib_noclobber L COSA_DML_IF_NAME_LENGTH (pm_Alias p) (AliasOfPortMapping st))\<rparr>
                else p);
          p2 = (if \<not> lnk_bNew l then p1 else NAT_PORTMAPPING_SET_DEFAULTVALUE p1)
      in (ANSC_SUCCESS, (put_pm st (l\<lparr>lnk_hContext := p2\<rparr>))\<lparr>AliasOfPortMapping := []\<rparr>))"

end
