(* ===== verification/Nat_PortMapping_Table.thy ===== *)
theory Nat_PortMapping_Table
  imports Nat_PortMapping
begin

text \<open>
  The port mapping table as a state machine: its invariant, that every operation keeps it, and the step
  relation of everything the framework (and, through the rule store, other processes) can do.
\<close>

section \<open>What the helpers touch\<close>

lemma AnscAllocateMemory_eq:
  "AnscAllocateMemory L st = (a, st') \<longleftrightarrow>
     a = (if lib_alloc L (st_allocs st) then Some (st_allocs st) else None) \<and>
     st' = st\<lparr>st_allocs := Suc (st_allocs st)\<rparr>"
  by (auto simp: AnscAllocateMemory_def)

lemma RegSet_touches:
  "\<exists>r k. snd (CosaNatRegSetNatInfo L st) = st\<lparr>st_allocs := k, st_registry := r\<rparr> \<and> st_allocs st \<le> k"
proof (cases "hIrepFolderNat st")
  case None
  then have "snd (CosaNatRegSetNatInfo L st) = st\<lparr>st_allocs := st_allocs st, st_registry := st_registry st\<rparr>"
    by (simp add: CosaNatRegSetNatInfo_def)
  then show ?thesis by blast
next
  case (Some p)
  have "\<exists>r. snd (CosaNatRegSetNatInfo L st) = st\<lparr>st_allocs := Suc (st_allocs st), st_registry := r\<rparr>"
    using Some by (auto simp: CosaNatRegSetNatInfo_def AnscAllocateMemory_def Let_def intro!: exI split: prod.split option.split)
  then show ?thesis by (metis le_Suc_eq order_refl)
qed

lemma CosaNatGen_Some:
  assumes "CosaNatGen L st e = Some (s, e', st')"
  shows "\<exists>n r k. gen_pm (NatPMappingList st) (MaxInstanceNumber st) = Some n \<and>
    st' = st\<lparr>MaxInstanceNumber := n, st_allocs := k, st_registry := r\<rparr> \<and> st_allocs st \<le> k"
proof -
  obtain n where n: "gen_pm (NatPMappingList st) (MaxInstanceNumber st) = Some n"
    using assms by (cases "gen_pm (NatPMappingList st) (MaxInstanceNumber st)") (simp_all add: CosaNatGen_def)
  then have "st' = st\<lparr>MaxInstanceNumber := n\<rparr> \<or> st' = snd (CosaNatRegSetNatInfo L (st\<lparr>MaxInstanceNumber := n\<rparr>))"
    using assms by (auto simp: CosaNatGen_def Let_def split: option.split_asm prod.split_asm)
  then show ?thesis
  proof
    assume "st' = st\<lparr>MaxInstanceNumber := n\<rparr>"
    then have "st' = st\<lparr>MaxInstanceNumber := n, st_allocs := st_allocs st, st_registry := st_registry st\<rparr>" by simp
    with n show ?thesis by blast
  next
    assume s: "st' = snd (CosaNatRegSetNatInfo L (st\<lparr>MaxInstanceNumber := n\<rparr>))"
    from RegSet_touches [of L "st\<lparr>MaxInstanceNumber := n\<rparr>"] obtain r k where
      "snd (CosaNatRegSetNatInfo L (st\<lparr>MaxInstanceNumber := n\<rparr>)) =
         st\<lparr>MaxInstanceNumber := n\<rparr>\<lparr>st_allocs := k, st_registry := r\<rparr>" "st_allocs st \<le> k"
      by auto
    with n s show ?thesis by (auto intro!: exI [of _ n])
  qed
qed

lemma pm_backend_touches:
  "\<exists>s'. snd (CosaDmlNatAddPortMapping L st e) = st\<lparr>st_store := s'\<rparr>"
  "\<exists>s'. snd (CosaDmlNatSetPortMapping L st e) = st\<lparr>st_store := s'\<rparr>"
  "\<exists>s'. snd (CosaDmlNatDelPortMapping L st n) = st\<lparr>st_store := s'\<rparr>"
  by (auto simp: CosaDmlNatAddPortMapping_def CosaDmlNatSetPortMapping_def CosaDmlNatDelPortMapping_def
      split: prod.split option.split intro: exI [of _ "st_store st"])

lemma CosaDmlNatGetPortMapping_number:
  assumes "utopia_ok (lib_ut L) vs vc" "CosaDmlNatGetPortMapping L st n p = (s, q)" "pm_InstanceNumber p = n"
  shows "pm_InstanceNumber q = n"
proof (cases "ut_Init (lib_ut L) (st_store st)")
  case None
  with assms show ?thesis by (simp add: CosaDmlNatGetPortMapping_def)
next
  case (Some c)
  with assms show ?thesis
    by (auto simp: CosaDmlNatGetPortMapping_def utopia_by_id [OF assms(1)] pm_from_range_def pm_from_single_def
        split: option.split_asm dest!: find_Some_key)
qed

section \<open>The invariant\<close>

text \<open>Numbers ascend strictly and none is 0, link objects have different addresses of allocated blocks, and
  a link has its entry's number.\<close>

definition pm_inv :: "('s, 'r) nat_state \<Rightarrow> bool" where
  "pm_inv st \<longleftrightarrow> table_wf lnk_InstanceNumber (NatPMappingList st) \<and>
     distinct (map lnk_addr (NatPMappingList st)) \<and>
     (\<forall>l \<in> set (NatPMappingList st).
        lnk_addr l < st_allocs st \<and> pm_InstanceNumber (lnk_hContext l) = lnk_InstanceNumber l)"

lemma pm_inv_links: "pm_inv st \<longleftrightarrow> links_ok pm_InstanceNumber (st_allocs st) (NatPMappingList st)"
  by (simp add: pm_inv_def links_ok_def)

lemma pm_inv_touch [pam_simps]:
  "pm_inv (st\<lparr>st_store := s\<rparr>) = pm_inv st" "pm_inv (st\<lparr>st_registry := r\<rparr>) = pm_inv st"
  "pm_inv (st\<lparr>AliasOfPortMapping := a\<rparr>) = pm_inv st" "pm_inv (st\<lparr>PreviousVisitTime := t\<rparr>) = pm_inv st"
  "pm_inv (st\<lparr>MaxInstanceNumber := m\<rparr>) = pm_inv st"
  by (simp_all add: pm_inv_def)

lemma pm_inv_allocs: "pm_inv st \<Longrightarrow> st_allocs st \<le> k \<Longrightarrow> pm_inv (st\<lparr>st_allocs := k\<rparr>)"
  by (auto simp: pm_inv_def)

lemma pm_inv_RegSet: "pm_inv st \<Longrightarrow> pm_inv (snd (CosaNatRegSetNatInfo L st))"
  using RegSet_touches [of L st] by (auto simp: pm_inv_touch pm_inv_allocs)

lemma pm_inv_backend:
  assumes "pm_inv st"
  shows "pm_inv (snd (CosaDmlNatAddPortMapping L st e))" "pm_inv (snd (CosaDmlNatSetPortMapping L st e))"
    "pm_inv (snd (CosaDmlNatDelPortMapping L st n))"
  using assms pm_backend_touches [of L st] pm_inv_touch(1) by metis+

lemma pm_inv_put:
  assumes "pm_inv st" "link_at (NatPMappingList st) (lnk_addr l') = Some l"
    "lnk_InstanceNumber l' = lnk_InstanceNumber l"
    "pm_InstanceNumber (lnk_hContext l') = pm_InstanceNumber (lnk_hContext l)"
  shows "pm_inv (put_pm st l')"
  using links_ok_put [of pm_InstanceNumber "st_allocs st", OF _ assms(2-4)] assms(1) by (simp add: pm_inv_links put_pm_def)

lemma pm_inv_put_ctx:
  "pm_inv st \<Longrightarrow> link_at (NatPMappingList st) (lnk_addr l) = Some l \<Longrightarrow>
   pm_InstanceNumber p = pm_InstanceNumber (lnk_hContext l) \<Longrightarrow> pm_inv (put_pm st (l\<lparr>lnk_hContext := p\<rparr>))"
  by (rule pm_inv_put [of st _ l]) simp_all

lemma pm_inv_push:
  assumes "pm_inv st" "CosaSListGetEntryByInsNum (NatPMappingList st) (lnk_InstanceNumber l) = None"
    "lnk_InstanceNumber l \<noteq> 0" "pm_InstanceNumber (lnk_hContext l) = lnk_InstanceNumber l"
    "lnk_addr l \<notin> lnk_addr ` set (NatPMappingList st)" "lnk_addr l < st_allocs st"
  shows "pm_inv (st\<lparr>NatPMappingList := CosaSListPushEntryByInsNum (NatPMappingList st) l\<rparr>)"
  using assms by (simp add: pm_inv_links links_ok_push)

lemma pm_inv_filter:
  assumes "pm_inv st"
  shows "pm_inv (st\<lparr>NatPMappingList := filter P (NatPMappingList st)\<rparr>)"
  using assms by (simp add: pm_inv_links links_ok_filter)

section \<open>Synchronize\<close>

text \<open>What marking does to one link, and the pass as a map over the links.\<close>

definition marked :: "COSA_DML_NAT_PMAPPING list \<Rightarrow> pm_link \<Rightarrow> pm_link" where
  "marked es l = (case find (\<lambda>e. pm_InstanceNumber e = lnk_InstanceNumber l) es of
       Some e \<Rightarrow> l\<lparr>lnk_bFound := True, lnk_hContext := e, lnk_bNew := False\<rparr> | None \<Rightarrow> l)"

definition numbers_agree :: "pm_link list \<Rightarrow> bool" where
  "numbers_agree l \<longleftrightarrow> distinct (map lnk_InstanceNumber l) \<and>
     (\<forall>x \<in> set l. pm_InstanceNumber (lnk_hContext x) = lnk_InstanceNumber x)"

lemma marked_keeps [simp]:
  "lnk_InstanceNumber (marked es l) = lnk_InstanceNumber l" "lnk_addr (marked es l) = lnk_addr l"
  by (simp_all add: marked_def split: option.split)

lemma marked_number:
  "pm_InstanceNumber (lnk_hContext l) = lnk_InstanceNumber l \<Longrightarrow>
   pm_InstanceNumber (lnk_hContext (marked es l)) = lnk_InstanceNumber l"
  by (auto simp: marked_def split: option.split dest: find_Some_key)

lemma marked_Nil [simp]: "marked [] l = l"
  by (simp add: marked_def)

lemma marked_one:
  "pm_InstanceNumber e = lnk_InstanceNumber l \<Longrightarrow>
     marked [e] l = l\<lparr>lnk_bFound := True, lnk_hContext := e, lnk_bNew := False\<rparr>"
  "pm_InstanceNumber e \<noteq> lnk_InstanceNumber l \<Longrightarrow> marked [e] l = l"
  by (simp_all add: marked_def)

lemma marked_Cons:
  "pm_InstanceNumber e \<notin> pm_InstanceNumber ` set es \<Longrightarrow> marked (e # es) l = marked es (marked [e] l)"
  by (auto simp: marked_def find_None_key [symmetric] split: option.split)

lemma numbers_agree_marked: "numbers_agree l \<Longrightarrow> numbers_agree (map (marked es) l)"
  by (simp add: numbers_agree_def comp_def marked_number)

lemma mark_one_eq:
  assumes "numbers_agree l"
  shows "mark_one e l = (if pm_InstanceNumber e \<in> lnk_InstanceNumber ` set l then Some (map (marked [e]) l) else None)"
  using assms
proof (induction l)
  case Nil
  then show ?case by simp
next
  case (Cons x l)
  then have l: "numbers_agree l" "lnk_InstanceNumber x \<notin> lnk_InstanceNumber ` set l"
    "pm_InstanceNumber (lnk_hContext x) = lnk_InstanceNumber x"
    by (simp_all add: numbers_agree_def)
  have same: "map (marked [e]) l = l" if "pm_InstanceNumber e = lnk_InstanceNumber x"
  proof (rule map_idI)
    fix y assume "y \<in> set l"
    then have "lnk_InstanceNumber y \<noteq> lnk_InstanceNumber x" using l(2) by (metis imageI)
    then show "marked [e] y = y" using that by (simp add: marked_one)
  qed
  show ?case
  proof (cases "pm_InstanceNumber e = lnk_InstanceNumber x")
    case True
    with l same show ?thesis by (simp add: marked_one)
  next
    case False
    with Cons.IH [OF l(1)] l show ?thesis by (auto simp: marked_one)
  qed
qed

lemma sync_mark_eq:
  assumes "numbers_agree l" "distinct (map (\<lambda>c. pm_InstanceNumber (fst c)) cells)"
  shows "sync_mark cells l =
    (map (\<lambda>(e, t). (e, if pm_InstanceNumber e \<in> lnk_InstanceNumber ` set l then 1 else t)) cells,
     map (marked (map fst cells)) l)"
  using assms
proof (induction cells arbitrary: l)
  case Nil
  then show ?case by (simp add: map_idI)
next
  case (Cons c cells)
  obtain e t where c: "c = (e, t)" by fastforce
  have ids: "pm_InstanceNumber e \<notin> pm_InstanceNumber ` set (map fst cells)"
    using Cons.prems(2) c by (auto simp: image_image)
  have d: "distinct (map (\<lambda>c. pm_InstanceNumber (fst c)) cells)" using Cons.prems(2) by simp
  show ?case
  proof (cases "pm_InstanceNumber e \<in> lnk_InstanceNumber ` set l")
    case True
    then have m: "mark_one e l = Some (map (marked [e]) l)" using mark_one_eq [OF Cons.prems(1)] by simp
    have im: "lnk_InstanceNumber ` set (map (marked [e]) l) = lnk_InstanceNumber ` set l"
      by (simp add: image_image)
    show ?thesis
      using Cons.IH [OF numbers_agree_marked [OF Cons.prems(1)] d, of "[e]"] True im
      by (simp add: c m marked_Cons [OF ids] comp_def)
  next
    case False
    then have m: "mark_one e l = None" using mark_one_eq [OF Cons.prems(1)] by simp
    have "marked [e] x = x" if "x \<in> set l" for x using False that by (auto simp: marked_def)
    then have "map (marked (e # map fst cells)) l = map (marked (map fst cells)) l"
      by (simp add: marked_Cons [OF ids])
    with False m Cons.IH [OF Cons.prems(1) d] show ?thesis by (simp add: c)
  qed
qed

text \<open>The last pass pushes one link per open cell; \<open>added\<close> relates such a link to its rule.\<close>

definition fresh_links :: "nat \<Rightarrow> (COSA_DML_NAT_PMAPPING \<times> ULONG) list \<Rightarrow> pm_link set \<Rightarrow> bool" where
  "fresh_links a cells A \<longleftrightarrow> lnk_hContext ` A = {e. (e, 0) \<in> set cells} \<and>
     (\<forall>l \<in> A. \<not> lnk_bNew l \<and> lnk_InstanceNumber l = pm_InstanceNumber (lnk_hContext l) \<and> a \<le> lnk_addr l)"

lemma sync_add_inv:
  assumes "pm_inv st" "distinct (map (\<lambda>c. pm_InstanceNumber (fst c)) cells)"
    "\<forall>(e, t) \<in> set cells. t = 0 \<longrightarrow> pm_InstanceNumber e \<noteq> 0 \<and>
        pm_InstanceNumber e \<notin> lnk_InstanceNumber ` set (NatPMappingList st)"
    "sync_add L cells st = (s, st')"
  shows "pm_inv st' \<and> st_store st' = st_store st \<and>
    (ansc_ok s \<longrightarrow> (\<exists>A. fresh_links (st_allocs st) cells A \<and> set (NatPMappingList st') = set (NatPMappingList st) \<union> A))"
  using assms
proof (induction cells arbitrary: st)
  case Nil
  then show ?case by (auto simp: fresh_links_def intro!: exI [of _ "{}"])
next
  case (Cons c cells)
  obtain e t where c: "c = (e, t)" by fastforce
  show ?case
  proof (cases "t = 0")
    case False
    with Cons.prems c have r: "sync_add L cells st = (s, st')" by simp
    have f: "fresh_links a (c # cells) A = fresh_links a cells A" for a A
      using False by (simp add: fresh_links_def c)
    show ?thesis using Cons.IH [OF Cons.prems(1) _ _ r] Cons.prems(2,3) f by simp
  next
    case True
    let ?k = "st_allocs st"
    show ?thesis
    proof (cases "lib_alloc L ?k \<and> lib_alloc L (Suc ?k)")
      case False
      then have "s = ANSC_FAILURE \<and> (\<exists>k. st' = st\<lparr>st_allocs := k\<rparr> \<and> ?k \<le> k)"
        using Cons.prems(4) True c by (auto simp: AnscAllocateMemory_def split: if_split_asm)
      then show ?thesis using pm_inv_allocs [OF Cons.prems(1)] by auto
    next
      case alloc: True
      define l where "l = \<lparr>lnk_addr = ?k, lnk_InstanceNumber = pm_InstanceNumber e, lnk_bNew = False,
         lnk_bFound = lib_junk_bFound L ?k, lnk_hContext = e\<rparr>"
      define st1 where "st1 = st\<lparr>st_allocs := Suc (Suc ?k)\<rparr>"
      define st2 where "st2 = st1\<lparr>NatPMappingList := CosaSListPushEntryByInsNum (NatPMappingList st1) l\<rparr>"
      have r: "sync_add L cells st2 = (s, st')"
        using Cons.prems(4) alloc True c by (simp add: AnscAllocateMemory_def st2_def st1_def l_def)
      have e: "pm_InstanceNumber e \<noteq> 0" "pm_InstanceNumber e \<notin> lnk_InstanceNumber ` set (NatPMappingList st)"
        using Cons.prems(3) True c by auto
      have "?k \<notin> lnk_addr ` set (NatPMappingList st)" using Cons.prems(1) by (auto simp: pm_inv_def)
      then have i2: "pm_inv st2"
        unfolding st2_def using e cosa.get_None [of "NatPMappingList st" "pm_InstanceNumber e"]
        by (intro pm_inv_push) (use Cons.prems(1) in \<open>auto simp: st1_def l_def pm_inv_allocs\<close>)
      have im: "lnk_InstanceNumber ` set (NatPMappingList st2) =
          insert (pm_InstanceNumber e) (lnk_InstanceNumber ` set (NatPMappingList st))"
        by (simp add: st2_def st1_def l_def)
      have ne: "pm_InstanceNumber e \<noteq> pm_InstanceNumber e'" if "(e', t') \<in> set cells" for e' t'
        using Cons.prems(2) that c by (force simp: image_iff)
      have "\<forall>(e', t) \<in> set cells. t = 0 \<longrightarrow> pm_InstanceNumber e' \<noteq> 0 \<and>
          pm_InstanceNumber e' \<notin> lnk_InstanceNumber ` set (NatPMappingList st2)"
      proof clarify
        fix e' assume e': "(e', 0 :: ULONG) \<in> set cells"
        then have "pm_InstanceNumber e' \<noteq> 0 \<and> pm_InstanceNumber e' \<notin> lnk_InstanceNumber ` set (NatPMappingList st)"
          using Cons.prems(3) by (auto dest: bspec [of _ _ "(e', 0)"])
        then show "pm_InstanceNumber e' \<noteq> 0 \<and>
            pm_InstanceNumber e' \<notin> lnk_InstanceNumber ` set (NatPMappingList st2)"
          using ne [OF e'] im by auto
      qed
      with Cons.IH [OF i2 _ _ r] Cons.prems(2) have ih: "pm_inv st'" "st_store st' = st_store st2"
        "ansc_ok s \<longrightarrow> (\<exists>A. fresh_links (st_allocs st2) cells A \<and>
           set (NatPMappingList st') = set (NatPMappingList st2) \<union> A)" by simp_all
      have "fresh_links ?k (c # cells) (insert l A)" if "fresh_links (st_allocs st2) cells A" for A
        using that True c by (auto simp: fresh_links_def l_def st2_def st1_def)
      moreover have "set (NatPMappingList st2) \<union> A = set (NatPMappingList st) \<union> insert l A" for A
        by (simp add: st2_def st1_def)
      moreover have "st_store st2 = st_store st" by (simp add: st2_def st1_def)
      ultimately have "\<exists>A. fresh_links ?k (c # cells) A \<and> set (NatPMappingList st') = set (NatPMappingList st) \<union> A"
        if "ansc_ok s" using ih(3) that by metis
      with ih(1,2) \<open>st_store st2 = st_store st\<close> show ?thesis by simp
    qed
  qed
qed

text \<open>The rules as \<open>CosaDmlNatGetPortMappings\<close> presents them, and a store whose rules have different
  numbers, none 0.\<close>

definition pm_rules :: "('s, 'c, 'r) libs \<Rightarrow> ustore \<Rightarrow> COSA_DML_NAT_PMAPPING list" where
  "pm_rules L v = map (pm_list_single L) (u_single v) @ map (pm_list_range L) (u_range v)"

definition pf_numbers_ok :: "ustore \<Rightarrow> bool" where
  "pf_numbers_ok v \<longleftrightarrow> distinct (map ps_rule_id (u_single v) @ map pr_rule_id (u_range v)) \<and>
     0 \<notin> ps_rule_id ` set (u_single v) \<union> pr_rule_id ` set (u_range v)"

lemma pm_list_number [simp]:
  "pm_InstanceNumber (pm_list_single L r) = ps_rule_id r" "pm_InstanceNumber (pm_list_range L q) = pr_rule_id q"
  by (simp_all add: pm_list_single_def pm_list_range_def pm_from_single_def pm_from_range_def)

lemma GetPortMappings_reads:
  assumes ok: "utopia_ok (lib_ut L) vs vc" and n: "pf_numbers_ok (vs (st_store st))"
    and r: "CosaDmlNatGetPortMappings L st = (rules, st')"
  defines "es \<equiv> case rules of Some es \<Rightarrow> es | None \<Rightarrow> []"
  shows "\<exists>s k. st' = st\<lparr>st_allocs := k, st_store := s\<rparr> \<and> st_allocs st \<le> k \<and> vs s = vs (st_store st)"
    "distinct (map pm_InstanceNumber es) \<and> 0 \<notin> pm_InstanceNumber ` set es"
    "utopia_total (lib_ut L) \<Longrightarrow> \<forall>n. lib_alloc L n \<Longrightarrow> es = pm_rules L (vs (st_store st))"
proof -
  let ?v = "vs (st_store st)"
  have "rules = None \<and> (\<exists>k. st' = st\<lparr>st_allocs := k\<rparr> \<and> st_allocs st \<le> k) \<or>
    (\<exists>c. ut_Init (lib_ut L) (st_store st) = Some c \<and>
       rules = Some (map (pm_list_single L) (case ut_GetPortForwarding (lib_ut L) c of Some l \<Rightarrow> l | None \<Rightarrow> []) @
                     map (pm_list_range L) (case ut_GetPortForwardingRange (lib_ut L) c of Some l \<Rightarrow> l | None \<Rightarrow> [])) \<and>
       st' = commit L (st\<lparr>st_allocs := Suc (st_allocs st)\<rparr>) c)"
    using r by (auto simp: CosaDmlNatGetPortMappings_def AnscAllocateMemory_def Let_def
        split: option.split_asm if_split_asm intro: exI [of _ "st_allocs st"])
  then have "(\<exists>s k. st' = st\<lparr>st_allocs := k, st_store := s\<rparr> \<and> st_allocs st \<le> k \<and> vs s = ?v) \<and>
    (\<exists>l1 l2. es = map (pm_list_single L) l1 @ map (pm_list_range L) l2 \<and> l1 \<in> {[], u_single ?v} \<and> l2 \<in> {[], u_range ?v})"
  proof
    assume "rules = None \<and> (\<exists>k. st' = st\<lparr>st_allocs := k\<rparr> \<and> st_allocs st \<le> k)"
    then show ?thesis by (auto simp: es_def intro!: exI [of _ "st_store st"])
  next
    assume "\<exists>c. ut_Init (lib_ut L) (st_store st) = Some c \<and>
       rules = Some (map (pm_list_single L) (case ut_GetPortForwarding (lib_ut L) c of Some l \<Rightarrow> l | None \<Rightarrow> []) @
                     map (pm_list_range L) (case ut_GetPortForwardingRange (lib_ut L) c of Some l \<Rightarrow> l | None \<Rightarrow> [])) \<and>
       st' = commit L (st\<lparr>st_allocs := Suc (st_allocs st)\<rparr>) c"
    then obtain c where c: "ut_Init (lib_ut L) (st_store st) = Some c" "es =
        map (pm_list_single L) (case ut_GetPortForwarding (lib_ut L) c of Some l \<Rightarrow> l | None \<Rightarrow> []) @
        map (pm_list_range L) (case ut_GetPortForwardingRange (lib_ut L) c of Some l \<Rightarrow> l | None \<Rightarrow> [])"
      "st' = commit L (st\<lparr>st_allocs := Suc (st_allocs st)\<rparr>) c" by (auto simp: es_def)
    have v: "vc c = ?v" using utopia_Init [OF ok c(1)] .
    have "(case ut_GetPortForwarding (lib_ut L) c of Some l \<Rightarrow> l | None \<Rightarrow> []) \<in> {[], u_single ?v}"
      "(case ut_GetPortForwardingRange (lib_ut L) c of Some l \<Rightarrow> l | None \<Rightarrow> []) \<in> {[], u_range ?v}"
      using v by (auto split: option.split dest: utopia_lists(1,2) [OF ok])
    moreover have "\<exists>s k. st' = st\<lparr>st_allocs := k, st_store := s\<rparr> \<and> st_allocs st \<le> k \<and> vs s = ?v"
      using c(3) ok v by (intro exI [of _ "ut_Commit (lib_ut L) (st_store st) c"] exI [of _ "Suc (st_allocs st)"]) simp
    ultimately show ?thesis using c(2) by blast
  qed
  then obtain l1 l2 where l: "es = map (pm_list_single L) l1 @ map (pm_list_range L) l2"
      "l1 \<in> {[], u_single ?v}" "l2 \<in> {[], u_range ?v}"
    and "\<exists>s k. st' = st\<lparr>st_allocs := k, st_store := s\<rparr> \<and> st_allocs st \<le> k \<and> vs s = ?v" by blast
  then show "\<exists>s k. st' = st\<lparr>st_allocs := k, st_store := s\<rparr> \<and> st_allocs st \<le> k \<and> vs s = ?v" by blast
  show "distinct (map pm_InstanceNumber es) \<and> 0 \<notin> pm_InstanceNumber ` set es"
    using n l(2,3) unfolding l(1) pf_numbers_ok_def
    by (auto simp: comp_def image_Un image_image)
  show "es = pm_rules L ?v" if t: "utopia_total (lib_ut L)" and a: "\<forall>n. lib_alloc L n"
  proof -
    obtain c where c: "ut_Init (lib_ut L) (st_store st) = Some c" using utopia_totalD(1) [OF t] by blast
    have v: "vc c = ?v" using utopia_Init [OF ok c] .
    show ?thesis
      using r c a utopia_total_gets [OF ok t, of c] v
      by (auto simp: CosaDmlNatGetPortMappings_def AnscAllocateMemory_def Let_def es_def pm_rules_def split: if_split_asm)
  qed
qed

lemma sync_cells_Some:
  assumes "sync_cells L st es = (Some cells, st')"
  shows "map fst cells = es \<and> (\<exists>k. st' = st\<lparr>st_allocs := k\<rparr> \<and> st_allocs st \<le> k) \<and>
    ((\<forall>a i. lib_junk_ulong L a i = 0) \<longrightarrow> cells = map (\<lambda>e. (e, 0)) es)"
  using assms by (auto simp: sync_cells_def AnscAllocateMemory_def zip_same_conv_map zip_map2 intro: exI [of _ "st_allocs st"]
      split: if_split_asm option.split_asm intro!: nth_equalityI)

lemma pm_inv_mark:
  assumes "pm_inv st" "distinct (map pm_InstanceNumber es)" "map fst cells = es"
  shows "sync_mark cells (map (\<lambda>l. l\<lparr>lnk_bFound := False\<rparr>) (NatPMappingList st)) =
      (map (\<lambda>(e, t). (e, if pm_InstanceNumber e \<in> lnk_InstanceNumber ` set (NatPMappingList st) then 1 else t)) cells,
       map (\<lambda>l. marked es (l\<lparr>lnk_bFound := False\<rparr>)) (NatPMappingList st)) \<and>
    pm_inv (st\<lparr>NatPMappingList := map (\<lambda>l. marked es (l\<lparr>lnk_bFound := False\<rparr>)) (NatPMappingList st)\<rparr>)"
proof
  let ?l = "map (\<lambda>l. l\<lparr>lnk_bFound := False\<rparr>) (NatPMappingList st)"
  have "numbers_agree ?l" using assms(1) by (simp add: pm_inv_def table_wf_def numbers_agree_def comp_def)
  moreover have "distinct (map (\<lambda>c. pm_InstanceNumber (fst c)) cells)"
    using assms(2) unfolding assms(3) [symmetric] by (simp add: comp_def)
  ultimately show "sync_mark cells ?l =
      (map (\<lambda>(e, t). (e, if pm_InstanceNumber e \<in> lnk_InstanceNumber ` set (NatPMappingList st) then 1 else t)) cells,
       map (\<lambda>l. marked es (l\<lparr>lnk_bFound := False\<rparr>)) (NatPMappingList st))"
    using sync_mark_eq [of ?l cells] assms(3) by (simp add: image_image comp_def)
  show "pm_inv (st\<lparr>NatPMappingList := map (\<lambda>l. marked es (l\<lparr>lnk_bFound := False\<rparr>)) (NatPMappingList st)\<rparr>)"
    using assms(1) by (simp add: pm_inv_def table_wf_def comp_def image_image marked_number)
qed

text \<open>A link survives the purge when the rules have its number or when it is new.\<close>

lemma marked_survives:
  "lnk_bFound (marked es (l\<lparr>lnk_bFound := False\<rparr>)) \<or> lnk_bNew (marked es (l\<lparr>lnk_bFound := False\<rparr>)) \<longleftrightarrow>
     lnk_InstanceNumber l \<in> pm_InstanceNumber ` set es \<or> lnk_bNew l"
proof (cases "find (\<lambda>e. pm_InstanceNumber e = lnk_InstanceNumber l) es")
  case None
  moreover from this have "lnk_InstanceNumber l \<notin> pm_InstanceNumber ` set es" by (simp add: find_None_key)
  ultimately show ?thesis by (simp add: marked_def)
next
  case (Some e)
  then have "lnk_InstanceNumber l \<in> pm_InstanceNumber ` set es" using find_Some_key [OF Some] by (metis imageI)
  with Some show ?thesis by (simp add: marked_def)
qed

lemma Synchronize_ok:
  assumes ok: "utopia_ok (lib_ut L) vs vc" and n: "pf_numbers_ok (vs (st_store st))" and i: "pm_inv st"
    and r: "PortMapping_Synchronize L st = (s, st')"
  shows "pm_inv st' \<and> vs (st_store st') = vs (st_store st)"
    "utopia_total (lib_ut L) \<Longrightarrow> \<forall>n. lib_alloc L n \<Longrightarrow> \<forall>a i. lib_junk_ulong L a i = 0 \<Longrightarrow> ansc_ok s \<Longrightarrow>
     \<exists>A. lnk_hContext ` A = {e \<in> set (pm_rules L (vs (st_store st))).
           pm_InstanceNumber e \<notin> lnk_InstanceNumber ` set (NatPMappingList st)} \<and>
       (\<forall>l \<in> A. \<not> lnk_bNew l \<and> lnk_InstanceNumber l = pm_InstanceNumber (lnk_hContext l)) \<and>
       set (NatPMappingList st') = A \<union> (\<lambda>l. marked (pm_rules L (vs (st_store st))) (l\<lparr>lnk_bFound := False\<rparr>)) `
         {l \<in> set (NatPMappingList st). lnk_bNew l \<or>
            lnk_InstanceNumber l \<in> pm_InstanceNumber ` set (pm_rules L (vs (st_store st)))}"
proof -
  obtain rules st1 where g: "CosaDmlNatGetPortMappings L st = (rules, st1)" by fastforce
  define es where "es = (case rules of Some es \<Rightarrow> es | None \<Rightarrow> [])"
  note reads = GetPortMappings_reads [OF ok n g, folded es_def]
  obtain s1 k1 where st1: "st1 = st\<lparr>st_allocs := k1, st_store := s1\<rparr>" "st_allocs st \<le> k1" "vs s1 = vs (st_store st)"
    using reads(1) by blast
  have i1: "pm_inv st1" using pm_inv_allocs [OF i st1(2)] by (simp add: st1(1) pm_inv_def)
  obtain cells st2 where cl: "sync_cells L st1 es = (cells, st2)" by fastforce
  let ?f = "\<lambda>l. marked es (l\<lparr>lnk_bFound := False\<rparr>)"
  have "pm_inv st' \<and> vs (st_store st') = vs (st_store st) \<and>
    ((\<forall>n. lib_alloc L n) \<longrightarrow> (\<forall>a i. lib_junk_ulong L a i = 0) \<longrightarrow> ansc_ok s \<longrightarrow>
     (\<exists>A. lnk_hContext ` A = {e \<in> set es. pm_InstanceNumber e \<notin> lnk_InstanceNumber ` set (NatPMappingList st)} \<and>
       (\<forall>l \<in> A. \<not> lnk_bNew l \<and> lnk_InstanceNumber l = pm_InstanceNumber (lnk_hContext l)) \<and>
       set (NatPMappingList st') = A \<union> ?f ` {l \<in> set (NatPMappingList st). lnk_bNew l \<or>
            lnk_InstanceNumber l \<in> pm_InstanceNumber ` set es}))"
  proof (cases cells)
    case None
    then have "s = ANSC_FAILURE \<and> st' = st2" using r g cl by (simp add: PortMapping_Synchronize_def es_def)
    moreover have "\<exists>k. st2 = st1\<lparr>st_allocs := k\<rparr> \<and> st_allocs st1 \<le> k"
      using cl None by (auto simp: sync_cells_def AnscAllocateMemory_def split: if_split_asm)
    ultimately show ?thesis using pm_inv_allocs [OF i1] st1(3) by (auto simp: st1(1))
  next
    case (Some cs)
    note cs = sync_cells_Some [OF cl [unfolded Some]]
    obtain k2 where st2: "st2 = st1\<lparr>st_allocs := k2\<rparr>" "st_allocs st1 \<le> k2" using cs by blast
    have i2: "pm_inv st2" using pm_inv_allocs [OF i1 st2(2)] by (simp add: st2(1))
    have l2: "NatPMappingList st2 = NatPMappingList st" by (simp add: st2(1) st1(1))
    note mk = pm_inv_mark [OF i2 conjunct1 [OF reads(2)] conjunct1 [OF cs], unfolded l2]
    let ?cs = "map (\<lambda>(e, t). (e, if pm_InstanceNumber e \<in> lnk_InstanceNumber ` set (NatPMappingList st) then 1 else t)) cs"
    define st3 where "st3 = st2\<lparr>NatPMappingList := filter (\<lambda>l. \<not> (\<not> lnk_bFound l \<and> \<not> lnk_bNew l)) (map ?f (NatPMappingList st))\<rparr>"
    have r3: "sync_add L ?cs st3 = (s, st')"
      using r g cl Some mk by (simp add: PortMapping_Synchronize_def es_def Let_def l2 st3_def)
    have i3: "pm_inv st3"
      using pm_inv_filter [OF conjunct2 [OF mk], of "\<lambda>l. \<not> (\<not> lnk_bFound l \<and> \<not> lnk_bNew l)"] by (simp add: st3_def)
    have set3: "set (NatPMappingList st3) = ?f ` {l \<in> set (NatPMappingList st). lnk_bNew l \<or>
            lnk_InstanceNumber l \<in> pm_InstanceNumber ` set es}"
    proof -
      have "{x \<in> ?f ` X. \<not> (\<not> lnk_bFound x \<and> \<not> lnk_bNew x)} =
          ?f ` {l \<in> X. lnk_bFound (?f l) \<or> lnk_bNew (?f l)}" for X by blast
      then show ?thesis by (simp add: st3_def marked_survives disj_commute)
    qed
    have d: "distinct (map (\<lambda>c. pm_InstanceNumber (fst c)) ?cs)"
    proof -
      have "map (\<lambda>c. pm_InstanceNumber (fst c)) ?cs = map pm_InstanceNumber (map fst cs)" by (induction cs) auto
      then show ?thesis using reads(2) cs by simp
    qed
    have open_cells: "\<forall>(e, t) \<in> set ?cs. t = 0 \<longrightarrow> pm_InstanceNumber e \<noteq> 0 \<and>
        pm_InstanceNumber e \<notin> lnk_InstanceNumber ` set (NatPMappingList st3)"
    proof clarify
      fix e assume "(e, 0) \<in> set ?cs"
      then have "e \<in> set (map fst cs)" "pm_InstanceNumber e \<notin> lnk_InstanceNumber ` set (NatPMappingList st)"
        by (force split: if_split_asm)+
      moreover have "lnk_InstanceNumber ` set (NatPMappingList st3) \<subseteq> lnk_InstanceNumber ` set (NatPMappingList st)"
        unfolding set3 by (simp add: image_image) (blast intro: imageI)
      ultimately show "pm_InstanceNumber e \<noteq> 0 \<and> pm_InstanceNumber e \<notin> lnk_InstanceNumber ` set (NatPMappingList st3)"
        using reads(2) cs by (metis image_eqI subset_iff)
    qed
    note add = sync_add_inv [OF i3 d open_cells r3]
    have "\<exists>A. lnk_hContext ` A = {e \<in> set es. pm_InstanceNumber e \<notin> lnk_InstanceNumber ` set (NatPMappingList st)} \<and>
       (\<forall>l \<in> A. \<not> lnk_bNew l \<and> lnk_InstanceNumber l = pm_InstanceNumber (lnk_hContext l)) \<and>
       set (NatPMappingList st') = A \<union> set (NatPMappingList st3)"
      if "\<forall>a i. lib_junk_ulong L a i = 0" "ansc_ok s"
    proof -
      have "cs = map (\<lambda>e. (e, 0)) es" using cs that(1) by blast
      then have "{e. (e, 0) \<in> set ?cs} = {e \<in> set es. pm_InstanceNumber e \<notin> lnk_InstanceNumber ` set (NatPMappingList st)}"
        by (auto split: if_split_asm)
      moreover note good = that(2)
      obtain A where "fresh_links (st_allocs st3) ?cs A"
        "set (NatPMappingList st') = set (NatPMappingList st3) \<union> A" using add good by blast
      ultimately show ?thesis by (intro exI [of _ A]) (simp add: fresh_links_def Un_commute)
    qed
    moreover have "vs (st_store st') = vs (st_store st)" using add st1(3) by (simp add: st3_def st2(1) st1(1))
    ultimately show ?thesis using conjunct1 [OF add] unfolding set3 by blast
  qed
  moreover have "utopia_total (lib_ut L) \<Longrightarrow> \<forall>n. lib_alloc L n \<Longrightarrow> es = pm_rules L (vs (st_store st))"
    using reads(3) by blast
  ultimately show "pm_inv st' \<and> vs (st_store st') = vs (st_store st)"
    "utopia_total (lib_ut L) \<Longrightarrow> \<forall>n. lib_alloc L n \<Longrightarrow> \<forall>a i. lib_junk_ulong L a i = 0 \<Longrightarrow> ansc_ok s \<Longrightarrow>
     \<exists>A. lnk_hContext ` A = {e \<in> set (pm_rules L (vs (st_store st))).
           pm_InstanceNumber e \<notin> lnk_InstanceNumber ` set (NatPMappingList st)} \<and>
       (\<forall>l \<in> A. \<not> lnk_bNew l \<and> lnk_InstanceNumber l = pm_InstanceNumber (lnk_hContext l)) \<and>
       set (NatPMappingList st') = A \<union> (\<lambda>l. marked (pm_rules L (vs (st_store st))) (l\<lparr>lnk_bFound := False\<rparr>)) `
         {l \<in> set (NatPMappingList st). lnk_bNew l \<or>
            lnk_InstanceNumber l \<in> pm_InstanceNumber ` set (pm_rules L (vs (st_store st)))}"
    by blast+
qed

section \<open>The other operations\<close>

text \<open>What \<open>PortMapping_AddEntry\<close> does when it returns a handle.\<close>

lemma AddEntry_cases:
  assumes "PortMapping_AddEntry L st = Some (h, st')"
  shows "(\<exists>k. h = None \<and> st' = st\<lparr>st_allocs := k\<rparr> \<and> st_allocs st \<le> k) \<or>
    (\<exists>n l. \<not> bridge_blocked L \<and> gen_pm (NatPMappingList st) (MaxInstanceNumber st) = Some n \<and>
       lnk_addr l = Suc (st_allocs st) \<and> lnk_InstanceNumber l = n \<and> lnk_bNew l \<and>
       pm_InstanceNumber (lnk_hContext l) = n \<and> pm_Origin (lnk_hContext l) = Origin_Static \<and>
       h = Some (lnk_addr l, n) \<and>
       (\<exists>r k. st_allocs st + 2 \<le> k \<and>
          st' = st\<lparr>NatPMappingList := CosaSListPushEntryByInsNum (NatPMappingList st) l,
                   MaxInstanceNumber := n, st_allocs := k, st_registry := r\<rparr>))"
proof -
  let ?k = "st_allocs st"
  show ?thesis
  proof (cases "bridge_blocked L \<or> \<not> lib_alloc L ?k \<or> \<not> lib_alloc L (Suc ?k)")
    case True
    then consider "bridge_blocked L" | "\<not> bridge_blocked L" "\<not> lib_alloc L ?k"
      | "\<not> bridge_blocked L" "lib_alloc L ?k" "\<not> lib_alloc L (Suc ?k)" by blast
    then have "h = None \<and> (\<exists>k. st' = st\<lparr>st_allocs := k\<rparr> \<and> ?k \<le> k)"
    proof cases
      case 1
      then have "h = None" "st' = st\<lparr>st_allocs := ?k\<rparr>" using assms by (simp_all add: PortMapping_AddEntry_def)
      then show ?thesis by blast
    next
      case 2
      then have "h = None" "st' = st\<lparr>st_allocs := Suc ?k\<rparr>"
        using assms by (simp_all add: PortMapping_AddEntry_def AnscAllocateMemory_def)
      then show ?thesis by (metis le_SucI le_refl)
    next
      case 3
      then have "h = None" "st' = st\<lparr>st_allocs := Suc (Suc ?k)\<rparr>"
        using assms by (simp_all add: PortMapping_AddEntry_def AnscAllocateMemory_def)
      then show ?thesis by (metis le_SucI le_refl)
    qed
    then show ?thesis by blast
  next
    case False
    define st2 where "st2 = st\<lparr>st_allocs := Suc (Suc ?k)\<rparr>"
    define e0 where "e0 = NAT_PORTMAPPING_SET_DEFAULTVALUE (lib_junk_pm L ?k)"
    have "CosaNatGen L st2 e0 \<noteq> None"
    proof
      assume "CosaNatGen L st2 e0 = None"
      with assms False show False
        by (simp add: PortMapping_AddEntry_def AnscAllocateMemory_def st2_def e0_def)
    qed
    then obtain s e1 st3 where g: "CosaNatGen L st2 e0 = Some (s, e1, st3)" by (metis option.exhaust surj_pair)
    from CosaNatGen_Some [OF g] obtain n r k where n:
      "gen_pm (NatPMappingList st) (MaxInstanceNumber st) = Some n"
      "st3 = st2\<lparr>MaxInstanceNumber := n, st_allocs := k, st_registry := r\<rparr>" "Suc (Suc ?k) \<le> k"
      by (auto simp: st2_def)
    define l where "l = \<lparr>lnk_addr = Suc ?k, lnk_InstanceNumber = n, lnk_bNew = True,
      lnk_bFound = lib_junk_bFound L (Suc ?k),
      lnk_hContext = e1\<lparr>pm_InstanceNumber := n, pm_Origin := Origin_Static\<rparr>\<rparr>"
    define st4 where "st4 = st3\<lparr>NatPMappingList := CosaSListPushEntryByInsNum (NatPMappingList st3) l\<rparr>"
    have al: "AnscAllocateMemory L st = (Some ?k, st\<lparr>st_allocs := Suc ?k\<rparr>)"
      "AnscAllocateMemory L (st\<lparr>st_allocs := Suc ?k\<rparr>) = (Some (Suc ?k), st2)"
      using False by (simp_all add: AnscAllocateMemory_def st2_def)
    have m: "MaxInstanceNumber st3 = n" by (simp add: n(2))
    have "PortMapping_AddEntry L st = Some (Some (Suc ?k, n), snd (CosaNatRegSetNatInfo L st4))"
      using False by (simp add: PortMapping_AddEntry_def al g [unfolded e0_def] m Let_def l_def st4_def)
    then have h: "h = Some (Suc ?k, n)" "st' = snd (CosaNatRegSetNatInfo L st4)" using assms by simp_all
    from RegSet_touches [of L st4] obtain r' k' where rk:
      "snd (CosaNatRegSetNatInfo L st4) = st4\<lparr>st_allocs := k', st_registry := r'\<rparr>" "st_allocs st4 \<le> k'" by blast
    have "st4\<lparr>st_allocs := k', st_registry := r'\<rparr> =
        st\<lparr>NatPMappingList := CosaSListPushEntryByInsNum (NatPMappingList st) l,
           MaxInstanceNumber := n, st_allocs := k', st_registry := r'\<rparr>"
      by (rule nat_state.equality) (simp_all add: st4_def n(2) st2_def)
    then have st': "st' = st\<lparr>NatPMappingList := CosaSListPushEntryByInsNum (NatPMappingList st) l,
           MaxInstanceNumber := n, st_allocs := k', st_registry := r'\<rparr>" using h(2) rk(1) by metis
    have k': "st_allocs st + 2 \<le> k'" using rk(2) n(3) by (simp add: st4_def n(2))
    have l: "lnk_addr l = Suc (st_allocs st)" "lnk_InstanceNumber l = n" "lnk_bNew l"
      "pm_InstanceNumber (lnk_hContext l) = n" "pm_Origin (lnk_hContext l) = Origin_Static"
      by (simp_all add: l_def)
    have h': "h = Some (lnk_addr l, n)" using h(1) l(1) by simp
    show ?thesis
      by (intro disjI2 exI [of _ n] exI [of _ l] conjI) (use False n(1) l h' st' k' in blast)+
  qed
qed

lemma pm_inv_AddEntry:
  assumes "pm_inv st" "PortMapping_AddEntry L st = Some (h, st')"
  shows "pm_inv st'"
  using AddEntry_cases [OF assms(2)]
proof
  assume "\<exists>k. h = None \<and> st' = st\<lparr>st_allocs := k\<rparr> \<and> st_allocs st \<le> k"
  then show ?thesis using pm_inv_allocs [OF assms(1)] by blast
next
  assume "\<exists>n l. \<not> bridge_blocked L \<and> gen_pm (NatPMappingList st) (MaxInstanceNumber st) = Some n \<and>
       lnk_addr l = Suc (st_allocs st) \<and> lnk_InstanceNumber l = n \<and> lnk_bNew l \<and>
       pm_InstanceNumber (lnk_hContext l) = n \<and> pm_Origin (lnk_hContext l) = Origin_Static \<and>
       h = Some (lnk_addr l, n) \<and>
       (\<exists>r k. st_allocs st + 2 \<le> k \<and>
          st' = st\<lparr>NatPMappingList := CosaSListPushEntryByInsNum (NatPMappingList st) l,
                   MaxInstanceNumber := n, st_allocs := k, st_registry := r\<rparr>)"
  then obtain n l r k where n: "gen_pm (NatPMappingList st) (MaxInstanceNumber st) = Some n"
    and l: "lnk_addr l = Suc (st_allocs st)" "lnk_InstanceNumber l = n" "pm_InstanceNumber (lnk_hContext l) = n"
    and k: "st_allocs st + 2 \<le> k"
    and st': "st' = st\<lparr>NatPMappingList := CosaSListPushEntryByInsNum (NatPMappingList st) l,
                   MaxInstanceNumber := n, st_allocs := k, st_registry := r\<rparr>" by blast
  define s0 where "s0 = st\<lparr>MaxInstanceNumber := n, st_allocs := k, st_registry := r\<rparr>"
  have "pm_inv s0" unfolding s0_def using assms(1) k by (auto simp: pm_inv_def)
  moreover have "lnk_addr l \<notin> lnk_addr ` set (NatPMappingList s0)" using assms(1) l by (auto simp: s0_def pm_inv_def)
  ultimately have "pm_inv (s0\<lparr>NatPMappingList := CosaSListPushEntryByInsNum (NatPMappingList s0) l\<rparr>)"
    using gen_pm_fresh [OF n] l k by (intro pm_inv_push) (simp_all add: s0_def)
  moreover have "s0\<lparr>NatPMappingList := CosaSListPushEntryByInsNum (NatPMappingList s0) l\<rparr> = st'"
    by (rule nat_state.equality) (simp_all add: s0_def st')
  ultimately show ?thesis by simp
qed

lemma pm_inv_DelEntry:
  assumes "pm_inv st" "link_at (NatPMappingList st) (lnk_addr l) = Some l"
  shows "pm_inv (snd (PortMapping_DelEntry L st l))"
proof -
  have "pm_inv (put_pm st (l\<lparr>lnk_bNew := False\<rparr>))" by (rule pm_inv_put [OF assms(1), of _ l]) (use assms(2) in simp_all)
  then have "pm_inv (snd (if lnk_bNew l then CosaNatRegSetNatInfo L (put_pm st (l\<lparr>lnk_bNew := False\<rparr>))
      else CosaDmlNatDelPortMapping L st (pm_InstanceNumber (lnk_hContext l))))"
    using pm_inv_RegSet pm_inv_backend(3) [OF assms(1)] by (cases "lnk_bNew l") auto
  then show ?thesis
    using assms(1) unfolding PortMapping_DelEntry_def
    by (auto simp: AnscSListPopEntryByLink_def pm_inv_filter split: prod.split)
qed

lemma NAT_PORTMAPPING_number [simp]:
  "pm_InstanceNumber (NAT_PORTMAPPING_SET_DEFAULTVALUE p\<lparr>pm_Alias := a\<rparr>) = pm_InstanceNumber p" by simp

lemma pm_inv_setters:
  assumes "pm_inv st" "link_at (NatPMappingList st) (lnk_addr l) = Some l"
  shows "pm_inv (snd (PortMapping_SetParamBoolValue L st l name b))"
    "pm_inv (snd (PortMapping_SetParamUlongValue L st l name u))"
    "pm_inv (snd (PortMapping_SetParamStringValue L st l name s))"
    "pm_inv (snd (PortMapping_Rollback L st l))"
proof -
  have a: "pm_inv (st\<lparr>AliasOfPortMapping := a\<rparr>)"
    "link_at (NatPMappingList (st\<lparr>AliasOfPortMapping := a\<rparr>)) (lnk_addr l) = Some l" for a
    using assms by (simp_all add: pm_inv_touch)
  note put = pm_inv_put_ctx [OF assms] pm_inv_put_ctx [OF a]
  show "pm_inv (snd (PortMapping_SetParamBoolValue L st l name b))"
    by (simp add: PortMapping_SetParamBoolValue_def assms put)
  show "pm_inv (snd (PortMapping_SetParamUlongValue L st l name u))"
    by (simp add: PortMapping_SetParamUlongValue_def PortMapping_SetParamUlongValue_Custom_def Let_def assms put
        split: prod.split)
  show "pm_inv (snd (PortMapping_SetParamStringValue L st l name s))"
    by (simp add: PortMapping_SetParamStringValue_def Let_def assms(1) a(1) put split: prod.split)
  show "pm_inv (snd (PortMapping_Rollback L st l))"
    by (simp add: PortMapping_Rollback_def Let_def pm_inv_touch put)
qed

lemma pm_inv_Validate:
  assumes "utopia_ok (lib_ut L) vs vc" "pm_inv st" "link_at (NatPMappingList st) (lnk_addr l) = Some l"
  shows "pm_inv (fst (snd (PortMapping_Validate L st l ret len)))"
proof -
  obtain s q where g: "CosaDmlNatGetPortMapping L st (pm_InstanceNumber (lnk_hContext l)) (lnk_hContext l) = (s, q)"
    by fastforce
  with CosaDmlNatGetPortMapping_number [OF assms(1) g] show ?thesis
    using assms(2) by (simp add: PortMapping_Validate_def Let_def pm_inv_put_ctx [OF assms(2,3)])
qed

lemma pm_inv_Commit:
  assumes "utopia_ok (lib_ut L) vs vc" "pm_inv st" "link_at (NatPMappingList st) (lnk_addr l) = Some l"
  shows "pm_inv (snd (PortMapping_Commit L st l))"
proof (cases "lnk_bNew l")
  case True
  obtain s s' where a: "CosaDmlNatAddPortMapping L st (lnk_hContext l) = (s, st\<lparr>st_store := s'\<rparr>)"
    using pm_backend_touches(1) [of L st "lnk_hContext l"] by (metis prod.collapse)
  let ?st = "st\<lparr>st_store := s'\<rparr>"
  have i: "pm_inv ?st" "link_at (NatPMappingList ?st) (lnk_addr l) = Some l"
    using assms(2,3) by (simp_all add: pm_inv_touch)
  have "pm_inv (put_pm ?st (l\<lparr>lnk_bNew := False\<rparr>))" by (rule pm_inv_put [OF i(1), of _ l]) (use i(2) in simp_all)
  then show ?thesis
    by (simp add: PortMapping_Commit_def Let_def True a pm_inv_touch pm_inv_RegSet pm_inv_put_ctx [OF i])
next
  case False
  obtain s s' where a: "CosaDmlNatSetPortMapping L st (lnk_hContext l) = (s, st\<lparr>st_store := s'\<rparr>)"
    using pm_backend_touches(2) [of L st "lnk_hContext l"] by (metis prod.collapse)
  let ?st = "st\<lparr>st_store := s'\<rparr>"
  have i: "pm_inv ?st" "link_at (NatPMappingList ?st) (lnk_addr l) = Some l"
    using assms(2,3) by (simp_all add: pm_inv_touch)
  obtain s2 q where g: "CosaDmlNatGetPortMapping L ?st (pm_InstanceNumber (lnk_hContext l)) (lnk_hContext l) = (s2, q)"
    by fastforce
  with CosaDmlNatGetPortMapping_number [OF assms(1) g] show ?thesis
    using i(1) pm_inv_put_ctx [OF i] by (simp add: PortMapping_Commit_def Let_def False a pm_inv_touch)
qed

end
