(* ===== verification/Nat_PortMapping_Steps.thy ===== *)
theory Nat_PortMapping_Steps
  imports Nat_PortMapping_Table
begin

text \<open>
  The step relation of the port mapping table, its reachable states, and the properties of the table
  operations.
\<close>

section \<open>The step relation\<close>

text \<open>A step is one call of the framework on the table, with the handle of a present entry where the call
  needs one, or a change by somebody else: \<open>env\<close> leaves the list alone and may change the rule store,
  the registry, the switches and everything the other NAT objects own, and may allocate memory.\<close>

inductive pm_step :: "('s, 'c, 'r) world \<Rightarrow> ('s, 'r) nat_state \<Rightarrow> ('s, 'r) nat_state \<Rightarrow> bool" for w where
  add: "PortMapping_AddEntry (fst w) st = Some (h, st') \<Longrightarrow> pm_step w st st'"
| del: "link_at (NatPMappingList st) (lnk_addr l) = Some l \<Longrightarrow> PortMapping_DelEntry (fst w) st l = (s, st') \<Longrightarrow>
    pm_step w st st'"
| set_bool: "link_at (NatPMappingList st) (lnk_addr l) = Some l \<Longrightarrow>
    PortMapping_SetParamBoolValue (fst w) st l name b = (ok, st') \<Longrightarrow> pm_step w st st'"
| set_ulong: "link_at (NatPMappingList st) (lnk_addr l) = Some l \<Longrightarrow>
    PortMapping_SetParamUlongValue (fst w) st l name u = (ok, st') \<Longrightarrow> pm_step w st st'"
| set_string: "link_at (NatPMappingList st) (lnk_addr l) = Some l \<Longrightarrow>
    PortMapping_SetParamStringValue (fst w) st l name v = (ok, st') \<Longrightarrow> pm_step w st st'"
| validate: "link_at (NatPMappingList st) (lnk_addr l) = Some l \<Longrightarrow>
    PortMapping_Validate (fst w) st l ret len = (ok, st', ret') \<Longrightarrow> pm_step w st st'"
| commit: "link_at (NatPMappingList st) (lnk_addr l) = Some l \<Longrightarrow> PortMapping_Commit (fst w) st l = (s, st') \<Longrightarrow>
    pm_step w st st'"
| rollback: "link_at (NatPMappingList st) (lnk_addr l) = Some l \<Longrightarrow>
    PortMapping_Rollback (fst w) st l = (s, st') \<Longrightarrow> pm_step w st st'"
| updated: "PortMapping_IsUpdated now now' st = (u, st') \<Longrightarrow> pm_step w st st'"
| sync: "pf_numbers_ok (pf_store w st) \<Longrightarrow> PortMapping_Synchronize (fst w) st = (s, st') \<Longrightarrow> pm_step w st st'"
| env: "NatPMappingList st' = NatPMappingList st \<Longrightarrow> st_allocs st \<le> st_allocs st' \<Longrightarrow> pm_step w st st'"

lemma pm_step_inv:
  assumes "world_ok w" "pm_inv st" "pm_step w st st'"
  shows "pm_inv st'"
proof -
  obtain L vs vc where w: "w = (L, vs, vc)" by (cases w)
  with assms(1) have ok: "utopia_ok (lib_ut L) vs vc" by (simp add: world_ok_def)
  note setters = pm_inv_setters [OF assms(2)]
  from assms(3) show ?thesis
  proof (cases rule: pm_step.cases)
    case (add h) then show ?thesis using pm_inv_AddEntry assms(2) by blast
  next
    case (del l s) then show ?thesis using pm_inv_DelEntry [OF assms(2), of l "fst w"] by simp
  next
    case (set_bool l name b r) then show ?thesis using setters(1) [of l "fst w" name b] by simp
  next
    case (set_ulong l name u r) then show ?thesis using setters(2) [of l "fst w" name u] by simp
  next
    case (set_string l name v r) then show ?thesis using setters(3) [of l "fst w" name v] by simp
  next
    case (validate l ret len r ret') then show ?thesis
      using pm_inv_Validate [OF ok assms(2), of l ret len] w by simp
  next
    case (commit l s) then show ?thesis using pm_inv_Commit [OF ok assms(2), of l] w by simp
  next
    case (rollback l s) then show ?thesis using setters(4) [of l "fst w"] by simp
  next
    case (updated now now' u) then show ?thesis
      using assms(2) by (auto simp: PortMapping_IsUpdated_def pm_inv_touch split: if_split_asm)
  next
    case (sync s) then show ?thesis using Synchronize_ok(1) [OF ok _ assms(2)] w by (auto simp: pf_store_def)
  next
    case env then show ?thesis using assms(2) by (auto simp: pm_inv_def)
  qed
qed


text \<open>Adding an entry on the example state.\<close>

lemma mem_bridge_libs [simp]: "\<not> bridge_blocked mem_libs"
  by (simp add: mem_bridge)

lemma gen_pm_first: "gen_pm [] 0 = Some 1"
  by (subst gen_pm.simps) (simp add: next_number_def CosaSListGetEntryByInsNum_def Let_def)

lemma mem_AddEntry: "\<exists>h st'. PortMapping_AddEntry mem_libs mem_state = Some (Some h, st') \<and>
  map lnk_InstanceNumber (NatPMappingList st') = [1]"
proof -
  have "PortMapping_AddEntry mem_libs mem_state \<noteq> None"
    by (auto simp: PortMapping_AddEntry_def AnscAllocateMemory_def CosaNatGen_def mem_state_def gen_pm_first Let_def
        split: option.split prod.split)
  then obtain h st' where r: "PortMapping_AddEntry mem_libs mem_state = Some (h, st')" by auto
  have "h \<noteq> None"
    using r by (auto simp: PortMapping_AddEntry_def AnscAllocateMemory_def Let_def split: option.split_asm prod.split_asm)
  with AddEntry_cases [OF r] r show ?thesis
    by (auto simp: mem_state_def gen_pm_first CosaSListPushEntryByInsNum_def)
qed


text \<open>Outside bridge mode, with memory and a table that is not full, \<open>PortMapping_AddEntry\<close> returns a
  handle; the new entry has a number no entry had, is uncommitted and static, is the one found under
  its number, and every other entry is found as before.\<close>

theorem port_mapping_add_entry:
  assumes "pm_inv st" "length (NatPMappingList st) < 2 ^ 32 - 1" "\<not> bridge_blocked L" "\<forall>n. lib_alloc L n"
  shows "\<exists>a n l st'. PortMapping_AddEntry L st = Some (Some (a, n), st') \<and> n \<noteq> 0 \<and>
    CosaSListGetEntryByInsNum (NatPMappingList st) n = None \<and>
    CosaSListGetEntryByInsNum (NatPMappingList st') n = Some l \<and>
    link_at (NatPMappingList st') a = Some l \<and> lnk_bNew l \<and> pm_InstanceNumber (lnk_hContext l) = n \<and>
    pm_Origin (lnk_hContext l) = Origin_Static \<and>
    (\<forall>m. m \<noteq> n \<longrightarrow> CosaSListGetEntryByInsNum (NatPMappingList st') m = CosaSListGetEntryByInsNum (NatPMappingList st) m)"
proof -
  let ?l = "NatPMappingList st"
  have wf: "table_wf lnk_InstanceNumber ?l" using assms(1) by (simp add: pm_inv_def)
  obtain n where n: "gen_pm ?l (MaxInstanceNumber st) = Some n" using pm_numbers.gen_returns [OF assms(2)] by blast
  have "PortMapping_AddEntry L st \<noteq> None"
    using n assms(3,4) by (auto simp: PortMapping_AddEntry_def AnscAllocateMemory_def CosaNatGen_def Let_def
        split: option.split prod.split)
  then obtain h st' where r: "PortMapping_AddEntry L st = Some (h, st')" by auto
  have "h \<noteq> None"
    using r assms(3,4) by (auto simp: PortMapping_AddEntry_def AnscAllocateMemory_def Let_def split: option.split_asm prod.split_asm)
  with AddEntry_cases [OF r] n obtain l where l: "lnk_InstanceNumber l = n" "lnk_bNew l"
    "pm_InstanceNumber (lnk_hContext l) = n" "pm_Origin (lnk_hContext l) = Origin_Static" "h = Some (lnk_addr l, n)"
    "NatPMappingList st' = CosaSListPushEntryByInsNum ?l l" by auto
  have fresh: "n \<noteq> 0" "CosaSListGetEntryByInsNum ?l n = None" using pm_numbers.gen_fresh [OF n] by simp_all
  have "pm_inv st'" by (rule pm_inv_AddEntry [OF assms(1) r])
  then have "link_at (NatPMappingList st') (lnk_addr l) = Some l" by (intro link_at_in) (simp_all add: pm_inv_def l(6))
  moreover have "CosaSListGetEntryByInsNum (NatPMappingList st') n = Some l"
    using pm_numbers.gen_push_get [OF wf n l(1)] l(6) by simp
  moreover have "\<forall>m. m \<noteq> n \<longrightarrow> CosaSListGetEntryByInsNum (NatPMappingList st') m = CosaSListGetEntryByInsNum ?l m"
    using cosa.get_push_other [OF wf, of l] fresh l(1,6) by simp
  ultimately show ?thesis using r l fresh by blast
qed

lemma port_mapping_add_entry_witness:
  "\<exists>a n l st'. PortMapping_AddEntry mem_libs mem_state = Some (Some (a, n), st') \<and>
     CosaSListGetEntryByInsNum (NatPMappingList st') n = Some l \<and> lnk_bNew l"
  using port_mapping_add_entry [of mem_state mem_libs]
  by (simp add: pm_inv_def mem_state_def table_wf_def) blast

end
