(* ===== verification/Nat_PortMapping_Props.thy ===== *)
theory Nat_PortMapping_Props
  imports Nat_PortMapping_Steps
begin

text \<open>
  Properties of the port mapping handlers: the refresh refines the rule store, commit and delete carry an
  entry into the store and out of it, validation, parameters, and bridge mode.
\<close>

section \<open>Refresh\<close>

lemma sync_add_succeeds: "\<forall>n. lib_alloc L n \<Longrightarrow> ansc_ok (fst (sync_add L cells st))"
  by (induction L cells st rule: sync_add.induct) (simp_all add: AnscAllocateMemory_def)

lemma Synchronize_succeeds:
  assumes "\<forall>n. lib_alloc L n"
  shows "ansc_ok (fst (PortMapping_Synchronize L st))"
  using sync_add_succeeds [OF assms] assms
  by (simp add: PortMapping_Synchronize_def sync_cells_def AnscAllocateMemory_def Let_def split: prod.split option.split)

lemma find_unique_number:
  assumes "distinct (map pm_InstanceNumber es)" "e \<in> set es"
  shows "find (\<lambda>x. pm_InstanceNumber x = pm_InstanceNumber e) es = Some e"
proof (cases "find (\<lambda>x. pm_InstanceNumber x = pm_InstanceNumber e) es")
  case None
  then have "pm_InstanceNumber e \<notin> pm_InstanceNumber ` set es" by (simp add: find_None_key)
  with assms(2) show ?thesis by blast
next
  case (Some x)
  from find_Some_key [OF Some] assms have "x = e" by (auto simp: distinct_map dest: inj_onD)
  with Some show ?thesis by simp
qed

text \<open>What the table shows of an entry: its flag and its content.\<close>

definition pm_shown :: "('s, 'r) nat_state \<Rightarrow> ULONG \<Rightarrow> (bool \<times> COSA_DML_NAT_PMAPPING) option" where
  "pm_shown st n = map_option (\<lambda>l. (lnk_bNew l, lnk_hContext l)) (CosaSListGetEntryByInsNum (NatPMappingList st) n)"

lemma pm_shown_in:
  assumes "pm_inv st" "l \<in> set (NatPMappingList st)"
  shows "pm_shown st (lnk_InstanceNumber l) = Some (lnk_bNew l, lnk_hContext l)"
  using assms cosa.get_unique [of "NatPMappingList st" l] by (simp add: pm_shown_def pm_inv_def table_wf_def)

text \<open>What a refresh with the rules \<open>es\<close> makes of the list \<open>l\<close>: new links for the rules that had none, and
  the links of the list that were uncommitted or have a rule, brought up to date.\<close>

definition refreshed :: "COSA_DML_NAT_PMAPPING list \<Rightarrow> pm_link list \<Rightarrow> pm_link list \<Rightarrow> bool" where
  "refreshed es l l' \<longleftrightarrow> (\<exists>A. lnk_hContext ` A = {e \<in> set es. pm_InstanceNumber e \<notin> lnk_InstanceNumber ` set l} \<and>
     (\<forall>x \<in> A. \<not> lnk_bNew x \<and> lnk_InstanceNumber x = pm_InstanceNumber (lnk_hContext x)) \<and>
     set l' = A \<union> (\<lambda>x. marked es (x\<lparr>lnk_bFound := False\<rparr>)) `
       {x \<in> set l. lnk_bNew x \<or> lnk_InstanceNumber x \<in> pm_InstanceNumber ` set es})"

lemma refreshed_rule:
  assumes "refreshed es l l'" "find (\<lambda>e. pm_InstanceNumber e = n) es = Some e"
  shows "\<exists>x \<in> set l'. lnk_InstanceNumber x = n \<and> \<not> lnk_bNew x \<and> lnk_hContext x = e"
proof -
  obtain A where A: "lnk_hContext ` A = {e \<in> set es. pm_InstanceNumber e \<notin> lnk_InstanceNumber ` set l}"
    "\<forall>x \<in> A. \<not> lnk_bNew x \<and> lnk_InstanceNumber x = pm_InstanceNumber (lnk_hContext x)"
    "set l' = A \<union> (\<lambda>x. marked es (x\<lparr>lnk_bFound := False\<rparr>)) `
       {x \<in> set l. lnk_bNew x \<or> lnk_InstanceNumber x \<in> pm_InstanceNumber ` set es}"
    using assms(1) unfolding refreshed_def by blast
  have e: "e \<in> set es" "pm_InstanceNumber e = n" using find_Some_key [OF assms(2)] by auto
  show ?thesis
  proof (cases "n \<in> lnk_InstanceNumber ` set l")
    case True
    then obtain x where x: "x \<in> set l" "lnk_InstanceNumber x = n" by auto
    let ?m = "marked es (x\<lparr>lnk_bFound := False\<rparr>)"
    have "lnk_InstanceNumber x \<in> pm_InstanceNumber ` set es" using x(2) e by (metis imageI)
    then have "?m \<in> set l'" using A(3) x(1) by blast
    moreover have "\<not> lnk_bNew ?m" "lnk_hContext ?m = e" using assms(2) x(2) by (simp_all add: marked_def)
    ultimately show ?thesis using x(2) by (intro bexI [of _ ?m]) simp_all
  next
    case False
    then have "e \<in> lnk_hContext ` A" using A(1) e by blast
    then show ?thesis using A(2,3) e(2) by blast
  qed
qed

lemma refreshed_no_rule:
  assumes "refreshed es l l'" "find (\<lambda>e. pm_InstanceNumber e = n) es = None"
  shows "{x \<in> set l'. lnk_InstanceNumber x = n} =
    (\<lambda>x. x\<lparr>lnk_bFound := False\<rparr>) ` {x \<in> set l. lnk_bNew x \<and> lnk_InstanceNumber x = n}"
proof -
  obtain A where A: "lnk_hContext ` A = {e \<in> set es. pm_InstanceNumber e \<notin> lnk_InstanceNumber ` set l}"
    "\<forall>x \<in> A. \<not> lnk_bNew x \<and> lnk_InstanceNumber x = pm_InstanceNumber (lnk_hContext x)"
    "set l' = A \<union> (\<lambda>x. marked es (x\<lparr>lnk_bFound := False\<rparr>)) `
       {x \<in> set l. lnk_bNew x \<or> lnk_InstanceNumber x \<in> pm_InstanceNumber ` set es}"
    using assms(1) unfolding refreshed_def by blast
  have n: "n \<notin> pm_InstanceNumber ` set es" using assms(2) by (simp add: find_None_key)
  have "lnk_InstanceNumber x \<noteq> n" if "x \<in> A" for x
  proof -
    have "lnk_hContext x \<in> set es" using that A(1) by blast
    with n A(2) that show ?thesis by (metis imageI)
  qed
  moreover have "marked es (x\<lparr>lnk_bFound := False\<rparr>) = x\<lparr>lnk_bFound := False\<rparr>" if "lnk_InstanceNumber x = n" for x
    using assms(2) that by (simp add: marked_def)
  ultimately show ?thesis using n unfolding A(3) by (auto simp: image_iff)
qed

lemma pm_shown_none:
  "{x \<in> set (NatPMappingList st). lnk_InstanceNumber x = n} = {} \<Longrightarrow> pm_shown st n = None"
  using cosa.get_None [of "NatPMappingList st" n] by (auto simp: pm_shown_def)

text \<open>Without a rule, the table shows the entry only when it is uncommitted.\<close>

lemma refreshed_shown:
  assumes r: "refreshed es (NatPMappingList st) (NatPMappingList st')" and inv: "pm_inv st" "pm_inv st'"
    and none: "find (\<lambda>e. pm_InstanceNumber e = n) es = None"
  shows "pm_shown st' n = (case pm_shown st n of Some (b, e) \<Rightarrow> if b then Some (b, e) else None | None \<Rightarrow> None)"
proof (cases "CosaSListGetEntryByInsNum (NatPMappingList st) n")
  case None
  then have "pm_shown st' n = None"
    using refreshed_no_rule [OF r none] cosa.get_None [of "NatPMappingList st" n] by (intro pm_shown_none) auto
  with None show ?thesis by (simp add: pm_shown_def)
next
  case (Some x)
  then have x: "pm_shown st n = Some (lnk_bNew x, lnk_hContext x)" "x \<in> set (NatPMappingList st)" "lnk_InstanceNumber x = n"
    using cosa.get_Some [OF Some] by (simp_all add: pm_shown_def)
  show ?thesis
  proof (cases "lnk_bNew x")
    case True
    then have "x\<lparr>lnk_bFound := False\<rparr> \<in> {y \<in> set (NatPMappingList st'). lnk_InstanceNumber y = n}"
      unfolding refreshed_no_rule [OF r none] using x by blast
    then show ?thesis using pm_shown_in [OF inv(2), of "x\<lparr>lnk_bFound := False\<rparr>"] x True by auto
  next
    case False
    have "y = x" if "y \<in> set (NatPMappingList st)" "lnk_InstanceNumber y = n" for y
      using x that inv(1) by (auto simp: pm_inv_def table_wf_def distinct_map dest: inj_onD)
    then have "pm_shown st' n = None" using refreshed_no_rule [OF r none] False by (intro pm_shown_none) auto
    with x False show ?thesis by simp
  qed
qed



end
