(* ===== verification/Nat_PortMapping_Commit.thy ===== *)
theory Nat_PortMapping_Commit
  imports Nat_PortMapping_Props
begin

text \<open>
  Validation, commit and deletion of port mapping entries, the parameter functions, and bridge mode.
\<close>

section \<open>Writing a link object back\<close>

lemma link_put_pm:
  assumes "link_at (NatPMappingList st) (lnk_addr l) = Some l" "lnk_addr l' = lnk_addr l"
  shows "link_at (NatPMappingList (put_pm st l')) (lnk_addr l) = Some l'"
  using link_at_put_link [of "NatPMappingList st" l'] assms by (simp add: put_pm_def)

lemma put_pm_fields [simp]:
  "st_store (put_pm st l) = st_store st" "AliasOfPortMapping (put_pm st l) = AliasOfPortMapping st"
  by (simp_all add: put_pm_def)

lemma RegSet_fields [simp]:
  "NatPMappingList (snd (CosaNatRegSetNatInfo L st)) = NatPMappingList st"
  "NatPTriggerList (snd (CosaNatRegSetNatInfo L st)) = NatPTriggerList st"
  "st_store (snd (CosaNatRegSetNatInfo L st)) = st_store st"
  using RegSet_touches [of L st] by auto

text \<open>An entry with the values of \<open>NAT_PORTMAPPING_SET_DEFAULTVALUE\<close>.\<close>

definition pm_is_reset :: "COSA_DML_NAT_PMAPPING \<Rightarrow> bool" where
  "pm_is_reset p \<longleftrightarrow> \<not> pm_bEnabled p \<and> pm_ExternalPort p = 0 \<and> pm_ExternalPortEndRange p = 0 \<and>
     pm_InternalPort p = 0 \<and> pm_Protocol p = 0 \<and> pm_InternalClient p = 0"

lemma reset_default [simp]:
  "pm_is_reset (NAT_PORTMAPPING_SET_DEFAULTVALUE p)"
  "pm_is_reset (NAT_PORTMAPPING_SET_DEFAULTVALUE p\<lparr>pm_Alias := a\<rparr>)"
  by (simp_all add: pm_is_reset_def NAT_PORTMAPPING_SET_DEFAULTVALUE_def)

section \<open>Commit\<close>

text \<open>C19: committing a new entry whose number the store does not have either stores exactly its rule and
  makes the entry a committed one, or, when the board layer refuses it, leaves the store as it was and
  the entry uncommitted with its rule fields reset. The saved alias is cleared either way.\<close>

theorem port_mapping_commit_new:
  assumes "utopia_ok (lib_ut L) vs vc" "pf_disjoint (vs (st_store st))"
    and "link_at (NatPMappingList st) (lnk_addr l) = Some l" "lnk_bNew l"
    and "pf_view (vs (st_store st)) (pm_InstanceNumber (lnk_hContext l)) = None"
    and "PortMapping_Commit L st l = (s, st')"
  shows "AliasOfPortMapping st' = [] \<and>
    (if ansc_ok s
     then pf_view (vs (st_store st')) = (pf_view (vs (st_store st)))
            (pm_InstanceNumber (lnk_hContext l) \<mapsto> pf_rule_of (lib_ut L) (lnk_hContext l)) \<and>
          link_at (NatPMappingList st') (lnk_addr l) = Some (l\<lparr>lnk_bNew := False\<rparr>)
     else pf_view (vs (st_store st')) = pf_view (vs (st_store st)) \<and>
          (\<exists>p. pm_is_reset p \<and> link_at (NatPMappingList st') (lnk_addr l) = Some (l\<lparr>lnk_hContext := p\<rparr>)))"
proof -
  let ?w = "(L, vs, vc)" and ?p = "lnk_hContext l"
  obtain s1 st1 where a: "CosaDmlNatAddPortMapping L st ?p = (s1, st1)" by fastforce
  have view: "pf_view (vs (st_store st1)) = (if ansc_ok s1
      then (pf_view (vs (st_store st)))(pm_InstanceNumber ?p \<mapsto> pf_rule_of (lib_ut L) ?p) else pf_view (vs (st_store st)))"
    using pf.add_ok [of ?w st ?p s1 st1] assms(1,2,5) a by (simp add: world_ok_def pf_store_def pf_add_def)
  have l1: "NatPMappingList st1 = NatPMappingList st"
    using pm_backend_touches(1) [of L st ?p] a by auto
  then have at: "link_at (NatPMappingList st1) (lnk_addr l) = Some l" using assms(3) by simp
  show ?thesis
  proof (cases "ansc_ok s1")
    case True
    then have "s = s1" "st' = (snd (CosaNatRegSetNatInfo L (put_pm st1 (l\<lparr>lnk_bNew := False\<rparr>))))\<lparr>AliasOfPortMapping := []\<rparr>"
      using assms(4,6) a by (simp_all add: PortMapping_Commit_def Let_def)
    with True view link_put_pm [OF at, of "l\<lparr>lnk_bNew := False\<rparr>"] show ?thesis by simp
  next
    case False
    define p where "p = (if AliasOfPortMapping st1 \<noteq> []
      then NAT_PORTMAPPING_SET_DEFAULTVALUE ?p\<lparr>pm_Alias := snd (lib_noclobber L COSA_DML_IF_NAME_LENGTH
             (pm_Alias (NAT_PORTMAPPING_SET_DEFAULTVALUE ?p)) (AliasOfPortMapping st1))\<rparr>
      else NAT_PORTMAPPING_SET_DEFAULTVALUE ?p)"
    have "s = s1" "st' = (put_pm st1 (l\<lparr>lnk_hContext := p\<rparr>))\<lparr>AliasOfPortMapping := []\<rparr>"
      using False assms(4,6) a by (simp_all add: PortMapping_Commit_def Let_def p_def)
    moreover have "pm_is_reset p" by (simp add: p_def)
    ultimately show ?thesis using False view link_put_pm [OF at, of "l\<lparr>lnk_hContext := p\<rparr>"] by auto
  qed
qed

text \<open>The example entry, pushed into the table of the example state.\<close>

definition example_link :: pm_link where
  "example_link = \<lparr>lnk_addr = 1, lnk_InstanceNumber = 7, lnk_bNew = True, lnk_bFound = False,
     lnk_hContext = example_pm\<rparr>"

definition example_new :: "(ustore, rview) nat_state" where
  "example_new = mem_state\<lparr>NatPMappingList := [example_link], MaxInstanceNumber := 7, st_allocs := 2\<rparr>"

lemma example_checks:
  "st_store st = mem_store \<Longrightarrow> Check_PF_parameter mem_libs st example_pm"
  "g_NatOne2OneEnable st \<Longrightarrow> g_NatPFEnable st \<Longrightarrow> g_NatHSPFEnable st \<Longrightarrow> CosaDmlNatChkEnableFlg st example_pm"
proof -
  assume st: "st_store st = mem_store"
  have cl: "pm_InternalClient example_pm = 0x0500a8c0" by (simp add: example_pm_def)
  have "CosaDmlNatChkPortMappingClient mem_libs st 0x0500a8c0 = CosaDmlNatChkPortMappingClient mem_libs mem_state 0x0500a8c0"
    by (simp add: CosaDmlNatChkPortMappingClient_def st mem_state_def)
  then show "Check_PF_parameter mem_libs st example_pm"
    unfolding Check_PF_parameter_def cl
    by (simp add: example_pm_client)
       (simp add: example_pm_def zero_pm_def CosaDmlNatChkPortRange_def mem_utopia_def)
qed (simp add: CosaDmlNatChkEnableFlg_def)

lemma mem_add_range:
  "AddPortMapping_ctx mem_utopia c example_pm = (ANSC_SUCCESS, c\<lparr>u_range := u_range c @ [range_of mem_utopia example_pm]\<rparr>)"
proof -
  have "\<not> is_single example_pm" by (simp add: is_single_def example_pm_def)
  moreover have "length (dotted a) < ut_IPADDR_SZ mem_utopia" for a
    using length_dotted_le [of a] by (simp add: mem_utopia_def)
  moreover have "ut_AddPortForwardingRange mem_utopia c r = (True, c\<lparr>u_range := u_range c @ [r]\<rparr>)" for r
    by (simp add: mem_utopia_def)
  ultimately show ?thesis by (simp add: AddPortMapping_ctx_def)
qed

lemma port_mapping_commit_new_witness:
  "\<exists>st'. PortMapping_Commit mem_libs example_new example_link = (ANSC_SUCCESS, st') \<and>
     link_at (NatPMappingList st') 1 = Some (example_link\<lparr>lnk_bNew := False\<rparr>) \<and>
     pf_view (st_store st') 7 = Some (pf_rule_of mem_utopia example_pm)"
proof -
  obtain s st' where c: "PortMapping_Commit mem_libs example_new example_link = (s, st')" by fastforce
  have n: "pm_InstanceNumber example_pm = 7" by (simp add: example_pm_def)
  have st: "st_store example_new = mem_store" by (simp add: example_new_def mem_state_def)
  have i: "ut_Init mem_utopia = Some" by (simp add: mem_utopia_def)
  have "fst (CosaDmlNatAddPortMapping mem_libs example_new example_pm) = ANSC_SUCCESS"
    using example_checks [of example_new]
    by (simp add: CosaDmlNatAddPortMapping_def st i mem_add_range) (simp add: example_new_def mem_state_def)
  then have "s = ANSC_SUCCESS"
    using c by (simp add: PortMapping_Commit_def example_link_def Let_def split: prod.split_asm if_split_asm)
  moreover have "link_at (NatPMappingList example_new) (lnk_addr example_link) = Some example_link"
    "lnk_bNew example_link" "lnk_hContext example_link = example_pm" "lnk_addr example_link = 1"
    by (simp_all add: example_new_def link_at_def example_link_def)
  moreover have "pf_disjoint mem_store" "pf_view mem_store 7 = None"
    by (simp_all add: pf_disjoint_def pf_view_def mem_store_def)
  ultimately show ?thesis
    using c port_mapping_commit_new [of mem_libs "\<lambda>s. s" "\<lambda>c. c" example_new example_link s st']
    by (simp add: mem_utopia_ok st n)
qed

lemma Del_ctx_Some:
  "\<forall>c n. fst (ut_DelPortForwardingRangeByRuleId U c n) \<Longrightarrow> \<exists>c'. DelRange_ctx U c n = Some c'"
  "\<forall>c n. fst (ut_DelPortForwardingByRuleId U c n) \<Longrightarrow> \<exists>c'. DelSingle_ctx U c n = Some c'"
proof -
  assume a: "\<forall>c n. fst (ut_DelPortForwardingRangeByRuleId U c n)"
  show "\<exists>c'. DelRange_ctx U c n = Some c'"
    using spec [OF spec [OF a, of c], of n]
    by (cases "ut_DelPortForwardingRangeByRuleId U c n") (simp add: DelRange_ctx_def split: option.split)
next
  assume a: "\<forall>c n. fst (ut_DelPortForwardingByRuleId U c n)"
  show "\<exists>c'. DelSingle_ctx U c n = Some c'"
    using spec [OF spec [OF a, of c], of n]
    by (cases "ut_DelPortForwardingByRuleId U c n") (simp add: DelSingle_ctx_def split: option.split)
qed

lemma AddPortMapping_ctx_refused:
  assumes "\<forall>c r. \<not> fst (ut_AddPortForwarding U c r)" "\<forall>c r. \<not> fst (ut_AddPortForwardingRange U c r)"
    and "AddPortMapping_ctx U c e = (s, c')"
  shows "\<not> ansc_ok s"
  using assms(3) spec [OF spec [OF assms(1), of c], of "single_of U e"] spec [OF spec [OF assms(2), of c], of "range_of U e"]
  by (cases "ut_AddPortForwarding U c (single_of U e)"; cases "ut_AddPortForwardingRange U c (range_of U e)")
     (auto simp: AddPortMapping_ctx_def ansc_ok_def split: if_split_asm option.split_asm)

text \<open>C38: a change to a committed entry that the board layer cannot store loses the rule: when Utopia deletes
  but refuses additions, \<open>PortMapping_Commit\<close> reports failure, yet the store no longer has the rule and
  the entry is reset. Every other rule stays.\<close>

theorem port_mapping_failed_change_loses_rule:
  assumes "utopia_ok (lib_ut L) vs vc" "pf_disjoint (vs (st_store st))"
    and "link_at (NatPMappingList st) (lnk_addr l) = Some l" "\<not> lnk_bNew l"
    and "Check_PF_parameter L st (lnk_hContext l)" "CosaDmlNatChkEnableFlg st (lnk_hContext l)"
    and "\<forall>s. ut_Init (lib_ut L) s \<noteq> None"
    and "\<forall>c n. fst (ut_DelPortForwardingByRuleId (lib_ut L) c n)"
      "\<forall>c n. fst (ut_DelPortForwardingRangeByRuleId (lib_ut L) c n)"
    and "\<forall>c r. \<not> fst (ut_AddPortForwarding (lib_ut L) c r)"
      "\<forall>c r. \<not> fst (ut_AddPortForwardingRange (lib_ut L) c r)"
    and "PortMapping_Commit L st l = (s, st')"
  shows "s = ANSC_FAILURE \<and>
    pf_view (vs (st_store st')) = (pf_view (vs (st_store st)))(pm_InstanceNumber (lnk_hContext l) := None) \<and>
    (\<exists>p. pm_is_reset p \<and> link_at (NatPMappingList st') (lnk_addr l) = Some (l\<lparr>lnk_hContext := p\<rparr>))"
proof -
  let ?p = "lnk_hContext l" and ?U = "lib_ut L" and ?v = "vs (st_store st)"
  let ?n = "pm_InstanceNumber ?p"
  obtain c where c: "ut_Init ?U (st_store st) = Some c" using assms(7) by blast
  have v: "vc c = ?v" using utopia_Init [OF assms(1) c] .
  obtain c1 where c1: "DelRange_ctx ?U c ?n = Some c1"
    using Del_ctx_Some(1) [OF assms(9)] by blast
  obtain c2 where c2: "DelSingle_ctx ?U c1 ?n = Some c2"
    using Del_ctx_Some(2) [OF assms(8)] by blast
  have v2: "vc c2 = pf_del ?v ?n"
    using DelRange_ctx_view [OF assms(1) c1] DelSingle_ctx_view [OF assms(1) c2] v by (simp add: pf_del_def)
  obtain s3 c3 where c3: "AddPortMapping_ctx ?U c2 ?p = (s3, c3)" by fastforce
  have s3: "\<not> ansc_ok s3" using AddPortMapping_ctx_refused [OF assms(10,11) c3] .
  have v3: "vc c3 = pf_del ?v ?n"
  proof -
    have "vc c3 = vc c2"
      using c3 s3 utopia_single_upd(2) [OF assms(1), of c2 "single_of ?U ?p"]
        utopia_range_upd(2) [OF assms(1), of c2 "range_of ?U ?p"]
      by (auto simp: AddPortMapping_ctx_def ansc_ok_def split: if_split_asm option.split_asm prod.split_asm)
    then show ?thesis by (simp add: v2)
  qed
  let ?st = "commit L st c3"
  have set: "CosaDmlNatSetPortMapping L st ?p = (ANSC_FAILURE, ?st)"
    using assms(5,6) s3 by (simp add: CosaDmlNatSetPortMapping_def c c1 c2 c3)
  have view: "pf_view (vs (st_store ?st)) = (pf_view ?v)(?n := None)"
    by (simp add: utopia_Commit [OF assms(1)] v3 pf_view_del)
  obtain c' where c': "ut_Init ?U (st_store ?st) = Some c'" using assms(7) by blast
  have get: "CosaDmlNatGetPortMapping L ?st ?n ?p = (ANSC_FAILURE, ?p)"
    using CosaDmlNatGetPortMapping_view [OF assms(1) c', of ?n ?p] view by simp
  have r: "s = ANSC_FAILURE" "st' = (put_pm ?st (l\<lparr>lnk_hContext := NAT_PORTMAPPING_SET_DEFAULTVALUE ?p\<rparr>))\<lparr>AliasOfPortMapping := []\<rparr>"
    using assms(4,12) set get by (simp_all add: PortMapping_Commit_def Let_def ansc_ok_def)
  have "link_at (NatPMappingList ?st) (lnk_addr l) = Some l" using assms(3) by simp
  from link_put_pm [OF this, of "l\<lparr>lnk_hContext := NAT_PORTMAPPING_SET_DEFAULTVALUE ?p\<rparr>"] r view
  show ?thesis by (auto intro!: exI [of _ "NAT_PORTMAPPING_SET_DEFAULTVALUE ?p"])
qed

text \<open>A Utopia that deletes rules but has no room for new ones.\<close>

definition full_libs :: "(ustore, ustore, rview) libs" where
  "full_libs = mem_libs\<lparr>lib_ut := mem_utopia\<lparr>ut_AddPortForwarding := (\<lambda>c r. (False, c)),
     ut_AddPortForwardingRange := (\<lambda>c r. (False, c))\<rparr>\<rparr>"

lemma full_utopia_ok: "utopia_ok (lib_ut full_libs) (\<lambda>s. s) (\<lambda>c. c)"
  using mem_utopia_ok
  by (simp add: full_libs_def utopia_ok_def utopia_ctx_ok_def utopia_single_ok_def
      utopia_range_ok_def utopia_trigger_ok_def utopia_settings_ok_def upd_ok_def)

definition example_committed :: "(ustore, rview) nat_state" where
  "example_committed = example_new\<lparr>NatPMappingList := [example_link\<lparr>lnk_bNew := False\<rparr>],
     st_store := mem_store\<lparr>u_range := [range_of mem_utopia example_pm]\<rparr>\<rparr>"

lemma port_mapping_failed_change_loses_rule_witness:
  "fst (PortMapping_Commit full_libs example_committed (example_link\<lparr>lnk_bNew := False\<rparr>)) = ANSC_FAILURE \<and>
   pf_view (st_store example_committed) 7 \<noteq> None \<and>
   pf_view (st_store (snd (PortMapping_Commit full_libs example_committed (example_link\<lparr>lnk_bNew := False\<rparr>)))) 7 = None"
proof -
  let ?l = "example_link\<lparr>lnk_bNew := False\<rparr>"
  obtain s st' where c: "PortMapping_Commit full_libs example_committed ?l = (s, st')" by fastforce
  have n: "pm_InstanceNumber example_pm = 7" by (simp add: example_pm_def)
  have l: "link_at (NatPMappingList example_committed) (lnk_addr ?l) = Some ?l" "lnk_hContext ?l = example_pm"
    by (simp_all add: example_committed_def link_at_def example_link_def)
  have st: "st_store example_committed = mem_store\<lparr>u_range := [range_of mem_utopia example_pm]\<rparr>"
    by (simp add: example_committed_def)
  have v: "pf_view (st_store example_committed) 7 \<noteq> None" "pf_disjoint (st_store example_committed)"
    by (simp_all add: st pf_view_def pf_disjoint_def n mem_store_def)
  have cl: "pm_InternalClient example_pm = 0x0500a8c0" by (simp add: example_pm_def)
  have "CosaDmlNatChkPortMappingClient full_libs example_committed 0x0500a8c0 = CosaDmlNatChkPortMappingClient mem_libs mem_state 0x0500a8c0"
    by (simp add: CosaDmlNatChkPortMappingClient_def full_libs_def pton4_def st mem_state_def mem_utopia_def)
  then have "CosaDmlNatChkPortMappingClient full_libs example_committed 0x0500a8c0" using example_pm_client by simp
  then have "Check_PF_parameter full_libs example_committed example_pm"
    unfolding Check_PF_parameter_def cl
    by simp (simp add: example_pm_def zero_pm_def CosaDmlNatChkPortRange_def full_libs_def mem_utopia_def)
  moreover have "CosaDmlNatChkEnableFlg example_committed example_pm"
    by (simp add: CosaDmlNatChkEnableFlg_def example_committed_def example_new_def mem_state_def)
  ultimately have "s = ANSC_FAILURE \<and> pf_view (st_store st') = (pf_view (st_store example_committed))(7 := None)"
    using port_mapping_failed_change_loses_rule [OF full_utopia_ok v(2) l(1) _ _ _ _ _ _ _ _ c] l(2) n
    by (simp add: full_libs_def mem_utopia_def)
  with c v(1) show ?thesis by simp
qed

end
