(* ===== verification/Nat_PortMapping_Params.thy ===== *)
theory Nat_PortMapping_Params
  imports Nat_PortMapping_Commit
begin

text \<open>
  Deletion, validation, the parameter functions of the port mapping table, bridge mode, and the way of an
  entry from commit to the next refresh.
\<close>

section \<open>Deletion\<close>

text \<open>Deleting a committed entry outside bridge mode removes exactly its rule from the store and exactly
  its link from the table when it succeeds, and changes neither when it fails.\<close>

theorem port_mapping_delete_committed:
  assumes "utopia_ok (lib_ut L) vs vc" "pf_disjoint (vs (st_store st))" "pm_inv st" "\<not> bridge_blocked L"
    and "link_at (NatPMappingList st) (lnk_addr l) = Some l" "\<not> lnk_bNew l"
    and "PortMapping_DelEntry L st l = (s, st')"
  shows "if ansc_ok s
    then pf_view (vs (st_store st')) = (pf_view (vs (st_store st)))(lnk_InstanceNumber l := None) \<and>
         (\<forall>n. CosaSListGetEntryByInsNum (NatPMappingList st') n =
            (if n = lnk_InstanceNumber l then None else CosaSListGetEntryByInsNum (NatPMappingList st) n))
    else pf_view (vs (st_store st')) = pf_view (vs (st_store st)) \<and> NatPMappingList st' = NatPMappingList st"
proof -
  let ?n = "pm_InstanceNumber (lnk_hContext l)" and ?w = "(L, vs, vc)" and ?l = "NatPMappingList st"
  have l: "l \<in> set ?l" using link_at_Some [OF assms(5)] by blast
  then have n: "?n = lnk_InstanceNumber l" using assms(3) by (simp add: pm_inv_def)
  obtain s1 st1 where d: "CosaDmlNatDelPortMapping L st ?n = (s1, st1)" by fastforce
  have view: "pf_view (vs (st_store st1)) = (if ansc_ok s1 then (pf_view (vs (st_store st)))(?n := None)
      else pf_view (vs (st_store st)))"
    using pf.del_ok [of ?w st ?n s1 st1] assms(1,2) d by (simp add: world_ok_def pf_store_def pf_delete_def)
  have l1: "NatPMappingList st1 = ?l" using pm_backend_touches(3) [of L st ?n] d by auto
  have r: "s = s1" "st' = (if ansc_ok s1 then st1\<lparr>NatPMappingList := AnscSListPopEntryByLink ?l (lnk_addr l)\<rparr> else st1)"
    using assms(4,6,7) d l1 by (simp_all add: PortMapping_DelEntry_def split: if_split_asm)
  have "CosaSListGetEntryByInsNum (AnscSListPopEntryByLink ?l (lnk_addr l)) m =
      (if m = lnk_InstanceNumber l then None else CosaSListGetEntryByInsNum ?l m)" for m
    by (rule get_pop) (use l assms(3) in \<open>simp_all add: pm_inv_def table_wf_def\<close>)
  with view l1 n r show ?thesis by simp
qed

lemma port_mapping_delete_committed_witness:
  "pf_view (st_store (snd (PortMapping_DelEntry mem_libs example_committed (example_link\<lparr>lnk_bNew := False\<rparr>)))) 7 = None \<and>
   CosaSListGetEntryByInsNum (NatPMappingList (snd (PortMapping_DelEntry mem_libs example_committed
     (example_link\<lparr>lnk_bNew := False\<rparr>)))) 7 = None"
proof -
  let ?l = "example_link\<lparr>lnk_bNew := False\<rparr>"
  obtain s st' where d: "PortMapping_DelEntry mem_libs example_committed ?l = (s, st')" by fastforce
  have n: "pm_InstanceNumber example_pm = 7" by (simp add: example_pm_def)
  have l: "link_at (NatPMappingList example_committed) (lnk_addr ?l) = Some ?l" "lnk_hContext ?l = example_pm"
    "lnk_InstanceNumber ?l = 7" "\<not> lnk_bNew ?l"
    by (simp_all add: example_committed_def link_at_def example_link_def)
  have i: "pm_inv example_committed"
    by (simp add: pm_inv_def example_committed_def example_new_def example_link_def table_wf_def n)
  have st: "st_store example_committed = mem_store\<lparr>u_range := [range_of mem_utopia example_pm]\<rparr>"
    by (simp add: example_committed_def)
  have v: "pf_disjoint (st_store example_committed)" by (simp add: st pf_disjoint_def mem_store_def)
  have "fst (CosaDmlNatDelPortMapping mem_libs example_committed 7) = ANSC_SUCCESS"
    by (simp add: CosaDmlNatDelPortMapping_def mem_utopia_def st mem_store_def n)
  then have "s = ANSC_SUCCESS" using d l n
    by (simp add: PortMapping_DelEntry_def split: prod.split_asm if_split_asm)
  with port_mapping_delete_committed [OF _ _ i _ l(1,4) d, of "\<lambda>s. s" "\<lambda>c. c"] v d l(3) show ?thesis
    by (simp add: mem_utopia_ok)
qed

section \<open>Validation\<close>

lemma alias_taken_iff:
  "alias_taken ls l \<longleftrightarrow> (\<exists>x \<in> set ls. lnk_addr x \<noteq> lnk_addr l \<and> pm_Alias (lnk_hContext x) = pm_Alias (lnk_hContext l))"
  by (induction ls) auto



section \<open>Parameters\<close>

text \<open>How wide a settable numeric parameter is stored.\<close>

definition pm_stored :: "string \<Rightarrow> ULONG \<Rightarrow> ULONG" where
  "pm_stored name u = (if name \<in> {''ExternalPort'', ''ExternalPortEndRange'', ''InternalPort''} then u mod 2 ^ 16
     else if name = ''Protocol'' then u mod 2 ^ 8 else u)"

lemma ucast_16: "ucast (ucast (u :: ULONG) :: USHORT) = u mod 2 ^ 16"
  unfolding take_bit_eq_mod [symmetric] by (rule bit_word_eqI) (auto simp: bit_simps)

lemma ucast_8: "ucast (ucast (u :: ULONG) :: UCHAR) = u mod 2 ^ 8"
  unfolding take_bit_eq_mod [symmetric] by (rule bit_word_eqI) (auto simp: bit_simps)

definition pm_ulong_names :: "string set" where
  "pm_ulong_names = {''ExternalPort'', ''ExternalPortEndRange'', ''InternalPort'', ''Protocol'',
     ''InternalClient'', ''RemoteHost'', ''X_Comcast_com_PublicIP''}"

text \<open>Outside bridge mode a settable numeric parameter reads back as it was set, ports cut to 16 bits and
  the protocol to 8, and every other numeric parameter keeps its value.\<close>

theorem port_mapping_ulong_set_get:
  assumes "\<not> bridge_blocked L" "link_at (NatPMappingList st) (lnk_addr l) = Some l"
    and "name \<in> pm_ulong_names" "PortMapping_SetParamUlongValue L st l name u = (ok, st')"
  shows "ok \<and> (\<exists>l'. link_at (NatPMappingList st') (lnk_addr l) = Some l' \<and>
    PortMapping_GetParamUlongValue l' name = Some (pm_stored name u) \<and>
    (\<forall>other. other \<noteq> name \<longrightarrow> PortMapping_GetParamUlongValue l' other = PortMapping_GetParamUlongValue l other))"
proof -
  let ?p = "lnk_hContext l"
  define p where "p = (if name = ''ExternalPort'' then ?p\<lparr>pm_ExternalPort := ucast u\<rparr>
    else if name = ''ExternalPortEndRange'' then ?p\<lparr>pm_ExternalPortEndRange := ucast u\<rparr>
    else if name = ''InternalPort'' then ?p\<lparr>pm_InternalPort := ucast u\<rparr>
    else if name = ''Protocol'' then ?p\<lparr>pm_Protocol := ucast u\<rparr>
    else if name = ''InternalClient'' then ?p\<lparr>pm_InternalClient := u\<rparr>
    else if name = ''RemoteHost'' then ?p\<lparr>pm_RemoteHost := u\<rparr> else ?p\<lparr>pm_PublicIP := u\<rparr>)"
  let ?l = "l\<lparr>lnk_hContext := p\<rparr>"
  note defs = PortMapping_SetParamUlongValue_def PortMapping_SetParamUlongValue_Custom_def
    PortMapping_GetParamUlongValue_def PortMapping_GetParamUlongValue_Custom_def Let_def p_def pm_stored_def
  have r: "ok \<and> st' = put_pm st ?l"
    using assms(1,3,4) unfolding pm_ulong_names_def by (elim insertE emptyE) (simp_all add: defs)
  have "PortMapping_GetParamUlongValue ?l name = Some (pm_stored name u)"
    using assms(3) unfolding pm_ulong_names_def
    by (elim insertE emptyE) (simp_all add: defs ucast_16 [simplified] ucast_8 [simplified])
  moreover have "PortMapping_GetParamUlongValue ?l other = PortMapping_GetParamUlongValue l other" if "other \<noteq> name" for other
    using assms(3) that unfolding pm_ulong_names_def by (elim insertE emptyE) (simp_all add: defs)
  ultimately show ?thesis using r link_put_pm [OF assms(2), of ?l] by auto
qed

lemma port_mapping_ulong_set_get_witness:
  "\<exists>l'. link_at (NatPMappingList (snd (PortMapping_SetParamUlongValue mem_libs example_new example_link ''ExternalPort'' 65616))) 1
      = Some l' \<and> PortMapping_GetParamUlongValue l' ''ExternalPort'' = Some 80"
proof -
  obtain ok st' where r: "PortMapping_SetParamUlongValue mem_libs example_new example_link ''ExternalPort'' 65616 = (ok, st')"
    by fastforce
  have l: "link_at (NatPMappingList example_new) (lnk_addr example_link) = Some example_link" "lnk_addr example_link = 1"
    by (simp_all add: example_new_def link_at_def example_link_def)
  have "''ExternalPort'' \<in> pm_ulong_names" by (simp add: pm_ulong_names_def)
  with port_mapping_ulong_set_get [OF mem_bridge_libs l(1) _ r] r l(2) show ?thesis by (auto simp: pm_stored_def)
qed

section \<open>Bridge mode\<close>

text \<open>In bridge mode the table is read-only: adding yields no handle, deleting and setting fail, and no
  call changes any state.\<close>

theorem port_mapping_bridge_mode_read_only:
  assumes "lib_CosaGetParamValueString L LanMode 128 = Some mode" "mode \<noteq> ''router''"
  shows "PortMapping_AddEntry L st = Some (None, st) \<and> PortMapping_DelEntry L st l = (ANSC_FAILURE, st) \<and>
    PortMapping_SetParamBoolValue L st l name b = (False, st) \<and>
    PortMapping_SetParamUlongValue L st l name u = (False, st) \<and>
    PortMapping_SetParamStringValue L st l name v = (False, st)"
proof -
  have "bridge_blocked L" using assms by (simp add: bridge_blocked_iff)
  then show ?thesis
    by (simp add: PortMapping_AddEntry_def PortMapping_DelEntry_def PortMapping_SetParamBoolValue_def
        PortMapping_SetParamUlongValue_def PortMapping_SetParamStringValue_def)
qed

lemma port_mapping_bridge_mode_read_only_witness:
  "PortMapping_AddEntry (mem_libs\<lparr>lib_CosaGetParamValueString := (\<lambda>p n. Some ''bridge-static'')\<rparr>) mem_state = Some (None, mem_state)"
  using port_mapping_bridge_mode_read_only [of "mem_libs\<lparr>lib_CosaGetParamValueString := (\<lambda>p n. Some ''bridge-static'')\<rparr>"
      "''bridge-static''" mem_state] by simp

end
