(* ===== verification/Nat_PortTrigger.thy ===== *)
theory Nat_PortTrigger
  imports Nat_PortMapping_Table
begin

text \<open>
  The port trigger table of the middle layer: \<open>NatPortTrigger_*\<close> and \<open>PortTrigger_*\<close> of
  \<open>cosa_nat_dml.c\<close> and \<open>CosaNatSyncPortTrigger\<close> of \<open>cosa_nat_internal.c\<close>. Handles are modelled as in
  \<open>Nat_PortMapping\<close>.
\<close>

definition put_pt :: "('s, 'r) nat_state \<Rightarrow> pt_link \<Rightarrow> ('s, 'r) nat_state" where
  "put_pt st l = st\<lparr>NatPTriggerList := put_link (NatPTriggerList st) l\<rparr>"

section \<open>The feature switch\<close>

definition NatPortTrigger_GetParamBoolValue :: "('s, 'r) nat_state \<Rightarrow> string \<Rightarrow> bool option" where
  "NatPortTrigger_GetParamBoolValue st ParamName =
     (if ParamName = ''Enable''
      then (case CosaDmlNatGetPortTriggerEnable st of (s, b) \<Rightarrow> if \<not> ansc_ok s then None else Some b)
      else None)"

definition NatPortTrigger_SetParamBoolValue :: "('s, 'c, 'r) libs \<Rightarrow> ('s, 'r) nat_state \<Rightarrow> string \<Rightarrow> bool \<Rightarrow>
    bool \<times> ('s, 'r) nat_state" where
  "NatPortTrigger_SetParamBoolValue L st ParamName bValue =
     (if bridge_blocked L then (False, st)
      else if ParamName = ''Enable''
      then (case CosaDmlNatSetPortTriggerEnable L st bValue of (s, st') \<Rightarrow> (ansc_ok s, st'))
      else (False, st))"

section \<open>Enumeration and refresh\<close>

definition PortTrigger_GetEntryCount :: "('s, 'r) nat_state \<Rightarrow> ULONG" where
  "PortTrigger_GetEntryCount st = of_nat (length (NatPTriggerList st))"

definition PortTrigger_GetEntry :: "('s, 'r) nat_state \<Rightarrow> ULONG \<Rightarrow> (nat \<times> ULONG) option" where
  "PortTrigger_GetEntry st nIndex =
     (case AnscSListGetEntryByIndex (NatPTriggerList st) (unat nIndex) of
        None \<Rightarrow> None
      | Some l \<Rightarrow> Some (lnk_addr l, lnk_InstanceNumber l))"

text \<open>The first pass of \<open>CosaNatSyncPortTrigger\<close>: every link takes the content of the first rule with its
  entry's number, whose \<open>pbFoundPt\<close> cell is set. The inner loop is \<open>rule_index\<close>.\<close>

fun rule_index :: "COSA_DML_NAT_PTRIGGER list \<Rightarrow> ULONG \<Rightarrow> nat \<Rightarrow> nat option" where
  "rule_index [] n i = None"
| "rule_index (r # rs) n i = (if n = pt_InstanceNumber r then Some i else rule_index rs n (Suc i))"

fun sync_pt_links :: "COSA_DML_NAT_PTRIGGER list \<Rightarrow> pt_link list \<Rightarrow> bool list \<Rightarrow> pt_link list \<times> bool list" where
  "sync_pt_links rs [] pbFoundPt = ([], pbFoundPt)"
| "sync_pt_links rs (l # ls) pbFoundPt =
     (case rule_index rs (pt_InstanceNumber (lnk_hContext l)) 0 of
        None \<Rightarrow> (case sync_pt_links rs ls pbFoundPt of (ls', f) \<Rightarrow> (l # ls', f))
      | Some i \<Rightarrow> (case sync_pt_links rs ls (pbFoundPt[i := True]) of
            (ls', f) \<Rightarrow> (l\<lparr>lnk_hContext := rs ! i, lnk_bNew := False\<rparr> # ls', f)))"

text \<open>The second pass; a failed allocation ends it, with the status already \<open>ANSC_STATUS_SUCCESS\<close>.\<close>

fun sync_pt_add :: "('s, 'c, 'r) libs \<Rightarrow> (COSA_DML_NAT_PTRIGGER \<times> bool) list \<Rightarrow> ('s, 'r) nat_state \<Rightarrow> ('s, 'r) nat_state" where
  "sync_pt_add L [] st = st"
| "sync_pt_add L ((e, found) # es) st =
     (if found then sync_pt_add L es st
      else (case AnscAllocateMemory L st of
          (None, st1) \<Rightarrow> st1
        | (Some a, st1) \<Rightarrow>
            (case AnscAllocateMemory L st1 of
               (None, st2) \<Rightarrow> st2
             | (Some _, st2) \<Rightarrow>
                 sync_pt_add L es (st2\<lparr>NatPTriggerList := CosaSListPushEntryByInsNum (NatPTriggerList st2)
                   \<lparr>lnk_addr = a, lnk_InstanceNumber = pt_InstanceNumber e, lnk_bNew = False,
                    lnk_bFound = lib_junk_bFound L a, lnk_hContext = e\<rparr>\<rparr>))))"

definition CosaNatSyncPortTrigger :: "('s, 'c, 'r) libs \<Rightarrow> ('s, 'r) nat_state \<Rightarrow> ansc_status \<times> ('s, 'r) nat_state" where
  "CosaNatSyncPortTrigger L st =
     (case CosaDmlNatGetPortTriggers L st True of
        (None, st1) \<Rightarrow> (ANSC_FAILURE, st1)
      | (Some rs, st1) \<Rightarrow>
          (case AnscAllocateMemory L st1 of
             (None, st2) \<Rightarrow> (ANSC_RESOURCES, st2)
           | (Some _, st2) \<Rightarrow>
               (case sync_pt_links rs (NatPTriggerList st2) (replicate (length rs) False) of
                  (ls, pbFoundPt) \<Rightarrow>
                    (ANSC_SUCCESS, sync_pt_add L (zip rs pbFoundPt) (st2\<lparr>NatPTriggerList := ls\<rparr>)))))"

section \<open>Adding and deleting entries\<close>

definition PortTrigger_AddEntry :: "('s, 'c, 'r) libs \<Rightarrow> ('s, 'r) nat_state \<Rightarrow>
    ((nat \<times> ULONG) option \<times> ('s, 'r) nat_state) option" where
  "PortTrigger_AddEntry L st =
     (if bridge_blocked L then Some (None, st)
      else (case AnscAllocateMemory L st of
          (None, st1) \<Rightarrow> Some (None, st1)
        | (Some a1, st1) \<Rightarrow>
            (case AnscAllocateMemory L st1 of
               (None, st2) \<Rightarrow> Some (None, st2)
             | (Some a2, st2) \<Rightarrow>
                 (case CosaNatGenForTriggerEntry L st2 (lib_junk_pt L a1) of
                    None \<Rightarrow> None
                  | Some (_, e, st3) \<Rightarrow>
                      let l = \<lparr>lnk_addr = a2, lnk_InstanceNumber = pt_InstanceNumber e, lnk_bNew = True,
                               lnk_bFound = lib_junk_bFound L a2, lnk_hContext = e\<rparr>;
                          st4 = st3\<lparr>NatPTriggerList := CosaSListPushEntryByInsNum (NatPTriggerList st3) l\<rparr>
                      in Some (Some (a2, pt_InstanceNumber e), snd (CosaNatRegSetNatInfo L st4))))))"

definition PortTrigger_DelEntry :: "('s, 'c, 'r) libs \<Rightarrow> ('s, 'r) nat_state \<Rightarrow> pt_link \<Rightarrow>
    ansc_status \<times> ('s, 'r) nat_state" where
  "PortTrigger_DelEntry L st l =
     (if bridge_blocked L then (ANSC_FAILURE, st)
      else (case (if lnk_bNew l then CosaNatRegSetNatInfo L (put_pt st (l\<lparr>lnk_bNew := False\<rparr>))
                  else CosaDmlNatDelPortTrigger L st (lnk_hContext l)) of
          (returnStatus, st1) \<Rightarrow>
            if ansc_ok returnStatus
            then (returnStatus, st1\<lparr>NatPTriggerList := AnscSListPopEntryByLink (NatPTriggerList st1) (lnk_addr l)\<rparr>)
            else (returnStatus, st1)))"

section \<open>Parameters\<close>

text \<open>Reading \<open>Enable\<close> refreshes the switch from the rule store.\<close>

fun find_trigger :: "COSA_DML_NAT_PTRIGGER list \<Rightarrow> ULONG \<Rightarrow> COSA_DML_NAT_PTRIGGER option" where
  "find_trigger [] n = None"
| "find_trigger (r # rs) n = (if pt_InstanceNumber r = n then Some r else find_trigger rs n)"

definition PortTrigger_GetParamBoolValue :: "('s, 'c, 'r) libs \<Rightarrow> ('s, 'r) nat_state \<Rightarrow> pt_link \<Rightarrow> string \<Rightarrow>
    bool option \<times> ('s, 'r) nat_state" where
  "PortTrigger_GetParamBoolValue L st l ParamName =
     (if ParamName = ''Enable'' then
        (case CosaDmlNatGetPortTriggers L st False of
           (None, st1) \<Rightarrow> (Some (pt_bEnabled (lnk_hContext l)), st1)
         | (Some rs, st1) \<Rightarrow>
             (case find_trigger rs (pt_InstanceNumber (lnk_hContext l)) of
                None \<Rightarrow> (Some (pt_bEnabled (lnk_hContext l)), st1)
              | Some r \<Rightarrow> (Some (pt_bEnabled r),
                           put_pt st1 (l\<lparr>lnk_hContext := (lnk_hContext l)\<lparr>pt_bEnabled := pt_bEnabled r\<rparr>\<rparr>))))
      else (None, st))"

definition PortTrigger_GetParamUlongValue :: "pt_link \<Rightarrow> string \<Rightarrow> ULONG option" where
  "PortTrigger_GetParamUlongValue l ParamName =
     (let p = lnk_hContext l in
      if ParamName = ''TriggerProtocol'' then Some (ucast (pt_TriggerProtocol p))
      else if ParamName = ''TriggerPortStart'' then Some (ucast (pt_TriggerPortStart p))
      else if ParamName = ''TriggerPortEnd'' then Some (ucast (pt_TriggerPortEnd p))
      else if ParamName = ''ForwardProtocol'' then Some (ucast (pt_ForwardProtocol p))
      else if ParamName = ''ForwardPortStart'' then Some (ucast (pt_ForwardPortStart p))
      else if ParamName = ''ForwardPortEnd'' then Some (ucast (pt_ForwardPortEnd p))
      else None)"

text \<open>The block of the two string parameters, which copies with \<open>STRCPY_S_NOCLOBBER\<close>.\<close>

definition give_string_nc :: "('s, 'c, 'r) libs \<Rightarrow> string \<Rightarrow> string \<Rightarrow> ULONG \<Rightarrow> ULONG \<times> string \<times> ULONG" where
  "give_string_nc L s pValue pUlSize =
     (if of_nat (length s) < pUlSize
      then (case lib_noclobber L (unat pUlSize) pValue s of (rc, v) \<Rightarrow> (if \<not> rc then - 1 else 0, v, pUlSize))
      else (1, pValue, of_nat (length s) + 1))"

definition PortTrigger_GetParamStringValue :: "('s, 'c, 'r) libs \<Rightarrow> pt_link \<Rightarrow> string \<Rightarrow> string \<Rightarrow> ULONG \<Rightarrow>
    ULONG \<times> string \<times> ULONG" where
  "PortTrigger_GetParamStringValue L l ParamName pValue pUlSize =
     (if ParamName = ''Alias'' then give_string_nc L (pt_Alias (lnk_hContext l)) pValue pUlSize
      else if ParamName = ''Description'' then give_string_nc L (pt_Description (lnk_hContext l)) pValue pUlSize
      else (- 1, pValue, pUlSize))"

definition PortTrigger_SetParamBoolValue :: "('s, 'c, 'r) libs \<Rightarrow> ('s, 'r) nat_state \<Rightarrow> pt_link \<Rightarrow> string \<Rightarrow>
    bool \<Rightarrow> bool \<times> ('s, 'r) nat_state" where
  "PortTrigger_SetParamBoolValue L st l ParamName bValue =
     (if bridge_blocked L then (False, st)
      else if ParamName = ''Enable''
      then (True, put_pt st (l\<lparr>lnk_hContext := (lnk_hContext l)\<lparr>pt_bEnabled := bValue\<rparr>\<rparr>))
      else (False, st))"

definition PortTrigger_SetParamUlongValue :: "('s, 'c, 'r) libs \<Rightarrow> ('s, 'r) nat_state \<Rightarrow> pt_link \<Rightarrow> string \<Rightarrow>
    ULONG \<Rightarrow> bool \<times> ('s, 'r) nat_state" where
  "PortTrigger_SetParamUlongValue L st l ParamName uValue =
     (let p = lnk_hContext l; set = (\<lambda>p'. (True, put_pt st (l\<lparr>lnk_hContext := p'\<rparr>))) in
      if bridge_blocked L then (False, st)
      else if ParamName = ''TriggerProtocol'' \<or> ParamName = ''ForwardProtocol''
      then set (p\<lparr>pt_TriggerProtocol := ucast uValue, pt_ForwardProtocol := ucast uValue\<rparr>)
      else if ParamName = ''TriggerPortStart'' then set (p\<lparr>pt_TriggerPortStart := ucast uValue\<rparr>)
      else if ParamName = ''TriggerPortEnd'' then set (p\<lparr>pt_TriggerPortEnd := ucast uValue\<rparr>)
      else if ParamName = ''ForwardPortStart'' then set (p\<lparr>pt_ForwardPortStart := ucast uValue\<rparr>)
      else if ParamName = ''ForwardPortEnd'' then set (p\<lparr>pt_ForwardPortEnd := ucast uValue\<rparr>)
      else (False, st))"

definition PortTrigger_SetParamStringValue :: "('s, 'c, 'r) libs \<Rightarrow> ('s, 'r) nat_state \<Rightarrow> pt_link \<Rightarrow> string \<Rightarrow>
    string \<Rightarrow> bool \<times> ('s, 'r) nat_state" where
  "PortTrigger_SetParamStringValue L st l ParamName pString =
     (let p = lnk_hContext l; set = (\<lambda>p'. put_pt st (l\<lparr>lnk_hContext := p'\<rparr>)) in
      if bridge_blocked L then (False, st)
      else if ParamName = ''Alias'' then
        (case lib_noclobber L COSA_DML_ALIAS_LENGTH (pt_Alias p) pString of
           (rc, a) \<Rightarrow> (rc, set (p\<lparr>pt_pOriAlias := Some (pt_Alias p), pt_Alias := a\<rparr>)))
      else if ParamName = ''Description'' then
        (case strcpy_s PT_DESCRIPTION_SIZE pString of (rc, d) \<Rightarrow> (rc, set (p\<lparr>pt_Description := d\<rparr>)))
      else (False, st))"

section \<open>Validate, commit, roll back\<close>

fun trigger_alias_taken :: "pt_link list \<Rightarrow> pt_link \<Rightarrow> bool" where
  "trigger_alias_taken [] l = False"
| "trigger_alias_taken (l2 # ls) l =
     (if pt_Alias (lnk_hContext l2) = pt_Alias (lnk_hContext l)
      then (if lnk_addr l2 = lnk_addr l then trigger_alias_taken ls l else True)
      else trigger_alias_taken ls l)"

text \<open>What \<open>PortTrigger_Validate\<close> and \<open>PortTrigger_Commit\<close> leave of a committed entry they refuse: the rule
  of the store, or the reset entry when there is none.\<close>

definition reread_trigger :: "('s, 'c, 'r) libs \<Rightarrow> ('s, 'r) nat_state \<Rightarrow> COSA_DML_NAT_PTRIGGER \<Rightarrow> COSA_DML_NAT_PTRIGGER" where
  "reread_trigger L st p = (case CosaDmlNatGetPortTrigger L st (pt_InstanceNumber p) p of
       (status, q) \<Rightarrow> if \<not> ansc_ok status then COSA_DML_NAT_PTRIGGER_INIT q else q)"

definition PortTrigger_Validate :: "('s, 'c, 'r) libs \<Rightarrow> ('s, 'r) nat_state \<Rightarrow> pt_link \<Rightarrow> string \<Rightarrow> ULONG \<Rightarrow>
    bool \<times> ('s, 'r) nat_state \<times> string" where
  "PortTrigger_Validate L st l pReturnParamName puLength =
     (let p = lnk_hContext l in
      if \<not> Check_PT_parameter p \<or>
         CosaDmlNatChkPortRange L st (pt_InstanceNumber p) (pt_bEnabled p) (pt_ForwardPortStart p)
           (pt_ForwardPortEnd p) (pt_ForwardProtocol p) True = 0 \<or>
         \<not> CosaDmlChkDesp (pt_Description p) \<or>
         CosaDmlNatChkTriggerPortRange L st (pt_InstanceNumber p) (pt_bEnabled p) (pt_TriggerPortStart p)
           (pt_TriggerPortEnd p) (pt_TriggerProtocol p) True = 0
      then
        let p' = (if lnk_bNew l then COSA_DML_NAT_PTRIGGER_INIT p else reread_trigger L st p)
        in (False, put_pt st (l\<lparr>lnk_hContext := p'\<rparr>), pReturnParamName)
      else if pt_pOriAlias p \<noteq> None \<and> trigger_alias_taken (NatPTriggerList st) l
      then (False, st, snd (lib_noclobber L (unat puLength) pReturnParamName ''Alias''))
      else (True, st, pReturnParamName))"

text \<open>After a failed addition \<open>COSA_DML_NAT_PTRIGGER_INIT\<close> has already cleared \<open>pOriAlias\<close>, so the branch that
  would restore the alias is not taken.\<close>

definition PortTrigger_Commit :: "('s, 'c, 'r) libs \<Rightarrow> ('s, 'r) nat_state \<Rightarrow> pt_link \<Rightarrow>
    ansc_status \<times> ('s, 'r) nat_state" where
  "PortTrigger_Commit L st l =
     (let p = lnk_hContext l in
      if lnk_bNew l then
        (case CosaDmlNatAddPortTrigger L st p of (returnStatus, st1) \<Rightarrow>
           if ansc_ok returnStatus
           then
             let l1 = l\<lparr>lnk_bNew := False\<rparr>; st2 = snd (CosaNatRegSetNatInfo L (put_pt st1 l1))
             in (returnStatus, put_pt st2 (l1\<lparr>lnk_hContext := p\<lparr>pt_pOriAlias := None\<rparr>\<rparr>))
           else
             let p1 = COSA_DML_NAT_PTRIGGER_INIT p;
                 p2 = (case pt_pOriAlias p1 of
                         Some ori \<Rightarrow> p1\<lparr>pt_Alias := snd (lib_noclobber L COSA_DML_ALIAS_LENGTH (pt_Alias p1) ori)\<rparr>
                       | None \<Rightarrow> p1)
             in (returnStatus, put_pt st1 (l\<lparr>lnk_hContext := p2\<lparr>pt_pOriAlias := None\<rparr>\<rparr>)))
      else
        (case CosaDmlNatSetPortTrigger L st p of (returnStatus, st1) \<Rightarrow>
           let p1 = (if \<not> ansc_ok returnStatus then reread_trigger L st1 p else p)
           in (returnStatus, put_pt st1 (l\<lparr>lnk_hContext := p1\<lparr>pt_pOriAlias := None\<rparr>\<rparr>))))"

definition PortTrigger_Rollback :: "('s, 'c, 'r) libs \<Rightarrow> ('s, 'r) nat_state \<Rightarrow> pt_link \<Rightarrow>
    ansc_status \<times> ('s, 'r) nat_state" where
  "PortTrigger_Rollback L st l =
     (let p = lnk_hContext l;
          p1 = (case pt_pOriAlias p of
                  Some ori \<Rightarrow> p\<lparr>pt_Alias := snd (lib_noclobber L COSA_DML_ALIAS_LENGTH (pt_Alias p) ori)\<rparr>
                | None \<Rightarrow> p);
          p2 = (if \<not> lnk_bNew l then p1 else COSA_DML_NAT_PTRIGGER_INIT p1)
      in (ANSC_SUCCESS, put_pt st (l\<lparr>lnk_hContext := p2\<lparr>pt_pOriAlias := None\<rparr>\<rparr>)))"

end
