(* ===== verification/Nat_PortTrigger_Table.thy ===== *)
theory Nat_PortTrigger_Table
  imports Nat_PortTrigger Nat_PortMapping_Commit
begin

text \<open>
  The port trigger table as a state machine: what its operations touch, its invariant, the step relation,
  and the refresh from the rule store.
\<close>

section \<open>What the helpers touch\<close>

lemma GenForTriggerEntry_Some:
  assumes "CosaNatGenForTriggerEntry L st e = Some (s, e', st')"
  shows "\<exists>n r k. gen_pt (NatPTriggerList st) (ulPtNextInstanceNumber st) = Some n \<and> pt_InstanceNumber e' = n \<and>
    st' = st\<lparr>ulPtNextInstanceNumber := n + 1, st_allocs := k, st_registry := r\<rparr> \<and> st_allocs st \<le> k"
proof -
  obtain n where n: "gen_pt (NatPTriggerList st) (ulPtNextInstanceNumber st) = Some n"
    using assms by (cases "gen_pt (NatPTriggerList st) (ulPtNextInstanceNumber st)")
      (simp_all add: CosaNatGenForTriggerEntry_def)
  then have s: "st' = snd (CosaNatRegSetNatInfo L (st\<lparr>ulPtNextInstanceNumber := n + 1\<rparr>))" "pt_InstanceNumber e' = n"
    using assms by (auto simp: CosaNatGenForTriggerEntry_def Let_def split: prod.split_asm if_split_asm)
  from RegSet_touches [of L "st\<lparr>ulPtNextInstanceNumber := n + 1\<rparr>"] obtain r k where
    "snd (CosaNatRegSetNatInfo L (st\<lparr>ulPtNextInstanceNumber := n + 1\<rparr>)) =
       st\<lparr>ulPtNextInstanceNumber := n + 1\<rparr>\<lparr>st_allocs := k, st_registry := r\<rparr>" "st_allocs st \<le> k" by auto
  with n s show ?thesis by (intro exI [of _ n] exI [of _ r] exI [of _ k]) simp
qed

lemma pt_backend_touches:
  "\<exists>s'. snd (CosaDmlNatAddPortTrigger L st e) = st\<lparr>st_store := s'\<rparr>"
  "\<exists>s'. snd (CosaDmlNatSetPortTrigger L st e) = st\<lparr>st_store := s'\<rparr>"
  "\<exists>s'. snd (CosaDmlNatDelPortTrigger L st e) = st\<lparr>st_store := s'\<rparr>"
  by (auto simp: CosaDmlNatAddPortTrigger_def CosaDmlNatSetPortTrigger_def CosaDmlNatDelPortTrigger_def
      split: prod.split option.split intro: exI [of _ "st_store st"])

lemma reread_trigger_number:
  assumes "utopia_ok (lib_ut L) vs vc"
  shows "pt_InstanceNumber (reread_trigger L st p) = pt_InstanceNumber p"
proof (cases "ut_Init (lib_ut L) (st_store st)")
  case None
  then show ?thesis by (simp add: reread_trigger_def CosaDmlNatGetPortTrigger_def)
next
  case (Some c)
  then show ?thesis
    by (auto simp: reread_trigger_def CosaDmlNatGetPortTrigger_def utopia_by_id [OF assms] pt_from_rule_def
        split: option.split dest!: find_Some_key)
qed

text \<open>The rules as \<open>CosaDmlNatGetPortTriggers\<close> presents them.\<close>

definition pt_rules :: "ustore \<Rightarrow> COSA_DML_NAT_PTRIGGER list" where
  "pt_rules v = map (\<lambda>r. pt_from_rule r zero_pt) (u_trigger v)"

definition pt_numbers_ok :: "ustore \<Rightarrow> bool" where
  "pt_numbers_ok v \<longleftrightarrow> distinct (map tr_rule_id (u_trigger v)) \<and> 0 \<notin> tr_rule_id ` set (u_trigger v)"

lemma pt_rules_numbers:
  "pt_numbers_ok v \<Longrightarrow> distinct (map pt_InstanceNumber (pt_rules v)) \<and> 0 \<notin> pt_InstanceNumber ` set (pt_rules v)"
  by (simp add: pt_numbers_ok_def pt_rules_def pt_from_rule_def comp_def image_image)

lemma GetPortTriggers_reads:
  assumes ok: "utopia_ok (lib_ut L) vs vc" and r: "CosaDmlNatGetPortTriggers L st b = (rules, st')"
  shows "\<exists>s k. st' = st\<lparr>st_allocs := k, st_store := s\<rparr> \<and> st_allocs st \<le> k \<and> vs s = vs (st_store st)"
    "rules = Some rs \<Longrightarrow> rs = pt_rules (vs (st_store st))"
    "utopia_total (lib_ut L) \<Longrightarrow> \<forall>n. lib_alloc L n \<Longrightarrow>
       rules = (if u_trigger (vs (st_store st)) = [] then None else Some (pt_rules (vs (st_store st))))"
proof -
  have none: "\<exists>s k. st' = st\<lparr>st_allocs := k, st_store := s\<rparr> \<and> st_allocs st \<le> k \<and> vs s = vs (st_store st)"
    if "st' = st\<lparr>st_allocs := k\<rparr>" "st_allocs st \<le> k" for k
    using that by (intro exI [of _ "st_store st"] exI [of _ k]) simp
  have "(\<exists>s k. st' = st\<lparr>st_allocs := k, st_store := s\<rparr> \<and> st_allocs st \<le> k \<and> vs s = vs (st_store st)) \<and>
    (rules = Some rs \<longrightarrow> rs = pt_rules (vs (st_store st)))"
  proof (cases "ut_Init (lib_ut L) (st_store st)")
    case None
    then have "rules = None" "st' = st\<lparr>st_allocs := st_allocs st\<rparr>"
      using r by (simp_all add: CosaDmlNatGetPortTriggers_def)
    with none [OF this(2)] show ?thesis by blast
  next
    case (Some c)
    then have v: "vc c = vs (st_store st)" using utopia_Init [OF ok] by simp
    show ?thesis
    proof (cases "\<exists>l. ut_GetPortTrigger (lib_ut L) c = Some l \<and> l \<noteq> [] \<and> lib_alloc L (st_allocs st)")
      case False
      then consider "ut_GetPortTrigger (lib_ut L) c = None" | "ut_GetPortTrigger (lib_ut L) c = Some []"
        | l where "ut_GetPortTrigger (lib_ut L) c = Some l" "l \<noteq> []" "\<not> lib_alloc L (st_allocs st)"
        by (metis option.exhaust)
      then have "rules = None \<and> (st' = st\<lparr>st_allocs := st_allocs st\<rparr> \<or> st' = st\<lparr>st_allocs := Suc (st_allocs st)\<rparr>)"
        by cases (use r Some in \<open>simp_all add: CosaDmlNatGetPortTriggers_def AnscAllocateMemory_def\<close>)
      with none show ?thesis by (metis le_SucI le_refl option.distinct(1))
    next
      case True
      then obtain l where l: "ut_GetPortTrigger (lib_ut L) c = Some l" "l \<noteq> []" "lib_alloc L (st_allocs st)" by blast
      have "l = u_trigger (vs (st_store st))" using utopia_lists(3) [OF ok l(1)] v by simp
      moreover have "rules = Some (map (\<lambda>r. pt_from_rule r zero_pt) l)"
        "st' = st\<lparr>st_allocs := Suc (st_allocs st),
           st_store := (if b then ut_Commit (lib_ut L) (st_store st) c else st_store st)\<rparr>"
        using r Some l by (auto simp: CosaDmlNatGetPortTriggers_def AnscAllocateMemory_def)
      moreover have "vs (if b then ut_Commit (lib_ut L) (st_store st) c else st_store st) = vs (st_store st)"
        using ok v by simp
      ultimately show ?thesis by (metis le_SucI le_refl option.inject pt_rules_def)
    qed
  qed
  then show "\<exists>s k. st' = st\<lparr>st_allocs := k, st_store := s\<rparr> \<and> st_allocs st \<le> k \<and> vs s = vs (st_store st)"
    "rules = Some rs \<Longrightarrow> rs = pt_rules (vs (st_store st))" by blast+
  assume t: "utopia_total (lib_ut L)" "\<forall>n. lib_alloc L n"
  obtain c where c: "ut_Init (lib_ut L) (st_store st) = Some c" using utopia_totalD(1) [OF t(1)] by blast
  then show "rules = (if u_trigger (vs (st_store st)) = [] then None else Some (pt_rules (vs (st_store st))))"
    using r t(2) utopia_total_gets(3) [OF ok t(1), of c] utopia_Init [OF ok c]
    by (auto simp: CosaDmlNatGetPortTriggers_def AnscAllocateMemory_def pt_rules_def)
qed

section \<open>The invariant\<close>

definition pt_inv :: "('s, 'r) nat_state \<Rightarrow> bool" where
  "pt_inv st \<longleftrightarrow> links_ok pt_InstanceNumber (st_allocs st) (NatPTriggerList st)"

lemma pt_inv_touch [simp]:
  "pt_inv (st\<lparr>st_store := s\<rparr>) = pt_inv st" "pt_inv (st\<lparr>st_registry := r\<rparr>) = pt_inv st"
  "pt_inv (st\<lparr>ulPtNextInstanceNumber := m\<rparr>) = pt_inv st"
  by (simp_all add: pt_inv_def)

lemma pt_inv_allocs: "pt_inv st \<Longrightarrow> st_allocs st \<le> k \<Longrightarrow> pt_inv (st\<lparr>st_allocs := k\<rparr>)"
  by (auto simp: pt_inv_def intro: links_ok_mono)

lemma pt_inv_RegSet: "pt_inv st \<Longrightarrow> pt_inv (snd (CosaNatRegSetNatInfo L st))"
  using RegSet_touches [of L st] by (auto simp: pt_inv_allocs)

lemma pt_inv_put:
  "pt_inv st \<Longrightarrow> link_at (NatPTriggerList st) (lnk_addr l') = Some l \<Longrightarrow> lnk_InstanceNumber l' = lnk_InstanceNumber l \<Longrightarrow>
   pt_InstanceNumber (lnk_hContext l') = pt_InstanceNumber (lnk_hContext l) \<Longrightarrow> pt_inv (put_pt st l')"
  by (simp add: pt_inv_def put_pt_def links_ok_put)

lemma pt_inv_put_ctx:
  "pt_inv st \<Longrightarrow> link_at (NatPTriggerList st) (lnk_addr l) = Some l \<Longrightarrow>
   pt_InstanceNumber p = pt_InstanceNumber (lnk_hContext l) \<Longrightarrow> pt_inv (put_pt st (l\<lparr>lnk_hContext := p\<rparr>))"
  by (rule pt_inv_put [of st _ l]) simp_all

text \<open>Adding an entry.\<close>

lemma TriggerAddEntry_cases:
  assumes "PortTrigger_AddEntry L st = Some (h, st')"
  shows "(\<exists>k. h = None \<and> st' = st\<lparr>st_allocs := k\<rparr> \<and> st_allocs st \<le> k) \<or>
    (\<exists>n l r k. \<not> bridge_blocked L \<and> gen_pt (NatPTriggerList st) (ulPtNextInstanceNumber st) = Some n \<and>
       lnk_addr l = Suc (st_allocs st) \<and> lnk_InstanceNumber l = n \<and> lnk_bNew l \<and>
       pt_InstanceNumber (lnk_hContext l) = n \<and> h = Some (lnk_addr l, n) \<and> st_allocs st + 2 \<le> k \<and>
       st' = st\<lparr>NatPTriggerList := CosaSListPushEntryByInsNum (NatPTriggerList st) l,
                ulPtNextInstanceNumber := n + 1, st_allocs := k, st_registry := r\<rparr>)"
proof (cases "bridge_blocked L \<or> \<not> lib_alloc L (st_allocs st) \<or> \<not> lib_alloc L (Suc (st_allocs st))")
  case True
  then consider "bridge_blocked L" | "\<not> bridge_blocked L" "\<not> lib_alloc L (st_allocs st)"
    | "\<not> bridge_blocked L" "lib_alloc L (st_allocs st)" "\<not> lib_alloc L (Suc (st_allocs st))" by blast
  then have "h = None \<and> (st' = st\<lparr>st_allocs := st_allocs st\<rparr> \<or> st' = st\<lparr>st_allocs := Suc (st_allocs st)\<rparr> \<or>
      st' = st\<lparr>st_allocs := Suc (Suc (st_allocs st))\<rparr>)"
    by cases (use assms in \<open>simp_all add: PortTrigger_AddEntry_def AnscAllocateMemory_def\<close>)
  then show ?thesis by (metis le_SucI le_refl)
next
  case False
  let ?k = "st_allocs st"
  define st2 where "st2 = st\<lparr>st_allocs := Suc (Suc ?k)\<rparr>"
  have al: "AnscAllocateMemory L st = (Some ?k, st\<lparr>st_allocs := Suc ?k\<rparr>)"
    "AnscAllocateMemory L (st\<lparr>st_allocs := Suc ?k\<rparr>) = (Some (Suc ?k), st2)"
    using False by (simp_all add: AnscAllocateMemory_def st2_def)
  have "CosaNatGenForTriggerEntry L st2 (lib_junk_pt L ?k) \<noteq> None"
  proof
    assume "CosaNatGenForTriggerEntry L st2 (lib_junk_pt L ?k) = None"
    with assms False show False by (simp add: PortTrigger_AddEntry_def al)
  qed
  then obtain s e st3 where g: "CosaNatGenForTriggerEntry L st2 (lib_junk_pt L ?k) = Some (s, e, st3)"
    by (metis option.exhaust surj_pair)
  from GenForTriggerEntry_Some [OF g] obtain n r k where n:
    "gen_pt (NatPTriggerList st) (ulPtNextInstanceNumber st) = Some n" "pt_InstanceNumber e = n"
    "st3 = st2\<lparr>ulPtNextInstanceNumber := n + 1, st_allocs := k, st_registry := r\<rparr>" "Suc (Suc ?k) \<le> k"
    by (auto simp: st2_def)
  define l where "l = \<lparr>lnk_addr = Suc ?k, lnk_InstanceNumber = n, lnk_bNew = True,
    lnk_bFound = lib_junk_bFound L (Suc ?k), lnk_hContext = e\<rparr>"
  define st4 where "st4 = st3\<lparr>NatPTriggerList := CosaSListPushEntryByInsNum (NatPTriggerList st3) l\<rparr>"
  have "PortTrigger_AddEntry L st = Some (Some (Suc ?k, n), snd (CosaNatRegSetNatInfo L st4))"
    using False by (simp add: PortTrigger_AddEntry_def al g n(2) Let_def l_def st4_def)
  then have h: "h = Some (Suc ?k, n)" "st' = snd (CosaNatRegSetNatInfo L st4)" using assms by simp_all
  from RegSet_touches [of L st4] obtain r' k' where rk:
    "snd (CosaNatRegSetNatInfo L st4) = st4\<lparr>st_allocs := k', st_registry := r'\<rparr>" "st_allocs st4 \<le> k'" by blast
  have "st4\<lparr>st_allocs := k', st_registry := r'\<rparr> =
      st\<lparr>NatPTriggerList := CosaSListPushEntryByInsNum (NatPTriggerList st) l,
         ulPtNextInstanceNumber := n + 1, st_allocs := k', st_registry := r'\<rparr>"
    by (rule nat_state.equality) (simp_all add: st4_def n(3) st2_def)
  moreover have "?k + 2 \<le> k'" using rk(2) n(3,4) by (simp add: st4_def)
  ultimately show ?thesis
    using False n(1,2) h rk(1) by (intro disjI2 exI [of _ n] exI [of _ l] exI [of _ r'] exI [of _ k']) (simp add: l_def)
qed

lemma pt_inv_AddEntry:
  assumes "pt_inv st" "PortTrigger_AddEntry L st = Some (h, st')"
  shows "pt_inv st'"
  using TriggerAddEntry_cases [OF assms(2)]
proof (elim disjE exE conjE)
  fix k assume "st' = st\<lparr>st_allocs := k\<rparr>" "st_allocs st \<le> k"
  then show ?thesis using pt_inv_allocs [OF assms(1)] by simp
next
  fix n l r k assume n: "gen_pt (NatPTriggerList st) (ulPtNextInstanceNumber st) = Some n"
    "lnk_addr l = Suc (st_allocs st)" "lnk_InstanceNumber l = n" "pt_InstanceNumber (lnk_hContext l) = n"
    "st_allocs st + 2 \<le> k" "st' = st\<lparr>NatPTriggerList := CosaSListPushEntryByInsNum (NatPTriggerList st) l,
                ulPtNextInstanceNumber := n + 1, st_allocs := k, st_registry := r\<rparr>"
  then show ?thesis
    using gen_pt_fresh [OF n(1)] assms(1) by (auto simp: pt_inv_def intro: links_ok_push_fresh)
qed

end
