(* ===== verification/Nat_PortTrigger_Steps.thy ===== *)
theory Nat_PortTrigger_Steps
  imports Nat_PortTrigger_Table
begin

text \<open>
  The refresh of the port trigger table from the rule store, the step relation of the table with its
  invariant, and the refinement the refresh establishes.
\<close>

section \<open>The refresh\<close>

lemma rule_index_Some:
  "rule_index rs n i = Some j \<Longrightarrow> i \<le> j \<and> j - i < length rs \<and> find (\<lambda>r. pt_InstanceNumber r = n) rs = Some (rs ! (j - i))"
proof (induction rs arbitrary: i)
  case (Cons r rs)
  show ?case
  proof (cases "n = pt_InstanceNumber r")
    case True
    with Cons.prems show ?thesis by simp
  next
    case False
    with Cons.prems have "rule_index rs n (Suc i) = Some j" by simp
    from Cons.IH [OF this] False show ?thesis by (auto simp: nth_Cons' Suc_diff_Suc)
  qed
qed simp

lemma rule_index_None: "rule_index rs n i = None \<longleftrightarrow> find (\<lambda>r. pt_InstanceNumber r = n) rs = None"
  by (induction rs n i rule: rule_index.induct) auto

text \<open>What the first pass does to a link.\<close>

definition retaken :: "COSA_DML_NAT_PTRIGGER list \<Rightarrow> pt_link \<Rightarrow> pt_link" where
  "retaken rs l = (case find (\<lambda>r. pt_InstanceNumber r = pt_InstanceNumber (lnk_hContext l)) rs of
       Some r \<Rightarrow> l\<lparr>lnk_hContext := r, lnk_bNew := False\<rparr> | None \<Rightarrow> l)"

lemma retaken_keeps [simp]:
  "lnk_InstanceNumber (retaken rs l) = lnk_InstanceNumber l" "lnk_addr (retaken rs l) = lnk_addr l"
  "pt_InstanceNumber (lnk_hContext (retaken rs l)) = pt_InstanceNumber (lnk_hContext l)"
  by (auto simp: retaken_def split: option.split dest: find_Some_key)

lemma sync_pt_links_map: "fst (sync_pt_links rs ls f) = map (retaken rs) ls"
proof (induction ls arbitrary: f)
  case (Cons l ls)
  show ?case
  proof (cases "rule_index rs (pt_InstanceNumber (lnk_hContext l)) 0")
    case None
    obtain ls' g where r: "sync_pt_links rs ls f = (ls', g)" by fastforce
    with Cons [of f] have "ls' = map (retaken rs) ls" by simp
    moreover have "retaken rs l = l" using None by (simp add: retaken_def rule_index_None)
    ultimately show ?thesis using None r by simp
  next
    case (Some i)
    obtain ls' g where r: "sync_pt_links rs ls (f[i := True]) = (ls', g)" by fastforce
    with Cons [of "f[i := True]"] have "ls' = map (retaken rs) ls" by simp
    with Some r rule_index_Some [OF Some] show ?thesis by (simp add: retaken_def)
  qed
qed simp

lemma sync_pt_links_found:
  "length (snd (sync_pt_links rs ls f)) = length f \<and> (\<forall>j < length f. snd (sync_pt_links rs ls f) ! j \<longleftrightarrow>
     f ! j \<or> (\<exists>l \<in> set ls. rule_index rs (pt_InstanceNumber (lnk_hContext l)) 0 = Some j))"
proof (induction ls arbitrary: f)
  case (Cons l ls)
  show ?case
  proof (cases "rule_index rs (pt_InstanceNumber (lnk_hContext l)) 0")
    case None
    with Cons [of f] show ?thesis by (simp split: prod.split) (metis option.distinct(1) snd_conv)
  next
    case (Some i)
    have upd: "f[i := True] ! j \<longleftrightarrow> f ! j \<or> i = j" if "j < length f" for j using that by (cases "i = j") simp_all
    obtain ls' g where r: "sync_pt_links rs ls (f[i := True]) = (ls', g)" by fastforce
    with Cons [of "f[i := True]"] show ?thesis by (auto simp: Some upd)
  qed
qed simp

lemma rule_index_distinct:
  assumes "distinct (map pt_InstanceNumber rs)" "j < length rs"
  shows "rule_index rs n 0 = Some j \<longleftrightarrow> pt_InstanceNumber (rs ! j) = n"
proof
  assume r: "rule_index rs n 0 = Some j"
  from rule_index_Some [OF r] have "find (\<lambda>r. pt_InstanceNumber r = n) rs = Some (rs ! j)" by simp
  then show "pt_InstanceNumber (rs ! j) = n" by (rule find_Some_key [THEN conjunct2])
next
  assume n: "pt_InstanceNumber (rs ! j) = n"
  then have "find (\<lambda>r. pt_InstanceNumber r = n) rs \<noteq> None" using assms(2) by (simp add: find_None_key) auto
  then obtain i where i: "rule_index rs n 0 = Some i" using rule_index_None [of rs n 0] by auto
  from rule_index_Some [OF i] have "i < length rs" "pt_InstanceNumber (rs ! i) = n" by (auto dest: find_Some_key)
  with assms n have "i = j" by (auto simp: distinct_conv_nth)
  with i show "rule_index rs n 0 = Some j" by simp
qed

lemma open_cells:
  assumes "distinct (map pt_InstanceNumber rs)"
  shows "zip rs (snd (sync_pt_links rs ls (replicate (length rs) False))) =
    map (\<lambda>r. (r, pt_InstanceNumber r \<in> (\<lambda>l. pt_InstanceNumber (lnk_hContext l)) ` set ls)) rs"
  (is "zip rs ?f = _")
proof (rule nth_equalityI)
  have f: "length ?f = length rs" using sync_pt_links_found [of rs ls "replicate (length rs) False"] by simp
  then show "length (zip rs ?f) = length (map (\<lambda>r. (r, pt_InstanceNumber r \<in> (\<lambda>l. pt_InstanceNumber (lnk_hContext l)) ` set ls)) rs)"
    by simp
  fix j assume "j < length (zip rs ?f)"
  then have j: "j < length rs" using f by simp
  have "?f ! j \<longleftrightarrow> (\<exists>l \<in> set ls. rule_index rs (pt_InstanceNumber (lnk_hContext l)) 0 = Some j)"
    using sync_pt_links_found [of rs ls "replicate (length rs) False"] j by simp
  also have "\<dots> \<longleftrightarrow> pt_InstanceNumber (rs ! j) \<in> (\<lambda>l. pt_InstanceNumber (lnk_hContext l)) ` set ls"
    by (auto simp: rule_index_distinct [OF assms j])
  finally show "zip rs ?f ! j = map (\<lambda>r. (r, pt_InstanceNumber r \<in> (\<lambda>l. pt_InstanceNumber (lnk_hContext l)) ` set ls)) rs ! j"
    using j f by simp
qed

text \<open>What the table shows of an entry.\<close>

definition pt_shown :: "('s, 'r) nat_state \<Rightarrow> ULONG \<Rightarrow> (bool \<times> COSA_DML_NAT_PTRIGGER) option" where
  "pt_shown st n = map_option (\<lambda>l. (lnk_bNew l, lnk_hContext l)) (CosaSListGetEntryByInsNum (NatPTriggerList st) n)"

lemma pt_shown_touch [simp]: "pt_shown (st\<lparr>st_allocs := k\<rparr>) = pt_shown st" "pt_shown (st\<lparr>st_store := s\<rparr>) = pt_shown st"
  by (simp_all add: pt_shown_def fun_eq_iff)

lemma sync_pt_add_inv:
  assumes "pt_inv st" "distinct (map (\<lambda>c. pt_InstanceNumber (fst c)) cells)"
    "\<forall>(e, f) \<in> set cells. \<not> f \<longrightarrow> pt_InstanceNumber e \<noteq> 0 \<and> pt_shown st (pt_InstanceNumber e) = None"
  shows "pt_inv (sync_pt_add L cells st) \<and> st_store (sync_pt_add L cells st) = st_store st \<and>
    ((\<forall>n. lib_alloc L n) \<longrightarrow> pt_shown (sync_pt_add L cells st) n =
       (case find (\<lambda>c. \<not> snd c \<and> pt_InstanceNumber (fst c) = n) cells of
          Some c \<Rightarrow> Some (False, fst c) | None \<Rightarrow> pt_shown st n))"
  using assms
proof (induction cells arbitrary: st)
  case Nil
  then show ?case by simp
next
  case (Cons c cells)
  obtain e f where c: "c = (e, f)" by fastforce
  show ?case
  proof (cases f)
    case True
    with Cons.IH [OF Cons.prems(1)] Cons.prems(2,3) show ?thesis by (simp add: c)
  next
    case False
    let ?k = "st_allocs st"
    have e: "pt_InstanceNumber e \<noteq> 0" "pt_shown st (pt_InstanceNumber e) = None" using Cons.prems(3) False c by auto
    have failed: ?thesis if "sync_pt_add L (c # cells) st = st\<lparr>st_allocs := k\<rparr>" "?k \<le> k" "\<not> (\<forall>n. lib_alloc L n)" for k
      using that(1) pt_inv_allocs [OF Cons.prems(1) that(2)] that(3) by (intro conjI impI) simp_all
    show ?thesis
    proof (cases "lib_alloc L ?k \<and> lib_alloc L (Suc ?k)")
      case no: False
      then have no': "\<not> (\<forall>n. lib_alloc L n)" by auto
      show ?thesis
      proof (cases "lib_alloc L ?k")
        case a1: True
        with no have "sync_pt_add L (c # cells) st = st\<lparr>st_allocs := Suc (Suc ?k)\<rparr>"
          using False by (simp add: c AnscAllocateMemory_def)
        then show ?thesis by (rule failed [OF _ _ no']) simp
      next
        case a1: False
        then have "sync_pt_add L (c # cells) st = st\<lparr>st_allocs := Suc ?k\<rparr>"
          using False by (simp add: c AnscAllocateMemory_def)
        then show ?thesis by (rule failed [OF _ _ no']) simp
      qed
    next
      case alloc: True
      define l where "l = \<lparr>lnk_addr = ?k, lnk_InstanceNumber = pt_InstanceNumber e, lnk_bNew = False,
         lnk_bFound = lib_junk_bFound L ?k, lnk_hContext = e\<rparr>"
      define st2 where "st2 = st\<lparr>st_allocs := Suc (Suc ?k),
        NatPTriggerList := CosaSListPushEntryByInsNum (NatPTriggerList st) l\<rparr>"
      have r: "sync_pt_add L (c # cells) st = sync_pt_add L cells st2"
        using False alloc by (simp add: c AnscAllocateMemory_def l_def st2_def)
      have none: "CosaSListGetEntryByInsNum (NatPTriggerList st) (lnk_InstanceNumber l) = None"
        using e(2) by (simp add: pt_shown_def l_def)
      have i2: "pt_inv st2"
        using Cons.prems(1) none e(1) by (auto simp: pt_inv_def st2_def l_def intro!: links_ok_push_fresh [where k = ?k])
      have wf: "table_wf lnk_InstanceNumber (NatPTriggerList st)" using Cons.prems(1) by (simp add: pt_inv_def links_ok_def)
      have shown: "pt_shown st2 m = (if m = pt_InstanceNumber e then Some (False, e) else pt_shown st m)" for m
        using cosa.get_push_same [OF wf none] cosa.get_push_other [OF wf none, of m]
        by (simp add: pt_shown_def st2_def) (simp add: l_def)
      have op: "\<forall>(e', f') \<in> set cells. \<not> f' \<longrightarrow> pt_InstanceNumber e' \<noteq> 0 \<and> pt_shown st2 (pt_InstanceNumber e') = None"
        using Cons.prems(2,3) by (force simp: shown c)
      have d: "distinct (map (\<lambda>c. pt_InstanceNumber (fst c)) cells)" using Cons.prems(2) by simp
      have gone: "find (\<lambda>c. \<not> snd c \<and> pt_InstanceNumber (fst c) = pt_InstanceNumber e) cells = None"
        using Cons.prems(2) by (force simp: c find_None_iff)
      have "st_store st2 = st_store st" by (simp add: st2_def)
      with Cons.IH [OF i2 d op] gone False show ?thesis
        unfolding r by (cases "n = pt_InstanceNumber e") (simp_all add: c shown split: option.split)
    qed
  qed
qed

lemma SyncPortTrigger_ok:
  assumes ok: "utopia_ok (lib_ut L) vs vc" and n: "pt_numbers_ok (vs (st_store st))" and i: "pt_inv st"
    and r: "CosaNatSyncPortTrigger L st = (s, st')"
  shows "pt_inv st' \<and> vs (st_store st') = vs (st_store st)"
    "utopia_total (lib_ut L) \<Longrightarrow> \<forall>n. lib_alloc L n \<Longrightarrow>
     s = (if u_trigger (vs (st_store st)) = [] then ANSC_FAILURE else ANSC_SUCCESS) \<and>
     pt_shown st' m = (case find (\<lambda>e. pt_InstanceNumber e = m) (pt_rules (vs (st_store st))) of
        Some e \<Rightarrow> Some (False, e) | None \<Rightarrow> pt_shown st m)"
proof -
  let ?v = "vs (st_store st)"
  obtain rules st1 where g: "CosaDmlNatGetPortTriggers L st True = (rules, st1)" by fastforce
  note reads = GetPortTriggers_reads [OF ok g]
  from reads(1) obtain s1 k1 where st1: "st1 = st\<lparr>st_allocs := k1, st_store := s1\<rparr>" "st_allocs st \<le> k1" "vs s1 = ?v"
    by blast
  have i1: "pt_inv (st\<lparr>st_allocs := k\<rparr>)" "pt_inv (st\<lparr>st_store := s1, st_allocs := k\<rparr>)" if "k1 \<le> k" for k
    using pt_inv_allocs [OF i] pt_inv_allocs [of "st\<lparr>st_store := s1\<rparr>"] i st1(2) that by simp_all
  show *: "pt_inv st' \<and> vs (st_store st') = ?v" and
    "utopia_total (lib_ut L) \<Longrightarrow> \<forall>n. lib_alloc L n \<Longrightarrow>
     s = (if u_trigger ?v = [] then ANSC_FAILURE else ANSC_SUCCESS) \<and>
     pt_shown st' m = (case find (\<lambda>e. pt_InstanceNumber e = m) (pt_rules ?v) of
        Some e \<Rightarrow> Some (False, e) | None \<Rightarrow> pt_shown st m)"
  proof -
    have "pt_inv st' \<and> vs (st_store st') = ?v \<and> (utopia_total (lib_ut L) \<and> (\<forall>n. lib_alloc L n) \<longrightarrow>
      s = (if u_trigger ?v = [] then ANSC_FAILURE else ANSC_SUCCESS) \<and>
      pt_shown st' m = (case find (\<lambda>e. pt_InstanceNumber e = m) (pt_rules ?v) of
        Some e \<Rightarrow> Some (False, e) | None \<Rightarrow> pt_shown st m))"
    proof (cases rules)
      case None
      then have "s = ANSC_FAILURE" "st' = st1" using r g by (simp_all add: CosaNatSyncPortTrigger_def)
      moreover have "u_trigger ?v = []" if "utopia_total (lib_ut L)" "\<forall>n. lib_alloc L n"
        using reads(3) [OF that] None by (simp split: if_split_asm)
      ultimately show ?thesis using i1 [of k1] st1(1,3) by (simp add: pt_rules_def)
    next
      case (Some rs)
      then have rs: "rs = pt_rules ?v" using reads(2) by blast
      define st2 where "st2 = st1\<lparr>st_allocs := Suc (st_allocs st1)\<rparr>"
      show ?thesis
      proof (cases "lib_alloc L (st_allocs st1)")
        case False
        then have "st' = st2" using r g Some by (simp add: CosaNatSyncPortTrigger_def AnscAllocateMemory_def st2_def)
        then have "st' = st\<lparr>st_store := s1, st_allocs := Suc k1\<rparr>" by (simp add: st2_def st1(1))
        moreover have "\<not> (\<forall>n. lib_alloc L n)" using False by blast
        ultimately show ?thesis using i1(2) [of "Suc k1"] st1(3) by (intro conjI impI) auto
      next
        case True
        let ?ls = "NatPTriggerList st"
        define cells where "cells = map (\<lambda>r. (r, pt_InstanceNumber r \<in> (\<lambda>l. pt_InstanceNumber (lnk_hContext l)) ` set ?ls)) rs"
        define st3 where "st3 = st2\<lparr>NatPTriggerList := map (retaken rs) ?ls\<rparr>"
        have num: "distinct (map pt_InstanceNumber rs)" "0 \<notin> pt_InstanceNumber ` set rs"
          using pt_rules_numbers [OF n] rs by simp_all
        have "sync_pt_links rs ?ls (replicate (length rs) False) =
            (map (retaken rs) ?ls, snd (sync_pt_links rs ?ls (replicate (length rs) False)))"
          using sync_pt_links_map by (metis prod.collapse)
        then have "s = ANSC_SUCCESS \<and> st' = sync_pt_add L cells st3"
          using r g Some True open_cells [OF num(1), of ?ls]
          by (simp add: CosaNatSyncPortTrigger_def AnscAllocateMemory_def st2_def st3_def st1(1) cells_def split: prod.split_asm)
        then have st': "s = ANSC_SUCCESS" "st' = sync_pt_add L cells st3" by simp_all
        have i3: "pt_inv st3"
          using i1 [of "Suc k1"] st1(1) by (simp add: st3_def st2_def pt_inv_def links_ok_map)
        have shown3: "pt_shown st3 a = map_option (\<lambda>l. (lnk_bNew (retaken rs l), lnk_hContext (retaken rs l)))
            (CosaSListGetEntryByInsNum ?ls a)" for a
          by (simp add: pt_shown_def st3_def get_map_links option.map_comp comp_def)
        have agree: "pt_InstanceNumber (lnk_hContext l) = a" if "CosaSListGetEntryByInsNum ?ls a = Some l" for l a
          using cosa.get_Some [OF that] i by (auto simp: pt_inv_def links_ok_def)
        have inls: "a \<in> (\<lambda>l. pt_InstanceNumber (lnk_hContext l)) ` set ?ls \<longleftrightarrow> CosaSListGetEntryByInsNum ?ls a \<noteq> None" for a
        proof -
          have "(\<lambda>l. pt_InstanceNumber (lnk_hContext l)) ` set ?ls = lnk_InstanceNumber ` set ?ls"
            using i by (auto simp: pt_inv_def links_ok_def image_iff)
          then show ?thesis by (simp add: cosa.get_None)
        qed
        have d: "distinct (map (\<lambda>c. pt_InstanceNumber (fst c)) cells)" using num(1) by (simp add: cells_def comp_def)
        have op: "\<forall>(e, f) \<in> set cells. \<not> f \<longrightarrow> pt_InstanceNumber e \<noteq> 0 \<and> pt_shown st3 (pt_InstanceNumber e) = None"
          using num(2) by (force simp: cells_def inls shown3)
        note add = sync_pt_add_inv [OF i3 d op, of L m]
        have "(case find (\<lambda>c. \<not> snd c \<and> pt_InstanceNumber (fst c) = m) cells of
              Some c \<Rightarrow> Some (False, fst c) | None \<Rightarrow> pt_shown st3 m) =
            (case find (\<lambda>e. pt_InstanceNumber e = m) rs of Some e \<Rightarrow> Some (False, e) | None \<Rightarrow> pt_shown st m)"
        proof (cases "CosaSListGetEntryByInsNum ?ls m")
          case None
          then have "find (\<lambda>c. \<not> snd c \<and> pt_InstanceNumber (fst c) = m) cells =
              map_option (\<lambda>r. (r, False)) (find (\<lambda>e. pt_InstanceNumber e = m) rs)"
            unfolding cells_def by (induction rs) (auto simp: inls)
          moreover have "pt_shown st3 m = None" "pt_shown st m = None" using None by (simp_all add: shown3) (simp add: pt_shown_def)
          ultimately show ?thesis by (simp split: option.split)
        next
          case (Some l)
          then have "find (\<lambda>c. \<not> snd c \<and> pt_InstanceNumber (fst c) = m) cells = None"
            by (auto simp: cells_def find_None_iff inls)
          moreover have "pt_shown st3 m = Some (lnk_bNew (retaken rs l), lnk_hContext (retaken rs l))" using Some by (simp add: shown3)
          moreover have "pt_shown st m = Some (lnk_bNew l, lnk_hContext l)" using Some by (simp add: pt_shown_def)
          ultimately show ?thesis using agree [OF Some] by (simp add: retaken_def split: option.split)
        qed
        moreover have "u_trigger ?v \<noteq> []" if "utopia_total (lib_ut L)" "\<forall>n. lib_alloc L n"
          using reads(3) [OF that] Some by auto
        ultimately show ?thesis using add st' rs by (simp add: st3_def st2_def st1)
      qed
    qed
    then show "pt_inv st' \<and> vs (st_store st') = ?v"
      "utopia_total (lib_ut L) \<Longrightarrow> \<forall>n. lib_alloc L n \<Longrightarrow>
       s = (if u_trigger ?v = [] then ANSC_FAILURE else ANSC_SUCCESS) \<and>
       pt_shown st' m = (case find (\<lambda>e. pt_InstanceNumber e = m) (pt_rules ?v) of
          Some e \<Rightarrow> Some (False, e) | None \<Rightarrow> pt_shown st m)" by blast+
  qed
qed

section \<open>The other operations keep the invariant\<close>

lemma pt_inv_DelEntry:
  assumes "pt_inv st" "link_at (NatPTriggerList st) (lnk_addr l) = Some l"
  shows "pt_inv (snd (PortTrigger_DelEntry L st l))"
proof -
  have "pt_inv (put_pt st (l\<lparr>lnk_bNew := False\<rparr>))" by (rule pt_inv_put [OF assms(1), of _ l]) (use assms(2) in simp_all)
  then have "pt_inv (snd (CosaNatRegSetNatInfo L (put_pt st (l\<lparr>lnk_bNew := False\<rparr>))))" by (rule pt_inv_RegSet)
  moreover have "pt_inv (snd (CosaDmlNatDelPortTrigger L st e))" for e
    using pt_backend_touches(3) [of L st e] assms(1) by auto
  ultimately have "pt_inv (snd (if lnk_bNew l then CosaNatRegSetNatInfo L (put_pt st (l\<lparr>lnk_bNew := False\<rparr>))
      else CosaDmlNatDelPortTrigger L st (lnk_hContext l)))"
    by simp
  then show ?thesis
    using assms(1) unfolding PortTrigger_DelEntry_def
    by (auto simp: AnscSListPopEntryByLink_def pt_inv_def links_ok_filter split: prod.split)
qed

lemma pt_inv_setters:
  assumes "pt_inv st" "link_at (NatPTriggerList st) (lnk_addr l) = Some l"
  shows "pt_inv (snd (PortTrigger_SetParamBoolValue L st l name b))"
    "pt_inv (snd (PortTrigger_SetParamUlongValue L st l name u))"
    "pt_inv (snd (PortTrigger_SetParamStringValue L st l name s))"
    "pt_inv (snd (PortTrigger_Rollback L st l))"
proof -
  note put = pt_inv_put_ctx [OF assms]
  show "pt_inv (snd (PortTrigger_SetParamBoolValue L st l name b))"
    by (simp add: PortTrigger_SetParamBoolValue_def assms put)
  show "pt_inv (snd (PortTrigger_SetParamUlongValue L st l name u))"
    by (simp add: PortTrigger_SetParamUlongValue_def Let_def assms put)
  show "pt_inv (snd (PortTrigger_SetParamStringValue L st l name s))"
    by (simp add: PortTrigger_SetParamStringValue_def Let_def assms put split: prod.split)
  show "pt_inv (snd (PortTrigger_Rollback L st l))"
    by (simp add: PortTrigger_Rollback_def Let_def put split: option.split)
qed

lemma pt_inv_GetParamBoolValue:
  assumes "utopia_ok (lib_ut L) vs vc" "pt_inv st" "link_at (NatPTriggerList st) (lnk_addr l) = Some l"
  shows "pt_inv (snd (PortTrigger_GetParamBoolValue L st l name))"
proof -
  obtain rules st1 where g: "CosaDmlNatGetPortTriggers L st False = (rules, st1)" by fastforce
  from GetPortTriggers_reads(1) [OF assms(1) g] obtain s k where st1: "st1 = st\<lparr>st_allocs := k, st_store := s\<rparr>"
    "st_allocs st \<le> k" by blast
  have "pt_inv (st\<lparr>st_allocs := k\<rparr>)" using pt_inv_allocs assms(2) st1(2) by blast
  moreover have "st1 = st\<lparr>st_allocs := k\<rparr>\<lparr>st_store := s\<rparr>" by (rule nat_state.equality) (simp_all add: st1)
  ultimately have i1: "pt_inv st1" by (simp only: pt_inv_touch)
  have l1: "link_at (NatPTriggerList st1) (lnk_addr l) = Some l" using assms(3) by (simp add: st1(1))
  show ?thesis
    using assms(2) i1 pt_inv_put_ctx [OF i1 l1]
    by (simp add: PortTrigger_GetParamBoolValue_def g split: option.split)
qed

lemma pt_inv_Validate:
  assumes "utopia_ok (lib_ut L) vs vc" "pt_inv st" "link_at (NatPTriggerList st) (lnk_addr l) = Some l"
  shows "pt_inv (fst (snd (PortTrigger_Validate L st l ret len)))"
  using assms(2) reread_trigger_number [OF assms(1)]
  by (simp add: PortTrigger_Validate_def Let_def pt_inv_put_ctx [OF assms(2,3)])

lemma pt_inv_Commit:
  assumes "utopia_ok (lib_ut L) vs vc" "pt_inv st" "link_at (NatPTriggerList st) (lnk_addr l) = Some l"
  shows "pt_inv (snd (PortTrigger_Commit L st l))"
proof (cases "lnk_bNew l")
  case True
  obtain s s' where a: "CosaDmlNatAddPortTrigger L st (lnk_hContext l) = (s, st\<lparr>st_store := s'\<rparr>)"
    using pt_backend_touches(1) [of L st "lnk_hContext l"] by (metis prod.collapse)
  let ?st = "st\<lparr>st_store := s'\<rparr>" and ?l1 = "l\<lparr>lnk_bNew := False\<rparr>"
  have i: "pt_inv ?st" "link_at (NatPTriggerList ?st) (lnk_addr l) = Some l" using assms(2,3) by simp_all
  have "pt_inv (put_pt ?st ?l1)" by (rule pt_inv_put [OF i(1), of _ l]) (use i(2) in simp_all)
  then have i2: "pt_inv (snd (CosaNatRegSetNatInfo L (put_pt ?st ?l1)))" by (rule pt_inv_RegSet)
  have "link_at (NatPTriggerList (put_pt ?st ?l1)) (lnk_addr ?l1) = Some ?l1"
    unfolding put_pt_def using link_at_put_link [of "NatPTriggerList st" ?l1] assms(3) by simp
  then have l2: "link_at (NatPTriggerList (snd (CosaNatRegSetNatInfo L (put_pt ?st ?l1)))) (lnk_addr ?l1) = Some ?l1"
    using RegSet_touches [of L "put_pt ?st ?l1"] by auto
  show ?thesis
    using pt_inv_put_ctx [OF i2 l2] pt_inv_put_ctx [OF i]
    by (simp add: PortTrigger_Commit_def Let_def True a)
next
  case False
  obtain s s' where a: "CosaDmlNatSetPortTrigger L st (lnk_hContext l) = (s, st\<lparr>st_store := s'\<rparr>)"
    using pt_backend_touches(2) [of L st "lnk_hContext l"] by (metis prod.collapse)
  let ?st = "st\<lparr>st_store := s'\<rparr>"
  have i: "pt_inv ?st" "link_at (NatPTriggerList ?st) (lnk_addr l) = Some l" using assms(2,3) by simp_all
  show ?thesis
    using reread_trigger_number [OF assms(1)] by (simp add: PortTrigger_Commit_def Let_def False a pt_inv_put_ctx [OF i])
qed

section \<open>The step relation\<close>

text \<open>A step is one call of the framework on the table, or a change by somebody else, as for the port
  mapping table.\<close>

inductive pt_step :: "('s, 'c, 'r) world \<Rightarrow> ('s, 'r) nat_state \<Rightarrow> ('s, 'r) nat_state \<Rightarrow> bool" for w where
  add: "PortTrigger_AddEntry (fst w) st = Some (h, st') \<Longrightarrow> pt_step w st st'"
| del: "link_at (NatPTriggerList st) (lnk_addr l) = Some l \<Longrightarrow> PortTrigger_DelEntry (fst w) st l = (s, st') \<Longrightarrow>
    pt_step w st st'"
| get_bool: "link_at (NatPTriggerList st) (lnk_addr l) = Some l \<Longrightarrow>
    PortTrigger_GetParamBoolValue (fst w) st l name = (b', st') \<Longrightarrow> pt_step w st st'"
| set_bool: "link_at (NatPTriggerList st) (lnk_addr l) = Some l \<Longrightarrow>
    PortTrigger_SetParamBoolValue (fst w) st l name b = (ok, st') \<Longrightarrow> pt_step w st st'"
| set_ulong: "link_at (NatPTriggerList st) (lnk_addr l) = Some l \<Longrightarrow>
    PortTrigger_SetParamUlongValue (fst w) st l name u = (ok, st') \<Longrightarrow> pt_step w st st'"
| set_string: "link_at (NatPTriggerList st) (lnk_addr l) = Some l \<Longrightarrow>
    PortTrigger_SetParamStringValue (fst w) st l name v = (ok, st') \<Longrightarrow> pt_step w st st'"
| validate: "link_at (NatPTriggerList st) (lnk_addr l) = Some l \<Longrightarrow>
    PortTrigger_Validate (fst w) st l ret len = (ok, st', ret') \<Longrightarrow> pt_step w st st'"
| commit: "link_at (NatPTriggerList st) (lnk_addr l) = Some l \<Longrightarrow> PortTrigger_Commit (fst w) st l = (s, st') \<Longrightarrow>
    pt_step w st st'"
| rollback: "link_at (NatPTriggerList st) (lnk_addr l) = Some l \<Longrightarrow>
    PortTrigger_Rollback (fst w) st l = (s, st') \<Longrightarrow> pt_step w st st'"
| sync: "pt_numbers_ok (pf_store w st) \<Longrightarrow> CosaNatSyncPortTrigger (fst w) st = (s, st') \<Longrightarrow> pt_step w st st'"
| env: "NatPTriggerList st' = NatPTriggerList st \<Longrightarrow> st_allocs st \<le> st_allocs st' \<Longrightarrow> pt_step w st st'"

lemma pt_step_inv:
  assumes "world_ok w" "pt_inv st" "pt_step w st st'"
  shows "pt_inv st'"
proof -
  obtain L vs vc where w: "w = (L, vs, vc)" by (cases w)
  with assms(1) have ok: "utopia_ok (lib_ut L) vs vc" by (simp add: world_ok_def)
  note setters = pt_inv_setters [OF assms(2)]
  from assms(3) show ?thesis
  proof (cases rule: pt_step.cases)
    case (add h) then show ?thesis using pt_inv_AddEntry assms(2) by blast
  next
    case (del l s) then show ?thesis using pt_inv_DelEntry [OF assms(2), of l "fst w"] by simp
  next
    case (get_bool l name b') then show ?thesis
      using pt_inv_GetParamBoolValue [OF ok assms(2), of l name] w by simp
  next
    case (set_bool l name b r) then show ?thesis using setters(1) [of l "fst w" name b] by simp
  next
    case (set_ulong l name u r) then show ?thesis using setters(2) [of l "fst w" name u] by simp
  next
    case (set_string l name v r) then show ?thesis using setters(3) [of l "fst w" name v] by simp
  next
    case (validate l ret len r ret') then show ?thesis
      using pt_inv_Validate [OF ok assms(2), of l ret len] w by simp
  next
    case (commit l s) then show ?thesis using pt_inv_Commit [OF ok assms(2), of l] w by simp
  next
    case (rollback l s) then show ?thesis using setters(4) [of l "fst w"] by simp
  next
    case (sync s) then show ?thesis using SyncPortTrigger_ok(1) [OF ok _ assms(2)] w by (auto simp: pf_store_def)
  next
    case env then show ?thesis using assms(2) links_ok_mono by (auto simp: pt_inv_def)
  qed
qed

end
