(* ===== verification/Nat_PortTrigger_Props.thy ===== *)
theory Nat_PortTrigger_Props
  imports Nat_PortTrigger_Steps
begin

text \<open>
  Properties of the port trigger handlers: the reachable tables, the refresh, commit together with the
  refresh, validation, and the alias that a roll back restores.
\<close>

section \<open>The table\<close>



section \<open>Refresh\<close>

text \<open>\<open>CosaNatSyncPortTrigger\<close> makes the table show every rule of the store as a committed entry and
  leaves everything else it showed, also entries whose rule is gone; it reports failure, changing
  nothing, exactly when the store has no rule.\<close>

theorem port_trigger_sync_adds_store:
  assumes "utopia_ok (lib_ut L) vs vc" "utopia_total (lib_ut L)" "\<forall>n. lib_alloc L n"
    and "pt_numbers_ok (vs (st_store st))" "pt_inv st"
    and "CosaNatSyncPortTrigger L st = (s, st')"
  shows "s = (if u_trigger (vs (st_store st)) = [] then ANSC_FAILURE else ANSC_SUCCESS) \<and>
    vs (st_store st') = vs (st_store st) \<and>
    pt_shown st' n = (case find (\<lambda>e. pt_InstanceNumber e = n) (pt_rules (vs (st_store st))) of
        Some e \<Rightarrow> Some (False, e) | None \<Rightarrow> pt_shown st n)"
  using SyncPortTrigger_ok [OF assms(1,4,5,6)] assms(2,3) by blast

lemma port_trigger_sync_adds_store_witness:
  "pt_shown (snd (CosaNatSyncPortTrigger mem_libs example_trig_state)) 1 = Some (False, pt_from_rule example_trig zero_pt)"
proof -
  obtain s st where r: "CosaNatSyncPortTrigger mem_libs example_trig_state = (s, st)" by fastforce
  have ex: "NatPTriggerList example_trig_state = []" "u_trigger (st_store example_trig_state) = [example_trig]"
    "tr_rule_id example_trig = 1"
    by (simp_all add: example_trig_state_def mem_state_def example_trig_def)
  then have n: "pt_numbers_ok (st_store example_trig_state)" "pt_inv example_trig_state"
    by (simp_all add: pt_numbers_ok_def pt_inv_def)
  have "pt_InstanceNumber (pt_from_rule example_trig zero_pt) = 1" using ex(3) by (simp add: pt_from_rule_def)
  then show ?thesis
    using port_trigger_sync_adds_store [of mem_libs "\<lambda>s. s" "\<lambda>c. c" example_trig_state s st 1] n r ex(2)
    by (simp add: mem_utopia_ok mem_utopia_total pt_rules_def)
qed

section \<open>Commit\<close>

lemma link_put_pt:
  "link_at (NatPTriggerList st) (lnk_addr l') \<noteq> None \<Longrightarrow> link_at (NatPTriggerList (put_pt st l')) (lnk_addr l') = Some l'"
  by (simp add: put_pt_def link_at_put_link)

lemma AddPortTrigger_store:
  assumes ok: "utopia_ok (lib_ut L) vs vc" and r: "CosaDmlNatAddPortTrigger L st e = (s, st')"
  shows "u_trigger (vs (st_store st')) =
    (if ansc_ok s then u_trigger (vs (st_store st)) @ [trig_of (lib_ut L) e] else u_trigger (vs (st_store st)))"
proof -
  have "s = ANSC_FAILURE \<and> st' = st \<or>
    (\<exists>c c'. ut_Init (lib_ut L) (st_store st) = Some c \<and>
       ut_AddPortTrigger (lib_ut L) c (trig_of (lib_ut L) e) = (True, c') \<and> s = ANSC_SUCCESS \<and> st' = commit L st c')"
    using r unfolding CosaDmlNatAddPortTrigger_def by (simp split: if_split_asm option.split_asm prod.split_asm)
  then show ?thesis
  proof (elim disjE exE conjE)
    fix c c' assume c: "ut_Init (lib_ut L) (st_store st) = Some c"
      "ut_AddPortTrigger (lib_ut L) c (trig_of (lib_ut L) e) = (True, c')" "s = ANSC_SUCCESS" "st' = commit L st c'"
    then show ?thesis using utopia_trigger_upd(2) [OF ok c(2)] utopia_Init [OF ok c(1)] ok by simp
  qed simp
qed

lemma RegSet_pt_fields [simp]:
  "NatPTriggerList (snd (CosaNatRegSetNatInfo L st)) = NatPTriggerList st"
  "st_store (snd (CosaNatRegSetNatInfo L st)) = st_store st"
  using RegSet_touches [of L st] by auto

text \<open>A reset entry.\<close>

definition pt_is_reset :: "COSA_DML_NAT_PTRIGGER \<Rightarrow> bool" where
  "pt_is_reset p \<longleftrightarrow> \<not> pt_bEnabled p \<and> pt_pOriAlias p = None \<and> pt_TriggerProtocol p = 0 \<and> pt_TriggerPortStart p = 0 \<and>
     pt_TriggerPortEnd p = 0 \<and> pt_ForwardProtocol p = 0 \<and> pt_ForwardPortStart p = 0 \<and> pt_ForwardPortEnd p = 0"

lemma TriggerCommit_new:
  assumes ok: "utopia_ok (lib_ut L) vs vc"
    and l: "link_at (NatPTriggerList st) (lnk_addr l) = Some l" "lnk_bNew l"
    and r: "PortTrigger_Commit L st l = (s, st')"
  shows "if ansc_ok s
     then u_trigger (vs (st_store st')) = u_trigger (vs (st_store st)) @ [trig_of (lib_ut L) (lnk_hContext l)] \<and>
          link_at (NatPTriggerList st') (lnk_addr l) =
            Some (l\<lparr>lnk_bNew := False, lnk_hContext := (lnk_hContext l)\<lparr>pt_pOriAlias := None\<rparr>\<rparr>)
     else u_trigger (vs (st_store st')) = u_trigger (vs (st_store st)) \<and>
          link_at (NatPTriggerList st') (lnk_addr l) =
            Some (l\<lparr>lnk_hContext := COSA_DML_NAT_PTRIGGER_INIT (lnk_hContext l)\<rparr>)"
proof -
  let ?p = "lnk_hContext l" and ?l1 = "l\<lparr>lnk_bNew := False\<rparr>"
  obtain s1 st1 where a: "CosaDmlNatAddPortTrigger L st ?p = (s1, st1)" by fastforce
  note store = AddPortTrigger_store [OF ok a]
  have "NatPTriggerList st1 = NatPTriggerList st" using pt_backend_touches(1) [of L st ?p] a by auto
  then have at: "link_at (NatPTriggerList st1) (lnk_addr l) \<noteq> None" using l(1) by simp
  show ?thesis
  proof (cases "ansc_ok s1")
    case True
    let ?st2 = "snd (CosaNatRegSetNatInfo L (put_pt st1 ?l1))" and ?l2 = "?l1\<lparr>lnk_hContext := ?p\<lparr>pt_pOriAlias := None\<rparr>\<rparr>"
    have st': "s = s1" "st' = put_pt ?st2 ?l2" using r l(2) a True by (simp_all add: PortTrigger_Commit_def Let_def)
    have "link_at (NatPTriggerList ?st2) (lnk_addr ?l2) \<noteq> None"
      using link_put_pt [of st1 ?l1] at by simp
    from link_put_pt [OF this] have "link_at (NatPTriggerList st') (lnk_addr l) = Some ?l2" by (simp add: st')
    moreover have "st_store st' = st_store st1" by (simp add: st' put_pt_def)
    ultimately show ?thesis using store True st'(1) by simp
  next
    case False
    have init: "COSA_DML_NAT_PTRIGGER_INIT ?p\<lparr>pt_pOriAlias := None\<rparr> = COSA_DML_NAT_PTRIGGER_INIT ?p"
      by (simp add: COSA_DML_NAT_PTRIGGER_INIT_def)
    have "s = s1 \<and> st' = put_pt st1 (l\<lparr>lnk_hContext := COSA_DML_NAT_PTRIGGER_INIT ?p\<lparr>pt_pOriAlias := None\<rparr>\<rparr>)"
      using r l(2) a False by (simp add: PortTrigger_Commit_def Let_def)
    then have st': "s = s1" "st' = put_pt st1 (l\<lparr>lnk_hContext := COSA_DML_NAT_PTRIGGER_INIT ?p\<rparr>)"
      unfolding init by simp_all
    have "link_at (NatPTriggerList st') (lnk_addr l) = Some (l\<lparr>lnk_hContext := COSA_DML_NAT_PTRIGGER_INIT ?p\<rparr>)"
      using link_put_pt [of st1 "l\<lparr>lnk_hContext := COSA_DML_NAT_PTRIGGER_INIT ?p\<rparr>"] at by (simp add: st')
    then show ?thesis using store False st' by (simp add: put_pt_def)
  qed
qed

text \<open>A refused addition leaves the store alone and the new entry reset; the alias the user tried to
  give stays in the entry, although \<open>PortTrigger_Commit\<close> has code that should put the old one back.\<close>

theorem port_trigger_commit_refused:
  assumes "utopia_ok (lib_ut L) vs vc" "link_at (NatPTriggerList st) (lnk_addr l) = Some l" "lnk_bNew l"
    and "PortTrigger_Commit L st l = (s, st')" "s \<noteq> ANSC_SUCCESS"
  shows "u_trigger (vs (st_store st')) = u_trigger (vs (st_store st)) \<and>
    (\<exists>p. link_at (NatPTriggerList st') (lnk_addr l) = Some (l\<lparr>lnk_hContext := p\<rparr>) \<and> pt_is_reset p \<and>
       pt_Alias p = pt_Alias (lnk_hContext l))"
proof -
  have "\<not> ansc_ok s" using assms(5) by (cases s) (simp_all add: ansc_ok_def)
  then show ?thesis
    using TriggerCommit_new [OF assms(1-4)]
    by (auto simp: pt_is_reset_def COSA_DML_NAT_PTRIGGER_INIT_def intro!: exI [of _ "COSA_DML_NAT_PTRIGGER_INIT (lnk_hContext l)"])
qed

text \<open>A new trigger entry whose alias the user has changed, and a state that has it.\<close>

definition example_pt :: COSA_DML_NAT_PTRIGGER where
  "example_pt = zero_pt\<lparr>pt_InstanceNumber := 7, pt_Alias := ''games'', pt_pOriAlias := Some ''PortTrigger7'',
     pt_bEnabled := True, pt_TriggerProtocol := 1, pt_TriggerPortStart := 2000, pt_TriggerPortEnd := 2010,
     pt_ForwardProtocol := 2, pt_ForwardPortStart := 3000, pt_ForwardPortEnd := 3010,
     pt_Description := ''chess''\<rparr>"

definition example_pt_link :: pt_link where
  "example_pt_link = \<lparr>lnk_addr = 1, lnk_InstanceNumber = 7, lnk_bNew = True, lnk_bFound = False,
     lnk_hContext = example_pt\<rparr>"

definition example_pt_new :: "(ustore, rview) nat_state" where
  "example_pt_new = mem_state\<lparr>NatPTriggerList := [example_pt_link], ulPtNextInstanceNumber := 8, st_allocs := 2\<rparr>"

lemma example_pt_facts [simp]:
  "NatPTriggerList example_pt_new = [example_pt_link]" "st_store example_pt_new = mem_store"
  "lnk_bNew example_pt_link" "lnk_hContext example_pt_link = example_pt" "lnk_addr example_pt_link = 1"
  "lnk_InstanceNumber example_pt_link = 7" "pt_InstanceNumber example_pt = 7" "g_NatPTTriggerEnable example_pt_new"
  "link_at [example_pt_link] (Suc 0) = Some example_pt_link" "pt_inv example_pt_new"
  by (simp_all add: example_pt_new_def mem_state_def example_pt_link_def example_pt_def link_at_def pt_inv_def
      links_ok_def table_wf_def)

lemma port_trigger_commit_refused_witness:
  "\<exists>st' p. PortTrigger_Commit mem_libs (example_pt_new\<lparr>g_NatPTTriggerEnable := False\<rparr>) example_pt_link = (ANSC_FAILURE, st') \<and>
     link_at (NatPTriggerList st') 1 = Some (example_pt_link\<lparr>lnk_hContext := p\<rparr>) \<and> pt_Alias p = ''games''"
proof -
  let ?st = "example_pt_new\<lparr>g_NatPTTriggerEnable := False\<rparr>"
  obtain s st' where r: "PortTrigger_Commit mem_libs ?st example_pt_link = (s, st')" by fastforce
  then have "s = ANSC_FAILURE"
    by (simp add: PortTrigger_Commit_def CosaDmlNatAddPortTrigger_def Let_def)
  with port_trigger_commit_refused [of mem_libs "\<lambda>s. s" "\<lambda>c. c" ?st example_pt_link s st'] r show ?thesis
    by (auto simp: mem_utopia_ok example_pt_def)
qed

text \<open>A new entry that is committed and then refreshed shows as a committed entry with the number, switch,
  ports and protocol it was given; the forward protocol is the trigger protocol, whatever the entry had,
  a protocol other than 1 or 2 shows as 3, and the description, cut to the sizes of the store and of the
  entry, has replaced the alias. Every other entry shows as the store has it, or as before.\<close>

theorem port_trigger_commit_refresh:
  assumes "utopia_ok (lib_ut L) vs vc" "utopia_total (lib_ut L)" "\<forall>n. lib_alloc L n"
    and "pt_numbers_ok (vs (st_store st))" "pt_inv st"
    and "link_at (NatPTriggerList st) (lnk_addr l) = Some l" "lnk_bNew l" "p = lnk_hContext l"
    and "pt_InstanceNumber p \<notin> tr_rule_id ` set (u_trigger (vs (st_store st)))"
    and "PortTrigger_Commit L st l = (ANSC_SUCCESS, st1)" "CosaNatSyncPortTrigger L st1 = (s, st2)"
  shows "s = ANSC_SUCCESS \<and> pt_shown st2 (pt_InstanceNumber p) = Some (False, zero_pt\<lparr>
      pt_InstanceNumber := pt_InstanceNumber p, pt_bEnabled := pt_bEnabled p,
      pt_TriggerProtocol := (if pt_TriggerProtocol p \<in> {1, 2} then pt_TriggerProtocol p else 3),
      pt_TriggerPortStart := pt_TriggerPortStart p, pt_TriggerPortEnd := pt_TriggerPortEnd p,
      pt_ForwardProtocol := (if pt_TriggerProtocol p \<in> {1, 2} then pt_TriggerProtocol p else 3),
      pt_ForwardPortStart := pt_ForwardPortStart p, pt_ForwardPortEnd := pt_ForwardPortEnd p,
      pt_Alias := strncpy COSA_DML_ALIAS_LENGTH (strncpy (ut_NAME_SZ (lib_ut L)) (pt_Description p)),
      pt_Description := strncpy PT_DESCRIPTION_SIZE (strncpy (ut_NAME_SZ (lib_ut L)) (pt_Description p))\<rparr>) \<and>
    (\<forall>m. m \<noteq> pt_InstanceNumber p \<longrightarrow> pt_shown st2 m =
       (case find (\<lambda>e. pt_InstanceNumber e = m) (pt_rules (vs (st_store st))) of
          Some e \<Rightarrow> Some (False, e) | None \<Rightarrow> pt_shown st1 m))"
proof -
  let ?v = "vs (st_store st)" and ?t = "trig_of (lib_ut L) p"
  have trig: "u_trigger (vs (st_store st1)) = u_trigger ?v @ [?t]"
    using TriggerCommit_new [OF assms(1,6,7,10)] by (simp add: assms(8))
  have l: "l \<in> set (NatPTriggerList st)" using link_at_Some [OF assms(6)] by blast
  then have "pt_InstanceNumber p \<noteq> 0"
    using assms(5,8) by (auto simp: pt_inv_def links_ok_def table_wf_def)
  then have num: "pt_numbers_ok (vs (st_store st1))" using assms(4,9) trig by (auto simp: pt_numbers_ok_def)
  have "pt_inv st1" using pt_inv_Commit [OF assms(1,5,6)] assms(10) by simp
  note sync = SyncPortTrigger_ok(2) [OF assms(1) num this assms(11,2,3)]
  have rules: "pt_rules (vs (st_store st1)) = pt_rules ?v @ [pt_from_rule ?t zero_pt]" by (simp add: pt_rules_def trig)
  have "find (\<lambda>e. pt_InstanceNumber e = pt_InstanceNumber p) (pt_rules ?v) = None"
    using assms(9) by (simp add: pt_rules_def pt_from_rule_def find_None_key image_image)
  moreover have "find (\<lambda>e. pt_InstanceNumber e = m) (pt_rules ?v @ [pt_from_rule ?t zero_pt]) =
      find (\<lambda>e. pt_InstanceNumber e = m) (pt_rules ?v)" if "m \<noteq> pt_InstanceNumber p" for m
    using that by (simp add: find_snoc pt_from_rule_def split: option.split)
  ultimately show ?thesis
    using sync by (simp add: trig rules find_snoc) (simp add: pt_from_rule_def trig_of_def protocol_roundtrip_sb)
qed

lemma port_trigger_commit_refresh_witness:
  "\<exists>st1 s st2 q. PortTrigger_Commit mem_libs example_pt_new example_pt_link = (ANSC_SUCCESS, st1) \<and>
     CosaNatSyncPortTrigger mem_libs st1 = (s, st2) \<and> pt_shown st2 7 = Some (False, q) \<and> pt_ForwardProtocol q = 1 \<and>
     pt_Alias q = ''chess''"
proof -
  obtain s1 st1 where c: "PortTrigger_Commit mem_libs example_pt_new example_pt_link = (s1, st1)" by fastforce
  have "s1 = ANSC_SUCCESS"
    using c by (simp add: PortTrigger_Commit_def CosaDmlNatAddPortTrigger_def Let_def mem_utopia_def)
  with c have c: "PortTrigger_Commit mem_libs example_pt_new example_pt_link = (ANSC_SUCCESS, st1)" by simp
  obtain s st2 where r: "CosaNatSyncPortTrigger mem_libs st1 = (s, st2)" by fastforce
  have n: "pt_numbers_ok mem_store" "u_trigger mem_store = []" "pt_inv example_pt_new"
    by (simp_all add: pt_numbers_ok_def mem_store_def)
  have "ut_NAME_SZ mem_utopia = 64" by (simp add: mem_utopia_def)
  then show ?thesis
    using port_trigger_commit_refresh [of mem_libs "\<lambda>s. s" "\<lambda>c. c" example_pt_new example_pt_link, OF _ _ _ _ _ _ _ refl _ c r]
      c r n by (simp add: mem_utopia_ok mem_utopia_total) (simp add: example_pt_def size_defs strncpy_def)
qed

section \<open>Validation and roll back\<close>

lemma trigger_alias_taken_iff:
  "trigger_alias_taken ls l \<longleftrightarrow>
     (\<exists>x \<in> set ls. lnk_addr x \<noteq> lnk_addr l \<and> pt_Alias (lnk_hContext x) = pt_Alias (lnk_hContext l))"
  by (induction ls) auto

text \<open>An entry that \<open>PortTrigger_Validate\<close> accepts is left alone; its two port ranges are ordered and do
  not contain 0, its trigger protocol is from 1 to 3, its description does not start with a space, and
  after a change of the alias no other entry has that alias.\<close>

theorem port_trigger_validate_sound:
  assumes "PortTrigger_Validate L st l ret len = (True, st', ret')" "p = lnk_hContext l"
  shows "st' = st \<and> pt_TriggerProtocol p \<in> {1..3} \<and>
    0 < pt_TriggerPortStart p \<and> pt_TriggerPortStart p \<le> pt_TriggerPortEnd p \<and>
    0 < pt_ForwardPortStart p \<and> pt_ForwardPortStart p \<le> pt_ForwardPortEnd p \<and>
    pt_Description p \<noteq> [] \<and> hd (pt_Description p) \<noteq> CHR '' '' \<and>
    (pt_pOriAlias p \<noteq> None \<longrightarrow> (\<forall>x \<in> set (NatPTriggerList st). lnk_addr x \<noteq> lnk_addr l \<longrightarrow>
        pt_Alias (lnk_hContext x) \<noteq> pt_Alias p))"
proof -
  have v: "Check_PT_parameter p" "CosaDmlChkDesp (pt_Description p)" "st' = st"
    "\<not> (pt_pOriAlias p \<noteq> None \<and> trigger_alias_taken (NatPTriggerList st) l)"
    using assms by (auto simp: PortTrigger_Validate_def Let_def split: if_split_asm prod.split_asm)
  have "0 < pt_TriggerProtocol p \<Longrightarrow> 1 \<le> pt_TriggerProtocol p" using inc_le [of 0 "pt_TriggerProtocol p"] by simp
  then show ?thesis
    using v by (auto simp: Check_PT_parameter_def CosaDmlChkDesp_def trigger_alias_taken_iff assms(2) not_less word_neq_0_conv
        split: if_split_asm list.split_asm)
qed

lemma port_trigger_validate_sound_witness:
  "fst (PortTrigger_Validate mem_libs example_pt_new example_pt_link [] 0) \<and>
   pt_ForwardPortStart example_pt \<le> pt_ForwardPortEnd example_pt"
proof -
  have "PortTrigger_Validate mem_libs example_pt_new example_pt_link [] 0 = (True, example_pt_new, [])"
    by (simp add: PortTrigger_Validate_def Let_def)
      (simp add: example_pt_def Check_PT_parameter_def CosaDmlNatChkPortRange_def CosaDmlNatChkTriggerPortRange_def
        CosaDmlChkDesp_def mem_utopia_def)
  from port_trigger_validate_sound [OF this refl] this show ?thesis by simp
qed

text \<open>Setting the alias of a committed entry and rolling back gives the entry its old alias and nothing
  else changes.\<close>

theorem port_trigger_rollback_alias:
  assumes "noclobber_ok (lib_noclobber L)" "\<not> lnk_bNew l" "link_at (NatPTriggerList st) (lnk_addr l) = Some l"
    and "distinct (map lnk_addr (NatPTriggerList st))"
    and "length (pt_Alias (lnk_hContext l)) < COSA_DML_ALIAS_LENGTH" "pt_pOriAlias (lnk_hContext l) = None"
    and "PortTrigger_SetParamStringValue L st l ''Alias'' s = (ok, st1)"
    and "link_at (NatPTriggerList st1) (lnk_addr l) = Some l1" "PortTrigger_Rollback L st1 l1 = (r, st2)"
  shows "r = ANSC_SUCCESS \<and> st2 = st"
proof (cases "bridge_blocked L")
  case True
  have p: "put_pt st l = st"
    using link_at_in [OF assms(4)] assms(3) by (auto simp: put_pt_def put_link_def intro!: nat_state.equality map_idI) (metis option.inject)
  from True have "st1 = st" using assms(7) by (simp add: PortTrigger_SetParamStringValue_def Let_def)
  then have "l1 = l" using assms(3,8) by simp
  then have "r = ANSC_SUCCESS \<and> st2 = put_pt st (l\<lparr>lnk_hContext := lnk_hContext l\<lparr>pt_pOriAlias := None\<rparr>\<rparr>)"
    using assms(2,6,9) \<open>st1 = st\<close> by (simp add: PortTrigger_Rollback_def Let_def)
  moreover have keep: "l\<lparr>lnk_hContext := lnk_hContext l\<lparr>pt_pOriAlias := None\<rparr>\<rparr> = l" using assms(6) by simp
  ultimately show ?thesis unfolding keep p by blast
next
  case False
  let ?p = "lnk_hContext l"
  obtain a where a: "st1 = put_pt st (l\<lparr>lnk_hContext := ?p\<lparr>pt_pOriAlias := Some (pt_Alias ?p), pt_Alias := a\<rparr>\<rparr>)"
    using assms(7) False by (auto simp: PortTrigger_SetParamStringValue_def Let_def split: prod.split_asm)
  have l1: "l1 = l\<lparr>lnk_hContext := ?p\<lparr>pt_pOriAlias := Some (pt_Alias ?p), pt_Alias := a\<rparr>\<rparr>"
    using assms(8) link_put_pt [of st "l\<lparr>lnk_hContext := ?p\<lparr>pt_pOriAlias := Some (pt_Alias ?p), pt_Alias := a\<rparr>\<rparr>"] assms(3)
    by (simp add: a)
  have "r = ANSC_SUCCESS \<and> st2 = put_pt st1 (l\<lparr>lnk_hContext := ?p\<lparr>pt_Alias := pt_Alias ?p, pt_pOriAlias := None\<rparr>\<rparr>)"
    using assms(1,2,5,9) by (simp add: PortTrigger_Rollback_def l1 Let_def noclobber_ok_def)
  moreover have "?p\<lparr>pt_Alias := pt_Alias ?p, pt_pOriAlias := None\<rparr> = ?p" using assms(6) by simp
  ultimately have st2: "r = ANSC_SUCCESS" "st2 = put_pt st1 l" by simp_all
  have "put_link (NatPTriggerList st1) l = NatPTriggerList st"
    using assms(3,4) link_at_in [OF assms(4)] by (auto simp: a put_pt_def put_link_def intro!: map_idI) (metis option.inject)
  then have "put_pt st1 l = st" by (intro nat_state.equality) (simp_all add: put_pt_def a)
  with st2 show ?thesis by simp
qed

lemma port_trigger_rollback_alias_witness:
  "\<exists>st1 l1. PortTrigger_SetParamStringValue mem_libs
       (example_pt_new\<lparr>NatPTriggerList := [example_pt_link\<lparr>lnk_bNew := False, lnk_hContext := example_pt\<lparr>pt_pOriAlias := None\<rparr>\<rparr>]\<rparr>)
       (example_pt_link\<lparr>lnk_bNew := False, lnk_hContext := example_pt\<lparr>pt_pOriAlias := None\<rparr>\<rparr>) ''Alias'' ''other'' = (True, st1) \<and>
     link_at (NatPTriggerList st1) 1 = Some l1 \<and> pt_Alias (lnk_hContext l1) = ''other'' \<and>
     snd (PortTrigger_Rollback mem_libs st1 l1) =
       example_pt_new\<lparr>NatPTriggerList := [example_pt_link\<lparr>lnk_bNew := False, lnk_hContext := example_pt\<lparr>pt_pOriAlias := None\<rparr>\<rparr>]\<rparr>"
proof -
  define p where "p = example_pt\<lparr>pt_pOriAlias := None\<rparr>"
  define l where "l = example_pt_link\<lparr>lnk_bNew := False, lnk_hContext := p\<rparr>"
  define st where "st = example_pt_new\<lparr>NatPTriggerList := [l]\<rparr>"
  define l1 where "l1 = l\<lparr>lnk_hContext := p\<lparr>pt_pOriAlias := Some (pt_Alias p), pt_Alias := ''other''\<rparr>\<rparr>"
  define st1 where "st1 = put_pt st l1"
  have s: "PortTrigger_SetParamStringValue mem_libs st l ''Alias'' ''other'' = (True, st1)"
    by (simp add: PortTrigger_SetParamStringValue_def Let_def mem_noclobber_def size_defs st1_def l1_def l_def)
  have a: "lnk_addr l = 1" "lnk_addr l1 = 1" "link_at (NatPTriggerList st) (lnk_addr l) = Some l"
    by (simp_all add: l_def l1_def st_def link_at_def)
  then have l1: "link_at (NatPTriggerList st1) (lnk_addr l) = Some l1" using link_put_pt [of st l1] by (simp add: st1_def)
  obtain r st2 where r: "PortTrigger_Rollback mem_libs st1 l1 = (r, st2)" by fastforce
  have "st2 = st"
    using port_trigger_rollback_alias [OF _ _ a(3) _ _ _ s l1 r]
    by (simp add: mem_noclobber_ok l_def st_def p_def example_pt_def size_defs)
  moreover have "pt_Alias (lnk_hContext l1) = ''other''" by (simp add: l1_def)
  ultimately show ?thesis using s l1 r a by (auto simp: st_def l_def p_def)
qed

end
