(* ===== verification/Nat_Objects.thy ===== *)
theory Nat_Objects
  imports Nat_PortMapping_Commit
begin

text \<open>
  The scalar objects of the NAT component: \<open>NAT_*\<close> (the timeouts and the three feature switches of
  \<open>Device.NAT\<close>, with the custom part) and \<open>X_CISCO_COM_DMZ_*\<close>, both of \<open>cosa_nat_dml.c\<close>, the address
  check \<open>isValidIP\<close>, and the reader of \<open>X_RDK_PortMapping\<close>. The string handler of the DMZ object is completed with its
  \<open>Data\<close> parameter in \<open>Dmz_WebConfig\<close>. \<open>NAT_Rollback\<close> is not modelled: it passes the \<open>COSA_DML_NAT\<close>
  structure to \<open>CosaDmlNatGetDmz\<close> as a \<open>COSA_DML_NAT_DMZ\<close>, which writes beyond it.
\<close>

section \<open>Device.NAT\<close>

text \<open>\<open>G\<close> is \<open>syscfg_get\<close> on the store, with the size of the buffer; the getter also returns the state,
  whose \<open>Nat\<close> structure \<open>CosaDmlNatGet\<close> has refreshed.\<close>

definition NAT_GetParamBoolValue_Custom :: "('s \<Rightarrow> string \<Rightarrow> nat \<Rightarrow> string option) \<Rightarrow> ('s, 'r) nat_state \<Rightarrow>
    string \<Rightarrow> bool option \<times> ('s, 'r) nat_state" where
  "NAT_GetParamBoolValue_Custom G st ParamName =
     (let st1 = st\<lparr>Nat := CosaDmlNatGet st (Nat st)\<rparr>; pNat = Nat st1 in
      if ParamName = ''X_Comcast_com_EnablePortMapping'' then
        (case G (st_store st1) (take 127 (COSA_NAT_SYSCFG_NAMESPACE @ ''::'' @ PORT_FORWARD_ENABLED_KEY)) 8 of
           Some buf \<Rightarrow> if buf \<noteq> [] then (Some (buf = ''1''), st1) else (None, st1)
         | None \<Rightarrow> (None, st1))
      else if ParamName = ''X_Comcast_com_EnableHSPortMapping'' then (Some (nat_EnableHSPortMapping pNat), st1)
      else if ParamName = ''X_Comcast_com_EnableNATMapping'' then (Some (nat_EnableNATMapping pNat), st1)
      else (None, st1))"

definition NAT_GetParamBoolValue :: "('s \<Rightarrow> string \<Rightarrow> nat \<Rightarrow> string option) \<Rightarrow> ('s, 'r) nat_state \<Rightarrow>
    string \<Rightarrow> bool option \<times> ('s, 'r) nat_state" where
  "NAT_GetParamBoolValue G st ParamName = NAT_GetParamBoolValue_Custom G st ParamName"

definition NAT_GetParamIntValue :: "string \<Rightarrow> int option" where
  "NAT_GetParamIntValue ParamName = None"

definition NAT_GetParamUlongValue :: "('s, 'r) nat_state \<Rightarrow> string \<Rightarrow> ULONG option \<times> ('s, 'r) nat_state" where
  "NAT_GetParamUlongValue st ParamName =
     (let st1 = st\<lparr>Nat := CosaDmlNatGet st (Nat st)\<rparr>; pNat = Nat st1 in
      (if ParamName = ''X_CISCO_COM_TCPTimeout'' then Some (nat_TCPTimeout pNat)
       else if ParamName = ''X_CISCO_COM_UDPTimeout'' then Some (nat_UDPTimeout pNat)
       else if ParamName = ''X_CISCO_COM_ICMPTimeout'' then Some (nat_ICMPTimeout pNat)
       else None, st1))"

definition NAT_GetParamStringValue :: "string \<Rightarrow> string \<Rightarrow> ULONG \<Rightarrow> ULONG \<times> string \<times> ULONG" where
  "NAT_GetParamStringValue ParamName pValue pUlSize = (- 1, pValue, pUlSize)"

definition NAT_SetParamBoolValue_Custom :: "('s, 'c, 'r) libs \<Rightarrow> ('s, 'r) nat_state \<Rightarrow> string \<Rightarrow> bool \<Rightarrow>
    bool \<times> ('s, 'r) nat_state" where
  "NAT_SetParamBoolValue_Custom L st ParamName bValue =
     (if bridge_blocked L then (False, st)
      else if ParamName = ''X_Comcast_com_EnablePortMapping''
      then (True, st\<lparr>Nat := (Nat st)\<lparr>nat_EnablePortMapping := bValue\<rparr>\<rparr>)
      else if ParamName = ''X_Comcast_com_EnableHSPortMapping''
      then (True, st\<lparr>Nat := (Nat st)\<lparr>nat_EnableHSPortMapping := bValue\<rparr>\<rparr>)
      else if ParamName = ''X_Comcast_com_EnableNATMapping''
      then (True, st\<lparr>Nat := (Nat st)\<lparr>nat_EnableNATMapping := bValue\<rparr>\<rparr>)
      else (False, st))"

definition NAT_SetParamBoolValue :: "('s, 'c, 'r) libs \<Rightarrow> ('s, 'r) nat_state \<Rightarrow> string \<Rightarrow> bool \<Rightarrow>
    bool \<times> ('s, 'r) nat_state" where
  "NAT_SetParamBoolValue L st ParamName bValue = NAT_SetParamBoolValue_Custom L st ParamName bValue"

definition NAT_SetParamUlongValue :: "('s, 'c, 'r) libs \<Rightarrow> ('s, 'r) nat_state \<Rightarrow> string \<Rightarrow> ULONG \<Rightarrow>
    bool \<times> ('s, 'r) nat_state" where
  "NAT_SetParamUlongValue L st ParamName uValue =
     (if bridge_blocked L then (False, st)
      else if ParamName = ''X_CISCO_COM_TCPTimeout''
      then (True, st\<lparr>Nat := (Nat st)\<lparr>nat_TCPTimeout := uValue\<rparr>\<rparr>)
      else if ParamName = ''X_CISCO_COM_UDPTimeout''
      then (True, st\<lparr>Nat := (Nat st)\<lparr>nat_UDPTimeout := uValue\<rparr>\<rparr>)
      else if ParamName = ''X_CISCO_COM_ICMPTimeout''
      then (True, st\<lparr>Nat := (Nat st)\<lparr>nat_ICMPTimeout := uValue\<rparr>\<rparr>)
      else (False, st))"

definition NAT_Validate :: "('s, 'r) nat_state \<Rightarrow> bool" where
  "NAT_Validate st = True"

definition NAT_Commit :: "('s, 'c, 'r) libs \<Rightarrow> ('s, 'r) nat_state \<Rightarrow> ansc_status \<times> ('s, 'r) nat_state" where
  "NAT_Commit L st = CosaDmlNatSet L st (Nat st)"

section \<open>Device.NAT.X_CISCO_COM_DMZ\<close>

text \<open>\<open>isValidIP\<close> of the parental control board layer; \<open>pton6\<close> is \<open>inet_pton (AF_INET6)\<close> of the C library.
  The last component is the quoted address it prints.\<close>

definition isValidIP :: "('s, 'c, 'r) libs \<Rightarrow> (string \<Rightarrow> bool) \<Rightarrow> int \<Rightarrow> string \<Rightarrow> string \<Rightarrow> nat \<Rightarrow> ansc_status \<times> string" where
  "isValidIP L pton6 ty ipAddress wrapped sz =
     (if \<not> (if ty = 4 then lib_inet_pton4 L ipAddress \<noteq> None else pton6 ipAddress) then (ANSC_FAILURE, wrapped)
      else if CHR 0x27 \<in> set ipAddress then (ANSC_FAILURE, wrapped)
      else (case sprintf_s sz (CHR 0x27 # ipAddress @ [CHR 0x27]) of
          None \<Rightarrow> (ANSC_FAILURE, [])
        | Some w \<Rightarrow> (ANSC_SUCCESS, w)))"

definition X_CISCO_COM_DMZ_GetParamBoolValue :: "('s, 'r) nat_state \<Rightarrow> string \<Rightarrow> bool option" where
  "X_CISCO_COM_DMZ_GetParamBoolValue st ParamName =
     (if ParamName = ''Enable'' then Some (dmz_bEnabled (Dmz st)) else None)"

definition X_CISCO_COM_DMZ_GetParamStringValue :: "('s, 'r) nat_state \<Rightarrow> string \<Rightarrow> string \<Rightarrow> ULONG \<Rightarrow>
    ULONG \<times> string \<times> ULONG" where
  "X_CISCO_COM_DMZ_GetParamStringValue st ParamName pValue pUlSize =
     (let pDmz = Dmz st in
      if ParamName = ''Data'' then (0, pValue, pUlSize)
      else if ParamName = ''RemoteIPStart'' then give_string (dmz_RemoteIPStart pDmz) pValue pUlSize
      else if ParamName = ''RemoteIPEnd'' then give_string (dmz_RemoteIPEnd pDmz) pValue pUlSize
      else if ParamName = ''InternalIP'' then give_string (dmz_InternalIP pDmz) pValue pUlSize
      else if ParamName = ''InternalMAC'' then give_string (dmz_InternalMAC pDmz) pValue pUlSize
      else if ParamName = ''IPv6Host'' then give_string (dmz_IPv6Host pDmz) pValue pUlSize
      else (- 1, pValue, pUlSize))"

definition X_CISCO_COM_DMZ_SetParamBoolValue :: "('s, 'c, 'r) libs \<Rightarrow> ('s, 'r) nat_state \<Rightarrow> string \<Rightarrow> bool \<Rightarrow>
    bool \<times> ('s, 'r) nat_state" where
  "X_CISCO_COM_DMZ_SetParamBoolValue L st ParamName bValue =
     (if ParamName = ''Enable'' then
        let d1 = (Dmz st)\<lparr>dmz_bEnabled := bValue\<rparr> in
        if \<not> bValue then
          (case lib_noclobber L COSA_DML_IP_ADDR_LENGTH (dmz_InternalIP d1) ''0.0.0.0'' of (rc, s) \<Rightarrow>
             if \<not> rc then (False, st\<lparr>Dmz := d1\<lparr>dmz_InternalIP := s\<rparr>\<rparr>)
             else (True, st\<lparr>Dmz := d1\<lparr>dmz_InternalIP := s, dmz_IPv6Host := []\<rparr>\<rparr>))
        else (True, st\<lparr>Dmz := d1\<rparr>)
      else (False, st))"

text \<open>The string parameters other than \<open>Data\<close>.\<close>

definition dmz_set_string :: "('s, 'c, 'r) libs \<Rightarrow> (string \<Rightarrow> bool) \<Rightarrow> ('s, 'r) nat_state \<Rightarrow>
    string \<Rightarrow> string \<Rightarrow> bool \<times> ('s, 'r) nat_state" where
  "dmz_set_string L pton6 st ParamName pString =
     (let d = Dmz st; cpy = lib_noclobber L; put = (\<lambda>d'. st\<lparr>Dmz := d'\<rparr>) in
      if ParamName = ''RemoteIPStart'' then
        (case cpy COSA_DML_IP_ADDR_LENGTH (dmz_RemoteIPStart d) pString of (rc, s) \<Rightarrow> (rc, put (d\<lparr>dmz_RemoteIPStart := s\<rparr>)))
      else if ParamName = ''RemoteIPEnd'' then
        (case cpy COSA_DML_IP_ADDR_LENGTH (dmz_RemoteIPEnd d) pString of (rc, s) \<Rightarrow> (rc, put (d\<lparr>dmz_RemoteIPEnd := s\<rparr>)))
      else if ParamName = ''InternalIP'' then
        (if pString = ''0.0.0.0'' then
           (case cpy COSA_DML_IP_ADDR_LENGTH (dmz_InternalIP d) pString of (rc, s) \<Rightarrow> (rc, put (d\<lparr>dmz_InternalIP := s\<rparr>)))
         else if pString = [] then
           (case cpy COSA_DML_IP_ADDR_LENGTH (dmz_InternalIP d) ''0.0.0.0'' of (rc, s) \<Rightarrow> (rc, put (d\<lparr>dmz_InternalIP := s\<rparr>)))
         else if fst (isValidIP L pton6 4 pString [] 256) \<noteq> ANSC_SUCCESS then (False, st)
         else if \<not> CosaDmlNatChkPortMappingClient L st (lib_inet_addr L pString) then (False, st)
         else
           (case cpy COSA_DML_IP_ADDR_LENGTH (dmz_InternalIP d) pString of (rc, s) \<Rightarrow>
              if \<not> rc then (False, put (d\<lparr>dmz_InternalIP := s\<rparr>))
              else (True, put (d\<lparr>dmz_InternalIP := s, dmz_bEnabled := True\<rparr>))))
      else if ParamName = ''InternalMAC'' then
        (case cpy COSA_DML_MAC_ADDR_LENGTH (dmz_InternalMAC d) pString of (rc, s) \<Rightarrow> (rc, put (d\<lparr>dmz_InternalMAC := s\<rparr>)))
      else if ParamName = ''IPv6Host'' then
        (case cpy DMZ_IPV6HOST_SIZE (dmz_IPv6Host d) pString of (rc, s) \<Rightarrow> (rc, put (d\<lparr>dmz_IPv6Host := s\<rparr>)))
      else (False, st))"

definition X_CISCO_COM_DMZ_Validate :: "('s, 'c, 'r) libs \<Rightarrow> ('s, 'r) nat_state \<Rightarrow> bool \<times> ('s, 'r) nat_state" where
  "X_CISCO_COM_DMZ_Validate L st =
     (let dmzHost = lib_inet_addr L (dmz_InternalIP (Dmz st)) in
      if IPv4Addr_IsLoopback dmzHost \<or> IPv4Addr_IsMulticast dmzHost \<or> dmzHost = 0xffffffff
      then (case CosaDmlNatGetDmz L st (Dmz st) of (_, d, st') \<Rightarrow> (False, st'\<lparr>Dmz := d\<rparr>))
      else (True, st))"

definition X_CISCO_COM_DMZ_Commit :: "('s, 'c, 'r) libs \<Rightarrow> ('s, 'r) nat_state \<Rightarrow> ansc_status \<times> ('s, 'r) nat_state" where
  "X_CISCO_COM_DMZ_Commit L st = CosaDmlNatSetDmz L st (Dmz st)"

definition X_CISCO_COM_DMZ_Rollback :: "('s, 'c, 'r) libs \<Rightarrow> ('s, 'r) nat_state \<Rightarrow> ansc_status \<times> ('s, 'r) nat_state" where
  "X_CISCO_COM_DMZ_Rollback L st =
     (case CosaDmlNatGetDmz L st (Dmz st) of (rs, d, st') \<Rightarrow> (rs, st'\<lparr>Dmz := d\<rparr>))"

section \<open>The Data parameter of the port mapping object\<close>

definition X_RDK_PortMapping_GetParamStringValue :: "string \<Rightarrow> string \<Rightarrow> ULONG \<Rightarrow> ULONG \<times> string \<times> ULONG" where
  "X_RDK_PortMapping_GetParamStringValue ParamName pValue pUlSize =
     (if ParamName = ''Data'' then 0 else - 1, pValue, pUlSize)"

section \<open>Properties\<close>

text \<open>A feature switch that is set and committed is the value the board layer keeps from then on, every
  rule it governs follows it, and the next read shows it.\<close>

theorem nat_switch_set_commit_get:
  assumes "utopia_ok (lib_ut L) vs vc" "utopia_total (lib_ut L)" "\<not> bridge_blocked L" "Nat st = CosaDmlNatGet st (Nat st)"
    and "NAT_SetParamBoolValue L st ''X_Comcast_com_EnableHSPortMapping'' b = (ok, st1)"
    and "NAT_Commit L st1 = (s, st2)"
    and "NAT_GetParamBoolValue G st2 ''X_Comcast_com_EnableHSPortMapping'' = (r, st3)"
  shows "ok \<and> s = ANSC_SUCCESS \<and> r = Some b \<and> g_NatHSPFEnable st2 = b \<and>
    g_NatPFEnable st2 = g_NatPFEnable st \<and> g_NatOne2OneEnable st2 = g_NatOne2OneEnable st \<and>
    u_single (vs (st_store st2)) = map (\<lambda>q. if b = g_NatHSPFEnable st \<or> ps_internal_port q = 0 then q
        else q\<lparr>ps_enabled := b \<and> ps_prevRuleEnabledState q\<rparr>) (u_single (vs (st_store st)))"
proof -
  let ?n = "(Nat st)\<lparr>nat_EnableHSPortMapping := b\<rparr>"
  have st1: "ok" "st1 = st\<lparr>Nat := ?n\<rparr>"
    using assms(3,5) by (auto simp: NAT_SetParamBoolValue_def NAT_SetParamBoolValue_Custom_def)
  have n: "nat_EnablePortMapping ?n = g_NatPFEnable st" "nat_EnableNATMapping ?n = g_NatOne2OneEnable st"
    "nat_EnableHSPortMapping ?n = b"
    using arg_cong [OF assms(4), of nat_EnablePortMapping] arg_cong [OF assms(4), of nat_EnableNATMapping]
    by (simp_all add: CosaDmlNatGet_def)
  have c: "CosaDmlNatSet L st1 ?n = (s, st2)" using assms(6) by (simp add: NAT_Commit_def st1)
  note eff = CosaDmlNatSet_effect [OF assms(1,2) c]
  have "u_single (vs (st_store st2)) =
      map (UPDATE_PF_SINGLE_RULE_ENABLE (- 1) (changed b (g_NatHSPFEnable st))) (u_single (vs (st_store st)))"
    using eff(2) n by (simp add: st1 changed_def)
  also have "\<dots> = map (\<lambda>q. if b = g_NatHSPFEnable st \<or> ps_internal_port q = 0 then q
        else q\<lparr>ps_enabled := b \<and> ps_prevRuleEnabledState q\<rparr>) (u_single (vs (st_store st)))"
    by (auto simp: UPDATE_PF_SINGLE_RULE_ENABLE_def switched_def changed_def)
  finally show ?thesis
    using eff(1) n assms(7) st1 by (auto simp: NAT_GetParamBoolValue_def NAT_GetParamBoolValue_Custom_def CosaDmlNatGet_def Let_def)
qed

lemma nat_switch_set_commit_get_witness:
  "g_NatHSPFEnable (snd (NAT_Commit mem_libs
     (snd (NAT_SetParamBoolValue mem_libs example_state ''X_Comcast_com_EnableHSPortMapping'' False)))) = False"
proof -
  obtain ok st1 where a: "NAT_SetParamBoolValue mem_libs example_state ''X_Comcast_com_EnableHSPortMapping'' False = (ok, st1)"
    by fastforce
  obtain s st2 where c: "NAT_Commit mem_libs st1 = (s, st2)" by fastforce
  obtain r st3 where g: "NAT_GetParamBoolValue (\<lambda>s k n. None) st2 ''X_Comcast_com_EnableHSPortMapping'' = (r, st3)" by fastforce
  have "Nat example_state = CosaDmlNatGet example_state (Nat example_state)"
    by (simp add: CosaDmlNatGet_def example_state_def mem_state_def)
  then show ?thesis
    using nat_switch_set_commit_get [of mem_libs "\<lambda>s. s" "\<lambda>c. c", OF _ _ _ _ a c g] a c
    by (simp add: mem_utopia_ok mem_utopia_total)
qed

text \<open>A read between setting a switch and committing it takes the change back: the getters refresh the
  object from the board layer, so the commit changes nothing and still reports success.\<close>

theorem nat_read_discards_pending:
  assumes "\<exists>c. ut_Init (lib_ut L) (st_store st) = Some c"
    and "NAT_SetParamBoolValue L st name b = (ok, st1)"
    and "NAT_GetParamUlongValue st1 name' = (r, st2)" "NAT_Commit L st2 = (s, st3)"
  shows "s = ANSC_SUCCESS \<and> st_store st3 = st_store st \<and> g_NatPFEnable st3 = g_NatPFEnable st \<and>
    g_NatHSPFEnable st3 = g_NatHSPFEnable st \<and> g_NatOne2OneEnable st3 = g_NatOne2OneEnable st"
proof -
  obtain n where st1: "st1 = st\<lparr>Nat := n\<rparr>"
    using assms(2) by (auto simp: NAT_SetParamBoolValue_def NAT_SetParamBoolValue_Custom_def split: if_split_asm
        intro: that [of "Nat st"])
  have st2: "st2 = st\<lparr>Nat := CosaDmlNatGet st n\<rparr>"
    using assms(3) by (simp add: NAT_GetParamUlongValue_def Let_def st1 CosaDmlNatGet_def)
  have "changed (nat_EnablePortMapping (Nat st2)) (g_NatPFEnable st2) = - 1"
    "changed (nat_EnableHSPortMapping (Nat st2)) (g_NatHSPFEnable st2) = - 1"
    "changed (nat_EnableNATMapping (Nat st2)) (g_NatOne2OneEnable st2) = - 1"
    by (simp_all add: st2 CosaDmlNatGet_def changed_def)
  moreover obtain c where "ut_Init (lib_ut L) (st_store st2) = Some c" using assms(1) by (auto simp: st2)
  ultimately have "s = ANSC_SUCCESS" "st3 = st2"
    using assms(4) by (simp_all add: NAT_Commit_def CosaDmlNatSet_def)
  then show ?thesis by (simp add: st2)
qed

lemma nat_read_discards_pending_witness:
  "g_NatHSPFEnable (snd (NAT_Commit mem_libs (snd (NAT_GetParamUlongValue
     (snd (NAT_SetParamBoolValue mem_libs mem_state ''X_Comcast_com_EnableHSPortMapping'' False)) ''X_CISCO_COM_TCPTimeout'')))) = True"
proof -
  obtain ok st1 where a: "NAT_SetParamBoolValue mem_libs mem_state ''X_Comcast_com_EnableHSPortMapping'' False = (ok, st1)"
    by fastforce
  obtain r st2 where g: "NAT_GetParamUlongValue st1 ''X_CISCO_COM_TCPTimeout'' = (r, st2)" by fastforce
  obtain s st3 where c: "NAT_Commit mem_libs st2 = (s, st3)" by fastforce
  have i: "\<exists>c. ut_Init (lib_ut mem_libs) (st_store mem_state) = Some c" by (simp add: mem_utopia_def)
  show ?thesis using nat_read_discards_pending [OF i a g c] a g c by (simp add: mem_state_def)
qed

text \<open>Once DMZ settings are committed, a roll back of any later edit of the object brings their switch,
  host and IPv6 host back; the fields the store does not have keep their edited values.\<close>

theorem dmz_commit_rollback:
  assumes "utopia_ok (lib_ut L) vs vc" "X_CISCO_COM_DMZ_Commit L st = (ANSC_SUCCESS, st1)"
    and "length (dmz_InternalIP (Dmz st)) < ut_DMZ_IP_SZ (lib_ut L)" "length (dmz_InternalIP (Dmz st)) < COSA_DML_IP_ADDR_LENGTH"
    and "length (dmz_IPv6Host (Dmz st)) < ut_DMZ_IPV6_SZ (lib_ut L)" "length (dmz_IPv6Host (Dmz st)) < DMZ_IPV6HOST_SIZE"
    and "X_CISCO_COM_DMZ_Rollback L (st1\<lparr>Dmz := edited\<rparr>) = (ANSC_SUCCESS, st2)"
  shows "Dmz st2 = edited\<lparr>dmz_bEnabled := dmz_bEnabled (Dmz st),
      dmz_InternalIP := (if dmz_InternalIP (Dmz st) = [] then ''0.0.0.0'' else dmz_InternalIP (Dmz st)),
      dmz_IPv6Host := dmz_IPv6Host (Dmz st)\<rparr>"
proof -
  let ?e = "st1\<lparr>Dmz := edited\<rparr>"
  obtain rs d st' where g: "CosaDmlNatGetDmz L ?e edited = (rs, d, st')" by (metis surj_pair)
  then have d: "rs = ANSC_SUCCESS" "st2 = st'\<lparr>Dmz := d\<rparr>" using assms(7) by (simp_all add: X_CISCO_COM_DMZ_Rollback_def)
  have "CosaDmlNatGetDmz L st1 edited = (rs, d, st'\<lparr>Dmz := Dmz st1\<rparr>)"
    using g by (auto simp: CosaDmlNatGetDmz_def AnscAllocateMemory_def split: option.split_asm if_split_asm)
  then have "CosaDmlNatGetDmz L st1 edited = (ANSC_SUCCESS, d, st'\<lparr>Dmz := Dmz st1\<rparr>)" using d(1) by simp
  from dmz_set_get [OF assms(1) assms(2) [unfolded X_CISCO_COM_DMZ_Commit_def] assms(3-6) this] d(2) show ?thesis by simp
qed

lemma dmz_commit_rollback_witness:
  "\<exists>st1 st2. X_CISCO_COM_DMZ_Commit mem_libs (mem_state\<lparr>Dmz := example_dmz\<rparr>) = (ANSC_SUCCESS, st1) \<and>
     X_CISCO_COM_DMZ_Rollback mem_libs (st1\<lparr>Dmz := Dmz mem_state\<rparr>) = (ANSC_SUCCESS, st2) \<and>
     dmz_InternalIP (Dmz st2) = ''192.168.0.5''"
proof -
  have s: "fst (X_CISCO_COM_DMZ_Commit mem_libs (mem_state\<lparr>Dmz := example_dmz\<rparr>)) = ANSC_SUCCESS"
    by (simp add: X_CISCO_COM_DMZ_Commit_def CosaDmlNatSetDmz_def AnscAllocateMemory_def mem_utopia_def)
  then obtain st1 where c: "X_CISCO_COM_DMZ_Commit mem_libs (mem_state\<lparr>Dmz := example_dmz\<rparr>) = (ANSC_SUCCESS, st1)"
    by (metis prod.collapse)
  have "fst (X_CISCO_COM_DMZ_Rollback mem_libs (st1\<lparr>Dmz := Dmz mem_state\<rparr>)) = ANSC_SUCCESS"
    by (simp add: X_CISCO_COM_DMZ_Rollback_def CosaDmlNatGetDmz_def AnscAllocateMemory_def mem_utopia_def)
  then obtain st2 where r: "X_CISCO_COM_DMZ_Rollback mem_libs (st1\<lparr>Dmz := Dmz mem_state\<rparr>) = (ANSC_SUCCESS, st2)"
    by (metis prod.collapse)
  have "Dmz st2 = (Dmz mem_state)\<lparr>dmz_bEnabled := True, dmz_InternalIP := ''192.168.0.5'', dmz_IPv6Host := []\<rparr>"
    using dmz_commit_rollback [where L = mem_libs and vs = "\<lambda>s. s" and vc = "\<lambda>c. c" and st = "mem_state\<lparr>Dmz := example_dmz\<rparr>",
        OF _ c _ _ _ _ r]
    by (simp add: mem_utopia_ok example_dmz_def mem_utopia_def [THEN arg_cong [where f = ut_DMZ_IP_SZ]]
        mem_utopia_def [THEN arg_cong [where f = ut_DMZ_IPV6_SZ]] size_defs)
  with c r show ?thesis by auto
qed

end
