(* ===== verification/Wc_Helpers.thy ===== *)
theory Wc_Helpers
  imports Pam_Prelude
begin

text \<open>
  The helpers of web configuration: the \<open>match\<close> macro of \<open>helpers.h\<close>, \<open>__finder\<close> and \<open>helper_convert\<close> of
  \<open>helpers.c\<close>, and the two decoders of \<open>cosa_webconfig_api.c\<close>. The msgpack and base64 libraries are the record
  \<open>codec\<close>. Reading a member of the union of a msgpack object that was not stored in it, and reading through a null
  object, is the result \<open>None\<close>.
\<close>

section \<open>Objects and keys\<close>

datatype msgpack_object =
  MP_STR string
| MP_BOOL bool
| MP_UINT nat
| MP_MAP "(msgpack_object \<times> msgpack_object) list"
| MP_ARRAY "msgpack_object list"
| MP_OTHER

datatype msgpack_object_type = MSGPACK_OBJECT_STR | MSGPACK_OBJECT_BOOLEAN | MSGPACK_OBJECT_POSITIVE_INTEGER
  | MSGPACK_OBJECT_MAP | MSGPACK_OBJECT_ARRAY | MSGPACK_OBJECT_OTHER

fun mp_type :: "msgpack_object \<Rightarrow> msgpack_object_type" where
  "mp_type (MP_STR _) = MSGPACK_OBJECT_STR"
| "mp_type (MP_BOOL _) = MSGPACK_OBJECT_BOOLEAN"
| "mp_type (MP_UINT _) = MSGPACK_OBJECT_POSITIVE_INTEGER"
| "mp_type (MP_MAP _) = MSGPACK_OBJECT_MAP"
| "mp_type (MP_ARRAY _) = MSGPACK_OBJECT_ARRAY"
| "mp_type MP_OTHER = MSGPACK_OBJECT_OTHER"

text \<open>The text of a msgpack string has a length and may hold NUL; \<open>strndup\<close> stops there.\<close>

definition NUL :: char where "NUL = CHR 0x00"

definition strndup :: "string \<Rightarrow> string" where
  "strndup s = takeWhile (\<lambda>c. c \<noteq> NUL) s"

text \<open>\<open>strncmp (key, s, size of key) == 0\<close>: a key matches every name that it is a prefix of.\<close>

definition match_key :: "string \<Rightarrow> string \<Rightarrow> bool" where
  "match_key k s \<longleftrightarrow> (if NUL \<in> set k then strndup k = s else take (length k) s = k)"

lemma strndup_id [simp]: "NUL \<notin> set s \<Longrightarrow> strndup s = s"
  by (auto simp: strndup_def takeWhile_eq_all_conv)

lemma match_key_self: "NUL \<notin> set k \<Longrightarrow> match_key k k"
  by (simp add: match_key_def)

lemma match_key_empty [simp]: "match_key [] s"
  by (simp add: match_key_def)

section \<open>Finding the parts of a message\<close>

text \<open>\<open>__finder\<close>: the first entry whose key matches. An entry whose value has another type than expected is taken, too,
  when its key starts with the name (\<open>strncmp (key, name, strlen (name))\<close>; the bytes after a key are taken not to
  continue it).\<close>

fun finder :: "string \<Rightarrow> msgpack_object_type \<Rightarrow> (msgpack_object \<times> msgpack_object) list \<Rightarrow> msgpack_object option" where
  "finder name expect_type [] = None"
| "finder name expect_type ((k, v) # kvs) =
     (case k of
        MP_STR key \<Rightarrow>
          if mp_type v = expect_type then (if match_key key name then Some v else finder name expect_type kvs)
          else (if strncmp_eq key name then Some v else finder name expect_type kvs)
      | _ \<Rightarrow> finder name expect_type kvs)"

text \<open>\<open>helper_convert\<close> on the structure \<open>zero\<close> that \<open>memset\<close> leaves, the object that \<open>msgpack_unpack_next\<close> gives, and the
  reader \<open>process\<close> of the structure, which takes the objects of its argument list and fails with \<open>Some None\<close>. The result
  \<open>Some None\<close> is a null pointer.\<close>

definition helper_convert :: "bool \<Rightarrow> bool \<Rightarrow> msgpack_object option \<Rightarrow> 'p \<Rightarrow> string \<Rightarrow> msgpack_object_type \<Rightarrow> bool \<Rightarrow>
    (msgpack_object option list \<Rightarrow> 'p option option) \<Rightarrow> 'p option option" where
  "helper_convert malloc_ok has_buf msg zero wrapper expect_type optional process =
     (if \<not> malloc_ok then Some None
      else if \<not> has_buf then Some (Some zero)
      else (case msg of
          Some (MP_MAP m) \<Rightarrow>
            let args = (if strncmp_eq wrapper ''parameters'' then [finder wrapper expect_type m]
                  else [finder wrapper expect_type m, finder ''subdoc_name'' expect_type m,
                        finder ''version'' expect_type m, finder ''transaction_id'' expect_type m])
            in (case hd args of
                  None \<Rightarrow> Some (if optional then Some zero else None)
                | Some _ \<Rightarrow> process args)
        | _ \<Rightarrow> Some None))"

section \<open>Decoding a parameter\<close>

text \<open>\<open>b64_decode\<close> (the bytes and their number), whether \<open>msgpack_unpack\<close> succeeds on a buffer and size, and the object
  that \<open>msgpack_unpack_next\<close> finds.\<close>

record 'b codec =
  cd_decode :: "string \<Rightarrow> 'b \<times> int"
  cd_unpack_ok :: "'b \<Rightarrow> int \<Rightarrow> bool"
  cd_unpack_next :: "'b \<Rightarrow> int \<Rightarrow> msgpack_object option"

definition get_base64_decodedbuffer :: "'b codec \<Rightarrow> bool \<Rightarrow> string \<Rightarrow> ('b \<times> int) option" where
  "get_base64_decodedbuffer D malloc_ok pString = (if \<not> malloc_ok then None else Some (cd_decode D pString))"

definition get_msgpack_unpack_status :: "'b codec \<Rightarrow> 'b \<Rightarrow> int \<Rightarrow> bool" where
  "get_msgpack_unpack_status D decodedbuf sz = (if sz = 0 then False else cd_unpack_ok D decodedbuf sz)"

text \<open>A reader is called on the decoded buffer with \<open>size + 1\<close> as its unsigned length. \<open>rd\<close> is \<open>helper_convert\<close> with the
  reader's arguments.\<close>

definition convert_buffer :: "'b codec \<Rightarrow> 'b \<Rightarrow> int \<Rightarrow> (bool \<Rightarrow> msgpack_object option \<Rightarrow> 'p option option) \<Rightarrow> 'p option option" where
  "convert_buffer D buf sz rd = rd (sz + 1 \<noteq> 0) (cd_unpack_next D buf (sz + 1))"

text \<open>The \<open>execData\<close> of a request; the callbacks are those of its document type.\<close>

record 'p exec_data =
  ed_txid :: "16 word"
  ed_version :: "32 word"
  ed_numOfEntries :: nat
  ed_subdoc_name :: string
  ed_user_data :: 'p

text \<open>What a parameter write does with its decoded buffer, which is none when it could not be allocated: check it with
  \<open>status\<close>, read it, and hand a request to the framework. \<open>mallocs\<close> tells which of the allocations succeed: 0 is the
  buffer, 1 the structure, 2 what the reader allocates, 3 the request. The result is the return value and the request.\<close>

definition receive_blob :: "'b codec \<Rightarrow> ('b \<times> int) option \<Rightarrow> ('b \<Rightarrow> int \<Rightarrow> bool) \<Rightarrow> (nat \<Rightarrow> bool) \<Rightarrow>
    (bool \<Rightarrow> msgpack_object option \<Rightarrow> 'p option option) \<Rightarrow> ('p \<Rightarrow> 'p exec_data) \<Rightarrow> (bool \<times> 'p exec_data option) option" where
  "receive_blob D decoded status mallocs rd mk =
     (case decoded of
        None \<Rightarrow> Some (False, None)
      | Some (buf, sz) \<Rightarrow>
          if status buf sz then
            (case convert_buffer D buf sz rd of
               None \<Rightarrow> None
             | Some None \<Rightarrow> Some (True, None)
             | Some (Some p) \<Rightarrow> if mallocs 3 then Some (True, Some (mk p)) else Some (False, None))
          else Some (False, None))"

section \<open>Lemmas\<close>

text \<open>A message that names its parts in full.\<close>

lemma finder_hit: "mp_type v = t \<Longrightarrow> NUL \<notin> set k \<Longrightarrow> finder k t ((MP_STR k, v) # kvs) = Some v"
  by (simp add: match_key_self)

lemma finder_other_type: "mp_type v \<noteq> t \<Longrightarrow> finder k t ((MP_STR k, v) # kvs) = Some v"
  by (simp add: strncmp_eq_def)

lemma finder_None_iff:
  "finder name t kvs = None \<longleftrightarrow>
     (\<forall>k v. (MP_STR k, v) \<in> set kvs \<longrightarrow> (if mp_type v = t then \<not> match_key k name else \<not> strncmp_eq k name))"
proof (induction kvs)
  case Nil
  then show ?case by simp
next
  case (Cons kv kvs)
  obtain k v where kv: "kv = (k, v)" by fastforce
  show ?case by (cases k) (auto simp: kv Cons.IH)
qed

text \<open>A message that is no map, or that fails to decode, hands on nothing.\<close>

lemma helper_convert_no_map:
  "(\<And>m. msg \<noteq> Some (MP_MAP m)) \<Longrightarrow> helper_convert True True msg zero w t opt process = Some None"
  by (auto simp: helper_convert_def split: option.splits msgpack_object.splits)

lemma helper_convert_no_wrapper:
  "finder w t m = None \<Longrightarrow> helper_convert True True (Some (MP_MAP m)) zero w t True process = Some (Some zero)"
  by (simp add: helper_convert_def Let_def)

lemma receive_blob_request:
  assumes "receive_blob D decoded status mallocs rd mk = Some (b, Some e)"
  shows "b \<and> (\<exists>buf sz p. decoded = Some (buf, sz) \<and> status buf sz \<and> convert_buffer D buf sz rd = Some (Some p) \<and> e = mk p)"
  using assms by (auto simp: receive_blob_def split: option.splits if_splits prod.splits)

end
