(* ===== verification/Pf_WebConfig.thy ===== *)
theory Pf_WebConfig
  imports Nat_Objects Wc_Helpers
begin

unbundle bit_operations_syntax

text \<open>
  Port forwarding by web configuration: the document reader of \<open>portmappingdoc.c\<close> and the transaction of
  \<open>cosa_webconfig_api.c\<close>, which turns a document into key/value cells (\<open>pf_cache\<close>), replaces the rules in
  the syscfg database by them, and can be rolled back from the cells of the previous document
  (\<open>pf_cache_bkup\<close>). \<open>syscfg\<close>, \<open>inet_pton\<close> and msgpack are parameters; the shell
  command that restarts the firewall is a counter.
\<close>

section \<open>The document\<close>

text \<open>The strings of an entry are pointers, null until the reader sets them.\<close>

record portdoc_t =
  pd_internal_client :: "string option"
  pd_enable :: "string option"
  pd_external_port_end_range :: "string option"
  pd_protocol :: "string option"
  pd_description :: "string option"
  pd_external_port :: "string option"

record portmappingdoc_t =
  pmd_entries :: "portdoc_t list"
  pmd_subdoc_name :: string
  pmd_version :: "32 word"
  pmd_transaction_id :: "16 word"

definition zero_portdoc :: portdoc_t where
  "zero_portdoc = \<lparr>pd_internal_client = None, pd_enable = None, pd_external_port_end_range = None,
     pd_protocol = None, pd_description = None, pd_external_port = None\<rparr>"

text \<open>The loop of \<open>process_portdocparams\<close> on the entries of a map, with \<open>objects_left\<close>.\<close>

fun portdoc_loop :: "(msgpack_object \<times> msgpack_object) list \<Rightarrow> UCHAR \<Rightarrow> portdoc_t \<Rightarrow>
    UCHAR \<times> portdoc_t" where
  "portdoc_loop [] objects_left e = (objects_left, e)"
| "portdoc_loop (kv # kvs) objects_left e =
     (if \<not> 0 < objects_left then (objects_left, e)
      else (case kv of
          (MP_STR k, MP_STR v) \<Rightarrow>
            if strncmp_eq k ''ExternalPortEndRange''
            then portdoc_loop kvs (objects_left AND NOT (push_bit 1 1)) (e\<lparr>pd_external_port_end_range := Some (strndup v)\<rparr>)
            else if match_key k ''ExternalPort''
            then portdoc_loop kvs (objects_left AND NOT (push_bit 2 1)) (e\<lparr>pd_external_port := Some (strndup v)\<rparr>)
            else if match_key k ''InternalClient''
            then portdoc_loop kvs (objects_left AND NOT (push_bit 3 1)) (e\<lparr>pd_internal_client := Some (strndup v)\<rparr>)
            else if match_key k ''Protocol''
            then portdoc_loop kvs (objects_left AND NOT (push_bit 4 1)) (e\<lparr>pd_protocol := Some (strndup v)\<rparr>)
            else if match_key k ''Description''
            then portdoc_loop kvs (objects_left AND NOT (push_bit 5 1)) (e\<lparr>pd_description := Some (strndup v)\<rparr>)
            else if match_key k ''Enable''
            then portdoc_loop kvs (objects_left AND NOT (push_bit 6 1)) (e\<lparr>pd_enable := Some (strndup v)\<rparr>)
            else portdoc_loop kvs objects_left e
        | _ \<Rightarrow> portdoc_loop kvs objects_left e))"

definition process_portdocparams :: "(msgpack_object \<times> msgpack_object) list \<Rightarrow>
    bool \<times> portdoc_t" where
  "process_portdocparams kvs =
     (case portdoc_loop kvs 0x06 zero_portdoc of (objects_left, e) \<Rightarrow> (objects_left = 0, e))"

text \<open>The loop of \<open>process_portmappingdoc\<close> over the array; it ends at the first bad entry.\<close>

fun portdoc_entries :: "msgpack_object list \<Rightarrow> portdoc_t list option" where
  "portdoc_entries [] = Some []"
| "portdoc_entries (MP_MAP m # objs) =
     (case process_portdocparams m of
        (ok, e) \<Rightarrow> if \<not> ok then None else map_option (Cons e) (portdoc_entries objs))"
| "portdoc_entries (_ # objs) = None"

definition process_portmappingdoc :: "bool \<Rightarrow> msgpack_object list \<Rightarrow> string \<Rightarrow> nat \<Rightarrow> nat \<Rightarrow>
    portmappingdoc_t option" where
  "process_portmappingdoc malloc_ok array subdoc version txid =
     (if 0 < length array \<and> \<not> malloc_ok then None
      else map_option (\<lambda>es. \<lparr>pmd_entries = es, pmd_subdoc_name = strndup subdoc, pmd_version = of_nat version,
                             pmd_transaction_id = of_nat txid\<rparr>) (portdoc_entries array))"

text \<open>The objects are those that \<open>helper_convert\<close> passes.\<close>

definition portmappingdoc_args :: "bool \<Rightarrow> msgpack_object option list \<Rightarrow> portmappingdoc_t option option" where
  "portmappingdoc_args malloc_ok args =
     (case args of
        [Some (MP_ARRAY array), Some (MP_STR subdoc), Some (MP_UINT version), Some (MP_UINT txid)] \<Rightarrow>
          Some (process_portmappingdoc malloc_ok array subdoc version txid)
      | _ \<Rightarrow> None)"

definition zero_portmappingdoc :: portmappingdoc_t where
  "zero_portmappingdoc = \<lparr>pmd_entries = [], pmd_subdoc_name = [], pmd_version = 0, pmd_transaction_id = 0\<rparr>"

definition portmappingdoc_convert :: "(nat \<Rightarrow> bool) \<Rightarrow> bool \<Rightarrow> msgpack_object option \<Rightarrow> portmappingdoc_t option option" where
  "portmappingdoc_convert mallocs has_buf msg =
     helper_convert (mallocs 1) has_buf msg zero_portmappingdoc ''portforwarding'' MSGPACK_OBJECT_ARRAY True
       (portmappingdoc_args (mallocs 2))"

text \<open>The \<open>Data\<close> parameter. The allocation of the decoded buffer is not checked.\<close>

definition portmap_exec :: "portmappingdoc_t \<Rightarrow> portmappingdoc_t exec_data" where
  "portmap_exec rpm = \<lparr>ed_txid = pmd_transaction_id rpm, ed_version = pmd_version rpm,
     ed_numOfEntries = length (pmd_entries rpm), ed_subdoc_name = ''portforwarding'', ed_user_data = rpm\<rparr>"

definition X_RDK_PortMapping_SetParamStringValue :: "'b codec \<Rightarrow> (nat \<Rightarrow> bool) \<Rightarrow> string \<Rightarrow> string \<Rightarrow>
    (bool \<times> portmappingdoc_t exec_data option) option" where
  "X_RDK_PortMapping_SetParamStringValue D mallocs ParamName pString =
     (if ParamName = ''Data'' then
        (if \<not> mallocs 0 then None
         else receive_blob D (Some (cd_decode D pString)) (cd_unpack_ok D) mallocs (portmappingdoc_convert mallocs) portmap_exec)
      else Some (False, None))"

section \<open>The database and the cells\<close>

text \<open>\<open>syscfg_get\<close> (with the size of the buffer), \<open>syscfg_set\<close>, \<open>syscfg_unset\<close> and \<open>syscfg_commit\<close>; the
  last three return whether the result was 0.\<close>

record 'd syscfg =
  sc_get :: "'d \<Rightarrow> string \<Rightarrow> nat \<Rightarrow> string option"
  sc_set :: "'d \<Rightarrow> string \<Rightarrow> string \<Rightarrow> bool \<times> 'd"
  sc_unset :: "'d \<Rightarrow> string \<Rightarrow> bool \<times> 'd"
  sc_commit :: "'d \<Rightarrow> bool \<times> 'd"

definition syscfg_ok :: "'d syscfg \<Rightarrow> ('d \<Rightarrow> string \<Rightarrow> string option) \<Rightarrow> bool" where
  "syscfg_ok C v \<longleftrightarrow>
     (\<forall>d k x. v (snd (sc_set C d k x)) = (if fst (sc_set C d k x) then (v d)(k \<mapsto> x) else v d)) \<and>
     (\<forall>d k. v (snd (sc_unset C d k)) = (if fst (sc_unset C d k) then (v d)(k := None) else v d)) \<and>
     (\<forall>d. v (snd (sc_commit C d)) = v d) \<and>
     (\<forall>d k n. sc_get C d k n = map_option (take (n - 1)) (v d k))"

record t_cache =
  tc_cmd :: string
  tc_val :: string

definition PORTMAP_CACHE_SIZE :: nat where "PORTMAP_CACHE_SIZE = 1024"
definition BLOCK_SIZE :: nat where "BLOCK_SIZE = 32"
definition VAL_BLOCK_SIZE :: nat where "VAL_BLOCK_SIZE = 129"

lemmas block_sizes = PORTMAP_CACHE_SIZE_def BLOCK_SIZE_def VAL_BLOCK_SIZE_def

text \<open>The codes of the framework. \<open>MINUS_ONE\<close> is a -1.\<close>

datatype blob_code = BLOB_EXEC_SUCCESS | INVALID_IP | INVALID_PORT | INVALID_PROTOCOL | INVALID_DMZ_WAN_IP | SYSCFG_FAILURE
  | EMPTY_BLOB | INVALID_MAC | STATIC_IP_NOT_IN_LANRANGE | LAN_PARAM_IP_RANGE_INVALID | LAN_PARAM_NETMASK_INVALID
  | LAN_PARAM_LEASETIME_INVALID | LAN_PARAM_GATEWAY_IP_INVALID | COSA_SYNCHRONIZE_FAILED | VALIDATION_FALIED | MINUS_ONE

text \<open>The globals of \<open>cosa_webconfig_api.c\<close>; the arrays have \<open>PORTMAP_CACHE_SIZE\<close> cells.\<close>

record 'd wc_state =
  pf_cache :: "t_cache list"
  pf_cache_bkup :: "t_cache list"
  pf_cache_size :: nat
  pf_cache_size_bkup :: nat
  pf_param_name :: string
  gpfEnable :: int
  wc_db :: 'd
  firewall_restarts :: nat

definition blank :: t_cache where "blank = \<lparr>tc_cmd = [], tc_val = []\<rparr>"

definition clear_pf_cache :: "t_cache list \<Rightarrow> t_cache list" where
  "clear_pf_cache tmp_pf_cache = map (\<lambda>_. blank) tmp_pf_cache"

text \<open>The loop of \<open>clear_pf_cache_DB\<close> over the first \<open>n\<close> cells.\<close>

fun unset_cells :: "'d syscfg \<Rightarrow> nat \<Rightarrow> t_cache list \<Rightarrow> 'd \<Rightarrow> bool \<times> t_cache list \<times> 'd" where
  "unset_cells C (Suc n) (c # cs) db =
     (case sc_unset C db (tc_cmd c) of (ok, db1) \<Rightarrow>
        if \<not> ok then (False, c # cs, db1)
        else (case unset_cells C n cs db1 of (r, cs', db2) \<Rightarrow> (r, blank # cs', db2)))"
| "unset_cells C _ cs db = (True, cs, db)"

definition clear_pf_cache_DB :: "'d syscfg \<Rightarrow> 'd wc_state \<Rightarrow> bool \<times> 'd wc_state" where
  "clear_pf_cache_DB C st =
     (case unset_cells C (pf_cache_size st) (pf_cache st) (wc_db st) of
        (ok, cs, db) \<Rightarrow>
          let st1 = st\<lparr>pf_cache := cs, wc_db := db\<rparr> in
          if \<not> ok then (False, st1)
          else (case sc_commit C db of (rc, db1) \<Rightarrow>
              if \<not> rc then (False, st1\<lparr>wc_db := db1\<rparr>)
              else (True, st1\<lparr>wc_db := db1, firewall_restarts := Suc (firewall_restarts st)\<rparr>)))"

definition copy_cell :: "t_cache \<Rightarrow> t_cache" where
  "copy_cell c = \<lparr>tc_cmd = snd (strcpy_s BLOCK_SIZE (tc_cmd c)), tc_val = snd (strcpy_s VAL_BLOCK_SIZE (tc_val c))\<rparr>"

text \<open>\<open>backup_pf_cache\<close> copies \<open>pf_cache_size\<close> cells, whatever \<open>cache_size\<close> says.\<close>

definition backup_pf_cache :: "'d wc_state \<Rightarrow> t_cache list \<Rightarrow> t_cache list \<Rightarrow> nat \<Rightarrow> t_cache list" where
  "backup_pf_cache st tmp_pf_cache tmp_pf_cache_bkup cache_size =
     map copy_cell (take (pf_cache_size st) tmp_pf_cache) @ drop (pf_cache_size st) tmp_pf_cache_bkup"

fun set_cells :: "'d syscfg \<Rightarrow> t_cache list \<Rightarrow> 'd \<Rightarrow> bool \<times> 'd" where
  "set_cells C [] db = (True, db)"
| "set_cells C (c # cs) db =
     (case sc_set C db (tc_cmd c) (tc_val c) of (ok, db1) \<Rightarrow> if \<not> ok then (False, db1) else set_cells C cs db1)"

definition apply_pf_cache_ToDB :: "'d syscfg \<Rightarrow> t_cache list \<Rightarrow> nat \<Rightarrow> int \<Rightarrow> 'd wc_state \<Rightarrow> bool \<times> 'd wc_state" where
  "apply_pf_cache_ToDB C tmp_pf_cache cache_size pmapEnable st =
     (case (if gpfEnable st \<noteq> pmapEnable
            then sc_set C (wc_db st) (pf_param_name st) (if pmapEnable = 1 then ''1'' else ''0'')
            else (True, wc_db st)) of
        (ok, db) \<Rightarrow>
          if \<not> ok then (False, st\<lparr>wc_db := db\<rparr>)
          else (case set_cells C (take cache_size tmp_pf_cache) db of (ok, db1) \<Rightarrow>
              if \<not> ok then (False, st\<lparr>wc_db := db1\<rparr>)
              else (case sc_commit C db1 of (rc, db2) \<Rightarrow>
                  if \<not> rc then (False, st\<lparr>wc_db := db2\<rparr>)
                  else (True, st\<lparr>wc_db := db2, firewall_restarts := Suc (firewall_restarts st)\<rparr>))))"

section \<open>From the document to the cells\<close>

definition CheckIfIpIsValid :: "(string \<Rightarrow> bool) \<Rightarrow> (string \<Rightarrow> bool) \<Rightarrow> string \<Rightarrow> bool" where
  "CheckIfIpIsValid is_ip4 is_ip6 ipAddress \<longleftrightarrow> is_ip4 ipAddress \<or> is_ip6 ipAddress"

definition CheckIfPortsAreValid :: "string \<Rightarrow> string \<Rightarrow> bool" where
  "CheckIfPortsAreValid port port_end_range =
     (let iPort = atoi port; iPort_end_range = atoi port_end_range in
      if \<not> list_all isdigit port then False
      else if \<not> list_all isdigit port_end_range then False
      else if iPort \<le> 0 \<or> iPort > 65535 \<or> iPort_end_range \<le> 0 \<or> iPort_end_range > 65535 \<or> iPort > iPort_end_range
      then False else True)"

definition proto_val :: "string \<Rightarrow> string option" where
  "proto_val protocol =
     (if strcaseeq protocol ''TCP/UDP'' \<or> strcaseeq protocol ''UDP/TCP'' \<or> strcaseeq protocol ''BOTH'' then Some ''both''
      else if strcaseeq protocol ''TCP'' then Some ''tcp''
      else if strcaseeq protocol ''UDP'' then Some ''udp''
      else None)"

text \<open>A cell printed with \<open>snprintf\<close>, and one whose key is printed with \<open>sprintf_s\<close>, which leaves an empty
  key when the text does not fit; the code only logs that.\<close>

definition cell :: "string \<Rightarrow> string \<Rightarrow> t_cache" where
  "cell cmd val = \<lparr>tc_cmd = snprintf BLOCK_SIZE cmd, tc_val = snprintf VAL_BLOCK_SIZE val\<rparr>"

definition cell_s :: "string \<Rightarrow> string \<Rightarrow> t_cache" where
  "cell_s cmd val = \<lparr>tc_cmd = (case sprintf_s BLOCK_SIZE cmd of Some s \<Rightarrow> s | None \<Rightarrow> []), tc_val = snprintf VAL_BLOCK_SIZE val\<rparr>"

text \<open>The cells of entry \<open>i\<close> before the protocol, and those after it. \<open>n\<close> is the counter of its kind.\<close>

definition entry_pre :: "string \<Rightarrow> string \<Rightarrow> string" where
  "entry_pre ext end_range = (if ext = end_range then ''spf_'' else ''pfr_'')"

definition entry_head :: "nat \<Rightarrow> nat \<Rightarrow> string \<Rightarrow> string \<Rightarrow> string \<Rightarrow> string \<Rightarrow> string \<Rightarrow> t_cache list" where
  "entry_head i n ext end_range ip name enable =
     (let key = entry_pre ext end_range @ dec i in
      (if ext = end_range then
         [cell (''SinglePortForward_'' @ dec n) key, cell_s (key @ ''::external_port'') ext]
       else
         [cell (''PortRangeForward_'' @ dec n) key, cell_s (key @ ''::external_port_range'') (ext @ '' '' @ end_range),
          cell (key @ ''::public_ip'') ''0.0.0.0'', cell_s (key @ ''::internal_port_range_size'') ''0''])
      @ [cell (key @ ''::to_ip'') ip, cell (key @ ''::name'') name, cell (key @ ''::enabled'') enable])"

definition entry_tail :: "nat \<Rightarrow> string \<Rightarrow> string \<Rightarrow> string \<Rightarrow> t_cache list" where
  "entry_tail i ext end_range proto =
     (let key = entry_pre ext end_range @ dec i in
      [cell (key @ ''::protocol'') proto, cell_s (key @ ''::internal_port'') ''0'', cell (key @ ''::to_ipv6'') ''x'',
       cell_s (key @ ''::prev_rule_enabled_state'') ''1''])"

text \<open>Writing cells from index \<open>cnt\<close> on; \<open>None\<close> is a write beyond the array.\<close>

definition write_cells :: "nat \<Rightarrow> t_cache list \<Rightarrow> t_cache list \<Rightarrow> t_cache list option" where
  "write_cells cnt cells cache =
     (if cnt + length cells \<le> length cache then Some (take cnt cache @ cells @ drop (cnt + length cells) cache)
      else None)"

text \<open>The loop of \<open>set_portmap_conf\<close> over the entries, on the array, \<open>count\<close> (\<open>cnt\<close> here), \<open>spf_count\<close> and \<open>pfr_count\<close>.
  \<open>None\<close> is a null string passed to the C library or a write beyond \<open>pf_cache\<close>. An unknown protocol
  returns after the key of its cell was written.\<close>

fun fill_entries :: "(string \<Rightarrow> bool) \<Rightarrow> (string \<Rightarrow> bool) \<Rightarrow> portdoc_t list \<Rightarrow> nat \<Rightarrow> t_cache list \<times> nat \<times> nat \<times> nat \<Rightarrow>
    (blob_code \<times> t_cache list \<times> nat \<times> nat \<times> nat) option" where
  "fill_entries is_ip4 is_ip6 [] i s = Some (BLOB_EXEC_SUCCESS, s)"
| "fill_entries is_ip4 is_ip6 (e # es) i (cache, cnt, spf_count, pfr_count) =
     (case pd_internal_client e of
        None \<Rightarrow> None
      | Some ip \<Rightarrow>
          if \<not> CheckIfIpIsValid is_ip4 is_ip6 ip then Some (INVALID_IP, cache, cnt, spf_count, pfr_count)
          else (case (pd_external_port e, pd_external_port_end_range e) of
              (Some ext, Some end_range) \<Rightarrow>
                if ext = [] \<or> end_range = [] then Some (INVALID_PORT, cache, cnt, spf_count, pfr_count)
                else if \<not> CheckIfPortsAreValid ext end_range then Some (INVALID_PORT, cache, cnt, spf_count, pfr_count)
                else (case (pd_description e, pd_enable e, pd_protocol e) of
                    (Some name, Some enable, Some protocol) \<Rightarrow>
                      let spf = (if ext = end_range then Suc spf_count else spf_count);
                          pfr = (if ext = end_range then pfr_count else Suc pfr_count);
                          head = entry_head i (if ext = end_range then spf else pfr) ext end_range ip name enable
                      in (case proto_val protocol of
                            None \<Rightarrow>
                              map_option (\<lambda>cache'. (INVALID_PROTOCOL, cache', cnt + length head, spf, pfr))
                                (write_cells cnt (head @ [\<lparr>tc_cmd = snprintf BLOCK_SIZE (entry_pre ext end_range @ dec i @ ''::protocol''),
                                   tc_val = tc_val (cache ! (cnt + length head))\<rparr>]) cache)
                          | Some proto \<Rightarrow>
                              let cells = head @ entry_tail i ext end_range proto
                              in (case write_cells cnt cells cache of
                                    None \<Rightarrow> None
                                  | Some cache' \<Rightarrow>
                                      fill_entries is_ip4 is_ip6 es (Suc i) (cache', cnt + length cells, spf, pfr)))
                  | _ \<Rightarrow> None)
            | _ \<Rightarrow> None))"

definition count_cells :: "nat \<Rightarrow> nat \<Rightarrow> t_cache list" where
  "count_cells spf_count pfr_count =
     [cell ''SinglePortForwardCount'' (dec spf_count), cell ''PortRangeForwardCount'' (dec pfr_count)]"

definition set_portmap_conf :: "(string \<Rightarrow> bool) \<Rightarrow> (string \<Rightarrow> bool) \<Rightarrow> portmappingdoc_t \<Rightarrow> 'd wc_state \<Rightarrow>
    (blob_code \<times> 'd wc_state) option" where
  "set_portmap_conf is_ip4 is_ip6 rpm st =
     (case fill_entries is_ip4 is_ip6 (pmd_entries rpm) 1 (pf_cache st, 0, 0, 0) of
        None \<Rightarrow> None
      | Some (ret, cache, cnt, spf_count, pfr_count) \<Rightarrow>
          if ret \<noteq> BLOB_EXEC_SUCCESS then Some (ret, st\<lparr>pf_cache := cache\<rparr>)
          else map_option (\<lambda>cache'. (BLOB_EXEC_SUCCESS, st\<lparr>pf_cache := cache', pf_cache_size := cnt + 2\<rparr>))
                 (write_cells cnt (count_cells spf_count pfr_count) cache))"

section \<open>Execute and roll back\<close>

text \<open>The error code of the result; no code when \<open>malloc\<close> fails. The outer \<open>None\<close> is that of
  \<open>set_portmap_conf\<close>.\<close>

definition Process_PF_WebConfigRequest :: "'d syscfg \<Rightarrow> (string \<Rightarrow> bool) \<Rightarrow> (string \<Rightarrow> bool) \<Rightarrow> bool \<Rightarrow> portmappingdoc_t \<Rightarrow>
    'd wc_state \<Rightarrow> (blob_code option \<times> 'd wc_state) option" where
  "Process_PF_WebConfigRequest C is_ip4 is_ip6 malloc_ok rpm st =
     (if \<not> malloc_ok then Some (None, st)
      else
        let st1 = st\<lparr>pf_cache_bkup := backup_pf_cache st (pf_cache st) (pf_cache_bkup st) (pf_cache_size st),
                     pf_cache_size_bkup := pf_cache_size st\<rparr>
        in (case clear_pf_cache_DB C st1 of
            (ok, st2) \<Rightarrow>
              if \<not> ok then Some (Some SYSCFG_FAILURE, st2)
              else (case set_portmap_conf is_ip4 is_ip6 rpm st2 of
                  None \<Rightarrow> None
                | Some (ret, st3) \<Rightarrow>
                    if ret \<noteq> BLOB_EXEC_SUCCESS then Some (Some ret, st3)
                    else
                      let lpfEnable = (if 0 < length (pmd_entries rpm) then 1 else 0)
                      in (case apply_pf_cache_ToDB C (pf_cache st3) (pf_cache_size st3) lpfEnable st3 of
                          (ok, st4) \<Rightarrow>
                            if \<not> ok then Some (Some SYSCFG_FAILURE, st4)
                            else Some (Some BLOB_EXEC_SUCCESS, st4\<lparr>gpfEnable := lpfEnable\<rparr>)))))"

definition rollback_PortForwarding :: "'d syscfg \<Rightarrow> 'd wc_state \<Rightarrow> bool \<times> 'd wc_state" where
  "rollback_PortForwarding C st =
     (case apply_pf_cache_ToDB C (pf_cache_bkup st) (pf_cache_size_bkup st) (gpfEnable st) st of
        (ret, st1) \<Rightarrow>
          let st2 = st1\<lparr>pf_cache := backup_pf_cache st1 (pf_cache_bkup st1) (pf_cache st1) (pf_cache_size_bkup st1)\<rparr>
          in (ret, st2\<lparr>pf_cache_size := pf_cache_size_bkup st2\<rparr>))"

section \<open>Start, and the version of a subdocument\<close>

text \<open>A cell of \<open>init_pf_cache\<close> whose value stays what it was (blank after \<open>clear_pf_cache\<close>).\<close>

definition key_cell :: "string \<Rightarrow> t_cache" where
  "key_cell cmd = \<lparr>tc_cmd = cmd, tc_val = []\<rparr>"

definition key_cells :: "string \<Rightarrow> string list \<Rightarrow> t_cache list" where
  "key_cells alias_pre sufs = map (\<lambda>suf. key_cell (snprintf BLOCK_SIZE (alias_pre @ suf))) sufs"

definition key_cell_s :: "string \<Rightarrow> t_cache" where
  "key_cell_s cmd = key_cell (case sprintf_s BLOCK_SIZE cmd of Some s \<Rightarrow> s | None \<Rightarrow> [])"

text \<open>The cells of the \<open>j\<close>-th single rule and of the \<open>j\<close>-th range rule. \<open>alias_pre\<close> has 8 bytes and takes the
  value by \<open>strcpy\<close>, so a longer one is a write beyond it.\<close>

definition init_single :: "'d syscfg \<Rightarrow> 'd \<Rightarrow> nat \<Rightarrow> t_cache list option" where
  "init_single C db j =
     (let cmd = snprintf BLOCK_SIZE (''SinglePortForward_'' @ dec j);
          val = (case sc_get C db cmd VAL_BLOCK_SIZE of Some x \<Rightarrow> x | None \<Rightarrow> [])
      in if length val \<ge> 8 then None
         else Some (\<lparr>tc_cmd = cmd, tc_val = val\<rparr> # key_cells val [''::external_port'', ''::to_ip'', ''::name'', ''::enabled'',
                ''::protocol'', ''::internal_port'', ''::to_ipv6''] @ [key_cell_s (val @ ''::prev_rule_enabled_state'')]))"

definition init_range :: "'d syscfg \<Rightarrow> 'd \<Rightarrow> nat \<Rightarrow> t_cache list option" where
  "init_range C db j =
     (let cmd = snprintf BLOCK_SIZE (''PortRangeForward_'' @ dec j);
          val = (case sc_get C db cmd VAL_BLOCK_SIZE of Some x \<Rightarrow> x | None \<Rightarrow> [])
      in if length val \<ge> 8 then None
         else Some (\<lparr>tc_cmd = cmd, tc_val = val\<rparr> # key_cells val [''::external_port_range'', ''::public_ip''] @
                [key_cell_s (val @ ''::internal_port_range_size'')] @
                key_cells val [''::to_ip'', ''::name'', ''::enabled'', ''::protocol'', ''::internal_port'', ''::to_ipv6''] @
                [key_cell_s (val @ ''::prev_rule_enabled_state'')]))"

fun collect :: "'a list option list \<Rightarrow> 'a list option" where
  "collect [] = Some []"
| "collect (x # xs) = (case x of None \<Rightarrow> None | Some y \<Rightarrow> map_option ((@) y) (collect xs))"

text \<open>\<open>init_pf_cache\<close> on a cleared array. A count that the database does not have leaves its cell to be
  overwritten.\<close>

definition count_cell :: "'d syscfg \<Rightarrow> 'd \<Rightarrow> string \<Rightarrow> t_cache list \<times> int" where
  "count_cell C db name = (case sc_get C db name VAL_BLOCK_SIZE of
       Some x \<Rightarrow> ([\<lparr>tc_cmd = name, tc_val = x\<rparr>], atoi x) | None \<Rightarrow> ([], 0))"

definition init_pf_cache :: "'d syscfg \<Rightarrow> 'd wc_state \<Rightarrow> 'd wc_state option" where
  "init_pf_cache C st =
     (let name = COSA_NAT_SYSCFG_NAMESPACE @ ''::'' @ PORT_FORWARD_ENABLED_KEY;
          db = wc_db st;
          enable = (case sc_get C db name 8 of Some buf \<Rightarrow> if buf \<noteq> [] then atoi buf else gpfEnable st | None \<Rightarrow> gpfEnable st);
          (c1, spf_count) = count_cell C db ''SinglePortForwardCount'';
          (c2, pfr_count) = count_cell C db ''PortRangeForwardCount''
      in (case (collect (map (init_single C db) [1 ..< nat spf_count + 1]),
                collect (map (init_range C db) [1 ..< nat pfr_count + 1])) of
            (Some singles, Some ranges) \<Rightarrow>
              let cells = c1 @ c2 @ singles @ ranges
              in map_option (\<lambda>cache. st\<lparr>pf_cache := cache, pf_cache_size := length cells, pf_param_name := name,
                                         gpfEnable := enable\<rparr>)
                   (write_cells 0 cells (pf_cache st))
          | _ \<Rightarrow> None))"

text \<open>\<open>atoi\<close> returns an \<open>int\<close>; what it does to a number that does not fit is undefined in C, and the 32-bit
  library clips it.\<close>

definition atoi_int :: "string \<Rightarrow> 32 word" where
  "atoi_int s = word_of_int (max (- (2 ^ 31)) (min (2 ^ 31 - 1) (atoi s)))"

definition getBlobVersion :: "'d syscfg \<Rightarrow> 'd \<Rightarrow> string \<Rightarrow> 32 word" where
  "getBlobVersion C db subdoc = (case sc_get C db (snprintf 72 (subdoc @ ''_version'')) 64 of
       Some subdoc_ver \<Rightarrow> atoi_int subdoc_ver | None \<Rightarrow> 0)"

text \<open>\<open>mv\<close> is the shell command that moves the file of the \<open>hotspot\<close> document.\<close>

definition setBlobVersion :: "'d syscfg \<Rightarrow> ('d \<Rightarrow> string \<Rightarrow> 'd) \<Rightarrow> 'd \<Rightarrow> string \<Rightarrow> 32 word \<Rightarrow> int \<times> 'd" where
  "setBlobVersion C mv db subdoc version =
     (let subdoc_ver = snprintf 32 (dec (unat version));
          db1 = (if subdoc = ''hotspot'' then mv db (snprintf 256 (''mv /tmp/.'' @ subdoc @ subdoc_ver @ '' /nvram/hotspot_blob'')) else db)
      in (case sc_set C db1 (snprintf 72 (subdoc @ ''_version'')) subdoc_ver of
            (ok, db2) \<Rightarrow>
              if \<not> ok then (- 1, db2)
              else (case sc_commit C db2 of (rc, db3) \<Rightarrow> (if rc then 0 else - 1, db3))))"

end
