(* ===== verification/Pf_WebConfig_Table.thy ===== *)
theory Pf_WebConfig_Table
  imports Pf_WebConfig
begin

text \<open>
  What the document loop and the database loops of \<open>cosa_webconfig_api.c\<close> compute: the cells of a document as one
  list, the error code of an entry, the database read through its view, and the keys of the cells.
\<close>

section \<open>Database loops\<close>

definition cell_map :: "t_cache list \<Rightarrow> string \<rightharpoonup> string" where
  "cell_map cs = map_of (rev (map (\<lambda>c. (tc_cmd c, tc_val c)) cs))"

definition cell_keys :: "t_cache list \<Rightarrow> string set" where
  "cell_keys cs = tc_cmd ` set cs"

definition without :: "string set \<Rightarrow> (string \<rightharpoonup> string) \<Rightarrow> string \<rightharpoonup> string" where
  "without K m = m |` (- K)"

lemma without_apply: "without K m k = (if k \<in> K then None else m k)"
  by (simp add: without_def restrict_map_def)

lemma syscfg_set_view: "syscfg_ok C v \<Longrightarrow> sc_set C d k x = (ok, d') \<Longrightarrow> v d' = (if ok then (v d)(k \<mapsto> x) else v d)"
  unfolding syscfg_ok_def by (metis fst_conv snd_conv)

lemma syscfg_unset_view: "syscfg_ok C v \<Longrightarrow> sc_unset C d k = (ok, d') \<Longrightarrow> v d' = (if ok then (v d)(k := None) else v d)"
  unfolding syscfg_ok_def by (metis fst_conv snd_conv)

lemma syscfg_commit_view: "syscfg_ok C v \<Longrightarrow> sc_commit C d = (ok, d') \<Longrightarrow> v d' = v d"
  unfolding syscfg_ok_def by (metis snd_conv)

lemma syscfg_get_view: "syscfg_ok C v \<Longrightarrow> sc_get C d k n = map_option (take (n - 1)) (v d k)"
  unfolding syscfg_ok_def by blast

lemma cell_map_Cons: "m ++ cell_map (c # cs) = m(tc_cmd c \<mapsto> tc_val c) ++ cell_map cs"
  by (simp add: cell_map_def map_add_def fun_eq_iff split: option.splits)

lemma cell_map_Nil [simp]: "cell_map [] = Map.empty"
  by (simp add: cell_map_def)

lemma dom_cell_map: "dom (cell_map cs) = cell_keys cs"
  by (auto simp: cell_map_def cell_keys_def dom_map_of_conv_image_fst image_image)

lemma cell_map_None: "k \<notin> cell_keys cs \<Longrightarrow> cell_map cs k = None"
  using dom_cell_map by blast

lemma cell_map_in: "cell_map cs k = Some x \<Longrightarrow> \<exists>c \<in> set cs. tc_cmd c = k \<and> tc_val c = x"
  using map_of_SomeD by (fastforce simp: cell_map_def)

lemma cell_map_Some:
  assumes "c \<in> set cs" "\<And>c'. c' \<in> set cs \<Longrightarrow> tc_cmd c' = tc_cmd c \<Longrightarrow> tc_val c' = tc_val c"
  shows "cell_map cs (tc_cmd c) = Some (tc_val c)"
proof -
  have "tc_cmd c \<in> dom (cell_map cs)"
    using assms(1) by (auto simp: dom_cell_map cell_keys_def)
  then obtain x where x: "cell_map cs (tc_cmd c) = Some x" by blast
  with cell_map_in [OF x] assms(2) show ?thesis by auto
qed

text \<open>Writing back cells that the database held restores it.\<close>

lemma cell_map_restores:
  assumes "\<And>c. c \<in> set cs \<Longrightarrow> tc_cmd c = k \<Longrightarrow> m k = Some (tc_val c)"
  shows "(without (cell_keys cs) m ++ cell_map cs) k = m k"
proof (cases "k \<in> cell_keys cs")
  case True
  then obtain x where x: "cell_map cs k = Some x" using dom_cell_map by blast
  with cell_map_in [OF x] assms have "m k = Some x" by blast
  with x show ?thesis by (simp add: map_add_Some_iff)
next
  case False
  then show ?thesis by (simp add: cell_map_None without_apply map_add_def)
qed

lemma set_cells_view:
  "syscfg_ok C v \<Longrightarrow> set_cells C cs db = (True, db') \<Longrightarrow> v db' = v db ++ cell_map cs"
proof (induction cs arbitrary: db)
  case Nil
  then show ?case by simp
next
  case (Cons c cs)
  obtain ok db1 where set: "sc_set C db (tc_cmd c) (tc_val c) = (ok, db1)" by fastforce
  with Cons.prems have "ok" by (cases ok) auto
  with Cons set show ?case by (simp add: cell_map_Cons syscfg_set_view [OF Cons.prems(1) set])
qed

lemma unset_cells_view:
  "syscfg_ok C v \<Longrightarrow> n \<le> length cs \<Longrightarrow> unset_cells C n cs db = (True, cs', db') \<Longrightarrow>
     v db' = without (cell_keys (take n cs)) (v db) \<and> length cs' = length cs"
proof (induction C n cs db arbitrary: cs' db' rule: unset_cells.induct)
  case (1 C n c cs db)
  obtain ok db1 where un: "sc_unset C db (tc_cmd c) = (ok, db1)" by fastforce
  obtain r cs2 db2 where rest: "unset_cells C n cs db1 = (r, cs2, db2)" by (metis prod_cases3)
  from "1.prems" un rest have "ok" "r" "cs' = blank # cs2" "db' = db2" by (auto split: if_splits)
  with "1.IH" [OF un [symmetric]] "1.prems" rest un syscfg_unset_view [OF "1.prems"(1) un] show ?case
    by (auto simp: without_apply fun_eq_iff cell_keys_def)
qed (auto simp: without_apply fun_eq_iff cell_keys_def)

lemma clear_pf_cache_DB_view:
  assumes "syscfg_ok C v" "pf_cache_size st \<le> length (pf_cache st)" "clear_pf_cache_DB C st = (True, st')"
  shows "v (wc_db st') = without (cell_keys (take (pf_cache_size st) (pf_cache st))) (v (wc_db st))"
    "length (pf_cache st') = length (pf_cache st)" "pf_cache_size st' = pf_cache_size st"
    "pf_cache_bkup st' = pf_cache_bkup st" "pf_cache_size_bkup st' = pf_cache_size_bkup st"
    "gpfEnable st' = gpfEnable st" "pf_param_name st' = pf_param_name st"
proof -
  obtain ok cs db where un: "unset_cells C (pf_cache_size st) (pf_cache st) (wc_db st) = (ok, cs, db)" by (metis prod_cases3)
  obtain rc db1 where cm: "sc_commit C db = (rc, db1)" by fastforce
  from assms(3) un cm have ok: ok rc
    and st': "st' = st\<lparr>pf_cache := cs, wc_db := db1, firewall_restarts := Suc (firewall_restarts st)\<rparr>"
    by (auto simp: clear_pf_cache_DB_def Let_def split: if_splits)
  with unset_cells_view [OF assms(1,2)] un syscfg_commit_view [OF assms(1) cm]
  show "v (wc_db st') = without (cell_keys (take (pf_cache_size st) (pf_cache st))) (v (wc_db st))"
    "length (pf_cache st') = length (pf_cache st)" "pf_cache_size st' = pf_cache_size st"
    "pf_cache_bkup st' = pf_cache_bkup st" "pf_cache_size_bkup st' = pf_cache_size_bkup st"
    "gpfEnable st' = gpfEnable st" "pf_param_name st' = pf_param_name st"
    by simp_all
qed

lemma apply_pf_cache_ToDB_frame:
  assumes "apply_pf_cache_ToDB C cs n en st = (ok, st')"
  shows "pf_cache st' = pf_cache st" "pf_cache_size st' = pf_cache_size st" "pf_cache_bkup st' = pf_cache_bkup st"
    "pf_cache_size_bkup st' = pf_cache_size_bkup st" "gpfEnable st' = gpfEnable st" "pf_param_name st' = pf_param_name st"
  using assms by (auto simp: apply_pf_cache_ToDB_def split: prod.splits if_splits)

lemma apply_pf_cache_ToDB_view:
  assumes C: "syscfg_ok C v" and ap: "apply_pf_cache_ToDB C cs n en st = (True, st')"
  shows "v (wc_db st') = (if gpfEnable st \<noteq> en then (v (wc_db st))(pf_param_name st \<mapsto> if en = 1 then ''1'' else ''0'')
                          else v (wc_db st)) ++ cell_map (take n cs)"
proof -
  obtain ok db where first: "(if gpfEnable st \<noteq> en then sc_set C (wc_db st) (pf_param_name st) (if en = 1 then ''1'' else ''0'')
      else (True, wc_db st)) = (ok, db)" by fastforce
  obtain ok1 db1 where sc: "set_cells C (take n cs) db = (ok1, db1)" by fastforce
  obtain rc db2 where cm: "sc_commit C db1 = (rc, db2)" by fastforce
  from ap first sc cm have ok: ok ok1 rc and db: "wc_db st' = db2"
    unfolding apply_pf_cache_ToDB_def by (auto split: if_splits)
  have "v db = (if gpfEnable st \<noteq> en then (v (wc_db st))(pf_param_name st \<mapsto> if en = 1 then ''1'' else ''0'') else v (wc_db st))"
  proof (cases "gpfEnable st = en")
    case True
    with first show ?thesis by simp
  next
    case False
    with first have "sc_set C (wc_db st) (pf_param_name st) (if en = 1 then ''1'' else ''0'') = (ok, db)" by simp
    from syscfg_set_view [OF C this] False ok(1) show ?thesis by simp
  qed
  moreover have "v db2 = v db ++ cell_map (take n cs)"
    using syscfg_commit_view [OF C cm] set_cells_view [OF C] sc ok(2) by simp
  ultimately show ?thesis using db by simp
qed

section \<open>The document loop\<close>

text \<open>The code that an entry gives; \<open>None\<close> when it has a null string that the loop reads.\<close>

definition entry_code :: "(string \<Rightarrow> bool) \<Rightarrow> (string \<Rightarrow> bool) \<Rightarrow> portdoc_t \<Rightarrow> blob_code option" where
  "entry_code is_ip4 is_ip6 e =
     (case pd_internal_client e of None \<Rightarrow> None
      | Some ip \<Rightarrow>
          if \<not> CheckIfIpIsValid is_ip4 is_ip6 ip then Some INVALID_IP
          else (case (pd_external_port e, pd_external_port_end_range e) of
              (Some ext, Some end_range) \<Rightarrow>
                if ext = [] \<or> end_range = [] \<or> \<not> CheckIfPortsAreValid ext end_range then Some INVALID_PORT
                else (case (pd_description e, pd_enable e, pd_protocol e) of
                    (Some name, Some enable, Some protocol) \<Rightarrow>
                      Some (if proto_val protocol = None then INVALID_PROTOCOL else BLOB_EXEC_SUCCESS)
                  | _ \<Rightarrow> None)
            | _ \<Rightarrow> None))"

definition single :: "portdoc_t \<Rightarrow> bool" where
  "single e \<longleftrightarrow> pd_external_port e = pd_external_port_end_range e"

definition entry_cells :: "nat \<Rightarrow> nat \<Rightarrow> portdoc_t \<Rightarrow> t_cache list" where
  "entry_cells i n e =
     (let ext = the (pd_external_port e); end_range = the (pd_external_port_end_range e) in
      entry_head i n ext end_range (the (pd_internal_client e)) (the (pd_description e)) (the (pd_enable e))
      @ entry_tail i ext end_range (the (proto_val (the (pd_protocol e)))))"

fun doc_cells :: "portdoc_t list \<Rightarrow> nat \<Rightarrow> nat \<Rightarrow> nat \<Rightarrow> t_cache list" where
  "doc_cells [] i s p = []"
| "doc_cells (e # es) i s p =
     (if single e then entry_cells i (Suc s) e @ doc_cells es (Suc i) (Suc s) p
      else entry_cells i (Suc p) e @ doc_cells es (Suc i) s (Suc p))"

lemma entry_code_Some:
  assumes "entry_code is_ip4 is_ip6 e = Some BLOB_EXEC_SUCCESS"
  obtains ip ext end_range name enable protocol proto where
    "pd_internal_client e = Some ip" "pd_external_port e = Some ext" "pd_external_port_end_range e = Some end_range"
    "pd_description e = Some name" "pd_enable e = Some enable" "pd_protocol e = Some protocol"
    "CheckIfIpIsValid is_ip4 is_ip6 ip" "ext \<noteq> []" "end_range \<noteq> []" "CheckIfPortsAreValid ext end_range"
    "proto_val protocol = Some proto"
  using assms unfolding entry_code_def by (auto split: option.splits if_splits)

lemma fill_entries_good:
  assumes "entry_code is_ip4 is_ip6 e = Some BLOB_EXEC_SUCCESS"
  shows "fill_entries is_ip4 is_ip6 (e # es) i (cache, c, s, p) =
    (let spf = (if single e then Suc s else s); pfr = (if single e then p else Suc p);
         cells = entry_cells i (if single e then spf else pfr) e in
     case write_cells c cells cache of None \<Rightarrow> None
     | Some cache' \<Rightarrow> fill_entries is_ip4 is_ip6 es (Suc i) (cache', c + length cells, spf, pfr))"
  using assms by (rule entry_code_Some) (simp add: single_def entry_cells_def Let_def)

lemma fill_entries_bad:
  assumes "fill_entries is_ip4 is_ip6 (e # es) i (cache, c, s, p) = Some (r, out)"
  shows "entry_code is_ip4 is_ip6 e = Some BLOB_EXEC_SUCCESS \<or> r \<noteq> BLOB_EXEC_SUCCESS \<and> entry_code is_ip4 is_ip6 e = Some r"
  using assms unfolding entry_code_def
  by (auto simp: Let_def split: option.splits if_splits)

lemma write_cells_Some:
  "write_cells c cells cache = Some cache' \<longleftrightarrow>
     c + length cells \<le> length cache \<and> cache' = take c cache @ cells @ drop (c + length cells) cache"
  by (auto simp: write_cells_def)

lemma length_write_cells: "write_cells c cells cache = Some cache' \<Longrightarrow> length cache' = length cache"
  by (auto simp: write_cells_Some)

lemma fill_entries_cells:
  assumes "fill_entries is_ip4 is_ip6 es i (cache, c, s, p) = Some (BLOB_EXEC_SUCCESS, cache', c', s', p')" "c \<le> length cache"
  shows "(\<forall>e \<in> set es. entry_code is_ip4 is_ip6 e = Some BLOB_EXEC_SUCCESS) \<and>
    c' = c + length (doc_cells es i s p) \<and> c' \<le> length cache \<and>
    cache' = take c cache @ doc_cells es i s p @ drop c' cache \<and>
    s' = s + length (filter single es) \<and> p' = p + length (filter (\<lambda>e. \<not> single e) es)"
  using assms
proof (induction es arbitrary: i cache c s p)
  case Nil
  then show ?case by simp
next
  case (Cons e es)
  from fill_entries_bad [OF Cons.prems(1)] have good: "entry_code is_ip4 is_ip6 e = Some BLOB_EXEC_SUCCESS" by blast
  define spf pfr cells where defs: "spf = (if single e then Suc s else s)" "pfr = (if single e then p else Suc p)"
    "cells = entry_cells i (if single e then spf else pfr) e"
  have "(case write_cells c cells cache of None \<Rightarrow> None
      | Some m \<Rightarrow> fill_entries is_ip4 is_ip6 es (Suc i) (m, c + length cells, spf, pfr)) = Some (BLOB_EXEC_SUCCESS, cache', c', s', p')"
    using Cons.prems(1) unfolding fill_entries_good [OF good] by (simp only: Let_def defs)
  then obtain mid where w: "write_cells c cells cache = Some mid"
    and rest: "fill_entries is_ip4 is_ip6 es (Suc i) (mid, c + length cells, spf, pfr) = Some (BLOB_EXEC_SUCCESS, cache', c', s', p')"
    by (cases "write_cells c cells cache") simp_all
  from w have fits: "c + length cells \<le> length cache" and mid: "mid = take c cache @ cells @ drop (c + length cells) cache"
    and len: "length mid = length cache"
    by (auto simp: write_cells_Some)
  from Cons.IH [OF rest] fits len mid good show ?case
    by (auto simp: defs add_ac)
qed

lemma fill_entries_first_bad:
  assumes "fill_entries is_ip4 is_ip6 es i (cache, c, s, p) = Some (r, out)" "r \<noteq> BLOB_EXEC_SUCCESS"
  shows "\<exists>pre e post. es = pre @ e # post \<and> (\<forall>e' \<in> set pre. entry_code is_ip4 is_ip6 e' = Some BLOB_EXEC_SUCCESS) \<and>
    entry_code is_ip4 is_ip6 e = Some r"
  using assms
proof (induction es arbitrary: i cache c s p)
  case Nil
  then show ?case by simp
next
  case (Cons e es)
  show ?case
  proof (cases "entry_code is_ip4 is_ip6 e = Some BLOB_EXEC_SUCCESS")
    case False
    with fill_entries_bad [OF Cons.prems(1)] have "entry_code is_ip4 is_ip6 e = Some r" by blast
    then show ?thesis by (intro exI [of _ "[]"]) auto
  next
    case True
    obtain mid c2 s2 p2 where rest: "fill_entries is_ip4 is_ip6 es (Suc i) (mid, c2, s2, p2) = Some (r, out)"
      using Cons.prems(1) unfolding fill_entries_good [OF True] Let_def by (simp only: split: option.splits) blast
    from Cons.IH [OF rest Cons.prems(2)] obtain pre e1 post where
      "es = pre @ e1 # post" "\<forall>e' \<in> set pre. entry_code is_ip4 is_ip6 e' = Some BLOB_EXEC_SUCCESS"
      "entry_code is_ip4 is_ip6 e1 = Some r" by blast
    with True show ?thesis by (intro exI [of _ "e # pre"] exI [of _ e1] exI [of _ post]) auto
  qed
qed

lemma fill_entries_length:
  "fill_entries is_ip4 is_ip6 es i (cache, c, s, p) = Some (r, cache', out) \<Longrightarrow> length cache' = length cache"
proof (induction es arbitrary: i cache c s p)
  case Nil
  then show ?case by simp
next
  case (Cons e es)
  show ?case
  proof (cases "entry_code is_ip4 is_ip6 e = Some BLOB_EXEC_SUCCESS")
    case True
    obtain cells mid c2 s2 p2 where "write_cells c cells cache = Some mid"
      "fill_entries is_ip4 is_ip6 es (Suc i) (mid, c2, s2, p2) = Some (r, cache', out)"
      using Cons.prems unfolding fill_entries_good [OF True] Let_def by (simp only: split: option.splits) blast
    with Cons.IH show ?thesis by (metis length_write_cells)
  next
    case False
    with Cons.prems show ?thesis unfolding entry_code_def
      by (auto simp: Let_def split: option.splits if_splits dest: length_write_cells)
  qed
qed

text \<open>Valid entries that fit are all written.\<close>

lemma fill_entries_complete:
  assumes "\<forall>e \<in> set es. entry_code is_ip4 is_ip6 e = Some BLOB_EXEC_SUCCESS" "c + length (doc_cells es i s p) \<le> length cache"
  shows "\<exists>out. fill_entries is_ip4 is_ip6 es i (cache, c, s, p) = Some (BLOB_EXEC_SUCCESS, out)"
  using assms
proof (induction es arbitrary: i cache c s p)
  case Nil
  then show ?case by simp
next
  case (Cons e es)
  define spf pfr cells where defs: "spf = (if single e then Suc s else s)" "pfr = (if single e then p else Suc p)"
    "cells = entry_cells i (if single e then spf else pfr) e"
  have good: "entry_code is_ip4 is_ip6 e = Some BLOB_EXEC_SUCCESS" using Cons.prems by simp
  have len: "c + length cells + length (doc_cells es (Suc i) spf pfr) \<le> length cache"
    using Cons.prems(2) by (auto simp: defs)
  then obtain mid where w: "write_cells c cells cache = Some mid" by (simp add: write_cells_def)
  have "\<exists>out. fill_entries is_ip4 is_ip6 es (Suc i) (mid, c + length cells, spf, pfr) = Some (BLOB_EXEC_SUCCESS, out)"
    by (rule Cons.IH) (use Cons.prems len length_write_cells [OF w] in auto)
  then show ?case
    unfolding fill_entries_good [OF good] defs(1,2) [symmetric] Let_def defs(3) [symmetric] w by simp
qed

section \<open>A database in memory\<close>

text \<open>A database whose operations always succeed.\<close>

definition syscfg_total :: "'d syscfg \<Rightarrow> bool" where
  "syscfg_total C \<longleftrightarrow> (\<forall>d k x. fst (sc_set C d k x)) \<and> (\<forall>d k. fst (sc_unset C d k)) \<and> (\<forall>d. fst (sc_commit C d))"

definition mem_syscfg :: "(string \<rightharpoonup> string) syscfg" where
  "mem_syscfg = \<lparr>sc_get = (\<lambda>d k n. map_option (take (n - 1)) (d k)), sc_set = (\<lambda>d k x. (True, d(k \<mapsto> x))),
     sc_unset = (\<lambda>d k. (True, d(k := None))), sc_commit = (\<lambda>d. (True, d))\<rparr>"

lemma mem_syscfg_ok [simp]: "syscfg_ok mem_syscfg id" "syscfg_total mem_syscfg"
  by (simp_all add: syscfg_ok_def syscfg_total_def mem_syscfg_def)

lemma syscfg_totalD:
  assumes "syscfg_total C"
  shows "sc_set C d k x = (ok, d') \<Longrightarrow> ok" "sc_unset C d k = (ok, d') \<Longrightarrow> ok" "sc_commit C d = (ok, d') \<Longrightarrow> ok"
  using assms unfolding syscfg_total_def by (metis fst_conv)+

lemma set_cells_total: "syscfg_total C \<Longrightarrow> fst (set_cells C cs db)"
  by (induction cs arbitrary: db) (auto dest: syscfg_totalD split: prod.splits)

lemma unset_cells_total: "syscfg_total C \<Longrightarrow> unset_cells C n cs db = (ok, out) \<Longrightarrow> ok"
  by (induction C n cs db arbitrary: ok out rule: unset_cells.induct)
    (auto dest: syscfg_totalD split: prod.splits if_splits)

lemma apply_total:
  assumes C: "syscfg_total C" and ap: "apply_pf_cache_ToDB C cs n en st = (ok, st')"
  shows ok
proof -
  obtain ok1 db where first: "(if gpfEnable st \<noteq> en then sc_set C (wc_db st) (pf_param_name st) (if en = 1 then ''1'' else ''0'')
      else (True, wc_db st)) = (ok1, db)" by fastforce
  obtain ok2 db1 where sc: "set_cells C (take n cs) db = (ok2, db1)" by fastforce
  obtain rc db2 where cm: "sc_commit C db1 = (rc, db2)" by fastforce
  have "ok1" using first syscfg_totalD(1) [OF C] by (auto split: if_splits)
  moreover have "ok2" using set_cells_total [OF C, of "take n cs" db] sc by simp
  ultimately show ?thesis
    using ap first sc cm syscfg_totalD(3) [OF C cm] unfolding apply_pf_cache_ToDB_def by simp
qed

lemma clear_total:
  assumes C: "syscfg_total C" and cl: "clear_pf_cache_DB C st = (ok, st')"
  shows ok
proof -
  obtain ok1 cs db where un: "unset_cells C (pf_cache_size st) (pf_cache st) (wc_db st) = (ok1, cs, db)" by (metis prod_cases3)
  obtain rc db1 where cm: "sc_commit C db = (rc, db1)" by fastforce
  show ?thesis
    using cl un cm unset_cells_total [OF C un] syscfg_totalD(3) [OF C cm] by (simp add: clear_pf_cache_DB_def)
qed

end
