(* ===== verification/Pf_WebConfig_Keys.thy ===== *)
theory Pf_WebConfig_Keys
  imports Pf_WebConfig_Table
begin

text \<open>
  The keys of the cells of a document: the cells of an entry carry its number, so that the cells of two entries
  never write the same key, as long as a key fits into its 32 bytes.
\<close>

section \<open>Keys\<close>

definition rule_key :: "portdoc_t \<Rightarrow> nat \<Rightarrow> string" where
  "rule_key e i = (if single e then ''spf_'' else ''pfr_'') @ dec i"

lemma dec_no_colon [simp]: "CHR '':'' \<notin> set (dec n)"
proof
  assume "CHR '':'' \<in> set (dec n)"
  then have "isdigit (CHR '':'')" by (rule dec_isdigit)
  then show False by (simp add: isdigit_def)
qed

lemma split_at_colon:
  "a @ CHR '':'' # x = b @ CHR '':'' # y \<Longrightarrow> CHR '':'' \<notin> set a \<Longrightarrow> CHR '':'' \<notin> set b \<Longrightarrow> a = b \<and> x = y"
  by (induction a arbitrary: b) (auto simp: Cons_eq_append_conv)

lemma rule_key_no_colon [simp]: "CHR '':'' \<notin> set (rule_key e i)"
  by (simp add: rule_key_def)

lemma rule_key_inj: "rule_key e i = rule_key e' j \<Longrightarrow> i = j \<and> single e = single e'"
  by (auto simp: rule_key_def dec_inj split: if_splits)

lemma length_rule_key: "length (rule_key e i) = 4 + length (dec i)"
  by (simp add: rule_key_def)

definition sufs :: "string list" where
  "sufs = [''::external_port'', ''::external_port_range'', ''::public_ip'', ''::internal_port_range_size'', ''::to_ip'',
     ''::name'', ''::enabled'', ''::protocol'', ''::internal_port'', ''::to_ipv6'', ''::prev_rule_enabled_state'']"

lemma sufs_colon: "suf \<in> set sufs \<Longrightarrow> \<exists>x. suf = CHR '':'' # x"
  by (auto simp: sufs_def)

lemma rule_key_suf_inj:
  assumes "rule_key e i @ suf = rule_key e' j @ suf'" "suf \<in> set sufs" "suf' \<in> set sufs"
  shows "i = j" "single e = single e'" "suf = suf'"
proof -
  obtain x where x: "suf = CHR '':'' # x" using sufs_colon [OF assms(2)] by blast
  obtain y where y: "suf' = CHR '':'' # y" using sufs_colon [OF assms(3)] by blast
  have eq: "rule_key e i = rule_key e' j \<and> x = y"
    by (rule split_at_colon [OF assms(1) [unfolded x y]]) simp_all
  then have "i = j \<and> single e = single e'" by (intro rule_key_inj) simp
  with eq x y show "i = j" "single e = single e'" "suf = suf'" by simp_all
qed

text \<open>An entry whose strings are all there, and its key.\<close>

definition full_entry :: "portdoc_t \<Rightarrow> bool" where
  "full_entry e \<longleftrightarrow> pd_external_port e \<noteq> None \<and> pd_external_port_end_range e \<noteq> None"

lemma entry_code_full: "entry_code is_ip4 is_ip6 e = Some BLOB_EXEC_SUCCESS \<Longrightarrow> full_entry e"
  by (erule entry_code_Some) (simp add: full_entry_def)

lemma single_the: "full_entry e \<Longrightarrow> the (pd_external_port e) = the (pd_external_port_end_range e) \<longleftrightarrow> single e"
  by (auto simp: full_entry_def single_def)

lemma entry_pre_key: "full_entry e \<Longrightarrow> entry_pre (the (pd_external_port e)) (the (pd_external_port_end_range e)) @ dec i = rule_key e i"
  by (simp add: entry_pre_def single_the rule_key_def)

text \<open>The cells of an entry on its key: how the key is printed (\<open>sprintf_s\<close> or not), its suffix, the value.\<close>

definition entry_vals :: "portdoc_t \<Rightarrow> (bool \<times> string \<times> string) list" where
  "entry_vals e =
    (if single e then [(True, ''::external_port'', the (pd_external_port e))]
     else [(True, ''::external_port_range'', the (pd_external_port e) @ '' '' @ the (pd_external_port_end_range e)),
           (False, ''::public_ip'', ''0.0.0.0''), (True, ''::internal_port_range_size'', ''0'')])
    @ [(False, ''::to_ip'', the (pd_internal_client e)), (False, ''::name'', the (pd_description e)),
       (False, ''::enabled'', the (pd_enable e)), (False, ''::protocol'', the (proto_val (the (pd_protocol e)))),
       (True, ''::internal_port'', ''0''), (False, ''::to_ipv6'', ''x''), (True, ''::prev_rule_enabled_state'', ''1'')]"

definition val_cell :: "string \<Rightarrow> bool \<times> string \<times> string \<Rightarrow> t_cache" where
  "val_cell key b = (case b of (s, suf, x) \<Rightarrow> if s then cell_s (key @ suf) x else cell (key @ suf) x)"

definition name_key :: "portdoc_t \<Rightarrow> nat \<Rightarrow> string" where
  "name_key e n = (if single e then ''SinglePortForward_'' else ''PortRangeForward_'') @ dec n"

lemma entry_cells_eq:
  assumes "full_entry e"
  shows "entry_cells i n e = cell (name_key e n) (rule_key e i) # map (val_cell (rule_key e i)) (entry_vals e)"
  using entry_pre_key [OF assms, of i] single_the [OF assms]
  unfolding entry_cells_def entry_head_def entry_tail_def entry_vals_def val_cell_def name_key_def Let_def by simp

lemma entry_vals_sufs: "(s, suf, x) \<in> set (entry_vals e) \<Longrightarrow> suf \<in> set sufs \<and> length suf \<le> 26 \<and> (\<not> s \<longrightarrow> length suf \<le> 11)"
  by (auto simp: entry_vals_def sufs_def split: if_splits)

lemma distinct_entry_vals: "distinct (map (\<lambda>(s, suf, x). suf) (entry_vals e))"
  by (simp add: entry_vals_def)

lemma tc_cell [simp]:
  "length s < BLOCK_SIZE \<Longrightarrow> tc_cmd (cell s x) = s" "length s < BLOCK_SIZE \<Longrightarrow> tc_cmd (cell_s s x) = s"
  "tc_val (cell s x) = snprintf VAL_BLOCK_SIZE x" "tc_val (cell_s s x) = snprintf VAL_BLOCK_SIZE x"
  by (simp_all add: cell_def cell_s_def)

lemma tc_val_val_cell [simp]: "tc_val (val_cell key (s, suf, x)) = snprintf VAL_BLOCK_SIZE x"
  by (simp add: val_cell_def)

lemma tc_cmd_val_cell:
  assumes "(s, suf, x) \<in> set (entry_vals e)" "length (dec i) \<le> 3"
  shows "tc_cmd (val_cell (rule_key e i) (s, suf, x)) = rule_key e i @ suf \<or> tc_cmd (val_cell (rule_key e i) (s, suf, x)) = []"
  using entry_vals_sufs [OF assms(1)] assms(2)
  by (cases s) (auto simp: val_cell_def cell_def cell_s_def sprintf_s_def length_rule_key BLOCK_SIZE_def)

lemma tc_cmd_val_cell_short:
  assumes "(s, suf, x) \<in> set (entry_vals e)" "length (dec i) \<le> 3" "4 + length (dec i) + length suf < BLOCK_SIZE"
  shows "tc_cmd (val_cell (rule_key e i) (s, suf, x)) = rule_key e i @ suf"
  using assms by (simp add: val_cell_def length_rule_key)

lemma hd_name_cell: "hd (tc_cmd (cell (name_key e n) x)) = (if single e then CHR ''S'' else CHR ''P'')"
  by (simp add: name_key_def cell_def snprintf_def BLOCK_SIZE_def)

lemma hd_rule_key: "hd (rule_key e i @ suf) = (if single e then CHR ''s'' else CHR ''p'')"
  by (simp add: rule_key_def)

text \<open>Which key a cell of an entry has, and which cell has a key, for numbers of at most three digits.\<close>

lemma entry_cell_key:
  assumes "full_entry e" "c \<in> set (entry_cells i n e)" "length (dec i) \<le> 3"
  shows "tc_cmd c = [] \<or> tc_cmd c = tc_cmd (cell (name_key e n) (rule_key e i)) \<or>
    (\<exists>suf \<in> set sufs. tc_cmd c = rule_key e i @ suf)"
  using assms(2) tc_cmd_val_cell [OF _ assms(3), of _ _ _ e] entry_vals_sufs [of _ _ _ e]
  unfolding entry_cells_eq [OF assms(1)] by fastforce

lemma entry_cell_with_key:
  assumes "full_entry e" "c \<in> set (entry_cells i n e)" "length (dec i) \<le> 3" "tc_cmd c = rule_key e i @ suf" "suf \<in> set sufs"
  shows "\<exists>s x. (s, suf, x) \<in> set (entry_vals e) \<and> tc_val c = snprintf VAL_BLOCK_SIZE x"
proof -
  have "c \<noteq> cell (name_key e n) (rule_key e i)"
    using hd_name_cell [of e n "rule_key e i"] hd_rule_key [of e i suf] assms(4) by (auto split: if_splits)
  with assms(1,2) obtain s suf' x where in_vals: "(s, suf', x) \<in> set (entry_vals e)" and c: "c = val_cell (rule_key e i) (s, suf', x)"
    by (auto simp: entry_cells_eq)
  have "rule_key e i @ suf \<noteq> []" by (simp add: rule_key_def)
  with tc_cmd_val_cell [OF in_vals assms(3)] c assms(4) have "suf' = suf" by auto
  with in_vals c show ?thesis by auto
qed

lemma entry_vals_unique:
  "(s, suf, x) \<in> set (entry_vals e) \<Longrightarrow> (s', suf, y) \<in> set (entry_vals e) \<Longrightarrow> x = y"
  using distinct_entry_vals [of e] by (fastforce simp: distinct_map inj_on_def)

section \<open>The cells of a document\<close>

text \<open>The number of entry \<open>j\<close> among those of its kind.\<close>

definition rank :: "portdoc_t list \<Rightarrow> nat \<Rightarrow> nat" where
  "rank es j = length (filter (\<lambda>e. single e = single (es ! j)) (take (Suc j) es))"

lemma rank_less:
  assumes "j < k" "k < length es" "single (es ! j) = single (es ! k)"
  shows "rank es j < rank es k"
proof -
  let ?f = "filter (\<lambda>e. single e = single (es ! k))"
  let ?rest = "drop (Suc j) (take (Suc k) es)"
  have "take (Suc k) es = take (Suc j) es @ ?rest"
    using append_take_drop_id [of "Suc j" "take (Suc k) es"] assms(1) by (simp add: min_def)
  then have len: "length (?f (take (Suc k) es)) = length (?f (take (Suc j) es)) + length (?f ?rest)"
    by (metis filter_append length_append)
  have "es ! k \<in> set ?rest"
    using assms(1,2) by (auto simp: in_set_conv_nth intro!: exI [of _ "k - Suc j"])
  then have "es ! k \<in> set (?f ?rest)" by simp
  then have "0 < length (?f ?rest)" by (rule length_pos_if_in_set)
  with len have "length (?f (take (Suc j) es)) < length (?f (take (Suc k) es))" by simp
  then show ?thesis using assms(3) by (simp add: rank_def)
qed

lemma rank_inj:
  "j < length es \<Longrightarrow> k < length es \<Longrightarrow> single (es ! j) = single (es ! k) \<Longrightarrow> rank es j = rank es k \<Longrightarrow> j = k"
  using rank_less [of j k es] rank_less [of k j es] by (metis less_irrefl nat_neq_iff)

lemma rank_le: "rank es j \<le> length es"
  unfolding rank_def by (metis length_filter_le length_take min.cobounded1 order_trans)

definition kind_base :: "portdoc_t \<Rightarrow> nat \<Rightarrow> nat \<Rightarrow> nat" where
  "kind_base e s p = (if single e then s else p)"

lemma doc_cells_set:
  "set (doc_cells es i s p) = (\<Union>j < length es. set (entry_cells (i + j) (kind_base (es ! j) s p + rank es j) (es ! j)))"
proof (induction es arbitrary: i s p)
  case Nil
  then show ?case by simp
next
  case (Cons e es)
  let ?s = "if single e then Suc s else s" and ?p = "if single e then p else Suc p"
  have "kind_base (es ! j) ?s ?p + rank es j = kind_base (es ! j) s p + rank (e # es) (Suc j)" for j
    by (simp add: kind_base_def rank_def)
  then have tail: "set (doc_cells es (Suc i) ?s ?p) =
      (\<Union>j < length es. set (entry_cells (i + Suc j) (kind_base ((e # es) ! Suc j) s p + rank (e # es) (Suc j)) ((e # es) ! Suc j)))"
    unfolding Cons.IH by simp
  have head: "set (doc_cells (e # es) i s p) =
      set (entry_cells (i + 0) (kind_base ((e # es) ! 0) s p + rank (e # es) 0) ((e # es) ! 0)) \<union> set (doc_cells es (Suc i) ?s ?p)"
    by (simp add: kind_base_def rank_def)
  have "{..< length (e # es)} = insert 0 (Suc ` {..< length es})" by (simp add: lessThan_Suc_eq_insert_0)
  then show ?case unfolding head tail by simp
qed

lemma name_cell_key:
  assumes "full_entry e" "c \<in> set (entry_cells i n e)" "length (dec i) \<le> 3" "tc_cmd c = tc_cmd (cell (name_key e' m) x)"
  shows "c = cell (name_key e n) (rule_key e i)"
proof (rule ccontr)
  assume "c \<noteq> cell (name_key e n) (rule_key e i)"
  with assms(1,2) obtain s suf y where y: "(s, suf, y) \<in> set (entry_vals e)" "c = val_cell (rule_key e i) (s, suf, y)"
    by (auto simp: entry_cells_eq)
  have "tc_cmd c \<noteq> []" using assms(4) by (simp add: cell_def name_key_def snprintf_def BLOCK_SIZE_def)
  with tc_cmd_val_cell [OF y(1) assms(3)] y(2) have "tc_cmd c = rule_key e i @ suf" by auto
  with assms(4) hd_name_cell [of e' m x] hd_rule_key [of e i suf] show False by (auto split: if_splits)
qed

lemma name_key_inj:
  assumes "m < 1000" "n < 1000" "tc_cmd (cell (name_key e m) x) = tc_cmd (cell (name_key e' n) y)"
  shows "single e = single e' \<and> m = n"
proof -
  have "length (name_key e m) < BLOCK_SIZE" "length (name_key e' n) < BLOCK_SIZE"
    using length_dec [of m 3] length_dec [of n 3] assms(1,2) by (auto simp: name_key_def BLOCK_SIZE_def)
  with assms(3) have "name_key e m = name_key e' n" by simp
  then show ?thesis by (auto simp: name_key_def dec_inj split: if_splits)
qed

text \<open>Two cells of a document with the same key have the same value, the empty key apart.\<close>

lemma doc_cells_consistent:
  assumes full: "\<And>e. e \<in> set es \<Longrightarrow> full_entry e" and small: "length es < 500"
    and cc: "c \<in> set (doc_cells es 1 0 0)" "c' \<in> set (doc_cells es 1 0 0)" and same: "tc_cmd c' = tc_cmd c" "tc_cmd c \<noteq> []"
  shows "tc_val c' = tc_val c"
proof -
  obtain j where j: "j < length es" "c \<in> set (entry_cells (Suc j) (rank es j) (es ! j))"
    using cc(1) by (auto simp: doc_cells_set kind_base_def)
  obtain k where k: "k < length es" "c' \<in> set (entry_cells (Suc k) (rank es k) (es ! k))"
    using cc(2) by (auto simp: doc_cells_set kind_base_def)
  have fj: "full_entry (es ! j)" and fk: "full_entry (es ! k)" using full j(1) k(1) by auto
  have dj: "length (dec (Suc j)) \<le> 3" and dk: "length (dec (Suc k)) \<le> 3"
    using length_dec [of "Suc j" 3] length_dec [of "Suc k" 3] j(1) k(1) small by auto
  from entry_cell_key [OF fj j(2) dj] same(2) consider
    (name) "tc_cmd c = tc_cmd (cell (name_key (es ! j) (rank es j)) (rule_key (es ! j) (Suc j)))"
    | (suf) suf where "suf \<in> set sufs" "tc_cmd c = rule_key (es ! j) (Suc j) @ suf" by blast
  then show ?thesis
  proof cases
    case name
    have c: "c = cell (name_key (es ! j) (rank es j)) (rule_key (es ! j) (Suc j))" by (rule name_cell_key [OF fj j(2) dj name])
    have c': "c' = cell (name_key (es ! k) (rank es k)) (rule_key (es ! k) (Suc k))"
      by (rule name_cell_key [OF fk k(2) dk]) (use same name in simp)
    have "rank es j < 1000" "rank es k < 1000" using rank_le [of es j] rank_le [of es k] small by linarith+
    then have "single (es ! j) = single (es ! k) \<and> rank es j = rank es k"
      using name_key_inj same(1) unfolding c c' by metis
    then have "j = k" using rank_inj j(1) k(1) by blast
    with c c' show ?thesis by simp
  next
    case suf
    have "hd (tc_cmd c') \<noteq> CHR ''S''" "hd (tc_cmd c') \<noteq> CHR ''P''" using same(1) suf(2) by (simp_all add: rule_key_def)
    with entry_cell_key [OF fk k(2) dk] same obtain suf' where
      suf': "suf' \<in> set sufs" "tc_cmd c' = rule_key (es ! k) (Suc k) @ suf'"
      using hd_name_cell by (metis (full_types))
    have "rule_key (es ! j) (Suc j) @ suf = rule_key (es ! k) (Suc k) @ suf'" using suf(2) suf'(2) same(1) by simp
    from rule_key_suf_inj [OF this suf(1) suf'(1)] have eq: "k = j" "suf' = suf" by simp_all
    obtain s x where x: "(s, suf, x) \<in> set (entry_vals (es ! j))" "tc_val c = snprintf VAL_BLOCK_SIZE x"
      using entry_cell_with_key [OF fj j(2) dj suf(2,1)] by blast
    obtain s' x' where x': "(s', suf, x') \<in> set (entry_vals (es ! j))" "tc_val c' = snprintf VAL_BLOCK_SIZE x'"
      using entry_cell_with_key [OF fk k(2) dk suf'(2,1)] eq by blast
    from entry_vals_unique [OF x(1) x'(1)] x(2) x'(2) show ?thesis by simp
  qed
qed

lemma length_entry_cells: "full_entry e \<Longrightarrow> 9 \<le> length (entry_cells i n e)"
  by (simp add: entry_cells_eq entry_vals_def)

lemma length_doc_cells: "(\<And>e. e \<in> set es \<Longrightarrow> full_entry e) \<Longrightarrow> 9 * length es \<le> length (doc_cells es i s p)"
proof (induction es i s p rule: doc_cells.induct)
  case (2 e es i s p)
  then show ?case
    using length_entry_cells [of e i "Suc s"] length_entry_cells [of e i "Suc p"] by auto
qed simp

lemma count_cell_fresh:
  assumes "c \<in> set (count_cells s p)" "c' \<in> set (entry_cells i n e)" "full_entry e" "length (dec i) \<le> 3"
  shows "tc_cmd c' \<noteq> tc_cmd c"
proof
  assume eq: "tc_cmd c' = tc_cmd c"
  have key: "tc_cmd c = ''SinglePortForwardCount'' \<or> tc_cmd c = ''PortRangeForwardCount''"
    using assms(1) by (auto simp: count_cells_def BLOCK_SIZE_def)
  have "tc_cmd (cell (name_key e n) x) \<noteq> ''SinglePortForwardCount''" "tc_cmd (cell (name_key e n) x) \<noteq> ''PortRangeForwardCount''" for x
    by (simp_all add: cell_def name_key_def snprintf_def BLOCK_SIZE_def)
  moreover have "rule_key e i @ suf \<noteq> ''SinglePortForwardCount''" "rule_key e i @ suf \<noteq> ''PortRangeForwardCount''" for suf
    by (simp_all add: rule_key_def)
  ultimately show False using entry_cell_key [OF assms(3,2,4)] eq key by auto
qed

end
