(* ===== verification/Pf_WebConfig_Steps.thy ===== *)
theory Pf_WebConfig_Steps
  imports Pf_WebConfig_Keys
begin

text \<open>
  The steps of the port forwarding blob, put together: the state after an accepted document, after a bad one, and
  after a rollback.
\<close>

section \<open>The transaction\<close>

definition blob_cells :: "portmappingdoc_t \<Rightarrow> t_cache list" where
  "blob_cells rpm = (let es = pmd_entries rpm in
     doc_cells es 1 0 0 @ count_cells (length (filter single es)) (length (filter (\<lambda>e. \<not> single e) es)))"

lemma length_count_cells [simp]: "length (count_cells s p) = 2"
  by (simp add: count_cells_def)

definition cached :: "'d wc_state \<Rightarrow> t_cache list" where
  "cached st = take (pf_cache_size st) (pf_cache st)"

text \<open>The arrays have their size, hold the cells, and each text fits into its field.\<close>

definition fits :: "t_cache \<Rightarrow> bool" where
  "fits c \<longleftrightarrow> length (tc_cmd c) < BLOCK_SIZE \<and> length (tc_val c) < VAL_BLOCK_SIZE"

definition wc_wf :: "'d wc_state \<Rightarrow> bool" where
  "wc_wf st \<longleftrightarrow> length (pf_cache st) = PORTMAP_CACHE_SIZE \<and> length (pf_cache_bkup st) = PORTMAP_CACHE_SIZE \<and>
     pf_cache_size st \<le> PORTMAP_CACHE_SIZE \<and> list_all fits (cached st)"

text \<open>The database holds the value of every cached cell; the empty key stands for keys that did not fit.\<close>

definition wc_synced :: "('d \<Rightarrow> string \<Rightarrow> string option) \<Rightarrow> 'd wc_state \<Rightarrow> bool" where
  "wc_synced v st \<longleftrightarrow> (\<forall>c \<in> set (cached st). tc_cmd c \<noteq> [] \<longrightarrow> v (wc_db st) (tc_cmd c) = Some (tc_val c))"

lemma fits_cells: "fits (cell s x)" "fits (cell_s s x)"
  by (auto simp: fits_def cell_def cell_s_def sprintf_s_def block_sizes intro: length_snprintf)

lemma fits_entry_cells: "full_entry e \<Longrightarrow> list_all fits (entry_cells i n e)"
  by (auto simp: entry_cells_eq val_cell_def fits_cells list_all_iff split: prod.splits)

lemma fits_doc_cells: "(\<And>e. e \<in> set es \<Longrightarrow> full_entry e) \<Longrightarrow> list_all fits (doc_cells es i s p)"
  by (induction es i s p rule: doc_cells.induct) (auto simp: fits_entry_cells)

lemma copy_cell_fits: "fits c \<Longrightarrow> copy_cell c = c"
  by (simp add: fits_def copy_cell_def)

lemma map_copy_fits: "list_all fits cs \<Longrightarrow> map copy_cell cs = cs"
  by (induction cs) (auto simp: copy_cell_fits)

lemma set_portmap_conf_ok:
  assumes "set_portmap_conf is_ip4 is_ip6 rpm st = Some (BLOB_EXEC_SUCCESS, st')"
  shows "(\<forall>e \<in> set (pmd_entries rpm). entry_code is_ip4 is_ip6 e = Some BLOB_EXEC_SUCCESS) \<and>
    length (blob_cells rpm) \<le> length (pf_cache st) \<and>
    st' = st\<lparr>pf_cache := blob_cells rpm @ drop (length (blob_cells rpm)) (pf_cache st), pf_cache_size := length (blob_cells rpm)\<rparr>"
proof -
  obtain cache c s p cache' where fill: "fill_entries is_ip4 is_ip6 (pmd_entries rpm) 1 (pf_cache st, 0, 0, 0) =
      Some (BLOB_EXEC_SUCCESS, cache, c, s, p)"
    and w: "write_cells c (count_cells s p) cache = Some cache'"
    and st': "st' = st\<lparr>pf_cache := cache', pf_cache_size := c + 2\<rparr>"
    using assms unfolding set_portmap_conf_def by (auto split: option.splits if_splits)
  from fill_entries_cells [OF fill] w show ?thesis
    by (auto simp: st' blob_cells_def Let_def write_cells_Some)
qed

lemma set_portmap_conf_bad:
  assumes "set_portmap_conf is_ip4 is_ip6 rpm st = Some (r, st')" "r \<noteq> BLOB_EXEC_SUCCESS"
  shows "\<exists>pre e post. pmd_entries rpm = pre @ e # post \<and>
      (\<forall>e' \<in> set pre. entry_code is_ip4 is_ip6 e' = Some BLOB_EXEC_SUCCESS) \<and> entry_code is_ip4 is_ip6 e = Some r"
    "\<exists>cache. st' = st\<lparr>pf_cache := cache\<rparr> \<and> length cache = length (pf_cache st)"
proof -
  obtain cache out where fill: "fill_entries is_ip4 is_ip6 (pmd_entries rpm) 1 (pf_cache st, 0, 0, 0) = Some (r, cache, out)"
    and st': "st' = st\<lparr>pf_cache := cache\<rparr>"
    using assms unfolding set_portmap_conf_def by (auto split: option.splits if_splits)
  from fill_entries_first_bad [OF fill assms(2)] show "\<exists>pre e post. pmd_entries rpm = pre @ e # post \<and>
      (\<forall>e' \<in> set pre. entry_code is_ip4 is_ip6 e' = Some BLOB_EXEC_SUCCESS) \<and> entry_code is_ip4 is_ip6 e = Some r" .
  from fill_entries_length [OF fill] st' show "\<exists>cache. st' = st\<lparr>pf_cache := cache\<rparr> \<and> length cache = length (pf_cache st)" by blast
qed

text \<open>The state before the old rules are removed.\<close>

abbreviation backed_up :: "'d wc_state \<Rightarrow> 'd wc_state" where
  "backed_up st \<equiv> st\<lparr>pf_cache_bkup := backup_pf_cache st (pf_cache st) (pf_cache_bkup st) (pf_cache_size st),
                     pf_cache_size_bkup := pf_cache_size st\<rparr>"

lemma take_backup:
  "wc_wf st \<Longrightarrow> take (pf_cache_size st) (backup_pf_cache st (pf_cache st) bk n) = cached st"
  by (simp add: backup_pf_cache_def wc_wf_def cached_def map_copy_fits)

lemma entry_code_not_failure: "entry_code is_ip4 is_ip6 e \<noteq> Some SYSCFG_FAILURE"
  by (auto simp: entry_code_def split: option.splits)

lemma set_portmap_conf_no_failure: "set_portmap_conf is_ip4 is_ip6 rpm st = Some (r, st') \<Longrightarrow> r \<noteq> SYSCFG_FAILURE"
  using set_portmap_conf_bad(1) [of is_ip4 is_ip6 rpm st r st'] entry_code_not_failure by (metis blob_code.distinct(9))

lemma process_ok:
  assumes C: "syscfg_ok C v" and wf: "wc_wf st"
    and pr: "Process_PF_WebConfigRequest C is_ip4 is_ip6 True rpm st = Some (Some BLOB_EXEC_SUCCESS, st')"
  shows "(\<forall>e \<in> set (pmd_entries rpm). entry_code is_ip4 is_ip6 e = Some BLOB_EXEC_SUCCESS) \<and>
    cached st' = blob_cells rpm \<and> wc_wf st' \<and> gpfEnable st' = (if pmd_entries rpm = [] then 0 else 1) \<and>
    (\<exists>m. v (wc_db st') = m ++ cell_map (blob_cells rpm)) \<and>
    take (pf_cache_size_bkup st') (pf_cache_bkup st') = cached st"
proof -
  obtain st2 where cl: "clear_pf_cache_DB C (backed_up st) = (True, st2)"
    using pr unfolding Process_PF_WebConfigRequest_def Let_def by (auto split: prod.splits if_splits)
  obtain r st3 where sp: "set_portmap_conf is_ip4 is_ip6 rpm st2 = Some (r, st3)"
    using pr cl unfolding Process_PF_WebConfigRequest_def Let_def by (auto split: option.splits)
  have r: "r = BLOB_EXEC_SUCCESS"
    using pr cl sp unfolding Process_PF_WebConfigRequest_def Let_def by (auto split: if_splits)
  let ?en = "if 0 < length (pmd_entries rpm) then 1 else 0"
  obtain ok st4 where ap: "apply_pf_cache_ToDB C (pf_cache st3) (pf_cache_size st3) ?en st3 = (ok, st4)" by fastforce
  have ok: "ok" and st': "st' = st4\<lparr>gpfEnable := ?en\<rparr>"
    using pr cl sp r ap unfolding Process_PF_WebConfigRequest_def Let_def by (auto split: if_splits)
  from ap ok have ap': "apply_pf_cache_ToDB C (pf_cache st3) (pf_cache_size st3) ?en st3 = (True, st4)" by simp
  have size: "pf_cache_size (backed_up st) \<le> length (pf_cache (backed_up st))" using wf by (simp add: wc_wf_def)
  note st2 = clear_pf_cache_DB_view [OF C size cl]
  note conf = set_portmap_conf_ok [OF sp [unfolded r]]
  then have good: "\<forall>e \<in> set (pmd_entries rpm). entry_code is_ip4 is_ip6 e = Some BLOB_EXEC_SUCCESS"
    and len: "length (blob_cells rpm) \<le> PORTMAP_CACHE_SIZE"
    and st3: "st3 = st2\<lparr>pf_cache := blob_cells rpm @ drop (length (blob_cells rpm)) (pf_cache st2), pf_cache_size := length (blob_cells rpm)\<rparr>"
    using st2(2) wf by (simp_all add: wc_wf_def)
  note st4 = apply_pf_cache_ToDB_frame [OF ap']
  have cached: "cached st' = blob_cells rpm" by (simp add: cached_def st' st4 st3)
  have "list_all fits (doc_cells (pmd_entries rpm) 1 0 0)"
    by (rule fits_doc_cells) (use good entry_code_full in blast)
  then have "list_all fits (blob_cells rpm)"
    by (simp add: blob_cells_def Let_def count_cells_def fits_cells)
  then have "wc_wf st'"
    using cached wf len st2(2,4) by (simp add: wc_wf_def st' st4 st3 backup_pf_cache_def)
  moreover have "\<exists>m. v (wc_db st') = m ++ cell_map (blob_cells rpm)"
    using apply_pf_cache_ToDB_view [OF C ap'] by (auto simp: st' st3)
  moreover have "take (pf_cache_size_bkup st') (pf_cache_bkup st') = cached st"
    using take_backup [OF wf] st2(4,5) by (simp add: st' st4 st3)
  ultimately show ?thesis using good cached by (simp add: st')
qed

lemma process_bad:
  assumes C: "syscfg_ok C v" and wf: "wc_wf st"
    and pr: "Process_PF_WebConfigRequest C is_ip4 is_ip6 True rpm st = Some (Some r, st')"
    and r: "r \<in> {INVALID_IP, INVALID_PORT, INVALID_PROTOCOL}"
  shows "(\<exists>pre e post. pmd_entries rpm = pre @ e # post \<and>
      (\<forall>e' \<in> set pre. entry_code is_ip4 is_ip6 e' = Some BLOB_EXEC_SUCCESS) \<and> entry_code is_ip4 is_ip6 e = Some r)"
    "v (wc_db st') = without (cell_keys (cached st)) (v (wc_db st))" "pf_cache_size st' = pf_cache_size st"
    "gpfEnable st' = gpfEnable st" "take (pf_cache_size_bkup st') (pf_cache_bkup st') = cached st"
    "pf_cache_size_bkup st' = pf_cache_size st"
    "length (pf_cache_bkup st') = PORTMAP_CACHE_SIZE" "length (pf_cache st') = PORTMAP_CACHE_SIZE"
proof -
  obtain st2 where cl: "clear_pf_cache_DB C (backed_up st) = (True, st2)"
    using pr r unfolding Process_PF_WebConfigRequest_def Let_def by (auto split: prod.splits if_splits)
  obtain r' st3 where sp: "set_portmap_conf is_ip4 is_ip6 rpm st2 = Some (r', st3)"
    using pr cl unfolding Process_PF_WebConfigRequest_def Let_def by (auto split: option.splits)
  have "r' = r \<and> st3 = st'"
    using pr cl sp r unfolding Process_PF_WebConfigRequest_def Let_def by (auto split: if_splits prod.splits)
  with sp r have sp: "set_portmap_conf is_ip4 is_ip6 rpm st2 = Some (r, st')" and "r \<noteq> BLOB_EXEC_SUCCESS" by auto
  from set_portmap_conf_bad [OF this] obtain cache where
    bad: "\<exists>pre e post. pmd_entries rpm = pre @ e # post \<and>
      (\<forall>e' \<in> set pre. entry_code is_ip4 is_ip6 e' = Some BLOB_EXEC_SUCCESS) \<and> entry_code is_ip4 is_ip6 e = Some r"
    and st': "st' = st2\<lparr>pf_cache := cache\<rparr>" and len: "length cache = length (pf_cache st2)" by blast
  have size: "pf_cache_size (backed_up st) \<le> length (pf_cache (backed_up st))" using wf by (simp add: wc_wf_def)
  note st2 = clear_pf_cache_DB_view [OF C size cl]
  show "(\<exists>pre e post. pmd_entries rpm = pre @ e # post \<and>
      (\<forall>e' \<in> set pre. entry_code is_ip4 is_ip6 e' = Some BLOB_EXEC_SUCCESS) \<and> entry_code is_ip4 is_ip6 e = Some r)" by (rule bad)
  show "v (wc_db st') = without (cell_keys (cached st)) (v (wc_db st))" "pf_cache_size st' = pf_cache_size st"
    "gpfEnable st' = gpfEnable st" "take (pf_cache_size_bkup st') (pf_cache_bkup st') = cached st"
    "pf_cache_size_bkup st' = pf_cache_size st"
    "length (pf_cache_bkup st') = PORTMAP_CACHE_SIZE" "length (pf_cache st') = PORTMAP_CACHE_SIZE"
    using st2 len take_backup [OF wf] wf by (simp_all add: st' cached_def wc_wf_def backup_pf_cache_def)
qed

lemma rollback_ok:
  assumes C: "syscfg_ok C v" and rb: "rollback_PortForwarding C st = (True, st')"
  shows "v (wc_db st') = v (wc_db st) ++ cell_map (take (pf_cache_size_bkup st) (pf_cache_bkup st))"
    "pf_cache_size st' = pf_cache_size_bkup st"
    "pf_cache st' = map copy_cell (take (pf_cache_size st) (pf_cache_bkup st)) @ drop (pf_cache_size st) (pf_cache st)"
    "pf_cache_bkup st' = pf_cache_bkup st" "gpfEnable st' = gpfEnable st"
proof -
  obtain st1 where ap: "apply_pf_cache_ToDB C (pf_cache_bkup st) (pf_cache_size_bkup st) (gpfEnable st) st = (True, st1)"
    and st': "st' = st1\<lparr>pf_cache := backup_pf_cache st1 (pf_cache_bkup st1) (pf_cache st1) (pf_cache_size_bkup st1),
                      pf_cache_size := pf_cache_size_bkup st1\<rparr>"
    using rb by (auto simp: rollback_PortForwarding_def Let_def split: prod.splits)
  note frame = apply_pf_cache_ToDB_frame [OF ap]
  show "v (wc_db st') = v (wc_db st) ++ cell_map (take (pf_cache_size_bkup st) (pf_cache_bkup st))"
    using apply_pf_cache_ToDB_view [OF C ap] by (simp add: st')
  show "pf_cache_size st' = pf_cache_size_bkup st"
    "pf_cache st' = map copy_cell (take (pf_cache_size st) (pf_cache_bkup st)) @ drop (pf_cache_size st) (pf_cache st)"
    "pf_cache_bkup st' = pf_cache_bkup st" "gpfEnable st' = gpfEnable st"
    using frame by (simp_all add: st' backup_pf_cache_def)
qed

section \<open>With a database that works\<close>

lemma process_total:
  fixes C :: "'d syscfg"
  assumes C: "syscfg_total C" and v: "syscfg_ok C v" and wf: "wc_wf st"
    and sp: "\<And>st2 :: 'd wc_state. length (pf_cache st2) = PORTMAP_CACHE_SIZE \<Longrightarrow> \<exists>st3. set_portmap_conf is_ip4 is_ip6 rpm st2 = Some (r, st3)"
  shows "\<exists>st'. Process_PF_WebConfigRequest C is_ip4 is_ip6 True rpm st = Some (Some r, st')"
proof -
  obtain ok st2 where "clear_pf_cache_DB C (backed_up st) = (ok, st2)" by fastforce
  with clear_total [OF C this] have cl: "clear_pf_cache_DB C (backed_up st) = (True, st2)" by simp
  have "length (pf_cache st2) = PORTMAP_CACHE_SIZE"
    using clear_pf_cache_DB_view(2) [OF v _ cl] wf by (simp add: wc_wf_def)
  with sp obtain st3 where sp: "set_portmap_conf is_ip4 is_ip6 rpm st2 = Some (r, st3)" by blast
  let ?en = "if 0 < length (pmd_entries rpm) then 1 else 0"
  obtain ok st4 where "apply_pf_cache_ToDB C (pf_cache st3) (pf_cache_size st3) ?en st3 = (ok, st4)" by fastforce
  with apply_total [OF C this] have ap: "apply_pf_cache_ToDB C (pf_cache st3) (pf_cache_size st3) ?en st3 = (True, st4)" by simp
  show ?thesis
    unfolding Process_PF_WebConfigRequest_def Let_def using cl sp ap by (cases "r = BLOB_EXEC_SUCCESS") simp_all
qed

lemma set_portmap_conf_complete:
  assumes "\<forall>e \<in> set (pmd_entries rpm). entry_code is_ip4 is_ip6 e = Some BLOB_EXEC_SUCCESS"
    and "length (blob_cells rpm) \<le> length (pf_cache st)"
  shows "\<exists>st'. set_portmap_conf is_ip4 is_ip6 rpm st = Some (BLOB_EXEC_SUCCESS, st')"
proof -
  have "0 + length (doc_cells (pmd_entries rpm) 1 0 0) \<le> length (pf_cache st)"
    using assms(2) by (simp add: blob_cells_def Let_def)
  from fill_entries_complete [OF assms(1) this] obtain cache c s p where
    fill: "fill_entries is_ip4 is_ip6 (pmd_entries rpm) 1 (pf_cache st, 0, 0, 0) = Some (BLOB_EXEC_SUCCESS, cache, c, s, p)"
    by (metis prod_cases4)
  note cells = fill_entries_cells [OF fill le0]
  then have "c = length (doc_cells (pmd_entries rpm) 1 0 0)" "length cache = length (pf_cache st)"
    using fill_entries_length [OF fill] by auto
  then have "c + length (count_cells s p) \<le> length cache" using assms(2) by (simp add: blob_cells_def Let_def)
  then obtain cache' where "write_cells c (count_cells s p) cache = Some cache'" by (simp add: write_cells_def)
  with fill show ?thesis by (simp add: set_portmap_conf_def)
qed

lemma set_portmap_conf_first_bad:
  assumes "pmd_entries rpm = e # es" "entry_code is_ip4 is_ip6 e = Some r" "r \<in> {INVALID_IP, INVALID_PORT}"
  shows "\<exists>st'. set_portmap_conf is_ip4 is_ip6 rpm st = Some (r, st')"
proof -
  have "\<exists>out. fill_entries is_ip4 is_ip6 (e # es) 1 (pf_cache st, 0, 0, 0) = Some (r, out)"
    using assms(2,3) unfolding entry_code_def by (auto split: option.splits if_splits)
  with assms(1,3) show ?thesis by (auto simp: set_portmap_conf_def)
qed

lemma rollback_total:
  "syscfg_total C \<Longrightarrow> \<exists>st'. rollback_PortForwarding C st = (True, st')"
  using apply_total [of C] by (auto simp: rollback_PortForwarding_def Let_def split: prod.splits)

lemma length_entry_cells_le: "full_entry e \<Longrightarrow> length (entry_cells i n e) \<le> 11"
  by (simp add: entry_cells_eq entry_vals_def)

lemma length_doc_cells_le: "(\<And>e. e \<in> set es \<Longrightarrow> full_entry e) \<Longrightarrow> length (doc_cells es i s p) \<le> 11 * length es"
proof (induction es i s p rule: doc_cells.induct)
  case (2 e es i s p)
  then show ?case
    using length_entry_cells_le [of e i "Suc s"] length_entry_cells_le [of e i "Suc p"] by auto
qed simp

lemma blob_accepted:
  fixes C :: "'d syscfg"
  assumes "syscfg_total C" "syscfg_ok C v" "wc_wf st"
    and good: "\<forall>e \<in> set (pmd_entries rpm). entry_code is_ip4 is_ip6 e = Some BLOB_EXEC_SUCCESS"
    and "length (pmd_entries rpm) \<le> 92"
  shows "\<exists>st'. Process_PF_WebConfigRequest C is_ip4 is_ip6 True rpm st = Some (Some BLOB_EXEC_SUCCESS, st')"
proof (rule process_total [OF assms(1-3)])
  fix st2 :: "'d wc_state"
  assume "length (pf_cache st2) = PORTMAP_CACHE_SIZE"
  moreover have "length (doc_cells (pmd_entries rpm) 1 0 0) \<le> 11 * length (pmd_entries rpm)"
    by (rule length_doc_cells_le) (use good entry_code_full in blast)
  ultimately show "\<exists>st3. set_portmap_conf is_ip4 is_ip6 rpm st2 = Some (BLOB_EXEC_SUCCESS, st3)"
    using assms(5) by (intro set_portmap_conf_complete [OF good]) (simp add: blob_cells_def Let_def PORTMAP_CACHE_SIZE_def)
qed

section \<open>An example\<close>

definition ex_ip :: "string \<Rightarrow> bool" where
  "ex_ip s \<longleftrightarrow> s = ''10.0.0.5''"

definition ex_rule :: "string \<Rightarrow> string \<Rightarrow> portdoc_t" where
  "ex_rule ip end_range = \<lparr>pd_internal_client = Some ip, pd_enable = Some ''true'', pd_external_port_end_range = Some end_range,
     pd_protocol = Some ''TCP'', pd_description = Some ''web'', pd_external_port = Some ''80''\<rparr>"

definition ex_doc :: "portdoc_t list \<Rightarrow> portmappingdoc_t" where
  "ex_doc es = \<lparr>pmd_entries = es, pmd_subdoc_name = ''portforwarding'', pmd_version = 1, pmd_transaction_id = 1\<rparr>"

definition ex_wc :: "t_cache list \<Rightarrow> (string \<rightharpoonup> string) \<Rightarrow> (string \<rightharpoonup> string) wc_state" where
  "ex_wc cells db = \<lparr>pf_cache = cells @ replicate (1024 - length cells) blank, pf_cache_bkup = replicate 1024 blank,
     pf_cache_size = length cells, pf_cache_size_bkup = 0, pf_param_name = [], gpfEnable = 0, wc_db = db, firewall_restarts = 0\<rparr>"

lemma ex_rule_code:
  "entry_code ex_ip ex_ip (ex_rule ''10.0.0.5'' ''80'') = Some BLOB_EXEC_SUCCESS"
  "entry_code ex_ip ex_ip (ex_rule ''10.0.0.5'' ''90'') = Some BLOB_EXEC_SUCCESS"
  "entry_code ex_ip ex_ip (ex_rule ''x'' ''80'') = Some INVALID_IP"
  by (simp_all add: entry_code_def ex_rule_def CheckIfIpIsValid_def ex_ip_def CheckIfPortsAreValid_def atoi_def isspace_def
      isdigit_def digit_val_def proto_val_def strcaseeq_def tolower_def)

lemma ex_wc_wf: "length cells \<le> 1024 \<Longrightarrow> list_all fits cells \<Longrightarrow> wc_wf (ex_wc cells db)"
  by (simp add: wc_wf_def ex_wc_def cached_def PORTMAP_CACHE_SIZE_def)

lemma single_ex_rule: "single (ex_rule ip end_range) \<longleftrightarrow> end_range = ''80''"
  by (auto simp: single_def ex_rule_def)

lemma ex_cached [simp]: "cached (ex_wc cells db) = cells"
  by (simp add: cached_def ex_wc_def)

lemma ex_wc_db [simp]: "wc_db (ex_wc cells db) = db"
  by (simp add: ex_wc_def)

lemma ex_bad_doc:
  fixes C :: "'d syscfg"
  assumes "syscfg_total C" "syscfg_ok C v" "wc_wf st"
  shows "\<exists>st1 st2. Process_PF_WebConfigRequest C ex_ip ex_ip True (ex_doc [ex_rule ''x'' ''80'']) st = Some (Some INVALID_IP, st1) \<and>
    rollback_PortForwarding C st1 = (True, st2)"
proof -
  have "\<exists>st1. Process_PF_WebConfigRequest C ex_ip ex_ip True (ex_doc [ex_rule ''x'' ''80'']) st = Some (Some INVALID_IP, st1)"
  proof (rule process_total [OF assms])
    fix st2 :: "'d wc_state"
    show "\<exists>st3. set_portmap_conf ex_ip ex_ip (ex_doc [ex_rule ''x'' ''80'']) st2 = Some (INVALID_IP, st3)"
      by (rule set_portmap_conf_first_bad [where e = "ex_rule ''x'' ''80''" and es = "[]"]) (simp_all add: ex_doc_def ex_rule_code)
  qed
  with rollback_total [OF assms(1)] show ?thesis by blast
qed

lemma ex_accepted:
  assumes "length es \<le> 92" "set es \<subseteq> {ex_rule ''10.0.0.5'' ''80'', ex_rule ''10.0.0.5'' ''90''}"
  shows "\<exists>st'. Process_PF_WebConfigRequest mem_syscfg ex_ip ex_ip True (ex_doc es) (ex_wc [] Map.empty) =
    Some (Some BLOB_EXEC_SUCCESS, st')"
proof (rule blob_accepted [OF mem_syscfg_ok(2,1)])
  show "\<forall>e \<in> set (pmd_entries (ex_doc es)). entry_code ex_ip ex_ip e = Some BLOB_EXEC_SUCCESS"
    using assms(2) ex_rule_code by (auto simp: ex_doc_def)
  show "length (pmd_entries (ex_doc es)) \<le> 92" using assms(1) by (simp add: ex_doc_def)
qed (simp_all add: ex_wc_wf)

end
