(* ===== verification/Pf_WebConfig_Props.thy ===== *)
theory Pf_WebConfig_Props
  imports Pf_WebConfig_Steps
begin

text \<open>
  The port forwarding blob: what an accepted document leaves in the database, which error a bad one gets, what
  the rollback restores, and the reader that accepts entries with null strings.
\<close>

section \<open>What an accepted document stores\<close>

text \<open>Rule number \<open>i\<close> reads back from the database under its key.\<close>

definition rule_stored :: "(string \<rightharpoonup> string) \<Rightarrow> nat \<Rightarrow> portdoc_t \<Rightarrow> bool" where
  "rule_stored m i e \<longleftrightarrow> (let key = rule_key e i; shown = (\<lambda>s. Some (snprintf VAL_BLOCK_SIZE s)) in
     m (key @ ''::to_ip'') = shown (the (pd_internal_client e)) \<and>
     m (key @ ''::name'') = shown (the (pd_description e)) \<and>
     m (key @ ''::enabled'') = shown (the (pd_enable e)) \<and>
     m (key @ ''::protocol'') = shown (the (proto_val (the (pd_protocol e)))) \<and>
     (if single e then m (key @ ''::external_port'') = shown (the (pd_external_port e))
      else m (key @ ''::external_port_range'') =
             shown (the (pd_external_port e) @ '' '' @ the (pd_external_port_end_range e))))"

text \<open>A rule with an address, ordered ports from 1 to 65535 in digits, and a known protocol.\<close>

definition valid_rule :: "(string \<Rightarrow> bool) \<Rightarrow> (string \<Rightarrow> bool) \<Rightarrow> portdoc_t \<Rightarrow> bool" where
  "valid_rule is_ip4 is_ip6 e \<longleftrightarrow> (\<exists>ip ext end_range name enable protocol.
     pd_internal_client e = Some ip \<and> pd_external_port e = Some ext \<and> pd_external_port_end_range e = Some end_range \<and>
     pd_description e = Some name \<and> pd_enable e = Some enable \<and> pd_protocol e = Some protocol \<and>
     (is_ip4 ip \<or> is_ip6 ip) \<and> list_all isdigit (ext @ end_range) \<and>
     1 \<le> atoi ext \<and> atoi ext \<le> atoi end_range \<and> atoi end_range \<le> 65535 \<and>
     map tolower protocol \<in> {''tcp'', ''udp'', ''both'', ''tcp/udp'', ''udp/tcp''})"

lemma lower_names:
  "map tolower ''TCP/UDP'' = ''tcp/udp''" "map tolower ''UDP/TCP'' = ''udp/tcp''" "map tolower ''BOTH'' = ''both''"
  "map tolower ''TCP'' = ''tcp''" "map tolower ''UDP'' = ''udp''"
  by code_simp+

lemma proto_val_known: "proto_val p = Some q \<Longrightarrow> map tolower p \<in> {''tcp'', ''udp'', ''both'', ''tcp/udp'', ''udp/tcp''}"
  unfolding proto_val_def strcaseeq_def lower_names by (auto split: if_split_asm)

lemma valid_rule: "entry_code is_ip4 is_ip6 e = Some BLOB_EXEC_SUCCESS \<Longrightarrow> valid_rule is_ip4 is_ip6 e"
  by (erule entry_code_Some)
    (auto simp: valid_rule_def CheckIfIpIsValid_def CheckIfPortsAreValid_def Let_def split: if_splits dest: proto_val_known)

lemma blob_entries_few:
  assumes "\<forall>e \<in> set (pmd_entries rpm). entry_code is_ip4 is_ip6 e = Some BLOB_EXEC_SUCCESS"
    "length (blob_cells rpm) \<le> PORTMAP_CACHE_SIZE"
  shows "length (pmd_entries rpm) < 500"
proof -
  have "9 * length (pmd_entries rpm) \<le> length (doc_cells (pmd_entries rpm) 1 0 0)"
    by (rule length_doc_cells) (use assms(1) entry_code_full in blast)
  with assms(2) show ?thesis by (simp add: blob_cells_def Let_def PORTMAP_CACHE_SIZE_def)
qed

lemma blob_cells_consistent:
  assumes good: "\<forall>e \<in> set (pmd_entries rpm). entry_code is_ip4 is_ip6 e = Some BLOB_EXEC_SUCCESS"
    and len: "length (blob_cells rpm) \<le> PORTMAP_CACHE_SIZE"
    and cc: "c \<in> set (blob_cells rpm)" "c' \<in> set (blob_cells rpm)" and same: "tc_cmd c' = tc_cmd c" "tc_cmd c \<noteq> []"
  shows "tc_val c' = tc_val c"
proof -
  let ?es = "pmd_entries rpm"
  let ?cs = "count_cells (length (filter single ?es)) (length (filter (\<lambda>e. \<not> single e) ?es))"
  note few = blob_entries_few [OF good len]
  have full: "full_entry e" if "e \<in> set ?es" for e using good entry_code_full that by blast
  have cells: "set (blob_cells rpm) = set (doc_cells ?es 1 0 0) \<union> set ?cs"
    by (simp add: blob_cells_def Let_def)
  have fresh: "tc_cmd y \<noteq> tc_cmd x" if "x \<in> set ?cs" "y \<in> set (doc_cells ?es 1 0 0)" for x y :: t_cache
  proof -
    obtain j where j: "j < length ?es" "y \<in> set (entry_cells (Suc j) (rank ?es j) (?es ! j))"
      using \<open>y \<in> set (doc_cells ?es 1 0 0)\<close> by (auto simp: doc_cells_set kind_base_def)
    then show ?thesis
      using count_cell_fresh [OF \<open>x \<in> set ?cs\<close> j(2)] full length_dec [of "Suc j" 3] few by auto
  qed
  have counts: "tc_val y = tc_val x" if "x \<in> set ?cs" "y \<in> set ?cs" "tc_cmd y = tc_cmd x" for x y
    using that by (auto simp: count_cells_def BLOCK_SIZE_def)
  from cc cells same fresh [of c c'] fresh [of c' c] consider
    "c \<in> set (doc_cells ?es 1 0 0)" "c' \<in> set (doc_cells ?es 1 0 0)" | "c \<in> set ?cs" "c' \<in> set ?cs" by auto
  then show ?thesis
    using doc_cells_consistent [OF full few] counts same by cases blast+
qed

lemma blob_cell_stored:
  assumes "\<forall>e \<in> set (pmd_entries rpm). entry_code is_ip4 is_ip6 e = Some BLOB_EXEC_SUCCESS"
    "length (blob_cells rpm) \<le> PORTMAP_CACHE_SIZE" "c \<in> set (blob_cells rpm)" "tc_cmd c \<noteq> []"
  shows "(m ++ cell_map (blob_cells rpm)) (tc_cmd c) = Some (tc_val c)"
  using cell_map_Some [OF assms(3)] blob_cells_consistent [OF assms(1,2,3)] assms(4) by (simp add: map_add_Some_iff)

lemma blob_cells_length:
  "cached st = blob_cells rpm \<Longrightarrow> wc_wf st \<Longrightarrow> length (blob_cells rpm) \<le> PORTMAP_CACHE_SIZE"
  by (metis cached_def length_take min.cobounded2 order_trans wc_wf_def min.cobounded1)

lemma entry_val_stored:
  assumes good: "\<forall>e \<in> set (pmd_entries rpm). entry_code is_ip4 is_ip6 e = Some BLOB_EXEC_SUCCESS"
    and len: "length (blob_cells rpm) \<le> PORTMAP_CACHE_SIZE" and j: "j < length (pmd_entries rpm)"
    and x: "(s, suf, x) \<in> set (entry_vals (pmd_entries rpm ! j))" "length suf \<le> 24"
  shows "(m ++ cell_map (blob_cells rpm)) (rule_key (pmd_entries rpm ! j) (Suc j) @ suf) = Some (snprintf VAL_BLOCK_SIZE x)"
proof -
  let ?e = "pmd_entries rpm ! j"
  let ?c = "val_cell (rule_key ?e (Suc j)) (s, suf, x)"
  have full: "full_entry ?e" using good j entry_code_full nth_mem by blast
  have d: "length (dec (Suc j)) \<le> 3" using length_dec [of "Suc j" 3] j blob_entries_few [OF good len] by auto
  have "?c \<in> set (entry_cells (Suc j) (rank (pmd_entries rpm) j) ?e)" using x(1) by (simp add: entry_cells_eq [OF full])
  then have "?c \<in> set (doc_cells (pmd_entries rpm) 1 0 0)" using j by (auto simp: doc_cells_set kind_base_def)
  then have "?c \<in> set (blob_cells rpm)" by (simp add: blob_cells_def Let_def)
  moreover have cmd: "tc_cmd ?c = rule_key ?e (Suc j) @ suf"
    by (rule tc_cmd_val_cell_short [OF x(1) d]) (use d x(2) in \<open>simp add: BLOCK_SIZE_def\<close>)
  ultimately show ?thesis
    using blob_cell_stored [OF good len, of ?c m] by (simp add: rule_key_def)
qed

lemma entry_vals_mem:
  "(False, ''::to_ip'', the (pd_internal_client e)) \<in> set (entry_vals e)"
  "(False, ''::name'', the (pd_description e)) \<in> set (entry_vals e)"
  "(False, ''::enabled'', the (pd_enable e)) \<in> set (entry_vals e)"
  "(False, ''::protocol'', the (proto_val (the (pd_protocol e)))) \<in> set (entry_vals e)"
  "single e \<Longrightarrow> (True, ''::external_port'', the (pd_external_port e)) \<in> set (entry_vals e)"
  "\<not> single e \<Longrightarrow>
     (True, ''::external_port_range'', the (pd_external_port e) @ '' '' @ the (pd_external_port_end_range e)) \<in> set (entry_vals e)"
  by (simp_all add: entry_vals_def)

lemma rules_stored:
  assumes good: "\<forall>e \<in> set (pmd_entries rpm). entry_code is_ip4 is_ip6 e = Some BLOB_EXEC_SUCCESS"
    and len: "length (blob_cells rpm) \<le> PORTMAP_CACHE_SIZE" and j: "j < length (pmd_entries rpm)"
  shows "rule_stored (m ++ cell_map (blob_cells rpm)) (Suc j) (pmd_entries rpm ! j)"
  by (simp add: rule_stored_def Let_def entry_val_stored [OF assms entry_vals_mem(1)] entry_val_stored [OF assms entry_vals_mem(2)]
      entry_val_stored [OF assms entry_vals_mem(3)] entry_val_stored [OF assms entry_vals_mem(4)]
      entry_val_stored [OF assms entry_vals_mem(5)] entry_val_stored [OF assms entry_vals_mem(6)])

lemma counts_stored:
  assumes good: "\<forall>e \<in> set (pmd_entries rpm). entry_code is_ip4 is_ip6 e = Some BLOB_EXEC_SUCCESS"
    and len: "length (blob_cells rpm) \<le> PORTMAP_CACHE_SIZE"
  shows "(m ++ cell_map (blob_cells rpm)) ''SinglePortForwardCount'' = Some (dec (length (filter single (pmd_entries rpm))))"
    "(m ++ cell_map (blob_cells rpm)) ''PortRangeForwardCount'' = Some (dec (length (filter (\<lambda>e. \<not> single e) (pmd_entries rpm))))"
proof -
  let ?s = "length (filter single (pmd_entries rpm))" and ?p = "length (filter (\<lambda>e. \<not> single e) (pmd_entries rpm))"
  have few: "?s < 1000" "?p < 1000"
    using blob_entries_few [OF good len] length_filter_le [of single "pmd_entries rpm"]
      length_filter_le [of "\<lambda>e. \<not> single e" "pmd_entries rpm"] by linarith+
  then have d: "length (dec ?s) < VAL_BLOCK_SIZE" "length (dec ?p) < VAL_BLOCK_SIZE"
    using length_dec [of ?s 3] length_dec [of ?p 3] by (simp_all add: VAL_BLOCK_SIZE_def)
  have mem: "cell ''SinglePortForwardCount'' (dec ?s) \<in> set (blob_cells rpm)" "cell ''PortRangeForwardCount'' (dec ?p) \<in> set (blob_cells rpm)"
    by (simp_all add: blob_cells_def Let_def count_cells_def)
  show "(m ++ cell_map (blob_cells rpm)) ''SinglePortForwardCount'' = Some (dec ?s)"
    using blob_cell_stored [OF good len mem(1), of m] d(1) by (simp add: BLOCK_SIZE_def)
  show "(m ++ cell_map (blob_cells rpm)) ''PortRangeForwardCount'' = Some (dec ?p)"
    using blob_cell_stored [OF good len mem(2), of m] d(2) by (simp add: BLOCK_SIZE_def)
qed

text \<open>C9: a port forwarding document that is executed with success had only entries with a valid address, valid
  ports and a known protocol; afterwards the database holds every rule under its own key, with the client, the
  description, the enable text, the canonical protocol and the port or port range of the document, and the
  numbers of single and range rules; the feature is recorded as enabled exactly when the document has a rule.\<close>

theorem pf_blob_stored:
  assumes "syscfg_ok C v" "wc_wf st"
    and "Process_PF_WebConfigRequest C is_ip4 is_ip6 True rpm st = Some (Some BLOB_EXEC_SUCCESS, st')"
  shows "(\<forall>e \<in> set (pmd_entries rpm). valid_rule is_ip4 is_ip6 e) \<and>
    (\<forall>j < length (pmd_entries rpm). rule_stored (v (wc_db st')) (Suc j) (pmd_entries rpm ! j)) \<and>
    v (wc_db st') ''SinglePortForwardCount'' = Some (dec (length (filter single (pmd_entries rpm)))) \<and>
    v (wc_db st') ''PortRangeForwardCount'' = Some (dec (length (filter (\<lambda>e. \<not> single e) (pmd_entries rpm)))) \<and>
    gpfEnable st' = (if pmd_entries rpm = [] then 0 else 1)"
proof -
  from process_ok [OF assms] have good: "\<forall>e \<in> set (pmd_entries rpm). entry_code is_ip4 is_ip6 e = Some BLOB_EXEC_SUCCESS"
    and len: "length (blob_cells rpm) \<le> PORTMAP_CACHE_SIZE" using blob_cells_length by blast+
  obtain m where m: "v (wc_db st') = m ++ cell_map (blob_cells rpm)" using process_ok [OF assms] by blast
  show ?thesis
    unfolding m
    using good valid_rule rules_stored [OF good len] counts_stored [OF good len] process_ok [OF assms] by blast
qed

theorem pf_blob_stored_witness:
  "\<exists>st' :: (string \<rightharpoonup> string) wc_state. rule_stored (wc_db st') 1 (ex_rule ''10.0.0.5'' ''80'') \<and> rule_stored (wc_db st') 2 (ex_rule ''10.0.0.5'' ''90'') \<and>
     gpfEnable st' = 1"
proof -
  let ?es = "[ex_rule ''10.0.0.5'' ''80'', ex_rule ''10.0.0.5'' ''90'']"
  obtain st' where "Process_PF_WebConfigRequest mem_syscfg ex_ip ex_ip True (ex_doc ?es) (ex_wc [] Map.empty) =
      Some (Some BLOB_EXEC_SUCCESS, st')"
    using ex_accepted [of ?es] by auto
  note stored = pf_blob_stored [OF mem_syscfg_ok(1) ex_wc_wf this]
  show ?thesis
    by (intro exI [of _ st']) (use stored in \<open>simp add: ex_doc_def less_Suc_eq numeral_2_eq_2 all_conj_distrib\<close>)
qed

section \<open>Bad documents and the rollback\<close>

text \<open>A document that is refused gets the error code of its first bad entry; by then the rules that the
  database held for the previous document are already gone from it, the rest of the database is unchanged, and the
  backup holds the cells of the previous document.\<close>

theorem pf_blob_refused:
  assumes "syscfg_ok C v" "wc_wf st"
    and "Process_PF_WebConfigRequest C is_ip4 is_ip6 True rpm st = Some (Some r, st')"
    and "r \<in> {INVALID_IP, INVALID_PORT, INVALID_PROTOCOL}"
  shows "(\<exists>pre e post. pmd_entries rpm = pre @ e # post \<and>
      (\<forall>e' \<in> set pre. entry_code is_ip4 is_ip6 e' = Some BLOB_EXEC_SUCCESS) \<and> entry_code is_ip4 is_ip6 e = Some r) \<and>
    (\<forall>k. v (wc_db st') k = (if k \<in> cell_keys (cached st) then None else v (wc_db st) k)) \<and>
    take (pf_cache_size st) (pf_cache_bkup st') = cached st"
  using process_bad [OF assms] by (simp add: without_apply)

theorem pf_blob_refused_witness:
  "\<exists>st' :: (string \<rightharpoonup> string) wc_state. wc_db st' ''k'' = None \<and> wc_db st' ''other'' = Some ''y''"
proof -
  let ?c = "\<lparr>tc_cmd = ''k'', tc_val = ''v''\<rparr>" and ?db = "[''k'' \<mapsto> ''v'', ''other'' \<mapsto> ''y'']"
  have wf: "wc_wf (ex_wc [?c] ?db)" by (rule ex_wc_wf) (simp_all add: fits_def block_sizes)
  obtain st1 where "Process_PF_WebConfigRequest mem_syscfg ex_ip ex_ip True (ex_doc [ex_rule ''x'' ''80'']) (ex_wc [?c] ?db) =
      Some (Some INVALID_IP, st1)"
    using ex_bad_doc [OF mem_syscfg_ok(2,1) wf] by blast
  note result = pf_blob_refused [OF mem_syscfg_ok(1) wf this]
  show ?thesis
    by (intro exI [of _ st1]) (use result in \<open>simp add: cell_keys_def\<close>)
qed

lemma rollback_after_bad:
  assumes C: "syscfg_ok C v" and wf: "wc_wf st"
    and pr: "Process_PF_WebConfigRequest C is_ip4 is_ip6 True rpm st = Some (Some r, st1)"
    and r: "r \<in> {INVALID_IP, INVALID_PORT, INVALID_PROTOCOL}"
    and rb: "rollback_PortForwarding C st1 = (True, st2)"
  shows "v (wc_db st2) = without (cell_keys (cached st)) (v (wc_db st)) ++ cell_map (cached st)"
    "cached st2 = cached st" "pf_cache_size st2 = pf_cache_size st" "wc_wf st2"
proof -
  note bad = process_bad [OF C wf pr r]
  note rb = rollback_ok [OF C rb]
  show "v (wc_db st2) = without (cell_keys (cached st)) (v (wc_db st)) ++ cell_map (cached st)"
    using rb(1) bad(2,5) by simp
  show "pf_cache_size st2 = pf_cache_size st" using rb(2) bad(6) by simp
  have "map copy_cell (cached st) = cached st" using wf by (simp add: wc_wf_def map_copy_fits)
  moreover have "length (cached st) = pf_cache_size st" using wf by (simp add: cached_def wc_wf_def)
  ultimately show cached: "cached st2 = cached st"
    using rb(2,3) bad(3,5,6) by (simp add: cached_def)
  show "wc_wf st2"
    using wf cached rb(2,3,4) bad(3,6,7,8) by (simp add: wc_wf_def)
qed



text \<open>C17: the transaction keeps cache and database in step: after a document that is executed with success, and
  after a refused one that is rolled back with success, the arrays hold cells that fit and the database holds the
  value of every cached cell (the empty key apart).\<close>

theorem pf_blob_keeps_sync:
  assumes "syscfg_ok C v" "wc_wf st" "wc_synced v st"
    and "Process_PF_WebConfigRequest C is_ip4 is_ip6 True rpm st = Some (Some r, st1)"
    and "if r = BLOB_EXEC_SUCCESS then st2 = st1
         else r \<in> {INVALID_IP, INVALID_PORT, INVALID_PROTOCOL} \<and> rollback_PortForwarding C st1 = (True, st2)"
  shows "wc_wf st2 \<and> wc_synced v st2"
proof (cases "r = BLOB_EXEC_SUCCESS")
  case True
  with assms(4) have "Process_PF_WebConfigRequest C is_ip4 is_ip6 True rpm st = Some (Some BLOB_EXEC_SUCCESS, st1)" by simp
  note ok = process_ok [OF assms(1,2) this]
  then obtain m where m: "v (wc_db st1) = m ++ cell_map (blob_cells rpm)" by blast
  have good: "\<forall>e \<in> set (pmd_entries rpm). entry_code is_ip4 is_ip6 e = Some BLOB_EXEC_SUCCESS"
    and len: "length (blob_cells rpm) \<le> PORTMAP_CACHE_SIZE" using ok blob_cells_length by blast+
  have "wc_synced v st1" using ok blob_cell_stored [OF good len, of _ m] m by (simp add: wc_synced_def)
  with True assms(5) ok show ?thesis by simp
next
  case False
  with assms(5) have r: "r \<in> {INVALID_IP, INVALID_PORT, INVALID_PROTOCOL}" and rb: "rollback_PortForwarding C st1 = (True, st2)"
    by simp_all
  note after = rollback_after_bad [OF assms(1,2,4) r rb]
  have "v (wc_db st2) k = v (wc_db st) k" if "k \<noteq> []" for k
    unfolding after(1) by (rule cell_map_restores) (use that assms(3) in \<open>auto simp: wc_synced_def\<close>)
  with after(2) assms(3) have "wc_synced v st2" by (simp add: wc_synced_def)
  with after(4) show ?thesis by simp
qed

theorem pf_blob_keeps_sync_witness:
  "\<exists>st' :: (string \<rightharpoonup> string) wc_state. cached st' \<noteq> [] \<and> wc_wf st' \<and> wc_synced id st'"
proof -
  let ?es = "[ex_rule ''10.0.0.5'' ''80'']"
  have wf: "wc_wf (ex_wc [] Map.empty)" by (simp add: ex_wc_wf)
  obtain st' where pr: "Process_PF_WebConfigRequest mem_syscfg ex_ip ex_ip True (ex_doc ?es) (ex_wc [] Map.empty) =
      Some (Some BLOB_EXEC_SUCCESS, st')"
    using ex_accepted [of ?es] by auto
  have "cached st' \<noteq> []" using process_ok [OF mem_syscfg_ok(1) wf pr] by (simp add: blob_cells_def Let_def count_cells_def)
  moreover have "wc_wf st' \<and> wc_synced id st'"
    by (rule pf_blob_keeps_sync [OF mem_syscfg_ok(1) wf _ pr]) (simp_all add: wc_synced_def)
  ultimately show ?thesis by blast
qed

section \<open>Acceptance\<close>

text \<open>C40: when the database works, every document of at most 92 valid rules is executed with success (each rule
  takes at most 11 of the 1024 cells).\<close>

theorem pf_blob_accepted:
  assumes "syscfg_total C" "syscfg_ok C v" "wc_wf st"
    and "\<forall>e \<in> set (pmd_entries rpm). entry_code is_ip4 is_ip6 e = Some BLOB_EXEC_SUCCESS"
    and "length (pmd_entries rpm) \<le> 92"
  shows "\<exists>st'. Process_PF_WebConfigRequest C is_ip4 is_ip6 True rpm st = Some (Some BLOB_EXEC_SUCCESS, st')"
  by (rule blob_accepted [OF assms])

theorem pf_blob_accepted_witness:
  "\<exists>st' :: (string \<rightharpoonup> string) wc_state. Process_PF_WebConfigRequest mem_syscfg ex_ip ex_ip True (ex_doc (replicate 92 (ex_rule ''10.0.0.5'' ''90'')))
     (ex_wc [] Map.empty) = Some (Some BLOB_EXEC_SUCCESS, st')"
  by (rule pf_blob_accepted [OF mem_syscfg_ok(2,1)]) (simp_all add: ex_wc_wf ex_doc_def ex_rule_code)

end
