(* ===== verification/Pf_WebConfig_Start.thy ===== *)
theory Pf_WebConfig_Start
  imports Pf_WebConfig_Props
begin

text \<open>
  The cache that \<open>init_pf_cache\<close> builds at start and what it means for the first rollback; the rules whose keys do
  not fit; the document reader; and the version of a subdocument.
\<close>

section \<open>Start\<close>

definition start_cell :: "t_cache \<Rightarrow> bool" where
  "start_cell c \<longleftrightarrow> fits c \<and> (CHR '':'' \<in> set (tc_cmd c) \<longrightarrow> tc_val c = [])"

lemma start_key_cells [simp]: "start_cell (key_cell (snprintf BLOCK_SIZE s))" "start_cell (key_cell_s s)"
  by (auto simp: start_cell_def fits_def key_cell_def key_cell_s_def sprintf_s_def block_sizes intro: length_snprintf)

lemma list_all_key_cells [simp]: "list_all start_cell (key_cells a xs)"
  by (simp add: key_cells_def list_all_iff)

lemma start_name_cell:
  assumes C: "syscfg_ok C v" and no: "CHR '':'' \<notin> set s"
  shows "start_cell \<lparr>tc_cmd = snprintf BLOCK_SIZE s, tc_val = (case sc_get C db k VAL_BLOCK_SIZE of Some x \<Rightarrow> x | None \<Rightarrow> [])\<rparr>"
  using no set_take_subset [of "BLOCK_SIZE - 1" s]
  by (auto simp: start_cell_def fits_def snprintf_def block_sizes syscfg_get_view [OF C] split: option.splits)

lemma init_rule_cells:
  assumes C: "syscfg_ok C v"
  shows "init_single C db j = Some cs \<Longrightarrow> list_all start_cell cs" "init_range C db j = Some cs \<Longrightarrow> list_all start_cell cs"
  using start_name_cell [OF C, of "''SinglePortForward_'' @ dec j" db] start_name_cell [OF C, of "''PortRangeForward_'' @ dec j" db]
  by (auto simp: init_single_def init_range_def Let_def split: if_splits)

lemma collect_all: "collect (map f ns) = Some ys \<Longrightarrow> (\<And>n z. f n = Some z \<Longrightarrow> list_all P z) \<Longrightarrow> list_all P ys"
  by (induction ns arbitrary: ys) (auto split: option.splits)

lemma count_cell_start:
  assumes C: "syscfg_ok C v" and k: "k \<in> {''SinglePortForwardCount'', ''PortRangeForwardCount''}"
  shows "list_all start_cell (fst (count_cell C db k))"
  using k by (auto simp: count_cell_def start_cell_def fits_def block_sizes syscfg_get_view [OF C] split: option.splits)

lemma init_pf_cache_cells:
  assumes C: "syscfg_ok C v" and len: "length (pf_cache st0) = PORTMAP_CACHE_SIZE" "length (pf_cache_bkup st0) = PORTMAP_CACHE_SIZE"
    and init: "init_pf_cache C st0 = Some st"
  shows "list_all start_cell (cached st) \<and> wc_wf st \<and> wc_db st = wc_db st0"
proof -
  obtain c1 n1 where c1: "count_cell C (wc_db st0) ''SinglePortForwardCount'' = (c1, n1)" by fastforce
  obtain c2 n2 where c2: "count_cell C (wc_db st0) ''PortRangeForwardCount'' = (c2, n2)" by fastforce
  let ?singles = "collect (map (init_single C (wc_db st0)) [1 ..< nat n1 + 1])"
  let ?ranges = "collect (map (init_range C (wc_db st0)) [1 ..< nat n2 + 1])"
  have "\<exists>nm en. (case (?singles, ?ranges) of
      (Some singles, Some ranges) \<Rightarrow>
        let cells = c1 @ c2 @ singles @ ranges
        in map_option (\<lambda>cache. st0\<lparr>pf_cache := cache, pf_cache_size := length cells, pf_param_name := nm, gpfEnable := en\<rparr>)
             (write_cells 0 cells (pf_cache st0))
      | _ \<Rightarrow> None) = Some st"
    using init unfolding init_pf_cache_def c1 c2 prod.case Let_def by blast
  then obtain nm en singles ranges cache where
    s: "?singles = Some singles" and r: "?ranges = Some ranges"
    and w: "write_cells 0 (c1 @ c2 @ singles @ ranges) (pf_cache st0) = Some cache"
    and st: "st = st0\<lparr>pf_cache := cache, pf_cache_size := length (c1 @ c2 @ singles @ ranges), pf_param_name := nm, gpfEnable := en\<rparr>"
    by (cases ?singles; cases ?ranges) (auto simp: Let_def simp del: upt_Suc)
  have "list_all start_cell singles" by (rule collect_all [OF s init_rule_cells(1) [OF C]])
  moreover have "list_all start_cell ranges" by (rule collect_all [OF r init_rule_cells(2) [OF C]])
  ultimately have all: "list_all start_cell (c1 @ c2 @ singles @ ranges)"
    using count_cell_start [OF C, of "''SinglePortForwardCount''" "wc_db st0"] count_cell_start [OF C, of "''PortRangeForwardCount''" "wc_db st0"]
      c1 c2 by simp
  moreover from w st have cached: "cached st = c1 @ c2 @ singles @ ranges"
    and "length cache = PORTMAP_CACHE_SIZE" "length (c1 @ c2 @ singles @ ranges) \<le> PORTMAP_CACHE_SIZE"
    using length_write_cells [OF w] len by (auto simp: write_cells_Some cached_def)
  ultimately show ?thesis
    using st len(2) by (auto simp: wc_wf_def list_all_iff start_cell_def)
qed

text \<open>The cache built at start has no values, so rolling back the first document after a start, when that
  document is refused, does not restore the rules: every key of a rule is written back with an empty value.\<close>

theorem pf_first_rollback_blanks_rules:
  assumes "syscfg_ok C v" "length (pf_cache st0) = PORTMAP_CACHE_SIZE" "length (pf_cache_bkup st0) = PORTMAP_CACHE_SIZE"
    and "init_pf_cache C st0 = Some st"
    and "Process_PF_WebConfigRequest C is_ip4 is_ip6 True rpm st = Some (Some r, st1)"
    and "r \<in> {INVALID_IP, INVALID_PORT, INVALID_PROTOCOL}"
    and "rollback_PortForwarding C st1 = (True, st2)"
    and "c \<in> set (cached st)" "CHR '':'' \<in> set (tc_cmd c)"
  shows "v (wc_db st2) (tc_cmd c) = Some []"
proof -
  have all: "list_all start_cell (cached st)" and wf: "wc_wf st" using init_pf_cache_cells [OF assms(1-4)] by auto
  have "cell_map (cached st) (tc_cmd c) = Some (tc_val c)"
    by (rule cell_map_Some [OF assms(8)]) (use all assms(8,9) in \<open>auto simp: list_all_iff start_cell_def\<close>)
  moreover have "tc_val c = []" using all assms(8,9) by (auto simp: list_all_iff start_cell_def)
  ultimately show ?thesis
    using rollback_after_bad(1) [OF assms(1) wf assms(5,6,7)] by (simp add: map_add_Some_iff)
qed

theorem pf_first_rollback_blanks_rules_witness:
  "\<exists>st2 :: (string \<rightharpoonup> string) wc_state. wc_db st2 ''spf_1::to_ip'' = Some []"
proof -
  let ?db = "[''SinglePortForwardCount'' \<mapsto> ''1'', ''SinglePortForward_1'' \<mapsto> ''spf_1'', ''spf_1::to_ip'' \<mapsto> ''10.0.0.5'']"
  let ?st0 = "ex_wc [] ?db"
  have len: "length (pf_cache ?st0) = PORTMAP_CACHE_SIZE" "length (pf_cache_bkup ?st0) = PORTMAP_CACHE_SIZE"
    by (simp_all add: ex_wc_def PORTMAP_CACHE_SIZE_def)
  have one: "dec (Suc 0) = ''1''" by (simp add: dec.simps [of "Suc 0"] digit_def)
  have num: "atoi ''1'' = 1" by (simp add: atoi_def isspace_def isdigit_def digit_val_def)
  obtain st where init: "init_pf_cache mem_syscfg ?st0 = Some st" and c: "\<lparr>tc_cmd = ''spf_1::to_ip'', tc_val = []\<rparr> \<in> set (cached st)"
    by (simp add: init_pf_cache_def Let_def count_cell_def init_single_def init_range_def mem_syscfg_def ex_wc_def block_sizes
        snprintf_def key_cells_def key_cell_def key_cell_s_def sprintf_s_def write_cells_def cached_def one num
        COSA_NAT_SYSCFG_NAMESPACE_def PORT_FORWARD_ENABLED_KEY_def)
  have wf: "wc_wf st" using init_pf_cache_cells [OF mem_syscfg_ok(1) len init] by simp
  obtain st1 st2 where bad: "Process_PF_WebConfigRequest mem_syscfg ex_ip ex_ip True (ex_doc [ex_rule ''x'' ''80'']) st =
      Some (Some INVALID_IP, st1)" "rollback_PortForwarding mem_syscfg st1 = (True, st2)"
    using ex_bad_doc [OF mem_syscfg_ok(2,1) wf] by blast
  note result = pf_first_rollback_blanks_rules [OF mem_syscfg_ok(1) len init bad(1) _ bad(2) c]
  show ?thesis
    by (intro exI [of _ st2]) (use result in \<open>simp\<close>)
qed

section \<open>Keys that do not fit\<close>

lemma length_dec_two: "10 \<le> n \<Longrightarrow> 2 \<le> length (dec n)"
  by (subst dec.simps) (simp add: Suc_le_eq)

text \<open>The key of the size of a port range does not fit for the rules from number 10 on: after a document is
  executed with success no cell has it, and its value went to the empty key.\<close>

theorem pf_range_size_key_overflow:
  assumes "syscfg_ok C v" "wc_wf st"
    and "Process_PF_WebConfigRequest C is_ip4 is_ip6 True rpm st = Some (Some BLOB_EXEC_SUCCESS, st')"
    and "9 \<le> j" "j < length (pmd_entries rpm)" "\<not> single (pmd_entries rpm ! j)"
  shows "rule_key (pmd_entries rpm ! j) (Suc j) @ ''::internal_port_range_size'' \<notin> cell_keys (cached st') \<and>
    [] \<in> cell_keys (cached st')"
proof
  let ?e = "pmd_entries rpm ! j"
  let ?k = "rule_key ?e (Suc j) @ ''::internal_port_range_size''"
  note ok = process_ok [OF assms(1-3)]
  have long: "BLOCK_SIZE \<le> length ?k" using length_dec_two [of "Suc j"] assms(4) by (simp add: length_rule_key BLOCK_SIZE_def)
  show "?k \<notin> cell_keys (cached st')"
  proof
    assume "?k \<in> cell_keys (cached st')"
    then obtain c where "c \<in> set (cached st')" "tc_cmd c = ?k" by (auto simp: cell_keys_def)
    moreover have "list_all fits (cached st')" using ok unfolding wc_wf_def by blast
    ultimately show False using long by (auto simp: list_all_iff fits_def)
  qed
  have full: "full_entry ?e" using ok assms(5) entry_code_full nth_mem by blast
  let ?c = "val_cell (rule_key ?e (Suc j)) (True, ''::internal_port_range_size'', ''0'')"
  have "?c \<in> set (entry_cells (Suc j) (rank (pmd_entries rpm) j) ?e)"
    using assms(6) by (simp add: entry_cells_eq [OF full] entry_vals_def)
  then have "?c \<in> set (doc_cells (pmd_entries rpm) 1 0 0)" using assms(5) by (auto simp: doc_cells_set kind_base_def)
  then have "?c \<in> set (cached st')" using ok by (simp add: blob_cells_def Let_def)
  moreover have "tc_cmd ?c = []" using long by (simp add: val_cell_def cell_s_def sprintf_s_def)
  ultimately show "[] \<in> cell_keys (cached st')" by (force simp: cell_keys_def)
qed

theorem pf_range_size_key_overflow_witness:
  "\<exists>st' :: (string \<rightharpoonup> string) wc_state. [] \<in> cell_keys (cached st')"
proof -
  let ?es = "replicate 10 (ex_rule ''10.0.0.5'' ''90'')"
  obtain st' where "Process_PF_WebConfigRequest mem_syscfg ex_ip ex_ip True (ex_doc ?es) (ex_wc [] Map.empty) =
      Some (Some BLOB_EXEC_SUCCESS, st')"
    using ex_accepted [of ?es] by auto
  note result = pf_range_size_key_overflow [OF mem_syscfg_ok(1) ex_wc_wf this, of 9]
  show ?thesis
    by (intro exI [of _ st']) (use result in \<open>simp add: ex_doc_def single_ex_rule\<close>)
qed

section \<open>The document reader\<close>

lemma portdoc_loop_done: "portdoc_loop kvs 0 e = (0, e)"
  by (cases kvs) auto

text \<open>The reader counts an entry as complete when it has read the two ports, whatever else it has read: with the
  ports first, the client, the protocol, the description and the enable text stay null and the document is accepted.
  Executing that document then reads the null client.\<close>

theorem pf_reader_accepts_null_client:
  "\<exists>e rpm. process_portmappingdoc True
        [MP_MAP ((MP_STR ''ExternalPort'', MP_STR p) # (MP_STR ''ExternalPortEndRange'', MP_STR q) # kvs)] subdoc ver txid = Some rpm \<and>
      pmd_entries rpm = [e] \<and> pd_internal_client e = None \<and> pd_protocol e = None \<and>
      pd_description e = None \<and> pd_enable e = None \<and> set_portmap_conf is_ip4 is_ip6 rpm st = None"
proof -
  let ?e = "zero_portdoc\<lparr>pd_external_port := Some (strndup p), pd_external_port_end_range := Some (strndup q)\<rparr>"
  have "process_portdocparams ((MP_STR ''ExternalPort'', MP_STR p) # (MP_STR ''ExternalPortEndRange'', MP_STR q) # kvs) = (True, ?e)"
    by (simp add: process_portdocparams_def strncmp_eq_def match_key_def NUL_def portdoc_loop_done)
  then show ?thesis
    by (simp add: process_portmappingdoc_def set_portmap_conf_def zero_portdoc_def)
qed

section \<open>Versions\<close>

lemma clip_small: "n < 2 ^ 31 \<Longrightarrow> max (- (2 ^ 31)) (min (2 ^ 31 - 1) (int n)) = int n"
  by simp

lemma clip_large: "\<not> n < 2 ^ 31 \<Longrightarrow> max (- (2 ^ 31)) (min (2 ^ 31 - 1) (int n)) = 2 ^ 31 - 1"
  by simp

text \<open>The version of a subdocument reads back after a successful \<open>setBlobVersion\<close>, up to 2147483647; a larger
  one reads back as 2147483647.\<close>

theorem blob_version_roundtrip:
  assumes C: "syscfg_ok C v" and set: "setBlobVersion C mv db subdoc version = (0, db')"
  shows "getBlobVersion C db' subdoc = (if unat version < 2 ^ 31 then version else 0x7FFFFFFF)"
proof -
  let ?k = "snprintf 72 (subdoc @ ''_version'')"
  have "unat version < 10 ^ 10" by (rule less_trans [OF unsigned_less]) simp
  then have len: "length (dec (unat version)) \<le> 10" by (rule length_dec) simp
  then have fit: "snprintf 32 (dec (unat version)) = dec (unat version)" by simp
  from set obtain d1 d2 where s: "sc_set C d1 ?k (dec (unat version)) = (True, d2)" and c: "sc_commit C d2 = (True, db')"
    unfolding setBlobVersion_def Let_def fit by (auto split: prod.splits if_splits)
  have "v db' ?k = Some (dec (unat version))"
    using syscfg_set_view [OF C s] syscfg_commit_view [OF C c] by simp
  then have "getBlobVersion C db' subdoc = atoi_int (dec (unat version))"
    using len by (simp add: getBlobVersion_def syscfg_get_view [OF C])
  moreover have "atoi_int (dec (unat version)) = (if unat version < 2 ^ 31 then version else 0x7FFFFFFF)"
  proof (cases "unat version < 2 ^ 31")
    case True
    then have clip: "max (- (2 ^ 31)) (min (2 ^ 31 - 1) (int (unat version))) = int (unat version)" by (rule clip_small)
    show ?thesis unfolding atoi_int_def atoi_dec clip using True by simp
  next
    case False
    then have clip: "max (- (2 ^ 31)) (min (2 ^ 31 - 1) (int (unat version))) = 2 ^ 31 - 1" by (rule clip_large)
    show ?thesis unfolding atoi_int_def atoi_dec clip using False by simp
  qed
  ultimately show ?thesis by simp
qed

theorem blob_version_roundtrip_witness:
  "getBlobVersion mem_syscfg (snd (setBlobVersion mem_syscfg (\<lambda>d _. d) Map.empty ''wan'' 4294967295)) ''wan'' = 0x7FFFFFFF"
proof -
  have "setBlobVersion mem_syscfg (\<lambda>d _. d) Map.empty ''wan'' 4294967295 =
      (0, snd (setBlobVersion mem_syscfg (\<lambda>d _. d) Map.empty ''wan'' 4294967295))"
    by (simp add: setBlobVersion_def mem_syscfg_def)
  from blob_version_roundtrip [OF mem_syscfg_ok(1) this] show ?thesis by simp
qed

end
