(* ===== verification/Dmz_WebConfig.thy ===== *)
theory Dmz_WebConfig
  imports Pf_WebConfig_Table
begin

unbundle bit_operations_syntax

text \<open>
  The DMZ by web configuration: the document reader of \<open>dmz_wan_doc.c\<close> and the transaction of
  \<open>cosa_nat_webconfig_apis.c\<close>, which writes the two cells of a document to the syscfg database and to the DMZ
  object, and can be rolled back. The LAN check reads the NAT state, the cells go to the database; the two views of
  syscfg are kept apart.
\<close>

section \<open>The document\<close>

record dmz_wanparam_t =
  dw_enable :: bool
  dw_internal_ip :: "string option"

record dmz_wandoc_t =
  dwd_param :: "dmz_wanparam_t option"
  dwd_subdoc_name :: string
  dwd_version :: "32 word"
  dwd_transaction_id :: "16 word"

text \<open>The loop of \<open>process_wanparams\<close> over the entries of a map.\<close>

fun wanparam_loop :: "(msgpack_object \<times> msgpack_object) list \<Rightarrow> UCHAR \<Rightarrow> dmz_wanparam_t \<Rightarrow> UCHAR \<times> dmz_wanparam_t" where
  "wanparam_loop [] objects_left e = (objects_left, e)"
| "wanparam_loop (kv # kvs) objects_left e =
     (if \<not> 0 < objects_left then (objects_left, e)
      else (case kv of
          (MP_STR k, MP_BOOL b) \<Rightarrow>
            if match_key k ''Enable'' then wanparam_loop kvs (objects_left AND NOT (push_bit 0 1)) (e\<lparr>dw_enable := b\<rparr>)
            else wanparam_loop kvs objects_left e
        | (MP_STR k, MP_STR v) \<Rightarrow>
            if match_key k ''InternalIP''
            then wanparam_loop kvs (objects_left AND NOT (push_bit 1 1)) (e\<lparr>dw_internal_ip := Some (strndup v)\<rparr>)
            else wanparam_loop kvs objects_left e
        | _ \<Rightarrow> wanparam_loop kvs objects_left e))"

definition process_wanparams :: "(msgpack_object \<times> msgpack_object) list \<Rightarrow> bool \<times> dmz_wanparam_t" where
  "process_wanparams kvs =
     (case wanparam_loop kvs 0x02 \<lparr>dw_enable = False, dw_internal_ip = None\<rparr> of
        (objects_left, e) \<Rightarrow> (objects_left = 0, e))"

text \<open>\<open>None\<close> when the document is refused.\<close>

definition process_wandoc :: "bool \<Rightarrow> (msgpack_object \<times> msgpack_object) list \<Rightarrow> string \<Rightarrow> nat \<Rightarrow> nat \<Rightarrow> dmz_wandoc_t option" where
  "process_wandoc malloc_ok mapobj subdoc version txid =
     (if \<not> malloc_ok then None
      else (case process_wanparams mapobj of (ok, e) \<Rightarrow>
          if ok then Some \<lparr>dwd_param = Some e, dwd_subdoc_name = strndup subdoc, dwd_version = of_nat version,
                           dwd_transaction_id = of_nat txid\<rparr>
          else None))"

definition wandoc_args :: "bool \<Rightarrow> msgpack_object option list \<Rightarrow> dmz_wandoc_t option option" where
  "wandoc_args malloc_ok args =
     (case args of
        [Some (MP_MAP mapobj), Some (MP_STR subdoc), Some (MP_UINT version), Some (MP_UINT txid)] \<Rightarrow>
          Some (process_wandoc malloc_ok mapobj subdoc version txid)
      | _ \<Rightarrow> None)"

definition zero_wandoc :: dmz_wandoc_t where
  "zero_wandoc = \<lparr>dwd_param = None, dwd_subdoc_name = [], dwd_version = 0, dwd_transaction_id = 0\<rparr>"

definition dmz_wandoc_convert :: "(nat \<Rightarrow> bool) \<Rightarrow> bool \<Rightarrow> msgpack_object option \<Rightarrow> dmz_wandoc_t option option" where
  "dmz_wandoc_convert mallocs has_buf msg =
     helper_convert (mallocs 1) has_buf msg zero_wandoc ''wan'' MSGPACK_OBJECT_MAP True (wandoc_args (mallocs 2))"

text \<open>The \<open>Data\<close> parameter of the DMZ object.\<close>

definition wan_exec :: "dmz_wandoc_t \<Rightarrow> dmz_wandoc_t exec_data" where
  "wan_exec rpm = \<lparr>ed_txid = dwd_transaction_id rpm, ed_version = dwd_version rpm, ed_numOfEntries = 0,
     ed_subdoc_name = ''wan'', ed_user_data = rpm\<rparr>"

definition DMZ_SetData :: "'b codec \<Rightarrow> (nat \<Rightarrow> bool) \<Rightarrow> string \<Rightarrow> (bool \<times> dmz_wandoc_t exec_data option) option" where
  "DMZ_SetData D mallocs pString =
     receive_blob D (if \<not> mallocs 0 then None else Some (cd_decode D pString)) (cd_unpack_ok D) mallocs
       (dmz_wandoc_convert mallocs) wan_exec"

text \<open>The string handler of the DMZ object.\<close>

definition X_CISCO_COM_DMZ_SetParamStringValue :: "('s, 'c, 'r) libs \<Rightarrow> (string \<Rightarrow> bool) \<Rightarrow> 'b codec \<Rightarrow> (nat \<Rightarrow> bool) \<Rightarrow>
    ('s, 'r) nat_state \<Rightarrow> string \<Rightarrow> string \<Rightarrow> ((bool \<times> dmz_wandoc_t exec_data option) \<times> ('s, 'r) nat_state) option" where
  "X_CISCO_COM_DMZ_SetParamStringValue L pton6 D mallocs st ParamName pString =
     (if ParamName = ''Data'' then map_option (\<lambda>r. (r, st)) (DMZ_SetData D mallocs pString)
      else Some (case dmz_set_string L pton6 st ParamName pString of (ok, st') \<Rightarrow> ((ok, None), st')))"

section \<open>The cells\<close>

definition DMZ_CACHE_SIZE :: nat where "DMZ_CACHE_SIZE = 2"

record 'd dmz_wc =
  dmz_cache :: "t_cache list"
  dmz_cache_bkup :: "t_cache list"
  dz_db :: 'd
  dz_restarts :: nat

text \<open>\<open>init_dmz_cache\<close> writes the keys only.\<close>

definition init_dmz_cache :: "t_cache list \<Rightarrow> t_cache list" where
  "init_dmz_cache tmp_dmz_cache = tmp_dmz_cache
     [0 := \<lparr>tc_cmd = snprintf BLOCK_SIZE ''dmz_enabled'', tc_val = []\<rparr>,
      1 := \<lparr>tc_cmd = snprintf BLOCK_SIZE ''dmz_dst_ip_addr'', tc_val = []\<rparr>]"

definition clear_dmz_cache :: "t_cache list \<Rightarrow> t_cache list" where
  "clear_dmz_cache tmp_dmz_cache = map (\<lambda>_. blank) tmp_dmz_cache"

text \<open>The loop of \<open>clear_dmz_cache_DB\<close>, which commits after each key.\<close>

fun clear_dmz_loop :: "'d syscfg \<Rightarrow> t_cache list \<Rightarrow> 'd \<Rightarrow> bool \<times> t_cache list \<times> 'd" where
  "clear_dmz_loop C [] db = (True, [], db)"
| "clear_dmz_loop C (c # cs) db =
     (case sc_unset C db (tc_cmd c) of (ok, db1) \<Rightarrow>
        if \<not> ok then (False, c # cs, db1)
        else (case sc_commit C db1 of (rc, db2) \<Rightarrow>
            if \<not> rc then (False, blank # cs, db2)
            else (case clear_dmz_loop C cs db2 of (r, cs', db3) \<Rightarrow> (r, blank # cs', db3))))"

definition clear_dmz_cache_DB :: "'d syscfg \<Rightarrow> 'd dmz_wc \<Rightarrow> bool \<times> 'd dmz_wc" where
  "clear_dmz_cache_DB C w =
     (case clear_dmz_loop C (dmz_cache w) (dz_db w) of (ok, cs, db) \<Rightarrow> (ok, w\<lparr>dmz_cache := cs, dz_db := db\<rparr>))"

definition backup_dmz_cache :: "t_cache list \<Rightarrow> t_cache list \<Rightarrow> nat \<Rightarrow> t_cache list" where
  "backup_dmz_cache tmp_dmz_cache tmp_dmz_cache_bkup cache_size =
     map copy_cell (take cache_size tmp_dmz_cache) @ drop cache_size tmp_dmz_cache_bkup"

definition apply_dmz_cache_ToDB :: "'d syscfg \<Rightarrow> t_cache list \<Rightarrow> nat \<Rightarrow> 'd \<Rightarrow> bool \<times> 'd" where
  "apply_dmz_cache_ToDB C tmp_dmz_cache cache_size db =
     (case set_cells C (take cache_size tmp_dmz_cache) db of
        (ok, db1) \<Rightarrow> if \<not> ok then (False, db1) else sc_commit C db1)"

section \<open>From the document to the cells and the DMZ object\<close>

text \<open>Whether the host of a document is one that a DMZ may have: in the LAN, and no loopback, multicast or broadcast
  address.\<close>

definition dmz_host_ok :: "('s, 'c, 'r) libs \<Rightarrow> ('s, 'r) nat_state \<Rightarrow> string \<Rightarrow> bool" where
  "dmz_host_ok L st ip =
     (let dmzHost = lib_inet_addr L ip in
      if \<not> CosaDmlNatChkPortMappingClient L st dmzHost then False
      else if IPv4Addr_IsLoopback dmzHost \<or> IPv4Addr_IsMulticast dmzHost \<or> dmzHost = 0xffffffff then False
      else True)"

definition set_dmz_conf :: "('s, 'c, 'r) libs \<Rightarrow> ('s, 'r) nat_state \<Rightarrow> dmz_wanparam_t \<Rightarrow> t_cache list \<Rightarrow>
    blob_code \<times> t_cache list" where
  "set_dmz_conf L st rpm cache =
     (let c1 = cache[0 := cell ''dmz_enabled'' (dec_int (if dw_enable rpm then 1 else 0))] in
      if \<not> dw_enable rpm then (BLOB_EXEC_SUCCESS, c1[1 := cell ''dmz_dst_ip_addr'' ''0.0.0.0''])
      else (case dw_internal_ip rpm of
          None \<Rightarrow> (INVALID_DMZ_WAN_IP, c1)
        | Some internal_ip \<Rightarrow>
            if \<not> dmz_host_ok L st internal_ip then (INVALID_DMZ_WAN_IP, c1)
            else (BLOB_EXEC_SUCCESS, c1[1 := cell ''dmz_dst_ip_addr'' internal_ip])))"

text \<open>\<open>bEnabled\<close> takes the number of the first cell; 1 is \<open>TRUE\<close>.\<close>

definition apply_dmz_ToDML :: "t_cache list \<Rightarrow> COSA_DML_NAT_DMZ \<Rightarrow> COSA_DML_NAT_DMZ" where
  "apply_dmz_ToDML tmp_dmz_cache d =
     (let n = atoi (tc_val (tmp_dmz_cache ! 0)); d1 = d\<lparr>dmz_bEnabled := (n \<noteq> 0)\<rparr> in
      if n = 0 then d1\<lparr>dmz_InternalIP := snd (strcpy_s COSA_DML_IP_ADDR_LENGTH ''0.0.0.0''), dmz_IPv6Host := []\<rparr>
      else if n = 1 then d1\<lparr>dmz_InternalIP := snd (strcpy_s COSA_DML_IP_ADDR_LENGTH (tc_val (tmp_dmz_cache ! 1)))\<rparr>
      else d1)"

definition Process_DMZ_WebConfigRequest :: "'d syscfg \<Rightarrow> ('s, 'c, 'r) libs \<Rightarrow> bool \<Rightarrow> dmz_wanparam_t \<Rightarrow> 'd dmz_wc \<Rightarrow>
    ('s, 'r) nat_state \<Rightarrow> blob_code option \<times> 'd dmz_wc \<times> ('s, 'r) nat_state" where
  "Process_DMZ_WebConfigRequest C L malloc_ok rpm w st =
     (if \<not> malloc_ok then (None, w, st)
      else
        let w1 = w\<lparr>dmz_cache_bkup := backup_dmz_cache (dmz_cache w) (dmz_cache_bkup w) DMZ_CACHE_SIZE\<rparr>
        in (case clear_dmz_cache_DB C w1 of
            (ok, w2) \<Rightarrow>
              if \<not> ok then (Some SYSCFG_FAILURE, w2, st)
              else (case set_dmz_conf L st rpm (dmz_cache w2) of
                  (ret, cache) \<Rightarrow>
                    let w3 = w2\<lparr>dmz_cache := cache\<rparr> in
                    if ret \<noteq> BLOB_EXEC_SUCCESS then (Some ret, w3, st)
                    else (case apply_dmz_cache_ToDB C (dmz_cache w3) DMZ_CACHE_SIZE (dz_db w3) of
                        (ok, db) \<Rightarrow>
                          if \<not> ok then (Some SYSCFG_FAILURE, w3\<lparr>dz_db := db\<rparr>, st)
                          else (Some BLOB_EXEC_SUCCESS, w3\<lparr>dz_db := db, dz_restarts := Suc (dz_restarts w3)\<rparr>,
                                st\<lparr>Dmz := apply_dmz_ToDML (dmz_cache w3) (Dmz st)\<rparr>)))))"

definition rollback_dmz :: "'d syscfg \<Rightarrow> 'd dmz_wc \<Rightarrow> bool \<times> 'd dmz_wc" where
  "rollback_dmz C w =
     (case apply_dmz_cache_ToDB C (dmz_cache_bkup w) DMZ_CACHE_SIZE (dz_db w) of
        (ret, db) \<Rightarrow>
          (ret, w\<lparr>dz_db := db, dmz_cache := backup_dmz_cache (dmz_cache_bkup w) (dmz_cache w) DMZ_CACHE_SIZE\<rparr>))"

section \<open>Lemmas\<close>

lemma clear_dmz_loop_view:
  "syscfg_ok C v \<Longrightarrow> clear_dmz_loop C cs db = (True, cs', db') \<Longrightarrow>
     v db' = without (cell_keys cs) (v db) \<and> length cs' = length cs"
proof (induction cs arbitrary: db cs' db')
  case Nil
  then show ?case by (auto simp: without_apply fun_eq_iff cell_keys_def)
next
  case (Cons c cs)
  obtain ok db1 where un: "sc_unset C db (tc_cmd c) = (ok, db1)" by fastforce
  obtain rc db2 where cm: "sc_commit C db1 = (rc, db2)" by fastforce
  obtain r cs2 db3 where rest: "clear_dmz_loop C cs db2 = (r, cs2, db3)" by (metis prod_cases3)
  from Cons.prems un cm rest have "ok" "rc" "r" "cs' = blank # cs2" "db' = db3" by (auto split: if_splits)
  with Cons.IH [OF Cons.prems(1)] rest syscfg_unset_view [OF Cons.prems(1) un] syscfg_commit_view [OF Cons.prems(1) cm]
  show ?case by (auto simp: without_apply fun_eq_iff cell_keys_def)
qed

lemma apply_dmz_cache_ToDB_view:
  assumes C: "syscfg_ok C v" and ap: "apply_dmz_cache_ToDB C cs n db = (True, db')"
  shows "v db' = v db ++ cell_map (take n cs)"
proof -
  obtain ok db1 where sc: "set_cells C (take n cs) db = (ok, db1)" by fastforce
  with ap have "ok" and cm: "sc_commit C db1 = (True, db')" by (auto simp: apply_dmz_cache_ToDB_def split: if_splits)
  with sc set_cells_view [OF C] syscfg_commit_view [OF C cm] show ?thesis by simp
qed

lemma two_cells: "length cs = 2 \<Longrightarrow> \<exists>a b. cs = [a, b]"
  by (metis (no_types) length_0_conv length_Suc_conv numeral_2_eq_2)

text \<open>The cells that a document becomes.\<close>

lemma set_dmz_conf_ok:
  assumes "set_dmz_conf L st rpm cache = (BLOB_EXEC_SUCCESS, cache')" "length cache = 2"
  shows "cache' = [cell ''dmz_enabled'' (if dw_enable rpm then ''1'' else ''0''),
      cell ''dmz_dst_ip_addr'' (if dw_enable rpm then the (dw_internal_ip rpm) else ''0.0.0.0'')] \<and>
    (dw_enable rpm \<longrightarrow> (\<exists>ip. dw_internal_ip rpm = Some ip \<and> dmz_host_ok L st ip))"
proof -
  obtain a b where c: "cache = [a, b]" using two_cells [OF assms(2)] by blast
  have d: "dec_int 1 = ''1''" "dec_int 0 = ''0''" by (simp_all add: dec_int_def dec.simps [of "Suc 0"] dec.simps [of 0] digit_def)
  show ?thesis
    using assms(1) by (cases "dw_enable rpm") (auto simp: c d set_dmz_conf_def Let_def split: option.splits if_splits)
qed

end
