(* ===== verification/Dmz_WebConfig_Props.thy ===== *)
theory Dmz_WebConfig_Props
  imports Dmz_WebConfig
begin

text \<open>
  The DMZ blob: what an executed document leaves in the database and in the DMZ object, what the rollback of a refused
  one restores, and the reader whose result depends on the order of the keys.
\<close>

section \<open>The DMZ host\<close>

text \<open>A DMZ host that the setter accepts is either the empty address, stored as 0.0.0.0, or a dotted IPv4
  address without a quote, inside the LAN and short enough for its field, stored as it is with the DMZ
  switched on. Nothing else of the object changes.\<close>

theorem dmz_host_checked:
  assumes "noclobber_ok (lib_noclobber L)"
    and "X_CISCO_COM_DMZ_SetParamStringValue L pton6 D mallocs st ''InternalIP'' s = Some ((True, doc), st')"
  shows "if s = [] \<or> s = ''0.0.0.0'' then st' = st\<lparr>Dmz := (Dmz st)\<lparr>dmz_InternalIP := ''0.0.0.0''\<rparr>\<rparr>
    else st' = st\<lparr>Dmz := (Dmz st)\<lparr>dmz_InternalIP := s, dmz_bEnabled := True\<rparr>\<rparr> \<and>
      lib_inet_pton4 L s \<noteq> None \<and> CHR 0x27 \<notin> set s \<and>
      CosaDmlNatChkPortMappingClient L st (lib_inet_addr L s) \<and> length s < COSA_DML_IP_ADDR_LENGTH"
proof -
  have r: "dmz_set_string L pton6 st ''InternalIP'' s = (True, st')"
    using assms(2) by (simp add: X_CISCO_COM_DMZ_SetParamStringValue_def split: prod.split_asm)
  have nc: "lib_noclobber L n dst src = (if length src < n then (True, src) else (False, dst))" for n dst src
    using assms(1) by (simp add: noclobber_ok_def)
  show ?thesis
  proof (cases "s = [] \<or> s = ''0.0.0.0''")
    case True
    then show ?thesis
      using r by (auto simp: dmz_set_string_def Let_def nc size_defs)
  next
    case False
    then have v: "fst (isValidIP L pton6 4 s [] 256) = ANSC_SUCCESS" "CosaDmlNatChkPortMappingClient L st (lib_inet_addr L s)"
      "length s < COSA_DML_IP_ADDR_LENGTH" "st' = st\<lparr>Dmz := (Dmz st)\<lparr>dmz_InternalIP := s, dmz_bEnabled := True\<rparr>\<rparr>"
      using r by (auto simp: dmz_set_string_def Let_def nc split: if_split_asm)
    moreover have "lib_inet_pton4 L s \<noteq> None \<and> CHR 0x27 \<notin> set s"
      using v(1) by (auto simp: isValidIP_def split: if_split_asm)
    ultimately show ?thesis using False by simp
  qed
qed

theorem dmz_host_checked_witness:
  "\<exists>st'. X_CISCO_COM_DMZ_SetParamStringValue mem_libs (\<lambda>s. True) \<lparr>cd_decode = (\<lambda>s. (s, 0)), cd_unpack_ok = (\<lambda>_ _. False),
      cd_unpack_next = (\<lambda>_ _. None)\<rparr> (\<lambda>_. True) mem_state ''InternalIP'' [] = Some ((True, None), st') \<and> dmz_InternalIP (Dmz st') = ''0.0.0.0''"
proof -
  have n: "noclobber_ok (lib_noclobber mem_libs)" by (simp add: mem_noclobber_ok)
  have r: "X_CISCO_COM_DMZ_SetParamStringValue mem_libs (\<lambda>s. True) D (\<lambda>_. True) mem_state ''InternalIP'' [] =
      Some ((True, None), mem_state\<lparr>Dmz := (Dmz mem_state)\<lparr>dmz_InternalIP := ''0.0.0.0''\<rparr>\<rparr>)" for D :: "string codec"
    by (simp add: X_CISCO_COM_DMZ_SetParamStringValue_def dmz_set_string_def Let_def mem_noclobber_def size_defs)
  from dmz_host_checked [OF n r] r show ?thesis by (intro exI conjI) (rule r, simp)
qed

section \<open>Documents\<close>

text \<open>The two arrays have their size, the texts fit, and the database holds the cells.\<close>

definition dmz_wf :: "'d dmz_wc \<Rightarrow> bool" where
  "dmz_wf w \<longleftrightarrow> length (dmz_cache w) = DMZ_CACHE_SIZE \<and> length (dmz_cache_bkup w) = DMZ_CACHE_SIZE \<and>
     (\<forall>c \<in> set (dmz_cache w). length (tc_cmd c) < BLOCK_SIZE \<and> length (tc_val c) < VAL_BLOCK_SIZE)"

definition dmz_synced :: "('d \<Rightarrow> string \<Rightarrow> string option) \<Rightarrow> 'd dmz_wc \<Rightarrow> bool" where
  "dmz_synced v w \<longleftrightarrow> (\<forall>c \<in> set (dmz_cache w). v (dz_db w) (tc_cmd c) = Some (tc_val c))"

lemma backup_wf:
  "dmz_wf w \<Longrightarrow> backup_dmz_cache (dmz_cache w) bk DMZ_CACHE_SIZE = dmz_cache w @ drop DMZ_CACHE_SIZE bk"
  by (auto simp: dmz_wf_def backup_dmz_cache_def copy_cell_def intro!: map_idI)

text \<open>Up to the document: the backup is the old cache and its keys are gone from the database.\<close>

lemma dmz_cleared:
  assumes C: "syscfg_ok C v" and wf: "dmz_wf w"
    and cl: "clear_dmz_cache_DB C (w\<lparr>dmz_cache_bkup := backup_dmz_cache (dmz_cache w) (dmz_cache_bkup w) DMZ_CACHE_SIZE\<rparr>) = (True, w2)"
  shows "v (dz_db w2) = without (cell_keys (dmz_cache w)) (v (dz_db w))" "dmz_cache_bkup w2 = dmz_cache w"
    "length (dmz_cache w2) = 2"
proof -
  obtain ok cs db where lp: "clear_dmz_loop C (dmz_cache w) (dz_db w) = (ok, cs, db)" by (metis prod_cases3)
  have bk: "backup_dmz_cache (dmz_cache w) (dmz_cache_bkup w) DMZ_CACHE_SIZE = dmz_cache w"
    using backup_wf [OF wf] wf by (simp add: dmz_wf_def)
  from cl lp have ok: "ok" and w2: "w2 = w\<lparr>dmz_cache_bkup := dmz_cache w, dmz_cache := cs, dz_db := db\<rparr>"
    by (simp_all add: clear_dmz_cache_DB_def bk)
  from lp ok clear_dmz_loop_view [OF C] have "v db = without (cell_keys (dmz_cache w)) (v (dz_db w))" "length cs = length (dmz_cache w)" by simp_all
  with w2 wf show "v (dz_db w2) = without (cell_keys (dmz_cache w)) (v (dz_db w))" "dmz_cache_bkup w2 = dmz_cache w"
    "length (dmz_cache w2) = 2" by (simp_all add: dmz_wf_def DMZ_CACHE_SIZE_def)
qed

text \<open>A DMZ document that is executed with success leaves its switch and host in the database and in the DMZ
  object; when it switches the DMZ on, the host is in the LAN and is no loopback, multicast or broadcast address,
  and when it switches it off the host is 0.0.0.0 and the IPv6 host is cleared.\<close>

theorem dmz_blob_applied:
  assumes "syscfg_ok C v" "dmz_wf w"
    and "Process_DMZ_WebConfigRequest C L True rpm w st = (Some BLOB_EXEC_SUCCESS, w', st')"
  shows "\<exists>host. (if dw_enable rpm
      then dw_internal_ip rpm = Some host \<and> CosaDmlNatChkPortMappingClient L st (lib_inet_addr L host) \<and>
        \<not> IPv4Addr_IsLoopback (lib_inet_addr L host) \<and> \<not> IPv4Addr_IsMulticast (lib_inet_addr L host) \<and>
        lib_inet_addr L host \<noteq> 0xffffffff
      else host = ''0.0.0.0'') \<and>
    v (dz_db w') ''dmz_enabled'' = Some (if dw_enable rpm then ''1'' else ''0'') \<and>
    v (dz_db w') ''dmz_dst_ip_addr'' = Some (snprintf VAL_BLOCK_SIZE host) \<and>
    dmz_bEnabled (Dmz st') = dw_enable rpm \<and>
    (length host < COSA_DML_IP_ADDR_LENGTH \<longrightarrow> dmz_InternalIP (Dmz st') = host) \<and>
    (\<not> dw_enable rpm \<longrightarrow> dmz_IPv6Host (Dmz st') = [])"
proof -
  let ?w1 = "w\<lparr>dmz_cache_bkup := backup_dmz_cache (dmz_cache w) (dmz_cache_bkup w) DMZ_CACHE_SIZE\<rparr>"
  obtain ok w2 where cl: "clear_dmz_cache_DB C ?w1 = (ok, w2)" by fastforce
  obtain ret cache where conf: "set_dmz_conf L st rpm (dmz_cache w2) = (ret, cache)" by fastforce
  obtain ok2 db where ap: "apply_dmz_cache_ToDB C cache DMZ_CACHE_SIZE (dz_db w2) = (ok2, db)" by fastforce
  have ok: "ok" "ret = BLOB_EXEC_SUCCESS" "ok2" and db: "dz_db w' = db"
    and st': "st' = st\<lparr>Dmz := apply_dmz_ToDML cache (Dmz st)\<rparr>"
    using assms(3) cl conf ap unfolding Process_DMZ_WebConfigRequest_def Let_def by (auto split: if_splits)
  from cl ok(1) have "clear_dmz_cache_DB C ?w1 = (True, w2)" by simp
  note w2 = dmz_cleared [OF assms(1,2) this]
  define host where "host = (if dw_enable rpm then the (dw_internal_ip rpm) else ''0.0.0.0'')"
  from set_dmz_conf_ok [OF conf [unfolded ok(2)] w2(3)]
  have cache: "cache = [cell ''dmz_enabled'' (if dw_enable rpm then ''1'' else ''0''), cell ''dmz_dst_ip_addr'' host]"
    and good: "if dw_enable rpm then dw_internal_ip rpm = Some host \<and> dmz_host_ok L st host else host = ''0.0.0.0''"
    by (auto simp: host_def)
  have view: "v db = v (dz_db w2) ++ cell_map cache"
    using apply_dmz_cache_ToDB_view [OF assms(1)] ap ok(3) by (simp add: cache DMZ_CACHE_SIZE_def)
  have "v db ''dmz_enabled'' = Some (if dw_enable rpm then ''1'' else ''0'')"
    "v db ''dmz_dst_ip_addr'' = Some (snprintf VAL_BLOCK_SIZE host)"
    by (simp_all add: view cache cell_map_def cell_def block_sizes snprintf_def)
  moreover have "dmz_bEnabled (apply_dmz_ToDML cache d) = dw_enable rpm"
    "length host < COSA_DML_IP_ADDR_LENGTH \<longrightarrow> dmz_InternalIP (apply_dmz_ToDML cache d) = host"
    "\<not> dw_enable rpm \<longrightarrow> dmz_IPv6Host (apply_dmz_ToDML cache d) = []" for d
    using good
    by (auto simp: apply_dmz_ToDML_def Let_def cache cell_def block_sizes snprintf_def atoi_def isspace_def isdigit_def
        digit_val_def COSA_DML_IP_ADDR_LENGTH_def)
  ultimately show ?thesis
    using good by (intro exI [of _ host]) (simp add: db st' dmz_host_ok_def Let_def split: if_splits)
qed

text \<open>A DMZ document that is refused for its host leaves the DMZ object alone, and its rollback restores the
  database and the cells, when the database held the cells before.\<close>

theorem dmz_blob_rollback_restores:
  assumes "syscfg_ok C v" "dmz_wf w" "dmz_synced v w"
    and "Process_DMZ_WebConfigRequest C L True rpm w st = (Some INVALID_DMZ_WAN_IP, w1, st1)"
    and "rollback_dmz C w1 = (True, w2)"
  shows "v (dz_db w2) = v (dz_db w) \<and> dmz_cache w2 = dmz_cache w \<and> st1 = st"
proof -
  let ?w0 = "w\<lparr>dmz_cache_bkup := backup_dmz_cache (dmz_cache w) (dmz_cache_bkup w) DMZ_CACHE_SIZE\<rparr>"
  obtain ok wc where cl: "clear_dmz_cache_DB C ?w0 = (ok, wc)" by fastforce
  obtain ret cache where conf: "set_dmz_conf L st rpm (dmz_cache wc) = (ret, cache)" by fastforce
  have ok: "ok" and w1: "w1 = wc\<lparr>dmz_cache := cache\<rparr>" and st: "st1 = st"
    using assms(4) cl conf unfolding Process_DMZ_WebConfigRequest_def Let_def by (auto split: if_splits prod.splits)
  from cl ok have "clear_dmz_cache_DB C ?w0 = (True, wc)" by simp
  note wc = dmz_cleared [OF assms(1,2) this]
  obtain db where ap: "apply_dmz_cache_ToDB C (dmz_cache w) DMZ_CACHE_SIZE (dz_db wc) = (True, db)"
    and w2: "w2 = w1\<lparr>dz_db := db, dmz_cache := backup_dmz_cache (dmz_cache w) cache DMZ_CACHE_SIZE\<rparr>"
    using assms(5) wc(2) by (auto simp: rollback_dmz_def w1 split: prod.splits)
  have len: "length cache = DMZ_CACHE_SIZE"
    using conf wc(3) by (auto simp: set_dmz_conf_def Let_def DMZ_CACHE_SIZE_def split: if_splits option.splits)
  have "take DMZ_CACHE_SIZE (dmz_cache w) = dmz_cache w" using assms(2) by (simp add: dmz_wf_def)
  then have view: "v db = without (cell_keys (dmz_cache w)) (v (dz_db w)) ++ cell_map (dmz_cache w)"
    using apply_dmz_cache_ToDB_view [OF assms(1) ap] wc(1) by simp
  have "v db = v (dz_db w)"
    unfolding view by (intro ext cell_map_restores) (use assms(3) in \<open>auto simp: dmz_synced_def\<close>)
  with st w2 backup_wf [OF assms(2), of cache] len show ?thesis by simp
qed

text \<open>The reader stops at the address, so the switch counts only when it comes before: with the address first a
  document that switches the DMZ on is read as one that switches it off, and executing it stores 0.\<close>

theorem dmz_reader_key_order:
  "map_option dwd_param (process_wandoc True [(MP_STR ''Enable'', MP_BOOL True), (MP_STR ''InternalIP'', MP_STR ip)] sd ver txid) =
      Some (Some \<lparr>dw_enable = True, dw_internal_ip = Some (strndup ip)\<rparr>) \<and>
    map_option dwd_param (process_wandoc True [(MP_STR ''InternalIP'', MP_STR ip), (MP_STR ''Enable'', MP_BOOL True)] sd ver txid) =
      Some (Some \<lparr>dw_enable = False, dw_internal_ip = Some (strndup ip)\<rparr>) \<and>
    set_dmz_conf L st \<lparr>dw_enable = False, dw_internal_ip = Some (strndup ip)\<rparr> [c1, c2] =
      (BLOB_EXEC_SUCCESS, [cell ''dmz_enabled'' ''0'', cell ''dmz_dst_ip_addr'' ''0.0.0.0''])"
  by (simp add: process_wandoc_def process_wanparams_def match_key_def NUL_def set_dmz_conf_def dec_int_def dec.simps [of 0] digit_def)

section \<open>Examples\<close>

definition ex_dmz :: "string \<Rightarrow> (string \<rightharpoonup> string) dmz_wc" where
  "ex_dmz host = \<lparr>dmz_cache = [\<lparr>tc_cmd = ''dmz_enabled'', tc_val = ''1''\<rparr>, \<lparr>tc_cmd = ''dmz_dst_ip_addr'', tc_val = host\<rparr>],
     dmz_cache_bkup = [blank, blank], dz_db = [''dmz_enabled'' \<mapsto> ''1'', ''dmz_dst_ip_addr'' \<mapsto> host, ''other'' \<mapsto> ''x''],
     dz_restarts = 0\<rparr>"

lemma ex_dmz_ok: "length host < VAL_BLOCK_SIZE \<Longrightarrow> dmz_wf (ex_dmz host)" "dmz_synced id (ex_dmz host)"
  by (auto simp: dmz_wf_def dmz_synced_def ex_dmz_def DMZ_CACHE_SIZE_def block_sizes)

lemma rollback_dmz_total:
  assumes C: "syscfg_total C"
  shows "\<exists>w2. rollback_dmz C w = (True, w2)"
proof -
  obtain ok db where sc: "set_cells C (take DMZ_CACHE_SIZE (dmz_cache_bkup w)) (dz_db w) = (ok, db)" by fastforce
  with set_cells_total [OF C, of "take DMZ_CACHE_SIZE (dmz_cache_bkup w)" "dz_db w"] have ok by simp
  obtain rc db' where cm: "sc_commit C db = (rc, db')" by fastforce
  with syscfg_totalD(3) [OF C cm] sc \<open>ok\<close> show ?thesis by (simp add: rollback_dmz_def apply_dmz_cache_ToDB_def)
qed

lemmas ex_dmz_run = Process_DMZ_WebConfigRequest_def rollback_dmz_def Let_def clear_dmz_cache_DB_def ex_dmz_def mem_syscfg_def
  set_dmz_conf_def apply_dmz_cache_ToDB_def DMZ_CACHE_SIZE_def dec_int_def

theorem dmz_blob_applied_witness:
  "\<exists>w' st'. Process_DMZ_WebConfigRequest mem_syscfg mem_libs True \<lparr>dw_enable = False, dw_internal_ip = None\<rparr> (ex_dmz ''192.168.0.9'')
      mem_state = (Some BLOB_EXEC_SUCCESS, w', st') \<and> dz_db w' ''dmz_enabled'' = Some ''0'' \<and> dmz_InternalIP (Dmz st') = ''0.0.0.0''"
proof -
  obtain w' st' where run: "Process_DMZ_WebConfigRequest mem_syscfg mem_libs True \<lparr>dw_enable = False, dw_internal_ip = None\<rparr>
      (ex_dmz ''192.168.0.9'') mem_state = (Some BLOB_EXEC_SUCCESS, w', st')"
    by (simp add: ex_dmz_run)
  have "dmz_wf (ex_dmz ''192.168.0.9'')" by (rule ex_dmz_ok) (simp add: VAL_BLOCK_SIZE_def)
  from dmz_blob_applied [OF mem_syscfg_ok(1) this run] run show ?thesis by (auto simp: COSA_DML_IP_ADDR_LENGTH_def)
qed

theorem dmz_blob_rollback_restores_witness:
  "\<exists>(w1 :: (string \<rightharpoonup> string) dmz_wc) (w2 :: (string \<rightharpoonup> string) dmz_wc). dz_db w1 ''dmz_enabled'' = None \<and> dz_db w2 ''dmz_enabled'' = Some ''1'' \<and>
     dz_db w2 ''dmz_dst_ip_addr'' = Some ''192.168.0.9''"
proof -
  let ?w = "ex_dmz ''192.168.0.9''"
  obtain w1 st1 where run: "Process_DMZ_WebConfigRequest mem_syscfg mem_libs True \<lparr>dw_enable = True, dw_internal_ip = None\<rparr>
      ?w mem_state = (Some INVALID_DMZ_WAN_IP, w1, st1)" and gone: "dz_db w1 ''dmz_enabled'' = None"
    by (simp add: ex_dmz_run)
  obtain w2 where rb: "rollback_dmz mem_syscfg w1 = (True, w2)" using rollback_dmz_total [OF mem_syscfg_ok(2)] by blast
  have "dmz_wf ?w" by (rule ex_dmz_ok) (simp add: VAL_BLOCK_SIZE_def)
  note result = dmz_blob_rollback_restores [OF mem_syscfg_ok(1) this ex_dmz_ok(2) run rb]
  show ?thesis by (intro exI [of _ w1] exI [of _ w2]) (use result gone in \<open>simp add: ex_dmz_def\<close>)
qed

end
