(* ===== verification/Nat_Registry_Props.thy ===== *)
theory Nat_Registry_Props
  imports Nat_PortTrigger_Table Nat_PortMapping_Table
begin

text \<open>
  What \<open>CosaNatRegSetNatInfo\<close> leaves in the registry and what \<open>CosaNatRegGetNatInfo\<close> makes of it after a restart:
  the uncommitted entries come back with their numbers and aliases, and with nothing else of what the user set.
\<close>

section \<open>Registry laws\<close>

definition irep_total :: "'r irep \<Rightarrow> bool" where
  "irep_total I \<longleftrightarrow> (\<forall>r p n. fst (ir_AddFolder I r p n)) \<and> (\<forall>r p k x. fst (ir_AddString I r p k x)) \<and>
     (\<forall>r p k x. fst (ir_AddBool I r p k x)) \<and> (\<forall>r p k x. fst (ir_AddUint32 I r p k x))"

lemma mem_irep_total: "irep_total mem_irep"
  by (simp add: irep_total_def mem_irep_def)

lemma irep_views:
  assumes "irep_ok I v" "irep_total I"
  shows "ir_AddFolder I r p n = (ok, r') \<Longrightarrow> ok \<and> v r' = rv_add_folder (v r) p n"
    "ir_AddString I r p k s = (ok, r') \<Longrightarrow> ok \<and> v r' = rv_upd (v r) p (\<lambda>f. f\<lparr>rf_str := (rf_str f)(k \<mapsto> s)\<rparr>)"
    "ir_AddBool I r p k b = (ok, r') \<Longrightarrow> ok \<and> v r' = rv_upd (v r) p (\<lambda>f. f\<lparr>rf_bool := (rf_bool f)(k \<mapsto> b)\<rparr>)"
    "ir_AddUint32 I r p k w = (ok, r') \<Longrightarrow> ok \<and> v r' = rv_upd (v r) p (\<lambda>f. f\<lparr>rf_uint := (rf_uint f)(k \<mapsto> w)\<rparr>)"
  using assms unfolding irep_ok_def irep_total_def reg_ok_def by (metis fst_conv snd_conv)+

lemma irep_reads:
  assumes "irep_ok I v"
  shows "ir_GetFolder I r p n \<longleftrightarrow> (\<exists>f. v r p = Some f \<and> n \<in> set (rf_subs f))"
    "v (ir_Clear I r p) = rv_clear (v r) p" "v (ir_EnableFileSync I r p b) = v r"
    "v r p = Some f \<Longrightarrow> ir_EnumFolder I r p = map Some (rf_subs f)"
    "v r p = Some f \<Longrightarrow> ir_GetString I r p k = rf_str f k" "v r p = Some f \<Longrightarrow> ir_GetBool I r p k = rf_bool f k"
    "v r p = Some f \<Longrightarrow> ir_GetUint32 I r p k = rf_uint f k"
  using assms unfolding irep_ok_def by simp_all

section \<open>Writing entries\<close>

definition num_name :: "ULONG \<Rightarrow> string" where
  "num_name n = dec_int (sint n)"

lemma num_name_inj: "num_name m = num_name n \<longleftrightarrow> m = n"
  by (simp add: num_name_def dec_int_sint_inj)

lemma num_name_read: "word_of_int (atoi (num_name n)) = n"
  by (simp add: num_name_def)

lemma port_trigger_read: "atoi COSA_IREP_FOLDER_NAME_PORTTRIGGER = 0"
  by (simp add: COSA_IREP_FOLDER_NAME_PORTTRIGGER_def atoi_def isspace_def isdigit_def)

lemma num_name_not_folder: "n \<noteq> 0 \<Longrightarrow> num_name n \<noteq> COSA_IREP_FOLDER_NAME_PORTTRIGGER"
  using num_name_read [of n] port_trigger_read by auto

text \<open>The folder \<open>p\<close> holds the entries \<open>xs\<close> (numbers and aliases), before the folders \<open>B\<close>.\<close>

definition holds :: "rview \<Rightarrow> path \<Rightarrow> string list \<Rightarrow> (ULONG \<times> string) list \<Rightarrow> bool" where
  "holds w p B xs \<longleftrightarrow> (\<exists>f. w p = Some f \<and> rf_subs f = map (\<lambda>(n, a). num_name n) xs @ B) \<and>
     (\<forall>(n, a) \<in> set xs. \<exists>g. w (p @ [num_name n]) = Some g \<and> rf_str g COSA_DML_RR_NAME_NATAlias = Some a \<and>
        rf_bool g COSA_DML_RR_NAME_NATbNew = Some True)"

definition uint_of :: "rview \<Rightarrow> path \<Rightarrow> string \<Rightarrow> ULONG option" where
  "uint_of w p = (case w p of Some f \<Rightarrow> rf_uint f | None \<Rightarrow> Map.empty)"

lemma holds_frame:
  assumes "holds w p B xs" "w' p = w p" "\<And>n a. (n, a) \<in> set xs \<Longrightarrow> w' (p @ [num_name n]) = w (p @ [num_name n])"
  shows "holds w' p B xs"
  using assms by (fastforce simp: holds_def)

lemma reg_set_entry_old: "reg_set_entry I p n a False rs = rs"
  by (simp add: reg_set_entry_def split: prod.splits)

lemma reg_set_entry_new:
  assumes I: "irep_ok I v" "irep_total I" and h: "holds (v r) p [] xs" and fresh: "n \<notin> fst ` set xs"
    and set: "reg_set_entry I p n a True (r, s) = (r', s')"
  shows "holds (v r') p [] (xs @ [(n, a)])" "s' = ANSC_SUCCESS"
    "q \<noteq> p \<Longrightarrow> q \<noteq> p @ [num_name n] \<Longrightarrow> v r' q = v r q" "uint_of (v r') p = uint_of (v r) p"
proof -
  obtain ok1 r1 where a1: "ir_AddFolder I r p (num_name n) = (ok1, r1)" by fastforce
  obtain ok2 r2 where a2: "ir_AddString I r1 (p @ [num_name n]) COSA_DML_RR_NAME_NATAlias a = (ok2, r2)" by fastforce
  obtain ok3 r3 where a3: "ir_AddBool I r2 (p @ [num_name n]) COSA_DML_RR_NAME_NATbNew True = (ok3, r3)" by fastforce
  note v1 = irep_views(1) [OF I a1] and v2 = irep_views(2) [OF I a2] and v3 = irep_views(3) [OF I a3]
  have r': "r' = r3" and s': "s' = ANSC_SUCCESS"
    using set v1 v2 v3 by (auto simp: reg_set_entry_def FolderName_Some num_name_def [symmetric] a1 a2 a3)
  show "s' = ANSC_SUCCESS" by (rule s')
  obtain f where f: "v r p = Some f" "rf_subs f = map (\<lambda>(n, a). num_name n) xs" using h by (auto simp: holds_def)
  have "num_name n \<notin> set (rf_subs f)" using fresh f(2) by (force simp: num_name_inj)
  then have w: "v r3 = (v r)(p \<mapsto> f\<lparr>rf_subs := rf_subs f @ [num_name n]\<rparr>,
      p @ [num_name n] \<mapsto> empty_folder\<lparr>rf_str := [COSA_DML_RR_NAME_NATAlias \<mapsto> a], rf_bool := [COSA_DML_RR_NAME_NATbNew \<mapsto> True]\<rparr>)"
    using v1 v2 v3 f(1) by (simp add: rv_add_folder_def rv_upd_def empty_folder_def)
  show "q \<noteq> p \<Longrightarrow> q \<noteq> p @ [num_name n] \<Longrightarrow> v r' q = v r q" by (simp add: w r')
  show "uint_of (v r') p = uint_of (v r) p" by (simp add: uint_of_def w r' f(1))
  have "m \<noteq> n" if "(m, b) \<in> set xs" for m b using that fresh(1) by force
  then show "holds (v r') p [] (xs @ [(n, a)])"
    using h f unfolding r' w by (fastforce simp: holds_def num_name_inj)
qed

text \<open>The loop over a list of entries with number \<open>num\<close>, alias \<open>al\<close> and flag \<open>new\<close>.\<close>

definition news :: "('x \<Rightarrow> ULONG) \<Rightarrow> ('x \<Rightarrow> string) \<Rightarrow> ('x \<Rightarrow> bool) \<Rightarrow> 'x list \<Rightarrow> (ULONG \<times> string) list" where
  "news num al new ls = map (\<lambda>x. (num x, al x)) (filter new ls)"

lemma reg_set_loop:
  assumes I: "irep_ok I v" "irep_total I"
  shows "holds (v r) p [] xs \<Longrightarrow> distinct (map num ls) \<Longrightarrow> (\<And>x. x \<in> set ls \<Longrightarrow> num x \<notin> fst ` set xs) \<Longrightarrow>
    fold (\<lambda>x. reg_set_entry I p (num x) (al x) (new x)) ls (r, ANSC_SUCCESS) = (r', s') \<Longrightarrow>
    holds (v r') p [] (xs @ news num al new ls) \<and> s' = ANSC_SUCCESS \<and> uint_of (v r') p = uint_of (v r) p \<and>
    (\<forall>q. q \<noteq> p \<longrightarrow> (\<forall>x \<in> set ls. q \<noteq> p @ [num_name (num x)]) \<longrightarrow> v r' q = v r q)"
proof (induction ls arbitrary: r xs)
  case Nil
  then show ?case by (simp add: news_def)
next
  case (Cons x ls)
  show ?case
  proof (cases "new x")
    case False
    with Cons.prems have "fold (\<lambda>x. reg_set_entry I p (num x) (al x) (new x)) ls (r, ANSC_SUCCESS) = (r', s')"
      by (simp add: reg_set_entry_old)
    from Cons.IH [OF Cons.prems(1) _ _ this] Cons.prems False show ?thesis by (simp add: news_def)
  next
    case True
    obtain r1 s1 where e: "reg_set_entry I p (num x) (al x) True (r, ANSC_SUCCESS) = (r1, s1)" by fastforce
    have fr: "num x \<notin> fst ` set xs" using Cons.prems(3) [of x] by simp
    note e' = reg_set_entry_new [OF I Cons.prems(1) fr e]
    have rest: "fold (\<lambda>x. reg_set_entry I p (num x) (al x) (new x)) ls (r1, ANSC_SUCCESS) = (r', s')"
      using Cons.prems(4) e e'(2) True by simp
    have "holds (v r') p [] ((xs @ [(num x, al x)]) @ news num al new ls) \<and> s' = ANSC_SUCCESS \<and>
        uint_of (v r') p = uint_of (v r1) p \<and> (\<forall>q. q \<noteq> p \<longrightarrow> (\<forall>x \<in> set ls. q \<noteq> p @ [num_name (num x)]) \<longrightarrow> v r' q = v r1 q)"
    proof (rule Cons.IH [OF e'(1) _ _ rest])
      show "distinct (map num ls)" using Cons.prems(2) by simp
      fix y assume y: "y \<in> set ls"
      then have "num x \<noteq> num y" using Cons.prems(2) by (metis distinct.simps(2) imageI list.set_map list.simps(9))
      then show "num y \<notin> fst ` set (xs @ [(num x, al x)])" using Cons.prems(3) [of y] y by auto
    qed
    then show ?thesis using e'(3,4) True by (simp add: news_def)
  qed
qed

text \<open>What is in the registry after \<open>CosaNatRegSetNatInfo\<close>, when the registry takes every record.\<close>

definition new_pms :: "('s, 'r) nat_state \<Rightarrow> (ULONG \<times> string) list" where
  "new_pms st = news (\<lambda>l. pm_InstanceNumber (lnk_hContext l)) (\<lambda>l. pm_Alias (lnk_hContext l)) lnk_bNew (NatPMappingList st)"

definition new_pts :: "('s, 'r) nat_state \<Rightarrow> (ULONG \<times> string) list" where
  "new_pts st = news (\<lambda>l. pt_InstanceNumber (lnk_hContext l)) (\<lambda>l. pt_Alias (lnk_hContext l)) lnk_bNew (NatPTriggerList st)"

lemma RegSet_holds:
  assumes I: "irep_ok (lib_ir L) v" "irep_total (lib_ir L)" and alloc: "\<forall>n. lib_alloc L n"
    and p: "hIrepFolderNat st = Some p" "v (st_registry st) p = Some f0"
    and nums: "distinct (map (\<lambda>l. pm_InstanceNumber (lnk_hContext l)) (NatPMappingList st))"
      "\<forall>l \<in> set (NatPMappingList st). pm_InstanceNumber (lnk_hContext l) \<noteq> 0"
      "distinct (map (\<lambda>l. pt_InstanceNumber (lnk_hContext l)) (NatPTriggerList st))"
    and set: "CosaNatRegSetNatInfo L st = (s, st')"
  shows "s = ANSC_SUCCESS" "holds (v (st_registry st')) p [COSA_IREP_FOLDER_NAME_PORTTRIGGER] (new_pms st)"
    "holds (v (st_registry st')) (p @ [COSA_IREP_FOLDER_NAME_PORTTRIGGER]) [] (new_pts st)"
    "uint_of (v (st_registry st')) (p @ [COSA_IREP_FOLDER_NAME_PORTTRIGGER]) COSA_DML_RR_NAME_NATNextInsNumber =
       Some (ulPtNextInstanceNumber st)"
    "u \<noteq> p \<Longrightarrow> \<not> below p u \<Longrightarrow> v (st_registry st') u = v (st_registry st) u"
proof -
  let ?I = "lib_ir L" and ?q = "p @ [COSA_IREP_FOLDER_NAME_PORTTRIGGER]"
  define r1 where "r1 = ir_Clear ?I (ir_EnableFileSync ?I (st_registry st) p False) p"
  obtain st1 a where al: "AnscAllocateMemory L st = (Some a, st1)" using alloc by (simp add: AnscAllocateMemory_def)
  obtain r2 s2 where l1: "fold (reg_set_pm ?I p) (NatPMappingList st) (r1, ANSC_SUCCESS) = (r2, s2)" by fastforce
  obtain ok3 r3 where af: "ir_AddFolder ?I r2 p COSA_IREP_FOLDER_NAME_PORTTRIGGER = (ok3, r3)" by fastforce
  obtain ok4 r4 where au: "ir_AddUint32 ?I r3 ?q COSA_DML_RR_NAME_NATNextInsNumber (ulPtNextInstanceNumber st) = (ok4, r4)" by fastforce
  note v3 = irep_views(1) [OF I af] and v4 = irep_views(4) [OF I au]
  obtain r5 s5 where l2: "fold (reg_set_pt ?I ?q) (NatPTriggerList st) (r4, ANSC_SUCCESS) = (r5, s5)" by fastforce
  have s: "s = s5" and reg: "v (st_registry st') = v r5"
    using set al l1 af au l2 v3 v4 irep_reads(3) [OF I(1)]
    by (auto simp: CosaNatRegSetNatInfo_def p(1) Let_def r1_def [symmetric] split: if_splits)
  have w1: "v r1 = rv_clear (v (st_registry st)) p" by (simp add: r1_def irep_reads [OF I(1)])
  then have h1: "holds (v r1) p [] []" by (simp add: holds_def rv_clear_def p(2) empty_folder_def)
  have "fold (\<lambda>l. reg_set_entry ?I p (pm_InstanceNumber (lnk_hContext l)) (pm_Alias (lnk_hContext l)) (lnk_bNew l))
      (NatPMappingList st) (r1, ANSC_SUCCESS) = (r2, s2)"
    using l1 by (simp add: reg_set_pm_def [abs_def])
  from reg_set_loop [OF I h1 nums(1) _ this]
  have h2: "holds (v r2) p [] (new_pms st)"
    and f2: "\<And>q. q \<noteq> p \<Longrightarrow> \<forall>l \<in> set (NatPMappingList st). q \<noteq> p @ [num_name (pm_InstanceNumber (lnk_hContext l))] \<Longrightarrow> v r2 q = v r1 q"
    by (simp_all add: new_pms_def)
  have names: "num_name n \<noteq> COSA_IREP_FOLDER_NAME_PORTTRIGGER" if "(n, a) \<in> set (new_pms st)" for n a
    using that nums(2) num_name_not_folder by (auto simp: new_pms_def news_def)
  obtain f where f: "v r2 p = Some f" "rf_subs f = map (\<lambda>(n, a). num_name n) (new_pms st)" using h2 by (auto simp: holds_def)
  have notin: "COSA_IREP_FOLDER_NAME_PORTTRIGGER \<notin> set (rf_subs f)" using names f(2) by force
  have w4: "v r4 = (v r2)(p \<mapsto> f\<lparr>rf_subs := rf_subs f @ [COSA_IREP_FOLDER_NAME_PORTTRIGGER]\<rparr>,
      ?q \<mapsto> empty_folder\<lparr>rf_uint := [COSA_DML_RR_NAME_NATNextInsNumber \<mapsto> ulPtNextInstanceNumber st]\<rparr>)"
    using v3 v4 f(1) notin by (simp add: rv_add_folder_def rv_upd_def empty_folder_def)
  have h4: "holds (v r4) ?q [] []" by (simp add: w4 holds_def empty_folder_def)
  have "fold (\<lambda>l. reg_set_entry ?I ?q (pt_InstanceNumber (lnk_hContext l)) (pt_Alias (lnk_hContext l)) (lnk_bNew l))
      (NatPTriggerList st) (r4, ANSC_SUCCESS) = (r5, s5)"
    using l2 by (simp add: reg_set_pt_def [abs_def])
  from reg_set_loop [OF I h4 nums(3) _ this]
  have h5: "holds (v r5) ?q [] (new_pts st)" and s5: "s5 = ANSC_SUCCESS" and u5: "uint_of (v r5) ?q = uint_of (v r4) ?q"
    and f5: "\<And>q. q \<noteq> ?q \<Longrightarrow> \<forall>l \<in> set (NatPTriggerList st). q \<noteq> ?q @ [num_name (pt_InstanceNumber (lnk_hContext l))] \<Longrightarrow> v r5 q = v r4 q"
    by (simp_all add: new_pts_def)
  show "s = ANSC_SUCCESS" using s s5 by simp
  show "holds (v (st_registry st')) ?q [] (new_pts st)" using h5 reg by simp
  have "holds (v r4) p [COSA_IREP_FOLDER_NAME_PORTTRIGGER] (new_pms st)"
    using h2 f names unfolding w4 by (fastforce simp: holds_def)
  then show "holds (v (st_registry st')) p [COSA_IREP_FOLDER_NAME_PORTTRIGGER] (new_pms st)"
    unfolding reg by (rule holds_frame) (use names f5 in force)+
  show "uint_of (v (st_registry st')) ?q COSA_DML_RR_NAME_NATNextInsNumber = Some (ulPtNextInstanceNumber st)"
    by (simp add: reg u5) (simp add: w4 uint_of_def)
  assume u: "u \<noteq> p" "\<not> below p u"
  have "u \<noteq> p @ x # y" for x y using u(2) by (auto simp: below_def)
  then have "v r5 u = v r4 u" "v r4 u = v r2 u" "v r2 u = v r1 u" using u(1) f5 f2 by (simp_all add: w4)
  then show "v (st_registry st') u = v (st_registry st) u" using u by (simp add: reg w1 rv_clear_def)
qed

section \<open>Reading entries\<close>

lemma push_greatest: "(\<And>x. x \<in> set l \<Longrightarrow> lnk_InstanceNumber x \<le> lnk_InstanceNumber e) \<Longrightarrow> CosaSListPushEntryByInsNum l e = l @ [e]"
  by (simp add: push_eq takeWhile_eq_all_conv [THEN iffD2] dropWhile_eq_Nil_conv [THEN iffD2])

text \<open>What a table shows of its uncommitted entries: number, alias and flag, and whether the rest is default.\<close>

definition pm_row :: "pm_link \<Rightarrow> ULONG \<times> string \<times> bool" where
  "pm_row l = (lnk_InstanceNumber l, pm_Alias (lnk_hContext l), lnk_bNew l)"

definition pt_row :: "pt_link \<Rightarrow> ULONG \<times> string \<times> bool" where
  "pt_row l = (lnk_InstanceNumber l, pt_Alias (lnk_hContext l), lnk_bNew l)"

lemma holds_read:
  assumes I: "irep_ok I v" and h: "holds (v r) p B xs" and m: "(n, a) \<in> set xs"
  shows "ir_GetFolder I r p (num_name n)" "ir_GetString I r (p @ [num_name n]) COSA_DML_RR_NAME_NATAlias = Some a"
    "ir_GetBool I r (p @ [num_name n]) COSA_DML_RR_NAME_NATbNew = Some True"
proof -
  show "ir_GetFolder I r p (num_name n)" using h m by (force simp: holds_def irep_reads(1) [OF I])
  obtain g where "v r (p @ [num_name n]) = Some g" "rf_str g COSA_DML_RR_NAME_NATAlias = Some a" "rf_bool g COSA_DML_RR_NAME_NATbNew = Some True"
    using h m by (fastforce simp: holds_def)
  then show "ir_GetString I r (p @ [num_name n]) COSA_DML_RR_NAME_NATAlias = Some a"
    "ir_GetBool I r (p @ [num_name n]) COSA_DML_RR_NAME_NATbNew = Some True"
    by (simp_all add: irep_reads(5,6) [OF I])
qed

lemma reg_get_pm_reads:
  assumes I: "irep_ok (lib_ir L) v" and alloc: "\<forall>n. lib_alloc L n" and h: "holds (v (st_registry st0)) p B xs"
  shows "set ys \<subseteq> set xs \<Longrightarrow> sorted (map fst ys) \<Longrightarrow> distinct (map fst ys) \<Longrightarrow> 0 \<notin> fst ` set ys \<Longrightarrow>
    (\<And>n a. (n, a) \<in> set ys \<Longrightarrow> length a < COSA_DML_IF_NAME_LENGTH \<and> (\<forall>l \<in> set (NatPMappingList st). lnk_InstanceNumber l < n)) \<Longrightarrow>
    st_registry st = st_registry st0 \<Longrightarrow>
    reg_get_pm L p (map (\<lambda>(n, a). Some (num_name n)) ys @ rest) st = (s, st') \<Longrightarrow>
    \<exists>st1. reg_get_pm L p rest st1 = (s, st') \<and> map pm_row (NatPMappingList st1) = map pm_row (NatPMappingList st) @ map (\<lambda>(n, a). (n, a, True)) ys \<and>
      st_registry st1 = st_registry st \<and> NatPTriggerList st1 = NatPTriggerList st \<and>
      hIrepFolderNat st1 = hIrepFolderNat st \<and> hIrepFolderNatPt st1 = hIrepFolderNatPt st"
proof (induction ys arbitrary: st)
  case Nil
  then show ?case by auto
next
  case (Cons y ys)
  obtain n a where y: "y = (n, a)" by fastforce
  have m: "(n, a) \<in> set xs" and n: "n \<noteq> 0" using Cons.prems(1,4) y by auto
  note rd = holds_read [OF I h m]
  have fit: "length a < COSA_DML_IF_NAME_LENGTH" and gt: "\<forall>l \<in> set (NatPMappingList st). lnk_InstanceNumber l < n"
    using Cons.prems(5) [of n a] y by auto
  let ?a1 = "st_allocs st" and ?a2 = "Suc (st_allocs st)"
  let ?e = "(NAT_PORTMAPPING_SET_DEFAULTVALUE (lib_junk_pm L ?a1))\<lparr>pm_InstanceNumber := n, pm_Alias := a\<rparr>"
  let ?l = "\<lparr>lnk_addr = ?a2, lnk_InstanceNumber = n, lnk_bNew = True, lnk_bFound = False, lnk_hContext = ?e\<rparr>"
  let ?st = "st\<lparr>st_allocs := Suc (Suc (st_allocs st)), NatPMappingList := NatPMappingList st @ [?l]\<rparr>"
  have push: "CosaSListPushEntryByInsNum (NatPMappingList st) ?l = NatPMappingList st @ [?l]"
    by (rule push_greatest) (use gt in auto)
  have step: "reg_get_pm L p (map (\<lambda>(n, a). Some (num_name n)) ys @ rest) ?st = (s, st')"
    using Cons.prems(7) rd fit n push Cons.prems(6)
    by (simp add: y num_name_read Let_def AnscAllocateMemory_def alloc)
  have "\<exists>st1. reg_get_pm L p rest st1 = (s, st') \<and> map pm_row (NatPMappingList st1) = map pm_row (NatPMappingList ?st) @ map (\<lambda>(n, a). (n, a, True)) ys \<and>
      st_registry st1 = st_registry ?st \<and> NatPTriggerList st1 = NatPTriggerList ?st \<and>
      hIrepFolderNat st1 = hIrepFolderNat ?st \<and> hIrepFolderNatPt st1 = hIrepFolderNatPt ?st"
  proof (rule Cons.IH [OF _ _ _ _ _ _ step])
    fix m b assume mb: "(m, b) \<in> set ys"
    then have "n < m" using Cons.prems(2,3) y by (force simp: order_less_le)
    then show "length b < COSA_DML_IF_NAME_LENGTH \<and> (\<forall>l \<in> set (NatPMappingList ?st). lnk_InstanceNumber l < m)"
      using Cons.prems(5) [of m b] mb gt by auto
  qed (use Cons.prems y in auto)
  moreover have "pm_row ?l = (n, a, True)" by (simp add: pm_row_def)
  ultimately show ?case by (simp add: y)
qed

lemma reg_get_pt_reads:
  assumes I: "irep_ok (lib_ir L) v" and alloc: "\<forall>n. lib_alloc L n" and h: "holds (v (st_registry st0)) p B xs"
  shows "set ys \<subseteq> set xs \<Longrightarrow> sorted (map fst ys) \<Longrightarrow> distinct (map fst ys) \<Longrightarrow> 0 \<notin> fst ` set ys \<Longrightarrow>
    (\<And>n a. (n, a) \<in> set ys \<Longrightarrow> length a < COSA_DML_ALIAS_LENGTH \<and> (\<forall>l \<in> set (NatPTriggerList st). lnk_InstanceNumber l < n)) \<Longrightarrow>
    st_registry st = st_registry st0 \<Longrightarrow>
    reg_get_pt L p (map (\<lambda>(n, a). Some (num_name n)) ys @ rest) st = (s, st') \<Longrightarrow>
    \<exists>st1. reg_get_pt L p rest st1 = (s, st') \<and> map pt_row (NatPTriggerList st1) = map pt_row (NatPTriggerList st) @ map (\<lambda>(n, a). (n, a, True)) ys \<and>
      st_registry st1 = st_registry st \<and> NatPMappingList st1 = NatPMappingList st \<and>
      hIrepFolderNat st1 = hIrepFolderNat st \<and> hIrepFolderNatPt st1 = hIrepFolderNatPt st"
proof (induction ys arbitrary: st)
  case Nil
  then show ?case by auto
next
  case (Cons y ys)
  obtain n a where y: "y = (n, a)" by fastforce
  have m: "(n, a) \<in> set xs" and n: "n \<noteq> 0" using Cons.prems(1,4) y by auto
  note rd = holds_read [OF I h m]
  have fit: "length a < COSA_DML_ALIAS_LENGTH" and gt: "\<forall>l \<in> set (NatPTriggerList st). lnk_InstanceNumber l < n"
    using Cons.prems(5) [of n a] y by auto
  let ?a1 = "st_allocs st" and ?a2 = "Suc (st_allocs st)"
  let ?e = "(COSA_DML_NAT_PTRIGGER_INIT (lib_junk_pt L ?a1))\<lparr>pt_InstanceNumber := n, pt_Alias := a\<rparr>"
  let ?l = "\<lparr>lnk_addr = ?a2, lnk_InstanceNumber = n, lnk_bNew = True, lnk_bFound = False, lnk_hContext = ?e\<rparr>"
  let ?st = "st\<lparr>st_allocs := Suc (Suc (st_allocs st)), NatPTriggerList := NatPTriggerList st @ [?l]\<rparr>"
  have push: "CosaSListPushEntryByInsNum (NatPTriggerList st) ?l = NatPTriggerList st @ [?l]"
    by (rule push_greatest) (use gt in auto)
  have step: "reg_get_pt L p (map (\<lambda>(n, a). Some (num_name n)) ys @ rest) ?st = (s, st')"
    using Cons.prems(7) rd fit n push Cons.prems(6)
    by (simp add: y num_name_read Let_def AnscAllocateMemory_def alloc)
  have "\<exists>st1. reg_get_pt L p rest st1 = (s, st') \<and> map pt_row (NatPTriggerList st1) = map pt_row (NatPTriggerList ?st) @ map (\<lambda>(n, a). (n, a, True)) ys \<and>
      st_registry st1 = st_registry ?st \<and> NatPMappingList st1 = NatPMappingList ?st \<and>
      hIrepFolderNat st1 = hIrepFolderNat ?st \<and> hIrepFolderNatPt st1 = hIrepFolderNatPt ?st"
  proof (rule Cons.IH [OF _ _ _ _ _ _ step])
    fix m b assume mb: "(m, b) \<in> set ys"
    then have "n < m" using Cons.prems(2,3) y by (force simp: order_less_le)
    then show "length b < COSA_DML_ALIAS_LENGTH \<and> (\<forall>l \<in> set (NatPTriggerList ?st). lnk_InstanceNumber l < m)"
      using Cons.prems(5) [of m b] mb gt by auto
  qed (use Cons.prems y in auto)
  moreover have "pt_row ?l = (n, a, True)" by (simp add: pt_row_def)
  ultimately show ?case by (simp add: y)
qed

text \<open>The folder of the triggers is skipped among the port mappings: its name is no number.\<close>

lemma reg_get_pm_folder: "reg_get_pm L p [Some COSA_IREP_FOLDER_NAME_PORTTRIGGER] st = (ANSC_SUCCESS, st)"
  by (simp add: port_trigger_read)

lemma news_rows:
  assumes "table_wf lnk_InstanceNumber ls" "\<forall>l \<in> set ls. num l = lnk_InstanceNumber l"
  shows "sorted (map fst (news num al lnk_bNew ls))" "distinct (map fst (news num al lnk_bNew ls))"
    "0 \<notin> fst ` set (news num al lnk_bNew ls)"
    "map (\<lambda>(n, a). (n, a, True)) (news num al lnk_bNew ls) = map (\<lambda>l. (lnk_InstanceNumber l, al l, lnk_bNew l)) (filter lnk_bNew ls)"
proof -
  have eq: "map fst (news num al lnk_bNew ls) = map lnk_InstanceNumber (filter lnk_bNew ls)"
    using assms(2) by (simp add: news_def comp_def)
  show "sorted (map fst (news num al lnk_bNew ls))" unfolding eq using assms(1) by (simp add: table_wf_def sorted_filter)
  show "distinct (map fst (news num al lnk_bNew ls))" unfolding eq using assms(1) by (simp add: table_wf_def distinct_map_filter)
  show "0 \<notin> fst ` set (news num al lnk_bNew ls)" using assms by (force simp: news_def table_wf_def)
  show "map (\<lambda>(n, a). (n, a, True)) (news num al lnk_bNew ls) = map (\<lambda>l. (lnk_InstanceNumber l, al l, lnk_bNew l)) (filter lnk_bNew ls)"
    using assms(2) by (simp add: news_def comp_def)
qed

lemma reg_get_pt_keeps: "NatPMappingList (snd (reg_get_pt L q names st)) = NatPMappingList st \<and>
    ulPtNextInstanceNumber (snd (reg_get_pt L q names st)) = ulPtNextInstanceNumber st"
proof (induction L q names st rule: reg_get_pt.induct)
  case (3 L p name names st)
  then show ?case by (auto simp: Let_def AnscAllocateMemory_def)
qed simp_all

lemma reg_get_pm_keeps: "ulPtNextInstanceNumber (snd (reg_get_pm L p names st)) = ulPtNextInstanceNumber st"
proof (induction L p names st rule: reg_get_pm.induct)
  case (3 L p name names st)
  then show ?case by (auto simp: Let_def AnscAllocateMemory_def)
qed simp_all

text \<open>Reading both folders into empty tables.\<close>

lemma RegGet_reads:
  assumes I: "irep_ok (lib_ir L) v" and alloc: "\<forall>n. lib_alloc L n"
    and hp: "holds (v (st_registry st)) p [COSA_IREP_FOLDER_NAME_PORTTRIGGER] xs"
    and ord: "sorted (map fst xs)" "distinct (map fst xs)" "0 \<notin> fst ` set xs"
    and fit: "\<forall>(n, a) \<in> set xs. length a < COSA_DML_IF_NAME_LENGTH" and empty: "NatPMappingList st = []"
    and folders: "hIrepFolderNat st = Some p" "hIrepFolderNatPt st = Some q"
    and get: "CosaNatRegGetNatInfo L st = (s, st')"
  shows "map pm_row (NatPMappingList st') = map (\<lambda>(n, a). (n, a, True)) xs"
    "\<lbrakk>holds (v (st_registry st)) q [] ys; sorted (map fst ys); distinct (map fst ys); 0 \<notin> fst ` set ys;
      \<forall>(n, a) \<in> set ys. length a < COSA_DML_ALIAS_LENGTH; NatPTriggerList st = []\<rbrakk> \<Longrightarrow>
     s = ANSC_SUCCESS \<and> map pt_row (NatPTriggerList st') = map (\<lambda>(n, a). (n, a, True)) ys"
proof -
  let ?port = "Some COSA_IREP_FOLDER_NAME_PORTTRIGGER"
  have enum: "ir_EnumFolder (lib_ir L) (st_registry st) p = map (\<lambda>(n, a). Some (num_name n)) xs @ [?port]"
    using hp by (auto simp: holds_def irep_reads(4) [OF I] comp_def case_prod_beta)
  obtain r1 st1 where g1: "reg_get_pm L p (map (\<lambda>(n, a). Some (num_name n)) xs @ [?port]) st = (r1, st1)" by fastforce
  have "\<exists>st0. reg_get_pm L p [?port] st0 = (r1, st1) \<and>
      map pm_row (NatPMappingList st0) = map pm_row (NatPMappingList st) @ map (\<lambda>(n, a). (n, a, True)) xs \<and>
      st_registry st0 = st_registry st \<and> NatPTriggerList st0 = NatPTriggerList st \<and>
      hIrepFolderNat st0 = hIrepFolderNat st \<and> hIrepFolderNatPt st0 = hIrepFolderNatPt st"
    by (rule reg_get_pm_reads [OF I alloc hp subset_refl ord _ refl g1]) (use fit empty in auto)
  then have r1: "r1 = ANSC_SUCCESS" "map pm_row (NatPMappingList st1) = map (\<lambda>(n, a). (n, a, True)) xs"
    "st_registry st1 = st_registry st" "NatPTriggerList st1 = NatPTriggerList st"
    using empty unfolding reg_get_pm_folder by auto
  have g2: "reg_get_pt L q (ir_EnumFolder (lib_ir L) (st_registry st) q) st1 = (s, st')"
    using get folders g1 enum r1(1,3) by (simp add: CosaNatRegGetNatInfo_def)
  then show "map pm_row (NatPMappingList st') = map (\<lambda>(n, a). (n, a, True)) xs"
    using reg_get_pt_keeps [of L q _ st1] r1(2) by (metis snd_conv)
  assume hq: "holds (v (st_registry st)) q [] ys" and ordq: "sorted (map fst ys)" "distinct (map fst ys)" "0 \<notin> fst ` set ys"
    and fitq: "\<forall>(n, a) \<in> set ys. length a < COSA_DML_ALIAS_LENGTH" and emptyq: "NatPTriggerList st = []"
  have "ir_EnumFolder (lib_ir L) (st_registry st) q = map (\<lambda>(n, a). Some (num_name n)) ys @ []"
    using hq by (auto simp: holds_def irep_reads(4) [OF I] comp_def case_prod_beta)
  with g2 have g2: "reg_get_pt L q (map (\<lambda>(n, a). Some (num_name n)) ys @ []) st1 = (s, st')" by simp
  have "\<exists>st0. reg_get_pt L q [] st0 = (s, st') \<and>
      map pt_row (NatPTriggerList st0) = map pt_row (NatPTriggerList st1) @ map (\<lambda>(n, a). (n, a, True)) ys \<and>
      st_registry st0 = st_registry st1 \<and> NatPMappingList st0 = NatPMappingList st1 \<and>
      hIrepFolderNat st0 = hIrepFolderNat st1 \<and> hIrepFolderNatPt st0 = hIrepFolderNatPt st1"
    by (rule reg_get_pt_reads [OF I alloc hq subset_refl ordq _ r1(3) g2]) (use fitq r1(4) emptyq in auto)
  then show "s = ANSC_SUCCESS \<and> map pt_row (NatPTriggerList st') = map (\<lambda>(n, a). (n, a, True)) ys"
    using r1(4) emptyq by auto
qed

text \<open>What the invariants of the tables give for the entries that are written.\<close>

lemma tables_numbers:
  assumes "pm_inv st" "pt_inv st"
  shows "distinct (map (\<lambda>l. pm_InstanceNumber (lnk_hContext l)) (NatPMappingList st))"
    "\<forall>l \<in> set (NatPMappingList st). pm_InstanceNumber (lnk_hContext l) \<noteq> 0"
    "distinct (map (\<lambda>l. pt_InstanceNumber (lnk_hContext l)) (NatPTriggerList st))"
    "table_wf lnk_InstanceNumber (NatPMappingList st)" "table_wf lnk_InstanceNumber (NatPTriggerList st)"
    "\<forall>l \<in> set (NatPMappingList st). pm_InstanceNumber (lnk_hContext l) = lnk_InstanceNumber l"
    "\<forall>l \<in> set (NatPTriggerList st). pt_InstanceNumber (lnk_hContext l) = lnk_InstanceNumber l"
proof -
  show wf: "table_wf lnk_InstanceNumber (NatPMappingList st)" "table_wf lnk_InstanceNumber (NatPTriggerList st)"
    and num: "\<forall>l \<in> set (NatPMappingList st). pm_InstanceNumber (lnk_hContext l) = lnk_InstanceNumber l"
      "\<forall>l \<in> set (NatPTriggerList st). pt_InstanceNumber (lnk_hContext l) = lnk_InstanceNumber l"
    using assms by (simp_all add: pm_inv_links pt_inv_def links_ok_def)
  then show "distinct (map (\<lambda>l. pm_InstanceNumber (lnk_hContext l)) (NatPMappingList st))"
    "\<forall>l \<in> set (NatPMappingList st). pm_InstanceNumber (lnk_hContext l) \<noteq> 0"
    "distinct (map (\<lambda>l. pt_InstanceNumber (lnk_hContext l)) (NatPTriggerList st))"
    by (auto simp: table_wf_def image_iff cong: map_cong)
qed

text \<open>The registry carries the uncommitted entries over a restart: after \<open>CosaNatRegSetNatInfo\<close>, a new NAT object with
  empty tables on the same registry gets exactly the uncommitted port mappings and port triggers back, in order, with
  their numbers and aliases and still marked as new. (Nothing else of an entry is stored.)\<close>

theorem nat_registry_roundtrip:
  assumes "irep_ok (lib_ir L) v" "irep_total (lib_ir L)" "\<forall>n. lib_alloc L n"
    and "hIrepFolderNat st = Some p" "v (st_registry st) p = Some f0" "pm_inv st" "pt_inv st"
    and "\<forall>l \<in> set (NatPMappingList st). length (pm_Alias (lnk_hContext l)) < COSA_DML_IF_NAME_LENGTH"
    and "\<forall>l \<in> set (NatPTriggerList st). length (pt_Alias (lnk_hContext l)) < COSA_DML_ALIAS_LENGTH"
    and "CosaNatRegSetNatInfo L st = (s1, st1)"
    and "st_registry st2 = st_registry st1" "NatPMappingList st2 = []" "NatPTriggerList st2 = []"
    and "hIrepFolderNat st2 = Some p" "hIrepFolderNatPt st2 = Some (p @ [COSA_IREP_FOLDER_NAME_PORTTRIGGER])"
    and "CosaNatRegGetNatInfo L st2 = (s2, st3)"
  shows "s1 = ANSC_SUCCESS \<and> s2 = ANSC_SUCCESS \<and>
    map pm_row (NatPMappingList st3) = map pm_row (filter lnk_bNew (NatPMappingList st)) \<and>
    map pt_row (NatPTriggerList st3) = map pt_row (filter lnk_bNew (NatPTriggerList st))"
proof -
  let ?q = "p @ [COSA_IREP_FOLDER_NAME_PORTTRIGGER]"
  note tab = tables_numbers [OF assms(6,7)]
  note held = RegSet_holds [OF assms(1-5) tab(1-3) assms(10)]
  note pms = news_rows [OF tab(4,6), of "\<lambda>l. pm_Alias (lnk_hContext l)", folded new_pms_def]
  note pts = news_rows [OF tab(5,7), of "\<lambda>l. pt_Alias (lnk_hContext l)", folded new_pts_def]
  have hp: "holds (v (st_registry st2)) p [COSA_IREP_FOLDER_NAME_PORTTRIGGER] (new_pms st)"
    and hq: "holds (v (st_registry st2)) ?q [] (new_pts st)" using held(2,3) assms(11) by simp_all
  have fit: "\<forall>(n, a) \<in> set (new_pms st). length a < COSA_DML_IF_NAME_LENGTH"
    "\<forall>(n, a) \<in> set (new_pts st). length a < COSA_DML_ALIAS_LENGTH"
    using assms(8,9) by (auto simp: new_pms_def new_pts_def news_def)
  note read = RegGet_reads [OF assms(1,3) hp pms(1-3) fit(1) assms(12,14,15,16)]
  show ?thesis
    using held(1) read(1) read(2) [OF hq pts(1-3) fit(2) assms(13)] pms(4) pts(4)
    by (simp add: pm_row_def [abs_def] pt_row_def [abs_def])
qed

theorem nat_registry_roundtrip_witness:
  "\<exists>st3 :: (ustore, rview) nat_state. map pm_row (NatPMappingList st3) = [(7, ''web'', True)]"
proof -
  let ?l = "\<lparr>lnk_addr = 0, lnk_InstanceNumber = 7, lnk_bNew = True, lnk_bFound = False,
    lnk_hContext = zero_pm\<lparr>pm_InstanceNumber := 7, pm_Alias := ''web''\<rparr>\<rparr>"
  let ?st = "mem_state\<lparr>NatPMappingList := [?l], st_allocs := 1\<rparr>"
  obtain s1 st1 where set: "CosaNatRegSetNatInfo mem_libs ?st = (s1, st1)" by fastforce
  obtain s2 st3 where get: "CosaNatRegGetNatInfo mem_libs (mem_state\<lparr>st_registry := st_registry st1\<rparr>) = (s2, st3)" by fastforce
  have inv: "pm_inv ?st" "pt_inv ?st"
    by (simp_all add: pm_inv_def pt_inv_def links_ok_def table_wf_def mem_state_def)
  have fit: "length ''web'' < COSA_DML_IF_NAME_LENGTH" by (simp add: size_defs)
  have "irep_ok (lib_ir mem_libs) (\<lambda>r. r)" "irep_total (lib_ir mem_libs)" by (simp_all add: mem_irep_ok mem_irep_total)
  note result = nat_registry_roundtrip [OF this _ _ _ inv _ _ set _ _ _ _ _ get, of "[''NAT'']"]
  show ?thesis
    by (intro exI [of _ st3]) (use result fit in \<open>simp add: mem_state_def mem_registry_def pm_row_def COSA_IREP_FOLDER_NAME_PORTTRIGGER_def\<close>)
qed

end
