(* ===== verification/Nat_Init.thy ===== *)
theory Nat_Init
  imports Nat_PortTrigger_Steps Nat_Registry_Props Dmz_WebConfig
begin

text \<open>
  The start of the NAT object, \<open>CosaNatInitialize\<close> of \<open>cosa_nat_internal.c\<close>: the board layer, empty tables, the
  registry folders, the DMZ settings and triggers of the store, the uncommitted entries of the registry, and the
  caches of web configuration.
\<close>

text \<open>\<open>GetFolder\<close>, and \<open>AddFolder\<close> when there is none: whether there is a handle, and the registry.\<close>

definition get_or_add_folder :: "'r irep \<Rightarrow> 'r \<Rightarrow> path \<Rightarrow> string \<Rightarrow> bool \<Rightarrow> bool \<times> 'r" where
  "get_or_add_folder I r p n sync =
     (if ir_GetFolder I r p n then (True, r)
      else (case ir_AddFolder I (if sync then ir_EnableFileSync I r p False else r) p n of
          (ok, r1) \<Rightarrow> (ok, if sync then ir_EnableFileSync I r1 p True else r1)))"

text \<open>The last part, once both folders are there.\<close>

definition nat_load :: "('s, 'c, 'r) libs \<Rightarrow> path \<Rightarrow> ('s, 'r) nat_state \<Rightarrow> ('s, 'r) nat_state" where
  "nat_load L q st =
     (let st1 = (case ir_GetUint32 (lib_ir L) (st_registry st) q COSA_DML_RR_NAME_NATNextInsNumber of
            Some n \<Rightarrow> st\<lparr>ulPtNextInstanceNumber := n\<rparr> | None \<Rightarrow> st);
          st2 = snd (CosaDmlNatGetLanIP L st1)
      in (case CosaDmlNatGetDmz L st2 (Dmz st2) of (_, d, st3) \<Rightarrow>
            let st4 = snd (CosaNatSyncPortTrigger L (st3\<lparr>Dmz := d\<rparr>)) in snd (CosaNatRegGetNatInfo L st4)))"

text \<open>\<open>root\<close> is the folder of \<open>g_GetRegistryRootFolder\<close>. The outer \<open>None\<close> is that of \<open>init_pf_cache\<close>.\<close>

definition CosaNatInitialize :: "('s, 'c, 'r) libs \<Rightarrow> 'd syscfg \<Rightarrow> path option \<Rightarrow> ('s, 'r) nat_state \<Rightarrow> 'd wc_state \<Rightarrow>
    'd dmz_wc \<Rightarrow> (ansc_status \<times> ('s, 'r) nat_state \<times> 'd wc_state \<times> 'd dmz_wc) option" where
  "CosaNatInitialize L C root st w z =
     (case CosaDmlNatInit L st of (rs, st1) \<Rightarrow>
        if rs \<noteq> ANSC_SUCCESS then Some (rs, st1, w, z)
        else
          let st2 = st1\<lparr>NatPMappingList := [], NatPTriggerList := [], MaxInstanceNumber := 0, ulPtNextInstanceNumber := 1,
                        PreviousVisitTime := 0\<rparr>
          in (case root of
              None \<Rightarrow> Some (ANSC_FAILURE, st2, w, z)
            | Some cosa_folder \<Rightarrow>
                (case get_or_add_folder (lib_ir L) (st_registry st2) cosa_folder COSA_IREP_FOLDER_NAME_NAT True of
                   (ok, r1) \<Rightarrow>
                     let st3 = st2\<lparr>st_registry := r1\<rparr>; p = cosa_folder @ [COSA_IREP_FOLDER_NAME_NAT] in
                     if \<not> ok then Some (ANSC_FAILURE, st3, w, z)
                     else
                       (case get_or_add_folder (lib_ir L) r1 p COSA_IREP_FOLDER_NAME_PORTTRIGGER False of
                          (ok2, r2) \<Rightarrow>
                            let st4 = st3\<lparr>hIrepFolderNat := Some p, st_registry := r2\<rparr>;
                                q = p @ [COSA_IREP_FOLDER_NAME_PORTTRIGGER] in
                            if \<not> ok2 then Some (ANSC_FAILURE, st4, w, z)
                            else
                              map_option (\<lambda>w1. (ANSC_SUCCESS, nat_load L q (st4\<lparr>hIrepFolderNatPt := Some q\<rparr>), w1,
                                  z\<lparr>dmz_cache := init_dmz_cache (clear_dmz_cache (dmz_cache z)),
                                    dmz_cache_bkup := clear_dmz_cache (dmz_cache_bkup z)\<rparr>))
                                (init_pf_cache C (w\<lparr>pf_cache := clear_pf_cache (pf_cache w),
                                                    pf_cache_bkup := clear_pf_cache (pf_cache_bkup w)\<rparr>))))))"

section \<open>What loading leaves alone\<close>

definition same_pm :: "('s, 'r) nat_state \<Rightarrow> ('s, 'r) nat_state \<Rightarrow> bool" where
  "same_pm st st' \<longleftrightarrow> NatPMappingList st' = NatPMappingList st \<and> st_registry st' = st_registry st \<and>
     hIrepFolderNat st' = hIrepFolderNat st \<and> hIrepFolderNatPt st' = hIrepFolderNatPt st \<and>
     ulPtNextInstanceNumber st' = ulPtNextInstanceNumber st"

lemma same_pm_trans: "same_pm a b \<Longrightarrow> same_pm b c \<Longrightarrow> same_pm a c"
  by (simp add: same_pm_def)

lemma same_pm_GetLanIP: "same_pm st (snd (CosaDmlNatGetLanIP L st))"
  by (simp add: same_pm_def CosaDmlNatGetLanIP_def split: option.splits prod.splits)

lemma same_pm_GetDmz: "CosaDmlNatGetDmz L st d = (s, d', st') \<Longrightarrow> same_pm st st'"
  by (auto simp: same_pm_def CosaDmlNatGetDmz_def AnscAllocateMemory_def split: option.splits prod.splits if_splits)

lemma same_pm_sync_add: "same_pm st (sync_pt_add L es st)"
proof (induction L es st rule: sync_pt_add.induct)
  case (2 L e found es st)
  show ?case
  proof (cases found)
    case True
    then show ?thesis using "2.IH"(1) by simp
  next
    case False
    then show ?thesis
      using "2.IH"(2) by (auto simp: same_pm_def AnscAllocateMemory_def)
  qed
qed (simp add: same_pm_def)

lemma same_pm_Sync: "same_pm st (snd (CosaNatSyncPortTrigger L st))"
proof -
  obtain rs st1 where g: "CosaDmlNatGetPortTriggers L st True = (rs, st1)" by fastforce
  have s1: "same_pm st st1"
    using g by (auto simp: same_pm_def CosaDmlNatGetPortTriggers_def AnscAllocateMemory_def split: option.splits prod.splits if_splits)
  show ?thesis
  proof (cases rs)
    case None
    with g s1 show ?thesis by (simp add: CosaNatSyncPortTrigger_def)
  next
    case (Some r)
    obtain a st2 where al: "AnscAllocateMemory L st1 = (a, st2)" by fastforce
    then have s2: "same_pm st1 st2" by (auto simp: same_pm_def AnscAllocateMemory_def)
    show ?thesis
    proof (cases a)
      case None
      with g Some al same_pm_trans [OF s1 s2] show ?thesis by (simp add: CosaNatSyncPortTrigger_def)
    next
      case (Some b)
      obtain ls f where l: "sync_pt_links r (NatPTriggerList st2) (replicate (length r) False) = (ls, f)" by fastforce
      have "same_pm st2 (st2\<lparr>NatPTriggerList := ls\<rparr>)" by (simp add: same_pm_def)
      from same_pm_trans [OF same_pm_trans [OF s1 s2] same_pm_trans [OF this same_pm_sync_add]]
      show ?thesis using g \<open>rs = Some r\<close> al Some l by (simp add: CosaNatSyncPortTrigger_def)
    qed
  qed
qed

section \<open>A restart\<close>

lemma get_folder_present:
  "irep_ok I v \<Longrightarrow> v r p = Some f \<Longrightarrow> n \<in> set (rf_subs f) \<Longrightarrow> get_or_add_folder I r p n b = (True, r)"
  by (simp add: get_or_add_folder_def irep_reads(1))

lemma RegGet_keeps: "ulPtNextInstanceNumber (snd (CosaNatRegGetNatInfo L st)) = ulPtNextInstanceNumber st"
proof -
  have pm: "ulPtNextInstanceNumber st1 = ulPtNextInstanceNumber st" if "reg_get_pm L p names st = (rs, st1)" for p names rs st1
    using reg_get_pm_keeps [of L p names st] that by simp
  show ?thesis
    by (auto simp: CosaNatRegGetNatInfo_def reg_get_pt_keeps split: option.split prod.split dest: pm)
qed

text \<open>Loading from a registry that holds entries.\<close>

lemma nat_load_reads:
  assumes I: "irep_ok (lib_ir L) v" and alloc: "\<forall>n. lib_alloc L n"
    and hp: "holds (v (st_registry st)) p [COSA_IREP_FOLDER_NAME_PORTTRIGGER] xs"
    and ord: "sorted (map fst xs)" "distinct (map fst xs)" "0 \<notin> fst ` set xs"
    and fit: "\<forall>(n, a) \<in> set xs. length a < COSA_DML_IF_NAME_LENGTH" and empty: "NatPMappingList st = []"
    and folders: "hIrepFolderNat st = Some p" "hIrepFolderNatPt st = Some q"
    and next_number: "uint_of (v (st_registry st)) q COSA_DML_RR_NAME_NATNextInsNumber = Some n"
  shows "map pm_row (NatPMappingList (nat_load L q st)) = map (\<lambda>(n, a). (n, a, True)) xs"
    "ulPtNextInstanceNumber (nat_load L q st) = n"
proof -
  obtain f where "v (st_registry st) q = Some f" "rf_uint f COSA_DML_RR_NAME_NATNextInsNumber = Some n"
    using next_number by (auto simp: uint_of_def split: option.splits)
  then have rd: "ir_GetUint32 (lib_ir L) (st_registry st) q COSA_DML_RR_NAME_NATNextInsNumber = Some n"
    by (simp add: irep_reads(7) [OF I])
  let ?st1 = "st\<lparr>ulPtNextInstanceNumber := n\<rparr>"
  let ?st2 = "snd (CosaDmlNatGetLanIP L ?st1)"
  obtain s d st3 where g: "CosaDmlNatGetDmz L ?st2 (Dmz ?st2) = (s, d, st3)" by (metis prod_cases3)
  let ?st4 = "snd (CosaNatSyncPortTrigger L (st3\<lparr>Dmz := d\<rparr>))"
  have load: "nat_load L q st = snd (CosaNatRegGetNatInfo L ?st4)" by (simp add: nat_load_def rd Let_def g)
  have "same_pm st3 (st3\<lparr>Dmz := d\<rparr>)" by (simp add: same_pm_def)
  note same = same_pm_trans [OF same_pm_trans [OF same_pm_GetLanIP same_pm_GetDmz [OF g]] same_pm_trans [OF this same_pm_Sync [of _ L]]]
  from same have st4: "st_registry ?st4 = st_registry st" "NatPMappingList ?st4 = []" "hIrepFolderNat ?st4 = Some p"
    "hIrepFolderNatPt ?st4 = Some q"
    using empty folders by (simp_all add: same_pm_def)
  obtain s' st' where get: "CosaNatRegGetNatInfo L ?st4 = (s', st')" by fastforce
  have "map pm_row (NatPMappingList st') = map (\<lambda>(n, a). (n, a, True)) xs"
    by (rule RegGet_reads(1) [OF I alloc _ ord fit st4(2,3,4) get]) (simp only: st4(1) hp)
  then show "map pm_row (NatPMappingList (nat_load L q st)) = map (\<lambda>(n, a). (n, a, True)) xs"
    unfolding load get by simp
  show "ulPtNextInstanceNumber (nat_load L q st) = n"
    unfolding load RegGet_keeps using same by (simp add: same_pm_def)
qed

text \<open>Initialising when both folders are there.\<close>

lemma initialize_eq:
  assumes I: "irep_ok (lib_ir L) v" and c: "v (st_registry st) c = Some fc" "COSA_IREP_FOLDER_NAME_NAT \<in> set (rf_subs fc)"
    and p: "v (st_registry st) (c @ [COSA_IREP_FOLDER_NAME_NAT]) = Some fp" "COSA_IREP_FOLDER_NAME_PORTTRIGGER \<in> set (rf_subs fp)"
    and i: "CosaDmlNatInit L st = (ANSC_SUCCESS, i)"
  shows "CosaNatInitialize L C (Some c) st w z = map_option (\<lambda>w1. (ANSC_SUCCESS,
      nat_load L ((c @ [COSA_IREP_FOLDER_NAME_NAT]) @ [COSA_IREP_FOLDER_NAME_PORTTRIGGER])
       (i\<lparr>NatPMappingList := [], NatPTriggerList := [], MaxInstanceNumber := 0, ulPtNextInstanceNumber := 1, PreviousVisitTime := 0,
          hIrepFolderNat := Some (c @ [COSA_IREP_FOLDER_NAME_NAT]), st_registry := st_registry st,
          hIrepFolderNatPt := Some ((c @ [COSA_IREP_FOLDER_NAME_NAT]) @ [COSA_IREP_FOLDER_NAME_PORTTRIGGER])\<rparr>), w1,
      z\<lparr>dmz_cache := init_dmz_cache (clear_dmz_cache (dmz_cache z)), dmz_cache_bkup := clear_dmz_cache (dmz_cache_bkup z)\<rparr>))
    (init_pf_cache C (w\<lparr>pf_cache := clear_pf_cache (pf_cache w), pf_cache_bkup := clear_pf_cache (pf_cache_bkup w)\<rparr>))"
proof -
  have ir: "st_registry i = st_registry st" using i by (auto simp: CosaDmlNatInit_def split: option.splits)
  have "get_or_add_folder (lib_ir L) (st_registry st) c COSA_IREP_FOLDER_NAME_NAT True = (True, st_registry st)"
    "get_or_add_folder (lib_ir L) (st_registry st) (c @ [COSA_IREP_FOLDER_NAME_NAT]) COSA_IREP_FOLDER_NAME_PORTTRIGGER False = (True, st_registry st)"
    using get_folder_present [OF I] c p by blast+
  then show ?thesis by (simp add: CosaNatInitialize_def i ir Let_def)
qed

text \<open>C23: a restart keeps the user's uncommitted work: when the NAT object saved its entries and is initialised again on
  the same registry, the port mapping table holds exactly the uncommitted entries, in order, with number, alias
  and flag, and the counter of trigger numbers is the saved one.\<close>

theorem nat_restart_keeps_uncommitted:
  assumes "irep_ok (lib_ir L) v" "irep_total (lib_ir L)" "\<forall>n. lib_alloc L n"
    and "hIrepFolderNat st = Some (c @ [COSA_IREP_FOLDER_NAME_NAT])" "v (st_registry st) (c @ [COSA_IREP_FOLDER_NAME_NAT]) = Some f0"
    and "v (st_registry st) c = Some fc" "COSA_IREP_FOLDER_NAME_NAT \<in> set (rf_subs fc)" "pm_inv st" "pt_inv st"
    and "\<forall>l \<in> set (NatPMappingList st). length (pm_Alias (lnk_hContext l)) < COSA_DML_IF_NAME_LENGTH"
    and "CosaNatRegSetNatInfo L st = (s1, st1)" "st_registry st2 = st_registry st1"
    and "CosaNatInitialize L C (Some c) st2 w z = Some (ANSC_SUCCESS, st3, w', z')"
  shows "map pm_row (NatPMappingList st3) = map pm_row (filter lnk_bNew (NatPMappingList st)) \<and>
    ulPtNextInstanceNumber st3 = ulPtNextInstanceNumber st"
proof -
  let ?p = "c @ [COSA_IREP_FOLDER_NAME_NAT]" and ?q = "(c @ [COSA_IREP_FOLDER_NAME_NAT]) @ [COSA_IREP_FOLDER_NAME_PORTTRIGGER]"
  note tab = tables_numbers [OF assms(8,9)]
  note held = RegSet_holds [OF assms(1-5) tab(1-3) assms(11)]
  note pms = news_rows [OF tab(4,6), of "\<lambda>l. pm_Alias (lnk_hContext l)", folded new_pms_def]
  have fit: "\<forall>(n, a) \<in> set (new_pms st). length a < COSA_DML_IF_NAME_LENGTH"
    using assms(10) by (auto simp: new_pms_def news_def)
  have c: "v (st_registry st2) c = Some fc" using held(5) [of c] assms(6,12) by (simp add: below_def)
  obtain g where g: "v (st_registry st2) ?p = Some g" "COSA_IREP_FOLDER_NAME_PORTTRIGGER \<in> set (rf_subs g)"
    using held(2) assms(12) by (auto simp: holds_def)
  obtain rs i where "CosaDmlNatInit L st2 = (rs, i)" by fastforce
  moreover from this assms(13) have "rs = ANSC_SUCCESS" by (auto simp: CosaNatInitialize_def split: if_splits)
  ultimately have i: "CosaDmlNatInit L st2 = (ANSC_SUCCESS, i)" by simp
  let ?st5 = "i\<lparr>NatPMappingList := [], NatPTriggerList := [], MaxInstanceNumber := 0, ulPtNextInstanceNumber := 1,
     PreviousVisitTime := 0, hIrepFolderNat := Some ?p, st_registry := st_registry st2, hIrepFolderNatPt := Some ?q\<rparr>"
  have st3: "st3 = nat_load L ?q ?st5"
    using assms(13) unfolding initialize_eq [OF assms(1) c assms(7) g i] by auto
  have "map pm_row (NatPMappingList (nat_load L ?q ?st5)) = map (\<lambda>(n, a). (n, a, True)) (new_pms st)"
    "ulPtNextInstanceNumber (nat_load L ?q ?st5) = ulPtNextInstanceNumber st"
    by (rule nat_load_reads [OF assms(1,3) _ pms(1-3) fit]; use held assms(12) in simp)+
  then show ?thesis using st3 pms(4) by (simp add: pm_row_def [abs_def])
qed

theorem nat_restart_keeps_uncommitted_witness:
  "\<exists>st3 :: (ustore, rview) nat_state. map pm_row (NatPMappingList st3) = [(7, ''web'', True)] \<and> ulPtNextInstanceNumber st3 = 5"
proof -
  let ?l = "\<lparr>lnk_addr = 0, lnk_InstanceNumber = 7, lnk_bNew = True, lnk_bFound = False,
    lnk_hContext = zero_pm\<lparr>pm_InstanceNumber := 7, pm_Alias := ''web''\<rparr>\<rparr>"
  let ?r = "mem_registry([] \<mapsto> empty_folder\<lparr>rf_subs := [''NAT'']\<rparr>)"
  let ?st = "mem_state\<lparr>NatPMappingList := [?l], st_allocs := 1, st_registry := ?r, ulPtNextInstanceNumber := 5\<rparr>"
  let ?w = "\<lparr>pf_cache = replicate 1024 blank, pf_cache_bkup = replicate 1024 blank, pf_cache_size = 0, pf_cache_size_bkup = 0,
    pf_param_name = [], gpfEnable = 0, wc_db = Map.empty, firewall_restarts = 0\<rparr> :: (string \<rightharpoonup> string) wc_state"
  let ?z = "\<lparr>dmz_cache = [], dmz_cache_bkup = [], dz_db = Map.empty, dz_restarts = 0\<rparr> :: (string \<rightharpoonup> string) dmz_wc"
  obtain s1 st1 where set: "CosaNatRegSetNatInfo mem_libs ?st = (s1, st1)" by fastforce
  have I: "irep_ok (lib_ir mem_libs) (\<lambda>r. r)" "irep_total (lib_ir mem_libs)" by (simp_all add: mem_irep_ok mem_irep_total)
  have inv: "pm_inv ?st" "pt_inv ?st" by (simp_all add: pm_inv_def pt_inv_def links_ok_def table_wf_def mem_state_def)
  have fit: "length ''web'' < COSA_DML_IF_NAME_LENGTH" by (simp add: size_defs)
  have nat: "hIrepFolderNat ?st = Some ([] @ [COSA_IREP_FOLDER_NAME_NAT])" by (simp add: mem_state_def COSA_IREP_FOLDER_NAME_NAT_def)
  have fol: "(\<lambda>r. r) (st_registry ?st) ([] @ [COSA_IREP_FOLDER_NAME_NAT]) = Some (empty_folder\<lparr>rf_subs := [''PORTTRIGGER'']\<rparr>)"
    by (simp add: mem_registry_def COSA_IREP_FOLDER_NAME_NAT_def)
  have al: "\<forall>n. lib_alloc mem_libs n" by simp
  have root0: "(\<lambda>r. r) (st_registry ?st) [] = Some (empty_folder\<lparr>rf_subs := [''NAT'']\<rparr>)" by simp
  have sub: "COSA_IREP_FOLDER_NAME_NAT \<in> set (rf_subs (empty_folder\<lparr>rf_subs := [''NAT'']\<rparr>))" by (simp add: COSA_IREP_FOLDER_NAME_NAT_def)
  let ?st2 = "mem_state\<lparr>st_registry := st_registry st1\<rparr>"
  obtain st3 w' z' where run: "CosaNatInitialize mem_libs mem_syscfg (Some []) ?st2 ?w ?z = Some (ANSC_SUCCESS, st3, w', z')"
  proof -
    note tab = tables_numbers [OF inv]
    note held = RegSet_holds [OF I al nat fol tab(1-3) set]
    have root: "(\<lambda>r. r) (st_registry ?st2) [] = Some (empty_folder\<lparr>rf_subs := [''NAT'']\<rparr>)"
      using held(5) [of "[]"] by (simp add: below_def)
    obtain g where g: "(\<lambda>r. r) (st_registry ?st2) ([] @ [COSA_IREP_FOLDER_NAME_NAT]) = Some g" "COSA_IREP_FOLDER_NAME_PORTTRIGGER \<in> set (rf_subs g)"
      using held(2) by (auto simp: holds_def COSA_IREP_FOLDER_NAME_NAT_def)
    obtain i where i: "CosaDmlNatInit mem_libs ?st2 = (ANSC_SUCCESS, i)"
      by (simp add: CosaDmlNatInit_def mem_utopia_def)
    have "\<exists>w'. init_pf_cache mem_syscfg (?w\<lparr>pf_cache := clear_pf_cache (pf_cache ?w), pf_cache_bkup := clear_pf_cache (pf_cache_bkup ?w)\<rparr>) = Some w'"
      by (simp add: init_pf_cache_def mem_syscfg_def count_cell_def Let_def write_cells_def)
    then show thesis using that initialize_eq [OF I(1) root sub g i, of mem_syscfg ?w ?z] by auto
  qed
  note result = nat_restart_keeps_uncommitted [OF I al nat fol root0 sub inv _ set _ run]
  show ?thesis
    by (intro exI [of _ st3]) (use result fit in \<open>simp add: pm_row_def\<close>)
qed

end
