(* ===== verification/Dhcp_WebConfig.thy ===== *)
theory Dhcp_WebConfig
  imports Dmz_WebConfig
begin

unbundle bit_operations_syntax

text \<open>
  The LAN and the static DHCP clients by web configuration: the document readers of \<open>lan_webconfig_param.c\<close> and
  \<open>macbinding_webconfig_param.c\<close>, and the transactions of \<open>cosa_dhcpv4_webconfig_apis.c\<close>, which keep no cache
  between requests: each request reads the old values from the syscfg database into a backup, unsets them, and writes
  the new ones; a rollback writes the backup. \<open>inet_pton\<close> and \<open>inet_addr\<close> are parameters.
\<close>

section \<open>The documents\<close>

record macdoc_t =
  md_yiaddr :: "string option"
  md_chaddr :: "string option"

record macbindingdoc_t =
  mbd_entries :: "macdoc_t list"
  mbd_subdoc_name :: string
  mbd_version :: "32 word"
  mbd_transaction_id :: "16 word"

record lanparam_t =
  lp_dhcp_server_enable :: bool
  lp_lan_ip_address :: "string option"
  lp_lan_subnet_mask :: "string option"
  lp_dhcp_start_ip_address :: "string option"
  lp_dhcp_end_ip_address :: "string option"
  lp_leasetime :: "32 word"

record landoc_t =
  ld_param :: "lanparam_t option"
  ld_entries_count :: nat
  ld_subdoc_name :: string
  ld_version :: "32 word"
  ld_transaction_id :: "16 word"

definition zero_macdoc :: macdoc_t where
  "zero_macdoc = \<lparr>md_yiaddr = None, md_chaddr = None\<rparr>"

definition zero_lanparam :: lanparam_t where
  "zero_lanparam = \<lparr>lp_dhcp_server_enable = False, lp_lan_ip_address = None, lp_lan_subnet_mask = None,
     lp_dhcp_start_ip_address = None, lp_dhcp_end_ip_address = None, lp_leasetime = 0\<rparr>"

fun macdoc_loop :: "(msgpack_object \<times> msgpack_object) list \<Rightarrow> UCHAR \<Rightarrow> macdoc_t \<Rightarrow> UCHAR \<times> macdoc_t" where
  "macdoc_loop [] objects_left e = (objects_left, e)"
| "macdoc_loop (kv # kvs) objects_left e =
     (if \<not> 0 < objects_left then (objects_left, e)
      else (case kv of
          (MP_STR k, MP_STR v) \<Rightarrow>
            if match_key k ''Yiaddr'' then macdoc_loop kvs (objects_left AND NOT (push_bit 0 1)) (e\<lparr>md_yiaddr := Some (strndup v)\<rparr>)
            else if match_key k ''Chaddr''
            then macdoc_loop kvs (objects_left AND NOT (push_bit 1 1)) (e\<lparr>md_chaddr := Some (strndup v)\<rparr>)
            else macdoc_loop kvs objects_left e
        | _ \<Rightarrow> macdoc_loop kvs objects_left e))"

definition process_macdocparams :: "(msgpack_object \<times> msgpack_object) list \<Rightarrow> bool \<times> macdoc_t" where
  "process_macdocparams kvs = (case macdoc_loop kvs 0x02 zero_macdoc of (objects_left, e) \<Rightarrow> (objects_left = 0, e))"

fun macdoc_entries :: "msgpack_object list \<Rightarrow> macdoc_t list option" where
  "macdoc_entries [] = Some []"
| "macdoc_entries (MP_MAP m # objs) =
     (case process_macdocparams m of (ok, e) \<Rightarrow> if \<not> ok then None else map_option (Cons e) (macdoc_entries objs))"
| "macdoc_entries (_ # objs) = None"

definition process_macbindingdoc :: "bool \<Rightarrow> msgpack_object list \<Rightarrow> string \<Rightarrow> nat \<Rightarrow> nat \<Rightarrow> macbindingdoc_t option" where
  "process_macbindingdoc malloc_ok array subdoc version txid =
     (if 0 < length array \<and> \<not> malloc_ok then None
      else map_option (\<lambda>es. \<lparr>mbd_entries = es, mbd_subdoc_name = strndup subdoc, mbd_version = of_nat version,
                             mbd_transaction_id = of_nat txid\<rparr>) (macdoc_entries array))"

definition zero_macbindingdoc :: macbindingdoc_t where
  "zero_macbindingdoc = \<lparr>mbd_entries = [], mbd_subdoc_name = [], mbd_version = 0, mbd_transaction_id = 0\<rparr>"

definition macbindingdoc_args :: "bool \<Rightarrow> msgpack_object option list \<Rightarrow> macbindingdoc_t option option" where
  "macbindingdoc_args malloc_ok args =
     (case args of
        [Some (MP_ARRAY array), Some (MP_STR subdoc), Some (MP_UINT version), Some (MP_UINT txid)] \<Rightarrow>
          Some (process_macbindingdoc malloc_ok array subdoc version txid)
      | _ \<Rightarrow> None)"

definition macbindingdoc_convert :: "(nat \<Rightarrow> bool) \<Rightarrow> bool \<Rightarrow> msgpack_object option \<Rightarrow> macbindingdoc_t option option" where
  "macbindingdoc_convert mallocs has_buf msg =
     helper_convert (mallocs 1) has_buf msg zero_macbindingdoc ''macbinding'' MSGPACK_OBJECT_ARRAY True
       (macbindingdoc_args (mallocs 2))"

text \<open>A string may match several names; the four tests are independent.\<close>

definition lan_string :: "string \<Rightarrow> string \<Rightarrow> UCHAR \<times> lanparam_t \<Rightarrow> UCHAR \<times> lanparam_t" where
  "lan_string k v s0 =
     (let take1 = (\<lambda>name bit_no upd (s :: UCHAR \<times> lanparam_t).
            if match_key k name then (fst s AND NOT (push_bit bit_no 1), upd (snd s)) else s);
          s1 = take1 ''LanIPAddress'' 1 (\<lambda>e. e\<lparr>lp_lan_ip_address := Some (strndup v)\<rparr>) s0;
          s2 = take1 ''LanSubnetMask'' 3 (\<lambda>e. e\<lparr>lp_lan_subnet_mask := Some (strndup v)\<rparr>) s1;
          s3 = take1 ''DhcpStartIPAddress'' 4 (\<lambda>e. e\<lparr>lp_dhcp_start_ip_address := Some (strndup v)\<rparr>) s2
      in take1 ''DhcpEndIPAddress'' 5 (\<lambda>e. e\<lparr>lp_dhcp_end_ip_address := Some (strndup v)\<rparr>) s3)"

fun lanparam_loop :: "(msgpack_object \<times> msgpack_object) list \<Rightarrow> UCHAR \<Rightarrow> lanparam_t \<Rightarrow> UCHAR \<times> lanparam_t" where
  "lanparam_loop [] objects_left e = (objects_left, e)"
| "lanparam_loop (kv # kvs) objects_left e =
     (if \<not> 0 < objects_left then (objects_left, e)
      else (case kv of
          (MP_STR k, MP_BOOL b) \<Rightarrow>
            if match_key k ''DhcpServerEnable''
            then lanparam_loop kvs (objects_left AND NOT (push_bit 0 1)) (e\<lparr>lp_dhcp_server_enable := b\<rparr>)
            else lanparam_loop kvs objects_left e
        | (MP_STR k, MP_STR v) \<Rightarrow> (case lan_string k v (objects_left, e) of (left, e') \<Rightarrow> lanparam_loop kvs left e')
        | (MP_STR k, MP_UINT n) \<Rightarrow>
            if match_key k ''LeaseTime''
            then lanparam_loop kvs (objects_left AND NOT (push_bit 2 1)) (e\<lparr>lp_leasetime := of_nat n\<rparr>)
            else lanparam_loop kvs objects_left e
        | _ \<Rightarrow> lanparam_loop kvs objects_left e))"

definition process_lanparams :: "(msgpack_object \<times> msgpack_object) list \<Rightarrow> bool \<times> lanparam_t" where
  "process_lanparams kvs = (case lanparam_loop kvs 0x06 zero_lanparam of (objects_left, e) \<Rightarrow> (objects_left = 0, e))"

definition process_landoc :: "bool \<Rightarrow> (msgpack_object \<times> msgpack_object) list \<Rightarrow> string \<Rightarrow> nat \<Rightarrow> nat \<Rightarrow> landoc_t option" where
  "process_landoc malloc_ok mapobj subdoc version txid =
     (if \<not> malloc_ok then None
      else (case process_lanparams mapobj of (ok, e) \<Rightarrow>
          if ok then Some \<lparr>ld_param = Some e, ld_entries_count = 0, ld_subdoc_name = strndup subdoc,
                           ld_version = of_nat version, ld_transaction_id = of_nat txid\<rparr>
          else None))"

definition zero_landoc :: landoc_t where
  "zero_landoc = \<lparr>ld_param = None, ld_entries_count = 0, ld_subdoc_name = [], ld_version = 0, ld_transaction_id = 0\<rparr>"

definition landoc_args :: "bool \<Rightarrow> msgpack_object option list \<Rightarrow> landoc_t option option" where
  "landoc_args malloc_ok args =
     (case args of
        [Some (MP_MAP mapobj), Some (MP_STR subdoc), Some (MP_UINT version), Some (MP_UINT txid)] \<Rightarrow>
          Some (process_landoc malloc_ok mapobj subdoc version txid)
      | _ \<Rightarrow> None)"

definition landoc_convert :: "(nat \<Rightarrow> bool) \<Rightarrow> bool \<Rightarrow> msgpack_object option \<Rightarrow> landoc_t option option" where
  "landoc_convert mallocs has_buf msg =
     helper_convert (mallocs 1) has_buf msg zero_landoc ''lan'' MSGPACK_OBJECT_MAP True (landoc_args (mallocs 2))"

text \<open>The two parameters of \<open>Device.DHCPv4.Server.\<close> that take a document; \<open>Lan\<close> sets the count of the document. The
  result has the request of the one or the other.\<close>

definition macbinding_exec :: "macbindingdoc_t \<Rightarrow> macbindingdoc_t exec_data" where
  "macbinding_exec p = \<lparr>ed_txid = mbd_transaction_id p, ed_version = mbd_version p, ed_numOfEntries = length (mbd_entries p),
     ed_subdoc_name = ''macbinding'', ed_user_data = p\<rparr>"

definition lan_exec :: "landoc_t \<Rightarrow> landoc_t exec_data" where
  "lan_exec p = (let p1 = p\<lparr>ld_entries_count := 1\<rparr> in
     \<lparr>ed_txid = ld_transaction_id p1, ed_version = ld_version p1, ed_numOfEntries = ld_entries_count p1,
      ed_subdoc_name = ''lan'', ed_user_data = p1\<rparr>)"

definition Server_SetParamStringValue :: "'b codec \<Rightarrow> (nat \<Rightarrow> bool) \<Rightarrow> string \<Rightarrow> string \<Rightarrow>
    (bool \<times> macbindingdoc_t exec_data option \<times> landoc_t exec_data option) option" where
  "Server_SetParamStringValue D mallocs ParamName pString =
     (if ParamName = ''StaticClientsData''
      then map_option (\<lambda>(r, e). (r, e, None))
        (receive_blob D (get_base64_decodedbuffer D (mallocs 0) pString) (get_msgpack_unpack_status D) mallocs
           (macbindingdoc_convert mallocs) macbinding_exec)
      else if ParamName = ''Lan''
      then map_option (\<lambda>(r, e). (r, None, e))
        (receive_blob D (get_base64_decodedbuffer D (mallocs 0) pString) (get_msgpack_unpack_status D) mallocs
           (landoc_convert mallocs) lan_exec)
      else Some (False, None, None))"

section \<open>Checks\<close>

definition Dhcpv4_Lan_Ip_ispublic_addr :: "ULONG \<Rightarrow> bool" where
  "Dhcpv4_Lan_Ip_ispublic_addr addr =
     (if addr \<ge> 0x0A000000 \<and> addr \<le> 0x0AFFFFFF then False
      else if addr \<ge> 0xAC100000 \<and> addr \<le> 0xAC1FFFFF then False
      else if addr \<ge> 0xC0A80000 \<and> addr \<le> 0xC0A8FFFF then False
      else True)"

definition CheckIpIsValid :: "(string \<Rightarrow> bool) \<Rightarrow> string option \<Rightarrow> bool" where
  "CheckIpIsValid is_ip4 ipAddress = (case ipAddress of None \<Rightarrow> False | Some s \<Rightarrow> is_ip4 s)"

text \<open>The code is \<open>BLOB_EXEC_SUCCESS\<close> for \<open>VALID_IP\<close>. A bound that is missing is 0.\<close>

definition CheckStaticClientIpIsValid :: "'d syscfg \<Rightarrow> (string \<Rightarrow> bool) \<Rightarrow> (string \<Rightarrow> ULONG) \<Rightarrow> 'd \<Rightarrow> string option \<Rightarrow> blob_code" where
  "CheckStaticClientIpIsValid C is_ip4 inet_addr db ipAddress =
     (if CheckIpIsValid is_ip4 ipAddress then
        let static_ip = inet_addr (the ipAddress);
            dhcp_start = (case sc_get C db ''dhcp_start'' 24 of Some buf \<Rightarrow> inet_addr buf | None \<Rightarrow> 0);
            dhcp_end = (case sc_get C db ''dhcp_end'' 24 of Some buf \<Rightarrow> inet_addr buf | None \<Rightarrow> 0)
        in if dhcp_end = 0 \<or> dhcp_start = 0 then BLOB_EXEC_SUCCESS
           else if ntohl static_ip < ntohl dhcp_start \<or> ntohl static_ip > ntohl dhcp_end then STATIC_IP_NOT_IN_LANRANGE
           else BLOB_EXEC_SUCCESS
      else INVALID_IP)"

definition isxdigit :: "char \<Rightarrow> bool" where
  "isxdigit c \<longleftrightarrow> c \<in> set ''0123456789abcdefABCDEF''"

text \<open>The loop of \<open>CheckMacHasValidCharacter\<close>; \<open>n\<close> counts the pairs that are left.\<close>

fun mac_pairs :: "nat \<Rightarrow> string \<Rightarrow> bool" where
  "mac_pairs 0 pMac = True"
| "mac_pairs (Suc n) pMac =
     (case pMac of
        a # b # rest \<Rightarrow>
          if isxdigit a \<and> isxdigit b \<and> (if n = 0 then rest = [] else rest \<noteq> [] \<and> hd rest = CHR '':'')
          then mac_pairs n (tl rest) else False
      | _ \<Rightarrow> False)"

definition CheckMacHasValidCharacter :: "string \<Rightarrow> bool" where
  "CheckMacHasValidCharacter pMac = mac_pairs 6 pMac"

definition MACADDR_SZ :: nat where "MACADDR_SZ = 18"

definition Validate_Mac :: "string option \<Rightarrow> bool" where
  "Validate_Mac physAddress =
     (case physAddress of
        None \<Rightarrow> False
      | Some s \<Rightarrow>
          if s = ''00:00:00:00:00:00'' then False
          else if length s \<noteq> MACADDR_SZ - 1 then False
          else CheckMacHasValidCharacter s)"

fun ConvertErrCodeToErrMsg :: "blob_code \<Rightarrow> string" where
  "ConvertErrCodeToErrMsg BLOB_EXEC_SUCCESS = ''Success''"
| "ConvertErrCodeToErrMsg INVALID_IP = ''Invalid IP''"
| "ConvertErrCodeToErrMsg INVALID_MAC = ''Invalid MAC''"
| "ConvertErrCodeToErrMsg STATIC_IP_NOT_IN_LANRANGE = ''Static IP not in Lan Min/Max Range''"
| "ConvertErrCodeToErrMsg LAN_PARAM_IP_RANGE_INVALID = ''Lan Min/Max IP Invalid''"
| "ConvertErrCodeToErrMsg LAN_PARAM_NETMASK_INVALID = ''Lan NetMask Invalid''"
| "ConvertErrCodeToErrMsg LAN_PARAM_LEASETIME_INVALID = ''Lan LeaseTime Invalid''"
| "ConvertErrCodeToErrMsg COSA_SYNCHRONIZE_FAILED = ''Cosa Object Sync Failed''"
| "ConvertErrCodeToErrMsg LAN_PARAM_GATEWAY_IP_INVALID = ''Lan Gateway IP Invalid''"
| "ConvertErrCodeToErrMsg _ = ''Invalid Blob Input Parameters''"

definition Dhcpv4_Lan_CheckIsValidLeaseTime :: "32 word \<Rightarrow> bool" where
  "Dhcpv4_Lan_CheckIsValidLeaseTime leasetime \<longleftrightarrow>
     leasetime mod 604800 = 0 \<or> leasetime mod 86400 = 0 \<or> leasetime mod 3600 = 0 \<or> leasetime mod 60 = 0 \<or>
     (leasetime \<ge> 120 \<and> leasetime \<le> 999) \<or> leasetime = - 1"

definition Dhcpv4_Lan_CheckIpIsValidUnicast :: "32 word \<Rightarrow> 32 word \<Rightarrow> 32 word \<Rightarrow> bool" where
  "Dhcpv4_Lan_CheckIpIsValidUnicast gw netmask ipaddr =
     (if ipaddr = 0 \<or> ipaddr \<ge> 0xE0000000 \<or> ipaddr AND 0xFF000000 = 0x7F000000 then False
      else
        let subnet = gw AND netmask; bcast = subnet OR NOT netmask in
        if ipaddr \<le> subnet \<or> ipaddr \<ge> bcast \<or> ipaddr = gw then False else True)"

definition Get_LanParameters_ValidityCheckStatus :: "(string \<Rightarrow> bool) \<Rightarrow> (string \<Rightarrow> ULONG) \<Rightarrow> lanparam_t option \<Rightarrow> blob_code" where
  "Get_LanParameters_ValidityCheckStatus is_ip4 inet_addr pLanParam =
     (case pLanParam of
        None \<Rightarrow> MINUS_ONE
      | Some p \<Rightarrow>
          (case (lp_dhcp_start_ip_address p, lp_dhcp_end_ip_address p, lp_lan_ip_address p, lp_lan_subnet_mask p) of
             (Some start, Some stop, Some ip, Some netmask) \<Rightarrow>
               if \<not> CheckIpIsValid is_ip4 (Some ip) then LAN_PARAM_GATEWAY_IP_INVALID
               else if \<not> CheckIpIsValid is_ip4 (Some start) \<or> \<not> CheckIpIsValid is_ip4 (Some stop) then LAN_PARAM_IP_RANGE_INVALID
               else
                 let minaddr = ntohl (inet_addr start); maxaddr = ntohl (inet_addr stop) in
                 if minaddr > maxaddr then LAN_PARAM_IP_RANGE_INVALID
                 else
                   let gateway = ntohl (inet_addr ip) in
                   if Dhcpv4_Lan_Ip_ispublic_addr gateway then LAN_PARAM_GATEWAY_IP_INVALID
                   else if gateway AND 0x000000FF \<noteq> 1 then LAN_PARAM_GATEWAY_IP_INVALID
                   else
                     let nm = ntohl (inet_addr netmask) in
                     if nm = 0 \<or> nm = 0xFFFFFFFF then LAN_PARAM_NETMASK_INVALID
                     else if \<not> Dhcpv4_Lan_CheckIpIsValidUnicast gateway nm minaddr \<or>
                             \<not> Dhcpv4_Lan_CheckIpIsValidUnicast gateway nm maxaddr then LAN_PARAM_IP_RANGE_INVALID
                     else if \<not> Dhcpv4_Lan_CheckIsValidLeaseTime (lp_leasetime p) then LAN_PARAM_LEASETIME_INVALID
                     else BLOB_EXEC_SUCCESS
           | _ \<Rightarrow> MINUS_ONE))"

text \<open>A document is a pointer. The loop of \<open>Dhcpv4_Lan_Validate\<close> checks the same parameters again.\<close>

definition Dhcpv4_Lan_Validate :: "(string \<Rightarrow> bool) \<Rightarrow> (string \<Rightarrow> ULONG) \<Rightarrow> landoc_t option \<Rightarrow> blob_code" where
  "Dhcpv4_Lan_Validate is_ip4 inet_addr pConf =
     (case pConf of
        None \<Rightarrow> MINUS_ONE
      | Some d \<Rightarrow>
          if ld_entries_count d = 0 \<or> ld_param d = None then EMPTY_BLOB
          else Get_LanParameters_ValidityCheckStatus is_ip4 inet_addr (ld_param d))"

fun validate_clients :: "'d syscfg \<Rightarrow> (string \<Rightarrow> bool) \<Rightarrow> (string \<Rightarrow> ULONG) \<Rightarrow> 'd \<Rightarrow> macdoc_t list \<Rightarrow> blob_code" where
  "validate_clients C is_ip4 inet_addr db [] = BLOB_EXEC_SUCCESS"
| "validate_clients C is_ip4 inet_addr db (e # es) =
     (let ret_val = CheckStaticClientIpIsValid C is_ip4 inet_addr db (md_yiaddr e) in
      if ret_val \<noteq> BLOB_EXEC_SUCCESS then ret_val
      else if \<not> Validate_Mac (md_chaddr e) then INVALID_MAC
      else validate_clients C is_ip4 inet_addr db es)"

definition Dhcpv4_StaticClients_Validate :: "'d syscfg \<Rightarrow> (string \<Rightarrow> bool) \<Rightarrow> (string \<Rightarrow> ULONG) \<Rightarrow> 'd \<Rightarrow>
    macbindingdoc_t option \<Rightarrow> blob_code" where
  "Dhcpv4_StaticClients_Validate C is_ip4 inet_addr db pConf =
     (case pConf of
        None \<Rightarrow> MINUS_ONE
      | Some d \<Rightarrow>
          if mbd_entries d = [] then EMPTY_BLOB else validate_clients C is_ip4 inet_addr db (mbd_entries d))"

end
