(* ===== verification/Dhcp_WebConfig_Run.thy ===== *)
theory Dhcp_WebConfig_Run
  imports Dhcp_WebConfig
begin

text \<open>
  The transactions of \<open>cosa_dhcpv4_webconfig_apis.c\<close> on the syscfg database: backup, unset, write, roll back, for the
  static clients and for the LAN. The result \<open>None\<close> is a write beyond one of the two arrays. The mutexes are left
  out, since an operation runs alone here; \<open>system ("sysevent set ...")\<close> is a counter. The text of an error is given as
  written, before it is cut to the field of the framework.
\<close>

section \<open>State\<close>

definition NAME_MAX_SIZE :: nat where "NAME_MAX_SIZE = 32"
definition VAL_MAX_SIZE :: nat where "VAL_MAX_SIZE = 256"
definition DHCPV4_CACHE_MAX_NUM_OF_PARAM :: nat where "DHCPV4_CACHE_MAX_NUM_OF_PARAM = 1024"

lemmas dhcp_sizes = NAME_MAX_SIZE_def VAL_MAX_SIZE_def DHCPV4_CACHE_MAX_NUM_OF_PARAM_def

text \<open>The globals, whether the DHCPv4 object is there, and its flag that the table of static addresses is out of date.\<close>

record 'd dhcp_wc =
  g_dhcpv4bkup_cache :: "t_cache list"
  cache_temp :: "t_cache list"
  g_numOfbkupCacheParam :: nat
  g_numOfReceivedParam :: nat
  hDhcpv4 :: bool
  syncStaticClientsTable :: bool
  dh_db :: 'd
  dhcp_server_restarts :: nat
  lan_restarts :: nat

definition Dhcpv4_Reset_Cache :: "'d dhcp_wc \<Rightarrow> 'd dhcp_wc" where
  "Dhcpv4_Reset_Cache w = w\<lparr>g_dhcpv4bkup_cache := map (\<lambda>_. blank) (g_dhcpv4bkup_cache w),
     cache_temp := map (\<lambda>_. blank) (cache_temp w), g_numOfbkupCacheParam := 0, g_numOfReceivedParam := 0\<rparr>"

section \<open>The database\<close>

fun unset_keys :: "'d syscfg \<Rightarrow> t_cache list \<Rightarrow> 'd \<Rightarrow> bool \<times> 'd" where
  "unset_keys C [] db = (True, db)"
| "unset_keys C (c # cs) db =
     (case sc_unset C db (tc_cmd c) of (ok, db1) \<Rightarrow> if \<not> ok then (False, db1) else unset_keys C cs db1)"

text \<open>\<open>MINUS_ONE\<close> when there is nothing to do.\<close>

definition Dhcpv4_UnsetAllDbValues :: "'d syscfg \<Rightarrow> t_cache list \<Rightarrow> nat \<Rightarrow> 'd \<Rightarrow> blob_code \<times> 'd" where
  "Dhcpv4_UnsetAllDbValues C pCache numOfCacheParam db =
     (if numOfCacheParam = 0 then (MINUS_ONE, db)
      else (case unset_keys C (take numOfCacheParam pCache) db of (ok, db1) \<Rightarrow>
          if \<not> ok then (SYSCFG_FAILURE, db1)
          else (case sc_commit C db1 of (rc, db2) \<Rightarrow> (if \<not> rc then SYSCFG_FAILURE else BLOB_EXEC_SUCCESS, db2))))"

definition Dhcpv4_Cache_ApplyAllToDb :: "'d syscfg \<Rightarrow> t_cache list \<Rightarrow> nat \<Rightarrow> 'd \<Rightarrow> blob_code \<times> 'd" where
  "Dhcpv4_Cache_ApplyAllToDb C pCache numOfCacheParam db =
     (if numOfCacheParam = 0 then (MINUS_ONE, db)
      else (case set_cells C (take numOfCacheParam pCache) db of (ok, db1) \<Rightarrow>
          if \<not> ok then (SYSCFG_FAILURE, db1)
          else (case sc_commit C db1 of (rc, db2) \<Rightarrow> (if \<not> rc then SYSCFG_FAILURE else BLOB_EXEC_SUCCESS, db2))))"

definition host_key :: "string \<Rightarrow> nat \<Rightarrow> string" where
  "host_key pre i = pre @ dec i"

definition DHCPV4_STATIC_HOST :: string where "DHCPV4_STATIC_HOST = ''dhcp_static_host_''"
definition DHCPV4_STATIC_HOST_ALIAS :: string where "DHCPV4_STATIC_HOST_ALIAS = ''dhcp_static_host_alias_''"
definition DHCPV4_STATIC_HOSTS_INSNUM :: string where "DHCPV4_STATIC_HOSTS_INSNUM = ''dhcp_static_host_insNum_''"
definition DHCPV4_COMMENTS_LAN_CLIENTS :: string where "DHCPV4_COMMENTS_LAN_CLIENTS = ''lan_clients_''"
definition DHCPV4_COMMENTS :: string where "DHCPV4_COMMENTS = ''lan_clients_mac_''"
definition DHCPV4_NUM_STATIC_HOSTS :: string where "DHCPV4_NUM_STATIC_HOSTS = ''dhcp_num_static_hosts''"
definition DHCPV4_COMMENTS_LAN_CLIENTS_COUNT :: string where "DHCPV4_COMMENTS_LAN_CLIENTS_COUNT = ''lan_clients_count''"

lemmas dhcp_keys = DHCPV4_STATIC_HOST_def DHCPV4_STATIC_HOST_ALIAS_def DHCPV4_STATIC_HOSTS_INSNUM_def
  DHCPV4_COMMENTS_LAN_CLIENTS_def DHCPV4_COMMENTS_def DHCPV4_NUM_STATIC_HOSTS_def DHCPV4_COMMENTS_LAN_CLIENTS_COUNT_def

text \<open>The loop of \<open>Dhcpv4_StaticClients_UnsetNotUsedParamFromDb\<close>, over host numbers.\<close>

fun unset_hosts :: "'d syscfg \<Rightarrow> nat list \<Rightarrow> 'd \<Rightarrow> bool \<times> 'd" where
  "unset_hosts C [] db = (True, db)"
| "unset_hosts C (i # is) db =
     (case unset_keys C (map (\<lambda>pre. \<lparr>tc_cmd = snprintf 64 (host_key pre i), tc_val = []\<rparr>)
          [DHCPV4_STATIC_HOST, DHCPV4_STATIC_HOST_ALIAS, DHCPV4_STATIC_HOSTS_INSNUM]) db of
        (ok, db1) \<Rightarrow> if \<not> ok then (False, db1) else unset_hosts C is db1)"

definition Dhcpv4_StaticClients_UnsetNotUsedParamFromDb :: "'d syscfg \<Rightarrow> nat \<Rightarrow> nat \<Rightarrow> 'd \<Rightarrow> blob_code \<times> 'd" where
  "Dhcpv4_StaticClients_UnsetNotUsedParamFromDb C numOfNewlyReceivedParam numOfBackupParam db =
     (if numOfNewlyReceivedParam \<le> numOfBackupParam then (MINUS_ONE, db)
      else (case unset_hosts C (map Suc [numOfBackupParam ..< numOfNewlyReceivedParam]) db of (ok, db1) \<Rightarrow>
          if \<not> ok then (SYSCFG_FAILURE, db1)
          else (case sc_commit C db1 of (rc, db2) \<Rightarrow> (if \<not> rc then SYSCFG_FAILURE else BLOB_EXEC_SUCCESS, db2))))"

section \<open>Backup\<close>

text \<open>Reading a key into the cell at the index, which moves on when there was a value. A key that \<open>sprintf_s\<close> cannot
  print is empty.\<close>

definition backup_key :: "'d syscfg \<Rightarrow> 'd \<Rightarrow> string \<Rightarrow> t_cache list \<times> nat \<Rightarrow> (t_cache list \<times> nat) option" where
  "backup_key C db cmd s =
     (case s of (cache, numOfParam) \<Rightarrow>
        if \<not> numOfParam < length cache then None
        else
          let val = (case sc_get C db cmd VAL_MAX_SIZE of Some x \<Rightarrow> x | None \<Rightarrow> tc_val (cache ! numOfParam))
          in Some (cache[numOfParam := \<lparr>tc_cmd = cmd, tc_val = val\<rparr>], if val \<noteq> [] then Suc numOfParam else numOfParam))"

fun backup_keys :: "'d syscfg \<Rightarrow> 'd \<Rightarrow> string list \<Rightarrow> t_cache list \<times> nat \<Rightarrow> (t_cache list \<times> nat) option" where
  "backup_keys C db [] s = Some s"
| "backup_keys C db (k # ks) s = (case backup_key C db k s of None \<Rightarrow> None | Some s1 \<Rightarrow> backup_keys C db ks s1)"

definition sprintf_key :: "string \<Rightarrow> string" where
  "sprintf_key s = (case sprintf_s NAME_MAX_SIZE s of Some k \<Rightarrow> k | None \<Rightarrow> [])"

text \<open>One round of the loop over the hosts. \<open>hostInfo\<close> is the text of the host up to its first comma.\<close>

definition backup_host :: "'d syscfg \<Rightarrow> 'd \<Rightarrow> nat \<Rightarrow> t_cache list \<times> nat \<Rightarrow> (t_cache list \<times> nat) option" where
  "backup_host C db i s =
     (case backup_key C db (snprintf NAME_MAX_SIZE (host_key DHCPV4_STATIC_HOST i)) s of
        None \<Rightarrow> None
      | Some (cache1, n1) \<Rightarrow>
          let hostInfo = (if tc_val (cache1 ! snd s) \<noteq> [] then takeWhile (\<lambda>c. c \<noteq> CHR '','') (tc_val (cache1 ! snd s)) else [])
          in backup_keys C db [sprintf_key (host_key DHCPV4_STATIC_HOSTS_INSNUM i), sprintf_key (host_key DHCPV4_STATIC_HOST_ALIAS i),
               snprintf NAME_MAX_SIZE (host_key DHCPV4_COMMENTS_LAN_CLIENTS i), sprintf_key (DHCPV4_COMMENTS @ hostInfo)] (cache1, n1))"

fun backup_hosts :: "'d syscfg \<Rightarrow> 'd \<Rightarrow> nat list \<Rightarrow> t_cache list \<times> nat \<Rightarrow> (t_cache list \<times> nat) option" where
  "backup_hosts C db [] s = Some s"
| "backup_hosts C db (i # is) s = (case backup_host C db i s of None \<Rightarrow> None | Some s1 \<Rightarrow> backup_hosts C db is s1)"

definition Dhcpv4_StaticClients_BackupFromDb :: "'d syscfg \<Rightarrow> 'd \<Rightarrow> t_cache list \<Rightarrow> (t_cache list \<times> nat) option" where
  "Dhcpv4_StaticClients_BackupFromDb C db pCache =
     (case backup_key C db DHCPV4_NUM_STATIC_HOSTS (pCache, 0) of
        None \<Rightarrow> None
      | Some (cache1, n1) \<Rightarrow>
          let numOfHost = (if tc_val (cache1 ! 0) \<noteq> [] then atoi (tc_val (cache1 ! 0)) else 0)
          in (case backup_hosts C db (map Suc [0 ..< nat numOfHost]) (cache1, n1) of
                None \<Rightarrow> None
              | Some s \<Rightarrow> backup_key C db DHCPV4_COMMENTS_LAN_CLIENTS_COUNT s))"

definition lan_keys :: "string list" where
  "lan_keys = [''lan_ipaddr'', ''lan_netmask'', ''dhcp_server_enabled'', ''dhcp_start'', ''dhcp_end'', ''dhcp_lease_time'']"

definition Dhcpv4_Lan_BackupFromDb :: "'d syscfg \<Rightarrow> 'd \<Rightarrow> t_cache list \<Rightarrow> (t_cache list \<times> nat) option" where
  "Dhcpv4_Lan_BackupFromDb C db pCache = backup_keys C db lan_keys (pCache, 0)"

section \<open>From the document to the cells\<close>

definition dcell :: "string \<Rightarrow> string \<Rightarrow> t_cache" where
  "dcell cmd val = \<lparr>tc_cmd = snprintf NAME_MAX_SIZE cmd, tc_val = snprintf VAL_MAX_SIZE val\<rparr>"

text \<open>A null string printed with \<open>%s\<close> is undefined; the documents that reach this have none.\<close>

definition client_cells :: "nat \<Rightarrow> macdoc_t \<Rightarrow> t_cache list" where
  "client_cells i e =
     [dcell (host_key DHCPV4_STATIC_HOST i) (the (md_chaddr e) @ '','' @ the (md_yiaddr e) @ '',''),
      dcell (host_key DHCPV4_STATIC_HOSTS_INSNUM i) (dec i),
      dcell (host_key DHCPV4_STATIC_HOST_ALIAS i) (''StaticAddress'' @ dec i)]"

definition static_cells :: "macdoc_t list \<Rightarrow> t_cache list" where
  "static_cells es = dcell DHCPV4_NUM_STATIC_HOSTS (dec (length es)) #
     concat (map (\<lambda>(i, e). client_cells i e) (zip (map Suc [0 ..< length es]) es))"

definition Dhcpv4_StaticClients_UpdateConfToCache :: "macbindingdoc_t \<Rightarrow> t_cache list \<Rightarrow> (t_cache list \<times> nat) option" where
  "Dhcpv4_StaticClients_UpdateConfToCache pConf pCache =
     (let cells = static_cells (mbd_entries pConf)
      in map_option (\<lambda>cache. (cache, length cells)) (write_cells 0 cells pCache))"

definition lan_cells :: "lanparam_t \<Rightarrow> t_cache list" where
  "lan_cells p =
     [dcell ''lan_ipaddr'' (the (lp_lan_ip_address p)), dcell ''lan_netmask'' (the (lp_lan_subnet_mask p)),
      dcell ''dhcp_server_enabled'' (dec (if lp_dhcp_server_enable p then 1 else 0)),
      dcell ''dhcp_start'' (the (lp_dhcp_start_ip_address p)), dcell ''dhcp_end'' (the (lp_dhcp_end_ip_address p)),
      dcell ''dhcp_lease_time'' (dec (unat (lp_leasetime p)))]"

text \<open>The code is \<open>MINUS_ONE\<close> for a document without parameters.\<close>

definition Dhcpv4_Lan_UpdateConfToCache :: "landoc_t \<Rightarrow> t_cache list \<Rightarrow> (blob_code \<times> t_cache list \<times> nat) option" where
  "Dhcpv4_Lan_UpdateConfToCache pConf pCache =
     (case ld_param pConf of
        None \<Rightarrow> Some (MINUS_ONE, pCache, 0)
      | Some p \<Rightarrow>
          map_option (\<lambda>cache. (BLOB_EXEC_SUCCESS, cache, length (lan_cells p))) (write_cells 0 (lan_cells p) pCache))"

section \<open>The static clients\<close>

definition Dhcpv4_StaticClients_SetSyncFlag :: "'d dhcp_wc \<Rightarrow> blob_code \<times> 'd dhcp_wc" where
  "Dhcpv4_StaticClients_SetSyncFlag w =
     (if \<not> hDhcpv4 w then (MINUS_ONE, w) else (BLOB_EXEC_SUCCESS, w\<lparr>syncStaticClientsTable := True\<rparr>))"

text \<open>The last part of both branches of the request: set the flag and restart the server.\<close>

definition flag_and_restart :: "string \<Rightarrow> 'd dhcp_wc \<Rightarrow> (blob_code \<times> string) \<times> 'd dhcp_wc" where
  "flag_and_restart msg w =
     (case Dhcpv4_StaticClients_SetSyncFlag w of
        (ret, w1) \<Rightarrow>
          (if ret \<noteq> BLOB_EXEC_SUCCESS then (COSA_SYNCHRONIZE_FAILED, msg) else (BLOB_EXEC_SUCCESS, []),
           w1\<lparr>dhcp_server_restarts := Suc (dhcp_server_restarts w1)\<rparr>))"

definition bridge_mode_on :: "'d syscfg \<Rightarrow> 'd \<Rightarrow> bool" where
  "bridge_mode_on C db = (case sc_get C db ''bridge_mode'' 16 of Some buf \<Rightarrow> buf \<noteq> ''0'' | None \<Rightarrow> False)"

text \<open>The inner \<open>None\<close> is the null result of a failed \<open>malloc\<close>.\<close>

definition Process_StaticClients_WebConfigRequest :: "'d syscfg \<Rightarrow> (string \<Rightarrow> bool) \<Rightarrow> (string \<Rightarrow> ULONG) \<Rightarrow> bool \<Rightarrow>
    macbindingdoc_t option \<Rightarrow> 'd dhcp_wc \<Rightarrow> ((blob_code \<times> string) option \<times> 'd dhcp_wc) option" where
  "Process_StaticClients_WebConfigRequest C is_ip4 inet_addr malloc_ok pMacConf w =
     (if \<not> malloc_ok then Some (None, w)
      else if bridge_mode_on C (dh_db w)
      then Some (Some (VALIDATION_FALIED, ''MacBinding Blob Not supported in bridge mode''), w)
      else
        let w1 = Dhcpv4_Reset_Cache w;
            ret = Dhcpv4_StaticClients_Validate C is_ip4 inet_addr (dh_db w1) pMacConf
        in if ret \<noteq> BLOB_EXEC_SUCCESS \<and> ret \<noteq> EMPTY_BLOB
           then Some (Some (VALIDATION_FALIED, ConvertErrCodeToErrMsg ret), w1)
           else (case Dhcpv4_StaticClients_BackupFromDb C (dh_db w1) (g_dhcpv4bkup_cache w1) of
               None \<Rightarrow> None
             | Some (bkup, n) \<Rightarrow>
                 (case Dhcpv4_UnsetAllDbValues C bkup n (dh_db w1) of
                    (ret2, db) \<Rightarrow>
                      let w2 = w1\<lparr>g_dhcpv4bkup_cache := bkup, g_numOfbkupCacheParam := n, dh_db := db\<rparr> in
                      if ret2 = SYSCFG_FAILURE
                      then Some (Some (SYSCFG_FAILURE, ''sysconfig failure while clearing entries''), w2)
                      else if ret = EMPTY_BLOB then (case flag_and_restart ''Sync with Cosa Object failure'' w2 of (e, w3) \<Rightarrow> Some (Some e, w3))
                      else (case Dhcpv4_StaticClients_UpdateConfToCache (the pMacConf) (cache_temp w2) of
                          None \<Rightarrow> None
                        | Some (cache, cacheSize) \<Rightarrow>
                            (case Dhcpv4_Cache_ApplyAllToDb C cache cacheSize (dh_db w2) of
                               (ret3, db3) \<Rightarrow>
                                 let w3 = w2\<lparr>cache_temp := cache, g_numOfReceivedParam := cacheSize, dh_db := db3\<rparr> in
                                 if ret3 = SYSCFG_FAILURE
                                 then Some (Some (SYSCFG_FAILURE, ''sysconfig failure while applying into db''), w3)
                                 else (case flag_and_restart ''Sync with Cosa object failure'' w3 of (e, w4) \<Rightarrow> Some (Some e, w4)))))))"

text \<open>The result of the two database steps is not looked at.\<close>

definition rollback_StaticClients :: "'d syscfg \<Rightarrow> 'd dhcp_wc \<Rightarrow> blob_code \<times> 'd dhcp_wc" where
  "rollback_StaticClients C w =
     (let db1 = snd (Dhcpv4_Cache_ApplyAllToDb C (g_dhcpv4bkup_cache w) (g_numOfbkupCacheParam w) (dh_db w));
          db2 = snd (Dhcpv4_StaticClients_UnsetNotUsedParamFromDb C (g_numOfReceivedParam w) (g_numOfbkupCacheParam w) db1)
      in (case Dhcpv4_StaticClients_SetSyncFlag (w\<lparr>dh_db := db2\<rparr>) of
            (ret, w1) \<Rightarrow> (ret, w1\<lparr>dhcp_server_restarts := Suc (dhcp_server_restarts w1)\<rparr>)))"

section \<open>The LAN\<close>

text \<open>The objects that \<open>Dhcpv4_Lan_Synchronize\<close> reads again: the LAN entry of the device control table and the first
  server pool (no link, a link without content, or a link with content), with the board functions that read them.\<close>

record ('d, 'm, 'p) lan_objects =
  lo_hDeviceControl :: bool
  lo_LanMngm :: "'m option option"
  lo_Pool :: "'p option option"
  lo_LanMngm_GetEntryByIndex :: "'d \<Rightarrow> 'm \<Rightarrow> bool \<times> 'm"
  lo_DhcpsGetPool :: "'d \<Rightarrow> 'p \<Rightarrow> bool \<times> 'p"
  lo_clear_TimeOffset :: "'p \<Rightarrow> 'p"

definition Dhcpv4_Lan_Synchronize :: "'d dhcp_wc \<Rightarrow> ('d, 'm, 'p) lan_objects \<Rightarrow> bool \<times> ('d, 'm, 'p) lan_objects" where
  "Dhcpv4_Lan_Synchronize w b =
     (if \<not> hDhcpv4 w \<or> \<not> lo_hDeviceControl b then (False, b)
      else (case lo_LanMngm b of
          Some (Some m) \<Rightarrow>
            (case lo_LanMngm_GetEntryByIndex b (dh_db w) m of
               (ok, m1) \<Rightarrow>
                 let b1 = b\<lparr>lo_LanMngm := Some (Some m1)\<rparr> in
                 if \<not> ok then (False, b1)
                 else (case lo_Pool b1 of
                     Some (Some p) \<Rightarrow>
                       (case lo_DhcpsGetPool b1 (dh_db w) p of
                          (ok2, p1) \<Rightarrow> (ok2, b1\<lparr>lo_Pool := Some (Some (lo_clear_TimeOffset b1 p1))\<rparr>))
                   | _ \<Rightarrow> (False, b1)))
        | _ \<Rightarrow> (False, b)))"

definition restart_lan :: "'d dhcp_wc \<Rightarrow> 'd dhcp_wc" where
  "restart_lan w = w\<lparr>lan_restarts := Suc (lan_restarts w), dhcp_server_restarts := Suc (dhcp_server_restarts w)\<rparr>"

definition Process_Lan_WebConfigRequest :: "'d syscfg \<Rightarrow> (string \<Rightarrow> bool) \<Rightarrow> (string \<Rightarrow> ULONG) \<Rightarrow> bool \<Rightarrow> landoc_t option \<Rightarrow>
    'd dhcp_wc \<Rightarrow> ('d, 'm, 'p) lan_objects \<Rightarrow> ((blob_code \<times> string) option \<times> 'd dhcp_wc \<times> ('d, 'm, 'p) lan_objects) option" where
  "Process_Lan_WebConfigRequest C is_ip4 inet_addr malloc_ok pLanConf w b =
     (if \<not> malloc_ok then Some (None, w, b)
      else if bridge_mode_on C (dh_db w)
      then Some (Some (VALIDATION_FALIED, ''Lan Blob Not supported in bridge mode''), w, b)
      else
        let w1 = Dhcpv4_Reset_Cache w; ret = Dhcpv4_Lan_Validate is_ip4 inet_addr pLanConf
        in if ret \<noteq> BLOB_EXEC_SUCCESS then Some (Some (VALIDATION_FALIED, ConvertErrCodeToErrMsg ret), w1, b)
           else (case Dhcpv4_Lan_BackupFromDb C (dh_db w1) (g_dhcpv4bkup_cache w1) of
               None \<Rightarrow> None
             | Some (bkup, n) \<Rightarrow>
                 (case Dhcpv4_UnsetAllDbValues C bkup n (dh_db w1) of
                    (ret2, db) \<Rightarrow>
                      let w2 = w1\<lparr>g_dhcpv4bkup_cache := bkup, g_numOfbkupCacheParam := n, dh_db := db\<rparr> in
                      if ret2 = SYSCFG_FAILURE
                      then Some (Some (SYSCFG_FAILURE, ''sysconfig failure while clearing entries''), w2, b)
                      else (case Dhcpv4_Lan_UpdateConfToCache (the pLanConf) (cache_temp w2) of
                          None \<Rightarrow> None
                        | Some (ret3, cache, cacheSize) \<Rightarrow>
                            if ret3 \<noteq> BLOB_EXEC_SUCCESS then Some (Some (BLOB_EXEC_SUCCESS, []), w2, b)
                            else (case Dhcpv4_Cache_ApplyAllToDb C cache cacheSize (dh_db w2) of
                                (ret4, db4) \<Rightarrow>
                                  let w3 = w2\<lparr>cache_temp := cache, g_numOfReceivedParam := cacheSize, dh_db := db4\<rparr> in
                                  if ret4 = SYSCFG_FAILURE
                                  then Some (Some (SYSCFG_FAILURE, ''sysconfig failure while applying into db''), w3, b)
                                  else (case Dhcpv4_Lan_Synchronize w3 b of
                                      (ok, b1) \<Rightarrow>
                                        Some (Some (if \<not> ok then (COSA_SYNCHRONIZE_FAILED, ''Sync with Cosa object failure'')
                                                    else (BLOB_EXEC_SUCCESS, [])), restart_lan w3, b1)))))))"

text \<open>The result is that of the synchronisation.\<close>

definition rollback_Lan :: "'d syscfg \<Rightarrow> 'd dhcp_wc \<Rightarrow> ('d, 'm, 'p) lan_objects \<Rightarrow> bool \<times> 'd dhcp_wc \<times> ('d, 'm, 'p) lan_objects" where
  "rollback_Lan C w b =
     (let w1 = w\<lparr>dh_db := snd (Dhcpv4_Cache_ApplyAllToDb C (g_dhcpv4bkup_cache w) (g_numOfbkupCacheParam w) (dh_db w))\<rparr>
      in (case Dhcpv4_Lan_Synchronize w1 b of (ok, b1) \<Rightarrow> (ok, restart_lan w1, b1)))"

end
