(* ===== verification/Dhcp_WebConfig_Keys.thy ===== *)
theory Dhcp_WebConfig_Keys
  imports Dhcp_WebConfig_Run
begin

text \<open>
  What the backup and the writing of the static clients compute: the backup as one list of keys, read in order and
  kept where there is a value; the keys of the hosts, which are all different; the database after each step.
\<close>

section \<open>Database steps\<close>

lemma unset_keys_view:
  "syscfg_ok C v \<Longrightarrow> unset_keys C cs db = (True, db') \<Longrightarrow> v db' = without (cell_keys cs) (v db)"
proof (induction cs arbitrary: db)
  case Nil
  then show ?case by (auto simp: without_apply fun_eq_iff cell_keys_def)
next
  case (Cons c cs)
  obtain ok db1 where un: "sc_unset C db (tc_cmd c) = (ok, db1)" by fastforce
  with Cons.prems have "ok" "unset_keys C cs db1 = (True, db')" by (auto split: if_splits)
  with Cons.IH [OF Cons.prems(1)] syscfg_unset_view [OF Cons.prems(1) un] show ?case
    by (auto simp: without_apply fun_eq_iff cell_keys_def)
qed

lemma without_empty [simp]: "without {} m = m"
  by (simp add: without_apply fun_eq_iff)

lemma UnsetAll_view:
  assumes C: "syscfg_ok C v" and un: "Dhcpv4_UnsetAllDbValues C cs n db = (r, db')" and r: "r \<noteq> SYSCFG_FAILURE"
  shows "v db' = without (cell_keys (take n cs)) (v db)"
proof (cases "n = 0")
  case True
  with un show ?thesis by (simp add: Dhcpv4_UnsetAllDbValues_def cell_keys_def)
next
  case False
  obtain ok db1 where k: "unset_keys C (take n cs) db = (ok, db1)" by fastforce
  obtain rc db2 where cm: "sc_commit C db1 = (rc, db2)" by fastforce
  from un r False k cm have "ok" "db' = db2"
    by (auto simp: Dhcpv4_UnsetAllDbValues_def split: if_splits)
  with unset_keys_view [OF C] k syscfg_commit_view [OF C cm] show ?thesis by simp
qed

lemma ApplyAll_view:
  assumes C: "syscfg_ok C v" and ap: "Dhcpv4_Cache_ApplyAllToDb C cs n db = (r, db')" and r: "r \<noteq> SYSCFG_FAILURE"
  shows "v db' = v db ++ cell_map (take n cs)"
proof (cases "n = 0")
  case True
  with ap show ?thesis by (simp add: Dhcpv4_Cache_ApplyAllToDb_def)
next
  case False
  obtain ok db1 where k: "set_cells C (take n cs) db = (ok, db1)" by fastforce
  obtain rc db2 where cm: "sc_commit C db1 = (rc, db2)" by fastforce
  from ap r False k cm have "ok" "db' = db2"
    by (auto simp: Dhcpv4_Cache_ApplyAllToDb_def split: if_splits)
  with set_cells_view [OF C] k syscfg_commit_view [OF C cm] show ?thesis by simp
qed

lemma unset_keys_total: "syscfg_total C \<Longrightarrow> fst (unset_keys C cs db)"
  by (induction cs arbitrary: db) (auto dest: syscfg_totalD split: prod.splits)

lemma steps_total:
  assumes C: "syscfg_total C"
  shows "fst (Dhcpv4_UnsetAllDbValues C cs n db) \<noteq> SYSCFG_FAILURE" "fst (Dhcpv4_Cache_ApplyAllToDb C cs n db) \<noteq> SYSCFG_FAILURE"
proof -
  have "fst (unset_keys C (take n cs) db)" "fst (set_cells C (take n cs) db)"
    by (rule unset_keys_total [OF C] set_cells_total [OF C])+
  then show "fst (Dhcpv4_UnsetAllDbValues C cs n db) \<noteq> SYSCFG_FAILURE" "fst (Dhcpv4_Cache_ApplyAllToDb C cs n db) \<noteq> SYSCFG_FAILURE"
    using syscfg_totalD(3) [OF C]
    by (auto simp: Dhcpv4_UnsetAllDbValues_def Dhcpv4_Cache_ApplyAllToDb_def split: prod.splits)
qed

section \<open>Backup\<close>

text \<open>The cell of a key, blank when the database has no value.\<close>

definition bk_val :: "'d syscfg \<Rightarrow> 'd \<Rightarrow> string \<Rightarrow> string" where
  "bk_val C db k = (case sc_get C db k VAL_MAX_SIZE of Some x \<Rightarrow> x | None \<Rightarrow> [])"

definition bk_cells :: "'d syscfg \<Rightarrow> 'd \<Rightarrow> string list \<Rightarrow> t_cache list" where
  "bk_cells C db ks = map (\<lambda>k. \<lparr>tc_cmd = k, tc_val = bk_val C db k\<rparr>) (filter (\<lambda>k. bk_val C db k \<noteq> []) ks)"

definition blank_from :: "nat \<Rightarrow> t_cache list \<Rightarrow> bool" where
  "blank_from n cache \<longleftrightarrow> (\<forall>i. n \<le> i \<longrightarrow> i < length cache \<longrightarrow> tc_val (cache ! i) = [])"

lemma bk_cells_append: "bk_cells C db (ks @ ls) = bk_cells C db ks @ bk_cells C db ls"
  by (simp add: bk_cells_def)

lemma backup_key_Some:
  assumes "blank_from n cache" "backup_key C db k (cache, n) = Some (cache', n')"
  shows "n < length cache" "length cache' = length cache" "blank_from n' cache'"
    "take n' cache' = take n cache @ bk_cells C db [k]" "n' = n + length (bk_cells C db [k])" "tc_val (cache' ! n) = bk_val C db k"
proof -
  from assms have n: "n < length cache" by (simp add: backup_key_def split: if_splits)
  with assms(1) have "tc_val (cache ! n) = []" by (simp add: blank_from_def)
  then have val: "(case sc_get C db k VAL_MAX_SIZE of Some x \<Rightarrow> x | None \<Rightarrow> tc_val (cache ! n)) = bk_val C db k"
    by (simp add: bk_val_def split: option.split)
  from assms(2) n have c': "cache' = cache[n := \<lparr>tc_cmd = k, tc_val = bk_val C db k\<rparr>]"
    and n': "n' = (if bk_val C db k \<noteq> [] then Suc n else n)"
    by (simp_all add: backup_key_def Let_def val)
  show "n < length cache" by (rule n)
  show "length cache' = length cache" "tc_val (cache' ! n) = bk_val C db k" using n by (simp_all add: c')
  show "blank_from n' cache'" using assms(1) n by (auto simp: blank_from_def c' n' nth_list_update)
  show "take n' cache' = take n cache @ bk_cells C db [k]" "n' = n + length (bk_cells C db [k])"
    using n by (simp_all add: c' n' bk_cells_def take_Suc_conv_app_nth)
qed

lemma backup_keys_Some:
  "blank_from n cache \<Longrightarrow> n \<le> length cache \<Longrightarrow> backup_keys C db ks (cache, n) = Some (cache', n') \<Longrightarrow>
     length cache' = length cache \<and> blank_from n' cache' \<and> take n' cache' = take n cache @ bk_cells C db ks \<and>
     n' = n + length (bk_cells C db ks) \<and> n' \<le> length cache"
proof (induction ks arbitrary: cache n)
  case Nil
  then show ?case by (simp add: bk_cells_def)
next
  case (Cons k ks)
  from Cons.prems(3) obtain c1 n1 where s: "backup_key C db k (cache, n) = Some (c1, n1)"
    and r: "backup_keys C db ks (c1, n1) = Some (cache', n')"
    by (auto split: option.splits)
  note one = backup_key_Some [OF Cons.prems(1) s]
  have "length (bk_cells C db [k]) \<le> 1" by (simp add: bk_cells_def)
  then have "n1 \<le> length c1" using one(1,2,5) by linarith
  note ih = Cons.IH [OF one(3) this r]
  have eq: "bk_cells C db (k # ks) = bk_cells C db [k] @ bk_cells C db ks" using bk_cells_append [of C db "[k]" ks] by simp
  show ?case
    unfolding eq append_assoc [symmetric] one(4) [symmetric] length_append add.assoc [symmetric] one(5) [symmetric]
    using ih one(2) by (elim conjE, intro conjI) simp_all
qed

text \<open>An array that is large enough takes any list of keys.\<close>

lemma backup_keys_fit:
  "blank_from n cache \<Longrightarrow> n + length ks \<le> length cache \<Longrightarrow> \<exists>s. backup_keys C db ks (cache, n) = Some s"
proof (induction ks arbitrary: cache n)
  case Nil
  then show ?case by simp
next
  case (Cons k ks)
  then obtain c1 n1 where s: "backup_key C db k (cache, n) = Some (c1, n1)"
    by (cases "backup_key C db k (cache, n)") (auto simp: backup_key_def Let_def)
  note one = backup_key_Some [OF Cons.prems(1) s]
  have "length (bk_cells C db [k]) \<le> 1" by (simp add: bk_cells_def)
  then have "n1 + length ks \<le> length c1" using one(1,2,5) Cons.prems(2) by simp
  from Cons.IH [OF one(3) this] s show ?case by simp
qed

section \<open>The keys of the static clients\<close>

definition host_keys :: "'d syscfg \<Rightarrow> 'd \<Rightarrow> nat \<Rightarrow> string list" where
  "host_keys C db i =
     [snprintf NAME_MAX_SIZE (host_key DHCPV4_STATIC_HOST i), sprintf_key (host_key DHCPV4_STATIC_HOSTS_INSNUM i),
      sprintf_key (host_key DHCPV4_STATIC_HOST_ALIAS i), snprintf NAME_MAX_SIZE (host_key DHCPV4_COMMENTS_LAN_CLIENTS i),
      sprintf_key (DHCPV4_COMMENTS @ takeWhile (\<lambda>c. c \<noteq> CHR '','')
        (bk_val C db (snprintf NAME_MAX_SIZE (host_key DHCPV4_STATIC_HOST i))))]"

definition static_keys :: "'d syscfg \<Rightarrow> 'd \<Rightarrow> string list" where
  "static_keys C db = DHCPV4_NUM_STATIC_HOSTS #
     concat (map (host_keys C db) (map Suc [0 ..< nat (atoi (bk_val C db DHCPV4_NUM_STATIC_HOSTS))])) @ [DHCPV4_COMMENTS_LAN_CLIENTS_COUNT]"

lemma backup_keys_append:
  "backup_keys C db (ks @ ls) s = (case backup_keys C db ks s of None \<Rightarrow> None | Some s1 \<Rightarrow> backup_keys C db ls s1)"
  by (induction ks arbitrary: s) (auto split: option.split)

lemma backup_host_eq:
  assumes "blank_from n cache"
  shows "backup_host C db i (cache, n) = backup_keys C db (host_keys C db i) (cache, n)"
proof (cases "backup_key C db (snprintf NAME_MAX_SIZE (host_key DHCPV4_STATIC_HOST i)) (cache, n)")
  case None
  then show ?thesis by (simp add: backup_host_def host_keys_def)
next
  case (Some s1)
  then obtain c1 n1 where s: "backup_key C db (snprintf NAME_MAX_SIZE (host_key DHCPV4_STATIC_HOST i)) (cache, n) = Some (c1, n1)"
    by (cases s1) auto
  note v = backup_key_Some(6) [OF assms s]
  have tw: "(if x \<noteq> [] then takeWhile P x else []) = takeWhile P x" for P and x :: string by simp
  show ?thesis unfolding backup_host_def host_keys_def backup_keys.simps(2) [of C db "snprintf _ _"] s
    by (simp only: option.case prod.case snd_conv v tw Let_def)
qed

lemma backup_hosts_eq:
  "blank_from n cache \<Longrightarrow> n \<le> length cache \<Longrightarrow>
     backup_hosts C db is (cache, n) = backup_keys C db (concat (map (host_keys C db) is)) (cache, n)"
proof (induction "is" arbitrary: cache n)
  case Nil
  then show ?case by simp
next
  case (Cons i "is")
  show ?case
  proof (cases "backup_keys C db (host_keys C db i) (cache, n)")
    case None
    then show ?thesis by (simp add: backup_host_eq [OF Cons.prems(1)] backup_keys_append)
  next
    case (Some s1)
    obtain c1 n1 where s1: "s1 = (c1, n1)" by fastforce
    from backup_keys_Some [OF Cons.prems Some [unfolded s1]] have "blank_from n1 c1" "n1 \<le> length c1" by auto
    with Cons.IH Some s1 show ?thesis by (simp add: backup_host_eq [OF Cons.prems(1)] backup_keys_append)
  qed
qed

lemma StaticClients_Backup_eq:
  assumes "blank_from 0 cache"
  shows "Dhcpv4_StaticClients_BackupFromDb C db cache = backup_keys C db (static_keys C db) (cache, 0)"
proof (cases "backup_key C db DHCPV4_NUM_STATIC_HOSTS (cache, 0)")
  case None
  then show ?thesis by (simp add: Dhcpv4_StaticClients_BackupFromDb_def static_keys_def)
next
  case (Some s1)
  then obtain c1 n1 where s: "backup_key C db DHCPV4_NUM_STATIC_HOSTS (cache, 0) = Some (c1, n1)" by (cases s1) auto
  note one = backup_key_Some [OF assms s]
  have "length (bk_cells C db [DHCPV4_NUM_STATIC_HOSTS]) \<le> 1" by (simp add: bk_cells_def)
  then have le: "n1 \<le> length c1" using one(1,2,5) by linarith
  have n: "(if x \<noteq> [] then atoi x else 0) = atoi x" for x by (simp add: atoi_def)
  have single: "backup_keys C db [k] s = backup_key C db k s" for k s by (simp split: option.split)
  show ?thesis
    unfolding Dhcpv4_StaticClients_BackupFromDb_def static_keys_def backup_keys.simps(2) [of C db DHCPV4_NUM_STATIC_HOSTS] s
    by (simp add: one(6) n Let_def backup_hosts_eq [OF one(3) le] backup_keys_append single split: option.split)
qed

end
