(* ===== verification/Dhcp_WebConfig_Steps.thy ===== *)
theory Dhcp_WebConfig_Steps
  imports Dhcp_WebConfig_Keys
begin

text \<open>
  The static clients blob, step by step: the keys of hosts, the cells of a document, and what a request that succeeds
  has done to the arrays and the database.
\<close>

section \<open>Keys of hosts\<close>

definition host_prefixes :: "string list" where
  "host_prefixes = [DHCPV4_STATIC_HOST, DHCPV4_STATIC_HOSTS_INSNUM, DHCPV4_STATIC_HOST_ALIAS]"

lemma host_key_fits:
  assumes "i < 10 ^ 7" "pre \<in> set host_prefixes \<or> pre = DHCPV4_COMMENTS_LAN_CLIENTS"
  shows "snprintf NAME_MAX_SIZE (host_key pre i) = host_key pre i" "sprintf_key (host_key pre i) = host_key pre i"
    "snprintf 64 (host_key pre i) = host_key pre i"
proof -
  have "length (dec i) \<le> 7" by (rule length_dec) (use assms(1) in simp_all)
  moreover have "length pre \<le> 24" using assms(2) by (auto simp: host_prefixes_def dhcp_keys)
  ultimately have len: "length (host_key pre i) < 32" by (simp add: host_key_def)
  then show "snprintf NAME_MAX_SIZE (host_key pre i) = host_key pre i" "sprintf_key (host_key pre i) = host_key pre i"
    "snprintf 64 (host_key pre i) = host_key pre i"
    by (simp_all add: sprintf_key_def NAME_MAX_SIZE_def)
qed

lemma dec_hd_digit: "isdigit (hd (dec n))"
  using dec_isdigit dec_nonempty hd_in_set by blast

text \<open>Two keys of hosts are the same only when they name the same thing of the same host.\<close>

lemma host_key_inj:
  assumes "pre \<in> set host_prefixes" "pre' \<in> set host_prefixes" "host_key pre i = host_key pre' j"
  shows "pre = pre' \<and> i = j"
proof -
  obtain a s where a: "dec i = a # s" "isdigit a" using dec_hd_digit [of i] dec_nonempty [of i] by (cases "dec i") auto
  obtain b t where b: "dec j = b # t" "isdigit b" using dec_hd_digit [of j] dec_nonempty [of j] by (cases "dec j") auto
  have letters: "\<not> isdigit CHR ''i''" "\<not> isdigit CHR ''a''" by (simp_all add: isdigit_def)
  have "pre = pre'"
    using assms a b letters by (auto simp: host_prefixes_def dhcp_keys host_key_def)
  with assms(3) show ?thesis by (simp add: host_key_def dec_inj)
qed

lemma host_key_not_num: "pre \<in> set host_prefixes \<Longrightarrow> host_key pre i \<noteq> DHCPV4_NUM_STATIC_HOSTS"
  by (auto simp: host_prefixes_def host_key_def dhcp_keys)

section \<open>The cells of a document\<close>

definition client_text :: "macdoc_t \<Rightarrow> string" where
  "client_text e = the (md_chaddr e) @ '','' @ the (md_yiaddr e) @ '',''"

definition host_value :: "string \<Rightarrow> nat \<Rightarrow> macdoc_t \<Rightarrow> string" where
  "host_value pre i e = (if pre = DHCPV4_STATIC_HOST then snprintf VAL_MAX_SIZE (client_text e)
     else if pre = DHCPV4_STATIC_HOSTS_INSNUM then snprintf VAL_MAX_SIZE (dec i)
     else snprintf VAL_MAX_SIZE (''StaticAddress'' @ dec i))"

lemma client_cells_eq:
  "i < 10 ^ 7 \<Longrightarrow> client_cells i e = map (\<lambda>pre. \<lparr>tc_cmd = host_key pre i, tc_val = host_value pre i e\<rparr>) host_prefixes"
  using host_key_fits [of i] by (simp add: client_cells_def host_prefixes_def host_value_def dcell_def client_text_def dhcp_keys)

lemma set_static_cells:
  assumes "length es < 10 ^ 7"
  shows "c \<in> set (static_cells es) \<longleftrightarrow> c = dcell DHCPV4_NUM_STATIC_HOSTS (dec (length es)) \<or>
    (\<exists>j < length es. \<exists>pre \<in> set host_prefixes. c = \<lparr>tc_cmd = host_key pre (Suc j), tc_val = host_value pre (Suc j) (es ! j)\<rparr>)"
    (is "_ \<longleftrightarrow> c = ?num \<or> ?hosts")
proof -
  have "c \<in> set (static_cells es) \<longleftrightarrow> c = ?num \<or> (\<exists>j < length es. c \<in> set (client_cells (Suc j) (es ! j)))"
  proof -
    have z: "zip (map Suc [0 ..< length es]) es = map (\<lambda>j. (Suc j, es ! j)) [0 ..< length es]"
      by (rule nth_equalityI) simp_all
    show ?thesis by (auto simp: static_cells_def z image_iff)
  qed
  also have "(\<exists>j < length es. c \<in> set (client_cells (Suc j) (es ! j))) \<longleftrightarrow> ?hosts"
  proof -
    have "c \<in> set (client_cells (Suc j) (es ! j)) \<longleftrightarrow>
        (\<exists>pre \<in> set host_prefixes. c = \<lparr>tc_cmd = host_key pre (Suc j), tc_val = host_value pre (Suc j) (es ! j)\<rparr>)"
      if "j < length es" for j
      using client_cells_eq [of "Suc j"] that assms by (auto simp: image_iff)
    then show ?thesis by blast
  qed
  finally show ?thesis .
qed

lemma length_static_cells: "length (static_cells es) = 1 + 3 * length es"
proof -
  have "length (concat (map (\<lambda>(i, e). client_cells i e) xs)) = 3 * length xs" for xs :: "(nat \<times> macdoc_t) list"
    by (induction xs) (auto simp: client_cells_def)
  then show ?thesis by (simp add: static_cells_def)
qed

lemma num_fits: "tc_cmd (dcell DHCPV4_NUM_STATIC_HOSTS x) = DHCPV4_NUM_STATIC_HOSTS"
  by (simp add: dcell_def dhcp_keys NAME_MAX_SIZE_def)

lemma static_cells_lookup:
  assumes "length es < 10 ^ 7"
  shows "cell_map (static_cells es) DHCPV4_NUM_STATIC_HOSTS = Some (dec (length es))"
    "j < length es \<Longrightarrow> pre \<in> set host_prefixes \<Longrightarrow>
       cell_map (static_cells es) (host_key pre (Suc j)) = Some (host_value pre (Suc j) (es ! j))"
    "k \<in> cell_keys (static_cells es) \<longleftrightarrow> k = DHCPV4_NUM_STATIC_HOSTS \<or>
       (\<exists>j < length es. \<exists>pre \<in> set host_prefixes. k = host_key pre (Suc j))"
proof -
  note cells = set_static_cells [OF assms]
  have len: "length (dec (length es)) \<le> 7" by (rule length_dec) (use assms in simp_all)
  have num: "dcell DHCPV4_NUM_STATIC_HOSTS (dec (length es)) = \<lparr>tc_cmd = DHCPV4_NUM_STATIC_HOSTS, tc_val = dec (length es)\<rparr>"
    using len by (simp add: dcell_def dhcp_keys dhcp_sizes)
  have "cell_map (static_cells es) (tc_cmd \<lparr>tc_cmd = DHCPV4_NUM_STATIC_HOSTS, tc_val = dec (length es)\<rparr>) =
      Some (tc_val \<lparr>tc_cmd = DHCPV4_NUM_STATIC_HOSTS, tc_val = dec (length es)\<rparr>)"
    by (rule cell_map_Some) (use cells host_key_not_num num in \<open>force+\<close>)
  then show "cell_map (static_cells es) DHCPV4_NUM_STATIC_HOSTS = Some (dec (length es))" by simp
  show "cell_map (static_cells es) (host_key pre (Suc j)) = Some (host_value pre (Suc j) (es ! j))"
    if j: "j < length es" and pre: "pre \<in> set host_prefixes"
  proof -
    let ?c = "\<lparr>tc_cmd = host_key pre (Suc j), tc_val = host_value pre (Suc j) (es ! j)\<rparr>"
    have "cell_map (static_cells es) (tc_cmd ?c) = Some (tc_val ?c)"
    proof (rule cell_map_Some)
      show "?c \<in> set (static_cells es)" using cells j pre by blast
      fix c' assume c': "c' \<in> set (static_cells es)" "tc_cmd c' = tc_cmd ?c"
      show "tc_val c' = tc_val ?c"
      proof -
        have "c' \<noteq> dcell DHCPV4_NUM_STATIC_HOSTS (dec (length es))" using c'(2) host_key_not_num [OF pre, of "Suc j"] num by auto
        with c'(1) obtain j' pre' where p: "pre' \<in> set host_prefixes"
          "c' = \<lparr>tc_cmd = host_key pre' (Suc j'), tc_val = host_value pre' (Suc j') (es ! j')\<rparr>"
          unfolding cells by blast
        from host_key_inj [OF p(1) pre, of "Suc j'" "Suc j"] c'(2) p(2) show ?thesis by simp
      qed
    qed
    then show ?thesis by simp
  qed
  show "k \<in> cell_keys (static_cells es) \<longleftrightarrow> k = DHCPV4_NUM_STATIC_HOSTS \<or>
       (\<exists>j < length es. \<exists>pre \<in> set host_prefixes. k = host_key pre (Suc j))"
    unfolding cell_keys_def image_iff by (simp add: cells num Bex_def) (metis t_cache.select_convs(1))
qed

section \<open>A request that succeeds\<close>

text \<open>The arrays have their size.\<close>

definition dhcp_wf :: "'d dhcp_wc \<Rightarrow> bool" where
  "dhcp_wf w \<longleftrightarrow> length (g_dhcpv4bkup_cache w) = DHCPV4_CACHE_MAX_NUM_OF_PARAM \<and> length (cache_temp w) = DHCPV4_CACHE_MAX_NUM_OF_PARAM"

lemma reset_blank:
  "blank_from 0 (g_dhcpv4bkup_cache (Dhcpv4_Reset_Cache w))" "dh_db (Dhcpv4_Reset_Cache w) = dh_db w"
  "length (g_dhcpv4bkup_cache (Dhcpv4_Reset_Cache w)) = length (g_dhcpv4bkup_cache w)"
  "length (cache_temp (Dhcpv4_Reset_Cache w)) = length (cache_temp w)" "hDhcpv4 (Dhcpv4_Reset_Cache w) = hDhcpv4 w"
  by (simp_all add: Dhcpv4_Reset_Cache_def blank_from_def blank_def)

lemma UpdateConf_Some:
  assumes "Dhcpv4_StaticClients_UpdateConfToCache d cache = Some (cache', n)"
  shows "n = 1 + 3 * length (mbd_entries d)" "take n cache' = static_cells (mbd_entries d)" "n \<le> length cache"
proof -
  from assms obtain m where w: "write_cells 0 (static_cells (mbd_entries d)) cache = Some m" and r: "cache' = m"
    "n = length (static_cells (mbd_entries d))"
    by (auto simp: Dhcpv4_StaticClients_UpdateConfToCache_def Let_def)
  from w r show "n = 1 + 3 * length (mbd_entries d)" "take n cache' = static_cells (mbd_entries d)" "n \<le> length cache"
    by (auto simp: write_cells_Some length_static_cells)
qed

text \<open>What a request with entries has done when it reports success.\<close>

lemma process_static_success:
  assumes C: "syscfg_ok C v" and wf: "dhcp_wf w" and ne: "mbd_entries d \<noteq> []"
    and run: "Process_StaticClients_WebConfigRequest C is_ip4 inet_addr True (Some d) w = Some (Some (BLOB_EXEC_SUCCESS, msg), w')"
  shows "validate_clients C is_ip4 inet_addr (dh_db w) (mbd_entries d) = BLOB_EXEC_SUCCESS"
    "take (g_numOfbkupCacheParam w') (g_dhcpv4bkup_cache w') = bk_cells C (dh_db w) (static_keys C (dh_db w))"
    "g_numOfbkupCacheParam w' = length (bk_cells C (dh_db w) (static_keys C (dh_db w)))"
    "g_numOfReceivedParam w' = 1 + 3 * length (mbd_entries d)" "length (mbd_entries d) \<le> 341"
    "v (dh_db w') = without (cell_keys (bk_cells C (dh_db w) (static_keys C (dh_db w)))) (v (dh_db w)) ++
       cell_map (static_cells (mbd_entries d))"
    "syncStaticClientsTable w'" "hDhcpv4 w'" "dhcp_wf w'"
proof -
  let ?w1 = "Dhcpv4_Reset_Cache w"
  let ?val = "Dhcpv4_StaticClients_Validate C is_ip4 inet_addr (dh_db ?w1) (Some d)"
  note r = reset_blank [of w]
  have val: "?val = validate_clients C is_ip4 inet_addr (dh_db w) (mbd_entries d)"
    using ne by (simp add: Dhcpv4_StaticClients_Validate_def r)
  have not_empty: "validate_clients C is_ip4 inet_addr db es \<noteq> EMPTY_BLOB" for db es
    by (induction es) (auto simp: Let_def CheckStaticClientIpIsValid_def)
  obtain bkup n where bk: "Dhcpv4_StaticClients_BackupFromDb C (dh_db ?w1) (g_dhcpv4bkup_cache ?w1) = Some (bkup, n)"
    and ok: "?val = BLOB_EXEC_SUCCESS"
    using run not_empty unfolding val
    by (auto simp: Process_StaticClients_WebConfigRequest_def Let_def val split: if_splits option.splits)
  obtain ret2 db2 where un: "Dhcpv4_UnsetAllDbValues C bkup n (dh_db ?w1) = (ret2, db2)" by fastforce
  have ret2: "ret2 \<noteq> SYSCFG_FAILURE"
    using run un bk ok by (auto simp: Process_StaticClients_WebConfigRequest_def Let_def split: if_splits)
  obtain cache cs where up: "Dhcpv4_StaticClients_UpdateConfToCache d (cache_temp ?w1) = Some (cache, cs)"
    using run un bk ok ret2 by (auto simp: Process_StaticClients_WebConfigRequest_def Let_def split: if_splits option.splits)
  obtain ret3 db3 where ap: "Dhcpv4_Cache_ApplyAllToDb C cache cs db2 = (ret3, db3)" by fastforce
  let ?w3 = "?w1\<lparr>g_dhcpv4bkup_cache := bkup, g_numOfbkupCacheParam := n, cache_temp := cache, g_numOfReceivedParam := cs, dh_db := db3\<rparr>"
  have ret3: "ret3 \<noteq> SYSCFG_FAILURE" and fl: "flag_and_restart ''Sync with Cosa object failure'' ?w3 = ((BLOB_EXEC_SUCCESS, msg), w')"
    using run un bk ok ret2 up ap
    by (auto simp: Process_StaticClients_WebConfigRequest_def Let_def split: if_splits prod.splits)
  have w': "w' = ?w3\<lparr>syncStaticClientsTable := True, dhcp_server_restarts := Suc (dhcp_server_restarts ?w3)\<rparr>"
    using fl by (auto simp: flag_and_restart_def Dhcpv4_StaticClients_SetSyncFlag_def split: if_splits)
  from bk have bks: "backup_keys C (dh_db w) (static_keys C (dh_db w)) (g_dhcpv4bkup_cache ?w1, 0) = Some (bkup, n)"
    by (simp add: StaticClients_Backup_eq [OF r(1)] r(2))
  note bk' = backup_keys_Some [OF r(1) le0 bks]
  note up' = UpdateConf_Some [OF up]
  show "validate_clients C is_ip4 inet_addr (dh_db w) (mbd_entries d) = BLOB_EXEC_SUCCESS" using ok val by simp
  show "take (g_numOfbkupCacheParam w') (g_dhcpv4bkup_cache w') = bk_cells C (dh_db w) (static_keys C (dh_db w))"
    "g_numOfbkupCacheParam w' = length (bk_cells C (dh_db w) (static_keys C (dh_db w)))"
    "g_numOfReceivedParam w' = 1 + 3 * length (mbd_entries d)" "syncStaticClientsTable w'"
    using bk' up'(1) by (auto simp: w' r)
  show "hDhcpv4 w'" using fl by (auto simp: w' flag_and_restart_def Dhcpv4_StaticClients_SetSyncFlag_def split: if_splits)
  show "length (mbd_entries d) \<le> 341" using up'(1,3) wf by (simp add: r dhcp_wf_def DHCPV4_CACHE_MAX_NUM_OF_PARAM_def)
  have "length cache = length (cache_temp w)" using up
    by (auto simp: Dhcpv4_StaticClients_UpdateConfToCache_def Let_def r dest: length_write_cells)
  then show "dhcp_wf w'" using wf bk' by (simp add: w' dhcp_wf_def r)
  show "v (dh_db w') = without (cell_keys (bk_cells C (dh_db w) (static_keys C (dh_db w)))) (v (dh_db w)) ++
       cell_map (static_cells (mbd_entries d))"
    using UnsetAll_view [OF C un ret2] ApplyAll_view [OF C ap ret3] bk' up'(2) by (auto simp: w' r)
qed

section \<open>Requests that are carried out\<close>

text \<open>With a database that does not fail, a request is carried out when its entries are valid and the arrays are large
  enough for the old values and for the new ones.\<close>

lemma process_static_total:
  assumes C: "syscfg_total C" and wf: "dhcp_wf w" and br: "\<not> bridge_mode_on C (dh_db w)" and h: "hDhcpv4 w"
    and ne: "mbd_entries d \<noteq> []" "length (mbd_entries d) \<le> 341"
    and good: "validate_clients C is_ip4 inet_addr (dh_db w) (mbd_entries d) = BLOB_EXEC_SUCCESS"
    and small: "length (static_keys C (dh_db w)) \<le> DHCPV4_CACHE_MAX_NUM_OF_PARAM"
  shows "\<exists>msg w'. Process_StaticClients_WebConfigRequest C is_ip4 inet_addr True (Some d) w = Some (Some (BLOB_EXEC_SUCCESS, msg), w')"
proof -
  note r = reset_blank [of w]
  have "Dhcpv4_StaticClients_Validate C is_ip4 inet_addr (dh_db (Dhcpv4_Reset_Cache w)) (Some d) = BLOB_EXEC_SUCCESS"
    using ne good by (simp add: Dhcpv4_StaticClients_Validate_def r)
  moreover have "0 + length (static_keys C (dh_db w)) \<le> length (g_dhcpv4bkup_cache (Dhcpv4_Reset_Cache w))"
    using small wf by (simp add: dhcp_wf_def r)
  from backup_keys_fit [OF r(1) this, of C "dh_db w"] obtain bkup n where
    "Dhcpv4_StaticClients_BackupFromDb C (dh_db (Dhcpv4_Reset_Cache w)) (g_dhcpv4bkup_cache (Dhcpv4_Reset_Cache w)) = Some (bkup, n)"
    by (auto simp: StaticClients_Backup_eq [OF r(1)] r)
  moreover have "\<exists>cache. write_cells 0 (static_cells (mbd_entries d)) (cache_temp (Dhcpv4_Reset_Cache w)) = Some cache"
    using wf ne(2) by (simp add: write_cells_def length_static_cells r dhcp_wf_def DHCPV4_CACHE_MAX_NUM_OF_PARAM_def)
  then obtain cache where "write_cells 0 (static_cells (mbd_entries d)) (cache_temp (Dhcpv4_Reset_Cache w)) = Some cache" ..
  ultimately show ?thesis
    using steps_total [OF C] br h r(5)
    by (auto simp: Process_StaticClients_WebConfigRequest_def Let_def r(2) Dhcpv4_StaticClients_UpdateConfToCache_def
        flag_and_restart_def Dhcpv4_StaticClients_SetSyncFlag_def split: prod.splits) (metis fst_conv)+
qed

text \<open>The number of keys of a database with \<open>n\<close> hosts.\<close>

lemma length_static_keys: "length (static_keys C db) = 2 + 5 * nat (atoi (bk_val C db DHCPV4_NUM_STATIC_HOSTS))"
proof -
  have "length (concat (map (host_keys C db) is)) = 5 * length is" for "is" :: "nat list"
    by (induction "is") (auto simp: host_keys_def)
  then show ?thesis by (simp add: static_keys_def del: map_map)
qed

section \<open>Rollback\<close>

lemma unset_hosts_view:
  "syscfg_ok C v \<Longrightarrow> unset_hosts C is db = (True, db') \<Longrightarrow>
     v db' = without {snprintf 64 (host_key pre i) |pre i. pre \<in> set host_prefixes \<and> i \<in> set is} (v db)"
proof (induction "is" arbitrary: db)
  case Nil
  then show ?case by simp
next
  case (Cons i "is")
  let ?cs = "map (\<lambda>pre. \<lparr>tc_cmd = snprintf 64 (host_key pre i), tc_val = []\<rparr>)
      [DHCPV4_STATIC_HOST, DHCPV4_STATIC_HOST_ALIAS, DHCPV4_STATIC_HOSTS_INSNUM]"
  obtain ok db1 where un: "unset_keys C ?cs db = (ok, db1)" by fastforce
  with Cons.prems(2) have r: "ok" "unset_hosts C is db1 = (True, db')" by (auto simp only: unset_hosts.simps prod.case split: if_splits)
  have keys: "cell_keys ?cs = {snprintf 64 (host_key pre i) |pre. pre \<in> set host_prefixes}"
    by (auto simp: cell_keys_def host_prefixes_def)
  show ?case
    using Cons.IH [OF Cons.prems(1) r(2)] unset_keys_view [OF Cons.prems(1), of ?cs db db1] un r(1)
    unfolding keys by (auto simp: without_apply fun_eq_iff)
qed

lemma unset_hosts_total: "syscfg_total C \<Longrightarrow> fst (unset_hosts C is db)"
proof (induction "is" arbitrary: db)
  case (Cons i "is")
  let ?cs = "map (\<lambda>pre. \<lparr>tc_cmd = snprintf 64 (host_key pre i), tc_val = []\<rparr>)
      [DHCPV4_STATIC_HOST, DHCPV4_STATIC_HOST_ALIAS, DHCPV4_STATIC_HOSTS_INSNUM]"
  show ?case
    using unset_keys_total [OF Cons.prems, of ?cs db] Cons.IH [OF Cons.prems] unfolding unset_hosts.simps by (auto split: prod.splits)
qed simp

lemma UnsetNotUsed_view:
  assumes C: "syscfg_ok C v" "syscfg_total C" and few: "recv < 10 ^ 7"
  shows "v (snd (Dhcpv4_StaticClients_UnsetNotUsedParamFromDb C recv bk db)) =
    without {host_key pre i |pre i. pre \<in> set host_prefixes \<and> bk < i \<and> i \<le> recv} (v db)"
proof (cases "recv \<le> bk")
  case True
  then have "{host_key pre i |pre i. pre \<in> set host_prefixes \<and> bk < i \<and> i \<le> recv} = {}" (is "?K = _") by auto
  then show ?thesis unfolding \<open>?K = {}\<close> using True by (simp add: Dhcpv4_StaticClients_UnsetNotUsedParamFromDb_def)
next
  case False
  let ?is = "map Suc [bk ..< recv]"
  obtain ok db1 where un: "unset_hosts C ?is db = (ok, db1)" by fastforce
  with unset_hosts_total [OF C(2), of ?is db] have ok by simp
  obtain rc db2 where cm: "sc_commit C db1 = (rc, db2)" by fastforce
  have fit: "snprintf 64 (host_key pre i) = host_key pre i" if "pre \<in> set host_prefixes" "i \<le> recv" for pre i
    using host_key_fits(3) [of i pre] that few by simp
  have "i \<in> set ?is \<longleftrightarrow> bk < i \<and> i \<le> recv" for i by (cases i) auto
  then have keys: "{snprintf 64 (host_key pre i) |pre i. pre \<in> set host_prefixes \<and> i \<in> set ?is} =
      {host_key pre i |pre i. pre \<in> set host_prefixes \<and> bk < i \<and> i \<le> recv}"
    using fit by (metis (no_types, lifting))
  show ?thesis
    using unset_hosts_view [OF C(1), of ?is db db1] un \<open>ok\<close> cm syscfg_commit_view [OF C(1) cm] False
    unfolding keys by (simp add: Dhcpv4_StaticClients_UnsetNotUsedParamFromDb_def)
qed

lemma rollback_static_view:
  assumes C: "syscfg_ok C v" "syscfg_total C" and h: "hDhcpv4 w" and few: "g_numOfReceivedParam w < 10 ^ 7"
    and r: "rollback_StaticClients C w = (ret, w2)"
  shows "ret = BLOB_EXEC_SUCCESS" "syncStaticClientsTable w2"
    "v (dh_db w2) = without {host_key pre i |pre i. pre \<in> set host_prefixes \<and> g_numOfbkupCacheParam w < i \<and> i \<le> g_numOfReceivedParam w}
      (v (dh_db w) ++ cell_map (take (g_numOfbkupCacheParam w) (g_dhcpv4bkup_cache w)))"
proof -
  obtain r1 db1 where ap: "Dhcpv4_Cache_ApplyAllToDb C (g_dhcpv4bkup_cache w) (g_numOfbkupCacheParam w) (dh_db w) = (r1, db1)"
    by fastforce
  from steps_total(2) [OF C(2), of "g_dhcpv4bkup_cache w" "g_numOfbkupCacheParam w" "dh_db w"] ap have "r1 \<noteq> SYSCFG_FAILURE" by simp
  from ApplyAll_view [OF C(1) ap this]
  have v1: "v db1 = v (dh_db w) ++ cell_map (take (g_numOfbkupCacheParam w) (g_dhcpv4bkup_cache w))" .
  have eqs: "ret = BLOB_EXEC_SUCCESS" "syncStaticClientsTable w2"
    "dh_db w2 = snd (Dhcpv4_StaticClients_UnsetNotUsedParamFromDb C (g_numOfReceivedParam w) (g_numOfbkupCacheParam w) db1)"
    using r h ap by (auto simp: rollback_StaticClients_def Dhcpv4_StaticClients_SetSyncFlag_def Let_def)
  show "ret = BLOB_EXEC_SUCCESS" "syncStaticClientsTable w2" by (rule eqs)+
  show "v (dh_db w2) = without {host_key pre i |pre i. pre \<in> set host_prefixes \<and> g_numOfbkupCacheParam w < i \<and> i \<le> g_numOfReceivedParam w}
      (v (dh_db w) ++ cell_map (take (g_numOfbkupCacheParam w) (g_dhcpv4bkup_cache w)))"
    using UnsetNotUsed_view [OF C few] by (simp add: eqs v1)
qed

text \<open>What the backup holds of a key.\<close>

lemma bk_cells_lookup: "cell_map (bk_cells C db ks) k = (if k \<in> set ks \<and> bk_val C db k \<noteq> [] then Some (bk_val C db k) else None)"
proof (cases "k \<in> set ks \<and> bk_val C db k \<noteq> []")
  case True
  let ?c = "\<lparr>tc_cmd = k, tc_val = bk_val C db k\<rparr>"
  have "cell_map (bk_cells C db ks) (tc_cmd ?c) = Some (tc_val ?c)"
    by (rule cell_map_Some) (use True in \<open>auto simp: bk_cells_def\<close>)
  with True show ?thesis by simp
next
  case False
  then show ?thesis by (intro cell_map_None [THEN trans]) (auto simp: cell_keys_def bk_cells_def)
qed

text \<open>The keys of the hosts that a backup reads are those of the stored hosts.\<close>

lemma host_key_in_static_keys:
  assumes n: "nat (atoi (bk_val C db DHCPV4_NUM_STATIC_HOSTS)) = n" "n < 10 ^ 7" and pre: "pre \<in> set host_prefixes"
  shows "host_key pre i \<in> set (static_keys C db) \<longleftrightarrow> 1 \<le> i \<and> i \<le> n"
proof -
  have lan: "host_key pre i \<noteq> host_key DHCPV4_COMMENTS_LAN_CLIENTS j" "host_key pre i \<noteq> sprintf_key (DHCPV4_COMMENTS @ x)"
    "host_key pre i \<noteq> DHCPV4_COMMENTS_LAN_CLIENTS_COUNT" for j x
    using pre by (auto simp: host_prefixes_def host_key_def dhcp_keys sprintf_key_def sprintf_s_def)
  have keys: "host_key pre i \<in> set (host_keys C db j) \<longleftrightarrow> i = j" if "j \<le> n" for j
  proof -
    have j: "j < 10 ^ 7" using that n(2) by simp
    have "set (host_keys C db j) = {host_key pre' j |pre'. pre' \<in> set host_prefixes} \<union> {host_key DHCPV4_COMMENTS_LAN_CLIENTS j,
        sprintf_key (DHCPV4_COMMENTS @ takeWhile (\<lambda>c. c \<noteq> CHR '','') (bk_val C db (host_key DHCPV4_STATIC_HOST j)))}"
      using host_key_fits [OF j] by (auto simp: host_keys_def host_prefixes_def)
    then show ?thesis using lan host_key_inj [OF pre, of _ i j] pre by auto
  qed
  have "set (map Suc [0 ..< n]) = {1 .. n}" by auto
  then have "host_key pre i \<in> set (static_keys C db) \<longleftrightarrow> (\<exists>j \<in> {1 .. n}. host_key pre i \<in> set (host_keys C db j))"
    using lan(3) host_key_not_num [OF pre, of i] unfolding static_keys_def n(1)
    by (simp del: set_map set_upt map_map add: set_map [of "host_keys C db"])
  also have "\<dots> \<longleftrightarrow> 1 \<le> i \<and> i \<le> n" using keys by auto
  finally show ?thesis .
qed

text \<open>A database with \<open>n\<close> hosts, each with its text.\<close>

definition stored_hosts :: "(string \<rightharpoonup> string) \<Rightarrow> nat \<Rightarrow> bool" where
  "stored_hosts m n \<longleftrightarrow> n \<le> DHCPV4_CACHE_MAX_NUM_OF_PARAM \<and> m ''dhcp_num_static_hosts'' = Some (dec n) \<and>
     (\<forall>i. 1 \<le> i \<and> i \<le> n \<longrightarrow> (\<exists>x. m (''dhcp_static_host_'' @ dec i) = Some x \<and> x \<noteq> []))"

lemma bk_val_view: "syscfg_ok C v \<Longrightarrow> bk_val C db k = (case v db k of Some x \<Rightarrow> take 255 x | None \<Rightarrow> [])"
  by (simp add: bk_val_def syscfg_get_view VAL_MAX_SIZE_def split: option.split)

lemma bk_val_num:
  assumes C: "syscfg_ok C v" and m: "v db ''dhcp_num_static_hosts'' = Some (dec n)" and n: "n < 10 ^ 7"
  shows "nat (atoi (bk_val C db DHCPV4_NUM_STATIC_HOSTS)) = n"
proof -
  have "length (dec n) \<le> 7" by (rule length_dec) (use n in simp_all)
  with m show ?thesis by (simp add: bk_val_view [OF C] DHCPV4_NUM_STATIC_HOSTS_def)
qed

lemma length_filter_concat:
  "(\<And>i. i \<in> set is \<Longrightarrow> \<exists>x \<in> set (f i). P x) \<Longrightarrow> length is \<le> length (filter P (concat (map f is)))"
proof (induction "is")
  case (Cons i "is")
  then have "filter P (f i) \<noteq> []" by (auto simp: filter_empty_conv)
  then have "1 \<le> length (filter P (f i))" by (simp add: Suc_le_eq)
  moreover have "length is \<le> length (filter P (concat (map f is)))" using Cons by simp
  ultimately show ?case by simp
qed simp

lemma bk_cells_hosts:
  assumes C: "syscfg_ok C v" and st: "stored_hosts (v db) n"
  shows "Suc n \<le> length (bk_cells C db (static_keys C db))"
proof -
  let ?P = "\<lambda>k. bk_val C db k \<noteq> []"
  have few: "n < 10 ^ 7" using st by (simp add: stored_hosts_def DHCPV4_CACHE_MAX_NUM_OF_PARAM_def)
  have num: "v db ''dhcp_num_static_hosts'' = Some (dec n)" using st by (simp add: stored_hosts_def)
  note cnt = bk_val_num [of C v db n, OF C num few]
  have keys: "static_keys C db = DHCPV4_NUM_STATIC_HOSTS # concat (map (host_keys C db) (map Suc [0 ..< n])) @ [DHCPV4_COMMENTS_LAN_CLIENTS_COUNT]"
    unfolding static_keys_def cnt by (rule refl)
  have "length (map Suc [0 ..< n]) \<le> length (filter ?P (concat (map (host_keys C db) (map Suc [0 ..< n]))))"
  proof (rule length_filter_concat)
    fix i assume "i \<in> set (map Suc [0 ..< n])"
    then have i: "1 \<le> i" "i \<le> n" by auto
    with st obtain x where x: "v db (''dhcp_static_host_'' @ dec i) = Some x" "x \<noteq> []" unfolding stored_hosts_def by blast
    have "host_key DHCPV4_STATIC_HOST i \<in> set (host_keys C db i)"
      using host_key_fits(1) [of i DHCPV4_STATIC_HOST] i(2) few by (simp add: host_keys_def host_prefixes_def)
    moreover have "?P (host_key DHCPV4_STATIC_HOST i)"
      using x by (simp add: bk_val_view [OF C] host_key_def DHCPV4_STATIC_HOST_def)
    ultimately show "\<exists>k \<in> set (host_keys C db i). ?P k" by blast
  qed
  moreover have "?P DHCPV4_NUM_STATIC_HOSTS" using num by (simp add: bk_val_view [OF C] DHCPV4_NUM_STATIC_HOSTS_def)
  ultimately show ?thesis by (simp add: bk_cells_def keys)
qed

text \<open>A database with all three values of each host has a backup of more than three cells for each.\<close>

lemma filter_concat_ge:
  "(\<And>i. i \<in> set is \<Longrightarrow> m \<le> length (filter P (f i))) \<Longrightarrow> m * length is \<le> length (filter P (concat (map f is)))"
  by (induction "is") (auto simp: add_mono)

lemma static_backup_count:
  assumes C: "syscfg_ok C v" and num: "v db ''dhcp_num_static_hosts'' = Some (dec n)" and n: "n < 10 ^ 7"
    and val: "\<And>pre j. pre \<in> set host_prefixes \<Longrightarrow> j < n \<Longrightarrow> \<exists>x. v db (host_key pre (Suc j)) = Some x \<and> x \<noteq> []"
  shows "Suc (3 * n) \<le> length (bk_cells C db (butlast (static_keys C db)))"
proof -
  let ?P = "\<lambda>k. bk_val C db k \<noteq> []"
  note cnt = bk_val_num [of C v db n, OF C num n]
  have keys: "static_keys C db = DHCPV4_NUM_STATIC_HOSTS # concat (map (host_keys C db) (map Suc [0 ..< n])) @ [DHCPV4_COMMENTS_LAN_CLIENTS_COUNT]"
    unfolding static_keys_def cnt by (rule refl)
  have "3 * length (map Suc [0 ..< n]) \<le> length (filter ?P (concat (map (host_keys C db) (map Suc [0 ..< n]))))"
  proof (rule filter_concat_ge)
    fix i assume "i \<in> set (map Suc [0 ..< n])"
    then have "1 \<le> i" "i \<le> n" by auto
    then obtain j where j: "i = Suc j" "j < n" by (cases i) auto
    have "?P (host_key pre i)" if "pre \<in> set host_prefixes" for pre
      using val [OF that j(2)] by (auto simp: j(1) bk_val_view [OF C])
    then show "3 \<le> length (filter ?P (host_keys C db i))"
      using host_key_fits [of i] j n by (simp add: host_keys_def host_prefixes_def)
  qed
  moreover have "?P DHCPV4_NUM_STATIC_HOSTS" using num by (simp add: bk_val_view [OF C] DHCPV4_NUM_STATIC_HOSTS_def)
  ultimately show ?thesis by (simp add: bk_cells_def keys butlast_append)
qed

text \<open>Reading the last key needs a free cell.\<close>

lemma backup_static_room:
  assumes b: "blank_from 0 cache" and bk: "Dhcpv4_StaticClients_BackupFromDb C db cache = Some (cache', n)"
  shows "length (bk_cells C db (butlast (static_keys C db))) < length cache"
proof -
  from bk have "backup_keys C db (static_keys C db) (cache, 0) = Some (cache', n)" by (simp add: StaticClients_Backup_eq [OF b])
  then obtain c1 n1 where f: "backup_keys C db (butlast (static_keys C db)) (cache, 0) = Some (c1, n1)"
    and l: "backup_key C db DHCPV4_COMMENTS_LAN_CLIENTS_COUNT (c1, n1) = Some (cache', n)"
    by (simp add: static_keys_def butlast_append backup_keys_append split: option.splits)
      (metis (no_types, lifting) old.prod.exhaust option.inject)
  note f' = backup_keys_Some [OF b le0 f]
  from f' l show ?thesis by (auto simp: backup_key_def split: if_splits)
qed

lemma host_value_nonempty: "host_value pre (Suc j) e \<noteq> []"
  by (simp add: host_value_def client_text_def snprintf_def dhcp_sizes)

section \<open>A small instance\<close>

definition ex_client :: macdoc_t where
  "ex_client = \<lparr>md_yiaddr = Some ''10.0.0.5'', md_chaddr = Some ''00:11:22:33:44:55''\<rparr>"

definition ex_clients :: "nat \<Rightarrow> macbindingdoc_t" where
  "ex_clients n = zero_macbindingdoc\<lparr>mbd_entries := replicate n ex_client\<rparr>"

definition ex_is_ip4 :: "string \<Rightarrow> bool" where
  "ex_is_ip4 s \<longleftrightarrow> s = ''10.0.0.5''"

definition ex_dhcp :: "(string \<rightharpoonup> string) \<Rightarrow> (string \<rightharpoonup> string) dhcp_wc" where
  "ex_dhcp db = \<lparr>g_dhcpv4bkup_cache = replicate 1024 blank, cache_temp = replicate 1024 blank, g_numOfbkupCacheParam = 0,
     g_numOfReceivedParam = 0, hDhcpv4 = True, syncStaticClientsTable = False, dh_db = db, dhcp_server_restarts = 0, lan_restarts = 0\<rparr>"

lemma ex_dhcp_simps [simp]: "dhcp_wf (ex_dhcp db)" "dh_db (ex_dhcp db) = db" "hDhcpv4 (ex_dhcp db)"
  "mbd_entries (ex_clients n) = replicate n ex_client"
  by (simp_all add: ex_dhcp_def dhcp_wf_def DHCPV4_CACHE_MAX_NUM_OF_PARAM_def ex_clients_def)

lemma ex_client_valid: "Validate_Mac (md_chaddr ex_client)"
  unfolding ex_client_def by code_simp

lemma ex_clients_valid:
  assumes "db ''dhcp_start'' = None"
  shows "validate_clients mem_syscfg ex_is_ip4 inet db (replicate n ex_client) = BLOB_EXEC_SUCCESS"
proof (induction n)
  case (Suc n)
  have "CheckStaticClientIpIsValid mem_syscfg ex_is_ip4 inet db (md_yiaddr ex_client) = BLOB_EXEC_SUCCESS"
    using assms by (simp add: CheckStaticClientIpIsValid_def CheckIpIsValid_def ex_is_ip4_def ex_client_def mem_syscfg_def)
  with Suc ex_client_valid show ?case by simp
qed simp

lemma ex_static_accepted:
  assumes "db ''dhcp_start'' = None" "db ''bridge_mode'' = None" "0 < n" "n \<le> 341"
    "nat (atoi (bk_val mem_syscfg db DHCPV4_NUM_STATIC_HOSTS)) \<le> 200"
  shows "\<exists>msg w'. Process_StaticClients_WebConfigRequest mem_syscfg ex_is_ip4 inet True (Some (ex_clients n)) (ex_dhcp db) =
    Some (Some (BLOB_EXEC_SUCCESS, msg), w')"
proof (rule process_static_total)
  show "\<not> bridge_mode_on mem_syscfg (dh_db (ex_dhcp db))" using assms(2) by (simp add: bridge_mode_on_def mem_syscfg_def)
  show "validate_clients mem_syscfg ex_is_ip4 inet (dh_db (ex_dhcp db)) (mbd_entries (ex_clients n)) = BLOB_EXEC_SUCCESS"
    using ex_clients_valid [of db inet n] assms(1) by simp
  show "length (static_keys mem_syscfg (dh_db (ex_dhcp db))) \<le> DHCPV4_CACHE_MAX_NUM_OF_PARAM"
    using assms(5) by (simp add: length_static_keys DHCPV4_CACHE_MAX_NUM_OF_PARAM_def)
qed (use assms(3,4) in simp_all)

lemma ex_no_hosts: "nat (atoi (bk_val mem_syscfg Map.empty DHCPV4_NUM_STATIC_HOSTS)) = 0"
  by (simp add: bk_val_def mem_syscfg_def atoi_def)

lemma dec_small: "dec 0 = ''0''" "dec (Suc 0) = ''1''" "dec (Suc (Suc 0)) = ''2''"
  by code_simp+

end
