(* ===== verification/Dhcp_WebConfig_Lan.thy ===== *)
theory Dhcp_WebConfig_Lan
  imports Dhcp_WebConfig_Steps
begin

unbundle bit_operations_syntax

text \<open>
  The LAN blob: which parameters it takes, read as a subnet, and what an executed document and its rollback leave in
  the database.
\<close>

section \<open>Ranges and prefixes\<close>

text \<open>The addresses from a base up to its last one are those with the prefix of the base.\<close>

lemma drop_bit_word_mono: "x \<le> y \<Longrightarrow> drop_bit n x \<le> drop_bit n y" for x y :: "'a::len word"
  by (simp only: word_le_nat_alt unat_drop_bit_eq) (simp only: drop_bit_eq_div div_le_mono)

lemma push_drop_mask: "push_bit n (drop_bit n x) = x AND NOT (mask n)" for x :: "'a::len word"
  by (rule bit_eqI) (auto simp: bit_simps)

lemma range_mask:
  fixes x b :: "'a::len word"
  assumes "b AND mask n = 0"
  shows "b \<le> x \<and> x \<le> b OR mask n \<longleftrightarrow> x AND NOT (mask n) = b"
proof
  assume r: "b \<le> x \<and> x \<le> b OR mask n"
  have "drop_bit n (b OR mask n) = drop_bit n b" by (rule bit_eqI) (auto simp: bit_simps)
  with drop_bit_word_mono [of b x n] drop_bit_word_mono [of x "b OR mask n" n] r have "drop_bit n x = drop_bit n b" by simp
  then have "x AND NOT (mask n) = b AND NOT (mask n)" by (metis push_drop_mask)
  also have "\<dots> = (b AND NOT (mask n)) OR (b AND mask n)" by (simp add: assms)
  also have "\<dots> = b" by (rule bit_eqI) (auto simp: bit_simps)
  finally show "x AND NOT (mask n) = b" .
next
  assume r: "x AND NOT (mask n) = b"
  then have "b \<le> x" using word_and_le2 [of x "NOT (mask n)"] by simp
  moreover have "x \<le> x OR mask n" by (rule le_word_or2)
  moreover have "x OR mask n = b OR mask n" unfolding r [symmetric] by (rule bit_eqI) (auto simp: bit_simps)
  ultimately show "b \<le> x \<and> x \<le> b OR mask n" by simp
qed

text \<open>The private networks of RFC 1918.\<close>

definition private_addr :: "32 word \<Rightarrow> bool" where
  "private_addr a \<longleftrightarrow>
     a AND NOT (mask 24) = 0x0A000000 \<or> a AND NOT (mask 20) = 0xAC100000 \<or> a AND NOT (mask 16) = 0xC0A80000"

lemma ispublic_iff: "Dhcpv4_Lan_Ip_ispublic_addr a \<longleftrightarrow> \<not> private_addr a"
proof -
  have "a AND NOT (mask 24) = 0x0A000000 \<longleftrightarrow> 0x0A000000 \<le> a \<and> a \<le> 0x0AFFFFFF"
    "a AND NOT (mask 20) = 0xAC100000 \<longleftrightarrow> 0xAC100000 \<le> a \<and> a \<le> 0xAC1FFFFF"
    "a AND NOT (mask 16) = 0xC0A80000 \<longleftrightarrow> 0xC0A80000 \<le> a \<and> a \<le> 0xC0A8FFFF"
    using range_mask [of "0x0A000000 :: 32 word" 24 a] range_mask [of "0xAC100000 :: 32 word" 20 a]
      range_mask [of "0xC0A80000 :: 32 word" 16 a] by (simp_all add: mask_eq_exp_minus_1)
  then show ?thesis unfolding private_addr_def Dhcpv4_Lan_Ip_ispublic_addr_def by (auto simp del: not_le)
qed

section \<open>Valid parameters\<close>

text \<open>An address of the subnet of the gateway that is neither its first nor its last address nor the gateway.\<close>

definition host_of :: "32 word \<Rightarrow> 32 word \<Rightarrow> 32 word \<Rightarrow> bool" where
  "host_of gw nm a \<longleftrightarrow> gw AND nm < a \<and> a < (gw AND nm) OR NOT nm \<and> a \<noteq> gw"

lemma unicast_host: "Dhcpv4_Lan_CheckIpIsValidUnicast gw nm a \<Longrightarrow> host_of gw nm a"
  by (auto simp: Dhcpv4_Lan_CheckIpIsValidUnicast_def host_of_def Let_def not_le split: if_splits)

text \<open>With a contiguous netmask that is the same network.\<close>

lemma host_of_net:
  assumes "host_of gw (NOT (mask n)) a"
  shows "a AND NOT (mask n) = gw AND NOT (mask n)"
proof -
  have "(gw AND NOT (mask n)) AND mask n = 0" by (rule bit_eqI) (auto simp: bit_simps)
  from range_mask [OF this, of a] assms show ?thesis by (simp add: host_of_def order_less_imp_le)
qed

definition lan_ok :: "(string \<Rightarrow> bool) \<Rightarrow> (string \<Rightarrow> ULONG) \<Rightarrow> lanparam_t \<Rightarrow> bool" where
  "lan_ok is_ip4 inet_addr p \<longleftrightarrow>
     (\<exists>ip netmask start stop.
        lp_lan_ip_address p = Some ip \<and> lp_lan_subnet_mask p = Some netmask \<and>
        lp_dhcp_start_ip_address p = Some start \<and> lp_dhcp_end_ip_address p = Some stop \<and>
        is_ip4 ip \<and> is_ip4 start \<and> is_ip4 stop \<and>
        private_addr (ntohl (inet_addr ip)) \<and> ntohl (inet_addr ip) AND 0xFF = 1 \<and>
        ntohl (inet_addr start) \<le> ntohl (inet_addr stop) \<and>
        host_of (ntohl (inet_addr ip)) (ntohl (inet_addr netmask)) (ntohl (inet_addr start)) \<and>
        host_of (ntohl (inet_addr ip)) (ntohl (inet_addr netmask)) (ntohl (inet_addr stop))) \<and>
     Dhcpv4_Lan_CheckIsValidLeaseTime (lp_leasetime p)"

lemma Get_LanParameters_ok:
  "Get_LanParameters_ValidityCheckStatus is_ip4 inet_addr x = BLOB_EXEC_SUCCESS \<Longrightarrow> \<exists>p. x = Some p \<and> lan_ok is_ip4 inet_addr p"
  unfolding Get_LanParameters_ValidityCheckStatus_def lan_ok_def
  by (auto simp: Let_def CheckIpIsValid_def ispublic_iff unicast_host not_less split: option.splits if_splits)

lemma lease_values:
  "Dhcpv4_Lan_CheckIsValidLeaseTime t \<longleftrightarrow> t mod 60 = 0 \<or> 120 \<le> t \<and> t \<le> 999 \<or> t = - 1"
proof -
  have "t mod 60 = 0" if "t mod (60 * k) = 0" "60 * unat k < 2 ^ 32" for k :: "32 word"
  proof -
    have k: "unat (60 * k) = 60 * unat k" using that(2) by (simp add: unat_word_ariths)
    from that(1) have "unat t mod (60 * unat k) = 0" by (metis k unat_0 unat_mod)
    then have "unat t mod 60 = 0" by (metis dvd_trans dvd_triv_left mod_0_imp_dvd mod_eq_0_iff_dvd)
    then show ?thesis by (simp add: word_arith_nat_mod)
  qed
  from this [of 60] this [of 1440] this [of 10080]
  have "t mod 3600 = 0 \<Longrightarrow> t mod 60 = 0" "t mod 86400 = 0 \<Longrightarrow> t mod 60 = 0" "t mod 604800 = 0 \<Longrightarrow> t mod 60 = 0" by simp_all
  then show ?thesis unfolding Dhcpv4_Lan_CheckIsValidLeaseTime_def by satx
qed

section \<open>Requests\<close>

lemma Synchronize_cong:
  assumes "hDhcpv4 w = hDhcpv4 w'" "dh_db w = dh_db w'"
  shows "Dhcpv4_Lan_Synchronize w b = Dhcpv4_Lan_Synchronize w' b"
  unfolding Dhcpv4_Lan_Synchronize_def assms by (rule refl)

text \<open>A request that reports success has stored the six values.\<close>

lemma process_lan_success:
  assumes C: "syscfg_ok C v" and wf: "dhcp_wf w"
    and run: "Process_Lan_WebConfigRequest C is_ip4 inet_addr True (Some d) w b = Some (Some (BLOB_EXEC_SUCCESS, msg), w', b')"
  obtains p where "ld_param d = Some p" "lan_ok is_ip4 inet_addr p"
    "take (g_numOfbkupCacheParam w') (g_dhcpv4bkup_cache w') = bk_cells C (dh_db w) lan_keys"
    "v (dh_db w') = without (cell_keys (bk_cells C (dh_db w) lan_keys)) (v (dh_db w)) ++ cell_map (lan_cells p)"
    "fst (Dhcpv4_Lan_Synchronize w' b)" "b' = snd (Dhcpv4_Lan_Synchronize w' b)"
proof -
  let ?w1 = "Dhcpv4_Reset_Cache w"
  note r = reset_blank [of w]
  have val: "Dhcpv4_Lan_Validate is_ip4 inet_addr (Some d) = BLOB_EXEC_SUCCESS"
    using run by (auto simp: Process_Lan_WebConfigRequest_def Let_def split: if_splits)
  then have "Get_LanParameters_ValidityCheckStatus is_ip4 inet_addr (ld_param d) = BLOB_EXEC_SUCCESS"
    by (simp add: Dhcpv4_Lan_Validate_def split: if_splits)
  from Get_LanParameters_ok [OF this] obtain p where p: "ld_param d = Some p" "lan_ok is_ip4 inet_addr p" by blast
  obtain bkup n where bk: "Dhcpv4_Lan_BackupFromDb C (dh_db ?w1) (g_dhcpv4bkup_cache ?w1) = Some (bkup, n)"
    using run val by (auto simp: Process_Lan_WebConfigRequest_def Let_def split: if_splits option.splits)
  obtain ret2 db2 where un: "Dhcpv4_UnsetAllDbValues C bkup n (dh_db ?w1) = (ret2, db2)" by fastforce
  have ret2: "ret2 \<noteq> SYSCFG_FAILURE"
    using run un bk val by (auto simp: Process_Lan_WebConfigRequest_def Let_def split: if_splits)
  obtain cache where up: "write_cells 0 (lan_cells p) (cache_temp ?w1) = Some cache"
    using run un bk val ret2 p(1)
    by (auto simp: Process_Lan_WebConfigRequest_def Let_def Dhcpv4_Lan_UpdateConfToCache_def split: if_splits option.splits)
  have take: "take (length (lan_cells p)) cache = lan_cells p" using up by (auto simp: write_cells_Some)
  obtain ret4 db4 where ap: "Dhcpv4_Cache_ApplyAllToDb C cache (length (lan_cells p)) db2 = (ret4, db4)" by fastforce
  let ?w3 = "?w1\<lparr>g_dhcpv4bkup_cache := bkup, g_numOfbkupCacheParam := n, cache_temp := cache,
    g_numOfReceivedParam := length (lan_cells p), dh_db := db4\<rparr>"
  have ret4: "ret4 \<noteq> SYSCFG_FAILURE" and sy: "fst (Dhcpv4_Lan_Synchronize ?w3 b)" "b' = snd (Dhcpv4_Lan_Synchronize ?w3 b)"
    and w': "w' = restart_lan ?w3"
    using run un bk val ret2 up ap p(1)
    by (auto simp: Process_Lan_WebConfigRequest_def Let_def Dhcpv4_Lan_UpdateConfToCache_def split: if_splits prod.splits)
  have same: "Dhcpv4_Lan_Synchronize w' b = Dhcpv4_Lan_Synchronize ?w3 b"
    by (rule Synchronize_cong) (simp_all add: w' restart_lan_def)
  from bk have "backup_keys C (dh_db w) lan_keys (g_dhcpv4bkup_cache ?w1, 0) = Some (bkup, n)"
    by (simp add: Dhcpv4_Lan_BackupFromDb_def r(2))
  note bk' = backup_keys_Some [OF r(1) le0 this]
  from UnsetAll_view [OF C un ret2] ApplyAll_view [OF C ap ret4] bk' take
  have "v (dh_db w') = without (cell_keys (bk_cells C (dh_db w) lan_keys)) (v (dh_db w)) ++ cell_map (lan_cells p)"
    by (auto simp: w' r restart_lan_def)
  moreover have "take (g_numOfbkupCacheParam w') (g_dhcpv4bkup_cache w') = bk_cells C (dh_db w) lan_keys"
    using bk' by (auto simp: w' restart_lan_def)
  ultimately show thesis using that p sy same by simp
qed

text \<open>The six values of a document in the database.\<close>

definition lan_stored :: "(string \<rightharpoonup> string) \<Rightarrow> lanparam_t \<Rightarrow> bool" where
  "lan_stored m p \<longleftrightarrow>
     m ''lan_ipaddr'' = Some (snprintf VAL_MAX_SIZE (the (lp_lan_ip_address p))) \<and>
     m ''lan_netmask'' = Some (snprintf VAL_MAX_SIZE (the (lp_lan_subnet_mask p))) \<and>
     m ''dhcp_server_enabled'' = Some (if lp_dhcp_server_enable p then ''1'' else ''0'') \<and>
     m ''dhcp_start'' = Some (snprintf VAL_MAX_SIZE (the (lp_dhcp_start_ip_address p))) \<and>
     m ''dhcp_end'' = Some (snprintf VAL_MAX_SIZE (the (lp_dhcp_end_ip_address p))) \<and>
     m ''dhcp_lease_time'' = Some (dec (unat (lp_leasetime p)))"

lemma unat_32_less: "unat (x :: 32 word) < 2 ^ 32"
  using unsigned_less [of x, where 'a = nat] by simp

lemma lan_cells_stored: "lan_stored (m ++ cell_map (lan_cells p)) p"
proof -
  have "length (dec (unat (lp_leasetime p))) \<le> 10"
    by (rule length_dec) (use unat_32_less [of "lp_leasetime p"] in simp_all)
  then show ?thesis
    by (simp add: lan_stored_def cell_map_def lan_cells_def dcell_def dhcp_sizes dec_small)
qed

lemma lan_cells_keys: "cell_keys (lan_cells p) = set lan_keys"
  by (simp add: cell_keys_def lan_cells_def lan_keys_def dcell_def NAME_MAX_SIZE_def)

text \<open>C10: a LAN document that is executed with success had a gateway in a private network whose last byte is 1,
  and a range of addresses that lies in the subnet of the gateway, in order, without its first and its last
  address and without the gateway; with a contiguous netmask both ends share the prefix of the gateway. The lease
  time is a multiple of a minute, or 120 to 999 seconds, or unlimited. Afterwards the database holds the six values,
  every other key as before, and the objects of the device were read again.\<close>

theorem lan_blob_applied:
  assumes "syscfg_ok C v" "dhcp_wf w"
    and "Process_Lan_WebConfigRequest C is_ip4 inet_addr True (Some d) w b = Some (Some (BLOB_EXEC_SUCCESS, msg), w', b')"
  shows "\<exists>p. ld_param d = Some p \<and> lan_ok is_ip4 inet_addr p \<and> lan_stored (v (dh_db w')) p \<and>
    (\<forall>n. ntohl (inet_addr (the (lp_lan_subnet_mask p))) = NOT (mask n) \<longrightarrow>
       ntohl (inet_addr (the (lp_dhcp_start_ip_address p))) AND NOT (mask n) = ntohl (inet_addr (the (lp_lan_ip_address p))) AND NOT (mask n) \<and>
       ntohl (inet_addr (the (lp_dhcp_end_ip_address p))) AND NOT (mask n) = ntohl (inet_addr (the (lp_lan_ip_address p))) AND NOT (mask n)) \<and>
    (lp_leasetime p mod 60 = 0 \<or> 120 \<le> lp_leasetime p \<and> lp_leasetime p \<le> 999 \<or> lp_leasetime p = - 1) \<and>
    (\<forall>k. k \<notin> set lan_keys \<longrightarrow> v (dh_db w') k = v (dh_db w) k) \<and>
    fst (Dhcpv4_Lan_Synchronize w' b) \<and> b' = snd (Dhcpv4_Lan_Synchronize w' b)"
proof -
  from process_lan_success [OF assms] obtain p where p: "ld_param d = Some p" "lan_ok is_ip4 inet_addr p"
    and view: "v (dh_db w') = without (cell_keys (bk_cells C (dh_db w) lan_keys)) (v (dh_db w)) ++ cell_map (lan_cells p)"
    and sy: "fst (Dhcpv4_Lan_Synchronize w' b)" "b' = snd (Dhcpv4_Lan_Synchronize w' b)" by blast
  have "v (dh_db w') k = v (dh_db w) k" if "k \<notin> set lan_keys" for k
  proof -
    have "k \<notin> cell_keys (bk_cells C (dh_db w) lan_keys)" using that by (auto simp: cell_keys_def bk_cells_def)
    then show ?thesis using that cell_map_None [of k "lan_cells p"] by (simp add: view lan_cells_keys without_apply map_add_def)
  qed
  moreover have "lan_stored (v (dh_db w')) p" unfolding view by (rule lan_cells_stored)
  moreover note p sy lease_values [of "lp_leasetime p"]
  ultimately show ?thesis by (auto simp: lan_ok_def host_of_net)
qed

definition ex_inet :: "string \<Rightarrow> ULONG" where
  "ex_inet s = (if s = ''10.0.0.1'' then htonl 0x0A000001 else if s = ''10.0.0.2'' then htonl 0x0A000002
     else if s = ''10.0.0.9'' then htonl 0x0A000009 else if s = ''255.255.255.0'' then htonl 0xFFFFFF00 else 0)"

definition ex_lan :: landoc_t where
  "ex_lan = zero_landoc\<lparr>ld_entries_count := 1, ld_param := Some \<lparr>lp_dhcp_server_enable = True, lp_lan_ip_address = Some ''10.0.0.1'',
     lp_lan_subnet_mask = Some ''255.255.255.0'', lp_dhcp_start_ip_address = Some ''10.0.0.2'',
     lp_dhcp_end_ip_address = Some ''10.0.0.9'', lp_leasetime = 3600\<rparr>\<rparr>"

definition ex_objects :: "(string \<rightharpoonup> string, nat, nat) lan_objects" where
  "ex_objects = \<lparr>lo_hDeviceControl = True, lo_LanMngm = Some (Some 0), lo_Pool = Some (Some 0),
     lo_LanMngm_GetEntryByIndex = (\<lambda>_ m. (True, Suc m)), lo_DhcpsGetPool = (\<lambda>_ p. (True, Suc p)), lo_clear_TimeOffset = id\<rparr>"

lemma ex_lan_valid: "Dhcpv4_Lan_Validate (\<lambda>_. True) ex_inet (Some ex_lan) = BLOB_EXEC_SUCCESS"
  by code_simp

lemma ex_lan_accepted:
  assumes "db ''bridge_mode'' = None"
  shows "\<exists>msg w' b'. Process_Lan_WebConfigRequest mem_syscfg (\<lambda>_. True) ex_inet True (Some ex_lan) (ex_dhcp db) ex_objects =
    Some (Some (BLOB_EXEC_SUCCESS, msg), w', b')"
proof -
  note r = reset_blank [of "ex_dhcp db"]
  have "0 + length lan_keys \<le> length (g_dhcpv4bkup_cache (Dhcpv4_Reset_Cache (ex_dhcp db)))"
    by (simp add: Dhcpv4_Reset_Cache_def ex_dhcp_def lan_keys_def)
  from backup_keys_fit [OF r(1) this, of mem_syscfg db] obtain bkup n where
    "Dhcpv4_Lan_BackupFromDb mem_syscfg db (g_dhcpv4bkup_cache (Dhcpv4_Reset_Cache (ex_dhcp db))) = Some (bkup, n)"
    by (auto simp: Dhcpv4_Lan_BackupFromDb_def)
  moreover have "\<exists>cache. write_cells 0 (lan_cells (the (ld_param ex_lan))) (cache_temp (Dhcpv4_Reset_Cache (ex_dhcp db))) = Some cache"
    by (simp add: write_cells_def Dhcpv4_Reset_Cache_def ex_dhcp_def lan_cells_def)
  then obtain cache where "write_cells 0 (lan_cells (the (ld_param ex_lan))) (cache_temp (Dhcpv4_Reset_Cache (ex_dhcp db))) = Some cache" ..
  moreover have "\<not> bridge_mode_on mem_syscfg db" using assms by (simp add: bridge_mode_on_def mem_syscfg_def)
  moreover obtain p where "ld_param ex_lan = Some p" by (simp add: ex_lan_def)
  moreover have "\<exists>b'. Dhcpv4_Lan_Synchronize w ex_objects = (True, b')" if "hDhcpv4 w" for w
    using that by (simp add: Dhcpv4_Lan_Synchronize_def ex_objects_def)
  then obtain f where "\<And>w. hDhcpv4 w \<Longrightarrow> Dhcpv4_Lan_Synchronize w ex_objects = (True, f w)" by metis
  moreover obtain r2 db2 where "Dhcpv4_UnsetAllDbValues mem_syscfg bkup n db = (r2, db2)" "r2 \<noteq> SYSCFG_FAILURE"
    using steps_total(1) [OF mem_syscfg_ok(2), of bkup n db] by (metis fst_conv surj_pair)
  moreover obtain r4 db4 where "Dhcpv4_Cache_ApplyAllToDb mem_syscfg cache (length (lan_cells (the (ld_param ex_lan)))) db2 = (r4, db4)"
    "r4 \<noteq> SYSCFG_FAILURE"
    using steps_total(2) [OF mem_syscfg_ok(2), of cache _ db2] by (metis fst_conv surj_pair)
  ultimately show ?thesis
    using ex_lan_valid by (simp add: Process_Lan_WebConfigRequest_def Let_def r Dhcpv4_Lan_UpdateConfToCache_def)
qed

theorem lan_blob_applied_witness:
  "\<exists>w' :: (string \<rightharpoonup> string) dhcp_wc. dh_db w' ''lan_ipaddr'' = Some ''10.0.0.1'' \<and> dh_db w' ''dhcp_end'' = Some ''10.0.0.9''"
proof -
  obtain msg w' b' where run: "Process_Lan_WebConfigRequest mem_syscfg (\<lambda>_. True) ex_inet True (Some ex_lan) (ex_dhcp Map.empty) ex_objects =
      Some (Some (BLOB_EXEC_SUCCESS, msg), w', b')"
    using ex_lan_accepted [of Map.empty] by auto
  from lan_blob_applied [of mem_syscfg id, OF mem_syscfg_ok(1) _ run] show ?thesis
    by (intro exI [of _ w']) (auto simp: lan_stored_def ex_lan_def VAL_MAX_SIZE_def)
qed

text \<open>The rollback of an executed LAN document puts back every old value that the backup buffer can hold, but a
  parameter that had no value before keeps the value of the document.\<close>

theorem lan_rollback_restores:
  assumes "syscfg_ok C v" "syscfg_total C" "dhcp_wf w"
    and "Process_Lan_WebConfigRequest C is_ip4 inet_addr True (Some d) w b = Some (Some (BLOB_EXEC_SUCCESS, msg), w1, b1)"
    and "rollback_Lan C w1 b1 = (ok, w2, b2)"
  shows "(\<forall>k \<in> set lan_keys. \<forall>x. v (dh_db w) k = Some x \<and> x \<noteq> [] \<and> length x < VAL_MAX_SIZE \<longrightarrow> v (dh_db w2) k = Some x) \<and>
    (\<forall>k \<in> set lan_keys. v (dh_db w) k = None \<longrightarrow> v (dh_db w2) k = v (dh_db w1) k) \<and>
    (\<forall>k. k \<notin> set lan_keys \<longrightarrow> v (dh_db w2) k = v (dh_db w) k)"
proof -
  from process_lan_success [OF assms(1,3,4)] obtain p where
    bk: "take (g_numOfbkupCacheParam w1) (g_dhcpv4bkup_cache w1) = bk_cells C (dh_db w) lan_keys"
    and view: "v (dh_db w1) = without (cell_keys (bk_cells C (dh_db w) lan_keys)) (v (dh_db w)) ++ cell_map (lan_cells p)" by blast
  obtain r1 db1 where ap: "Dhcpv4_Cache_ApplyAllToDb C (g_dhcpv4bkup_cache w1) (g_numOfbkupCacheParam w1) (dh_db w1) = (r1, db1)"
    by fastforce
  from steps_total(2) [OF assms(2), of "g_dhcpv4bkup_cache w1" "g_numOfbkupCacheParam w1" "dh_db w1"] ap have "r1 \<noteq> SYSCFG_FAILURE" by simp
  from ApplyAll_view [OF assms(1) ap this] have "v db1 = v (dh_db w1) ++ cell_map (bk_cells C (dh_db w) lan_keys)" by (simp add: bk)
  moreover have "dh_db w2 = db1"
    using assms(5) ap by (auto simp: rollback_Lan_def restart_lan_def Let_def split: prod.splits)
  ultimately have w2: "v (dh_db w2) k = (if k \<in> set lan_keys \<and> bk_val C (dh_db w) k \<noteq> [] then Some (bk_val C (dh_db w) k) else v (dh_db w1) k)" for k
    by (simp add: map_add_def bk_cells_lookup)
  have "v (dh_db w1) k = v (dh_db w) k" if "k \<notin> set lan_keys" for k
  proof -
    have "k \<notin> cell_keys (bk_cells C (dh_db w) lan_keys)" using that by (auto simp: cell_keys_def bk_cells_def)
    then show ?thesis using that cell_map_None [of k "lan_cells p"] by (simp add: view lan_cells_keys without_apply map_add_def)
  qed
  then show ?thesis by (simp add: w2 bk_val_view [OF assms(1)] VAL_MAX_SIZE_def)
qed

theorem lan_rollback_restores_witness:
  "\<exists>w2 :: (string \<rightharpoonup> string) dhcp_wc. dh_db w2 ''lan_ipaddr'' = Some ''10.0.0.7''"
proof -
  let ?db = "[''lan_ipaddr'' \<mapsto> ''10.0.0.7'']"
  obtain msg w1 b1 where run: "Process_Lan_WebConfigRequest mem_syscfg (\<lambda>_. True) ex_inet True (Some ex_lan) (ex_dhcp ?db) ex_objects =
      Some (Some (BLOB_EXEC_SUCCESS, msg), w1, b1)"
    using ex_lan_accepted [of ?db] by auto
  obtain ok w2 b2 where rb: "rollback_Lan mem_syscfg w1 b1 = (ok, w2, b2)" by (metis prod_cases3)
  from lan_rollback_restores [of mem_syscfg id, OF mem_syscfg_ok(1,2) _ run rb] show ?thesis
    by (intro exI [of _ w2]) (simp add: lan_keys_def VAL_MAX_SIZE_def)
qed

end
