(* ===== verification/Dhcp_WebConfig_Props.thy ===== *)
theory Dhcp_WebConfig_Props
  imports Dhcp_WebConfig_Steps
begin

text \<open>
  The static clients blob: which clients it takes, what an executed document leaves in the database, what the rollback
  restores and what it leaves behind, and the array that a full document outgrows.
\<close>

section \<open>Valid clients\<close>

text \<open>A MAC address in text: six pairs of hexadecimal digits, with colons between them.\<close>

fun join_colon :: "string list \<Rightarrow> string" where
  "join_colon [] = []"
| "join_colon [p] = p"
| "join_colon (p # q # ps) = p @ CHR '':'' # join_colon (q # ps)"

definition hex_pair :: "string \<Rightarrow> bool" where
  "hex_pair p \<longleftrightarrow> length p = 2 \<and> list_all isxdigit p"

definition mac_text :: "string \<Rightarrow> bool" where
  "mac_text s \<longleftrightarrow> (\<exists>ps. length ps = 6 \<and> list_all hex_pair ps \<and> s = join_colon ps)"

lemma hex_pair_Cons: "hex_pair p \<longleftrightarrow> (\<exists>a b. p = [a, b] \<and> isxdigit a \<and> isxdigit b)"
  by (auto simp: hex_pair_def numeral_2_eq_2 length_Suc_conv)

lemma mac_pairs_sound: "mac_pairs (Suc n) s \<Longrightarrow> \<exists>ps. length ps = Suc n \<and> list_all hex_pair ps \<and> s = join_colon ps"
proof (induction n arbitrary: s)
  case 0
  then obtain a b where "s = [a, b]" "isxdigit a" "isxdigit b" by (auto split: list.splits if_splits)
  then show ?case by (intro exI [of _ "[[a, b]]"]) (simp add: hex_pair_Cons)
next
  case (Suc n)
  from Suc.prems obtain a b rest where s: "s = a # b # CHR '':'' # rest" "isxdigit a" "isxdigit b" "mac_pairs (Suc n) rest"
    by (auto simp del: mac_pairs.simps(2) simp: mac_pairs.simps(2) [of "Suc n"] neq_Nil_conv split: list.splits if_splits)
  from Suc.IH [OF s(4)] obtain ps where ps: "length ps = Suc n" "list_all hex_pair ps" "rest = join_colon ps" by blast
  then obtain q qs where "ps = q # qs" by (cases ps) auto
  with ps s(1,2,3) show ?case by (intro exI [of _ "[a, b] # ps"]) (simp add: hex_pair_Cons [of "[a, b]"])
qed

lemma mac_pairs_complete: "list_all hex_pair ps \<Longrightarrow> ps \<noteq> [] \<Longrightarrow> mac_pairs (length ps) (join_colon ps)"
  by (induction ps rule: join_colon.induct) (auto simp: hex_pair_Cons)

lemma length_join_colon: "list_all hex_pair ps \<Longrightarrow> ps \<noteq> [] \<Longrightarrow> length (join_colon ps) = 3 * length ps - 1"
  by (induction ps rule: join_colon.induct) (auto simp: hex_pair_def)

lemma Validate_Mac_Some: "Validate_Mac (Some s) \<longleftrightarrow> mac_text s \<and> s \<noteq> ''00:00:00:00:00:00''"
proof
  assume "Validate_Mac (Some s)"
  then have "mac_pairs (Suc 5) s" "s \<noteq> ''00:00:00:00:00:00''"
    by (simp_all add: Validate_Mac_def CheckMacHasValidCharacter_def eval_nat_numeral del: mac_pairs.simps split: if_splits)
  with mac_pairs_sound [OF this(1)] show "mac_text s \<and> s \<noteq> ''00:00:00:00:00:00''" by (simp add: mac_text_def)
next
  assume r: "mac_text s \<and> s \<noteq> ''00:00:00:00:00:00''"
  then obtain ps where ps: "length ps = 6" "list_all hex_pair ps" "s = join_colon ps" by (auto simp: mac_text_def)
  then have ne: "ps \<noteq> []" by auto
  from mac_pairs_complete [OF ps(2) ne] length_join_colon [OF ps(2) ne] ps r show "Validate_Mac (Some s)"
    by (simp add: Validate_Mac_def CheckMacHasValidCharacter_def MACADDR_SZ_def)
qed

text \<open>C35: the check of a MAC address accepts exactly the texts of six pairs of hexadecimal digits with colons
  between them, except the one with all digits zero; it refuses a missing address.\<close>

theorem Validate_Mac_reference:
  "Validate_Mac x \<longleftrightarrow> (\<exists>s. x = Some s \<and> mac_text s \<and> s \<noteq> ''00:00:00:00:00:00'')"
  using Validate_Mac_Some by (cases x) (auto simp: Validate_Mac_def)

text \<open>A valid client has both addresses, and the IP address is in the range of the DHCP server, when the database has
  the two bounds and neither reads as 0.\<close>

definition dhcp_bound :: "(string \<Rightarrow> ULONG) \<Rightarrow> (string \<rightharpoonup> string) \<Rightarrow> string \<Rightarrow> ULONG" where
  "dhcp_bound inet_addr m k = (case m k of Some x \<Rightarrow> inet_addr (take 23 x) | None \<Rightarrow> 0)"

definition client_ok :: "(string \<Rightarrow> bool) \<Rightarrow> (string \<Rightarrow> ULONG) \<Rightarrow> (string \<rightharpoonup> string) \<Rightarrow> macdoc_t \<Rightarrow> bool" where
  "client_ok is_ip4 inet_addr m e \<longleftrightarrow>
     (\<exists>ip mac. e = \<lparr>md_yiaddr = Some ip, md_chaddr = Some mac\<rparr> \<and> is_ip4 ip \<and> mac_text mac \<and> mac \<noteq> ''00:00:00:00:00:00'' \<and>
        (dhcp_bound inet_addr m ''dhcp_start'' \<noteq> 0 \<and> dhcp_bound inet_addr m ''dhcp_end'' \<noteq> 0 \<longrightarrow>
           ntohl (dhcp_bound inet_addr m ''dhcp_start'') \<le> ntohl (inet_addr ip) \<and>
           ntohl (inet_addr ip) \<le> ntohl (dhcp_bound inet_addr m ''dhcp_end'')))"

lemma CheckStaticClientIp_ok:
  assumes "syscfg_ok C v"
  shows "CheckStaticClientIpIsValid C is_ip4 inet_addr db x = BLOB_EXEC_SUCCESS \<longleftrightarrow>
    (\<exists>ip. x = Some ip \<and> is_ip4 ip \<and>
        (dhcp_bound inet_addr (v db) ''dhcp_start'' \<noteq> 0 \<and> dhcp_bound inet_addr (v db) ''dhcp_end'' \<noteq> 0 \<longrightarrow>
           ntohl (dhcp_bound inet_addr (v db) ''dhcp_start'') \<le> ntohl (inet_addr ip) \<and>
           ntohl (inet_addr ip) \<le> ntohl (dhcp_bound inet_addr (v db) ''dhcp_end'')))"
proof -
  have bounds: "(case sc_get C db k 24 of Some buf \<Rightarrow> inet_addr buf | None \<Rightarrow> 0) = dhcp_bound inet_addr (v db) k" for k
    by (simp add: syscfg_get_view [OF assms] dhcp_bound_def split: option.split)
  show ?thesis
    unfolding CheckStaticClientIpIsValid_def bounds Let_def CheckIpIsValid_def
    by (cases x) auto
qed

lemma validate_clients_ok:
  assumes "syscfg_ok C v"
  shows "validate_clients C is_ip4 inet_addr db es = BLOB_EXEC_SUCCESS \<longleftrightarrow> (\<forall>e \<in> set es. client_ok is_ip4 inet_addr (v db) e)"
proof (induction es)
  case Nil
  show ?case by simp
next
  case (Cons e es)
  have "client_ok is_ip4 inet_addr (v db) e \<longleftrightarrow>
      CheckStaticClientIpIsValid C is_ip4 inet_addr db (md_yiaddr e) = BLOB_EXEC_SUCCESS \<and> Validate_Mac (md_chaddr e)"
    unfolding CheckStaticClientIp_ok [OF assms] client_ok_def using Validate_Mac_Some
    by (cases e; cases "md_chaddr e") (auto simp: Validate_Mac_def)
  with Cons.IH show ?case by (auto simp: Let_def)
qed

section \<open>Executed documents\<close>

text \<open>The three values of client \<open>i\<close> of a document.\<close>

definition client_stored :: "(string \<rightharpoonup> string) \<Rightarrow> nat \<Rightarrow> macdoc_t \<Rightarrow> bool" where
  "client_stored m i e \<longleftrightarrow>
     m (''dhcp_static_host_'' @ dec i) = Some (snprintf VAL_MAX_SIZE (the (md_chaddr e) @ '','' @ the (md_yiaddr e) @ '','')) \<and>
     m (''dhcp_static_host_insNum_'' @ dec i) = Some (dec i) \<and>
     m (''dhcp_static_host_alias_'' @ dec i) = Some (''StaticAddress'' @ dec i)"

lemma client_stored_keys:
  assumes "i < 10 ^ 7"
  shows "client_stored m i e \<longleftrightarrow> (\<forall>pre \<in> set host_prefixes. m (host_key pre i) = Some (host_value pre i e))"
proof -
  have "length (dec i) \<le> 7" by (rule length_dec) (use assms in simp_all)
  then show ?thesis
    by (simp add: client_stored_def host_prefixes_def host_value_def host_key_def dhcp_keys client_text_def dhcp_sizes)
qed

lemma static_success_clients:
  assumes "syscfg_ok C v" "dhcp_wf w" "mbd_entries d \<noteq> []"
    and "Process_StaticClients_WebConfigRequest C is_ip4 inet_addr True (Some d) w = Some (Some (BLOB_EXEC_SUCCESS, msg), w')"
  shows "\<forall>e \<in> set (mbd_entries d). client_ok is_ip4 inet_addr (v (dh_db w)) e" "length (mbd_entries d) \<le> 341"
    "\<forall>j < length (mbd_entries d). client_stored (v (dh_db w')) (Suc j) (mbd_entries d ! j)"
    "v (dh_db w') ''dhcp_num_static_hosts'' = Some (dec (length (mbd_entries d)))"
proof -
  note p = process_static_success [OF assms]
  have len: "length (mbd_entries d) < 10 ^ 7" using p(5) by simp
  note look = static_cells_lookup [OF len]
  show "\<forall>j < length (mbd_entries d). client_stored (v (dh_db w')) (Suc j) (mbd_entries d ! j)"
    using client_stored_keys [of "Suc _"] len by (simp add: p(6) look(2) map_add_Some_iff)
  show "v (dh_db w') ''dhcp_num_static_hosts'' = Some (dec (length (mbd_entries d)))"
    using look(1) by (simp add: p(6) dhcp_keys map_add_Some_iff)
  show "\<forall>e \<in> set (mbd_entries d). client_ok is_ip4 inet_addr (v (dh_db w)) e" "length (mbd_entries d) \<le> 341"
    using p(1,5) validate_clients_ok [OF assms(1)] by simp_all
qed

text \<open>C4: a static clients document that is executed with success had only valid clients, at most 341; afterwards
  the database holds each client under its number, their count, and every other key that is not one of the old
  clients as before, and the table of static addresses is marked out of date.\<close>

theorem static_blob_stored:
  assumes "syscfg_ok C v" "dhcp_wf w" "mbd_entries d \<noteq> []"
    and "Process_StaticClients_WebConfigRequest C is_ip4 inet_addr True (Some d) w = Some (Some (BLOB_EXEC_SUCCESS, msg), w')"
  shows "(\<forall>e \<in> set (mbd_entries d). client_ok is_ip4 inet_addr (v (dh_db w)) e) \<and> length (mbd_entries d) \<le> 341 \<and>
    (\<forall>j < length (mbd_entries d). client_stored (v (dh_db w')) (Suc j) (mbd_entries d ! j)) \<and>
    v (dh_db w') ''dhcp_num_static_hosts'' = Some (dec (length (mbd_entries d))) \<and>
    (\<forall>k. k \<notin> set (static_keys C (dh_db w)) \<and> k \<noteq> ''dhcp_num_static_hosts'' \<and>
       (\<forall>j < length (mbd_entries d). \<forall>pre \<in> set host_prefixes. k \<noteq> host_key pre (Suc j)) \<longrightarrow> v (dh_db w') k = v (dh_db w) k) \<and>
    syncStaticClientsTable w'"
proof -
  note p = process_static_success [OF assms]
  have len: "length (mbd_entries d) < 10 ^ 7" using p(5) by simp
  note look = static_cells_lookup [OF len]
  have "v (dh_db w') k = v (dh_db w) k"
    if "k \<notin> set (static_keys C (dh_db w))" "k \<notin> cell_keys (static_cells (mbd_entries d))" for k
    using that by (simp add: p(6) cell_map_None map_add_def without_apply) (auto simp: cell_keys_def bk_cells_def)
  with static_success_clients [OF assms] show ?thesis
    using p(7) by (simp add: look(3) DHCPV4_NUM_STATIC_HOSTS_def)
qed

theorem static_blob_stored_witness:
  "\<exists>w' :: (string \<rightharpoonup> string) dhcp_wc. client_stored (dh_db w') 1 ex_client \<and> client_stored (dh_db w') 2 ex_client \<and>
     dh_db w' ''dhcp_num_static_hosts'' = Some ''2''"
proof -
  obtain msg w' where run: "Process_StaticClients_WebConfigRequest mem_syscfg ex_is_ip4 (\<lambda>_. 0) True (Some (ex_clients 2)) (ex_dhcp Map.empty) =
      Some (Some (BLOB_EXEC_SUCCESS, msg), w')"
    using ex_static_accepted [of Map.empty 2 "\<lambda>_. 0"] ex_no_hosts by auto
  note r = static_blob_stored [OF mem_syscfg_ok(1) _ _ run]
  show ?thesis
    by (intro exI [of _ w']) (use r in \<open>simp add: less_Suc_eq numeral_2_eq_2 all_conj_distrib dec_small\<close>)
qed

section \<open>The rollback\<close>

text \<open>C13: when the database held its clients properly, the rollback of an executed document puts back every old
  value that the backup buffer can hold: their count, the three values of each client, and the comments.\<close>

theorem static_rollback_restores:
  assumes "syscfg_ok C v" "syscfg_total C" "dhcp_wf w" "mbd_entries d \<noteq> []" "stored_hosts (v (dh_db w)) n"
    and "Process_StaticClients_WebConfigRequest C is_ip4 inet_addr True (Some d) w = Some (Some (BLOB_EXEC_SUCCESS, msg), w1)"
    and "rollback_StaticClients C w1 = (ret, w2)"
  shows "ret = BLOB_EXEC_SUCCESS \<and> syncStaticClientsTable w2 \<and>
    (\<forall>k x. k \<in> set (static_keys C (dh_db w)) \<and> v (dh_db w) k = Some x \<and> x \<noteq> [] \<and> length x < VAL_MAX_SIZE \<longrightarrow>
       v (dh_db w2) k = Some x)"
proof -
  note p = process_static_success [OF assms(1,3,4,6)]
  have few: "g_numOfReceivedParam w1 < 10 ^ 7" using p(4,5) by simp
  note r = rollback_static_view [OF assms(1,2) p(8) few assms(7)]
  have n: "n < 10 ^ 7" using assms(5) by (simp add: stored_hosts_def DHCPV4_CACHE_MAX_NUM_OF_PARAM_def)
  have num: "nat (atoi (bk_val C (dh_db w) DHCPV4_NUM_STATIC_HOSTS)) = n"
    by (rule bk_val_num [of C v _ n, OF assms(1) _ n]) (use assms(5) in \<open>simp add: stored_hosts_def\<close>)
  have bk: "n < g_numOfbkupCacheParam w1" using bk_cells_hosts [OF assms(1,5)] p(3) by simp
  have "v (dh_db w2) k = Some x"
    if k: "k \<in> set (static_keys C (dh_db w))" "v (dh_db w) k = Some x" "x \<noteq> []" "length x < VAL_MAX_SIZE" for k x
  proof -
    have "k \<noteq> host_key pre i" if "pre \<in> set host_prefixes" "g_numOfbkupCacheParam w1 < i" for pre i
      using host_key_in_static_keys [OF num n that(1), of i] k(1) that(2) bk by auto
    then have "v (dh_db w2) k = (v (dh_db w1) ++ cell_map (bk_cells C (dh_db w) (static_keys C (dh_db w)))) k"
      unfolding r(3) p(2) by (auto simp: without_apply)
    moreover have "bk_val C (dh_db w) k = x" using k by (simp add: bk_val_view [OF assms(1)] VAL_MAX_SIZE_def)
    ultimately show ?thesis using k(1,3) by (simp add: bk_cells_lookup map_add_Some_iff)
  qed
  with r(1,2) show ?thesis by blast
qed

theorem static_rollback_restores_witness:
  "\<exists>w2 :: (string \<rightharpoonup> string) dhcp_wc. dh_db w2 ''dhcp_static_host_1'' = Some ''x'' \<and> dh_db w2 ''dhcp_num_static_hosts'' = Some ''1''"
proof -
  let ?db = "[''dhcp_num_static_hosts'' \<mapsto> ''1'', ''dhcp_static_host_1'' \<mapsto> ''x'']"
  have num: "bk_val mem_syscfg ?db DHCPV4_NUM_STATIC_HOSTS = ''1''" by (simp add: bk_val_def mem_syscfg_def DHCPV4_NUM_STATIC_HOSTS_def VAL_MAX_SIZE_def)
  have one: "atoi ''1'' = 1" by code_simp
  obtain msg w1 where run: "Process_StaticClients_WebConfigRequest mem_syscfg ex_is_ip4 (\<lambda>_. 0) True (Some (ex_clients 1)) (ex_dhcp ?db) =
      Some (Some (BLOB_EXEC_SUCCESS, msg), w1)"
    using ex_static_accepted [of ?db 1 "\<lambda>_. 0"] by (auto simp: num one)
  obtain ret w2 where rb: "rollback_StaticClients mem_syscfg w1 = (ret, w2)" by fastforce
  have st: "stored_hosts (id (dh_db (ex_dhcp ?db))) 1"
    by (auto simp: stored_hosts_def DHCPV4_CACHE_MAX_NUM_OF_PARAM_def dec_small le_Suc_eq numeral_2_eq_2)
  have cnt: "nat (atoi (bk_val mem_syscfg ?db DHCPV4_NUM_STATIC_HOSTS)) = 1" by (simp only: num one)
  have "host_key DHCPV4_STATIC_HOST 1 \<in> set (static_keys mem_syscfg ?db)"
    using host_key_in_static_keys [OF cnt, of DHCPV4_STATIC_HOST 1] by (simp add: host_prefixes_def)
  then have keys: "''dhcp_num_static_hosts'' \<in> set (static_keys mem_syscfg ?db)" "''dhcp_static_host_1'' \<in> set (static_keys mem_syscfg ?db)"
    by (simp_all add: host_key_def DHCPV4_STATIC_HOST_def dec_small) (simp add: static_keys_def DHCPV4_NUM_STATIC_HOSTS_def)
  note r = static_rollback_restores [of mem_syscfg id, OF mem_syscfg_ok(1,2) _ _ st run rb]
  show ?thesis
    by (intro exI [of _ w2]) (use r keys in \<open>simp add: VAL_MAX_SIZE_def\<close>)
qed

text \<open>The rollback compares numbers of parameters, but uses them as numbers of clients: a client of the executed
  document beyond the old ones stays in the database after the rollback when its number is at most the number of
  values in the backup.\<close>

theorem static_rollback_leaves_clients:
  assumes "syscfg_ok C v" "syscfg_total C" "dhcp_wf w" "mbd_entries d \<noteq> []" "stored_hosts (v (dh_db w)) n"
    and "Process_StaticClients_WebConfigRequest C is_ip4 inet_addr True (Some d) w = Some (Some (BLOB_EXEC_SUCCESS, msg), w1)"
    and "rollback_StaticClients C w1 = (ret, w2)"
    and "n \<le> j" "j < length (mbd_entries d)" "j < g_numOfbkupCacheParam w1"
  shows "client_stored (v (dh_db w2)) (Suc j) (mbd_entries d ! j)"
proof -
  note p = process_static_success [OF assms(1,3,4,6)]
  have few: "g_numOfReceivedParam w1 < 10 ^ 7" and len: "length (mbd_entries d) < 10 ^ 7" using p(4,5) by simp_all
  note r = rollback_static_view [OF assms(1,2) p(8) few assms(7)]
  have n: "n < 10 ^ 7" using assms(5) by (simp add: stored_hosts_def DHCPV4_CACHE_MAX_NUM_OF_PARAM_def)
  have num: "nat (atoi (bk_val C (dh_db w) DHCPV4_NUM_STATIC_HOSTS)) = n"
    by (rule bk_val_num [of C v _ n, OF assms(1) _ n]) (use assms(5) in \<open>simp add: stored_hosts_def\<close>)
  have "v (dh_db w2) (host_key pre (Suc j)) = Some (host_value pre (Suc j) (mbd_entries d ! j))" if pre: "pre \<in> set host_prefixes" for pre
  proof -
    have "host_key pre (Suc j) \<noteq> host_key pre' i" if "pre' \<in> set host_prefixes" "g_numOfbkupCacheParam w1 < i" for pre' i
      using host_key_inj [OF pre that(1), of "Suc j" i] that(2) assms(10) by auto
    moreover have "host_key pre (Suc j) \<notin> set (static_keys C (dh_db w))"
      using host_key_in_static_keys [OF num n pre, of "Suc j"] assms(8) by simp
    moreover have "v (dh_db w1) (host_key pre (Suc j)) = Some (host_value pre (Suc j) (mbd_entries d ! j))"
      using static_cells_lookup(2) [OF len assms(9) pre] by (simp add: p(6) map_add_Some_iff)
    ultimately show ?thesis unfolding r(3) p(2) by (auto simp: without_apply bk_cells_lookup map_add_def)
  qed
  then show ?thesis using client_stored_keys [of "Suc j"] assms(9) len by simp
qed

theorem static_rollback_leaves_clients_witness:
  "\<exists>w2 :: (string \<rightharpoonup> string) dhcp_wc. client_stored (dh_db w2) 1 ex_client"
proof -
  let ?db = "[''dhcp_num_static_hosts'' \<mapsto> ''0'']"
  have num: "bk_val mem_syscfg ?db DHCPV4_NUM_STATIC_HOSTS = ''0''" by (simp add: bk_val_def mem_syscfg_def DHCPV4_NUM_STATIC_HOSTS_def VAL_MAX_SIZE_def)
  have zero: "atoi ''0'' = 0" by code_simp
  obtain msg w1 where run: "Process_StaticClients_WebConfigRequest mem_syscfg ex_is_ip4 (\<lambda>_. 0) True (Some (ex_clients 1)) (ex_dhcp ?db) =
      Some (Some (BLOB_EXEC_SUCCESS, msg), w1)"
    using ex_static_accepted [of ?db 1 "\<lambda>_. 0"] by (auto simp: num zero)
  obtain ret w2 where rb: "rollback_StaticClients mem_syscfg w1 = (ret, w2)" by fastforce
  have st: "stored_hosts (id (dh_db (ex_dhcp ?db))) 0" by (simp add: stored_hosts_def dec_small)
  have wf: "dhcp_wf (ex_dhcp ?db)" "mbd_entries (ex_clients 1) \<noteq> []" by simp_all
  have "0 < g_numOfbkupCacheParam w1"
    using bk_cells_hosts [of mem_syscfg id _ 0, OF mem_syscfg_ok(1) st] process_static_success(3) [OF mem_syscfg_ok(1) wf run]
    by (auto simp: Suc_le_eq)
  from static_rollback_leaves_clients [of mem_syscfg id, OF mem_syscfg_ok(1,2) wf st run rb le0 _ this] show ?thesis
    by (intro exI [of _ w2]) simp
qed

section \<open>Full documents\<close>

text \<open>A document of 341 clients fills the array of parameters; the next document that passes the checks, and
  also an empty one, writes beyond the end of the backup array.\<close>

theorem static_backup_overflow:
  assumes "syscfg_ok C v" "dhcp_wf w" "length (mbd_entries d) = 341"
    and "Process_StaticClients_WebConfigRequest C is_ip4 inet_addr True (Some d) w = Some (Some (BLOB_EXEC_SUCCESS, msg), w1)"
    and "\<not> bridge_mode_on C (dh_db w1)"
    and "Dhcpv4_StaticClients_Validate C is_ip4 inet_addr (dh_db w1) d' \<in> {BLOB_EXEC_SUCCESS, EMPTY_BLOB}"
  shows "Process_StaticClients_WebConfigRequest C is_ip4 inet_addr True d' w1 = None"
proof -
  have ne: "mbd_entries d \<noteq> []" using assms(3) by auto
  note p = process_static_success [OF assms(1,2) ne assms(4)]
  have len: "length (mbd_entries d) < 10 ^ 7" using assms(3) by simp
  note look = static_cells_lookup [OF len]
  have num: "v (dh_db w1) ''dhcp_num_static_hosts'' = Some (dec 341)"
    using look(1) assms(3) by (simp add: p(6) DHCPV4_NUM_STATIC_HOSTS_def map_add_Some_iff)
  have val: "v (dh_db w1) (host_key pre (Suc j)) = Some (host_value pre (Suc j) (mbd_entries d ! j))"
    if "pre \<in> set host_prefixes" "j < 341" for pre j
    using look(2) that assms(3) by (simp add: p(6) map_add_Some_iff)
  note r = reset_blank [of w1]
  have bk: "Suc (3 * 341) \<le> length (bk_cells C (dh_db w1) (butlast (static_keys C (dh_db w1))))"
    by (rule static_backup_count [of C v, OF assms(1) num]) (use val in \<open>auto simp: host_value_nonempty\<close>)
  have "Dhcpv4_StaticClients_BackupFromDb C (dh_db w1) (g_dhcpv4bkup_cache (Dhcpv4_Reset_Cache w1)) = None"
    using backup_static_room [OF r(1)] bk r(3) p(9)
    by (cases "Dhcpv4_StaticClients_BackupFromDb C (dh_db w1) (g_dhcpv4bkup_cache (Dhcpv4_Reset_Cache w1))")
      (fastforce simp: dhcp_wf_def DHCPV4_CACHE_MAX_NUM_OF_PARAM_def)+
  then show ?thesis
    using assms(5,6) by (auto simp: Process_StaticClients_WebConfigRequest_def Let_def r(2))
qed

theorem static_backup_overflow_witness:
  "\<exists>w1 :: (string \<rightharpoonup> string) dhcp_wc. Process_StaticClients_WebConfigRequest mem_syscfg ex_is_ip4 (\<lambda>_. 0) True (Some (ex_clients 0)) w1 = None"
proof -
  have wf: "dhcp_wf (ex_dhcp Map.empty)" "mbd_entries (ex_clients 341) \<noteq> []" "length (mbd_entries (ex_clients 341)) = 341" by simp_all
  obtain msg w1 where run: "Process_StaticClients_WebConfigRequest mem_syscfg ex_is_ip4 (\<lambda>_. 0) True (Some (ex_clients 341)) (ex_dhcp Map.empty) =
      Some (Some (BLOB_EXEC_SUCCESS, msg), w1)"
    using ex_static_accepted [of Map.empty 341 "\<lambda>_. 0"] ex_no_hosts by auto
  note p = process_static_success [OF mem_syscfg_ok(1) wf(1,2) run]
  have "''bridge_mode'' \<notin> cell_keys (static_cells (mbd_entries (ex_clients 341)))"
    using static_cells_lookup(3) [of "mbd_entries (ex_clients 341)" "''bridge_mode''"]
    by (auto simp: host_prefixes_def host_key_def dhcp_keys)
  then have "dh_db w1 ''bridge_mode'' = None"
    using p(6) by (simp add: cell_map_None map_add_def without_apply)
  then have "\<not> bridge_mode_on mem_syscfg (dh_db w1)" by (simp add: bridge_mode_on_def mem_syscfg_def)
  from static_backup_overflow [OF mem_syscfg_ok(1) wf(1,3) run this, of "Some (ex_clients 0)"] show ?thesis
    by (intro exI [of _ w1]) (simp add: Dhcpv4_StaticClients_Validate_def)
qed

end
