(* ===== verification/Wc_Messages.thy ===== *)
theory Wc_Messages
  imports Dhcp_WebConfig_Props
begin

text \<open>
  Whole messages: a message that has its parts in the order the readers expect arrives as the request that it says,
  for each of the four document types; what happens to one with another order, and to one without its main part.
\<close>

section \<open>Messages\<close>

definition wc_message :: "string \<Rightarrow> msgpack_object \<Rightarrow> string \<Rightarrow> nat \<Rightarrow> nat \<Rightarrow> msgpack_object" where
  "wc_message w body subdoc version txid =
     MP_MAP [(MP_STR w, body), (MP_STR ''subdoc_name'', MP_STR subdoc), (MP_STR ''version'', MP_UINT version),
             (MP_STR ''transaction_id'', MP_UINT txid)]"

text \<open>A parameter text that decodes to a message.\<close>

definition carries :: "'b codec \<Rightarrow> string \<Rightarrow> msgpack_object \<Rightarrow> bool" where
  "carries D s msg \<longleftrightarrow> 0 < snd (cd_decode D s) \<and> cd_unpack_ok D (fst (cd_decode D s)) (snd (cd_decode D s)) \<and>
     cd_unpack_next D (fst (cd_decode D s)) (snd (cd_decode D s) + 1) = Some msg"

lemma receive_carried:
  assumes "carries D s msg" "rd True (Some msg) = Some (Some p)" "st (fst (cd_decode D s)) (snd (cd_decode D s))" "mallocs 3"
  shows "receive_blob D (Some (cd_decode D s)) st mallocs rd mk = Some (True, Some (mk p))"
  using assms by (cases "cd_decode D s") (simp add: carries_def receive_blob_def convert_buffer_def)

lemma carries_status:
  assumes "carries D s msg"
  shows "cd_unpack_ok D (fst (cd_decode D s)) (snd (cd_decode D s))"
    "get_msgpack_unpack_status D (fst (cd_decode D s)) (snd (cd_decode D s))"
    "get_base64_decodedbuffer D True s = Some (cd_decode D s)"
  using assms by (simp_all add: carries_def get_msgpack_unpack_status_def get_base64_decodedbuffer_def)

lemma wrappers:
  "w \<in> {''macbinding'', ''lan'', ''portforwarding'', ''wan''} \<Longrightarrow> NUL \<notin> set w \<and> \<not> match_key w ''subdoc_name'' \<and>
     \<not> match_key w ''version'' \<and> \<not> match_key w ''transaction_id'' \<and> \<not> strncmp_eq w ''parameters''"
  by (elim insertE emptyE) (simp_all add: match_key_def NUL_def strncmp_eq_def)

lemma part_names: "\<not> strncmp_eq ''subdoc_name'' ''version''" "\<not> strncmp_eq ''subdoc_name'' ''transaction_id''"
  "\<not> strncmp_eq ''version'' ''transaction_id''" "strncmp_eq k k"
  by (simp_all add: strncmp_eq_def)

lemma convert_message:
  assumes w: "w \<in> {''macbinding'', ''lan'', ''portforwarding'', ''wan''}" and t: "mp_type body = t" "t = MSGPACK_OBJECT_MAP \<or> t = MSGPACK_OBJECT_ARRAY"
  shows "helper_convert True True (Some (wc_message w body subdoc version txid)) zero w t True process =
    process [Some body, Some (MP_STR subdoc), Some (MP_UINT version), Some (MP_UINT txid)]"
proof -
  have ne: "MSGPACK_OBJECT_STR \<noteq> t" "MSGPACK_OBJECT_POSITIVE_INTEGER \<noteq> t" using t(2) by auto
  let ?m = "[(MP_STR w, body), (MP_STR ''subdoc_name'', MP_STR subdoc), (MP_STR ''version'', MP_UINT version), (MP_STR ''transaction_id'', MP_UINT txid)]"
  have "finder w t ?m = Some body" using wrappers [OF w] t(1) by (intro finder_hit) simp_all
  moreover have "finder ''subdoc_name'' t ?m = Some (MP_STR subdoc)" "finder ''version'' t ?m = Some (MP_UINT version)"
    "finder ''transaction_id'' t ?m = Some (MP_UINT txid)"
    using wrappers [OF w] t(1) ne part_names by simp_all
  ultimately show ?thesis using wrappers [OF w] by (simp only: helper_convert_def wc_message_def) simp
qed

text \<open>A codec for the examples, whose decoded buffer is the message.\<close>

definition ex_codec :: "msgpack_object \<Rightarrow> msgpack_object codec" where
  "ex_codec msg = \<lparr>cd_decode = (\<lambda>_. (msg, 1)), cd_unpack_ok = (\<lambda>_ _. True), cd_unpack_next = (\<lambda>b _. Some b)\<rparr>"

lemma ex_carries [simp]: "carries (ex_codec msg) s msg"
  by (simp add: carries_def ex_codec_def)

text \<open>No string has a NUL.\<close>

definition no_nul :: "string \<Rightarrow> bool" where
  "no_nul s \<longleftrightarrow> NUL \<notin> set s"

lemma strndup_no_nul [simp]: "no_nul s \<Longrightarrow> strndup s = s"
  by (simp add: no_nul_def)

lemma no_nul_texts: "no_nul ''10.0.0.5''" "no_nul ''00:11:22:33:44:55''" "no_nul ''x''" "no_nul ''80''" "no_nul ''TCP''" "no_nul ''1''"
  by (simp_all add: no_nul_def NUL_def)

section \<open>Static clients\<close>

definition client_message :: "string \<times> string \<Rightarrow> msgpack_object" where
  "client_message c = MP_MAP [(MP_STR ''Yiaddr'', MP_STR (fst c)), (MP_STR ''Chaddr'', MP_STR (snd c))]"

lemma client_message_read:
  "no_nul ip \<Longrightarrow> no_nul mac \<Longrightarrow> process_macdocparams [(MP_STR ''Yiaddr'', MP_STR ip), (MP_STR ''Chaddr'', MP_STR mac)] =
     (True, \<lparr>md_yiaddr = Some ip, md_chaddr = Some mac\<rparr>)"
  by (simp add: process_macdocparams_def zero_macdoc_def match_key_def NUL_def)

lemma clients_read:
  "(\<forall>c \<in> set cs. no_nul (fst c) \<and> no_nul (snd c)) \<Longrightarrow>
     macdoc_entries (map client_message cs) = Some (map (\<lambda>c. \<lparr>md_yiaddr = Some (fst c), md_chaddr = Some (snd c)\<rparr>) cs)"
  by (induction cs) (simp_all add: client_message_def client_message_read)



text \<open>The reader of a client stops at the MAC address; with the MAC address first the IP address is lost, the
  message is accepted, and its request is refused with \<open>Invalid IP\<close>.\<close>

theorem static_reader_key_order:
  "map_option mbd_entries (process_macbindingdoc True [MP_MAP [(MP_STR ''Chaddr'', MP_STR mac), (MP_STR ''Yiaddr'', MP_STR ip)]] sd ver txid) =
      Some [\<lparr>md_yiaddr = None, md_chaddr = Some (strndup mac)\<rparr>] \<and>
    validate_clients C is_ip4 inet_addr db [\<lparr>md_yiaddr = None, md_chaddr = Some (strndup mac)\<rparr>] = INVALID_IP"
  by (simp add: process_macbindingdoc_def process_macdocparams_def zero_macdoc_def match_key_def NUL_def
      CheckStaticClientIpIsValid_def CheckIpIsValid_def)

section \<open>The LAN\<close>

definition lan_message :: "bool \<Rightarrow> string \<Rightarrow> string \<Rightarrow> string \<Rightarrow> string \<Rightarrow> nat \<Rightarrow> msgpack_object" where
  "lan_message en ip netmask start stop lease =
     MP_MAP [(MP_STR ''DhcpServerEnable'', MP_BOOL en), (MP_STR ''LanIPAddress'', MP_STR ip), (MP_STR ''LanSubnetMask'', MP_STR netmask),
             (MP_STR ''DhcpStartIPAddress'', MP_STR start), (MP_STR ''DhcpEndIPAddress'', MP_STR stop), (MP_STR ''LeaseTime'', MP_UINT lease)]"

text \<open>Writing a LAN message to \<open>Lan\<close> hands on the request with the six parameters, the version and the
  transaction of the message.\<close>

theorem lan_message_roundtrip:
  assumes "carries D s (wc_message ''lan'' (lan_message en ip netmask start stop lease) subdoc version txid)"
    and "no_nul ip" "no_nul netmask" "no_nul start" "no_nul stop" "no_nul subdoc"
  shows "Server_SetParamStringValue D (\<lambda>_. True) ''Lan'' s = Some (True, None, Some
    \<lparr>ed_txid = of_nat txid, ed_version = of_nat version, ed_numOfEntries = 1, ed_subdoc_name = ''lan'',
     ed_user_data = \<lparr>ld_param = Some \<lparr>lp_dhcp_server_enable = en, lp_lan_ip_address = Some ip, lp_lan_subnet_mask = Some netmask,
         lp_dhcp_start_ip_address = Some start, lp_dhcp_end_ip_address = Some stop, lp_leasetime = of_nat lease\<rparr>,
       ld_entries_count = 1, ld_subdoc_name = subdoc, ld_version = of_nat version, ld_transaction_id = of_nat txid\<rparr>\<rparr>)"
proof -
  have "landoc_convert (\<lambda>_. True) True (Some (wc_message ''lan'' (lan_message en ip netmask start stop lease) subdoc version txid)) =
      Some (Some \<lparr>ld_param = Some \<lparr>lp_dhcp_server_enable = en, lp_lan_ip_address = Some ip, lp_lan_subnet_mask = Some netmask,
         lp_dhcp_start_ip_address = Some start, lp_dhcp_end_ip_address = Some stop, lp_leasetime = of_nat lease\<rparr>,
       ld_entries_count = 0, ld_subdoc_name = subdoc, ld_version = of_nat version, ld_transaction_id = of_nat txid\<rparr>)"
    unfolding landoc_convert_def
    by (subst convert_message) (use assms(2-) in \<open>simp_all add: lan_message_def landoc_args_def process_landoc_def process_lanparams_def
        zero_lanparam_def lan_string_def match_key_def NUL_def\<close>)
  note r = receive_carried [where rd = "landoc_convert (\<lambda>_. True)" and st = "get_msgpack_unpack_status D" and mallocs = "\<lambda>_. True" and mk = lan_exec, OF assms(1) this carries_status(2) [OF assms(1)]]
  show ?thesis
    by (simp add: Server_SetParamStringValue_def carries_status(3) [OF assms(1)] r lan_exec_def)
qed

theorem lan_message_roundtrip_witness:
  "\<exists>D :: msgpack_object codec. map_option (\<lambda>(r, s, l). map_option ed_version l)
     (Server_SetParamStringValue D (\<lambda>_. True) ''Lan'' ''b64'') = Some (Some 7)"
proof -
  note r = lan_message_roundtrip [of "ex_codec _" "''b64''" True "''x''" "''x''" "''x''" "''x''" 60 "''x''" 7 2,
      OF ex_carries]
  show ?thesis by (rule exI, subst r) (simp_all add: no_nul_texts)
qed

section \<open>Port forwarding and the DMZ\<close>

definition rule_message :: "string \<Rightarrow> string \<Rightarrow> string \<Rightarrow> string \<Rightarrow> string \<Rightarrow> string \<Rightarrow> msgpack_object" where
  "rule_message client proto descr en start stop =
     MP_MAP [(MP_STR ''InternalClient'', MP_STR client), (MP_STR ''Protocol'', MP_STR proto), (MP_STR ''Description'', MP_STR descr),
             (MP_STR ''Enable'', MP_STR en), (MP_STR ''ExternalPort'', MP_STR start), (MP_STR ''ExternalPortEndRange'', MP_STR stop)]"

definition rule_doc :: "string \<Rightarrow> string \<Rightarrow> string \<Rightarrow> string \<Rightarrow> string \<Rightarrow> string \<Rightarrow> portdoc_t" where
  "rule_doc client proto descr en start stop = \<lparr>pd_internal_client = Some client, pd_enable = Some en,
     pd_external_port_end_range = Some stop, pd_protocol = Some proto, pd_description = Some descr, pd_external_port = Some start\<rparr>"

definition rule_texts :: "string \<times> string \<times> string \<times> string \<times> string \<times> string \<Rightarrow> bool" where
  "rule_texts r = (case r of (client, proto, descr, en, start, stop) \<Rightarrow> list_all no_nul [client, proto, descr, en, start, stop])"

lemma rule_message_read:
  assumes "rule_texts (client, proto, descr, en, start, stop)"
  shows "portdoc_entries (rule_message client proto descr en start stop # objs) =
    map_option (Cons (rule_doc client proto descr en start stop)) (portdoc_entries objs)"
  using assms by (simp add: rule_message_def rule_doc_def rule_texts_def process_portdocparams_def zero_portdoc_def match_key_def
      strncmp_eq_def NUL_def)

lemma rules_read:
  "list_all rule_texts rs \<Longrightarrow> portdoc_entries (map (\<lambda>(client, proto, descr, en, start, stop). rule_message client proto descr en start stop) rs) =
     Some (map (\<lambda>(client, proto, descr, en, start, stop). rule_doc client proto descr en start stop) rs)"
  by (induction rs) (auto simp: rule_message_read)

text \<open>Writing a port forwarding message to \<open>Data\<close> hands on the request with exactly the rules, the version and the
  transaction of the message.\<close>

theorem pf_message_roundtrip:
  assumes "carries D s (wc_message ''portforwarding''
      (MP_ARRAY (map (\<lambda>(client, proto, descr, en, start, stop). rule_message client proto descr en start stop) rs)) subdoc version txid)"
    and "list_all rule_texts rs" "no_nul subdoc"
  shows "X_RDK_PortMapping_SetParamStringValue D (\<lambda>_. True) ''Data'' s = Some (True, Some
    \<lparr>ed_txid = of_nat txid, ed_version = of_nat version, ed_numOfEntries = length rs, ed_subdoc_name = ''portforwarding'',
     ed_user_data = \<lparr>pmd_entries = map (\<lambda>(client, proto, descr, en, start, stop). rule_doc client proto descr en start stop) rs,
                     pmd_subdoc_name = subdoc, pmd_version = of_nat version, pmd_transaction_id = of_nat txid\<rparr>\<rparr>)"
    (is "_ = Some (True, Some ?e)")
proof -
  let ?msg = "wc_message ''portforwarding''
      (MP_ARRAY (map (\<lambda>(client, proto, descr, en, start, stop). rule_message client proto descr en start stop) rs)) subdoc version txid"
  have "portmappingdoc_convert (\<lambda>_. True) True (Some ?msg) = Some (Some (ed_user_data ?e))"
    unfolding portmappingdoc_convert_def
    by (subst convert_message) (simp_all add: portmappingdoc_args_def process_portmappingdoc_def rules_read [OF assms(2)] assms(3))
  note r = receive_carried [where rd = "portmappingdoc_convert (\<lambda>_. True)" and st = "cd_unpack_ok D" and mallocs = "\<lambda>_. True"
      and mk = portmap_exec, OF assms(1) this carries_status(1) [OF assms(1)]]
  show ?thesis by (simp add: X_RDK_PortMapping_SetParamStringValue_def r portmap_exec_def)
qed

theorem pf_message_roundtrip_witness:
  "\<exists>D :: msgpack_object codec. map_option (\<lambda>(r, e). map_option (\<lambda>e. pmd_entries (ed_user_data e)) e)
     (X_RDK_PortMapping_SetParamStringValue D (\<lambda>_. True) ''Data'' ''b64'') =
       Some (Some [rule_doc ''10.0.0.5'' ''TCP'' ''x'' ''1'' ''80'' ''80''])"
proof -
  note r = pf_message_roundtrip [of "ex_codec _" "''b64''" "[(''10.0.0.5'', ''TCP'', ''x'', ''1'', ''80'', ''80'')]" "''x''" 1 2,
      OF ex_carries]
  show ?thesis by (rule exI, subst r) (simp_all add: rule_texts_def no_nul_texts)
qed

text \<open>Writing a DMZ message to \<open>Data\<close> hands on the request with the switch, the host, the version and the
  transaction of the message.\<close>

theorem dmz_message_roundtrip:
  assumes "carries D s (wc_message ''wan'' (MP_MAP [(MP_STR ''Enable'', MP_BOOL en), (MP_STR ''InternalIP'', MP_STR ip)]) subdoc version txid)"
    and "no_nul ip" "no_nul subdoc"
  shows "DMZ_SetData D (\<lambda>_. True) s = Some (True, Some
    \<lparr>ed_txid = of_nat txid, ed_version = of_nat version, ed_numOfEntries = 0, ed_subdoc_name = ''wan'',
     ed_user_data = \<lparr>dwd_param = Some \<lparr>dw_enable = en, dw_internal_ip = Some ip\<rparr>, dwd_subdoc_name = subdoc,
                     dwd_version = of_nat version, dwd_transaction_id = of_nat txid\<rparr>\<rparr>)"
    (is "_ = Some (True, Some ?e)")
proof -
  let ?msg = "wc_message ''wan'' (MP_MAP [(MP_STR ''Enable'', MP_BOOL en), (MP_STR ''InternalIP'', MP_STR ip)]) subdoc version txid"
  have "dmz_wandoc_convert (\<lambda>_. True) True (Some ?msg) = Some (Some (ed_user_data ?e))"
    unfolding dmz_wandoc_convert_def
    by (subst convert_message) (simp_all add: wandoc_args_def process_wandoc_def process_wanparams_def match_key_def NUL_def assms(2,3))
  note r = receive_carried [where rd = "dmz_wandoc_convert (\<lambda>_. True)" and st = "cd_unpack_ok D" and mallocs = "\<lambda>_. True"
      and mk = wan_exec, OF assms(1) this carries_status(1) [OF assms(1)]]
  show ?thesis by (simp add: DMZ_SetData_def r wan_exec_def)
qed

theorem dmz_message_roundtrip_witness:
  "\<exists>D :: msgpack_object codec. map_option (\<lambda>(r, e). map_option (\<lambda>e. dwd_param (ed_user_data e)) e)
     (DMZ_SetData D (\<lambda>_. True) ''b64'') = Some (Some (Some \<lparr>dw_enable = True, dw_internal_ip = Some ''10.0.0.5''\<rparr>))"
proof -
  note r = dmz_message_roundtrip [of "ex_codec _" "''b64''" True "''10.0.0.5''" "''x''" 1 2, OF ex_carries]
  show ?thesis by (rule exI, subst r) (simp_all add: no_nul_texts)
qed

section \<open>Messages without their part\<close>

lemma process_static_empty:
  assumes C: "syscfg_ok C v" "syscfg_total C" and h: "hDhcpv4 w" "\<not> bridge_mode_on C (dh_db w)" and e: "mbd_entries d = []"
    and run: "Process_StaticClients_WebConfigRequest C is_ip4 inet_addr True (Some d) w = Some (res, w')"
  shows "res = Some (BLOB_EXEC_SUCCESS, [])" "v (dh_db w') = without (cell_keys (bk_cells C (dh_db w) (static_keys C (dh_db w)))) (v (dh_db w))"
proof -
  let ?w1 = "Dhcpv4_Reset_Cache w"
  note r = reset_blank [of w]
  have val: "Dhcpv4_StaticClients_Validate C is_ip4 inet_addr (dh_db ?w1) (Some d) = EMPTY_BLOB"
    using e by (simp add: Dhcpv4_StaticClients_Validate_def)
  obtain bkup n where bk: "Dhcpv4_StaticClients_BackupFromDb C (dh_db ?w1) (g_dhcpv4bkup_cache ?w1) = Some (bkup, n)"
    using run h val by (auto simp: Process_StaticClients_WebConfigRequest_def Let_def split: if_splits option.splits)
  obtain r2 db2 where un: "Dhcpv4_UnsetAllDbValues C bkup n (dh_db ?w1) = (r2, db2)" by fastforce
  from steps_total(1) [OF C(2), of bkup n "dh_db ?w1"] un have r2: "r2 \<noteq> SYSCFG_FAILURE" by simp
  let ?w2 = "?w1\<lparr>g_dhcpv4bkup_cache := bkup, g_numOfbkupCacheParam := n, dh_db := db2\<rparr>"
  have "flag_and_restart ''Sync with Cosa Object failure'' ?w2 =
      ((BLOB_EXEC_SUCCESS, []), ?w2\<lparr>syncStaticClientsTable := True, dhcp_server_restarts := Suc (dhcp_server_restarts ?w1)\<rparr>)"
    using h(1) r(5) by (simp add: flag_and_restart_def Dhcpv4_StaticClients_SetSyncFlag_def)
  with run h val bk un r2 have res: "res = Some (BLOB_EXEC_SUCCESS, [])" and db: "dh_db w' = db2"
    by (auto simp: Process_StaticClients_WebConfigRequest_def Let_def)
  show "res = Some (BLOB_EXEC_SUCCESS, [])" by (rule res)
  from bk have "backup_keys C (dh_db w) (static_keys C (dh_db w)) (g_dhcpv4bkup_cache ?w1, 0) = Some (bkup, n)"
    by (simp add: StaticClients_Backup_eq [OF r(1)] r(2))
  from backup_keys_Some [OF r(1) le0 this] UnsetAll_view [OF C(1) un r2]
  show "v (dh_db w') = without (cell_keys (bk_cells C (dh_db w) (static_keys C (dh_db w)))) (v (dh_db w))"
    by (auto simp: db r)
qed

text \<open>A message without the part \<open>macbinding\<close> is taken for an empty document: it is accepted, its request
  succeeds, and the count and the text of every stored client are gone from the database.\<close>

theorem static_message_without_part_clears:
  assumes "carries D s (MP_MAP m)" "finder ''macbinding'' MSGPACK_OBJECT_ARRAY m = None"
    and "syscfg_ok C v" "syscfg_total C" "hDhcpv4 w" "\<not> bridge_mode_on C (dh_db w)" "stored_hosts (v (dh_db w)) n"
    and "Process_StaticClients_WebConfigRequest C is_ip4 inet_addr True (Some zero_macbindingdoc) w = Some (res, w')"
  shows "Server_SetParamStringValue D (\<lambda>_. True) ''StaticClientsData'' s = Some (True, Some (macbinding_exec zero_macbindingdoc), None) \<and>
    res = Some (BLOB_EXEC_SUCCESS, []) \<and> v (dh_db w') ''dhcp_num_static_hosts'' = None \<and>
    (\<forall>i. 1 \<le> i \<and> i \<le> n \<longrightarrow> v (dh_db w') (''dhcp_static_host_'' @ dec i) = None)"
proof -
  have "macbindingdoc_convert (\<lambda>_. True) True (Some (MP_MAP m)) = Some (Some zero_macbindingdoc)"
    unfolding macbindingdoc_convert_def by (rule helper_convert_no_wrapper [OF assms(2)])
  note r = receive_carried [where rd = "macbindingdoc_convert (\<lambda>_. True)" and st = "get_msgpack_unpack_status D" and mallocs = "\<lambda>_. True"
      and mk = macbinding_exec, OF assms(1) this carries_status(2) [OF assms(1)]]
  have "mbd_entries zero_macbindingdoc = []" by (simp add: zero_macbindingdoc_def)
  note p = process_static_empty [OF assms(3-6) this assms(8)]
  have n: "n < 10 ^ 7" using assms(7) by (simp add: stored_hosts_def DHCPV4_CACHE_MAX_NUM_OF_PARAM_def)
  have m: "v (dh_db w) ''dhcp_num_static_hosts'' = Some (dec n)" using assms(7) by (simp add: stored_hosts_def)
  have num: "nat (atoi (bk_val C (dh_db w) DHCPV4_NUM_STATIC_HOSTS)) = n"
    by (rule bk_val_num [of C v _ n, OF assms(3) m n])
  have gone: "v (dh_db w') k = None" if "k \<in> set (static_keys C (dh_db w))" "v (dh_db w) k = Some x" "x \<noteq> []" for k x
    using that by (auto simp: p(2) without_apply cell_keys_def bk_cells_def bk_val_view [OF assms(3)] image_iff)
  have "v (dh_db w') (''dhcp_static_host_'' @ dec i) = None" if i: "1 \<le> i \<and> i \<le> n" for i
  proof -
    have "host_key DHCPV4_STATIC_HOST i \<in> set (static_keys C (dh_db w))"
      using host_key_in_static_keys [OF num n, of DHCPV4_STATIC_HOST i] i by (simp add: host_prefixes_def)
    moreover obtain x where "v (dh_db w) (''dhcp_static_host_'' @ dec i) = Some x" "x \<noteq> []"
      using assms(7) i unfolding stored_hosts_def by blast
    ultimately show ?thesis using gone by (simp add: host_key_def DHCPV4_STATIC_HOST_def)
  qed
  moreover have "v (dh_db w') ''dhcp_num_static_hosts'' = None"
    by (rule gone [OF _ m]) (simp_all add: static_keys_def DHCPV4_NUM_STATIC_HOSTS_def)
  ultimately show ?thesis
    using p(1) by (simp add: Server_SetParamStringValue_def carries_status(3) [OF assms(1)] r)
qed

theorem static_message_without_part_clears_witness:
  "\<exists>w' :: (string \<rightharpoonup> string) dhcp_wc. dh_db w' ''dhcp_static_host_1'' = None \<and> dh_db w' ''dhcp_num_static_hosts'' = None"
proof -
  let ?db = "[''dhcp_num_static_hosts'' \<mapsto> ''1'', ''dhcp_static_host_1'' \<mapsto> ''x'']"
  let ?w = "ex_dhcp ?db"
  note r = reset_blank [of ?w]
  have num: "bk_val mem_syscfg ?db DHCPV4_NUM_STATIC_HOSTS = ''1''" by (simp add: bk_val_def mem_syscfg_def DHCPV4_NUM_STATIC_HOSTS_def VAL_MAX_SIZE_def)
  have one: "atoi ''1'' = 1" by code_simp
  have "0 + length (static_keys mem_syscfg ?db) \<le> length (g_dhcpv4bkup_cache (Dhcpv4_Reset_Cache ?w))"
    by (simp add: length_static_keys num one Dhcpv4_Reset_Cache_def ex_dhcp_def)
  from backup_keys_fit [OF r(1) this, of mem_syscfg ?db] obtain bkup n where
    bk: "Dhcpv4_StaticClients_BackupFromDb mem_syscfg ?db (g_dhcpv4bkup_cache (Dhcpv4_Reset_Cache ?w)) = Some (bkup, n)"
    by (auto simp: StaticClients_Backup_eq [OF r(1)])
  have h: "hDhcpv4 ?w" "\<not> bridge_mode_on mem_syscfg (dh_db ?w)" by (simp_all add: bridge_mode_on_def mem_syscfg_def)
  have "\<exists>res w'. Process_StaticClients_WebConfigRequest mem_syscfg ex_is_ip4 (\<lambda>_. 0) True (Some zero_macbindingdoc) ?w = Some (res, w')"
    using h bk by (auto simp: Process_StaticClients_WebConfigRequest_def Let_def r(2) Dhcpv4_StaticClients_Validate_def zero_macbindingdoc_def
        split: prod.splits)
  then obtain res w' where run:
    "Process_StaticClients_WebConfigRequest mem_syscfg ex_is_ip4 (\<lambda>_. 0) True (Some zero_macbindingdoc) ?w = Some (res, w')" by blast
  have st: "stored_hosts (id (dh_db ?w)) 1"
    by (auto simp: stored_hosts_def DHCPV4_CACHE_MAX_NUM_OF_PARAM_def dec_small le_Suc_eq numeral_2_eq_2)
  have "finder ''macbinding'' MSGPACK_OBJECT_ARRAY [] = None" by simp
  from static_message_without_part_clears [of _ "''b64''" _ mem_syscfg id, OF ex_carries this mem_syscfg_ok(1,2) h st run]
  have "\<And>i. 1 \<le> i \<and> i \<le> 1 \<Longrightarrow> id (dh_db w') (''dhcp_static_host_'' @ dec i) = None" "id (dh_db w') ''dhcp_num_static_hosts'' = None"
    by blast+
  from this(1) [of 1] this(2) show ?thesis by (intro exI [of _ w']) (simp add: dec_small)
qed

end
