(* ===== verification/Dhcp_Saddr.thy ===== *)
theory Dhcp_Saddr
  imports Dhcp_WebConfig
begin

text \<open>
  The static addresses of the LAN pool (\<open>Device.DHCPv4.Server.Pool.1.StaticAddress.{i}\<close>): the board layer
  (\<open>CosaDmlDhcps*Saddr*\<close> of \<open>cosa_dhcpv4_apis.c\<close>), the table handlers \<open>StaticAddress_*\<close> of \<open>cosa_dhcpv4_dml.c\<close>, the load
  at start of \<open>cosa_dhcpv4_internal.c\<close>, and the refresh after a static clients blob, \<open>Dhcpv4_StaticClients_Synchronize\<close>.
  Utopia's static address functions are parameters. \<open>CosaDhcpv4RegSetDhcpv4Info\<close>, which writes the registry, is left
  out.
\<close>

section \<open>Data and libraries\<close>

record COSA_DML_DHCPS_SADDR =
  sa_InstanceNumber :: ULONG
  sa_Alias :: string
  sa_bEnabled :: bool
  sa_Chaddr :: "UCHAR list"
  sa_Yiaddr :: ULONG
  sa_DeviceName :: string
  sa_Comment :: string
  sa_ActiveFlag :: bool

definition COSA_DML_ALIAS_NAME_LENGTH :: nat where "COSA_DML_ALIAS_NAME_LENGTH = 64"
definition COSA_DML_DHCPV4_ALIAS :: nat where "COSA_DML_DHCPV4_ALIAS = 64"
definition SADDR_COMMENT_SIZE :: nat where "SADDR_COMMENT_SIZE = 256"

lemmas saddr_sizes = COSA_DML_ALIAS_NAME_LENGTH_def COSA_DML_DHCPV4_ALIAS_def SADDR_COMMENT_SIZE_def

definition DHCPV4_STATICADDRESS_SET_DEFAULTVALUE :: "COSA_DML_DHCPS_SADDR \<Rightarrow> COSA_DML_DHCPS_SADDR" where
  "DHCPV4_STATICADDRESS_SET_DEFAULTVALUE e = e\<lparr>sa_ActiveFlag := False, sa_bEnabled := True, sa_Yiaddr := 0, sa_Chaddr := replicate 6 0\<rparr>"

text \<open>\<open>dl_libs\<close> are the libraries of the NAT part, of which the bounded copy, \<open>inet_addr\<close>, the allocator, the bus
  requests and the Utopia contexts are used. The Utopia functions say whether they returned 0, with the structure they
  filled or the changed context. \<open>dl_junk\<close> and \<open>dl_junk_cfg\<close> are the contents of memory that was not initialised,
  \<open>dl_neigh\<close> is whether \<open>ip nei\<close> knows the address.\<close>

record ('s, 'c, 'r) dhcp_libs =
  dl_libs :: "('s, 'c, 'r) libs"
  dl_get :: "'s \<Rightarrow> string \<Rightarrow> nat \<Rightarrow> string option"
  dl_NumOfStaticAddress :: "'c \<Rightarrow> ULONG \<Rightarrow> ULONG"
  dl_SAddress :: "'c \<Rightarrow> ULONG \<Rightarrow> ULONG \<Rightarrow> COSA_DML_DHCPS_SADDR \<Rightarrow> bool \<times> COSA_DML_DHCPS_SADDR"
  dl_SAddressByInsNum :: "'c \<Rightarrow> ULONG \<Rightarrow> COSA_DML_DHCPS_SADDR \<Rightarrow> bool \<times> COSA_DML_DHCPS_SADDR"
  dl_SetSAddress_Values :: "'c \<Rightarrow> ULONG \<Rightarrow> ULONG \<Rightarrow> ULONG \<Rightarrow> string \<Rightarrow> bool \<times> 'c"
  dl_AddSAddress :: "'c \<Rightarrow> ULONG \<Rightarrow> COSA_DML_DHCPS_SADDR \<Rightarrow> bool \<times> 'c"
  dl_DelSAddress :: "'c \<Rightarrow> ULONG \<Rightarrow> ULONG \<Rightarrow> bool \<times> 'c"
  dl_SetSAddress :: "'c \<Rightarrow> ULONG \<Rightarrow> COSA_DML_DHCPS_SADDR \<Rightarrow> bool \<times> 'c"
  dl_ServerPoolCfg :: "'c \<Rightarrow> ULONG \<times> ULONG \<Rightarrow> bool \<times> ULONG \<times> ULONG"
  dl_AnscValidStringCheck :: "string \<Rightarrow> bool"
  dl_neigh :: "UCHAR list \<Rightarrow> bool"
  dl_junk :: "nat \<Rightarrow> COSA_DML_DHCPS_SADDR"
  dl_junk_cfg :: "ULONG \<times> ULONG"

text \<open>The pool with its table, the fields of the DHCPv4 object, the store, the flag file and the allocator. \<open>sd_hDhcpv4\<close>
  and \<open>sd_has_pool\<close> are whether the object and the pool 1 in its list are there; the LAN pool is the pool the handlers
  are called with.\<close>

record 's saddr_state =
  sd_hDhcpv4 :: bool
  sd_has_pool :: bool
  sd_Cfg_InstanceNumber :: ULONG
  StaticAddressList :: "COSA_DML_DHCPS_SADDR slist"
  maxInstanceOfStaticAddress :: ULONG
  AliasOfStaAddr :: string
  sd_PreviousVisitTime :: ULONG
  sd_syncStaticClientsTable :: bool
  sd_store :: 's
  sd_lan_not_restart :: bool
  sd_allocs :: nat

definition alloc_block :: "('s, 'c, 'r) dhcp_libs \<Rightarrow> 's saddr_state \<Rightarrow> nat option \<times> 's saddr_state" where
  "alloc_block D st = (if lib_alloc (dl_libs D) (sd_allocs st) then Some (sd_allocs st) else None, st\<lparr>sd_allocs := Suc (sd_allocs st)\<rparr>)"

section \<open>The board layer\<close>

definition dhcp_saddr_invalid_addr :: "COSA_DML_DHCPS_SADDR \<Rightarrow> bool" where
  "dhcp_saddr_invalid_addr e = (if sa_Yiaddr e = 0 then True else if bit (sa_Chaddr e ! 0) 0 \<or> sa_Chaddr e = replicate 6 0 then True else False)"

definition is_a_public_addr :: "ULONG \<Rightarrow> bool" where
  "is_a_public_addr addr =
     (if addr \<ge> 0x0A000000 \<and> addr \<le> 0x0AFFFFFF then False
      else if addr \<ge> 0xAC100000 \<and> addr \<le> 0xAC1FFFFF then False
      else if addr \<ge> 0xC0A80000 \<and> addr \<le> 0xC0A8FFFF then False
      else True)"

text \<open>The count is a \<open>ULONG\<close>: \<open>ANSC_STATUS_FAILURE\<close>, which is \<open>0xFFFFFFFF\<close>, when there is no context.\<close>

definition CosaDmlDhcpsGetNumberOfSaddr :: "('s, 'c, 'r) dhcp_libs \<Rightarrow> 's saddr_state \<Rightarrow> ULONG \<Rightarrow> ULONG" where
  "CosaDmlDhcpsGetNumberOfSaddr D st ulPoolInstanceNumber =
     (if ulPoolInstanceNumber \<noteq> 1 then 0
      else (case ut_Init (lib_ut (dl_libs D)) (sd_store st) of None \<Rightarrow> - 1 | Some c \<Rightarrow> dl_NumOfStaticAddress D c ulPoolInstanceNumber))"

definition CosaDmlDhcpsGetSaddr :: "('s, 'c, 'r) dhcp_libs \<Rightarrow> 's saddr_state \<Rightarrow> ULONG \<Rightarrow> ULONG \<Rightarrow> COSA_DML_DHCPS_SADDR \<Rightarrow>
    ansc_status \<times> COSA_DML_DHCPS_SADDR" where
  "CosaDmlDhcpsGetSaddr D st ulPoolInstanceNumber ulIndex pEntry =
     (case ut_Init (lib_ut (dl_libs D)) (sd_store st) of
        None \<Rightarrow> (ANSC_FAILURE, pEntry)
      | Some c \<Rightarrow> (case dl_SAddress D c ulPoolInstanceNumber ulIndex pEntry of (ok, e) \<Rightarrow> (if ok then ANSC_SUCCESS else ANSC_FAILURE, e)))"

definition CosaDmlDhcpsGetSaddrbyInsNum :: "('s, 'c, 'r) dhcp_libs \<Rightarrow> 's saddr_state \<Rightarrow> ULONG \<Rightarrow> COSA_DML_DHCPS_SADDR \<Rightarrow>
    ansc_status \<times> COSA_DML_DHCPS_SADDR" where
  "CosaDmlDhcpsGetSaddrbyInsNum D st ulClientInstanceNumber pEntry =
     (case ut_Init (lib_ut (dl_libs D)) (sd_store st) of
        None \<Rightarrow> (ANSC_FAILURE, pEntry)
      | Some c \<Rightarrow> (case dl_SAddressByInsNum D c ulClientInstanceNumber pEntry of (ok, e) \<Rightarrow> (if ok then ANSC_SUCCESS else ANSC_FAILURE, e)))"

text \<open>\<open>Utopia_Free (&ctx, !rc)\<close> after an operation: the context is committed when it succeeded.\<close>

definition saddr_commit :: "('s, 'c, 'r) dhcp_libs \<Rightarrow> 's saddr_state \<Rightarrow> bool \<times> 'c \<Rightarrow> ansc_status \<times> 's saddr_state" where
  "saddr_commit D st r =
     (case r of (ok, c) \<Rightarrow>
        if ok then (ANSC_SUCCESS, st\<lparr>sd_store := ut_Commit (lib_ut (dl_libs D)) (sd_store st) c\<rparr>) else (ANSC_FAILURE, st))"

definition CosaDmlDhcpsSetSaddrValues :: "('s, 'c, 'r) dhcp_libs \<Rightarrow> 's saddr_state \<Rightarrow> ULONG \<Rightarrow> ULONG \<Rightarrow> ULONG \<Rightarrow> string \<Rightarrow>
    ansc_status \<times> 's saddr_state" where
  "CosaDmlDhcpsSetSaddrValues D st ulPoolInstanceNumber ulIndex ulInstanceNumber pAlias =
     (if ulPoolInstanceNumber \<noteq> 1 then (ANSC_FAILURE, st)
      else (case ut_Init (lib_ut (dl_libs D)) (sd_store st) of
          None \<Rightarrow> (ANSC_FAILURE, st)
        | Some c \<Rightarrow> saddr_commit D st (dl_SetSAddress_Values D c ulPoolInstanceNumber ulIndex ulInstanceNumber pAlias)))"

text \<open>The flag file is removed, and made again when the neighbour table does not have the address.\<close>

definition mark_lan_restart :: "('s, 'c, 'r) dhcp_libs \<Rightarrow> COSA_DML_DHCPS_SADDR \<Rightarrow> 's saddr_state \<Rightarrow> 's saddr_state" where
  "mark_lan_restart D pEntry st = st\<lparr>sd_lan_not_restart := \<not> dl_neigh D (sa_Chaddr pEntry)\<rparr>"

definition CosaDmlDhcpsAddSaddr :: "('s, 'c, 'r) dhcp_libs \<Rightarrow> 's saddr_state \<Rightarrow> ULONG \<Rightarrow> COSA_DML_DHCPS_SADDR \<Rightarrow>
    ansc_status \<times> 's saddr_state" where
  "CosaDmlDhcpsAddSaddr D st ulPoolInstanceNumber pEntry =
     (if ulPoolInstanceNumber \<noteq> 1 then (ANSC_FAILURE, st)
      else if dhcp_saddr_invalid_addr pEntry then (ANSC_FAILURE, st)
      else if is_a_public_addr (ntohl (sa_Yiaddr pEntry)) then (ANSC_FAILURE, st)
      else
        let st1 = mark_lan_restart D pEntry st in
        (case ut_Init (lib_ut (dl_libs D)) (sd_store st1) of
           None \<Rightarrow> (ANSC_FAILURE, st1)
         | Some c \<Rightarrow> saddr_commit D st1 (dl_AddSAddress D c ulPoolInstanceNumber pEntry)))"

definition CosaDmlDhcpsDelSaddr :: "('s, 'c, 'r) dhcp_libs \<Rightarrow> 's saddr_state \<Rightarrow> ULONG \<Rightarrow> ULONG \<Rightarrow> ansc_status \<times> 's saddr_state" where
  "CosaDmlDhcpsDelSaddr D st ulPoolInstanceNumber ulInstanceNumber =
     (case ut_Init (lib_ut (dl_libs D)) (sd_store st) of
        None \<Rightarrow> (ANSC_FAILURE, st)
      | Some c \<Rightarrow> saddr_commit D st (dl_DelSAddress D c ulPoolInstanceNumber ulInstanceNumber))"

definition CosaDmlDhcpsSetSaddr :: "('s, 'c, 'r) dhcp_libs \<Rightarrow> 's saddr_state \<Rightarrow> ULONG \<Rightarrow> COSA_DML_DHCPS_SADDR \<Rightarrow>
    ansc_status \<times> 's saddr_state" where
  "CosaDmlDhcpsSetSaddr D st ulPoolInstanceNumber pEntry =
     (if ulPoolInstanceNumber \<noteq> 1 then (ANSC_FAILURE, st)
      else if dhcp_saddr_invalid_addr pEntry then (ANSC_FAILURE, st)
      else if is_a_public_addr (ntohl (sa_Yiaddr pEntry)) then (ANSC_FAILURE, st)
      else
        let st1 = mark_lan_restart D pEntry st in
        (case ut_Init (lib_ut (dl_libs D)) (sd_store st1) of
           None \<Rightarrow> (ANSC_FAILURE, st1)
         | Some c \<Rightarrow> saddr_commit D st1 (dl_SetSAddress D c ulPoolInstanceNumber pEntry)))"

text \<open>\<open>CosaDmlDhcpsGetPoolCfg\<close> for the pool 1, reduced to the two bounds of its range.\<close>

definition CosaDmlDhcpsGetPoolCfg_Lan :: "('s, 'c, 'r) dhcp_libs \<Rightarrow> 's saddr_state \<Rightarrow> ULONG \<times> ULONG \<Rightarrow> ansc_status \<times> ULONG \<times> ULONG" where
  "CosaDmlDhcpsGetPoolCfg_Lan D st pCfg =
     (case ut_Init (lib_ut (dl_libs D)) (sd_store st) of
        None \<Rightarrow> (ANSC_FAILURE, pCfg)
      | Some c \<Rightarrow> (case dl_ServerPoolCfg D c pCfg of (ok, cfg) \<Rightarrow> (if ok then ANSC_SUCCESS else ANSC_FAILURE, cfg)))"

section \<open>Loading the table\<close>

definition saddr_alias :: "ULONG \<Rightarrow> string" where
  "saddr_alias n = ''StaticAddress'' @ dec (unat n)"

definition next_saddr_number :: "ULONG \<Rightarrow> ULONG" where
  "next_saddr_number m = (if m + 1 = 0 then 1 else m + 1)"

text \<open>One round of the loop over the stored addresses; \<open>bNew\<close> is what the round writes to the new link: \<open>FALSE\<close> in
  \<open>CosaDhcpv4Initialize\<close>, \<open>TRUE\<close> in \<open>Dhcpv4_StaticClients_Synchronize\<close>. The result is whether the loop goes on.
  \<open>lnk_bFound\<close> is a field of the NAT links only.\<close>

definition load_one :: "('s, 'c, 'r) dhcp_libs \<Rightarrow> bool \<Rightarrow> ULONG \<Rightarrow> ULONG \<Rightarrow> 's saddr_state \<Rightarrow> bool \<times> 's saddr_state" where
  "load_one D bNew pool ulIndex2 st =
     (case alloc_block D st of
        (None, st1) \<Rightarrow> (False, st1)
      | (Some a, st1) \<Rightarrow>
          (case CosaDmlDhcpsGetSaddr D st1 pool ulIndex2 (DHCPV4_STATICADDRESS_SET_DEFAULTVALUE (dl_junk D a)) of
             (rs, e) \<Rightarrow>
               if \<not> ansc_ok rs then (False, st1)
               else (case alloc_block D st1 of
                   (None, st2) \<Rightarrow> (False, st2)
                 | (Some b, st2) \<Rightarrow>
                     if sa_InstanceNumber e = 0 then
                       let n = next_saddr_number (maxInstanceOfStaticAddress st2);
                           st3 = st2\<lparr>maxInstanceOfStaticAddress := n\<rparr>;
                           e1 = e\<lparr>sa_InstanceNumber := n, sa_Alias := saddr_alias n\<rparr> in
                       (case CosaDmlDhcpsSetSaddrValues D st3 pool ulIndex2 n (sa_Alias e1) of
                          (rs2, st4) \<Rightarrow>
                            if \<not> ansc_ok rs2 then (False, st4)
                            else (True, st4\<lparr>StaticAddressList := CosaSListPushEntryByInsNum (StaticAddressList st4)
                              \<lparr>lnk_addr = b, lnk_InstanceNumber = n, lnk_bNew = bNew, lnk_bFound = False, lnk_hContext = e1\<rparr>\<rparr>))
                     else
                       let st3 = (if maxInstanceOfStaticAddress st2 < sa_InstanceNumber e
                                  then st2\<lparr>maxInstanceOfStaticAddress := sa_InstanceNumber e\<rparr> else st2)
                       in (case CosaSListGetEntryByInsNum (StaticAddressList st3) (sa_InstanceNumber e) of
                             None \<Rightarrow>
                               (True, st3\<lparr>StaticAddressList := CosaSListPushEntryByInsNum (StaticAddressList st3)
                                 \<lparr>lnk_addr = b, lnk_InstanceNumber = sa_InstanceNumber e, lnk_bNew = bNew, lnk_bFound = False,
                                  lnk_hContext = e\<rparr>\<rparr>)
                           | Some l \<Rightarrow>
                               (True, st3\<lparr>StaticAddressList := put_link (StaticAddressList st3)
                                 (l\<lparr>lnk_hContext := e, lnk_bNew := False\<rparr>)\<rparr>)))))"

fun load_saddrs :: "('s, 'c, 'r) dhcp_libs \<Rightarrow> bool \<Rightarrow> ULONG \<Rightarrow> ULONG list \<Rightarrow> 's saddr_state \<Rightarrow> 's saddr_state" where
  "load_saddrs D bNew pool [] st = st"
| "load_saddrs D bNew pool (i # is) st =
     (case load_one D bNew pool i st of (goon, st1) \<Rightarrow> if goon then load_saddrs D bNew pool is st1 else st1)"

definition ulong_range :: "ULONG \<Rightarrow> ULONG list" where
  "ulong_range n = map of_nat [0 ..< unat n]"

text \<open>The part of \<open>CosaDhcpv4Initialize\<close> on the static addresses of a pool.\<close>

definition init_static_addresses :: "('s, 'c, 'r) dhcp_libs \<Rightarrow> 's saddr_state \<Rightarrow> 's saddr_state" where
  "init_static_addresses D st =
     load_saddrs D False (sd_Cfg_InstanceNumber st) (ulong_range (CosaDmlDhcpsGetNumberOfSaddr D st (sd_Cfg_InstanceNumber st))) st"

text \<open>Every link is popped; then the stored addresses are loaded.\<close>

definition Dhcpv4_StaticClients_Synchronize :: "('s, 'c, 'r) dhcp_libs \<Rightarrow> 's saddr_state \<Rightarrow> bool \<times> 's saddr_state" where
  "Dhcpv4_StaticClients_Synchronize D st =
     (if \<not> sd_hDhcpv4 st then (False, st)
      else if \<not> sd_has_pool st then (False, st)
      else
        let st1 = st\<lparr>StaticAddressList := [], maxInstanceOfStaticAddress := 0\<rparr>
        in (True, load_saddrs D True 1 (ulong_range (CosaDmlDhcpsGetNumberOfSaddr D st1 1)) st1))"

section \<open>The handlers\<close>

definition put_sa :: "'s saddr_state \<Rightarrow> COSA_DML_DHCPS_SADDR cosa_link \<Rightarrow> 's saddr_state" where
  "put_sa st l = st\<lparr>StaticAddressList := put_link (StaticAddressList st) l\<rparr>"

definition StaticAddress_GetEntryCount :: "'s saddr_state \<Rightarrow> ULONG" where
  "StaticAddress_GetEntryCount st = of_nat (length (StaticAddressList st))"

definition StaticAddress_GetEntry :: "'s saddr_state \<Rightarrow> ULONG \<Rightarrow> (nat \<times> ULONG) option" where
  "StaticAddress_GetEntry st nIndex =
     (case AnscSListGetEntryByIndex (StaticAddressList st) (unat nIndex) of
        None \<Rightarrow> None
      | Some l \<Rightarrow> Some (lnk_addr l, lnk_InstanceNumber l))"

definition COSA_DML_DHCPV4_STATICADDRESS_ACCESS_INTERVAL :: ULONG where
  "COSA_DML_DHCPV4_STATICADDRESS_ACCESS_INTERVAL = 10"

text \<open>\<open>now\<close> and \<open>now'\<close> are what the two calls of \<open>AnscGetTickInSeconds\<close> return.\<close>

definition StaticAddress_IsUpdated :: "ULONG \<Rightarrow> ULONG \<Rightarrow> 's saddr_state \<Rightarrow> bool \<times> 's saddr_state" where
  "StaticAddress_IsUpdated now now' st =
     (if now - sd_PreviousVisitTime st < COSA_DML_DHCPV4_STATICADDRESS_ACCESS_INTERVAL then (False, st)
      else (True, st\<lparr>sd_PreviousVisitTime := now'\<rparr>))"

definition StaticAddress_Synchronize :: "('s, 'c, 'r) dhcp_libs \<Rightarrow> 's saddr_state \<Rightarrow> ansc_status \<times> 's saddr_state" where
  "StaticAddress_Synchronize D st =
     (if \<not> sd_hDhcpv4 st then (ANSC_FAILURE, st)
      else if sd_syncStaticClientsTable st then
        (case Dhcpv4_StaticClients_Synchronize D st of
           (ok, st1) \<Rightarrow> (if ok then ANSC_SUCCESS else ANSC_FAILURE, st1\<lparr>sd_syncStaticClientsTable := False\<rparr>))
      else (ANSC_SUCCESS, st))"

definition StaticAddress_AddEntry :: "('s, 'c, 'r) dhcp_libs \<Rightarrow> 's saddr_state \<Rightarrow> (nat \<times> ULONG) option \<times> 's saddr_state" where
  "StaticAddress_AddEntry D st =
     (case alloc_block D st of
        (None, st1) \<Rightarrow> (None, st1)
      | (Some a, st1) \<Rightarrow>
          (case alloc_block D st1 of
             (None, st2) \<Rightarrow> (None, st2)
           | (Some b, st2) \<Rightarrow>
               let n = next_saddr_number (maxInstanceOfStaticAddress st2);
                   e = (DHCPV4_STATICADDRESS_SET_DEFAULTVALUE (dl_junk D a))\<lparr>sa_InstanceNumber := n, sa_Alias := saddr_alias n\<rparr>
               in (Some (b, n), st2\<lparr>maxInstanceOfStaticAddress := n,
                     StaticAddressList := CosaSListPushEntryByInsNum (StaticAddressList st2)
                       \<lparr>lnk_addr = b, lnk_InstanceNumber = n, lnk_bNew = True, lnk_bFound = False, lnk_hContext = e\<rparr>\<rparr>)))"

text \<open>\<open>busy\<close>: a blob request holds the mutex.\<close>

definition StaticAddress_DelEntry :: "('s, 'c, 'r) dhcp_libs \<Rightarrow> bool \<Rightarrow> 's saddr_state \<Rightarrow> COSA_DML_DHCPS_SADDR cosa_link \<Rightarrow>
    ansc_status \<times> 's saddr_state" where
  "StaticAddress_DelEntry D busy st l =
     (if busy then (ANSC_FAILURE, st)
      else (case (if \<not> lnk_bNew l then CosaDmlDhcpsDelSaddr D st (sd_Cfg_InstanceNumber st) (sa_InstanceNumber (lnk_hContext l))
                  else (ANSC_SUCCESS, st)) of
          (rs, st1) \<Rightarrow>
            if \<not> ansc_ok rs then (rs, st1)
            else (rs, st1\<lparr>StaticAddressList := AnscSListPopEntryByLink (StaticAddressList st1) (lnk_addr l)\<rparr>)))"

definition StaticAddress_GetParamBoolValue :: "COSA_DML_DHCPS_SADDR cosa_link \<Rightarrow> string \<Rightarrow> bool option" where
  "StaticAddress_GetParamBoolValue l ParamName = (if ParamName = ''Enable'' then Some (sa_bEnabled (lnk_hContext l)) else None)"

definition StaticAddress_GetParamUlongValue :: "COSA_DML_DHCPS_SADDR cosa_link \<Rightarrow> string \<Rightarrow> ULONG option" where
  "StaticAddress_GetParamUlongValue l ParamName = (if ParamName = ''Yiaddr'' then Some (sa_Yiaddr (lnk_hContext l)) else None)"

text \<open>\<open>update_pValue\<close> and \<open>%02x\<close>.\<close>

definition update_pValue :: "string \<Rightarrow> ULONG \<Rightarrow> string \<Rightarrow> ULONG \<times> string \<times> ULONG" where
  "update_pValue pValue pulSize str =
     (if length str < unat pulSize then (0, str, pulSize) else (1, pValue, of_nat (length str) + 1))"

definition hex_digit :: "nat \<Rightarrow> char" where
  "hex_digit n = ''0123456789abcdef'' ! n"

definition hex_byte :: "UCHAR \<Rightarrow> string" where
  "hex_byte b = [hex_digit (unat b div 16), hex_digit (unat b mod 16)]"

fun mac_string :: "UCHAR list \<Rightarrow> string" where
  "mac_string [] = []"
| "mac_string [b] = hex_byte b"
| "mac_string (b # c # bs) = hex_byte b @ CHR '':'' # mac_string (c # bs)"

definition StaticAddress_GetParamStringValue :: "COSA_DML_DHCPS_SADDR cosa_link \<Rightarrow> string \<Rightarrow> string \<Rightarrow> ULONG \<Rightarrow>
    ULONG \<times> string \<times> ULONG" where
  "StaticAddress_GetParamStringValue l ParamName pValue pUlSize =
     (let e = lnk_hContext l in
      if ParamName = ''Alias'' then update_pValue pValue pUlSize (sa_Alias e)
      else if ParamName = ''Chaddr'' then
        (if 6 \<le> pUlSize then
           (case sprintf_s (unat pUlSize) (mac_string (sa_Chaddr e)) of Some s \<Rightarrow> (0, s, pUlSize) | None \<Rightarrow> (- 1, [], pUlSize))
         else (1, pValue, 6))
      else if ParamName = ''X_CISCO_COM_DeviceName'' then update_pValue pValue pUlSize (sa_DeviceName e)
      else if ParamName = ''X_CISCO_COM_Comment'' then update_pValue pValue pUlSize (sa_Comment e)
      else (- 1, pValue, pUlSize))"

definition StaticAddress_SetParamBoolValue :: "('s, 'c, 'r) dhcp_libs \<Rightarrow> 's saddr_state \<Rightarrow> COSA_DML_DHCPS_SADDR cosa_link \<Rightarrow>
    string \<Rightarrow> bool \<Rightarrow> bool \<times> 's saddr_state" where
  "StaticAddress_SetParamBoolValue D st l ParamName bValue =
     (if snd (is_usg_in_bridge_mode (dl_libs D)) then (False, st)
      else if ParamName = ''Enable'' then (True, put_sa st (l\<lparr>lnk_hContext := (lnk_hContext l)\<lparr>sa_bEnabled := bValue\<rparr>\<rparr>))
      else (False, st))"

text \<open>The result of \<open>CosaDmlDhcpsGetPoolCfg\<close> is not looked at.\<close>

definition StaticAddress_SetParamUlongValue :: "('s, 'c, 'r) dhcp_libs \<Rightarrow> 's saddr_state \<Rightarrow> COSA_DML_DHCPS_SADDR cosa_link \<Rightarrow>
    string \<Rightarrow> ULONG \<Rightarrow> bool \<times> 's saddr_state" where
  "StaticAddress_SetParamUlongValue D st l ParamName uValue =
     (if bridge_blocked (dl_libs D) then (False, st)
      else if ParamName = ''Yiaddr'' then
        (case CosaDmlDhcpsGetPoolCfg_Lan D st (dl_junk_cfg D) of
           (_, MinAddress, MaxAddress) \<Rightarrow>
             if ntohl uValue < ntohl MinAddress \<or> ntohl uValue > ntohl MaxAddress then (False, st)
             else (True, put_sa st (l\<lparr>lnk_hContext := (lnk_hContext l)\<lparr>sa_Yiaddr := uValue\<rparr>\<rparr>)))
      else (False, st))"

section \<open>Texts of addresses\<close>

text \<open>\<open>%x\<close> of \<open>sscanf\<close>: white space, a sign, a prefix, digits; a value that does not fit is the largest one, as \<open>strtoul\<close>
  does. The result has the rest of the text.\<close>

definition hex_val :: "char \<Rightarrow> nat" where
  "hex_val c = (let n = of_char c :: nat in if n < 58 then n - 48 else if n < 71 then n - 55 else n - 87)"

fun hex_number :: "nat \<Rightarrow> string \<Rightarrow> nat" where
  "hex_number acc [] = acc"
| "hex_number acc (c # cs) = hex_number (16 * acc + hex_val c) cs"

definition scan_digits :: "string \<Rightarrow> (nat \<times> string) option" where
  "scan_digits s = (if takeWhile isxdigit s = [] then None else Some (hex_number 0 (takeWhile isxdigit s), dropWhile isxdigit s))"

definition scan_unsigned :: "string \<Rightarrow> (nat \<times> string) option" where
  "scan_unsigned s =
     (if take 2 s = ''0x'' \<or> take 2 s = ''0X'' then scan_digits (drop 2 s) else scan_digits s)"

definition scan_hex :: "string \<Rightarrow> (32 word \<times> string) option" where
  "scan_hex s0 =
     (let s = dropWhile isspace s0;
          neg = (s \<noteq> [] \<and> hd s = CHR ''-'');
          r = (if s \<noteq> [] \<and> (hd s = CHR ''-'' \<or> hd s = CHR ''+'') then tl s else s)
      in map_option (\<lambda>(n, rest). (if n \<ge> 2 ^ 32 then - 1 else if neg then - of_nat n else of_nat n, rest)) (scan_unsigned r))"

text \<open>Up to \<open>n\<close> numbers with colons between them: those that were read, and the rest after the last of them.\<close>

fun scan_hexes :: "nat \<Rightarrow> string \<Rightarrow> 32 word list \<times> string" where
  "scan_hexes 0 s = ([], s)"
| "scan_hexes (Suc n) s =
     (case scan_hex s of
        None \<Rightarrow> ([], s)
      | Some (v, r) \<Rightarrow>
          (case r of
             c # r' \<Rightarrow> if n \<noteq> 0 \<and> c = CHR '':'' then (case scan_hexes n r' of (vs, rest) \<Rightarrow> (v # vs, rest)) else ([v], r)
           | [] \<Rightarrow> ([v], r)))"

definition StaticAddress_SetParamStringValue :: "('s, 'c, 'r) dhcp_libs \<Rightarrow> 's saddr_state \<Rightarrow> COSA_DML_DHCPS_SADDR cosa_link \<Rightarrow>
    string \<Rightarrow> string \<Rightarrow> bool \<times> 's saddr_state" where
  "StaticAddress_SetParamStringValue D st l ParamName pString =
     (let e = lnk_hContext l; copy = lib_noclobber (dl_libs D) in
      if bridge_blocked (dl_libs D) then (False, st)
      else if ParamName = ''Alias'' then
        (case copy COSA_DML_ALIAS_NAME_LENGTH (sa_Alias e) pString of
           (ok, new) \<Rightarrow>
             let st1 = put_sa st (l\<lparr>lnk_hContext := e\<lparr>sa_Alias := new\<rparr>\<rparr>) in
             if \<not> ok then (False, st1)
             else (case copy COSA_DML_DHCPV4_ALIAS (AliasOfStaAddr st1) new of
                 (ok2, saved) \<Rightarrow> (ok2, st1\<lparr>AliasOfStaAddr := saved\<rparr>)))
      else if ParamName = ''Chaddr'' then
        (if \<not> dl_AnscValidStringCheck D pString then (False, st)
         else (case scan_hexes 6 pString of
             (chAddr, rest) \<Rightarrow>
               if length chAddr \<noteq> 6 then (False, st)
               else if bit (chAddr ! 0) 0 \<or> chAddr = replicate 6 0 then (False, st)
               else (True, put_sa st (l\<lparr>lnk_hContext := e\<lparr>sa_Chaddr := map ucast chAddr\<rparr>\<rparr>))))
      else if ParamName = ''X_CISCO_COM_DeviceName'' then
        (if length pString < COSA_DML_ALIAS_NAME_LENGTH - 1 then
           (case copy COSA_DML_ALIAS_NAME_LENGTH (sa_DeviceName e) pString of
              (ok, v) \<Rightarrow> (ok, put_sa st (l\<lparr>lnk_hContext := e\<lparr>sa_DeviceName := v\<rparr>\<rparr>)))
         else (False, st))
      else if ParamName = ''X_CISCO_COM_Comment'' then
        (if length pString < SADDR_COMMENT_SIZE then
           (case copy SADDR_COMMENT_SIZE (sa_Comment e) pString of
              (ok, v) \<Rightarrow> (ok, put_sa st (l\<lparr>lnk_hContext := e\<lparr>sa_Comment := v\<rparr>\<rparr>)))
         else (False, st))
      else (False, st))"

text \<open>Reading a stored text: six numbers, and the word after a comma, which goes into 16 bytes; \<open>None\<close> is a write beyond
  them. The word is then cut at its first comma. Numbers that were not read are 0.\<close>

definition scan_host :: "string \<Rightarrow> (32 word list \<times> string) option" where
  "scan_host buf =
     (case scan_hexes 6 buf of
        (chAddr, rest) \<Rightarrow>
          let wd = (if length chAddr = 6 \<and> rest \<noteq> [] \<and> hd rest = CHR '',''
                    then takeWhile (\<lambda>c. \<not> isspace c) (dropWhile isspace (tl rest)) else [])
          in if \<not> length wd < 16 then None
             else Some (chAddr @ replicate (6 - length chAddr) 0, takeWhile (\<lambda>c. c \<noteq> CHR '','') wd))"

text \<open>The loop of \<open>StaticAddress_Validate\<close> over the hosts, with the text of the last instance number that was found.\<close>

fun validate_hosts :: "('s, 'c, 'r) dhcp_libs \<Rightarrow> 's \<Rightarrow> COSA_DML_DHCPS_SADDR \<Rightarrow> string \<Rightarrow> nat list \<Rightarrow> bool option" where
  "validate_hosts D db e insNum [] = Some True"
| "validate_hosts D db e insNum (host # hosts) =
     (case dl_get D db (snprintf 64 (''dhcp_static_host_'' @ dec host)) 64 of
        None \<Rightarrow> validate_hosts D db e insNum hosts
      | Some buf \<Rightarrow>
          let insNum1 = (case dl_get D db (snprintf 64 (''dhcp_static_host_insNum_'' @ dec host)) 5 of Some x \<Rightarrow> x | None \<Rightarrow> insNum) in
          if sa_InstanceNumber e \<noteq> word_of_int (atoi insNum1) then
            (case scan_host buf of
               None \<Rightarrow> None
             | Some (chAddr, ip_addr_str) \<Rightarrow>
                 if sa_Yiaddr e = lib_inet_addr (dl_libs D) ip_addr_str then Some False
                 else if map ucast (sa_Chaddr e) = chAddr then Some False
                 else validate_hosts D db e insNum1 hosts)
          else validate_hosts D db e insNum1 hosts)"

definition StaticAddress_Validate :: "('s, 'c, 'r) dhcp_libs \<Rightarrow> 's saddr_state \<Rightarrow> COSA_DML_DHCPS_SADDR cosa_link \<Rightarrow> bool option" where
  "StaticAddress_Validate D st l =
     (let hostCount = (case dl_get D (sd_store st) ''dhcp_num_static_hosts'' 5 of Some x \<Rightarrow> x | None \<Rightarrow> [])
      in validate_hosts D (sd_store st) (lnk_hContext l) [] (map Suc [0 ..< nat (atoi hostCount)]))"

section \<open>Commit and rollback\<close>

text \<open>The last part of both outcomes of \<open>StaticAddress_Commit\<close>.\<close>

definition commit_end :: "ansc_status \<times> 's saddr_state \<Rightarrow> ansc_status \<times> 's saddr_state" where
  "commit_end r = (fst r, (snd r)\<lparr>AliasOfStaAddr := []\<rparr>)"

definition StaticAddress_Commit :: "('s, 'c, 'r) dhcp_libs \<Rightarrow> bool \<Rightarrow> 's saddr_state \<Rightarrow> COSA_DML_DHCPS_SADDR cosa_link \<Rightarrow>
    ansc_status \<times> 's saddr_state" where
  "StaticAddress_Commit D busy st l =
     (let e = lnk_hContext l; pool = sd_Cfg_InstanceNumber st in
      if busy then (ANSC_FAILURE, st)
      else if lnk_bNew l then
        (if \<not> sa_bEnabled e then (ANSC_SUCCESS, put_sa st (l\<lparr>lnk_hContext := e\<lparr>sa_ActiveFlag := False\<rparr>\<rparr>))
         else (case CosaDmlDhcpsAddSaddr D st pool e of
             (rs, st1) \<Rightarrow>
               commit_end (rs,
                 if rs = ANSC_SUCCESS then put_sa st1 (l\<lparr>lnk_bNew := False, lnk_hContext := e\<lparr>sa_ActiveFlag := True\<rparr>\<rparr>)
                 else if AliasOfStaAddr st1 \<noteq> [] then
                   put_sa st1 (l\<lparr>lnk_hContext := e\<lparr>sa_Alias :=
                     snd (lib_noclobber (dl_libs D) COSA_DML_ALIAS_NAME_LENGTH (sa_Alias e) (AliasOfStaAddr st1))\<rparr>\<rparr>)
                 else st1)))
      else if sa_ActiveFlag e then
        (if \<not> sa_bEnabled e then
           (case CosaDmlDhcpsDelSaddr D st pool (sa_InstanceNumber e) of
              (rs, st1) \<Rightarrow>
                commit_end (rs, if rs = ANSC_SUCCESS then put_sa st1 (l\<lparr>lnk_hContext := e\<lparr>sa_ActiveFlag := False\<rparr>\<rparr>) else st1))
         else commit_end (CosaDmlDhcpsSetSaddr D st pool e))
      else if \<not> sa_bEnabled e then (ANSC_SUCCESS, st)
      else (case CosaDmlDhcpsAddSaddr D st pool e of
          (rs, st1) \<Rightarrow>
            commit_end (rs, if rs = ANSC_SUCCESS then put_sa st1 (l\<lparr>lnk_hContext := e\<lparr>sa_ActiveFlag := True\<rparr>\<rparr>) else st1)))"

text \<open>The number handed to \<open>CosaDmlDhcpsGetSaddrbyInsNum\<close> is that of the pool.\<close>

definition StaticAddress_Rollback :: "('s, 'c, 'r) dhcp_libs \<Rightarrow> 's saddr_state \<Rightarrow> COSA_DML_DHCPS_SADDR cosa_link \<Rightarrow>
    ansc_status \<times> 's saddr_state" where
  "StaticAddress_Rollback D st l =
     (let e = (if AliasOfStaAddr st \<noteq> []
               then (lnk_hContext l)\<lparr>sa_Alias := snd (lib_noclobber (dl_libs D) COSA_DML_ALIAS_NAME_LENGTH (sa_Alias (lnk_hContext l)) (AliasOfStaAddr st))\<rparr>
               else lnk_hContext l);
          e1 = (if \<not> lnk_bNew l then snd (CosaDmlDhcpsGetSaddrbyInsNum D st (sd_Cfg_InstanceNumber st) e)
                else DHCPV4_STATICADDRESS_SET_DEFAULTVALUE e)
      in (ANSC_SUCCESS, (put_sa st (l\<lparr>lnk_hContext := e1\<rparr>))\<lparr>AliasOfStaAddr := []\<rparr>))"

end
