(* ===== verification/Dhcp_Saddr_Table.thy ===== *)
theory Dhcp_Saddr_Table
  imports Dhcp_Saddr Nat_Numbers
begin

text \<open>
  The table of static addresses as a state machine: the invariant that its operations keep, the step relation over the
  operations, and what the two load loops leave in the table.
\<close>

section \<open>The invariant\<close>

text \<open>Numbers ascend strictly and none is 0, links are different blocks and carry the number of their entry, and no
  number is above the counter.\<close>

definition saddr_inv :: "'s saddr_state \<Rightarrow> bool" where
  "saddr_inv st \<longleftrightarrow> links_ok sa_InstanceNumber (sd_allocs st) (StaticAddressList st) \<and>
     (\<forall>x \<in> set (StaticAddressList st). lnk_InstanceNumber x \<le> maxInstanceOfStaticAddress st)"

lemma saddr_inv_cong:
  "StaticAddressList st' = StaticAddressList st \<Longrightarrow> maxInstanceOfStaticAddress st' = maxInstanceOfStaticAddress st \<Longrightarrow>
     sd_allocs st \<le> sd_allocs st' \<Longrightarrow> saddr_inv st \<Longrightarrow> saddr_inv st'"
  by (auto simp: saddr_inv_def intro: links_ok_mono)

lemma saddr_inv_updates [simp]:
  "saddr_inv (st\<lparr>AliasOfStaAddr := a\<rparr>) = saddr_inv st" "saddr_inv (st\<lparr>sd_store := s\<rparr>) = saddr_inv st"
  "saddr_inv (st\<lparr>sd_lan_not_restart := b\<rparr>) = saddr_inv st" "saddr_inv (st\<lparr>sd_syncStaticClientsTable := b\<rparr>) = saddr_inv st"
  "saddr_inv (st\<lparr>sd_PreviousVisitTime := t\<rparr>) = saddr_inv st"
  by (simp_all add: saddr_inv_def)

lemma saddr_inv_put:
  assumes "saddr_inv st" "link_at (StaticAddressList st) (lnk_addr l') = Some l"
    "lnk_InstanceNumber l' = lnk_InstanceNumber l" "sa_InstanceNumber (lnk_hContext l') = sa_InstanceNumber (lnk_hContext l)"
  shows "saddr_inv (put_sa st l')"
proof -
  have "l \<in> set (StaticAddressList st)" using link_at_Some [OF assms(2)] by simp
  then have "lnk_InstanceNumber x \<le> maxInstanceOfStaticAddress st" if "x \<in> set (put_link (StaticAddressList st) l')" for x
    using that assms(1,3) by (auto simp: put_link_def saddr_inv_def split: if_split_asm)
  with assms show ?thesis by (auto simp: saddr_inv_def put_sa_def intro: links_ok_put)
qed

lemma put_sa_fields [simp]:
  "sd_allocs (put_sa st l) = sd_allocs st" "maxInstanceOfStaticAddress (put_sa st l) = maxInstanceOfStaticAddress st"
  "sd_store (put_sa st l) = sd_store st" "AliasOfStaAddr (put_sa st l) = AliasOfStaAddr st"
  "StaticAddressList (put_sa st l) = put_link (StaticAddressList st) l" "sd_Cfg_InstanceNumber (put_sa st l) = sd_Cfg_InstanceNumber st"
  by (simp_all add: put_sa_def)

lemma ULONG_succ: "m \<noteq> - 1 \<Longrightarrow> m < m + 1" for m :: ULONG
  by (metis add.commute eq_neg_iff_add_eq_0 lessI unatSuc word_less_nat_alt)

lemma next_saddr_number_fresh:
  assumes "saddr_inv st" "maxInstanceOfStaticAddress st \<noteq> - 1"
  shows "next_saddr_number (maxInstanceOfStaticAddress st) = maxInstanceOfStaticAddress st + 1"
    "maxInstanceOfStaticAddress st + 1 \<noteq> 0"
    "CosaSListGetEntryByInsNum (StaticAddressList st) (maxInstanceOfStaticAddress st + 1) = None"
proof -
  note lt = ULONG_succ [OF assms(2)]
  then show z: "maxInstanceOfStaticAddress st + 1 \<noteq> 0" by (metis word_not_simps(1))
  then show "next_saddr_number (maxInstanceOfStaticAddress st) = maxInstanceOfStaticAddress st + 1"
    by (simp add: next_saddr_number_def)
  show "CosaSListGetEntryByInsNum (StaticAddressList st) (maxInstanceOfStaticAddress st + 1) = None"
    using assms(1) lt unfolding cosa.get_None by (force simp: saddr_inv_def)
qed

lemma saddr_inv_push:
  assumes "saddr_inv st" "CosaSListGetEntryByInsNum (StaticAddressList st) (lnk_InstanceNumber x) = None"
    "lnk_InstanceNumber x \<noteq> 0" "sa_InstanceNumber (lnk_hContext x) = lnk_InstanceNumber x"
    "sd_allocs st \<le> lnk_addr x" "lnk_addr x < k" "lnk_InstanceNumber x \<le> m" "maxInstanceOfStaticAddress st \<le> m"
    and "StaticAddressList st' = CosaSListPushEntryByInsNum (StaticAddressList st) x" "maxInstanceOfStaticAddress st' = m" "sd_allocs st' = k"
  shows "saddr_inv st'"
  using assms unfolding saddr_inv_def by (auto intro: links_ok_push_fresh order_trans)

section \<open>The board layer leaves the table alone\<close>

lemma saddr_commit_fields [simp]:
  "StaticAddressList (snd (saddr_commit D st r)) = StaticAddressList st"
  "maxInstanceOfStaticAddress (snd (saddr_commit D st r)) = maxInstanceOfStaticAddress st"
  "sd_allocs (snd (saddr_commit D st r)) = sd_allocs st"
  "AliasOfStaAddr (snd (saddr_commit D st r)) = AliasOfStaAddr st"
  "sd_Cfg_InstanceNumber (snd (saddr_commit D st r)) = sd_Cfg_InstanceNumber st"
  by (simp_all add: saddr_commit_def split: prod.split)

lemma mark_lan_restart_fields [simp]:
  "StaticAddressList (mark_lan_restart D e st) = StaticAddressList st"
  "maxInstanceOfStaticAddress (mark_lan_restart D e st) = maxInstanceOfStaticAddress st"
  "sd_allocs (mark_lan_restart D e st) = sd_allocs st" "AliasOfStaAddr (mark_lan_restart D e st) = AliasOfStaAddr st"
  "sd_store (mark_lan_restart D e st) = sd_store st"
  by (simp_all add: mark_lan_restart_def)

definition same_table :: "'s saddr_state \<Rightarrow> 's saddr_state \<Rightarrow> bool" where
  "same_table st st' \<longleftrightarrow> StaticAddressList st' = StaticAddressList st \<and> maxInstanceOfStaticAddress st' = maxInstanceOfStaticAddress st \<and>
     sd_allocs st' = sd_allocs st \<and> AliasOfStaAddr st' = AliasOfStaAddr st"

lemma same_table_refl [simp]: "same_table st st"
  by (simp add: same_table_def)

lemma saddr_board_same_table:
  "same_table st (snd (CosaDmlDhcpsAddSaddr D st p e))" "same_table st (snd (CosaDmlDhcpsSetSaddr D st p e))"
  "same_table st (snd (CosaDmlDhcpsDelSaddr D st p n))" "same_table st (snd (CosaDmlDhcpsSetSaddrValues D st p i n a))"
  by (auto simp: same_table_def CosaDmlDhcpsAddSaddr_def CosaDmlDhcpsSetSaddr_def CosaDmlDhcpsDelSaddr_def
      CosaDmlDhcpsSetSaddrValues_def Let_def split: option.split)

lemma same_table_inv: "same_table st st' \<Longrightarrow> saddr_inv st \<Longrightarrow> saddr_inv st'"
  by (rule saddr_inv_cong) (simp_all add: same_table_def)

section \<open>Operations keep the invariant\<close>

lemma AddEntry_inv:
  assumes "saddr_inv st" "maxInstanceOfStaticAddress st \<noteq> - 1"
  shows "saddr_inv (snd (StaticAddress_AddEntry D st))"
proof (cases "lib_alloc (dl_libs D) (sd_allocs st) \<and> lib_alloc (dl_libs D) (Suc (sd_allocs st))")
  case False
  then show ?thesis
    using assms(1) by (auto simp: StaticAddress_AddEntry_def alloc_block_def intro: saddr_inv_cong)
next
  case True
  note n = next_saddr_number_fresh [OF assms]
  let ?st' = "snd (StaticAddress_AddEntry D st)"
  have shape: "\<exists>e. StaticAddressList ?st' = CosaSListPushEntryByInsNum (StaticAddressList st)
        \<lparr>lnk_addr = Suc (sd_allocs st), lnk_InstanceNumber = maxInstanceOfStaticAddress st + 1, lnk_bNew = True, lnk_bFound = False, lnk_hContext = e\<rparr>
      \<and> sa_InstanceNumber e = maxInstanceOfStaticAddress st + 1"
    "maxInstanceOfStaticAddress ?st' = maxInstanceOfStaticAddress st + 1" "sd_allocs ?st' = Suc (Suc (sd_allocs st))"
    using True by (auto simp: StaticAddress_AddEntry_def alloc_block_def Let_def n(1))
  then obtain x where "StaticAddressList ?st' = CosaSListPushEntryByInsNum (StaticAddressList st) x"
    "lnk_addr x = Suc (sd_allocs st)" "lnk_InstanceNumber x = maxInstanceOfStaticAddress st + 1"
    "sa_InstanceNumber (lnk_hContext x) = lnk_InstanceNumber x" by fastforce
  then show ?thesis
    by (intro saddr_inv_push [where st' = ?st' and x = x, OF assms(1)])
      (use n ULONG_succ [OF assms(2)] shape(2,3) in \<open>simp_all add: less_imp_le\<close>)
qed

lemma DelEntry_inv:
  assumes "saddr_inv st"
  shows "saddr_inv (snd (StaticAddress_DelEntry D busy st l))"
proof -
  let ?r = "if \<not> lnk_bNew l then CosaDmlDhcpsDelSaddr D st (sd_Cfg_InstanceNumber st) (sa_InstanceNumber (lnk_hContext l)) else (ANSC_SUCCESS, st)"
  have "same_table st (snd ?r)" by (simp add: saddr_board_same_table)
  then have "saddr_inv (snd ?r)" using assms by (rule same_table_inv)
  then show ?thesis
    using assms by (auto simp: StaticAddress_DelEntry_def saddr_inv_def AnscSListPopEntryByLink_def links_ok_filter
        split: prod.split if_split_asm)
qed

lemmas saddr_setters = StaticAddress_SetParamBoolValue_def StaticAddress_SetParamUlongValue_def StaticAddress_SetParamStringValue_def

text \<open>A setter replaces the entry of its link and keeps the number of the entry.\<close>

definition entry_changed :: "COSA_DML_DHCPS_SADDR cosa_link \<Rightarrow> 's saddr_state \<Rightarrow> 's saddr_state \<Rightarrow> bool" where
  "entry_changed l st st' \<longleftrightarrow> (\<exists>st1 a. same_table st st1 \<and>
     (st' = st1\<lparr>AliasOfStaAddr := a\<rparr> \<or>
      (\<exists>e b. sa_InstanceNumber e = sa_InstanceNumber (lnk_hContext l) \<and>
         st' = (put_sa st1 (l\<lparr>lnk_bNew := b, lnk_hContext := e\<rparr>))\<lparr>AliasOfStaAddr := a\<rparr>)))"

lemma entry_changed_inv:
  assumes "saddr_inv st" "link_at (StaticAddressList st) (lnk_addr l) = Some l" "entry_changed l st st'"
  shows "saddr_inv st'"
  using assms(3) unfolding entry_changed_def
proof (elim disjE exE conjE)
  fix st1 a assume "same_table st st1" "st' = st1\<lparr>AliasOfStaAddr := a\<rparr>"
  with assms(1) same_table_inv show ?thesis by simp
next
  fix e a st1 b
  assume st1: "same_table st st1" and e: "sa_InstanceNumber e = sa_InstanceNumber (lnk_hContext l)"
    and st': "st' = (put_sa st1 (l\<lparr>lnk_bNew := b, lnk_hContext := e\<rparr>))\<lparr>AliasOfStaAddr := a\<rparr>"
  have "saddr_inv (put_sa st1 (l\<lparr>lnk_bNew := b, lnk_hContext := e\<rparr>))"
    by (rule saddr_inv_put [where l = l]) (use assms(1,2) st1 e same_table_inv in \<open>auto simp: same_table_def\<close>)
  then show ?thesis by (simp add: st')
qed

lemma entry_changed_alias:
  "same_table st st1 \<Longrightarrow> sa_InstanceNumber e = sa_InstanceNumber (lnk_hContext l) \<Longrightarrow>
     entry_changed l st ((put_sa st1 (l\<lparr>lnk_bNew := b, lnk_hContext := e\<rparr>))\<lparr>AliasOfStaAddr := a\<rparr>)"
  unfolding entry_changed_def by blast

lemma entry_changed_put:
  fixes st :: "'s saddr_state"
  assumes "same_table st st1" "sa_InstanceNumber e = sa_InstanceNumber (lnk_hContext l)"
  shows "entry_changed l st (put_sa st1 (l\<lparr>lnk_hContext := e\<rparr>))"
    "entry_changed l st ((put_sa st1 (l\<lparr>lnk_hContext := e\<rparr>))\<lparr>AliasOfStaAddr := a\<rparr>)"
proof -
  have upd: "entry_changed l st ((put_sa st1 (l\<lparr>lnk_hContext := e\<rparr>))\<lparr>AliasOfStaAddr := x\<rparr>)" for x
    using entry_changed_alias [OF assms, where b = "lnk_bNew l" and a = x] by simp
  have eta: "t\<lparr>AliasOfStaAddr := AliasOfStaAddr t\<rparr> = t" for t :: "'s saddr_state" by simp
  from upd show "entry_changed l st ((put_sa st1 (l\<lparr>lnk_hContext := e\<rparr>))\<lparr>AliasOfStaAddr := a\<rparr>)" .
  from upd [of "AliasOfStaAddr (put_sa st1 (l\<lparr>lnk_hContext := e\<rparr>))"]
  show "entry_changed l st (put_sa st1 (l\<lparr>lnk_hContext := e\<rparr>))" unfolding eta .
qed

lemma entry_changed_same:
  assumes "same_table st st1"
  shows "entry_changed l st st1" "entry_changed l st (st1\<lparr>AliasOfStaAddr := a\<rparr>)"
proof -
  have upd: "entry_changed l st (st1\<lparr>AliasOfStaAddr := x\<rparr>)" for x
    unfolding entry_changed_def using assms by blast
  from upd show "entry_changed l st (st1\<lparr>AliasOfStaAddr := a\<rparr>)" .
  from upd [of "AliasOfStaAddr st1"] show "entry_changed l st st1" by simp
qed

text \<open>Rules that follow the branches of a handler.\<close>

lemma entry_changed_if:
  "entry_changed l st (snd a) \<Longrightarrow> entry_changed l st (snd b) \<Longrightarrow> entry_changed l st (snd (if c then a else b))"
  by simp

lemma entry_changed_upd_if:
  "entry_changed l st (x\<lparr>AliasOfStaAddr := a\<rparr>) \<Longrightarrow> entry_changed l st (y\<lparr>AliasOfStaAddr := a\<rparr>) \<Longrightarrow>
     entry_changed l st ((if c then x else y)\<lparr>AliasOfStaAddr := a\<rparr>)"
  by simp

lemma entry_changed_pair: "entry_changed l st s \<Longrightarrow> entry_changed l st (snd (r, s))"
  by simp

lemma entry_changed_case:
  "(\<And>x y. entry_changed l st (snd (f x y))) \<Longrightarrow> entry_changed l st (snd (case p of (x, y) \<Rightarrow> f x y))"
  by (simp split: prod.split)

lemma entry_changed_board:
  "same_table st (snd p) \<Longrightarrow> (\<And>x y. same_table st y \<Longrightarrow> entry_changed l st (snd (f x y))) \<Longrightarrow>
     entry_changed l st (snd (case p of (x, y) \<Rightarrow> f x y))"
  by (cases p) simp

lemma entry_changed_end: "entry_changed l st ((snd r)\<lparr>AliasOfStaAddr := []\<rparr>) \<Longrightarrow> entry_changed l st (snd (commit_end r))"
  by (simp add: commit_end_def)

lemmas entry_changed_rules = entry_changed_if entry_changed_upd_if entry_changed_pair entry_changed_end entry_changed_put
  entry_changed_alias entry_changed_same

lemma setters_entry_changed:
  "entry_changed l st (snd (StaticAddress_SetParamBoolValue D st l p b))"
  "entry_changed l st (snd (StaticAddress_SetParamUlongValue D st l p u))"
  "entry_changed l st (snd (StaticAddress_SetParamStringValue D st l p s))"
  unfolding saddr_setters Let_def
  by (intro entry_changed_rules entry_changed_case; simp)+

lemma Commit_entry_changed: "entry_changed l st (snd (StaticAddress_Commit D busy st l))"
  unfolding StaticAddress_Commit_def Let_def
  by (intro entry_changed_if entry_changed_upd_if entry_changed_pair entry_changed_board saddr_board_same_table entry_changed_end
      entry_changed_put entry_changed_alias) (simp_all add: entry_changed_same saddr_board_same_table entry_changed_put entry_changed_alias)

section \<open>The load loops\<close>

text \<open>What one round does to the table: nothing, or a new link under the next number or under the number that was read, or
  a new entry in the link that had this number.\<close>

definition loaded :: "bool \<Rightarrow> COSA_DML_DHCPS_SADDR \<Rightarrow> 's saddr_state \<Rightarrow> 's saddr_state \<Rightarrow> bool" where
  "loaded bNew e st st' \<longleftrightarrow> sd_allocs st' = Suc (Suc (sd_allocs st)) \<and>
     (\<exists>x. lnk_bNew x = bNew \<and> lnk_addr x = Suc (sd_allocs st) \<and> sa_InstanceNumber (lnk_hContext x) = lnk_InstanceNumber x \<and>
        StaticAddressList st' = CosaSListPushEntryByInsNum (StaticAddressList st) x \<and>
        (sa_InstanceNumber e = 0 \<and> lnk_InstanceNumber x = next_saddr_number (maxInstanceOfStaticAddress st) \<and>
           lnk_hContext x = e\<lparr>sa_InstanceNumber := lnk_InstanceNumber x, sa_Alias := saddr_alias (lnk_InstanceNumber x)\<rparr> \<and>
           maxInstanceOfStaticAddress st' = lnk_InstanceNumber x \<or>
         sa_InstanceNumber e \<noteq> 0 \<and> lnk_InstanceNumber x = sa_InstanceNumber e \<and> lnk_hContext x = e \<and>
           CosaSListGetEntryByInsNum (StaticAddressList st) (sa_InstanceNumber e) = None \<and> sd_store st' = sd_store st \<and>
           maxInstanceOfStaticAddress st' = max (maxInstanceOfStaticAddress st) (sa_InstanceNumber e)))"

definition reloaded :: "COSA_DML_DHCPS_SADDR \<Rightarrow> 's saddr_state \<Rightarrow> 's saddr_state \<Rightarrow> bool" where
  "reloaded e st st' \<longleftrightarrow> sd_allocs st' = Suc (Suc (sd_allocs st)) \<and> sa_InstanceNumber e \<noteq> 0 \<and>
     (\<exists>l. CosaSListGetEntryByInsNum (StaticAddressList st) (sa_InstanceNumber e) = Some l \<and>
        StaticAddressList st' = put_link (StaticAddressList st) (l\<lparr>lnk_hContext := e, lnk_bNew := False\<rparr>)) \<and>
     maxInstanceOfStaticAddress st' = max (maxInstanceOfStaticAddress st) (sa_InstanceNumber e)"

definition not_loaded :: "'s saddr_state \<Rightarrow> 's saddr_state \<Rightarrow> bool" where
  "not_loaded st st' \<longleftrightarrow> StaticAddressList st' = StaticAddressList st \<and> sd_allocs st \<le> sd_allocs st' \<and>
     (maxInstanceOfStaticAddress st' = maxInstanceOfStaticAddress st \<or>
      maxInstanceOfStaticAddress st' = next_saddr_number (maxInstanceOfStaticAddress st))"

lemma max_if: "(if m < n then n else m) = max m n" for m :: ULONG
  by (auto simp: max_def)

lemma load_one_cases:
  assumes "load_one D bNew pool i st = (goon, st')"
  shows "\<not> goon \<and> not_loaded st st' \<or>
    goon \<and> (\<exists>c e. ut_Init (lib_ut (dl_libs D)) (sd_store st) = Some c \<and>
       dl_SAddress D c pool i (DHCPV4_STATICADDRESS_SET_DEFAULTVALUE (dl_junk D (sd_allocs st))) = (True, e) \<and>
       (loaded bNew e st st' \<or> reloaded e st st'))"
proof (cases "lib_alloc (dl_libs D) (sd_allocs st)")
  case False
  with assms show ?thesis by (auto simp: load_one_def alloc_block_def not_loaded_def)
next
  case a1: True
  let ?e0 = "DHCPV4_STATICADDRESS_SET_DEFAULTVALUE (dl_junk D (sd_allocs st))"
  let ?st1 = "st\<lparr>sd_allocs := Suc (sd_allocs st)\<rparr>"
  obtain rs e where g: "CosaDmlDhcpsGetSaddr D ?st1 pool i ?e0 = (rs, e)" by fastforce
  show ?thesis
  proof (cases "ansc_ok rs \<and> lib_alloc (dl_libs D) (Suc (sd_allocs st))")
    case False
    with assms a1 g show ?thesis by (auto simp: load_one_def alloc_block_def not_loaded_def split: if_splits)
  next
    case True
    then obtain c where c: "ut_Init (lib_ut (dl_libs D)) (sd_store st) = Some c" "dl_SAddress D c pool i ?e0 = (True, e)"
      using g by (auto simp: CosaDmlDhcpsGetSaddr_def split: option.splits prod.splits if_splits)
    show ?thesis
    proof (cases "sa_InstanceNumber e = 0")
      case z: True
      let ?n = "next_saddr_number (maxInstanceOfStaticAddress st)"
      let ?st3 = "st\<lparr>sd_allocs := Suc (Suc (sd_allocs st)), maxInstanceOfStaticAddress := ?n\<rparr>"
      obtain rs2 st4 where s: "CosaDmlDhcpsSetSaddrValues D ?st3 pool i ?n (saddr_alias ?n) = (rs2, st4)" by fastforce
      with saddr_board_same_table(4) [of ?st3 D pool i ?n "saddr_alias ?n"] have "same_table ?st3 st4" by simp
      let ?x = "\<lparr>lnk_addr = Suc (sd_allocs st), lnk_InstanceNumber = ?n, lnk_bNew = bNew, lnk_bFound = False,
        lnk_hContext = e\<lparr>sa_InstanceNumber := ?n, sa_Alias := saddr_alias ?n\<rparr>\<rparr>"
      have run: "(goon, st') = (if \<not> ansc_ok rs2 then (False, st4) else (True, st4\<lparr>StaticAddressList :=
          CosaSListPushEntryByInsNum (StaticAddressList st4) ?x\<rparr>))"
        using assms s by (auto simp: load_one_def alloc_block_def a1 g True z Let_def)
      have "\<not> goon \<and> not_loaded st st' \<or> goon \<and> loaded bNew e st st'"
      proof (cases "ansc_ok rs2")
        case False
        with run \<open>same_table ?st3 st4\<close> show ?thesis by (simp add: same_table_def not_loaded_def)
      next
        case True
        have "loaded bNew e st st'"
          unfolding loaded_def using run True \<open>same_table ?st3 st4\<close> z
          by (intro conjI exI [of _ ?x]) (simp_all add: same_table_def)
        with run True show ?thesis by simp
      qed
      with c show ?thesis by blast
    next
      case nz: False
      show ?thesis
      proof (cases "CosaSListGetEntryByInsNum (StaticAddressList st) (sa_InstanceNumber e)")
        case None
        let ?x = "\<lparr>lnk_addr = Suc (sd_allocs st), lnk_InstanceNumber = sa_InstanceNumber e, lnk_bNew = bNew, lnk_bFound = False,
          lnk_hContext = e\<rparr>"
        have run: "goon" "StaticAddressList st' = CosaSListPushEntryByInsNum (StaticAddressList st) ?x"
          "sd_allocs st' = Suc (Suc (sd_allocs st))" "sd_store st' = sd_store st"
          "maxInstanceOfStaticAddress st' = max (maxInstanceOfStaticAddress st) (sa_InstanceNumber e)"
          using assms None by (auto simp: load_one_def alloc_block_def a1 g True nz max_if [symmetric] Let_def split: if_splits)
        have "loaded bNew e st st'"
          unfolding loaded_def by (intro conjI exI [of _ ?x] disjI2) (simp_all add: run None nz)
        with run(1) have "goon \<and> loaded bNew e st st'" by blast
        with c show ?thesis by blast
      next
        case (Some l)
        then have "goon \<and> reloaded e st st'"
          using assms by (auto simp: load_one_def alloc_block_def a1 g True nz reloaded_def max_if [symmetric])
        with c show ?thesis by blast
      qed
    qed
  qed
qed

text \<open>A round keeps the invariant until the counter is at its end, and the counter grows by one or to the number that was read.\<close>

lemma loaded_inv:
  assumes "saddr_inv st" "maxInstanceOfStaticAddress st \<noteq> - 1" "loaded bNew e st st'"
  shows "saddr_inv st' \<and> maxInstanceOfStaticAddress st' \<le> max (maxInstanceOfStaticAddress st + 1) (sa_InstanceNumber e)"
proof -
  note n = next_saddr_number_fresh [OF assms(1,2)] and lt = ULONG_succ [OF assms(2)]
  let ?m = "maxInstanceOfStaticAddress st"
  from assms(3) obtain x where x: "lnk_addr x = Suc (sd_allocs st)" "sa_InstanceNumber (lnk_hContext x) = lnk_InstanceNumber x"
      "StaticAddressList st' = CosaSListPushEntryByInsNum (StaticAddressList st) x" "sd_allocs st' = Suc (Suc (sd_allocs st))"
    and c: "lnk_InstanceNumber x = ?m + 1 \<and> maxInstanceOfStaticAddress st' = lnk_InstanceNumber x \<or>
      sa_InstanceNumber e \<noteq> 0 \<and> lnk_InstanceNumber x = sa_InstanceNumber e \<and>
      CosaSListGetEntryByInsNum (StaticAddressList st) (sa_InstanceNumber e) = None \<and>
      maxInstanceOfStaticAddress st' = max ?m (sa_InstanceNumber e)"
    unfolding loaded_def n(1) by blast
  have y: "CosaSListGetEntryByInsNum (StaticAddressList st) (lnk_InstanceNumber x) = None" "lnk_InstanceNumber x \<noteq> 0"
      "lnk_InstanceNumber x \<le> maxInstanceOfStaticAddress st'" "?m \<le> maxInstanceOfStaticAddress st'"
      "maxInstanceOfStaticAddress st' \<le> max (?m + 1) (sa_InstanceNumber e)"
    using c n(2,3) lt by (auto simp: le_max_iff_disj less_imp_le)
  have "saddr_inv st'"
    by (rule saddr_inv_push [OF assms(1) y(1,2) x(2) _ _ y(3,4) x(3) refl x(4)]) (use x(1) in simp_all)
  with y(5) show ?thesis by blast
qed

lemma reloaded_inv:
  assumes "saddr_inv st" "maxInstanceOfStaticAddress st \<noteq> - 1" "reloaded e st st'"
  shows "saddr_inv st' \<and> maxInstanceOfStaticAddress st' \<le> max (maxInstanceOfStaticAddress st + 1) (sa_InstanceNumber e)"
proof -
  note lt = ULONG_succ [OF assms(2)]
  from assms(3) obtain l where l: "CosaSListGetEntryByInsNum (StaticAddressList st) (sa_InstanceNumber e) = Some l"
      "StaticAddressList st' = put_link (StaticAddressList st) (l\<lparr>lnk_hContext := e, lnk_bNew := False\<rparr>)"
    and r: "sd_allocs st' = Suc (Suc (sd_allocs st))"
      "maxInstanceOfStaticAddress st' = max (maxInstanceOfStaticAddress st) (sa_InstanceNumber e)"
    by (auto simp: reloaded_def)
  have in_list: "l \<in> set (StaticAddressList st)" "lnk_InstanceNumber l = sa_InstanceNumber e" using cosa.get_Some [OF l(1)] by auto
  have ok: "links_ok sa_InstanceNumber (sd_allocs st) (StaticAddressList st)" using assms(1) by (simp add: saddr_inv_def)
  have "saddr_inv (put_sa st (l\<lparr>lnk_hContext := e, lnk_bNew := False\<rparr>))"
    by (rule saddr_inv_put [where l = l]) (use assms(1) ok in_list links_ok_link_at [OF ok in_list(1)] in \<open>auto simp: links_ok_def\<close>)
  then have "saddr_inv st'"
    unfolding saddr_inv_def using l(2) r by (auto intro: links_ok_mono simp: le_max_iff_disj)
  moreover have "maxInstanceOfStaticAddress st \<le> maxInstanceOfStaticAddress st + 1" using lt by simp
  ultimately show ?thesis by (auto simp: r(2) le_max_iff_disj)
qed

lemma not_loaded_inv:
  assumes "saddr_inv st" "maxInstanceOfStaticAddress st \<noteq> - 1" "not_loaded st st'"
  shows "saddr_inv st'"
proof -
  have "maxInstanceOfStaticAddress st \<le> maxInstanceOfStaticAddress st'"
    using assms(3) ULONG_succ [OF assms(2)] next_saddr_number_fresh(1) [OF assms(1,2)] by (auto simp: not_loaded_def)
  then show ?thesis
    using assms unfolding saddr_inv_def not_loaded_def by (auto intro: links_ok_mono order_trans)
qed

text \<open>The numbers that the store holds leave room for the rounds.\<close>

definition numbers_below :: "('s, 'c, 'r) dhcp_libs \<Rightarrow> ULONG \<Rightarrow> nat \<Rightarrow> bool" where
  "numbers_below D pool b \<longleftrightarrow> (\<forall>c i e0. unat (sa_InstanceNumber (snd (dl_SAddress D c pool i e0))) \<le> b)"

lemma load_saddrs_inv:
  "saddr_inv st \<Longrightarrow> numbers_below D pool b \<Longrightarrow> unat (maxInstanceOfStaticAddress st) \<le> b \<Longrightarrow> b + length is < 2 ^ 32 \<Longrightarrow>
     saddr_inv (load_saddrs D bNew pool is st)"
proof (induction "is" arbitrary: st b)
  case Nil
  then show ?case by simp
next
  case (Cons i "is")
  obtain goon st' where one: "load_one D bNew pool i st = (goon, st')" by fastforce
  let ?m = "maxInstanceOfStaticAddress st"
  have room: "?m \<noteq> - 1"
  proof
    assume "?m = - 1"
    then have "unat ?m = 2 ^ 32 - 1" by (simp add: unsigned_minus_1_eq_mask mask_eq_exp_minus_1)
    with Cons.prems(3,4) show False by simp
  qed
  have succ: "unat (?m + 1) = Suc (unat ?m)"
    using room by (metis add.commute eq_neg_iff_add_eq_0 unatSuc)
  from load_one_cases [OF one] consider "\<not> goon" "not_loaded st st'"
    | e c where "goon" "dl_SAddress D c pool i (DHCPV4_STATICADDRESS_SET_DEFAULTVALUE (dl_junk D (sd_allocs st))) = (True, e)" "loaded bNew e st st' \<or> reloaded e st st'" by blast
  then show ?case
  proof cases
    case 1
    with one not_loaded_inv [OF Cons.prems(1) room] show ?thesis by simp
  next
    case 2
    have inv: "saddr_inv st'" "maxInstanceOfStaticAddress st' \<le> max (?m + 1) (sa_InstanceNumber e)"
      using 2(3) loaded_inv [OF Cons.prems(1) room] reloaded_inv [OF Cons.prems(1) room] by blast+
    have "unat (sa_InstanceNumber e) \<le> b" using Cons.prems(2) 2(2) unfolding numbers_below_def by (metis snd_conv)
    with inv(2) succ Cons.prems(3) have "unat (maxInstanceOfStaticAddress st') \<le> Suc b"
      by (auto simp: le_max_iff_disj word_le_nat_alt)
    moreover have "numbers_below D pool (Suc b)" using Cons.prems(2) by (auto simp: numbers_below_def intro: le_SucI)
    ultimately have "saddr_inv (load_saddrs D bNew pool is st')" using Cons.prems(4) Cons.IH [OF inv(1), of "Suc b"] by simp
    with one 2(1) show ?thesis by simp
  qed
qed

text \<open>Loading a store that is at rest: every stored entry has a number of its own, every call succeeds.\<close>

definition stored_saddrs :: "('s, 'c, 'r) dhcp_libs \<Rightarrow> 's \<Rightarrow> ULONG \<Rightarrow> COSA_DML_DHCPS_SADDR list \<Rightarrow> bool" where
  "stored_saddrs D s pool es \<longleftrightarrow> length es < 2 ^ 32 \<and> distinct (map sa_InstanceNumber es) \<and> 0 \<notin> sa_InstanceNumber ` set es \<and>
     (\<exists>c. ut_Init (lib_ut (dl_libs D)) s = Some c \<and> dl_NumOfStaticAddress D c pool = of_nat (length es) \<and>
        (\<forall>i < length es. \<forall>e0. dl_SAddress D c pool (of_nat i) e0 = (True, es ! i)))"

text \<open>The table after \<open>k\<close> rounds: the first \<open>k\<close> entries, sorted by number.\<close>

definition at_round :: "'s \<Rightarrow> COSA_DML_DHCPS_SADDR list \<Rightarrow> bool \<Rightarrow> nat \<Rightarrow> 's saddr_state \<Rightarrow> bool" where
  "at_round s es b k st \<longleftrightarrow> sd_store st = s \<and> mset (map lnk_hContext (StaticAddressList st)) = mset (take k es) \<and>
     sorted (map lnk_InstanceNumber (StaticAddressList st)) \<and>
     (\<forall>x \<in> set (StaticAddressList st). lnk_bNew x = b \<and> sa_InstanceNumber (lnk_hContext x) = lnk_InstanceNumber x)"

lemma round_step:
  assumes "stored_saddrs D s pool es" "\<forall>n. lib_alloc (dl_libs D) n" "k < length es" "at_round s es b k st"
  shows "\<exists>st'. load_one D b pool (of_nat k) st = (True, st') \<and> at_round s es b (Suc k) st'"
proof -
  obtain goon st' where one: "load_one D b pool (of_nat k) st = (goon, st')" by fastforce
  let ?e = "es ! k"
  have store: "sd_store st = s" using assms(4) by (simp add: at_round_def)
  obtain c where c: "ut_Init (lib_ut (dl_libs D)) (sd_store st) = Some c" "\<And>e0. dl_SAddress D c pool (of_nat k) e0 = (True, ?e)"
    using assms(1,3) store by (auto simp: stored_saddrs_def)
  have nz: "sa_InstanceNumber ?e \<noteq> 0" using assms(1,3) nth_mem [of k es] by (force simp: stored_saddrs_def)
  have "sa_InstanceNumber ?e \<notin> sa_InstanceNumber ` set (take k es)"
    using assms(1,3) by (auto simp: stored_saddrs_def distinct_conv_nth in_set_conv_nth)
  moreover have "set (map lnk_hContext (StaticAddressList st)) = set (take k es)"
    using assms(4) unfolding at_round_def by (metis set_mset_mset)
  moreover have "lnk_InstanceNumber ` set (StaticAddressList st) = sa_InstanceNumber ` set (map lnk_hContext (StaticAddressList st))"
    using assms(4) by (force simp: at_round_def image_iff)
  ultimately have "sa_InstanceNumber ?e \<notin> lnk_InstanceNumber ` set (StaticAddressList st)" by simp
  then have none: "CosaSListGetEntryByInsNum (StaticAddressList st) (sa_InstanceNumber ?e) = None" unfolding cosa.get_None .
  have "goon"
    using one assms(2) c nz by (auto simp: load_one_def alloc_block_def CosaDmlDhcpsGetSaddr_def none Let_def split: if_splits)
  with load_one_cases [OF one] obtain e c' where e: "ut_Init (lib_ut (dl_libs D)) (sd_store st) = Some c'"
    "dl_SAddress D c' pool (of_nat k) (DHCPV4_STATICADDRESS_SET_DEFAULTVALUE (dl_junk D (sd_allocs st))) = (True, e)" "loaded b e st st' \<or> reloaded e st st'" by blast
  then have "loaded b ?e st st'" using c none by (auto simp: reloaded_def)
  then obtain x where x: "lnk_bNew x = b" "sa_InstanceNumber (lnk_hContext x) = lnk_InstanceNumber x" "lnk_hContext x = ?e"
    "StaticAddressList st' = CosaSListPushEntryByInsNum (StaticAddressList st) x" "sd_store st' = sd_store st"
    using nz unfolding loaded_def by blast
  have "at_round s es b (Suc k) st'"
    using assms(3,4) x by (simp add: at_round_def mset_push sorted_push take_Suc_conv_app_nth)
  with one \<open>goon\<close> show ?thesis by simp
qed

lemma load_rounds:
  "stored_saddrs D s pool es \<Longrightarrow> \<forall>n. lib_alloc (dl_libs D) n \<Longrightarrow> j + k = length es \<Longrightarrow> at_round s es b k st \<Longrightarrow>
     at_round s es b (length es) (load_saddrs D b pool (map of_nat [k ..< length es]) st)"
proof (induction j arbitrary: k st)
  case 0
  then show ?case by simp
next
  case (Suc j)
  then have "k < length es" by simp
  with round_step [OF Suc.prems(1,2) _ Suc.prems(4)] obtain st' where
    "load_one D b pool (of_nat k) st = (True, st')" "at_round s es b (Suc k) st'" by blast
  with Suc.IH [OF Suc.prems(1,2), of "Suc k" st'] Suc.prems(3) \<open>k < length es\<close> show ?case by (simp add: upt_conv_Cons)
qed

lemma load_stored:
  assumes "stored_saddrs D (sd_store st) pool es" "\<forall>n. lib_alloc (dl_libs D) n" "StaticAddressList st = []"
    and "st' = load_saddrs D b pool (ulong_range (of_nat (length es))) st"
  shows "map lnk_hContext (StaticAddressList st') = sort_key sa_InstanceNumber es" "sd_store st' = sd_store st"
    "\<forall>x \<in> set (StaticAddressList st'). lnk_bNew x = b \<and> lnk_InstanceNumber x = sa_InstanceNumber (lnk_hContext x)"
proof -
  have "unat (of_nat (length es) :: ULONG) = length es" using assms(1) by (simp add: stored_saddrs_def unat_of_nat)
  then have r: "at_round (sd_store st) es b (length es) st'"
    using load_rounds [OF assms(1,2), of "length es" 0 b st] assms(3,4) by (simp add: ulong_range_def at_round_def)
  then have agree: "map lnk_InstanceNumber (StaticAddressList st') = map sa_InstanceNumber (map lnk_hContext (StaticAddressList st'))"
    by (simp add: at_round_def)
  show "map lnk_hContext (StaticAddressList st') = sort_key sa_InstanceNumber es"
  proof (rule sym, rule sort_key_inj_key_eq)
    show "mset es = mset (map lnk_hContext (StaticAddressList st'))" using r by (simp add: at_round_def)
    show "inj_on sa_InstanceNumber (set es)" using assms(1) by (simp add: stored_saddrs_def distinct_map)
    show "sorted (map sa_InstanceNumber (map lnk_hContext (StaticAddressList st')))"
      using r unfolding agree [symmetric] by (simp add: at_round_def)
  qed
  show "sd_store st' = sd_store st"
    "\<forall>x \<in> set (StaticAddressList st'). lnk_bNew x = b \<and> lnk_InstanceNumber x = sa_InstanceNumber (lnk_hContext x)"
    using r by (simp_all add: at_round_def)
qed

lemma count_stored:
  "stored_saddrs D (sd_store st) 1 es \<Longrightarrow> CosaDmlDhcpsGetNumberOfSaddr D st 1 = of_nat (length es)"
  by (auto simp: stored_saddrs_def CosaDmlDhcpsGetNumberOfSaddr_def)

end
