(* ===== verification/Dhcp_Saddr_Props.thy ===== *)
theory Dhcp_Saddr_Props
  imports Dhcp_Saddr_Table Dhcp_WebConfig_Props
begin

text \<open>
  The static address table as a state machine, with its invariant over all sequences of operations, and the hardware
  addresses that are set and read back.
\<close>

section \<open>A small instance\<close>

definition ex_saddr :: COSA_DML_DHCPS_SADDR where
  "ex_saddr = \<lparr>sa_InstanceNumber = 0, sa_Alias = [], sa_bEnabled = True, sa_Chaddr = replicate 6 0, sa_Yiaddr = 0,
     sa_DeviceName = [], sa_Comment = [], sa_ActiveFlag = False\<rparr>"

text \<open>Libraries on the in-memory store, with the stored addresses and the reader of the database as arguments.\<close>

definition ex_dl :: "COSA_DML_DHCPS_SADDR list \<Rightarrow> (string \<Rightarrow> nat \<Rightarrow> string option) \<Rightarrow> (ustore, ustore, rview) dhcp_libs" where
  "ex_dl es get = \<lparr>dl_libs = mem_libs, dl_get = (\<lambda>s. get), dl_NumOfStaticAddress = (\<lambda>c p. of_nat (length es)),
     dl_SAddress = (\<lambda>c p i e. if unat i < length es then (True, es ! unat i) else (False, ex_saddr)),
     dl_SAddressByInsNum = (\<lambda>c n e. (True, e\<lparr>sa_InstanceNumber := n\<rparr>)), dl_SetSAddress_Values = (\<lambda>c p i n a. (True, c)),
     dl_AddSAddress = (\<lambda>c p e. (True, c)), dl_DelSAddress = (\<lambda>c p n. (True, c)), dl_SetSAddress = (\<lambda>c p e. (True, c)),
     dl_ServerPoolCfg = (\<lambda>c cfg. (True, cfg)), dl_AnscValidStringCheck = (\<lambda>s. True), dl_neigh = (\<lambda>a. True),
     dl_junk = (\<lambda>n. ex_saddr), dl_junk_cfg = (0, 0)\<rparr>"

lemma ex_dl_simps [simp]:
  "dl_libs (ex_dl es get) = mem_libs" "dl_get (ex_dl es get) s = get" "dl_AnscValidStringCheck (ex_dl es get) t"
  "dl_NumOfStaticAddress (ex_dl es get) c p = of_nat (length es)"
  "dl_SAddress (ex_dl es get) c p i e = (if unat i < length es then (True, es ! unat i) else (False, ex_saddr))"
  "dl_SAddressByInsNum (ex_dl es get) c n e = (True, e\<lparr>sa_InstanceNumber := n\<rparr>)"
  "dl_AddSAddress (ex_dl es get) c p e = (True, c)" "dl_junk (ex_dl es get) a = ex_saddr"
  by (simp_all add: ex_dl_def)

definition ex_sd :: "COSA_DML_DHCPS_SADDR slist \<Rightarrow> ustore saddr_state" where
  "ex_sd l = \<lparr>sd_hDhcpv4 = True, sd_has_pool = True, sd_Cfg_InstanceNumber = 1, StaticAddressList = l,
     maxInstanceOfStaticAddress = 0, AliasOfStaAddr = [], sd_PreviousVisitTime = 0, sd_syncStaticClientsTable = True,
     sd_store = mem_store, sd_lan_not_restart = False, sd_allocs = 0\<rparr>"

lemma ex_sd_simps [simp]:
  "sd_hDhcpv4 (ex_sd l)" "sd_has_pool (ex_sd l)" "sd_Cfg_InstanceNumber (ex_sd l) = 1" "StaticAddressList (ex_sd l) = l"
  "maxInstanceOfStaticAddress (ex_sd l) = 0" "AliasOfStaAddr (ex_sd l) = []" "sd_syncStaticClientsTable (ex_sd l)"
  "sd_store (ex_sd l) = mem_store" "sd_allocs (ex_sd l) = 0"
  by (simp_all add: ex_sd_def)

definition ex_link :: "COSA_DML_DHCPS_SADDR \<Rightarrow> bool \<Rightarrow> COSA_DML_DHCPS_SADDR cosa_link" where
  "ex_link e b = \<lparr>lnk_addr = 0, lnk_InstanceNumber = sa_InstanceNumber e, lnk_bNew = b, lnk_bFound = False, lnk_hContext = e\<rparr>"

lemma ex_link_simps [simp]:
  "lnk_addr (ex_link e b) = 0" "lnk_InstanceNumber (ex_link e b) = sa_InstanceNumber e" "lnk_bNew (ex_link e b) = b"
  "lnk_hContext (ex_link e b) = e" "link_at [ex_link e b] 0 = Some (ex_link e b)"
  by (simp_all add: ex_link_def link_at_def)

lemma ex_not_bridged [simp]: "\<not> bridge_blocked mem_libs"
  by (simp add: mem_bridge)

section \<open>The table as a state machine\<close>

text \<open>The operations on the table, and what happens outside it: the store changes, and a blob asks for a refresh. Entries are
  added while the counter is not at its end, and refreshes read numbers that leave the counter room.\<close>

inductive saddr_step :: "('s, 'c, 'r) dhcp_libs \<Rightarrow> 's saddr_state \<Rightarrow> 's saddr_state \<Rightarrow> bool" for D where
  add: "maxInstanceOfStaticAddress st \<noteq> - 1 \<Longrightarrow> saddr_step D st (snd (StaticAddress_AddEntry D st))"
| del: "saddr_step D st (snd (StaticAddress_DelEntry D busy st l))"
| set_bool: "link_at (StaticAddressList st) (lnk_addr l) = Some l \<Longrightarrow>
    saddr_step D st (snd (StaticAddress_SetParamBoolValue D st l p b))"
| set_ulong: "link_at (StaticAddressList st) (lnk_addr l) = Some l \<Longrightarrow>
    saddr_step D st (snd (StaticAddress_SetParamUlongValue D st l p u))"
| set_string: "link_at (StaticAddressList st) (lnk_addr l) = Some l \<Longrightarrow>
    saddr_step D st (snd (StaticAddress_SetParamStringValue D st l p s))"
| commit: "link_at (StaticAddressList st) (lnk_addr l) = Some l \<Longrightarrow> saddr_step D st (snd (StaticAddress_Commit D busy st l))"
| rollback: "link_at (StaticAddressList st) (lnk_addr l) = Some l \<Longrightarrow>
    (\<forall>c n e. sa_InstanceNumber (snd (dl_SAddressByInsNum D c n e)) = sa_InstanceNumber e) \<Longrightarrow>
    saddr_step D st (snd (StaticAddress_Rollback D st l))"
| visit: "saddr_step D st (snd (StaticAddress_IsUpdated now now' st))"
| refresh: "numbers_below D 1 k \<Longrightarrow> (\<forall>c. k + unat (dl_NumOfStaticAddress D c 1) < 2 ^ 32) \<Longrightarrow>
    saddr_step D st (snd (StaticAddress_Synchronize D st))"
| outside: "saddr_step D st (st\<lparr>sd_syncStaticClientsTable := f, sd_store := s\<rparr>)"

lemma load_none:
  assumes "ut_Init (lib_ut (dl_libs D)) (sd_store st) = None"
  shows "not_loaded st (load_saddrs D b pool is st)"
proof (cases "is")
  case Nil
  then show ?thesis by (simp add: not_loaded_def)
next
  case (Cons i is')
  obtain goon st' where one: "load_one D b pool i st = (goon, st')" by fastforce
  with load_one_cases [OF one] assms have "\<not> goon" "not_loaded st st'" by auto
  with Cons one show ?thesis by simp
qed

lemma Synchronize_inv:
  assumes "saddr_inv st" "numbers_below D 1 k" "\<forall>c. k + unat (dl_NumOfStaticAddress D c 1) < 2 ^ 32"
  shows "saddr_inv (snd (StaticAddress_Synchronize D st))"
proof -
  let ?st1 = "st\<lparr>StaticAddressList := [], maxInstanceOfStaticAddress := 0\<rparr>"
  have e: "saddr_inv ?st1" by (simp add: saddr_inv_def)
  have "saddr_inv (load_saddrs D True 1 (ulong_range (CosaDmlDhcpsGetNumberOfSaddr D ?st1 1)) ?st1)"
  proof (cases "ut_Init (lib_ut (dl_libs D)) (sd_store st)")
    case None
    then have "not_loaded ?st1 (load_saddrs D True 1 (ulong_range (CosaDmlDhcpsGetNumberOfSaddr D ?st1 1)) ?st1)"
      by (intro load_none) simp
    then show ?thesis by (rule not_loaded_inv [OF e, rotated]) simp
  next
    case (Some c)
    have "k + length (ulong_range (CosaDmlDhcpsGetNumberOfSaddr D ?st1 1)) < 2 ^ 32"
      using assms(3) Some by (simp add: CosaDmlDhcpsGetNumberOfSaddr_def ulong_range_def)
    then show ?thesis by (intro load_saddrs_inv [OF e assms(2)]) simp_all
  qed
  then show ?thesis
    using assms(1) by (simp add: StaticAddress_Synchronize_def Dhcpv4_StaticClients_Synchronize_def Let_def split: prod.split)
qed

lemma Rollback_inv:
  assumes "saddr_inv st" "link_at (StaticAddressList st) (lnk_addr l) = Some l"
    and keeps: "\<forall>c n e. sa_InstanceNumber (snd (dl_SAddressByInsNum D c n e)) = sa_InstanceNumber e"
  shows "saddr_inv (snd (StaticAddress_Rollback D st l))"
proof -
  let ?e0 = "if AliasOfStaAddr st \<noteq> [] then (lnk_hContext l)\<lparr>sa_Alias := snd (lib_noclobber (dl_libs D) COSA_DML_ALIAS_NAME_LENGTH
    (sa_Alias (lnk_hContext l)) (AliasOfStaAddr st))\<rparr> else lnk_hContext l"
  let ?e1 = "if \<not> lnk_bNew l then snd (CosaDmlDhcpsGetSaddrbyInsNum D st (sd_Cfg_InstanceNumber st) ?e0)
    else DHCPV4_STATICADDRESS_SET_DEFAULTVALUE ?e0"
  have e0: "sa_InstanceNumber ?e0 = sa_InstanceNumber (lnk_hContext l)" by simp
  have board: "sa_InstanceNumber (snd (CosaDmlDhcpsGetSaddrbyInsNum D st n e)) = sa_InstanceNumber e" for n e
    using keeps by (simp add: CosaDmlDhcpsGetSaddrbyInsNum_def case_prod_unfold split: option.split)
  have "sa_InstanceNumber ?e1 = sa_InstanceNumber ?e0"
    by (simp add: board DHCPV4_STATICADDRESS_SET_DEFAULTVALUE_def)
  with e0 have "entry_changed l st ((put_sa st (l\<lparr>lnk_hContext := ?e1\<rparr>))\<lparr>AliasOfStaAddr := []\<rparr>)"
    by (intro entry_changed_put same_table_refl) (simp only:)
  then have "saddr_inv ((put_sa st (l\<lparr>lnk_hContext := ?e1\<rparr>))\<lparr>AliasOfStaAddr := []\<rparr>)"
    by (rule entry_changed_inv [OF assms(1,2)])
  then show ?thesis by (simp only: StaticAddress_Rollback_def Let_def snd_conv)
qed

lemma saddr_step_inv:
  assumes "saddr_step D st st'" "saddr_inv st"
  shows "saddr_inv st'"
  using assms
proof cases
  case add
  then show ?thesis using AddEntry_inv assms(2) by simp
next
  case del
  then show ?thesis using DelEntry_inv assms(2) by simp
next
  case set_bool
  then show ?thesis using entry_changed_inv [OF assms(2)] setters_entry_changed(1) by blast
next
  case set_ulong
  then show ?thesis using entry_changed_inv [OF assms(2)] setters_entry_changed(2) by blast
next
  case set_string
  then show ?thesis using entry_changed_inv [OF assms(2)] setters_entry_changed(3) by blast
next
  case commit
  then show ?thesis using entry_changed_inv [OF assms(2)] Commit_entry_changed by blast
next
  case rollback
  then show ?thesis using Rollback_inv assms(2) by simp
next
  case visit
  then show ?thesis using assms(2) by (simp add: StaticAddress_IsUpdated_def)
next
  case refresh
  then show ?thesis using Synchronize_inv assms(2) by blast
next
  case outside
  then show ?thesis using assms(2) by (simp add: saddr_inv_def)
qed



section \<open>Hardware addresses in text\<close>

text \<open>The bytes of an address in text.\<close>

fun mac_bytes :: "string \<Rightarrow> 32 word list" where
  "mac_bytes (a # b # c # s) = of_nat (16 * hex_val a + hex_val b) # mac_bytes s"
| "mac_bytes [a, b] = [of_nat (16 * hex_val a + hex_val b)]"
| "mac_bytes s = []"

lemma isxdigit_props:
  assumes "isxdigit c"
  shows "\<not> isspace c" "c \<noteq> CHR ''-''" "c \<noteq> CHR ''+''" "c \<noteq> CHR ''x''" "c \<noteq> CHR ''X''" "c \<noteq> CHR '':''" "c \<noteq> CHR '',''" "hex_val c < 16"
  using assms by (auto simp: isxdigit_def isspace_def hex_val_def)

definition no_xdigit :: "string \<Rightarrow> bool" where
  "no_xdigit rest \<longleftrightarrow> rest = [] \<or> \<not> isxdigit (hd rest)"

lemma scan_digits_pair:
  assumes "isxdigit a" "isxdigit b" "no_xdigit rest"
  shows "scan_digits (a # b # rest) = Some (16 * hex_val a + hex_val b, rest)"
proof -
  have "takeWhile isxdigit rest = []" "dropWhile isxdigit rest = rest" using assms(3) by (cases rest; simp add: no_xdigit_def)+
  then show ?thesis using assms by (simp add: scan_digits_def)
qed

lemma scan_hex_pair:
  assumes "isxdigit a" "isxdigit b" "no_xdigit rest"
  shows "scan_hex (a # b # rest) = Some (of_nat (16 * hex_val a + hex_val b), rest)"
proof -
  note pa = isxdigit_props [OF assms(1)] and pb = isxdigit_props [OF assms(2)]
  have u: "scan_unsigned (a # b # rest) = Some (16 * hex_val a + hex_val b, rest)"
    using scan_digits_pair [OF assms] pb by (simp add: scan_unsigned_def)
  have "16 * hex_val a + hex_val b < 2 ^ 32" using pa(8) pb(8) by simp
  then show ?thesis using pa by (simp add: scan_hex_def u)
qed

lemma scan_hexes_join:
  "list_all hex_pair ps \<Longrightarrow> ps \<noteq> [] \<Longrightarrow> no_xdigit rest \<Longrightarrow> scan_hexes (length ps) (join_colon ps @ rest) = (mac_bytes (join_colon ps), rest)"
proof (induction ps rule: join_colon.induct)
  case 1
  then show ?case by simp
next
  case (2 p)
  then obtain a b where "p = [a, b]" "isxdigit a" "isxdigit b" by (auto simp: hex_pair_Cons)
  with 2 scan_hex_pair [of a b rest] show ?case by (cases rest) auto
next
  case (3 p q ps)
  then obtain a b where p: "p = [a, b]" "isxdigit a" "isxdigit b" by (auto simp: hex_pair_Cons)
  have colon: "no_xdigit (CHR '':'' # t)" for t by (simp add: no_xdigit_def isxdigit_def)
  from 3 have "scan_hexes (length (q # ps)) (join_colon (q # ps) @ rest) = (mac_bytes (join_colon (q # ps)), rest)" by simp
  with p scan_hex_pair [OF p(2,3) colon, of "join_colon (q # ps) @ rest"] show ?case by simp
qed

lemma scan_mac_text:
  assumes "mac_text s" "no_xdigit rest"
  shows "scan_hexes 6 (s @ rest) = (mac_bytes s, rest)" "length (mac_bytes s) = 6"
proof -
  from assms(1) obtain ps where ps: "length ps = 6" "list_all hex_pair ps" "s = join_colon ps" by (auto simp: mac_text_def)
  then have ne: "ps \<noteq> []" by auto
  show "scan_hexes 6 (s @ rest) = (mac_bytes s, rest)"
    using scan_hexes_join [OF ps(2) ne assms(2)] ps by simp
  have "length (mac_bytes (join_colon ps)) = length ps"
    using ps(2) ne by (induction ps rule: join_colon.induct) (auto simp: hex_pair_Cons)
  with ps show "length (mac_bytes s) = 6" by simp
qed

text \<open>A text that is printed has small letters.\<close>

definition lower_hex :: "char \<Rightarrow> char" where
  "lower_hex c = (let n = of_char c :: nat in if 65 \<le> n \<and> n \<le> 70 then char_of (n + 32) else c)"

lemma hex_digit_val: "isxdigit c \<Longrightarrow> hex_digit (hex_val c) = lower_hex c"
  by (auto simp: isxdigit_def hex_digit_def hex_val_def lower_hex_def char_of_def bit_0)

lemma hex_byte_pair:
  assumes "isxdigit a" "isxdigit b"
  shows "hex_byte (ucast (of_nat (16 * hex_val a + hex_val b) :: 32 word)) = [lower_hex a, lower_hex b]"
proof -
  have small: "hex_val a < 16" "hex_val b < 16" using assms isxdigit_props by blast+
  have "unat (ucast (of_nat k :: 32 word) :: UCHAR) = k" if "k < 256" for k
    using that by (simp add: unsigned_ucast_eq take_bit_eq_mod unat_of_nat)
  from this [of "16 * hex_val a + hex_val b"] small
  have "unat (ucast (of_nat (16 * hex_val a + hex_val b) :: 32 word) :: UCHAR) = 16 * hex_val a + hex_val b" by simp
  with small show ?thesis by (simp add: hex_byte_def hex_digit_val assms)
qed

lemma mac_string_join:
  "list_all hex_pair ps \<Longrightarrow> ps \<noteq> [] \<Longrightarrow> mac_string (map ucast (mac_bytes (join_colon ps))) = map lower_hex (join_colon ps)"
proof (induction ps rule: join_colon.induct)
  case 1
  then show ?case by simp
next
  case (2 p)
  then obtain a b where "p = [a, b]" "isxdigit a" "isxdigit b" by (auto simp: hex_pair_Cons)
  then show ?case using hex_byte_pair [of a b] by simp
next
  case (3 p q ps)
  then obtain a b where p: "p = [a, b]" "isxdigit a" "isxdigit b" by (auto simp: hex_pair_Cons)
  from 3 obtain c d where q: "q = [c, d]" by (auto simp: hex_pair_Cons)
  obtain x xs where xs: "mac_bytes (join_colon (q # ps)) = x # xs" by (cases ps) (auto simp: q)
  have "lower_hex (CHR '':'') = CHR '':''" by (simp add: lower_hex_def)
  with 3 p xs hex_byte_pair [OF p(2,3)] show ?case by simp
qed

lemma mac_string_text:
  assumes "mac_text s"
  shows "mac_string (map ucast (mac_bytes s)) = map lower_hex s" "length s = 17"
proof -
  from assms obtain ps where ps: "length ps = 6" "list_all hex_pair ps" "s = join_colon ps" by (auto simp: mac_text_def)
  then have "ps \<noteq> []" by auto
  with mac_string_join [OF ps(2)] length_join_colon [OF ps(2)] ps
  show "mac_string (map ucast (mac_bytes s)) = map lower_hex s" "length s = 17" by simp_all
qed

lemma link_at_put_sa: "link_at (StaticAddressList st) (lnk_addr l) = Some l \<Longrightarrow> lnk_addr l' = lnk_addr l \<Longrightarrow>
    link_at (StaticAddressList (put_sa st l')) (lnk_addr l) = Some l'"
  using link_at_put_link [of "StaticAddressList st" l'] by simp

text \<open>C31: a hardware address of six pairs of hexadecimal digits that is not all zero and has an even first byte is taken,
  and it is read back in small letters by every buffer of at least 18 bytes; the other fields of the entry stay.\<close>

theorem chaddr_set_get:
  assumes "\<not> bridge_blocked (dl_libs D)" "dl_AnscValidStringCheck D s" "mac_text s"
    and "\<not> bit (mac_bytes s ! 0) 0" "mac_bytes s \<noteq> replicate 6 0"
    and "link_at (StaticAddressList st) (lnk_addr l) = Some l" "18 \<le> size1"
  shows "\<exists>st' l'. StaticAddress_SetParamStringValue D st l ''Chaddr'' s = (True, st') \<and>
    link_at (StaticAddressList st') (lnk_addr l) = Some l' \<and>
    StaticAddress_GetParamStringValue l' ''Chaddr'' buf size1 = (0, map lower_hex s, size1) \<and>
    (\<forall>c. lnk_hContext l'\<lparr>sa_Chaddr := c\<rparr> = lnk_hContext l\<lparr>sa_Chaddr := c\<rparr>) \<and> sd_store st' = sd_store st"
proof -
  let ?l' = "l\<lparr>lnk_hContext := (lnk_hContext l)\<lparr>sa_Chaddr := map ucast (mac_bytes s)\<rparr>\<rparr>"
  have scan: "scan_hexes 6 s = (mac_bytes s, [])" "length (mac_bytes s) = 6"
    using scan_mac_text [OF assms(3), of "[]"] by (simp_all add: no_xdigit_def)
  have "StaticAddress_SetParamStringValue D st l ''Chaddr'' s = (True, put_sa st ?l')"
    using assms(1,2,4,5) scan by (simp add: StaticAddress_SetParamStringValue_def Let_def)
  moreover have "link_at (StaticAddressList (put_sa st ?l')) (lnk_addr l) = Some ?l'"
    by (rule link_at_put_sa [OF assms(6)]) simp
  moreover have "17 < unat size1" "6 \<le> size1" using assms(7) by (simp_all add: word_le_nat_alt)
  then have "StaticAddress_GetParamStringValue ?l' ''Chaddr'' buf size1 = (0, map lower_hex s, size1)"
    using mac_string_text [OF assms(3)] by (simp add: StaticAddress_GetParamStringValue_def Let_def)
  ultimately show ?thesis by fastforce
qed

theorem chaddr_set_get_witness:
  "\<exists>st' l'. StaticAddress_SetParamStringValue (ex_dl [] (\<lambda>k n. None)) (ex_sd [ex_link ex_saddr True]) (ex_link ex_saddr True)
      ''Chaddr'' ''0A:1b:2C:3d:4E:5f'' = (True, st') \<and> link_at (StaticAddressList st') 0 = Some l' \<and>
    StaticAddress_GetParamStringValue l' ''Chaddr'' [] 32 = (0, ''0a:1b:2c:3d:4e:5f'', 32)"
proof -
  let ?s = "''0A:1b:2C:3d:4E:5f''"
  have "list_all hex_pair [''0A'', ''1b'', ''2C'', ''3d'', ''4E'', ''5f'']" by code_simp
  then have t: "mac_text ?s"
    unfolding mac_text_def by (intro exI [of _ "[''0A'', ''1b'', ''2C'', ''3d'', ''4E'', ''5f'']"]) simp
  have b: "mac_bytes ?s = [10, 27, 44, 61, 78, 95]" by (simp add: hex_val_def)
  have low: "map lower_hex ?s = ''0a:1b:2c:3d:4e:5f''" by code_simp
  have zero: "replicate 6 0 = [0, 0, 0, 0, 0, 0 :: 32 word]" by (simp add: eval_nat_numeral)
  have h: "\<not> bridge_blocked (dl_libs (ex_dl [] (\<lambda>k n. None)))" "dl_AnscValidStringCheck (ex_dl [] (\<lambda>k n. None)) ?s"
    "\<not> bit (mac_bytes ?s ! 0) 0" "mac_bytes ?s \<noteq> replicate 6 0"
    "link_at (StaticAddressList (ex_sd [ex_link ex_saddr True])) (lnk_addr (ex_link ex_saddr True)) = Some (ex_link ex_saddr True)"
    "(18 :: ULONG) \<le> 32"
    unfolding b zero by simp_all
  from chaddr_set_get [OF h(1,2) t h(3,4,5,6)] show ?thesis unfolding low ex_link_simps(1) by blast
qed

end
