(* ===== verification/Dhcp_Saddr_Blob.thy ===== *)
theory Dhcp_Saddr_Blob
  imports Dhcp_Saddr_Props
begin

text \<open>
  The static address table and the store: the commit of a new entry, the check of an entry against the clients that a blob
  left in the database, the load at start and the refresh after a blob, and two roll backs that do not bring the old
  entry back.
\<close>

section \<open>The commit of a new entry\<close>

definition address_ok :: "COSA_DML_DHCPS_SADDR \<Rightarrow> bool" where
  "address_ok e \<longleftrightarrow> sa_Yiaddr e \<noteq> 0 \<and> \<not> bit (sa_Chaddr e ! 0) 0 \<and> sa_Chaddr e \<noteq> replicate 6 0 \<and>
     \<not> is_a_public_addr (ntohl (sa_Yiaddr e))"

definition utopia_takes :: "('s, 'c, 'r) dhcp_libs \<Rightarrow> 's \<Rightarrow> COSA_DML_DHCPS_SADDR \<Rightarrow> 's \<Rightarrow> bool" where
  "utopia_takes D s e s' \<longleftrightarrow> (\<exists>c c'. ut_Init (lib_ut (dl_libs D)) s = Some c \<and> dl_AddSAddress D c 1 e = (True, c') \<and>
     s' = ut_Commit (lib_ut (dl_libs D)) s c')"

lemma AddSaddr_outcome:
  assumes "CosaDmlDhcpsAddSaddr D st p e = (rs, st1)"
  shows "(rs = ANSC_SUCCESS \<and> address_ok e \<and> p = 1 \<and> utopia_takes D (sd_store st) e (sd_store st1)) \<or>
    (rs = ANSC_FAILURE \<and> \<not> (address_ok e \<and> p = 1 \<and> (\<exists>s. utopia_takes D (sd_store st) e s)) \<and> sd_store st1 = sd_store st)"
proof (cases "p = 1 \<and> address_ok e")
  case False
  with assms show ?thesis
    by (auto simp: CosaDmlDhcpsAddSaddr_def address_ok_def dhcp_saddr_invalid_addr_def split: if_splits)
next
  case True
  then have run: "(rs, st1) = (case ut_Init (lib_ut (dl_libs D)) (sd_store st) of None \<Rightarrow> (ANSC_FAILURE, mark_lan_restart D e st)
      | Some c \<Rightarrow> saddr_commit D (mark_lan_restart D e st) (dl_AddSAddress D c 1 e))"
    using assms by (simp add: CosaDmlDhcpsAddSaddr_def address_ok_def dhcp_saddr_invalid_addr_def Let_def)
  show ?thesis
  proof (cases "ut_Init (lib_ut (dl_libs D)) (sd_store st)")
    case None
    with run show ?thesis by (simp add: utopia_takes_def)
  next
    case (Some c)
    obtain ok c' where add: "dl_AddSAddress D c 1 e = (ok, c')" by fastforce
    with run Some True show ?thesis by (cases ok) (simp_all add: utopia_takes_def saddr_commit_def)
  qed
qed

text \<open>C25: committing a new and enabled entry adds it to the store and marks it committed when the entry has a unicast
  hardware address and a private IP address, the pool is the LAN pool, and Utopia takes it; otherwise the commit
  reports failure, the store is as before and the entry stays new.\<close>

theorem static_address_commit_new:
  assumes "lnk_bNew l" "sa_bEnabled (lnk_hContext l)" "link_at (StaticAddressList st) (lnk_addr l) = Some l"
    and "StaticAddress_Commit D False st l = (rs, st')"
  shows "(rs = ANSC_SUCCESS \<and> address_ok (lnk_hContext l) \<and> sd_Cfg_InstanceNumber st = 1 \<and>
      utopia_takes D (sd_store st) (lnk_hContext l) (sd_store st') \<and>
      link_at (StaticAddressList st') (lnk_addr l) =
        Some (l\<lparr>lnk_bNew := False, lnk_hContext := (lnk_hContext l)\<lparr>sa_ActiveFlag := True\<rparr>\<rparr>)) \<or>
    (rs = ANSC_FAILURE \<and>
      \<not> (address_ok (lnk_hContext l) \<and> sd_Cfg_InstanceNumber st = 1 \<and> (\<exists>s. utopia_takes D (sd_store st) (lnk_hContext l) s)) \<and>
      sd_store st' = sd_store st \<and> (\<exists>l'. link_at (StaticAddressList st') (lnk_addr l) = Some l' \<and> lnk_bNew l'))"
proof -
  obtain rs1 st1 where add: "CosaDmlDhcpsAddSaddr D st (sd_Cfg_InstanceNumber st) (lnk_hContext l) = (rs1, st1)" by fastforce
  have table: "StaticAddressList st1 = StaticAddressList st"
    using saddr_board_same_table(1) [of st D "sd_Cfg_InstanceNumber st" "lnk_hContext l"] add by (simp add: same_table_def)
  note put = link_at_put_link [of "StaticAddressList st"]
  note out = AddSaddr_outcome [OF add]
  have rs: "rs = rs1" using assms by (simp add: StaticAddress_Commit_def Let_def add commit_end_def)
  show ?thesis
  proof (cases "rs1 = ANSC_SUCCESS")
    case True
    then have "st' = (put_sa st1 (l\<lparr>lnk_bNew := False, lnk_hContext := (lnk_hContext l)\<lparr>sa_ActiveFlag := True\<rparr>\<rparr>))\<lparr>AliasOfStaAddr := []\<rparr>"
      using assms by (simp add: StaticAddress_Commit_def Let_def add commit_end_def)
    with out True rs assms(3) put [of "l\<lparr>lnk_bNew := False, lnk_hContext := (lnk_hContext l)\<lparr>sa_ActiveFlag := True\<rparr>\<rparr>"]
    show ?thesis by (simp add: table)
  next
    case False
    let ?x = "l\<lparr>lnk_hContext := (lnk_hContext l)\<lparr>sa_Alias := snd (lib_noclobber (dl_libs D) COSA_DML_ALIAS_NAME_LENGTH
      (sa_Alias (lnk_hContext l)) (AliasOfStaAddr st1))\<rparr>\<rparr>"
    have "st' = (put_sa st1 ?x)\<lparr>AliasOfStaAddr := []\<rparr> \<or> st' = st1\<lparr>AliasOfStaAddr := []\<rparr>"
      using False assms by (auto simp: StaticAddress_Commit_def Let_def add commit_end_def)
    then have "sd_store st' = sd_store st1" "\<exists>l'. link_at (StaticAddressList st') (lnk_addr l) = Some l' \<and> lnk_bNew l'"
      using assms(1,3) put [of ?x] table by auto
    with out False rs show ?thesis by simp
  qed
qed

definition ex_host :: "ULONG \<Rightarrow> COSA_DML_DHCPS_SADDR" where
  "ex_host n = ex_saddr\<lparr>sa_InstanceNumber := n, sa_Chaddr := [0x00, 0x11, 0x22, 0x33, 0x44, 0x55], sa_Yiaddr := 0x0500a8c0\<rparr>"

lemma ex_host_simps [simp]: "sa_InstanceNumber (ex_host n) = n" "sa_bEnabled (ex_host n)" "address_ok (ex_host n)"
    by (simp_all add: ex_host_def ex_saddr_def address_ok_def is_a_public_addr_def eval_nat_numeral) (code_simp)

theorem static_address_commit_new_witness:
  "\<exists>st'. StaticAddress_Commit (ex_dl [] (\<lambda>k n. None)) False (ex_sd [ex_link (ex_host 1) True]) (ex_link (ex_host 1) True) = (ANSC_SUCCESS, st') \<and>
     (\<exists>l. link_at (StaticAddressList st') 0 = Some l \<and> \<not> lnk_bNew l)"
proof -
  let ?l = "ex_link (ex_host 1) True"
  obtain rs st' where run: "StaticAddress_Commit (ex_dl [] (\<lambda>k n. None)) False (ex_sd [?l]) ?l = (rs, st')" by fastforce
  have takes: "\<exists>s. utopia_takes (ex_dl [] (\<lambda>k n. None)) mem_store (ex_host 1) s"
    by (simp add: utopia_takes_def mem_utopia_def)
  have h: "lnk_bNew ?l" "sa_bEnabled (lnk_hContext ?l)" "link_at (StaticAddressList (ex_sd [?l])) (lnk_addr ?l) = Some ?l" by simp_all
  from static_address_commit_new [OF h run] run takes show ?thesis by auto
qed

section \<open>The check against the clients of a blob\<close>

text \<open>What the check finds about one client of a document: its stored IP address with the comma fills the buffer of 16
  bytes, or the entry has its IP address or its hardware address.\<close>

definition ip_overruns :: "macdoc_t \<Rightarrow> bool" where
  "ip_overruns e \<longleftrightarrow> 15 \<le> length (the (md_yiaddr e))"

definition same_client :: "('s, 'c, 'r) dhcp_libs \<Rightarrow> COSA_DML_DHCPS_SADDR \<Rightarrow> macdoc_t \<Rightarrow> bool" where
  "same_client D a e \<longleftrightarrow> sa_Yiaddr a = lib_inet_addr (dl_libs D) (the (md_yiaddr e)) \<or>
     map ucast (sa_Chaddr a) = mac_bytes (the (md_chaddr e))"

definition ip_text :: "string \<Rightarrow> bool" where
  "ip_text s \<longleftrightarrow> length s \<le> 15 \<and> (\<forall>c \<in> set s. isdigit c \<or> c = CHR ''.'')"

lemma scan_host_client:
  assumes "mac_text mac" "ip_text ip"
  shows "scan_host (mac @ '','' @ ip @ '','') = (if 15 \<le> length ip then None else Some (mac_bytes mac, ip))"
proof -
  have comma: "no_xdigit ('','' @ ip @ '','')" by (simp add: no_xdigit_def isxdigit_def)
  note scan = scan_mac_text [OF assms(1) comma]
  have c: "\<not> isspace c \<and> c \<noteq> CHR '',''" if "c \<in> set ip" for c
  proof -
    have "\<forall>c \<in> set ''.0123456789''. \<not> isspace c \<and> c \<noteq> CHR '',''" by code_simp
    moreover have "c \<in> set ''.0123456789''" using assms(2) that unfolding ip_text_def isdigit_def by fastforce
    ultimately show ?thesis by blast
  qed
  have sp: "\<not> isspace (CHR '','')" by (simp add: isspace_def)
  have "dropWhile isspace (ip @ '','') = ip @ '',''" using c sp by (cases ip) auto
  moreover have "takeWhile (\<lambda>c. \<not> isspace c) (ip @ '','') = ip @ '',''" using c sp by (simp add: takeWhile_eq_all_conv)
  moreover have "takeWhile (\<lambda>c. c \<noteq> CHR '','') (ip @ '','') = ip" using c by (simp add: takeWhile_append2)
  ultimately show ?thesis using scan by (auto simp: scan_host_def Let_def)
qed

text \<open>The first client with another number about which there is something to find.\<close>

definition first_clash :: "('s, 'c, 'r) dhcp_libs \<Rightarrow> COSA_DML_DHCPS_SADDR \<Rightarrow> (nat \<times> macdoc_t) list \<Rightarrow> (nat \<times> macdoc_t) option" where
  "first_clash D a cs = find (\<lambda>(j, e). sa_InstanceNumber a \<noteq> of_nat j \<and> (ip_overruns e \<or> same_client D a e)) cs"

definition numbered :: "'a list \<Rightarrow> (nat \<times> 'a) list" where
  "numbered es = zip (map Suc [0 ..< length es]) es"

lemma validate_hosts_clients:
  assumes "\<And>j e. (j, e) \<in> set cs \<Longrightarrow> j \<le> 341 \<and>
      (\<exists>mac ip. md_chaddr e = Some mac \<and> md_yiaddr e = Some ip \<and> mac_text mac \<and> ip_text ip \<and>
        dl_get D db (''dhcp_static_host_'' @ dec j) 64 = Some (mac @ '','' @ ip @ '','') \<and>
        dl_get D db (''dhcp_static_host_insNum_'' @ dec j) 5 = Some (dec j))"
  shows "validate_hosts D db a ins (map fst cs) =
    (case first_clash D a cs of None \<Rightarrow> Some True | Some (j, e) \<Rightarrow> if ip_overruns e then None else Some False)"
  using assms
proof (induction cs arbitrary: ins)
  case Nil
  show ?case by (simp add: first_clash_def)
next
  case (Cons c cs)
  obtain j e where c: "c = (j, e)" by fastforce
  from Cons.prems [of j e] c obtain mac ip where e: "j \<le> 341" "md_chaddr e = Some mac" "md_yiaddr e = Some ip" "mac_text mac" "ip_text ip"
    and g: "dl_get D db (''dhcp_static_host_'' @ dec j) 64 = Some (mac @ '','' @ ip @ '','')"
      "dl_get D db (''dhcp_static_host_insNum_'' @ dec j) 5 = Some (dec j)" by auto
  have "length (dec j) \<le> 3" by (rule length_dec) (use e(1) in simp_all)
  then have keys: "snprintf 64 (''dhcp_static_host_'' @ dec j) = ''dhcp_static_host_'' @ dec j"
    "snprintf 64 (''dhcp_static_host_insNum_'' @ dec j) = ''dhcp_static_host_insNum_'' @ dec j" by (intro snprintf_fits; simp)+
  have ih: "validate_hosts D db a ins' (map fst cs) =
      (case first_clash D a cs of None \<Rightarrow> Some True | Some (j, e) \<Rightarrow> if ip_overruns e then None else Some False)" for ins'
    by (rule Cons.IH) (use Cons.prems in auto)
  have "validate_hosts D db a ins (map fst (c # cs)) =
      (if sa_InstanceNumber a \<noteq> of_nat j then
         (if ip_overruns e then None else if same_client D a e then Some False else validate_hosts D db a (dec j) (map fst cs))
       else validate_hosts D db a (dec j) (map fst cs))"
    unfolding c list.map fst_conv validate_hosts.simps keys g option.case Let_def atoi_dec scan_host_client [OF e(4,5)]
    by (auto simp: ip_overruns_def same_client_def e)
  then show ?case unfolding ih by (simp add: first_clash_def c)
qed

text \<open>C6: after a static clients document has been executed, the check of an entry of the table finds exactly its clients:
  of those with another number it stops at the first one that has the IP address or the hardware address of the entry,
  and refuses the entry, or whose IP address has 15 characters, which overruns the buffer of the check; when there is
  none the entry is valid.\<close>

theorem validate_after_blob:
  assumes "syscfg_ok C v" "dhcp_wf w" "mbd_entries d \<noteq> []"
    and "Process_StaticClients_WebConfigRequest C is_ip4 inet_addr True (Some d) w = Some (Some (BLOB_EXEC_SUCCESS, msg), w')"
    and "\<And>s. is_ip4 s \<Longrightarrow> ip_text s"
    and "\<And>k n. dl_get D (sd_store st) k n = sc_get C (dh_db w') k n"
  shows "StaticAddress_Validate D st l =
    (case first_clash D (lnk_hContext l) (numbered (mbd_entries d)) of
       None \<Rightarrow> Some True
     | Some (j, e) \<Rightarrow> if ip_overruns e then None else Some False)"
proof -
  let ?es = "mbd_entries d" and ?m = "v (dh_db w')"
  note p = static_success_clients [OF assms(1-4)]
  have get: "dl_get D (sd_store st) k n = map_option (take (n - 1)) (?m k)" for k n
    using assms(1,6) by (simp add: syscfg_get_view)
  have short: "length (dec j) \<le> 3" if "j \<le> 341" for j by (rule length_dec) (use that in simp_all)
  have count: "dl_get D (sd_store st) ''dhcp_num_static_hosts'' 5 = Some (dec (length ?es))"
    using p(4) short [OF p(2)] by (simp add: get)
  have "validate_hosts D (sd_store st) (lnk_hContext l) [] (map fst (numbered ?es)) =
    (case first_clash D (lnk_hContext l) (numbered ?es) of None \<Rightarrow> Some True | Some (j, e) \<Rightarrow> if ip_overruns e then None else Some False)"
  proof (rule validate_hosts_clients)
    fix j e assume "(j, e) \<in> set (numbered ?es)"
    then obtain i where i: "j = Suc i" "e = ?es ! i" "i < length ?es" by (auto simp: numbered_def set_zip)
    then have "client_ok is_ip4 inet_addr (v (dh_db w)) e" "client_stored ?m j e" "j \<le> 341" using p(1,2,3) by auto
    note cl = this
    from cl(1) obtain mac ip where e: "md_chaddr e = Some mac" "md_yiaddr e = Some ip" "mac_text mac" "is_ip4 ip"
      unfolding client_ok_def by (elim exE conjE) simp
    note e = e(1,2,3) assms(5) [OF e(4)]
    have s: "?m (''dhcp_static_host_'' @ dec j) = Some (snprintf VAL_MAX_SIZE (mac @ '','' @ ip @ '',''))"
        "?m (''dhcp_static_host_insNum_'' @ dec j) = Some (dec j)"
      using cl(2) unfolding client_stored_def e option.sel by blast+
    have len: "length (mac @ '','' @ ip @ '','') < 64" using mac_string_text(2) [OF e(3)] e(4) by (simp add: ip_text_def)
    then have "snprintf VAL_MAX_SIZE (mac @ '','' @ ip @ '','') = mac @ '','' @ ip @ '',''"
      by (intro snprintf_fits) (simp add: VAL_MAX_SIZE_def)
    with s len e short [OF \<open>j \<le> 341\<close>] \<open>j \<le> 341\<close>
    show "j \<le> 341 \<and> (\<exists>mac ip. md_chaddr e = Some mac \<and> md_yiaddr e = Some ip \<and> mac_text mac \<and> ip_text ip \<and>
        dl_get D (sd_store st) (''dhcp_static_host_'' @ dec j) 64 = Some (mac @ '','' @ ip @ '','') \<and>
        dl_get D (sd_store st) (''dhcp_static_host_insNum_'' @ dec j) 5 = Some (dec j))"
      by (simp add: get)
  qed
  moreover have "map fst (numbered ?es) = map Suc [0 ..< length ?es]" by (simp add: numbered_def)
  ultimately show ?thesis by (simp add: StaticAddress_Validate_def count Let_def)
qed

theorem validate_after_blob_witness:
  "\<exists>get. StaticAddress_Validate (ex_dl [] get) (ex_sd []) (ex_link (ex_host 7) True) = Some False"
proof -
  obtain msg w' where run: "Process_StaticClients_WebConfigRequest mem_syscfg ex_is_ip4 (\<lambda>_. 0) True (Some (ex_clients 2)) (ex_dhcp Map.empty) =
      Some (Some (BLOB_EXEC_SUCCESS, msg), w')"
    using ex_static_accepted [of Map.empty 2 "\<lambda>_. 0"] ex_no_hosts by auto
  let ?D = "ex_dl [] (sc_get mem_syscfg (dh_db w'))"
  have ip: "ip_text s" if "ex_is_ip4 s" for s using that by (simp add: ex_is_ip4_def ip_text_def isdigit_def)
  have es: "mbd_entries (ex_clients 2) = [ex_client, ex_client]" by (simp add: numeral_2_eq_2)
  have "same_client ?D (ex_host 7) ex_client" "\<not> ip_overruns ex_client"
    by (simp_all add: same_client_def ip_overruns_def ex_host_def ex_saddr_def ex_client_def hex_val_def)
  then have c: "first_clash ?D (ex_host 7) (numbered (mbd_entries (ex_clients 2))) = Some (1, ex_client)"
    unfolding first_clash_def numbered_def es by simp
  have "StaticAddress_Validate ?D (ex_sd []) (ex_link (ex_host 7) True) = Some False"
    using validate_after_blob [of mem_syscfg id _ _ _ _ _ _ ?D "ex_sd []" "ex_link (ex_host 7) True", OF mem_syscfg_ok(1) _ _ run ip]
      \<open>\<not> ip_overruns ex_client\<close> c by simp
  then show ?thesis by blast
qed

section \<open>The load at start and the refresh after a blob\<close>

text \<open>At the start the table gets the stored entries, sorted by their numbers, as committed ones, and the store is not
  changed.\<close>

theorem static_addresses_loaded:
  assumes "stored_saddrs D (sd_store st) 1 es" "sd_Cfg_InstanceNumber st = 1" "StaticAddressList st = []"
    and "\<forall>n. lib_alloc (dl_libs D) n"
  shows "map lnk_hContext (StaticAddressList (init_static_addresses D st)) = sort_key sa_InstanceNumber es \<and>
    (\<forall>x \<in> set (StaticAddressList (init_static_addresses D st)). \<not> lnk_bNew x \<and> lnk_InstanceNumber x = sa_InstanceNumber (lnk_hContext x)) \<and>
    sd_store (init_static_addresses D st) = sd_store st"
  using load_stored [OF assms(1,4,3), of "init_static_addresses D st" False] count_stored [OF assms(1)] assms(2)
  by (simp add: init_static_addresses_def)

lemma ex_two_less [simp]: "\<not> (2 :: ULONG) \<le> 1"
  by (simp add: word_le_nat_alt)

lemma ex_stored: "stored_saddrs (ex_dl [ex_host 2, ex_host 1] get) s 1 [ex_host 2, ex_host 1]"
  by (auto simp: stored_saddrs_def mem_utopia_def less_Suc_eq)

theorem static_addresses_loaded_witness:
  "map sa_InstanceNumber (map lnk_hContext (StaticAddressList
     (init_static_addresses (ex_dl [ex_host 2, ex_host 1] (\<lambda>k n. None)) (ex_sd [])))) = [1, 2]"
  using static_addresses_loaded [OF ex_stored, of "ex_sd []" "\<lambda>k n. None"] by simp

text \<open>The refresh that follows a static clients blob gives the table the stored entries too, but as new ones: deleting
  such an entry takes its link from the table and leaves the entry in the store.\<close>

theorem refreshed_entry_delete_keeps_store:
  assumes "stored_saddrs D (sd_store st) 1 es" "sd_hDhcpv4 st" "sd_has_pool st" "sd_syncStaticClientsTable st"
    and "\<forall>n. lib_alloc (dl_libs D) n" "StaticAddress_Synchronize D st = (rs, st')"
  shows "rs = ANSC_SUCCESS \<and> map lnk_hContext (StaticAddressList st') = sort_key sa_InstanceNumber es \<and> sd_store st' = sd_store st \<and>
    (\<forall>x \<in> set (StaticAddressList st'). \<exists>st''. StaticAddress_DelEntry D False st' x = (ANSC_SUCCESS, st'') \<and>
       x \<notin> set (StaticAddressList st'') \<and> sd_store st'' = sd_store st)"
proof -
  let ?st1 = "st\<lparr>StaticAddressList := [], maxInstanceOfStaticAddress := 0\<rparr>"
  let ?st2 = "load_saddrs D True 1 (ulong_range (of_nat (length es))) ?st1"
  have s1: "stored_saddrs D (sd_store ?st1) 1 es" "StaticAddressList ?st1 = []" using assms(1) by simp_all
  note r = load_stored [OF s1(1) assms(5) s1(2) refl, of True]
  have "(rs, st') = (ANSC_SUCCESS, ?st2\<lparr>sd_syncStaticClientsTable := False\<rparr>)"
    using assms(2,3,4,6) count_stored [OF s1(1)]
    by (simp add: StaticAddress_Synchronize_def Dhcpv4_StaticClients_Synchronize_def Let_def)
  then have st': "rs = ANSC_SUCCESS" "StaticAddressList st' = StaticAddressList ?st2" "sd_store st' = sd_store st"
    using r(2) by simp_all
  have "StaticAddress_DelEntry D False st' x = (ANSC_SUCCESS, st'\<lparr>StaticAddressList := AnscSListPopEntryByLink (StaticAddressList st') (lnk_addr x)\<rparr>)"
    if "x \<in> set (StaticAddressList st')" for x
    using that r(3) st'(2) by (simp add: StaticAddress_DelEntry_def)
  then show ?thesis using st' r(1) by simp
qed

theorem refreshed_entry_delete_keeps_store_witness:
  "\<exists>st' x st''. StaticAddress_Synchronize (ex_dl [ex_host 2, ex_host 1] (\<lambda>k n. None)) (ex_sd []) = (ANSC_SUCCESS, st') \<and>
     x \<in> set (StaticAddressList st') \<and> StaticAddress_DelEntry (ex_dl [ex_host 2, ex_host 1] (\<lambda>k n. None)) False st' x = (ANSC_SUCCESS, st'') \<and>
     sd_store st'' = mem_store"
proof -
  let ?D = "ex_dl [ex_host 2, ex_host 1] (\<lambda>k n. None)"
  obtain rs st' where run: "StaticAddress_Synchronize ?D (ex_sd []) = (rs, st')" by fastforce
  have al: "\<forall>n. lib_alloc (dl_libs ?D) n" by simp
  note r = refreshed_entry_delete_keeps_store [OF ex_stored _ _ _ al run, simplified]
  then have "map lnk_hContext (StaticAddressList st') = [ex_host 1, ex_host 2]" by simp
  then obtain x where "x \<in> set (StaticAddressList st')" by (cases "StaticAddressList st'") auto
  with r run show ?thesis by blast
qed

section \<open>Roll backs\<close>

text \<open>Rolling back a new entry whose alias was set keeps the alias that was set: it is the new alias that the setter
  saves for the roll back, not the old one.\<close>

theorem alias_not_rolled_back:
  assumes "noclobber_ok (lib_noclobber (dl_libs D))" "link_at (StaticAddressList st) (lnk_addr l) = Some l" "lnk_bNew l" "s \<noteq> []"
    and "StaticAddress_SetParamStringValue D st l ''Alias'' s = (True, st1)" "link_at (StaticAddressList st1) (lnk_addr l) = Some l1"
    and "StaticAddress_Rollback D st1 l1 = (rs, st2)"
  shows "\<exists>l2. rs = ANSC_SUCCESS \<and> link_at (StaticAddressList st2) (lnk_addr l) = Some l2 \<and> sa_Alias (lnk_hContext l2) = s"
proof -
  let ?l1 = "l\<lparr>lnk_hContext := (lnk_hContext l)\<lparr>sa_Alias := s\<rparr>\<rparr>"
  have nc: "lib_noclobber (dl_libs D) n dst src = (if length src < n then (True, src) else (False, dst))" for n dst src
    using assms(1) by (simp add: noclobber_ok_def)
  have set: "st1 = (put_sa st ?l1)\<lparr>AliasOfStaAddr := s\<rparr>" "length s < 64"
    using assms(5) by (auto simp: StaticAddress_SetParamStringValue_def Let_def nc saddr_sizes split: if_splits)
  have l1: "l1 = ?l1" using assms(6) link_at_put_sa [OF assms(2), of ?l1] by (simp add: set(1))
  let ?l2 = "?l1\<lparr>lnk_hContext := DHCPV4_STATICADDRESS_SET_DEFAULTVALUE (lnk_hContext ?l1)\<rparr>"
  have rb: "rs = ANSC_SUCCESS" "st2 = (put_sa st1 ?l2)\<lparr>AliasOfStaAddr := []\<rparr>"
    using assms(3,4,7) set(2) by (simp_all add: StaticAddress_Rollback_def Let_def l1 set(1) nc saddr_sizes)
  have "link_at (StaticAddressList st2) (lnk_addr l) = Some ?l2"
    using link_at_put_link [of "StaticAddressList st1" ?l2] assms(6) by (simp add: rb(2))
  then show ?thesis using rb(1) by (simp add: DHCPV4_STATICADDRESS_SET_DEFAULTVALUE_def)
qed

theorem alias_not_rolled_back_witness:
  "\<exists>st1 l1 st2 l2. StaticAddress_SetParamStringValue (ex_dl [] (\<lambda>k n. None)) (ex_sd [ex_link ex_saddr True]) (ex_link ex_saddr True) ''Alias'' ''pc'' =
      (True, st1) \<and> StaticAddress_Rollback (ex_dl [] (\<lambda>k n. None)) st1 l1 = (ANSC_SUCCESS, st2) \<and>
    link_at (StaticAddressList st2) 0 = Some l2 \<and> sa_Alias (lnk_hContext l2) = ''pc''"
proof -
  let ?D = "ex_dl [] (\<lambda>k n. None)" and ?l = "ex_link ex_saddr True"
  let ?l1 = "?l\<lparr>lnk_hContext := ex_saddr\<lparr>sa_Alias := ''pc''\<rparr>\<rparr>"
  let ?st1 = "(put_sa (ex_sd [?l]) ?l1)\<lparr>AliasOfStaAddr := ''pc''\<rparr>"
  have set: "StaticAddress_SetParamStringValue ?D (ex_sd [?l]) ?l ''Alias'' ''pc'' = (True, ?st1)"
    by (simp add: StaticAddress_SetParamStringValue_def Let_def mem_noclobber_def saddr_sizes)
  obtain rs st2 where rb: "StaticAddress_Rollback ?D ?st1 ?l1 = (rs, st2)" by fastforce
  have h: "noclobber_ok (lib_noclobber (dl_libs ?D))" "link_at (StaticAddressList (ex_sd [?l])) (lnk_addr ?l) = Some ?l" "lnk_bNew ?l"
    "link_at (StaticAddressList ?st1) (lnk_addr ?l) = Some ?l1"
    by (simp_all add: mem_noclobber_ok) (simp add: put_link_def link_at_def)
  from alias_not_rolled_back [OF h(1,2,3) _ set h(4) rb] set rb show ?thesis by fastforce
qed

text \<open>Rolling back a committed entry reads the store under the number of the pool: when Utopia returns the entry of the number
  it is asked for, an entry with another number is replaced by that one, and its link no longer has the number of its entry.\<close>

theorem rollback_reads_pool_number:
  assumes "link_at (StaticAddressList st) (lnk_addr l) = Some l" "\<not> lnk_bNew l" "lnk_InstanceNumber l \<noteq> sd_Cfg_InstanceNumber st"
    and "ut_Init (lib_ut (dl_libs D)) (sd_store st) = Some c"
    and "\<And>e. \<exists>e1. dl_SAddressByInsNum D c (sd_Cfg_InstanceNumber st) e = (True, e1) \<and> sa_InstanceNumber e1 = sd_Cfg_InstanceNumber st"
    and "StaticAddress_Rollback D st l = (rs, st')"
  shows "\<exists>l'. rs = ANSC_SUCCESS \<and> link_at (StaticAddressList st') (lnk_addr l) = Some l' \<and> lnk_InstanceNumber l' = lnk_InstanceNumber l \<and>
    sa_InstanceNumber (lnk_hContext l') = sd_Cfg_InstanceNumber st \<and> \<not> saddr_inv st'"
proof -
  let ?e = "if AliasOfStaAddr st \<noteq> [] then (lnk_hContext l)\<lparr>sa_Alias := snd (lib_noclobber (dl_libs D) COSA_DML_ALIAS_NAME_LENGTH
    (sa_Alias (lnk_hContext l)) (AliasOfStaAddr st))\<rparr> else lnk_hContext l"
  obtain e1 where e1: "dl_SAddressByInsNum D c (sd_Cfg_InstanceNumber st) ?e = (True, e1)" "sa_InstanceNumber e1 = sd_Cfg_InstanceNumber st"
    using assms(5) by blast
  have get: "CosaDmlDhcpsGetSaddrbyInsNum D st (sd_Cfg_InstanceNumber st) ?e = (ANSC_SUCCESS, e1)"
    by (simp only: CosaDmlDhcpsGetSaddrbyInsNum_def assms(4) option.case e1(1) prod.case simp_thms if_True)
  let ?l' = "l\<lparr>lnk_hContext := e1\<rparr>"
  have run: "(rs, st') = (ANSC_SUCCESS, (put_sa st ?l')\<lparr>AliasOfStaAddr := []\<rparr>)"
    using assms(6) unfolding StaticAddress_Rollback_def Let_def get using assms(2) by simp
  then have at: "link_at (StaticAddressList st') (lnk_addr l) = Some ?l'" using link_at_put_sa [OF assms(1), of ?l'] by simp
  have "?l' \<in> set (StaticAddressList st')" using link_at_Some [OF at] by simp
  then have "\<not> saddr_inv st'" using assms(3) e1(2) by (force simp: saddr_inv_def links_ok_def)
  with run at e1(2) show ?thesis by simp
qed

theorem rollback_reads_pool_number_witness:
  "\<exists>st' l'. StaticAddress_Rollback (ex_dl [] (\<lambda>k n. None)) (ex_sd [ex_link (ex_host 2) False]) (ex_link (ex_host 2) False) = (ANSC_SUCCESS, st') \<and>
     link_at (StaticAddressList st') 0 = Some l' \<and> sa_InstanceNumber (lnk_hContext l') = 1"
proof -
  let ?D = "ex_dl [] (\<lambda>k n. None)" and ?l = "ex_link (ex_host 2) False"
  obtain rs st' where rb: "StaticAddress_Rollback ?D (ex_sd [?l]) ?l = (rs, st')" by fastforce
  have h: "link_at (StaticAddressList (ex_sd [?l])) (lnk_addr ?l) = Some ?l" "\<not> lnk_bNew ?l" "lnk_InstanceNumber ?l \<noteq> sd_Cfg_InstanceNumber (ex_sd [?l])"
    "ut_Init (lib_ut (dl_libs ?D)) (sd_store (ex_sd [?l])) = Some mem_store" by (simp_all add: mem_utopia_def)
  from rollback_reads_pool_number [OF h _ rb] rb show ?thesis by fastforce
qed

end
