(* ===== verification/Dhcp_Saddr_Types.thy ===== *)
theory Dhcp_Saddr_Types
  imports Dhcp_Saddr_Props
begin

text \<open>
  Every text and address of a static address entry fits the array of the structure that holds it, under all operations of
  the table.
\<close>

section \<open>Entries that fit their structure\<close>

definition saddr_typed :: "COSA_DML_DHCPS_SADDR \<Rightarrow> bool" where
  "saddr_typed e \<longleftrightarrow> length (sa_Alias e) < COSA_DML_ALIAS_NAME_LENGTH \<and> length (sa_Chaddr e) = 6 \<and>
     length (sa_DeviceName e) < COSA_DML_ALIAS_NAME_LENGTH \<and> length (sa_Comment e) < SADDR_COMMENT_SIZE"

definition table_typed :: "'s saddr_state \<Rightarrow> bool" where
  "table_typed st \<longleftrightarrow> (\<forall>x \<in> set (StaticAddressList st). saddr_typed (lnk_hContext x))"

text \<open>The libraries fill structures that fit.\<close>

definition libs_typed :: "('s, 'c, 'r) dhcp_libs \<Rightarrow> bool" where
  "libs_typed D \<longleftrightarrow> noclobber_ok (lib_noclobber (dl_libs D)) \<and> (\<forall>n. saddr_typed (dl_junk D n)) \<and>
     (\<forall>c p i e. saddr_typed e \<longrightarrow> saddr_typed (snd (dl_SAddress D c p i e))) \<and>
     (\<forall>c n e. saddr_typed e \<longrightarrow> saddr_typed (snd (dl_SAddressByInsNum D c n e)))"

text \<open>The bounded copy into a field of a typed entry leaves it typed.\<close>

lemma copy_typed:
  assumes "libs_typed D" "saddr_typed e"
  shows "lib_noclobber (dl_libs D) COSA_DML_ALIAS_NAME_LENGTH (sa_Alias e) t = (ok, r) \<Longrightarrow> saddr_typed (e\<lparr>sa_Alias := r\<rparr>)"
    "lib_noclobber (dl_libs D) COSA_DML_ALIAS_NAME_LENGTH (sa_DeviceName e) t = (ok, r) \<Longrightarrow> saddr_typed (e\<lparr>sa_DeviceName := r\<rparr>)"
    "lib_noclobber (dl_libs D) SADDR_COMMENT_SIZE (sa_Comment e) t = (ok, r) \<Longrightarrow> saddr_typed (e\<lparr>sa_Comment := r\<rparr>)"
    "saddr_typed (e\<lparr>sa_Alias := snd (lib_noclobber (dl_libs D) COSA_DML_ALIAS_NAME_LENGTH (sa_Alias e) t)\<rparr>)"
  using assms by (auto simp: libs_typed_def noclobber_ok_def saddr_typed_def split: if_splits)

lemma field_typed [simp]:
  "saddr_typed (e\<lparr>sa_bEnabled := b\<rparr>) = saddr_typed e" "saddr_typed (e\<lparr>sa_ActiveFlag := b\<rparr>) = saddr_typed e"
  "saddr_typed (e\<lparr>sa_Yiaddr := y\<rparr>) = saddr_typed e" "saddr_typed (e\<lparr>sa_InstanceNumber := n\<rparr>) = saddr_typed e"
  by (simp_all add: saddr_typed_def)

lemma chaddr_typed: "saddr_typed e \<Longrightarrow> length c = 6 \<Longrightarrow> saddr_typed (e\<lparr>sa_Chaddr := c\<rparr>)"
  by (simp add: saddr_typed_def)

lemma default_typed: "saddr_typed e \<Longrightarrow> saddr_typed (DHCPV4_STATICADDRESS_SET_DEFAULTVALUE e)"
  by (simp add: saddr_typed_def DHCPV4_STATICADDRESS_SET_DEFAULTVALUE_def)

lemma saddr_alias_fits: "length (saddr_alias n) < COSA_DML_ALIAS_NAME_LENGTH"
proof -
  have "unat n < 2 ^ 32" using unsigned_less [of n, where 'a = nat] by simp
  then have "length (dec (unat n)) \<le> 10" by (intro length_dec) simp_all
  then show ?thesis by (simp add: saddr_alias_def saddr_sizes)
qed

text \<open>A list that kept its links, or got a link with a typed entry in the place of another.\<close>

definition typed_change :: "'s saddr_state \<Rightarrow> 's saddr_state \<Rightarrow> bool" where
  "typed_change st st' \<longleftrightarrow> StaticAddressList st' = StaticAddressList st \<or>
     (\<exists>x. saddr_typed (lnk_hContext x) \<and> StaticAddressList st' = put_link (StaticAddressList st) x)"

lemma typed_change_table: "typed_change st st' \<Longrightarrow> table_typed st \<Longrightarrow> table_typed st'"
  by (auto simp: typed_change_def table_typed_def put_link_def)

lemma typed_change_rules:
  "typed_change st (snd a) \<Longrightarrow> typed_change st (snd b) \<Longrightarrow> typed_change st (snd (if c then a else b))"
  "typed_change st (x\<lparr>AliasOfStaAddr := t\<rparr>) \<Longrightarrow> typed_change st (y\<lparr>AliasOfStaAddr := t\<rparr>) \<Longrightarrow>
     typed_change st ((if c then x else y)\<lparr>AliasOfStaAddr := t\<rparr>)"
  "typed_change st s \<Longrightarrow> typed_change st (snd (r, s))"
  "typed_change st ((snd q)\<lparr>AliasOfStaAddr := []\<rparr>) \<Longrightarrow> typed_change st (snd (commit_end q))"
  by (simp_all add: commit_end_def)

lemma typed_change_case:
  "(\<And>x y. p = (x, y) \<Longrightarrow> typed_change st (snd (f x y))) \<Longrightarrow> typed_change st (snd (case p of (x, y) \<Rightarrow> f x y))"
  by (simp split: prod.split)

lemma typed_change_put:
  assumes "same_table st st1" "saddr_typed (lnk_hContext x)"
  shows "typed_change st (put_sa st1 x)" "typed_change st ((put_sa st1 x)\<lparr>AliasOfStaAddr := t\<rparr>)"
  using assms by (auto simp: typed_change_def same_table_def)

lemma typed_change_same:
  assumes "same_table st st1"
  shows "typed_change st st1" "typed_change st (st1\<lparr>AliasOfStaAddr := t\<rparr>)"
  using assms by (simp_all add: typed_change_def same_table_def)

lemma typed_change_board:
  assumes "same_table st (snd p)" "\<And>x y. same_table st y \<Longrightarrow> typed_change st (snd (f x y))"
  shows "typed_change st (snd (case p of (x, y) \<Rightarrow> f x y))"
  using assms by (cases p) simp

lemma link_typed: "table_typed st \<Longrightarrow> link_at (StaticAddressList st) (lnk_addr l) = Some l \<Longrightarrow> saddr_typed (lnk_hContext l)"
  using link_at_Some by (fastforce simp: table_typed_def)

lemma typed_change_case_if:
  "(c \<Longrightarrow> typed_change st (snd a)) \<Longrightarrow> (\<not> c \<Longrightarrow> typed_change st (snd b)) \<Longrightarrow> typed_change st (snd (if c then a else b))"
  by simp

lemma setters_typed:
  assumes "libs_typed D" "saddr_typed (lnk_hContext l)"
  shows "typed_change st (snd (StaticAddress_SetParamBoolValue D st l p b))"
    "typed_change st (snd (StaticAddress_SetParamUlongValue D st l p u))"
    "typed_change st (snd (StaticAddress_SetParamStringValue D st l p s))"
proof -
  note typed = copy_typed [OF assms]
  have same: "typed_change st (snd (r, st))" for r :: bool by (simp add: typed_change_same)
  show "typed_change st (snd (StaticAddress_SetParamBoolValue D st l p b))"
    unfolding StaticAddress_SetParamBoolValue_def
    by (intro typed_change_case_if same typed_change_rules(3) typed_change_put same_table_refl) (simp add: assms)
  show "typed_change st (snd (StaticAddress_SetParamUlongValue D st l p u))"
    unfolding StaticAddress_SetParamUlongValue_def
    by (intro typed_change_case_if same typed_change_case typed_change_rules(3) typed_change_put same_table_refl) (simp add: assms)
  show "typed_change st (snd (StaticAddress_SetParamStringValue D st l p s))"
    unfolding StaticAddress_SetParamStringValue_def Let_def
    by (intro typed_change_case_if same typed_change_case typed_change_rules(3) typed_change_put same_table_refl;
        simp; (erule typed | rule chaddr_typed [OF assms(2)]); simp)
qed

lemma Commit_typed:
  assumes "libs_typed D" "saddr_typed (lnk_hContext l)"
  shows "typed_change st (snd (StaticAddress_Commit D busy st l))"
  unfolding StaticAddress_Commit_def Let_def
  by (intro typed_change_rules typed_change_board saddr_board_same_table typed_change_put)
    (simp_all add: assms typed_change_same typed_change_put saddr_board_same_table copy_typed(4) [OF assms])

lemma Rollback_typed:
  assumes "libs_typed D" "saddr_typed (lnk_hContext l)"
  shows "typed_change st (snd (StaticAddress_Rollback D st l))"
proof -
  let ?e0 = "if AliasOfStaAddr st \<noteq> [] then (lnk_hContext l)\<lparr>sa_Alias := snd (lib_noclobber (dl_libs D) COSA_DML_ALIAS_NAME_LENGTH
    (sa_Alias (lnk_hContext l)) (AliasOfStaAddr st))\<rparr> else lnk_hContext l"
  have e0: "saddr_typed ?e0" by (simp add: assms(2) copy_typed(4) [OF assms])
  have get: "saddr_typed (snd (CosaDmlDhcpsGetSaddrbyInsNum D st n e))" if "saddr_typed e" for n e
    using assms(1) that by (simp add: CosaDmlDhcpsGetSaddrbyInsNum_def libs_typed_def case_prod_unfold split: option.split)
  have "saddr_typed (if \<not> lnk_bNew l then snd (CosaDmlDhcpsGetSaddrbyInsNum D st (sd_Cfg_InstanceNumber st) ?e0)
      else DHCPV4_STATICADDRESS_SET_DEFAULTVALUE ?e0)"
    using get [OF e0] default_typed [OF e0] by (simp only: if_split) blast
  then show ?thesis
    unfolding StaticAddress_Rollback_def Let_def snd_conv by (intro typed_change_put same_table_refl) simp
qed

lemma push_typed: "table_typed st \<Longrightarrow> saddr_typed (lnk_hContext x) \<Longrightarrow>
    StaticAddressList st' = CosaSListPushEntryByInsNum (StaticAddressList st) x \<Longrightarrow> table_typed st'"
  by (auto simp: table_typed_def)

lemma AddEntry_typed:
  assumes "libs_typed D" "table_typed st"
  shows "table_typed (snd (StaticAddress_AddEntry D st))"
proof -
  have "saddr_typed (e\<lparr>sa_InstanceNumber := n, sa_Alias := saddr_alias n\<rparr>)" if "saddr_typed e" for e n
    using that saddr_alias_fits by (simp add: saddr_typed_def)
  moreover have "saddr_typed (DHCPV4_STATICADDRESS_SET_DEFAULTVALUE (dl_junk D a))" for a
    using assms(1) by (simp add: default_typed libs_typed_def)
  ultimately show ?thesis
    using assms(2) by (auto simp: StaticAddress_AddEntry_def alloc_block_def Let_def table_typed_def)
qed

lemma load_saddrs_typed: "libs_typed D \<Longrightarrow> table_typed st \<Longrightarrow> table_typed (load_saddrs D b pool is st)"
proof (induction "is" arbitrary: st)
  case Nil
  then show ?case by simp
next
  case (Cons i "is")
  obtain goon st' where one: "load_one D b pool i st = (goon, st')" by fastforce
  have junk: "saddr_typed (DHCPV4_STATICADDRESS_SET_DEFAULTVALUE (dl_junk D a))" for a
    using Cons.prems(1) by (simp add: default_typed libs_typed_def)
  from load_one_cases [OF one] consider "not_loaded st st'"
    | c e where "dl_SAddress D c pool i (DHCPV4_STATICADDRESS_SET_DEFAULTVALUE (dl_junk D (sd_allocs st))) = (True, e)"
      "loaded b e st st' \<or> reloaded e st st'" by blast
  then have "table_typed st'"
  proof cases
    case 1
    with Cons.prems(2) show ?thesis by (simp add: not_loaded_def table_typed_def)
  next
    case 2
    have e: "saddr_typed e" using Cons.prems(1) junk 2(1) unfolding libs_typed_def by (metis snd_conv)
    then have e': "saddr_typed (e\<lparr>sa_InstanceNumber := n, sa_Alias := saddr_alias n\<rparr>)" for n
      using saddr_alias_fits by (simp add: saddr_typed_def)
    from 2(2) show ?thesis
    proof
      assume "loaded b e st st'"
      then obtain x where x: "StaticAddressList st' = CosaSListPushEntryByInsNum (StaticAddressList st) x"
        "lnk_hContext x = e \<or> lnk_hContext x = e\<lparr>sa_InstanceNumber := lnk_InstanceNumber x, sa_Alias := saddr_alias (lnk_InstanceNumber x)\<rparr>"
        unfolding loaded_def by blast
      have "saddr_typed (lnk_hContext x)" using x(2) e e' [of "lnk_InstanceNumber x"] by metis
      then show ?thesis by (rule push_typed [OF Cons.prems(2) _ x(1)])
    next
      assume "reloaded e st st'"
      then obtain l where "StaticAddressList st' = put_link (StaticAddressList st) (l\<lparr>lnk_hContext := e, lnk_bNew := False\<rparr>)"
        by (auto simp: reloaded_def)
      with e have "typed_change st st'" unfolding typed_change_def by (intro disjI2 exI [of _ "l\<lparr>lnk_hContext := e, lnk_bNew := False\<rparr>"]) simp
      then show ?thesis using Cons.prems(2) by (rule typed_change_table)
    qed
  qed
  with Cons.IH [OF Cons.prems(1)] one show ?case by simp
qed

lemma saddr_step_typed:
  assumes "saddr_step D st st'" "libs_typed D" "table_typed st"
  shows "table_typed st'"
  using assms(1)
proof cases
  case add
  then show ?thesis using AddEntry_typed assms(2,3) by simp
next
  case (del busy l)
  have "same_table st (snd (if \<not> lnk_bNew l then CosaDmlDhcpsDelSaddr D st (sd_Cfg_InstanceNumber st) (sa_InstanceNumber (lnk_hContext l))
      else (ANSC_SUCCESS, st)))" by (simp add: saddr_board_same_table)
  then show ?thesis
    using assms(3) unfolding del StaticAddress_DelEntry_def
    by (auto simp: table_typed_def same_table_def split: prod.split)
next
  case (set_bool l)
  then show ?thesis using typed_change_table setters_typed(1) [OF assms(2) link_typed [OF assms(3)]] assms(3) by blast
next
  case (set_ulong l)
  then show ?thesis using typed_change_table setters_typed(2) [OF assms(2) link_typed [OF assms(3)]] assms(3) by blast
next
  case (set_string l)
  then show ?thesis using typed_change_table setters_typed(3) [OF assms(2) link_typed [OF assms(3)]] assms(3) by blast
next
  case (commit l)
  then show ?thesis using typed_change_table Commit_typed [OF assms(2) link_typed [OF assms(3)]] assms(3) by blast
next
  case (rollback l)
  then show ?thesis using typed_change_table Rollback_typed [OF assms(2) link_typed [OF assms(3)]] assms(3) by blast
next
  case visit
  then show ?thesis using assms(3) by (simp add: StaticAddress_IsUpdated_def table_typed_def)
next
  case refresh
  let ?st1 = "st\<lparr>StaticAddressList := [], maxInstanceOfStaticAddress := 0\<rparr>"
  have "table_typed (load_saddrs D True 1 is ?st1)" for "is"
    using load_saddrs_typed [OF assms(2), of ?st1] by (simp add: table_typed_def)
  with assms(3) show ?thesis
    unfolding refresh(1) by (simp add: StaticAddress_Synchronize_def Dhcpv4_StaticClients_Synchronize_def Let_def table_typed_def split: prod.split)
next
  case outside
  then show ?thesis using assms(3) by (simp add: table_typed_def)
qed



end
