(* ===== verification/Pc_Types.thy ===== *)
theory Pc_Types
  imports Pam_Prelude
begin

text \<open>
  The data of parental control, from \<open>cosa_x_comcast_com_parentalcontrol_apis.h\<close>: the three switch
  structures and the rows of the five tables. The enumerated fields are numbers, because the setters of the
  middle layer store any number the management system sends.
\<close>

definition BLOCK_METHOD_URL :: ULONG where "BLOCK_METHOD_URL = 1"
definition BLOCK_METHOD_KEYWORD :: ULONG where "BLOCK_METHOD_KEYWORD = 2"
definition IPADDR_IPV4 :: ULONG where "IPADDR_IPV4 = 1"
definition IPADDR_IPV6 :: ULONG where "IPADDR_IPV6 = 2"

record COSA_DML_MANAGEDSITES =
  si_Enable :: bool

record COSA_DML_MANAGED_SERVS =
  sv_Enable :: bool

record COSA_DML_MANAGED_DEVS =
  dv_Enable :: bool
  dv_AllowAll :: bool

record COSA_DML_BLOCKEDURL =
  bu_InstanceNumber :: ULONG
  bu_Alias :: string
  bu_BlockMethod :: ULONG
  bu_Site :: string
  bu_AlwaysBlock :: bool
  bu_StartTime :: string
  bu_EndTime :: string
  bu_StartTimeFlg :: bool
  bu_EndTimeFlg :: bool
  bu_BlockDays :: string
  bu_MAC :: string
  bu_DeviceName :: string

record COSA_DML_TRUSTEDUSER =
  tu_InstanceNumber :: ULONG
  tu_Alias :: string
  tu_HostDescription :: string
  tu_IPAddressType :: ULONG
  tu_IPAddress :: string
  tu_Trusted :: bool

record COSA_DML_MS_SERV =
  ms_InstanceNumber :: ULONG
  ms_Alias :: string
  ms_Description :: string
  ms_Protocol :: ULONG
  ms_StartPort :: ULONG
  ms_EndPort :: ULONG
  ms_AlwaysBlock :: bool
  ms_StartTime :: string
  ms_EndTime :: string
  ms_BlockDays :: string

record COSA_DML_MS_TRUSTEDUSER =
  mt_InstanceNumber :: ULONG
  mt_Alias :: string
  mt_HostDescription :: string
  mt_IPAddressType :: ULONG
  mt_IPAddress :: string
  mt_Trusted :: bool

record COSA_DML_MD_DEV =
  de_InstanceNumber :: ULONG
  de_Alias :: string
  de_Type :: ULONG
  de_Description :: string
  de_MACAddress :: string
  de_AlwaysBlock :: bool
  de_StartTime :: string
  de_EndTime :: string
  de_BlockDays :: string

text \<open>The redirection addresses of the managed devices.\<close>

record COSA_DML_MD_RED =
  rd_HTTP_Server_IP :: string
  rd_HTTPS_Server_IP :: string
  rd_Default_Server_IP :: string
  rd_HTTP_Server_IPv6 :: string
  rd_HTTPS_Server_IPv6 :: string
  rd_Default_Server_IPv6 :: string

text \<open>The sizes of the character arrays.\<close>

definition PC_ALIAS :: nat where "PC_ALIAS = 256"
definition PC_SITE :: nat where "PC_SITE = 1025"
definition PC_TEXT :: nat where "PC_TEXT = 64"

end
