(* ===== verification/Pc_Registry.thy ===== *)
theory Pc_Registry
  imports Pc_Types Nat_Lib
begin

text \<open>
  The registry half of \<open>cosa_x_comcast_com_parentalcontrol_internal.c\<close>. Each of the five tables writes a row
  that the user added and has not committed below a folder of the registry (\<open>CosaPcReg_...AddInfo\<close>), removes it when the row is
  committed or deleted (\<open>DelInfo\<close>), and reads the rows that are still there after a restart (\<open>GetInfo\<close>). The
  source has the three functions five times, with other names; here they are functions of \<open>pc_kind\<close>, what differs between the
  tables, and the fifteen copies are their instances. All five tables use one folder.
\<close>

section \<open>A table\<close>

text \<open>What differs between the copies: the row's number and alias, the names of the registry records, the
  prefix of new aliases, and how \<open>AddEntry\<close> takes the next number: the number of the new row and the next one.\<close>

record 'e pc_kind =
  k_ins :: "'e \<Rightarrow> ULONG"
  k_set_ins :: "ULONG \<Rightarrow> 'e \<Rightarrow> 'e"
  k_alias :: "'e \<Rightarrow> string"
  k_set_alias :: "string \<Rightarrow> 'e \<Rightarrow> 'e"
  k_prefix :: string
  k_rr_InsNum :: string
  k_rr_Alias :: string
  k_rr_NextInsNumber :: string
  k_take :: "ULONG \<Rightarrow> ULONG \<times> ULONG"

text \<open>A link object has two handles to registry folders beside the row, kept with it in \<open>lnk_hContext\<close>: the folder of the
  table and the folder of the row. \<open>None\<close> is a null handle.\<close>

record 'e pc_obj =
  ob_entry :: 'e
  ob_hPoamIrepUpperFo :: "path option"
  ob_hPoamIrepFo :: "path option"

record 'e pc_table =
  tb_List :: "'e pc_obj slist"
  tb_NextInsNum :: ULONG
  tb_hIrepFolder :: "path option"

text \<open>What the tables share: the state of the board layer, the registry, and the number of blocks allocated.\<close>

record ('b, 'r) pc_env =
  en_board :: 'b
  en_registry :: 'r
  en_allocs :: nat

text \<open>The code the component calls and that is not in the repository: the libraries of the NAT component, two more operations
  on a registry folder, the root folder, what a fresh link object holds in its two handles, \<open>strdup\<close>, the character before a
  text in memory, and the checks \<open>AnscValidStringCheck\<close>, \<open>is_IpAddress\<close> and \<open>is_Ipv6_address\<close>. \<open>pl_product\<close> tells
  whether the build has one of the two products that check the times.\<close>

record ('s, 'c, 'r) pc_libs =
  pl_libs :: "('s, 'c, 'r) libs"
  pl_DelRecord :: "'r \<Rightarrow> path \<Rightarrow> string \<Rightarrow> 'r"
  pl_DelFolder :: "'r \<Rightarrow> path \<Rightarrow> string \<Rightarrow> 'r"
  pl_root :: "path option"
  pl_junk_fo :: "nat \<Rightarrow> path option \<times> path option"
  pl_strdup :: "string \<Rightarrow> bool"
  pl_before :: char
  pl_AnscValidStringCheck :: "string \<Rightarrow> bool"
  pl_is_IpAddress :: "string \<Rightarrow> bool"
  pl_is_Ipv6_address :: "string \<Rightarrow> bool"
  pl_product :: bool

definition pc_alloc :: "('s, 'c, 'r) pc_libs \<Rightarrow> ('b, 'r) pc_env \<Rightarrow> nat option \<times> ('b, 'r) pc_env" where
  "pc_alloc L v =
     (if lib_alloc (pl_libs L) (en_allocs v) then Some (en_allocs v) else None,
      v\<lparr>en_allocs := Suc (en_allocs v)\<rparr>)"

definition pc_ir :: "('s, 'c, 'r) pc_libs \<Rightarrow> 'r irep" where
  "pc_ir L = lib_ir (pl_libs L)"

section \<open>Writing and removing a row\<close>

text \<open>The result of \<open>AddInfo\<close> has the handles it stores in the link object, when it gets that far.\<close>

definition pc_AddInfo :: "('s, 'c, 'r) pc_libs \<Rightarrow> 'e pc_kind \<Rightarrow> 'e pc_table \<Rightarrow> 'e \<Rightarrow> ('b, 'r) pc_env \<Rightarrow>
    ansc_status \<times> (path \<times> path) option \<times> ('b, 'r) pc_env" where
  "pc_AddInfo L K t e v =
     (case tb_hIrepFolder t of
        None \<Rightarrow> (ANSC_FAILURE, None, v)
      | Some p \<Rightarrow>
          let I = pc_ir L; r0 = ir_EnableFileSync I (en_registry v) p False;
              done = (\<lambda>v' r. v'\<lparr>en_registry := ir_EnableFileSync I r p True\<rparr>)
          in (case pc_alloc L v of
              (None, v1) \<Rightarrow> (ANSC_RESOURCES, None, done v1 r0)
            | (Some _, v1) \<Rightarrow>
                (case ir_AddUint32 I (pl_DelRecord L r0 p (k_rr_NextInsNumber K)) p (k_rr_NextInsNumber K) (tb_NextInsNum t) of (_, r1) \<Rightarrow>
                 (case ir_AddFolder I r1 p (k_alias K e) of (ok, r2) \<Rightarrow>
                    if \<not> ok then (ANSC_FAILURE, None, done v1 r2)
                    else let f = p @ [k_alias K e] in
                      (case ir_AddUint32 I r2 f (k_rr_InsNum K) (k_ins K e) of (_, r3) \<Rightarrow>
                       (case ir_AddString I r3 f (k_rr_Alias K) (k_alias K e) of (rc, r4) \<Rightarrow>
                          (if rc then ANSC_SUCCESS else ANSC_FAILURE, Some (p, f), done v1 r4)))))))"

text \<open>The name of the folder is the last element of its path.\<close>

definition pc_DelInfo :: "('s, 'c, 'r) pc_libs \<Rightarrow> 'e pc_obj \<Rightarrow> ('b, 'r) pc_env \<Rightarrow> ansc_status \<times> ('b, 'r) pc_env" where
  "pc_DelInfo L ob v =
     (case (ob_hPoamIrepUpperFo ob, ob_hPoamIrepFo ob) of
        (Some p, Some f) \<Rightarrow>
          let I = pc_ir L; r1 = pl_DelFolder L (ir_EnableFileSync I (en_registry v) p False) p (last f)
          in (ANSC_SUCCESS, v\<lparr>en_registry := ir_EnableFileSync I r1 p True\<rparr>)
      | _ \<Rightarrow> (ANSC_FAILURE, v))"

section \<open>Reading the rows back\<close>

text \<open>The loop over the names \<open>EnumFolder\<close> returns. \<open>n\<close> is \<open>ulInstanceNumber\<close>: a folder without the record leaves the
  number of the round before. \<open>J\<close> is the content of a fresh block.\<close>

fun pc_reg_get :: "('s, 'c, 'r) pc_libs \<Rightarrow> 'e pc_kind \<Rightarrow> (nat \<Rightarrow> 'e) \<Rightarrow> path \<Rightarrow> string option list \<Rightarrow> ULONG \<Rightarrow>
    'e pc_table \<Rightarrow> ('b, 'r) pc_env \<Rightarrow> ansc_status \<times> 'e pc_table \<times> ('b, 'r) pc_env" where
  "pc_reg_get L K J p [] n t v = (ANSC_SUCCESS, t, v)"
| "pc_reg_get L K J p (None # names) n t v = pc_reg_get L K J p names n t v"
| "pc_reg_get L K J p (Some name # names) n t v =
     (let I = pc_ir L; r = en_registry v; f = p @ [name] in
      if \<not> ir_GetFolder I r p name then pc_reg_get L K J p names n t v
      else
        let n' = (case ir_GetUint32 I r f (k_rr_InsNum K) of Some x \<Rightarrow> x | None \<Rightarrow> n);
            alias = (case ir_GetString I r f (k_rr_Alias K) of Some a \<Rightarrow> a | None \<Rightarrow> [])
        in (case pc_alloc L v of
              (None, v1) \<Rightarrow> (ANSC_RESOURCES, t, v1)
            | (Some a1, v1) \<Rightarrow>
                (case pc_alloc L v1 of
                   (None, v2) \<Rightarrow> (ANSC_RESOURCES, t, v2)
                 | (Some a2, v2) \<Rightarrow>
                     let e0 = J a2;
                         e1 = k_set_alias K (snd (lib_noclobber (pl_libs L) PC_ALIAS (k_alias K e0) alias)) e0;
                         e = k_set_ins K n' e1;
                         l = \<lparr>lnk_addr = a1, lnk_InstanceNumber = n', lnk_bNew = True, lnk_bFound = False,
                              lnk_hContext = \<lparr>ob_entry = e, ob_hPoamIrepUpperFo = Some p, ob_hPoamIrepFo = Some f\<rparr>\<rparr>
                     in pc_reg_get L K J p names n' (t\<lparr>tb_List := CosaSListPushEntryByInsNum (tb_List t) l\<rparr>) v2)))"

definition pc_GetInfo :: "('s, 'c, 'r) pc_libs \<Rightarrow> 'e pc_kind \<Rightarrow> (nat \<Rightarrow> 'e) \<Rightarrow> 'e pc_table \<Rightarrow> ('b, 'r) pc_env \<Rightarrow>
    ansc_status \<times> 'e pc_table \<times> ('b, 'r) pc_env" where
  "pc_GetInfo L K J t v =
     (case tb_hIrepFolder t of
        None \<Rightarrow> (ANSC_FAILURE, t, v)
      | Some p \<Rightarrow> pc_reg_get L K J p (ir_EnumFolder (pc_ir L) (en_registry v) p) 0 t v)"

end
