(* ===== verification/Pc_Board.thy ===== *)
theory Pc_Board
  imports Pc_Registry
begin

text \<open>
  What the middle layer of parental control asks of the board layer: for each table the seven functions
  \<open>CosaDml..._GetNumberOfEntries\<close>, \<open>_GetEntryByIndex\<close>, \<open>_SetValues\<close>, \<open>_AddEntry\<close>, \<open>_DelEntry\<close>,
  \<open>_GetConf\<close> and \<open>_SetConf\<close> (record \<open>pc_ops\<close>). The locale \<open>pc_board\<close> is their contract: seen as a list of rows,
  every function that succeeds does to the list what its name says, and one that fails leaves it alone.
\<close>

record ('e, 'b) pc_ops =
  bo_GetNumberOfEntries :: "'b \<Rightarrow> ULONG \<times> 'b"
  bo_GetEntryByIndex :: "ULONG \<Rightarrow> 'e \<Rightarrow> 'b \<Rightarrow> ansc_status \<times> 'e \<times> 'b"
  bo_SetValues :: "ULONG \<Rightarrow> ULONG \<Rightarrow> string \<Rightarrow> 'b \<Rightarrow> ansc_status \<times> 'b"
  bo_AddEntry :: "'e \<Rightarrow> 'b \<Rightarrow> ansc_status \<times> 'b"
  bo_DelEntry :: "ULONG \<Rightarrow> 'b \<Rightarrow> ansc_status \<times> 'b"
  bo_GetConf :: "ULONG \<Rightarrow> 'e \<Rightarrow> 'b \<Rightarrow> ansc_status \<times> 'e \<times> 'b"
  bo_SetConf :: "ULONG \<Rightarrow> 'e \<Rightarrow> 'b \<Rightarrow> ansc_status \<times> 'b"

section \<open>Lists of rows with a number\<close>

fun row_at :: "('e \<Rightarrow> ULONG) \<Rightarrow> ULONG \<Rightarrow> 'e list \<Rightarrow> 'e option" where
  "row_at ins n [] = None"
| "row_at ins n (e # es) = (if ins e = n then Some e else row_at ins n es)"

fun row_del :: "('e \<Rightarrow> ULONG) \<Rightarrow> ULONG \<Rightarrow> 'e list \<Rightarrow> 'e list" where
  "row_del ins n [] = []"
| "row_del ins n (e # es) = (if ins e = n then es else e # row_del ins n es)"

fun row_set :: "('e \<Rightarrow> ULONG) \<Rightarrow> ULONG \<Rightarrow> 'e \<Rightarrow> 'e list \<Rightarrow> 'e list" where
  "row_set ins n x [] = []"
| "row_set ins n x (e # es) = (if ins e = n then x # es else e # row_set ins n x es)"

lemma row_at_None: "row_at ins n es = None \<longleftrightarrow> n \<notin> ins ` set es"
  by (induction es) auto

lemma row_at_Some: "row_at ins n es = Some e \<Longrightarrow> e \<in> set es \<and> ins e = n"
  by (induction es) (auto split: if_split_asm)

lemma row_at_in: "distinct (map ins es) \<Longrightarrow> e \<in> set es \<Longrightarrow> row_at ins (ins e) es = Some e"
  by (induction es) (auto simp: image_iff dest: sym)

lemma row_at_del: "distinct (map ins es) \<Longrightarrow> row_at ins m (row_del ins n es) = (if m = n then None else row_at ins m es)"
  by (induction es) (auto simp: row_at_None)

lemma map_row_del: "map ins (row_del ins n es) = remove1 n (map ins es)"
  by (induction es) auto

lemma set_row_del: "distinct (map ins es) \<Longrightarrow> ins ` set (row_del ins n es) = ins ` set es - {n}"
  by (metis map_row_del set_map set_remove1_eq)

lemma set_row_del_sub: "set (row_del ins n es) \<subseteq> set es"
  by (induction es) auto

lemma map_row_set: "ins x = n \<Longrightarrow> map ins (row_set ins n x es) = map ins es"
  by (induction es) auto

lemma row_at_set: "ins x = n \<Longrightarrow> row_at ins m (row_set ins n x es) =
    (if m = n \<and> n \<in> ins ` set es then Some x else row_at ins m es)"
  by (induction es) auto

lemma row_absent: "n \<notin> ins ` set es \<Longrightarrow> row_del ins n es = es \<and> row_set ins n x es = es"
  by (induction es) auto

lemma row_at_append: "row_at ins m (es @ [e]) =
    (case row_at ins m es of Some x \<Rightarrow> Some x | None \<Rightarrow> if ins e = m then Some e else None)"
  by (induction es) auto

section \<open>The contract\<close>

text \<open>\<open>view\<close> is the list of rows, \<open>ok\<close> the invariant of the board's state and \<open>start\<close> the part of it that holds before
  the rows have been counted. \<open>norm\<close> is what the board makes of a row it stores, which may be a shortened form of it, \<open>put\<close>
  gives a row a number and an alias, and \<open>core\<close> is the part of a row that reading it fills in: the other fields of the
  caller's structure stay.\<close>

locale pc_board =
  fixes B :: "('e, 'b) pc_ops"
    and ins :: "'e \<Rightarrow> ULONG"
    and put :: "ULONG \<Rightarrow> string \<Rightarrow> 'e \<Rightarrow> 'e"
    and norm :: "'e \<Rightarrow> 'e"
    and core :: "'e \<Rightarrow> 'e"
    and view :: "'b \<Rightarrow> 'e list"
    and ok :: "'b \<Rightarrow> bool"
    and start :: "'b \<Rightarrow> bool"
  assumes norm_ins: "ins (norm e) = ins e"
    and put_ins: "ins (put n a e) = n"
    and core_ins: "ins (core e) = ins e"
    and ok_start: "ok b \<Longrightarrow> start b"
    and number: "start b \<Longrightarrow> bo_GetNumberOfEntries B b = (n, b') \<Longrightarrow>
      ok b' \<and> view b' = view b \<and> unat n = length (view b)"
    and get_entry: "ok b \<Longrightarrow> bo_GetEntryByIndex B i e b = (s, e', b') \<Longrightarrow>
      ok b' \<and> view b' = view b \<and> (ansc_ok s \<longleftrightarrow> unat i < length (view b)) \<and> (ansc_ok s \<longrightarrow> core e' = core (view b ! unat i))"
    and set_values: "ok b \<Longrightarrow> bo_SetValues B i n a b = (s, b') \<Longrightarrow>
      ok b' \<and> (ansc_ok s \<longleftrightarrow> unat i < length (view b)) \<and>
      view b' = (if ansc_ok s then (view b)[unat i := put n a (view b ! unat i)] else view b)"
    and add: "ok b \<Longrightarrow> bo_AddEntry B e b = (s, b') \<Longrightarrow>
      ok b' \<and> view b' = (if ansc_ok s then view b @ [norm e] else view b)"
    and del: "ok b \<Longrightarrow> bo_DelEntry B n b = (s, b') \<Longrightarrow>
      ok b' \<and> (ansc_ok s \<longleftrightarrow> n \<in> ins ` set (view b)) \<and> view b' = row_del ins n (view b)"
    and get_conf: "ok b \<Longrightarrow> bo_GetConf B n e b = (s, e', b') \<Longrightarrow>
      ok b' \<and> view b' = view b \<and>
      (case row_at ins n (view b) of Some x \<Rightarrow> ansc_ok s \<and> core e' = core x | None \<Rightarrow> \<not> ansc_ok s \<and> e' = e)"
    and set_conf: "ok b \<Longrightarrow> ins e = n \<Longrightarrow> bo_SetConf B n e b = (s, b') \<Longrightarrow>
      ok b' \<and> (ansc_ok s \<longleftrightarrow> n \<in> ins ` set (view b)) \<and> view b' = row_set ins n (norm e) (view b)"
begin

text \<open>Reading after writing.\<close>

lemma get_after_set:
  assumes "ok b" "ins e = n" "bo_SetConf B n e b = (s, b1)" "ansc_ok s" "bo_GetConf B n x b1 = (s', e', b2)"
  shows "ansc_ok s' \<and> core e' = core (norm e) \<and> view b2 = view b1"
proof -
  note w = set_conf [OF assms(1-3)]
  have "row_at ins n (view b1) = Some (norm e)" using w assms(2,4) by (simp add: row_at_set norm_ins)
  then show ?thesis using get_conf [OF _ assms(5)] w by auto
qed

lemma get_after_add:
  assumes "ok b" "ins e \<notin> ins ` set (view b)" "bo_AddEntry B e b = (s, b1)" "ansc_ok s"
    "bo_GetConf B (ins e) x b1 = (s', e', b2)"
  shows "ansc_ok s' \<and> core e' = core (norm e)"
proof -
  note w = add [OF assms(1,3)]
  have "row_at ins (ins e) (view b) = None" using assms(2) by (simp add: row_at_None)
  then have "row_at ins (ins e) (view b1) = Some (norm e)" using w assms(4) by (simp add: row_at_append norm_ins)
  then show ?thesis using get_conf [OF _ assms(5)] w by auto
qed

lemma get_after_del:
  assumes "ok b" "distinct (map ins (view b))" "bo_DelEntry B n b = (s, b1)" "bo_GetConf B n x b1 = (s', e', b2)"
  shows "\<not> ansc_ok s' \<and> e' = x"
proof -
  note w = del [OF assms(1,3)]
  have "row_at ins n (view b1) = None" using w assms(2) by (simp add: row_at_del)
  then show ?thesis using get_conf [OF _ assms(4)] w by auto
qed

end

end
