(* ===== verification/Pc_Utopia.thy ===== *)
theory Pc_Utopia
  imports Pc_Board
begin

text \<open>
  The board layer of parental control of the product, the second half of
  \<open>source-arm/TR-181/board_sbapi/cosa_x_comcast_com_parentalcontrol_apis.c\<close>: the five tables and the three switches in
  Utopia's store. The source has the seven functions of a table and the search for a row five times; here they are functions of
  \<open>ut_tab\<close>, what differs between the tables, and the copies are their instances. A table has a cached count of its rows
  (\<open>g_NrBlkURL\<close>, ...), which the functions that change a table bring up to date. What a change does outside Utopia's store, events
  to restart the firewall and files that are removed, is logged in \<open>ub_events\<close>. \<open>UTC_ENABLE\<close>,
  \<open>CONFIG_CISCO_FEATURE_CISCOCONNECT\<close> and \<open>CONFIG_CISCO_PARCON_WALLED_GARDEN\<close> are off.
\<close>

section \<open>Utopia's rows\<close>

text \<open>The structures of \<open>utapi_parental_control.h\<close> with the fields the source uses.\<close>

record blkurl_t =
  bk_ins_num :: ULONG
  bk_alias :: string
  bk_site :: string
  bk_block_method :: string
  bk_always_block :: bool
  bk_start_time :: string
  bk_end_time :: string
  bk_block_days :: string

record trusted_user_t =
  xu_ins_num :: ULONG
  xu_alias :: string
  xu_host_descp :: string
  xu_ipaddrtype :: int
  xu_ipaddr :: string
  xu_trusted :: bool

record ms_serv_t =
  xs_ins_num :: ULONG
  xs_alias :: string
  xs_descp :: string
  xs_protocol :: string
  xs_start_port :: ULONG
  xs_end_port :: ULONG
  xs_always_block :: bool
  xs_start_time :: string
  xs_end_time :: string
  xs_block_days :: string

record ms_trusteduser_t =
  xm_ins_num :: ULONG
  xm_alias :: string
  xm_host_descp :: string
  xm_ipaddrtype :: int
  xm_ipaddr :: string
  xm_trusted :: bool

record md_dev_t =
  xd_ins_num :: ULONG
  xd_alias :: string
  xd_is_block :: bool
  xd_always :: bool
  xd_descp :: string
  xd_macaddr :: string
  xd_start_time :: string
  xd_end_time :: string
  xd_block_days :: string

text \<open>The arrays of these structures, whose sizes the header of Utopia gives.\<close>

datatype ut_array = Blk_alias | Blk_site | Blk_block_method | Blk_start_time | Blk_end_time | Blk_block_days
  | Tuser_alias | Tuser_host_descp | Tuser_ipaddr
  | Serv_alias | Serv_descp | Serv_protocol | Serv_start_time | Serv_end_time | Serv_block_days
  | Stuser_alias | Stuser_host_descp | Stuser_ipaddr
  | Dev_alias | Dev_descp | Dev_macaddr | Dev_start_time | Dev_end_time | Dev_block_days

section \<open>Utopia's functions\<close>

text \<open>The functions on one table, on an open context. A result \<open>rc\<close> is represented by \<open>rc = 0\<close>.\<close>

record ('x, 'c) ut_fns =
  uf_GetNumber :: "'c \<Rightarrow> nat"
  uf_GetInsNumByIndex :: "'c \<Rightarrow> nat \<Rightarrow> ULONG"
  uf_GetByIndex :: "'c \<Rightarrow> nat \<Rightarrow> 'x"
  uf_SetInsAndAliasByIndex :: "'c \<Rightarrow> nat \<Rightarrow> ULONG \<Rightarrow> string \<Rightarrow> bool \<times> 'c"
  uf_Add :: "'c \<Rightarrow> 'x \<Rightarrow> bool \<times> 'c"
  uf_Del :: "'c \<Rightarrow> ULONG \<Rightarrow> bool \<times> 'c"
  uf_SetByIndex :: "'c \<Rightarrow> int \<Rightarrow> 'x \<Rightarrow> bool \<times> 'c"

text \<open>\<open>pu_Init\<close> opens a context, \<open>pu_Commit\<close> is \<open>Utopia_Free (&ctx, 1)\<close>; \<open>Utopia_Free (&ctx, 0)\<close> drops the context.
  \<open>pu_size\<close> gives the sizes of the arrays, and \<open>pu_junk_protocol\<close> the text that is in \<open>ms_serv.protocol\<close> when no case of the
  switch over the protocol writes it.\<close>

record ('s, 'c) pc_utopia =
  pu_Init :: "'s \<Rightarrow> 'c option"
  pu_Commit :: "'s \<Rightarrow> 'c \<Rightarrow> 's"
  pu_blk :: "(blkurl_t, 'c) ut_fns"
  pu_tuser :: "(trusted_user_t, 'c) ut_fns"
  pu_serv :: "(ms_serv_t, 'c) ut_fns"
  pu_stuser :: "(ms_trusteduser_t, 'c) ut_fns"
  pu_dev :: "(md_dev_t, 'c) ut_fns"
  pu_GetBlkURLCfg :: "'c \<Rightarrow> int"
  pu_SetBlkURLCfg :: "'c \<Rightarrow> bool \<Rightarrow> bool \<times> 'c"
  pu_GetMngServsCfg :: "'c \<Rightarrow> int"
  pu_SetMngServsCfg :: "'c \<Rightarrow> bool \<Rightarrow> bool \<times> 'c"
  pu_GetMngDevsCfg :: "'c \<Rightarrow> int \<times> int"
  pu_SetMngDevsCfg :: "'c \<Rightarrow> int \<times> int \<Rightarrow> bool \<times> 'c"
  pu_size :: "ut_array \<Rightarrow> nat"
  pu_junk_protocol :: string

section \<open>The state\<close>

datatype pc_event = Sysevent string string | Removed string

record 's ut_board =
  ub_store :: 's
  g_NrBlkURL :: nat
  g_NrTrustedUser :: nat
  g_NrMSServs :: nat
  g_NrMSTrustedUsers :: nat
  g_NrMDDevs :: nat
  ub_events :: "pc_event list"

definition commonSyseventSet :: "string \<Rightarrow> string \<Rightarrow> 's ut_board \<Rightarrow> 's ut_board" where
  "commonSyseventSet key val b = b\<lparr>ub_events := ub_events b @ [Sysevent key val]\<rparr>"

definition remove_file :: "string \<Rightarrow> 's ut_board \<Rightarrow> 's ut_board" where
  "remove_file path b = b\<lparr>ub_events := ub_events b @ [Removed path]\<rparr>"

section \<open>The switches\<close>

definition CosaDmlMngSites_GetConf :: "('s, 'c) pc_utopia \<Rightarrow> COSA_DML_MANAGEDSITES \<Rightarrow> 's ut_board \<Rightarrow>
    ansc_status \<times> COSA_DML_MANAGEDSITES \<times> 's ut_board" where
  "CosaDmlMngSites_GetConf U conf b = (case pu_Init U (ub_store b) of
       None \<Rightarrow> (ANSC_FAILURE, conf, b)
     | Some c \<Rightarrow> (ANSC_SUCCESS, conf\<lparr>si_Enable := (pu_GetBlkURLCfg U c = 1)\<rparr>, b))"

definition CosaDmlMngSites_SetConf :: "('s, 'c) pc_utopia \<Rightarrow> COSA_DML_MANAGEDSITES \<Rightarrow> 's ut_board \<Rightarrow> ansc_status \<times> 's ut_board" where
  "CosaDmlMngSites_SetConf U conf b = (case pu_Init U (ub_store b) of
       None \<Rightarrow> (ANSC_FAILURE, b)
     | Some c \<Rightarrow> (case pu_SetBlkURLCfg U c (si_Enable conf) of (ok, c') \<Rightarrow>
         if \<not> ok then (ANSC_FAILURE, b)
         else (ANSC_SUCCESS, commonSyseventSet ''firewall-restart'' [] (commonSyseventSet ''pp_flush'' ''1''
                 (b\<lparr>ub_store := pu_Commit U (ub_store b) c'\<rparr>)))))"

definition CosaDmlMngServs_GetConf :: "('s, 'c) pc_utopia \<Rightarrow> COSA_DML_MANAGED_SERVS \<Rightarrow> 's ut_board \<Rightarrow>
    ansc_status \<times> COSA_DML_MANAGED_SERVS \<times> 's ut_board" where
  "CosaDmlMngServs_GetConf U conf b = (case pu_Init U (ub_store b) of
       None \<Rightarrow> (ANSC_FAILURE, conf, b)
     | Some c \<Rightarrow> (ANSC_SUCCESS, conf\<lparr>sv_Enable := (pu_GetMngServsCfg U c = 1)\<rparr>, b))"

definition CosaDmlMngServs_SetConf :: "('s, 'c) pc_utopia \<Rightarrow> COSA_DML_MANAGED_SERVS \<Rightarrow> 's ut_board \<Rightarrow> ansc_status \<times> 's ut_board" where
  "CosaDmlMngServs_SetConf U conf b = (case pu_Init U (ub_store b) of
       None \<Rightarrow> (ANSC_FAILURE, b)
     | Some c \<Rightarrow> (case pu_SetMngServsCfg U c (sv_Enable conf) of (ok, c') \<Rightarrow>
         if \<not> ok then (ANSC_FAILURE, b)
         else (ANSC_SUCCESS, commonSyseventSet ''firewall-restart'' [] (b\<lparr>ub_store := pu_Commit U (ub_store b) c'\<rparr>))))"

definition CosaDmlMngDevs_GetConf :: "('s, 'c) pc_utopia \<Rightarrow> COSA_DML_MANAGED_DEVS \<Rightarrow> 's ut_board \<Rightarrow>
    ansc_status \<times> COSA_DML_MANAGED_DEVS \<times> 's ut_board" where
  "CosaDmlMngDevs_GetConf U conf b = (case pu_Init U (ub_store b) of
       None \<Rightarrow> (ANSC_FAILURE, conf, b)
     | Some c \<Rightarrow> (case pu_GetMngDevsCfg U c of (enable, allow_all) \<Rightarrow>
         (ANSC_SUCCESS, conf\<lparr>dv_Enable := (enable = 1), dv_AllowAll := (allow_all = 1)\<rparr>, b)))"

definition CosaDmlMngDevs_SetConf :: "('s, 'c) pc_utopia \<Rightarrow> COSA_DML_MANAGED_DEVS \<Rightarrow> 's ut_board \<Rightarrow> ansc_status \<times> 's ut_board" where
  "CosaDmlMngDevs_SetConf U conf b = (case pu_Init U (ub_store b) of
       None \<Rightarrow> (ANSC_FAILURE, b)
     | Some c \<Rightarrow> (case pu_SetMngDevsCfg U c (if dv_Enable conf then 1 else 0, if dv_AllowAll conf then 1 else 0) of (ok, c') \<Rightarrow>
         if \<not> ok then (ANSC_FAILURE, b)
         else (ANSC_SUCCESS, commonSyseventSet ''firewall-restart'' [] (b\<lparr>ub_store := pu_Commit U (ub_store b) c'\<rparr>))))"

section \<open>A table\<close>

text \<open>What differs between the copies: Utopia's functions, how a row is read into the caller's structure and written by
  \<open>AddEntry\<close> and \<open>SetConf\<close>, the cached count, whether the search for a row counts the rows first, whether \<open>DelEntry\<close> searches for the
  row, and what a change does outside the store.\<close>

record ('x, 'e, 's, 'c) ut_tab =
  ut_fns :: "('x, 'c) ut_fns"
  ut_read :: "'x \<Rightarrow> 'e \<Rightarrow> 'e"
  ut_write_add :: "'e \<Rightarrow> 'x"
  ut_write_set :: "'e \<Rightarrow> 'x"
  ut_nr :: "'s ut_board \<Rightarrow> nat"
  ut_set_nr :: "nat \<Rightarrow> 's ut_board \<Rightarrow> 's ut_board"
  ut_counts :: bool
  ut_checks :: bool
  ut_added :: "'s ut_board \<Rightarrow> 's ut_board"
  ut_deleted :: "ULONG \<Rightarrow> 's ut_board \<Rightarrow> 's ut_board"
  ut_changed :: "ULONG \<Rightarrow> 's ut_board \<Rightarrow> 's ut_board"

text \<open>When the context cannot be opened the result is \<open>ANSC_STATUS_FAILURE\<close>, the number \<open>- 1 :: ULONG\<close>.\<close>

definition ut_GetNumberOfEntries :: "('s, 'c) pc_utopia \<Rightarrow> ('x, 'e, 's, 'c) ut_tab \<Rightarrow> 's ut_board \<Rightarrow> ULONG \<times> 's ut_board" where
  "ut_GetNumberOfEntries U T b = (case pu_Init U (ub_store b) of
       None \<Rightarrow> (- 1, b)
     | Some c \<Rightarrow> let n = uf_GetNumber (ut_fns T) c in (of_nat n, ut_set_nr T n b))"

text \<open>\<open>None\<close> is the result -1, which \<open>ANSC_STATUS_FAILURE\<close> also is as an \<open>int\<close>.\<close>

definition ut_InsGetIndex :: "('s, 'c) pc_utopia \<Rightarrow> ('x, 'e, 's, 'c) ut_tab \<Rightarrow> ULONG \<Rightarrow> 's ut_board \<Rightarrow> nat option \<times> 's ut_board" where
  "ut_InsGetIndex U T ins b =
     (let b1 = (if ut_counts T then snd (ut_GetNumberOfEntries U T b) else b)
      in (case pu_Init U (ub_store b1) of
            None \<Rightarrow> None
          | Some c \<Rightarrow> List.find (\<lambda>i. uf_GetInsNumByIndex (ut_fns T) c i = ins) [0..<ut_nr T b1], b1))"

definition ut_GetEntryByIndex :: "('s, 'c) pc_utopia \<Rightarrow> ('x, 'e, 's, 'c) ut_tab \<Rightarrow> ULONG \<Rightarrow> 'e \<Rightarrow> 's ut_board \<Rightarrow>
    ansc_status \<times> 'e \<times> 's ut_board" where
  "ut_GetEntryByIndex U T index e b =
     (if index \<ge> of_nat (ut_nr T b) then (ANSC_FAILURE, e, b)
      else (case pu_Init U (ub_store b) of
          None \<Rightarrow> (ANSC_FAILURE, e, b)
        | Some c \<Rightarrow> (ANSC_SUCCESS, ut_read T (uf_GetByIndex (ut_fns T) c (unat index)) e, b)))"

definition ut_SetValues :: "('s, 'c) pc_utopia \<Rightarrow> ('x, 'e, 's, 'c) ut_tab \<Rightarrow> ULONG \<Rightarrow> ULONG \<Rightarrow> string \<Rightarrow> 's ut_board \<Rightarrow>
    ansc_status \<times> 's ut_board" where
  "ut_SetValues U T index ins alias b =
     (if index \<ge> of_nat (ut_nr T b) then (ANSC_FAILURE, b)
      else (case pu_Init U (ub_store b) of
          None \<Rightarrow> (ANSC_FAILURE, b)
        | Some c \<Rightarrow> (case uf_SetInsAndAliasByIndex (ut_fns T) c (unat index) ins alias of (ok, c') \<Rightarrow>
            if ok then (ANSC_SUCCESS, b\<lparr>ub_store := pu_Commit U (ub_store b) c'\<rparr>) else (ANSC_FAILURE, b))))"

text \<open>The count is read from the context after the change, also when the change failed and the context is dropped.\<close>

definition ut_AddEntry :: "('s, 'c) pc_utopia \<Rightarrow> ('x, 'e, 's, 'c) ut_tab \<Rightarrow> 'e \<Rightarrow> 's ut_board \<Rightarrow> ansc_status \<times> 's ut_board" where
  "ut_AddEntry U T e b = (case pu_Init U (ub_store b) of
       None \<Rightarrow> (ANSC_FAILURE, b)
     | Some c \<Rightarrow> (case uf_Add (ut_fns T) c (ut_write_add T e) of (ok, c') \<Rightarrow>
         let b1 = ut_set_nr T (uf_GetNumber (ut_fns T) c') b in
         if ok then (ANSC_SUCCESS, ut_added T (b1\<lparr>ub_store := pu_Commit U (ub_store b) c'\<rparr>)) else (ANSC_FAILURE, b1)))"

definition ut_DelEntry :: "('s, 'c) pc_utopia \<Rightarrow> ('x, 'e, 's, 'c) ut_tab \<Rightarrow> ULONG \<Rightarrow> 's ut_board \<Rightarrow> ansc_status \<times> 's ut_board" where
  "ut_DelEntry U T ins b =
     (case (if ut_checks T then ut_InsGetIndex U T ins b else (Some 0, b)) of
        (None, b1) \<Rightarrow> (ANSC_FAILURE, b1)
      | (Some _, b1) \<Rightarrow> (case pu_Init U (ub_store b1) of
            None \<Rightarrow> (ANSC_FAILURE, b1)
          | Some c \<Rightarrow> (case uf_Del (ut_fns T) c ins of (ok, c') \<Rightarrow>
              let b2 = ut_set_nr T (uf_GetNumber (ut_fns T) c') b1 in
              if ok then (ANSC_SUCCESS, ut_deleted T ins (b2\<lparr>ub_store := pu_Commit U (ub_store b1) c'\<rparr>)) else (ANSC_FAILURE, b2))))"

definition ut_GetConf :: "('s, 'c) pc_utopia \<Rightarrow> ('x, 'e, 's, 'c) ut_tab \<Rightarrow> ULONG \<Rightarrow> 'e \<Rightarrow> 's ut_board \<Rightarrow>
    ansc_status \<times> 'e \<times> 's ut_board" where
  "ut_GetConf U T ins e b = (case ut_InsGetIndex U T ins b of
       (None, b1) \<Rightarrow> (ANSC_FAILURE, e, b1)
     | (Some i, b1) \<Rightarrow> ut_GetEntryByIndex U T (of_nat i) e b1)"

text \<open>\<open>SetConf\<close> opens a context when the row was found and then searches for the row a second time.\<close>

definition ut_SetConf :: "('s, 'c) pc_utopia \<Rightarrow> ('x, 'e, 's, 'c) ut_tab \<Rightarrow> ULONG \<Rightarrow> 'e \<Rightarrow> 's ut_board \<Rightarrow> ansc_status \<times> 's ut_board" where
  "ut_SetConf U T ins e b = (case ut_InsGetIndex U T ins b of
       (None, b1) \<Rightarrow> (ANSC_FAILURE, b1)
     | (Some _, b1) \<Rightarrow> (case pu_Init U (ub_store b1) of
           None \<Rightarrow> (ANSC_FAILURE, b1)
         | Some c \<Rightarrow> (case ut_InsGetIndex U T ins b1 of (i, b2) \<Rightarrow>
             (case uf_SetByIndex (ut_fns T) c (case i of Some k \<Rightarrow> int k | None \<Rightarrow> - 1) (ut_write_set T e) of (ok, c') \<Rightarrow>
               if ok then (ANSC_SUCCESS, ut_changed T ins (b2\<lparr>ub_store := pu_Commit U (ub_store b2) c'\<rparr>)) else (ANSC_FAILURE, b2)))))"

section \<open>The copies\<close>

definition firewall_restart :: "'s ut_board \<Rightarrow> 's ut_board" where
  "firewall_restart b = commonSyseventSet ''firewall-restart'' [] b"

definition flush_restart :: "'s ut_board \<Rightarrow> 's ut_board" where
  "flush_restart b = commonSyseventSet ''firewall-restart'' [] (commonSyseventSet ''pp_flush'' ''1'' b)"

definition URL2IP_PATH :: "ULONG \<Rightarrow> string" where "URL2IP_PATH n = ''/var/.pc_url2ip_'' @ dec (unat n)"
definition URL2IP6_PATH :: "ULONG \<Rightarrow> string" where "URL2IP6_PATH n = ''/var/.pc_url2ipv6_'' @ dec (unat n)"

definition remove_url2ip :: "ULONG \<Rightarrow> 's ut_board \<Rightarrow> 's ut_board" where
  "remove_url2ip ins b = remove_file (snprintf 256 (URL2IP6_PATH ins)) (remove_file (snprintf 256 (URL2IP_PATH ins)) b)"

subsection \<open>Blocked URL\<close>

definition read_blkurl :: "blkurl_t \<Rightarrow> COSA_DML_BLOCKEDURL \<Rightarrow> COSA_DML_BLOCKEDURL" where
  "read_blkurl x e = e\<lparr>bu_InstanceNumber := bk_ins_num x, bu_AlwaysBlock := bk_always_block x,
     bu_BlockMethod := (if bk_block_method x = ''URL'' then BLOCK_METHOD_URL
        else if bk_block_method x = ''KEYWD'' then BLOCK_METHOD_KEYWORD else 0),
     bu_Alias := strncpy PC_ALIAS (bk_alias x), bu_Site := strncpy PC_SITE (bk_site x),
     bu_StartTime := strncpy PC_TEXT (bk_start_time x), bu_EndTime := strncpy PC_TEXT (bk_end_time x),
     bu_BlockDays := strncpy PC_TEXT (bk_block_days x), bu_StartTimeFlg := True, bu_EndTimeFlg := True\<rparr>"

definition block_method_text :: "ULONG \<Rightarrow> string" where
  "block_method_text m = (if m = BLOCK_METHOD_URL then ''URL'' else if m = BLOCK_METHOD_KEYWORD then ''KEYWD'' else [])"

definition write_blkurl :: "('s, 'c) pc_utopia \<Rightarrow> (nat \<Rightarrow> string \<Rightarrow> string) \<Rightarrow> COSA_DML_BLOCKEDURL \<Rightarrow> blkurl_t" where
  "write_blkurl U copy e = \<lparr>bk_ins_num = bu_InstanceNumber e, bk_alias = strncpy (pu_size U Blk_alias) (bu_Alias e),
     bk_site = strncpy (pu_size U Blk_site) (bu_Site e),
     bk_block_method = copy (pu_size U Blk_block_method) (block_method_text (bu_BlockMethod e)),
     bk_always_block = bu_AlwaysBlock e, bk_start_time = strncpy (pu_size U Blk_start_time) (bu_StartTime e),
     bk_end_time = strncpy (pu_size U Blk_end_time) (bu_EndTime e),
     bk_block_days = strncpy (pu_size U Blk_block_days) (bu_BlockDays e)\<rparr>"

text \<open>\<open>AddEntry\<close> copies the method with \<open>strcpy_s\<close>, \<open>SetConf\<close> with \<open>strncpy\<close>.\<close>

definition copy_s :: "nat \<Rightarrow> string \<Rightarrow> string" where "copy_s n s = snd (strcpy_s n s)"

definition BlkURL_tab :: "('s, 'c) pc_utopia \<Rightarrow> (blkurl_t, COSA_DML_BLOCKEDURL, 's, 'c) ut_tab" where
  "BlkURL_tab U = \<lparr>ut_fns = pu_blk U, ut_read = read_blkurl, ut_write_add = write_blkurl U copy_s, ut_write_set = write_blkurl U strncpy,
     ut_nr = g_NrBlkURL, ut_set_nr = (\<lambda>n b. b\<lparr>g_NrBlkURL := n\<rparr>), ut_counts = False, ut_checks = False,
     ut_added = flush_restart, ut_deleted = (\<lambda>n b. flush_restart (remove_url2ip n b)),
     ut_changed = (\<lambda>n b. flush_restart (remove_url2ip n b))\<rparr>"

definition BlkURL_InsGetIndex :: "('s, 'c) pc_utopia \<Rightarrow> ULONG \<Rightarrow> 's ut_board \<Rightarrow> nat option \<times> 's ut_board" where
  "BlkURL_InsGetIndex U ins b = ut_InsGetIndex U (BlkURL_tab U) ins b"

definition CosaDmlBlkURL_GetNumberOfEntries :: "('s, 'c) pc_utopia \<Rightarrow> 's ut_board \<Rightarrow> ULONG \<times> 's ut_board" where
  "CosaDmlBlkURL_GetNumberOfEntries U b = ut_GetNumberOfEntries U (BlkURL_tab U) b"

definition CosaDmlBlkURL_GetEntryByIndex :: "('s, 'c) pc_utopia \<Rightarrow> ULONG \<Rightarrow> COSA_DML_BLOCKEDURL \<Rightarrow> 's ut_board \<Rightarrow> ansc_status \<times> COSA_DML_BLOCKEDURL \<times> 's ut_board" where
  "CosaDmlBlkURL_GetEntryByIndex U index e b = ut_GetEntryByIndex U (BlkURL_tab U) index e b"

definition CosaDmlBlkURL_SetValues :: "('s, 'c) pc_utopia \<Rightarrow> ULONG \<Rightarrow> ULONG \<Rightarrow> string \<Rightarrow> 's ut_board \<Rightarrow> ansc_status \<times> 's ut_board" where
  "CosaDmlBlkURL_SetValues U index ins alias b = ut_SetValues U (BlkURL_tab U) index ins alias b"

definition CosaDmlBlkURL_AddEntry :: "('s, 'c) pc_utopia \<Rightarrow> COSA_DML_BLOCKEDURL \<Rightarrow> 's ut_board \<Rightarrow> ansc_status \<times> 's ut_board" where
  "CosaDmlBlkURL_AddEntry U e b = ut_AddEntry U (BlkURL_tab U) e b"

definition CosaDmlBlkURL_DelEntry :: "('s, 'c) pc_utopia \<Rightarrow> ULONG \<Rightarrow> 's ut_board \<Rightarrow> ansc_status \<times> 's ut_board" where
  "CosaDmlBlkURL_DelEntry U ins b = ut_DelEntry U (BlkURL_tab U) ins b"

definition CosaDmlBlkURL_GetConf :: "('s, 'c) pc_utopia \<Rightarrow> ULONG \<Rightarrow> COSA_DML_BLOCKEDURL \<Rightarrow> 's ut_board \<Rightarrow> ansc_status \<times> COSA_DML_BLOCKEDURL \<times> 's ut_board" where
  "CosaDmlBlkURL_GetConf U ins e b = ut_GetConf U (BlkURL_tab U) ins e b"

definition CosaDmlBlkURL_SetConf :: "('s, 'c) pc_utopia \<Rightarrow> ULONG \<Rightarrow> COSA_DML_BLOCKEDURL \<Rightarrow> 's ut_board \<Rightarrow> ansc_status \<times> 's ut_board" where
  "CosaDmlBlkURL_SetConf U ins e b = ut_SetConf U (BlkURL_tab U) ins e b"

definition BlkURL_ops :: "('s, 'c) pc_utopia \<Rightarrow> (COSA_DML_BLOCKEDURL, 's ut_board) pc_ops" where
  "BlkURL_ops U = \<lparr>bo_GetNumberOfEntries = CosaDmlBlkURL_GetNumberOfEntries U, bo_GetEntryByIndex = CosaDmlBlkURL_GetEntryByIndex U,
     bo_SetValues = CosaDmlBlkURL_SetValues U, bo_AddEntry = CosaDmlBlkURL_AddEntry U, bo_DelEntry = CosaDmlBlkURL_DelEntry U,
     bo_GetConf = CosaDmlBlkURL_GetConf U, bo_SetConf = CosaDmlBlkURL_SetConf U\<rparr>"

subsection \<open>Trusted user\<close>

definition read_trusted_user :: "trusted_user_t \<Rightarrow> COSA_DML_TRUSTEDUSER \<Rightarrow> COSA_DML_TRUSTEDUSER" where
  "read_trusted_user x e = e\<lparr>tu_InstanceNumber := xu_ins_num x, tu_Trusted := xu_trusted x,
     tu_IPAddressType := (if xu_ipaddrtype x = 6 then IPADDR_IPV6 else IPADDR_IPV4),
     tu_Alias := strncpy PC_ALIAS (xu_alias x), tu_HostDescription := strncpy PC_TEXT (xu_host_descp x),
     tu_IPAddress := strncpy PC_TEXT (xu_ipaddr x)\<rparr>"

definition write_trusted_user :: "('s, 'c) pc_utopia \<Rightarrow> COSA_DML_TRUSTEDUSER \<Rightarrow> trusted_user_t" where
  "write_trusted_user U e = \<lparr>xu_ins_num = tu_InstanceNumber e, xu_alias = strncpy (pu_size U Tuser_alias) (tu_Alias e),
     xu_host_descp = strncpy (pu_size U Tuser_host_descp) (tu_HostDescription e),
     xu_ipaddrtype = (if tu_IPAddressType e = IPADDR_IPV4 then 4 else 6),
     xu_ipaddr = strncpy (pu_size U Tuser_ipaddr) (tu_IPAddress e), xu_trusted = tu_Trusted e\<rparr>"

definition TrustedUser_tab :: "('s, 'c) pc_utopia \<Rightarrow> (trusted_user_t, COSA_DML_TRUSTEDUSER, 's, 'c) ut_tab" where
  "TrustedUser_tab U = \<lparr>ut_fns = pu_tuser U, ut_read = read_trusted_user, ut_write_add = write_trusted_user U, ut_write_set = write_trusted_user U,
     ut_nr = g_NrTrustedUser, ut_set_nr = (\<lambda>n b. b\<lparr>g_NrTrustedUser := n\<rparr>), ut_counts = False, ut_checks = True,
     ut_added = flush_restart, ut_deleted = (\<lambda>n. flush_restart), ut_changed = (\<lambda>n. flush_restart)\<rparr>"

definition TrustedUser_InsGetIndex :: "('s, 'c) pc_utopia \<Rightarrow> ULONG \<Rightarrow> 's ut_board \<Rightarrow> nat option \<times> 's ut_board" where
  "TrustedUser_InsGetIndex U ins b = ut_InsGetIndex U (TrustedUser_tab U) ins b"

definition CosaDmlTrustedUser_GetNumberOfEntries :: "('s, 'c) pc_utopia \<Rightarrow> 's ut_board \<Rightarrow> ULONG \<times> 's ut_board" where
  "CosaDmlTrustedUser_GetNumberOfEntries U b = ut_GetNumberOfEntries U (TrustedUser_tab U) b"

definition CosaDmlTrustedUser_GetEntryByIndex :: "('s, 'c) pc_utopia \<Rightarrow> ULONG \<Rightarrow> COSA_DML_TRUSTEDUSER \<Rightarrow> 's ut_board \<Rightarrow> ansc_status \<times> COSA_DML_TRUSTEDUSER \<times> 's ut_board" where
  "CosaDmlTrustedUser_GetEntryByIndex U index e b = ut_GetEntryByIndex U (TrustedUser_tab U) index e b"

definition CosaDmlTrustedUser_SetValues :: "('s, 'c) pc_utopia \<Rightarrow> ULONG \<Rightarrow> ULONG \<Rightarrow> string \<Rightarrow> 's ut_board \<Rightarrow> ansc_status \<times> 's ut_board" where
  "CosaDmlTrustedUser_SetValues U index ins alias b = ut_SetValues U (TrustedUser_tab U) index ins alias b"

definition CosaDmlTrustedUser_AddEntry :: "('s, 'c) pc_utopia \<Rightarrow> COSA_DML_TRUSTEDUSER \<Rightarrow> 's ut_board \<Rightarrow> ansc_status \<times> 's ut_board" where
  "CosaDmlTrustedUser_AddEntry U e b = ut_AddEntry U (TrustedUser_tab U) e b"

definition CosaDmlTrustedUser_DelEntry :: "('s, 'c) pc_utopia \<Rightarrow> ULONG \<Rightarrow> 's ut_board \<Rightarrow> ansc_status \<times> 's ut_board" where
  "CosaDmlTrustedUser_DelEntry U ins b = ut_DelEntry U (TrustedUser_tab U) ins b"

definition CosaDmlTrustedUser_GetConf :: "('s, 'c) pc_utopia \<Rightarrow> ULONG \<Rightarrow> COSA_DML_TRUSTEDUSER \<Rightarrow> 's ut_board \<Rightarrow> ansc_status \<times> COSA_DML_TRUSTEDUSER \<times> 's ut_board" where
  "CosaDmlTrustedUser_GetConf U ins e b = ut_GetConf U (TrustedUser_tab U) ins e b"

definition CosaDmlTrustedUser_SetConf :: "('s, 'c) pc_utopia \<Rightarrow> ULONG \<Rightarrow> COSA_DML_TRUSTEDUSER \<Rightarrow> 's ut_board \<Rightarrow> ansc_status \<times> 's ut_board" where
  "CosaDmlTrustedUser_SetConf U ins e b = ut_SetConf U (TrustedUser_tab U) ins e b"

definition TrustedUser_ops :: "('s, 'c) pc_utopia \<Rightarrow> (COSA_DML_TRUSTEDUSER, 's ut_board) pc_ops" where
  "TrustedUser_ops U = \<lparr>bo_GetNumberOfEntries = CosaDmlTrustedUser_GetNumberOfEntries U, bo_GetEntryByIndex = CosaDmlTrustedUser_GetEntryByIndex U,
     bo_SetValues = CosaDmlTrustedUser_SetValues U, bo_AddEntry = CosaDmlTrustedUser_AddEntry U, bo_DelEntry = CosaDmlTrustedUser_DelEntry U,
     bo_GetConf = CosaDmlTrustedUser_GetConf U, bo_SetConf = CosaDmlTrustedUser_SetConf U\<rparr>"

subsection \<open>Managed service\<close>

definition PROTO_TCP :: ULONG where "PROTO_TCP = 1"
definition PROTO_UDP :: ULONG where "PROTO_UDP = 2"
definition PROTO_BOTH :: ULONG where "PROTO_BOTH = 3"

definition read_ms_serv :: "ms_serv_t \<Rightarrow> COSA_DML_MS_SERV \<Rightarrow> COSA_DML_MS_SERV" where
  "read_ms_serv x e = e\<lparr>ms_InstanceNumber := xs_ins_num x, ms_AlwaysBlock := xs_always_block x, ms_StartPort := xs_start_port x,
     ms_EndPort := xs_end_port x, ms_Alias := strncpy PC_ALIAS (xs_alias x), ms_Description := strncpy PC_TEXT (xs_descp x),
     ms_StartTime := strncpy PC_TEXT (xs_start_time x), ms_EndTime := strncpy PC_TEXT (xs_end_time x),
     ms_BlockDays := strncpy PC_TEXT (xs_block_days x),
     ms_Protocol := (if xs_protocol x = ''TCP'' then PROTO_TCP else if xs_protocol x = ''UDP'' then PROTO_UDP else PROTO_BOTH)\<rparr>"

definition protocol_text :: "('s, 'c) pc_utopia \<Rightarrow> ULONG \<Rightarrow> string" where
  "protocol_text U p =
     (if p = PROTO_TCP then copy_s (pu_size U Serv_protocol) ''TCP''
      else if p = PROTO_UDP then copy_s (pu_size U Serv_protocol) ''UDP''
      else if p = PROTO_BOTH then copy_s (pu_size U Serv_protocol) ''BOTH''
      else pu_junk_protocol U)"

definition write_ms_serv :: "('s, 'c) pc_utopia \<Rightarrow> COSA_DML_MS_SERV \<Rightarrow> ms_serv_t" where
  "write_ms_serv U e = \<lparr>xs_ins_num = ms_InstanceNumber e, xs_alias = strncpy (pu_size U Serv_alias) (ms_Alias e),
     xs_descp = strncpy (pu_size U Serv_descp) (ms_Description e), xs_protocol = protocol_text U (ms_Protocol e),
     xs_start_port = ms_StartPort e, xs_end_port = ms_EndPort e, xs_always_block = ms_AlwaysBlock e,
     xs_start_time = strncpy (pu_size U Serv_start_time) (ms_StartTime e), xs_end_time = strncpy (pu_size U Serv_end_time) (ms_EndTime e),
     xs_block_days = strncpy (pu_size U Serv_block_days) (ms_BlockDays e)\<rparr>"

definition MSServ_tab :: "('s, 'c) pc_utopia \<Rightarrow> (ms_serv_t, COSA_DML_MS_SERV, 's, 'c) ut_tab" where
  "MSServ_tab U = \<lparr>ut_fns = pu_serv U, ut_read = read_ms_serv, ut_write_add = write_ms_serv U, ut_write_set = write_ms_serv U,
     ut_nr = g_NrMSServs, ut_set_nr = (\<lambda>n b. b\<lparr>g_NrMSServs := n\<rparr>), ut_counts = True, ut_checks = True,
     ut_added = firewall_restart, ut_deleted = (\<lambda>n. firewall_restart), ut_changed = (\<lambda>n. firewall_restart)\<rparr>"

definition MSServ_InsGetIndex :: "('s, 'c) pc_utopia \<Rightarrow> ULONG \<Rightarrow> 's ut_board \<Rightarrow> nat option \<times> 's ut_board" where
  "MSServ_InsGetIndex U ins b = ut_InsGetIndex U (MSServ_tab U) ins b"

definition CosaDmlMSServ_GetNumberOfEntries :: "('s, 'c) pc_utopia \<Rightarrow> 's ut_board \<Rightarrow> ULONG \<times> 's ut_board" where
  "CosaDmlMSServ_GetNumberOfEntries U b = ut_GetNumberOfEntries U (MSServ_tab U) b"

definition CosaDmlMSServ_GetEntryByIndex :: "('s, 'c) pc_utopia \<Rightarrow> ULONG \<Rightarrow> COSA_DML_MS_SERV \<Rightarrow> 's ut_board \<Rightarrow> ansc_status \<times> COSA_DML_MS_SERV \<times> 's ut_board" where
  "CosaDmlMSServ_GetEntryByIndex U index e b = ut_GetEntryByIndex U (MSServ_tab U) index e b"

definition CosaDmlMSServ_SetValues :: "('s, 'c) pc_utopia \<Rightarrow> ULONG \<Rightarrow> ULONG \<Rightarrow> string \<Rightarrow> 's ut_board \<Rightarrow> ansc_status \<times> 's ut_board" where
  "CosaDmlMSServ_SetValues U index ins alias b = ut_SetValues U (MSServ_tab U) index ins alias b"

definition CosaDmlMSServ_AddEntry :: "('s, 'c) pc_utopia \<Rightarrow> COSA_DML_MS_SERV \<Rightarrow> 's ut_board \<Rightarrow> ansc_status \<times> 's ut_board" where
  "CosaDmlMSServ_AddEntry U e b = ut_AddEntry U (MSServ_tab U) e b"

definition CosaDmlMSServ_DelEntry :: "('s, 'c) pc_utopia \<Rightarrow> ULONG \<Rightarrow> 's ut_board \<Rightarrow> ansc_status \<times> 's ut_board" where
  "CosaDmlMSServ_DelEntry U ins b = ut_DelEntry U (MSServ_tab U) ins b"

definition CosaDmlMSServ_GetConf :: "('s, 'c) pc_utopia \<Rightarrow> ULONG \<Rightarrow> COSA_DML_MS_SERV \<Rightarrow> 's ut_board \<Rightarrow> ansc_status \<times> COSA_DML_MS_SERV \<times> 's ut_board" where
  "CosaDmlMSServ_GetConf U ins e b = ut_GetConf U (MSServ_tab U) ins e b"

definition CosaDmlMSServ_SetConf :: "('s, 'c) pc_utopia \<Rightarrow> ULONG \<Rightarrow> COSA_DML_MS_SERV \<Rightarrow> 's ut_board \<Rightarrow> ansc_status \<times> 's ut_board" where
  "CosaDmlMSServ_SetConf U ins e b = ut_SetConf U (MSServ_tab U) ins e b"

definition MSServ_ops :: "('s, 'c) pc_utopia \<Rightarrow> (COSA_DML_MS_SERV, 's ut_board) pc_ops" where
  "MSServ_ops U = \<lparr>bo_GetNumberOfEntries = CosaDmlMSServ_GetNumberOfEntries U, bo_GetEntryByIndex = CosaDmlMSServ_GetEntryByIndex U,
     bo_SetValues = CosaDmlMSServ_SetValues U, bo_AddEntry = CosaDmlMSServ_AddEntry U, bo_DelEntry = CosaDmlMSServ_DelEntry U,
     bo_GetConf = CosaDmlMSServ_GetConf U, bo_SetConf = CosaDmlMSServ_SetConf U\<rparr>"

subsection \<open>Trusted user of the managed services\<close>

definition read_ms_trusteduser :: "ms_trusteduser_t \<Rightarrow> COSA_DML_MS_TRUSTEDUSER \<Rightarrow> COSA_DML_MS_TRUSTEDUSER" where
  "read_ms_trusteduser x e = e\<lparr>mt_InstanceNumber := xm_ins_num x, mt_Trusted := xm_trusted x,
     mt_IPAddressType := (if xm_ipaddrtype x = 4 then IPADDR_IPV4 else IPADDR_IPV6),
     mt_Alias := strncpy PC_ALIAS (xm_alias x), mt_HostDescription := strncpy PC_TEXT (xm_host_descp x),
     mt_IPAddress := strncpy PC_TEXT (xm_ipaddr x)\<rparr>"

definition write_ms_trusteduser :: "('s, 'c) pc_utopia \<Rightarrow> COSA_DML_MS_TRUSTEDUSER \<Rightarrow> ms_trusteduser_t" where
  "write_ms_trusteduser U e = \<lparr>xm_ins_num = mt_InstanceNumber e, xm_alias = strncpy (pu_size U Stuser_alias) (mt_Alias e),
     xm_host_descp = strncpy (pu_size U Stuser_host_descp) (mt_HostDescription e),
     xm_ipaddrtype = (if mt_IPAddressType e = IPADDR_IPV4 then 4 else 6),
     xm_ipaddr = strncpy (pu_size U Stuser_ipaddr) (mt_IPAddress e), xm_trusted = mt_Trusted e\<rparr>"

definition MSTrustedUser_tab :: "('s, 'c) pc_utopia \<Rightarrow> (ms_trusteduser_t, COSA_DML_MS_TRUSTEDUSER, 's, 'c) ut_tab" where
  "MSTrustedUser_tab U = \<lparr>ut_fns = pu_stuser U, ut_read = read_ms_trusteduser, ut_write_add = write_ms_trusteduser U,
     ut_write_set = write_ms_trusteduser U, ut_nr = g_NrMSTrustedUsers, ut_set_nr = (\<lambda>n b. b\<lparr>g_NrMSTrustedUsers := n\<rparr>),
     ut_counts = True, ut_checks = True,
     ut_added = firewall_restart, ut_deleted = (\<lambda>n. firewall_restart), ut_changed = (\<lambda>n. firewall_restart)\<rparr>"

definition MSTrustedUser_InsGetIndex :: "('s, 'c) pc_utopia \<Rightarrow> ULONG \<Rightarrow> 's ut_board \<Rightarrow> nat option \<times> 's ut_board" where
  "MSTrustedUser_InsGetIndex U ins b = ut_InsGetIndex U (MSTrustedUser_tab U) ins b"

definition CosaDmlMSTrustedUser_GetNumberOfEntries :: "('s, 'c) pc_utopia \<Rightarrow> 's ut_board \<Rightarrow> ULONG \<times> 's ut_board" where
  "CosaDmlMSTrustedUser_GetNumberOfEntries U b = ut_GetNumberOfEntries U (MSTrustedUser_tab U) b"

definition CosaDmlMSTrustedUser_GetEntryByIndex :: "('s, 'c) pc_utopia \<Rightarrow> ULONG \<Rightarrow> COSA_DML_MS_TRUSTEDUSER \<Rightarrow> 's ut_board \<Rightarrow> ansc_status \<times> COSA_DML_MS_TRUSTEDUSER \<times> 's ut_board" where
  "CosaDmlMSTrustedUser_GetEntryByIndex U index e b = ut_GetEntryByIndex U (MSTrustedUser_tab U) index e b"

definition CosaDmlMSTrustedUser_SetValues :: "('s, 'c) pc_utopia \<Rightarrow> ULONG \<Rightarrow> ULONG \<Rightarrow> string \<Rightarrow> 's ut_board \<Rightarrow> ansc_status \<times> 's ut_board" where
  "CosaDmlMSTrustedUser_SetValues U index ins alias b = ut_SetValues U (MSTrustedUser_tab U) index ins alias b"

definition CosaDmlMSTrustedUser_AddEntry :: "('s, 'c) pc_utopia \<Rightarrow> COSA_DML_MS_TRUSTEDUSER \<Rightarrow> 's ut_board \<Rightarrow> ansc_status \<times> 's ut_board" where
  "CosaDmlMSTrustedUser_AddEntry U e b = ut_AddEntry U (MSTrustedUser_tab U) e b"

definition CosaDmlMSTrustedUser_DelEntry :: "('s, 'c) pc_utopia \<Rightarrow> ULONG \<Rightarrow> 's ut_board \<Rightarrow> ansc_status \<times> 's ut_board" where
  "CosaDmlMSTrustedUser_DelEntry U ins b = ut_DelEntry U (MSTrustedUser_tab U) ins b"

definition CosaDmlMSTrustedUser_GetConf :: "('s, 'c) pc_utopia \<Rightarrow> ULONG \<Rightarrow> COSA_DML_MS_TRUSTEDUSER \<Rightarrow> 's ut_board \<Rightarrow> ansc_status \<times> COSA_DML_MS_TRUSTEDUSER \<times> 's ut_board" where
  "CosaDmlMSTrustedUser_GetConf U ins e b = ut_GetConf U (MSTrustedUser_tab U) ins e b"

definition CosaDmlMSTrustedUser_SetConf :: "('s, 'c) pc_utopia \<Rightarrow> ULONG \<Rightarrow> COSA_DML_MS_TRUSTEDUSER \<Rightarrow> 's ut_board \<Rightarrow> ansc_status \<times> 's ut_board" where
  "CosaDmlMSTrustedUser_SetConf U ins e b = ut_SetConf U (MSTrustedUser_tab U) ins e b"

definition MSTrustedUser_ops :: "('s, 'c) pc_utopia \<Rightarrow> (COSA_DML_MS_TRUSTEDUSER, 's ut_board) pc_ops" where
  "MSTrustedUser_ops U = \<lparr>bo_GetNumberOfEntries = CosaDmlMSTrustedUser_GetNumberOfEntries U, bo_GetEntryByIndex = CosaDmlMSTrustedUser_GetEntryByIndex U,
     bo_SetValues = CosaDmlMSTrustedUser_SetValues U, bo_AddEntry = CosaDmlMSTrustedUser_AddEntry U, bo_DelEntry = CosaDmlMSTrustedUser_DelEntry U,
     bo_GetConf = CosaDmlMSTrustedUser_GetConf U, bo_SetConf = CosaDmlMSTrustedUser_SetConf U\<rparr>"

subsection \<open>Managed device\<close>

text \<open>The text of the address without colons that some of the functions make is only for the log.\<close>

definition MD_TYPE_BLOCK :: ULONG where "MD_TYPE_BLOCK = 1"
definition MD_TYPE_ALLOW :: ULONG where "MD_TYPE_ALLOW = 2"

definition read_md_dev :: "md_dev_t \<Rightarrow> COSA_DML_MD_DEV \<Rightarrow> COSA_DML_MD_DEV" where
  "read_md_dev x e = e\<lparr>de_InstanceNumber := xd_ins_num x, de_Type := (if xd_is_block x then MD_TYPE_BLOCK else MD_TYPE_ALLOW),
     de_AlwaysBlock := xd_always x, de_Alias := strncpy PC_ALIAS (xd_alias x), de_Description := strncpy PC_TEXT (xd_descp x),
     de_StartTime := strncpy PC_TEXT (xd_start_time x), de_EndTime := strncpy PC_TEXT (xd_end_time x),
     de_BlockDays := strncpy PC_TEXT (xd_block_days x), de_MACAddress := strncpy PC_TEXT (xd_macaddr x)\<rparr>"

definition write_md_dev :: "('s, 'c) pc_utopia \<Rightarrow> COSA_DML_MD_DEV \<Rightarrow> md_dev_t" where
  "write_md_dev U e = \<lparr>xd_ins_num = de_InstanceNumber e, xd_alias = strncpy (pu_size U Dev_alias) (de_Alias e),
     xd_is_block = (de_Type e = MD_TYPE_BLOCK), xd_always = de_AlwaysBlock e,
     xd_descp = strncpy (pu_size U Dev_descp) (de_Description e), xd_macaddr = strncpy (pu_size U Dev_macaddr) (de_MACAddress e),
     xd_start_time = strncpy (pu_size U Dev_start_time) (de_StartTime e), xd_end_time = strncpy (pu_size U Dev_end_time) (de_EndTime e),
     xd_block_days = strncpy (pu_size U Dev_block_days) (de_BlockDays e)\<rparr>"

definition MDDev_tab :: "('s, 'c) pc_utopia \<Rightarrow> (md_dev_t, COSA_DML_MD_DEV, 's, 'c) ut_tab" where
  "MDDev_tab U = \<lparr>ut_fns = pu_dev U, ut_read = read_md_dev, ut_write_add = write_md_dev U, ut_write_set = write_md_dev U,
     ut_nr = g_NrMDDevs, ut_set_nr = (\<lambda>n b. b\<lparr>g_NrMDDevs := n\<rparr>), ut_counts = True, ut_checks = True,
     ut_added = firewall_restart, ut_deleted = (\<lambda>n. firewall_restart), ut_changed = (\<lambda>n. firewall_restart)\<rparr>"

definition MDDev_InsGetIndex :: "('s, 'c) pc_utopia \<Rightarrow> ULONG \<Rightarrow> 's ut_board \<Rightarrow> nat option \<times> 's ut_board" where
  "MDDev_InsGetIndex U ins b = ut_InsGetIndex U (MDDev_tab U) ins b"

definition CosaDmlMDDev_GetNumberOfEntries :: "('s, 'c) pc_utopia \<Rightarrow> 's ut_board \<Rightarrow> ULONG \<times> 's ut_board" where
  "CosaDmlMDDev_GetNumberOfEntries U b = ut_GetNumberOfEntries U (MDDev_tab U) b"

definition CosaDmlMDDev_GetEntryByIndex :: "('s, 'c) pc_utopia \<Rightarrow> ULONG \<Rightarrow> COSA_DML_MD_DEV \<Rightarrow> 's ut_board \<Rightarrow> ansc_status \<times> COSA_DML_MD_DEV \<times> 's ut_board" where
  "CosaDmlMDDev_GetEntryByIndex U index e b = ut_GetEntryByIndex U (MDDev_tab U) index e b"

definition CosaDmlMDDev_SetValues :: "('s, 'c) pc_utopia \<Rightarrow> ULONG \<Rightarrow> ULONG \<Rightarrow> string \<Rightarrow> 's ut_board \<Rightarrow> ansc_status \<times> 's ut_board" where
  "CosaDmlMDDev_SetValues U index ins alias b = ut_SetValues U (MDDev_tab U) index ins alias b"

definition CosaDmlMDDev_AddEntry :: "('s, 'c) pc_utopia \<Rightarrow> COSA_DML_MD_DEV \<Rightarrow> 's ut_board \<Rightarrow> ansc_status \<times> 's ut_board" where
  "CosaDmlMDDev_AddEntry U e b = ut_AddEntry U (MDDev_tab U) e b"

definition CosaDmlMDDev_DelEntry :: "('s, 'c) pc_utopia \<Rightarrow> ULONG \<Rightarrow> 's ut_board \<Rightarrow> ansc_status \<times> 's ut_board" where
  "CosaDmlMDDev_DelEntry U ins b = ut_DelEntry U (MDDev_tab U) ins b"

definition CosaDmlMDDev_GetConf :: "('s, 'c) pc_utopia \<Rightarrow> ULONG \<Rightarrow> COSA_DML_MD_DEV \<Rightarrow> 's ut_board \<Rightarrow> ansc_status \<times> COSA_DML_MD_DEV \<times> 's ut_board" where
  "CosaDmlMDDev_GetConf U ins e b = ut_GetConf U (MDDev_tab U) ins e b"

definition CosaDmlMDDev_SetConf :: "('s, 'c) pc_utopia \<Rightarrow> ULONG \<Rightarrow> COSA_DML_MD_DEV \<Rightarrow> 's ut_board \<Rightarrow> ansc_status \<times> 's ut_board" where
  "CosaDmlMDDev_SetConf U ins e b = ut_SetConf U (MDDev_tab U) ins e b"

definition MDDev_ops :: "('s, 'c) pc_utopia \<Rightarrow> (COSA_DML_MD_DEV, 's ut_board) pc_ops" where
  "MDDev_ops U = \<lparr>bo_GetNumberOfEntries = CosaDmlMDDev_GetNumberOfEntries U, bo_GetEntryByIndex = CosaDmlMDDev_GetEntryByIndex U,
     bo_SetValues = CosaDmlMDDev_SetValues U, bo_AddEntry = CosaDmlMDDev_AddEntry U, bo_DelEntry = CosaDmlMDDev_DelEntry U,
     bo_GetConf = CosaDmlMDDev_GetConf U, bo_SetConf = CosaDmlMDDev_SetConf U\<rparr>"

end
