(* ===== verification/Pc_Tables.thy ===== *)
theory Pc_Tables
  imports Pc_Board Nat_Init
begin

text \<open>
  The tables of parental control in the middle layer: the handlers of
  \<open>cosa_x_comcast_com_parentalcontrol_dml.c\<close> that count, find, add, delete, commit and roll back rows, and the part of
  \<open>CosaParentalControlInitialize\<close> that loads a table at the start. The source has each of them five times; here they are
  functions of the kind \<open>K\<close> of the table and of its board functions \<open>B\<close>, and \<open>Pc_Handlers\<close> has the copies. A handler
  gets the link object of its row.
\<close>

section \<open>Counting and finding\<close>

definition pc_GetEntryCount :: "'e pc_table \<Rightarrow> ULONG" where
  "pc_GetEntryCount t = of_nat (length (tb_List t))"

text \<open>The handle and the number of the row, or none.\<close>

definition pc_GetEntry :: "'e pc_table \<Rightarrow> ULONG \<Rightarrow> (nat \<times> ULONG) option" where
  "pc_GetEntry t nIndex =
     map_option (\<lambda>l. (lnk_addr l, lnk_InstanceNumber l)) (AnscSListGetEntryByIndex (tb_List t) (unat nIndex))"

section \<open>Adding\<close>

text \<open>How the next number is taken. The copy of the managed devices also changes the number of the new row when the
  counter wraps.\<close>

definition pc_take :: "ULONG \<Rightarrow> ULONG \<times> ULONG" where
  "pc_take n = (n, if n + 1 = 0 then 1 else n + 1)"

definition pc_take_dev :: "ULONG \<Rightarrow> ULONG \<times> ULONG" where
  "pc_take_dev n = (if n + 1 \<le> 0 then (1, 1) else (n, n + 1))"

definition pc_link :: "nat \<Rightarrow> ULONG \<Rightarrow> bool \<Rightarrow> 'e pc_obj \<Rightarrow> 'e pc_obj cosa_link" where
  "pc_link a n bNew ob = \<lparr>lnk_addr = a, lnk_InstanceNumber = n, lnk_bNew = bNew, lnk_bFound = False, lnk_hContext = ob\<rparr>"

text \<open>The result is the handle and \<open>*pInsNumber\<close>. The link object is pushed before \<open>AddInfo\<close> fills in its two registry
  handles, which it does through the pointer: the list has the filled object.\<close>

definition pc_AddEntry :: "('s, 'c, 'r) pc_libs \<Rightarrow> 'e pc_kind \<Rightarrow> (nat \<Rightarrow> 'e) \<Rightarrow> 'e pc_table \<Rightarrow> ('b, 'r) pc_env \<Rightarrow>
    (nat \<times> ULONG) option \<times> 'e pc_table \<times> ('b, 'r) pc_env" where
  "pc_AddEntry L K J t v =
     (case pc_alloc L v of
        (None, v1) \<Rightarrow> (None, t, v1)
      | (Some a, v1) \<Rightarrow>
          (case pc_alloc L v1 of
             (None, v2) \<Rightarrow> (None, t, v2)
           | (Some a2, v2) \<Rightarrow>
               (case k_take K (tb_NextInsNum t) of (n, next) \<Rightarrow>
                  let t1 = t\<lparr>tb_NextInsNum := next\<rparr>; e1 = k_set_ins K n (J a2) in
                  (case sprintf_s PC_ALIAS (k_prefix K @ dec_int (sint n)) of
                     None \<Rightarrow> (None, t1, v2)
                   | Some alias \<Rightarrow>
                       let e = k_set_alias K alias e1 in
                       (case pc_AddInfo L K t1 e v2 of (_, fo, v3) \<Rightarrow>
                          let ob = (case fo of
                                Some (p, f) \<Rightarrow> \<lparr>ob_entry = e, ob_hPoamIrepUpperFo = Some p, ob_hPoamIrepFo = Some f\<rparr>
                              | None \<Rightarrow> \<lparr>ob_entry = e, ob_hPoamIrepUpperFo = fst (pl_junk_fo L a),
                                         ob_hPoamIrepFo = snd (pl_junk_fo L a)\<rparr>)
                          in (Some (a, n), t1\<lparr>tb_List := CosaSListPushEntryByInsNum (tb_List t1) (pc_link a n True ob)\<rparr>, v3))))))"

section \<open>Deleting, committing, rolling back\<close>

text \<open>The result -1 of a handler is \<open>- 1 :: ULONG\<close>.\<close>

definition pc_DelEntry :: "('s, 'c, 'r) pc_libs \<Rightarrow> ('e, 'b) pc_ops \<Rightarrow> 'e pc_table \<Rightarrow> ('b, 'r) pc_env \<Rightarrow> 'e pc_obj cosa_link \<Rightarrow>
    ULONG \<times> 'e pc_table \<times> ('b, 'r) pc_env" where
  "pc_DelEntry L B t v l =
     (case bo_DelEntry B (lnk_InstanceNumber l) (en_board v) of (s, b) \<Rightarrow>
        let v1 = v\<lparr>en_board := b\<rparr> in
        if \<not> ansc_ok s then (- 1, t, v1)
        else
          let t1 = t\<lparr>tb_List := AnscSListPopEntryByLink (tb_List t) (lnk_addr l)\<rparr> in
          (0, t1, if lnk_bNew l then snd (pc_DelInfo L (lnk_hContext l) v1) else v1))"

definition pc_put :: "'e pc_table \<Rightarrow> 'e pc_obj cosa_link \<Rightarrow> 'e pc_table" where
  "pc_put t l = t\<lparr>tb_List := put_link (tb_List t) l\<rparr>"

definition pc_set_entry :: "'e pc_obj cosa_link \<Rightarrow> 'e \<Rightarrow> 'e pc_obj cosa_link" where
  "pc_set_entry l e = l\<lparr>lnk_hContext := (lnk_hContext l)\<lparr>ob_entry := e\<rparr>\<rparr>"

definition pc_Commit :: "('s, 'c, 'r) pc_libs \<Rightarrow> 'e pc_kind \<Rightarrow> ('e, 'b) pc_ops \<Rightarrow> 'e pc_table \<Rightarrow> ('b, 'r) pc_env \<Rightarrow>
    'e pc_obj cosa_link \<Rightarrow> ULONG \<times> 'e pc_table \<times> ('b, 'r) pc_env" where
  "pc_Commit L K B t v l =
     (let e = ob_entry (lnk_hContext l) in
      if lnk_bNew l then
        (case bo_AddEntry B e (en_board v) of (s, b) \<Rightarrow>
           let v1 = v\<lparr>en_board := b\<rparr> in
           if \<not> ansc_ok s then (- 1, t, v1)
           else (0, pc_put t (l\<lparr>lnk_bNew := False\<rparr>), snd (pc_DelInfo L (lnk_hContext l) v1)))
      else
        (case bo_SetConf B (k_ins K e) e (en_board v) of (s, b) \<Rightarrow>
           let v1 = v\<lparr>en_board := b\<rparr> in
           if ansc_ok s then (0, t, v1)
           else (case bo_GetConf B (k_ins K e) e b of (_, e', b') \<Rightarrow>
               (- 1, pc_put t (pc_set_entry l e'), v\<lparr>en_board := b'\<rparr>))))"

definition pc_Rollback :: "'e pc_kind \<Rightarrow> ('e, 'b) pc_ops \<Rightarrow> 'e pc_table \<Rightarrow> ('b, 'r) pc_env \<Rightarrow>
    'e pc_obj cosa_link \<Rightarrow> ULONG \<times> 'e pc_table \<times> ('b, 'r) pc_env" where
  "pc_Rollback K B t v l =
     (let e = ob_entry (lnk_hContext l) in
      case bo_GetConf B (k_ins K e) e (en_board v) of (s, e', b) \<Rightarrow>
        (if ansc_ok s then 0 else - 1, pc_put t (pc_set_entry l e'), v\<lparr>en_board := b\<rparr>))"

section \<open>Loading at the start\<close>

text \<open>One round of the loop over the rows of the board, \<open>idx\<close> the index.\<close>

fun pc_load_rows :: "('s, 'c, 'r) pc_libs \<Rightarrow> 'e pc_kind \<Rightarrow> ('e, 'b) pc_ops \<Rightarrow> (nat \<Rightarrow> 'e) \<Rightarrow> ULONG list \<Rightarrow> 'e pc_table \<Rightarrow>
    ('b, 'r) pc_env \<Rightarrow> ansc_status \<times> 'e pc_table \<times> ('b, 'r) pc_env" where
  "pc_load_rows L K B J [] t v = (ANSC_SUCCESS, t, v)"
| "pc_load_rows L K B J (idx # is) t v =
     (case pc_alloc L v of
        (None, v1) \<Rightarrow> (ANSC_FAILURE, t, v1)
      | (Some a, v1) \<Rightarrow>
          (case bo_GetEntryByIndex B idx (J a) (en_board v1) of (s, e, b) \<Rightarrow>
             let v2 = v1\<lparr>en_board := b\<rparr> in
             if \<not> ansc_ok s then (ANSC_FAILURE, t, v2)
             else (case pc_alloc L v2 of
                 (None, v3) \<Rightarrow> (ANSC_FAILURE, t, v3)
               | (Some a2, v3) \<Rightarrow>
                   let push = (\<lambda>t' e'. t'\<lparr>tb_List := CosaSListPushEntryByInsNum (tb_List t')
                         (pc_link a2 (k_ins K e') False
                            \<lparr>ob_entry = e', ob_hPoamIrepUpperFo = fst (pl_junk_fo L a2), ob_hPoamIrepFo = snd (pl_junk_fo L a2)\<rparr>)\<rparr>)
                   in if k_ins K e \<noteq> 0 then
                        let t1 = (if tb_NextInsNum t \<le> k_ins K e
                                  then t\<lparr>tb_NextInsNum := (if k_ins K e + 1 = 0 then 1 else k_ins K e + 1)\<rparr> else t)
                        in pc_load_rows L K B J is (push t1 e) v3
                      else
                        (case pc_take (tb_NextInsNum t) of (n, next) \<Rightarrow>
                           let t1 = t\<lparr>tb_NextInsNum := next\<rparr>; e1 = k_set_ins K n e in
                           (case sprintf_s PC_ALIAS (k_prefix K @ dec_int (sint n)) of
                              None \<Rightarrow> (ANSC_FAILURE, t1, v3)
                            | Some alias \<Rightarrow>
                                let e2 = k_set_alias K alias e1 in
                                (case bo_SetValues B idx (k_ins K e2) (k_alias K e2) (en_board v3) of (_, b') \<Rightarrow>
                                   pc_load_rows L K B J is (push t1 e2) (v3\<lparr>en_board := b'\<rparr>)))))))"

definition COSA_IREP_FOLDER_NAME_PARENTALCONTROL :: string where
  "COSA_IREP_FOLDER_NAME_PARENTALCONTROL = ''ParentalControl''"
definition COSA_DML_RR_NAME_PARENTALCONTROL_NextInsNumber :: string where
  "COSA_DML_RR_NAME_PARENTALCONTROL_NextInsNumber = ''PCNextInstanceNumber''"

text \<open>All five parts read the counter under the same name.\<close>

definition pc_load_table :: "('s, 'c, 'r) pc_libs \<Rightarrow> 'e pc_kind \<Rightarrow> ('e, 'b) pc_ops \<Rightarrow> (nat \<Rightarrow> 'e) \<Rightarrow> 'e pc_table \<Rightarrow>
    ('b, 'r) pc_env \<Rightarrow> ansc_status \<times> 'e pc_table \<times> ('b, 'r) pc_env" where
  "pc_load_table L K B J t v =
     (case bo_GetNumberOfEntries B (en_board v) of (cnt, b) \<Rightarrow>
        let v1 = v\<lparr>en_board := b\<rparr>; t1 = t\<lparr>tb_List := [], tb_NextInsNum := 1\<rparr> in
        (case pl_root L of
           None \<Rightarrow> (ANSC_FAILURE, t1, v1)
         | Some root \<Rightarrow>
             (case get_or_add_folder (pc_ir L) (en_registry v1) root COSA_IREP_FOLDER_NAME_PARENTALCONTROL False of (ok, r) \<Rightarrow>
                let v2 = v1\<lparr>en_registry := r\<rparr>; p = root @ [COSA_IREP_FOLDER_NAME_PARENTALCONTROL] in
                if \<not> ok then (ANSC_FAILURE, t1, v2)
                else
                  let t2 = t1\<lparr>tb_hIrepFolder := Some p\<rparr>;
                      t3 = (case ir_GetUint32 (pc_ir L) r p COSA_DML_RR_NAME_PARENTALCONTROL_NextInsNumber of
                          Some n \<Rightarrow> t2\<lparr>tb_NextInsNum := n\<rparr> | None \<Rightarrow> t2)
                  in (case pc_load_rows L K B J (map of_nat [0..<unat cnt]) t3 v2 of (s, t4, v3) \<Rightarrow>
                        if ansc_ok s then (case pc_GetInfo L K J t4 v3 of (_, t5, v4) \<Rightarrow> (ANSC_SUCCESS, t5, v4))
                        else (s, t4, v3)))))"

end
