(* ===== verification/Pc_Handlers.thy ===== *)
theory Pc_Handlers
  imports Pc_Tables
begin

text \<open>
  The state of parental control (\<open>COSA_DATAMODEL_PARENTALCONTROL\<close>) and its handlers: the five copies of the table
  handlers of \<open>Pc_Tables\<close> and of the registry functions of \<open>Pc_Registry\<close>, the handlers of the three switch
  objects, and \<open>CosaParentalControlInitialize\<close>.
\<close>

section \<open>What differs between the tables\<close>

definition BlkURL_kind :: "COSA_DML_BLOCKEDURL pc_kind" where
  "BlkURL_kind = \<lparr>k_ins = bu_InstanceNumber, k_set_ins = (\<lambda>n e. e\<lparr>bu_InstanceNumber := n\<rparr>),
     k_alias = bu_Alias, k_set_alias = (\<lambda>a e. e\<lparr>bu_Alias := a\<rparr>), k_prefix = ''cpe-BlockedURL-'',
     k_rr_InsNum = ''PCInstanceNumber'', k_rr_Alias = ''PCAlias'', k_rr_NextInsNumber = ''PCNextInstanceNumber'',
     k_take = pc_take\<rparr>"

definition TrustedUser_kind :: "COSA_DML_TRUSTEDUSER pc_kind" where
  "TrustedUser_kind = \<lparr>k_ins = tu_InstanceNumber, k_set_ins = (\<lambda>n e. e\<lparr>tu_InstanceNumber := n\<rparr>),
     k_alias = tu_Alias, k_set_alias = (\<lambda>a e. e\<lparr>tu_Alias := a\<rparr>), k_prefix = ''cpe-TrustedUser-'',
     k_rr_InsNum = ''PCInstanceNumber'', k_rr_Alias = ''PCAlias'', k_rr_NextInsNumber = ''PCNextInstanceNumber'',
     k_take = pc_take\<rparr>"

definition MSServ_kind :: "COSA_DML_MS_SERV pc_kind" where
  "MSServ_kind = \<lparr>k_ins = ms_InstanceNumber, k_set_ins = (\<lambda>n e. e\<lparr>ms_InstanceNumber := n\<rparr>),
     k_alias = ms_Alias, k_set_alias = (\<lambda>a e. e\<lparr>ms_Alias := a\<rparr>), k_prefix = ''cpe-MSService-'',
     k_rr_InsNum = ''MSSERVInstanceNumber'', k_rr_Alias = ''MSSERVAlias'', k_rr_NextInsNumber = ''MSSERVNextInstanceNumber'',
     k_take = pc_take\<rparr>"

definition MSTrustedUser_kind :: "COSA_DML_MS_TRUSTEDUSER pc_kind" where
  "MSTrustedUser_kind = \<lparr>k_ins = mt_InstanceNumber, k_set_ins = (\<lambda>n e. e\<lparr>mt_InstanceNumber := n\<rparr>),
     k_alias = mt_Alias, k_set_alias = (\<lambda>a e. e\<lparr>mt_Alias := a\<rparr>), k_prefix = ''cpe-MSTrustedUser-'',
     k_rr_InsNum = ''MSTRUSTEDUSERInstanceNumber'', k_rr_Alias = ''MSTRUSTEDUSERAlias'', k_rr_NextInsNumber = ''MSTRUSTEDUSERNextInstanceNumber'',
     k_take = pc_take\<rparr>"

definition MDDev_kind :: "COSA_DML_MD_DEV pc_kind" where
  "MDDev_kind = \<lparr>k_ins = de_InstanceNumber, k_set_ins = (\<lambda>n e. e\<lparr>de_InstanceNumber := n\<rparr>),
     k_alias = de_Alias, k_set_alias = (\<lambda>a e. e\<lparr>de_Alias := a\<rparr>), k_prefix = ''cpe-MDDevice-'',
     k_rr_InsNum = ''MDDEVInstanceNumber'', k_rr_Alias = ''MDDEVAlias'', k_rr_NextInsNumber = ''MDDEVNextInstanceNumber'',
     k_take = pc_take_dev\<rparr>"

section \<open>The state\<close>

text \<open>The board layer: the functions of the five tables and of the four single objects. And the content of fresh blocks.\<close>

record 'b pc_boards =
  bs_blk :: "(COSA_DML_BLOCKEDURL, 'b) pc_ops"
  bs_tuser :: "(COSA_DML_TRUSTEDUSER, 'b) pc_ops"
  bs_serv :: "(COSA_DML_MS_SERV, 'b) pc_ops"
  bs_stuser :: "(COSA_DML_MS_TRUSTEDUSER, 'b) pc_ops"
  bs_dev :: "(COSA_DML_MD_DEV, 'b) pc_ops"
  bs_MngSites_GetConf :: "COSA_DML_MANAGEDSITES \<Rightarrow> 'b \<Rightarrow> ansc_status \<times> COSA_DML_MANAGEDSITES \<times> 'b"
  bs_MngSites_SetConf :: "COSA_DML_MANAGEDSITES \<Rightarrow> 'b \<Rightarrow> ansc_status \<times> 'b"
  bs_MngServs_GetConf :: "COSA_DML_MANAGED_SERVS \<Rightarrow> 'b \<Rightarrow> ansc_status \<times> COSA_DML_MANAGED_SERVS \<times> 'b"
  bs_MngServs_SetConf :: "COSA_DML_MANAGED_SERVS \<Rightarrow> 'b \<Rightarrow> ansc_status \<times> 'b"
  bs_MngDevs_GetConf :: "COSA_DML_MANAGED_DEVS \<Rightarrow> 'b \<Rightarrow> ansc_status \<times> COSA_DML_MANAGED_DEVS \<times> 'b"
  bs_MngDevs_SetConf :: "COSA_DML_MANAGED_DEVS \<Rightarrow> 'b \<Rightarrow> ansc_status \<times> 'b"
  bs_MDRed_GetConf :: "COSA_DML_MD_RED \<Rightarrow> 'b \<Rightarrow> ansc_status \<times> COSA_DML_MD_RED \<times> 'b"
  bs_MDRed_SetConf :: "COSA_DML_MD_RED \<Rightarrow> 'b \<Rightarrow> ansc_status \<times> 'b"

record pc_junk =
  ju_blk :: "nat \<Rightarrow> COSA_DML_BLOCKEDURL"
  ju_tuser :: "nat \<Rightarrow> COSA_DML_TRUSTEDUSER"
  ju_serv :: "nat \<Rightarrow> COSA_DML_MS_SERV"
  ju_stuser :: "nat \<Rightarrow> COSA_DML_MS_TRUSTEDUSER"
  ju_dev :: "nat \<Rightarrow> COSA_DML_MD_DEV"

record ('b, 'r) pc_state =
  pc_ManagedSites :: COSA_DML_MANAGEDSITES
  pc_ManagedServs :: COSA_DML_MANAGED_SERVS
  pc_ManagedDevs :: COSA_DML_MANAGED_DEVS
  pc_MDRedirect :: COSA_DML_MD_RED
  pc_BlkUrl :: "COSA_DML_BLOCKEDURL pc_table"
  pc_TrustedUser :: "COSA_DML_TRUSTEDUSER pc_table"
  pc_MSServ :: "COSA_DML_MS_SERV pc_table"
  pc_MSTrustedUser :: "COSA_DML_MS_TRUSTEDUSER pc_table"
  pc_MDDev :: "COSA_DML_MD_DEV pc_table"
  pc_env :: "('b, 'r) pc_env"

section \<open>BlkURL\<close>

definition CosaPcReg_BlkUrlAddInfo :: "('s, 'c, 'r) pc_libs \<Rightarrow> ('b, 'r) pc_state \<Rightarrow> COSA_DML_BLOCKEDURL \<Rightarrow>
    ansc_status \<times> (path \<times> path) option \<times> ('b, 'r) pc_state" where
  "CosaPcReg_BlkUrlAddInfo L st e =
     (case pc_AddInfo L BlkURL_kind (pc_BlkUrl st) e (pc_env st) of (s, fo, v) \<Rightarrow> (s, fo, st\<lparr>pc_env := v\<rparr>))"

definition CosaPcReg_BlkUrlDelInfo :: "('s, 'c, 'r) pc_libs \<Rightarrow> ('b, 'r) pc_state \<Rightarrow> COSA_DML_BLOCKEDURL pc_obj cosa_link \<Rightarrow>
    ansc_status \<times> ('b, 'r) pc_state" where
  "CosaPcReg_BlkUrlDelInfo L st l =
     (case pc_DelInfo L (lnk_hContext l) (pc_env st) of (s, v) \<Rightarrow> (s, st\<lparr>pc_env := v\<rparr>))"

definition CosaPcReg_BlkUrlGetInfo :: "('s, 'c, 'r) pc_libs \<Rightarrow> pc_junk \<Rightarrow> ('b, 'r) pc_state \<Rightarrow> ansc_status \<times> ('b, 'r) pc_state" where
  "CosaPcReg_BlkUrlGetInfo L N st =
     (case pc_GetInfo L BlkURL_kind (ju_blk N) (pc_BlkUrl st) (pc_env st) of (s, t, v) \<Rightarrow> (s, st\<lparr>pc_BlkUrl := t, pc_env := v\<rparr>))"

definition PcBlkURL_GetEntryCount :: "('b, 'r) pc_state \<Rightarrow> ULONG" where
  "PcBlkURL_GetEntryCount st = pc_GetEntryCount (pc_BlkUrl st)"

definition PcBlkURL_GetEntry :: "('b, 'r) pc_state \<Rightarrow> ULONG \<Rightarrow> (nat \<times> ULONG) option" where
  "PcBlkURL_GetEntry st nIndex = pc_GetEntry (pc_BlkUrl st) nIndex"

definition PcBlkURL_AddEntry :: "('s, 'c, 'r) pc_libs \<Rightarrow> pc_junk \<Rightarrow> ('b, 'r) pc_state \<Rightarrow>
    (nat \<times> ULONG) option \<times> ('b, 'r) pc_state" where
  "PcBlkURL_AddEntry L N st = (case pc_AddEntry L BlkURL_kind (ju_blk N) (pc_BlkUrl st) (pc_env st) of
     (h, t, v) \<Rightarrow> (h, st\<lparr>pc_BlkUrl := t, pc_env := v\<rparr>))"

definition PcBlkURL_DelEntry :: "('s, 'c, 'r) pc_libs \<Rightarrow> 'b pc_boards \<Rightarrow> ('b, 'r) pc_state \<Rightarrow> COSA_DML_BLOCKEDURL pc_obj cosa_link \<Rightarrow>
    ULONG \<times> ('b, 'r) pc_state" where
  "PcBlkURL_DelEntry L BS st l = (case pc_DelEntry L (bs_blk BS) (pc_BlkUrl st) (pc_env st) l of
     (n, t, v) \<Rightarrow> (n, st\<lparr>pc_BlkUrl := t, pc_env := v\<rparr>))"

definition PcBlkURL_Commit :: "('s, 'c, 'r) pc_libs \<Rightarrow> 'b pc_boards \<Rightarrow> ('b, 'r) pc_state \<Rightarrow> COSA_DML_BLOCKEDURL pc_obj cosa_link \<Rightarrow>
    ULONG \<times> ('b, 'r) pc_state" where
  "PcBlkURL_Commit L BS st l = (case pc_Commit L BlkURL_kind (bs_blk BS) (pc_BlkUrl st) (pc_env st) l of
     (n, t, v) \<Rightarrow> (n, st\<lparr>pc_BlkUrl := t, pc_env := v\<rparr>))"

definition PcBlkURL_Rollback :: "'b pc_boards \<Rightarrow> ('b, 'r) pc_state \<Rightarrow> COSA_DML_BLOCKEDURL pc_obj cosa_link \<Rightarrow> ULONG \<times> ('b, 'r) pc_state" where
  "PcBlkURL_Rollback BS st l = (case pc_Rollback BlkURL_kind (bs_blk BS) (pc_BlkUrl st) (pc_env st) l of
     (n, t, v) \<Rightarrow> (n, st\<lparr>pc_BlkUrl := t, pc_env := v\<rparr>))"

definition pc_load_BlkURL :: "('s, 'c, 'r) pc_libs \<Rightarrow> 'b pc_boards \<Rightarrow> pc_junk \<Rightarrow> ('b, 'r) pc_state \<Rightarrow> ansc_status \<times> ('b, 'r) pc_state" where
  "pc_load_BlkURL L BS N st = (case pc_load_table L BlkURL_kind (bs_blk BS) (ju_blk N) (pc_BlkUrl st) (pc_env st) of
     (s, t, v) \<Rightarrow> (s, st\<lparr>pc_BlkUrl := t, pc_env := v\<rparr>))"

section \<open>TrustedUser\<close>

definition CosaPcReg_TrustedUserAddInfo :: "('s, 'c, 'r) pc_libs \<Rightarrow> ('b, 'r) pc_state \<Rightarrow> COSA_DML_TRUSTEDUSER \<Rightarrow>
    ansc_status \<times> (path \<times> path) option \<times> ('b, 'r) pc_state" where
  "CosaPcReg_TrustedUserAddInfo L st e =
     (case pc_AddInfo L TrustedUser_kind (pc_TrustedUser st) e (pc_env st) of (s, fo, v) \<Rightarrow> (s, fo, st\<lparr>pc_env := v\<rparr>))"

definition CosaPcReg_TrustedUserDelInfo :: "('s, 'c, 'r) pc_libs \<Rightarrow> ('b, 'r) pc_state \<Rightarrow> COSA_DML_TRUSTEDUSER pc_obj cosa_link \<Rightarrow>
    ansc_status \<times> ('b, 'r) pc_state" where
  "CosaPcReg_TrustedUserDelInfo L st l =
     (case pc_DelInfo L (lnk_hContext l) (pc_env st) of (s, v) \<Rightarrow> (s, st\<lparr>pc_env := v\<rparr>))"

definition CosaPcReg_TrustedUserGetInfo :: "('s, 'c, 'r) pc_libs \<Rightarrow> pc_junk \<Rightarrow> ('b, 'r) pc_state \<Rightarrow> ansc_status \<times> ('b, 'r) pc_state" where
  "CosaPcReg_TrustedUserGetInfo L N st =
     (case pc_GetInfo L TrustedUser_kind (ju_tuser N) (pc_TrustedUser st) (pc_env st) of (s, t, v) \<Rightarrow> (s, st\<lparr>pc_TrustedUser := t, pc_env := v\<rparr>))"

definition PcTrustedUser_GetEntryCount :: "('b, 'r) pc_state \<Rightarrow> ULONG" where
  "PcTrustedUser_GetEntryCount st = pc_GetEntryCount (pc_TrustedUser st)"

definition PcTrustedUser_GetEntry :: "('b, 'r) pc_state \<Rightarrow> ULONG \<Rightarrow> (nat \<times> ULONG) option" where
  "PcTrustedUser_GetEntry st nIndex = pc_GetEntry (pc_TrustedUser st) nIndex"

definition PcTrustedUser_AddEntry :: "('s, 'c, 'r) pc_libs \<Rightarrow> pc_junk \<Rightarrow> ('b, 'r) pc_state \<Rightarrow>
    (nat \<times> ULONG) option \<times> ('b, 'r) pc_state" where
  "PcTrustedUser_AddEntry L N st = (case pc_AddEntry L TrustedUser_kind (ju_tuser N) (pc_TrustedUser st) (pc_env st) of
     (h, t, v) \<Rightarrow> (h, st\<lparr>pc_TrustedUser := t, pc_env := v\<rparr>))"

definition PcTrustedUser_DelEntry :: "('s, 'c, 'r) pc_libs \<Rightarrow> 'b pc_boards \<Rightarrow> ('b, 'r) pc_state \<Rightarrow> COSA_DML_TRUSTEDUSER pc_obj cosa_link \<Rightarrow>
    ULONG \<times> ('b, 'r) pc_state" where
  "PcTrustedUser_DelEntry L BS st l = (case pc_DelEntry L (bs_tuser BS) (pc_TrustedUser st) (pc_env st) l of
     (n, t, v) \<Rightarrow> (n, st\<lparr>pc_TrustedUser := t, pc_env := v\<rparr>))"

definition PcTrustedUser_Commit :: "('s, 'c, 'r) pc_libs \<Rightarrow> 'b pc_boards \<Rightarrow> ('b, 'r) pc_state \<Rightarrow> COSA_DML_TRUSTEDUSER pc_obj cosa_link \<Rightarrow>
    ULONG \<times> ('b, 'r) pc_state" where
  "PcTrustedUser_Commit L BS st l = (case pc_Commit L TrustedUser_kind (bs_tuser BS) (pc_TrustedUser st) (pc_env st) l of
     (n, t, v) \<Rightarrow> (n, st\<lparr>pc_TrustedUser := t, pc_env := v\<rparr>))"

definition PcTrustedUser_Rollback :: "'b pc_boards \<Rightarrow> ('b, 'r) pc_state \<Rightarrow> COSA_DML_TRUSTEDUSER pc_obj cosa_link \<Rightarrow> ULONG \<times> ('b, 'r) pc_state" where
  "PcTrustedUser_Rollback BS st l = (case pc_Rollback TrustedUser_kind (bs_tuser BS) (pc_TrustedUser st) (pc_env st) l of
     (n, t, v) \<Rightarrow> (n, st\<lparr>pc_TrustedUser := t, pc_env := v\<rparr>))"

definition pc_load_TrustedUser :: "('s, 'c, 'r) pc_libs \<Rightarrow> 'b pc_boards \<Rightarrow> pc_junk \<Rightarrow> ('b, 'r) pc_state \<Rightarrow> ansc_status \<times> ('b, 'r) pc_state" where
  "pc_load_TrustedUser L BS N st = (case pc_load_table L TrustedUser_kind (bs_tuser BS) (ju_tuser N) (pc_TrustedUser st) (pc_env st) of
     (s, t, v) \<Rightarrow> (s, st\<lparr>pc_TrustedUser := t, pc_env := v\<rparr>))"

section \<open>MSServ\<close>

definition CosaPcReg_MSServAddInfo :: "('s, 'c, 'r) pc_libs \<Rightarrow> ('b, 'r) pc_state \<Rightarrow> COSA_DML_MS_SERV \<Rightarrow>
    ansc_status \<times> (path \<times> path) option \<times> ('b, 'r) pc_state" where
  "CosaPcReg_MSServAddInfo L st e =
     (case pc_AddInfo L MSServ_kind (pc_MSServ st) e (pc_env st) of (s, fo, v) \<Rightarrow> (s, fo, st\<lparr>pc_env := v\<rparr>))"

definition CosaPcReg_MSServDelInfo :: "('s, 'c, 'r) pc_libs \<Rightarrow> ('b, 'r) pc_state \<Rightarrow> COSA_DML_MS_SERV pc_obj cosa_link \<Rightarrow>
    ansc_status \<times> ('b, 'r) pc_state" where
  "CosaPcReg_MSServDelInfo L st l =
     (case pc_DelInfo L (lnk_hContext l) (pc_env st) of (s, v) \<Rightarrow> (s, st\<lparr>pc_env := v\<rparr>))"

definition CosaPcReg_MSServGetInfo :: "('s, 'c, 'r) pc_libs \<Rightarrow> pc_junk \<Rightarrow> ('b, 'r) pc_state \<Rightarrow> ansc_status \<times> ('b, 'r) pc_state" where
  "CosaPcReg_MSServGetInfo L N st =
     (case pc_GetInfo L MSServ_kind (ju_serv N) (pc_MSServ st) (pc_env st) of (s, t, v) \<Rightarrow> (s, st\<lparr>pc_MSServ := t, pc_env := v\<rparr>))"

definition MSServ_GetEntryCount :: "('b, 'r) pc_state \<Rightarrow> ULONG" where
  "MSServ_GetEntryCount st = pc_GetEntryCount (pc_MSServ st)"

definition MSServ_GetEntry :: "('b, 'r) pc_state \<Rightarrow> ULONG \<Rightarrow> (nat \<times> ULONG) option" where
  "MSServ_GetEntry st nIndex = pc_GetEntry (pc_MSServ st) nIndex"

definition MSServ_AddEntry :: "('s, 'c, 'r) pc_libs \<Rightarrow> pc_junk \<Rightarrow> ('b, 'r) pc_state \<Rightarrow>
    (nat \<times> ULONG) option \<times> ('b, 'r) pc_state" where
  "MSServ_AddEntry L N st = (case pc_AddEntry L MSServ_kind (ju_serv N) (pc_MSServ st) (pc_env st) of
     (h, t, v) \<Rightarrow> (h, st\<lparr>pc_MSServ := t, pc_env := v\<rparr>))"

definition MSServ_DelEntry :: "('s, 'c, 'r) pc_libs \<Rightarrow> 'b pc_boards \<Rightarrow> ('b, 'r) pc_state \<Rightarrow> COSA_DML_MS_SERV pc_obj cosa_link \<Rightarrow>
    ULONG \<times> ('b, 'r) pc_state" where
  "MSServ_DelEntry L BS st l = (case pc_DelEntry L (bs_serv BS) (pc_MSServ st) (pc_env st) l of
     (n, t, v) \<Rightarrow> (n, st\<lparr>pc_MSServ := t, pc_env := v\<rparr>))"

definition MSServ_Commit :: "('s, 'c, 'r) pc_libs \<Rightarrow> 'b pc_boards \<Rightarrow> ('b, 'r) pc_state \<Rightarrow> COSA_DML_MS_SERV pc_obj cosa_link \<Rightarrow>
    ULONG \<times> ('b, 'r) pc_state" where
  "MSServ_Commit L BS st l = (case pc_Commit L MSServ_kind (bs_serv BS) (pc_MSServ st) (pc_env st) l of
     (n, t, v) \<Rightarrow> (n, st\<lparr>pc_MSServ := t, pc_env := v\<rparr>))"

definition MSServ_Rollback :: "'b pc_boards \<Rightarrow> ('b, 'r) pc_state \<Rightarrow> COSA_DML_MS_SERV pc_obj cosa_link \<Rightarrow> ULONG \<times> ('b, 'r) pc_state" where
  "MSServ_Rollback BS st l = (case pc_Rollback MSServ_kind (bs_serv BS) (pc_MSServ st) (pc_env st) l of
     (n, t, v) \<Rightarrow> (n, st\<lparr>pc_MSServ := t, pc_env := v\<rparr>))"

definition pc_load_MSServ :: "('s, 'c, 'r) pc_libs \<Rightarrow> 'b pc_boards \<Rightarrow> pc_junk \<Rightarrow> ('b, 'r) pc_state \<Rightarrow> ansc_status \<times> ('b, 'r) pc_state" where
  "pc_load_MSServ L BS N st = (case pc_load_table L MSServ_kind (bs_serv BS) (ju_serv N) (pc_MSServ st) (pc_env st) of
     (s, t, v) \<Rightarrow> (s, st\<lparr>pc_MSServ := t, pc_env := v\<rparr>))"

section \<open>MSTrustedUser\<close>

definition CosaPcReg_MSTrustedUserAddInfo :: "('s, 'c, 'r) pc_libs \<Rightarrow> ('b, 'r) pc_state \<Rightarrow> COSA_DML_MS_TRUSTEDUSER \<Rightarrow>
    ansc_status \<times> (path \<times> path) option \<times> ('b, 'r) pc_state" where
  "CosaPcReg_MSTrustedUserAddInfo L st e =
     (case pc_AddInfo L MSTrustedUser_kind (pc_MSTrustedUser st) e (pc_env st) of (s, fo, v) \<Rightarrow> (s, fo, st\<lparr>pc_env := v\<rparr>))"

definition CosaPcReg_MSTrustedUserDelInfo :: "('s, 'c, 'r) pc_libs \<Rightarrow> ('b, 'r) pc_state \<Rightarrow> COSA_DML_MS_TRUSTEDUSER pc_obj cosa_link \<Rightarrow>
    ansc_status \<times> ('b, 'r) pc_state" where
  "CosaPcReg_MSTrustedUserDelInfo L st l =
     (case pc_DelInfo L (lnk_hContext l) (pc_env st) of (s, v) \<Rightarrow> (s, st\<lparr>pc_env := v\<rparr>))"

definition CosaPcReg_MSTrustedUserGetInfo :: "('s, 'c, 'r) pc_libs \<Rightarrow> pc_junk \<Rightarrow> ('b, 'r) pc_state \<Rightarrow> ansc_status \<times> ('b, 'r) pc_state" where
  "CosaPcReg_MSTrustedUserGetInfo L N st =
     (case pc_GetInfo L MSTrustedUser_kind (ju_stuser N) (pc_MSTrustedUser st) (pc_env st) of (s, t, v) \<Rightarrow> (s, st\<lparr>pc_MSTrustedUser := t, pc_env := v\<rparr>))"

definition MSTrustedUser_GetEntryCount :: "('b, 'r) pc_state \<Rightarrow> ULONG" where
  "MSTrustedUser_GetEntryCount st = pc_GetEntryCount (pc_MSTrustedUser st)"

definition MSTrustedUser_GetEntry :: "('b, 'r) pc_state \<Rightarrow> ULONG \<Rightarrow> (nat \<times> ULONG) option" where
  "MSTrustedUser_GetEntry st nIndex = pc_GetEntry (pc_MSTrustedUser st) nIndex"

definition MSTrustedUser_AddEntry :: "('s, 'c, 'r) pc_libs \<Rightarrow> pc_junk \<Rightarrow> ('b, 'r) pc_state \<Rightarrow>
    (nat \<times> ULONG) option \<times> ('b, 'r) pc_state" where
  "MSTrustedUser_AddEntry L N st = (case pc_AddEntry L MSTrustedUser_kind (ju_stuser N) (pc_MSTrustedUser st) (pc_env st) of
     (h, t, v) \<Rightarrow> (h, st\<lparr>pc_MSTrustedUser := t, pc_env := v\<rparr>))"

definition MSTrustedUser_DelEntry :: "('s, 'c, 'r) pc_libs \<Rightarrow> 'b pc_boards \<Rightarrow> ('b, 'r) pc_state \<Rightarrow> COSA_DML_MS_TRUSTEDUSER pc_obj cosa_link \<Rightarrow>
    ULONG \<times> ('b, 'r) pc_state" where
  "MSTrustedUser_DelEntry L BS st l = (case pc_DelEntry L (bs_stuser BS) (pc_MSTrustedUser st) (pc_env st) l of
     (n, t, v) \<Rightarrow> (n, st\<lparr>pc_MSTrustedUser := t, pc_env := v\<rparr>))"

definition MSTrustedUser_Commit :: "('s, 'c, 'r) pc_libs \<Rightarrow> 'b pc_boards \<Rightarrow> ('b, 'r) pc_state \<Rightarrow> COSA_DML_MS_TRUSTEDUSER pc_obj cosa_link \<Rightarrow>
    ULONG \<times> ('b, 'r) pc_state" where
  "MSTrustedUser_Commit L BS st l = (case pc_Commit L MSTrustedUser_kind (bs_stuser BS) (pc_MSTrustedUser st) (pc_env st) l of
     (n, t, v) \<Rightarrow> (n, st\<lparr>pc_MSTrustedUser := t, pc_env := v\<rparr>))"

definition MSTrustedUser_Rollback :: "'b pc_boards \<Rightarrow> ('b, 'r) pc_state \<Rightarrow> COSA_DML_MS_TRUSTEDUSER pc_obj cosa_link \<Rightarrow> ULONG \<times> ('b, 'r) pc_state" where
  "MSTrustedUser_Rollback BS st l = (case pc_Rollback MSTrustedUser_kind (bs_stuser BS) (pc_MSTrustedUser st) (pc_env st) l of
     (n, t, v) \<Rightarrow> (n, st\<lparr>pc_MSTrustedUser := t, pc_env := v\<rparr>))"

definition pc_load_MSTrustedUser :: "('s, 'c, 'r) pc_libs \<Rightarrow> 'b pc_boards \<Rightarrow> pc_junk \<Rightarrow> ('b, 'r) pc_state \<Rightarrow> ansc_status \<times> ('b, 'r) pc_state" where
  "pc_load_MSTrustedUser L BS N st = (case pc_load_table L MSTrustedUser_kind (bs_stuser BS) (ju_stuser N) (pc_MSTrustedUser st) (pc_env st) of
     (s, t, v) \<Rightarrow> (s, st\<lparr>pc_MSTrustedUser := t, pc_env := v\<rparr>))"

section \<open>MDDev\<close>

definition CosaPcReg_MDDevAddInfo :: "('s, 'c, 'r) pc_libs \<Rightarrow> ('b, 'r) pc_state \<Rightarrow> COSA_DML_MD_DEV \<Rightarrow>
    ansc_status \<times> (path \<times> path) option \<times> ('b, 'r) pc_state" where
  "CosaPcReg_MDDevAddInfo L st e =
     (case pc_AddInfo L MDDev_kind (pc_MDDev st) e (pc_env st) of (s, fo, v) \<Rightarrow> (s, fo, st\<lparr>pc_env := v\<rparr>))"

definition CosaPcReg_MDDevDelInfo :: "('s, 'c, 'r) pc_libs \<Rightarrow> ('b, 'r) pc_state \<Rightarrow> COSA_DML_MD_DEV pc_obj cosa_link \<Rightarrow>
    ansc_status \<times> ('b, 'r) pc_state" where
  "CosaPcReg_MDDevDelInfo L st l =
     (case pc_DelInfo L (lnk_hContext l) (pc_env st) of (s, v) \<Rightarrow> (s, st\<lparr>pc_env := v\<rparr>))"

definition CosaPcReg_MDDevGetInfo :: "('s, 'c, 'r) pc_libs \<Rightarrow> pc_junk \<Rightarrow> ('b, 'r) pc_state \<Rightarrow> ansc_status \<times> ('b, 'r) pc_state" where
  "CosaPcReg_MDDevGetInfo L N st =
     (case pc_GetInfo L MDDev_kind (ju_dev N) (pc_MDDev st) (pc_env st) of (s, t, v) \<Rightarrow> (s, st\<lparr>pc_MDDev := t, pc_env := v\<rparr>))"

definition MDDev_GetEntryCount :: "('b, 'r) pc_state \<Rightarrow> ULONG" where
  "MDDev_GetEntryCount st = pc_GetEntryCount (pc_MDDev st)"

definition MDDev_GetEntry :: "('b, 'r) pc_state \<Rightarrow> ULONG \<Rightarrow> (nat \<times> ULONG) option" where
  "MDDev_GetEntry st nIndex = pc_GetEntry (pc_MDDev st) nIndex"

definition MDDev_AddEntry :: "('s, 'c, 'r) pc_libs \<Rightarrow> pc_junk \<Rightarrow> ('b, 'r) pc_state \<Rightarrow>
    (nat \<times> ULONG) option \<times> ('b, 'r) pc_state" where
  "MDDev_AddEntry L N st = (case pc_AddEntry L MDDev_kind (ju_dev N) (pc_MDDev st) (pc_env st) of
     (h, t, v) \<Rightarrow> (h, st\<lparr>pc_MDDev := t, pc_env := v\<rparr>))"

definition MDDev_DelEntry :: "('s, 'c, 'r) pc_libs \<Rightarrow> 'b pc_boards \<Rightarrow> ('b, 'r) pc_state \<Rightarrow> COSA_DML_MD_DEV pc_obj cosa_link \<Rightarrow>
    ULONG \<times> ('b, 'r) pc_state" where
  "MDDev_DelEntry L BS st l = (case pc_DelEntry L (bs_dev BS) (pc_MDDev st) (pc_env st) l of
     (n, t, v) \<Rightarrow> (n, st\<lparr>pc_MDDev := t, pc_env := v\<rparr>))"

definition MDDev_Commit :: "('s, 'c, 'r) pc_libs \<Rightarrow> 'b pc_boards \<Rightarrow> ('b, 'r) pc_state \<Rightarrow> COSA_DML_MD_DEV pc_obj cosa_link \<Rightarrow>
    ULONG \<times> ('b, 'r) pc_state" where
  "MDDev_Commit L BS st l = (case pc_Commit L MDDev_kind (bs_dev BS) (pc_MDDev st) (pc_env st) l of
     (n, t, v) \<Rightarrow> (n, st\<lparr>pc_MDDev := t, pc_env := v\<rparr>))"

definition MDDev_Rollback :: "'b pc_boards \<Rightarrow> ('b, 'r) pc_state \<Rightarrow> COSA_DML_MD_DEV pc_obj cosa_link \<Rightarrow> ULONG \<times> ('b, 'r) pc_state" where
  "MDDev_Rollback BS st l = (case pc_Rollback MDDev_kind (bs_dev BS) (pc_MDDev st) (pc_env st) l of
     (n, t, v) \<Rightarrow> (n, st\<lparr>pc_MDDev := t, pc_env := v\<rparr>))"

definition pc_load_MDDev :: "('s, 'c, 'r) pc_libs \<Rightarrow> 'b pc_boards \<Rightarrow> pc_junk \<Rightarrow> ('b, 'r) pc_state \<Rightarrow> ansc_status \<times> ('b, 'r) pc_state" where
  "pc_load_MDDev L BS N st = (case pc_load_table L MDDev_kind (bs_dev BS) (ju_dev N) (pc_MDDev st) (pc_env st) of
     (s, t, v) \<Rightarrow> (s, st\<lparr>pc_MDDev := t, pc_env := v\<rparr>))"

section \<open>The start\<close>

text \<open>A part that fails ends the function.\<close>

definition pc_then :: "ansc_status \<times> 'x \<Rightarrow> ('x \<Rightarrow> ansc_status \<times> 'x) \<Rightarrow> ansc_status \<times> 'x" where
  "pc_then r f = (if ansc_ok (fst r) then f (snd r) else r)"

definition CosaParentalControlInitialize :: "('s, 'c, 'r) pc_libs \<Rightarrow> 'b pc_boards \<Rightarrow> pc_junk \<Rightarrow> ('b, 'r) pc_state \<Rightarrow>
    ansc_status \<times> ('b, 'r) pc_state" where
  "CosaParentalControlInitialize L BS N st =
     (case bs_MngSites_GetConf BS (pc_ManagedSites st) (en_board (pc_env st)) of (_, x1, b1) \<Rightarrow>
      case bs_MngServs_GetConf BS (pc_ManagedServs st) b1 of (_, x2, b2) \<Rightarrow>
      case bs_MngDevs_GetConf BS (pc_ManagedDevs st) b2 of (_, x3, b3) \<Rightarrow>
      case bs_MDRed_GetConf BS (pc_MDRedirect st) b3 of (_, x4, b4) \<Rightarrow>
        pc_then (pc_then (pc_then (pc_then (pc_load_BlkURL L BS N
            (st\<lparr>pc_ManagedSites := x1, pc_ManagedServs := x2, pc_ManagedDevs := x3, pc_MDRedirect := x4,
                pc_env := (pc_env st)\<lparr>en_board := b4\<rparr>\<rparr>))
          (pc_load_TrustedUser L BS N)) (pc_load_MSServ L BS N)) (pc_load_MSTrustedUser L BS N)) (pc_load_MDDev L BS N))"

section \<open>The switches\<close>

text \<open>\<open>None\<close> is the result FALSE of a getter.\<close>

definition MngSites_GetParamBoolValue :: "('b, 'r) pc_state \<Rightarrow> string \<Rightarrow> bool option" where
  "MngSites_GetParamBoolValue st ParamName =
     (if ParamName = ''Enable'' then Some (si_Enable (pc_ManagedSites st))
      else None)"

definition MngSites_SetParamBoolValue :: "('s, 'c, 'r) pc_libs \<Rightarrow> ('b, 'r) pc_state \<Rightarrow> string \<Rightarrow> bool \<Rightarrow> bool \<times> ('b, 'r) pc_state" where
  "MngSites_SetParamBoolValue L st ParamName bValue =
     (if bridge_blocked (pl_libs L) then (False, st)
      else if ParamName = ''Enable'' then (True, st\<lparr>pc_ManagedSites := (pc_ManagedSites st)\<lparr>si_Enable := bValue\<rparr>\<rparr>)
      else (False, st))"

definition MngSites_Commit :: "'b pc_boards \<Rightarrow> ('b, 'r) pc_state \<Rightarrow> ULONG \<times> ('b, 'r) pc_state" where
  "MngSites_Commit BS st =
     (case bs_MngSites_SetConf BS (pc_ManagedSites st) (en_board (pc_env st)) of (s, b) \<Rightarrow>
        if ansc_ok s then (0, st\<lparr>pc_env := (pc_env st)\<lparr>en_board := b\<rparr>\<rparr>)
        else (case bs_MngSites_GetConf BS (pc_ManagedSites st) b of (_, x, b') \<Rightarrow>
            (- 1, st\<lparr>pc_ManagedSites := x, pc_env := (pc_env st)\<lparr>en_board := b'\<rparr>\<rparr>)))"

definition MngSites_Rollback :: "'b pc_boards \<Rightarrow> ('b, 'r) pc_state \<Rightarrow> ULONG \<times> ('b, 'r) pc_state" where
  "MngSites_Rollback BS st =
     (case bs_MngSites_GetConf BS (pc_ManagedSites st) (en_board (pc_env st)) of (s, x, b) \<Rightarrow>
        (if ansc_ok s then 0 else - 1, st\<lparr>pc_ManagedSites := x, pc_env := (pc_env st)\<lparr>en_board := b\<rparr>\<rparr>))"

definition MngServs_GetParamBoolValue :: "('b, 'r) pc_state \<Rightarrow> string \<Rightarrow> bool option" where
  "MngServs_GetParamBoolValue st ParamName =
     (if ParamName = ''Enable'' then Some (sv_Enable (pc_ManagedServs st))
      else None)"

definition MngServs_SetParamBoolValue :: "('s, 'c, 'r) pc_libs \<Rightarrow> ('b, 'r) pc_state \<Rightarrow> string \<Rightarrow> bool \<Rightarrow> bool \<times> ('b, 'r) pc_state" where
  "MngServs_SetParamBoolValue L st ParamName bValue =
     (if bridge_blocked (pl_libs L) then (False, st)
      else if ParamName = ''Enable'' then (True, st\<lparr>pc_ManagedServs := (pc_ManagedServs st)\<lparr>sv_Enable := bValue\<rparr>\<rparr>)
      else (False, st))"

definition MngServs_Commit :: "'b pc_boards \<Rightarrow> ('b, 'r) pc_state \<Rightarrow> ULONG \<times> ('b, 'r) pc_state" where
  "MngServs_Commit BS st =
     (case bs_MngServs_SetConf BS (pc_ManagedServs st) (en_board (pc_env st)) of (s, b) \<Rightarrow>
        if ansc_ok s then (0, st\<lparr>pc_env := (pc_env st)\<lparr>en_board := b\<rparr>\<rparr>)
        else (case bs_MngServs_GetConf BS (pc_ManagedServs st) b of (_, x, b') \<Rightarrow>
            (- 1, st\<lparr>pc_ManagedServs := x, pc_env := (pc_env st)\<lparr>en_board := b'\<rparr>\<rparr>)))"

definition MngServs_Rollback :: "'b pc_boards \<Rightarrow> ('b, 'r) pc_state \<Rightarrow> ULONG \<times> ('b, 'r) pc_state" where
  "MngServs_Rollback BS st =
     (case bs_MngServs_GetConf BS (pc_ManagedServs st) (en_board (pc_env st)) of (s, x, b) \<Rightarrow>
        (if ansc_ok s then 0 else - 1, st\<lparr>pc_ManagedServs := x, pc_env := (pc_env st)\<lparr>en_board := b\<rparr>\<rparr>))"

definition MngDevs_GetParamBoolValue :: "('b, 'r) pc_state \<Rightarrow> string \<Rightarrow> bool option" where
  "MngDevs_GetParamBoolValue st ParamName =
     (if ParamName = ''Enable'' then Some (dv_Enable (pc_ManagedDevs st))
      else if ParamName = ''AllowAll'' then Some (dv_AllowAll (pc_ManagedDevs st))
      else None)"

definition MngDevs_SetParamBoolValue :: "('s, 'c, 'r) pc_libs \<Rightarrow> ('b, 'r) pc_state \<Rightarrow> string \<Rightarrow> bool \<Rightarrow> bool \<times> ('b, 'r) pc_state" where
  "MngDevs_SetParamBoolValue L st ParamName bValue =
     (if bridge_blocked (pl_libs L) then (False, st)
      else if ParamName = ''Enable'' then (True, st\<lparr>pc_ManagedDevs := (pc_ManagedDevs st)\<lparr>dv_Enable := bValue\<rparr>\<rparr>)
      else if ParamName = ''AllowAll'' then (True, st\<lparr>pc_ManagedDevs := (pc_ManagedDevs st)\<lparr>dv_AllowAll := bValue\<rparr>\<rparr>)
      else (False, st))"

definition MngDevs_Commit :: "'b pc_boards \<Rightarrow> ('b, 'r) pc_state \<Rightarrow> ULONG \<times> ('b, 'r) pc_state" where
  "MngDevs_Commit BS st =
     (case bs_MngDevs_SetConf BS (pc_ManagedDevs st) (en_board (pc_env st)) of (s, b) \<Rightarrow>
        if ansc_ok s then (0, st\<lparr>pc_env := (pc_env st)\<lparr>en_board := b\<rparr>\<rparr>)
        else (case bs_MngDevs_GetConf BS (pc_ManagedDevs st) b of (_, x, b') \<Rightarrow>
            (- 1, st\<lparr>pc_ManagedDevs := x, pc_env := (pc_env st)\<lparr>en_board := b'\<rparr>\<rparr>)))"

definition MngDevs_Rollback :: "'b pc_boards \<Rightarrow> ('b, 'r) pc_state \<Rightarrow> ULONG \<times> ('b, 'r) pc_state" where
  "MngDevs_Rollback BS st =
     (case bs_MngDevs_GetConf BS (pc_ManagedDevs st) (en_board (pc_env st)) of (s, x, b) \<Rightarrow>
        (if ansc_ok s then 0 else - 1, st\<lparr>pc_ManagedDevs := x, pc_env := (pc_env st)\<lparr>en_board := b\<rparr>\<rparr>))"

end
