(* ===== verification/Pc_Sim.thy ===== *)
theory Pc_Sim
  imports Pc_Board
begin

text \<open>
  The board layer of parental control in the simulation build (\<open>_COSA_SIM_\<close>, the first half of
  \<open>source-arm/TR-181/board_sbapi/cosa_x_comcast_com_parentalcontrol_apis.c\<close>): each table is an array of four rows and the
  number of rows in use. The source has the functions once for each table; here they are written once over \<open>sim_table\<close>, and the
  copies are their instances. The theory ends with the proof that all five tables keep the contract \<open>pc_board\<close>.
\<close>

section \<open>One table\<close>

text \<open>What a copy says about its rows.\<close>

record 'e pc_row =
  row_ins :: "'e \<Rightarrow> ULONG"
  row_set_ins :: "ULONG \<Rightarrow> 'e \<Rightarrow> 'e"
  row_set_alias :: "string \<Rightarrow> 'e \<Rightarrow> 'e"

record 'e sim_table =
  sim_rows :: "'e list"
  sim_Nr :: nat

definition MAX_ENTRY :: nat where "MAX_ENTRY = 4"

text \<open>\<open>memmove (&a[dst], &a[src], n * sizeof a[0])\<close>.\<close>

definition memmove :: "'e list \<Rightarrow> nat \<Rightarrow> nat \<Rightarrow> nat \<Rightarrow> 'e list" where
  "memmove a dst src n = take dst a @ take n (drop src a) @ drop (dst + n) a"

text \<open>\<open>None\<close> is the result -1.\<close>

definition sim_InsGetIndex :: "'e pc_row \<Rightarrow> 'e sim_table \<Rightarrow> ULONG \<Rightarrow> nat option" where
  "sim_InsGetIndex R t ins = List.find (\<lambda>i. row_ins R (sim_rows t ! i) = ins) [0..<sim_Nr t]"

definition sim_GetNumberOfEntries :: "'e sim_table \<Rightarrow> ULONG" where
  "sim_GetNumberOfEntries t = of_nat (sim_Nr t)"

definition sim_GetEntryByIndex :: "'e sim_table \<Rightarrow> ULONG \<Rightarrow> 'e \<Rightarrow> ansc_status \<times> 'e" where
  "sim_GetEntryByIndex t index e =
     (if index \<ge> of_nat (sim_Nr t) then (ANSC_FAILURE, e) else (ANSC_SUCCESS, sim_rows t ! unat index))"

definition sim_SetValues :: "'e pc_row \<Rightarrow> 'e sim_table \<Rightarrow> ULONG \<Rightarrow> ULONG \<Rightarrow> string \<Rightarrow> ansc_status \<times> 'e sim_table" where
  "sim_SetValues R t index ins alias =
     (if index \<ge> of_nat (sim_Nr t) then (ANSC_FAILURE, t)
      else (ANSC_SUCCESS, t\<lparr>sim_rows := (sim_rows t)[unat index :=
              row_set_alias R (snprintf PC_ALIAS alias) (row_set_ins R ins (sim_rows t ! unat index))]\<rparr>))"

definition sim_AddEntry :: "'e sim_table \<Rightarrow> 'e \<Rightarrow> ansc_status \<times> 'e sim_table" where
  "sim_AddEntry t e =
     (if sim_Nr t \<ge> MAX_ENTRY then (ANSC_FAILURE, t)
      else (ANSC_SUCCESS, t\<lparr>sim_rows := (sim_rows t)[sim_Nr t := e], sim_Nr := sim_Nr t + 1\<rparr>))"

definition sim_DelEntry :: "'e pc_row \<Rightarrow> 'e sim_table \<Rightarrow> ULONG \<Rightarrow> ansc_status \<times> 'e sim_table" where
  "sim_DelEntry R t ins = (case sim_InsGetIndex R t ins of
       None \<Rightarrow> (ANSC_FAILURE, t)
     | Some i \<Rightarrow> (ANSC_SUCCESS, t\<lparr>sim_rows := memmove (sim_rows t) i (i + 1) (sim_Nr t - i - 1), sim_Nr := sim_Nr t - 1\<rparr>))"

definition sim_GetConf :: "'e pc_row \<Rightarrow> 'e sim_table \<Rightarrow> ULONG \<Rightarrow> 'e \<Rightarrow> ansc_status \<times> 'e" where
  "sim_GetConf R t ins e = (case sim_InsGetIndex R t ins of
       None \<Rightarrow> (ANSC_FAILURE, e)
     | Some i \<Rightarrow> (ANSC_SUCCESS, row_set_ins R ins (sim_rows t ! i)))"

definition sim_SetConf :: "'e pc_row \<Rightarrow> 'e sim_table \<Rightarrow> ULONG \<Rightarrow> 'e \<Rightarrow> ansc_status \<times> 'e sim_table" where
  "sim_SetConf R t ins e = (case sim_InsGetIndex R t ins of
       None \<Rightarrow> (ANSC_FAILURE, t)
     | Some i \<Rightarrow> (ANSC_SUCCESS, t\<lparr>sim_rows := (sim_rows t)[i := row_set_ins R ins e]\<rparr>))"

section \<open>The five tables\<close>

record sim_board =
  g_ManagedSites :: COSA_DML_MANAGEDSITES
  g_ManagedServs :: COSA_DML_MANAGED_SERVS
  g_ManagedDevs :: COSA_DML_MANAGED_DEVS
  g_BlockedURLs :: "COSA_DML_BLOCKEDURL sim_table"
  g_TrustedUsers :: "COSA_DML_TRUSTEDUSER sim_table"
  g_MSServs :: "COSA_DML_MS_SERV sim_table"
  g_MSTrustedUsers :: "COSA_DML_MS_TRUSTEDUSER sim_table"
  g_MDDevs :: "COSA_DML_MD_DEV sim_table"

definition CosaDmlMngSites_GetConf_sim :: "sim_board \<Rightarrow> ansc_status \<times> COSA_DML_MANAGEDSITES" where
  "CosaDmlMngSites_GetConf_sim b = (ANSC_SUCCESS, g_ManagedSites b)"

definition CosaDmlMngSites_SetConf_sim :: "COSA_DML_MANAGEDSITES \<Rightarrow> sim_board \<Rightarrow> ansc_status \<times> sim_board" where
  "CosaDmlMngSites_SetConf_sim conf b = (ANSC_SUCCESS, b\<lparr>g_ManagedSites := conf\<rparr>)"

definition CosaDmlMngServs_GetConf_sim :: "sim_board \<Rightarrow> ansc_status \<times> COSA_DML_MANAGED_SERVS" where
  "CosaDmlMngServs_GetConf_sim b = (ANSC_SUCCESS, g_ManagedServs b)"

definition CosaDmlMngServs_SetConf_sim :: "COSA_DML_MANAGED_SERVS \<Rightarrow> sim_board \<Rightarrow> ansc_status \<times> sim_board" where
  "CosaDmlMngServs_SetConf_sim conf b = (ANSC_SUCCESS, b\<lparr>g_ManagedServs := conf\<rparr>)"

definition CosaDmlMngDevs_GetConf_sim :: "sim_board \<Rightarrow> ansc_status \<times> COSA_DML_MANAGED_DEVS" where
  "CosaDmlMngDevs_GetConf_sim b = (ANSC_SUCCESS, g_ManagedDevs b)"

definition CosaDmlMngDevs_SetConf_sim :: "COSA_DML_MANAGED_DEVS \<Rightarrow> sim_board \<Rightarrow> ansc_status \<times> sim_board" where
  "CosaDmlMngDevs_SetConf_sim conf b = (ANSC_SUCCESS, b\<lparr>g_ManagedDevs := conf\<rparr>)"

subsection \<open>Blocked URL\<close>

definition BlkURL_row :: "COSA_DML_BLOCKEDURL pc_row" where
  "BlkURL_row = \<lparr>row_ins = bu_InstanceNumber, row_set_ins = (\<lambda>n e. e\<lparr>bu_InstanceNumber := n\<rparr>),
     row_set_alias = (\<lambda>a e. e\<lparr>bu_Alias := a\<rparr>)\<rparr>"

definition BlkURL_InsGetIndex_sim :: "sim_board \<Rightarrow> ULONG \<Rightarrow> nat option" where
  "BlkURL_InsGetIndex_sim b ins = sim_InsGetIndex BlkURL_row (g_BlockedURLs b) ins"

definition CosaDmlBlkURL_GetNumberOfEntries_sim :: "sim_board \<Rightarrow> ULONG \<times> sim_board" where
  "CosaDmlBlkURL_GetNumberOfEntries_sim b = (sim_GetNumberOfEntries (g_BlockedURLs b), b)"

definition CosaDmlBlkURL_GetEntryByIndex_sim :: "ULONG \<Rightarrow> COSA_DML_BLOCKEDURL \<Rightarrow> sim_board \<Rightarrow> ansc_status \<times> COSA_DML_BLOCKEDURL \<times> sim_board" where
  "CosaDmlBlkURL_GetEntryByIndex_sim index e b = (case sim_GetEntryByIndex (g_BlockedURLs b) index e of (s, e') \<Rightarrow> (s, e', b))"

definition CosaDmlBlkURL_SetValues_sim :: "ULONG \<Rightarrow> ULONG \<Rightarrow> string \<Rightarrow> sim_board \<Rightarrow> ansc_status \<times> sim_board" where
  "CosaDmlBlkURL_SetValues_sim index ins alias b =
     (case sim_SetValues BlkURL_row (g_BlockedURLs b) index ins alias of (s, t) \<Rightarrow> (s, b\<lparr>g_BlockedURLs := t\<rparr>))"

definition CosaDmlBlkURL_AddEntry_sim :: "COSA_DML_BLOCKEDURL \<Rightarrow> sim_board \<Rightarrow> ansc_status \<times> sim_board" where
  "CosaDmlBlkURL_AddEntry_sim e b = (case sim_AddEntry (g_BlockedURLs b) e of (s, t) \<Rightarrow> (s, b\<lparr>g_BlockedURLs := t\<rparr>))"

definition CosaDmlBlkURL_DelEntry_sim :: "ULONG \<Rightarrow> sim_board \<Rightarrow> ansc_status \<times> sim_board" where
  "CosaDmlBlkURL_DelEntry_sim ins b = (case sim_DelEntry BlkURL_row (g_BlockedURLs b) ins of (s, t) \<Rightarrow> (s, b\<lparr>g_BlockedURLs := t\<rparr>))"

definition CosaDmlBlkURL_GetConf_sim :: "ULONG \<Rightarrow> COSA_DML_BLOCKEDURL \<Rightarrow> sim_board \<Rightarrow> ansc_status \<times> COSA_DML_BLOCKEDURL \<times> sim_board" where
  "CosaDmlBlkURL_GetConf_sim ins e b = (case sim_GetConf BlkURL_row (g_BlockedURLs b) ins e of (s, e') \<Rightarrow> (s, e', b))"

definition CosaDmlBlkURL_SetConf_sim :: "ULONG \<Rightarrow> COSA_DML_BLOCKEDURL \<Rightarrow> sim_board \<Rightarrow> ansc_status \<times> sim_board" where
  "CosaDmlBlkURL_SetConf_sim ins e b = (case sim_SetConf BlkURL_row (g_BlockedURLs b) ins e of (s, t) \<Rightarrow> (s, b\<lparr>g_BlockedURLs := t\<rparr>))"

definition BlkURL_ops_sim :: "(COSA_DML_BLOCKEDURL, sim_board) pc_ops" where
  "BlkURL_ops_sim = \<lparr>bo_GetNumberOfEntries = CosaDmlBlkURL_GetNumberOfEntries_sim,
     bo_GetEntryByIndex = CosaDmlBlkURL_GetEntryByIndex_sim, bo_SetValues = CosaDmlBlkURL_SetValues_sim,
     bo_AddEntry = CosaDmlBlkURL_AddEntry_sim, bo_DelEntry = CosaDmlBlkURL_DelEntry_sim,
     bo_GetConf = CosaDmlBlkURL_GetConf_sim, bo_SetConf = CosaDmlBlkURL_SetConf_sim\<rparr>"

subsection \<open>TrustedUser\<close>

definition TrustedUser_row :: "COSA_DML_TRUSTEDUSER pc_row" where
  "TrustedUser_row = \<lparr>row_ins = tu_InstanceNumber, row_set_ins = (\<lambda>n e. e\<lparr>tu_InstanceNumber := n\<rparr>),
     row_set_alias = (\<lambda>a e. e\<lparr>tu_Alias := a\<rparr>)\<rparr>"

definition TrustedUser_InsGetIndex_sim :: "sim_board \<Rightarrow> ULONG \<Rightarrow> nat option" where
  "TrustedUser_InsGetIndex_sim b ins = sim_InsGetIndex TrustedUser_row (g_TrustedUsers b) ins"

definition CosaDmlTrustedUser_GetNumberOfEntries_sim :: "sim_board \<Rightarrow> ULONG \<times> sim_board" where
  "CosaDmlTrustedUser_GetNumberOfEntries_sim b = (sim_GetNumberOfEntries (g_TrustedUsers b), b)"

definition CosaDmlTrustedUser_GetEntryByIndex_sim :: "ULONG \<Rightarrow> COSA_DML_TRUSTEDUSER \<Rightarrow> sim_board \<Rightarrow> ansc_status \<times> COSA_DML_TRUSTEDUSER \<times> sim_board" where
  "CosaDmlTrustedUser_GetEntryByIndex_sim index e b = (case sim_GetEntryByIndex (g_TrustedUsers b) index e of (s, e') \<Rightarrow> (s, e', b))"

definition CosaDmlTrustedUser_SetValues_sim :: "ULONG \<Rightarrow> ULONG \<Rightarrow> string \<Rightarrow> sim_board \<Rightarrow> ansc_status \<times> sim_board" where
  "CosaDmlTrustedUser_SetValues_sim index ins alias b =
     (case sim_SetValues TrustedUser_row (g_TrustedUsers b) index ins alias of (s, t) \<Rightarrow> (s, b\<lparr>g_TrustedUsers := t\<rparr>))"

definition CosaDmlTrustedUser_AddEntry_sim :: "COSA_DML_TRUSTEDUSER \<Rightarrow> sim_board \<Rightarrow> ansc_status \<times> sim_board" where
  "CosaDmlTrustedUser_AddEntry_sim e b = (case sim_AddEntry (g_TrustedUsers b) e of (s, t) \<Rightarrow> (s, b\<lparr>g_TrustedUsers := t\<rparr>))"

definition CosaDmlTrustedUser_DelEntry_sim :: "ULONG \<Rightarrow> sim_board \<Rightarrow> ansc_status \<times> sim_board" where
  "CosaDmlTrustedUser_DelEntry_sim ins b = (case sim_DelEntry TrustedUser_row (g_TrustedUsers b) ins of (s, t) \<Rightarrow> (s, b\<lparr>g_TrustedUsers := t\<rparr>))"

definition CosaDmlTrustedUser_GetConf_sim :: "ULONG \<Rightarrow> COSA_DML_TRUSTEDUSER \<Rightarrow> sim_board \<Rightarrow> ansc_status \<times> COSA_DML_TRUSTEDUSER \<times> sim_board" where
  "CosaDmlTrustedUser_GetConf_sim ins e b = (case sim_GetConf TrustedUser_row (g_TrustedUsers b) ins e of (s, e') \<Rightarrow> (s, e', b))"

definition CosaDmlTrustedUser_SetConf_sim :: "ULONG \<Rightarrow> COSA_DML_TRUSTEDUSER \<Rightarrow> sim_board \<Rightarrow> ansc_status \<times> sim_board" where
  "CosaDmlTrustedUser_SetConf_sim ins e b = (case sim_SetConf TrustedUser_row (g_TrustedUsers b) ins e of (s, t) \<Rightarrow> (s, b\<lparr>g_TrustedUsers := t\<rparr>))"

definition TrustedUser_ops_sim :: "(COSA_DML_TRUSTEDUSER, sim_board) pc_ops" where
  "TrustedUser_ops_sim = \<lparr>bo_GetNumberOfEntries = CosaDmlTrustedUser_GetNumberOfEntries_sim,
     bo_GetEntryByIndex = CosaDmlTrustedUser_GetEntryByIndex_sim, bo_SetValues = CosaDmlTrustedUser_SetValues_sim,
     bo_AddEntry = CosaDmlTrustedUser_AddEntry_sim, bo_DelEntry = CosaDmlTrustedUser_DelEntry_sim,
     bo_GetConf = CosaDmlTrustedUser_GetConf_sim, bo_SetConf = CosaDmlTrustedUser_SetConf_sim\<rparr>"

subsection \<open>ManagedServices.Service\<close>

definition MSServ_row :: "COSA_DML_MS_SERV pc_row" where
  "MSServ_row = \<lparr>row_ins = ms_InstanceNumber, row_set_ins = (\<lambda>n e. e\<lparr>ms_InstanceNumber := n\<rparr>),
     row_set_alias = (\<lambda>a e. e\<lparr>ms_Alias := a\<rparr>)\<rparr>"

definition MSServ_InsGetIndex_sim :: "sim_board \<Rightarrow> ULONG \<Rightarrow> nat option" where
  "MSServ_InsGetIndex_sim b ins = sim_InsGetIndex MSServ_row (g_MSServs b) ins"

definition CosaDmlMSServ_GetNumberOfEntries_sim :: "sim_board \<Rightarrow> ULONG \<times> sim_board" where
  "CosaDmlMSServ_GetNumberOfEntries_sim b = (sim_GetNumberOfEntries (g_MSServs b), b)"

definition CosaDmlMSServ_GetEntryByIndex_sim :: "ULONG \<Rightarrow> COSA_DML_MS_SERV \<Rightarrow> sim_board \<Rightarrow> ansc_status \<times> COSA_DML_MS_SERV \<times> sim_board" where
  "CosaDmlMSServ_GetEntryByIndex_sim index e b = (case sim_GetEntryByIndex (g_MSServs b) index e of (s, e') \<Rightarrow> (s, e', b))"

definition CosaDmlMSServ_SetValues_sim :: "ULONG \<Rightarrow> ULONG \<Rightarrow> string \<Rightarrow> sim_board \<Rightarrow> ansc_status \<times> sim_board" where
  "CosaDmlMSServ_SetValues_sim index ins alias b =
     (case sim_SetValues MSServ_row (g_MSServs b) index ins alias of (s, t) \<Rightarrow> (s, b\<lparr>g_MSServs := t\<rparr>))"

definition CosaDmlMSServ_AddEntry_sim :: "COSA_DML_MS_SERV \<Rightarrow> sim_board \<Rightarrow> ansc_status \<times> sim_board" where
  "CosaDmlMSServ_AddEntry_sim e b = (case sim_AddEntry (g_MSServs b) e of (s, t) \<Rightarrow> (s, b\<lparr>g_MSServs := t\<rparr>))"

definition CosaDmlMSServ_DelEntry_sim :: "ULONG \<Rightarrow> sim_board \<Rightarrow> ansc_status \<times> sim_board" where
  "CosaDmlMSServ_DelEntry_sim ins b = (case sim_DelEntry MSServ_row (g_MSServs b) ins of (s, t) \<Rightarrow> (s, b\<lparr>g_MSServs := t\<rparr>))"

definition CosaDmlMSServ_GetConf_sim :: "ULONG \<Rightarrow> COSA_DML_MS_SERV \<Rightarrow> sim_board \<Rightarrow> ansc_status \<times> COSA_DML_MS_SERV \<times> sim_board" where
  "CosaDmlMSServ_GetConf_sim ins e b = (case sim_GetConf MSServ_row (g_MSServs b) ins e of (s, e') \<Rightarrow> (s, e', b))"

definition CosaDmlMSServ_SetConf_sim :: "ULONG \<Rightarrow> COSA_DML_MS_SERV \<Rightarrow> sim_board \<Rightarrow> ansc_status \<times> sim_board" where
  "CosaDmlMSServ_SetConf_sim ins e b = (case sim_SetConf MSServ_row (g_MSServs b) ins e of (s, t) \<Rightarrow> (s, b\<lparr>g_MSServs := t\<rparr>))"

definition MSServ_ops_sim :: "(COSA_DML_MS_SERV, sim_board) pc_ops" where
  "MSServ_ops_sim = \<lparr>bo_GetNumberOfEntries = CosaDmlMSServ_GetNumberOfEntries_sim,
     bo_GetEntryByIndex = CosaDmlMSServ_GetEntryByIndex_sim, bo_SetValues = CosaDmlMSServ_SetValues_sim,
     bo_AddEntry = CosaDmlMSServ_AddEntry_sim, bo_DelEntry = CosaDmlMSServ_DelEntry_sim,
     bo_GetConf = CosaDmlMSServ_GetConf_sim, bo_SetConf = CosaDmlMSServ_SetConf_sim\<rparr>"

subsection \<open>ManagedServices.TrustedUser\<close>

definition MSTrustedUser_row :: "COSA_DML_MS_TRUSTEDUSER pc_row" where
  "MSTrustedUser_row = \<lparr>row_ins = mt_InstanceNumber, row_set_ins = (\<lambda>n e. e\<lparr>mt_InstanceNumber := n\<rparr>),
     row_set_alias = (\<lambda>a e. e\<lparr>mt_Alias := a\<rparr>)\<rparr>"

definition MSTrustedUser_InsGetIndex_sim :: "sim_board \<Rightarrow> ULONG \<Rightarrow> nat option" where
  "MSTrustedUser_InsGetIndex_sim b ins = sim_InsGetIndex MSTrustedUser_row (g_MSTrustedUsers b) ins"

definition CosaDmlMSTrustedUser_GetNumberOfEntries_sim :: "sim_board \<Rightarrow> ULONG \<times> sim_board" where
  "CosaDmlMSTrustedUser_GetNumberOfEntries_sim b = (sim_GetNumberOfEntries (g_MSTrustedUsers b), b)"

definition CosaDmlMSTrustedUser_GetEntryByIndex_sim :: "ULONG \<Rightarrow> COSA_DML_MS_TRUSTEDUSER \<Rightarrow> sim_board \<Rightarrow> ansc_status \<times> COSA_DML_MS_TRUSTEDUSER \<times> sim_board" where
  "CosaDmlMSTrustedUser_GetEntryByIndex_sim index e b = (case sim_GetEntryByIndex (g_MSTrustedUsers b) index e of (s, e') \<Rightarrow> (s, e', b))"

definition CosaDmlMSTrustedUser_SetValues_sim :: "ULONG \<Rightarrow> ULONG \<Rightarrow> string \<Rightarrow> sim_board \<Rightarrow> ansc_status \<times> sim_board" where
  "CosaDmlMSTrustedUser_SetValues_sim index ins alias b =
     (case sim_SetValues MSTrustedUser_row (g_MSTrustedUsers b) index ins alias of (s, t) \<Rightarrow> (s, b\<lparr>g_MSTrustedUsers := t\<rparr>))"

definition CosaDmlMSTrustedUser_AddEntry_sim :: "COSA_DML_MS_TRUSTEDUSER \<Rightarrow> sim_board \<Rightarrow> ansc_status \<times> sim_board" where
  "CosaDmlMSTrustedUser_AddEntry_sim e b = (case sim_AddEntry (g_MSTrustedUsers b) e of (s, t) \<Rightarrow> (s, b\<lparr>g_MSTrustedUsers := t\<rparr>))"

definition CosaDmlMSTrustedUser_DelEntry_sim :: "ULONG \<Rightarrow> sim_board \<Rightarrow> ansc_status \<times> sim_board" where
  "CosaDmlMSTrustedUser_DelEntry_sim ins b = (case sim_DelEntry MSTrustedUser_row (g_MSTrustedUsers b) ins of (s, t) \<Rightarrow> (s, b\<lparr>g_MSTrustedUsers := t\<rparr>))"

definition CosaDmlMSTrustedUser_GetConf_sim :: "ULONG \<Rightarrow> COSA_DML_MS_TRUSTEDUSER \<Rightarrow> sim_board \<Rightarrow> ansc_status \<times> COSA_DML_MS_TRUSTEDUSER \<times> sim_board" where
  "CosaDmlMSTrustedUser_GetConf_sim ins e b = (case sim_GetConf MSTrustedUser_row (g_MSTrustedUsers b) ins e of (s, e') \<Rightarrow> (s, e', b))"

definition CosaDmlMSTrustedUser_SetConf_sim :: "ULONG \<Rightarrow> COSA_DML_MS_TRUSTEDUSER \<Rightarrow> sim_board \<Rightarrow> ansc_status \<times> sim_board" where
  "CosaDmlMSTrustedUser_SetConf_sim ins e b = (case sim_SetConf MSTrustedUser_row (g_MSTrustedUsers b) ins e of (s, t) \<Rightarrow> (s, b\<lparr>g_MSTrustedUsers := t\<rparr>))"

definition MSTrustedUser_ops_sim :: "(COSA_DML_MS_TRUSTEDUSER, sim_board) pc_ops" where
  "MSTrustedUser_ops_sim = \<lparr>bo_GetNumberOfEntries = CosaDmlMSTrustedUser_GetNumberOfEntries_sim,
     bo_GetEntryByIndex = CosaDmlMSTrustedUser_GetEntryByIndex_sim, bo_SetValues = CosaDmlMSTrustedUser_SetValues_sim,
     bo_AddEntry = CosaDmlMSTrustedUser_AddEntry_sim, bo_DelEntry = CosaDmlMSTrustedUser_DelEntry_sim,
     bo_GetConf = CosaDmlMSTrustedUser_GetConf_sim, bo_SetConf = CosaDmlMSTrustedUser_SetConf_sim\<rparr>"

subsection \<open>ManagedDevices.Device\<close>

definition MDDev_row :: "COSA_DML_MD_DEV pc_row" where
  "MDDev_row = \<lparr>row_ins = de_InstanceNumber, row_set_ins = (\<lambda>n e. e\<lparr>de_InstanceNumber := n\<rparr>),
     row_set_alias = (\<lambda>a e. e\<lparr>de_Alias := a\<rparr>)\<rparr>"

definition MDDev_InsGetIndex_sim :: "sim_board \<Rightarrow> ULONG \<Rightarrow> nat option" where
  "MDDev_InsGetIndex_sim b ins = sim_InsGetIndex MDDev_row (g_MDDevs b) ins"

definition CosaDmlMDDev_GetNumberOfEntries_sim :: "sim_board \<Rightarrow> ULONG \<times> sim_board" where
  "CosaDmlMDDev_GetNumberOfEntries_sim b = (sim_GetNumberOfEntries (g_MDDevs b), b)"

definition CosaDmlMDDev_GetEntryByIndex_sim :: "ULONG \<Rightarrow> COSA_DML_MD_DEV \<Rightarrow> sim_board \<Rightarrow> ansc_status \<times> COSA_DML_MD_DEV \<times> sim_board" where
  "CosaDmlMDDev_GetEntryByIndex_sim index e b = (case sim_GetEntryByIndex (g_MDDevs b) index e of (s, e') \<Rightarrow> (s, e', b))"

definition CosaDmlMDDev_SetValues_sim :: "ULONG \<Rightarrow> ULONG \<Rightarrow> string \<Rightarrow> sim_board \<Rightarrow> ansc_status \<times> sim_board" where
  "CosaDmlMDDev_SetValues_sim index ins alias b =
     (case sim_SetValues MDDev_row (g_MDDevs b) index ins alias of (s, t) \<Rightarrow> (s, b\<lparr>g_MDDevs := t\<rparr>))"

definition CosaDmlMDDev_AddEntry_sim :: "COSA_DML_MD_DEV \<Rightarrow> sim_board \<Rightarrow> ansc_status \<times> sim_board" where
  "CosaDmlMDDev_AddEntry_sim e b = (case sim_AddEntry (g_MDDevs b) e of (s, t) \<Rightarrow> (s, b\<lparr>g_MDDevs := t\<rparr>))"

definition CosaDmlMDDev_DelEntry_sim :: "ULONG \<Rightarrow> sim_board \<Rightarrow> ansc_status \<times> sim_board" where
  "CosaDmlMDDev_DelEntry_sim ins b = (case sim_DelEntry MDDev_row (g_MDDevs b) ins of (s, t) \<Rightarrow> (s, b\<lparr>g_MDDevs := t\<rparr>))"

definition CosaDmlMDDev_GetConf_sim :: "ULONG \<Rightarrow> COSA_DML_MD_DEV \<Rightarrow> sim_board \<Rightarrow> ansc_status \<times> COSA_DML_MD_DEV \<times> sim_board" where
  "CosaDmlMDDev_GetConf_sim ins e b = (case sim_GetConf MDDev_row (g_MDDevs b) ins e of (s, e') \<Rightarrow> (s, e', b))"

definition CosaDmlMDDev_SetConf_sim :: "ULONG \<Rightarrow> COSA_DML_MD_DEV \<Rightarrow> sim_board \<Rightarrow> ansc_status \<times> sim_board" where
  "CosaDmlMDDev_SetConf_sim ins e b = (case sim_SetConf MDDev_row (g_MDDevs b) ins e of (s, t) \<Rightarrow> (s, b\<lparr>g_MDDevs := t\<rparr>))"

definition MDDev_ops_sim :: "(COSA_DML_MD_DEV, sim_board) pc_ops" where
  "MDDev_ops_sim = \<lparr>bo_GetNumberOfEntries = CosaDmlMDDev_GetNumberOfEntries_sim,
     bo_GetEntryByIndex = CosaDmlMDDev_GetEntryByIndex_sim, bo_SetValues = CosaDmlMDDev_SetValues_sim,
     bo_AddEntry = CosaDmlMDDev_AddEntry_sim, bo_DelEntry = CosaDmlMDDev_DelEntry_sim,
     bo_GetConf = CosaDmlMDDev_GetConf_sim, bo_SetConf = CosaDmlMDDev_SetConf_sim\<rparr>"

section \<open>An array with a count is a list\<close>

definition sim_view :: "'e sim_table \<Rightarrow> 'e list" where
  "sim_view t = take (sim_Nr t) (sim_rows t)"

definition sim_ok :: "'e sim_table \<Rightarrow> bool" where
  "sim_ok t \<longleftrightarrow> length (sim_rows t) = MAX_ENTRY \<and> sim_Nr t \<le> MAX_ENTRY"

definition row_ok :: "'e pc_row \<Rightarrow> bool" where
  "row_ok R \<longleftrightarrow> (\<forall>n e. row_ins R (row_set_ins R n e) = n) \<and> (\<forall>a e. row_ins R (row_set_alias R a e) = row_ins R e) \<and>
     (\<forall>e. row_set_ins R (row_ins R e) e = e)"

lemma length_view: "sim_ok t \<Longrightarrow> length (sim_view t) = sim_Nr t"
  by (simp add: sim_ok_def sim_view_def)

lemma find_map: "List.find P (map f xs) = map_option f (List.find (\<lambda>x. P (f x)) xs)"
  by (induction xs) auto

lemma find_row_at:
  "List.find (\<lambda>i. ins (es ! i) = n) [0..<length es] = None \<longleftrightarrow> row_at ins n es = None"
  "List.find (\<lambda>i. ins (es ! i) = n) [0..<length es] = Some i \<Longrightarrow>
     i < length es \<and> row_at ins n es = Some (es ! i) \<and> row_del ins n es = take i es @ drop (Suc i) es \<and>
     row_set ins n x es = es[i := x]"
proof -
  show "List.find (\<lambda>i. ins (es ! i) = n) [0..<length es] = None \<longleftrightarrow> row_at ins n es = None"
    by (auto simp: find_None_iff row_at_None in_set_conv_nth image_iff) (metis nth_mem)
  show "List.find (\<lambda>i. ins (es ! i) = n) [0..<length es] = Some i \<Longrightarrow>
     i < length es \<and> row_at ins n es = Some (es ! i) \<and> row_del ins n es = take i es @ drop (Suc i) es \<and>
     row_set ins n x es = es[i := x]"
  proof (induction es arbitrary: i)
    case Nil
    then show ?case by simp
  next
    case (Cons e es)
    have up: "[0..<Suc (length es)] = 0 # map Suc [0..<length es]" by (simp add: upt_conv_Cons map_Suc_upt del: upt_Suc)
    show ?case
    proof (cases "ins e = n")
      case True
      then show ?thesis using Cons.prems by (auto simp: up simp del: upt_Suc)
    next
      case False
      then obtain j where j: "i = Suc j" "List.find (\<lambda>i. ins (es ! i) = n) [0..<length es] = Some j"
        using Cons.prems by (auto simp: up find_map simp del: upt_Suc)
      then show ?thesis using Cons.IH [OF j(2)] False by simp
    qed
  qed
qed

lemma find_cong_set: "(\<And>x. x \<in> set xs \<Longrightarrow> P x = Q x) \<Longrightarrow> List.find P xs = List.find Q xs"
  by (induction xs) auto

lemma InsGetIndex_view:
  "sim_ok t \<Longrightarrow> sim_InsGetIndex R t n = List.find (\<lambda>i. row_ins R (sim_view t ! i) = n) [0..<length (sim_view t)]"
  unfolding sim_InsGetIndex_def length_view by (rule find_cong_set) (simp add: sim_view_def)

lemma index_less: "sim_ok t \<Longrightarrow> (i :: ULONG) \<ge> of_nat (sim_Nr t) \<longleftrightarrow> \<not> unat i < sim_Nr t"
  by (simp add: sim_ok_def MAX_ENTRY_def word_le_nat_alt not_less unat_of_nat)

lemma sim_index:
  assumes "sim_ok t"
  shows "sim_InsGetIndex R t n = None \<Longrightarrow> row_at (row_ins R) n (sim_view t) = None"
    "sim_InsGetIndex R t n = Some i \<Longrightarrow> i < sim_Nr t \<and> row_at (row_ins R) n (sim_view t) = Some (sim_rows t ! i) \<and>
      row_del (row_ins R) n (sim_view t) = take i (sim_view t) @ drop (Suc i) (sim_view t) \<and>
      row_set (row_ins R) n x (sim_view t) = (sim_view t)[i := x]"
proof -
  note v = InsGetIndex_view [OF assms, of R n]
  show "row_at (row_ins R) n (sim_view t) = None" if "sim_InsGetIndex R t n = None"
    using that find_row_at(1) [of "row_ins R" "sim_view t" n] v by simp
  show "i < sim_Nr t \<and> row_at (row_ins R) n (sim_view t) = Some (sim_rows t ! i) \<and>
      row_del (row_ins R) n (sim_view t) = take i (sim_view t) @ drop (Suc i) (sim_view t) \<and>
      row_set (row_ins R) n x (sim_view t) = (sim_view t)[i := x]" if "sim_InsGetIndex R t n = Some i"
    using find_row_at(2) [of "row_ins R" "sim_view t" n i x] that v length_view [OF assms]
    by (auto simp: sim_view_def)
qed

lemma sim_number: "sim_ok t \<Longrightarrow> unat (sim_GetNumberOfEntries t) = length (sim_view t)"
  by (simp add: length_view) (simp add: sim_GetNumberOfEntries_def sim_ok_def MAX_ENTRY_def unat_of_nat)

lemma sim_get_entry:
  assumes "sim_ok t" "sim_GetEntryByIndex t i e = (s, e')"
  shows "(ansc_ok s \<longleftrightarrow> unat i < length (sim_view t)) \<and> (ansc_ok s \<longrightarrow> e' = sim_view t ! unat i)"
  using assms by (auto simp: sim_GetEntryByIndex_def index_less length_view sim_view_def sim_ok_def split: if_split_asm)

lemma sim_set_values:
  assumes "sim_ok t" "sim_SetValues R t i n a = (s, t')"
  shows "sim_ok t' \<and> (ansc_ok s \<longleftrightarrow> unat i < length (sim_view t)) \<and>
    sim_view t' = (if ansc_ok s then (sim_view t)[unat i := row_set_alias R (snprintf PC_ALIAS a) (row_set_ins R n (sim_view t ! unat i))]
                   else sim_view t)"
  using assms
  by (auto simp: sim_SetValues_def index_less length_view sim_view_def sim_ok_def take_update_swap split: if_split_asm)

lemma sim_add:
  assumes "sim_ok t" "sim_AddEntry t e = (s, t')"
  shows "sim_ok t' \<and> sim_view t' = (if ansc_ok s then sim_view t @ [e] else sim_view t)"
  using assms
  by (auto simp: sim_AddEntry_def sim_view_def sim_ok_def take_Suc_conv_app_nth split: if_split_asm)

lemma memmove_view:
  assumes "i < n" "n \<le> length a"
  shows "length (memmove a i (i + 1) (n - i - 1)) = length a"
    "take (n - 1) (memmove a i (i + 1) (n - i - 1)) = take i (take n a) @ drop (Suc i) (take n a)"
proof -
  have l: "length (take i a) = i" "length (take (n - i - 1) (drop (i + 1) a)) = n - i - 1" using assms by auto
  show "length (memmove a i (i + 1) (n - i - 1)) = length a" using assms by (simp add: memmove_def)
  have "take (n - 1) (memmove a i (i + 1) (n - i - 1)) = take i a @ take (n - i - 1) (drop (i + 1) a)"
    using assms l by (simp add: memmove_def)
  also have "take (n - i - 1) (drop (i + 1) a) = drop (Suc i) (take n a)"
    by (simp add: drop_take)
  finally show "take (n - 1) (memmove a i (i + 1) (n - i - 1)) = take i (take n a) @ drop (Suc i) (take n a)"
    using assms by (simp add: min_def)
qed

lemma sim_del:
  assumes "sim_ok t" "sim_DelEntry R t n = (s, t')"
  shows "sim_ok t' \<and> (ansc_ok s \<longleftrightarrow> n \<in> row_ins R ` set (sim_view t)) \<and> sim_view t' = row_del (row_ins R) n (sim_view t)"
proof (cases "sim_InsGetIndex R t n")
  case None
  then have n: "n \<notin> row_ins R ` set (sim_view t)" using sim_index(1) [OF assms(1) None] by (simp add: row_at_None)
  then show ?thesis using assms None row_absent [of n "row_ins R" "sim_view t"] by (auto simp: sim_DelEntry_def)
next
  case (Some i)
  note x = sim_index(2) [OF assms(1) Some]
  have "n \<in> row_ins R ` set (sim_view t)" using x row_at_Some by fastforce
  moreover have "sim_rows t' = memmove (sim_rows t) i (i + 1) (sim_Nr t - i - 1)" "sim_Nr t' = sim_Nr t - 1" "ansc_ok s"
    using assms(2) Some by (auto simp: sim_DelEntry_def)
  ultimately show ?thesis
    using memmove_view [of i "sim_Nr t" "sim_rows t"] x assms(1) by (auto simp: sim_ok_def sim_view_def)
qed

lemma sim_get_conf:
  assumes "sim_ok t" "row_ok R" "sim_GetConf R t n e = (s, e')"
  shows "case row_at (row_ins R) n (sim_view t) of Some x \<Rightarrow> ansc_ok s \<and> e' = x | None \<Rightarrow> \<not> ansc_ok s \<and> e' = e"
proof (cases "sim_InsGetIndex R t n")
  case None
  then show ?thesis using sim_index(1) [OF assms(1) None] assms(3) by (simp add: sim_GetConf_def)
next
  case (Some i)
  have r: "row_at (row_ins R) n (sim_view t) = Some (sim_rows t ! i)" using sim_index(2) [OF assms(1) Some] by simp
  then have "row_ins R (sim_rows t ! i) = n" using row_at_Some by fastforce
  then have "row_set_ins R n (sim_rows t ! i) = sim_rows t ! i" using assms(2) by (auto simp: row_ok_def)
  then show ?thesis using r Some assms(3) by (simp add: sim_GetConf_def)
qed

lemma sim_set_conf:
  assumes "sim_ok t" "row_ok R" "row_ins R e = n" "sim_SetConf R t n e = (s, t')"
  shows "sim_ok t' \<and> (ansc_ok s \<longleftrightarrow> n \<in> row_ins R ` set (sim_view t)) \<and> sim_view t' = row_set (row_ins R) n e (sim_view t)"
proof (cases "sim_InsGetIndex R t n")
  case None
  then have n: "n \<notin> row_ins R ` set (sim_view t)" using sim_index(1) [OF assms(1) None] by (simp add: row_at_None)
  then show ?thesis using assms None row_absent [of n "row_ins R" "sim_view t"] by (auto simp: sim_SetConf_def)
next
  case (Some i)
  note x = sim_index(2) [OF assms(1) Some]
  have "n \<in> row_ins R ` set (sim_view t)" using x row_at_Some by fastforce
  moreover have "row_set_ins R n e = e" using assms(2,3) by (auto simp: row_ok_def)
  ultimately show ?thesis using assms x Some
    by (auto simp: sim_SetConf_def sim_view_def sim_ok_def take_update_swap)
qed

section \<open>The contract holds\<close>

lemma BlkURL_row_ok: "row_ok BlkURL_row" "row_ins BlkURL_row = bu_InstanceNumber"
  by (simp_all add: row_ok_def BlkURL_row_def)

lemma TrustedUser_row_ok: "row_ok TrustedUser_row" "row_ins TrustedUser_row = tu_InstanceNumber"
  by (simp_all add: row_ok_def TrustedUser_row_def)

lemma MSServ_row_ok: "row_ok MSServ_row" "row_ins MSServ_row = ms_InstanceNumber"
  by (simp_all add: row_ok_def MSServ_row_def)

lemma MSTrustedUser_row_ok: "row_ok MSTrustedUser_row" "row_ins MSTrustedUser_row = mt_InstanceNumber"
  by (simp_all add: row_ok_def MSTrustedUser_row_def)

lemma MDDev_row_ok: "row_ok MDDev_row" "row_ins MDDev_row = de_InstanceNumber"
  by (simp_all add: row_ok_def MDDev_row_def)

lemmas BlkURL_sim_defs = BlkURL_ops_sim_def CosaDmlBlkURL_GetNumberOfEntries_sim_def CosaDmlBlkURL_GetEntryByIndex_sim_def
  CosaDmlBlkURL_SetValues_sim_def CosaDmlBlkURL_AddEntry_sim_def CosaDmlBlkURL_DelEntry_sim_def CosaDmlBlkURL_GetConf_sim_def
  CosaDmlBlkURL_SetConf_sim_def

lemmas TrustedUser_sim_defs = TrustedUser_ops_sim_def CosaDmlTrustedUser_GetNumberOfEntries_sim_def CosaDmlTrustedUser_GetEntryByIndex_sim_def
  CosaDmlTrustedUser_SetValues_sim_def CosaDmlTrustedUser_AddEntry_sim_def CosaDmlTrustedUser_DelEntry_sim_def CosaDmlTrustedUser_GetConf_sim_def
  CosaDmlTrustedUser_SetConf_sim_def

lemmas MSServ_sim_defs = MSServ_ops_sim_def CosaDmlMSServ_GetNumberOfEntries_sim_def CosaDmlMSServ_GetEntryByIndex_sim_def
  CosaDmlMSServ_SetValues_sim_def CosaDmlMSServ_AddEntry_sim_def CosaDmlMSServ_DelEntry_sim_def CosaDmlMSServ_GetConf_sim_def
  CosaDmlMSServ_SetConf_sim_def

lemmas MSTrustedUser_sim_defs = MSTrustedUser_ops_sim_def CosaDmlMSTrustedUser_GetNumberOfEntries_sim_def CosaDmlMSTrustedUser_GetEntryByIndex_sim_def
  CosaDmlMSTrustedUser_SetValues_sim_def CosaDmlMSTrustedUser_AddEntry_sim_def CosaDmlMSTrustedUser_DelEntry_sim_def CosaDmlMSTrustedUser_GetConf_sim_def
  CosaDmlMSTrustedUser_SetConf_sim_def

lemmas MDDev_sim_defs = MDDev_ops_sim_def CosaDmlMDDev_GetNumberOfEntries_sim_def CosaDmlMDDev_GetEntryByIndex_sim_def
  CosaDmlMDDev_SetValues_sim_def CosaDmlMDDev_AddEntry_sim_def CosaDmlMDDev_DelEntry_sim_def CosaDmlMDDev_GetConf_sim_def
  CosaDmlMDDev_SetConf_sim_def

lemmas sim_laws = sim_number sim_get_entry sim_set_values sim_add sim_del sim_get_conf sim_set_conf

interpretation blk_sim: pc_board BlkURL_ops_sim bu_InstanceNumber
  "\<lambda>n a e. row_set_alias BlkURL_row (snprintf PC_ALIAS a) (row_set_ins BlkURL_row n e)" id id
  "\<lambda>b. sim_view (g_BlockedURLs b)" "\<lambda>b. sim_ok (g_BlockedURLs b)" "\<lambda>b. sim_ok (g_BlockedURLs b)"
proof (unfold_locales, goal_cases)
  case (2 n a e)
  then show ?case by (simp add: BlkURL_row_def)
next
  case (4 b b' n)
  then show ?case using sim_number by (auto simp: BlkURL_sim_defs)
next
  case (5 b i e s e' b')
  then show ?case using sim_get_entry [of "g_BlockedURLs b" i e] by (auto simp: BlkURL_sim_defs split: prod.split_asm)
next
  case (6 b i n a s b')
  then show ?case using sim_set_values [of "g_BlockedURLs b" BlkURL_row i n a] by (auto simp: BlkURL_sim_defs split: prod.split_asm)
next
  case (7 b e s b')
  then show ?case using sim_add [of "g_BlockedURLs b" e] by (auto simp: BlkURL_sim_defs split: prod.split_asm)
next
  case (8 b n s b')
  then show ?case using sim_del [of "g_BlockedURLs b" BlkURL_row n] by (auto simp: BlkURL_sim_defs BlkURL_row_ok split: prod.split_asm option.split option.split_asm)
next
  case (9 b n e s e' b')
  then show ?case using sim_get_conf [of "g_BlockedURLs b" BlkURL_row n e]
    by (auto simp: BlkURL_sim_defs BlkURL_row_ok split: prod.split_asm option.split option.split_asm)
next
  case (10 b e n s b')
  then show ?case using sim_set_conf [of "g_BlockedURLs b" BlkURL_row e n] by (auto simp: BlkURL_sim_defs BlkURL_row_ok split: prod.split_asm option.split option.split_asm)
qed simp_all

interpretation tuser_sim: pc_board TrustedUser_ops_sim tu_InstanceNumber
  "\<lambda>n a e. row_set_alias TrustedUser_row (snprintf PC_ALIAS a) (row_set_ins TrustedUser_row n e)" id id
  "\<lambda>b. sim_view (g_TrustedUsers b)" "\<lambda>b. sim_ok (g_TrustedUsers b)" "\<lambda>b. sim_ok (g_TrustedUsers b)"
proof (unfold_locales, goal_cases)
  case (2 n a e)
  then show ?case by (simp add: TrustedUser_row_def)
next
  case (4 b b' n)
  then show ?case using sim_number by (auto simp: TrustedUser_sim_defs)
next
  case (5 b i e s e' b')
  then show ?case using sim_get_entry [of "g_TrustedUsers b" i e] by (auto simp: TrustedUser_sim_defs split: prod.split_asm)
next
  case (6 b i n a s b')
  then show ?case using sim_set_values [of "g_TrustedUsers b" TrustedUser_row i n a] by (auto simp: TrustedUser_sim_defs split: prod.split_asm)
next
  case (7 b e s b')
  then show ?case using sim_add [of "g_TrustedUsers b" e] by (auto simp: TrustedUser_sim_defs split: prod.split_asm)
next
  case (8 b n s b')
  then show ?case using sim_del [of "g_TrustedUsers b" TrustedUser_row n] by (auto simp: TrustedUser_sim_defs TrustedUser_row_ok split: prod.split_asm option.split option.split_asm)
next
  case (9 b n e s e' b')
  then show ?case using sim_get_conf [of "g_TrustedUsers b" TrustedUser_row n e]
    by (auto simp: TrustedUser_sim_defs TrustedUser_row_ok split: prod.split_asm option.split option.split_asm)
next
  case (10 b e n s b')
  then show ?case using sim_set_conf [of "g_TrustedUsers b" TrustedUser_row e n] by (auto simp: TrustedUser_sim_defs TrustedUser_row_ok split: prod.split_asm option.split option.split_asm)
qed simp_all

interpretation serv_sim: pc_board MSServ_ops_sim ms_InstanceNumber
  "\<lambda>n a e. row_set_alias MSServ_row (snprintf PC_ALIAS a) (row_set_ins MSServ_row n e)" id id
  "\<lambda>b. sim_view (g_MSServs b)" "\<lambda>b. sim_ok (g_MSServs b)" "\<lambda>b. sim_ok (g_MSServs b)"
proof (unfold_locales, goal_cases)
  case (2 n a e)
  then show ?case by (simp add: MSServ_row_def)
next
  case (4 b b' n)
  then show ?case using sim_number by (auto simp: MSServ_sim_defs)
next
  case (5 b i e s e' b')
  then show ?case using sim_get_entry [of "g_MSServs b" i e] by (auto simp: MSServ_sim_defs split: prod.split_asm)
next
  case (6 b i n a s b')
  then show ?case using sim_set_values [of "g_MSServs b" MSServ_row i n a] by (auto simp: MSServ_sim_defs split: prod.split_asm)
next
  case (7 b e s b')
  then show ?case using sim_add [of "g_MSServs b" e] by (auto simp: MSServ_sim_defs split: prod.split_asm)
next
  case (8 b n s b')
  then show ?case using sim_del [of "g_MSServs b" MSServ_row n] by (auto simp: MSServ_sim_defs MSServ_row_ok split: prod.split_asm option.split option.split_asm)
next
  case (9 b n e s e' b')
  then show ?case using sim_get_conf [of "g_MSServs b" MSServ_row n e]
    by (auto simp: MSServ_sim_defs MSServ_row_ok split: prod.split_asm option.split option.split_asm)
next
  case (10 b e n s b')
  then show ?case using sim_set_conf [of "g_MSServs b" MSServ_row e n] by (auto simp: MSServ_sim_defs MSServ_row_ok split: prod.split_asm option.split option.split_asm)
qed simp_all

interpretation stuser_sim: pc_board MSTrustedUser_ops_sim mt_InstanceNumber
  "\<lambda>n a e. row_set_alias MSTrustedUser_row (snprintf PC_ALIAS a) (row_set_ins MSTrustedUser_row n e)" id id
  "\<lambda>b. sim_view (g_MSTrustedUsers b)" "\<lambda>b. sim_ok (g_MSTrustedUsers b)" "\<lambda>b. sim_ok (g_MSTrustedUsers b)"
proof (unfold_locales, goal_cases)
  case (2 n a e)
  then show ?case by (simp add: MSTrustedUser_row_def)
next
  case (4 b b' n)
  then show ?case using sim_number by (auto simp: MSTrustedUser_sim_defs)
next
  case (5 b i e s e' b')
  then show ?case using sim_get_entry [of "g_MSTrustedUsers b" i e] by (auto simp: MSTrustedUser_sim_defs split: prod.split_asm)
next
  case (6 b i n a s b')
  then show ?case using sim_set_values [of "g_MSTrustedUsers b" MSTrustedUser_row i n a] by (auto simp: MSTrustedUser_sim_defs split: prod.split_asm)
next
  case (7 b e s b')
  then show ?case using sim_add [of "g_MSTrustedUsers b" e] by (auto simp: MSTrustedUser_sim_defs split: prod.split_asm)
next
  case (8 b n s b')
  then show ?case using sim_del [of "g_MSTrustedUsers b" MSTrustedUser_row n] by (auto simp: MSTrustedUser_sim_defs MSTrustedUser_row_ok split: prod.split_asm option.split option.split_asm)
next
  case (9 b n e s e' b')
  then show ?case using sim_get_conf [of "g_MSTrustedUsers b" MSTrustedUser_row n e]
    by (auto simp: MSTrustedUser_sim_defs MSTrustedUser_row_ok split: prod.split_asm option.split option.split_asm)
next
  case (10 b e n s b')
  then show ?case using sim_set_conf [of "g_MSTrustedUsers b" MSTrustedUser_row e n] by (auto simp: MSTrustedUser_sim_defs MSTrustedUser_row_ok split: prod.split_asm option.split option.split_asm)
qed simp_all

interpretation dev_sim: pc_board MDDev_ops_sim de_InstanceNumber
  "\<lambda>n a e. row_set_alias MDDev_row (snprintf PC_ALIAS a) (row_set_ins MDDev_row n e)" id id
  "\<lambda>b. sim_view (g_MDDevs b)" "\<lambda>b. sim_ok (g_MDDevs b)" "\<lambda>b. sim_ok (g_MDDevs b)"
proof (unfold_locales, goal_cases)
  case (2 n a e)
  then show ?case by (simp add: MDDev_row_def)
next
  case (4 b b' n)
  then show ?case using sim_number by (auto simp: MDDev_sim_defs)
next
  case (5 b i e s e' b')
  then show ?case using sim_get_entry [of "g_MDDevs b" i e] by (auto simp: MDDev_sim_defs split: prod.split_asm)
next
  case (6 b i n a s b')
  then show ?case using sim_set_values [of "g_MDDevs b" MDDev_row i n a] by (auto simp: MDDev_sim_defs split: prod.split_asm)
next
  case (7 b e s b')
  then show ?case using sim_add [of "g_MDDevs b" e] by (auto simp: MDDev_sim_defs split: prod.split_asm)
next
  case (8 b n s b')
  then show ?case using sim_del [of "g_MDDevs b" MDDev_row n] by (auto simp: MDDev_sim_defs MDDev_row_ok split: prod.split_asm option.split option.split_asm)
next
  case (9 b n e s e' b')
  then show ?case using sim_get_conf [of "g_MDDevs b" MDDev_row n e]
    by (auto simp: MDDev_sim_defs MDDev_row_ok split: prod.split_asm option.split option.split_asm)
next
  case (10 b e n s b')
  then show ?case using sim_set_conf [of "g_MDDevs b" MDDev_row e n] by (auto simp: MDDev_sim_defs MDDev_row_ok split: prod.split_asm option.split option.split_asm)
qed simp_all

end
