(* ===== verification/Pc_Table_Props.thy ===== *)
theory Pc_Table_Props
  imports Pc_Handlers Pc_Sim
begin

text \<open>
  The tables of parental control as a state machine over a board layer that keeps the contract \<open>pc_board\<close>: the invariant that
  ties the list of the middle layer to the rows of the board, and what committing, rolling back and deleting do to both.
\<close>

section \<open>The invariant\<close>

definition kind_ok :: "'e pc_kind \<Rightarrow> bool" where
  "kind_ok K \<longleftrightarrow> (\<forall>n e. k_ins K (k_set_ins K n e) = n) \<and> (\<forall>a e. k_ins K (k_set_alias K a e) = k_ins K e) \<and>
     (\<forall>a e. k_alias K (k_set_alias K a e) = a) \<and> (\<forall>n e. k_alias K (k_set_ins K n e) = k_alias K e) \<and>
     (\<forall>n. n + 1 \<noteq> 0 \<longrightarrow> k_take K n = (n, n + 1))"

lemma kinds_ok:
  "kind_ok BlkURL_kind" "kind_ok TrustedUser_kind" "kind_ok MSServ_kind" "kind_ok MSTrustedUser_kind" "kind_ok MDDev_kind"
  by (simp_all add: kind_ok_def BlkURL_kind_def TrustedUser_kind_def MSServ_kind_def MSTrustedUser_kind_def MDDev_kind_def
      pc_take_def pc_take_dev_def)

text \<open>The list is well formed; the numbers of the rows of the board are those of the links that are not new, each once; all
  numbers are below the counter.\<close>

definition pc_inv :: "('e \<Rightarrow> ULONG) \<Rightarrow> 'e list \<Rightarrow> 'e pc_table \<Rightarrow> nat \<Rightarrow> bool" where
  "pc_inv ins rows t k \<longleftrightarrow> links_ok (\<lambda>ob. ins (ob_entry ob)) k (tb_List t) \<and> distinct (map ins rows) \<and>
     ins ` set rows = lnk_InstanceNumber ` {l \<in> set (tb_List t). \<not> lnk_bNew l} \<and>
     (\<forall>l \<in> set (tb_List t). lnk_InstanceNumber l < tb_NextInsNum t) \<and> tb_NextInsNum t \<noteq> 0"

inductive pc_step :: "('s, 'c, 'r) pc_libs \<Rightarrow> 'e pc_kind \<Rightarrow> ('e, 'b) pc_ops \<Rightarrow> (nat \<Rightarrow> 'e) \<Rightarrow>
    'e pc_table \<times> ('b, 'r) pc_env \<Rightarrow> 'e pc_table \<times> ('b, 'r) pc_env \<Rightarrow> bool" for L K B J where
  add: "pc_AddEntry L K J t v = (h, t', v') \<Longrightarrow> tb_NextInsNum t + 1 \<noteq> 0 \<Longrightarrow> pc_step L K B J (t, v) (t', v')"
| del: "l \<in> set (tb_List t) \<Longrightarrow> pc_DelEntry L B t v l = (r, t', v') \<Longrightarrow> pc_step L K B J (t, v) (t', v')"
| commit: "l \<in> set (tb_List t) \<Longrightarrow> pc_Commit L K B t v l = (r, t', v') \<Longrightarrow> pc_step L K B J (t, v) (t', v')"
| rollback: "l \<in> set (tb_List t) \<Longrightarrow> pc_Rollback K B t v l = (r, t', v') \<Longrightarrow> pc_step L K B J (t, v) (t', v')"
| set_param: "l \<in> set (tb_List t) \<Longrightarrow> k_ins K e = k_ins K (ob_entry (lnk_hContext l)) \<Longrightarrow>
    pc_step L K B J (t, v) (pc_put t (pc_set_entry l e), v)"

inductive_cases pc_stepE: "pc_step L K B J (t, v) (t', v')"

lemma pc_set_entry_simps [simp]:
  "lnk_addr (pc_set_entry l e) = lnk_addr l" "lnk_InstanceNumber (pc_set_entry l e) = lnk_InstanceNumber l"
  "lnk_bNew (pc_set_entry l e) = lnk_bNew l" "ob_entry (lnk_hContext (pc_set_entry l e)) = e"
  by (simp_all add: pc_set_entry_def)

lemma pc_link_simps [simp]:
  "lnk_addr (pc_link a n b ob) = a" "lnk_InstanceNumber (pc_link a n b ob) = n" "lnk_bNew (pc_link a n b ob) = b"
  "lnk_hContext (pc_link a n b ob) = ob"
  by (simp_all add: pc_link_def)

lemma pc_put_simps [simp]:
  "tb_List (pc_put t l) = put_link (tb_List t) l" "tb_NextInsNum (pc_put t l) = tb_NextInsNum t"
  "tb_hIrepFolder (pc_put t l) = tb_hIrepFolder t"
  by (simp_all add: pc_put_def)

section \<open>Facts of the invariant\<close>

lemma inv_num: "pc_inv ins rows t k \<Longrightarrow> l \<in> set (tb_List t) \<Longrightarrow> ins (ob_entry (lnk_hContext l)) = lnk_InstanceNumber l"
  by (simp add: pc_inv_def links_ok_def)

lemma inv_inj:
  assumes "pc_inv ins rows t k" "x \<in> set (tb_List t)" "y \<in> set (tb_List t)"
    "lnk_InstanceNumber x = lnk_InstanceNumber y \<or> lnk_addr x = lnk_addr y"
  shows "x = y"
  using assms by (auto simp: pc_inv_def links_ok_def table_wf_def distinct_map dest: inj_onD)

lemma inv_new_iff:
  assumes "pc_inv ins rows t k" "l \<in> set (tb_List t)"
  shows "lnk_InstanceNumber l \<in> ins ` set rows \<longleftrightarrow> \<not> lnk_bNew l"
proof -
  have "lnk_InstanceNumber l \<in> lnk_InstanceNumber ` {x \<in> set (tb_List t). \<not> lnk_bNew x} \<longleftrightarrow> \<not> lnk_bNew l"
    using inv_inj [OF assms(1)] assms(2) by auto
  then show ?thesis using assms(1) by (simp add: pc_inv_def)
qed

text \<open>Replacing a link by one with the same number and mark keeps the numbers on both sides.\<close>

lemma inv_put:
  assumes i: "pc_inv ins rows t k" and l: "l \<in> set (tb_List t)"
    and same: "lnk_addr l' = lnk_addr l" "lnk_InstanceNumber l' = lnk_InstanceNumber l"
      "ins (ob_entry (lnk_hContext l')) = lnk_InstanceNumber l"
    and rows: "distinct (map ins rows')" "ins ` set rows' = (if lnk_bNew l' then ins ` set rows - {lnk_InstanceNumber l}
        else insert (lnk_InstanceNumber l) (ins ` set rows))"
  shows "pc_inv ins rows' (pc_put t l') k"
proof -
  note lo = conjunct1 [OF i [unfolded pc_inv_def]]
  have "link_at (tb_List t) (lnk_addr l') = Some l" using links_ok_link_at [OF lo l] same by simp
  then have links: "links_ok (\<lambda>ob. ins (ob_entry ob)) k (put_link (tb_List t) l')"
    using links_ok_put [OF lo] same inv_num [OF i l] by simp
  have set: "set (put_link (tb_List t) l') = insert l' {x \<in> set (tb_List t). lnk_addr x \<noteq> lnk_addr l}"
    using set_put_link [of "lnk_addr l" "tb_List t" l'] l same by auto
  have others: "{x \<in> set (tb_List t). lnk_addr x \<noteq> lnk_addr l} = {x \<in> set (tb_List t). lnk_InstanceNumber x \<noteq> lnk_InstanceNumber l}"
    using inv_inj [OF i] l by blast
  have "lnk_InstanceNumber ` {x \<in> set (put_link (tb_List t) l'). \<not> lnk_bNew x} =
      (if lnk_bNew l' then {} else {lnk_InstanceNumber l}) \<union> (ins ` set rows - {lnk_InstanceNumber l})"
  proof -
    have "ins ` set rows - {lnk_InstanceNumber l} =
        lnk_InstanceNumber ` {x \<in> set (tb_List t). \<not> lnk_bNew x \<and> lnk_InstanceNumber x \<noteq> lnk_InstanceNumber l}"
      using i by (auto simp: pc_inv_def)
    moreover have "{x \<in> set (put_link (tb_List t) l'). \<not> lnk_bNew x} =
        (if lnk_bNew l' then {} else {l'}) \<union> {x \<in> set (tb_List t). \<not> lnk_bNew x \<and> lnk_InstanceNumber x \<noteq> lnk_InstanceNumber l}"
      unfolding set others by auto
    ultimately show ?thesis using same by (simp add: image_Un)
  qed
  then have "ins ` set rows' = lnk_InstanceNumber ` {x \<in> set (put_link (tb_List t) l'). \<not> lnk_bNew x}"
    using rows(2) by auto
  moreover have "\<forall>x \<in> set (put_link (tb_List t) l'). lnk_InstanceNumber x < tb_NextInsNum t"
    using i l same by (auto simp: set pc_inv_def)
  ultimately show ?thesis using links rows(1) i by (simp add: pc_inv_def)
qed

lemma below_succ: "(x :: ULONG) \<le> n \<Longrightarrow> n + 1 \<noteq> 0 \<Longrightarrow> x < n + 1"
  using unatSuc [of n] by (simp add: word_less_nat_alt word_le_nat_alt add.commute)

lemma inv_push:
  assumes i: "pc_inv ins rows t k" and n: "n = tb_NextInsNum t" "n + 1 \<noteq> 0" "tb_NextInsNum t' = n + 1"
    and l: "tb_List t' = CosaSListPushEntryByInsNum (tb_List t) (pc_link a n True ob)" "k \<le> a" "a < k'" "ins (ob_entry ob) = n"
  shows "pc_inv ins rows t' k'"
proof -
  note lo = conjunct1 [OF i [unfolded pc_inv_def]]
  have below: "\<forall>x \<in> set (tb_List t). lnk_InstanceNumber x < n" "n \<noteq> 0" using i n by (auto simp: pc_inv_def)
  then have fresh: "CosaSListGetEntryByInsNum (tb_List t) n = None" using cosa.get_None [of "tb_List t" n] by auto
  have "links_ok (\<lambda>ob. ins (ob_entry ob)) k' (tb_List t')"
    unfolding l(1) using l below fresh by (intro links_ok_push_fresh [OF lo]) auto
  moreover have "x < n + 1" if "x \<le> n" for x using that n(2) by (rule below_succ)
  moreover have "{x \<in> set (tb_List t'). \<not> lnk_bNew x} = {x \<in> set (tb_List t). \<not> lnk_bNew x}"
    unfolding l(1) by auto
  ultimately show ?thesis using i below n by (auto simp: pc_inv_def l(1) less_imp_le)
qed

lemma inv_mono: "pc_inv ins rows t k \<Longrightarrow> k \<le> k' \<Longrightarrow> pc_inv ins rows t k'"
  using links_ok_mono unfolding pc_inv_def by blast

lemma inv_next:
  assumes "pc_inv ins rows t k" "tb_NextInsNum t + 1 \<noteq> 0"
  shows "pc_inv ins rows (t\<lparr>tb_NextInsNum := tb_NextInsNum t + 1\<rparr>) k"
  using assms by (auto simp: pc_inv_def intro!: below_succ [OF less_imp_le])

lemma pc_alloc_env:
  assumes "pc_alloc L v = (r, v')"
  shows "v' = v\<lparr>en_allocs := Suc (en_allocs v)\<rparr>" "r = Some a \<Longrightarrow> a = en_allocs v"
  using assms by (auto simp: pc_alloc_def split: if_split_asm)

lemma pc_AddInfo_env:
  "pc_AddInfo L K t e v = (s, fo, v') \<Longrightarrow> en_board v' = en_board v \<and> en_allocs v \<le> en_allocs v'"
  by (auto simp: pc_AddInfo_def Let_def pc_alloc_def split: option.split_asm prod.split_asm if_split_asm)

lemma pc_DelInfo_env: "en_board (snd (pc_DelInfo L ob v)) = en_board v \<and> en_allocs (snd (pc_DelInfo L ob v)) = en_allocs v"
  by (simp add: pc_DelInfo_def Let_def split: option.split)

section \<open>Every operation keeps the invariant\<close>

lemma pc_AddEntry_cases:
  assumes "pc_AddEntry L K J t v = (h, t', v')" "kind_ok K" "tb_NextInsNum t + 1 \<noteq> 0"
  shows "en_board v' = en_board v \<and> en_allocs v \<le> en_allocs v' \<and>
    (t' = t \<or> t' = t\<lparr>tb_NextInsNum := tb_NextInsNum t + 1\<rparr> \<or>
     (\<exists>ob. k_ins K (ob_entry ob) = tb_NextInsNum t \<and> en_allocs v < en_allocs v' \<and> h = Some (en_allocs v, tb_NextInsNum t) \<and>
        t' = t\<lparr>tb_NextInsNum := tb_NextInsNum t + 1,
               tb_List := CosaSListPushEntryByInsNum (tb_List t) (pc_link (en_allocs v) (tb_NextInsNum t) True ob)\<rparr>))"
proof -
  obtain r1 v1 where a1: "pc_alloc L v = (r1, v1)" by force
  obtain r2 v2 where a2: "pc_alloc L v1 = (r2, v2)" by force
  have v: "en_board v1 = en_board v" "en_allocs v1 = Suc (en_allocs v)" "en_board v2 = en_board v"
    "en_allocs v2 = Suc (Suc (en_allocs v))"
    using pc_alloc_env(1) [OF a1] pc_alloc_env(1) [OF a2] by simp_all
  have take: "k_take K (tb_NextInsNum t) = (tb_NextInsNum t, tb_NextInsNum t + 1)" using assms(2,3) by (simp add: kind_ok_def)
  show ?thesis
  proof (cases "r1 = None \<or> r2 = None")
    case True
    then show ?thesis using assms(1) v by (auto simp: pc_AddEntry_def a1 a2 split: option.split_asm)
  next
    case False
    then obtain a b where ab: "r1 = Some a" "r2 = Some b" by auto
    have aa: "a = en_allocs v" using pc_alloc_env(2) [OF a1 ab(1)] .
    show ?thesis
    proof (cases "sprintf_s PC_ALIAS (k_prefix K @ dec_int (sint (tb_NextInsNum t)))")
      case None
      then have "t' = t\<lparr>tb_NextInsNum := tb_NextInsNum t + 1\<rparr>" "v' = v2"
        using assms(1) by (simp_all add: pc_AddEntry_def a1 a2 ab take Let_def)
      then show ?thesis using v by simp
    next
      case (Some al)
      let ?e = "k_set_alias K al (k_set_ins K (tb_NextInsNum t) (J b))"
      obtain s fo v3 where ai: "pc_AddInfo L K (t\<lparr>tb_NextInsNum := tb_NextInsNum t + 1\<rparr>) ?e v2 = (s, fo, v3)"
        by (metis prod_cases3)
      note e3 = pc_AddInfo_env [OF ai]
      have e: "k_ins K ?e = tb_NextInsNum t" using assms(2) by (simp add: kind_ok_def)
      define ob where "ob = (case fo of
          Some (p, f) \<Rightarrow> \<lparr>ob_entry = ?e, ob_hPoamIrepUpperFo = Some p, ob_hPoamIrepFo = Some f\<rparr>
        | None \<Rightarrow> \<lparr>ob_entry = ?e, ob_hPoamIrepUpperFo = fst (pl_junk_fo L a), ob_hPoamIrepFo = snd (pl_junk_fo L a)\<rparr>)"
      have ob: "ob_entry ob = ?e" by (simp add: ob_def split: option.split prod.split)
      have "h = Some (a, tb_NextInsNum t)" "v' = v3" "t' = t\<lparr>tb_NextInsNum := tb_NextInsNum t + 1,
          tb_List := CosaSListPushEntryByInsNum (tb_List t) (pc_link a (tb_NextInsNum t) True ob)\<rparr>"
        using assms(1) Some by (simp_all add: pc_AddEntry_def a1 a2 ab take ai Let_def ob_def)
      moreover have "k_ins K (ob_entry ob) = tb_NextInsNum t" using e ob by simp
      ultimately show ?thesis using v e3 aa by (intro conjI disjI2 exI [of _ ob]) simp_all
    qed
  qed
qed

context pc_board
begin

lemma add_keeps:
  assumes "pc_AddEntry L K J t v = (h, t', v')" "kind_ok K" "k_ins K = ins" "tb_NextInsNum t + 1 \<noteq> 0"
    and i: "pc_inv ins (view (en_board v)) t (en_allocs v)"
  shows "pc_inv ins (view (en_board v')) t' (en_allocs v')"
proof -
  note c = pc_AddEntry_cases [OF assms(1,2,4)]
  have i': "pc_inv ins (view (en_board v')) t (en_allocs v')" using i c inv_mono by metis
  from c consider "t' = t" | "t' = t\<lparr>tb_NextInsNum := tb_NextInsNum t + 1\<rparr>"
    | ob where "k_ins K (ob_entry ob) = tb_NextInsNum t" "en_allocs v < en_allocs v'"
        "t' = t\<lparr>tb_NextInsNum := tb_NextInsNum t + 1,
          tb_List := CosaSListPushEntryByInsNum (tb_List t) (pc_link (en_allocs v) (tb_NextInsNum t) True ob)\<rparr>"
    by blast
  then show ?thesis
  proof cases
    case 1
    then show ?thesis using i' by simp
  next
    case 2
    then show ?thesis using inv_next [OF i' assms(4)] by simp
  next
    case (3 ob)
    then show ?thesis using inv_push [OF i refl assms(4), of t' "en_allocs v" ob "en_allocs v'"] c assms(3) by simp
  qed
qed

lemma del_keeps:
  assumes "pc_DelEntry L B t v l = (r, t', v')" "l \<in> set (tb_List t)" "ok (en_board v)"
    and i: "pc_inv ins (view (en_board v)) t (en_allocs v)"
  shows "ok (en_board v') \<and> pc_inv ins (view (en_board v')) t' (en_allocs v') \<and>
    (r = 0 \<longleftrightarrow> \<not> lnk_bNew l) \<and> (lnk_bNew l \<longrightarrow> r = - 1 \<and> t' = t \<and> view (en_board v') = view (en_board v))"
proof -
  obtain s b where d: "bo_DelEntry B (lnk_InstanceNumber l) (en_board v) = (s, b)" by force
  note w = del [OF assms(3) d]
  have s: "ansc_ok s \<longleftrightarrow> \<not> lnk_bNew l" using w inv_new_iff [OF i assms(2)] by simp
  show ?thesis
  proof (cases "lnk_bNew l")
    case True
    have "view b = view (en_board v)" using w s True row_absent [of "lnk_InstanceNumber l" ins "view (en_board v)"] by auto
    then show ?thesis using assms(1) d s True w i by (auto simp: pc_DelEntry_def)
  next
    case False
    then have res: "r = 0" "t' = t\<lparr>tb_List := AnscSListPopEntryByLink (tb_List t) (lnk_addr l)\<rparr>" "en_board v' = b" "en_allocs v' = en_allocs v"
      using assms(1) d s by (auto simp: pc_DelEntry_def Let_def)
    have others: "{x \<in> set (tb_List t). lnk_addr x \<noteq> lnk_addr l \<and> \<not> lnk_bNew x} =
        {x \<in> set (tb_List t). \<not> lnk_bNew x} - {x. lnk_InstanceNumber x = lnk_InstanceNumber l}"
      using inv_inj [OF i] assms(2) by blast
    have "distinct (map ins (view (en_board v)))" using i by (simp add: pc_inv_def)
    then have "ins ` set (view b) = ins ` set (view (en_board v)) - {lnk_InstanceNumber l}" "distinct (map ins (view b))"
      using w by (simp_all add: set_row_del map_row_del)
    moreover have "ins ` set (view (en_board v)) - {lnk_InstanceNumber l} = lnk_InstanceNumber ` {x \<in> set (tb_List t). lnk_addr x \<noteq> lnk_addr l \<and> \<not> lnk_bNew x}"
      unfolding others using i by (auto simp: pc_inv_def)
    moreover have "links_ok (\<lambda>ob. ins (ob_entry ob)) (en_allocs v) (AnscSListPopEntryByLink (tb_List t) (lnk_addr l))"
      unfolding AnscSListPopEntryByLink_def using i by (intro links_ok_filter) (simp add: pc_inv_def)
    ultimately show ?thesis using res w False i by (auto simp: pc_inv_def)
  qed
qed

lemma commit_keeps:
  assumes "pc_Commit L K B t v l = (r, t', v')" "l \<in> set (tb_List t)" "ok (en_board v)" "k_ins K = ins"
    and i: "pc_inv ins (view (en_board v)) t (en_allocs v)"
  shows "ok (en_board v') \<and> pc_inv ins (view (en_board v')) t' (en_allocs v') \<and>
    (r = 0 \<longrightarrow> row_at ins (lnk_InstanceNumber l) (view (en_board v')) = Some (norm (ob_entry (lnk_hContext l))) \<and>
       (\<forall>n. n \<noteq> lnk_InstanceNumber l \<longrightarrow> row_at ins n (view (en_board v')) = row_at ins n (view (en_board v)))) \<and>
    (r \<noteq> 0 \<longrightarrow> lnk_bNew l \<and> t' = t \<and> view (en_board v') = view (en_board v))"
proof -
  let ?e = "ob_entry (lnk_hContext l)" and ?rows = "view (en_board v)"
  have num: "ins ?e = lnk_InstanceNumber l" using inv_num [OF i assms(2)] .
  note iff = inv_new_iff [OF i assms(2)]
  have dist: "distinct (map ins ?rows)" using i by (simp add: pc_inv_def)
  show ?thesis
  proof (cases "lnk_bNew l")
    case True
    obtain s b where d: "bo_AddEntry B ?e (en_board v) = (s, b)" by force
    note w = add [OF assms(3) d]
    show ?thesis
    proof (cases "ansc_ok s")
      case False
      then show ?thesis using assms(1) d w True i by (auto simp: pc_Commit_def Let_def)
    next
      case s: True
      have res: "r = 0" "t' = pc_put t (l\<lparr>lnk_bNew := False\<rparr>)" "en_board v' = b" "en_allocs v' = en_allocs v"
        using assms(1) d s True by (auto simp: pc_Commit_def Let_def pc_DelInfo_env)
      have at: "row_at ins (lnk_InstanceNumber l) ?rows = None" using iff True by (simp add: row_at_None)
      have "pc_inv ins (view b) t' (en_allocs v)"
        unfolding res(2) using iff True num dist w s
        by (intro inv_put [OF i assms(2)]) (auto simp: norm_ins)
      then show ?thesis using res w s at num by (auto simp: row_at_append norm_ins split: option.split)
    qed
  next
    case False
    obtain s b where d: "bo_SetConf B (ins ?e) ?e (en_board v) = (s, b)" by force
    note w = set_conf [OF assms(3) refl d]
    have s: "ansc_ok s" using w iff False num by simp
    have res: "r = 0" "t' = t" "en_board v' = b" "en_allocs v' = en_allocs v"
      using assms(1) d s False assms(4) by (auto simp: pc_Commit_def Let_def)
    have m: "map ins (view b) = map ins ?rows" using w by (simp add: map_row_set norm_ins)
    then have "ins ` set (view b) = ins ` set ?rows" by (metis set_map)
    then have "pc_inv ins (view b) t (en_allocs v)" using i m by (simp add: pc_inv_def)
    then show ?thesis using res w iff False num by (auto simp: row_at_set norm_ins)
  qed
qed

lemma rollback_keeps:
  assumes "pc_Rollback K B t v l = (r, t', v')" "l \<in> set (tb_List t)" "ok (en_board v)" "k_ins K = ins"
    and i: "pc_inv ins (view (en_board v)) t (en_allocs v)"
  shows "ok (en_board v') \<and> pc_inv ins (view (en_board v')) t' (en_allocs v') \<and> view (en_board v') = view (en_board v) \<and>
    (\<exists>e. t' = pc_put t (pc_set_entry l e) \<and> (case row_at ins (lnk_InstanceNumber l) (view (en_board v)) of
       Some x \<Rightarrow> core e = core x | None \<Rightarrow> e = ob_entry (lnk_hContext l))) \<and> (r = 0 \<longleftrightarrow> \<not> lnk_bNew l)"
proof -
  let ?e = "ob_entry (lnk_hContext l)" and ?rows = "view (en_board v)"
  have num: "ins ?e = lnk_InstanceNumber l" using inv_num [OF i assms(2)] .
  note iff = inv_new_iff [OF i assms(2)]
  obtain s e' b where d: "bo_GetConf B (ins ?e) ?e (en_board v) = (s, e', b)" by (metis prod_cases3)
  note w = get_conf [OF assms(3) d]
  have res: "r = (if ansc_ok s then 0 else - 1)" "t' = pc_put t (pc_set_entry l e')" "v' = v\<lparr>en_board := b\<rparr>"
    using assms(1) d assms(4) by (auto simp: pc_Rollback_def Let_def)
  have e': "case row_at ins (lnk_InstanceNumber l) ?rows of Some x \<Rightarrow> core e' = core x | None \<Rightarrow> e' = ?e"
    "ansc_ok s \<longleftrightarrow> \<not> lnk_bNew l"
    using w num iff row_at_None [of ins "lnk_InstanceNumber l" ?rows] by (auto split: option.split_asm)
  have "ins e' = lnk_InstanceNumber l"
    using e'(1) num row_at_Some [of ins "lnk_InstanceNumber l" ?rows] core_ins by (auto split: option.split_asm) metis
  then have "pc_inv ins ?rows t' (en_allocs v)"
    unfolding res(2) using iff i by (intro inv_put [OF i assms(2)]) (auto simp: pc_inv_def)
  then show ?thesis using res w e' by auto
qed

lemma set_keeps:
  assumes "l \<in> set (tb_List t)" "ins e = ins (ob_entry (lnk_hContext l))"
    and i: "pc_inv ins (view (en_board v)) t (en_allocs v)"
  shows "pc_inv ins (view (en_board v)) (pc_put t (pc_set_entry l e)) (en_allocs v)"
  using inv_new_iff [OF i assms(1)] inv_num [OF i assms(1)] assms(2) i
  by (intro inv_put [OF i assms(1)]) (auto simp: pc_inv_def)

lemma step_keeps:
  assumes "pc_step L K B J (t, v) (t', v')" "kind_ok K" "k_ins K = ins"
    and "ok (en_board v)" "pc_inv ins (view (en_board v)) t (en_allocs v)"
  shows "ok (en_board v') \<and> pc_inv ins (view (en_board v')) t' (en_allocs v')"
proof (rule pc_stepE [OF assms(1)], goal_cases)
  case (1 h)
  then show ?thesis
    using add_keeps [OF 1(1) assms(2,3) 1(2) assms(5)] pc_AddEntry_cases [OF 1(1) assms(2) 1(2)] assms(4) by simp
next
  case 2
  then show ?thesis using del_keeps [OF 2(2,1) assms(4,5)] by blast
next
  case 3
  then show ?thesis using commit_keeps [OF 3(2,1) assms(4,3,5)] by blast
next
  case 4
  then show ?thesis using rollback_keeps [OF 4(2,1) assms(4,3,5)] by blast
next
  case 5
  then show ?thesis using set_keeps [OF _ _ assms(5)] assms(3,4) by simp
qed

lemma steps_keep:
  assumes "(pc_step L K B J)\<^sup>*\<^sup>* s s'" "kind_ok K" "k_ins K = ins"
    and "ok (en_board (snd s)) \<and> pc_inv ins (view (en_board (snd s))) (fst s) (en_allocs (snd s))"
  shows "ok (en_board (snd s')) \<and> pc_inv ins (view (en_board (snd s'))) (fst s') (en_allocs (snd s'))"
  using assms(1,4)
proof (induction rule: rtranclp_induct)
  case base
  then show ?case .
next
  case (step x y)
  then show ?case using step_keeps [of L K J "fst x" "snd x" "fst y" "snd y"] assms(2,3) by simp
qed

end

end
