(* ===== verification/Pc_Registry_Props.thy ===== *)
theory Pc_Registry_Props
  imports Pc_Table_Props Nat_Registry_Props
begin

text \<open>
  The registry folder of parental control: what \<open>AddInfo\<close> writes, that \<open>DelInfo\<close> takes it away again, and what
  \<open>GetInfo\<close> makes of it. The last section is about the five tables together: they share one folder, so each reads what the
  others wrote.
\<close>

section \<open>The two more operations of a folder\<close>

definition rv_del_record :: "rview \<Rightarrow> path \<Rightarrow> string \<Rightarrow> rview" where
  "rv_del_record w p k = rv_upd w p (\<lambda>f. f\<lparr>rf_str := (rf_str f)(k := None), rf_bool := (rf_bool f)(k := None),
     rf_uint := (rf_uint f)(k := None)\<rparr>)"

definition rv_del_folder :: "rview \<Rightarrow> path \<Rightarrow> string \<Rightarrow> rview" where
  "rv_del_folder w p n = (\<lambda>q. if q = p then map_option (\<lambda>f. f\<lparr>rf_subs := filter (\<lambda>m. m \<noteq> n) (rf_subs f)\<rparr>) (w p)
     else if q = p @ [n] \<or> below (p @ [n]) q then None else w q)"

definition pc_reg_ok :: "('s, 'c, 'r) pc_libs \<Rightarrow> ('r \<Rightarrow> rview) \<Rightarrow> bool" where
  "pc_reg_ok L w \<longleftrightarrow> irep_ok (pc_ir L) w \<and> irep_total (pc_ir L) \<and> noclobber_ok (lib_noclobber (pl_libs L)) \<and>
     (\<forall>r p k. w (pl_DelRecord L r p k) = rv_del_record (w r) p k) \<and>
     (\<forall>r p n. w (pl_DelFolder L r p n) = rv_del_folder (w r) p n) \<and> (\<forall>n. lib_alloc (pl_libs L) n)"

lemma pc_reg_okD:
  assumes "pc_reg_ok L w"
  shows "irep_ok (pc_ir L) w" "irep_total (pc_ir L)" "noclobber_ok (lib_noclobber (pl_libs L))"
    "w (pl_DelRecord L r p k) = rv_del_record (w r) p k" "w (pl_DelFolder L r p n) = rv_del_folder (w r) p n"
    "pc_alloc L v = (Some (en_allocs v), v\<lparr>en_allocs := Suc (en_allocs v)\<rparr>)"
  using assms by (simp_all add: pc_reg_ok_def pc_alloc_def)

section \<open>Writing a row and removing it\<close>

text \<open>The folder of a table after its counter has been written, and the folder of a row.\<close>

definition counted :: "'e pc_kind \<Rightarrow> ULONG \<Rightarrow> rfolder \<Rightarrow> rfolder" where
  "counted K n f = f\<lparr>rf_str := (rf_str f)(k_rr_NextInsNumber K := None), rf_bool := (rf_bool f)(k_rr_NextInsNumber K := None),
     rf_uint := (rf_uint f)(k_rr_NextInsNumber K \<mapsto> n)\<rparr>"

definition row_folder :: "'e pc_kind \<Rightarrow> 'e \<Rightarrow> rfolder" where
  "row_folder K e = empty_folder\<lparr>rf_uint := [k_rr_InsNum K \<mapsto> k_ins K e], rf_str := [k_rr_Alias K \<mapsto> k_alias K e]\<rparr>"

lemma counted_subs [simp]: "rf_subs (counted K n f) = rf_subs f"
  by (simp add: counted_def)

lemma AddInfo_writes:
  assumes "pc_reg_ok L w" "tb_hIrepFolder t = Some p" "w (en_registry v) p = Some f" "k_alias K e \<notin> set (rf_subs f)"
    and "pc_AddInfo L K t e v = (s, fo, v')"
  shows "s = ANSC_SUCCESS \<and> fo = Some (p, p @ [k_alias K e]) \<and> en_board v' = en_board v \<and>
    w (en_registry v') = (w (en_registry v))(p \<mapsto> counted K (tb_NextInsNum t) f\<lparr>rf_subs := rf_subs f @ [k_alias K e]\<rparr>,
      p @ [k_alias K e] \<mapsto> row_folder K e)"
proof -
  note L = pc_reg_okD [OF assms(1)]
  note sync = irep_reads(3) [OF L(1)]
  let ?I = "pc_ir L" and ?q = "p @ [k_alias K e]" and ?n = "tb_NextInsNum t"
  let ?r0 = "pl_DelRecord L (ir_EnableFileSync ?I (en_registry v) p False) p (k_rr_NextInsNumber K)"
  obtain o1 r1 where a1: "ir_AddUint32 ?I ?r0 p (k_rr_NextInsNumber K) ?n = (o1, r1)" by force
  obtain o2 r2 where a2: "ir_AddFolder ?I r1 p (k_alias K e) = (o2, r2)" by force
  obtain o3 r3 where a3: "ir_AddUint32 ?I r2 ?q (k_rr_InsNum K) (k_ins K e) = (o3, r3)" by force
  obtain o4 r4 where a4: "ir_AddString ?I r3 ?q (k_rr_Alias K) (k_alias K e) = (o4, r4)" by force
  note V = irep_views [OF L(1,2)]
  note v1 = V(4) [OF a1] and v2 = V(1) [OF a2] and v3 = V(4) [OF a3] and v4 = V(2) [OF a4]
  have w0: "w ?r0 = rv_del_record (w (en_registry v)) p (k_rr_NextInsNumber K)" by (simp add: L sync)
  have w1: "w r1 = (w (en_registry v))(p \<mapsto> counted K ?n f)"
    using v1 assms(3) by (simp add: w0 rv_del_record_def rv_upd_def counted_def)
  have w2: "w r2 = (w (en_registry v))(p \<mapsto> counted K ?n f\<lparr>rf_subs := rf_subs f @ [k_alias K e]\<rparr>, ?q \<mapsto> empty_folder)"
    using v2 assms(4) by (simp add: w1 rv_add_folder_def)
  have w4: "w r4 = (w (en_registry v))(p \<mapsto> counted K ?n f\<lparr>rf_subs := rf_subs f @ [k_alias K e]\<rparr>, ?q \<mapsto> row_folder K e)"
    using v3 v4 by (simp add: w2 rv_upd_def row_folder_def empty_folder_def)
  show ?thesis
    using assms(5) v2 v4 w4 by (auto simp: pc_AddInfo_def assms(2) L(6) a1 a2 a3 a4 Let_def sync)
qed

lemma DelInfo_removes:
  assumes "pc_reg_ok L w" "ob_hPoamIrepUpperFo ob = Some p" "ob_hPoamIrepFo ob = Some (p @ [n])"
  shows "w (en_registry (snd (pc_DelInfo L ob v))) = rv_del_folder (w (en_registry v)) p n"
  using pc_reg_okD [OF assms(1)] irep_reads(3) [OF pc_reg_okD(1) [OF assms(1)]] assms(2,3)
  by (simp add: pc_DelInfo_def Let_def)

section \<open>Reading a folder back\<close>

lemma GetInfo_single:
  assumes "pc_reg_ok L w" "tb_hIrepFolder t = Some p" "w (en_registry v) p = Some f" "rf_subs f = [name]"
    "w (en_registry v) (p @ [name]) = Some g" "kind_ok K"
  shows "\<exists>v' ob. pc_GetInfo L K J t v = (ANSC_SUCCESS,
       t\<lparr>tb_List := CosaSListPushEntryByInsNum (tb_List t)
          (pc_link (en_allocs v) (case rf_uint g (k_rr_InsNum K) of Some n \<Rightarrow> n | None \<Rightarrow> 0) True ob)\<rparr>, v') \<and>
     k_ins K (ob_entry ob) = (case rf_uint g (k_rr_InsNum K) of Some n \<Rightarrow> n | None \<Rightarrow> 0) \<and>
     k_alias K (ob_entry ob) = (let a = (case rf_str g (k_rr_Alias K) of Some a \<Rightarrow> a | None \<Rightarrow> []) in
       if length a < PC_ALIAS then a else k_alias K (J (Suc (en_allocs v)))) \<and>
     en_registry v' = en_registry v \<and> en_board v' = en_board v"
proof -
  note L = pc_reg_okD [OF assms(1)]
  note R = irep_reads [OF L(1)]
  let ?n = "case rf_uint g (k_rr_InsNum K) of Some n \<Rightarrow> n | None \<Rightarrow> 0"
  let ?a = "case rf_str g (k_rr_Alias K) of Some a \<Rightarrow> a | None \<Rightarrow> []"
  let ?blk = "J (Suc (en_allocs v))"
  let ?e = "k_set_ins K ?n (k_set_alias K (snd (lib_noclobber (pl_libs L) PC_ALIAS (k_alias K ?blk) ?a)) ?blk)"
  let ?ob = "\<lparr>ob_entry = ?e, ob_hPoamIrepUpperFo = Some p, ob_hPoamIrepFo = Some (p @ [name])\<rparr>"
  have folder: "ir_GetFolder (pc_ir L) (en_registry v) p name" using R(1) assms(3,4) by simp
  have gi: "pc_GetInfo L K J t v = (ANSC_SUCCESS,
      t\<lparr>tb_List := CosaSListPushEntryByInsNum (tb_List t) (pc_link (en_allocs v) ?n True ?ob)\<rparr>, v\<lparr>en_allocs := Suc (Suc (en_allocs v))\<rparr>)"
    using folder by (simp add: pc_GetInfo_def assms(2,4) R(4) [OF assms(3)] R(5,7) [OF assms(5)] L(6) Let_def pc_link_def)
  have num: "k_ins K (ob_entry ?ob) = ?n" using assms(6) by (simp add: kind_ok_def)
  have al: "k_alias K (ob_entry ?ob) = (let a = ?a in if length a < PC_ALIAS then a else k_alias K ?blk)"
    using assms(6) L(3) by (simp add: kind_ok_def noclobber_ok_def Let_def)
  show ?thesis
    by (rule exI [of _ "v\<lparr>en_allocs := Suc (Suc (en_allocs v))\<rparr>"], rule exI [of _ ?ob]) (use gi num al in simp)
qed

end
