(* ===== verification/Pc_Start.thy ===== *)
theory Pc_Start
  imports Pc_Registry_Props
begin

text \<open>
  The start of parental control: what the middle layer has after loading a table from the board layer and from the registry, and
  what a restart does to rows that were not committed.
\<close>

section \<open>Loading the rows of the board\<close>

lemma inv_push_old:
  assumes i: "pc_inv ins rows t k" and n: "ins e \<noteq> 0" "ins e + 1 \<noteq> 0" "ins e \<notin> ins ` set rows"
    and old: "\<forall>l \<in> set (tb_List t). \<not> lnk_bNew l"
    and l: "tb_List t' = CosaSListPushEntryByInsNum (tb_List t) (pc_link a (ins e) False ob)" "ins (ob_entry ob) = ins e" "k \<le> a" "a < k'"
    and nx: "tb_NextInsNum t' = (if tb_NextInsNum t \<le> ins e then ins e + 1 else tb_NextInsNum t)"
  shows "pc_inv ins (rows @ [e]) t' k' \<and> (\<forall>l \<in> set (tb_List t'). \<not> lnk_bNew l)"
proof -
  note lo = conjunct1 [OF i [unfolded pc_inv_def]]
  have nums: "ins ` set rows = lnk_InstanceNumber ` set (tb_List t)"
    using i old by (auto simp: pc_inv_def intro!: image_eqI)
  then have fresh: "CosaSListGetEntryByInsNum (tb_List t) (ins e) = None"
    using n(3) cosa.get_None [of "tb_List t" "ins e"] by simp
  have "links_ok (\<lambda>ob. ins (ob_entry ob)) k' (tb_List t')"
    unfolding l(1) using l n fresh by (intro links_ok_push_fresh [OF lo]) auto
  moreover have "\<forall>x \<in> set (tb_List t'). lnk_InstanceNumber x < tb_NextInsNum t'"
    using i below_succ [OF _ n(2)] nx by (auto simp: l(1) pc_inv_def not_le intro: less_imp_le less_le_trans)
  moreover have all: "\<forall>x \<in> set (tb_List t'). \<not> lnk_bNew x" using old by (auto simp: l(1))
  moreover from this have "{x \<in> set (tb_List t'). \<not> lnk_bNew x} = set (tb_List t')" by auto
  moreover have "ins ` set (rows @ [e]) = lnk_InstanceNumber ` set (tb_List t')" using nums by (auto simp: l(1))
  moreover have "distinct (map ins (rows @ [e]))" using i n(3) by (auto simp: pc_inv_def)
  ultimately show ?thesis using i n(2) nx by (simp add: pc_inv_def)
qed

definition rows_of :: "'e pc_table \<Rightarrow> 'e list" where
  "rows_of t = map (\<lambda>l. ob_entry (lnk_hContext l)) (tb_List t)"

lemma rows_of_push:
  "tb_List t' = CosaSListPushEntryByInsNum (tb_List t) l \<Longrightarrow> mset (rows_of t') = add_mset (ob_entry (lnk_hContext l)) (mset (rows_of t))"
  by (simp add: rows_of_def mset_push)

text \<open>What loading a table keeps of the board: everything that its functions to count, read and name rows keep.\<close>

lemma pc_alloc_board: "en_board (snd (pc_alloc L v)) = en_board v"
  by (simp add: pc_alloc_def)

lemma load_rows_frame:
  assumes "\<And>i e b. P b \<Longrightarrow> P (snd (snd (bo_GetEntryByIndex B i e b)))" "\<And>i n a b. P b \<Longrightarrow> P (snd (bo_SetValues B i n a b))"
  shows "P (en_board v) \<Longrightarrow> P (en_board (snd (snd (pc_load_rows L K B J is t v))))"
proof (induction "is" arbitrary: t v)
  case Nil
  then show ?case by simp
next
  case (Cons i "is")
  obtain a v1 where a: "pc_alloc L v = (a, v1)" by force
  then have v1: "en_board v1 = en_board v" using pc_alloc_board [of L v] by simp
  obtain s e b where g: "bo_GetEntryByIndex B i (J (the a)) (en_board v1) = (s, e, b)" by (metis prod_cases3)
  have b: "P b" using assms(1) [OF Cons.prems, of i "J (the a)"] g v1 by simp
  obtain a2 v3 where a2: "pc_alloc L (v1\<lparr>en_board := b\<rparr>) = (a2, v3)" by force
  then have v3: "P (en_board v3)" using pc_alloc_board [of L "v1\<lparr>en_board := b\<rparr>"] b by simp
  have set: "bo_SetValues B i n al (en_board v3) = (r, c) \<Longrightarrow> P c" for n al r c using assms(2) [OF v3, of i n al] by simp
  show ?case
    using Cons.prems v1 v3 b set g
    by (cases a; cases a2) (auto simp: a a2 Let_def split: option.split prod.split intro!: Cons.IH)
qed

lemma reg_get_board: "en_board (snd (snd (pc_reg_get L K J p names n t v))) = en_board v"
proof (induction L K J p names n t v rule: pc_reg_get.induct)
  case (3 L K J p name names n t v)
  obtain a v1 where a: "pc_alloc L v = (a, v1)" by force
  obtain a2 v2 where a2: "pc_alloc L v1 = (a2, v2)" by force
  have "en_board v1 = en_board v" "en_board v2 = en_board v"
    using pc_alloc_board [of L v] pc_alloc_board [of L v1] by (simp_all add: a a2)
  then show ?case using 3 a a2 by (cases a; cases a2) (simp_all add: Let_def)
qed simp_all

lemma load_table_frame:
  assumes "P0 (en_board v)" "P0 (en_board v) \<Longrightarrow> P (snd (bo_GetNumberOfEntries B (en_board v)))"
    and "\<And>i e b. P b \<Longrightarrow> P (snd (snd (bo_GetEntryByIndex B i e b)))" "\<And>i n a b. P b \<Longrightarrow> P (snd (bo_SetValues B i n a b))"
  shows "P (en_board (snd (snd (pc_load_table L K B J t v))))"
proof -
  have rows: "P (en_board v') \<Longrightarrow> pc_load_rows L K B J is t' v' = (s, t'', v'') \<Longrightarrow> P (en_board v'')" for v' "is" t' s t'' v''
    using load_rows_frame [of P B v' L K J "is" t', OF assms(3,4)] by simp
  have reg: "pc_GetInfo L K J t' v' = (s, t'', v'') \<Longrightarrow> en_board v'' = en_board v'" for t' v' s t'' v''
    using reg_get_board [of L K J "the (tb_hIrepFolder t')" "ir_EnumFolder (pc_ir L) (en_registry v') (the (tb_hIrepFolder t'))" 0 t' v']
    by (auto simp: pc_GetInfo_def split: option.split_asm)
  obtain n b where g: "bo_GetNumberOfEntries B (en_board v) = (n, b)" by force
  have b: "P b" using assms(1,2) g by simp
  have rows': "pc_load_rows L K B J is t' (v\<lparr>en_board := b, en_registry := r\<rparr>) = (s, t'', v'') \<Longrightarrow> P (en_board v'')" for "is" t' r s t'' v''
    using rows [of "v\<lparr>en_board := b, en_registry := r\<rparr>"] b by simp
  show ?thesis
    using b by (auto simp: pc_load_table_def g Let_def split: option.split prod.split dest!: reg dest: rows')
qed

context pc_board
begin

lemma load_rows_keeps:
  assumes "\<And>n. lib_alloc (pl_libs L) n" "k_ins K = ins"
    and "\<forall>e \<in> set rows. ins e \<noteq> 0 \<and> ins e + 1 \<noteq> 0" "distinct (map ins rows)" "length rows < 2 ^ 32"
  shows "i + j = length rows \<Longrightarrow> view (en_board v) = rows \<Longrightarrow> ok (en_board v) \<Longrightarrow> pc_inv ins (take i rows) t (en_allocs v) \<Longrightarrow>
    \<forall>l \<in> set (tb_List t). \<not> lnk_bNew l \<Longrightarrow> image_mset core (mset (rows_of t)) = image_mset core (mset (take i rows)) \<Longrightarrow>
    \<exists>t' v'. pc_load_rows L K B J (map of_nat [i..<length rows]) t v = (ANSC_SUCCESS, t', v') \<and> view (en_board v') = rows \<and>
      ok (en_board v') \<and> pc_inv ins rows t' (en_allocs v') \<and> (\<forall>l \<in> set (tb_List t'). \<not> lnk_bNew l) \<and>
      image_mset core (mset (rows_of t')) = image_mset core (mset rows) \<and> en_registry v' = en_registry v \<and> tb_hIrepFolder t' = tb_hIrepFolder t"
proof (induction j arbitrary: i t v)
  case 0
  then show ?case by simp
next
  case (Suc j)
  let ?e = "rows ! i"
  have i: "i < length rows" "[i..<length rows] = i # [Suc i..<length rows]" using Suc.prems(1) by (simp_all add: upt_conv_Cons)
  have idx: "unat (of_nat i :: ULONG) = i" using i(1) assms(5) by (simp add: unat_of_nat)
  have e: "ins ?e \<noteq> 0" "ins ?e + 1 \<noteq> 0" using assms(3) i by auto
  have tk: "take (Suc i) rows = take i rows @ [?e]" using i by (simp add: take_Suc_conv_app_nth)
  have new: "ins ?e \<notin> ins ` set (take i rows)"
  proof -
    have "distinct (map ins (take i rows @ [?e]))"
      using distinct_take [OF assms(4), of "Suc i"] by (simp only: take_map tk)
    then show ?thesis by simp
  qed
  obtain s e' b where g: "bo_GetEntryByIndex B (of_nat i) (J (en_allocs v)) (en_board v) = (s, e', b)" by (metis prod_cases3)
  note w = get_entry [OF Suc.prems(3) g]
  have s: "ansc_ok s" "core e' = core ?e" "view b = rows" "ok b" using w Suc.prems(2) idx i by auto
  have ie: "ins e' = ins ?e" using s(2) core_ins by metis
  let ?v3 = "v\<lparr>en_board := b, en_allocs := Suc (Suc (en_allocs v))\<rparr>"
  let ?a = "Suc (en_allocs v)"
  let ?ob = "\<lparr>ob_entry = e', ob_hPoamIrepUpperFo = fst (pl_junk_fo L ?a), ob_hPoamIrepFo = snd (pl_junk_fo L ?a)\<rparr>"
  define t1 where "t1 = (if tb_NextInsNum t \<le> ins ?e then t\<lparr>tb_NextInsNum := ins ?e + 1\<rparr> else t)"
  define t2 where "t2 = t1\<lparr>tb_List := CosaSListPushEntryByInsNum (tb_List t1) (pc_link ?a (ins ?e) False ?ob)\<rparr>"
  have t2: "tb_List t2 = CosaSListPushEntryByInsNum (tb_List t) (pc_link ?a (ins ?e) False ?ob)" "tb_hIrepFolder t2 = tb_hIrepFolder t"
    "tb_NextInsNum t2 = (if tb_NextInsNum t \<le> ins ?e then ins ?e + 1 else tb_NextInsNum t)"
    by (simp_all add: t2_def t1_def)
  have step: "pc_load_rows L K B J (map of_nat [i..<length rows]) t v = pc_load_rows L K B J (map of_nat [Suc i..<length rows]) t2 ?v3"
    using g s e by (simp add: i(2) ie assms(1,2) pc_alloc_def Let_def t2_def t1_def)
  have keep: "pc_inv ins (take (Suc i) rows) t2 (en_allocs ?v3) \<and> (\<forall>l \<in> set (tb_List t2). \<not> lnk_bNew l)"
    unfolding tk by (rule inv_push_old [OF Suc.prems(4) e new Suc.prems(5) t2(1) _ _ _ t2(3)]) (simp_all add: ie)
  have "image_mset core (mset (rows_of t2)) = image_mset core (mset (take (Suc i) rows))"
    using rows_of_push [OF t2(1)] Suc.prems(6) by (simp add: tk s(2))
  then have "\<exists>t' v'. pc_load_rows L K B J (map of_nat [Suc i..<length rows]) t2 ?v3 = (ANSC_SUCCESS, t', v') \<and>
      view (en_board v') = rows \<and> ok (en_board v') \<and> pc_inv ins rows t' (en_allocs v') \<and>
      (\<forall>l \<in> set (tb_List t'). \<not> lnk_bNew l) \<and> image_mset core (mset (rows_of t')) = image_mset core (mset rows) \<and> en_registry v' = en_registry ?v3 \<and>
      tb_hIrepFolder t' = tb_hIrepFolder t2"
    using Suc.prems(1) s keep by (intro Suc.IH) simp_all
  then show ?case unfolding step t2(2) by simp
qed

lemma load_table_fresh:
  assumes L: "pc_reg_ok L w" "pl_root L = Some root" and K: "k_ins K = ins"
    and b: "start (en_board v)" "view (en_board v) = rows" "\<forall>e \<in> set rows. ins e \<noteq> 0 \<and> ins e + 1 \<noteq> 0" "distinct (map ins rows)"
    and p: "p = root @ [COSA_IREP_FOLDER_NAME_PARENTALCONTROL]" "w (en_registry v) root = Some fr"
      "COSA_IREP_FOLDER_NAME_PARENTALCONTROL \<in> set (rf_subs fr)" "w (en_registry v) p = Some f"
    and c: "rf_uint f COSA_DML_RR_NAME_PARENTALCONTROL_NextInsNumber \<noteq> Some 0"
  shows "\<exists>t1 v1. pc_load_table L K B J t v = (case pc_GetInfo L K J t1 v1 of (_, t2, v2) \<Rightarrow> (ANSC_SUCCESS, t2, v2)) \<and>
    tb_hIrepFolder t1 = Some p \<and> pc_inv ins rows t1 (en_allocs v1) \<and> (\<forall>l \<in> set (tb_List t1). \<not> lnk_bNew l) \<and>
    image_mset core (mset (rows_of t1)) = image_mset core (mset rows) \<and> view (en_board v1) = rows \<and> ok (en_board v1) \<and> en_registry v1 = en_registry v"
proof -
  note L' = pc_reg_okD [OF L(1)]
  have al: "lib_alloc (pl_libs L) k" for k using L(1) by (simp add: pc_reg_ok_def)
  note R = irep_reads [OF L'(1)]
  obtain n b1 where g: "bo_GetNumberOfEntries B (en_board v) = (n, b1)" by force
  note w1 = number [OF b(1) g]
  let ?v2 = "v\<lparr>en_board := b1\<rparr>"
  let ?t2 = "t\<lparr>tb_List := [], tb_NextInsNum := 1, tb_hIrepFolder := Some p\<rparr>"
  define t3 where "t3 = (case rf_uint f COSA_DML_RR_NAME_PARENTALCONTROL_NextInsNumber of
      Some m \<Rightarrow> ?t2\<lparr>tb_NextInsNum := m\<rparr> | None \<Rightarrow> ?t2)"
  have t3: "tb_List t3 = []" "tb_NextInsNum t3 \<noteq> 0" "tb_hIrepFolder t3 = Some p"
    using c by (auto simp: t3_def split: option.split)
  have folder: "get_or_add_folder (pc_ir L) (en_registry ?v2) root COSA_IREP_FOLDER_NAME_PARENTALCONTROL False = (True, en_registry v)"
    using R(1) p(2,3) by (simp add: get_or_add_folder_def)
  have inv3: "pc_inv ins (take 0 rows) t3 (en_allocs ?v2)" using t3 by (simp add: pc_inv_def)
  have len: "length rows < 2 ^ 32" using w1 b(2) unsigned_less [of n, where ?'a = nat] by simp
  have "\<exists>t' v'. pc_load_rows L K B J (map of_nat [0..<length rows]) t3 ?v2 = (ANSC_SUCCESS, t', v') \<and> view (en_board v') = rows \<and>
      ok (en_board v') \<and> pc_inv ins rows t' (en_allocs v') \<and> (\<forall>l \<in> set (tb_List t'). \<not> lnk_bNew l) \<and>
      image_mset core (mset (rows_of t')) = image_mset core (mset rows) \<and> en_registry v' = en_registry ?v2 \<and> tb_hIrepFolder t' = tb_hIrepFolder t3"
    using w1 b t3 by (intro load_rows_keeps [OF al K b(3,4) len, of 0 "length rows"] inv3) (simp_all add: rows_of_def)
  then obtain t1 v1 where l: "pc_load_rows L K B J (map of_nat [0..<length rows]) t3 ?v2 = (ANSC_SUCCESS, t1, v1)"
      "view (en_board v1) = rows" "ok (en_board v1)" "pc_inv ins rows t1 (en_allocs v1)" "\<forall>l \<in> set (tb_List t1). \<not> lnk_bNew l"
      "image_mset core (mset (rows_of t1)) = image_mset core (mset rows)" "en_registry v1 = en_registry v" "tb_hIrepFolder t1 = Some p"
    using t3 by auto
  have "pc_load_table L K B J t v = (case pc_GetInfo L K J t1 v1 of (_, t2, v2) \<Rightarrow> (ANSC_SUCCESS, t2, v2))"
    using l(1) w1 b(2) folder R(7) [OF p(4), of COSA_DML_RR_NAME_PARENTALCONTROL_NextInsNumber]
    by (simp add: pc_load_table_def g L(2) Let_def p(1) [symmetric] t3_def)
  then show ?thesis using l by blast
qed

lemma load_table_nothing_pending:
  assumes "pc_reg_ok L w" "pl_root L = Some root" "k_ins K = ins"
    and "start (en_board v)" "view (en_board v) = rows" "\<forall>e \<in> set rows. ins e \<noteq> 0 \<and> ins e + 1 \<noteq> 0" "distinct (map ins rows)"
    and "p = root @ [COSA_IREP_FOLDER_NAME_PARENTALCONTROL]" "w (en_registry v) root = Some fr"
      "COSA_IREP_FOLDER_NAME_PARENTALCONTROL \<in> set (rf_subs fr)" "w (en_registry v) p = Some f" "rf_subs f = []"
    and "rf_uint f COSA_DML_RR_NAME_PARENTALCONTROL_NextInsNumber \<noteq> Some 0"
    and "pc_load_table L K B J t v = (s, t', v')"
  shows "s = ANSC_SUCCESS \<and> image_mset core (mset (rows_of t')) = image_mset core (mset rows) \<and> view (en_board v') = rows \<and> ok (en_board v') \<and>
    pc_inv ins rows t' (en_allocs v') \<and> (\<forall>l \<in> set (tb_List t'). \<not> lnk_bNew l) \<and> en_registry v' = en_registry v"
proof -
  obtain t1 v1 where l: "pc_load_table L K B J t v = (case pc_GetInfo L K J t1 v1 of (_, t2, v2) \<Rightarrow> (ANSC_SUCCESS, t2, v2))"
      "tb_hIrepFolder t1 = Some p" "pc_inv ins rows t1 (en_allocs v1)" "\<forall>l \<in> set (tb_List t1). \<not> lnk_bNew l"
      "image_mset core (mset (rows_of t1)) = image_mset core (mset rows)" "view (en_board v1) = rows" "ok (en_board v1)" "en_registry v1 = en_registry v"
    using load_table_fresh [OF assms(1-11,13)] by blast
  have "ir_EnumFolder (pc_ir L) (en_registry v1) p = []"
    using irep_reads(4) [OF pc_reg_okD(1) [OF assms(1)] assms(11)] assms(12) l(8) by simp
  then have "pc_GetInfo L K J t1 v1 = (ANSC_SUCCESS, t1, v1)" using l(2) by (simp add: pc_GetInfo_def)
  then show ?thesis using l assms(14) by auto
qed

end

end
