(* ===== verification/Pc_Text.thy ===== *)
theory Pc_Text
  imports Pc_Types Cosa_Ipv4
begin

text \<open>
  The checks that parental control makes on the texts of the management system
  (\<open>cosa_x_comcast_com_parentalcontrol_dml.c\<close>): times of day, lists of week days, web addresses,
  descriptions and hardware addresses, and the order check of the board layer,
  \<open>CosaDmlMngSites_Chktime\<close>. The theorems say exactly which texts are accepted.
\<close>

section \<open>Reading numbers\<close>

text \<open>\<open>%d\<close> of \<open>sscanf\<close> with an optional width: white space is skipped, then a sign and digits of the field are read. A number
  that does not fit is the nearest one that does. The result has the rest of the text.\<close>

definition clamp_int :: "int \<Rightarrow> int" where
  "clamp_int i = max (- (2 ^ 31)) (min (2 ^ 31 - 1) i)"

definition scan_int :: "nat option \<Rightarrow> string \<Rightarrow> (int \<times> string) option" where
  "scan_int width s0 =
     (let s = dropWhile isspace s0;
          field = (case width of None \<Rightarrow> s | Some n \<Rightarrow> take n s);
          sign = (if field \<noteq> [] \<and> (hd field = CHR ''-'' \<or> hd field = CHR ''+'') then 1 else 0);
          ds = takeWhile isdigit (drop sign field)
      in if ds = [] then None
         else Some (clamp_int (if sign = 1 \<and> hd field = CHR ''-'' then - int (atoi_digits 0 ds) else int (atoi_digits 0 ds)),
                    drop (sign + length ds) s))"

text \<open>The two numbers when \<open>sscanf (s, "%d:%d %c", ...)\<close> returns 2: nothing but white space follows them. And when
  \<open>sscanf (s, "%02d:%02d", ...)\<close> returns 2: at most two characters each, anything may follow.\<close>

definition scan_pair :: "nat option \<Rightarrow> string \<Rightarrow> (int \<times> int \<times> string) option" where
  "scan_pair width s = (case scan_int width s of
       None \<Rightarrow> None
     | Some (h, r) \<Rightarrow>
         (case r of [] \<Rightarrow> None
          | c # r' \<Rightarrow>
              if c \<noteq> CHR '':'' then None
              else map_option (\<lambda>(m, rest). (h, m, rest)) (scan_int width r')))"

definition sscanf_time :: "string \<Rightarrow> (int \<times> int) option" where
  "sscanf_time s = (case scan_pair None s of
       None \<Rightarrow> None
     | Some (h, m, rest) \<Rightarrow> if dropWhile isspace rest = [] then Some (h, m) else None)"

definition sscanf_chk :: "string \<Rightarrow> (int \<times> int) option" where
  "sscanf_chk s = map_option (\<lambda>(h, m, _). (h, m)) (scan_pair (Some 2) s)"

section \<open>Times of day\<close>

definition ValidateTime :: "int \<Rightarrow> int \<Rightarrow> bool" where
  "ValidateTime hh mm =
     (if hh < 0 \<or> hh > 23 then False else if mm < 0 \<or> mm > 59 then False else True)"

definition start_time_ok :: "string \<Rightarrow> bool" where
  "start_time_ok s = (case sscanf_time s of Some (HH, MM) \<Rightarrow> ValidateTime HH MM | None \<Rightarrow> False)"

definition end_time_ok :: "string \<Rightarrow> bool" where
  "end_time_ok s = (case sscanf_time s of
       Some (HH, MM) \<Rightarrow> (MM = 59 \<and> HH \<le> 23) \<or> ValidateTime HH MM
     | None \<Rightarrow> False)"

definition CHK_TIME :: "int \<Rightarrow> int \<Rightarrow> bool" where
  "CHK_TIME h m \<longleftrightarrow> h \<ge> 0 \<and> h < 24 \<and> m \<ge> 0 \<and> m < 60"

text \<open>\<open>(h << 16) | m\<close>.\<close>

definition packed_time :: "int \<Rightarrow> int \<Rightarrow> int" where
  "packed_time h m = or (push_bit 16 h) m"

text \<open>The first component is the result; the check clears the flag of a time that it cannot read.\<close>

definition CosaDmlMngSites_Chktime :: "COSA_DML_BLOCKEDURL \<Rightarrow> bool \<times> COSA_DML_BLOCKEDURL" where
  "CosaDmlMngSites_Chktime e =
     (if \<not> bu_AlwaysBlock e \<and> bu_StartTimeFlg e \<and> bu_EndTimeFlg e then
        let st = sscanf_chk (bu_StartTime e);
            et = sscanf_chk (bu_EndTime e);
            sf = (case st of Some (h, m) \<Rightarrow> CHK_TIME h m | None \<Rightarrow> False);
            ef = (case et of Some (h, m) \<Rightarrow> CHK_TIME h m | None \<Rightarrow> False);
            e1 = e\<lparr>bu_StartTimeFlg := sf, bu_EndTimeFlg := ef\<rparr>
        in (case (st, et) of
              (Some (h1, m1), Some (h2, m2)) \<Rightarrow>
                if \<not> sf \<or> \<not> ef then (False, e1) else (packed_time h1 m1 < packed_time h2 m2, e1)
            | _ \<Rightarrow> (False, e1))
      else (True, e))"

section \<open>Week days\<close>

definition week_days :: "string list" where
  "week_days = [''Mon'', ''Tue'', ''Wed'', ''Thu'', ''Fri'', ''Sat'', ''Sun'']"

definition is_valid_day :: "string \<Rightarrow> bool" where
  "is_valid_day str = list_ex (\<lambda>d. str = d) week_days"

text \<open>The loop over the tokens, with the days read so far in \<open>arr\<close>; \<open>None\<close> is a write past the seven elements
  of \<open>arr\<close>.\<close>

fun days_loop :: "string list \<Rightarrow> string list \<Rightarrow> bool option" where
  "days_loop arr [] = Some True"
| "days_loop arr (token # ts) =
     (if \<not> is_valid_day token then Some False
      else if list_ex (\<lambda>a. strncmp_eq a token) arr then Some False
      else if length arr \<ge> 7 then None
      else days_loop (arr @ [token]) ts)"

text \<open>\<open>dup\<close> tells whether \<open>strdup\<close> succeeds. The test for a trailing comma reads \<open>strValue[len - 1]\<close>, but \<open>len\<close> is
  still 0 on this path: what it reads is the character \<open>before\<close> that precedes the text in memory.\<close>

definition block_days_ok :: "(string \<Rightarrow> bool) \<Rightarrow> char \<Rightarrow> string \<Rightarrow> bool option" where
  "block_days_ok dup before strValue =
     (if \<not> dup strValue then Some False
      else (case strtok (CHR '','') strValue of
          [] \<Rightarrow> Some False
        | ts \<Rightarrow> if before = CHR '','' then Some False else days_loop [] ts))"

section \<open>Web addresses\<close>

definition isupper :: "char \<Rightarrow> bool" where
  "isupper c \<longleftrightarrow> 65 \<le> (of_char c :: nat) \<and> (of_char c :: nat) \<le> 90"

definition islower :: "char \<Rightarrow> bool" where
  "islower c \<longleftrightarrow> 97 \<le> (of_char c :: nat) \<and> (of_char c :: nat) \<le> 122"

definition url_spl :: string where
  "url_spl = ''-._~:/?#[]@!$&'' @ CHR 0x27 # ''()*+,;%=''"

definition url_char :: "char \<Rightarrow> bool" where
  "url_char c \<longleftrightarrow> c \<in> set url_spl \<or> isupper c \<or> islower c \<or> isdigit c"

definition strncasecmp_eq :: "string \<Rightarrow> string \<Rightarrow> bool" where
  "strncasecmp_eq s t \<longleftrightarrow> strcaseeq (take (length t) s) t"

definition is_url :: "(string \<Rightarrow> bool) \<Rightarrow> string \<Rightarrow> bool" where
  "is_url dup buff =
     (if \<not> list_all url_char buff then False
      else if \<not> strncasecmp_eq buff ''http://'' \<and> \<not> strncasecmp_eq buff ''https://'' then False
      else if last buff = CHR ''.'' then False
      else if \<not> dup buff then False
      else \<not> length (strtok (CHR ''.'') buff) < 2)"

section \<open>Descriptions and hardware addresses\<close>

definition desc_special :: "char list" where
  "desc_special = [CHR ''<'', CHR ''>'', CHR ''&'', CHR 0x27, CHR 0x22, CHR ''|'']"

text \<open>The loop over the characters of a description: \<open>seen\<close> is set at the first character that is no space.\<close>

fun desc_loop :: "bool \<Rightarrow> string \<Rightarrow> bool" where
  "desc_loop seen [] = seen"
| "desc_loop seen (c # s) =
     (let seen' = (if c \<noteq> CHR '' '' then True else seen)
      in if c \<in> set desc_special then False else desc_loop seen' s)"

definition description_ok :: "string \<Rightarrow> bool" where
  "description_ok s = (if s = [] then False else desc_loop False s)"

text \<open>\<open>%02X\<close> of \<open>sscanf\<close>: white space, then a field of at most two characters, which may start with a sign; \<open>0x\<close>
  without a digit is no number. The result is the rest of the text.\<close>

definition hexdigit :: "char \<Rightarrow> bool" where
  "hexdigit c \<longleftrightarrow> isdigit c \<or> c \<in> set ''abcdefABCDEF''"

definition scan_hex2 :: "string \<Rightarrow> string option" where
  "scan_hex2 s0 =
     (let s = dropWhile isspace s0;
          field = take 2 s;
          sign = (if field \<noteq> [] \<and> (hd field = CHR ''-'' \<or> hd field = CHR ''+'') then 1 else 0);
          ds = takeWhile hexdigit (drop sign field)
      in if ds = [] \<or> field = ''0x'' \<or> field = ''0X'' then None else Some (drop (sign + length ds) s))"

fun scan_mac :: "nat \<Rightarrow> string \<Rightarrow> string option" where
  "scan_mac n s = (case scan_hex2 s of
       None \<Rightarrow> None
     | Some r \<Rightarrow> if n \<le> 1 then Some r
         else (case r of [] \<Rightarrow> None | c # r' \<Rightarrow> if c = CHR '':'' then scan_mac (n - 1) r' else None))"

declare scan_mac.simps [simp del]

definition mac_accepted :: "string \<Rightarrow> bool" where
  "mac_accepted s \<longleftrightarrow> length s = 17 \<and> scan_mac 6 s = Some []"

end
