(* ===== verification/Pc_Text_Props.thy ===== *)
theory Pc_Text_Props
  imports Pc_Text
begin

text \<open>What the checks of parental control accept.\<close>

section \<open>Tokens\<close>

lemma strtok_Cons: "d \<notin> set p \<Longrightarrow> p \<noteq> [] \<Longrightarrow> strtok d (p @ d # t) = p # strtok d t"
  by (simp add: strtok_def pieces_append)

lemma strtok_last: "d \<notin> set p \<Longrightarrow> p \<noteq> [] \<Longrightarrow> strtok d p = [p]"
  by (simp add: strtok_def pieces_last)

lemma pieces_snoc: "pieces d cur (s @ [d]) = pieces d cur s @ [[]]"
  by (induction s arbitrary: cur) auto

lemma strtok_snoc: "strtok d (s @ [d]) = strtok d s"
  by (simp add: strtok_def pieces_snoc)

lemma pieces_some: "c \<noteq> d \<Longrightarrow> c \<in> set s \<or> cur \<noteq> [] \<Longrightarrow> \<exists>p \<in> set (pieces d cur s). p \<noteq> []"
  by (induction s arbitrary: cur) force+

lemma strtok_some: "c \<in> set s \<Longrightarrow> c \<noteq> d \<Longrightarrow> strtok d s \<noteq> []"
  using pieces_some [of c d s "[]"] by (auto simp: strtok_def filter_empty_conv)

lemma strtok_two:
  assumes "s \<noteq> []" "hd s \<noteq> d" "last s \<noteq> d"
  shows "2 \<le> length (strtok d s) \<longleftrightarrow> d \<in> set s"
proof (cases "d \<in> set s")
  case True
  obtain p t where s: "s = p @ d # t" "d \<notin> set p" using split_list_first [OF True] by blast
  have p: "p \<noteq> []" using s assms(2) by auto
  have "t \<noteq> []" using s assms(3) by auto
  then have "strtok d t \<noteq> []" using assms(3) s strtok_some [of "last t" t d] by simp
  then show ?thesis using p s by (simp add: strtok_Cons Suc_le_eq)
next
  case False
  then show ?thesis using assms(1) by (simp add: strtok_last)
qed

section \<open>Week days\<close>

lemma is_valid_day_iff: "is_valid_day t \<longleftrightarrow> t \<in> set week_days"
  by (auto simp: is_valid_day_def list_ex_iff)

lemma day_length: "t \<in> set week_days \<Longrightarrow> length t = 3"
  by (auto simp: week_days_def)

lemma day_cmp: "a \<in> set week_days \<Longrightarrow> t \<in> set week_days \<Longrightarrow> strncmp_eq a t \<longleftrightarrow> a = t"
  using day_length [of a] day_length [of t] by (simp add: strncmp_eq_def)

lemma days_room:
  assumes "distinct arr" "set arr \<subseteq> set week_days" "t \<in> set week_days" "t \<notin> set arr"
  shows "length arr < 7"
proof -
  have "card (insert t (set arr)) \<le> card (set week_days)"
    using assms by (intro card_mono) auto
  moreover have "card (set week_days) = 7" by (simp add: week_days_def)
  ultimately show ?thesis using assms by (simp add: distinct_card)
qed

lemma days_loop_spec:
  "distinct arr \<Longrightarrow> set arr \<subseteq> set week_days \<Longrightarrow>
   days_loop arr ts = Some (set ts \<subseteq> set week_days \<and> distinct ts \<and> set ts \<inter> set arr = {})"
proof (induction ts arbitrary: arr)
  case Nil
  then show ?case by simp
next
  case (Cons t ts)
  show ?case
  proof (cases "t \<in> set week_days")
    case False
    then show ?thesis by (simp add: is_valid_day_iff)
  next
    case True
    have cmp: "list_ex (\<lambda>a. strncmp_eq a t) arr \<longleftrightarrow> t \<in> set arr"
      using Cons.prems True by (auto simp: list_ex_iff day_cmp subset_iff)
    show ?thesis
    proof (cases "t \<in> set arr")
      case True
      then show ?thesis using \<open>t \<in> set week_days\<close> cmp by (simp add: is_valid_day_iff)
    next
      case new: False
      have "length arr < 7" using days_room Cons.prems True new by blast
      moreover have "days_loop (arr @ [t]) ts =
          Some (set ts \<subseteq> set week_days \<and> distinct ts \<and> set ts \<inter> set (arr @ [t]) = {})"
        using Cons.prems True new by (intro Cons.IH) auto
      ultimately show ?thesis using True new cmp by (auto simp: is_valid_day_iff)
    qed
  qed
qed

text \<open>C20: a list of days is accepted exactly when its tokens are some week days, each at most once, and then the loop stays
  within the seven elements of its array, whatever the text; only the trailing comma is looked for at the wrong place.\<close>

theorem block_days_accepted:
  "block_days_ok dup before s = Some (dup s \<and> before \<noteq> CHR '','' \<and> strtok (CHR '','') s \<noteq> [] \<and>
     set (strtok (CHR '','') s) \<subseteq> set week_days \<and> distinct (strtok (CHR '','') s))"
  by (cases "strtok (CHR '','') s")
    (auto simp: block_days_ok_def days_loop_spec simp del: days_loop.simps)

text \<open>A list with a trailing comma is accepted like the list without it.\<close>

theorem trailing_comma_accepted:
  "(\<forall>t. dup t) \<Longrightarrow> block_days_ok dup before (s @ '','') = block_days_ok dup before s"
  by (simp add: block_days_accepted strtok_snoc)

theorem trailing_comma_accepted_witness:
  "block_days_ok (\<lambda>_. True) (CHR ''x'') (''Mon,Sat'' @ '','') = Some True"
proof -
  have t: "strtok (CHR '','') ''Mon,Sat'' = [''Mon'', ''Sat'']" by (simp add: strtok_def)
  show ?thesis
    by (subst trailing_comma_accepted) (simp_all add: block_days_accepted t week_days_def)
qed

section \<open>Web addresses\<close>

lemma tolower_dot: "tolower (CHR ''.'') = CHR ''.''"
  by (simp add: tolower_def)

lemma web_prefix:
  assumes "strncasecmp_eq s ''http://'' \<or> strncasecmp_eq s ''https://''"
  shows "s \<noteq> []" "hd s \<noteq> CHR ''.''"
proof -
  have "map tolower (take 1 s) = ''h''"
    using assms by (auto simp: strncasecmp_eq_def strcaseeq_def take_map [symmetric] tolower_def dest: arg_cong [where f = "take 1"])
  then show "s \<noteq> []" "hd s \<noteq> CHR ''.''" by (cases s; auto simp: tolower_dot)+
qed

text \<open>A web address is accepted exactly when its characters are allowed, it starts with http:// or https:// in any case,
  has a dot, and does not end in one.\<close>

theorem url_accepted:
  "is_url dup s \<longleftrightarrow> dup s \<and> (\<forall>c \<in> set s. url_char c) \<and>
     (strncasecmp_eq s ''http://'' \<or> strncasecmp_eq s ''https://'') \<and> CHR ''.'' \<in> set s \<and> last s \<noteq> CHR ''.''"
proof (cases "(strncasecmp_eq s ''http://'' \<or> strncasecmp_eq s ''https://'') \<and> last s \<noteq> CHR ''.''")
  case True
  then have "2 \<le> length (strtok (CHR ''.'') s) \<longleftrightarrow> CHR ''.'' \<in> set s"
    using web_prefix [of s] by (intro strtok_two) auto
  then show ?thesis using True by (auto simp: is_url_def list_all_iff not_less)
next
  case False
  then show ?thesis by (auto simp: is_url_def)
qed

section \<open>Descriptions\<close>

lemma desc_loop_spec:
  "desc_loop seen s \<longleftrightarrow> set s \<inter> set desc_special = {} \<and> (seen \<or> (\<exists>c \<in> set s. c \<noteq> CHR '' ''))"
  by (induction s arbitrary: seen) (auto simp: Let_def)

text \<open>A description is accepted exactly when it has a character other than a space and none of the six that the
  web pages must not see.\<close>

theorem description_accepted:
  "description_ok s \<longleftrightarrow> (\<exists>c \<in> set s. c \<noteq> CHR '' '') \<and> set s \<inter> set desc_special = {}"
  by (cases s) (auto simp: description_ok_def desc_loop_spec simp del: desc_loop.simps)

section \<open>Times of day\<close>

text \<open>The text \<open>HH:MM\<close>.\<close>

definition pad2 :: "nat \<Rightarrow> string" where
  "pad2 n = [digit (n div 10), digit (n mod 10)]"

definition clock :: "nat \<Rightarrow> nat \<Rightarrow> string" where
  "clock h m = pad2 h @ '':'' @ pad2 m"

lemma atoi_digits_pad2: "n < 100 \<Longrightarrow> atoi_digits 0 (pad2 n) = n"
  by (simp add: pad2_def digit_props less_mult_imp_div_less)

lemma scan_int_pad2:
  assumes "n < 100" "rest = [] \<or> \<not> isdigit (hd rest)" "w = None \<or> w = Some 2"
  shows "scan_int w (pad2 n @ rest) = Some (int n, rest)"
proof -
  define a b where "a = digit (n div 10)" and "b = digit (n mod 10)"
  have d: "n div 10 < 10" "n mod 10 < 10" using assms(1) by auto
  have ab: "isdigit a" "isdigit b" "\<not> isspace a" "a \<noteq> CHR ''-''" "a \<noteq> CHR ''+''"
    using digit_props [OF d(1)] digit_props [OF d(2)] by (simp_all add: a_def b_def)
  have p: "pad2 n = [a, b]" by (simp add: pad2_def a_def b_def)
  have r: "takeWhile isdigit rest = []" using assms(2) by (cases rest) auto
  have "clamp_int (int n) = int n" using assms(1) by (simp add: clamp_int_def)
  then have "clamp_int (int (atoi_digits 0 [a, b])) = int n" using atoi_digits_pad2 [OF assms(1)] by (simp add: p)
  then show ?thesis using assms(3) ab r by (auto simp: scan_int_def p Let_def simp del: atoi_digits.simps)
qed

lemma scan_pair_clock:
  assumes "h < 100" "m < 100" "w = None \<or> w = Some 2"
  shows "scan_pair w (clock h m) = Some (int h, int m, [])"
proof -
  have "scan_int w (pad2 h @ '':'' @ pad2 m) = Some (int h, '':'' @ pad2 m)"
    using assms by (intro scan_int_pad2) (auto simp: isdigit_def)
  moreover have "scan_int w (pad2 m @ []) = Some (int m, [])"
    using assms by (intro scan_int_pad2) auto
  ultimately show ?thesis by (simp add: scan_pair_def clock_def)
qed

lemma clock_reads:
  assumes "h < 100" "m < 100"
  shows "sscanf_time (clock h m) = Some (int h, int m)" "sscanf_chk (clock h m) = Some (int h, int m)"
  using assms by (simp_all add: sscanf_time_def sscanf_chk_def scan_pair_clock)

lemma ValidateTime_iff: "ValidateTime h m \<longleftrightarrow> 0 \<le> h \<and> h < 24 \<and> 0 \<le> m \<and> m < 60"
  by (auto simp: ValidateTime_def)

lemma CHK_TIME_iff: "CHK_TIME h m \<longleftrightarrow> ValidateTime h m"
  by (simp add: CHK_TIME_def ValidateTime_iff)

text \<open>The extra clause of the end time adds the hours below 0 and nothing else.\<close>

theorem end_time_accepted:
  "end_time_ok s \<longleftrightarrow> start_time_ok s \<or> (\<exists>h. sscanf_time s = Some (h, 59) \<and> h < 0)"
  by (auto simp: end_time_ok_def start_time_ok_def ValidateTime_iff split: option.split prod.split)

lemma negative_end_time: "end_time_ok ''-5:59''" "\<not> start_time_ok ''-5:59''"
proof -
  have "sscanf_time ''-5:59'' = Some (- 5, 59)"
    by (simp add: sscanf_time_def scan_pair_def scan_int_def isspace_def isdigit_def digit_val_def clamp_int_def)
  then show "end_time_ok ''-5:59''" "\<not> start_time_ok ''-5:59''"
    by (simp_all add: end_time_ok_def start_time_ok_def ValidateTime_iff)
qed

section \<open>The order of the two times\<close>

lemma packed_time_eq:
  assumes "0 \<le> m" "m < 2 ^ 16"
  shows "packed_time h m = h * 2 ^ 16 + m"
proof -
  have "and (push_bit 16 h) m = 0"
  proof (rule bit_eqI)
    fix n
    have "take_bit 16 m = m" using assms by (simp add: take_bit_int_eq_self)
    then have "\<not> bit m n" if "16 \<le> n" using that by (metis bit_take_bit_iff not_le)
    then show "bit (and (push_bit 16 h) m) n = bit 0 n" by (auto simp: bit_and_iff bit_push_bit_iff)
  qed
  then have "or (push_bit 16 h) m = push_bit 16 h + m" by (simp add: disjunctive_add_eq_or)
  then show ?thesis by (simp add: packed_time_def push_bit_eq_mult)
qed

lemma two_digit_less:
  fixes k h1 h2 m1 m2 :: int
  assumes "0 \<le> m1" "m1 < k" "0 \<le> m2" "m2 < k"
  shows "h1 * k + m1 < h2 * k + m2 \<longleftrightarrow> h1 < h2 \<or> h1 = h2 \<and> m1 < m2"
proof -
  have less: "a * k + x < b * k + y" if "a < b" "x < k" "0 \<le> y" "0 \<le> k" for a b x y
  proof -
    have "(a + 1) * k \<le> b * k" using that by (intro mult_right_mono) auto
    then show ?thesis using that by (simp add: distrib_right)
  qed
  show ?thesis
    using less [of h1 h2 m1 m2] less [of h2 h1 m2 m1] assms by (cases h1 h2 rule: linorder_cases) auto
qed

lemma packed_time_less:
  assumes "ValidateTime h1 m1" "ValidateTime h2 m2"
  shows "packed_time h1 m1 < packed_time h2 m2 \<longleftrightarrow> 60 * h1 + m1 < 60 * h2 + m2"
  using assms two_digit_less [of m1 "2 ^ 16" m2 h1 h2] two_digit_less [of m1 60 m2 h1 h2]
  by (simp add: ValidateTime_iff packed_time_eq mult.commute)

text \<open>C18: the packed comparison of the board layer is the comparison of the minutes since midnight: the check passes exactly when
  the rule always blocks or lacks a time, or both times are read and the first is the earlier one.\<close>

theorem chktime_compares_minutes:
  "fst (CosaDmlMngSites_Chktime e) \<longleftrightarrow> bu_AlwaysBlock e \<or> \<not> bu_StartTimeFlg e \<or> \<not> bu_EndTimeFlg e \<or>
     (\<exists>h1 m1 h2 m2. sscanf_chk (bu_StartTime e) = Some (h1, m1) \<and> sscanf_chk (bu_EndTime e) = Some (h2, m2) \<and>
        ValidateTime h1 m1 \<and> ValidateTime h2 m2 \<and> 60 * h1 + m1 < 60 * h2 + m2)"
  by (cases "sscanf_chk (bu_StartTime e)"; cases "sscanf_chk (bu_EndTime e)")
    (auto simp: CosaDmlMngSites_Chktime_def Let_def CHK_TIME_iff packed_time_less split: if_split_asm)

text \<open>A time of the day written as HH:MM is accepted by both setters, is read back as that time, and a rule from one such
  time to another passes the order check exactly when the first is earlier.\<close>

theorem clock_times_accepted:
  assumes "h1 < 24" "m1 < 60" "h2 < 24" "m2 < 60"
    and "\<not> bu_AlwaysBlock e" "bu_StartTimeFlg e" "bu_EndTimeFlg e" "bu_StartTime e = clock h1 m1" "bu_EndTime e = clock h2 m2"
  shows "start_time_ok (clock h1 m1) \<and> end_time_ok (clock h2 m2) \<and>
    CosaDmlMngSites_Chktime e = (60 * h1 + m1 < 60 * h2 + m2, e)"
proof -
  note c = clock_reads [of h1 m1] clock_reads [of h2 m2]
  have v: "ValidateTime (int h1) (int m1)" "ValidateTime (int h2) (int m2)" using assms by (simp_all add: ValidateTime_iff)
  have "e\<lparr>bu_StartTimeFlg := True, bu_EndTimeFlg := True\<rparr> = e" using assms(6,7) by (cases e) simp
  then have "CosaDmlMngSites_Chktime e = (packed_time (int h1) (int m1) < packed_time (int h2) (int m2), e)"
    using assms c v by (simp add: CosaDmlMngSites_Chktime_def CHK_TIME_iff)
  moreover have "packed_time (int h1) (int m1) < packed_time (int h2) (int m2) \<longleftrightarrow> 60 * h1 + m1 < 60 * h2 + m2"
    unfolding packed_time_less [OF v] by linarith
  ultimately show ?thesis using assms c v by (simp add: start_time_ok_def end_time_ok_def)
qed

definition ex_blocked :: COSA_DML_BLOCKEDURL where
  "ex_blocked = \<lparr>bu_InstanceNumber = 1, bu_Alias = ''cpe-BlockedURL-1'', bu_BlockMethod = BLOCK_METHOD_URL,
     bu_Site = ''http://a.b'', bu_AlwaysBlock = False, bu_StartTime = ''19:00'', bu_EndTime = ''22:05'',
     bu_StartTimeFlg = True, bu_EndTimeFlg = True, bu_BlockDays = ''Sat'', bu_MAC = [], bu_DeviceName = []\<rparr>"

theorem clock_times_accepted_witness:
  "start_time_ok ''19:00'' \<and> end_time_ok ''22:05'' \<and> CosaDmlMngSites_Chktime ex_blocked = (True, ex_blocked)"
proof -
  have c: "clock 19 0 = ''19:00''" "clock 22 5 = ''22:05''" by (simp_all add: clock_def pad2_def digit_def)
  show ?thesis using clock_times_accepted [of 19 0 22 5 ex_blocked] by (simp add: c ex_blocked_def)
qed

theorem chktime_compares_minutes_witness:
  "fst (CosaDmlMngSites_Chktime (ex_blocked\<lparr>bu_StartTime := clock 22 5, bu_EndTime := clock 19 30\<rparr>)) = False \<and>
   fst (CosaDmlMngSites_Chktime (ex_blocked\<lparr>bu_StartTime := clock 19 30, bu_EndTime := clock 22 5\<rparr>)) = True"
  unfolding chktime_compares_minutes by (simp add: ex_blocked_def clock_reads ValidateTime_iff)

section \<open>Hardware addresses\<close>

text \<open>Six pairs of hexadecimal digits are accepted; so are six numbers with a sign.\<close>

lemma scan_hex2_pair:
  assumes "hexdigit a" "hexdigit b"
  shows "scan_hex2 (a # b # r) = Some r"
proof -
  have x: "\<not> isspace c \<and> c \<noteq> CHR ''-'' \<and> c \<noteq> CHR ''+'' \<and> c \<noteq> CHR ''x'' \<and> c \<noteq> CHR ''X''" if "hexdigit c" for c
    using that by (auto simp: hexdigit_def isdigit_def isspace_def)
  show ?thesis using assms x [OF assms(1)] x [OF assms(2)] by (simp add: scan_hex2_def Let_def)
qed

lemma mac_pairs_accepted:
  assumes "\<forall>c \<in> set [a1, b1, a2, b2, a3, b3, a4, b4, a5, b5, a6, b6]. hexdigit c"
  shows "mac_accepted [a1, b1, CHR '':'', a2, b2, CHR '':'', a3, b3, CHR '':'', a4, b4, CHR '':'', a5, b5, CHR '':'', a6, b6]"
  using assms by (simp add: mac_accepted_def scan_mac.simps scan_hex2_pair)

lemma signed_mac_accepted: "mac_accepted ''-1:-1:-1:-1:-1:-1''"
  by (simp add: mac_accepted_def scan_mac.simps scan_hex2_def isspace_def hexdigit_def isdigit_def)

end
