(* ===== verification/Pc_Params.thy ===== *)
theory Pc_Params
  imports Pc_Handlers Pc_Text_Props
begin

text \<open>
  The parameters of the rows of the five tables: the getters and setters of
  \<open>cosa_x_comcast_com_parentalcontrol_dml.c\<close> and the \<open>Validate\<close> handler of the blocked addresses. A handler works on the row
  its link object points to; the result has the row afterwards.
\<close>

text \<open>A string getter: \<open>strcpy_s\<close> into the buffer of the caller, which has \<open>bufsize\<close> bytes. \<open>None\<close> is the buffer left alone.\<close>

definition get_text :: "nat \<Rightarrow> string \<Rightarrow> ULONG \<times> string option" where
  "get_text bufsize s = (case strcpy_s bufsize s of (ok, t) \<Rightarrow> (if ok then 0 else - 1, Some t))"

text \<open>The days of a list are accepted. The loop never writes past its array (\<open>block_days_accepted\<close>), so \<open>None\<close> does
  not occur.\<close>

definition days_accepted :: "('s, 'c, 'r) pc_libs \<Rightarrow> string \<Rightarrow> bool" where
  "days_accepted L s \<longleftrightarrow> block_days_ok (pl_strdup L) (pl_before L) s = Some True"

definition BUFF_SIZE :: nat where "BUFF_SIZE = 2048"

section \<open>PcBlkURL\<close>

definition PcBlkURL_GetParamBoolValue :: "COSA_DML_BLOCKEDURL \<Rightarrow> string \<Rightarrow> bool option" where
  "PcBlkURL_GetParamBoolValue e ParamName = (if ParamName = ''AlwaysBlock'' then Some (bu_AlwaysBlock e) else None)"

definition PcBlkURL_GetParamUlongValue :: "COSA_DML_BLOCKEDURL \<Rightarrow> string \<Rightarrow> ULONG option" where
  "PcBlkURL_GetParamUlongValue e ParamName =
     (if ParamName = ''BlockMethod'' then Some (bu_BlockMethod e) else None)"

definition PcBlkURL_GetParamStringValue :: "COSA_DML_BLOCKEDURL \<Rightarrow> string \<Rightarrow> nat \<Rightarrow> ULONG \<times> string option" where
  "PcBlkURL_GetParamStringValue e ParamName bufsize =
     (if ParamName = ''Site'' then get_text bufsize (bu_Site e)
      else if ParamName = ''StartTime'' then get_text bufsize (bu_StartTime e)
      else if ParamName = ''EndTime'' then get_text bufsize (bu_EndTime e)
      else if ParamName = ''BlockDays'' then get_text bufsize (bu_BlockDays e)
      else (- 1, None))"

definition PcBlkURL_SetParamBoolValue :: "('s, 'c, 'r) pc_libs \<Rightarrow> COSA_DML_BLOCKEDURL \<Rightarrow> string \<Rightarrow> bool \<Rightarrow> bool \<times> COSA_DML_BLOCKEDURL" where
  "PcBlkURL_SetParamBoolValue L e ParamName bValue =
     (if bridge_blocked (pl_libs L) then (False, e)
      else if ParamName = ''AlwaysBlock'' then (True, e\<lparr>bu_AlwaysBlock := bValue\<rparr>) else (False, e))"

definition PcBlkURL_SetParamUlongValue :: "('s, 'c, 'r) pc_libs \<Rightarrow> COSA_DML_BLOCKEDURL \<Rightarrow> string \<Rightarrow> ULONG \<Rightarrow> bool \<times> COSA_DML_BLOCKEDURL" where
  "PcBlkURL_SetParamUlongValue L e ParamName ulValue =
     (if bridge_blocked (pl_libs L) then (False, e)
      else if ParamName = ''BlockMethod'' then (True, e\<lparr>bu_BlockMethod := ulValue\<rparr>) else (False, e))"

definition PcBlkURL_SetParamStringValue :: "('s, 'c, 'r) pc_libs \<Rightarrow> COSA_DML_BLOCKEDURL \<Rightarrow> string \<Rightarrow> string \<Rightarrow>
    bool \<times> COSA_DML_BLOCKEDURL" where
  "PcBlkURL_SetParamStringValue L e ParamName strValue =
     (if \<not> pl_AnscValidStringCheck L strValue then (False, e)
      else if bridge_blocked (pl_libs L) then (False, e)
      else if ParamName = ''Site'' then
        (if length strValue > BUFF_SIZE then (False, e)
         else if is_url (pl_strdup L) strValue \<or> bu_BlockMethod e = BLOCK_METHOD_KEYWORD
           then (True, e\<lparr>bu_Site := snprintf PC_SITE strValue\<rparr>)
         else (False, e))
      else if ParamName = ''StartTime'' then
        (if start_time_ok strValue
         then (True, e\<lparr>bu_StartTime := snprintf PC_TEXT strValue, bu_StartTimeFlg := True\<rparr>) else (False, e))
      else if ParamName = ''EndTime'' then
        (if end_time_ok strValue
         then (True, e\<lparr>bu_EndTime := snprintf PC_TEXT strValue, bu_EndTimeFlg := True\<rparr>) else (False, e))
      else if ParamName = ''BlockDays'' then
        (if days_accepted L strValue then (True, e\<lparr>bu_BlockDays := snprintf PC_TEXT strValue\<rparr>) else (False, e))
      else (False, e))"

definition PcBlkURL_Validate :: "('s, 'c, 'r) pc_libs \<Rightarrow> COSA_DML_BLOCKEDURL \<Rightarrow> bool \<times> COSA_DML_BLOCKEDURL" where
  "PcBlkURL_Validate L e = (if pl_product L then CosaDmlMngSites_Chktime e else (True, e))"

section \<open>PcTrustedUser\<close>

definition PcTrustedUser_GetParamBoolValue :: "COSA_DML_TRUSTEDUSER \<Rightarrow> string \<Rightarrow> bool option" where
  "PcTrustedUser_GetParamBoolValue e ParamName = (if ParamName = ''Trusted'' then Some (tu_Trusted e) else None)"

definition PcTrustedUser_GetParamUlongValue :: "COSA_DML_TRUSTEDUSER \<Rightarrow> string \<Rightarrow> ULONG option" where
  "PcTrustedUser_GetParamUlongValue e ParamName =
     (if ParamName = ''IPAddressType'' then Some (tu_IPAddressType e) else None)"

definition PcTrustedUser_GetParamStringValue :: "COSA_DML_TRUSTEDUSER \<Rightarrow> string \<Rightarrow> nat \<Rightarrow> ULONG \<times> string option" where
  "PcTrustedUser_GetParamStringValue e ParamName bufsize =
     (if ParamName = ''HostDescription'' then get_text bufsize (tu_HostDescription e)
      else if ParamName = ''IPAddress'' then get_text bufsize (tu_IPAddress e)
      else (- 1, None))"

definition PcTrustedUser_SetParamBoolValue :: "('s, 'c, 'r) pc_libs \<Rightarrow> COSA_DML_TRUSTEDUSER \<Rightarrow> string \<Rightarrow> bool \<Rightarrow> bool \<times> COSA_DML_TRUSTEDUSER" where
  "PcTrustedUser_SetParamBoolValue L e ParamName bValue =
     (if bridge_blocked (pl_libs L) then (False, e)
      else if ParamName = ''Trusted'' then (True, e\<lparr>tu_Trusted := bValue\<rparr>) else (False, e))"

definition PcTrustedUser_SetParamUlongValue :: "('s, 'c, 'r) pc_libs \<Rightarrow> COSA_DML_TRUSTEDUSER \<Rightarrow> string \<Rightarrow> ULONG \<Rightarrow> bool \<times> COSA_DML_TRUSTEDUSER" where
  "PcTrustedUser_SetParamUlongValue L e ParamName ulValue =
     (if bridge_blocked (pl_libs L) then (False, e)
      else if ParamName = ''IPAddressType'' then (True, e\<lparr>tu_IPAddressType := ulValue\<rparr>) else (False, e))"

definition PcTrustedUser_SetParamStringValue :: "('s, 'c, 'r) pc_libs \<Rightarrow> COSA_DML_TRUSTEDUSER \<Rightarrow> string \<Rightarrow> string \<Rightarrow>
    bool \<times> COSA_DML_TRUSTEDUSER" where
  "PcTrustedUser_SetParamStringValue L e ParamName strValue =
     (if \<not> pl_AnscValidStringCheck L strValue then (False, e)
      else if bridge_blocked (pl_libs L) then (False, e)
      else if ParamName = ''HostDescription'' then (True, e\<lparr>tu_HostDescription := snprintf PC_TEXT strValue\<rparr>)
      else if ParamName = ''IPAddress'' then
        (if tu_IPAddressType e = IPADDR_IPV4 \<and> pl_is_IpAddress L strValue \<or>
            tu_IPAddressType e = IPADDR_IPV6 \<and> pl_is_Ipv6_address L strValue
         then (True, e\<lparr>tu_IPAddress := snprintf PC_TEXT strValue\<rparr>) else (False, e))
      else (False, e))"

section \<open>MSServ\<close>

definition MSServ_GetParamBoolValue :: "COSA_DML_MS_SERV \<Rightarrow> string \<Rightarrow> bool option" where
  "MSServ_GetParamBoolValue e ParamName = (if ParamName = ''AlwaysBlock'' then Some (ms_AlwaysBlock e) else None)"

definition MSServ_GetParamUlongValue :: "COSA_DML_MS_SERV \<Rightarrow> string \<Rightarrow> ULONG option" where
  "MSServ_GetParamUlongValue e ParamName =
     (if ParamName = ''Protocol'' then Some (ms_Protocol e)
      else if ParamName = ''StartPort'' then Some (ms_StartPort e)
      else if ParamName = ''EndPort'' then Some (ms_EndPort e) else None)"

definition MSServ_GetParamStringValue :: "COSA_DML_MS_SERV \<Rightarrow> string \<Rightarrow> nat \<Rightarrow> ULONG \<times> string option" where
  "MSServ_GetParamStringValue e ParamName bufsize =
     (if ParamName = ''Description'' then get_text bufsize (ms_Description e)
      else if ParamName = ''StartTime'' then get_text bufsize (ms_StartTime e)
      else if ParamName = ''EndTime'' then get_text bufsize (ms_EndTime e)
      else if ParamName = ''BlockDays'' then get_text bufsize (ms_BlockDays e)
      else (- 1, None))"

definition MSServ_SetParamBoolValue :: "('s, 'c, 'r) pc_libs \<Rightarrow> COSA_DML_MS_SERV \<Rightarrow> string \<Rightarrow> bool \<Rightarrow> bool \<times> COSA_DML_MS_SERV" where
  "MSServ_SetParamBoolValue L e ParamName bValue =
     (if bridge_blocked (pl_libs L) then (False, e)
      else if ParamName = ''AlwaysBlock'' then (True, e\<lparr>ms_AlwaysBlock := bValue\<rparr>) else (False, e))"

definition MSServ_SetParamUlongValue :: "('s, 'c, 'r) pc_libs \<Rightarrow> COSA_DML_MS_SERV \<Rightarrow> string \<Rightarrow> ULONG \<Rightarrow> bool \<times> COSA_DML_MS_SERV" where
  "MSServ_SetParamUlongValue L e ParamName ulValue =
     (if bridge_blocked (pl_libs L) then (False, e)
      else if ParamName = ''Protocol'' then (True, e\<lparr>ms_Protocol := ulValue\<rparr>)
      else if ParamName = ''StartPort'' then
        (if 1 \<le> ulValue \<and> ulValue \<le> 65535 then (True, e\<lparr>ms_StartPort := ulValue\<rparr>) else (False, e))
      else if ParamName = ''EndPort'' then
        (if ms_StartPort e \<le> ulValue \<and> ulValue \<le> 65535 then (True, e\<lparr>ms_EndPort := ulValue\<rparr>) else (False, e))
      else (False, e))"

definition MSServ_SetParamStringValue :: "('s, 'c, 'r) pc_libs \<Rightarrow> COSA_DML_MS_SERV \<Rightarrow> string \<Rightarrow> string \<Rightarrow>
    bool \<times> COSA_DML_MS_SERV" where
  "MSServ_SetParamStringValue L e ParamName strValue =
     (if bridge_blocked (pl_libs L) then (False, e)
      else if ParamName = ''Description'' then
        (if description_ok strValue then (True, e\<lparr>ms_Description := snprintf PC_TEXT strValue\<rparr>) else (False, e))
      else if \<not> pl_AnscValidStringCheck L strValue then (False, e)
      else if ParamName = ''StartTime'' then
        (if start_time_ok strValue then (True, e\<lparr>ms_StartTime := snprintf PC_TEXT strValue\<rparr>) else (False, e))
      else if ParamName = ''EndTime'' then
        (if end_time_ok strValue then (True, e\<lparr>ms_EndTime := snprintf PC_TEXT strValue\<rparr>) else (False, e))
      else if ParamName = ''BlockDays'' then
        (if days_accepted L strValue then (True, e\<lparr>ms_BlockDays := snprintf PC_TEXT strValue\<rparr>) else (False, e))
      else (False, e))"

section \<open>MSTrustedUser\<close>

definition MSTrustedUser_GetParamBoolValue :: "COSA_DML_MS_TRUSTEDUSER \<Rightarrow> string \<Rightarrow> bool option" where
  "MSTrustedUser_GetParamBoolValue e ParamName = (if ParamName = ''Trusted'' then Some (mt_Trusted e) else None)"

definition MSTrustedUser_GetParamUlongValue :: "COSA_DML_MS_TRUSTEDUSER \<Rightarrow> string \<Rightarrow> ULONG option" where
  "MSTrustedUser_GetParamUlongValue e ParamName =
     (if ParamName = ''IPAddressType'' then Some (mt_IPAddressType e) else None)"

definition MSTrustedUser_GetParamStringValue :: "COSA_DML_MS_TRUSTEDUSER \<Rightarrow> string \<Rightarrow> nat \<Rightarrow> ULONG \<times> string option" where
  "MSTrustedUser_GetParamStringValue e ParamName bufsize =
     (if ParamName = ''HostDescription'' then get_text bufsize (mt_HostDescription e)
      else if ParamName = ''IPAddress'' then get_text bufsize (mt_IPAddress e)
      else (- 1, None))"

definition MSTrustedUser_SetParamBoolValue :: "('s, 'c, 'r) pc_libs \<Rightarrow> COSA_DML_MS_TRUSTEDUSER \<Rightarrow> string \<Rightarrow> bool \<Rightarrow> bool \<times> COSA_DML_MS_TRUSTEDUSER" where
  "MSTrustedUser_SetParamBoolValue L e ParamName bValue =
     (if bridge_blocked (pl_libs L) then (False, e)
      else if ParamName = ''Trusted'' then (True, e\<lparr>mt_Trusted := bValue\<rparr>) else (False, e))"

definition MSTrustedUser_SetParamUlongValue :: "('s, 'c, 'r) pc_libs \<Rightarrow> COSA_DML_MS_TRUSTEDUSER \<Rightarrow> string \<Rightarrow> ULONG \<Rightarrow> bool \<times> COSA_DML_MS_TRUSTEDUSER" where
  "MSTrustedUser_SetParamUlongValue L e ParamName ulValue =
     (if bridge_blocked (pl_libs L) then (False, e)
      else if ParamName = ''IPAddressType'' then (True, e\<lparr>mt_IPAddressType := ulValue\<rparr>) else (False, e))"

definition MSTrustedUser_SetParamStringValue :: "('s, 'c, 'r) pc_libs \<Rightarrow> COSA_DML_MS_TRUSTEDUSER \<Rightarrow> string \<Rightarrow> string \<Rightarrow>
    bool \<times> COSA_DML_MS_TRUSTEDUSER" where
  "MSTrustedUser_SetParamStringValue L e ParamName strValue =
     (if bridge_blocked (pl_libs L) then (False, e)
      else if \<not> pl_AnscValidStringCheck L strValue then (False, e)
      else if ParamName = ''HostDescription'' then (True, e\<lparr>mt_HostDescription := snprintf PC_TEXT strValue\<rparr>)
      else if ParamName = ''IPAddress'' then
        (if mt_IPAddressType e = IPADDR_IPV4 \<and> pl_is_IpAddress L strValue \<or>
            mt_IPAddressType e = IPADDR_IPV6 \<and> pl_is_Ipv6_address L strValue
         then (True, e\<lparr>mt_IPAddress := snprintf PC_TEXT strValue\<rparr>) else (False, e))
      else (False, e))"

section \<open>MDDev\<close>

definition MDDev_GetParamBoolValue :: "COSA_DML_MD_DEV \<Rightarrow> string \<Rightarrow> bool option" where
  "MDDev_GetParamBoolValue e ParamName = (if ParamName = ''AlwaysBlock'' then Some (de_AlwaysBlock e) else None)"

definition MDDev_GetParamUlongValue :: "COSA_DML_MD_DEV \<Rightarrow> string \<Rightarrow> ULONG option" where
  "MDDev_GetParamUlongValue e ParamName =
     (if ParamName = ''Type'' then Some (de_Type e) else None)"

definition MDDev_GetParamStringValue :: "COSA_DML_MD_DEV \<Rightarrow> string \<Rightarrow> nat \<Rightarrow> ULONG \<times> string option" where
  "MDDev_GetParamStringValue e ParamName bufsize =
     (if ParamName = ''Description'' then get_text bufsize (de_Description e)
      else if ParamName = ''MACAddress'' then get_text bufsize (de_MACAddress e)
      else if ParamName = ''StartTime'' then get_text bufsize (de_StartTime e)
      else if ParamName = ''EndTime'' then get_text bufsize (de_EndTime e)
      else if ParamName = ''BlockDays'' then get_text bufsize (de_BlockDays e)
      else (- 1, None))"

definition MDDev_SetParamBoolValue :: "('s, 'c, 'r) pc_libs \<Rightarrow> COSA_DML_MD_DEV \<Rightarrow> string \<Rightarrow> bool \<Rightarrow> bool \<times> COSA_DML_MD_DEV" where
  "MDDev_SetParamBoolValue L e ParamName bValue =
     (if bridge_blocked (pl_libs L) then (False, e)
      else if ParamName = ''AlwaysBlock'' then (True, e\<lparr>de_AlwaysBlock := bValue\<rparr>) else (False, e))"

definition MDDev_SetParamUlongValue :: "('s, 'c, 'r) pc_libs \<Rightarrow> COSA_DML_MD_DEV \<Rightarrow> string \<Rightarrow> ULONG \<Rightarrow> bool \<times> COSA_DML_MD_DEV" where
  "MDDev_SetParamUlongValue L e ParamName ulValue =
     (if bridge_blocked (pl_libs L) then (False, e)
      else if ParamName = ''Type'' then (True, e\<lparr>de_Type := ulValue\<rparr>) else (False, e))"

definition MDDev_SetParamStringValue :: "('s, 'c, 'r) pc_libs \<Rightarrow> COSA_DML_MD_DEV \<Rightarrow> string \<Rightarrow> string \<Rightarrow>
    bool \<times> COSA_DML_MD_DEV" where
  "MDDev_SetParamStringValue L e ParamName strValue =
     (if bridge_blocked (pl_libs L) then (False, e)
      else if ParamName = ''Description'' then
        (if description_ok strValue then (True, e\<lparr>de_Description := snprintf PC_TEXT strValue\<rparr>) else (False, e))
      else if \<not> pl_AnscValidStringCheck L strValue then (False, e)
      else if ParamName = ''MACAddress'' then
        (if mac_accepted strValue then (True, e\<lparr>de_MACAddress := snprintf PC_TEXT strValue\<rparr>) else (False, e))
      else if ParamName = ''StartTime'' then
        (if start_time_ok strValue then (True, e\<lparr>de_StartTime := snprintf PC_TEXT strValue\<rparr>) else (False, e))
      else if ParamName = ''EndTime'' then
        (if end_time_ok strValue then (True, e\<lparr>de_EndTime := snprintf PC_TEXT strValue\<rparr>) else (False, e))
      else if ParamName = ''BlockDays'' then
        (if days_accepted L strValue then (True, e\<lparr>de_BlockDays := snprintf PC_TEXT strValue\<rparr>) else (False, e))
      else (False, e))"

end
