(* ===== verification/Pc_Props.thy ===== *)
theory Pc_Props
  imports Pc_Start Pc_Params
begin

text \<open>
  The properties of parental control: the tables over any board layer that keeps the contract, the simulated board as such a
  board layer, and the restart.
\<close>

section \<open>A small instance\<close>

definition ex_pc :: "(ustore, ustore, rview) pc_libs" where
  "ex_pc = \<lparr>pl_libs = mem_libs, pl_DelRecord = rv_del_record, pl_DelFolder = rv_del_folder, pl_root = Some [],
     pl_junk_fo = (\<lambda>n. (None, None)), pl_strdup = (\<lambda>s. True), pl_before = CHR ''x'', pl_AnscValidStringCheck = (\<lambda>s. True),
     pl_is_IpAddress = (\<lambda>s. True), pl_is_Ipv6_address = (\<lambda>s. True), pl_product = True\<rparr>"

lemma ex_pc_ok: "pc_reg_ok ex_pc (\<lambda>r. r)"
  by (simp add: pc_reg_ok_def pc_ir_def ex_pc_def mem_irep_ok mem_irep_total mem_noclobber_ok)

definition ex_serv :: COSA_DML_MS_SERV where
  "ex_serv = \<lparr>ms_InstanceNumber = 0, ms_Alias = [], ms_Description = [], ms_Protocol = 1, ms_StartPort = 0, ms_EndPort = 0,
     ms_AlwaysBlock = False, ms_StartTime = [], ms_EndTime = [], ms_BlockDays = []\<rparr>"
definition ex_tuser :: COSA_DML_TRUSTEDUSER where
  "ex_tuser = \<lparr>tu_InstanceNumber = 0, tu_Alias = [], tu_HostDescription = [], tu_IPAddressType = IPADDR_IPV4,
     tu_IPAddress = [], tu_Trusted = False\<rparr>"
definition ex_stuser :: COSA_DML_MS_TRUSTEDUSER where
  "ex_stuser = \<lparr>mt_InstanceNumber = 0, mt_Alias = [], mt_HostDescription = [], mt_IPAddressType = IPADDR_IPV4,
     mt_IPAddress = [], mt_Trusted = False\<rparr>"
definition ex_dev :: COSA_DML_MD_DEV where
  "ex_dev = \<lparr>de_InstanceNumber = 0, de_Alias = [], de_Type = 1, de_Description = [], de_MACAddress = [],
     de_AlwaysBlock = False, de_StartTime = [], de_EndTime = [], de_BlockDays = []\<rparr>"

definition ex_junk :: pc_junk where
  "ex_junk = \<lparr>ju_blk = (\<lambda>n. ex_blocked), ju_tuser = (\<lambda>n. ex_tuser), ju_serv = (\<lambda>n. ex_serv), ju_stuser = (\<lambda>n. ex_stuser),
     ju_dev = (\<lambda>n. ex_dev)\<rparr>"

text \<open>A board whose first table has the given rows; the other tables are empty.\<close>

definition ex_sim :: "COSA_DML_BLOCKEDURL list \<Rightarrow> sim_board" where
  "ex_sim es = \<lparr>g_ManagedSites = \<lparr>si_Enable = False\<rparr>, g_ManagedServs = \<lparr>sv_Enable = False\<rparr>,
     g_ManagedDevs = \<lparr>dv_Enable = False, dv_AllowAll = False\<rparr>,
     g_BlockedURLs = \<lparr>sim_rows = take 4 (es @ replicate 4 ex_blocked), sim_Nr = length es\<rparr>,
     g_TrustedUsers = \<lparr>sim_rows = replicate 4 ex_tuser, sim_Nr = 0\<rparr>, g_MSServs = \<lparr>sim_rows = replicate 4 ex_serv, sim_Nr = 0\<rparr>,
     g_MSTrustedUsers = \<lparr>sim_rows = replicate 4 ex_stuser, sim_Nr = 0\<rparr>, g_MDDevs = \<lparr>sim_rows = replicate 4 ex_dev, sim_Nr = 0\<rparr>\<rparr>"

lemma ex_sim_blk: "length es \<le> 4 \<Longrightarrow> sim_ok (g_BlockedURLs (ex_sim es)) \<and> sim_view (g_BlockedURLs (ex_sim es)) = es"
  by (simp add: ex_sim_def sim_ok_def sim_view_def MAX_ENTRY_def)

definition ex_folder :: path where "ex_folder = [COSA_IREP_FOLDER_NAME_PARENTALCONTROL]"

definition ex_registry :: rview where
  "ex_registry = [[] \<mapsto> empty_folder\<lparr>rf_subs := [COSA_IREP_FOLDER_NAME_PARENTALCONTROL]\<rparr>, ex_folder \<mapsto> empty_folder]"

definition ex_table :: "'e pc_table" where
  "ex_table = \<lparr>tb_List = [], tb_NextInsNum = 1, tb_hIrepFolder = Some ex_folder\<rparr>"

definition ex_env :: "COSA_DML_BLOCKEDURL list \<Rightarrow> (sim_board, rview) pc_env" where
  "ex_env es = \<lparr>en_board = ex_sim es, en_registry = ex_registry, en_allocs = 0\<rparr>"

lemma ex_table_simps [simp]:
  "tb_List ex_table = []" "tb_NextInsNum ex_table = 1" "tb_hIrepFolder ex_table = Some ex_folder"
  by (simp_all add: ex_table_def)

lemma ex_env_simps [simp]:
  "en_board (ex_env es) = ex_sim es" "en_registry (ex_env es) = ex_registry" "en_allocs (ex_env es) = 0"
  by (simp_all add: ex_env_def)

lemma ex_registry_simps [simp]:
  "ex_registry ex_folder = Some empty_folder" "ex_registry [] = Some (empty_folder\<lparr>rf_subs := [COSA_IREP_FOLDER_NAME_PARENTALCONTROL]\<rparr>)"
  by (simp_all add: ex_registry_def ex_folder_def)

lemma empty_folder_simps [simp]: "rf_subs empty_folder = []" "rf_uint empty_folder k = None" "rf_str empty_folder k = None"
  by (simp_all add: empty_folder_def)

lemma ex_inv_empty: "pc_inv bu_InstanceNumber (sim_view (g_BlockedURLs (ex_sim []))) ex_table k"
  using ex_sim_blk [of "[]"] by (simp add: pc_inv_def)

lemma BlkURL_ins: "k_ins BlkURL_kind = bu_InstanceNumber"
  by (simp add: BlkURL_kind_def)

lemmas blk_board = blk_sim.pc_board_axioms [folded BlkURL_ins]

definition ex_obj :: "COSA_DML_BLOCKEDURL pc_obj" where
  "ex_obj = \<lparr>ob_entry = ex_blocked\<lparr>bu_Site := ''http://c.d''\<rparr>, ob_hPoamIrepUpperFo = None, ob_hPoamIrepFo = None\<rparr>"

definition ex_rowlink :: "bool \<Rightarrow> COSA_DML_BLOCKEDURL pc_obj cosa_link" where
  "ex_rowlink new = pc_link 0 1 new ex_obj"

definition ex_one :: "bool \<Rightarrow> COSA_DML_BLOCKEDURL pc_table" where
  "ex_one new = ex_table\<lparr>tb_List := [ex_rowlink new], tb_NextInsNum := 2\<rparr>"

definition ex_env1 :: "COSA_DML_BLOCKEDURL list \<Rightarrow> (sim_board, rview) pc_env" where
  "ex_env1 es = (ex_env es)\<lparr>en_allocs := 1\<rparr>"

lemma ex_env1_simps [simp]:
  "en_board (ex_env1 es) = ex_sim es" "en_registry (ex_env1 es) = ex_registry" "en_allocs (ex_env1 es) = 1"
  by (simp_all add: ex_env1_def)

lemma ex_rowlink_simps [simp]:
  "lnk_addr (ex_rowlink b) = 0" "lnk_InstanceNumber (ex_rowlink b) = 1" "lnk_bNew (ex_rowlink b) = b"
  "lnk_hContext (ex_rowlink b) = ex_obj"
  by (simp_all add: ex_rowlink_def)

lemma ex_one_inv:
  "pc_inv bu_InstanceNumber (if b then [] else [ex_blocked]) (ex_one b) 1" "ex_rowlink b \<in> set (tb_List (ex_one b))"
  by (auto simp: ex_one_def pc_inv_def links_ok_def table_wf_def ex_obj_def ex_blocked_def)

section \<open>The tables\<close>

lemma put_link_mem: "l \<in> set ls \<Longrightarrow> lnk_addr l' = lnk_addr l \<Longrightarrow> l' \<in> set (put_link ls l')"
  by (auto simp: put_link_def intro!: image_eqI [of _ _ l])

text \<open>Whatever sequence of additions, deletions, commits, rollbacks and parameter changes the management system makes, the
  table of the middle layer and the rows of the board layer stay consistent: the committed rows are the rows of the board, each with
  its own number, the list is sorted by number without duplicates, and every number lies below the counter.\<close>

theorem pc_table_invariant:
  assumes "pc_board B (k_ins K) put norm core view ok start" "kind_ok K" "(pc_step L K B J)\<^sup>*\<^sup>* (t, v) (t', v')"
    and "ok (en_board v)" "pc_inv (k_ins K) (view (en_board v)) t (en_allocs v)"
  shows "ok (en_board v') \<and> pc_inv (k_ins K) (view (en_board v')) t' (en_allocs v')"
  using pc_board.steps_keep [OF assms(1,3,2) refl] assms(4,5) by simp

theorem pc_table_invariant_witness:
  "case pc_AddEntry ex_pc BlkURL_kind (ju_blk ex_junk) ex_table (ex_env []) of (h, t, v) \<Rightarrow>
     pc_inv bu_InstanceNumber (sim_view (g_BlockedURLs (en_board v))) t (en_allocs v)"
proof (cases "pc_AddEntry ex_pc BlkURL_kind (ju_blk ex_junk) ex_table (ex_env [])")
  case (fields h t v)
  have step: "pc_step ex_pc BlkURL_kind BlkURL_ops_sim (ju_blk ex_junk) (ex_table, ex_env []) (t, v)"
    by (rule pc_step.add [OF fields]) simp
  have "pc_inv (k_ins BlkURL_kind) (sim_view (g_BlockedURLs (en_board v))) t (en_allocs v)"
    using pc_table_invariant [OF blk_board kinds_ok(1) r_into_rtranclp [of "pc_step ex_pc BlkURL_kind BlkURL_ops_sim (ju_blk ex_junk)", OF step]]
      ex_inv_empty [of 0] ex_sim_blk [of "[]"] by (simp add: BlkURL_ins)
  then show ?thesis by (simp add: fields BlkURL_ins)
qed

text \<open>C14: a row that was committed can be changed in any way that keeps its number; a rollback then gives it the committed values
  back, as the board layer stores them.\<close>

theorem committed_row_restored:
  assumes b: "pc_board B (k_ins K) put norm core view ok start" "ok (en_board v)" and i: "pc_inv (k_ins K) (view (en_board v)) t (en_allocs v)"
    and l: "l \<in> set (tb_List t)" "pc_Commit L K B t v l = (0, t1, v1)"
    and l1: "l1 \<in> set (tb_List t1)" "lnk_InstanceNumber l1 = lnk_InstanceNumber l" "k_ins K e = lnk_InstanceNumber l"
    and r: "pc_Rollback K B (pc_put t1 (pc_set_entry l1 e)) v1 (pc_set_entry l1 e) = (r, t2, v2)"
  shows "r = 0 \<and> (\<exists>x. core x = core (norm (ob_entry (lnk_hContext l))) \<and> pc_set_entry l1 x \<in> set (tb_List t2))"
proof -
  note c = pc_board.commit_keeps [OF b(1) l(2,1) b(2) refl i]
  have i1: "pc_inv (k_ins K) (view (en_board v1)) t1 (en_allocs v1)" using c by simp
  let ?l = "pc_set_entry l1 e" and ?t = "pc_put t1 (pc_set_entry l1 e)"
  have i2: "pc_inv (k_ins K) (view (en_board v1)) ?t (en_allocs v1)"
    using pc_board.set_keeps [OF b(1) l1(1) _ i1] inv_num [OF i1 l1(1)] l1(2,3) by simp
  have mem: "?l \<in> set (tb_List ?t)"
    using put_link_mem [OF l1(1)] by simp
  have at: "row_at (k_ins K) (lnk_InstanceNumber l) (view (en_board v1)) = Some (norm (ob_entry (lnk_hContext l)))" using c by simp
  have "lnk_InstanceNumber l1 \<in> k_ins K ` set (view (en_board v1))" using row_at_Some [OF at] l1(2) by (metis imageI)
  then have old: "\<not> lnk_bNew l1" using inv_new_iff [OF i1 l1(1)] by simp
  have "\<exists>x. t2 = pc_put ?t (pc_set_entry ?l x) \<and> (case row_at (k_ins K) (lnk_InstanceNumber l) (view (en_board v1)) of
      Some y \<Rightarrow> core x = core y | None \<Rightarrow> x = e) \<and> (r = 0 \<longleftrightarrow> \<not> lnk_bNew l1)"
    using pc_board.rollback_keeps [OF b(1) r mem _ refl i2] c l1(2) by simp
  then obtain x where t2: "t2 = pc_put ?t (pc_set_entry ?l x)" "core x = core (norm (ob_entry (lnk_hContext l)))" "r = 0"
    using c at l1(2) old by auto
  have "pc_set_entry ?l x \<in> set (tb_List t2)" using put_link_mem [OF mem] by (simp add: t2(1))
  then show ?thesis using t2 by (auto simp: pc_set_entry_def)
qed

lemma ex_commit:
  "pc_Commit ex_pc BlkURL_kind BlkURL_ops_sim (ex_one False) (ex_env1 [ex_blocked]) (ex_rowlink False) =
     (0, ex_one False, ex_env1 [ob_entry ex_obj])"
proof -
  have c: "CosaDmlBlkURL_SetConf_sim 1 (ob_entry ex_obj) (ex_sim [ex_blocked]) = (ANSC_SUCCESS, ex_sim [ob_entry ex_obj])"
    by (simp add: CosaDmlBlkURL_SetConf_sim_def sim_SetConf_def sim_InsGetIndex_def BlkURL_row_def ex_sim_def ex_obj_def
        ex_blocked_def)
  have n: "bu_InstanceNumber (ob_entry ex_obj) = 1" by (simp add: ex_obj_def ex_blocked_def)
  show ?thesis using c n by (simp add: pc_Commit_def BlkURL_ops_sim_def BlkURL_kind_def Let_def ex_env1_def ex_env_def)
qed

theorem committed_row_restored_witness:
  "\<exists>t2 v2. pc_Rollback BlkURL_kind BlkURL_ops_sim (pc_put (ex_one False) (pc_set_entry (ex_rowlink False) ex_blocked))
       (ex_env1 [ob_entry ex_obj]) (pc_set_entry (ex_rowlink False) ex_blocked) = (0, t2, v2) \<and>
     pc_set_entry (ex_rowlink False) (ex_blocked\<lparr>bu_Site := ''http://c.d''\<rparr>) \<in> set (tb_List t2)"
proof -
  obtain r t2 v2 where r: "pc_Rollback BlkURL_kind BlkURL_ops_sim (pc_put (ex_one False) (pc_set_entry (ex_rowlink False) ex_blocked))
       (ex_env1 [ob_entry ex_obj]) (pc_set_entry (ex_rowlink False) ex_blocked) = (r, t2, v2)" by (metis prod_cases3)
  have "r = 0 \<and> (\<exists>x. id x = id (id (ob_entry (lnk_hContext (ex_rowlink False)))) \<and> pc_set_entry (ex_rowlink False) x \<in> set (tb_List t2))"
    by (rule committed_row_restored [OF blk_board _ _ ex_one_inv(2) ex_commit ex_one_inv(2) refl _ r])
      (use ex_sim_blk [of "[ex_blocked]"] ex_one_inv(1) [of False] in \<open>simp_all add: BlkURL_ins ex_blocked_def\<close>)
  then show ?thesis using r by (simp add: ex_obj_def)
qed

text \<open>C30: deleting a committed row removes it from the list and from the board layer, and no other row; a row that was added and not
  committed cannot be deleted at all: the handler reports a failure and the row stays.\<close>

theorem delete_row:
  assumes b: "pc_board B (k_ins K) put norm core view ok start" "ok (en_board v)" and i: "pc_inv (k_ins K) (view (en_board v)) t (en_allocs v)"
    and l: "l \<in> set (tb_List t)" "pc_DelEntry L B t v l = (r, t', v')"
  shows "if lnk_bNew l then r = - 1 \<and> t' = t \<and> view (en_board v') = view (en_board v)
    else r = 0 \<and> set (tb_List t') = set (tb_List t) - {l} \<and>
      (\<forall>n. row_at (k_ins K) n (view (en_board v')) =
        (if n = lnk_InstanceNumber l then None else row_at (k_ins K) n (view (en_board v))))"
proof -
  note d = pc_board.del_keeps [OF b(1) l(2,1) b(2) i]
  show ?thesis
  proof (cases "lnk_bNew l")
    case True
    then show ?thesis using d by simp
  next
    case False
    obtain s c where e: "bo_DelEntry B (lnk_InstanceNumber l) (en_board v) = (s, c)" by force
    note w = pc_board.del [OF b(1,2) e]
    have s: "ansc_ok s" using w inv_new_iff [OF i l(1)] False by simp
    have "set (tb_List t) - {l} = {x \<in> set (tb_List t). lnk_addr x \<noteq> lnk_addr l}" using inv_inj [OF i] l(1) by blast
    moreover have "distinct (map (k_ins K) (view (en_board v)))" using i by (simp add: pc_inv_def)
    moreover have "r = 0" "tb_List t' = AnscSListPopEntryByLink (tb_List t) (lnk_addr l)" "en_board v' = c"
      using False l(2) e s by (simp_all add: pc_DelEntry_def Let_def, auto)
    ultimately show ?thesis using False w by (simp add: row_at_del)
  qed
qed

theorem delete_row_witness:
  "\<exists>v'. pc_DelEntry ex_pc BlkURL_ops_sim (ex_one True) (ex_env1 []) (ex_rowlink True) = (- 1, ex_one True, v')"
proof -
  obtain r t' v' where d: "pc_DelEntry ex_pc BlkURL_ops_sim (ex_one True) (ex_env1 []) (ex_rowlink True) = (r, t', v')"
    by (metis prod_cases3)
  have "if lnk_bNew (ex_rowlink True) then r = - 1 \<and> t' = ex_one True \<and>
      sim_view (g_BlockedURLs (en_board v')) = sim_view (g_BlockedURLs (en_board (ex_env1 [])))
    else r = 0 \<and> set (tb_List t') = set (tb_List (ex_one True)) - {ex_rowlink True} \<and>
      (\<forall>n. row_at (k_ins BlkURL_kind) n (sim_view (g_BlockedURLs (en_board v'))) =
        (if n = lnk_InstanceNumber (ex_rowlink True) then None
         else row_at (k_ins BlkURL_kind) n (sim_view (g_BlockedURLs (en_board (ex_env1 []))))))"
    by (rule delete_row [OF blk_board _ _ ex_one_inv(2) d])
      (use ex_sim_blk [of "[]"] ex_one_inv(1) [of True] in \<open>simp_all add: BlkURL_ins\<close>)
  then show ?thesis using d by simp
qed

section \<open>The simulated board\<close>

text \<open>C24: the simulated board's table of blocked addresses, an array of four rows with a count that is shifted when a row is deleted,
  behaves as a list of at most four rows: adding appends while there is room, deleting removes exactly the row of the number,
  writing replaces it, and reading finds it.\<close>

theorem sim_board_is_list:
  assumes "sim_ok (g_BlockedURLs b)"
    and "CosaDmlBlkURL_AddEntry_sim e b = (s1, b1)" "CosaDmlBlkURL_DelEntry_sim n b = (s2, b2)"
    and "CosaDmlBlkURL_SetConf_sim (bu_InstanceNumber e) e b = (s3, b3)" "CosaDmlBlkURL_GetConf_sim n x b = (s4, y, b4)"
  defines "view \<equiv> \<lambda>c. sim_view (g_BlockedURLs c)"
  shows "((ansc_ok s1 \<longleftrightarrow> length (view b) < 4) \<and> view b1 = (if length (view b) < 4 then view b @ [e] else view b)) \<and>
    ((ansc_ok s2 \<longleftrightarrow> n \<in> bu_InstanceNumber ` set (view b)) \<and> view b2 = row_del bu_InstanceNumber n (view b)) \<and>
    ((ansc_ok s3 \<longleftrightarrow> bu_InstanceNumber e \<in> bu_InstanceNumber ` set (view b)) \<and>
       view b3 = row_set bu_InstanceNumber (bu_InstanceNumber e) e (view b)) \<and>
    ((if ansc_ok s4 then row_at bu_InstanceNumber n (view b) = Some y else row_at bu_InstanceNumber n (view b) = None) \<and> b4 = b) \<and>
    sim_ok (g_BlockedURLs b1) \<and> sim_ok (g_BlockedURLs b2) \<and> sim_ok (g_BlockedURLs b3)"
proof -
  note ops = BlkURL_ops_sim_def
  have a: "bo_AddEntry BlkURL_ops_sim e b = (s1, b1)" "bo_DelEntry BlkURL_ops_sim n b = (s2, b2)"
    "bo_SetConf BlkURL_ops_sim (bu_InstanceNumber e) e b = (s3, b3)" "bo_GetConf BlkURL_ops_sim n x b = (s4, y, b4)"
    using assms(2-5) by (simp_all add: ops)
  note r = blk_sim.add [OF assms(1) a(1)] blk_sim.del [OF assms(1) a(2)] blk_sim.set_conf [OF assms(1) refl a(3)]
    blk_sim.get_conf [OF assms(1) a(4)]
  have "ansc_ok s1 \<longleftrightarrow> length (view b) < 4"
    using assms(1,2) by (auto simp: view_def CosaDmlBlkURL_AddEntry_sim_def sim_AddEntry_def length_view MAX_ENTRY_def
        split: if_split_asm)
  then have v1: "(ansc_ok s1 \<longleftrightarrow> length (view b) < 4) \<and> view b1 = (if length (view b) < 4 then view b @ [e] else view b)"
    using r(1) by (simp add: view_def)
  have "b4 = b" using assms(5) by (auto simp: CosaDmlBlkURL_GetConf_sim_def split: prod.split_asm)
  then have "(if ansc_ok s4 then row_at bu_InstanceNumber n (view b) = Some y else row_at bu_InstanceNumber n (view b) = None) \<and> b4 = b"
    using r(4) by (auto simp: view_def split: option.split_asm)
  then show ?thesis using v1 r(1-3) unfolding view_def id_apply by blast
qed

end
