(* ===== verification/Pc_Restart.thy ===== *)
theory Pc_Restart
  imports Pc_Props
begin

text \<open>
  Parental control across operations and restarts: what adding a row leaves in the registry, that committing it takes that away
  again, what a restart makes of the committed rows, and that all five tables read a row that one of them did not commit.
\<close>

section \<open>A new row in the registry\<close>

definition new_alias :: "'e pc_kind \<Rightarrow> ULONG \<Rightarrow> string" where
  "new_alias K n = k_prefix K @ dec_int (sint n)"

lemma new_alias_fits: "length (k_prefix K) \<le> 32 \<Longrightarrow> length (new_alias K n) < PC_ALIAS"
  using length_dec_int [of n] by (simp add: new_alias_def PC_ALIAS_def)

lemma prefixes_fit:
  "length (k_prefix BlkURL_kind) \<le> 32" "length (k_prefix TrustedUser_kind) \<le> 32" "length (k_prefix MSServ_kind) \<le> 32"
  "length (k_prefix MSTrustedUser_kind) \<le> 32" "length (k_prefix MDDev_kind) \<le> 32"
  by (simp_all add: BlkURL_kind_def TrustedUser_kind_def MSServ_kind_def MSTrustedUser_kind_def MDDev_kind_def)

lemma AddEntry_writes:
  assumes L: "pc_reg_ok L w" and K: "kind_ok K" "length (k_prefix K) \<le> 32" and n: "tb_NextInsNum t + 1 \<noteq> 0"
    and p: "tb_hIrepFolder t = Some p" "w (en_registry v) p = Some f" "new_alias K (tb_NextInsNum t) \<notin> set (rf_subs f)"
    and a: "pc_AddEntry L K J t v = (h, t', v')"
  defines "al \<equiv> new_alias K (tb_NextInsNum t)"
  shows "\<exists>e. h = Some (en_allocs v, tb_NextInsNum t) \<and> k_ins K e = tb_NextInsNum t \<and> k_alias K e = al \<and>
    t' = t\<lparr>tb_NextInsNum := tb_NextInsNum t + 1, tb_List := CosaSListPushEntryByInsNum (tb_List t)
      (pc_link (en_allocs v) (tb_NextInsNum t) True \<lparr>ob_entry = e, ob_hPoamIrepUpperFo = Some p, ob_hPoamIrepFo = Some (p @ [al])\<rparr>)\<rparr> \<and>
    en_board v' = en_board v \<and> w (en_registry v') =
      (w (en_registry v))(p \<mapsto> counted K (tb_NextInsNum t + 1) f\<lparr>rf_subs := rf_subs f @ [al]\<rparr>, p @ [al] \<mapsto> row_folder K e)"
proof -
  let ?n = "tb_NextInsNum t" and ?t1 = "t\<lparr>tb_NextInsNum := tb_NextInsNum t + 1\<rparr>"
  let ?v2 = "v\<lparr>en_allocs := Suc (Suc (en_allocs v))\<rparr>"
  define e where "e = k_set_alias K al (k_set_ins K ?n (J (Suc (en_allocs v))))"
  have e: "k_ins K e = ?n" "k_alias K e = al" using K by (simp_all add: e_def kind_ok_def)
  have take: "k_take K ?n = (?n, ?n + 1)" using K(1) n by (simp add: kind_ok_def)
  have fits: "sprintf_s PC_ALIAS (k_prefix K @ dec_int (sint ?n)) = Some al"
    using new_alias_fits [OF K(2), of ?n] by (simp add: al_def new_alias_def)
  obtain s fo v3 where ai: "pc_AddInfo L K ?t1 e ?v2 = (s, fo, v3)" by (metis prod_cases3)
  note W = AddInfo_writes [OF L _ _ _ ai, of p f]
  have "fo = Some (p, p @ [al])" "en_board v3 = en_board v" "w (en_registry v3) =
      (w (en_registry v))(p \<mapsto> counted K (?n + 1) f\<lparr>rf_subs := rf_subs f @ [al]\<rparr>, p @ [al] \<mapsto> row_folder K e)"
    using W p e by (simp_all add: al_def)
  moreover from this have "h = Some (en_allocs v, ?n)" "v' = v3" "t' = ?t1\<lparr>tb_List := CosaSListPushEntryByInsNum (tb_List t)
      (pc_link (en_allocs v) ?n True \<lparr>ob_entry = e, ob_hPoamIrepUpperFo = Some p, ob_hPoamIrepFo = Some (p @ [al])\<rparr>)\<rparr>"
    using a take fits ai by (simp_all add: pc_AddEntry_def pc_reg_okD(6) [OF L] Let_def e_def)
  ultimately show ?thesis using e by (intro exI [of _ e]) simp
qed

text \<open>C16: adding a row writes it into the registry under its alias, and committing it takes it away again: afterwards the registry
  folder lists what it listed before, the folder of the row is gone, and the board layer has the row under its number.\<close>

theorem add_commit_clears_registry:
  assumes B: "pc_board B (k_ins K) put norm core view ok start" "ok (en_board v)" and L: "pc_reg_ok L w"
    and K: "kind_ok K" "length (k_prefix K) \<le> 32" and n: "tb_NextInsNum t + 1 \<noteq> 0"
    and i: "pc_inv (k_ins K) (view (en_board v)) t (en_allocs v)"
    and p: "tb_hIrepFolder t = Some p" "w (en_registry v) p = Some f" "new_alias K (tb_NextInsNum t) \<notin> set (rf_subs f)"
    and a: "pc_AddEntry L K J t v = (Some (h, num), t1, v1)"
    and c: "l \<in> set (tb_List t1)" "lnk_addr l = h" "pc_Commit L K B t1 v1 l = (0, t2, v2)"
  shows "w (en_registry v1) (p @ [new_alias K num]) \<noteq> None \<and> w (en_registry v2) (p @ [new_alias K num]) = None \<and>
    map_option rf_subs (w (en_registry v2) p) = Some (rf_subs f) \<and>
    row_at (k_ins K) num (view (en_board v2)) = Some (norm (ob_entry (lnk_hContext l)))"
proof -
  let ?al = "new_alias K num"
  obtain e where e: "h = en_allocs v" "num = tb_NextInsNum t"
      "t1 = t\<lparr>tb_NextInsNum := num + 1, tb_List := CosaSListPushEntryByInsNum (tb_List t)
        (pc_link h num True \<lparr>ob_entry = e, ob_hPoamIrepUpperFo = Some p, ob_hPoamIrepFo = Some (p @ [?al])\<rparr>)\<rparr>"
      "en_board v1 = en_board v" "w (en_registry v1) =
        (w (en_registry v))(p \<mapsto> counted K (num + 1) f\<lparr>rf_subs := rf_subs f @ [?al]\<rparr>, p @ [?al] \<mapsto> row_folder K e)"
    using AddEntry_writes [OF L K n p a] by auto
  have i1: "pc_inv (k_ins K) (view (en_board v1)) t1 (en_allocs v1)"
    using pc_board.add_keeps [OF B(1) a K(1) refl n i] .
  let ?l = "pc_link h num True \<lparr>ob_entry = e, ob_hPoamIrepUpperFo = Some p, ob_hPoamIrepFo = Some (p @ [?al])\<rparr>"
  have "?l \<in> set (tb_List t1)" by (simp add: e(3))
  then have l: "l = ?l" using inv_inj [OF i1 c(1)] c(2) by simp
  note k = pc_board.commit_keeps [OF B(1) c(3,1) _ refl i1]
  have "row_at (k_ins K) num (view (en_board v2)) = Some (norm (ob_entry (lnk_hContext l)))"
    using k B(2) by (simp add: e(4) l)
  moreover obtain b where "v2 = snd (pc_DelInfo L (lnk_hContext l) (v1\<lparr>en_board := b\<rparr>))"
    using c(3) by (auto simp: pc_Commit_def l Let_def split: prod.split_asm if_split_asm)
  then have "w (en_registry v2) = rv_del_folder (w (en_registry v1)) p ?al"
    using DelInfo_removes [OF L, of "lnk_hContext l" p ?al "v1\<lparr>en_board := b\<rparr>"] by (simp add: l)
  ultimately show ?thesis using p(3) e(2,5) by (auto simp: rv_del_folder_def filter_id_conv)
qed

section \<open>A restart\<close>

text \<open>When no row waits to be committed, a restart gives the table of the middle layer exactly the rows of the board layer, in
  the fields that reading a row fills in, as committed rows sorted by number, and a consistent counter; the board layer keeps its rows.\<close>

theorem restart_loads_committed_rows:
  assumes "pc_board B (k_ins K) put norm core view ok start" "pc_reg_ok L w" "pl_root L = Some root"
    and "start (en_board v)" "\<forall>e \<in> set (view (en_board v)). k_ins K e \<noteq> 0 \<and> k_ins K e + 1 \<noteq> 0" "distinct (map (k_ins K) (view (en_board v)))"
    and "p = root @ [COSA_IREP_FOLDER_NAME_PARENTALCONTROL]" "w (en_registry v) root = Some fr"
      "COSA_IREP_FOLDER_NAME_PARENTALCONTROL \<in> set (rf_subs fr)" "w (en_registry v) p = Some f" "rf_subs f = []"
    and "rf_uint f COSA_DML_RR_NAME_PARENTALCONTROL_NextInsNumber \<noteq> Some 0"
    and "pc_load_table L K B J t v = (s, t', v')"
  shows "s = ANSC_SUCCESS \<and> image_mset core (mset (rows_of t')) = image_mset core (mset (view (en_board v))) \<and> view (en_board v') = view (en_board v) \<and>
    sorted (map lnk_InstanceNumber (tb_List t')) \<and> (\<forall>l \<in> set (tb_List t'). \<not> lnk_bNew l) \<and>
    pc_inv (k_ins K) (view (en_board v')) t' (en_allocs v')"
  using pc_board.load_table_nothing_pending [OF assms(1-3) refl assms(4) refl assms(5-13)]
  by (simp add: pc_inv_def links_ok_def table_wf_def)

lemma row_folder_reads:
  "(case rf_uint (row_folder K e) k of Some n \<Rightarrow> n | None \<Rightarrow> 0) = (if k = k_rr_InsNum K then k_ins K e else 0)"
  "(case rf_str (row_folder K e) k of Some a \<Rightarrow> a | None \<Rightarrow> []) = (if k = k_rr_Alias K then k_alias K e else [])"
  by (simp_all add: row_folder_def)

lemma counted_next: "rf_uint (counted K n f) k = (if k = k_rr_NextInsNumber K then Some n else rf_uint f k)"
  by (simp add: counted_def)

text \<open>C28: all five tables keep their uncommitted rows in one folder of the registry. After a restart, a row that one table added
  and did not commit is therefore a new row of every table that is loaded: with its number and alias where the other table uses the
  same names for its records, and with number 0 and no alias where it does not.\<close>

theorem uncommitted_row_in_every_table:
  assumes L: "pc_reg_ok L w" "pl_root L = Some root" and K: "kind_ok K" "length (k_prefix K) \<le> 32" "tb_NextInsNum t + 1 \<noteq> 0"
    and p: "p = root @ [COSA_IREP_FOLDER_NAME_PARENTALCONTROL]" "w (en_registry v) root = Some fr"
      "COSA_IREP_FOLDER_NAME_PARENTALCONTROL \<in> set (rf_subs fr)" "w (en_registry v) p = Some f" "rf_subs f = []"
      "rf_uint f COSA_DML_RR_NAME_PARENTALCONTROL_NextInsNumber \<noteq> Some 0" "tb_hIrepFolder t = Some p"
    and a: "pc_AddEntry L K J t v = (Some (h, num), t1, v1)"
    and B: "pc_board B (k_ins K2) put norm core view ok start" "kind_ok K2" "start (en_board v)" "distinct (map (k_ins K2) (view (en_board v)))"
      "\<forall>e \<in> set (view (en_board v)). k_ins K2 e \<noteq> 0 \<and> k_ins K2 e + 1 \<noteq> 0"
    and r: "pc_load_table L K2 B J2 t2 v1 = (s, t3, v3)"
  shows "s = ANSC_SUCCESS \<and> view (en_board v3) = view (en_board v) \<and> (\<exists>l \<in> set (tb_List t3). lnk_bNew l \<and>
      lnk_InstanceNumber l = (if k_rr_InsNum K2 = k_rr_InsNum K then num else 0) \<and>
      k_alias K2 (ob_entry (lnk_hContext l)) = (if k_rr_Alias K2 = k_rr_Alias K then new_alias K num else []))"
proof -
  let ?al = "new_alias K num" and ?f1 = "counted K (num + 1) f\<lparr>rf_subs := [new_alias K num]\<rparr>"
  obtain e where e: "num = tb_NextInsNum t" "k_ins K e = num" "k_alias K e = ?al" "en_board v1 = en_board v"
      "w (en_registry v1) = (w (en_registry v))(p \<mapsto> ?f1, p @ [?al] \<mapsto> row_folder K e)"
    using AddEntry_writes [OF L(1) K p(7,4) _ a] p(5) by auto
  have "root \<noteq> p" "root \<noteq> p @ [?al]" using p(1) by simp_all
  then have reg: "w (en_registry v1) root = Some fr" "w (en_registry v1) p = Some ?f1" "w (en_registry v1) (p @ [?al]) = Some (row_folder K e)"
    using p(2) by (simp_all add: e(5))
  have c: "rf_uint ?f1 COSA_DML_RR_NAME_PARENTALCONTROL_NextInsNumber \<noteq> Some 0"
    using p(6) K(3) e(1) by (simp add: counted_next)
  have b: "start (en_board v1)" "\<forall>e \<in> set (view (en_board v1)). k_ins K2 e \<noteq> 0 \<and> k_ins K2 e + 1 \<noteq> 0"
      "distinct (map (k_ins K2) (view (en_board v1)))" using B(3-5) by (simp_all add: e(4))
  obtain t4 v4 where l: "pc_load_table L K2 B J2 t2 v1 = (case pc_GetInfo L K2 J2 t4 v4 of (_, t2, v2) \<Rightarrow> (ANSC_SUCCESS, t2, v2))"
      "tb_hIrepFolder t4 = Some p" "view (en_board v4) = view (en_board v1)" "en_registry v4 = en_registry v1"
    using pc_board.load_table_fresh [OF B(1) L refl b(1) refl b(2,3) p(1) reg(1) p(3) reg(2) c] by blast
  have subs: "rf_subs ?f1 = [?al]" by simp
  obtain v5 ob where g: "pc_GetInfo L K2 J2 t4 v4 = (ANSC_SUCCESS, t4\<lparr>tb_List := CosaSListPushEntryByInsNum (tb_List t4)
        (pc_link (en_allocs v4) (if k_rr_InsNum K2 = k_rr_InsNum K then num else 0) True ob)\<rparr>, v5)"
      "k_alias K2 (ob_entry ob) = (if k_rr_Alias K2 = k_rr_Alias K then ?al else [])" "en_board v5 = en_board v4"
    using GetInfo_single [OF L(1) l(2) reg(2) [folded l(4)] subs reg(3) [folded l(4)] B(2), of J2, unfolded row_folder_reads e(2,3) Let_def]
      new_alias_fits [OF K(2), of num] by (auto simp: PC_ALIAS_def)
  show ?thesis using r l(1,3) g e(4) by auto
qed

section \<open>Instances\<close>

lemma ex_start:
  "pl_root ex_pc = Some []" "ex_folder = [] @ [COSA_IREP_FOLDER_NAME_PARENTALCONTROL]" "bu_InstanceNumber ex_blocked = 1"
  "COSA_IREP_FOLDER_NAME_PARENTALCONTROL \<in> set ex_folder"
  by (simp_all add: ex_pc_def ex_folder_def ex_blocked_def)

lemma ex_add:
  obtains h t1 v1 where "pc_AddEntry ex_pc BlkURL_kind (ju_blk ex_junk) ex_table (ex_env []) = (Some (h, 1), t1, v1)"
    "\<exists>l \<in> set (tb_List t1). lnk_addr l = h \<and> lnk_bNew l"
    "en_board v1 = ex_sim []" "tb_hIrepFolder t1 = Some ex_folder"
proof -
  obtain h' t1 v1 where a: "pc_AddEntry ex_pc BlkURL_kind (ju_blk ex_junk) ex_table (ex_env []) = (h', t1, v1)"
    by (metis prod_cases3)
  show ?thesis
    using AddEntry_writes [OF ex_pc_ok kinds_ok(1) prefixes_fit(1) _ _ _ _ a, of ex_folder empty_folder] a that by auto
qed

theorem restart_loads_committed_rows_witness:
  "\<exists>t' v'. pc_load_table ex_pc BlkURL_kind BlkURL_ops_sim (ju_blk ex_junk) ex_table (ex_env [ex_blocked]) = (ANSC_SUCCESS, t', v') \<and>
     rows_of t' = [ex_blocked]"
proof -
  obtain s t' v' where r: "pc_load_table ex_pc BlkURL_kind BlkURL_ops_sim (ju_blk ex_junk) ex_table (ex_env [ex_blocked]) = (s, t', v')"
    by (metis prod_cases3)
  have "s = ANSC_SUCCESS \<and> image_mset id (mset (rows_of t')) = image_mset id (mset (sim_view (g_BlockedURLs (en_board (ex_env [ex_blocked]))))) \<and>
    sim_view (g_BlockedURLs (en_board v')) = sim_view (g_BlockedURLs (en_board (ex_env [ex_blocked]))) \<and>
    sorted (map lnk_InstanceNumber (tb_List t')) \<and> (\<forall>l \<in> set (tb_List t'). \<not> lnk_bNew l) \<and>
    pc_inv (k_ins BlkURL_kind) (sim_view (g_BlockedURLs (en_board v'))) t' (en_allocs v')"
    by (rule restart_loads_committed_rows [where root = "[]" and p = ex_folder and f = empty_folder and
          fr = "empty_folder\<lparr>rf_subs := [COSA_IREP_FOLDER_NAME_PARENTALCONTROL]\<rparr>", OF blk_board ex_pc_ok])
      (use ex_sim_blk [of "[ex_blocked]"] r ex_start in \<open>simp_all add: BlkURL_ins\<close>)
  then show ?thesis using r ex_sim_blk [of "[ex_blocked]"] by simp
qed

theorem uncommitted_row_in_every_table_witness:
  "case pc_AddEntry ex_pc BlkURL_kind (ju_blk ex_junk) ex_table (ex_env []) of (_, t1, v1) \<Rightarrow>
   case pc_load_table ex_pc MDDev_kind MDDev_ops_sim (ju_dev ex_junk) ex_table v1 of (s, t3, v3) \<Rightarrow>
     \<exists>l \<in> set (tb_List t3). lnk_bNew l \<and> lnk_InstanceNumber l = 0 \<and> de_Alias (ob_entry (lnk_hContext l)) = []"
proof -
  obtain h t1 v1 where a: "pc_AddEntry ex_pc BlkURL_kind (ju_blk ex_junk) ex_table (ex_env []) = (Some (h, 1), t1, v1)"
    using ex_add by metis
  obtain s t3 v3 where r: "pc_load_table ex_pc MDDev_kind MDDev_ops_sim (ju_dev ex_junk) ex_table v1 = (s, t3, v3)"
    by (metis prod_cases3)
  have dev: "k_ins MDDev_kind = de_InstanceNumber" "k_alias MDDev_kind = de_Alias"
    "k_rr_InsNum MDDev_kind \<noteq> k_rr_InsNum BlkURL_kind" "k_rr_Alias MDDev_kind \<noteq> k_rr_Alias BlkURL_kind"
    by (simp_all add: MDDev_kind_def BlkURL_kind_def)
  have e: "sim_ok (g_MDDevs (ex_sim []))" "sim_view (g_MDDevs (ex_sim [])) = []"
    by (simp_all add: ex_sim_def sim_ok_def sim_view_def MAX_ENTRY_def)
  have "s = ANSC_SUCCESS \<and> sim_view (g_MDDevs (en_board v3)) = sim_view (g_MDDevs (en_board (ex_env []))) \<and>
    (\<exists>l \<in> set (tb_List t3). lnk_bNew l \<and>
      lnk_InstanceNumber l = (if k_rr_InsNum MDDev_kind = k_rr_InsNum BlkURL_kind then 1 else 0) \<and>
      k_alias MDDev_kind (ob_entry (lnk_hContext l)) =
        (if k_rr_Alias MDDev_kind = k_rr_Alias BlkURL_kind then new_alias BlkURL_kind 1 else []))"
    by (rule uncommitted_row_in_every_table [where root = "[]" and p = ex_folder and f = empty_folder and
          fr = "empty_folder\<lparr>rf_subs := [COSA_IREP_FOLDER_NAME_PARENTALCONTROL]\<rparr>" and ?K2.0 = MDDev_kind,
          OF ex_pc_ok _ kinds_ok(1) prefixes_fit(1) _ _ _ _ _ _ _ _ a dev_sim.pc_board_axioms [folded dev(1)] kinds_ok(5)])
      (use e r ex_start in \<open>simp_all\<close>)
  then show ?thesis using a r dev by simp
qed

theorem add_commit_clears_registry_witness:
  "\<exists>h t1 v1 l t2 v2. pc_AddEntry ex_pc BlkURL_kind (ju_blk ex_junk) ex_table (ex_env []) = (Some (h, 1), t1, v1) \<and>
     l \<in> set (tb_List t1) \<and> pc_Commit ex_pc BlkURL_kind BlkURL_ops_sim t1 v1 l = (0, t2, v2) \<and>
     en_registry v2 (ex_folder @ [new_alias BlkURL_kind 1]) = None"
proof -
  obtain h t1 v1 where a: "pc_AddEntry ex_pc BlkURL_kind (ju_blk ex_junk) ex_table (ex_env []) = (Some (h, 1), t1, v1)"
      "\<exists>l \<in> set (tb_List t1). lnk_addr l = h \<and> lnk_bNew l" "en_board v1 = ex_sim []"
    using ex_add by metis
  then obtain l where l: "l \<in> set (tb_List t1)" "lnk_addr l = h" "lnk_bNew l" by blast
  obtain t2 v2 where c: "pc_Commit ex_pc BlkURL_kind BlkURL_ops_sim t1 v1 l = (0, t2, v2)"
    using l(3) a(3) by (auto simp: pc_Commit_def BlkURL_ops_sim_def CosaDmlBlkURL_AddEntry_sim_def sim_AddEntry_def Let_def
        ex_sim_def MAX_ENTRY_def)
  have "en_registry v1 (ex_folder @ [new_alias BlkURL_kind 1]) \<noteq> None \<and> en_registry v2 (ex_folder @ [new_alias BlkURL_kind 1]) = None \<and>
    map_option rf_subs (en_registry v2 ex_folder) = Some (rf_subs empty_folder) \<and>
    row_at (k_ins BlkURL_kind) 1 (sim_view (g_BlockedURLs (en_board v2))) = Some (id (ob_entry (lnk_hContext l)))"
    by (rule add_commit_clears_registry [OF blk_board _ ex_pc_ok kinds_ok(1) prefixes_fit(1) _ _ _ _ _ a(1) l(1,2) c])
      (use ex_sim_blk [of "[]"] ex_inv_empty [of 0] in \<open>simp_all add: BlkURL_ins\<close>)
  then show ?thesis using a(1) l(1) c by blast
qed

section \<open>Witness of the list view\<close>

theorem sim_board_is_list_witness:
  "\<exists>b1. CosaDmlBlkURL_AddEntry_sim ex_blocked (ex_sim []) = (ANSC_SUCCESS, b1) \<and> sim_view (g_BlockedURLs b1) = [ex_blocked]"
proof -
  obtain s1 b1 where r1: "CosaDmlBlkURL_AddEntry_sim ex_blocked (ex_sim []) = (s1, b1)" by force
  obtain s2 b2 where r2: "CosaDmlBlkURL_DelEntry_sim 1 (ex_sim []) = (s2, b2)" by force
  obtain s3 b3 where r3: "CosaDmlBlkURL_SetConf_sim (bu_InstanceNumber ex_blocked) ex_blocked (ex_sim []) = (s3, b3)" by force
  obtain s4 y b4 where r4: "CosaDmlBlkURL_GetConf_sim 1 ex_blocked (ex_sim []) = (s4, y, b4)" by (metis prod_cases3)
  have "sim_ok (g_BlockedURLs (ex_sim []))" "sim_view (g_BlockedURLs (ex_sim [])) = []" using ex_sim_blk [of "[]"] by simp_all
  then have "ansc_ok s1" "sim_view (g_BlockedURLs b1) = [ex_blocked]"
    using sim_board_is_list [OF _ r1 r2 r3 r4] by auto
  moreover have "s1 = ANSC_SUCCESS" using r1 by (simp add: CosaDmlBlkURL_AddEntry_sim_def sim_AddEntry_def ex_sim_def MAX_ENTRY_def)
  ultimately show ?thesis using r1 by simp
qed

end
