(* ===== verification/Pc_Param_Props.thy ===== *)
theory Pc_Param_Props
  imports Pc_Restart
begin

text \<open>
  The parameters of the rows of parental control: what a setter accepts is what the getter returns, a refused value changes
  nothing, and no setter touches the number of a row or writes more than an array of the structure holds.
\<close>

section \<open>Reading a text back\<close>

text \<open>What a setter returned, for the row \<open>e\<close> and the text \<open>s\<close>.\<close>

definition reads_back :: "bool \<times> 'e \<Rightarrow> 'e \<Rightarrow> ('e \<Rightarrow> ULONG \<times> string option) \<Rightarrow> string \<Rightarrow> bool" where
  "reads_back r e get s \<longleftrightarrow> (case r of (ok, e') \<Rightarrow> if ok then get e' = (0, Some s) else e' = e)"

lemma reads_back_simps [simp]:
  "reads_back (False, e') e get s \<longleftrightarrow> e' = e" "reads_back (True, e') e get s \<longleftrightarrow> get e' = (0, Some s)"
  by (simp_all add: reads_back_def)

lemma reads_back_if: "reads_back (if b then r1 else r2) e get s \<longleftrightarrow> (if b then reads_back r1 e get s else reads_back r2 e get s)"
  by simp

lemma get_text_fits: "length s < n \<Longrightarrow> get_text n s = (0, Some s)"
  by (simp add: get_text_def)

lemmas string_setters = PcBlkURL_SetParamStringValue_def PcTrustedUser_SetParamStringValue_def MSServ_SetParamStringValue_def
  MSTrustedUser_SetParamStringValue_def MDDev_SetParamStringValue_def
lemmas string_getters = PcBlkURL_GetParamStringValue_def PcTrustedUser_GetParamStringValue_def MSServ_GetParamStringValue_def
  MSTrustedUser_GetParamStringValue_def MDDev_GetParamStringValue_def

lemma text_reads_back:
  assumes "length s < PC_TEXT" "length s < n"
  shows "reads_back (PcBlkURL_SetParamStringValue L e1 p s) e1 (\<lambda>e. PcBlkURL_GetParamStringValue e p n) s"
    "reads_back (PcTrustedUser_SetParamStringValue L e2 p s) e2 (\<lambda>e. PcTrustedUser_GetParamStringValue e p n) s"
    "reads_back (MSServ_SetParamStringValue L e3 p s) e3 (\<lambda>e. MSServ_GetParamStringValue e p n) s"
    "reads_back (MSTrustedUser_SetParamStringValue L e4 p s) e4 (\<lambda>e. MSTrustedUser_GetParamStringValue e p n) s"
    "reads_back (MDDev_SetParamStringValue L e5 p s) e5 (\<lambda>e. MDDev_GetParamStringValue e p n) s"
proof -
  have f: "snprintf PC_TEXT s = s" "snprintf PC_SITE s = s" "get_text n s = (0, Some s)"
    using assms by (simp_all add: get_text_fits PC_TEXT_def PC_SITE_def)
  show "reads_back (PcBlkURL_SetParamStringValue L e1 p s) e1 (\<lambda>e. PcBlkURL_GetParamStringValue e p n) s"
    unfolding PcBlkURL_SetParamStringValue_def f reads_back_if by (simp add: PcBlkURL_GetParamStringValue_def f)
  show "reads_back (PcTrustedUser_SetParamStringValue L e2 p s) e2 (\<lambda>e. PcTrustedUser_GetParamStringValue e p n) s"
    unfolding PcTrustedUser_SetParamStringValue_def f reads_back_if by (simp add: PcTrustedUser_GetParamStringValue_def f)
  show "reads_back (MSServ_SetParamStringValue L e3 p s) e3 (\<lambda>e. MSServ_GetParamStringValue e p n) s"
    unfolding MSServ_SetParamStringValue_def f reads_back_if by (simp add: MSServ_GetParamStringValue_def f)
  show "reads_back (MSTrustedUser_SetParamStringValue L e4 p s) e4 (\<lambda>e. MSTrustedUser_GetParamStringValue e p n) s"
    unfolding MSTrustedUser_SetParamStringValue_def f reads_back_if by (simp add: MSTrustedUser_GetParamStringValue_def f)
  show "reads_back (MDDev_SetParamStringValue L e5 p s) e5 (\<lambda>e. MDDev_GetParamStringValue e p n) s"
    unfolding MDDev_SetParamStringValue_def f reads_back_if by (simp add: MDDev_GetParamStringValue_def f)
qed



section \<open>Rows keep their shape\<close>

definition blk_fits :: "COSA_DML_BLOCKEDURL \<Rightarrow> bool" where
  "blk_fits e \<longleftrightarrow> length (bu_Alias e) < PC_ALIAS \<and> length (bu_Site e) < PC_SITE \<and> length (bu_StartTime e) < PC_TEXT \<and>
     length (bu_EndTime e) < PC_TEXT \<and> length (bu_BlockDays e) < PC_TEXT"
definition tuser_fits :: "COSA_DML_TRUSTEDUSER \<Rightarrow> bool" where
  "tuser_fits e \<longleftrightarrow> length (tu_Alias e) < PC_ALIAS \<and> length (tu_HostDescription e) < PC_TEXT \<and> length (tu_IPAddress e) < PC_TEXT"
definition serv_fits :: "COSA_DML_MS_SERV \<Rightarrow> bool" where
  "serv_fits e \<longleftrightarrow> length (ms_Alias e) < PC_ALIAS \<and> length (ms_Description e) < PC_TEXT \<and> length (ms_StartTime e) < PC_TEXT \<and>
     length (ms_EndTime e) < PC_TEXT \<and> length (ms_BlockDays e) < PC_TEXT"
definition stuser_fits :: "COSA_DML_MS_TRUSTEDUSER \<Rightarrow> bool" where
  "stuser_fits e \<longleftrightarrow> length (mt_Alias e) < PC_ALIAS \<and> length (mt_HostDescription e) < PC_TEXT \<and> length (mt_IPAddress e) < PC_TEXT"
definition dev_fits :: "COSA_DML_MD_DEV \<Rightarrow> bool" where
  "dev_fits e \<longleftrightarrow> length (de_Alias e) < PC_ALIAS \<and> length (de_Description e) < PC_TEXT \<and> length (de_MACAddress e) < PC_TEXT \<and>
     length (de_StartTime e) < PC_TEXT \<and> length (de_EndTime e) < PC_TEXT \<and> length (de_BlockDays e) < PC_TEXT"

text \<open>A setter keeps the number and the shape of the row.\<close>

definition row_kept :: "('e \<Rightarrow> ULONG) \<Rightarrow> ('e \<Rightarrow> bool) \<Rightarrow> 'e \<Rightarrow> bool \<times> 'e \<Rightarrow> bool" where
  "row_kept ins fits e r \<longleftrightarrow> ins (snd r) = ins e \<and> (fits e \<longrightarrow> fits (snd r))"

lemma row_kept_simps [simp]:
  "row_kept ins fits e (b, e)" "row_kept ins fits e (b, e') \<longleftrightarrow> ins e' = ins e \<and> (fits e \<longrightarrow> fits e')"
  by (simp_all add: row_kept_def)

lemma row_kept_if: "row_kept ins fits e (if b then r1 else r2) \<longleftrightarrow> (if b then row_kept ins fits e r1 else row_kept ins fits e r2)"
  by simp

lemma text_fits: "length (snprintf PC_TEXT s) < PC_TEXT" "length (snprintf PC_SITE s) < PC_SITE"
  by (rule length_snprintf, simp add: PC_TEXT_def PC_SITE_def)+

lemma string_setters_keep:
  "row_kept bu_InstanceNumber blk_fits e1 (PcBlkURL_SetParamStringValue L e1 p s)"
  "row_kept tu_InstanceNumber tuser_fits e2 (PcTrustedUser_SetParamStringValue L e2 p s)"
  "row_kept ms_InstanceNumber serv_fits e3 (MSServ_SetParamStringValue L e3 p s)"
  "row_kept mt_InstanceNumber stuser_fits e4 (MSTrustedUser_SetParamStringValue L e4 p s)"
  "row_kept de_InstanceNumber dev_fits e5 (MDDev_SetParamStringValue L e5 p s)"
  unfolding string_setters
  by (simp_all add: row_kept_if blk_fits_def tuser_fits_def serv_fits_def stuser_fits_def dev_fits_def text_fits)

lemma number_setters_keep:
  "row_kept bu_InstanceNumber blk_fits e1 (PcBlkURL_SetParamUlongValue L e1 p n)"
  "row_kept tu_InstanceNumber tuser_fits e2 (PcTrustedUser_SetParamUlongValue L e2 p n)"
  "row_kept ms_InstanceNumber serv_fits e3 (MSServ_SetParamUlongValue L e3 p n)"
  "row_kept mt_InstanceNumber stuser_fits e4 (MSTrustedUser_SetParamUlongValue L e4 p n)"
  "row_kept de_InstanceNumber dev_fits e5 (MDDev_SetParamUlongValue L e5 p n)"
  "row_kept bu_InstanceNumber blk_fits e1 (PcBlkURL_SetParamBoolValue L e1 p b)"
  "row_kept tu_InstanceNumber tuser_fits e2 (PcTrustedUser_SetParamBoolValue L e2 p b)"
  "row_kept ms_InstanceNumber serv_fits e3 (MSServ_SetParamBoolValue L e3 p b)"
  "row_kept mt_InstanceNumber stuser_fits e4 (MSTrustedUser_SetParamBoolValue L e4 p b)"
  "row_kept de_InstanceNumber dev_fits e5 (MDDev_SetParamBoolValue L e5 p b)"
  by (simp_all add: row_kept_if blk_fits_def tuser_fits_def serv_fits_def stuser_fits_def dev_fits_def
      PcBlkURL_SetParamUlongValue_def PcTrustedUser_SetParamUlongValue_def MSServ_SetParamUlongValue_def
      MSTrustedUser_SetParamUlongValue_def MDDev_SetParamUlongValue_def PcBlkURL_SetParamBoolValue_def
      PcTrustedUser_SetParamBoolValue_def MSServ_SetParamBoolValue_def MSTrustedUser_SetParamBoolValue_def
      MDDev_SetParamBoolValue_def)

text \<open>So a setter is a step \<open>set_param\<close> of the table.\<close>

lemma string_setter_step:
  assumes "l \<in> set (tb_List t)" "ob_entry (lnk_hContext l) = e"
  shows "pc_step L BlkURL_kind B J (t, v) (pc_put t (pc_set_entry l (snd (PcBlkURL_SetParamStringValue L e p s))), v)"
  by (rule pc_step.set_param [OF assms(1)]) (use assms(2) string_setters_keep(1) [of e L p s] in \<open>simp add: row_kept_def BlkURL_ins\<close>)

section \<open>The ports of a managed service\<close>

text \<open>An end port is taken only from the start port on; a start port that is set later is not compared with the end port.\<close>

lemma end_port_after_start:
  "MSServ_SetParamUlongValue L e ''EndPort'' n = (True, e') \<Longrightarrow> ms_StartPort e' \<le> ms_EndPort e' \<and> ms_EndPort e' \<le> 65535"
  by (auto simp: MSServ_SetParamUlongValue_def split: if_split_asm)

lemma start_port_past_end:
  assumes "\<not> bridge_blocked (pl_libs L)" "MSServ_SetParamUlongValue L e ''EndPort'' 80 = (True, e1)"
    "MSServ_SetParamUlongValue L e1 ''StartPort'' 443 = (ok, e2)"
  shows "ok \<and> ms_EndPort e2 < ms_StartPort e2"
  using assms by (auto simp: MSServ_SetParamUlongValue_def split: if_split_asm)

end
