(* ===== verification/Pc_Utopia_Props.thy ===== *)
theory Pc_Utopia_Props
  imports Pc_Utopia Pc_Param_Props
begin

text \<open>
  The board layer of the product keeps the contract \<open>pc_board\<close> of the middle layer, when Utopia does what its functions are
  documented to do (\<open>pc_utopia_ok\<close>). So the properties of the tables that were proved over the contract hold for it.
\<close>

section \<open>What Utopia does\<close>

text \<open>The store as five lists of rows and three switches.\<close>

record pc_ustore =
  us_blk :: "blkurl_t list"
  us_tuser :: "trusted_user_t list"
  us_serv :: "ms_serv_t list"
  us_stuser :: "ms_trusteduser_t list"
  us_dev :: "md_dev_t list"
  us_blk_on :: int
  us_serv_on :: int
  us_dev_on :: "int \<times> int"

text \<open>The functions of one table: \<open>get\<close> and \<open>upd\<close> are its list in the store, \<open>num\<close> and \<open>name\<close> read a number and write a
  number and an alias. A row that exists can be changed and deleted, and nothing else can; adding may be refused, and is
  when the number of rows would not fit its \<open>int\<close>.\<close>

definition ut_fns_ok :: "('x, 'c) ut_fns \<Rightarrow> ('x \<Rightarrow> ULONG) \<Rightarrow> (ULONG \<Rightarrow> string \<Rightarrow> 'x \<Rightarrow> 'x) \<Rightarrow> ('u \<Rightarrow> 'x list) \<Rightarrow>
    ('x list \<Rightarrow> 'u \<Rightarrow> 'u) \<Rightarrow> ('c \<Rightarrow> 'u) \<Rightarrow> bool" where
  "ut_fns_ok F num name get upd vc \<longleftrightarrow>
     (\<forall>c. uf_GetNumber F c = length (get (vc c))) \<and>
     (\<forall>c i. i < length (get (vc c)) \<longrightarrow> uf_GetInsNumByIndex F c i = num (get (vc c) ! i) \<and> uf_GetByIndex F c i = get (vc c) ! i) \<and>
     (\<forall>c i n a. i < length (get (vc c)) \<longrightarrow> fst (uf_SetInsAndAliasByIndex F c i n a) \<and>
        vc (snd (uf_SetInsAndAliasByIndex F c i n a)) = upd ((get (vc c))[i := name n a (get (vc c) ! i)]) (vc c)) \<and>
     (\<forall>c x. vc (snd (uf_Add F c x)) = (if fst (uf_Add F c x) then upd (get (vc c) @ [x]) (vc c) else vc c) \<and>
        (fst (uf_Add F c x) \<longrightarrow> length (get (vc c)) + 1 < 2 ^ 31)) \<and>
     (\<forall>c n. (fst (uf_Del F c n) \<longleftrightarrow> n \<in> num ` set (get (vc c))) \<and> vc (snd (uf_Del F c n)) = upd (row_del num n (get (vc c))) (vc c)) \<and>
     (\<forall>c i x. i < length (get (vc c)) \<longrightarrow> fst (uf_SetByIndex F c (int i) x) \<and>
        vc (snd (uf_SetByIndex F c (int i) x)) = upd ((get (vc c))[i := x]) (vc c))"

definition pc_utopia_ok :: "('s, 'c) pc_utopia \<Rightarrow> ('s \<Rightarrow> pc_ustore) \<Rightarrow> ('c \<Rightarrow> pc_ustore) \<Rightarrow> bool" where
  "pc_utopia_ok U vs vc \<longleftrightarrow>
     (\<forall>s. \<exists>c. pu_Init U s = Some c \<and> vc c = vs s) \<and> (\<forall>s c. vs (pu_Commit U s c) = vc c) \<and>
     ut_fns_ok (pu_blk U) bk_ins_num (\<lambda>n a x. x\<lparr>bk_ins_num := n, bk_alias := a\<rparr>) us_blk (\<lambda>xs u. u\<lparr>us_blk := xs\<rparr>) vc \<and>
     ut_fns_ok (pu_tuser U) xu_ins_num (\<lambda>n a x. x\<lparr>xu_ins_num := n, xu_alias := a\<rparr>) us_tuser (\<lambda>xs u. u\<lparr>us_tuser := xs\<rparr>) vc \<and>
     ut_fns_ok (pu_serv U) xs_ins_num (\<lambda>n a x. x\<lparr>xs_ins_num := n, xs_alias := a\<rparr>) us_serv (\<lambda>xs u. u\<lparr>us_serv := xs\<rparr>) vc \<and>
     ut_fns_ok (pu_stuser U) xm_ins_num (\<lambda>n a x. x\<lparr>xm_ins_num := n, xm_alias := a\<rparr>) us_stuser (\<lambda>xs u. u\<lparr>us_stuser := xs\<rparr>) vc \<and>
     ut_fns_ok (pu_dev U) xd_ins_num (\<lambda>n a x. x\<lparr>xd_ins_num := n, xd_alias := a\<rparr>) us_dev (\<lambda>xs u. u\<lparr>us_dev := xs\<rparr>) vc \<and>
     5 < pu_size U Blk_block_method \<and> 4 < pu_size U Serv_protocol \<and>
     (\<forall>c. pu_GetBlkURLCfg U c = us_blk_on (vc c)) \<and>
     (\<forall>c b. fst (pu_SetBlkURLCfg U c b) \<and> vc (snd (pu_SetBlkURLCfg U c b)) = (vc c)\<lparr>us_blk_on := (if b then 1 else 0)\<rparr>) \<and>
     (\<forall>c. pu_GetMngServsCfg U c = us_serv_on (vc c)) \<and>
     (\<forall>c b. fst (pu_SetMngServsCfg U c b) \<and> vc (snd (pu_SetMngServsCfg U c b)) = (vc c)\<lparr>us_serv_on := (if b then 1 else 0)\<rparr>) \<and>
     (\<forall>c. pu_GetMngDevsCfg U c = us_dev_on (vc c)) \<and>
     (\<forall>c d. fst (pu_SetMngDevsCfg U c d) \<and> vc (snd (pu_SetMngDevsCfg U c d)) = (vc c)\<lparr>us_dev_on := d\<rparr>)"

section \<open>A table over the store\<close>

text \<open>What the proof needs of the description of a table: how numbers go through reading and writing, and that the cached
  count, the store and the log are separate.\<close>

definition ut_tab_ok :: "('x, 'e, 's, 'c) ut_tab \<Rightarrow> 'e \<Rightarrow> ('e \<Rightarrow> ULONG) \<Rightarrow> ('e \<Rightarrow> 'e) \<Rightarrow> (ULONG \<Rightarrow> string \<Rightarrow> 'e \<Rightarrow> 'e) \<Rightarrow> ('x \<Rightarrow> ULONG) \<Rightarrow>
    (ULONG \<Rightarrow> string \<Rightarrow> 'x \<Rightarrow> 'x) \<Rightarrow> bool" where
  "ut_tab_ok T e0 ins core put num name \<longleftrightarrow>
     (\<forall>x e. ins (ut_read T x e) = num x) \<and> (\<forall>e. num (ut_write_add T e) = ins e) \<and> (\<forall>e. ins (core e) = ins e) \<and>
     (\<forall>e. ut_write_set T e = ut_write_add T e) \<and> (\<forall>x e. core (ut_read T x e) = core (ut_read T x e0)) \<and>
     (\<forall>n a x. ut_read T (name n a x) e0 = put n a (ut_read T x e0)) \<and> (\<forall>n a e. ins (put n a e) = n) \<and>
     (\<forall>n b. ut_nr T (ut_set_nr T n b) = n \<and> ub_store (ut_set_nr T n b) = ub_store b) \<and>
     (\<forall>b s. ut_nr T (b\<lparr>ub_store := s\<rparr>) = ut_nr T b) \<and>
     (\<forall>b. ut_nr T (ut_added T b) = ut_nr T b \<and> ub_store (ut_added T b) = ub_store b) \<and>
     (\<forall>n b. ut_nr T (ut_deleted T n b) = ut_nr T b \<and> ub_store (ut_deleted T n b) = ub_store b) \<and>
     (\<forall>n b. ut_nr T (ut_changed T n b) = ut_nr T b \<and> ub_store (ut_changed T n b) = ub_store b)"

definition ut_ops :: "('s, 'c) pc_utopia \<Rightarrow> ('x, 'e, 's, 'c) ut_tab \<Rightarrow> ('e, 's ut_board) pc_ops" where
  "ut_ops U T = \<lparr>bo_GetNumberOfEntries = ut_GetNumberOfEntries U T, bo_GetEntryByIndex = ut_GetEntryByIndex U T,
     bo_SetValues = ut_SetValues U T, bo_AddEntry = ut_AddEntry U T, bo_DelEntry = ut_DelEntry U T, bo_GetConf = ut_GetConf U T,
     bo_SetConf = ut_SetConf U T\<rparr>"

lemma map_row_del_read: "(\<And>x. ins (f x) = num x) \<Longrightarrow> map f (row_del num n xs) = row_del ins n (map f xs)"
  by (induction xs) auto

lemma row_set_read: "(\<And>x. ins (f x) = num x) \<Longrightarrow> map f (row_set num n y xs) = row_set ins n (f y) (map f xs)"
  by (induction xs) auto

lemma row_at_read: "(\<And>x. ins (f x) = num x) \<Longrightarrow> row_at ins n (map f xs) = map_option f (row_at num n xs)"
  by (induction xs) auto

lemma length_row_del: "length (row_del ins n es) \<le> length es"
  by (induction es) auto

text \<open>The state in which the contract holds, and the rows.\<close>

definition ut_view :: "('x, 'e, 's, 'c) ut_tab \<Rightarrow> 'e \<Rightarrow> ('s \<Rightarrow> 'x list) \<Rightarrow> 's ut_board \<Rightarrow> 'e list" where
  "ut_view T e0 rows b = map (\<lambda>x. ut_read T x e0) (rows (ub_store b))"

definition ut_start :: "('s \<Rightarrow> 'x list) \<Rightarrow> 's ut_board \<Rightarrow> bool" where
  "ut_start rows b \<longleftrightarrow> length (rows (ub_store b)) < 2 ^ 31"

definition ut_ok :: "('x, 'e, 's, 'c) ut_tab \<Rightarrow> ('s \<Rightarrow> 'x list) \<Rightarrow> 's ut_board \<Rightarrow> bool" where
  "ut_ok T rows b \<longleftrightarrow> ut_start rows b \<and> ut_nr T b = length (rows (ub_store b))"

lemma ut_fnsD:
  assumes "ut_fns_ok F num name get upd vc"
  shows "uf_GetNumber F c = length (get (vc c))"
    "i < length (get (vc c)) \<Longrightarrow> uf_GetInsNumByIndex F c i = num (get (vc c) ! i)"
    "i < length (get (vc c)) \<Longrightarrow> uf_GetByIndex F c i = get (vc c) ! i"
    "i < length (get (vc c)) \<Longrightarrow> uf_SetInsAndAliasByIndex F c i n a = (b, c') \<Longrightarrow>
       b \<and> vc c' = upd ((get (vc c))[i := name n a (get (vc c) ! i)]) (vc c)"
    "uf_Add F c x = (b, c') \<Longrightarrow> vc c' = (if b then upd (get (vc c) @ [x]) (vc c) else vc c) \<and> (b \<longrightarrow> length (get (vc c)) + 1 < 2 ^ 31)"
    "uf_Del F c n = (b, c') \<Longrightarrow> (b \<longleftrightarrow> n \<in> num ` set (get (vc c))) \<and> vc c' = upd (row_del num n (get (vc c))) (vc c)"
    "i < length (get (vc c)) \<Longrightarrow> uf_SetByIndex F c (int i) x = (b, c') \<Longrightarrow> b \<and> vc c' = upd ((get (vc c))[i := x]) (vc c)"
  using assms unfolding ut_fns_ok_def by (metis fst_conv snd_conv)+

lemma ut_tabD:
  assumes "ut_tab_ok T e0 ins core put num name"
  shows "ins (ut_read T x e) = num x" "num (ut_write_add T e) = ins e" "ins (core e) = ins e" "ut_write_set T e = ut_write_add T e"
    "core (ut_read T x e) = core (ut_read T x e0)" "ut_read T (name n a x) e0 = put n a (ut_read T x e0)" "ins (put n a e) = n"
    "ut_nr T (ut_set_nr T k b) = k" "ub_store (ut_set_nr T k b) = ub_store b" "ut_nr T (b\<lparr>ub_store := s\<rparr>) = ut_nr T b"
    "ut_nr T (ut_added T b) = ut_nr T b" "ub_store (ut_added T b) = ub_store b"
    "ut_nr T (ut_deleted T n b) = ut_nr T b" "ub_store (ut_deleted T n b) = ub_store b"
    "ut_nr T (ut_changed T n b) = ut_nr T b" "ub_store (ut_changed T n b) = ub_store b"
  using assms unfolding ut_tab_ok_def by metis+

lemma unat_small: "k < 2 ^ 31 \<Longrightarrow> unat (of_nat k :: ULONG) = k"
  by (simp add: unat_of_nat)

text \<open>The facts about a table \<open>T\<close> over the store that the laws of the contract are proved from.\<close>

definition ut_over :: "('s, 'c) pc_utopia \<Rightarrow> ('x, 'e, 's, 'c) ut_tab \<Rightarrow> 'e \<Rightarrow> ('e \<Rightarrow> ULONG) \<Rightarrow> ('e \<Rightarrow> 'e) \<Rightarrow> (ULONG \<Rightarrow> string \<Rightarrow> 'e \<Rightarrow> 'e) \<Rightarrow>
    ('x \<Rightarrow> ULONG) \<Rightarrow> (ULONG \<Rightarrow> string \<Rightarrow> 'x \<Rightarrow> 'x) \<Rightarrow> ('u \<Rightarrow> 'x list) \<Rightarrow> ('x list \<Rightarrow> 'u \<Rightarrow> 'u) \<Rightarrow> ('s \<Rightarrow> 'u) \<Rightarrow> ('c \<Rightarrow> 'u) \<Rightarrow> bool" where
  "ut_over U T e0 ins core put num name get upd vs vc \<longleftrightarrow>
     ut_fns_ok (ut_fns T) num name get upd vc \<and> ut_tab_ok T e0 ins core put num name \<and>
     (\<forall>s. \<exists>c. pu_Init U s = Some c \<and> vc c = vs s) \<and> (\<forall>s c. vs (pu_Commit U s c) = vc c) \<and> (\<forall>xs u. get (upd xs u) = xs)"

lemma ut_overD:
  assumes "ut_over U T e0 ins core put num name get upd vs vc"
  shows "ut_fns_ok (ut_fns T) num name get upd vc" "ut_tab_ok T e0 ins core put num name" "vs (pu_Commit U s c) = vc c"
    "get (upd xs u) = xs"
  using assms by (simp_all add: ut_over_def)

lemma ut_opens:
  assumes "ut_over U T e0 ins core put num name get upd vs vc"
  obtains c where "pu_Init U (ub_store b) = Some c" "vc c = vs (ub_store b)"
  using assms unfolding ut_over_def by blast

lemma ut_number:
  assumes O: "ut_over U T e0 ins core put num name get upd vs vc" and s: "ut_start (\<lambda>s. get (vs s)) b"
    and g: "ut_GetNumberOfEntries U T b = (n, b')"
  shows "ut_ok T (\<lambda>s. get (vs s)) b' \<and> ut_view T e0 (\<lambda>s. get (vs s)) b' = ut_view T e0 (\<lambda>s. get (vs s)) b \<and>
    unat n = length (ut_view T e0 (\<lambda>s. get (vs s)) b)"
proof -
  obtain c where c: "pu_Init U (ub_store b) = Some c" "vc c = vs (ub_store b)" using ut_opens [OF O] .
  have "b' = ut_set_nr T (length (get (vs (ub_store b)))) b" "n = of_nat (length (get (vs (ub_store b))))"
    using g c by (simp_all add: ut_GetNumberOfEntries_def ut_fnsD(1) [OF ut_overD(1) [OF O]] Let_def)
  then show ?thesis using s
    by (simp add: ut_ok_def ut_start_def ut_view_def ut_tabD(8,9) [OF ut_overD(2) [OF O]] unat_small)
qed

lemma ut_index:
  assumes O: "ut_over U T e0 ins core put num name get upd vs vc" and s: "ut_ok T (\<lambda>s. get (vs s)) b"
    and g: "ut_InsGetIndex U T n b = (r, b')"
  shows "ut_ok T (\<lambda>s. get (vs s)) b' \<and> ub_store b' = ub_store b \<and>
    (case r of None \<Rightarrow> n \<notin> num ` set (get (vs (ub_store b)))
     | Some i \<Rightarrow> i < length (get (vs (ub_store b))) \<and> row_at num n (get (vs (ub_store b))) = Some (get (vs (ub_store b)) ! i) \<and>
         (\<forall>x. row_set num n x (get (vs (ub_store b))) = (get (vs (ub_store b)))[i := x]))"
proof -
  note F = ut_fnsD [OF ut_overD(1) [OF O]] and T = ut_tabD [OF ut_overD(2) [OF O]]
  obtain c where c: "pu_Init U (ub_store b) = Some c" "vc c = vs (ub_store b)" using ut_opens [OF O] .
  let ?rows = "get (vs (ub_store b))"
  define b1 where "b1 = (if ut_counts T then snd (ut_GetNumberOfEntries U T b) else b)"
  have b1: "ub_store b1 = ub_store b" "ut_nr T b1 = length ?rows"
    using s c by (simp_all add: b1_def ut_GetNumberOfEntries_def Let_def T F(1) ut_ok_def)
  have "List.find (\<lambda>i. uf_GetInsNumByIndex (ut_fns T) c i = n) [0..<length ?rows] = List.find (\<lambda>i. num (?rows ! i) = n) [0..<length ?rows]"
    by (rule find_cong_set) (use F(2) [of _ c] c(2) in simp)
  then have "r = List.find (\<lambda>i. num (?rows ! i) = n) [0..<length ?rows]" "b' = b1"
    using g c b1 by (simp_all add: ut_InsGetIndex_def b1_def [symmetric])
  then show ?thesis
    using s b1 find_row_at(1) [of num ?rows n] find_row_at(2) [of num ?rows n]
    by (auto simp: ut_ok_def ut_start_def row_at_None split: option.split)
qed

lemma ut_get_entry:
  assumes O: "ut_over U T e0 ins core put num name get upd vs vc" and s: "ut_ok T (\<lambda>s. get (vs s)) b"
    and g: "ut_GetEntryByIndex U T i e b = (r, e', b')"
  shows "b' = b \<and> (if unat i < length (get (vs (ub_store b))) then r = ANSC_SUCCESS \<and> e' = ut_read T (get (vs (ub_store b)) ! unat i) e
    else r = ANSC_FAILURE \<and> e' = e)"
proof -
  obtain c where c: "pu_Init U (ub_store b) = Some c" "vc c = vs (ub_store b)" using ut_opens [OF O] .
  have "i \<ge> of_nat (ut_nr T b) \<longleftrightarrow> \<not> unat i < length (get (vs (ub_store b)))"
    using s by (simp add: ut_ok_def ut_start_def word_le_nat_alt unat_small not_less)
  then show ?thesis
    using g c ut_fnsD(3) [OF ut_overD(1) [OF O], of "unat i" c] by (auto simp: ut_GetEntryByIndex_def split: if_split_asm)
qed

section \<open>The contract\<close>

lemma ut_board:
  assumes O: "ut_over U T e0 ins core put num name get upd vs vc"
  shows "pc_board (ut_ops U T) ins put (\<lambda>e. ut_read T (ut_write_add T e) e0) core (ut_view T e0 (\<lambda>s. get (vs s)))
    (ut_ok T (\<lambda>s. get (vs s))) (ut_start (\<lambda>s. get (vs s)))"
proof -
  note F = ut_fnsD [OF ut_overD(1) [OF O]] and T = ut_tabD [OF ut_overD(2) [OF O]] and S = ut_overD(3,4) [OF O]
  note num = map_row_del_read [of ins "\<lambda>x. ut_read T x e0" num] row_set_read [of ins "\<lambda>x. ut_read T x e0" num]
    row_at_read [of ins "\<lambda>x. ut_read T x e0" num]
  have img: "ins ` set (ut_view T e0 (\<lambda>s. get (vs s)) b) = num ` set (get (vs (ub_store b)))" for b
    by (simp add: ut_view_def image_image T)
  show ?thesis
  proof (unfold_locales, goal_cases)
    case (1 e)
    then show ?case by (simp add: T)
  next
    case (2 n a e)
    then show ?case by (simp add: T)
  next
    case (3 e)
    then show ?case by (simp add: T)
  next
    case (4 b)
    then show ?case by (simp add: ut_ok_def)
  next
    case (5 b n b')
    then show ?case using ut_number [OF O] by (simp add: ut_ops_def)
  next
    case (6 b i e s e' b')
    have run: "ut_GetEntryByIndex U T i e b = (s, e', b')" using 6(2) by (simp add: ut_ops_def)
    have "core (ut_read T (get (vs (ub_store b)) ! unat i) e) = core (ut_read T (get (vs (ub_store b)) ! unat i) e0)" by (rule T(5))
    then show ?case using ut_get_entry [OF O 6(1) run] 6(1) by (auto simp: ut_view_def split: if_split_asm)
  next
    case (7 b i n a s b')
    obtain c where c: "pu_Init U (ub_store b) = Some c" "vc c = vs (ub_store b)" using ut_opens [OF O] .
    obtain r c' where r: "uf_SetInsAndAliasByIndex (ut_fns T) c (unat i) n a = (r, c')" by force
    have less: "i \<ge> of_nat (ut_nr T b) \<longleftrightarrow> \<not> unat i < length (get (vs (ub_store b)))"
      using 7(1) by (simp add: ut_ok_def ut_start_def word_le_nat_alt unat_small not_less)
    show ?case
      using 7 c r F(4) [OF _ r] less
      by (auto simp: ut_ops_def ut_SetValues_def ut_ok_def ut_start_def ut_view_def S T map_update split: if_split_asm)
  next
    case (8 b e s b')
    obtain c where c: "pu_Init U (ub_store b) = Some c" "vc c = vs (ub_store b)" using ut_opens [OF O] .
    obtain r c' where r: "uf_Add (ut_fns T) c (ut_write_add T e) = (r, c')" by force
    show ?case
      using 8 c r F(5) [OF r] by (auto simp: ut_ops_def ut_AddEntry_def Let_def ut_ok_def ut_start_def ut_view_def S T F(1) split: if_split_asm)
  next
    case (9 b n s b')
    have run: "ut_DelEntry U T n b = (s, b')" using 9(2) by (simp add: ut_ops_def)
    obtain i b1 where g: "(if ut_checks T then ut_InsGetIndex U T n b else (Some 0, b)) = (i, b1)" by force
    have b1: "ut_ok T (\<lambda>s. get (vs s)) b1" "ub_store b1 = ub_store b" "i = None \<longrightarrow> n \<notin> num ` set (get (vs (ub_store b)))"
      using g ut_index [OF O 9(1), of n i b1] 9(1) by (auto split: if_split_asm option.split_asm)
    obtain c where c: "pu_Init U (ub_store b1) = Some c" "vc c = vs (ub_store b)" using ut_opens [OF O, of b1] b1(2) by metis
    obtain r c' where r: "uf_Del (ut_fns T) c n = (r, c')" by force
    note d = F(6) [OF r]
    show ?case
    proof (cases i)
      case None
      then have "n \<notin> ins ` set (ut_view T e0 (\<lambda>s. get (vs s)) b)" "s = ANSC_FAILURE" "b' = b1"
        using b1(3) run g img [of b] by (simp_all add: ut_DelEntry_def)
      then show ?thesis using b1(1,2) row_absent [of n ins "ut_view T e0 (\<lambda>s. get (vs s)) b"] by (simp add: ut_view_def)
    next
      case (Some k)
      then have "s = (if r then ANSC_SUCCESS else ANSC_FAILURE)" "b' = (let b2 = ut_set_nr T (length (get (vc c'))) b1 in
          if r then ut_deleted T n (b2\<lparr>ub_store := pu_Commit U (ub_store b1) c'\<rparr>) else b2)"
        using run g c(1) r by (simp_all add: ut_DelEntry_def F(1) Let_def split: if_split_asm)
      moreover have "row_del ins n (map (\<lambda>x. ut_read T x e0) (get (vs (ub_store b)))) =
          map (\<lambda>x. ut_read T x e0) (row_del num n (get (vs (ub_store b))))" by (rule num(1) [symmetric]) (rule T(1))
      ultimately show ?thesis
        using d c(2) b1(1,2) length_row_del [of num n "get (vs (ub_store b))"] row_absent [of n num "get (vs (ub_store b))"] img [of b]
        by (auto simp: ut_ok_def ut_start_def ut_view_def S T Let_def)
    qed
  next
    case (10 b n e s e' b')
    have run: "ut_GetConf U T n e b = (s, e', b')" using 10(2) by (simp add: ut_ops_def)
    obtain i b1 where g: "ut_InsGetIndex U T n b = (i, b1)" by force
    note x = ut_index [OF O 10(1) g]
    have at: "row_at ins n (ut_view T e0 (\<lambda>s. get (vs s)) b) = map_option (\<lambda>x. ut_read T x e0) (row_at num n (get (vs (ub_store b))))"
      by (simp add: ut_view_def num(3) T)
    show ?case
    proof (cases i)
      case None
      then have "row_at num n (get (vs (ub_store b))) = None" using x by (simp add: row_at_None)
      then show ?thesis using None run g x at by (simp add: ut_GetConf_def ut_view_def)
    next
      case (Some k)
      then have k: "unat (of_nat k :: ULONG) = k" "k < length (get (vs (ub_store b)))" using x by (auto simp: ut_ok_def ut_start_def unat_small)
      have run': "ut_GetEntryByIndex U T (of_nat k) e b1 = (s, e', b')" using run g Some by (simp add: ut_GetConf_def)
      have e: "b' = b1" "s = ANSC_SUCCESS" "e' = ut_read T (get (vs (ub_store b)) ! k) e"
        using ut_get_entry [OF O conjunct1 [OF x] run'] k x by simp_all
      have "core e' = core (ut_read T (get (vs (ub_store b)) ! k) e0)" unfolding e(3) by (rule T(5))
      then show ?thesis using e(1,2) x at Some by (simp add: ut_view_def)
    qed
  next
    case (11 b e n s b')
    have run: "ut_SetConf U T n e b = (s, b')" using 11(3) by (simp add: ut_ops_def)
    obtain i b1 where g: "ut_InsGetIndex U T n b = (i, b1)" by force
    note x = ut_index [OF O 11(1) g]
    show ?case
    proof (cases i)
      case None
      then have "n \<notin> ins ` set (ut_view T e0 (\<lambda>s. get (vs s)) b)" "s = ANSC_FAILURE" "b' = b1"
        using run g x img [of b] by (simp_all add: ut_SetConf_def)
      then show ?thesis using x row_absent [of n ins "ut_view T e0 (\<lambda>s. get (vs s)) b"] by (simp add: ut_view_def)
    next
      case (Some k)
      obtain c where c: "pu_Init U (ub_store b1) = Some c" "vc c = vs (ub_store b)" using ut_opens [OF O, of b1] x by metis
      obtain j b2 where g2: "ut_InsGetIndex U T n b1 = (j, b2)" by force
      note y = ut_index [OF O conjunct1 [OF x] g2]
      have same: "ub_store b2 = ub_store b" "ut_nr T b2 = length (get (vs (ub_store b)))" "length (get (vs (ub_store b))) < 2 ^ 31"
        using x y 11(1) by (simp_all add: ut_ok_def ut_start_def)
      have "n \<in> num ` set (get (vs (ub_store b)))" using x Some row_at_Some [of num n "get (vs (ub_store b))"] by fastforce
      then obtain m where j: "j = Some m" "m < length (get (vs (ub_store b)))"
          "\<And>z. row_set num n z (get (vs (ub_store b))) = (get (vs (ub_store b)))[m := z]"
        using x y by (cases j) auto
      obtain r c' where r: "uf_SetByIndex (ut_fns T) c (int m) (ut_write_set T e) = (r, c')" by force
      note d = F(7) [OF _ r, unfolded c(2), OF j(2)]
      have "s = ANSC_SUCCESS" "b' = ut_changed T n (b2\<lparr>ub_store := pu_Commit U (ub_store b2) c'\<rparr>)"
        using run g g2 Some c(1) j(1) r d by (simp_all add: ut_SetConf_def)
      moreover have "map (\<lambda>x. ut_read T x e0) ((get (vs (ub_store b)))[m := ut_write_add T e]) =
          row_set ins n (ut_read T (ut_write_add T e) e0) (map (\<lambda>x. ut_read T x e0) (get (vs (ub_store b))))"
        unfolding j(3) [symmetric] by (rule num(2)) (simp add: T)
      ultimately show ?thesis
        using d same \<open>n \<in> num ` set (get (vs (ub_store b)))\<close> img [of b]
        by (simp add: ut_ok_def ut_start_def ut_view_def S T)
    qed
  qed
qed

section \<open>The five tables\<close>

lemma kinds_ins:
  "k_ins BlkURL_kind = bu_InstanceNumber" "k_ins TrustedUser_kind = tu_InstanceNumber" "k_ins MSServ_kind = ms_InstanceNumber"
  "k_ins MSTrustedUser_kind = mt_InstanceNumber" "k_ins MDDev_kind = de_InstanceNumber"
  by (simp_all add: BlkURL_kind_def TrustedUser_kind_def MSServ_kind_def MSTrustedUser_kind_def MDDev_kind_def)

definition no_blk :: COSA_DML_BLOCKEDURL where
  "no_blk = \<lparr>bu_InstanceNumber = 0, bu_Alias = [], bu_BlockMethod = 0, bu_Site = [], bu_AlwaysBlock = False, bu_StartTime = [],
     bu_EndTime = [], bu_StartTimeFlg = False, bu_EndTimeFlg = False, bu_BlockDays = [], bu_MAC = [], bu_DeviceName = []\<rparr>"

text \<open>The fields of a blocked address that reading it fills in: all but the two that only another build has.\<close>

definition blk_core :: "COSA_DML_BLOCKEDURL \<Rightarrow> COSA_DML_BLOCKEDURL" where
  "blk_core e = e\<lparr>bu_MAC := [], bu_DeviceName := []\<rparr>"

lemma ops_copies:
  "BlkURL_ops U = ut_ops U (BlkURL_tab U)" "TrustedUser_ops U = ut_ops U (TrustedUser_tab U)" "MSServ_ops U = ut_ops U (MSServ_tab U)"
  "MSTrustedUser_ops U = ut_ops U (MSTrustedUser_tab U)" "MDDev_ops U = ut_ops U (MDDev_tab U)"
  by (simp_all add: ut_ops_def fun_eq_iff
      BlkURL_ops_def CosaDmlBlkURL_GetNumberOfEntries_def CosaDmlBlkURL_GetEntryByIndex_def CosaDmlBlkURL_SetValues_def
      CosaDmlBlkURL_AddEntry_def CosaDmlBlkURL_DelEntry_def CosaDmlBlkURL_GetConf_def CosaDmlBlkURL_SetConf_def
      TrustedUser_ops_def CosaDmlTrustedUser_GetNumberOfEntries_def CosaDmlTrustedUser_GetEntryByIndex_def CosaDmlTrustedUser_SetValues_def
      CosaDmlTrustedUser_AddEntry_def CosaDmlTrustedUser_DelEntry_def CosaDmlTrustedUser_GetConf_def CosaDmlTrustedUser_SetConf_def
      MSServ_ops_def CosaDmlMSServ_GetNumberOfEntries_def CosaDmlMSServ_GetEntryByIndex_def CosaDmlMSServ_SetValues_def
      CosaDmlMSServ_AddEntry_def CosaDmlMSServ_DelEntry_def CosaDmlMSServ_GetConf_def CosaDmlMSServ_SetConf_def
      MSTrustedUser_ops_def CosaDmlMSTrustedUser_GetNumberOfEntries_def CosaDmlMSTrustedUser_GetEntryByIndex_def CosaDmlMSTrustedUser_SetValues_def
      CosaDmlMSTrustedUser_AddEntry_def CosaDmlMSTrustedUser_DelEntry_def CosaDmlMSTrustedUser_GetConf_def CosaDmlMSTrustedUser_SetConf_def
      MDDev_ops_def CosaDmlMDDev_GetNumberOfEntries_def CosaDmlMDDev_GetEntryByIndex_def CosaDmlMDDev_SetValues_def
      CosaDmlMDDev_AddEntry_def CosaDmlMDDev_DelEntry_def CosaDmlMDDev_GetConf_def CosaDmlMDDev_SetConf_def)

lemmas event_defs = flush_restart_def firewall_restart_def remove_url2ip_def remove_file_def commonSyseventSet_def

lemma method_text_fits: "length (block_method_text m) \<le> 5"
  by (simp add: block_method_text_def)

lemma BlkURL_tab_ok:
  assumes "5 < pu_size U Blk_block_method"
  shows "ut_tab_ok (BlkURL_tab U) no_blk bu_InstanceNumber blk_core (\<lambda>n a e. e\<lparr>bu_InstanceNumber := n, bu_Alias := strncpy PC_ALIAS a\<rparr>)
    bk_ins_num (\<lambda>n a x. x\<lparr>bk_ins_num := n, bk_alias := a\<rparr>)"
proof -
  have "copy_s (pu_size U Blk_block_method) (block_method_text m) = strncpy (pu_size U Blk_block_method) (block_method_text m)" for m
    using assms method_text_fits [of m] by (simp add: copy_s_def)
  then show ?thesis
    by (simp add: ut_tab_ok_def BlkURL_tab_def read_blkurl_def write_blkurl_def blk_core_def event_defs)
qed

lemma TrustedUser_tab_ok:
  "ut_tab_ok (TrustedUser_tab U) e0 tu_InstanceNumber id (\<lambda>n a e. e\<lparr>tu_InstanceNumber := n, tu_Alias := strncpy PC_ALIAS a\<rparr>)
    xu_ins_num (\<lambda>n a x. x\<lparr>xu_ins_num := n, xu_alias := a\<rparr>)"
  by (simp add: ut_tab_ok_def TrustedUser_tab_def read_trusted_user_def write_trusted_user_def event_defs)

lemma MSServ_tab_ok:
  "ut_tab_ok (MSServ_tab U) e0 ms_InstanceNumber id (\<lambda>n a e. e\<lparr>ms_InstanceNumber := n, ms_Alias := strncpy PC_ALIAS a\<rparr>)
    xs_ins_num (\<lambda>n a x. x\<lparr>xs_ins_num := n, xs_alias := a\<rparr>)"
  by (simp add: ut_tab_ok_def MSServ_tab_def read_ms_serv_def write_ms_serv_def event_defs)

lemma MSTrustedUser_tab_ok:
  "ut_tab_ok (MSTrustedUser_tab U) e0 mt_InstanceNumber id (\<lambda>n a e. e\<lparr>mt_InstanceNumber := n, mt_Alias := strncpy PC_ALIAS a\<rparr>)
    xm_ins_num (\<lambda>n a x. x\<lparr>xm_ins_num := n, xm_alias := a\<rparr>)"
  by (simp add: ut_tab_ok_def MSTrustedUser_tab_def read_ms_trusteduser_def write_ms_trusteduser_def event_defs)

lemma MDDev_tab_ok:
  "ut_tab_ok (MDDev_tab U) e0 de_InstanceNumber id (\<lambda>n a e. e\<lparr>de_InstanceNumber := n, de_Alias := strncpy PC_ALIAS a\<rparr>)
    xd_ins_num (\<lambda>n a x. x\<lparr>xd_ins_num := n, xd_alias := a\<rparr>)"
  by (simp add: ut_tab_ok_def MDDev_tab_def read_md_dev_def write_md_dev_def event_defs)

text \<open>The description of a table over a store that does what Utopia is documented to do.\<close>

lemma utopia_over:
  assumes "pc_utopia_ok U vs vc"
  shows "ut_over U (BlkURL_tab U) no_blk bu_InstanceNumber blk_core (\<lambda>n a e. e\<lparr>bu_InstanceNumber := n, bu_Alias := strncpy PC_ALIAS a\<rparr>)
      bk_ins_num (\<lambda>n a x. x\<lparr>bk_ins_num := n, bk_alias := a\<rparr>) us_blk (\<lambda>xs u. u\<lparr>us_blk := xs\<rparr>) vs vc"
    "ut_over U (TrustedUser_tab U) ex_tuser tu_InstanceNumber id (\<lambda>n a e. e\<lparr>tu_InstanceNumber := n, tu_Alias := strncpy PC_ALIAS a\<rparr>)
      xu_ins_num (\<lambda>n a x. x\<lparr>xu_ins_num := n, xu_alias := a\<rparr>) us_tuser (\<lambda>xs u. u\<lparr>us_tuser := xs\<rparr>) vs vc"
    "ut_over U (MSServ_tab U) ex_serv ms_InstanceNumber id (\<lambda>n a e. e\<lparr>ms_InstanceNumber := n, ms_Alias := strncpy PC_ALIAS a\<rparr>)
      xs_ins_num (\<lambda>n a x. x\<lparr>xs_ins_num := n, xs_alias := a\<rparr>) us_serv (\<lambda>xs u. u\<lparr>us_serv := xs\<rparr>) vs vc"
    "ut_over U (MSTrustedUser_tab U) ex_stuser mt_InstanceNumber id (\<lambda>n a e. e\<lparr>mt_InstanceNumber := n, mt_Alias := strncpy PC_ALIAS a\<rparr>)
      xm_ins_num (\<lambda>n a x. x\<lparr>xm_ins_num := n, xm_alias := a\<rparr>) us_stuser (\<lambda>xs u. u\<lparr>us_stuser := xs\<rparr>) vs vc"
    "ut_over U (MDDev_tab U) ex_dev de_InstanceNumber id (\<lambda>n a e. e\<lparr>de_InstanceNumber := n, de_Alias := strncpy PC_ALIAS a\<rparr>)
      xd_ins_num (\<lambda>n a x. x\<lparr>xd_ins_num := n, xd_alias := a\<rparr>) us_dev (\<lambda>xs u. u\<lparr>us_dev := xs\<rparr>) vs vc"
  using assms BlkURL_tab_ok [of U] TrustedUser_tab_ok [of U] MSServ_tab_ok [of U] MSTrustedUser_tab_ok [of U] MDDev_tab_ok [of U]
  by (simp_all add: ut_over_def pc_utopia_ok_def BlkURL_tab_def TrustedUser_tab_def MSServ_tab_def MSTrustedUser_tab_def MDDev_tab_def)

text \<open>The rows of a table as the middle layer reads them, and what a row is after it was stored and read.\<close>

abbreviation blk_rows :: "('s, 'c) pc_utopia \<Rightarrow> ('s \<Rightarrow> pc_ustore) \<Rightarrow> 's ut_board \<Rightarrow> COSA_DML_BLOCKEDURL list" where
  "blk_rows U vs \<equiv> ut_view (BlkURL_tab U) no_blk (\<lambda>s. us_blk (vs s))"
abbreviation blk_stored :: "('s, 'c) pc_utopia \<Rightarrow> COSA_DML_BLOCKEDURL \<Rightarrow> COSA_DML_BLOCKEDURL" where
  "blk_stored U e \<equiv> ut_read (BlkURL_tab U) (ut_write_add (BlkURL_tab U) e) no_blk"

abbreviation tuser_rows :: "('s, 'c) pc_utopia \<Rightarrow> ('s \<Rightarrow> pc_ustore) \<Rightarrow> 's ut_board \<Rightarrow> COSA_DML_TRUSTEDUSER list" where
  "tuser_rows U vs \<equiv> ut_view (TrustedUser_tab U) ex_tuser (\<lambda>s. us_tuser (vs s))"
abbreviation tuser_stored :: "('s, 'c) pc_utopia \<Rightarrow> COSA_DML_TRUSTEDUSER \<Rightarrow> COSA_DML_TRUSTEDUSER" where
  "tuser_stored U e \<equiv> ut_read (TrustedUser_tab U) (ut_write_add (TrustedUser_tab U) e) ex_tuser"

abbreviation serv_rows :: "('s, 'c) pc_utopia \<Rightarrow> ('s \<Rightarrow> pc_ustore) \<Rightarrow> 's ut_board \<Rightarrow> COSA_DML_MS_SERV list" where
  "serv_rows U vs \<equiv> ut_view (MSServ_tab U) ex_serv (\<lambda>s. us_serv (vs s))"
abbreviation serv_stored :: "('s, 'c) pc_utopia \<Rightarrow> COSA_DML_MS_SERV \<Rightarrow> COSA_DML_MS_SERV" where
  "serv_stored U e \<equiv> ut_read (MSServ_tab U) (ut_write_add (MSServ_tab U) e) ex_serv"

abbreviation stuser_rows :: "('s, 'c) pc_utopia \<Rightarrow> ('s \<Rightarrow> pc_ustore) \<Rightarrow> 's ut_board \<Rightarrow> COSA_DML_MS_TRUSTEDUSER list" where
  "stuser_rows U vs \<equiv> ut_view (MSTrustedUser_tab U) ex_stuser (\<lambda>s. us_stuser (vs s))"
abbreviation stuser_stored :: "('s, 'c) pc_utopia \<Rightarrow> COSA_DML_MS_TRUSTEDUSER \<Rightarrow> COSA_DML_MS_TRUSTEDUSER" where
  "stuser_stored U e \<equiv> ut_read (MSTrustedUser_tab U) (ut_write_add (MSTrustedUser_tab U) e) ex_stuser"

abbreviation dev_rows :: "('s, 'c) pc_utopia \<Rightarrow> ('s \<Rightarrow> pc_ustore) \<Rightarrow> 's ut_board \<Rightarrow> COSA_DML_MD_DEV list" where
  "dev_rows U vs \<equiv> ut_view (MDDev_tab U) ex_dev (\<lambda>s. us_dev (vs s))"
abbreviation dev_stored :: "('s, 'c) pc_utopia \<Rightarrow> COSA_DML_MD_DEV \<Rightarrow> COSA_DML_MD_DEV" where
  "dev_stored U e \<equiv> ut_read (MDDev_tab U) (ut_write_add (MDDev_tab U) e) ex_dev"

text \<open>The board layer of the product keeps the contract.\<close>

lemma utopia_boards:
  assumes "pc_utopia_ok U vs vc"
  shows "pc_board (BlkURL_ops U) (k_ins BlkURL_kind) (\<lambda>n a e. e\<lparr>bu_InstanceNumber := n, bu_Alias := strncpy PC_ALIAS a\<rparr>) (blk_stored U) blk_core
      (blk_rows U vs) (ut_ok (BlkURL_tab U) (\<lambda>s. us_blk (vs s))) (ut_start (\<lambda>s. us_blk (vs s)))"
    "pc_board (TrustedUser_ops U) (k_ins TrustedUser_kind) (\<lambda>n a e. e\<lparr>tu_InstanceNumber := n, tu_Alias := strncpy PC_ALIAS a\<rparr>) (tuser_stored U) id
      (tuser_rows U vs) (ut_ok (TrustedUser_tab U) (\<lambda>s. us_tuser (vs s))) (ut_start (\<lambda>s. us_tuser (vs s)))"
    "pc_board (MSServ_ops U) (k_ins MSServ_kind) (\<lambda>n a e. e\<lparr>ms_InstanceNumber := n, ms_Alias := strncpy PC_ALIAS a\<rparr>) (serv_stored U) id
      (serv_rows U vs) (ut_ok (MSServ_tab U) (\<lambda>s. us_serv (vs s))) (ut_start (\<lambda>s. us_serv (vs s)))"
    "pc_board (MSTrustedUser_ops U) (k_ins MSTrustedUser_kind) (\<lambda>n a e. e\<lparr>mt_InstanceNumber := n, mt_Alias := strncpy PC_ALIAS a\<rparr>) (stuser_stored U) id
      (stuser_rows U vs) (ut_ok (MSTrustedUser_tab U) (\<lambda>s. us_stuser (vs s))) (ut_start (\<lambda>s. us_stuser (vs s)))"
    "pc_board (MDDev_ops U) (k_ins MDDev_kind) (\<lambda>n a e. e\<lparr>de_InstanceNumber := n, de_Alias := strncpy PC_ALIAS a\<rparr>) (dev_stored U) id
      (dev_rows U vs) (ut_ok (MDDev_tab U) (\<lambda>s. us_dev (vs s))) (ut_start (\<lambda>s. us_dev (vs s)))"
  unfolding ops_copies kinds_ins by (rule ut_board, rule utopia_over [OF assms])+

end
