(* ===== verification/Pc_Utopia_Tables.thy ===== *)
theory Pc_Utopia_Tables
  imports Pc_Utopia_Props
begin

text \<open>
  The tables of parental control over the product's board layer: what a row is after it was stored, what a change does to the
  firewall, and a Utopia in memory on which the witnesses run.
\<close>

section \<open>A Utopia in memory\<close>

definition mem_fns :: "('x \<Rightarrow> ULONG) \<Rightarrow> (ULONG \<Rightarrow> string \<Rightarrow> 'x \<Rightarrow> 'x) \<Rightarrow> ('u \<Rightarrow> 'x list) \<Rightarrow> ('x list \<Rightarrow> 'u \<Rightarrow> 'u) \<Rightarrow> ('x, 'u) ut_fns" where
  "mem_fns num name get upd = \<lparr>uf_GetNumber = (\<lambda>u. length (get u)), uf_GetInsNumByIndex = (\<lambda>u i. num (get u ! i)),
     uf_GetByIndex = (\<lambda>u i. get u ! i),
     uf_SetInsAndAliasByIndex = (\<lambda>u i n a. (True, upd ((get u)[i := name n a (get u ! i)]) u)),
     uf_Add = (\<lambda>u x. if length (get u) + 1 < 2 ^ 31 then (True, upd (get u @ [x]) u) else (False, u)),
     uf_Del = (\<lambda>u n. (n \<in> num ` set (get u), upd (row_del num n (get u)) u)),
     uf_SetByIndex = (\<lambda>u i x. (True, upd ((get u)[nat i := x]) u))\<rparr>"

lemma mem_fns_ok: "ut_fns_ok (mem_fns num name get upd) num name get upd (\<lambda>u. u)"
  by (simp add: ut_fns_ok_def mem_fns_def)

definition mem_pc_utopia :: "(pc_ustore, pc_ustore) pc_utopia" where
  "mem_pc_utopia = \<lparr>pu_Init = Some, pu_Commit = (\<lambda>s c. c),
     pu_blk = mem_fns bk_ins_num (\<lambda>n a x. x\<lparr>bk_ins_num := n, bk_alias := a\<rparr>) us_blk (\<lambda>xs u. u\<lparr>us_blk := xs\<rparr>),
     pu_tuser = mem_fns xu_ins_num (\<lambda>n a x. x\<lparr>xu_ins_num := n, xu_alias := a\<rparr>) us_tuser (\<lambda>xs u. u\<lparr>us_tuser := xs\<rparr>),
     pu_serv = mem_fns xs_ins_num (\<lambda>n a x. x\<lparr>xs_ins_num := n, xs_alias := a\<rparr>) us_serv (\<lambda>xs u. u\<lparr>us_serv := xs\<rparr>),
     pu_stuser = mem_fns xm_ins_num (\<lambda>n a x. x\<lparr>xm_ins_num := n, xm_alias := a\<rparr>) us_stuser (\<lambda>xs u. u\<lparr>us_stuser := xs\<rparr>),
     pu_dev = mem_fns xd_ins_num (\<lambda>n a x. x\<lparr>xd_ins_num := n, xd_alias := a\<rparr>) us_dev (\<lambda>xs u. u\<lparr>us_dev := xs\<rparr>),
     pu_GetBlkURLCfg = us_blk_on, pu_SetBlkURLCfg = (\<lambda>u b. (True, u\<lparr>us_blk_on := (if b then 1 else 0)\<rparr>)),
     pu_GetMngServsCfg = us_serv_on, pu_SetMngServsCfg = (\<lambda>u b. (True, u\<lparr>us_serv_on := (if b then 1 else 0)\<rparr>)),
     pu_GetMngDevsCfg = us_dev_on, pu_SetMngDevsCfg = (\<lambda>u d. (True, u\<lparr>us_dev_on := d\<rparr>)),
     pu_size = (\<lambda>a. 1100), pu_junk_protocol = ''junk''\<rparr>"

lemma mem_pc_utopia_ok: "pc_utopia_ok mem_pc_utopia (\<lambda>s. s) (\<lambda>c. c)"
  by (simp add: pc_utopia_ok_def mem_pc_utopia_def mem_fns_ok)

section \<open>What a row is after it was stored\<close>

text \<open>Utopia's arrays are at least as large as those of the middle layer.\<close>

definition sizes_ok :: "('s, 'c) pc_utopia \<Rightarrow> bool" where
  "sizes_ok U \<longleftrightarrow> (\<forall>a \<in> {Blk_alias, Tuser_alias, Serv_alias, Stuser_alias, Dev_alias}. PC_ALIAS \<le> pu_size U a) \<and>
     PC_SITE \<le> pu_size U Blk_site \<and> 5 < pu_size U Blk_block_method \<and> 4 < pu_size U Serv_protocol \<and>
     (\<forall>a \<in> {Blk_start_time, Blk_end_time, Blk_block_days, Tuser_host_descp, Tuser_ipaddr, Serv_descp, Serv_start_time,
        Serv_end_time, Serv_block_days, Stuser_host_descp, Stuser_ipaddr, Dev_descp, Dev_macaddr, Dev_start_time,
        Dev_end_time, Dev_block_days}. PC_TEXT \<le> pu_size U a)"

lemma strncpy_room: "length s < k \<Longrightarrow> k \<le> n \<Longrightarrow> strncpy n s = s" "length s < k \<Longrightarrow> strncpy k s = s"
  by simp_all



section \<open>A change and the firewall\<close>

text \<open>What a function of a table did outside the store: it succeeded and the last event restarts the firewall, or it failed and
  there was none. Counting and searching for rows log nothing.\<close>

definition restarts :: "'s ut_board \<Rightarrow> ansc_status \<times> 's ut_board \<Rightarrow> bool" where
  "restarts b r \<longleftrightarrow> (if ansc_ok (fst r) then \<exists>es. ub_events (snd r) = ub_events b @ es @ [Sysevent ''firewall-restart'' []]
     else ub_events (snd r) = ub_events b)"

definition tab_logs :: "('x, 'e, 's, 'c) ut_tab \<Rightarrow> bool" where
  "tab_logs T \<longleftrightarrow> (\<forall>n b. ub_events (ut_set_nr T n b) = ub_events b) \<and>
     (\<forall>b. restarts b (ANSC_SUCCESS, ut_added T b)) \<and> (\<forall>n b. restarts b (ANSC_SUCCESS, ut_deleted T n b)) \<and>
     (\<forall>n b. restarts b (ANSC_SUCCESS, ut_changed T n b))"

lemma tab_logsD:
  assumes "tab_logs T" "ub_events b = ub_events b'"
  shows "ub_events (ut_set_nr T k b) = ub_events b'" "restarts b' (ANSC_SUCCESS, ut_added T b)"
    "restarts b' (ANSC_SUCCESS, ut_deleted T n b)" "restarts b' (ANSC_SUCCESS, ut_changed T n b)"
proof -
  have "restarts b' r = restarts b r" for r using assms(2) by (simp add: restarts_def)
  then show "ub_events (ut_set_nr T k b) = ub_events b'" "restarts b' (ANSC_SUCCESS, ut_added T b)"
    "restarts b' (ANSC_SUCCESS, ut_deleted T n b)" "restarts b' (ANSC_SUCCESS, ut_changed T n b)"
    using assms by (simp_all add: tab_logs_def)
qed

lemma tabs_log:
  "tab_logs (BlkURL_tab U)" "tab_logs (TrustedUser_tab U)" "tab_logs (MSServ_tab U)" "tab_logs (MSTrustedUser_tab U)"
  "tab_logs (MDDev_tab U)"
  by (simp_all add: tab_logs_def restarts_def BlkURL_tab_def TrustedUser_tab_def MSServ_tab_def MSTrustedUser_tab_def MDDev_tab_def
      event_defs)

lemma restarts_failed: "ub_events b' = ub_events b \<Longrightarrow> restarts b (ANSC_FAILURE, b')"
  by (simp add: restarts_def)

lemma index_logs: "tab_logs T \<Longrightarrow> ub_events (snd (ut_InsGetIndex U T n b)) = ub_events b"
  by (simp add: ut_InsGetIndex_def ut_GetNumberOfEntries_def Let_def tab_logs_def split: option.split)

lemma ut_changes_restart:
  assumes "tab_logs T"
  shows "restarts b (ut_AddEntry U T e b)" "restarts b (ut_DelEntry U T n b)" "restarts b (ut_SetConf U T n e b)"
proof -
  show "restarts b (ut_AddEntry U T e b)"
    using assms by (auto simp: ut_AddEntry_def Let_def restarts_failed tab_logsD split: option.split prod.split)
  obtain i b1 where g: "ut_InsGetIndex U T n b = (i, b1)" by force
  have e1: "ub_events b1 = ub_events b" using index_logs [OF assms, of U n b] g by simp
  show "restarts b (ut_DelEntry U T n b)"
    using assms e1 g by (auto simp: ut_DelEntry_def Let_def restarts_failed tab_logsD split: option.split prod.split)
  obtain j b2 where g2: "ut_InsGetIndex U T n b1 = (j, b2)" by force
  have "ub_events b2 = ub_events b" using index_logs [OF assms, of U n b1] g2 e1 by simp
  then show "restarts b (ut_SetConf U T n e b)"
    using assms e1 g g2 by (auto simp: ut_SetConf_def Let_def restarts_failed tab_logsD split: option.split prod.split)
qed

text \<open>C22: every change of one of the five tables that the board layer reports as done ends with the event that restarts the
  firewall, after those events it logged before; a change that fails logs nothing.\<close>

theorem change_restarts_firewall:
  "restarts b (CosaDmlBlkURL_AddEntry U e1 b) \<and> restarts b (CosaDmlBlkURL_DelEntry U n b) \<and> restarts b (CosaDmlBlkURL_SetConf U n e1 b) \<and>
   restarts b (CosaDmlTrustedUser_AddEntry U e2 b) \<and> restarts b (CosaDmlTrustedUser_DelEntry U n b) \<and>
   restarts b (CosaDmlTrustedUser_SetConf U n e2 b) \<and>
   restarts b (CosaDmlMSServ_AddEntry U e3 b) \<and> restarts b (CosaDmlMSServ_DelEntry U n b) \<and> restarts b (CosaDmlMSServ_SetConf U n e3 b) \<and>
   restarts b (CosaDmlMSTrustedUser_AddEntry U e4 b) \<and> restarts b (CosaDmlMSTrustedUser_DelEntry U n b) \<and>
   restarts b (CosaDmlMSTrustedUser_SetConf U n e4 b) \<and>
   restarts b (CosaDmlMDDev_AddEntry U e5 b) \<and> restarts b (CosaDmlMDDev_DelEntry U n b) \<and> restarts b (CosaDmlMDDev_SetConf U n e5 b)"
  by (simp add: ut_changes_restart tabs_log
      CosaDmlBlkURL_AddEntry_def CosaDmlBlkURL_DelEntry_def CosaDmlBlkURL_SetConf_def
      CosaDmlTrustedUser_AddEntry_def CosaDmlTrustedUser_DelEntry_def CosaDmlTrustedUser_SetConf_def
      CosaDmlMSServ_AddEntry_def CosaDmlMSServ_DelEntry_def CosaDmlMSServ_SetConf_def
      CosaDmlMSTrustedUser_AddEntry_def CosaDmlMSTrustedUser_DelEntry_def CosaDmlMSTrustedUser_SetConf_def
      CosaDmlMDDev_AddEntry_def CosaDmlMDDev_DelEntry_def CosaDmlMDDev_SetConf_def)

section \<open>A protocol that is none of the three\<close>

text \<open>C36: the setter of a managed service takes every number as its protocol; when a service is added whose protocol is none of
  the three the type has, the text Utopia stores for the protocol is whatever the structure on the stack held.\<close>

theorem unknown_protocol_stores_junk:
  assumes "pc_utopia_ok U vs vc" "\<not> bridge_blocked (pl_libs L)" "p \<notin> {PROTO_TCP, PROTO_UDP, PROTO_BOTH}"
    and "MSServ_SetParamUlongValue L e ''Protocol'' p = (ok, e')" "CosaDmlMSServ_AddEntry U e' b = (ANSC_SUCCESS, b')"
  shows "ok \<and> (\<exists>x. us_serv (vs (ub_store b')) = us_serv (vs (ub_store b)) @ [x] \<and> xs_ins_num x = ms_InstanceNumber e \<and>
    xs_protocol x = pu_junk_protocol U)"
proof -
  have e: "ok" "e' = e\<lparr>ms_Protocol := p\<rparr>" using assms(2,4) by (simp_all add: MSServ_SetParamUlongValue_def)
  note O = utopia_over(3) [OF assms(1)]
  obtain c where c: "pu_Init U (ub_store b) = Some c" "vc c = vs (ub_store b)" using ut_opens [OF O] .
  obtain r c' where r: "uf_Add (ut_fns (MSServ_tab U)) c (ut_write_add (MSServ_tab U) e') = (r, c')" by force
  have "r" "vs (ub_store b') = vc c'"
    using assms(5) c r ut_tabD(12) [OF ut_overD(2) [OF O]] ut_overD(3) [OF O]
    by (auto simp: CosaDmlMSServ_AddEntry_def ut_AddEntry_def Let_def split: if_split_asm)
  then have "us_serv (vs (ub_store b')) = us_serv (vs (ub_store b)) @ [ut_write_add (MSServ_tab U) e']"
    using ut_fnsD(5) [OF ut_overD(1) [OF O] r] c(2) by simp
  then show ?thesis using assms(3) e by (simp add: MSServ_tab_def write_ms_serv_def protocol_text_def)
qed

definition empty_pc_board :: "pc_ustore ut_board" where
  "empty_pc_board = \<lparr>ub_store = \<lparr>us_blk = [], us_tuser = [], us_serv = [], us_stuser = [], us_dev = [], us_blk_on = 0, us_serv_on = 0,
     us_dev_on = (0, 0)\<rparr>, g_NrBlkURL = 0, g_NrTrustedUser = 0, g_NrMSServs = 0, g_NrMSTrustedUsers = 0, g_NrMDDevs = 0, ub_events = []\<rparr>"

theorem unknown_protocol_stores_junk_witness:
  "\<exists>b' x. CosaDmlMSServ_AddEntry mem_pc_utopia (ex_serv\<lparr>ms_Protocol := 7\<rparr>) empty_pc_board = (ANSC_SUCCESS, b') \<and>
     us_serv (ub_store b') = [x] \<and> xs_protocol x = ''junk''"
proof -
  obtain s b' where a: "CosaDmlMSServ_AddEntry mem_pc_utopia (ex_serv\<lparr>ms_Protocol := 7\<rparr>) empty_pc_board = (s, b')" by force
  have s: "s = ANSC_SUCCESS"
    using a by (simp add: CosaDmlMSServ_AddEntry_def ut_AddEntry_def MSServ_tab_def mem_pc_utopia_def mem_fns_def empty_pc_board_def Let_def)
  have m: "MSServ_SetParamUlongValue ex_pc ex_serv ''Protocol'' 7 = (True, ex_serv\<lparr>ms_Protocol := 7\<rparr>)" "\<not> bridge_blocked (pl_libs ex_pc)"
    by (simp_all add: MSServ_SetParamUlongValue_def ex_pc_def)
  have "True \<and> (\<exists>x. us_serv (ub_store b') = us_serv (ub_store empty_pc_board) @ [x] \<and> xs_ins_num x = ms_InstanceNumber ex_serv \<and>
      xs_protocol x = pu_junk_protocol mem_pc_utopia)"
    by (rule unknown_protocol_stores_junk [OF mem_pc_utopia_ok m(2) _ m(1) a [unfolded s]]) (simp add: PROTO_TCP_def PROTO_UDP_def PROTO_BOTH_def)
  then show ?thesis using a s by (auto simp: empty_pc_board_def mem_pc_utopia_def)
qed

end
