(* ===== verification/Pc_Redirect.thy ===== *)
theory Pc_Redirect
  imports Pc_Utopia_Tables Pf_WebConfig_Table Nat_Objects
begin

text \<open>
  The redirection addresses of the managed devices: the board layer \<open>CosaDmlMDRed_GetConf\<close> and \<open>CosaDmlMDRed_SetConf\<close>, the
  handlers \<open>MDRed_...\<close> of \<open>cosa_x_comcast_com_parentalcontrol_dml.c\<close>, and the object of parental control itself. The addresses are in
  syscfg, the database that Utopia's store is kept in, so a function works on \<open>ub_store\<close>.
\<close>

section \<open>The board layer\<close>

text \<open>\<open>rs_set_commit\<close> is \<open>syscfg_set_commit\<close>: it stores a value and commits.\<close>

record 's red_sys =
  rs_syscfg :: "'s syscfg"
  rs_set_commit :: "'s \<Rightarrow> string \<Rightarrow> string \<Rightarrow> bool \<times> 's"

definition IPV4_SIZE :: nat where "IPV4_SIZE = 17"
definition IPV6_SIZE :: nat where "IPV6_SIZE = 64"

text \<open>A value that is missing or empty is replaced by the default, which is also stored; that this fails is only logged.\<close>

definition read_address :: "'s red_sys \<Rightarrow> nat \<Rightarrow> string \<Rightarrow> string \<Rightarrow> 's \<Rightarrow> string \<times> 's" where
  "read_address C n key dflt d = (case sc_get (rs_syscfg C) d key n of
       Some v \<Rightarrow> if v \<noteq> [] then (v, d) else (dflt, snd (rs_set_commit C d key dflt))
     | None \<Rightarrow> (dflt, snd (rs_set_commit C d key dflt)))"

definition CosaDmlMDRed_GetConf :: "'s red_sys \<Rightarrow> COSA_DML_MD_RED \<Rightarrow> 's ut_board \<Rightarrow> ansc_status \<times> COSA_DML_MD_RED \<times> 's ut_board" where
  "CosaDmlMDRed_GetConf C e b =
     (case read_address C IPV4_SIZE ''HTTP_Server_IP'' ''127.0.0.1'' (ub_store b) of (a1, d1) \<Rightarrow>
      case read_address C IPV4_SIZE ''HTTPS_Server_IP'' ''127.0.0.1'' d1 of (a2, d2) \<Rightarrow>
      case read_address C IPV4_SIZE ''Default_Server_IP'' ''127.0.0.1'' d2 of (a3, d3) \<Rightarrow>
      case read_address C IPV6_SIZE ''HTTP_Server_IPv6'' ''::1'' d3 of (a4, d4) \<Rightarrow>
      case read_address C IPV6_SIZE ''HTTPS_Server_IPv6'' ''::1'' d4 of (a5, d5) \<Rightarrow>
      case read_address C IPV6_SIZE ''Default_Server_IPv6'' ''::1'' d5 of (a6, d6) \<Rightarrow>
        (ANSC_SUCCESS, e\<lparr>rd_HTTP_Server_IP := a1, rd_HTTPS_Server_IP := a2, rd_Default_Server_IP := a3,
            rd_HTTP_Server_IPv6 := a4, rd_HTTPS_Server_IPv6 := a5, rd_Default_Server_IPv6 := a6\<rparr>, b\<lparr>ub_store := d6\<rparr>))"

text \<open>The sets are joined by \<open>||\<close>: the first that fails ends them, the commit follows all the same.\<close>

fun set_keys :: "'s syscfg \<Rightarrow> (string \<times> string) list \<Rightarrow> 's \<Rightarrow> bool \<times> 's" where
  "set_keys C [] d = (True, d)"
| "set_keys C ((k, x) # kxs) d = (case sc_set C d k x of (ok, d') \<Rightarrow> if ok then set_keys C kxs d' else (False, d'))"

definition red_cells :: "COSA_DML_MD_RED \<Rightarrow> (string \<times> string) list" where
  "red_cells e = [(''HTTP_Server_IP'', rd_HTTP_Server_IP e), (''HTTPS_Server_IP'', rd_HTTPS_Server_IP e),
     (''Default_Server_IP'', rd_Default_Server_IP e), (''HTTP_Server_IPv6'', rd_HTTP_Server_IPv6 e),
     (''HTTPS_Server_IPv6'', rd_HTTPS_Server_IPv6 e), (''Default_Server_IPv6'', rd_Default_Server_IPv6 e)]"

definition CosaDmlMDRed_SetConf :: "'s red_sys \<Rightarrow> COSA_DML_MD_RED \<Rightarrow> 's ut_board \<Rightarrow> ansc_status \<times> 's ut_board" where
  "CosaDmlMDRed_SetConf C e b =
     (case set_keys (rs_syscfg C) (red_cells e) (ub_store b) of (_, d) \<Rightarrow>
        (ANSC_SUCCESS, b\<lparr>ub_store := snd (sc_commit (rs_syscfg C) d)\<rparr>))"

section \<open>The handlers\<close>

text \<open>The IPv4 addresses are read from the database, into a buffer of 17 bytes that starts as \<open>"0"\<close>; the IPv6 addresses from the
  structure. The getter of \<open>HTTPS_Server_IPv6\<close> reads the field of \<open>HTTP_Server_IPv6\<close>.\<close>

definition red_stored :: "'s red_sys \<Rightarrow> 's \<Rightarrow> string \<Rightarrow> string" where
  "red_stored C d key = (case sc_get (rs_syscfg C) d key IPV4_SIZE of Some v \<Rightarrow> v | None \<Rightarrow> ''0'')"

definition MDRed_GetParamStringValue :: "'s red_sys \<Rightarrow> ('s ut_board, 'r) pc_state \<Rightarrow> string \<Rightarrow> nat \<Rightarrow> ULONG \<times> string option" where
  "MDRed_GetParamStringValue C st ParamName bufsize =
     (let d = ub_store (en_board (pc_env st)); e = pc_MDRedirect st in
      if ParamName = ''HTTP_Server_IP'' then get_text bufsize (red_stored C d ''HTTP_Server_IP'')
      else if ParamName = ''HTTPS_Server_IP'' then get_text bufsize (red_stored C d ''HTTPS_Server_IP'')
      else if ParamName = ''Default_Server_IP'' then get_text bufsize (red_stored C d ''Default_Server_IP'')
      else if ParamName = ''HTTP_Server_IPv6'' then get_text bufsize (rd_HTTP_Server_IPv6 e)
      else if ParamName = ''HTTPS_Server_IPv6'' then get_text bufsize (rd_HTTP_Server_IPv6 e)
      else if ParamName = ''Default_Server_IPv6'' then get_text bufsize (rd_Default_Server_IPv6 e)
      else (- 1, None))"

text \<open>A setter checks the address and copies it with quotes around it. \<open>refuse\<close> is the test of the result of the check.\<close>

definition set_address :: "('s, 'c, 'r) pc_libs \<Rightarrow> (string \<Rightarrow> bool) \<Rightarrow> (ansc_status \<Rightarrow> bool) \<Rightarrow> int \<Rightarrow> nat \<Rightarrow> string \<Rightarrow> string \<Rightarrow> bool \<times> string" where
  "set_address L pton6 refuse ty n old strValue =
     (case isValidIP (pl_libs L) pton6 ty strValue [] 256 of (ret, wrapstring) \<Rightarrow>
        if refuse ret then (False, old) else lib_noclobber (pl_libs L) n old wrapstring)"

definition no_success :: "ansc_status \<Rightarrow> bool" where
  "no_success ret \<longleftrightarrow> ret \<noteq> ANSC_SUCCESS"

text \<open>The setter of \<open>HTTP_Server_IPv6\<close> compares the result with 1; \<open>isValidIP\<close> returns \<open>ANSC_STATUS_SUCCESS\<close>, which is 0, or
  \<open>ANSC_STATUS_FAILURE\<close>, which is -1.\<close>

definition status_number :: "ansc_status \<Rightarrow> ULONG" where
  "status_number ret = (if ansc_ok ret then 0 else - 1)"

definition not_one :: "ansc_status \<Rightarrow> bool" where
  "not_one ret \<longleftrightarrow> status_number ret \<noteq> 1"

definition MDRed_SetParamStringValue :: "('s, 'c, 'r) pc_libs \<Rightarrow> (string \<Rightarrow> bool) \<Rightarrow> ('b, 'r) pc_state \<Rightarrow> string \<Rightarrow> string \<Rightarrow>
    bool \<times> ('b, 'r) pc_state" where
  "MDRed_SetParamStringValue L pton6 st ParamName strValue =
     (let e = pc_MDRedirect st; put = (\<lambda>e'. st\<lparr>pc_MDRedirect := e'\<rparr>) in
      if ParamName = ''HTTP_Server_IP'' then
        (case set_address L pton6 no_success 4 IPV4_SIZE (rd_HTTP_Server_IP e) strValue of (ok, a) \<Rightarrow> (ok, put (e\<lparr>rd_HTTP_Server_IP := a\<rparr>)))
      else if ParamName = ''HTTPS_Server_IP'' then
        (case set_address L pton6 no_success 4 IPV4_SIZE (rd_HTTPS_Server_IP e) strValue of (ok, a) \<Rightarrow> (ok, put (e\<lparr>rd_HTTPS_Server_IP := a\<rparr>)))
      else if ParamName = ''Default_Server_IP'' then
        (case set_address L pton6 no_success 4 IPV4_SIZE (rd_Default_Server_IP e) strValue of (ok, a) \<Rightarrow> (ok, put (e\<lparr>rd_Default_Server_IP := a\<rparr>)))
      else if ParamName = ''HTTP_Server_IPv6'' then
        (case set_address L pton6 not_one 6 IPV6_SIZE (rd_HTTP_Server_IPv6 e) strValue of (ok, a) \<Rightarrow> (ok, put (e\<lparr>rd_HTTP_Server_IPv6 := a\<rparr>)))
      else if ParamName = ''HTTPS_Server_IPv6'' then
        (case set_address L pton6 no_success 6 IPV6_SIZE (rd_HTTPS_Server_IPv6 e) strValue of (ok, a) \<Rightarrow> (ok, put (e\<lparr>rd_HTTPS_Server_IPv6 := a\<rparr>)))
      else if ParamName = ''Default_Server_IPv6'' then
        (case set_address L pton6 no_success 6 IPV6_SIZE (rd_Default_Server_IPv6 e) strValue of (ok, a) \<Rightarrow> (ok, put (e\<lparr>rd_Default_Server_IPv6 := a\<rparr>)))
      else (False, st))"

definition MDRed_Commit :: "'b pc_boards \<Rightarrow> ('b, 'r) pc_state \<Rightarrow> ULONG \<times> ('b, 'r) pc_state" where
  "MDRed_Commit BS st =
     (case bs_MDRed_SetConf BS (pc_MDRedirect st) (en_board (pc_env st)) of (s, b) \<Rightarrow>
        if ansc_ok s then (0, st\<lparr>pc_env := (pc_env st)\<lparr>en_board := b\<rparr>\<rparr>)
        else (case bs_MDRed_GetConf BS (pc_MDRedirect st) b of (_, x, b') \<Rightarrow>
            (- 1, st\<lparr>pc_MDRedirect := x, pc_env := (pc_env st)\<lparr>en_board := b'\<rparr>\<rparr>)))"

definition MDRed_Rollback :: "'b pc_boards \<Rightarrow> ('b, 'r) pc_state \<Rightarrow> ULONG \<times> ('b, 'r) pc_state" where
  "MDRed_Rollback BS st =
     (case bs_MDRed_GetConf BS (pc_MDRedirect st) (en_board (pc_env st)) of (s, x, b) \<Rightarrow>
        (if ansc_ok s then 0 else - 1, st\<lparr>pc_MDRedirect := x, pc_env := (pc_env st)\<lparr>en_board := b\<rparr>\<rparr>))"

section \<open>The object\<close>

text \<open>Without \<open>UTC_ENABLE\<close> the only parameter of the object reads false and takes any value.\<close>

definition ParentalControl_GetParamBoolValue :: "string \<Rightarrow> bool option" where
  "ParentalControl_GetParamBoolValue ParamName = (if ParamName = ''RollbackUTC_Local'' then Some False else None)"

definition ParentalControl_SetParamBoolValue :: "string \<Rightarrow> bool \<Rightarrow> bool" where
  "ParentalControl_SetParamBoolValue ParamName bValue = (if ParamName = ''RollbackUTC_Local'' then True else False)"

text \<open>\<open>fresh\<close> is what the allocated block holds. The result of the initialisation is dropped.\<close>

definition CosaParentalControlCreate :: "('s, 'c, 'r) pc_libs \<Rightarrow> 'b pc_boards \<Rightarrow> pc_junk \<Rightarrow> ('b, 'r) pc_state \<Rightarrow> ('b, 'r) pc_state option" where
  "CosaParentalControlCreate L BS N fresh =
     (case pc_alloc L (pc_env fresh) of
        (None, _) \<Rightarrow> None
      | (Some _, v) \<Rightarrow> Some (snd (CosaParentalControlInitialize L BS N (fresh\<lparr>pc_env := v\<rparr>))))"

section \<open>The product\<close>

text \<open>The board layer of the product: all functions of the middle layer's interface.\<close>

definition product_boards :: "('s, 'c) pc_utopia \<Rightarrow> 's red_sys \<Rightarrow> 's ut_board pc_boards" where
  "product_boards U C = \<lparr>bs_blk = BlkURL_ops U, bs_tuser = TrustedUser_ops U, bs_serv = MSServ_ops U,
     bs_stuser = MSTrustedUser_ops U, bs_dev = MDDev_ops U,
     bs_MngSites_GetConf = CosaDmlMngSites_GetConf U, bs_MngSites_SetConf = CosaDmlMngSites_SetConf U,
     bs_MngServs_GetConf = CosaDmlMngServs_GetConf U, bs_MngServs_SetConf = CosaDmlMngServs_SetConf U,
     bs_MngDevs_GetConf = CosaDmlMngDevs_GetConf U, bs_MngDevs_SetConf = CosaDmlMngDevs_SetConf U,
     bs_MDRed_GetConf = CosaDmlMDRed_GetConf C, bs_MDRed_SetConf = CosaDmlMDRed_SetConf C\<rparr>"

end
