(* ===== verification/Pc_Redirect_Props.thy ===== *)
theory Pc_Redirect_Props
  imports Pc_Redirect
begin

text \<open>
  The redirection addresses: what a set and commit leaves in the database and shows, that reading them is stable and fills in
  defaults, that a roll back brings the committed addresses back, and the faults of the IPv6 handlers.
\<close>

section \<open>What the database does\<close>

definition red_sys_ok :: "'s red_sys \<Rightarrow> ('s \<Rightarrow> string \<Rightarrow> string option) \<Rightarrow> bool" where
  "red_sys_ok C v \<longleftrightarrow> syscfg_ok (rs_syscfg C) v \<and>
     (\<forall>d k x. v (snd (rs_set_commit C d k x)) = (if fst (rs_set_commit C d k x) then (v d)(k \<mapsto> x) else v d))"

text \<open>Every operation succeeds.\<close>

definition red_sys_total :: "'s red_sys \<Rightarrow> bool" where
  "red_sys_total C \<longleftrightarrow> syscfg_total (rs_syscfg C) \<and> (\<forall>d k x. fst (rs_set_commit C d k x))"

lemma red_sysD:
  assumes "red_sys_ok C v"
  shows "v (snd (sc_set (rs_syscfg C) d k x)) = (if fst (sc_set (rs_syscfg C) d k x) then (v d)(k \<mapsto> x) else v d)"
    "v (snd (sc_commit (rs_syscfg C) d)) = v d" "sc_get (rs_syscfg C) d k n = map_option (take (n - 1)) (v d k)"
    "v (snd (rs_set_commit C d k x)) = (if fst (rs_set_commit C d k x) then (v d)(k \<mapsto> x) else v d)"
  using assms by (simp_all add: red_sys_ok_def syscfg_ok_def)

lemma set_keys_total:
  assumes "red_sys_ok C v" "red_sys_total C"
  shows "v (snd (set_keys (rs_syscfg C) kxs d)) = fold (\<lambda>(k, x) m. m(k \<mapsto> x)) kxs (v d)"
proof (induction kxs arbitrary: d)
  case (Cons kx kxs)
  obtain k x where kx: "kx = (k, x)" by force
  obtain d' where s: "sc_set (rs_syscfg C) d k x = (True, d')"
    using assms(2) unfolding red_sys_total_def syscfg_total_def by (metis prod.collapse)
  have "v d' = (v d)(k \<mapsto> x)" using red_sysD(1) [OF assms(1), of d k x] s by simp
  then show ?case using Cons by (simp add: kx s)
qed simp

text \<open>What a read leaves in the database: the stored value, or the default when there is none that the buffer shows.\<close>

definition filled :: "nat \<Rightarrow> string \<Rightarrow> string option \<Rightarrow> string" where
  "filled n dflt w = (case w of Some x \<Rightarrow> if take (n - 1) x \<noteq> [] then x else dflt | None \<Rightarrow> dflt)"

lemma filled_shown:
  assumes "length dflt < n" "dflt \<noteq> []"
  shows "take (n - 1) (filled n dflt w) \<noteq> [] \<and> filled n dflt (Some (filled n dflt w)) = filled n dflt w"
  using assms by (cases n; cases dflt) (auto simp: filled_def split: option.split)

lemma read_address_result:
  assumes "red_sys_ok C v" "red_sys_total C" "length dflt < n" "read_address C n key dflt d = (a, d')"
  shows "a = take (n - 1) (filled n dflt (v d key)) \<and> v d' = (v d)(key \<mapsto> filled n dflt (v d key))"
proof -
  have "fst (rs_set_commit C d key dflt)" using assms(2) by (simp add: red_sys_total_def)
  then have s: "v (snd (rs_set_commit C d key dflt)) = (v d)(key \<mapsto> dflt)" using red_sysD(4) [OF assms(1)] by simp
  show ?thesis
    using assms(3,4) s
    by (cases "v d key") (auto simp: read_address_def filled_def red_sysD(3) [OF assms(1)] fun_upd_idem split: if_split_asm)
qed

section \<open>Reading\<close>

text \<open>The keys with the size of their buffer and their default, and what the database holds after all of them were read.\<close>

definition red_keys :: "(string \<times> nat \<times> string) list" where
  "red_keys = [(''HTTP_Server_IP'', 17, ''127.0.0.1''), (''HTTPS_Server_IP'', 17, ''127.0.0.1''), (''Default_Server_IP'', 17, ''127.0.0.1''),
     (''HTTP_Server_IPv6'', 64, ''::1''), (''HTTPS_Server_IPv6'', 64, ''::1''), (''Default_Server_IPv6'', 64, ''::1'')]"

lemma red_keys_distinct: "distinct (map fst red_keys)"
  by (simp add: red_keys_def)

lemma GetConf_reads:
  assumes "red_sys_ok C v" "red_sys_total C" "CosaDmlMDRed_GetConf C e b = (s, e', b')"
  shows "s = ANSC_SUCCESS \<and> b' = b\<lparr>ub_store := ub_store b'\<rparr> \<and>
    red_cells e' = map (\<lambda>(k, n, dflt). (k, take (n - 1) (filled n dflt (v (ub_store b) k)))) red_keys \<and>
    (\<forall>(k, n, dflt) \<in> set red_keys. v (ub_store b') k = Some (filled n dflt (v (ub_store b) k))) \<and>
    (\<forall>k. k \<notin> fst ` set red_keys \<longrightarrow> v (ub_store b') k = v (ub_store b) k)"
proof -
  note R = read_address_result [OF assms(1,2)]
  have sz: "length ''127.0.0.1'' < (17::nat)" "length ''::1'' < (64::nat)" by simp_all
  obtain a1 d1 where r1: "read_address C 17 ''HTTP_Server_IP'' ''127.0.0.1'' (ub_store b) = (a1, d1)" by force
  obtain a2 d2 where r2: "read_address C 17 ''HTTPS_Server_IP'' ''127.0.0.1'' d1 = (a2, d2)" by force
  obtain a3 d3 where r3: "read_address C 17 ''Default_Server_IP'' ''127.0.0.1'' d2 = (a3, d3)" by force
  obtain a4 d4 where r4: "read_address C 64 ''HTTP_Server_IPv6'' ''::1'' d3 = (a4, d4)" by force
  obtain a5 d5 where r5: "read_address C 64 ''HTTPS_Server_IPv6'' ''::1'' d4 = (a5, d5)" by force
  obtain a6 d6 where r6: "read_address C 64 ''Default_Server_IPv6'' ''::1'' d5 = (a6, d6)" by force
  have run: "s = ANSC_SUCCESS" "b' = b\<lparr>ub_store := d6\<rparr>" "red_cells e' = [(''HTTP_Server_IP'', a1), (''HTTPS_Server_IP'', a2),
      (''Default_Server_IP'', a3), (''HTTP_Server_IPv6'', a4), (''HTTPS_Server_IPv6'', a5), (''Default_Server_IPv6'', a6)]"
    using assms(3) by (auto simp: CosaDmlMDRed_GetConf_def IPV4_SIZE_def IPV6_SIZE_def r1 r2 r3 r4 r5 r6 red_cells_def)
  note x = R [OF sz(1) r1] R [OF sz(1) r2] R [OF sz(1) r3] R [OF sz(2) r4] R [OF sz(2) r5] R [OF sz(2) r6]
  show ?thesis by (simp add: run x red_keys_def)
qed

lemma red_cells_inj: "red_cells e = red_cells e' \<Longrightarrow> e = e'"
  by (cases e, cases e') (simp add: red_cells_def)

text \<open>Reading the redirection addresses gives every address a text, the stored one or the default, which the database then holds;
  reading them again gives the same addresses and changes nothing.\<close>

theorem redirect_read_stable:
  assumes "red_sys_ok C v" "red_sys_total C"
    and run: "CosaDmlMDRed_GetConf C e b = (s, e', b')" "CosaDmlMDRed_GetConf C e1 b' = (s', e2, b2)"
  shows "s = ANSC_SUCCESS \<and> s' = ANSC_SUCCESS \<and> e2 = e' \<and> v (ub_store b2) = v (ub_store b') \<and>
    (\<forall>(k, a) \<in> set (red_cells e'). a \<noteq> [] \<and>
       (case v (ub_store b) k of Some (c # x) \<Rightarrow> v (ub_store b') k = Some (c # x) \<and> a = take (length a) (c # x)
        | _ \<Rightarrow> v (ub_store b') k = Some a \<and> a \<in> {''127.0.0.1'', ''::1''}))"
proof -
  note g1 = GetConf_reads [OF assms(1,2) run(1)] and g2 = GetConf_reads [OF assms(1,2) run(2)]
  have f: "length dflt < n \<and> dflt \<noteq> [] \<and> dflt \<in> {''127.0.0.1'', ''::1''}" if "(k, n, dflt) \<in> set red_keys" for k n dflt
    using that by (auto simp: red_keys_def)
  have same: "filled n dflt (v (ub_store b') k) = filled n dflt (v (ub_store b) k)" if "(k, n, dflt) \<in> set red_keys" for k n dflt
    using g1 f [OF that] filled_shown [of dflt n] that by fastforce
  then have "red_cells e2 = red_cells e'" using g1 g2 by (auto intro!: map_cong)
  then have e: "e2 = e'" by (rule red_cells_inj)
  have d: "v (ub_store b2) k = v (ub_store b') k" for k
  proof (cases "k \<in> fst ` set red_keys")
    case True
    then obtain n dflt where "(k, n, dflt) \<in> set red_keys" by auto
    then show ?thesis using g1 g2 same by fastforce
  qed (use g2 in simp)
  have "a \<noteq> [] \<and>
       (case v (ub_store b) k of Some (c # x) \<Rightarrow> v (ub_store b') k = Some (c # x) \<and> a = take (length a) (c # x)
        | _ \<Rightarrow> v (ub_store b') k = Some a \<and> a \<in> {''127.0.0.1'', ''::1''})" if ka: "(k, a) \<in> set (red_cells e')" for k a
  proof -
    obtain n dflt where n: "(k, n, dflt) \<in> set red_keys" "a = take (n - 1) (filled n dflt (v (ub_store b) k))"
      using ka g1 by auto
    have st: "v (ub_store b') k = Some (filled n dflt (v (ub_store b) k))" using g1 n(1) by fastforce
    show ?thesis using st n(2) f [OF n(1)] filled_shown [of dflt n "v (ub_store b) k"]
      by (auto simp: filled_def min_def split: option.split list.split if_split_asm)
  qed
  then have "\<forall>(k, a) \<in> set (red_cells e'). a \<noteq> [] \<and>
       (case v (ub_store b) k of Some (c # x) \<Rightarrow> v (ub_store b') k = Some (c # x) \<and> a = take (length a) (c # x)
        | _ \<Rightarrow> v (ub_store b') k = Some a \<and> a \<in> {''127.0.0.1'', ''::1''})" by blast
  moreover have "s = ANSC_SUCCESS" "s' = ANSC_SUCCESS" using g1 g2 by simp_all
  moreover have "v (ub_store b2) = v (ub_store b')" using d by (rule ext)
  ultimately show ?thesis using e by simp
qed

section \<open>Committing\<close>

definition red_fits :: "COSA_DML_MD_RED \<Rightarrow> bool" where
  "red_fits e \<longleftrightarrow> (\<forall>((_, a), (_, n, _)) \<in> set (zip (red_cells e) red_keys). a \<noteq> [] \<and> length a < n)"

lemma SetConf_stores:
  assumes "red_sys_ok C v" "red_sys_total C" "CosaDmlMDRed_SetConf C e b = (s, b')"
  shows "s = ANSC_SUCCESS \<and> b' = b\<lparr>ub_store := ub_store b'\<rparr> \<and> v (ub_store b') = fold (\<lambda>(k, x) m. m(k \<mapsto> x)) (red_cells e) (v (ub_store b))"
  using assms(3) set_keys_total [OF assms(1,2), of "red_cells e" "ub_store b"] red_sysD(2) [OF assms(1)]
  by (auto simp: CosaDmlMDRed_SetConf_def split: prod.split_asm)

lemma GetConf_after_SetConf:
  assumes C: "red_sys_ok C v" "red_sys_total C" and f: "red_fits e"
    and run: "CosaDmlMDRed_SetConf C e b = (s, b')" "CosaDmlMDRed_GetConf C e1 b' = (s2, e2, b2)"
  shows "e2 = e"
proof -
  have "red_cells e2 = red_cells e"
    using GetConf_reads [OF C run(2)] SetConf_stores [OF C run(1)] f
    by (simp add: red_cells_def red_keys_def red_fits_def filled_def)
  then show ?thesis by (rule red_cells_inj)
qed

text \<open>Whatever is edited after a commit of the redirection addresses, a roll back brings the committed addresses back.\<close>

theorem redirect_commit_rollback:
  assumes "red_sys_ok C v" "red_sys_total C" "red_fits (pc_MDRedirect st)"
    and run: "MDRed_Commit (product_boards U C) st = (r, st1)" "pc_env st2 = pc_env st1"
      "MDRed_Rollback (product_boards U C) st2 = (r2, st3)"
  shows "r = 0 \<and> r2 = 0 \<and> pc_MDRedirect st3 = pc_MDRedirect st"
proof -
  obtain s b where c: "CosaDmlMDRed_SetConf C (pc_MDRedirect st) (en_board (pc_env st)) = (s, b)" by force
  have s: "s = ANSC_SUCCESS" using SetConf_stores [OF assms(1,2) c] by simp
  obtain s3 e3 b3 where g: "CosaDmlMDRed_GetConf C (pc_MDRedirect st2) b = (s3, e3, b3)" by (metis prod_cases3)
  have "e3 = pc_MDRedirect st" "s3 = ANSC_SUCCESS"
    using GetConf_after_SetConf [OF assms(1-3) c g] GetConf_reads [OF assms(1,2) g] by simp_all
  then show ?thesis using run c s g by (auto simp: MDRed_Commit_def MDRed_Rollback_def product_boards_def)
qed

section \<open>Setting\<close>

lemma set_address_ok:
  assumes "noclobber_ok (lib_noclobber (pl_libs L))"
  shows "set_address L pton6 no_success ty n old s = (True, a) \<Longrightarrow> a = CHR 0x27 # s @ [CHR 0x27] \<and> length s + 2 < n"
    "length s + 2 \<ge> n \<Longrightarrow> set_address L pton6 no_success ty n old s = (False, old)"
    "set_address L pton6 not_one ty n old s = (False, old)"
proof -
  have nc: "lib_noclobber (pl_libs L) n dst src = (if length src < n then (True, src) else (False, dst))" for n dst src
    using assms by (simp add: noclobber_ok_def)
  show "set_address L pton6 no_success ty n old s = (True, a) \<Longrightarrow> a = CHR 0x27 # s @ [CHR 0x27] \<and> length s + 2 < n"
    "length s + 2 \<ge> n \<Longrightarrow> set_address L pton6 no_success ty n old s = (False, old)"
    "set_address L pton6 not_one ty n old s = (False, old)"
    by (auto simp: set_address_def isValidIP_def no_success_def not_one_def status_number_def nc sprintf_s_def
        split: if_split_asm option.split_asm)
qed

text \<open>C26: an IPv4 redirection address that is set shows only after the commit; it then shows in quotes, and it has at most 14
  characters.\<close>

theorem redirect_set_commit_get:
  assumes C: "red_sys_ok C v" "red_sys_total C" and nc: "noclobber_ok (lib_noclobber (pl_libs L))"
    and name: "name \<in> {''HTTP_Server_IP'', ''HTTPS_Server_IP'', ''Default_Server_IP''}"
    and run: "MDRed_SetParamStringValue L pton6 st name s = (True, st1)" "MDRed_Commit (product_boards U C) st1 = (r, st2)"
    and buf: "length s + 2 < bufsize"
  shows "MDRed_GetParamStringValue C st1 name bufsize = MDRed_GetParamStringValue C st name bufsize \<and> r = 0 \<and>
    MDRed_GetParamStringValue C st2 name bufsize = (0, Some (CHR 0x27 # s @ [CHR 0x27])) \<and> length s \<le> 14"
proof -
  have "\<exists>old a. set_address L pton6 no_success 4 17 old s = (True, a) \<and> (name, a) \<in> set (red_cells (pc_MDRedirect st1)) \<and> pc_env st1 = pc_env st"
    using name run(1)
    by (elim insertE emptyE) (simp_all add: MDRed_SetParamStringValue_def Let_def red_cells_def IPV4_SIZE_def split: prod.split_asm, auto)
  then obtain old a where a: "set_address L pton6 no_success 4 17 old s = (True, a)" "(name, a) \<in> set (red_cells (pc_MDRedirect st1))"
      "pc_env st1 = pc_env st" by blast
  have st1: "(name, CHR 0x27 # s @ [CHR 0x27]) \<in> set (red_cells (pc_MDRedirect st1))" "length s \<le> 14"
    using set_address_ok(1) [OF nc a(1)] a(2) by auto
  obtain q b where c: "CosaDmlMDRed_SetConf C (pc_MDRedirect st1) (en_board (pc_env st1)) = (q, b)" by force
  note S = SetConf_stores [OF C c]
  have r: "r = 0" "ub_store (en_board (pc_env st2)) = ub_store b"
    using run(2) c S by (auto simp: MDRed_Commit_def product_boards_def)
  have vb: "v (ub_store b) name = Some (CHR 0x27 # s @ [CHR 0x27])"
    using S st1(1) name by (elim insertE emptyE) (simp_all add: red_cells_def)
  have "red_stored C (ub_store b) name = CHR 0x27 # s @ [CHR 0x27]"
    using vb st1(2) by (simp add: red_stored_def red_sysD(3) [OF C(1)] IPV4_SIZE_def)
  then have "MDRed_GetParamStringValue C st2 name bufsize = get_text bufsize (CHR 0x27 # s @ [CHR 0x27])"
    using name r(2) by (elim insertE emptyE) (simp_all add: MDRed_GetParamStringValue_def Let_def)
  moreover have "MDRed_GetParamStringValue C st1 name bufsize = MDRed_GetParamStringValue C st name bufsize"
    using name a(3) by (elim insertE emptyE) (simp_all add: MDRed_GetParamStringValue_def Let_def)
  ultimately show ?thesis
    using r(1) st1(2) buf by (simp add: get_text_def strcpy_s_def)
qed

text \<open>C34: the IPv6 address of the HTTP server can never be set and that of the HTTPS server is never shown: its getter reads the
  address of the HTTP server. An IPv4 address of 15 characters is refused, because its quotes do not fit. A commit reports success
  whatever the database did.\<close>

theorem redirect_faults:
  assumes nc: "noclobber_ok (lib_noclobber (pl_libs L))" and long: "14 < length s"
    and name: "name \<in> {''HTTP_Server_IP'', ''HTTPS_Server_IP'', ''Default_Server_IP''}"
  shows "MDRed_SetParamStringValue L pton6 st ''HTTP_Server_IPv6'' t = (False, st) \<and>
    MDRed_GetParamStringValue C st ''HTTPS_Server_IPv6'' n = MDRed_GetParamStringValue C st ''HTTP_Server_IPv6'' n \<and>
    MDRed_SetParamStringValue L pton6 st name s = (False, st) \<and> fst (MDRed_Commit (product_boards U C) st) = 0"
proof -
  have "MDRed_SetParamStringValue L pton6 st name s = (False, st)"
    using name long set_address_ok(2) [OF nc, of 17 s pton6 4]
    by (elim insertE emptyE) (simp_all add: MDRed_SetParamStringValue_def Let_def IPV4_SIZE_def)
  moreover have "fst (MDRed_Commit (product_boards U C) st) = 0"
    by (simp add: MDRed_Commit_def product_boards_def CosaDmlMDRed_SetConf_def split: prod.split)
  ultimately show ?thesis
    by (simp add: MDRed_SetParamStringValue_def MDRed_GetParamStringValue_def set_address_ok(3) [OF nc] Let_def)
qed

section \<open>A product in memory\<close>

text \<open>The store of Utopia in memory beside a database.\<close>

definition beside :: "('u \<Rightarrow> bool \<times> 'u) \<Rightarrow> 'u \<times> 'd \<Rightarrow> bool \<times> 'u \<times> 'd" where
  "beside f s = (case f (fst s) of (ok, u) \<Rightarrow> (ok, u, snd s))"

lemma beside_simps [simp]: "fst (beside f s) = fst (f (fst s))" "fst (snd (beside f s)) = snd (f (fst s))"
  by (simp_all add: beside_def split: prod.split)

definition pair_fns :: "('x, 'u) ut_fns \<Rightarrow> ('x, 'u \<times> 'd) ut_fns" where
  "pair_fns F = \<lparr>uf_GetNumber = uf_GetNumber F \<circ> fst, uf_GetInsNumByIndex = uf_GetInsNumByIndex F \<circ> fst,
     uf_GetByIndex = uf_GetByIndex F \<circ> fst, uf_SetInsAndAliasByIndex = (\<lambda>s i n a. beside (\<lambda>u. uf_SetInsAndAliasByIndex F u i n a) s),
     uf_Add = (\<lambda>s x. beside (\<lambda>u. uf_Add F u x) s), uf_Del = (\<lambda>s n. beside (\<lambda>u. uf_Del F u n) s),
     uf_SetByIndex = (\<lambda>s i x. beside (\<lambda>u. uf_SetByIndex F u i x) s)\<rparr>"

lemma pair_fns_ok: "ut_fns_ok F num name get upd vc \<Longrightarrow> ut_fns_ok (pair_fns F) num name get upd (vc \<circ> fst)"
  by (simp add: ut_fns_ok_def pair_fns_def)

definition pair_utopia :: "(pc_ustore, pc_ustore) pc_utopia \<Rightarrow> (pc_ustore \<times> 'd, pc_ustore \<times> 'd) pc_utopia" where
  "pair_utopia U = \<lparr>pu_Init = Some, pu_Commit = (\<lambda>s c. c), pu_blk = pair_fns (pu_blk U), pu_tuser = pair_fns (pu_tuser U),
     pu_serv = pair_fns (pu_serv U), pu_stuser = pair_fns (pu_stuser U), pu_dev = pair_fns (pu_dev U),
     pu_GetBlkURLCfg = pu_GetBlkURLCfg U \<circ> fst, pu_SetBlkURLCfg = (\<lambda>s b. beside (\<lambda>u. pu_SetBlkURLCfg U u b) s),
     pu_GetMngServsCfg = pu_GetMngServsCfg U \<circ> fst, pu_SetMngServsCfg = (\<lambda>s b. beside (\<lambda>u. pu_SetMngServsCfg U u b) s),
     pu_GetMngDevsCfg = pu_GetMngDevsCfg U \<circ> fst, pu_SetMngDevsCfg = (\<lambda>s d. beside (\<lambda>u. pu_SetMngDevsCfg U u d) s),
     pu_size = pu_size U, pu_junk_protocol = pu_junk_protocol U\<rparr>"

definition mem_product :: "(pc_ustore \<times> (string \<rightharpoonup> string), pc_ustore \<times> (string \<rightharpoonup> string)) pc_utopia" where
  "mem_product = pair_utopia mem_pc_utopia"

lemma mem_product_ok: "pc_utopia_ok mem_product fst fst"
  using mem_pc_utopia_ok
  by (simp add: pc_utopia_ok_def mem_product_def pair_utopia_def pair_fns_ok [unfolded o_def, where vc = "\<lambda>c. c"])

definition mem_red :: "('u \<times> (string \<rightharpoonup> string)) red_sys" where
  "mem_red = \<lparr>rs_syscfg = \<lparr>sc_get = (\<lambda>s k n. map_option (take (n - 1)) (snd s k)), sc_set = (\<lambda>s k x. (True, fst s, (snd s)(k \<mapsto> x))),
     sc_unset = (\<lambda>s k. (True, fst s, (snd s)(k := None))), sc_commit = (\<lambda>s. (True, s))\<rparr>,
     rs_set_commit = (\<lambda>s k x. (True, fst s, (snd s)(k \<mapsto> x)))\<rparr>"

lemma mem_red_ok: "red_sys_ok mem_red snd" "red_sys_total mem_red"
  by (simp_all add: red_sys_ok_def red_sys_total_def syscfg_ok_def syscfg_total_def mem_red_def)

definition ex_board :: "pc_ustore \<Rightarrow> 'd \<Rightarrow> (pc_ustore \<times> 'd) ut_board" where
  "ex_board u d = \<lparr>ub_store = (u, d), g_NrBlkURL = 0, g_NrTrustedUser = 0, g_NrMSServs = 0, g_NrMSTrustedUsers = 0, g_NrMDDevs = 0, ub_events = []\<rparr>"

definition ex_red :: COSA_DML_MD_RED where
  "ex_red = \<lparr>rd_HTTP_Server_IP = [], rd_HTTPS_Server_IP = [], rd_Default_Server_IP = [], rd_HTTP_Server_IPv6 = [],
     rd_HTTPS_Server_IPv6 = [], rd_Default_Server_IPv6 = []\<rparr>"

definition ex_product :: "pc_ustore \<Rightarrow> 'd \<Rightarrow> ((pc_ustore \<times> 'd) ut_board, rview) pc_state" where
  "ex_product u d = \<lparr>pc_ManagedSites = \<lparr>si_Enable = False\<rparr>, pc_ManagedServs = \<lparr>sv_Enable = False\<rparr>,
     pc_ManagedDevs = \<lparr>dv_Enable = False, dv_AllowAll = False\<rparr>, pc_MDRedirect = ex_red, pc_BlkUrl = ex_table,
     pc_TrustedUser = ex_table, pc_MSServ = ex_table, pc_MSTrustedUser = ex_table, pc_MDDev = ex_table,
     pc_env = \<lparr>en_board = ex_board u d, en_registry = ex_registry, en_allocs = 0\<rparr>\<rparr>"

lemma ex_product_simps [simp]:
  "pc_env (ex_product u d) = \<lparr>en_board = ex_board u d, en_registry = ex_registry, en_allocs = 0\<rparr>" "ub_store (ex_board u d) = (u, d)"
  "pc_MDRedirect (ex_product u d) = ex_red"
  by (simp_all add: ex_product_def ex_board_def)

definition no_db :: "string \<rightharpoonup> string" where
  "no_db = Map.empty"

definition no_rows :: pc_ustore where
  "no_rows = ub_store empty_pc_board"

section \<open>Instances\<close>

theorem redirect_read_stable_witness:
  "\<exists>e' b'. CosaDmlMDRed_GetConf mem_red ex_red (ex_board no_rows [''HTTP_Server_IP'' \<mapsto> ''10.0.0.9'']) = (ANSC_SUCCESS, e', b') \<and>
     rd_HTTP_Server_IP e' \<noteq> [] \<and> snd (ub_store b') ''HTTP_Server_IP'' = Some ''10.0.0.9'' \<and> rd_HTTPS_Server_IPv6 e' \<noteq> []"
proof -
  obtain s e' b' where r: "CosaDmlMDRed_GetConf mem_red ex_red (ex_board no_rows [''HTTP_Server_IP'' \<mapsto> ''10.0.0.9'']) = (s, e', b')"
    by (metis prod_cases3)
  obtain s2 e2 b2 where r2: "CosaDmlMDRed_GetConf mem_red ex_red b' = (s2, e2, b2)" by (metis prod_cases3)
  note x = redirect_read_stable [OF mem_red_ok r r2]
  then show ?thesis using r by (auto simp: red_cells_def)
qed

theorem redirect_commit_rollback_witness:
  "\<exists>st3. MDRed_Rollback (product_boards mem_product mem_red)
       (snd (MDRed_Commit (product_boards mem_product mem_red) ((ex_product no_rows no_db)\<lparr>pc_MDRedirect :=
          ex_red\<lparr>rd_HTTP_Server_IP := ''1.1.1.1'', rd_HTTPS_Server_IP := ''1.1.1.2'', rd_Default_Server_IP := ''1.1.1.3'',
            rd_HTTP_Server_IPv6 := ''::2'', rd_HTTPS_Server_IPv6 := ''::3'', rd_Default_Server_IPv6 := ''::4''\<rparr>\<rparr>))
         \<lparr>pc_MDRedirect := ex_red\<rparr>) = (0, st3) \<and> rd_HTTPS_Server_IPv6 (pc_MDRedirect st3) = ''::3''"
proof -
  let ?e = "ex_red\<lparr>rd_HTTP_Server_IP := ''1.1.1.1'', rd_HTTPS_Server_IP := ''1.1.1.2'', rd_Default_Server_IP := ''1.1.1.3'',
            rd_HTTP_Server_IPv6 := ''::2'', rd_HTTPS_Server_IPv6 := ''::3'', rd_Default_Server_IPv6 := ''::4''\<rparr>"
  let ?st = "(ex_product no_rows no_db)\<lparr>pc_MDRedirect := ?e\<rparr>"
  let ?B = "product_boards mem_product mem_red"
  obtain r st1 where c: "MDRed_Commit ?B ?st = (r, st1)" by force
  obtain r2 st3 where k: "MDRed_Rollback ?B (st1\<lparr>pc_MDRedirect := ex_red\<rparr>) = (r2, st3)" by force
  have f: "red_fits (pc_MDRedirect ?st)" by (simp add: red_fits_def red_cells_def red_keys_def)
  have "r = 0 \<and> r2 = 0 \<and> pc_MDRedirect st3 = pc_MDRedirect ?st"
    by (rule redirect_commit_rollback [OF mem_red_ok f c _ k]) simp
  then show ?thesis using c k by simp
qed

theorem redirect_set_commit_get_witness:
  "\<exists>st1 st2. MDRed_SetParamStringValue ex_pc (\<lambda>_. True) (ex_product no_rows no_db) ''HTTP_Server_IP'' ''192.168.100.1'' = (True, st1) \<and>
     MDRed_Commit (product_boards mem_product mem_red) st1 = (0, st2) \<and>
     MDRed_GetParamStringValue mem_red st1 ''HTTP_Server_IP'' 256 = (0, Some ''0'') \<and>
     MDRed_GetParamStringValue mem_red st2 ''HTTP_Server_IP'' 256 = (0, Some (CHR 0x27 # ''192.168.100.1'' @ [CHR 0x27]))"
proof -
  let ?st = "ex_product no_rows no_db"
  obtain st1 where s: "MDRed_SetParamStringValue ex_pc (\<lambda>_. True) ?st ''HTTP_Server_IP'' ''192.168.100.1'' = (True, st1)"
    by (simp add: MDRed_SetParamStringValue_def Let_def set_address_def isValidIP_def ex_pc_def no_success_def mem_noclobber_def
        IPV4_SIZE_def sprintf_s_def)
  obtain r st2 where c: "MDRed_Commit (product_boards mem_product mem_red) st1 = (r, st2)" by force
  have "noclobber_ok (lib_noclobber (pl_libs ex_pc))" by (simp add: ex_pc_def mem_noclobber_ok)
  note x = redirect_set_commit_get [OF mem_red_ok this _ s c, of 256]
  then show ?thesis
    using s c by (simp add: MDRed_GetParamStringValue_def red_stored_def mem_red_def no_db_def get_text_def strcpy_s_def)
qed

theorem redirect_faults_witness:
  "MDRed_SetParamStringValue ex_pc (\<lambda>_. True) (ex_product no_rows no_db) ''HTTP_Server_IPv6'' ''fd00::1'' = (False, ex_product no_rows no_db) \<and>
   MDRed_SetParamStringValue ex_pc (\<lambda>_. True) (ex_product no_rows no_db) ''HTTP_Server_IP'' ''192.168.100.100'' = (False, ex_product no_rows no_db)"
proof -
  have "noclobber_ok (lib_noclobber (pl_libs ex_pc))" by (simp add: ex_pc_def mem_noclobber_ok)
  from redirect_faults [OF this, of "''192.168.100.100''" "''HTTP_Server_IP''" "\<lambda>_. True" "ex_product no_rows no_db" "''fd00::1''" mem_red 256 mem_product]
  show ?thesis by simp
qed

end
