(* ===== verification/Pc_Product.thy ===== *)
theory Pc_Product
  imports Pc_Utopia_Tables
begin

text \<open>
  One table of parental control among the others over the product's store: what its operations, and loading it, leave alone. So a
  table that is consistent with the rows stored for it stays so whatever is done to the others.
\<close>

section \<open>What an operation of a table leaves alone\<close>

lemma pc_step_frame:
  assumes "pc_step L K B J (t, v) (t', v')" "kind_ok K"
    and P: "\<And>e b. P b \<Longrightarrow> P (snd (bo_AddEntry B e b))" "\<And>n b. P b \<Longrightarrow> P (snd (bo_DelEntry B n b))"
      "\<And>n e b. P b \<Longrightarrow> P (snd (snd (bo_GetConf B n e b)))" "\<And>e b. P b \<Longrightarrow> P (snd (bo_SetConf B (k_ins K e) e b))"
    and "P (en_board v)"
  shows "P (en_board v') \<and> en_allocs v \<le> en_allocs v'"
proof (rule pc_stepE [OF assms(1)], goal_cases)
  case (1 h)
  then show ?thesis using pc_AddEntry_cases [OF 1(1) assms(2) 1(2)] assms(7) by simp
next
  case (2 l r)
  obtain s b where b: "bo_DelEntry B (lnk_InstanceNumber l) (en_board v) = (s, b)" by force
  then show ?thesis
    using 2(2) P(2) [OF assms(7), of "lnk_InstanceNumber l"]
    by (auto simp: pc_DelEntry_def Let_def pc_DelInfo_env split: if_split_asm)
next
  case (3 l r)
  let ?e = "ob_entry (lnk_hContext l)"
  obtain s b where b: "bo_AddEntry B ?e (en_board v) = (s, b)" by force
  obtain s1 b1 where b1: "bo_SetConf B (k_ins K ?e) ?e (en_board v) = (s1, b1)" by force
  obtain s2 e2 b2 where b2: "bo_GetConf B (k_ins K ?e) ?e b1 = (s2, e2, b2)" by (metis prod_cases3)
  have p: "P b" "P b1" using P(1) [OF assms(7), of ?e] P(4) [OF assms(7), of ?e] b b1 by simp_all
  then have "P b2" using P(3) [OF p(2), of "k_ins K ?e" ?e] b2 by simp
  then show ?thesis
    using 3(2) p b b1 b2 by (auto simp: pc_Commit_def Let_def pc_DelInfo_env split: if_split_asm)
next
  case (4 l r)
  then show ?thesis
    using P(3) [OF assms(7), of "k_ins K (ob_entry (lnk_hContext l))" "ob_entry (lnk_hContext l)"]
    by (auto simp: pc_Rollback_def Let_def split: prod.split_asm)
qed (use assms(7) in simp)

text \<open>The part \<open>q\<close> of the board that does not belong to the table, and the part \<open>h\<close> of the store.\<close>

definition apart :: "('x, 'e, 's, 'c) ut_tab \<Rightarrow> ('s ut_board \<Rightarrow> 'q) \<Rightarrow> bool" where
  "apart T q \<longleftrightarrow> (\<forall>k b. q (ut_set_nr T k b) = q b) \<and> (\<forall>b s. q (b\<lparr>ub_store := s\<rparr>) = q b) \<and> (\<forall>b. q (ut_added T b) = q b) \<and>
     (\<forall>n b. q (ut_deleted T n b) = q b) \<and> (\<forall>n b. q (ut_changed T n b) = q b)"

lemma apartD:
  assumes "apart T q"
  shows "q (ut_set_nr T k b) = q b" "q (b\<lparr>ub_store := s\<rparr>) = q b" "q (ut_added T b) = q b" "q (ut_deleted T n b) = q b"
    "q (ut_changed T n b) = q b"
  using assms by (simp_all add: apart_def)

lemma index_apart:
  assumes "apart T q" "ut_InsGetIndex U T n b = (r, b')"
  shows "q b' = q b"
  using assms(2) apartD [OF assms(1)]
  by (auto simp: ut_InsGetIndex_def ut_GetNumberOfEntries_def Let_def split: if_split_asm option.split_asm)

lemma ops_apart:
  assumes O: "ut_over U T e0 ins core put num name get upd vs vc" and h: "\<And>xs u. h (upd xs u) = h u" and q: "apart T q"
    and s: "ut_ok T (\<lambda>s. get (vs s)) b"
  shows "h (vs (ub_store (snd (ut_AddEntry U T e b)))) = h (vs (ub_store b)) \<and> q (snd (ut_AddEntry U T e b)) = q b"
    "h (vs (ub_store (snd (ut_DelEntry U T n b)))) = h (vs (ub_store b)) \<and> q (snd (ut_DelEntry U T n b)) = q b"
    "h (vs (ub_store (snd (snd (ut_GetConf U T n e b))))) = h (vs (ub_store b)) \<and> q (snd (snd (ut_GetConf U T n e b))) = q b"
    "h (vs (ub_store (snd (ut_SetConf U T n e b)))) = h (vs (ub_store b)) \<and> q (snd (ut_SetConf U T n e b)) = q b"
proof -
  note F = ut_fnsD [OF ut_overD(1) [OF O]] and T = ut_tabD [OF ut_overD(2) [OF O]] and S = ut_overD(3) [OF O] and Q = apartD [OF q]
  obtain c where c: "pu_Init U (ub_store b) = Some c" "vc c = vs (ub_store b)" using ut_opens [OF O] .
  obtain r c' where r: "uf_Add (ut_fns T) c (ut_write_add T e) = (r, c')" by force
  show "h (vs (ub_store (snd (ut_AddEntry U T e b)))) = h (vs (ub_store b)) \<and> q (snd (ut_AddEntry U T e b)) = q b"
    using F(5) [OF r] by (simp add: ut_AddEntry_def c r Let_def T S Q h)
  obtain i b1 where g: "ut_InsGetIndex U T n b = (i, b1)" by force
  note x = ut_index [OF O s g] and q1 = index_apart [OF q g]
  have st: "ub_store b1 = ub_store b" using x by simp
  obtain rd cd where d: "uf_Del (ut_fns T) c n = (rd, cd)" by force
  have hd: "h (vc cd) = h (vs (ub_store b))" using F(6) [OF d] by (simp add: h c(2))
  show "h (vs (ub_store (snd (ut_DelEntry U T n b)))) = h (vs (ub_store b)) \<and> q (snd (ut_DelEntry U T n b)) = q b"
    by (cases "ut_checks T"; cases i) (simp_all add: ut_DelEntry_def g c(1) d hd st q1 Let_def T S Q)
  show "h (vs (ub_store (snd (snd (ut_GetConf U T n e b))))) = h (vs (ub_store b)) \<and> q (snd (snd (ut_GetConf U T n e b))) = q b"
    by (cases i) (simp_all add: ut_GetConf_def g ut_GetEntryByIndex_def st q1 split: option.split)
  obtain j b2 where g2: "ut_InsGetIndex U T n b1 = (j, b2)" by force
  note y = ut_index [OF O conjunct1 [OF x] g2] and q2 = index_apart [OF q g2]
  show "h (vs (ub_store (snd (ut_SetConf U T n e b)))) = h (vs (ub_store b)) \<and> q (snd (ut_SetConf U T n e b)) = q b"
  proof (cases i)
    case None
    then show ?thesis using x q1 by (simp add: ut_SetConf_def g)
  next
    case (Some k)
    have "n \<in> num ` set (get (vs (ub_store b)))" using x Some row_at_Some [of num n "get (vs (ub_store b))"] by fastforce
    then obtain m where j: "j = Some m" "m < length (get (vs (ub_store b)))" using x y by (cases j) auto
    obtain r c' where r: "uf_SetByIndex (ut_fns T) c (int m) (ut_write_set T e) = (r, c')" by force
    show ?thesis
      using F(7) [OF _ r, unfolded c(2), OF j(2)] y q1 q2
      by (simp add: ut_SetConf_def g g2 st c(1) j(1) r [unfolded T(4)] Some T S Q h)
  qed
qed

section \<open>One table among the others\<close>

text \<open>A table of the middle layer is consistent with the rows the board layer stores for it.\<close>

definition tab_inv :: "('x, 'e, 's, 'c) ut_tab \<Rightarrow> 'e \<Rightarrow> ('e \<Rightarrow> ULONG) \<Rightarrow> ('s \<Rightarrow> 'x list) \<Rightarrow> 'e pc_table \<Rightarrow> 's ut_board \<Rightarrow> nat \<Rightarrow> bool" where
  "tab_inv T e0 ins rows t b k \<longleftrightarrow> ut_ok T rows b \<and> pc_inv ins (ut_view T e0 rows b) t k"

lemma tab_inv_other:
  assumes "tab_inv T e0 ins rows t b k" "rows (ub_store b') = rows (ub_store b)" "ut_nr T b' = ut_nr T b" "k \<le> k'"
  shows "tab_inv T e0 ins rows t b' k'"
  using assms inv_mono by (auto simp: tab_inv_def ut_ok_def ut_start_def ut_view_def)

lemma tab_step:
  assumes O: "ut_over U T e0 ins core put num name get upd vs vc" and K: "kind_ok K" "k_ins K = ins"
    and h: "\<And>xs u. h (upd xs u) = h u" and q: "apart T q"
    and step: "pc_step L K (ut_ops U T) J (t, v) (t', v')"
    and i: "tab_inv T e0 ins (\<lambda>s. get (vs s)) t (en_board v) (en_allocs v)"
  shows "tab_inv T e0 ins (\<lambda>s. get (vs s)) t' (en_board v') (en_allocs v') \<and> h (vs (ub_store (en_board v'))) = h (vs (ub_store (en_board v))) \<and>
    q (en_board v') = q (en_board v) \<and> en_allocs v \<le> en_allocs v'"
proof -
  note B = ut_board [OF O]
  let ?ok = "ut_ok T (\<lambda>s. get (vs s))"
  let ?P = "\<lambda>b. ?ok b \<and> h (vs (ub_store b)) = h (vs (ub_store (en_board v))) \<and> q b = q (en_board v)"
  have keep: "?ok b \<Longrightarrow> ?ok (snd (ut_AddEntry U T e b))" "?ok b \<Longrightarrow> ?ok (snd (ut_DelEntry U T n b))"
      "?ok b \<Longrightarrow> ?ok (snd (snd (ut_GetConf U T n e b)))" "?ok b \<Longrightarrow> ?ok (snd (ut_SetConf U T (ins e) e b))" for e n b
  proof -
    note ops = ut_ops_def pc_ops.simps
    show "?ok b \<Longrightarrow> ?ok (snd (ut_AddEntry U T e b))"
      using pc_board.add [OF B _ prod.collapse [symmetric], unfolded ops] by blast
    show "?ok b \<Longrightarrow> ?ok (snd (ut_DelEntry U T n b))"
      using pc_board.del [OF B _ prod.collapse [symmetric], unfolded ops] by blast
    show "?ok b \<Longrightarrow> ?ok (snd (ut_SetConf U T (ins e) e b))"
      using pc_board.set_conf [OF B _ refl prod.collapse [symmetric], unfolded ops] by blast
    assume "?ok b"
    then show "?ok (snd (snd (ut_GetConf U T n e b)))"
      using pc_board.get_conf [OF B, unfolded ops, of b n e "fst (ut_GetConf U T n e b)" "fst (snd (ut_GetConf U T n e b))" "snd (snd (ut_GetConf U T n e b))"]
      by simp
  qed
  have P: "?P b \<Longrightarrow> ?P (snd (ut_AddEntry U T e b))" "?P b \<Longrightarrow> ?P (snd (ut_DelEntry U T n b))"
      "?P b \<Longrightarrow> ?P (snd (snd (ut_GetConf U T n e b)))" "?P b \<Longrightarrow> ?P (snd (ut_SetConf U T (k_ins K e) e b))" for e n b
    by (simp_all add: keep K(2) ops_apart [where h = h and q = q, OF O h q])
  have "?P (en_board v') \<and> en_allocs v \<le> en_allocs v'"
    by (rule pc_step_frame [where P = ?P, OF step K(1)]) (unfold ut_ops_def pc_ops.simps, (erule P)+, use i in \<open>simp add: tab_inv_def\<close>)
  moreover have "?ok (en_board v') \<and> pc_inv ins (ut_view T e0 (\<lambda>s. get (vs s)) (en_board v')) t' (en_allocs v')"
    using pc_board.step_keeps [OF B step K] i by (simp add: tab_inv_def)
  ultimately show ?thesis by (simp add: tab_inv_def)
qed

section \<open>Loading\<close>

lemma load_rows_allocs: "en_allocs v \<le> en_allocs (snd (snd (pc_load_rows L K B J is t v)))"
proof (induction "is" arbitrary: t v)
  case (Cons i "is")
  obtain a v1 where a: "pc_alloc L v = (a, v1)" by force
  obtain s e b where g: "bo_GetEntryByIndex B i (J (the a)) (en_board v1) = (s, e, b)" by (metis prod_cases3)
  obtain a2 v3 where a2: "pc_alloc L (v1\<lparr>en_board := b\<rparr>) = (a2, v3)" by force
  have le: "en_allocs v \<le> en_allocs v1" "en_allocs v1 \<le> en_allocs v3"
    using pc_alloc_env(1) [OF a] pc_alloc_env(1) [OF a2] by simp_all
  have IH: "en_allocs w = en_allocs v3 \<Longrightarrow> en_allocs v \<le> en_allocs (snd (snd (pc_load_rows L K B J is t' w)))" for t' w
    using Cons.IH [of w t'] le by simp
  show ?case
    using le g IH by (cases a; cases a2) (auto simp: a a2 Let_def split: option.split prod.split)
qed simp

lemma reg_get_allocs: "en_allocs v \<le> en_allocs (snd (snd (pc_reg_get L K J p names n t v)))"
proof (induction L K J p names n t v rule: pc_reg_get.induct)
  case (3 L K J p name names n t v)
  obtain a v1 where a: "pc_alloc L v = (a, v1)" by force
  obtain a2 v2 where a2: "pc_alloc L v1 = (a2, v2)" by force
  have "en_allocs v \<le> en_allocs v1" "en_allocs v1 \<le> en_allocs v2"
    using pc_alloc_env(1) [OF a] pc_alloc_env(1) [OF a2] by simp_all
  then show ?case using 3 a a2 by (cases a; cases a2) (auto simp: Let_def intro: order_trans)
qed simp_all

lemma load_table_allocs: "en_allocs v \<le> en_allocs (snd (snd (pc_load_table L K B J t v)))"
proof -
  have g: "en_allocs v' \<le> en_allocs (snd (snd (pc_GetInfo L K J t' v')))" for t' v'
    using reg_get_allocs by (auto simp: pc_GetInfo_def split: option.split)
  have r: "en_allocs v' = en_allocs v \<Longrightarrow> pc_load_rows L K B J is t' v' = (s, t'', v'') \<Longrightarrow> en_allocs v \<le> en_allocs v''" for v' "is" t' s t'' v''
    using load_rows_allocs [of v' L K B J "is" t'] by simp
  have gr: "en_allocs v \<le> en_allocs v'' \<Longrightarrow> pc_GetInfo L K J t'' v'' = (s, t3, v3) \<Longrightarrow> en_allocs v \<le> en_allocs v3" for t'' v'' s t3 v3
    using g [of v'' t''] by simp
  show ?thesis
    by (auto simp: pc_load_table_def Let_def split: option.split prod.split dest!: r [rotated] gr [rotated])
qed

end
