(* ===== verification/Pc_Utopia_Start.thy ===== *)
theory Pc_Utopia_Start
  imports Pc_Redirect_Props Pc_Product
begin

text \<open>
  The start of parental control over the product's board layer: \<open>CosaParentalControlInitialize\<close> loads all five tables and the
  switches from Utopia.
\<close>

section \<open>Loading one table\<close>

definition loaded :: "('e \<Rightarrow> 'e) \<Rightarrow> 'e list \<Rightarrow> 'e pc_table \<Rightarrow> bool" where
  "loaded core rows t \<longleftrightarrow> image_mset core (mset (rows_of t)) = image_mset core (mset rows) \<and>
     sorted (map lnk_InstanceNumber (tb_List t)) \<and> (\<forall>l \<in> set (tb_List t). \<not> lnk_bNew l)"

text \<open>The rows of a list have their own numbers, which are not 0 and not the greatest.\<close>

definition numbered :: "('x \<Rightarrow> ULONG) \<Rightarrow> 'x list \<Rightarrow> bool" where
  "numbered num xs \<longleftrightarrow> length xs < 2 ^ 31 \<and> distinct (map num xs) \<and> (\<forall>x \<in> set xs. num x \<noteq> 0 \<and> num x + 1 \<noteq> 0)"

text \<open>The registry has the folder of parental control, and no row in it waits to be committed.\<close>

definition reg_ready :: "('s, 'c, 'r) pc_libs \<Rightarrow> ('r \<Rightarrow> rview) \<Rightarrow> path \<Rightarrow> 'r \<Rightarrow> bool" where
  "reg_ready L w root r \<longleftrightarrow> pc_reg_ok L w \<and> pl_root L = Some root \<and>
     (\<exists>fr f. w r root = Some fr \<and> COSA_IREP_FOLDER_NAME_PARENTALCONTROL \<in> set (rf_subs fr) \<and>
       w r (root @ [COSA_IREP_FOLDER_NAME_PARENTALCONTROL]) = Some f \<and> rf_subs f = [] \<and>
       rf_uint f COSA_DML_RR_NAME_PARENTALCONTROL_NextInsNumber \<noteq> Some 0)"

lemma load_over:
  assumes O: "ut_over U T e0 ins core put num name get upd vs vc" and K: "k_ins K = ins"
    and h: "\<And>xs u. h (upd xs u) = h u" and q: "apart T q" and R: "reg_ready L w root (en_registry v)"
    and n: "numbered num (get (vs (ub_store (en_board v))))"
    and run: "pc_load_table L K (ut_ops U T) J t v = (s, t', v')"
  shows "s = ANSC_SUCCESS \<and> loaded core (ut_view T e0 (\<lambda>s. get (vs s)) (en_board v)) t' \<and>
    ut_view T e0 (\<lambda>s. get (vs s)) (en_board v') = ut_view T e0 (\<lambda>s. get (vs s)) (en_board v) \<and>
    tab_inv T e0 ins (\<lambda>s. get (vs s)) t' (en_board v') (en_allocs v') \<and>
    h (vs (ub_store (en_board v'))) = h (vs (ub_store (en_board v))) \<and> q (en_board v') = q (en_board v) \<and>
    en_registry v' = en_registry v \<and> en_allocs v \<le> en_allocs v'"
proof -
  let ?rows = "\<lambda>s. get (vs s)"
  let ?k = "\<lambda>b. h (vs (ub_store b)) = h (vs (ub_store (en_board v))) \<and> q b = q (en_board v)"
  note B = ut_board [OF O] and F = ut_fnsD [OF ut_overD(1) [OF O]] and T = ut_tabD [OF ut_overD(2) [OF O]]
  obtain fr f where r: "pc_reg_ok L w" "pl_root L = Some root" "w (en_registry v) root = Some fr"
      "COSA_IREP_FOLDER_NAME_PARENTALCONTROL \<in> set (rf_subs fr)"
      "w (en_registry v) (root @ [COSA_IREP_FOLDER_NAME_PARENTALCONTROL]) = Some f" "rf_subs f = []"
      "rf_uint f COSA_DML_RR_NAME_PARENTALCONTROL_NextInsNumber \<noteq> Some 0"
    using R by (auto simp: reg_ready_def)
  have start: "ut_start ?rows (en_board v)" using n by (simp add: ut_start_def numbered_def)
  have nums: "\<forall>e \<in> set (ut_view T e0 ?rows (en_board v)). ins e \<noteq> 0 \<and> ins e + 1 \<noteq> 0"
      "distinct (map ins (ut_view T e0 ?rows (en_board v)))"
    using n by (auto simp: ut_view_def numbered_def T o_def)
  note ld = pc_board.load_table_nothing_pending [OF B r(1,2) K start refl nums refl r(3-7) run]
  let ?P = "\<lambda>b. ut_ok T ?rows b \<and> ?k b"
  have f1: "?P (snd (bo_GetNumberOfEntries (ut_ops U T) (en_board v)))"
  proof -
    obtain c where c: "pu_Init U (ub_store (en_board v)) = Some c" using ut_opens [OF O] .
    show ?thesis
      using pc_board.number [OF B start, of "fst (bo_GetNumberOfEntries (ut_ops U T) (en_board v))" "snd (bo_GetNumberOfEntries (ut_ops U T) (en_board v))"]
      by (simp add: ut_ops_def ut_GetNumberOfEntries_def c Let_def T apartD [OF q])
  qed
  have f2: "?P b \<Longrightarrow> ?P (snd (snd (bo_GetEntryByIndex (ut_ops U T) i e b)))" for i e b
  proof -
    assume P: "?P b"
    have "snd (snd (bo_GetEntryByIndex (ut_ops U T) i e b)) = b"
      by (simp add: ut_ops_def ut_GetEntryByIndex_def split: option.split)
    then show ?thesis using P by simp
  qed
  have f3: "?P b \<Longrightarrow> ?P (snd (bo_SetValues (ut_ops U T) i n a b))" for i n a b
  proof -
    assume P: "?P b"
    obtain c where c: "pu_Init U (ub_store b) = Some c" "vc c = vs (ub_store b)" using ut_opens [OF O] .
    obtain r c' where r: "uf_SetInsAndAliasByIndex (ut_fns T) c (unat i) n a = (r, c')" by force
    have less: "i \<ge> of_nat (ut_nr T b) \<longleftrightarrow> \<not> unat i < length (get (vs (ub_store b)))"
      using P by (simp add: ut_ok_def ut_start_def word_le_nat_alt unat_small not_less)
    show ?thesis
      using P c r F(4) [OF _ r] less
      by (auto simp: ut_ops_def ut_SetValues_def ut_ok_def ut_start_def ut_overD(3,4) [OF O] T h apartD [OF q] split: if_split)
  qed
  have "?P (en_board (snd (snd (pc_load_table L K (ut_ops U T) J t v))))"
    by (rule load_table_frame [of "ut_start ?rows" v ?P "ut_ops U T" L K J t, OF start f1 f2 f3])
  then have "?k (en_board v')" by (simp add: run)
  moreover have "en_allocs v \<le> en_allocs v'" using load_table_allocs [of v L K "ut_ops U T" J t] by (simp add: run)
  ultimately show ?thesis using ld by (simp add: loaded_def tab_inv_def pc_inv_def links_ok_def table_wf_def)
qed

section \<open>The start\<close>

definition store_numbered :: "pc_ustore \<Rightarrow> bool" where
  "store_numbered u \<longleftrightarrow> numbered bk_ins_num (us_blk u) \<and> numbered xu_ins_num (us_tuser u) \<and> numbered xs_ins_num (us_serv u) \<and>
     numbered xm_ins_num (us_stuser u) \<and> numbered xd_ins_num (us_dev u)"

lemma switches_read:
  assumes "pc_utopia_ok U vs vc"
  shows "CosaDmlMngSites_GetConf U x1 b = (ANSC_SUCCESS, x1\<lparr>si_Enable := (us_blk_on (vs (ub_store b)) = 1)\<rparr>, b)"
    "CosaDmlMngServs_GetConf U x2 b = (ANSC_SUCCESS, x2\<lparr>sv_Enable := (us_serv_on (vs (ub_store b)) = 1)\<rparr>, b)"
    "CosaDmlMngDevs_GetConf U x3 b = (ANSC_SUCCESS, x3\<lparr>dv_Enable := (fst (us_dev_on (vs (ub_store b))) = 1),
       dv_AllowAll := (snd (us_dev_on (vs (ub_store b))) = 1)\<rparr>, b)"
proof -
  obtain c where c: "pu_Init U (ub_store b) = Some c" "vc c = vs (ub_store b)" using assms unfolding pc_utopia_ok_def by blast
  have g: "pu_GetBlkURLCfg U c = us_blk_on (vc c)" "pu_GetMngServsCfg U c = us_serv_on (vc c)" "pu_GetMngDevsCfg U c = us_dev_on (vc c)"
    using assms by (simp_all add: pc_utopia_ok_def)
  show "CosaDmlMngSites_GetConf U x1 b = (ANSC_SUCCESS, x1\<lparr>si_Enable := (us_blk_on (vs (ub_store b)) = 1)\<rparr>, b)"
    "CosaDmlMngServs_GetConf U x2 b = (ANSC_SUCCESS, x2\<lparr>sv_Enable := (us_serv_on (vs (ub_store b)) = 1)\<rparr>, b)"
    "CosaDmlMngDevs_GetConf U x3 b = (ANSC_SUCCESS, x3\<lparr>dv_Enable := (fst (us_dev_on (vs (ub_store b))) = 1),
       dv_AllowAll := (snd (us_dev_on (vs (ub_store b))) = 1)\<rparr>, b)"
    by (simp_all add: CosaDmlMngSites_GetConf_def CosaDmlMngServs_GetConf_def CosaDmlMngDevs_GetConf_def c g split: prod.split)
qed

text \<open>The redirection addresses are keys of their own: storing one leaves what Utopia shows.\<close>

definition red_apart :: "'s red_sys \<Rightarrow> ('s \<Rightarrow> pc_ustore) \<Rightarrow> bool" where
  "red_apart C vs \<longleftrightarrow>
     (\<forall>d x. \<forall>k \<in> fst ` set red_keys. vs (snd (rs_set_commit C d k x)) = vs d \<and> vs (snd (sc_set (rs_syscfg C) d k x)) = vs d) \<and>
     (\<forall>d. vs (snd (sc_commit (rs_syscfg C) d)) = vs d)"

lemma red_apartD:
  assumes "red_apart C vs"
  shows "k \<in> fst ` set red_keys \<Longrightarrow> vs (snd (rs_set_commit C d k x)) = vs d"
    "k \<in> fst ` set red_keys \<Longrightarrow> vs (snd (sc_set (rs_syscfg C) d k x)) = vs d" "vs (snd (sc_commit (rs_syscfg C) d)) = vs d"
  using assms unfolding red_apart_def by blast+

lemma read_address_apart: "red_apart C vs \<Longrightarrow> k \<in> fst ` set red_keys \<Longrightarrow> vs (snd (read_address C n k dflt d)) = vs d"
  using red_apartD(1) [of C vs k d] unfolding read_address_def by (auto split: option.split)

lemma set_keys_apart: "red_apart C vs \<Longrightarrow> fst ` set kxs \<subseteq> fst ` set red_keys \<Longrightarrow> vs (snd (set_keys (rs_syscfg C) kxs d)) = vs d"
proof (induction kxs arbitrary: d)
  case (Cons kx kxs)
  obtain k x where kx: "kx = (k, x)" by force
  obtain ok d' where s: "sc_set (rs_syscfg C) d k x = (ok, d')" by force
  have "vs d' = vs d" using red_apartD(2) [OF Cons.prems(1), of k d x] Cons.prems(2) s by (simp add: kx)
  then show ?case using Cons by (simp add: kx s)
qed simp

lemma SetConf_apart:
  assumes "red_apart C vs" "CosaDmlMDRed_SetConf C e b = (s, b')"
  shows "vs (ub_store b') = vs (ub_store b)"
proof -
  have "fst ` set (red_cells e) \<subseteq> fst ` set red_keys" by (simp add: red_cells_def red_keys_def)
  from set_keys_apart [OF assms(1) this] show ?thesis
    using assms(2) red_apartD(3) [OF assms(1)] by (auto simp: CosaDmlMDRed_SetConf_def split: prod.split_asm) (metis snd_conv)
qed

lemma redirect_apart:
  assumes "red_apart C vs" "CosaDmlMDRed_GetConf C e b = (s, e', b')"
  shows "vs (ub_store b') = vs (ub_store b)"
proof -
  have k: "''HTTP_Server_IP'' \<in> fst ` set red_keys" "''HTTPS_Server_IP'' \<in> fst ` set red_keys" "''Default_Server_IP'' \<in> fst ` set red_keys"
    "''HTTP_Server_IPv6'' \<in> fst ` set red_keys" "''HTTPS_Server_IPv6'' \<in> fst ` set red_keys" "''Default_Server_IPv6'' \<in> fst ` set red_keys"
    by (simp_all add: red_keys_def)
  note r = read_address_apart [OF assms(1)]
  show ?thesis using assms(2) k [THEN r]
    by (auto simp: CosaDmlMDRed_GetConf_def split: prod.split_asm) (metis snd_conv)
qed

section \<open>All tables\<close>

lemma tables_apart:
  "apart (BlkURL_tab U) (\<lambda>b. (g_NrTrustedUser b, g_NrMSServs b, g_NrMSTrustedUsers b, g_NrMDDevs b))"
  "apart (TrustedUser_tab U) (\<lambda>b. (g_NrBlkURL b, g_NrMSServs b, g_NrMSTrustedUsers b, g_NrMDDevs b))"
  "apart (MSServ_tab U) (\<lambda>b. (g_NrBlkURL b, g_NrTrustedUser b, g_NrMSTrustedUsers b, g_NrMDDevs b))"
  "apart (MSTrustedUser_tab U) (\<lambda>b. (g_NrBlkURL b, g_NrTrustedUser b, g_NrMSServs b, g_NrMDDevs b))"
  "apart (MDDev_tab U) (\<lambda>b. (g_NrBlkURL b, g_NrTrustedUser b, g_NrMSServs b, g_NrMSTrustedUsers b))"
  by (simp_all add: apart_def BlkURL_tab_def TrustedUser_tab_def MSServ_tab_def MSTrustedUser_tab_def MDDev_tab_def event_defs)

lemma tables_nr:
  "ut_nr (BlkURL_tab U) b = g_NrBlkURL b" "ut_nr (TrustedUser_tab U) b = g_NrTrustedUser b" "ut_nr (MSServ_tab U) b = g_NrMSServs b"
  "ut_nr (MSTrustedUser_tab U) b = g_NrMSTrustedUsers b" "ut_nr (MDDev_tab U) b = g_NrMDDevs b"
  by (simp_all add: BlkURL_tab_def TrustedUser_tab_def MSServ_tab_def MSTrustedUser_tab_def MDDev_tab_def)

text \<open>Each table is consistent with the rows Utopia stores for it.\<close>

abbreviation blk_inv where "blk_inv U vs \<equiv> tab_inv (BlkURL_tab U) no_blk bu_InstanceNumber (\<lambda>s. us_blk (vs s))"
abbreviation tuser_inv where "tuser_inv U vs \<equiv> tab_inv (TrustedUser_tab U) ex_tuser tu_InstanceNumber (\<lambda>s. us_tuser (vs s))"
abbreviation serv_inv where "serv_inv U vs \<equiv> tab_inv (MSServ_tab U) ex_serv ms_InstanceNumber (\<lambda>s. us_serv (vs s))"
abbreviation stuser_inv where "stuser_inv U vs \<equiv> tab_inv (MSTrustedUser_tab U) ex_stuser mt_InstanceNumber (\<lambda>s. us_stuser (vs s))"
abbreviation dev_inv where "dev_inv U vs \<equiv> tab_inv (MDDev_tab U) ex_dev de_InstanceNumber (\<lambda>s. us_dev (vs s))"

definition product_inv :: "('s, 'c) pc_utopia \<Rightarrow> ('s \<Rightarrow> pc_ustore) \<Rightarrow> ('s ut_board, 'r) pc_state \<Rightarrow> bool" where
  "product_inv U vs st \<longleftrightarrow>
     blk_inv U vs (pc_BlkUrl st) (en_board (pc_env st)) (en_allocs (pc_env st)) \<and>
     tuser_inv U vs (pc_TrustedUser st) (en_board (pc_env st)) (en_allocs (pc_env st)) \<and>
     serv_inv U vs (pc_MSServ st) (en_board (pc_env st)) (en_allocs (pc_env st)) \<and>
     stuser_inv U vs (pc_MSTrustedUser st) (en_board (pc_env st)) (en_allocs (pc_env st)) \<and>
     dev_inv U vs (pc_MDDev st) (en_board (pc_env st)) (en_allocs (pc_env st))"

text \<open>Loading the five tables one after the other.\<close>

lemma load_all:
  assumes U: "pc_utopia_ok U vs vc" and R: "reg_ready L w root (en_registry v)" and n: "store_numbered (vs (ub_store (en_board v)))"
    and l: "pc_load_table L BlkURL_kind (BlkURL_ops U) J1 x1 v = (s1, t1, v1)"
      "pc_load_table L TrustedUser_kind (TrustedUser_ops U) J2 x2 v1 = (s2, t2, v2)"
      "pc_load_table L MSServ_kind (MSServ_ops U) J3 x3 v2 = (s3, t3, v3)"
      "pc_load_table L MSTrustedUser_kind (MSTrustedUser_ops U) J4 x4 v3 = (s4, t4, v4)"
      "pc_load_table L MDDev_kind (MDDev_ops U) J5 x5 v4 = (s5, t5, v5)"
  shows "s1 = ANSC_SUCCESS \<and> s2 = ANSC_SUCCESS \<and> s3 = ANSC_SUCCESS \<and> s4 = ANSC_SUCCESS \<and> s5 = ANSC_SUCCESS"
    "loaded blk_core (blk_rows U vs (en_board v)) t1 \<and> loaded id (tuser_rows U vs (en_board v)) t2 \<and>
     loaded id (serv_rows U vs (en_board v)) t3 \<and> loaded id (stuser_rows U vs (en_board v)) t4 \<and> loaded id (dev_rows U vs (en_board v)) t5"
    "blk_inv U vs t1 (en_board v5) (en_allocs v5) \<and> tuser_inv U vs t2 (en_board v5) (en_allocs v5) \<and>
     serv_inv U vs t3 (en_board v5) (en_allocs v5) \<and> stuser_inv U vs t4 (en_board v5) (en_allocs v5) \<and> dev_inv U vs t5 (en_board v5) (en_allocs v5)"
proof -
  note O = utopia_over [OF U] and l' = l [unfolded ops_copies] and n' = n [unfolded store_numbered_def]
  note x1 = load_over [where h = "\<lambda>u. (us_tuser u, us_serv u, us_stuser u, us_dev u)", OF O(1) kinds_ins(1) _ tables_apart(1) R _ l'(1)]
  have y1: "s1 = ANSC_SUCCESS" "loaded blk_core (blk_rows U vs (en_board v)) t1" "blk_inv U vs t1 (en_board v1) (en_allocs v1)"
      "en_registry v1 = en_registry v" and
    z1: "us_tuser (vs (ub_store (en_board v1))) = us_tuser (vs (ub_store (en_board v)))" "us_serv (vs (ub_store (en_board v1))) = us_serv (vs (ub_store (en_board v)))"
      "us_stuser (vs (ub_store (en_board v1))) = us_stuser (vs (ub_store (en_board v)))" "us_dev (vs (ub_store (en_board v1))) = us_dev (vs (ub_store (en_board v)))"
    using x1 n' by simp_all
  have R1: "reg_ready L w root (en_registry v1)" using R y1(4) by simp
  note x2 = load_over [where h = "\<lambda>u. (us_blk u, us_serv u, us_stuser u, us_dev u)", OF O(2) kinds_ins(2) _ tables_apart(2) R1 _ l'(2)]
  have y2: "s2 = ANSC_SUCCESS" "loaded id (tuser_rows U vs (en_board v)) t2" "tuser_inv U vs t2 (en_board v2) (en_allocs v2)"
      "en_registry v2 = en_registry v" "blk_inv U vs t1 (en_board v2) (en_allocs v2)" and
    z2: "us_serv (vs (ub_store (en_board v2))) = us_serv (vs (ub_store (en_board v)))"
      "us_stuser (vs (ub_store (en_board v2))) = us_stuser (vs (ub_store (en_board v)))" "us_dev (vs (ub_store (en_board v2))) = us_dev (vs (ub_store (en_board v)))"
    using x2 n' z1 y1(4) tab_inv_other [OF y1(3), of "en_board v2" "en_allocs v2"] by (simp_all add: ut_view_def tables_nr)
  have R2: "reg_ready L w root (en_registry v2)" using R y2(4) by simp
  note x3 = load_over [where h = "\<lambda>u. (us_blk u, us_tuser u, us_stuser u, us_dev u)", OF O(3) kinds_ins(3) _ tables_apart(3) R2 _ l'(3)]
  have y3: "s3 = ANSC_SUCCESS" "loaded id (serv_rows U vs (en_board v)) t3" "serv_inv U vs t3 (en_board v3) (en_allocs v3)"
      "en_registry v3 = en_registry v" "blk_inv U vs t1 (en_board v3) (en_allocs v3)" "tuser_inv U vs t2 (en_board v3) (en_allocs v3)" and
    z3: "us_stuser (vs (ub_store (en_board v3))) = us_stuser (vs (ub_store (en_board v)))" "us_dev (vs (ub_store (en_board v3))) = us_dev (vs (ub_store (en_board v)))"
    using x3 n' z2 y2(4) tab_inv_other [OF y2(5), of "en_board v3" "en_allocs v3"] tab_inv_other [OF y2(3), of "en_board v3" "en_allocs v3"]
    by (simp_all add: ut_view_def tables_nr)
  have R3: "reg_ready L w root (en_registry v3)" using R y3(4) by simp
  note x4 = load_over [where h = "\<lambda>u. (us_blk u, us_tuser u, us_serv u, us_dev u)", OF O(4) kinds_ins(4) _ tables_apart(4) R3 _ l'(4)]
  have y4: "s4 = ANSC_SUCCESS" "loaded id (stuser_rows U vs (en_board v)) t4" "stuser_inv U vs t4 (en_board v4) (en_allocs v4)"
      "en_registry v4 = en_registry v" "blk_inv U vs t1 (en_board v4) (en_allocs v4)" "tuser_inv U vs t2 (en_board v4) (en_allocs v4)"
      "serv_inv U vs t3 (en_board v4) (en_allocs v4)" and
    z4: "us_dev (vs (ub_store (en_board v4))) = us_dev (vs (ub_store (en_board v)))"
    using x4 n' z3 y3(4) tab_inv_other [OF y3(5), of "en_board v4" "en_allocs v4"] tab_inv_other [OF y3(6), of "en_board v4" "en_allocs v4"]
      tab_inv_other [OF y3(3), of "en_board v4" "en_allocs v4"] by (simp_all add: ut_view_def tables_nr)
  have R4: "reg_ready L w root (en_registry v4)" using R y4(4) by simp
  note x5 = load_over [where h = "\<lambda>u. (us_blk u, us_tuser u, us_serv u, us_stuser u)", OF O(5) kinds_ins(5) _ tables_apart(5) R4 _ l'(5)]
  have y5: "s5 = ANSC_SUCCESS" "loaded id (dev_rows U vs (en_board v)) t5" "dev_inv U vs t5 (en_board v5) (en_allocs v5)"
      "blk_inv U vs t1 (en_board v5) (en_allocs v5)" "tuser_inv U vs t2 (en_board v5) (en_allocs v5)"
      "serv_inv U vs t3 (en_board v5) (en_allocs v5)" "stuser_inv U vs t4 (en_board v5) (en_allocs v5)"
    using x5 n' z4 y4(4) tab_inv_other [OF y4(5), of "en_board v5" "en_allocs v5"] tab_inv_other [OF y4(6), of "en_board v5" "en_allocs v5"]
      tab_inv_other [OF y4(7), of "en_board v5" "en_allocs v5"] tab_inv_other [OF y4(3), of "en_board v5" "en_allocs v5"]
    by (simp_all add: ut_view_def tables_nr)
  show "s1 = ANSC_SUCCESS \<and> s2 = ANSC_SUCCESS \<and> s3 = ANSC_SUCCESS \<and> s4 = ANSC_SUCCESS \<and> s5 = ANSC_SUCCESS"
    using y1 y2 y3 y4 y5 by simp
  show "loaded blk_core (blk_rows U vs (en_board v)) t1 \<and> loaded id (tuser_rows U vs (en_board v)) t2 \<and>
     loaded id (serv_rows U vs (en_board v)) t3 \<and> loaded id (stuser_rows U vs (en_board v)) t4 \<and> loaded id (dev_rows U vs (en_board v)) t5"
    using y1 y2 y3 y4 y5 by simp
  show "blk_inv U vs t1 (en_board v5) (en_allocs v5) \<and> tuser_inv U vs t2 (en_board v5) (en_allocs v5) \<and>
     serv_inv U vs t3 (en_board v5) (en_allocs v5) \<and> stuser_inv U vs t4 (en_board v5) (en_allocs v5) \<and> dev_inv U vs t5 (en_board v5) (en_allocs v5)"
    using y5 by simp
qed

lemma start_loads:
  assumes U: "pc_utopia_ok U vs vc" and R: "reg_ready L w root (en_registry (pc_env st))"
    and n: "store_numbered (vs (ub_store (en_board (pc_env st))))" and red: "red_apart C vs"
    and run: "CosaParentalControlInitialize L (product_boards U C) N st = (s, st')"
  shows "s = ANSC_SUCCESS \<and> loaded blk_core (blk_rows U vs (en_board (pc_env st))) (pc_BlkUrl st') \<and>
    loaded id (tuser_rows U vs (en_board (pc_env st))) (pc_TrustedUser st') \<and>
    loaded id (serv_rows U vs (en_board (pc_env st))) (pc_MSServ st') \<and>
    loaded id (stuser_rows U vs (en_board (pc_env st))) (pc_MSTrustedUser st') \<and>
    loaded id (dev_rows U vs (en_board (pc_env st))) (pc_MDDev st') \<and>
    si_Enable (pc_ManagedSites st') = (us_blk_on (vs (ub_store (en_board (pc_env st)))) = 1) \<and>
    sv_Enable (pc_ManagedServs st') = (us_serv_on (vs (ub_store (en_board (pc_env st)))) = 1) \<and>
    dv_Enable (pc_ManagedDevs st') = (fst (us_dev_on (vs (ub_store (en_board (pc_env st))))) = 1) \<and> product_inv U vs st'"
proof -
  let ?b = "en_board (pc_env st)"
  obtain rs rx b1 where red': "CosaDmlMDRed_GetConf C (pc_MDRedirect st) ?b = (rs, rx, b1)" by (metis prod_cases3)
  have b1: "vs (ub_store b1) = vs (ub_store ?b)" by (rule redirect_apart [OF red red'])
  let ?v = "(pc_env st)\<lparr>en_board := b1\<rparr>"
  obtain s1 t1 v1 where l1: "pc_load_table L BlkURL_kind (BlkURL_ops U) (ju_blk N) (pc_BlkUrl st) ?v = (s1, t1, v1)"
    by (metis prod_cases3)
  obtain s2 t2 v2 where l2: "pc_load_table L TrustedUser_kind (TrustedUser_ops U) (ju_tuser N) (pc_TrustedUser st) v1 = (s2, t2, v2)"
    by (metis prod_cases3)
  obtain s3 t3 v3 where l3: "pc_load_table L MSServ_kind (MSServ_ops U) (ju_serv N) (pc_MSServ st) v2 = (s3, t3, v3)"
    by (metis prod_cases3)
  obtain s4 t4 v4 where l4: "pc_load_table L MSTrustedUser_kind (MSTrustedUser_ops U) (ju_stuser N) (pc_MSTrustedUser st) v3 = (s4, t4, v4)"
    by (metis prod_cases3)
  obtain s5 t5 v5 where l5: "pc_load_table L MDDev_kind (MDDev_ops U) (ju_dev N) (pc_MDDev st) v4 = (s5, t5, v5)"
    by (metis prod_cases3)
  have Rn: "reg_ready L w root (en_registry ?v)" "store_numbered (vs (ub_store (en_board ?v)))" using R n b1 by simp_all
  note x = load_all [OF U Rn l1 l2 l3 l4 l5]
  have "s = ANSC_SUCCESS" "pc_BlkUrl st' = t1" "pc_TrustedUser st' = t2" "pc_MSServ st' = t3" "pc_MSTrustedUser st' = t4" "pc_MDDev st' = t5"
    "si_Enable (pc_ManagedSites st') = (us_blk_on (vs (ub_store ?b)) = 1)" "sv_Enable (pc_ManagedServs st') = (us_serv_on (vs (ub_store ?b)) = 1)"
    "dv_Enable (pc_ManagedDevs st') = (fst (us_dev_on (vs (ub_store ?b))) = 1)" "pc_env st' = v5"
    using run x(1)
    by (auto simp: CosaParentalControlInitialize_def product_boards_def switches_read [OF U] red' pc_then_def pc_load_BlkURL_def
        pc_load_TrustedUser_def pc_load_MSServ_def pc_load_MSTrustedUser_def pc_load_MDDev_def l1 l2 l3 l4 l5)
  then show ?thesis using x b1 by (simp add: product_inv_def ut_view_def)
qed


definition ex_store :: pc_ustore where
  "ex_store = \<lparr>us_blk = [write_blkurl mem_pc_utopia copy_s ex_blocked], us_tuser = [], us_serv = [], us_stuser = [], us_dev = [],
     us_blk_on = 1, us_serv_on = 0, us_dev_on = (0, 1)\<rparr>"


end
