(* ===== verification/Pc_Product_Steps.thy ===== *)
theory Pc_Product_Steps
  imports Pc_Utopia_Start
begin

text \<open>
  The step relation of parental control on the product: one rule per handler, over the state of the whole object.
\<close>

section \<open>The steps\<close>

text \<open>An addition is a step as long as the counter of the table does not wrap around. A setter gets the row of a link of the
  table.\<close>

inductive product_step :: "('l, 'm, 'r) pc_libs \<Rightarrow> ('s, 'c) pc_utopia \<Rightarrow> 's red_sys \<Rightarrow> pc_junk \<Rightarrow> (string \<Rightarrow> bool) \<Rightarrow>
    ('s ut_board, 'r) pc_state \<Rightarrow> ('s ut_board, 'r) pc_state \<Rightarrow> bool" for L U C N pton6 where
  blk_add: "PcBlkURL_AddEntry L N st = (a, st') \<Longrightarrow> tb_NextInsNum (pc_BlkUrl st) + 1 \<noteq> 0 \<Longrightarrow> product_step L U C N pton6 st st'"
| blk_del: "l \<in> set (tb_List (pc_BlkUrl st)) \<Longrightarrow> PcBlkURL_DelEntry L (product_boards U C) st l = (r, st') \<Longrightarrow> product_step L U C N pton6 st st'"
| blk_commit: "l \<in> set (tb_List (pc_BlkUrl st)) \<Longrightarrow> PcBlkURL_Commit L (product_boards U C) st l = (r, st') \<Longrightarrow> product_step L U C N pton6 st st'"
| blk_rollback: "l \<in> set (tb_List (pc_BlkUrl st)) \<Longrightarrow> PcBlkURL_Rollback (product_boards U C) st l = (r, st') \<Longrightarrow> product_step L U C N pton6 st st'"
| blk_set: "l \<in> set (tb_List (pc_BlkUrl st)) \<Longrightarrow> x = ob_entry (lnk_hContext l) \<Longrightarrow>
    e \<in> {snd (PcBlkURL_SetParamBoolValue L x p b), snd (PcBlkURL_SetParamUlongValue L x p n), snd (PcBlkURL_SetParamStringValue L x p s)} \<Longrightarrow>
    product_step L U C N pton6 st (st\<lparr>pc_BlkUrl := pc_put (pc_BlkUrl st) (pc_set_entry l e)\<rparr>)"
| tuser_add: "PcTrustedUser_AddEntry L N st = (a, st') \<Longrightarrow> tb_NextInsNum (pc_TrustedUser st) + 1 \<noteq> 0 \<Longrightarrow> product_step L U C N pton6 st st'"
| tuser_del: "l \<in> set (tb_List (pc_TrustedUser st)) \<Longrightarrow> PcTrustedUser_DelEntry L (product_boards U C) st l = (r, st') \<Longrightarrow> product_step L U C N pton6 st st'"
| tuser_commit: "l \<in> set (tb_List (pc_TrustedUser st)) \<Longrightarrow> PcTrustedUser_Commit L (product_boards U C) st l = (r, st') \<Longrightarrow> product_step L U C N pton6 st st'"
| tuser_rollback: "l \<in> set (tb_List (pc_TrustedUser st)) \<Longrightarrow> PcTrustedUser_Rollback (product_boards U C) st l = (r, st') \<Longrightarrow> product_step L U C N pton6 st st'"
| tuser_set: "l \<in> set (tb_List (pc_TrustedUser st)) \<Longrightarrow> x = ob_entry (lnk_hContext l) \<Longrightarrow>
    e \<in> {snd (PcTrustedUser_SetParamBoolValue L x p b), snd (PcTrustedUser_SetParamUlongValue L x p n), snd (PcTrustedUser_SetParamStringValue L x p s)} \<Longrightarrow>
    product_step L U C N pton6 st (st\<lparr>pc_TrustedUser := pc_put (pc_TrustedUser st) (pc_set_entry l e)\<rparr>)"
| serv_add: "MSServ_AddEntry L N st = (a, st') \<Longrightarrow> tb_NextInsNum (pc_MSServ st) + 1 \<noteq> 0 \<Longrightarrow> product_step L U C N pton6 st st'"
| serv_del: "l \<in> set (tb_List (pc_MSServ st)) \<Longrightarrow> MSServ_DelEntry L (product_boards U C) st l = (r, st') \<Longrightarrow> product_step L U C N pton6 st st'"
| serv_commit: "l \<in> set (tb_List (pc_MSServ st)) \<Longrightarrow> MSServ_Commit L (product_boards U C) st l = (r, st') \<Longrightarrow> product_step L U C N pton6 st st'"
| serv_rollback: "l \<in> set (tb_List (pc_MSServ st)) \<Longrightarrow> MSServ_Rollback (product_boards U C) st l = (r, st') \<Longrightarrow> product_step L U C N pton6 st st'"
| serv_set: "l \<in> set (tb_List (pc_MSServ st)) \<Longrightarrow> x = ob_entry (lnk_hContext l) \<Longrightarrow>
    e \<in> {snd (MSServ_SetParamBoolValue L x p b), snd (MSServ_SetParamUlongValue L x p n), snd (MSServ_SetParamStringValue L x p s)} \<Longrightarrow>
    product_step L U C N pton6 st (st\<lparr>pc_MSServ := pc_put (pc_MSServ st) (pc_set_entry l e)\<rparr>)"
| stuser_add: "MSTrustedUser_AddEntry L N st = (a, st') \<Longrightarrow> tb_NextInsNum (pc_MSTrustedUser st) + 1 \<noteq> 0 \<Longrightarrow> product_step L U C N pton6 st st'"
| stuser_del: "l \<in> set (tb_List (pc_MSTrustedUser st)) \<Longrightarrow> MSTrustedUser_DelEntry L (product_boards U C) st l = (r, st') \<Longrightarrow> product_step L U C N pton6 st st'"
| stuser_commit: "l \<in> set (tb_List (pc_MSTrustedUser st)) \<Longrightarrow> MSTrustedUser_Commit L (product_boards U C) st l = (r, st') \<Longrightarrow> product_step L U C N pton6 st st'"
| stuser_rollback: "l \<in> set (tb_List (pc_MSTrustedUser st)) \<Longrightarrow> MSTrustedUser_Rollback (product_boards U C) st l = (r, st') \<Longrightarrow> product_step L U C N pton6 st st'"
| stuser_set: "l \<in> set (tb_List (pc_MSTrustedUser st)) \<Longrightarrow> x = ob_entry (lnk_hContext l) \<Longrightarrow>
    e \<in> {snd (MSTrustedUser_SetParamBoolValue L x p b), snd (MSTrustedUser_SetParamUlongValue L x p n), snd (MSTrustedUser_SetParamStringValue L x p s)} \<Longrightarrow>
    product_step L U C N pton6 st (st\<lparr>pc_MSTrustedUser := pc_put (pc_MSTrustedUser st) (pc_set_entry l e)\<rparr>)"
| dev_add: "MDDev_AddEntry L N st = (a, st') \<Longrightarrow> tb_NextInsNum (pc_MDDev st) + 1 \<noteq> 0 \<Longrightarrow> product_step L U C N pton6 st st'"
| dev_del: "l \<in> set (tb_List (pc_MDDev st)) \<Longrightarrow> MDDev_DelEntry L (product_boards U C) st l = (r, st') \<Longrightarrow> product_step L U C N pton6 st st'"
| dev_commit: "l \<in> set (tb_List (pc_MDDev st)) \<Longrightarrow> MDDev_Commit L (product_boards U C) st l = (r, st') \<Longrightarrow> product_step L U C N pton6 st st'"
| dev_rollback: "l \<in> set (tb_List (pc_MDDev st)) \<Longrightarrow> MDDev_Rollback (product_boards U C) st l = (r, st') \<Longrightarrow> product_step L U C N pton6 st st'"
| dev_set: "l \<in> set (tb_List (pc_MDDev st)) \<Longrightarrow> x = ob_entry (lnk_hContext l) \<Longrightarrow>
    e \<in> {snd (MDDev_SetParamBoolValue L x p b), snd (MDDev_SetParamUlongValue L x p n), snd (MDDev_SetParamStringValue L x p s)} \<Longrightarrow>
    product_step L U C N pton6 st (st\<lparr>pc_MDDev := pc_put (pc_MDDev st) (pc_set_entry l e)\<rparr>)"
| sites_set: "MngSites_SetParamBoolValue L st p b = (ok, st') \<Longrightarrow> product_step L U C N pton6 st st'"
| sites_commit: "MngSites_Commit (product_boards U C) st = (r, st') \<Longrightarrow> product_step L U C N pton6 st st'"
| sites_rollback: "MngSites_Rollback (product_boards U C) st = (r, st') \<Longrightarrow> product_step L U C N pton6 st st'"
| servs_set: "MngServs_SetParamBoolValue L st p b = (ok, st') \<Longrightarrow> product_step L U C N pton6 st st'"
| servs_commit: "MngServs_Commit (product_boards U C) st = (r, st') \<Longrightarrow> product_step L U C N pton6 st st'"
| servs_rollback: "MngServs_Rollback (product_boards U C) st = (r, st') \<Longrightarrow> product_step L U C N pton6 st st'"
| devs_set: "MngDevs_SetParamBoolValue L st p b = (ok, st') \<Longrightarrow> product_step L U C N pton6 st st'"
| devs_commit: "MngDevs_Commit (product_boards U C) st = (r, st') \<Longrightarrow> product_step L U C N pton6 st st'"
| devs_rollback: "MngDevs_Rollback (product_boards U C) st = (r, st') \<Longrightarrow> product_step L U C N pton6 st st'"
| red_set: "MDRed_SetParamStringValue L pton6 st p s = (ok, st') \<Longrightarrow> product_step L U C N pton6 st st'"
| red_commit: "MDRed_Commit (product_boards U C) st = (r, st') \<Longrightarrow> product_step L U C N pton6 st st'"
| red_rollback: "MDRed_Rollback (product_boards U C) st = (r, st') \<Longrightarrow> product_step L U C N pton6 st st'"

section \<open>A handler of a table is a step of the table\<close>

lemmas table_handlers =
  PcBlkURL_AddEntry_def PcBlkURL_DelEntry_def PcBlkURL_Commit_def PcBlkURL_Rollback_def
  PcTrustedUser_AddEntry_def PcTrustedUser_DelEntry_def PcTrustedUser_Commit_def PcTrustedUser_Rollback_def
  MSServ_AddEntry_def MSServ_DelEntry_def MSServ_Commit_def MSServ_Rollback_def
  MSTrustedUser_AddEntry_def MSTrustedUser_DelEntry_def MSTrustedUser_Commit_def MSTrustedUser_Rollback_def
  MDDev_AddEntry_def MDDev_DelEntry_def MDDev_Commit_def MDDev_Rollback_def

lemma add_steps:
  "PcBlkURL_AddEntry L N st = (a, st') \<Longrightarrow> tb_NextInsNum (pc_BlkUrl st) + 1 \<noteq> 0 \<Longrightarrow>
    pc_step L BlkURL_kind (BlkURL_ops U) (ju_blk N) (pc_BlkUrl st, pc_env st) (pc_BlkUrl st', pc_env st') \<and> st' = st\<lparr>pc_BlkUrl := pc_BlkUrl st', pc_env := pc_env st'\<rparr>"
  "PcTrustedUser_AddEntry L N st = (a, st') \<Longrightarrow> tb_NextInsNum (pc_TrustedUser st) + 1 \<noteq> 0 \<Longrightarrow>
    pc_step L TrustedUser_kind (TrustedUser_ops U) (ju_tuser N) (pc_TrustedUser st, pc_env st) (pc_TrustedUser st', pc_env st') \<and> st' = st\<lparr>pc_TrustedUser := pc_TrustedUser st', pc_env := pc_env st'\<rparr>"
  "MSServ_AddEntry L N st = (a, st') \<Longrightarrow> tb_NextInsNum (pc_MSServ st) + 1 \<noteq> 0 \<Longrightarrow>
    pc_step L MSServ_kind (MSServ_ops U) (ju_serv N) (pc_MSServ st, pc_env st) (pc_MSServ st', pc_env st') \<and> st' = st\<lparr>pc_MSServ := pc_MSServ st', pc_env := pc_env st'\<rparr>"
  "MSTrustedUser_AddEntry L N st = (a, st') \<Longrightarrow> tb_NextInsNum (pc_MSTrustedUser st) + 1 \<noteq> 0 \<Longrightarrow>
    pc_step L MSTrustedUser_kind (MSTrustedUser_ops U) (ju_stuser N) (pc_MSTrustedUser st, pc_env st) (pc_MSTrustedUser st', pc_env st') \<and> st' = st\<lparr>pc_MSTrustedUser := pc_MSTrustedUser st', pc_env := pc_env st'\<rparr>"
  "MDDev_AddEntry L N st = (a, st') \<Longrightarrow> tb_NextInsNum (pc_MDDev st) + 1 \<noteq> 0 \<Longrightarrow>
    pc_step L MDDev_kind (MDDev_ops U) (ju_dev N) (pc_MDDev st, pc_env st) (pc_MDDev st', pc_env st') \<and> st' = st\<lparr>pc_MDDev := pc_MDDev st', pc_env := pc_env st'\<rparr>"
  by (auto simp: table_handlers product_boards_def split: prod.split_asm intro: pc_step.add)

lemma del_steps:
  "PcBlkURL_DelEntry L (product_boards U C) st l1 = (r, st') \<Longrightarrow> l1 \<in> set (tb_List (pc_BlkUrl st)) \<Longrightarrow>
    pc_step L BlkURL_kind (BlkURL_ops U) (ju_blk N) (pc_BlkUrl st, pc_env st) (pc_BlkUrl st', pc_env st') \<and> st' = st\<lparr>pc_BlkUrl := pc_BlkUrl st', pc_env := pc_env st'\<rparr>"
  "PcTrustedUser_DelEntry L (product_boards U C) st l2 = (r, st') \<Longrightarrow> l2 \<in> set (tb_List (pc_TrustedUser st)) \<Longrightarrow>
    pc_step L TrustedUser_kind (TrustedUser_ops U) (ju_tuser N) (pc_TrustedUser st, pc_env st) (pc_TrustedUser st', pc_env st') \<and> st' = st\<lparr>pc_TrustedUser := pc_TrustedUser st', pc_env := pc_env st'\<rparr>"
  "MSServ_DelEntry L (product_boards U C) st l3 = (r, st') \<Longrightarrow> l3 \<in> set (tb_List (pc_MSServ st)) \<Longrightarrow>
    pc_step L MSServ_kind (MSServ_ops U) (ju_serv N) (pc_MSServ st, pc_env st) (pc_MSServ st', pc_env st') \<and> st' = st\<lparr>pc_MSServ := pc_MSServ st', pc_env := pc_env st'\<rparr>"
  "MSTrustedUser_DelEntry L (product_boards U C) st l4 = (r, st') \<Longrightarrow> l4 \<in> set (tb_List (pc_MSTrustedUser st)) \<Longrightarrow>
    pc_step L MSTrustedUser_kind (MSTrustedUser_ops U) (ju_stuser N) (pc_MSTrustedUser st, pc_env st) (pc_MSTrustedUser st', pc_env st') \<and> st' = st\<lparr>pc_MSTrustedUser := pc_MSTrustedUser st', pc_env := pc_env st'\<rparr>"
  "MDDev_DelEntry L (product_boards U C) st l5 = (r, st') \<Longrightarrow> l5 \<in> set (tb_List (pc_MDDev st)) \<Longrightarrow>
    pc_step L MDDev_kind (MDDev_ops U) (ju_dev N) (pc_MDDev st, pc_env st) (pc_MDDev st', pc_env st') \<and> st' = st\<lparr>pc_MDDev := pc_MDDev st', pc_env := pc_env st'\<rparr>"
  by (auto simp: table_handlers product_boards_def split: prod.split_asm intro: pc_step.del)

lemma commit_steps:
  "PcBlkURL_Commit L (product_boards U C) st l1 = (r, st') \<Longrightarrow> l1 \<in> set (tb_List (pc_BlkUrl st)) \<Longrightarrow>
    pc_step L BlkURL_kind (BlkURL_ops U) (ju_blk N) (pc_BlkUrl st, pc_env st) (pc_BlkUrl st', pc_env st') \<and> st' = st\<lparr>pc_BlkUrl := pc_BlkUrl st', pc_env := pc_env st'\<rparr>"
  "PcTrustedUser_Commit L (product_boards U C) st l2 = (r, st') \<Longrightarrow> l2 \<in> set (tb_List (pc_TrustedUser st)) \<Longrightarrow>
    pc_step L TrustedUser_kind (TrustedUser_ops U) (ju_tuser N) (pc_TrustedUser st, pc_env st) (pc_TrustedUser st', pc_env st') \<and> st' = st\<lparr>pc_TrustedUser := pc_TrustedUser st', pc_env := pc_env st'\<rparr>"
  "MSServ_Commit L (product_boards U C) st l3 = (r, st') \<Longrightarrow> l3 \<in> set (tb_List (pc_MSServ st)) \<Longrightarrow>
    pc_step L MSServ_kind (MSServ_ops U) (ju_serv N) (pc_MSServ st, pc_env st) (pc_MSServ st', pc_env st') \<and> st' = st\<lparr>pc_MSServ := pc_MSServ st', pc_env := pc_env st'\<rparr>"
  "MSTrustedUser_Commit L (product_boards U C) st l4 = (r, st') \<Longrightarrow> l4 \<in> set (tb_List (pc_MSTrustedUser st)) \<Longrightarrow>
    pc_step L MSTrustedUser_kind (MSTrustedUser_ops U) (ju_stuser N) (pc_MSTrustedUser st, pc_env st) (pc_MSTrustedUser st', pc_env st') \<and> st' = st\<lparr>pc_MSTrustedUser := pc_MSTrustedUser st', pc_env := pc_env st'\<rparr>"
  "MDDev_Commit L (product_boards U C) st l5 = (r, st') \<Longrightarrow> l5 \<in> set (tb_List (pc_MDDev st)) \<Longrightarrow>
    pc_step L MDDev_kind (MDDev_ops U) (ju_dev N) (pc_MDDev st, pc_env st) (pc_MDDev st', pc_env st') \<and> st' = st\<lparr>pc_MDDev := pc_MDDev st', pc_env := pc_env st'\<rparr>"
  by (auto simp: table_handlers product_boards_def split: prod.split_asm intro: pc_step.commit)

lemma rollback_steps:
  "PcBlkURL_Rollback (product_boards U C) st l1 = (r, st') \<Longrightarrow> l1 \<in> set (tb_List (pc_BlkUrl st)) \<Longrightarrow>
    pc_step L BlkURL_kind (BlkURL_ops U) (ju_blk N) (pc_BlkUrl st, pc_env st) (pc_BlkUrl st', pc_env st') \<and> st' = st\<lparr>pc_BlkUrl := pc_BlkUrl st', pc_env := pc_env st'\<rparr>"
  "PcTrustedUser_Rollback (product_boards U C) st l2 = (r, st') \<Longrightarrow> l2 \<in> set (tb_List (pc_TrustedUser st)) \<Longrightarrow>
    pc_step L TrustedUser_kind (TrustedUser_ops U) (ju_tuser N) (pc_TrustedUser st, pc_env st) (pc_TrustedUser st', pc_env st') \<and> st' = st\<lparr>pc_TrustedUser := pc_TrustedUser st', pc_env := pc_env st'\<rparr>"
  "MSServ_Rollback (product_boards U C) st l3 = (r, st') \<Longrightarrow> l3 \<in> set (tb_List (pc_MSServ st)) \<Longrightarrow>
    pc_step L MSServ_kind (MSServ_ops U) (ju_serv N) (pc_MSServ st, pc_env st) (pc_MSServ st', pc_env st') \<and> st' = st\<lparr>pc_MSServ := pc_MSServ st', pc_env := pc_env st'\<rparr>"
  "MSTrustedUser_Rollback (product_boards U C) st l4 = (r, st') \<Longrightarrow> l4 \<in> set (tb_List (pc_MSTrustedUser st)) \<Longrightarrow>
    pc_step L MSTrustedUser_kind (MSTrustedUser_ops U) (ju_stuser N) (pc_MSTrustedUser st, pc_env st) (pc_MSTrustedUser st', pc_env st') \<and> st' = st\<lparr>pc_MSTrustedUser := pc_MSTrustedUser st', pc_env := pc_env st'\<rparr>"
  "MDDev_Rollback (product_boards U C) st l5 = (r, st') \<Longrightarrow> l5 \<in> set (tb_List (pc_MDDev st)) \<Longrightarrow>
    pc_step L MDDev_kind (MDDev_ops U) (ju_dev N) (pc_MDDev st, pc_env st) (pc_MDDev st', pc_env st') \<and> st' = st\<lparr>pc_MDDev := pc_MDDev st', pc_env := pc_env st'\<rparr>"
  by (auto simp: table_handlers product_boards_def split: prod.split_asm intro: pc_step.rollback)

lemma setters_keep_number:
  "bu_InstanceNumber (snd (PcBlkURL_SetParamBoolValue L e1 p b)) = bu_InstanceNumber e1"
  "bu_InstanceNumber (snd (PcBlkURL_SetParamUlongValue L e1 p n)) = bu_InstanceNumber e1"
  "bu_InstanceNumber (snd (PcBlkURL_SetParamStringValue L e1 p s)) = bu_InstanceNumber e1"
  "tu_InstanceNumber (snd (PcTrustedUser_SetParamBoolValue L e2 p b)) = tu_InstanceNumber e2"
  "tu_InstanceNumber (snd (PcTrustedUser_SetParamUlongValue L e2 p n)) = tu_InstanceNumber e2"
  "tu_InstanceNumber (snd (PcTrustedUser_SetParamStringValue L e2 p s)) = tu_InstanceNumber e2"
  "ms_InstanceNumber (snd (MSServ_SetParamBoolValue L e3 p b)) = ms_InstanceNumber e3"
  "ms_InstanceNumber (snd (MSServ_SetParamUlongValue L e3 p n)) = ms_InstanceNumber e3"
  "ms_InstanceNumber (snd (MSServ_SetParamStringValue L e3 p s)) = ms_InstanceNumber e3"
  "mt_InstanceNumber (snd (MSTrustedUser_SetParamBoolValue L e4 p b)) = mt_InstanceNumber e4"
  "mt_InstanceNumber (snd (MSTrustedUser_SetParamUlongValue L e4 p n)) = mt_InstanceNumber e4"
  "mt_InstanceNumber (snd (MSTrustedUser_SetParamStringValue L e4 p s)) = mt_InstanceNumber e4"
  "de_InstanceNumber (snd (MDDev_SetParamBoolValue L e5 p b)) = de_InstanceNumber e5"
  "de_InstanceNumber (snd (MDDev_SetParamUlongValue L e5 p n)) = de_InstanceNumber e5"
  "de_InstanceNumber (snd (MDDev_SetParamStringValue L e5 p s)) = de_InstanceNumber e5"
  by (rule string_setters_keep [unfolded row_kept_def, THEN conjunct1] number_setters_keep [unfolded row_kept_def, THEN conjunct1])+

lemma set_steps:
  "l1 \<in> set (tb_List (pc_BlkUrl st)) \<Longrightarrow> x1 = ob_entry (lnk_hContext l1) \<Longrightarrow>
    y1 \<in> {snd (PcBlkURL_SetParamBoolValue L x1 p b), snd (PcBlkURL_SetParamUlongValue L x1 p n), snd (PcBlkURL_SetParamStringValue L x1 p s)} \<Longrightarrow>
    pc_step L BlkURL_kind (BlkURL_ops U) (ju_blk N) (pc_BlkUrl st, v) (pc_put (pc_BlkUrl st) (pc_set_entry l1 y1), v)"
  "l2 \<in> set (tb_List (pc_TrustedUser st)) \<Longrightarrow> x2 = ob_entry (lnk_hContext l2) \<Longrightarrow>
    y2 \<in> {snd (PcTrustedUser_SetParamBoolValue L x2 p b), snd (PcTrustedUser_SetParamUlongValue L x2 p n), snd (PcTrustedUser_SetParamStringValue L x2 p s)} \<Longrightarrow>
    pc_step L TrustedUser_kind (TrustedUser_ops U) (ju_tuser N) (pc_TrustedUser st, v) (pc_put (pc_TrustedUser st) (pc_set_entry l2 y2), v)"
  "l3 \<in> set (tb_List (pc_MSServ st)) \<Longrightarrow> x3 = ob_entry (lnk_hContext l3) \<Longrightarrow>
    y3 \<in> {snd (MSServ_SetParamBoolValue L x3 p b), snd (MSServ_SetParamUlongValue L x3 p n), snd (MSServ_SetParamStringValue L x3 p s)} \<Longrightarrow>
    pc_step L MSServ_kind (MSServ_ops U) (ju_serv N) (pc_MSServ st, v) (pc_put (pc_MSServ st) (pc_set_entry l3 y3), v)"
  "l4 \<in> set (tb_List (pc_MSTrustedUser st)) \<Longrightarrow> x4 = ob_entry (lnk_hContext l4) \<Longrightarrow>
    y4 \<in> {snd (MSTrustedUser_SetParamBoolValue L x4 p b), snd (MSTrustedUser_SetParamUlongValue L x4 p n), snd (MSTrustedUser_SetParamStringValue L x4 p s)} \<Longrightarrow>
    pc_step L MSTrustedUser_kind (MSTrustedUser_ops U) (ju_stuser N) (pc_MSTrustedUser st, v) (pc_put (pc_MSTrustedUser st) (pc_set_entry l4 y4), v)"
  "l5 \<in> set (tb_List (pc_MDDev st)) \<Longrightarrow> x5 = ob_entry (lnk_hContext l5) \<Longrightarrow>
    y5 \<in> {snd (MDDev_SetParamBoolValue L x5 p b), snd (MDDev_SetParamUlongValue L x5 p n), snd (MDDev_SetParamStringValue L x5 p s)} \<Longrightarrow>
    pc_step L MDDev_kind (MDDev_ops U) (ju_dev N) (pc_MDDev st, v) (pc_put (pc_MDDev st) (pc_set_entry l5 y5), v)"
  by (rule pc_step.set_param, assumption, auto simp: kinds_ins setters_keep_number)+

end
