(* ===== verification/Pc_Product_Props.thy ===== *)
theory Pc_Product_Props
  imports Pc_Product_Steps
begin

text \<open>
  Every handler keeps every table of parental control consistent with Utopia's store: after a start, whatever is called.
\<close>

section \<open>A step of one table\<close>

lemma table_keeps:
  assumes U: "pc_utopia_ok U vs vc" and i: "product_inv U vs st"
  shows
    "pc_step L BlkURL_kind (BlkURL_ops U) J1 (pc_BlkUrl st, pc_env st) (t1, v) \<Longrightarrow> product_inv U vs (st\<lparr>pc_BlkUrl := t1, pc_env := v\<rparr>)"
    "pc_step L TrustedUser_kind (TrustedUser_ops U) J2 (pc_TrustedUser st, pc_env st) (t2, v) \<Longrightarrow> product_inv U vs (st\<lparr>pc_TrustedUser := t2, pc_env := v\<rparr>)"
    "pc_step L MSServ_kind (MSServ_ops U) J3 (pc_MSServ st, pc_env st) (t3, v) \<Longrightarrow> product_inv U vs (st\<lparr>pc_MSServ := t3, pc_env := v\<rparr>)"
    "pc_step L MSTrustedUser_kind (MSTrustedUser_ops U) J4 (pc_MSTrustedUser st, pc_env st) (t4, v) \<Longrightarrow> product_inv U vs (st\<lparr>pc_MSTrustedUser := t4, pc_env := v\<rparr>)"
    "pc_step L MDDev_kind (MDDev_ops U) J5 (pc_MDDev st, pc_env st) (t5, v) \<Longrightarrow> product_inv U vs (st\<lparr>pc_MDDev := t5, pc_env := v\<rparr>)"
proof -
  note O = utopia_over [OF U]
  show "product_inv U vs (st\<lparr>pc_BlkUrl := t1, pc_env := v\<rparr>)" if "pc_step L BlkURL_kind (BlkURL_ops U) J1 (pc_BlkUrl st, pc_env st) (t1, v)"
    using i tab_step [where h = "\<lambda>u. (us_tuser u, us_serv u, us_stuser u, us_dev u)", OF O(1) kinds_ok(1) kinds_ins(1) _ tables_apart(1) that [unfolded ops_copies]]
    by (auto simp: product_inv_def tables_nr elim: tab_inv_other)
  show "product_inv U vs (st\<lparr>pc_TrustedUser := t2, pc_env := v\<rparr>)" if "pc_step L TrustedUser_kind (TrustedUser_ops U) J2 (pc_TrustedUser st, pc_env st) (t2, v)"
    using i tab_step [where h = "\<lambda>u. (us_blk u, us_serv u, us_stuser u, us_dev u)", OF O(2) kinds_ok(2) kinds_ins(2) _ tables_apart(2) that [unfolded ops_copies]]
    by (auto simp: product_inv_def tables_nr elim: tab_inv_other)
  show "product_inv U vs (st\<lparr>pc_MSServ := t3, pc_env := v\<rparr>)" if "pc_step L MSServ_kind (MSServ_ops U) J3 (pc_MSServ st, pc_env st) (t3, v)"
    using i tab_step [where h = "\<lambda>u. (us_blk u, us_tuser u, us_stuser u, us_dev u)", OF O(3) kinds_ok(3) kinds_ins(3) _ tables_apart(3) that [unfolded ops_copies]]
    by (auto simp: product_inv_def tables_nr elim: tab_inv_other)
  show "product_inv U vs (st\<lparr>pc_MSTrustedUser := t4, pc_env := v\<rparr>)" if "pc_step L MSTrustedUser_kind (MSTrustedUser_ops U) J4 (pc_MSTrustedUser st, pc_env st) (t4, v)"
    using i tab_step [where h = "\<lambda>u. (us_blk u, us_tuser u, us_serv u, us_dev u)", OF O(4) kinds_ok(4) kinds_ins(4) _ tables_apart(4) that [unfolded ops_copies]]
    by (auto simp: product_inv_def tables_nr elim: tab_inv_other)
  show "product_inv U vs (st\<lparr>pc_MDDev := t5, pc_env := v\<rparr>)" if "pc_step L MDDev_kind (MDDev_ops U) J5 (pc_MDDev st, pc_env st) (t5, v)"
    using i tab_step [where h = "\<lambda>u. (us_blk u, us_tuser u, us_serv u, us_stuser u)", OF O(5) kinds_ok(5) kinds_ins(5) _ tables_apart(5) that [unfolded ops_copies]]
    by (auto simp: product_inv_def tables_nr elim: tab_inv_other)
qed

section \<open>A step of a switch or of the redirection\<close>

definition same_tables :: "('s \<Rightarrow> pc_ustore) \<Rightarrow> 's ut_board \<Rightarrow> 's ut_board \<Rightarrow> bool" where
  "same_tables vs b b' \<longleftrightarrow>
     us_blk (vs (ub_store b')) = us_blk (vs (ub_store b)) \<and> us_tuser (vs (ub_store b')) = us_tuser (vs (ub_store b)) \<and>
     us_serv (vs (ub_store b')) = us_serv (vs (ub_store b)) \<and> us_stuser (vs (ub_store b')) = us_stuser (vs (ub_store b)) \<and>
     us_dev (vs (ub_store b')) = us_dev (vs (ub_store b)) \<and>
     g_NrBlkURL b' = g_NrBlkURL b \<and> g_NrTrustedUser b' = g_NrTrustedUser b \<and> g_NrMSServs b' = g_NrMSServs b \<and>
     g_NrMSTrustedUsers b' = g_NrMSTrustedUsers b \<and> g_NrMDDevs b' = g_NrMDDevs b"

lemma same_tables_trans: "same_tables vs b b' \<Longrightarrow> same_tables vs b' b'' \<Longrightarrow> same_tables vs b b''"
  by (simp add: same_tables_def)

lemma same_tables_refl [simp]: "same_tables vs b b"
  by (simp add: same_tables_def)

lemma same_tables_keep:
  assumes "product_inv U vs st" "same_tables vs (en_board (pc_env st)) (en_board (pc_env st'))" "en_allocs (pc_env st') = en_allocs (pc_env st)"
    and "pc_BlkUrl st' = pc_BlkUrl st" "pc_TrustedUser st' = pc_TrustedUser st" "pc_MSServ st' = pc_MSServ st"
      "pc_MSTrustedUser st' = pc_MSTrustedUser st" "pc_MDDev st' = pc_MDDev st"
  shows "product_inv U vs st'"
  using assms by (auto simp: product_inv_def same_tables_def tables_nr elim: tab_inv_other)

lemma switches_apart:
  assumes U: "pc_utopia_ok U vs vc"
  shows "same_tables vs b (snd (CosaDmlMngSites_SetConf U x1 b))" "same_tables vs b (snd (CosaDmlMngServs_SetConf U x2 b))"
    "same_tables vs b (snd (CosaDmlMngDevs_SetConf U x3 b))"
    "snd (snd (CosaDmlMngSites_GetConf U x1 b)) = b" "snd (snd (CosaDmlMngServs_GetConf U x2 b)) = b" "snd (snd (CosaDmlMngDevs_GetConf U x3 b)) = b"
proof -
  obtain c where c: "pu_Init U (ub_store b) = Some c" "vc c = vs (ub_store b)" using U unfolding pc_utopia_ok_def by blast
  have s: "fst (pu_SetBlkURLCfg U c p)" "vc (snd (pu_SetBlkURLCfg U c p)) = (vc c)\<lparr>us_blk_on := (if p then 1 else 0)\<rparr>"
    "fst (pu_SetMngServsCfg U c p)" "vc (snd (pu_SetMngServsCfg U c p)) = (vc c)\<lparr>us_serv_on := (if p then 1 else 0)\<rparr>"
    "fst (pu_SetMngDevsCfg U c (i, j))" "vc (snd (pu_SetMngDevsCfg U c (i, j))) = (vc c)\<lparr>us_dev_on := (i, j)\<rparr>"
    "vs (pu_Commit U s0 c0) = vc c0" for p i j s0 c0
    using U by (simp_all add: pc_utopia_ok_def)
  note defs = CosaDmlMngSites_SetConf_def CosaDmlMngServs_SetConf_def CosaDmlMngDevs_SetConf_def
  show "same_tables vs b (snd (CosaDmlMngSites_SetConf U x1 b))" "same_tables vs b (snd (CosaDmlMngServs_SetConf U x2 b))"
    "same_tables vs b (snd (CosaDmlMngDevs_SetConf U x3 b))"
    by (simp_all add: defs c s same_tables_def commonSyseventSet_def split_beta)
  show "snd (snd (CosaDmlMngSites_GetConf U x1 b)) = b" "snd (snd (CosaDmlMngServs_GetConf U x2 b)) = b" "snd (snd (CosaDmlMngDevs_GetConf U x3 b)) = b"
    by (simp_all add: switches_read [OF U])
qed

lemma redirection_apart:
  assumes "red_apart C vs"
  shows "same_tables vs b (snd (CosaDmlMDRed_SetConf C e b))" "same_tables vs b (snd (snd (CosaDmlMDRed_GetConf C e b)))"
proof -
  obtain s b' where s: "CosaDmlMDRed_SetConf C e b = (s, b')" by force
  obtain r e' b2 where g: "CosaDmlMDRed_GetConf C e b = (r, e', b2)" by (metis prod_cases3)
  have "b' = b\<lparr>ub_store := ub_store b'\<rparr>" using s by (auto simp: CosaDmlMDRed_SetConf_def split: prod.split_asm)
  moreover have "b2 = b\<lparr>ub_store := ub_store b2\<rparr>" using g by (auto simp: CosaDmlMDRed_GetConf_def split: prod.split_asm)
  ultimately show "same_tables vs b (snd (CosaDmlMDRed_SetConf C e b))" "same_tables vs b (snd (snd (CosaDmlMDRed_GetConf C e b)))"
    using SetConf_apart [OF assms s] redirect_apart [OF assms g] s g
    by (simp_all add: same_tables_def) (metis ut_board.simps ut_board.select_convs ut_board.surjective)+
qed

section \<open>Every step\<close>

text \<open>The functions of the product's board layer.\<close>

lemma product_boards_simps [simp]:
  "bs_MngSites_GetConf (product_boards U C) = CosaDmlMngSites_GetConf U" "bs_MngSites_SetConf (product_boards U C) = CosaDmlMngSites_SetConf U"
  "bs_MngServs_GetConf (product_boards U C) = CosaDmlMngServs_GetConf U" "bs_MngServs_SetConf (product_boards U C) = CosaDmlMngServs_SetConf U"
  "bs_MngDevs_GetConf (product_boards U C) = CosaDmlMngDevs_GetConf U" "bs_MngDevs_SetConf (product_boards U C) = CosaDmlMngDevs_SetConf U"
  "bs_MDRed_GetConf (product_boards U C) = CosaDmlMDRed_GetConf C" "bs_MDRed_SetConf (product_boards U C) = CosaDmlMDRed_SetConf C"
  by (simp_all add: product_boards_def)

text \<open>A step that leaves the lists of the middle layer and the rows of the store.\<close>

definition quiet :: "('s \<Rightarrow> pc_ustore) \<Rightarrow> ('s ut_board, 'r) pc_state \<Rightarrow> ('s ut_board, 'r) pc_state \<Rightarrow> bool" where
  "quiet vs st st' \<longleftrightarrow> same_tables vs (en_board (pc_env st)) (en_board (pc_env st')) \<and> en_allocs (pc_env st') = en_allocs (pc_env st) \<and>
     pc_BlkUrl st' = pc_BlkUrl st \<and> pc_TrustedUser st' = pc_TrustedUser st \<and> pc_MSServ st' = pc_MSServ st \<and>
     pc_MSTrustedUser st' = pc_MSTrustedUser st \<and> pc_MDDev st' = pc_MDDev st"

lemma quiet_keeps: "product_inv U vs st \<Longrightarrow> quiet vs st st' \<Longrightarrow> product_inv U vs st'"
  by (rule same_tables_keep) (simp_all add: quiet_def)

lemma switch_steps_quiet:
  assumes U: "pc_utopia_ok U vs vc"
  shows "MngSites_SetParamBoolValue L st p x = (ok, st') \<Longrightarrow> quiet vs st st'" "MngServs_SetParamBoolValue L st p x = (ok, st') \<Longrightarrow> quiet vs st st'"
    "MngDevs_SetParamBoolValue L st p x = (ok, st') \<Longrightarrow> quiet vs st st'"
    "MngSites_Rollback (product_boards U C) st = (r, st') \<Longrightarrow> quiet vs st st'" "MngServs_Rollback (product_boards U C) st = (r, st') \<Longrightarrow> quiet vs st st'"
    "MngDevs_Rollback (product_boards U C) st = (r, st') \<Longrightarrow> quiet vs st st'"
    "MngSites_Commit (product_boards U C) st = (r, st') \<Longrightarrow> quiet vs st st'" "MngServs_Commit (product_boards U C) st = (r, st') \<Longrightarrow> quiet vs st st'"
    "MngDevs_Commit (product_boards U C) st = (r, st') \<Longrightarrow> quiet vs st st'"
proof -
  note s = switches_apart(1-3) [OF U, of "en_board (pc_env st)"]
  note g = switches_read [OF U]
  show "MngSites_SetParamBoolValue L st p x = (ok, st') \<Longrightarrow> quiet vs st st'" "MngServs_SetParamBoolValue L st p x = (ok, st') \<Longrightarrow> quiet vs st st'"
    "MngDevs_SetParamBoolValue L st p x = (ok, st') \<Longrightarrow> quiet vs st st'"
    by (auto simp: MngSites_SetParamBoolValue_def MngServs_SetParamBoolValue_def MngDevs_SetParamBoolValue_def quiet_def split: if_split_asm)
  show "MngSites_Rollback (product_boards U C) st = (r, st') \<Longrightarrow> quiet vs st st'" "MngServs_Rollback (product_boards U C) st = (r, st') \<Longrightarrow> quiet vs st st'"
    "MngDevs_Rollback (product_boards U C) st = (r, st') \<Longrightarrow> quiet vs st st'"
    by (auto simp: MngSites_Rollback_def MngServs_Rollback_def MngDevs_Rollback_def g quiet_def)
  show "MngSites_Commit (product_boards U C) st = (r, st') \<Longrightarrow> quiet vs st st'"
    using s(1) [of "pc_ManagedSites st"] by (auto simp: MngSites_Commit_def g quiet_def split: prod.split_asm if_split_asm)
  show "MngServs_Commit (product_boards U C) st = (r, st') \<Longrightarrow> quiet vs st st'"
    using s(2) [of "pc_ManagedServs st"] by (auto simp: MngServs_Commit_def g quiet_def split: prod.split_asm if_split_asm)
  show "MngDevs_Commit (product_boards U C) st = (r, st') \<Longrightarrow> quiet vs st st'"
    using s(3) [of "pc_ManagedDevs st"] by (auto simp: MngDevs_Commit_def g quiet_def split: prod.split_asm if_split_asm)
qed

lemma red_steps_quiet:
  assumes C: "red_apart C vs"
  shows "MDRed_SetParamStringValue L pton6 st p s = (ok, st') \<Longrightarrow> quiet vs st st'" "MDRed_Commit (product_boards U C) st = (r, st') \<Longrightarrow> quiet vs st st'"
    "MDRed_Rollback (product_boards U C) st = (r, st') \<Longrightarrow> quiet vs st st'"
proof -
  show "MDRed_SetParamStringValue L pton6 st p s = (ok, st') \<Longrightarrow> quiet vs st st'"
    by (auto simp: MDRed_SetParamStringValue_def Let_def quiet_def split: if_split_asm prod.split_asm)
  show "MDRed_Commit (product_boards U C) st = (r, st') \<Longrightarrow> quiet vs st st'"
    using redirection_apart(1) [OF C, of "en_board (pc_env st)" "pc_MDRedirect st"]
    by (auto simp: MDRed_Commit_def CosaDmlMDRed_SetConf_def quiet_def split: prod.split_asm)
  show "MDRed_Rollback (product_boards U C) st = (r, st') \<Longrightarrow> quiet vs st st'"
    using redirection_apart(2) [OF C, of "en_board (pc_env st)" "pc_MDRedirect st"]
    by (auto simp: MDRed_Rollback_def quiet_def split: prod.split_asm)
qed

lemma product_step_keeps:
  assumes U: "pc_utopia_ok U vs vc" and C: "red_apart C vs"
  shows "product_step L U C N pton6 st st' \<Longrightarrow> product_inv U vs st \<Longrightarrow> product_inv U vs st'"
proof (induction rule: product_step.induct)
  case blk_add
  then show ?case using add_steps(1) table_keeps(1) [OF U] by metis
next
  case blk_del
  then show ?case using del_steps(1) table_keeps(1) [OF U] by metis
next
  case blk_commit
  then show ?case using commit_steps(1) table_keeps(1) [OF U] by metis
next
  case blk_rollback
  then show ?case using rollback_steps(1) table_keeps(1) [OF U] by metis
next
  case (blk_set l st x e)
  have "product_inv U vs (st\<lparr>pc_BlkUrl := pc_put (pc_BlkUrl st) (pc_set_entry l e), pc_env := pc_env st\<rparr>)"
    by (rule table_keeps(1) [OF U blk_set(4) set_steps(1) [OF blk_set(1-3)]])
  then show ?case by simp
next
  case tuser_add
  then show ?case using add_steps(2) table_keeps(2) [OF U] by metis
next
  case tuser_del
  then show ?case using del_steps(2) table_keeps(2) [OF U] by metis
next
  case tuser_commit
  then show ?case using commit_steps(2) table_keeps(2) [OF U] by metis
next
  case tuser_rollback
  then show ?case using rollback_steps(2) table_keeps(2) [OF U] by metis
next
  case (tuser_set l st x e)
  have "product_inv U vs (st\<lparr>pc_TrustedUser := pc_put (pc_TrustedUser st) (pc_set_entry l e), pc_env := pc_env st\<rparr>)"
    by (rule table_keeps(2) [OF U tuser_set(4) set_steps(2) [OF tuser_set(1-3)]])
  then show ?case by simp
next
  case serv_add
  then show ?case using add_steps(3) table_keeps(3) [OF U] by metis
next
  case serv_del
  then show ?case using del_steps(3) table_keeps(3) [OF U] by metis
next
  case serv_commit
  then show ?case using commit_steps(3) table_keeps(3) [OF U] by metis
next
  case serv_rollback
  then show ?case using rollback_steps(3) table_keeps(3) [OF U] by metis
next
  case (serv_set l st x e)
  have "product_inv U vs (st\<lparr>pc_MSServ := pc_put (pc_MSServ st) (pc_set_entry l e), pc_env := pc_env st\<rparr>)"
    by (rule table_keeps(3) [OF U serv_set(4) set_steps(3) [OF serv_set(1-3)]])
  then show ?case by simp
next
  case stuser_add
  then show ?case using add_steps(4) table_keeps(4) [OF U] by metis
next
  case stuser_del
  then show ?case using del_steps(4) table_keeps(4) [OF U] by metis
next
  case stuser_commit
  then show ?case using commit_steps(4) table_keeps(4) [OF U] by metis
next
  case stuser_rollback
  then show ?case using rollback_steps(4) table_keeps(4) [OF U] by metis
next
  case (stuser_set l st x e)
  have "product_inv U vs (st\<lparr>pc_MSTrustedUser := pc_put (pc_MSTrustedUser st) (pc_set_entry l e), pc_env := pc_env st\<rparr>)"
    by (rule table_keeps(4) [OF U stuser_set(4) set_steps(4) [OF stuser_set(1-3)]])
  then show ?case by simp
next
  case dev_add
  then show ?case using add_steps(5) table_keeps(5) [OF U] by metis
next
  case dev_del
  then show ?case using del_steps(5) table_keeps(5) [OF U] by metis
next
  case dev_commit
  then show ?case using commit_steps(5) table_keeps(5) [OF U] by metis
next
  case dev_rollback
  then show ?case using rollback_steps(5) table_keeps(5) [OF U] by metis
next
  case (dev_set l st x e)
  have "product_inv U vs (st\<lparr>pc_MDDev := pc_put (pc_MDDev st) (pc_set_entry l e), pc_env := pc_env st\<rparr>)"
    by (rule table_keeps(5) [OF U dev_set(4) set_steps(5) [OF dev_set(1-3)]])
  then show ?case by simp
next
  case sites_set
  show ?case by (rule quiet_keeps [OF sites_set(2) switch_steps_quiet(1) [OF U sites_set(1)]])
next
  case sites_commit
  show ?case by (rule quiet_keeps [OF sites_commit(2) switch_steps_quiet(7) [OF U sites_commit(1)]])
next
  case sites_rollback
  show ?case by (rule quiet_keeps [OF sites_rollback(2) switch_steps_quiet(4) [OF U sites_rollback(1)]])
next
  case servs_set
  show ?case by (rule quiet_keeps [OF servs_set(2) switch_steps_quiet(2) [OF U servs_set(1)]])
next
  case servs_commit
  show ?case by (rule quiet_keeps [OF servs_commit(2) switch_steps_quiet(8) [OF U servs_commit(1)]])
next
  case servs_rollback
  show ?case by (rule quiet_keeps [OF servs_rollback(2) switch_steps_quiet(5) [OF U servs_rollback(1)]])
next
  case devs_set
  show ?case by (rule quiet_keeps [OF devs_set(2) switch_steps_quiet(3) [OF U devs_set(1)]])
next
  case devs_commit
  show ?case by (rule quiet_keeps [OF devs_commit(2) switch_steps_quiet(9) [OF U devs_commit(1)]])
next
  case devs_rollback
  show ?case by (rule quiet_keeps [OF devs_rollback(2) switch_steps_quiet(6) [OF U devs_rollback(1)]])
next
  case red_set
  show ?case by (rule quiet_keeps [OF red_set(2) red_steps_quiet(1) [OF C red_set(1)]])
next
  case red_commit
  show ?case by (rule quiet_keeps [OF red_commit(2) red_steps_quiet(2) [OF C red_commit(1)]])
next
  case red_rollback
  show ?case by (rule quiet_keeps [OF red_rollback(2) red_steps_quiet(3) [OF C red_rollback(1)]])
qed

lemma product_run_keeps:
  assumes U: "pc_utopia_ok U vs vc" and C: "red_apart C vs" and run: "(product_step L U C N pton6)\<^sup>*\<^sup>* st st'"
  shows "product_inv U vs st \<Longrightarrow> product_inv U vs st'"
  using run by (induction rule: rtranclp_induct) (auto intro: product_step_keeps [OF U C])

section \<open>The object as a whole\<close>



end
