(* ===== verification/Spec2Isabelle.thy ===== *)
theory Spec2Isabelle
  imports Nat_PortMapping_Params Nat_Registry Nat_PortTrigger_Props Nat_Objects Pf_WebConfig_Start Dmz_WebConfig_Props Nat_Init
    Dhcp_WebConfig_Lan Wc_Messages Dhcp_Saddr_Blob Dhcp_Saddr_Types Pc_Product_Props
begin

text \<open>
  A verification library for CcspPandM, the TR-181 data model server of an RDK-B gateway: the NAT part of it
  (\<open>Device.NAT.\<close>) from the data model handlers down to the rule store, parental control
  (\<open>Device.X_Comcast_com_ParentalControl.\<close>) from its handlers down to Utopia, the static addresses of the DHCPv4 server, the
  web configuration of port forwarding, of the DMZ, of the static DHCP clients and of the LAN, and the list, IPv4 and
  document utilities they use.

  \<^bold>\<open>How the program is put together.\<close> The message bus calls the handlers of
  \<open>src/source/TR-181/middle_layer_src/cosa_nat_dml.c\<close> (and \<open>cosa_nat_dml_custom.c\<close>). They work on the tables and
  objects of the NAT backend manager (\<open>cosa_nat_internal.c\<close>), which keeps an instance-numbered list of port mappings
  and one of port triggers (\<open>cosa_apis_util.c\<close>) and saves uncommitted entries in a registry. Committing a table or
  object calls the board layer \<open>src/source-arm/TR-181/board_sbapi/cosa_nat_apis.c\<close>, which reads and writes the rules
  through Utopia. The table of static addresses follows the same pattern with \<open>cosa_dhcpv4_dml.c\<close> and
  \<open>cosa_dhcpv4_apis.c\<close>. A second way in is web configuration: a message is written to a \<open>Data\<close> parameter, decoded
  (\<open>helpers.c\<close>, \<open>portmappingdoc.c\<close>, \<open>dmz_wan_doc.c\<close>, \<open>macbinding_webconfig_param.c\<close>, \<open>lan_webconfig_param.c\<close>) and
  executed by a transaction over the syscfg database (\<open>cosa_webconfig_api.c\<close>, \<open>cosa_nat_webconfig_apis.c\<close>,
  \<open>cosa_dhcpv4_webconfig_apis.c\<close>) that the framework may roll back. A blob of static clients marks the table of static
  addresses out of date; the next access reads it again, and the check of an entry reads the clients from syscfg. Parental
  control has the same two layers: \<open>cosa_x_comcast_com_parentalcontrol_dml.c\<close> and \<open>_internal.c\<close> keep five tables (blocked
  sites, their trusted users, blocked services, their trusted users, managed devices), three switch objects and the redirection
  addresses; \<open>board_sbapi/cosa_x_comcast_com_parentalcontrol_apis.c\<close> has two board layers under them, arrays in memory for
  the simulation build and Utopia for the product.

  \<^bold>\<open>Configuration.\<close> The board is the one of \<open>source-arm\<close> (\<open>_COSA_INTEL_USG_ARM_\<close>), little endian, with a 32-bit
  \<open>ULONG\<close>; \<open>MULTILAN_FEATURE\<close>, \<open>_BWG_\<close>, \<open>_HUB4_\<close>, \<open>_DT_WAN_Manager_\<close>, \<open>CONFIG_CISCO_HOME_SECURITY\<close>, \<open>FEATURE_MAPT\<close>
  and \<open>WEBCFG_TEST_SIM\<close> are off, and so are \<open>UTC_ENABLE\<close>, \<open>CONFIG_CISCO_FEATURE_CISCOCONNECT\<close> and
  \<open>CONFIG_CISCO_PARCON_WALLED_GARDEN\<close> in parental control.

  \<^bold>\<open>Theories.\<close>
  \<^item> \<open>Pam_Prelude\<close>: C strings and numbers as the code uses them (\<open>strcpy_s\<close>, \<open>snprintf\<close>, \<open>atoi\<close>, decimal printing).
  \<^item> \<open>Cosa_SList\<close>: \<open>CosaSListPushEntryByInsNum\<close> and \<open>CosaSListGetEntryByInsNum\<close> as a sorted list of links with
    addresses; the locale of the instance-numbered table, with its interpretations on the two tables.
  \<^item> \<open>Cosa_Ipv4\<close>: netmasks, address classes, \<open>CosaDmlGetIpaddrString\<close>/\<open>CosaDmlSetIpaddr\<close>. The loops over bits end by
    the measure \<open>unat\<close> of the mask.
  \<^item> \<open>Cosa_PathName\<close>: \<open>CosaUtilGetFullPathNameByKeyword\<close> over the bus library.
  \<^item> \<open>Nat_Types\<close>: the structures and constants of \<open>cosa_nat_apis.h\<close>. \<open>Nat_Lib\<close>: the libraries, and the state
    \<open>nat_state\<close> (both tables, the NAT and DMZ objects, counters, switches, store, registry, allocations).
  \<^item> \<open>Rule_Backend\<close>: the contract of a rule store (lookup after add, change and delete) as a locale.
  \<^item> \<open>Nat_Backend_PM\<close>, \<open>Nat_Backend_PT\<close>, \<open>Nat_Switches\<close>: the board layer: rules, triggers, switches, DMZ, LAN address.
  \<^item> \<open>Nat_Registry\<close>: saving and loading uncommitted entries; \<open>Nat_Registry_Props\<close>: loading what was saved.
    \<open>Nat_Init\<close>: the start of the NAT object, and a restart. \<open>Nat_Numbers\<close>: the generators of instance numbers.
  \<^item> \<open>Nat_PortMapping\<close>: the handlers of the port mapping table; \<open>_Table\<close>, \<open>_Steps\<close>, \<open>_Props\<close>, \<open>_Commit\<close> and \<open>_Params\<close>
    hold its refresh, its step relation and invariant, the refinement of the store, commits and parameters.
  \<^item> \<open>Nat_PortTrigger\<close> with \<open>_Table\<close>, \<open>_Steps\<close>, \<open>_Props\<close>: the same for the port trigger table.
  \<^item> \<open>Nat_Objects\<close>: the handlers of \<open>Device.NAT\<close> and of its DMZ object.
  \<^item> \<open>Pf_WebConfig\<close> with \<open>_Table\<close>, \<open>_Keys\<close>, \<open>_Steps\<close>, \<open>_Props\<close>, \<open>_Start\<close>: the port forwarding blob: reader, cells,
    transaction, rollback, start, versions.
  \<^item> \<open>Dmz_WebConfig\<close> with \<open>_Props\<close>: the string parameters of the DMZ object and the DMZ blob.
  \<^item> \<open>Wc_Helpers\<close>: msgpack objects, \<open>__finder\<close>, \<open>helper_convert\<close>, the decoders. \<open>Wc_Messages\<close>: what a message that is
    written to a \<open>Data\<close> parameter hands on, for the four documents.
  \<^item> \<open>Dhcp_WebConfig\<close>: the readers and checks of the static clients and of the LAN document; \<open>Dhcp_WebConfig_Run\<close>: backup,
    cells, transactions and rollbacks; \<open>_Keys\<close>, \<open>_Steps\<close>: the keys and the steps of a transaction; \<open>_Props\<close>, \<open>_Lan\<close>: the
    properties of the two blobs.
  \<^item> \<open>Dhcp_Saddr\<close>: the static address table, its board layer, load and refresh; \<open>Dhcp_Saddr_Table\<close>: its invariant and the
    load loops; \<open>_Props\<close>: its step relation, hardware addresses in text; \<open>_Blob\<close>: commits, the check against the clients of a
    blob, the refresh, roll backs; \<open>_Types\<close>: entries fit the arrays of their structure.
  \<^item> \<open>Pc_Types\<close>: the structures of parental control. \<open>Pc_Text\<close> with \<open>_Props\<close>: its checks of times, week days, web and
    hardware addresses, and exactly what they accept.
  \<^item> \<open>Pc_Registry\<close>: what the tables write to the registry (\<open>_Props\<close>: what is read back). \<open>Pc_Board\<close>: the contract of a board
    layer as a locale, interpreted by the two board layers. \<open>Pc_Tables\<close>, \<open>Pc_Handlers\<close>: the handlers of the tables as
    functions of the table's kind (the source has them five times) and their five instances, the switches, the start.
    \<open>Pc_Params\<close>: the parameters of the rows.
  \<^item> \<open>Pc_Sim\<close>: the board layer of the simulation build. \<open>Pc_Utopia\<close>: the one of the product; \<open>_Props\<close> proves its contract,
    \<open>_Tables\<close> what a stored row is and what a change does to the firewall.
  \<^item> \<open>Pc_Table_Props\<close>, \<open>Pc_Start\<close>, \<open>Pc_Props\<close>, \<open>Pc_Restart\<close>, \<open>Pc_Param_Props\<close>: the invariant and the steps of a table over any
    board layer, loading, restarts, parameters.
  \<^item> \<open>Pc_Redirect\<close> with \<open>_Props\<close>: the redirection addresses and the object of parental control.
  \<^item> \<open>Pc_Utopia_Start\<close>, \<open>Pc_Product\<close>, \<open>Pc_Product_Steps\<close>, \<open>Pc_Product_Props\<close>: parental control as a whole over Utopia: its start,
    that a table leaves the others alone, its handlers as a step relation, and \<open>product_inv\<close>, the invariant of all five tables.

  \<^bold>\<open>How state and operations correspond.\<close> A C structure is a record with the fields of the source. An operation takes
  the libraries and \<open>nat_state\<close> and returns its status and the new state, one definition per function, with the branches
  and early returns of the code. A handle is the link that the table holds; lists are HOL lists of links in list
  order. An allocation may fail, and returns the next address; memory that the code does not initialise holds an
  arbitrary value (\<open>lib_junk_...\<close>). A null dereference or a write beyond an array is the result \<open>None\<close> of the
  operation that does it.

  \<^bold>\<open>What is not code of the repository\<close> is a parameter: the record \<open>libs\<close> (Utopia, the registry, the allocator,
  the bounded copy, \<open>inet_addr\<close>, \<open>inet_pton\<close>, bus calls), \<open>dhcp_libs\<close> (Utopia's static addresses, the neighbour
  table), \<open>syscfg\<close>, and \<open>codec\<close> (base64 and the msgpack reader), \<open>pc_libs\<close> and \<open>pc_utopia\<close> (the checks of the message bus library, the registry and
  Utopia's functions for parental control), \<open>red_sys\<close> (syscfg under the redirection addresses). What the theorems rely on
  are named hypotheses: \<open>utopia_ok\<close> (what a store operation does to the view of the store), \<open>irep_ok\<close> (folders of the
  registry), \<open>noclobber_ok\<close> (the copy keeps its target when the source does not fit), \<open>syscfg_ok\<close> (what an operation
  does to the keys), \<open>stored_saddrs\<close> (the static addresses Utopia has), \<open>carries\<close> (a text decodes to a message), \<open>pc_reg_ok\<close>, \<open>pc_utopia_ok\<close> and \<open>red_sys_ok\<close> (the same for parental control), \<open>red_apart\<close> (a
  redirection address is not a row of a table), \<open>store_numbered\<close> (stored rows have distinct numbers, none 0). Each has an instance in memory (\<open>mem_libs\<close>, \<open>mem_syscfg\<close>, \<open>ex_pc\<close>, \<open>mem_product\<close>, \<open>mem_red\<close>), on which the witnesses run.

  \<^bold>\<open>Termination.\<close> All handlers are total functions except the generators of instance numbers, which search for a free
  number and may not end: they are \<open>partial_function (option)\<close>, and \<open>number_search_ends\<close> shows when they do. The static
  addresses and the tables of parental control take the next number of a counter without a search; it may wrap around, and the
  invariant of the table holds as long as it has not.

  \<^bold>\<open>What the lemmas show.\<close> Table invariants (sorted by distinct numbers, links that own their memory, agreement of link
  and entry) over all reachable states of a step relation with outside changes of the store; refinement: after a
  refresh the table shows the store; round trips through the board layer and the registry; every branch of a commit,
  with the errors that lose a rule; what a validated entry satisfies; that switches restore what they turned off; that
  a blob stores its document, keeps cache and database equal and is restored by its rollback, and where it is not; that a
  message hands on its document; for parental control, that both board layers keep one contract, that the product stays
  consistent with its store under every sequence of handler calls, what a restart brings back, and which texts are
  accepted; and, across components, what the check, the refresh and the deletion of a static address
  do after a blob.

  \<^bold>\<open>Not modelled.\<close> \<open>NAT_Rollback\<close> (it writes a DMZ structure over a smaller one); dynamic
  port mappings and the MAP-T and DHCP-range variants of the board layer; allocating and freeing the NAT object
  (\<open>CosaNatCreate\<close>, \<open>CosaNatRemove\<close>) and freeing the object of parental control
  (\<open>CosaParentalControlRemove\<close>); the registry of the DHCPv4 object; the other DHCPv4 tables; the mutexes between
  a blob and the static address table, whose only effect here is that a table operation may find them taken; base64, msgpack
  and the message bus; the other subsystems of the server (DHCPv6, IP, routing, firewall, bridging, device information, ...),
  which only read or write their own tables. The databases of \<open>nat_state\<close>, of the static addresses, of parental
  control and of the blobs are all syscfg in the program; they are separate states here, and a property that spans two of them
  says by a hypothesis that one reads what the other wrote.
\<close>

end
